(* ===== verification/Prelude.thy ===== *)
theory Prelude
  imports Main "HOL-Library.Word" "HOL-Library.Monad_Syntax"
begin

text \<open>
  What the components of the core network share: the C integer types, bytes in memory, the
  accesses a C program makes to its arrays, and the big-endian conversions that almost every
  source file repeats.

  A C array, a heap block or the part of an array that starts at a pointer is a list of bytes.
  An access is a function into \<open>option\<close>: \<open>None\<close> says that the program reads or writes outside the
  array, which C leaves undefined.  So a theorem of the form \<open>f x = Some y\<close> shows that the code
  returns \<open>y\<close> \<^emph>\<open>and\<close> that it stays inside its buffers on the way.
\<close>

unbundle bit_operations_syntax

named_theorems mem_simps \<open>rules that compute reads and writes of byte buffers\<close>
named_theorems layout_simps \<open>offsets and sizes of the C structures\<close>

type_synonym byte = "8 word"
type_synonym u16 = "16 word"
type_synonym u32 = "32 word"
type_synonym u64 = "64 word"
type_synonym buf = "byte list"

text \<open>The return codes \<open>OK\<close> (0) and \<open>ERROR\<close> (-1) that all C components define.\<close>

datatype status = OK | ERROR

text \<open>What every step of a fold keeps holds at its end.\<close>

lemma foldl_invariant: "(\<And>s x. P s \<Longrightarrow> P (f s x)) \<Longrightarrow> P s \<Longrightarrow> P (foldl f s xs)"
  by (induction xs arbitrary: s) simp_all

lemma list4: "length xs = 4 \<Longrightarrow> \<exists>a b c d. xs = [a, b, c, d]"
  by (auto simp: numeral_eq_Suc length_Suc_conv)

lemma unat_byte: "unat (b :: byte) < 256"
proof -
  have "unat b < 2 ^ 8" using unsigned_less [of b] by simp
  then show ?thesis by simp
qed

text \<open>The characters of a string literal.\<close>

definition str :: "string \<Rightarrow> byte list" where
  "str s = map of_char s"

lemma length_str [simp]: "length (str s) = length s"
  by (simp add: str_def)

section \<open>Accesses to byte buffers\<close>

text \<open>\<open>b[i]\<close>, \<open>b[i] = v\<close>, \<open>memcpy(b + i, src, n)\<close>, \<open>memset(b + i, v, n)\<close> and the \<open>n\<close> bytes at
  \<open>b + i\<close> that a \<open>memcpy\<close> from there reads.\<close>

definition rd :: "buf \<Rightarrow> nat \<Rightarrow> byte option" where
  "rd b i = (if i < length b then Some (b ! i) else None)"

definition wr :: "buf \<Rightarrow> nat \<Rightarrow> byte \<Rightarrow> buf option" where
  "wr b i v = (if i < length b then Some (b[i := v]) else None)"

definition rdn :: "buf \<Rightarrow> nat \<Rightarrow> nat \<Rightarrow> byte list option" where
  "rdn b i n = (if i + n \<le> length b then Some (take n (drop i b)) else None)"

definition wrn :: "buf \<Rightarrow> nat \<Rightarrow> byte list \<Rightarrow> buf option" where
  "wrn b i v = (if i + length v \<le> length b
                then Some (take i b @ v @ drop (i + length v) b) else None)"

definition memcpy :: "buf \<Rightarrow> nat \<Rightarrow> byte list \<Rightarrow> nat \<Rightarrow> buf option" where
  "memcpy b i src n = do { v \<leftarrow> rdn src 0 n; wrn b i v }"

definition memset :: "buf \<Rightarrow> nat \<Rightarrow> byte \<Rightarrow> nat \<Rightarrow> buf option" where
  "memset b i v n = wrn b i (replicate n v)"

lemma rd_Some [mem_simps]: "i < length b \<Longrightarrow> rd b i = Some (b ! i)"
  by (simp add: rd_def)

lemma rd_SomeD: "rd b i = Some v \<Longrightarrow> i < length b \<and> v = b ! i"
  by (simp add: rd_def split: if_splits)

lemma rd_append [mem_simps]: "rd (xs @ ys) i = (if i < length xs then rd xs i else rd ys (i - length xs))"
  by (auto simp: rd_def nth_append)

lemma rd_Cons [mem_simps]: "rd (x # xs) i = (if i = 0 then Some x else rd xs (i - 1))"
  by (cases i) (auto simp: rd_def)

lemma rd_Nil [mem_simps]: "rd [] i = None"
  by (simp add: rd_def)

lemma rdn_SomeD: "rdn b i n = Some v \<Longrightarrow> i + n \<le> length b \<and> v = take n (drop i b) \<and> length v = n"
  by (auto simp: rdn_def split: if_splits)

lemma rdn_ok [mem_simps]: "i + n \<le> length b \<Longrightarrow> rdn b i n = Some (take n (drop i b))"
  by (simp add: rdn_def)

lemma rdn_append [mem_simps]:
  "length xs \<le> i \<Longrightarrow> rdn (xs @ ys) i n = rdn ys (i - length xs) n"
  by (auto simp: rdn_def)

lemma rdn_add:
  assumes "rdn b i m = Some x" and "rdn b (i + m) n = Some y"
  shows "rdn b i (m + n) = Some (x @ y)"
  using assms add.commute [of i m] by (auto simp: rdn_def take_add split: if_splits)

lemma wr_length: "wr b i v = Some b' \<Longrightarrow> length b' = length b"
  by (auto simp: wr_def split: if_splits)

lemma wr_ok [mem_simps]: "i < length b \<Longrightarrow> wr b i v = Some (b[i := v])"
  by (simp add: wr_def)

lemma wrn_length: "wrn b i v = Some b' \<Longrightarrow> length b' = length b"
  by (auto simp: wrn_def split: if_splits)

lemma wrn_ok [mem_simps]:
  "i + length v \<le> length b \<Longrightarrow> wrn b i v = Some (take i b @ v @ drop (i + length v) b)"
  by (simp add: wrn_def)

lemma memcpy_ok [mem_simps]:
  "i + n \<le> length b \<Longrightarrow> n \<le> length src \<Longrightarrow>
   memcpy b i src n = Some (take i b @ take n src @ drop (i + n) b)"
  by (simp add: memcpy_def rdn_def wrn_def)

lemma memcpy_length: "memcpy b i src n = Some b' \<Longrightarrow> length b' = length b"
  by (auto simp: memcpy_def wrn_def rdn_def split: if_splits)

lemma memset_ok [mem_simps]:
  "i + n \<le> length b \<Longrightarrow> memset b i v n = Some (take i b @ replicate n v @ drop (i + n) b)"
  by (simp add: memset_def wrn_def)

lemma memset_length: "memset b i v n = Some b' \<Longrightarrow> length b' = length b"
  by (auto simp: memset_def dest: wrn_length)

text \<open>A write of \<open>v\<close> at \<open>i\<close> is read back at \<open>i\<close> and changes no byte outside its range.\<close>

lemma wrn_read_back: "wrn b i v = Some b' \<Longrightarrow> rdn b' i (length v) = Some v"
  by (auto simp: wrn_def rdn_def split: if_splits)

lemma wrn_frame:
  assumes w: "wrn b i v = Some b'" and d: "j + n \<le> i \<or> i + length v \<le> j"
  shows "rdn b' j n = rdn b j n"
proof -
  from w have l: "i + length v \<le> length b" and b': "b' = take i b @ v @ drop (i + length v) b"
    by (auto simp: wrn_def split: if_splits)
  from d have "take n (drop j b') = take n (drop j b)"
  proof
    assume "j + n \<le> i"
    with l show ?thesis by (simp add: b' drop_take)
  next
    assume "i + length v \<le> j"
    with l show ?thesis by (simp add: b')
  qed
  moreover have "length b' = length b" using w by (rule wrn_length)
  ultimately show ?thesis by (simp add: rdn_def)
qed

section \<open>32-bit values as four big-endian bytes\<close>

text \<open>
  \<open>UINT32_TO_ARRAY\<close> and \<open>ARRAY_TO_UINT32\<close> of corekube-db/source/user.c; the same shifts are
  written out in enb.c, in the front end (\<open>int_to_array\<close>, \<open>array_to_int\<close>) and in the multiplexer
  (\<open>get_ue_teid\<close>).
\<close>

definition UINT32_TO_ARRAY :: "u32 \<Rightarrow> byte list" where
  "UINT32_TO_ARRAY w =
     [ucast (drop_bit 24 w AND 0xFF), ucast (drop_bit 16 w AND 0xFF),
      ucast (drop_bit 8 w AND 0xFF), ucast (w AND 0xFF)]"

definition be32 :: "byte \<Rightarrow> byte \<Rightarrow> byte \<Rightarrow> byte \<Rightarrow> u32" where
  "be32 b0 b1 b2 b3 =
     push_bit 24 (ucast b0) OR push_bit 16 (ucast b1) OR push_bit 8 (ucast b2) OR ucast b3"

definition ARRAY_TO_UINT32 :: "buf \<Rightarrow> nat \<Rightarrow> u32 option" where
  "ARRAY_TO_UINT32 b i = do {
     b0 \<leftarrow> rd b i; b1 \<leftarrow> rd b (i + 1); b2 \<leftarrow> rd b (i + 2); b3 \<leftarrow> rd b (i + 3);
     Some (be32 b0 b1 b2 b3) }"

lemma length_UINT32_TO_ARRAY [simp]: "length (UINT32_TO_ARRAY w) = 4"
  by (simp add: UINT32_TO_ARRAY_def)

lemma ucast_and_255 [simp]: "ucast ((w :: u32) AND 0xFF) = (ucast w :: byte)"
proof -
  have m: "(0xFF :: u32) = mask 8" by (simp add: mask_eq_exp_minus_1)
  show ?thesis unfolding m by (rule bit_word_eqI) (auto simp: bit_simps)
qed

lemma not_bit_byte_high [simp]:
  "\<not> bit (b :: byte) (8 + n)" "\<not> bit (b :: byte) (16 + n)" "\<not> bit (b :: byte) (24 + n)"
  by (auto dest: bit_imp_le_length)

lemma be32_bytes:
  "be32 (ucast (drop_bit 24 w)) (ucast (drop_bit 16 w)) (ucast (drop_bit 8 w)) (ucast w) = w"
  unfolding be32_def
  apply (rule bit_word_eqI)
  subgoal for n
    by (cases "n < 8"; cases "n < 16"; cases "n < 24") (auto simp: bit_simps)
  done

lemma bytes_be32: "UINT32_TO_ARRAY (be32 b0 b1 b2 b3) = [b0, b1, b2, b3]"
  unfolding be32_def UINT32_TO_ARRAY_def
  by (auto intro!: bit_word_eqI simp: bit_simps)

text \<open>The two macros are inverse to each other.\<close>

lemma ARRAY_TO_UINT32_of_array [simp]:
  "ARRAY_TO_UINT32 (UINT32_TO_ARRAY w @ rest) 0 = Some w"
  by (simp add: ARRAY_TO_UINT32_def UINT32_TO_ARRAY_def mem_simps be32_bytes)

lemma ARRAY_TO_UINT32_read:
  assumes "rdn b i 4 = Some (UINT32_TO_ARRAY w)"
  shows "ARRAY_TO_UINT32 b i = Some w"
proof -
  from assms have l: "i + 4 \<le> length b" and t: "take 4 (drop i b) = UINT32_TO_ARRAY w"
    by (auto simp: rdn_def split: if_splits)
  have nth: "b ! (i + k) = UINT32_TO_ARRAY w ! k" if "k < 4" for k
    using that l by (simp flip: t)
  show ?thesis
    using l nth [of 0] nth [of 1] nth [of 2] nth [of 3]
    by (simp add: ARRAY_TO_UINT32_def rd_def UINT32_TO_ARRAY_def be32_bytes)
qed

lemma ARRAY_TO_UINT32_SomeD:
  assumes "ARRAY_TO_UINT32 b i = Some w"
  shows "rdn b i 4 = Some (UINT32_TO_ARRAY w)"
proof -
  from assms have l: "i + 3 < length b" and w: "w = be32 (b ! i) (b ! (i + 1)) (b ! (i + 2)) (b ! (i + 3))"
    by (auto simp: ARRAY_TO_UINT32_def rd_def split: if_splits Option.bind_splits)
  from l have "take 4 (drop i b) = [b ! i, b ! (i + 1), b ! (i + 2), b ! (i + 3)]"
    by (intro nth_equalityI) (auto simp: less_Suc_eq numeral_eq_Suc)
  with l show ?thesis by (simp add: rdn_def w bytes_be32)
qed

lemma ARRAY_TO_UINT32_None_iff: "ARRAY_TO_UINT32 b i = None \<longleftrightarrow> length b < i + 4"
  by (auto simp: ARRAY_TO_UINT32_def rd_def split: if_splits Option.bind_splits)

end
