(* ===== verification/Jhash.thy ===== *)
theory Jhash
  imports Prelude
begin

text \<open>
  The reduced Jenkins hash of corekube-db/headers/jhash.h (the multiplexer carries the same file).
  All arithmetic is on \<open>uint32_t\<close>, so it wraps.
\<close>

definition JHASH_INITVAL :: u32 where
  "JHASH_INITVAL = 0xdeadbeef"

text \<open>\<open>shift\<close> is an \<open>unsigned int\<close>; \<open>-shift\<close> wraps, and \<open>& 31\<close> keeps its low five bits.\<close>

definition rol32 :: "u32 \<Rightarrow> u32 \<Rightarrow> u32" where
  "rol32 word shift =
     push_bit (unat (shift AND 31)) word OR drop_bit (unat ((- shift) AND 31)) word"

text \<open>The macro \<open>__jhash_final\<close>: each line xors and then subtracts a rotation.\<close>

definition jhash_final :: "u32 \<Rightarrow> u32 \<Rightarrow> u32 \<Rightarrow> u32 \<times> u32 \<times> u32" where
  "jhash_final a b c =
    (let c = c XOR b; c = c - rol32 b 14;
         a = a XOR c; a = a - rol32 c 11;
         b = b XOR a; b = b - rol32 a 25;
         c = c XOR b; c = c - rol32 b 16;
         a = a XOR c; a = a - rol32 c 4;
         b = b XOR a; b = b - rol32 a 14;
         c = c XOR b; c = c - rol32 b 24
     in (a, b, c))"

definition jhash_3words :: "u32 \<Rightarrow> u32 \<Rightarrow> u32 \<Rightarrow> u32 \<Rightarrow> u32" where
  "jhash_3words a b c initval =
    (let a = a + JHASH_INITVAL; b = b + JHASH_INITVAL; c = c + initval;
         (a, b, c) = jhash_final a b c
     in c)"

definition jhash :: "u32 \<Rightarrow> u32 \<Rightarrow> u32" where
  "jhash a initval = jhash_3words a 0 0 initval"

text \<open>
  \<open>rol32\<close> is a rotation for every shift count, zero and counts of 32 and more included: the
  masks keep both shift amounts in range.
\<close>

lemma and_31_mod: "unat ((s :: u32) AND 31) = unat s mod 32"
proof -
  have m: "(31 :: u32) = mask 5" by (simp add: mask_eq_exp_minus_1)
  show ?thesis unfolding m by (simp flip: take_bit_eq_mask add: unsigned_take_bit_eq) (simp add: take_bit_eq_mod)
qed

lemma neg_and_31_mod: "unat ((- s :: u32) AND 31) = (32 - unat s mod 32) mod 32"
proof -
  have "int (unat (- s) mod 32) = (- uint s) mod 2 ^ 32 mod 32"
    by (simp add: uint_word_ariths zmod_int)
  also have "\<dots> = (- uint s) mod 32"
    by (rule mod_mod_cancel) simp
  also have "\<dots> = (32 - uint s mod 32) mod 32"
    by (simp add: mod_simps)
  also have "\<dots> = int ((32 - unat s mod 32) mod 32)"
    by (simp add: zmod_int of_nat_diff)
  finally show ?thesis by (simp add: and_31_mod)
qed

lemma rol32_rotl: "rol32 w s = word_rotl (unat s) w"
proof (rule bit_word_eqI)
  fix n assume n: "n < LENGTH(32)"
  define k where "k = unat s mod 32"
  define m where "m = unat ((- s) AND 31)"
  have k: "k < 32" and m: "m = (32 - k) mod 32"
    by (simp_all add: k_def m_def neg_and_31_mod)
  have "rol32 w s = push_bit k w OR drop_bit m w"
    by (simp add: rol32_def and_31_mod k_def m_def)
  moreover have "bit (word_rotl (unat s) w) n = bit w ((n + (32 - k)) mod 32)"
    using n by (simp add: bit_word_rotl_iff k_def)
  moreover have "bit (push_bit k w OR drop_bit m w) n = bit w ((n + (32 - k)) mod 32)"
  proof (cases "k \<le> n")
    case True
    then have "(n + (32 - k)) mod 32 = n - k"
      using n k by (cases "k = 0") (auto simp: mod_if)
    moreover have "bit w (m + n) \<Longrightarrow> k = 0 \<and> m = 0"
      using True n k m by (cases "k = 0") (auto dest: bit_imp_le_length)
    ultimately show ?thesis using True n by (auto simp: bit_simps)
  next
    case False
    then have "(n + (32 - k)) mod 32 = n + (32 - k)" "m = 32 - k"
      using k m by auto
    then show ?thesis using False n by (simp add: bit_simps add.commute)
  qed
  ultimately show "bit (rol32 w s) n = bit (word_rotl (unat s) w) n" by simp
qed

end
