(* ===== verification/Hashmap.thy ===== *)
theory Hashmap
  imports Jhash
begin

text \<open>
  The chained hash table of corekube-db/source/hashmap.c.  A bucket is the list of the data that
  its \<open>ListNode\<close> chain holds, in chain order.  Allocation may fail: \<open>hashmap_add\<close> takes the outcome
  of its two \<open>malloc\<close> calls as arguments.  \<open>None\<close> is the division trap of \<open>% hm->hashmap_size\<close> on
  a table of size zero, or an access outside the table.

  The entries are found by the 32-bit hash of their key.  The client sees the table as a
  dictionary from hashes to entries, which the locale \<open>hash_dict\<close> states; the interpretation at the
  end of the theory discharges its laws for the operations of the source.
\<close>

record 'a hashmap =
  initval :: u32
  hashmap_size :: u32
  hash_fn :: "'a \<Rightarrow> u32"
  table :: "'a list list"

definition init_hashmap :: "u32 \<Rightarrow> ('a \<Rightarrow> u32) \<Rightarrow> bool \<Rightarrow> bool \<Rightarrow> u32 \<Rightarrow> 'a hashmap option" where
  "init_hashmap sz h malloc_ok calloc_ok rnd =
     (if malloc_ok \<and> calloc_ok
      then Some \<lparr>initval = rnd, hashmap_size = sz, hash_fn = h, table = replicate (unat sz) []\<rparr>
      else None)"

definition bucket_index :: "'a hashmap \<Rightarrow> u32 \<Rightarrow> nat option" where
  "bucket_index hm h =
     (if hashmap_size hm = 0 then None
      else Some (unat (jhash h (initval hm) mod hashmap_size hm)))"

text \<open>
  The walk of \<open>hashmap_add\<close> along a non-empty chain: the node under \<open>iter\<close> is compared only while
  it has a successor, so the last node of a chain of two or more is never compared.
\<close>

fun chain_append :: "('a \<Rightarrow> u32) \<Rightarrow> u32 \<Rightarrow> 'a \<Rightarrow> 'a list \<Rightarrow> status \<times> 'a list" where
  "chain_append hf h d [] = (OK, [d])"
| "chain_append hf h d [x] = (OK, [x, d])"
| "chain_append hf h d (x # y # xs) =
     (if hf x = h then (ERROR, x # y # xs)
      else case chain_append hf h d (y # xs) of (st, l) \<Rightarrow> (st, x # l))"

definition bucket_add :: "('a \<Rightarrow> u32) \<Rightarrow> u32 \<Rightarrow> 'a \<Rightarrow> 'a list \<Rightarrow> status \<times> 'a list" where
  "bucket_add hf h d l =
     (case l of
        [] \<Rightarrow> (OK, [d])
      | x # _ \<Rightarrow> if hf x = h then (ERROR, l) else chain_append hf h d l)"

definition hashmap_add ::
  "'a hashmap \<Rightarrow> 'a \<Rightarrow> bool \<Rightarrow> bool \<Rightarrow> (status \<times> 'a hashmap) option" where
  "hashmap_add hm data malloc_node malloc_data =
     (if \<not> malloc_node then Some (ERROR, hm)
      else if \<not> malloc_data then Some (ERROR, hm)
      else do {
        let h = hash_fn hm data;
        index \<leftarrow> bucket_index hm h;
        if index < length (table hm) then
          (case bucket_add (hash_fn hm) h data (table hm ! index) of
             (st, l) \<Rightarrow> Some (st, hm\<lparr>table := (table hm)[index := l]\<rparr>))
        else None })"

definition hashmap_get :: "'a hashmap \<Rightarrow> u32 \<Rightarrow> 'a option option" where
  "hashmap_get hm h = do {
     index \<leftarrow> bucket_index hm h;
     if index < length (table hm) then Some (find (\<lambda>x. hash_fn hm x = h) (table hm ! index))
     else None }"

text \<open>
  \<open>hashmap_get\<close> hands out a pointer into the table and its callers write through it.  A write
  through the pointer found for \<open>h\<close> replaces that entry in place.
\<close>

fun update_first :: "('a \<Rightarrow> bool) \<Rightarrow> 'a \<Rightarrow> 'a list \<Rightarrow> 'a list" where
  "update_first P v [] = []"
| "update_first P v (x # xs) = (if P x then v # xs else x # update_first P v xs)"

definition hashmap_write :: "'a hashmap \<Rightarrow> u32 \<Rightarrow> 'a \<Rightarrow> 'a hashmap option" where
  "hashmap_write hm h v = do {
     index \<leftarrow> bucket_index hm h;
     if index < length (table hm) then
       Some (hm\<lparr>table := (table hm)[index := update_first (\<lambda>x. hash_fn hm x = h) v (table hm ! index)]\<rparr>)
     else None }"

text \<open>\<open>free_hashmap\<close> passes every entry to \<open>destroy\<close>, bucket by bucket; the result lists the calls.\<close>

fun free_buckets :: "nat \<Rightarrow> 'a list list \<Rightarrow> 'a list option" where
  "free_buckets 0 t = Some []"
| "free_buckets (Suc n) [] = None"
| "free_buckets (Suc n) (b # bs) = map_option (\<lambda>r. b @ r) (free_buckets n bs)"

definition free_hashmap :: "'a hashmap \<Rightarrow> 'a list option" where
  "free_hashmap hm = free_buckets (unat (hashmap_size hm)) (table hm)"

section \<open>Well-formed tables\<close>

definition wf_hashmap :: "'a hashmap \<Rightarrow> bool" where
  "wf_hashmap hm \<longleftrightarrow>
     hashmap_size hm \<noteq> 0 \<and> length (table hm) = unat (hashmap_size hm) \<and>
     (\<forall>i < length (table hm). \<forall>x \<in> set (table hm ! i). bucket_index hm (hash_fn hm x) = Some i)"

lemma bucket_index_wf:
  assumes "wf_hashmap hm"
  obtains i where "bucket_index hm h = Some i" and "i < length (table hm)"
proof
  from assms show "bucket_index hm h = Some (unat (jhash h (initval hm) mod hashmap_size hm))"
    by (simp add: bucket_index_def wf_hashmap_def)
  from assms show "unat (jhash h (initval hm) mod hashmap_size hm) < length (table hm)"
    by (simp add: wf_hashmap_def unat_mod_distrib unat_gt_0)
qed

lemma bucket_index_update [simp]: "bucket_index (hm\<lparr>table := t\<rparr>) h = bucket_index hm h"
  by (simp add: bucket_index_def)

lemma chain_append_set: "set (snd (chain_append hf h d l)) \<subseteq> insert d (set l)"
  by (induction hf h d l rule: chain_append.induct) (auto split: prod.splits)

lemma bucket_add_set: "set (snd (bucket_add hf h d l)) \<subseteq> insert d (set l)"
  using chain_append_set [of hf h d l] by (auto simp: bucket_add_def split: list.splits)

lemma chain_append_ERROR: "fst (chain_append hf h d l) = ERROR \<Longrightarrow> snd (chain_append hf h d l) = l"
  by (induction hf h d l rule: chain_append.induct) (auto split: prod.splits)

lemma chain_append_ERROR_dup: "fst (chain_append hf h d l) = ERROR \<Longrightarrow> \<exists>x \<in> set l. hf x = h"
  by (induction hf h d l rule: chain_append.induct) (auto split: prod.splits if_splits)

lemma chain_append_OK: "fst (chain_append hf h d l) = OK \<Longrightarrow> snd (chain_append hf h d l) = l @ [d]"
  by (induction hf h d l rule: chain_append.induct) (auto split: prod.splits if_splits)

lemma bucket_add_cases:
  obtains "bucket_add hf h d l = (ERROR, l)" and "\<exists>x \<in> set l. hf x = h"
  | "bucket_add hf h d l = (OK, l @ [d])"
proof (cases "\<exists>x xs. l = x # xs \<and> hf x \<noteq> h")
  case True
  then have b: "bucket_add hf h d l = chain_append hf h d l"
    by (auto simp: bucket_add_def)
  obtain st l' where c: "chain_append hf h d l = (st, l')" by fastforce
  show ?thesis
  proof (cases st)
    case OK
    with c chain_append_OK [of hf h d l] b show ?thesis by (simp add: that(2))
  next
    case ERROR
    with c chain_append_ERROR [of hf h d l] chain_append_ERROR_dup [of hf h d l] b
    show ?thesis by (simp add: that(1))
  qed
next
  case False
  then show ?thesis using that by (cases l) (auto simp: bucket_add_def)
qed

lemma find_append: "find P (xs @ ys) = (case find P xs of None \<Rightarrow> find P ys | Some x \<Rightarrow> Some x)"
  by (induction xs) auto

lemma find_update_first_same: "find P xs = Some x \<Longrightarrow> P v \<Longrightarrow> find P (update_first P v xs) = Some v"
  by (induction xs) (auto split: if_splits)

lemma find_update_first_other:
  "(\<And>x. P x \<Longrightarrow> \<not> Q x) \<Longrightarrow> \<not> Q v \<Longrightarrow> find Q (update_first P v xs) = find Q xs"
  by (induction xs) auto

lemma set_update_first: "set (update_first P v xs) \<subseteq> insert v (set xs)"
  by (induction xs) auto

lemma update_first_None: "find P xs = None \<Longrightarrow> update_first P v xs = xs"
  by (induction xs) (auto split: if_splits)

section \<open>The operations on well-formed tables\<close>

lemma wf_init_hashmap:
  "init_hashmap sz h m c r = Some hm \<Longrightarrow> sz \<noteq> 0 \<Longrightarrow> wf_hashmap hm \<and> hash_fn hm = h"
  by (auto simp: init_hashmap_def wf_hashmap_def split: if_splits)

lemma get_init_hashmap:
  assumes "init_hashmap sz hf m c r = Some hm" and "sz \<noteq> 0"
  shows "hashmap_get hm h = Some None"
proof -
  have wf: "wf_hashmap hm" using wf_init_hashmap [OF assms] by simp
  from assms(1) have t: "table hm = replicate (unat sz) []"
    by (auto simp: init_hashmap_def split: if_splits)
  obtain i where "bucket_index hm h = Some i" "i < length (table hm)"
    using bucket_index_wf [OF wf] .
  then show ?thesis by (simp add: hashmap_get_def t)
qed

lemma hashmap_get_total: "wf_hashmap hm \<Longrightarrow> \<exists>r. hashmap_get hm h = Some r"
  by (erule bucket_index_wf [where h = h]) (simp add: hashmap_get_def)

lemma hashmap_get_key: "hashmap_get hm h = Some (Some x) \<Longrightarrow> hash_fn hm x = h"
  by (auto simp: hashmap_get_def find_Some_iff split: Option.bind_splits if_splits)

lemma wf_table_update:
  assumes "wf_hashmap hm" and "bucket_index hm h = Some i"
    and "\<And>x. x \<in> set l \<Longrightarrow> x \<in> set (table hm ! i) \<or> hash_fn hm x = h"
  shows "wf_hashmap (hm\<lparr>table := (table hm)[i := l]\<rparr>)"
  unfolding wf_hashmap_def
proof (intro conjI allI impI ballI)
  fix k x
  assume "k < length (table (hm\<lparr>table := (table hm)[i := l]\<rparr>))"
    and "x \<in> set (table (hm\<lparr>table := (table hm)[i := l]\<rparr>) ! k)"
  then have "k < length (table hm)" "x \<in> set (if k = i then l else table hm ! k)"
    by auto
  with assms show "bucket_index (hm\<lparr>table := (table hm)[i := l]\<rparr>)
      (hash_fn (hm\<lparr>table := (table hm)[i := l]\<rparr>) x) = Some k"
    by (force simp: wf_hashmap_def split: if_splits)
qed (use assms(1) in \<open>simp_all add: wf_hashmap_def\<close>)

lemma hashmap_get_update:
  assumes wf: "wf_hashmap hm" and i: "bucket_index hm h = Some i"
    and same: "find (\<lambda>x. hash_fn hm x = h) l = r"
    and other: "\<And>h'. h' \<noteq> h \<Longrightarrow> find (\<lambda>x. hash_fn hm x = h') l = find (\<lambda>x. hash_fn hm x = h') (table hm ! i)"
  shows "hashmap_get (hm\<lparr>table := (table hm)[i := l]\<rparr>) h' =
         (if h' = h then Some r else hashmap_get hm h')"
proof -
  obtain k where k: "bucket_index hm h' = Some k" "k < length (table hm)"
    using bucket_index_wf [OF wf] .
  show ?thesis
    using k i same other [of h'] by (cases "k = i") (auto simp: hashmap_get_def)
qed

text \<open>The whole behaviour of \<open>hashmap_add\<close> when both allocations succeed.\<close>

lemma hashmap_add_spec:
  assumes wf: "wf_hashmap hm"
  obtains st hm' where "hashmap_add hm d True True = Some (st, hm')" and "wf_hashmap hm'"
    and "hash_fn hm' = hash_fn hm"
    and "hashmap_get hm (hash_fn hm d) = Some None \<longrightarrow> st = OK"
    and "\<forall>h. hashmap_get hm' h =
           (if h = hash_fn hm d \<and> hashmap_get hm h = Some None then Some (Some d) else hashmap_get hm h)"
proof -
  let ?h = "hash_fn hm d"
  obtain i where i: "bucket_index hm ?h = Some i" "i < length (table hm)"
    using bucket_index_wf [OF wf] .
  let ?b = "table hm ! i"
  have g: "hashmap_get hm ?h = Some (find (\<lambda>x. hash_fn hm x = ?h) ?b)"
    using i by (simp add: hashmap_get_def)
  show thesis
  proof (cases rule: bucket_add_cases [of "hash_fn hm" ?h d ?b])
    case 1
    then have "hashmap_add hm d True True = Some (ERROR, hm)"
      using i by (simp add: hashmap_add_def)
    moreover have "find (\<lambda>x. hash_fn hm x = ?h) ?b \<noteq> None"
      using 1(2) by (auto simp: find_None_iff)
    ultimately show thesis using wf g by (intro that) auto
  next
    case 2
    let ?hm = "hm\<lparr>table := (table hm)[i := ?b @ [d]]\<rparr>"
    have "hashmap_add hm d True True = Some (OK, ?hm)"
      using i 2 by (simp add: hashmap_add_def)
    moreover have "wf_hashmap ?hm"
      using wf i(1) by (rule wf_table_update) auto
    moreover have "hashmap_get ?hm h = (if h = ?h then Some (find (\<lambda>x. hash_fn hm x = ?h) (?b @ [d]))
        else hashmap_get hm h)" for h
      using wf i(1) by (rule hashmap_get_update) (auto simp: find_append split: option.splits)
    ultimately show thesis
      using g by (intro that [of OK ?hm]) (auto simp: find_append split: option.splits)
  qed
qed

lemma hashmap_write_spec:
  assumes wf: "wf_hashmap hm" and g: "hashmap_get hm h = Some (Some x)" and v: "hash_fn hm v = h"
  obtains hm' where "hashmap_write hm h v = Some hm'" and "wf_hashmap hm'"
    and "hash_fn hm' = hash_fn hm"
    and "\<forall>h'. hashmap_get hm' h' = (if h' = h then Some (Some v) else hashmap_get hm h')"
proof -
  obtain i where i: "bucket_index hm h = Some i" "i < length (table hm)"
    using bucket_index_wf [OF wf] .
  let ?P = "\<lambda>x. hash_fn hm x = h"
  let ?hm = "hm\<lparr>table := (table hm)[i := update_first ?P v (table hm ! i)]\<rparr>"
  from g i have f: "find ?P (table hm ! i) = Some x" by (simp add: hashmap_get_def)
  have "hashmap_write hm h v = Some ?hm" using i by (simp add: hashmap_write_def)
  moreover have "wf_hashmap ?hm"
    using wf i(1) by (rule wf_table_update) (use set_update_first [of ?P v] v in auto)
  moreover have "hashmap_get ?hm h' = (if h' = h then Some (Some v) else hashmap_get hm h')" for h'
    using wf i(1) find_update_first_same [of ?P, OF f v]
    by (rule hashmap_get_update) (auto intro!: find_update_first_other simp: v)
  ultimately show thesis by (intro that [of ?hm]) simp_all
qed

section \<open>The dictionary interface\<close>

text \<open>
  What the database relies on: lookups return, an insertion never hides or changes an entry that
  is already there, and a write through a looked-up pointer changes that entry alone.
\<close>

locale hash_dict =
  fixes invar :: "'d \<Rightarrow> bool"
    and key_of :: "'d \<Rightarrow> 'a \<Rightarrow> u32"
    and get :: "'d \<Rightarrow> u32 \<Rightarrow> 'a option option"
    and add :: "'d \<Rightarrow> 'a \<Rightarrow> (status \<times> 'd) option"
    and upd :: "'d \<Rightarrow> u32 \<Rightarrow> 'a \<Rightarrow> 'd option"
  assumes get_total: "invar d \<Longrightarrow> \<exists>r. get d h = Some r"
    and get_key: "invar d \<Longrightarrow> get d h = Some (Some x) \<Longrightarrow> key_of d x = h"
    and add_law: "invar d \<Longrightarrow> \<exists>st d'. add d x = Some (st, d') \<and> invar d' \<and> key_of d' = key_of d \<and>
          (get d (key_of d x) = Some None \<longrightarrow> st = OK) \<and>
          (\<forall>h. get d' h = (if h = key_of d x \<and> get d h = Some None then Some (Some x) else get d h))"
    and upd_law: "invar d \<Longrightarrow> get d h = Some (Some x) \<Longrightarrow> key_of d v = h \<Longrightarrow>
          \<exists>d'. upd d h v = Some d' \<and> invar d' \<and> key_of d' = key_of d \<and>
            (\<forall>h'. get d' h' = (if h' = h then Some (Some v) else get d h'))"
begin

text \<open>Loading a list of entries, as the database does with the lines of its subscriber file.\<close>

fun add_all :: "'d \<Rightarrow> 'a list \<Rightarrow> 'd option" where
  "add_all d [] = Some d"
| "add_all d (x # xs) = do { (st, d') \<leftarrow> add d x; add_all d' xs }"

lemma add_all_spec:
  "invar d \<Longrightarrow> \<exists>d'. add_all d xs = Some d' \<and> invar d' \<and> key_of d' = key_of d \<and>
     (\<forall>h. get d' h = (if get d h = Some None then Some (find (\<lambda>x. key_of d x = h) xs) else get d h))"
proof (induction xs arbitrary: d)
  case Nil
  then show ?case by simp
next
  case (Cons x xs)
  from add_law [OF Cons.prems, of x] obtain st d1 where d1: "add d x = Some (st, d1)" "invar d1"
    "key_of d1 = key_of d"
    "\<forall>h. get d1 h = (if h = key_of d x \<and> get d h = Some None then Some (Some x) else get d h)"
    by blast
  from Cons.IH [OF d1(2)] obtain d2 where "add_all d1 xs = Some d2" "invar d2"
    "key_of d2 = key_of d1"
    "\<forall>h. get d2 h = (if get d1 h = Some None then Some (find (\<lambda>x. key_of d1 x = h) xs) else get d1 h)"
    by blast
  with d1 show ?case by auto
qed

text \<open>Two writes to different entries commute as far as lookups can tell.\<close>

lemma upd_frame:
  assumes "invar d" and "get d h = Some (Some x)" and "key_of d v = h" and "upd d h v = Some d'"
    and "h' \<noteq> h"
  shows "get d' h' = get d h'"
  using upd_law [OF assms(1-3)] assms(4,5) by auto

end

interpretation hm: hash_dict wf_hashmap hash_fn hashmap_get "\<lambda>m x. hashmap_add m x True True" hashmap_write
proof unfold_locales
  fix d :: "'a hashmap" and h :: u32 and x v :: 'a
  assume wf: "wf_hashmap d"
  then show "\<exists>r. hashmap_get d h = Some r" by (rule hashmap_get_total)
  show "hash_fn d x = h" if "hashmap_get d h = Some (Some x)"
    using that by (rule hashmap_get_key)
  show "\<exists>st d'. hashmap_add d x True True = Some (st, d') \<and> wf_hashmap d' \<and> hash_fn d' = hash_fn d \<and>
      (hashmap_get d (hash_fn d x) = Some None \<longrightarrow> st = OK) \<and>
      (\<forall>h. hashmap_get d' h = (if h = hash_fn d x \<and> hashmap_get d h = Some None then Some (Some x)
                               else hashmap_get d h))"
    by (rule hashmap_add_spec [OF wf, of x]) blast
  show "\<exists>d'. hashmap_write d h v = Some d' \<and> wf_hashmap d' \<and> hash_fn d' = hash_fn d \<and>
      (\<forall>h'. hashmap_get d' h' = (if h' = h then Some (Some v) else hashmap_get d h'))"
    if "hashmap_get d h = Some (Some x)" and "hash_fn d v = h"
    using that by (auto elim!: hashmap_write_spec [OF wf])
qed

end
