(* ===== verification/User.thy ===== *)
theory User
  imports Hashmap
begin

text \<open>
  The subscriber record of corekube-db/source/user.c.  \<open>struct _UserInfo\<close> has only byte-sized
  members, so it has no padding: the members lie one after the other in declaration order.  The
  record is the heap block of \<open>user_info_size\<close> bytes; a member is a range of it, and the getters,
  which return pointers into the block, are offsets.  The block is kept as bytes because the
  database copies more bytes than some members have, so what lies behind a member is part of the
  behaviour.
\<close>

abbreviation "IMSI_LEN \<equiv> (16 :: nat)"
abbreviation "MSIN_LEN \<equiv> (11 :: nat)"
abbreviation "KEY_LEN \<equiv> (16 :: nat)"
abbreviation "ENB_UE_S1AP_ID_LEN \<equiv> (4 :: nat)"
abbreviation "MME_UE_S1AP_ID_LEN \<equiv> (4 :: nat)"
abbreviation "IP_LEN \<equiv> (4 :: nat)"
abbreviation "TMSI_LEN \<equiv> (4 :: nat)"
abbreviation "TEID_LEN \<equiv> (4 :: nat)"
abbreviation "RAND_LEN \<equiv> (16 :: nat)"
abbreviation "AUTH_RES_LEN \<equiv> (8 :: nat)"
abbreviation "SOCKET_LEN \<equiv> (4 :: nat)"

text \<open>The members of \<open>struct _UserInfo\<close>, their sizes and their order.\<close>

datatype ufield =
    F_imsi | F_key | F_opc | F_rand | F_enb_ue_s1ap_id | F_target_enb_ue_s1ap_id
  | F_mme_ue_s1ap_id | F_tmsi | F_ue_teid | F_epc_teid | F_spgw_ip | F_enb_ip | F_pdn_ipv4
  | F_auth_res | F_enc_key | F_int_key | F_kasme1 | F_kasme2 | F_epc_nas_sequence_number
  | F_ue_nas_sequence_number | F_next_hop_chaining_count | F_knh1 | F_knh2
  | F_enb_source_socket | F_enb_target_socket

type_synonym UserInfo = "byte list"

fun fsize :: "ufield \<Rightarrow> nat" where
  "fsize F_imsi = IMSI_LEN"
| "fsize F_key = KEY_LEN"
| "fsize F_opc = KEY_LEN"
| "fsize F_rand = RAND_LEN"
| "fsize F_enb_ue_s1ap_id = ENB_UE_S1AP_ID_LEN"
| "fsize F_target_enb_ue_s1ap_id = ENB_UE_S1AP_ID_LEN"
| "fsize F_mme_ue_s1ap_id = MME_UE_S1AP_ID_LEN"
| "fsize F_tmsi = TMSI_LEN"
| "fsize F_ue_teid = TEID_LEN"
| "fsize F_epc_teid = TEID_LEN"
| "fsize F_spgw_ip = IP_LEN"
| "fsize F_enb_ip = IP_LEN"
| "fsize F_pdn_ipv4 = IP_LEN"
| "fsize F_auth_res = AUTH_RES_LEN"
| "fsize F_enc_key = KEY_LEN"
| "fsize F_int_key = KEY_LEN"
| "fsize F_kasme1 = KEY_LEN"
| "fsize F_kasme2 = KEY_LEN"
| "fsize F_epc_nas_sequence_number = 1"
| "fsize F_ue_nas_sequence_number = 1"
| "fsize F_next_hop_chaining_count = 1"
| "fsize F_knh1 = KEY_LEN"
| "fsize F_knh2 = KEY_LEN"
| "fsize F_enb_source_socket = SOCKET_LEN"
| "fsize F_enb_target_socket = SOCKET_LEN"

definition user_layout :: "ufield list" where
  "user_layout =
    [F_imsi, F_key, F_opc, F_rand, F_enb_ue_s1ap_id, F_target_enb_ue_s1ap_id,
     F_mme_ue_s1ap_id, F_tmsi, F_ue_teid, F_epc_teid, F_spgw_ip, F_enb_ip, F_pdn_ipv4,
     F_auth_res, F_enc_key, F_int_key, F_kasme1, F_kasme2, F_epc_nas_sequence_number,
     F_ue_nas_sequence_number, F_next_hop_chaining_count, F_knh1, F_knh2,
     F_enb_source_socket, F_enb_target_socket]"

definition offsetof :: "ufield \<Rightarrow> nat" where
  "offsetof f = sum_list (map fsize (takeWhile (\<lambda>g. g \<noteq> f) user_layout))"

definition user_info_size :: nat where
  "user_info_size = sum_list (map fsize user_layout)"

definition fld :: "UserInfo \<Rightarrow> ufield \<Rightarrow> byte list" where
  "fld u f = take (fsize f) (drop (offsetof f) u)"

text \<open>The getters that return a pointer into the record.\<close>

definition get_user_imsi :: nat where "get_user_imsi = offsetof F_imsi"
definition get_user_msin :: nat where "get_user_msin = offsetof F_imsi + 5"
definition get_user_key :: nat where "get_user_key = offsetof F_key"
definition get_user_opc :: nat where "get_user_opc = offsetof F_opc"
definition get_user_rand :: nat where "get_user_rand = offsetof F_rand"
definition get_user_enb_ue_id :: nat where "get_user_enb_ue_id = offsetof F_enb_ue_s1ap_id"
definition get_user_mme_ue_id :: nat where "get_user_mme_ue_id = offsetof F_mme_ue_s1ap_id"
definition get_user_target_enb_ue_id :: nat where
  "get_user_target_enb_ue_id = offsetof F_target_enb_ue_s1ap_id"
definition get_user_tmsi :: nat where "get_user_tmsi = offsetof F_tmsi"
definition get_user_ue_teid :: nat where "get_user_ue_teid = offsetof F_ue_teid"
definition get_user_epc_teid :: nat where "get_user_epc_teid = offsetof F_epc_teid"
definition get_user_spgw_ip :: nat where "get_user_spgw_ip = offsetof F_spgw_ip"
definition get_user_enb_ip :: nat where "get_user_enb_ip = offsetof F_enb_ip"
definition get_user_pdn_ipv4 :: nat where "get_user_pdn_ipv4 = offsetof F_pdn_ipv4"
definition get_user_auth_res :: nat where "get_user_auth_res = offsetof F_auth_res"
definition get_user_enc_key :: nat where "get_user_enc_key = offsetof F_enc_key"
definition get_user_int_key :: nat where "get_user_int_key = offsetof F_int_key"
definition get_user_kasme1_key :: nat where "get_user_kasme1_key = offsetof F_kasme1"
definition get_user_kasme2_key :: nat where "get_user_kasme2_key = offsetof F_kasme2"
definition get_user_knh1_key :: nat where "get_user_knh1_key = offsetof F_knh1"
definition get_user_knh2_key :: nat where "get_user_knh2_key = offsetof F_knh2"
definition get_user_enb_source_socket :: nat where
  "get_user_enb_source_socket = offsetof F_enb_source_socket"
definition get_user_enb_target_socket :: nat where
  "get_user_enb_target_socket = offsetof F_enb_target_socket"

text \<open>The getters and setters that pass a \<open>uint8_t\<close> by value.\<close>

definition get_user_epc_nas_sequence_number :: "UserInfo \<Rightarrow> byte option" where
  "get_user_epc_nas_sequence_number u = rd u (offsetof F_epc_nas_sequence_number)"

definition set_user_epc_nas_sequence_number :: "UserInfo \<Rightarrow> byte \<Rightarrow> UserInfo option" where
  "set_user_epc_nas_sequence_number u value = wr u (offsetof F_epc_nas_sequence_number) value"

definition get_user_ue_nas_sequence_number :: "UserInfo \<Rightarrow> byte option" where
  "get_user_ue_nas_sequence_number u = rd u (offsetof F_ue_nas_sequence_number)"

definition set_user_ue_nas_sequence_number :: "UserInfo \<Rightarrow> byte \<Rightarrow> UserInfo option" where
  "set_user_ue_nas_sequence_number u value = wr u (offsetof F_ue_nas_sequence_number) value"

definition get_user_next_hop_chaining_count :: "UserInfo \<Rightarrow> byte option" where
  "get_user_next_hop_chaining_count u = rd u (offsetof F_next_hop_chaining_count)"

definition set_user_next_hop_chaining_count :: "UserInfo \<Rightarrow> byte \<Rightarrow> UserInfo option" where
  "set_user_next_hop_chaining_count u value = wr u (offsetof F_next_hop_chaining_count) value"

text \<open>
  \<open>atoi\<close> of the C library: white space, an optional sign, decimal digits up to the first other
  character.  \<open>None\<close> is what C leaves undefined: a value that is not an \<open>int\<close>, or no terminating
  character inside the array.
\<close>

definition isspace :: "byte \<Rightarrow> bool" where
  "isspace c \<longleftrightarrow> c = 32 \<or> (9 \<le> c \<and> c \<le> 13)"

definition isdigit :: "byte \<Rightarrow> bool" where
  "isdigit c \<longleftrightarrow> 48 \<le> c \<and> c \<le> 57"

fun atoi_digits :: "byte list \<Rightarrow> int \<Rightarrow> int option" where
  "atoi_digits [] acc = None"
| "atoi_digits (c # cs) acc =
     (if isdigit c then atoi_digits cs (10 * acc + (uint c - 48)) else Some acc)"

definition atoi_signed :: "byte list \<Rightarrow> int option" where
  "atoi_signed s = (case s of
     [] \<Rightarrow> None
   | c # cs \<Rightarrow> if c = 45 then map_option uminus (atoi_digits cs 0)
               else if c = 43 then atoi_digits cs 0
               else atoi_digits (c # cs) 0)"

definition atoi :: "byte list \<Rightarrow> int option" where
  "atoi s = do {
     v \<leftarrow> atoi_signed (dropWhile isspace s);
     if - (2 ^ 31) \<le> v \<and> v < 2 ^ 31 then Some v else None }"

definition hash_imsi :: "byte list \<Rightarrow> u32 option" where
  "hash_imsi imsi = map_option of_int (atoi (drop 6 imsi))"

definition hash_msin :: "byte list \<Rightarrow> u32 option" where
  "hash_msin msin = map_option of_int (atoi (drop 1 msin))"

definition hash_tmsi :: "byte list \<Rightarrow> u32 option" where
  "hash_tmsi tmsi = ARRAY_TO_UINT32 tmsi 0"

definition hash_mme_ue_s1ap_id :: "byte list \<Rightarrow> u32 option" where
  "hash_mme_ue_s1ap_id ident = ARRAY_TO_UINT32 ident 0"

text \<open>
  The hash function of the subscriber table.  The \<open>None\<close> case does not arise for the records the
  database stores: lemma \<open>hash_imsi_user\<close> below.
\<close>

definition hash_imsi_user_info :: "UserInfo \<Rightarrow> u32" where
  "hash_imsi_user_info u = (case hash_imsi u of Some h \<Rightarrow> h | None \<Rightarrow> 0)"

definition hash_tmsi_user_info :: "UserInfo \<Rightarrow> u32 option" where
  "hash_tmsi_user_info u = hash_tmsi (fld u F_tmsi)"

definition set_user_imsi :: "UserInfo \<Rightarrow> byte list \<Rightarrow> UserInfo option" where
  "set_user_imsi u imsi = do {
     u \<leftarrow> memcpy u (offsetof F_imsi) imsi IMSI_LEN;
     wr u (offsetof F_imsi + 15) 0 }"

text \<open>\<open>generate_rand\<close> takes four values from \<open>rand()\<close>.\<close>

definition generate_rand :: "UserInfo \<Rightarrow> u32 \<Rightarrow> u32 \<Rightarrow> u32 \<Rightarrow> u32 \<Rightarrow> UserInfo option" where
  "generate_rand u n0 n1 n2 n3 = do {
     u \<leftarrow> wrn u (offsetof F_rand) (UINT32_TO_ARRAY n0);
     u \<leftarrow> wrn u (offsetof F_rand + 4) (UINT32_TO_ARRAY n1);
     u \<leftarrow> wrn u (offsetof F_rand + 8) (UINT32_TO_ARRAY n2);
     wrn u (offsetof F_rand + 12) (UINT32_TO_ARRAY n3) }"

definition GATEWAY_IP :: u32 where "GATEWAY_IP = 0xAC100001"

definition complete_user_info :: "UserInfo \<Rightarrow> u32 \<Rightarrow> u32 \<Rightarrow> u32 \<Rightarrow> u32 \<Rightarrow> UserInfo option" where
  "complete_user_info u n0 n1 n2 n3 = do {
     u \<leftarrow> wr u (offsetof F_epc_nas_sequence_number) 0;
     u \<leftarrow> wr u (offsetof F_next_hop_chaining_count) 1;
     let hash = hash_imsi_user_info u;
     u \<leftarrow> wrn u (offsetof F_mme_ue_s1ap_id) (UINT32_TO_ARRAY hash);
     u \<leftarrow> wrn u (offsetof F_tmsi) (UINT32_TO_ARRAY hash);
     u \<leftarrow> wrn u (offsetof F_epc_teid) (UINT32_TO_ARRAY hash);
     u \<leftarrow> wrn u (offsetof F_epc_teid) (UINT32_TO_ARRAY hash);
     u \<leftarrow> wrn u (offsetof F_pdn_ipv4) (UINT32_TO_ARRAY (GATEWAY_IP + (hash AND 0x0000FFFF)));
     generate_rand u n0 n1 n2 n3 }"

section \<open>The layout of the record\<close>

lemma offsetof_eqs [layout_simps]:
  "offsetof F_imsi = 0" "offsetof F_key = 16" "offsetof F_opc = 32" "offsetof F_rand = 48"
  "offsetof F_enb_ue_s1ap_id = 64" "offsetof F_target_enb_ue_s1ap_id = 68"
  "offsetof F_mme_ue_s1ap_id = 72" "offsetof F_tmsi = 76" "offsetof F_ue_teid = 80"
  "offsetof F_epc_teid = 84" "offsetof F_spgw_ip = 88" "offsetof F_enb_ip = 92"
  "offsetof F_pdn_ipv4 = 96" "offsetof F_auth_res = 100" "offsetof F_enc_key = 108"
  "offsetof F_int_key = 124" "offsetof F_kasme1 = 140" "offsetof F_kasme2 = 156"
  "offsetof F_epc_nas_sequence_number = 172" "offsetof F_ue_nas_sequence_number = 173"
  "offsetof F_next_hop_chaining_count = 174" "offsetof F_knh1 = 175" "offsetof F_knh2 = 191"
  "offsetof F_enb_source_socket = 207" "offsetof F_enb_target_socket = 211"
  by (simp_all add: offsetof_def user_layout_def)

lemma user_info_size_eq [layout_simps]: "user_info_size = 215"
  by (simp add: user_info_size_def user_layout_def)

lemmas getter_offsets [layout_simps] =
  get_user_imsi_def get_user_msin_def get_user_key_def get_user_opc_def get_user_rand_def
  get_user_enb_ue_id_def get_user_mme_ue_id_def get_user_target_enb_ue_id_def get_user_tmsi_def
  get_user_ue_teid_def get_user_epc_teid_def get_user_spgw_ip_def get_user_enb_ip_def
  get_user_pdn_ipv4_def get_user_auth_res_def get_user_enc_key_def get_user_int_key_def
  get_user_kasme1_key_def get_user_kasme2_key_def get_user_knh1_key_def get_user_knh2_key_def
  get_user_enb_source_socket_def get_user_enb_target_socket_def

lemma field_inside: "offsetof f + fsize f \<le> user_info_size"
  by (cases f) (simp_all add: layout_simps)

text \<open>No two members overlap.\<close>

lemma fields_disjoint:
  assumes "f \<noteq> g"
  shows "offsetof f + fsize f \<le> offsetof g \<or> offsetof g + fsize g \<le> offsetof f"
  using assms by (cases f; cases g) (simp_all add: layout_simps)

lemma length_fld: "length u = user_info_size \<Longrightarrow> length (fld u f) = fsize f"
  using field_inside [of f] by (simp add: fld_def)

section \<open>Reads and writes of members\<close>

text \<open>\<open>set_fld\<close> is the record with one member replaced; every write the database makes is one.\<close>

definition set_fld :: "UserInfo \<Rightarrow> ufield \<Rightarrow> byte list \<Rightarrow> UserInfo" where
  "set_fld u f v = take (offsetof f) u @ v @ drop (offsetof f + fsize f) u"

lemma wrn_set_fld:
  assumes "length u = user_info_size" and "length v = fsize f"
  shows "wrn u (offsetof f) v = Some (set_fld u f v)"
  using assms field_inside [of f] by (simp add: wrn_def set_fld_def)

lemma wr_set_fld:
  assumes "length u = user_info_size" and "fsize f = 1"
  shows "wr u (offsetof f) b = Some (set_fld u f [b])"
  using assms field_inside [of f] by (simp add: wr_def set_fld_def upd_conv_take_nth_drop)

lemma memcpy_set_fld:
  assumes "length u = user_info_size" and "n = fsize f" and "n \<le> length src"
  shows "memcpy u (offsetof f) src n = Some (set_fld u f (take n src))"
  using assms field_inside [of f] by (simp add: memcpy_ok set_fld_def)

lemma length_set_fld [simp]:
  "length u = user_info_size \<Longrightarrow> length v = fsize f \<Longrightarrow> length (set_fld u f v) = user_info_size"
  using field_inside [of f] by (simp add: set_fld_def)

lemma fld_set_fld:
  assumes u: "length u = user_info_size" and v: "length v = fsize f"
  shows "fld (set_fld u f v) g = (if g = f then v else fld u g)"
proof -
  have w: "wrn u (offsetof f) v = Some (set_fld u f v)" using u v by (rule wrn_set_fld)
  have rdn: "rdn x (offsetof g) (fsize g) = Some (fld x g)" if "length x = user_info_size" for x g
    using that field_inside [of g] by (simp add: rdn_def fld_def)
  show ?thesis
  proof (cases "g = f")
    case True
    with wrn_read_back [OF w] rdn [of "set_fld u f v" f] u v show ?thesis by simp
  next
    case False
    then have "rdn (set_fld u f v) (offsetof g) (fsize g) = rdn u (offsetof g) (fsize g)"
      using wrn_frame [OF w] fields_disjoint [of g f] v by simp
    with False rdn [of "set_fld u f v" g] rdn [of u g] u v show ?thesis by simp
  qed
qed

lemma rd_fld:
  assumes "length u = user_info_size" and "fsize f = 1"
  shows "rd u (offsetof f) = Some (hd (fld u f))" and "fld u f = [hd (fld u f)]"
proof -
  from field_inside [of f] assms have l: "offsetof f < length u" by simp
  then have "fld u f = [u ! offsetof f]"
    using assms(2) by (simp add: fld_def take_Suc_conv_app_nth flip: Cons_nth_drop_Suc)
  with l show "rd u (offsetof f) = Some (hd (fld u f))" and "fld u f = [hd (fld u f)]"
    by (simp_all add: rd_def)
qed

text \<open>Two records with the same members are the same bytes: the layout covers the whole block.\<close>

lemma concat_fields:
  assumes u: "length u = user_info_size"
  shows "concat (map (fld u) user_layout) = u"
proof -
  have step: "fld u f @ drop (offsetof f + fsize f) u = drop (offsetof f) u" for f
    by (simp add: fld_def add.commute flip: drop_drop)
  show ?thesis
    using u step [of F_imsi] step [of F_key] step [of F_opc] step [of F_rand]
      step [of F_enb_ue_s1ap_id] step [of F_target_enb_ue_s1ap_id] step [of F_mme_ue_s1ap_id]
      step [of F_tmsi] step [of F_ue_teid] step [of F_epc_teid] step [of F_spgw_ip]
      step [of F_enb_ip] step [of F_pdn_ipv4] step [of F_auth_res] step [of F_enc_key]
      step [of F_int_key] step [of F_kasme1] step [of F_kasme2]
      step [of F_epc_nas_sequence_number] step [of F_ue_nas_sequence_number]
      step [of F_next_hop_chaining_count] step [of F_knh1] step [of F_knh2]
      step [of F_enb_source_socket] step [of F_enb_target_socket]
    by (simp add: user_layout_def layout_simps)
qed

lemma user_eqI:
  "length u = user_info_size \<Longrightarrow> length v = user_info_size \<Longrightarrow> (\<And>f. fld u f = fld v f) \<Longrightarrow> u = v"
  by (metis concat_fields map_eq_conv)

section \<open>Well-formed records and their hash\<close>

text \<open>A stored record has its full size and an IMSI that ends in a NUL byte.\<close>

definition wf_user :: "UserInfo \<Rightarrow> bool" where
  "wf_user u \<longleftrightarrow> length u = user_info_size \<and> fld u F_imsi ! 15 = 0"

lemma not_isdigit_0 [simp]: "\<not> isdigit 0" and not_isspace_0 [simp]: "\<not> isspace 0"
  by (simp_all add: isdigit_def isspace_def)

lemma atoi_digits_NUL: "atoi_digits (xs @ 0 # ys) acc = atoi_digits (xs @ [0]) acc"
  by (induction xs arbitrary: acc) auto

lemma atoi_signed_NUL: "atoi_signed (xs @ 0 # ys) = atoi_signed (xs @ [0])"
  using atoi_digits_NUL [of xs ys] atoi_digits_NUL [of "tl xs" ys]
  by (cases xs) (simp_all add: atoi_signed_def)

lemma dropWhile_NUL: "dropWhile isspace (xs @ 0 # ys) = dropWhile isspace xs @ 0 # ys"
  by (induction xs) simp_all

lemma atoi_NUL: "atoi (xs @ 0 # ys) = atoi (xs @ [0])"
  by (simp add: atoi_def dropWhile_NUL atoi_signed_NUL [of _ ys])

lemma atoi_digits_bound:
  "0 \<le> acc \<Longrightarrow> \<exists>v. atoi_digits (xs @ [0]) acc = Some v \<and> 0 \<le> v \<and> v < 10 ^ length xs * (acc + 1)"
proof (induction xs arbitrary: acc)
  case Nil
  then show ?case by simp
next
  case (Cons c xs)
  show ?case
  proof (cases "isdigit c")
    case True
    then have d: "0 \<le> uint c - 48" "uint c - 48 \<le> 9"
      by (simp_all add: isdigit_def word_le_def)
    let ?a = "10 * acc + (uint c - 48)"
    from d Cons.prems have "0 \<le> ?a" by simp
    from Cons.IH [OF this] obtain v where
      v: "atoi_digits (xs @ [0]) ?a = Some v" "0 \<le> v" "v < 10 ^ length xs * (?a + 1)" by blast
    have "10 ^ length xs * (?a + 1) \<le> 10 ^ length xs * (10 * (acc + 1))"
      using d by (intro mult_left_mono) auto
    also have "\<dots> = 10 ^ length (c # xs) * (acc + 1)" by simp
    finally have "v < 10 ^ length (c # xs) * (acc + 1)" using v(3) by linarith
    with v(1,2) True show ?thesis by simp
  next
    case False
    have "acc < 1 * (acc + 1)" by simp
    also have "\<dots> \<le> 10 ^ length (c # xs) * (acc + 1)"
      using Cons.prems by (intro mult_right_mono one_le_power) auto
    finally have "acc < 10 ^ length (c # xs) * (acc + 1)" .
    with False Cons.prems show ?thesis by simp
  qed
qed

lemma atoi_signed_bound:
  assumes "length xs \<le> 9"
  shows "\<exists>v. atoi_signed (xs @ [0]) = Some v \<and> - (2 ^ 31) \<le> v \<and> v < 2 ^ 31"
proof -
  have *: "\<exists>v. atoi_digits (zs @ [0]) 0 = Some v \<and> 0 \<le> v \<and> v < 2 ^ 31" if "length zs \<le> 9" for zs
  proof -
    have "(10 :: int) ^ length zs \<le> 10 ^ 9" using that by (intro power_increasing) auto
    with atoi_digits_bound [of 0 zs] show ?thesis by force
  qed
  show ?thesis
  proof (cases xs)
    case (Cons c cs)
    obtain v w where "atoi_digits (cs @ [0]) 0 = Some v" "0 \<le> v" "v < 2 ^ 31"
      and "atoi_digits (xs @ [0]) 0 = Some w" "0 \<le> w" "w < 2 ^ 31"
      using * [of cs] * [OF assms] assms Cons by auto
    then show ?thesis by (simp add: atoi_signed_def Cons)
  qed (simp add: atoi_signed_def)
qed

lemma atoi_total:
  assumes "length xs \<le> 9"
  shows "\<exists>v. atoi (xs @ 0 # ys) = Some v"
proof -
  have "length (dropWhile isspace xs) \<le> 9" using assms length_dropWhile_le [of isspace xs] by simp
  from atoi_signed_bound [OF this] show ?thesis
    by (auto simp: atoi_def dropWhile_NUL atoi_signed_NUL [of _ ys])
qed

lemma user_imsi_split:
  assumes "wf_user u"
  shows "drop 6 u = take 9 (drop 6 u) @ 0 # drop 16 u" and "length (take 9 (drop 6 u)) = 9"
proof -
  from assms have l: "length u = 215" and z: "u ! 15 = 0"
    by (simp_all add: wf_user_def fld_def layout_simps)
  have "drop 6 u = take 9 (drop 6 u) @ drop 9 (drop 6 u)" by (rule append_take_drop_id [symmetric])
  also have "drop 9 (drop 6 u) = drop 15 u" by simp
  also have "drop 15 u = 0 # drop 16 u"
    using l z by (simp flip: Cons_nth_drop_Suc [of 15])
  finally show "drop 6 u = take 9 (drop 6 u) @ 0 # drop 16 u" .
  show "length (take 9 (drop 6 u)) = 9" using l by simp
qed

lemma hash_imsi_user: "wf_user u \<Longrightarrow> hash_imsi u = Some (hash_imsi_user_info u)"
  using atoi_total [of "take 9 (drop 6 u)" "drop 16 u"]
  by (auto simp: hash_imsi_def hash_imsi_user_info_def user_imsi_split(1) [of u, symmetric]
      user_imsi_split(2))

text \<open>The hash depends on the IMSI alone.\<close>

lemma hash_imsi_fld:
  assumes "wf_user u"
  shows "hash_imsi u = hash_imsi (fld u F_imsi)"
proof -
  from assms have l: "length u = 215" by (simp add: wf_user_def layout_simps)
  have "drop 6 (fld u F_imsi) = take 10 (drop 6 u)"
    by (simp add: fld_def layout_simps drop_take)
  also have "\<dots> = take 9 (drop 6 u) @ [0]"
    by (subst user_imsi_split(1) [OF assms]) (use l in simp)
  finally show ?thesis
    using atoi_NUL [of "take 9 (drop 6 u)" "drop 16 u"]
    by (simp add: hash_imsi_def user_imsi_split(1) [OF assms, symmetric])
qed

lemma wf_set_fld [simp]:
  "wf_user u \<Longrightarrow> length v = fsize f \<Longrightarrow> f \<noteq> F_imsi \<Longrightarrow> wf_user (set_fld u f v)"
  by (simp add: wf_user_def fld_set_fld)

lemma wf_user_length [simp]: "wf_user u \<Longrightarrow> length u = user_info_size"
  by (simp add: wf_user_def)

lemma hash_set_fld [simp]:
  assumes "wf_user u" and "length v = fsize f" and "f \<noteq> F_imsi"
  shows "hash_imsi_user_info (set_fld u f v) = hash_imsi_user_info u"
proof -
  have "hash_imsi (set_fld u f v) = hash_imsi u"
    using assms hash_imsi_fld [of u] hash_imsi_fld [of "set_fld u f v"]
    by (simp add: fld_set_fld)
  then show ?thesis by (simp add: hash_imsi_user_info_def)
qed

section \<open>Initialising a record\<close>

lemma set_user_imsi_spec:
  assumes "length u = user_info_size" and "16 \<le> length s"
  shows "set_user_imsi u s = Some (set_fld u F_imsi (take 15 s @ [0]))"
    and "wf_user (set_fld u F_imsi (take 15 s @ [0]))"
proof -
  have "take 16 s = take 15 s @ [s ! 15]"
    using assms(2) by (simp add: take_Suc_conv_app_nth [of 15, simplified])
  then show "set_user_imsi u s = Some (set_fld u F_imsi (take 15 s @ [0]))"
    using assms by (simp add: set_user_imsi_def memcpy_ok layout_simps wr_def set_fld_def list_update_append)
  show "wf_user (set_fld u F_imsi (take 15 s @ [0]))"
    using assms by (simp add: wf_user_def fld_set_fld nth_append)
qed

lemma generate_rand_spec:
  assumes "length u = user_info_size"
  shows "generate_rand u a b c d = Some (set_fld u F_rand
           (UINT32_TO_ARRAY a @ UINT32_TO_ARRAY b @ UINT32_TO_ARRAY c @ UINT32_TO_ARRAY d))"
  using assms by (simp add: generate_rand_def layout_simps wrn_def set_fld_def)

text \<open>
  \<open>complete_user_info\<close> derives every identifier from the IMSI.  Nothing else changes; in
  particular the uplink NAS sequence number keeps whatever the fresh heap block held.
\<close>

definition completed_fld :: "UserInfo \<Rightarrow> u32 \<Rightarrow> u32 \<Rightarrow> u32 \<Rightarrow> u32 \<Rightarrow> ufield \<Rightarrow> byte list" where
  "completed_fld u a b c d f =
      (let h = hash_imsi_user_info u in
       if f \<in> {F_mme_ue_s1ap_id, F_tmsi, F_epc_teid} then UINT32_TO_ARRAY h
       else if f = F_pdn_ipv4 then UINT32_TO_ARRAY (GATEWAY_IP + (h AND 0x0000FFFF))
       else if f = F_epc_nas_sequence_number then [0]
       else if f = F_next_hop_chaining_count then [1]
       else if f = F_rand then UINT32_TO_ARRAY a @ UINT32_TO_ARRAY b @ UINT32_TO_ARRAY c @ UINT32_TO_ARRAY d
       else fld u f)"

lemma complete_user_info_spec:
  assumes wf: "wf_user u"
  obtains u' where "complete_user_info u a b c d = Some u'" and "wf_user u'"
    and "hash_imsi_user_info u' = hash_imsi_user_info u"
    and "\<And>f. fld u' f = completed_fld u a b c d f"
proof -
  let ?h = "UINT32_TO_ARRAY (hash_imsi_user_info u)"
  let ?u1 = "set_fld (set_fld u F_epc_nas_sequence_number [0]) F_next_hop_chaining_count [1]"
  let ?u2 = "set_fld (set_fld (set_fld ?u1 F_mme_ue_s1ap_id ?h) F_tmsi ?h) F_epc_teid ?h"
  let ?u3 = "set_fld (set_fld ?u2 F_epc_teid ?h) F_pdn_ipv4
     (UINT32_TO_ARRAY (GATEWAY_IP + (hash_imsi_user_info u AND 0x0000FFFF)))"
  let ?r = "UINT32_TO_ARRAY a @ UINT32_TO_ARRAY b @ UINT32_TO_ARRAY c @ UINT32_TO_ARRAY d"
  have "complete_user_info u a b c d = Some (set_fld ?u3 F_rand ?r)"
    using wf by (simp add: complete_user_info_def wr_set_fld wrn_set_fld generate_rand_spec Let_def)
  then show thesis by (rule that) (use wf in \<open>auto simp: fld_set_fld completed_fld_def Let_def\<close>)
qed

end
