(* ===== verification/Items.thy ===== *)
theory Items
  imports User
begin

text \<open>
  The item types of the database protocol, the enumeration \<open>ITEM_TYPE\<close> that libck/include/libck.h
  and corekube-db/headers/api.h both define.  On the wire an item type is one byte; a \<open>switch\<close> over
  such a byte is a case analysis on \<open>item_of\<close>, whose \<open>None\<close> is the \<open>default\<close> branch.
\<close>

datatype item =
    EOM | IMSI | MSIN | TMSI | ENB_UE_S1AP_ID | UE_TEID | SPGW_IP | ENB_IP | PDN_IP
  | UE_NAS_SEQUENCE_NUMBER | EPC_NAS_SEQUENCE_NUMBER | UE_NAS_SEQUENCE_NUMBER_NO_INC
  | KEY | OPC | RAND | RAND_UPDATE | MME_UE_S1AP_ID | EPC_TEID | AUTH_RES | ENC_KEY | INT_KEY
  | KASME_1 | KASME_2 | NEW_ENB | GET_ENB | KNH_1 | KNH_2 | Target_ENB_UE_S1AP_ID
  | NEXT_HOP_CHAINING_COUNT | ENB_SOURCE_SOCKET | ENB_TARGET_SOCKET

fun item_code :: "item \<Rightarrow> byte" where
  "item_code EOM = 0x01"
| "item_code IMSI = 0x02"
| "item_code MSIN = 0x03"
| "item_code TMSI = 0x04"
| "item_code ENB_UE_S1AP_ID = 0x05"
| "item_code UE_TEID = 0x06"
| "item_code SPGW_IP = 0x07"
| "item_code ENB_IP = 0x08"
| "item_code PDN_IP = 0x09"
| "item_code UE_NAS_SEQUENCE_NUMBER = 0x0A"
| "item_code EPC_NAS_SEQUENCE_NUMBER = 0x0B"
| "item_code UE_NAS_SEQUENCE_NUMBER_NO_INC = 0x0C"
| "item_code KEY = 0x0D"
| "item_code OPC = 0x0E"
| "item_code RAND = 0x0F"
| "item_code RAND_UPDATE = 0x10"
| "item_code MME_UE_S1AP_ID = 0x11"
| "item_code EPC_TEID = 0x12"
| "item_code AUTH_RES = 0x13"
| "item_code ENC_KEY = 0x14"
| "item_code INT_KEY = 0x15"
| "item_code KASME_1 = 0x16"
| "item_code KASME_2 = 0x17"
| "item_code NEW_ENB = 0x18"
| "item_code GET_ENB = 0x19"
| "item_code KNH_1 = 0x1A"
| "item_code KNH_2 = 0x1B"
| "item_code Target_ENB_UE_S1AP_ID = 0x1C"
| "item_code NEXT_HOP_CHAINING_COUNT = 0x1D"
| "item_code ENB_SOURCE_SOCKET = 0x1E"
| "item_code ENB_TARGET_SOCKET = 0x1F"

definition all_items :: "item list" where
  "all_items =
    [EOM, IMSI, MSIN, TMSI, ENB_UE_S1AP_ID, UE_TEID, SPGW_IP, ENB_IP, PDN_IP,
     UE_NAS_SEQUENCE_NUMBER, EPC_NAS_SEQUENCE_NUMBER, UE_NAS_SEQUENCE_NUMBER_NO_INC,
     KEY, OPC, RAND, RAND_UPDATE, MME_UE_S1AP_ID, EPC_TEID, AUTH_RES, ENC_KEY, INT_KEY,
     KASME_1, KASME_2, NEW_ENB, GET_ENB, KNH_1, KNH_2, Target_ENB_UE_S1AP_ID,
     NEXT_HOP_CHAINING_COUNT, ENB_SOURCE_SOCKET, ENB_TARGET_SOCKET]"

definition item_of :: "byte \<Rightarrow> item option" where
  "item_of b = find (\<lambda>i. item_code i = b) all_items"

lemma item_of_code [simp]: "item_of (item_code i) = Some i"
  by (cases i) (simp_all add: item_of_def all_items_def)

lemma item_of_literals [simp]:
  "item_of 1 = Some EOM"
  "item_of 2 = Some IMSI"
  "item_of 3 = Some MSIN"
  "item_of 4 = Some TMSI"
  "item_of 5 = Some ENB_UE_S1AP_ID"
  "item_of 6 = Some UE_TEID"
  "item_of 7 = Some SPGW_IP"
  "item_of 8 = Some ENB_IP"
  "item_of 9 = Some PDN_IP"
  "item_of 10 = Some UE_NAS_SEQUENCE_NUMBER"
  "item_of 11 = Some EPC_NAS_SEQUENCE_NUMBER"
  "item_of 12 = Some UE_NAS_SEQUENCE_NUMBER_NO_INC"
  "item_of 13 = Some KEY"
  "item_of 14 = Some OPC"
  "item_of 15 = Some RAND"
  "item_of 16 = Some RAND_UPDATE"
  "item_of 17 = Some MME_UE_S1AP_ID"
  "item_of 18 = Some EPC_TEID"
  "item_of 19 = Some AUTH_RES"
  "item_of 20 = Some ENC_KEY"
  "item_of 21 = Some INT_KEY"
  "item_of 22 = Some KASME_1"
  "item_of 23 = Some KASME_2"
  "item_of 24 = Some NEW_ENB"
  "item_of 25 = Some GET_ENB"
  "item_of 26 = Some KNH_1"
  "item_of 27 = Some KNH_2"
  "item_of 28 = Some Target_ENB_UE_S1AP_ID"
  "item_of 29 = Some NEXT_HOP_CHAINING_COUNT"
  "item_of 30 = Some ENB_SOURCE_SOCKET"
  "item_of 31 = Some ENB_TARGET_SOCKET"
  by (simp_all add: item_of_def all_items_def)

lemma item_of_SomeD: "item_of b = Some i \<Longrightarrow> b = item_code i"
  by (auto simp: item_of_def find_Some_iff)

lemma item_code_inject [simp]: "item_code i = item_code j \<longleftrightarrow> i = j"
  by (metis item_of_code option.inject)

lemma item_of_0 [simp]: "item_of 0 = None"
  by (simp add: item_of_def all_items_def)

lemma item_code_nonzero [simp]: "item_code i \<noteq> 0"
  by (metis item_of_0 item_of_code option.distinct(1))

lemma item_code_1_iff [simp]: "item_code i = 1 \<longleftrightarrow> i = EOM"
  using item_code_inject [of i EOM] by simp

end
