(* ===== verification/Libck.thy ===== *)
theory Libck
  imports Items
begin

text \<open>
  The client library of the database, libck/source/libck.c: it lays a request out in a byte buffer
  that its caller provides and finds the values in the response.  A pointer into the buffer is an
  offset; a function that returns an advanced pointer returns the changed buffer and the new offset.
  The variable arguments of \<open>push_items\<close> and \<open>pull_items\<close> are a list of the values the caller
  passes; \<open>None\<close> is a write outside the buffer, a read outside a value, or a \<open>va_arg\<close> of the wrong
  type.
\<close>

datatype va_arg = VaInt int | VaPtr "byte list"

text \<open>Most branches write the item type and copy \<open>n\<close> bytes of the value behind it.\<close>

definition put_item :: "buf \<Rightarrow> nat \<Rightarrow> item \<Rightarrow> byte list \<Rightarrow> nat \<Rightarrow> (buf \<times> nat) option" where
  "put_item buffer p it value n = do {
     buffer \<leftarrow> wr buffer p (item_code it);
     buffer \<leftarrow> memcpy buffer (p + 1) value n;
     Some (buffer, p + 17) }"

text \<open>The branches for one-byte values write \<open>*value\<close> at index 1.\<close>

definition put_byte :: "buf \<Rightarrow> nat \<Rightarrow> item \<Rightarrow> byte list \<Rightarrow> (buf \<times> nat) option" where
  "put_byte buffer p it value = do {
     buffer \<leftarrow> wr buffer p (item_code it);
     v \<leftarrow> rd value 0;
     buffer \<leftarrow> wr buffer (p + 1) v;
     Some (buffer, p + 17) }"

definition add_identifier :: "buf \<Rightarrow> nat \<Rightarrow> byte \<Rightarrow> byte list \<Rightarrow> (buf \<times> nat) option" where
  "add_identifier buffer p ident value =
    (case item_of ident of
       Some IMSI \<Rightarrow> do {
         (buffer, p') \<leftarrow> put_item buffer p IMSI value IMSI_LEN;
         buffer \<leftarrow> wr buffer (p + 16) 0;
         Some (buffer, p') }
     | Some MSIN \<Rightarrow> put_item buffer p MSIN value MSIN_LEN
     | Some TMSI \<Rightarrow> put_item buffer p TMSI value TMSI_LEN
     | Some MME_UE_S1AP_ID \<Rightarrow> put_item buffer p MME_UE_S1AP_ID value MME_UE_S1AP_ID_LEN
     | _ \<Rightarrow> Some (buffer, p))"

definition push_item :: "buf \<Rightarrow> nat \<Rightarrow> byte \<Rightarrow> byte list \<Rightarrow> (buf \<times> nat) option" where
  "push_item buffer p it value =
    (case item_of it of
       Some MME_UE_S1AP_ID \<Rightarrow> put_item buffer p MME_UE_S1AP_ID value MME_UE_S1AP_ID_LEN
     | Some ENB_UE_S1AP_ID \<Rightarrow> put_item buffer p ENB_UE_S1AP_ID value ENB_UE_S1AP_ID_LEN
     | Some Target_ENB_UE_S1AP_ID \<Rightarrow>
         put_item buffer p Target_ENB_UE_S1AP_ID value ENB_UE_S1AP_ID_LEN
     | Some UE_TEID \<Rightarrow> put_item buffer p UE_TEID value TEID_LEN
     | Some SPGW_IP \<Rightarrow> put_item buffer p SPGW_IP value IP_LEN
     | Some ENB_IP \<Rightarrow> put_item buffer p ENB_IP value IP_LEN
     | Some PDN_IP \<Rightarrow> put_item buffer p PDN_IP value IP_LEN
     | Some EPC_NAS_SEQUENCE_NUMBER \<Rightarrow> put_byte buffer p EPC_NAS_SEQUENCE_NUMBER value
     | Some UE_NAS_SEQUENCE_NUMBER \<Rightarrow> put_byte buffer p UE_NAS_SEQUENCE_NUMBER value
     | Some NEXT_HOP_CHAINING_COUNT \<Rightarrow> put_byte buffer p NEXT_HOP_CHAINING_COUNT value
     | Some AUTH_RES \<Rightarrow> put_item buffer p AUTH_RES value AUTH_RES_LEN
     | Some ENC_KEY \<Rightarrow> put_item buffer p ENC_KEY value KEY_LEN
     | Some INT_KEY \<Rightarrow> put_item buffer p INT_KEY value KEY_LEN
     | Some KASME_1 \<Rightarrow> put_item buffer p KASME_1 value KEY_LEN
     | Some KASME_2 \<Rightarrow> put_item buffer p KASME_2 value KEY_LEN
     | Some KNH_1 \<Rightarrow> put_item buffer p KNH_1 value KEY_LEN
     | Some KNH_2 \<Rightarrow> put_item buffer p KNH_2 value KEY_LEN
     | Some ENB_SOURCE_SOCKET \<Rightarrow> put_item buffer p ENB_SOURCE_SOCKET value 4
     | Some ENB_TARGET_SOCKET \<Rightarrow> put_item buffer p ENB_TARGET_SOCKET value 4
     | _ \<Rightarrow> Some (buffer, p))"

fun push_args :: "nat \<Rightarrow> va_arg list \<Rightarrow> buf \<Rightarrow> nat \<Rightarrow> (buf \<times> nat) option" where
  "push_args 0 ap buffer p = Some (buffer, p)"
| "push_args (Suc n) (VaInt t # ap) buffer p =
     (let ty = (of_int t :: byte) in
      if ty = item_code NEW_ENB then
        (case ap of
           VaPtr enb_id # VaPtr enb_sock_num # ap' \<Rightarrow> do {
             buffer \<leftarrow> wr buffer p (item_code NEW_ENB);
             buffer \<leftarrow> memcpy buffer (p + 1) enb_id 4;
             buffer \<leftarrow> memcpy buffer (p + 5) enb_sock_num 4;
             push_args n ap' buffer (p + 17) }
         | _ \<Rightarrow> None)
      else
        (case ap of
           VaPtr v # ap' \<Rightarrow> do {
             (buffer, p) \<leftarrow> push_item buffer p ty v;
             push_args n ap' buffer p }
         | _ \<Rightarrow> None))"
| "push_args (Suc n) _ buffer p = None"

definition push_items :: "buf \<Rightarrow> byte \<Rightarrow> byte list \<Rightarrow> nat \<Rightarrow> va_arg list \<Rightarrow> (buf \<times> nat) option" where
  "push_items buffer ident id_value num_items ap = do {
     (buffer, p) \<leftarrow> (if ident = item_code NEW_ENB
        then do { buffer \<leftarrow> wr buffer 0 (item_code NEW_ENB); Some (buffer, 17) }
        else add_identifier buffer 0 ident id_value);
     push_args num_items ap buffer p }"

definition pull_item :: "buf \<Rightarrow> nat \<Rightarrow> byte \<Rightarrow> (buf \<times> nat) option" where
  "pull_item buffer p it = do { buffer \<leftarrow> wr buffer p it; Some (buffer, p + 1) }"

fun pull_args :: "nat \<Rightarrow> va_arg list \<Rightarrow> buf \<Rightarrow> nat \<Rightarrow> (buf \<times> nat) option" where
  "pull_args 0 ap buffer p = Some (buffer, p)"
| "pull_args (Suc n) (VaInt t # ap) buffer p = do {
     let it = (of_int t :: byte);
     (buffer, p) \<leftarrow> pull_item buffer p it;
     if it = item_code GET_ENB then
       (case ap of
          VaPtr enb # ap' \<Rightarrow> do {
            buffer \<leftarrow> memcpy buffer p enb 4;
            pull_args n ap' buffer (p + 4) }
        | _ \<Rightarrow> None)
     else pull_args n ap buffer p }"
| "pull_args (Suc n) _ buffer p = None"

definition pull_items :: "buf \<Rightarrow> nat \<Rightarrow> nat \<Rightarrow> va_arg list \<Rightarrow> (buf \<times> nat) option" where
  "pull_items buffer push_len num_items ap = do {
     buffer \<leftarrow> wr buffer push_len 0;
     (buffer, p) \<leftarrow> pull_args num_items ap buffer (push_len + 1);
     pull_item buffer p (item_code EOM) }"

section \<open>Reading a response\<close>

text \<open>
  \<open>corekube_db_pulls_t\<close> holds one pointer per item; each is an offset into the response.  The struct
  is a local variable of its callers and \<open>extract_db_values\<close> sets only the pointers it meets, so a
  pointer may still be indeterminate.
\<close>

datatype pfield =
    P_imsi | P_msin | P_tmsi | P_enb_ue_s1ap_id | P_ue_teid | P_spgw_ip | P_enb_ip | P_pdn_ip
  | P_ue_nas_sequence_number | P_epc_nas_sequence_number | P_key | P_opc | P_rand | P_rand_update
  | P_mme_ue_s1ap_id | P_epc_teid | P_auth_res | P_enc_key | P_int_key | P_kasme1 | P_kasme2
  | P_knh1 | P_knh2 | P_ncc | P_target_enb_ue_s1ap_id | P_get_enb | P_enb_source_socket
  | P_enb_target_socket

datatype cptr = Indeterminate | Null | At nat

type_synonym db_pulls = "pfield \<Rightarrow> cptr"

definition extract_one :: "byte \<Rightarrow> nat \<Rightarrow> db_pulls \<Rightarrow> db_pulls" where
  "extract_one b i db_pulls =
    (case item_of b of
       Some IMSI \<Rightarrow> db_pulls(P_imsi := At (i + 1))
     | Some MSIN \<Rightarrow> db_pulls(P_msin := At (i + 1))
     | Some TMSI \<Rightarrow> db_pulls(P_tmsi := At (i + 1))
     | Some ENB_UE_S1AP_ID \<Rightarrow> db_pulls(P_enb_ue_s1ap_id := At (i + 1))
     | Some UE_TEID \<Rightarrow> db_pulls(P_ue_teid := At (i + 1))
     | Some SPGW_IP \<Rightarrow> db_pulls(P_spgw_ip := At (i + 1))
     | Some ENB_IP \<Rightarrow> db_pulls(P_enb_ip := At (i + 1))
     | Some PDN_IP \<Rightarrow> db_pulls(P_pdn_ip := At (i + 1))
     | Some UE_NAS_SEQUENCE_NUMBER \<Rightarrow> db_pulls(P_ue_nas_sequence_number := At (i + 1))
     | Some EPC_NAS_SEQUENCE_NUMBER \<Rightarrow> db_pulls(P_epc_nas_sequence_number := At (i + 1))
     | Some KEY \<Rightarrow> db_pulls(P_key := At (i + 1))
     | Some OPC \<Rightarrow> db_pulls(P_opc := At (i + 1))
     | Some RAND \<Rightarrow> db_pulls(P_rand := At (i + 1))
     | Some RAND_UPDATE \<Rightarrow> db_pulls(P_rand := At (i + 1))
     | Some MME_UE_S1AP_ID \<Rightarrow> db_pulls(P_mme_ue_s1ap_id := At (i + 1))
     | Some EPC_TEID \<Rightarrow> db_pulls(P_epc_teid := At (i + 1))
     | Some AUTH_RES \<Rightarrow> db_pulls(P_auth_res := At (i + 1))
     | Some ENC_KEY \<Rightarrow> db_pulls(P_enc_key := At (i + 1))
     | Some INT_KEY \<Rightarrow> db_pulls(P_int_key := At (i + 1))
     | Some KASME_1 \<Rightarrow> db_pulls(P_kasme1 := At (i + 1))
     | Some KASME_2 \<Rightarrow> db_pulls(P_kasme2 := At (i + 1))
     | Some KNH_1 \<Rightarrow> db_pulls(P_knh1 := At (i + 1))
     | Some KNH_2 \<Rightarrow> db_pulls(P_knh2 := At (i + 1))
     | Some NEXT_HOP_CHAINING_COUNT \<Rightarrow> db_pulls(P_ncc := At (i + 1))
     | Some Target_ENB_UE_S1AP_ID \<Rightarrow> db_pulls(P_target_enb_ue_s1ap_id := At (i + 1))
     | Some GET_ENB \<Rightarrow> db_pulls(P_get_enb := At (i + 1))
     | Some ENB_SOURCE_SOCKET \<Rightarrow> db_pulls(P_enb_source_socket := At (i + 1))
     | Some ENB_TARGET_SOCKET \<Rightarrow> db_pulls(P_enb_target_socket := At (i + 1))
     | _ \<Rightarrow> db_pulls)"

function extract_from :: "nat \<Rightarrow> buf \<Rightarrow> nat \<Rightarrow> db_pulls \<Rightarrow> db_pulls option" where
  "extract_from i buffer n db_pulls =
     (if i < n then do {
        b \<leftarrow> rd buffer i;
        extract_from (i + 17) buffer n (extract_one b i db_pulls) }
      else Some db_pulls)"
  by pat_completeness auto
termination by (relation "measure (\<lambda>(i, buffer, n, db_pulls). n - i)") auto

declare extract_from.simps [simp del]

definition extract_db_values :: "buf \<Rightarrow> nat \<Rightarrow> db_pulls \<Rightarrow> db_pulls option" where
  "extract_db_values buffer n db_pulls = extract_from 0 buffer n db_pulls"

end
