(* ===== verification/Server.thy ===== *)
theory Server
  imports Libck
begin

text \<open>
  The database server: the eNB records of corekube-db/source/enb.c and the request processing of
  corekube-db/source/corekubeDB.c (\<open>analyze_request\<close>, \<open>attend_request\<close>).

  The state is the two hash tables and what the C library still has to deliver: the values of
  \<open>rand()\<close> and the outcomes of \<open>malloc\<close>, in the order the code asks for them.  A request is the part
  of the receive array that starts at the \<open>request\<close> pointer, so it is in general longer than
  \<open>request_len\<close>.  \<open>None\<close> is undefined behaviour: an access outside an array or a heap block, the use
  of the \<open>user\<close> pointer that is uninitialised when a request stores an eNB, an \<open>atoi\<close> overflow.
\<close>

section \<open>eNB records\<close>

record ENBInfo =
  enb_id :: u32
  sock_num :: "byte list"

definition create_enb :: "bool \<Rightarrow> byte list \<Rightarrow> byte list \<Rightarrow> ENBInfo option option" where
  "create_enb malloc_ok eid sock =
     (if \<not> malloc_ok then Some None
      else do {
        i \<leftarrow> ARRAY_TO_UINT32 eid 0;
        s \<leftarrow> rdn sock 0 4;
        Some (Some \<lparr>enb_id = i, sock_num = s\<rparr>) })"

definition hash_enb_info :: "ENBInfo \<Rightarrow> u32" where
  "hash_enb_info e = enb_id e"

definition enb_get_socket_number :: "ENBInfo \<Rightarrow> byte list" where
  "enb_get_socket_number e = sock_num e"

section \<open>The server state\<close>

record db =
  imsi_map :: "UserInfo hashmap"
  eNBs :: "ENBInfo hashmap"
  rands :: "nat \<Rightarrow> u32"
  mallocs :: "nat \<Rightarrow> bool"

definition drop_rands :: "nat \<Rightarrow> db \<Rightarrow> db" where
  "drop_rands n d = d\<lparr>rands := (\<lambda>i. rands d (i + n))\<rparr>"

definition drop_mallocs :: "nat \<Rightarrow> db \<Rightarrow> db" where
  "drop_mallocs n d = d\<lparr>mallocs := (\<lambda>i. mallocs d (i + n))\<rparr>"

text \<open>
  The \<open>user\<close> pointer is the key under which the record was found; no operation changes a key.
  \<open>None\<close> is the uninitialised pointer.
\<close>

type_synonym user_ptr = "u32 option"

definition deref_user :: "db \<Rightarrow> user_ptr \<Rightarrow> UserInfo option" where
  "deref_user d usr = do { h \<leftarrow> usr; r \<leftarrow> hashmap_get (imsi_map d) h; r }"

definition modify_user :: "db \<Rightarrow> user_ptr \<Rightarrow> (UserInfo \<Rightarrow> UserInfo option) \<Rightarrow> db option" where
  "modify_user d usr f = do {
     h \<leftarrow> usr;
     u \<leftarrow> deref_user d usr;
     u' \<leftarrow> f u;
     m \<leftarrow> hashmap_write (imsi_map d) h u';
     Some (d\<lparr>imsi_map := m\<rparr>) }"

section \<open>PUSH items\<close>

definition push_copy :: "db \<Rightarrow> user_ptr \<Rightarrow> buf \<Rightarrow> nat \<Rightarrow> nat \<Rightarrow> nat \<Rightarrow> db option" where
  "push_copy d usr request offset dst n =
     modify_user d usr (\<lambda>u. memcpy u dst (drop (offset + 1) request) n)"

definition store_enb :: "db \<Rightarrow> buf \<Rightarrow> nat \<Rightarrow> db option" where
  "store_enb d request offset = do {
     new_enb \<leftarrow> create_enb (mallocs d 0) (drop (offset + 1) request) (drop (offset + 5) request);
     case new_enb of
       None \<Rightarrow> if mallocs d 1 \<and> mallocs d 2 then None
               else Some (drop_mallocs (if mallocs d 1 then 3 else 2) d)
     | Some e \<Rightarrow> do {
         (st, m) \<leftarrow> hashmap_add (eNBs d) e (mallocs d 1) (mallocs d 2);
         Some (drop_mallocs (if mallocs d 1 then 3 else 2) (d\<lparr>eNBs := m\<rparr>)) } }"

definition push_step :: "db \<Rightarrow> user_ptr \<Rightarrow> buf \<Rightarrow> nat \<Rightarrow> db option" where
  "push_step d usr request offset = do {
     b \<leftarrow> rd request offset;
     case item_of b of
       Some MME_UE_S1AP_ID \<Rightarrow> push_copy d usr request offset get_user_mme_ue_id MME_UE_S1AP_ID_LEN
     | Some ENB_UE_S1AP_ID \<Rightarrow> push_copy d usr request offset get_user_enb_ue_id ENB_UE_S1AP_ID_LEN
     | Some Target_ENB_UE_S1AP_ID \<Rightarrow>
         push_copy d usr request offset get_user_target_enb_ue_id ENB_UE_S1AP_ID_LEN
     | Some UE_TEID \<Rightarrow> push_copy d usr request offset get_user_ue_teid TEID_LEN
     | Some SPGW_IP \<Rightarrow> push_copy d usr request offset get_user_spgw_ip IP_LEN
     | Some ENB_IP \<Rightarrow> push_copy d usr request offset get_user_enb_ip IP_LEN
     | Some EPC_NAS_SEQUENCE_NUMBER \<Rightarrow> do {
         v \<leftarrow> rd request (offset + 6);
         modify_user d usr (\<lambda>u. set_user_epc_nas_sequence_number u v) }
     | Some UE_NAS_SEQUENCE_NUMBER \<Rightarrow> do {
         v \<leftarrow> rd request (offset + 6);
         modify_user d usr (\<lambda>u. set_user_ue_nas_sequence_number u v) }
     | Some NEXT_HOP_CHAINING_COUNT \<Rightarrow> do {
         v \<leftarrow> rd request (offset + 1);
         modify_user d usr (\<lambda>u. set_user_next_hop_chaining_count u v) }
     | Some AUTH_RES \<Rightarrow> push_copy d usr request offset get_user_auth_res AUTH_RES_LEN
     | Some ENC_KEY \<Rightarrow> push_copy d usr request offset get_user_enc_key KEY_LEN
     | Some INT_KEY \<Rightarrow> push_copy d usr request offset get_user_int_key KEY_LEN
     | Some KASME_1 \<Rightarrow> push_copy d usr request offset get_user_kasme1_key KEY_LEN
     | Some KASME_2 \<Rightarrow> push_copy d usr request offset get_user_kasme2_key KEY_LEN
     | Some KNH_1 \<Rightarrow> push_copy d usr request offset get_user_knh1_key KEY_LEN
     | Some KNH_2 \<Rightarrow> push_copy d usr request offset get_user_knh2_key KEY_LEN
     | Some ENB_SOURCE_SOCKET \<Rightarrow>
         push_copy d usr request offset get_user_enb_source_socket SOCKET_LEN
     | Some ENB_TARGET_SOCKET \<Rightarrow>
         push_copy d usr request offset get_user_enb_target_socket SOCKET_LEN
     | Some NEW_ENB \<Rightarrow> store_enb d request offset
     | _ \<Rightarrow> Some d }"

text \<open>The loop ends at the first 0 byte; it does not compare \<open>offset\<close> with \<open>request_len\<close>.\<close>

function push_loop :: "db \<Rightarrow> user_ptr \<Rightarrow> buf \<Rightarrow> nat \<Rightarrow> (db \<times> nat) option" where
  "push_loop d usr request offset =
     (case rd request offset of
        None \<Rightarrow> None
      | Some b \<Rightarrow>
          if b \<noteq> 0 then
            (case push_step d usr request offset of
               None \<Rightarrow> None
             | Some d' \<Rightarrow> push_loop d' usr request (offset + 17))
          else Some (d, offset))"
  by pat_completeness auto
termination
  by (relation "measure (\<lambda>(d, usr, request, offset). length request - offset)")
    (auto dest: rd_SomeD)

declare push_loop.simps [simp del]

section \<open>PULL items\<close>

definition pull_copy ::
  "db \<Rightarrow> user_ptr \<Rightarrow> buf \<Rightarrow> nat \<Rightarrow> item \<Rightarrow> nat \<Rightarrow> nat \<Rightarrow> (db \<times> buf \<times> nat) option" where
  "pull_copy d usr response res it src n = do {
     response \<leftarrow> wr response res (item_code it);
     u \<leftarrow> deref_user d usr;
     response \<leftarrow> memcpy response (res + 1) (drop src u) n;
     Some (d, response, 0) }"

text \<open>The one-byte counters: 16 zero bytes, the value at index \<open>at\<close>, then the stored value is
  incremented.\<close>

definition pull_counter ::
  "db \<Rightarrow> user_ptr \<Rightarrow> buf \<Rightarrow> nat \<Rightarrow> item \<Rightarrow> (UserInfo \<Rightarrow> byte option)
     \<Rightarrow> (UserInfo \<Rightarrow> byte \<Rightarrow> UserInfo option) \<Rightarrow> nat \<Rightarrow> (db \<times> buf \<times> nat) option" where
  "pull_counter d usr response res it getter setter at = do {
     response \<leftarrow> wr response res (item_code it);
     u \<leftarrow> deref_user d usr;
     tmp_nas \<leftarrow> getter u;
     response \<leftarrow> memset response (res + 1) 0 16;
     response \<leftarrow> wr response (res + at) tmp_nas;
     d \<leftarrow> modify_user d usr (\<lambda>u. setter u (tmp_nas + 1));
     Some (d, response, 0) }"

definition pull_get_enb ::
  "db \<Rightarrow> buf \<Rightarrow> nat \<Rightarrow> buf \<Rightarrow> nat \<Rightarrow> (db \<times> buf \<times> nat) option" where
  "pull_get_enb d request offset response res = do {
     response \<leftarrow> wr response res (item_code GET_ENB);
     eid \<leftarrow> ARRAY_TO_UINT32 request (offset + 1);
     enb \<leftarrow> hashmap_get (eNBs d) eid;
     response \<leftarrow> (case enb of
         None \<Rightarrow> Some response
       | Some e \<Rightarrow> memcpy response (res + 1) (enb_get_socket_number e) 4);
     Some (d, response, 4) }"

text \<open>
  One iteration of the pull loop; the number in the result is what the branch adds to \<open>offset\<close>
  before the common \<open>offset++\<close>.  The lengths are those the source passes to \<open>memcpy\<close>: for the three
  IP addresses it passes the item type and for the two sockets \<open>KEY_LEN\<close>.
\<close>

definition pull_step ::
  "db \<Rightarrow> user_ptr \<Rightarrow> buf \<Rightarrow> nat \<Rightarrow> buf \<Rightarrow> nat \<Rightarrow> (db \<times> buf \<times> nat) option" where
  "pull_step d usr request offset response res = do {
     b \<leftarrow> rd request offset;
     case item_of b of
       Some IMSI \<Rightarrow> do {
         (d, response, n) \<leftarrow> pull_copy d usr response res IMSI get_user_imsi IMSI_LEN;
         response \<leftarrow> wr response (res + 16) 0;
         Some (d, response, n) }
     | Some MSIN \<Rightarrow> pull_copy d usr response res MSIN get_user_msin MSIN_LEN
     | Some TMSI \<Rightarrow> pull_copy d usr response res TMSI get_user_tmsi TMSI_LEN
     | Some ENB_UE_S1AP_ID \<Rightarrow>
         pull_copy d usr response res ENB_UE_S1AP_ID get_user_enb_ue_id ENB_UE_S1AP_ID_LEN
     | Some Target_ENB_UE_S1AP_ID \<Rightarrow>
         pull_copy d usr response res Target_ENB_UE_S1AP_ID get_user_target_enb_ue_id ENB_UE_S1AP_ID_LEN
     | Some UE_TEID \<Rightarrow> pull_copy d usr response res UE_TEID get_user_ue_teid TEID_LEN
     | Some SPGW_IP \<Rightarrow>
         pull_copy d usr response res SPGW_IP get_user_spgw_ip (unat (item_code SPGW_IP))
     | Some ENB_IP \<Rightarrow>
         pull_copy d usr response res ENB_IP get_user_enb_ip (unat (item_code ENB_IP))
     | Some PDN_IP \<Rightarrow>
         pull_copy d usr response res PDN_IP get_user_pdn_ipv4 (unat (item_code PDN_IP))
     | Some EPC_NAS_SEQUENCE_NUMBER \<Rightarrow>
         pull_counter d usr response res EPC_NAS_SEQUENCE_NUMBER
           get_user_epc_nas_sequence_number set_user_epc_nas_sequence_number 6
     | Some UE_NAS_SEQUENCE_NUMBER \<Rightarrow>
         pull_counter d usr response res UE_NAS_SEQUENCE_NUMBER
           get_user_ue_nas_sequence_number set_user_ue_nas_sequence_number 1
     | Some UE_NAS_SEQUENCE_NUMBER_NO_INC \<Rightarrow> do {
         response \<leftarrow> wr response res (item_code UE_NAS_SEQUENCE_NUMBER);
         response \<leftarrow> memset response (res + 1) 0 16;
         u \<leftarrow> deref_user d usr;
         v \<leftarrow> get_user_ue_nas_sequence_number u;
         response \<leftarrow> wr response (res + 1) v;
         Some (d, response, 0) }
     | Some NEXT_HOP_CHAINING_COUNT \<Rightarrow>
         pull_counter d usr response res NEXT_HOP_CHAINING_COUNT
           get_user_next_hop_chaining_count set_user_next_hop_chaining_count 1
     | Some KEY \<Rightarrow> pull_copy d usr response res KEY get_user_key KEY_LEN
     | Some OPC \<Rightarrow> pull_copy d usr response res OPC get_user_opc KEY_LEN
     | Some RAND \<Rightarrow> pull_copy d usr response res RAND get_user_rand RAND_LEN
     | Some RAND_UPDATE \<Rightarrow> do {
         (d, response, n) \<leftarrow> pull_copy d usr response res RAND_UPDATE get_user_rand RAND_LEN;
         d' \<leftarrow> modify_user d usr
                (\<lambda>u. generate_rand u (rands d 0) (rands d 1) (rands d 2) (rands d 3));
         Some (drop_rands 4 d', response, n) }
     | Some MME_UE_S1AP_ID \<Rightarrow>
         pull_copy d usr response res MME_UE_S1AP_ID get_user_mme_ue_id MME_UE_S1AP_ID_LEN
     | Some EPC_TEID \<Rightarrow> pull_copy d usr response res EPC_TEID get_user_epc_teid TEID_LEN
     | Some AUTH_RES \<Rightarrow> pull_copy d usr response res AUTH_RES get_user_auth_res AUTH_RES_LEN
     | Some ENC_KEY \<Rightarrow> pull_copy d usr response res ENC_KEY get_user_enc_key KEY_LEN
     | Some INT_KEY \<Rightarrow> pull_copy d usr response res INT_KEY get_user_int_key KEY_LEN
     | Some KASME_1 \<Rightarrow> pull_copy d usr response res KASME_1 get_user_kasme1_key KEY_LEN
     | Some KASME_2 \<Rightarrow> pull_copy d usr response res KASME_2 get_user_kasme2_key KEY_LEN
     | Some KNH_1 \<Rightarrow> pull_copy d usr response res KNH_1 get_user_knh1_key KEY_LEN
     | Some KNH_2 \<Rightarrow> pull_copy d usr response res KNH_2 get_user_knh2_key KEY_LEN
     | Some ENB_SOURCE_SOCKET \<Rightarrow>
         pull_copy d usr response res ENB_SOURCE_SOCKET get_user_enb_source_socket KEY_LEN
     | Some ENB_TARGET_SOCKET \<Rightarrow>
         pull_copy d usr response res ENB_TARGET_SOCKET get_user_enb_target_socket KEY_LEN
     | Some GET_ENB \<Rightarrow> pull_get_enb d request offset response res
     | _ \<Rightarrow> Some (d, response, 0) }"

function pull_loop ::
  "db \<Rightarrow> user_ptr \<Rightarrow> buf \<Rightarrow> nat \<Rightarrow> nat \<Rightarrow> buf \<Rightarrow> nat \<Rightarrow> (db \<times> buf \<times> nat \<times> nat) option" where
  "pull_loop d usr request request_len offset response res =
     (if offset < request_len then
        (case rd request offset of
           None \<Rightarrow> None
         | Some b \<Rightarrow>
             if b \<noteq> item_code EOM then
               (case pull_step d usr request offset response res of
                  None \<Rightarrow> None
                | Some (d', response', n) \<Rightarrow>
                    pull_loop d' usr request request_len (offset + n + 1) response' (res + 17))
             else Some (d, response, offset, res))
      else Some (d, response, offset, res))"
  by pat_completeness auto
termination
  by (relation "measure (\<lambda>(d, usr, request, request_len, offset, response, res). request_len - offset)")
    auto

declare pull_loop.simps [simp del]

section \<open>Requests\<close>

text \<open>The scan of the two error branches: the position behind the first EOM byte from \<open>i\<close> on.\<close>

function skip_to_EOM :: "buf \<Rightarrow> nat \<Rightarrow> nat \<Rightarrow> nat option" where
  "skip_to_EOM request request_len i =
     (if i < request_len then
        (case rd request i of
           None \<Rightarrow> None
         | Some b \<Rightarrow> if b = item_code EOM then Some (i + 1) else skip_to_EOM request request_len (i + 1))
      else Some (i + 1))"
  by pat_completeness auto
termination by (relation "measure (\<lambda>(request, request_len, i). request_len - i)") auto

declare skip_to_EOM.simps [simp del]

record answer =
  ans_db :: db
  ans_response :: buf
  ans_response_len :: nat
  ans_consumed :: nat

definition reject_request :: "db \<Rightarrow> buf \<Rightarrow> nat \<Rightarrow> buf \<Rightarrow> answer option" where
  "reject_request d request request_len response = do {
     i \<leftarrow> skip_to_EOM request request_len 1;
     response \<leftarrow> wr response 0 0;
     Some \<lparr>ans_db = d, ans_response = response, ans_response_len = 1, ans_consumed = i\<rparr> }"

definition run_items :: "db \<Rightarrow> user_ptr \<Rightarrow> buf \<Rightarrow> nat \<Rightarrow> buf \<Rightarrow> answer option" where
  "run_items d usr request request_len response = do {
     (d, offset) \<leftarrow> push_loop d usr request 17;
     (d, response, offset, res) \<leftarrow> pull_loop d usr request request_len (offset + 1) response 0;
     Some \<lparr>ans_db = d, ans_response = response, ans_response_len = res, ans_consumed = offset + 1\<rparr> }"

definition lookup_and_run :: "db \<Rightarrow> u32 option \<Rightarrow> buf \<Rightarrow> nat \<Rightarrow> buf \<Rightarrow> answer option" where
  "lookup_and_run d hash request request_len response = do {
     h \<leftarrow> hash;
     user \<leftarrow> hashmap_get (imsi_map d) h;
     if user = None then reject_request d request request_len response
     else run_items d (Some h) request request_len response }"

definition analyze_request :: "db \<Rightarrow> buf \<Rightarrow> nat \<Rightarrow> buf \<Rightarrow> answer option" where
  "analyze_request d request request_len response = do {
     b \<leftarrow> rd request 0;
     case item_of b of
       Some IMSI \<Rightarrow> lookup_and_run d (hash_imsi (drop 1 request)) request request_len response
     | Some MSIN \<Rightarrow> lookup_and_run d (hash_msin (drop 1 request)) request request_len response
     | Some TMSI \<Rightarrow> lookup_and_run d (hash_tmsi (drop 1 request)) request request_len response
     | Some MME_UE_S1AP_ID \<Rightarrow>
         lookup_and_run d (hash_mme_ue_s1ap_id (drop 1 request)) request request_len response
     | Some NEW_ENB \<Rightarrow> run_items d None request request_len response
     | _ \<Rightarrow> reject_request d request request_len response }"

section \<open>Connections\<close>

text \<open>Every request moves the read position forward, so the loop over one \<open>recv\<close> ends.\<close>

lemma skip_to_EOM_gt: "skip_to_EOM request n i = Some j \<Longrightarrow> i < j"
proof (induction request n i rule: skip_to_EOM.induct)
  case (1 request n i)
  show ?case
    using 1 by (subst (asm) (2) skip_to_EOM.simps) (fastforce split: if_splits option.splits)
qed

lemma reject_consumed: "reject_request d request n response = Some a \<Longrightarrow> 0 < ans_consumed a"
  by (auto simp: reject_request_def dest: skip_to_EOM_gt split: Option.bind_splits)

lemma run_items_consumed: "run_items d usr request n response = Some a \<Longrightarrow> 0 < ans_consumed a"
  by (auto simp: run_items_def split: Option.bind_splits prod.splits)

lemma lookup_and_run_consumed:
  "lookup_and_run d h request n response = Some a \<Longrightarrow> 0 < ans_consumed a"
  by (auto simp: lookup_and_run_def dest: reject_consumed run_items_consumed
      split: Option.bind_splits if_splits)

lemmas consumed_rules = reject_consumed run_items_consumed lookup_and_run_consumed

lemma analyze_request_consumed:
  "analyze_request d request n response = Some a \<Longrightarrow> 0 < ans_consumed a"
  by (auto simp: analyze_request_def dest: consumed_rules
      split: Option.bind_splits option.splits item.splits)

text \<open>
  The thread that serves one client.  \<open>sends\<close> are the outcomes of the \<open>send\<close> calls to come, \<open>sent\<close>
  the messages handed to \<open>send\<close> so far.
\<close>

record conn =
  c_db :: db
  c_request :: buf
  c_response :: buf
  c_sends :: "nat \<Rightarrow> bool"
  c_sent :: "byte list list"

datatype conn_state = Open | Closed

definition send_response :: "conn \<Rightarrow> nat \<Rightarrow> (conn \<times> conn_state) option" where
  "send_response c response_len =
     (if 0 < response_len then do {
        msg \<leftarrow> rdn (c_response c) 0 response_len;
        let c' = c\<lparr>c_sends := (\<lambda>i. c_sends c (i + 1)), c_sent := c_sent c @ [msg]\<rparr>;
        Some (c', if c_sends c 0 then Open else Closed) }
      else Some (c, Open))"

function multi_pkt_loop :: "conn \<Rightarrow> nat \<Rightarrow> nat \<Rightarrow> (conn \<times> conn_state) option" where
  "multi_pkt_loop c multi_pkt request_len =
     (if multi_pkt < request_len then
        (case analyze_request (c_db c) (drop multi_pkt (c_request c)) (request_len - multi_pkt)
                (c_response c) of
           None \<Rightarrow> None
         | Some a \<Rightarrow>
             (case send_response (c\<lparr>c_db := ans_db a, c_response := ans_response a\<rparr>) (ans_response_len a) of
                None \<Rightarrow> None
              | Some (c', Closed) \<Rightarrow> Some (c', Closed)
              | Some (c', Open) \<Rightarrow> multi_pkt_loop c' (multi_pkt + ans_consumed a) request_len))
      else Some (c, Open))"
  by pat_completeness auto
termination
  by (relation "measure (\<lambda>(c, multi_pkt, request_len). request_len - multi_pkt)")
    (auto dest!: analyze_request_consumed)

declare multi_pkt_loop.simps [simp del]

text \<open>
  What \<open>recv\<close> delivers: an error (-1), the end of the stream (0) or some bytes, which replace the
  beginning of the receive array.  After an error the inner loop runs zero times and the thread
  calls \<open>recv\<close> again.
\<close>

datatype recv_result = Recv_error | Recv_closed | Recv_data "byte list"

fun attend_request :: "conn \<Rightarrow> recv_result list \<Rightarrow> (conn \<times> conn_state) option" where
  "attend_request c [] = Some (c, Open)"
| "attend_request c (Recv_error # rs) = attend_request c rs"
| "attend_request c (Recv_closed # rs) = Some (c, Closed)"
| "attend_request c (Recv_data bs # rs) = do {
     request \<leftarrow> wrn (c_request c) 0 bs;
     (c, st) \<leftarrow> multi_pkt_loop (c\<lparr>c_request := request\<rparr>) 0 (length bs);
     case st of Closed \<Rightarrow> Some (c, Closed) | Open \<Rightarrow> attend_request c rs }"

end
