(* ===== verification/Protocol.thy ===== *)
theory Protocol
  imports Server
begin

text \<open>
  What the database promises, as an abstract machine, and the proof that \<open>analyze_request\<close>
  implements it.  A request is a value of type \<open>request\<close>, its layout on the wire is \<open>encode\<close>.  The
  abstract state maps keys to subscriber records and eNB identifiers to sockets.  The refinement
  theorem says that the server, given the bytes of a request followed by anything, consumes exactly
  these bytes, stays inside its buffers, ends in the state of the specification and leaves the
  answers of the specification in the response buffer.
\<close>

section \<open>Requests\<close>

datatype pull = Pull item | Pull_enb "byte list"

record request =
  rq_id :: item
  rq_val :: "byte list"
  rq_pushes :: "(item \<times> byte list) list"
  rq_pulls :: "pull list"

fun encode_push :: "item \<times> byte list \<Rightarrow> byte list" where
  "encode_push (it, v) = item_code it # v"

fun encode_pull :: "pull \<Rightarrow> byte list" where
  "encode_pull (Pull it) = [item_code it]"
| "encode_pull (Pull_enb e) = item_code GET_ENB # e"

definition encode_pulls :: "pull list \<Rightarrow> byte list" where
  "encode_pulls ps = concat (map encode_pull ps) @ [item_code EOM]"

definition encode :: "request \<Rightarrow> byte list" where
  "encode r = item_code (rq_id r) # rq_val r @ concat (map encode_push (rq_pushes r)) @ 0 #
              encode_pulls (rq_pulls r)"

fun wf_pull :: "pull \<Rightarrow> bool" where
  "wf_pull (Pull it) \<longleftrightarrow> it \<noteq> EOM \<and> it \<noteq> GET_ENB"
| "wf_pull (Pull_enb e) \<longleftrightarrow> length e = 4"

definition wf_request :: "request \<Rightarrow> bool" where
  "wf_request r \<longleftrightarrow> length (rq_val r) = 16 \<and> (\<forall>(it, v) \<in> set (rq_pushes r). length v = 16) \<and>
     (\<forall>p \<in> set (rq_pulls r). wf_pull p)"

section \<open>The abstract database\<close>

record adb =
  users :: "u32 \<rightharpoonup> UserInfo"
  enbs :: "u32 \<rightharpoonup> byte list"
  arands :: "nat \<Rightarrow> u32"

definition abs_db :: "db \<Rightarrow> adb" where
  "abs_db d = \<lparr>users = (\<lambda>h. Option.bind (hashmap_get (imsi_map d) h) (\<lambda>r. r)),
               enbs = (\<lambda>i. map_option sock_num (Option.bind (hashmap_get (eNBs d) i) (\<lambda>r. r))),
               arands = rands d\<rparr>"

text \<open>The member that a pushed item replaces, and the bytes of the 16-byte payload it takes.\<close>

fun push_target :: "item \<Rightarrow> ufield option" where
  "push_target MME_UE_S1AP_ID = Some F_mme_ue_s1ap_id"
| "push_target ENB_UE_S1AP_ID = Some F_enb_ue_s1ap_id"
| "push_target Target_ENB_UE_S1AP_ID = Some F_target_enb_ue_s1ap_id"
| "push_target UE_TEID = Some F_ue_teid"
| "push_target SPGW_IP = Some F_spgw_ip"
| "push_target ENB_IP = Some F_enb_ip"
| "push_target EPC_NAS_SEQUENCE_NUMBER = Some F_epc_nas_sequence_number"
| "push_target UE_NAS_SEQUENCE_NUMBER = Some F_ue_nas_sequence_number"
| "push_target NEXT_HOP_CHAINING_COUNT = Some F_next_hop_chaining_count"
| "push_target AUTH_RES = Some F_auth_res"
| "push_target ENC_KEY = Some F_enc_key"
| "push_target INT_KEY = Some F_int_key"
| "push_target KASME_1 = Some F_kasme1"
| "push_target KASME_2 = Some F_kasme2"
| "push_target KNH_1 = Some F_knh1"
| "push_target KNH_2 = Some F_knh2"
| "push_target ENB_SOURCE_SOCKET = Some F_enb_source_socket"
| "push_target ENB_TARGET_SOCKET = Some F_enb_target_socket"
| "push_target _ = None"

definition pushed_value :: "ufield \<Rightarrow> byte list \<Rightarrow> byte list" where
  "pushed_value f v =
     (if f = F_epc_nas_sequence_number \<or> f = F_ue_nas_sequence_number then [v ! 5]
      else take (fsize f) v)"

definition apply_push :: "UserInfo \<Rightarrow> item \<times> byte list \<Rightarrow> UserInfo" where
  "apply_push u p =
     (case push_target (fst p) of
        None \<Rightarrow> u
      | Some f \<Rightarrow> set_fld u f (pushed_value f (snd p)))"

definition be32_of :: "byte list \<Rightarrow> u32" where
  "be32_of v = be32 (v ! 0) (v ! 1) (v ! 2) (v ! 3)"

text \<open>Storing an eNB that is already known keeps the old socket.\<close>

definition spec_push :: "u32 option \<Rightarrow> adb \<Rightarrow> item \<times> byte list \<Rightarrow> adb" where
  "spec_push usr s p =
     (if fst p = NEW_ENB then
        (let i = be32_of (snd p) in
         if enbs s i = None then s\<lparr>enbs := (enbs s)(i \<mapsto> take 4 (drop 4 (snd p)))\<rparr> else s)
      else case usr of
        None \<Rightarrow> s
      | Some h \<Rightarrow> s\<lparr>users := (users s)(h \<mapsto> apply_push (the (users s h)) p)\<rparr>)"

text \<open>The range of the record that a pull copies.\<close>

fun pull_source :: "item \<Rightarrow> (nat \<times> nat) option" where
  "pull_source IMSI = Some (offsetof F_imsi, 16)"
| "pull_source MSIN = Some (offsetof F_imsi + 5, 11)"
| "pull_source TMSI = Some (offsetof F_tmsi, 4)"
| "pull_source ENB_UE_S1AP_ID = Some (offsetof F_enb_ue_s1ap_id, 4)"
| "pull_source Target_ENB_UE_S1AP_ID = Some (offsetof F_target_enb_ue_s1ap_id, 4)"
| "pull_source UE_TEID = Some (offsetof F_ue_teid, 4)"
| "pull_source SPGW_IP = Some (offsetof F_spgw_ip, 7)"
| "pull_source ENB_IP = Some (offsetof F_enb_ip, 8)"
| "pull_source PDN_IP = Some (offsetof F_pdn_ipv4, 9)"
| "pull_source KEY = Some (offsetof F_key, 16)"
| "pull_source OPC = Some (offsetof F_opc, 16)"
| "pull_source RAND = Some (offsetof F_rand, 16)"
| "pull_source RAND_UPDATE = Some (offsetof F_rand, 16)"
| "pull_source MME_UE_S1AP_ID = Some (offsetof F_mme_ue_s1ap_id, 4)"
| "pull_source EPC_TEID = Some (offsetof F_epc_teid, 4)"
| "pull_source AUTH_RES = Some (offsetof F_auth_res, 8)"
| "pull_source ENC_KEY = Some (offsetof F_enc_key, 16)"
| "pull_source INT_KEY = Some (offsetof F_int_key, 16)"
| "pull_source KASME_1 = Some (offsetof F_kasme1, 16)"
| "pull_source KASME_2 = Some (offsetof F_kasme2, 16)"
| "pull_source KNH_1 = Some (offsetof F_knh1, 16)"
| "pull_source KNH_2 = Some (offsetof F_knh2, 16)"
| "pull_source _ = None"

text \<open>The counters: the member and the position of its value among the 16 bytes of the answer.\<close>

fun pull_count :: "item \<Rightarrow> (ufield \<times> nat) option" where
  "pull_count EPC_NAS_SEQUENCE_NUMBER = Some (F_epc_nas_sequence_number, 5)"
| "pull_count UE_NAS_SEQUENCE_NUMBER = Some (F_ue_nas_sequence_number, 0)"
| "pull_count NEXT_HOP_CHAINING_COUNT = Some (F_next_hop_chaining_count, 0)"
| "pull_count _ = None"

definition counter_bytes :: "nat \<Rightarrow> byte \<Rightarrow> byte list" where
  "counter_bytes k v = (replicate 16 0)[k := v]"

definition user_answer :: "UserInfo \<Rightarrow> item \<Rightarrow> byte list" where
  "user_answer u it =
     (case pull_source it of
        Some (off, n) \<Rightarrow> item_code it # take n (drop off u)
      | None \<Rightarrow>
          (case pull_count it of
             Some (f, k) \<Rightarrow> item_code it # counter_bytes k (hd (fld u f))
           | None \<Rightarrow>
               if it = UE_NAS_SEQUENCE_NUMBER_NO_INC
               then item_code UE_NAS_SEQUENCE_NUMBER # counter_bytes 0 (hd (fld u F_ue_nas_sequence_number))
               else []))"

definition user_after :: "(nat \<Rightarrow> u32) \<Rightarrow> UserInfo \<Rightarrow> item \<Rightarrow> UserInfo" where
  "user_after rnd u it =
     (if it = RAND_UPDATE then
        set_fld u F_rand (UINT32_TO_ARRAY (rnd 0) @ UINT32_TO_ARRAY (rnd 1) @
                          UINT32_TO_ARRAY (rnd 2) @ UINT32_TO_ARRAY (rnd 3))
      else case pull_count it of
             Some (f, k) \<Rightarrow> set_fld u f [hd (fld u f) + 1]
           | None \<Rightarrow> u)"

fun spec_answer :: "u32 option \<Rightarrow> adb \<Rightarrow> pull \<Rightarrow> byte list" where
  "spec_answer usr s (Pull it) =
     (case usr of None \<Rightarrow> [] | Some h \<Rightarrow> user_answer (the (users s h)) it)"
| "spec_answer usr s (Pull_enb e) =
     item_code GET_ENB # (case enbs s (be32_of e) of None \<Rightarrow> [] | Some sock \<Rightarrow> sock)"

fun spec_pull :: "u32 option \<Rightarrow> adb \<Rightarrow> pull \<Rightarrow> adb" where
  "spec_pull usr s (Pull it) =
     (case usr of
        None \<Rightarrow> s
      | Some h \<Rightarrow>
          let s' = s\<lparr>users := (users s)(h \<mapsto> user_after (arands s) (the (users s h)) it)\<rparr>
          in if it = RAND_UPDATE then s'\<lparr>arands := (\<lambda>i. arands s (i + 4))\<rparr> else s')"
| "spec_pull usr s (Pull_enb e) = s"

text \<open>Answer number \<open>k\<close> overwrites the response from byte \<open>17 * k\<close> on.\<close>

definition overlay :: "buf \<Rightarrow> nat \<Rightarrow> byte list \<Rightarrow> buf" where
  "overlay b i v = take i b @ v @ drop (i + length v) b"

fun spec_answers :: "u32 option \<Rightarrow> adb \<Rightarrow> pull list \<Rightarrow> buf \<Rightarrow> nat \<Rightarrow> buf" where
  "spec_answers usr s [] response res = response"
| "spec_answers usr s (p # ps) response res =
     spec_answers usr (spec_pull usr s p) ps (overlay response res (spec_answer usr s p)) (res + 17)"

definition serve :: "u32 option \<Rightarrow> adb \<Rightarrow> request \<Rightarrow> adb" where
  "serve usr s r = foldl (spec_pull usr) (foldl (spec_push usr) s (rq_pushes r)) (rq_pulls r)"

definition serve_answer :: "u32 option \<Rightarrow> adb \<Rightarrow> request \<Rightarrow> buf \<Rightarrow> buf" where
  "serve_answer usr s r response =
     spec_answers usr (foldl (spec_push usr) s (rq_pushes r)) (rq_pulls r) response 0"

section \<open>Well-formed databases\<close>

definition wf_db :: "db \<Rightarrow> bool" where
  "wf_db d \<longleftrightarrow>
     wf_hashmap (imsi_map d) \<and> hash_fn (imsi_map d) = hash_imsi_user_info \<and>
     (\<forall>h u. hashmap_get (imsi_map d) h = Some (Some u) \<longrightarrow> wf_user u) \<and>
     wf_hashmap (eNBs d) \<and> hash_fn (eNBs d) = hash_enb_info \<and>
     (\<forall>i e. hashmap_get (eNBs d) i = Some (Some e) \<longrightarrow> length (sock_num e) = 4)"

definition alloc_ok :: "db \<Rightarrow> bool" where
  "alloc_ok d \<longleftrightarrow> (\<forall>i. mallocs d i)"

lemma users_abs: "users (abs_db d) h = Some u \<longleftrightarrow> hashmap_get (imsi_map d) h = Some (Some u)"
  by (auto simp: abs_db_def split: Option.bind_splits)

lemma enbs_abs:
  "enbs (abs_db d) i = map_option sock_num (Option.bind (hashmap_get (eNBs d) i) (\<lambda>r. r))"
  by (simp add: abs_db_def)

lemma arands_abs: "arands (abs_db d) = rands d"
  by (simp add: abs_db_def)

lemma deref_user_abs: "deref_user d (Some h) = users (abs_db d) h"
  by (simp add: deref_user_def abs_db_def)

lemma wf_db_user:
  assumes "wf_db d" and "users (abs_db d) h = Some u"
  shows "wf_user u" and "hash_imsi_user_info u = h"
  using assms hm.get_key [of "imsi_map d" h u] by (auto simp: wf_db_def users_abs)

text \<open>A write through the \<open>user\<close> pointer that keeps the key is an update of the abstract map.\<close>

lemma modify_user_refines:
  assumes wf: "wf_db d" and u: "users (abs_db d) h = Some u"
    and f: "f u = Some u'" and wu: "wf_user u'" and k: "hash_imsi_user_info u' = h"
  obtains d' where "modify_user d (Some h) f = Some d'" and "wf_db d'"
    and "abs_db d' = (abs_db d)\<lparr>users := (users (abs_db d))(h \<mapsto> u')\<rparr>"
    and "mallocs d' = mallocs d"
proof -
  from wf have wm: "wf_hashmap (imsi_map d)" and hf: "hash_fn (imsi_map d) u' = h"
    using k by (simp_all add: wf_db_def)
  obtain m where m: "hashmap_write (imsi_map d) h u' = Some m" "wf_hashmap m"
    "hash_fn m = hash_fn (imsi_map d)"
    "\<forall>h'. hashmap_get m h' = (if h' = h then Some (Some u') else hashmap_get (imsi_map d) h')"
    using hashmap_write_spec [OF wm _ hf] u by (auto simp: users_abs)
  have "modify_user d (Some h) f = Some (d\<lparr>imsi_map := m\<rparr>)"
    using u f m(1) by (simp add: modify_user_def deref_user_abs)
  moreover have "wf_db (d\<lparr>imsi_map := m\<rparr>)"
    using wf m wu by (auto simp: wf_db_def split: if_splits)
  moreover have "abs_db (d\<lparr>imsi_map := m\<rparr>) = (abs_db d)\<lparr>users := (users (abs_db d))(h \<mapsto> u')\<rparr>"
    using m(4) by (auto simp: abs_db_def)
  ultimately show thesis by (rule that) simp
qed

lemma modify_user_set_fld:
  assumes wf: "wf_db d" and u: "users (abs_db d) h = Some u" and g: "g u = Some (set_fld u f v)"
    and len: "length v = fsize f" and ni: "f \<noteq> F_imsi"
  shows "\<exists>d'. modify_user d (Some h) g = Some d' \<and> wf_db d' \<and> mallocs d' = mallocs d \<and>
     abs_db d' = (abs_db d)\<lparr>users := (users (abs_db d))(h \<mapsto> set_fld u f v)\<rparr>"
proof -
  note wu = wf_db_user(1) [OF wf u]
  have k: "hash_imsi_user_info (set_fld u f v) = h" using wf_db_user [OF wf u] len ni by simp
  show ?thesis
    by (rule modify_user_refines [where f = g, OF wf u g wf_set_fld [OF wu len ni] k]) blast
qed

section \<open>PUSH items implement the specification\<close>

lemma length_pushed_value: "length v = 16 \<Longrightarrow> length (pushed_value f v) = fsize f"
  by (cases f) (simp_all add: pushed_value_def)

lemma push_target_not_imsi: "push_target it = Some f \<Longrightarrow> f \<noteq> F_imsi"
  by (cases it) auto

lemma push_step_field:
  assumes "push_target it = Some f" and "length v = 16" and "length pre = offset"
    and "request = pre @ item_code it # v @ post"
  obtains g where "push_step d usr request offset = modify_user d usr g"
    and "\<And>u. wf_user u \<Longrightarrow> g u = Some (set_fld u f (pushed_value f v))"
proof -
  from assms(2-4) have b: "rd request offset = Some (item_code it)"
    and dr: "drop (offset + 1) request = v @ post"
    and r6: "rd request (offset + 6) = Some (v ! 5)" and r1: "rd request (offset + 1) = Some (v ! 0)"
    by (simp_all add: mem_simps)
  have v0: "take 1 v = [v ! 0]" using assms(2) by (cases v) simp_all
  have cp: "push_copy d usr request offset (offsetof f) (fsize f) =
      modify_user d usr (\<lambda>u. memcpy u (offsetof f) (v @ post) (fsize f))"
    unfolding push_copy_def dr ..
  have mc: "memcpy u (offsetof f) (v @ post) (fsize f) = Some (set_fld u f (take (fsize f) v))"
    if "wf_user u" "fsize f \<le> 16" for u
    using that assms(2) by (subst memcpy_set_fld) simp_all
  show thesis
  proof (cases "f = F_epc_nas_sequence_number \<or> f = F_ue_nas_sequence_number \<or> f = F_next_hop_chaining_count")
    case True
    have "push_step d usr request offset =
      modify_user d usr (\<lambda>u. wr u (offsetof f) (hd (pushed_value f v)))"
      using True assms(1) b r6 r1 v0
      by (cases it) (auto simp: push_step_def pushed_value_def set_user_epc_nas_sequence_number_def
          set_user_ue_nas_sequence_number_def set_user_next_hop_chaining_count_def)
    then show thesis
      by (rule that) (use True v0 in \<open>auto simp: wr_set_fld pushed_value_def\<close>)
  next
    case False
    have "push_step d usr request offset = push_copy d usr request offset (offsetof f) (fsize f)"
      using False assms(1) b by (cases it) (auto simp: push_step_def getter_offsets)
    then show thesis unfolding cp
      by (rule that) (use False mc in \<open>cases f; simp add: pushed_value_def\<close>)
  qed
qed

lemma push_step_other:
  assumes "push_target it = None" and "it \<noteq> NEW_ENB" and "rd request offset = Some (item_code it)"
  shows "push_step d usr request offset = Some d"
  using assms by (cases it) (simp_all add: push_step_def)

lemma store_enb_refines:
  assumes wf: "wf_db d" and al: "alloc_ok d" and v: "length v = 16" and "length pre = offset"
    and "request = pre @ b # v @ post"
  obtains d' where "store_enb d request offset = Some d'" and "wf_db d'" and "alloc_ok d'"
    and "abs_db d' = spec_push usr (abs_db d) (NEW_ENB, v)"
proof -
  let ?e = "\<lparr>enb_id = be32_of v, sock_num = take 4 (drop 4 v)\<rparr>"
  from assms(3-5) have dr: "drop (offset + 1) request = v @ post" "drop (offset + 5) request = drop 4 v @ post"
    by simp_all
  have c: "create_enb (mallocs d 0) (v @ post) (drop 4 v @ post) = Some (Some ?e)"
    using al v by (simp add: create_enb_def alloc_ok_def ARRAY_TO_UINT32_def rd_def rdn_def
        be32_of_def nth_append numeral_2_eq_2)
  from wf have we: "wf_hashmap (eNBs d)" and hf: "hash_fn (eNBs d) = hash_enb_info"
    by (simp_all add: wf_db_def)
  obtain st m where m: "hashmap_add (eNBs d) ?e True True = Some (st, m)" "wf_hashmap m"
    "hash_fn m = hash_fn (eNBs d)"
    "\<forall>h. hashmap_get m h = (if h = hash_fn (eNBs d) ?e \<and> hashmap_get (eNBs d) h = Some None
                              then Some (Some ?e) else hashmap_get (eNBs d) h)"
    using hm.add_law [OF we, of ?e] by blast
  let ?d = "drop_mallocs 3 (d\<lparr>eNBs := m\<rparr>)"
  have "store_enb d request offset = Some ?d"
    unfolding store_enb_def dr using c m(1) al by (simp add: alloc_ok_def)
  moreover have "wf_db ?d"
    using wf m v by (auto simp: wf_db_def drop_mallocs_def split: if_splits)
  moreover have "alloc_ok ?d" using al by (simp add: alloc_ok_def drop_mallocs_def)
  moreover have "abs_db ?d = spec_push usr (abs_db d) (NEW_ENB, v)"
    using m(4) hm.get_total [OF we, of "be32_of v"]
    by (auto simp: abs_db_def drop_mallocs_def spec_push_def hf hash_enb_info_def Let_def intro!: ext)
  ultimately show thesis by (rule that)
qed

lemma push_step_refines:
  assumes wf: "wf_db d" and al: "alloc_ok d" and u: "users (abs_db d) h = Some u"
    and v: "length v = 16" and pre: "length pre = offset"
    and req: "request = pre @ item_code it # v @ post"
  obtains d' where "push_step d (Some h) request offset = Some d'" and "wf_db d'" and "alloc_ok d'"
    and "abs_db d' = spec_push (Some h) (abs_db d) (it, v)"
proof -
  have b: "rd request offset = Some (item_code it)" using pre req by (simp add: mem_simps)
  show thesis
  proof (cases "push_target it")
    case (Some f)
    obtain g where g: "push_step d (Some h) request offset = modify_user d (Some h) g"
      "\<And>u. wf_user u \<Longrightarrow> g u = Some (set_fld u f (pushed_value f v))"
      by (rule push_step_field [OF Some v pre req, of d "Some h"]) (rule that)
    have ne: "it \<noteq> NEW_ENB" using Some by auto
    obtain d' where "modify_user d (Some h) g = Some d'" "wf_db d'" "mallocs d' = mallocs d"
      "abs_db d' = (abs_db d)\<lparr>users := (users (abs_db d))(h \<mapsto> set_fld u f (pushed_value f v))\<rparr>"
      using modify_user_set_fld [where g = g, OF wf u g(2) [OF wf_db_user(1) [OF wf u]]
        length_pushed_value [OF v] push_target_not_imsi [OF Some]] by blast
    with g(1) al u ne Some show thesis
      by (intro that) (simp_all add: alloc_ok_def spec_push_def apply_push_def)
  next
    case None
    show thesis
    proof (cases "it = NEW_ENB")
      case True
      then have "push_step d (Some h) request offset = store_enb d request offset"
        using b by (simp add: push_step_def)
      with store_enb_refines [OF wf al v pre req, of "Some h"] True that show thesis by metis
    next
      case False
      with push_step_other [OF None _ b] None wf al u show thesis
        by (intro that [of d]) (simp_all add: spec_push_def apply_push_def map_upd_triv)
    qed
  qed
qed

text \<open>
  A request that stores an eNB has no user: its items must not touch the user record.
\<close>

definition ptr_ok :: "adb \<Rightarrow> u32 option \<Rightarrow> bool" where
  "ptr_ok s usr \<longleftrightarrow> (case usr of None \<Rightarrow> True | Some h \<Rightarrow> users s h \<noteq> None)"

definition push_allowed :: "u32 option \<Rightarrow> item \<times> byte list \<Rightarrow> bool" where
  "push_allowed usr p \<longleftrightarrow> length (snd p) = 16 \<and> (usr \<noteq> None \<or> push_target (fst p) = None)"

lemma ptr_ok_spec_push [simp]: "ptr_ok s usr \<Longrightarrow> ptr_ok (spec_push usr s p) usr"
  by (auto simp: ptr_ok_def spec_push_def Let_def split: option.splits)

lemma push_step_refines_ptr:
  assumes wf: "wf_db d" and al: "alloc_ok d" and ptr: "ptr_ok (abs_db d) usr"
    and p: "push_allowed usr (it, v)" and pre: "length pre = offset"
    and req: "request = pre @ item_code it # v @ post"
  shows "\<exists>d'. push_step d usr request offset = Some d' \<and> wf_db d' \<and> alloc_ok d' \<and>
              abs_db d' = spec_push usr (abs_db d) (it, v)"
proof (cases usr)
  case (Some h)
  with ptr obtain u where u: "users (abs_db d) h = Some u" by (auto simp: ptr_ok_def)
  show ?thesis
    unfolding Some using p
    by (auto simp: push_allowed_def intro: push_step_refines [OF wf al u _ pre req])
next
  case None
  have b: "rd request offset = Some (item_code it)" using pre req by (simp add: mem_simps)
  from p None have t: "push_target it = None" and v: "length v = 16" by (simp_all add: push_allowed_def)
  show ?thesis
  proof (cases "it = NEW_ENB")
    case True
    then have "push_step d usr request offset = store_enb d request offset"
      using b by (simp add: push_step_def)
    then show ?thesis
      using True by (auto intro: store_enb_refines [OF wf al v pre req, of usr])
  next
    case False
    with push_step_other [OF t _ b] None wf al show ?thesis by (simp add: spec_push_def)
  qed
qed

lemma push_loop_refines:
  assumes "wf_db d" and "alloc_ok d" and "ptr_ok (abs_db d) usr"
    and "list_all (push_allowed usr) ps"
    and "request = pre @ concat (map encode_push ps) @ 0 # post" and "length pre = offset"
  shows "\<exists>d'. push_loop d usr request offset = Some (d', offset + 17 * length ps) \<and> wf_db d' \<and>
              alloc_ok d' \<and> ptr_ok (abs_db d') usr \<and> abs_db d' = foldl (spec_push usr) (abs_db d) ps"
  using assms
proof (induction ps arbitrary: d pre offset)
  case Nil
  then have "rd request offset = Some 0" by (simp add: mem_simps)
  with Nil show ?case by (subst push_loop.simps) simp
next
  case (Cons p ps)
  obtain it v where p: "p = (it, v)" by fastforce
  with Cons.prems have v: "length v = 16" by (simp add: push_allowed_def)
  have req: "request = pre @ item_code it # v @ concat (map encode_push ps) @ 0 # post"
    using Cons.prems by (simp add: p)
  have b: "rd request offset = Some (item_code it)"
    using Cons.prems(6) req by (simp add: mem_simps)
  obtain d1 where d1: "push_step d usr request offset = Some d1" "wf_db d1" "alloc_ok d1"
    "abs_db d1 = spec_push usr (abs_db d) p"
    using push_step_refines_ptr [OF Cons.prems(1-3) _ Cons.prems(6) req] Cons.prems(4) p by auto
  from d1(4) Cons.prems(3) have ptr: "ptr_ok (abs_db d1) usr" by simp
  have req': "request = (pre @ item_code it # v) @ concat (map encode_push ps) @ 0 # post"
    using req by simp
  from Cons.IH [OF d1(2,3) ptr _ req', of "offset + 17"] Cons.prems(4,6) v
  obtain d' where "push_loop d1 usr request (offset + 17) = Some (d', offset + 17 + 17 * length ps)"
    "wf_db d'" "alloc_ok d'" "ptr_ok (abs_db d') usr"
    "abs_db d' = foldl (spec_push usr) (abs_db d1) ps"
    by auto
  with b d1 show ?case by (subst push_loop.simps) (simp add: algebra_simps)
qed

section \<open>PULL items implement the specification\<close>

lemma length_overlay [simp]: "i + length v \<le> length b \<Longrightarrow> length (overlay b i v) = length b"
  by (simp add: overlay_def)

lemma overlay_append:
  assumes "p + length x \<le> length b"
  shows "overlay (overlay b p x) (p + length x) y = overlay b p (x @ y)"
  using assms by (simp add: overlay_def ac_simps)

lemma overlay_Cons_memcpy:
  assumes "i < length b" and "i + 1 + n \<le> length b" and "n \<le> length src"
  shows "memcpy (b[i := c]) (i + 1) src n = Some (overlay b i (c # take n src))"
  using assms by (simp add: mem_simps overlay_def take_Suc_conv_app_nth)

lemma pull_copy_ok:
  assumes "deref_user d usr = Some u" and "off + n \<le> length u" and "res + 1 + n \<le> length response"
  shows "pull_copy d usr response res it off n =
         Some (d, overlay response res (item_code it # take n (drop off u)), 0)"
  using assms overlay_Cons_memcpy [of res response n "drop off u" "item_code it"]
  by (simp add: pull_copy_def wr_ok)

lemma memset_counter:
  assumes "i + 17 \<le> length b" and "1 \<le> k" and "k \<le> 16"
  shows "Option.bind (memset (b[i := c]) (i + 1) 0 16) (\<lambda>b. wr b (i + k) v) =
         Some (overlay b i (c # counter_bytes (k - 1) v))"
proof -
  obtain j where k: "k = Suc j" and j: "j < 16" using assms(2,3) by (cases k) auto
  have "memset (b[i := c]) (i + 1) 0 16 = Some (take i b @ c # replicate 16 0 @ drop (i + 17) b)"
    using assms(1) by (simp add: mem_simps take_Suc_conv_app_nth add.commute)
  with assms(1) j show ?thesis
    by (simp add: k wr_def overlay_def counter_bytes_def list_update_append)
qed

definition pull_allowed :: "u32 option \<Rightarrow> pull \<Rightarrow> bool" where
  "pull_allowed usr p \<longleftrightarrow> wf_pull p \<and>
     (case p of
        Pull it \<Rightarrow> usr \<noteq> None \<and> it \<noteq> ENB_SOURCE_SOCKET \<and> it \<noteq> ENB_TARGET_SOCKET
      | Pull_enb e \<Rightarrow> True)"

lemma ptr_ok_spec_pull [simp]: "ptr_ok s usr \<Longrightarrow> ptr_ok (spec_pull usr s p) usr"
  by (cases p) (auto simp: ptr_ok_def Let_def split: option.splits)

lemma pull_source_inside:
  "pull_source it = Some (off, n) \<Longrightarrow> off + n \<le> user_info_size \<and> n \<le> 16"
  by (cases it) (auto simp: layout_simps)

lemma pull_count_field:
  "pull_count it = Some (f, k) \<Longrightarrow> fsize f = 1 \<and> f \<noteq> F_imsi \<and> k < 16"
  by (cases it) auto

lemma length_spec_answer:
  assumes "wf_db d"
  shows "length (spec_answer usr (abs_db d) p) \<le> 17"
proof (cases p)
  case (Pull it)
  then show ?thesis
    using pull_source_inside [of it]
    by (auto simp: user_answer_def counter_bytes_def split: option.splits)
next
  case (Pull_enb e)
  with assms show ?thesis
    by (auto simp: enbs_abs wf_db_def split: option.splits bind_splits)
qed

text \<open>A plain copy.\<close>

lemma pull_step_copy:
  assumes src: "pull_source it = Some (off, n)" and upd: "it \<noteq> RAND_UPDATE"
    and b: "rd request offset = Some (item_code it)" and u: "deref_user d usr = Some u"
    and wf: "wf_user u" and r: "res + 17 \<le> length response"
  shows "pull_step d usr request offset response res =
         Some (d, overlay response res (item_code it # take n (drop off u)), 0)"
proof -
  note in_u = pull_source_inside [OF src]
  have copy: "pull_copy d usr response res it off n =
      Some (d, overlay response res (item_code it # take n (drop off u)), 0)"
    using u wf in_u r by (intro pull_copy_ok) simp_all
  show ?thesis
  proof (cases "it = IMSI")
    case True
    with src have [simp]: "off = 0" "n = 16" by (simp_all add: layout_simps)
    let ?o = "overlay response res (item_code it # take 16 u)"
    have "u ! 15 = 0" using wf unfolding wf_user_def by (simp add: fld_def layout_simps)
    moreover have "length u = 215" using wf by (simp add: layout_simps)
    ultimately have "?o ! (res + 16) = 0" and "res + 16 < length ?o"
      using r by (simp_all add: overlay_def nth_append)
    then have "wr ?o (res + 16) 0 = Some ?o"
      by (simp add: wr_def list_update_same_conv)
    with copy True b show ?thesis by (simp add: pull_step_def layout_simps)
  next
    case False
    with src upd b have "pull_step d usr request offset response res = pull_copy d usr response res it off n"
      by (cases it) (auto simp: pull_step_def getter_offsets)
    with copy show ?thesis by simp
  qed
qed

text \<open>A counter: the value is answered and the stored byte is incremented modulo 256.\<close>

lemma pull_counter_refines:
  assumes wf: "wf_db d" and u: "users (abs_db d) h = Some u" and r: "res + 17 \<le> length response"
    and f: "fsize f = 1" "f \<noteq> F_imsi" and k: "k < 16"
    and getter: "getter = (\<lambda>u. rd u (offsetof f))" and setter: "setter = (\<lambda>u v. wr u (offsetof f) v)"
  shows "\<exists>d'. pull_counter d (Some h) response res it getter setter (k + 1) =
       Some (d', overlay response res (item_code it # counter_bytes k (hd (fld u f))), 0) \<and>
     wf_db d' \<and> mallocs d' = mallocs d \<and>
     abs_db d' = (abs_db d)\<lparr>users := (users (abs_db d))(h \<mapsto> set_fld u f [hd (fld u f) + 1])\<rparr>"
proof -
  let ?v = "hd (fld u f)"
  note wu = wf_db_user(1) [OF wf u]
  have g: "getter u = Some ?v" using wu f by (simp add: getter rd_fld(1))
  have s: "setter u (?v + 1) = Some (set_fld u f [?v + 1])"
    using wu f by (simp add: setter wr_set_fld)
  obtain d' where d': "modify_user d (Some h) (\<lambda>u. setter u (?v + 1)) = Some d'" "wf_db d'"
    "abs_db d' = (abs_db d)\<lparr>users := (users (abs_db d))(h \<mapsto> set_fld u f [?v + 1])\<rparr>"
    "mallocs d' = mallocs d"
    using modify_user_set_fld [where g = "\<lambda>u. setter u (?v + 1)", OF wf u s] f by auto
  have c: "wr response res (item_code it) = Some (response[res := item_code it])"
    using r by (simp add: wr_ok)
  obtain b1 where b1: "memset (response[res := item_code it]) (res + 1) 0 16 = Some b1"
    and b2: "wr b1 (res + (k + 1)) ?v = Some (overlay response res (item_code it # counter_bytes k ?v))"
    using memset_counter [of res response "k + 1" "item_code it" ?v] r k
    by (auto split: bind_splits)
  show ?thesis
    using d' c b1 b2 g u by (simp add: pull_counter_def deref_user_abs)
qed

lemma pull_step_rand_update:
  assumes wf: "wf_db d" and u: "users (abs_db d) h = Some u" and r: "res + 17 \<le> length response"
    and b: "rd request offset = Some (item_code RAND_UPDATE)"
  shows "\<exists>d'. pull_step d (Some h) request offset response res =
       Some (d', overlay response res (user_answer u RAND_UPDATE), 0) \<and>
     wf_db d' \<and> mallocs d' = mallocs d \<and> abs_db d' = spec_pull (Some h) (abs_db d) (Pull RAND_UPDATE)"
proof -
  let ?R = "UINT32_TO_ARRAY (rands d 0) @ UINT32_TO_ARRAY (rands d 1) @
            UINT32_TO_ARRAY (rands d 2) @ UINT32_TO_ARRAY (rands d 3)"
  note wu = wf_db_user(1) [OF wf u]
  let ?g = "\<lambda>u. generate_rand u (rands d 0) (rands d 1) (rands d 2) (rands d 3)"
  have g: "?g u = Some (set_fld u F_rand ?R)"
    using wu by (simp add: generate_rand_spec)
  obtain d' where d': "modify_user d (Some h) ?g = Some d'"
    "wf_db d'" "mallocs d' = mallocs d"
    "abs_db d' = (abs_db d)\<lparr>users := (users (abs_db d))(h \<mapsto> set_fld u F_rand ?R)\<rparr>"
    using modify_user_set_fld [where g = ?g, OF wf u g] by auto
  have rd': "rands d' = rands d"
    using arg_cong [OF d'(4), of arands] by (simp add: arands_abs)
  have copy: "pull_copy d (Some h) response res RAND_UPDATE get_user_rand RAND_LEN =
      Some (d, overlay response res (user_answer u RAND_UPDATE), 0)"
    using pull_copy_ok [of d "Some h" u "offsetof F_rand" 16 res response RAND_UPDATE] u wu r
    by (simp add: deref_user_abs user_answer_def layout_simps)
  have "pull_step d (Some h) request offset response res =
      Some (drop_rands 4 d', overlay response res (user_answer u RAND_UPDATE), 0)"
    using b copy d'(1) by (simp add: pull_step_def)
  moreover have "wf_db (drop_rands 4 d')" using d'(2) by (simp add: wf_db_def drop_rands_def)
  moreover have "abs_db (drop_rands 4 d') = spec_pull (Some h) (abs_db d) (Pull RAND_UPDATE)"
  proof -
    have "abs_db (drop_rands 4 d') = (abs_db d')\<lparr>arands := (\<lambda>i. rands d' (i + 4))\<rparr>"
      by (simp add: abs_db_def drop_rands_def)
    also have "\<dots> = spec_pull (Some h) (abs_db d) (Pull RAND_UPDATE)"
      using u d'(4) rd' by (simp add: user_after_def abs_db_def)
    finally show ?thesis .
  qed
  ultimately show ?thesis using d'(3) by (simp add: drop_rands_def)
qed

lemma pull_get_enb_refines:
  assumes wf: "wf_db d" and r: "res + 17 \<le> length response" and e: "length e = 4"
    and "request = pre @ item_code GET_ENB # e @ post" and "length pre = offset"
  shows "pull_step d usr request offset response res =
         Some (d, overlay response res (spec_answer usr (abs_db d) (Pull_enb e)), 4)"
proof -
  from assms(3-5) have id: "ARRAY_TO_UINT32 request (offset + 1) = Some (be32_of e)"
    by (simp add: ARRAY_TO_UINT32_def mem_simps be32_of_def numeral_2_eq_2)
  from assms(4,5) have b: "rd request offset = Some (item_code GET_ENB)" by (simp add: mem_simps)
  have w: "wf_hashmap (eNBs d)" using wf by (simp add: wf_db_def)
  from hm.get_total [OF w] obtain x where x: "hashmap_get (eNBs d) (be32_of e) = Some x" by blast
  have o: "response[res := c] = overlay response res [c]" for c
    using r by (simp add: overlay_def upd_conv_take_nth_drop)
  have "pull_get_enb d request offset response res =
         Some (d, overlay response res (spec_answer usr (abs_db d) (Pull_enb e)), 4)"
  proof (cases x)
    case None
    with id x r show ?thesis by (simp add: pull_get_enb_def wr_ok enbs_abs o)
  next
    case (Some en)
    have l: "length (sock_num en) = 4" using wf x Some by (auto simp: wf_db_def)
    have "memcpy (response[res := item_code GET_ENB]) (res + 1) (sock_num en) 4 =
        Some (overlay response res (item_code GET_ENB # sock_num en))"
      using overlay_Cons_memcpy [of res response 4 "sock_num en"] r l by simp
    with id x r Some show ?thesis
      by (simp add: pull_get_enb_def wr_ok enbs_abs enb_get_socket_number_def)
  qed
  with b show ?thesis by (simp add: pull_step_def)
qed

lemma pull_step_refines:
  assumes wf: "wf_db d" and ptr: "ptr_ok (abs_db d) usr" and p: "pull_allowed usr p"
    and req: "request = pre @ encode_pull p @ post" and pre: "length pre = offset"
    and r: "res + 17 \<le> length response"
  shows "\<exists>d'. pull_step d usr request offset response res =
       Some (d', overlay response res (spec_answer usr (abs_db d) p), length (encode_pull p) - 1) \<and>
     wf_db d' \<and> mallocs d' = mallocs d \<and> abs_db d' = spec_pull usr (abs_db d) p"
proof (cases p)
  case (Pull_enb e)
  with pull_get_enb_refines [where e = e and post = post and usr = usr, OF wf r _ _ pre] p req wf show ?thesis
    by (simp add: pull_allowed_def)
next
  case (Pull it)
  with p ptr obtain h u where usr: "usr = Some h" and u: "users (abs_db d) h = Some u"
    by (auto simp: pull_allowed_def ptr_ok_def)
  have it: "it \<noteq> EOM" "it \<noteq> GET_ENB" "it \<noteq> ENB_SOURCE_SOCKET" "it \<noteq> ENB_TARGET_SOCKET"
    using p Pull by (auto simp: pull_allowed_def)
  have b: "rd request offset = Some (item_code it)" using req pre Pull by (simp add: mem_simps)
  note wu = wf_db_user(1) [OF wf u]
  have same: "(abs_db d)\<lparr>users := (users (abs_db d))(h \<mapsto> u)\<rparr> = abs_db d"
    using u by (simp add: map_upd_triv)
  consider (upd) "it = RAND_UPDATE"
    | (copy) off n where "it \<noteq> RAND_UPDATE" "pull_source it = Some (off, n)"
    | (count) f k where "pull_count it = Some (f, k)"
    | (no_inc) "it = UE_NAS_SEQUENCE_NUMBER_NO_INC" | (none) "it = NEW_ENB"
    using it by (cases it) auto
  then show ?thesis
  proof cases
    case upd
    with pull_step_rand_update [OF wf u r] b u Pull usr show ?thesis by simp
  next
    case copy
    then have "pull_count it = None" by (cases it) auto
    with copy pull_step_copy [OF copy(2,1) b _ wu r] wf u same Pull usr show ?thesis
      by (simp add: deref_user_abs user_answer_def user_after_def)
  next
    case count
    then have src: "pull_source it = None" and nu: "it \<noteq> RAND_UPDATE" by (cases it; auto)+
    have "pull_step d usr request offset response res =
      pull_counter d (Some h) response res it (\<lambda>u. rd u (offsetof f)) (\<lambda>u v. wr u (offsetof f) v) (k + 1)"
      using count b usr by (cases it)
        (auto simp: pull_step_def get_user_epc_nas_sequence_number_def [abs_def]
          set_user_epc_nas_sequence_number_def [abs_def] get_user_ue_nas_sequence_number_def [abs_def]
          set_user_ue_nas_sequence_number_def [abs_def] get_user_next_hop_chaining_count_def [abs_def]
          set_user_next_hop_chaining_count_def [abs_def])
    with pull_counter_refines [OF wf u r, of f k, OF _ _ _ refl refl] pull_count_field [OF count]
      count src nu u Pull usr
    show ?thesis by (simp add: user_answer_def user_after_def)
  next
    case no_inc
    have "get_user_ue_nas_sequence_number u = Some (hd (fld u F_ue_nas_sequence_number))"
      using wu by (simp add: get_user_ue_nas_sequence_number_def rd_fld(1))
    with no_inc b u wf same Pull usr r
      memset_counter [of res response 1 10 "hd (fld u F_ue_nas_sequence_number)"]
    show ?thesis
      by (auto simp: pull_step_def user_answer_def user_after_def deref_user_abs wr_ok
          split: bind_splits)
  next
    case none
    with b u same wf Pull usr show ?thesis
      by (simp add: pull_step_def user_answer_def user_after_def overlay_def)
  qed
qed

lemma encode_pull_hd:
  assumes "wf_pull p"
  obtains c cs where "encode_pull p = c # cs" and "c \<noteq> item_code EOM"
proof (cases p)
  case (Pull it)
  with assms show thesis by (intro that [of "item_code it" "[]"]) auto
next
  case (Pull_enb e)
  then show thesis by (intro that [of "item_code GET_ENB" e]) auto
qed

lemma pull_loop_prefix:
  assumes "wf_db d" and "ptr_ok (abs_db d) usr" and "list_all (pull_allowed usr) ps"
    and "request = pre @ concat (map encode_pull ps) @ post" and "length pre = offset"
    and "offset + length (concat (map encode_pull ps)) \<le> request_len"
    and "res + 17 * length ps \<le> length response"
  shows "\<exists>d'. pull_loop d usr request request_len offset response res =
       pull_loop d' usr request request_len (offset + length (concat (map encode_pull ps)))
         (spec_answers usr (abs_db d) ps response res) (res + 17 * length ps) \<and>
     wf_db d' \<and> mallocs d' = mallocs d \<and> abs_db d' = foldl (spec_pull usr) (abs_db d) ps"
  using assms
proof (induction ps arbitrary: d pre offset response res)
  case Nil
  then show ?case by auto
next
  case (Cons p ps)
  from Cons.prems(3) have p: "pull_allowed usr p" and w: "wf_pull p" by (simp_all add: pull_allowed_def)
  obtain c cs where c: "encode_pull p = c # cs" "c \<noteq> item_code EOM" using encode_pull_hd [OF w] .
  have req: "request = pre @ encode_pull p @ concat (map encode_pull ps) @ post" using Cons.prems(4) by simp
  have b: "rd request offset = Some c" and lt: "offset < request_len"
    using Cons.prems(5,6) req c by (simp_all add: mem_simps)
  have r: "res + 17 \<le> length response" using Cons.prems(7) by simp
  obtain d1 where d1: "pull_step d usr request offset response res =
       Some (d1, overlay response res (spec_answer usr (abs_db d) p), length (encode_pull p) - 1)"
     "wf_db d1" "mallocs d1 = mallocs d" "abs_db d1 = spec_pull usr (abs_db d) p"
    using pull_step_refines [OF Cons.prems(1,2) p req Cons.prems(5) r] by blast
  let ?o = "overlay response res (spec_answer usr (abs_db d) p)"
  have lo: "length ?o = length response"
    using length_spec_answer [OF Cons.prems(1), of usr p] r by simp
  have "\<exists>d'. pull_loop d1 usr request request_len (offset + length (encode_pull p)) ?o (res + 17) =
       pull_loop d' usr request request_len
         (offset + length (encode_pull p) + length (concat (map encode_pull ps)))
         (spec_answers usr (abs_db d1) ps ?o (res + 17)) (res + 17 + 17 * length ps) \<and>
     wf_db d' \<and> mallocs d' = mallocs d1 \<and> abs_db d' = foldl (spec_pull usr) (abs_db d1) ps"
    by (rule Cons.IH [where pre = "pre @ encode_pull p"])
      (use d1 Cons.prems lo req in simp_all)
  moreover have "pull_loop d usr request request_len offset response res =
      pull_loop d1 usr request request_len (offset + length (encode_pull p)) ?o (res + 17)"
    using b c lt d1(1) by (subst pull_loop.simps) simp
  ultimately show ?case using d1 by (auto simp: algebra_simps)
qed

lemma pull_loop_refines:
  assumes "wf_db d" and "ptr_ok (abs_db d) usr" and "list_all (pull_allowed usr) ps"
    and req: "request = pre @ encode_pulls ps @ post" and pre: "length pre = offset"
    and len: "offset + length (encode_pulls ps) \<le> request_len"
    and "res + 17 * length ps \<le> length response"
  shows "\<exists>d'. pull_loop d usr request request_len offset response res =
       Some (d', spec_answers usr (abs_db d) ps response res,
             offset + length (encode_pulls ps) - 1, res + 17 * length ps) \<and>
     wf_db d' \<and> mallocs d' = mallocs d \<and> abs_db d' = foldl (spec_pull usr) (abs_db d) ps"
proof -
  let ?e = "concat (map encode_pull ps)"
  have req': "request = pre @ ?e @ item_code EOM # post" using req by (simp add: encode_pulls_def)
  have e: "rd request (offset + length ?e) = Some (item_code EOM)" and lt: "offset + length ?e < request_len"
    using req' pre len by (simp_all add: mem_simps encode_pulls_def)
  obtain d' where "pull_loop d usr request request_len offset response res =
       pull_loop d' usr request request_len (offset + length ?e)
         (spec_answers usr (abs_db d) ps response res) (res + 17 * length ps)"
     "wf_db d'" "mallocs d' = mallocs d" "abs_db d' = foldl (spec_pull usr) (abs_db d) ps"
    using pull_loop_prefix [OF assms(1-3) req' pre less_imp_le [OF lt] assms(7)] by blast
  with e lt show ?thesis by (subst (asm) (2) pull_loop.simps) (simp add: encode_pulls_def)
qed

section \<open>Requests implement the specification\<close>

text \<open>
  The key that the identifier of a request denotes, read from the bytes behind the item type; an
  IMSI or MSIN is read up to the first character that is not a digit.
\<close>

fun ident_key :: "item \<Rightarrow> byte list \<Rightarrow> u32 option" where
  "ident_key IMSI v = hash_imsi v"
| "ident_key MSIN v = hash_msin v"
| "ident_key TMSI v = hash_tmsi v"
| "ident_key MME_UE_S1AP_ID v = hash_mme_ue_s1ap_id v"
| "ident_key _ v = None"

lemma length_encode_pushes:
  "list_all (push_allowed usr) ps \<Longrightarrow> length (concat (map encode_push ps)) = 17 * length ps"
  by (induction ps) (auto simp: push_allowed_def)

lemma run_items_refines:
  assumes wf: "wf_db d" and al: "alloc_ok d" and ptr: "ptr_ok (abs_db d) usr"
    and v: "length (rq_val r) = 16"
    and pushes: "list_all (push_allowed usr) (rq_pushes r)"
    and pulls: "list_all (pull_allowed usr) (rq_pulls r)"
    and len: "length (encode r) \<le> request_len" and room: "17 * length (rq_pulls r) \<le> length response"
  shows "\<exists>d'. run_items d usr (encode r @ rest) request_len response =
       Some \<lparr>ans_db = d', ans_response = serve_answer usr (abs_db d) r response,
             ans_response_len = 17 * length (rq_pulls r), ans_consumed = length (encode r)\<rparr> \<and>
     wf_db d' \<and> alloc_ok d' \<and> abs_db d' = serve usr (abs_db d) r"
proof -
  let ?pre = "item_code (rq_id r) # rq_val r"
  let ?ps = "concat (map encode_push (rq_pushes r))"
  have req: "encode r @ rest = ?pre @ ?ps @ 0 # encode_pulls (rq_pulls r) @ rest"
    by (simp add: encode_def)
  have lps: "length ?ps = 17 * length (rq_pushes r)"
    using pushes by (rule length_encode_pushes)
  have "length ?pre = 17" using v by simp
  from push_loop_refines [OF wf al ptr pushes req this]
  obtain d1 where d1: "push_loop d usr (encode r @ rest) 17 = Some (d1, 17 + 17 * length (rq_pushes r))"
    "wf_db d1" "alloc_ok d1" "ptr_ok (abs_db d1) usr"
    "abs_db d1 = foldl (spec_push usr) (abs_db d) (rq_pushes r)" by auto
  have req2: "encode r @ rest = (?pre @ ?ps @ [0]) @ encode_pulls (rq_pulls r) @ rest"
    using req by simp
  have le: "length (encode r) = 18 + 17 * length (rq_pushes r) + length (encode_pulls (rq_pulls r))"
    using v lps by (simp add: encode_def)
  have "length (?pre @ ?ps @ [0]) = 17 + 17 * length (rq_pushes r) + 1" using v lps by simp
  from pull_loop_refines [OF d1(2,4) pulls req2 this, of request_len 0 response]
  obtain d2 where "pull_loop d1 usr (encode r @ rest) request_len (17 + 17 * length (rq_pushes r) + 1) response 0 =
      Some (d2, spec_answers usr (abs_db d1) (rq_pulls r) response 0,
        17 + 17 * length (rq_pushes r) + 1 + length (encode_pulls (rq_pulls r)) - 1, 17 * length (rq_pulls r))"
    "wf_db d2" "mallocs d2 = mallocs d1" "abs_db d2 = foldl (spec_pull usr) (abs_db d1) (rq_pulls r)"
    using len room le by auto
  with d1 le show ?thesis
    by (auto simp: run_items_def serve_def serve_answer_def alloc_ok_def)
qed

text \<open>An identifier that is terminated inside its 16 bytes does not depend on what follows.\<close>

lemma atoi_digits_append: "atoi_digits xs acc = Some v \<Longrightarrow> atoi_digits (xs @ ys) acc = Some v"
  by (induction xs arbitrary: acc) (auto split: if_splits)

lemma atoi_signed_append: "atoi_signed xs = Some v \<Longrightarrow> atoi_signed (xs @ ys) = Some v"
  using atoi_digits_append [of xs 0 _ ys] atoi_digits_append [of "tl xs" 0 _ ys]
  by (cases xs) (auto simp: atoi_signed_def split: if_splits)

lemma atoi_append:
  assumes "atoi xs = Some v"
  shows "atoi (xs @ ys) = Some v"
proof -
  obtain x where "x \<in> set xs" "\<not> isspace x"
  proof (rule ccontr)
    assume "\<not> thesis"
    with that have "dropWhile isspace xs = []" by (auto simp: dropWhile_eq_Nil_conv)
    with assms show False by (simp only: atoi_def atoi_signed_def list.case) simp
  qed
  then have "dropWhile isspace (xs @ ys) = dropWhile isspace xs @ ys" by (rule dropWhile_append1)
  with assms atoi_signed_append [of "dropWhile isspace xs" _ ys] show ?thesis
    by (auto simp: atoi_def split: bind_splits simp del: dropWhile_eq_Nil_conv)
qed

lemma ident_key_append:
  assumes "ident_key it v = Some h" and "length v = 16"
  shows "ident_key it (v @ rest) = Some h"
  using assms atoi_append [of "drop 6 v" _ rest] atoi_append [of "drop 1 v" _ rest]
  by (cases it) (auto simp: hash_imsi_def hash_msin_def hash_tmsi_def hash_mme_ue_s1ap_id_def
      ARRAY_TO_UINT32_def rd_def nth_append split: if_splits bind_splits)

lemma encode_hd: "rd (encode r @ rest) 0 = Some (item_code (rq_id r))"
  by (simp add: encode_def mem_simps)

lemma encode_tl: "\<exists>rest'. drop 1 (encode r @ rest) = rq_val r @ rest'"
  by (simp add: encode_def)

lemma analyze_ident:
  assumes "rd request 0 = Some (item_code it)" and "ident_key it (drop 1 request) = Some h"
  shows "analyze_request d request request_len response =
         lookup_and_run d (Some h) request request_len response"
  using assms by (cases it) (simp_all add: analyze_request_def)

lemma analyze_user_request:
  assumes "ident_key (rq_id r) (rq_val r) = Some h" and "length (rq_val r) = 16"
  shows "analyze_request d (encode r @ rest) request_len response =
         lookup_and_run d (Some h) (encode r @ rest) request_len response"
proof -
  obtain rest' where dr: "drop 1 (encode r @ rest) = rq_val r @ rest'" using encode_tl by blast
  show ?thesis
    by (rule analyze_ident [OF encode_hd]) (simp only: dr ident_key_append [OF assms])
qed

definition request_user :: "request \<Rightarrow> u32 option" where
  "request_user r = ident_key (rq_id r) (rq_val r)"

text \<open>A request the server can execute in state \<open>s\<close> with the response buffer it has.\<close>

definition request_ok :: "adb \<Rightarrow> request \<Rightarrow> bool" where
  "request_ok s r \<longleftrightarrow>
     length (rq_val r) = 16 \<and>
     (case request_user r of
        None \<Rightarrow> rq_id r = NEW_ENB
      | Some h \<Rightarrow> users s h \<noteq> None) \<and>
     list_all (push_allowed (request_user r)) (rq_pushes r) \<and>
     list_all (pull_allowed (request_user r)) (rq_pulls r) \<and>
     17 * length (rq_pulls r) \<le> 1024"

lemma analyze_request_refines:
  assumes wf: "wf_db d" and al: "alloc_ok d" and ok: "request_ok (abs_db d) r"
    and len: "length (encode r) \<le> request_len" and resp: "length response = 1024"
  shows "\<exists>d'. analyze_request d (encode r @ rest) request_len response =
       Some \<lparr>ans_db = d', ans_response = serve_answer (request_user r) (abs_db d) r response,
             ans_response_len = 17 * length (rq_pulls r), ans_consumed = length (encode r)\<rparr> \<and>
     wf_db d' \<and> alloc_ok d' \<and> abs_db d' = serve (request_user r) (abs_db d) r"
proof -
  from ok have ptr: "ptr_ok (abs_db d) (request_user r)"
    by (auto simp: request_ok_def ptr_ok_def split: option.splits)
  have "analyze_request d (encode r @ rest) request_len response =
      run_items d (request_user r) (encode r @ rest) request_len response"
  proof (cases "request_user r")
    case None
    with ok encode_hd [of r rest] show ?thesis
      by (simp add: analyze_request_def request_ok_def)
  next
    case (Some h)
    with ok obtain u where "users (abs_db d) h = Some u" by (auto simp: request_ok_def)
    with Some ok analyze_user_request [of r h] show ?thesis
      by (simp add: request_user_def request_ok_def lookup_and_run_def users_abs)
  qed
  moreover note run_items_refines [OF wf al ptr _ _ _ len]
  ultimately show ?thesis using ok resp by (simp add: request_ok_def)
qed

end
