(* ===== verification/Sessions.thy ===== *)
theory Sessions
  imports Protocol
begin

text \<open>
  Sequences of requests on one connection: the loop of \<open>attend_request\<close> over the requests of one
  \<open>recv\<close> performs them one after the other, each on the state the previous one left, and sends one
  message per request that pulls anything.  The response buffer is reused without being cleared.
\<close>

section \<open>What serving preserves\<close>

definition sockets_ok :: "adb \<Rightarrow> bool" where
  "sockets_ok s \<longleftrightarrow> (\<forall>i sock. enbs s i = Some sock \<longrightarrow> length sock = 4)"

lemma sockets_ok_abs: "wf_db d \<Longrightarrow> sockets_ok (abs_db d)"
  by (auto simp: sockets_ok_def enbs_abs wf_db_def split: bind_splits)

lemma sockets_ok_push: "sockets_ok s \<Longrightarrow> length (snd p) = 16 \<Longrightarrow> sockets_ok (spec_push usr s p)"
  by (auto simp: sockets_ok_def spec_push_def Let_def split: option.splits)

lemma sockets_ok_pushes:
  "sockets_ok s \<Longrightarrow> list_all (push_allowed usr) ps \<Longrightarrow> sockets_ok (foldl (spec_push usr) s ps)"
  by (induction ps arbitrary: s) (auto simp: push_allowed_def sockets_ok_push)

lemma enbs_spec_pull [simp]: "enbs (spec_pull usr s p) = enbs s"
  by (cases p) (auto simp: Let_def split: option.splits)

lemma length_spec_answer_abs:
  assumes "sockets_ok s"
  shows "length (spec_answer usr s p) \<le> 17"
proof (cases p)
  case (Pull it)
  then show ?thesis
    using pull_source_inside [of it]
    by (auto simp: user_answer_def counter_bytes_def split: option.splits)
next
  case (Pull_enb e)
  with assms show ?thesis by (auto simp: sockets_ok_def split: option.splits)
qed

lemma length_spec_answers:
  "sockets_ok s \<Longrightarrow> res + 17 * length ps \<le> length response \<Longrightarrow>
   length (spec_answers usr s ps response res) = length response"
proof (induction ps arbitrary: s response res)
  case (Cons p ps)
  have "sockets_ok (spec_pull usr s p)" using Cons.prems(1) by (simp add: sockets_ok_def)
  moreover have "length (overlay response res (spec_answer usr s p)) = length response"
    using length_spec_answer_abs [OF Cons.prems(1), of usr p] Cons.prems(2) by simp
  ultimately show ?case using Cons.IH [of "spec_pull usr s p"] Cons.prems(2) by simp
qed simp

lemma length_serve_answer:
  assumes "sockets_ok s" and "request_ok s r" and "length response = 1024"
  shows "length (serve_answer (request_user r) s r response) = 1024"
  using assms by (auto simp: serve_answer_def request_ok_def length_spec_answers sockets_ok_pushes)

lemma spec_push_known: "users s h \<noteq> None \<Longrightarrow> users (spec_push usr s p) h \<noteq> None"
  by (auto simp: spec_push_def Let_def split: option.splits)

lemma spec_pull_known: "users s h \<noteq> None \<Longrightarrow> users (spec_pull usr s p) h \<noteq> None"
  by (cases p) (auto simp: Let_def split: option.splits)

lemma serve_known:
  assumes "users s h \<noteq> None"
  shows "users (serve usr s r) h \<noteq> None"
  unfolding serve_def
  by (rule foldl_invariant [where P = "\<lambda>s. users s h \<noteq> None"], erule spec_pull_known,
      rule foldl_invariant [where P = "\<lambda>s. users s h \<noteq> None"], erule spec_push_known, rule assms)

lemma request_ok_serve: "request_ok s r \<Longrightarrow> request_ok (serve usr s r') r"
  using serve_known by (fastforce simp: request_ok_def split: option.splits)

section \<open>One recv with several requests\<close>

definition serve_all :: "adb \<Rightarrow> request list \<Rightarrow> adb" where
  "serve_all s rs = foldl (\<lambda>s r. serve (request_user r) s r) s rs"

fun respond_all :: "adb \<Rightarrow> buf \<Rightarrow> request list \<Rightarrow> byte list list \<times> buf" where
  "respond_all s response [] = ([], response)"
| "respond_all s response (r # rs) =
     (let response' = serve_answer (request_user r) s r response;
          n = 17 * length (rq_pulls r);
          (msgs, final) = respond_all (serve (request_user r) s r) response' rs
      in ((if 0 < n then [take n response'] else []) @ msgs, final))"

lemma multi_pkt_loop_refines:
  assumes "wf_db (c_db c)" and "alloc_ok (c_db c)" and "length (c_response c) = 1024"
    and "\<forall>i. c_sends c i"
    and "list_all (request_ok (abs_db (c_db c))) rs"
    and "c_request c = pre @ concat (map encode rs) @ rest" and "length pre = pos"
    and "n = pos + length (concat (map encode rs))"
  shows "\<exists>c'. multi_pkt_loop c pos n = Some (c', Open) \<and> wf_db (c_db c') \<and> alloc_ok (c_db c') \<and>
     abs_db (c_db c') = serve_all (abs_db (c_db c)) rs \<and>
     c_sent c' = c_sent c @ fst (respond_all (abs_db (c_db c)) (c_response c) rs) \<and>
     c_response c' = snd (respond_all (abs_db (c_db c)) (c_response c) rs) \<and>
     length (c_response c') = 1024 \<and> c_request c' = c_request c \<and> (\<forall>i. c_sends c' i)"
  using assms
proof (induction rs arbitrary: c pre pos)
  case Nil
  then show ?case by (subst multi_pkt_loop.simps) (simp add: serve_all_def)
next
  case (Cons r rs)
  let ?s = "abs_db (c_db c)" and ?u = "request_user r" and ?k = "17 * length (rq_pulls r)"
  let ?resp = "serve_answer ?u ?s r (c_response c)"
  have ok: "request_ok ?s r" using Cons.prems(5) by simp
  have dr: "drop pos (c_request c) = encode r @ concat (map encode rs) @ rest"
    using Cons.prems(6,7) by simp
  have pos_lt: "pos < n" using Cons.prems(8) by (simp add: encode_def)
  have len: "length (encode r) \<le> n - pos" using Cons.prems(8) by simp
  obtain d1 where a: "analyze_request (c_db c) (drop pos (c_request c)) (n - pos) (c_response c) =
      Some \<lparr>ans_db = d1, ans_response = ?resp, ans_response_len = ?k, ans_consumed = length (encode r)\<rparr>"
    and d1: "wf_db d1" "alloc_ok d1" "abs_db d1 = serve ?u ?s r"
    using analyze_request_refines [OF Cons.prems(1,2) ok len Cons.prems(3), of "concat (map encode rs) @ rest"]
    unfolding dr by blast
  have lr: "length ?resp = 1024"
    using length_serve_answer [OF sockets_ok_abs [OF Cons.prems(1)] ok Cons.prems(3)] .
  have k: "?k \<le> 1024" using ok by (simp add: request_ok_def)
  let ?c = "c\<lparr>c_db := d1, c_response := ?resp\<rparr>"
  define c1 where "c1 = (if 0 < ?k then ?c\<lparr>c_sends := (\<lambda>i. c_sends c (i + 1)),
      c_sent := c_sent c @ [take ?k ?resp]\<rparr> else ?c)"
  have send: "send_response ?c ?k = Some (c1, Open)"
    using k lr Cons.prems(4) by (simp add: send_response_def c1_def rdn_def)
  have step: "multi_pkt_loop c pos n = multi_pkt_loop c1 (pos + length (encode r)) n"
    using pos_lt a send by (subst multi_pkt_loop.simps) simp
  have c1: "c_db c1 = d1" "c_response c1 = ?resp" "c_request c1 = c_request c" "\<forall>i. c_sends c1 i"
    "c_sent c1 = c_sent c @ (if 0 < ?k then [take ?k ?resp] else [])"
    using Cons.prems(4) by (simp_all add: c1_def)
  have "list_all (request_ok (abs_db (c_db c1))) rs"
    using Cons.prems(5) request_ok_serve c1(1) d1(3) by (auto simp: list_all_iff)
  moreover have "c_request c1 = (pre @ encode r) @ concat (map encode rs) @ rest"
    using Cons.prems(6) c1(3) by simp
  ultimately have "\<exists>c'. multi_pkt_loop c1 (pos + length (encode r)) n = Some (c', Open) \<and> wf_db (c_db c') \<and>
     alloc_ok (c_db c') \<and> abs_db (c_db c') = serve_all (abs_db (c_db c1)) rs \<and>
     c_sent c' = c_sent c1 @ fst (respond_all (abs_db (c_db c1)) (c_response c1) rs) \<and>
     c_response c' = snd (respond_all (abs_db (c_db c1)) (c_response c1) rs) \<and>
     length (c_response c') = 1024 \<and> c_request c' = c_request c1 \<and> (\<forall>i. c_sends c' i)"
    by (intro Cons.IH [where pre = "pre @ encode r"]) (use c1 d1 lr Cons.prems(7,8) in simp_all)
  with step c1 d1 show ?case
    by (auto simp: serve_all_def Let_def split: prod.splits)
qed

section \<open>Counters and eNBs\<close>

text \<open>Pulling the downlink NAS counter \<open>n\<close> times adds \<open>n\<close> to it, modulo 256, and changes nothing else.\<close>

lemma counter_pulls:
  assumes "users s h = Some u" and "length u = user_info_size"
  shows "\<exists>u'. users (foldl (spec_pull (Some h)) s (replicate n (Pull EPC_NAS_SEQUENCE_NUMBER))) h = Some u' \<and>
     length u' = user_info_size \<and>
     fld u' F_epc_nas_sequence_number = [hd (fld u F_epc_nas_sequence_number) + of_nat n] \<and>
     (\<forall>f. f \<noteq> F_epc_nas_sequence_number \<longrightarrow> fld u' f = fld u f)"
proof (induction n)
  case 0
  with assms rd_fld(2) [of u F_epc_nas_sequence_number] show ?case by simp
next
  case (Suc n)
  let ?s = "foldl (spec_pull (Some h)) s (replicate n (Pull EPC_NAS_SEQUENCE_NUMBER))"
  from Suc obtain u' where u': "users ?s h = Some u'" "length u' = user_info_size"
    "fld u' F_epc_nas_sequence_number = [hd (fld u F_epc_nas_sequence_number) + of_nat n]"
    "\<forall>f. f \<noteq> F_epc_nas_sequence_number \<longrightarrow> fld u' f = fld u f" by blast
  let ?u = "set_fld u' F_epc_nas_sequence_number [hd (fld u F_epc_nas_sequence_number) + of_nat (Suc n)]"
  have "replicate (Suc n) (Pull EPC_NAS_SEQUENCE_NUMBER) =
      replicate n (Pull EPC_NAS_SEQUENCE_NUMBER) @ [Pull EPC_NAS_SEQUENCE_NUMBER]"
    by (simp add: replicate_append_same)
  then have "users (foldl (spec_pull (Some h)) s (replicate (Suc n) (Pull EPC_NAS_SEQUENCE_NUMBER))) h = Some ?u"
    using u' by (simp add: user_after_def ac_simps)
  with u' show ?case by (simp add: fld_set_fld)
qed

lemma request_users:
  assumes "wf_db d" and "alloc_ok d" and "request_ok (abs_db d) r" and "length response = 1024"
  shows "\<exists>a. analyze_request d (encode r @ rest) (length (encode r)) response = Some a \<and>
     abs_db (ans_db a) = serve (request_user r) (abs_db d) r \<and>
     ans_response a = serve_answer (request_user r) (abs_db d) r response"
  using analyze_request_refines [OF assms(1-3) order_refl assms(4), of rest] by fastforce

text \<open>An answer that does not fit behind the previous ones is an out-of-bounds write.\<close>

lemma pull_copy_overflow:
  assumes "length response < res + 1 + n"
  shows "pull_copy d usr response res it src n = None"
proof -
  have "memcpy b (res + 1) v n = None" if "length b = length response" for b v
    using that assms by (auto simp: memcpy_def rdn_def wrn_def)
  then show ?thesis by (auto simp: pull_copy_def dest: wr_length split: bind_splits)
qed

lemma too_many_pulls:
  assumes wf: "wf_db d" and u: "users (abs_db d) h = Some u" and r: "length response = 1024"
    and req: "request = pre @ concat (map encode_pull (replicate 60 (Pull KEY))) @ item_code KEY # post"
    and pre: "length pre = offset" and len: "offset + 60 < request_len"
  shows "pull_loop d (Some h) request request_len offset response 0 = None"
proof -
  let ?ps = "replicate 60 (Pull KEY)"
  have l: "length (concat (map encode_pull ?ps)) = 60" by (simp add: length_concat sum_list_replicate)
  have all: "list_all (pull_allowed (Some h)) ?ps" by (simp add: pull_allowed_def list_all_iff)
  have ptr: "ptr_ok (abs_db d) (Some h)" using u by (simp add: ptr_ok_def)
  have le: "offset + length (concat (map encode_pull ?ps)) \<le> request_len" using l len by simp
  have room: "0 + 17 * length ?ps \<le> length response" using r by simp
  obtain d' where d': "pull_loop d (Some h) request request_len offset response 0 =
      pull_loop d' (Some h) request request_len (offset + 60)
        (spec_answers (Some h) (abs_db d) ?ps response 0) 1020"
    using pull_loop_prefix [OF wf ptr all req pre le room] l by auto
  have lr: "length (spec_answers (Some h) (abs_db d) ?ps response 0) = 1024"
    using length_spec_answers [OF sockets_ok_abs [OF wf] room] r by simp
  have b: "rd request (offset + 60) = Some (item_code KEY)"
    using req pre l by (simp add: rd_append rd_Cons)
  have "pull_step d' (Some h) request (offset + 60) (spec_answers (Some h) (abs_db d) ?ps response 0) 1020 = None"
    using b pull_copy_overflow [of "spec_answers (Some h) (abs_db d) ?ps response 0" 1020 16] lr
    by (simp add: pull_step_def)
  with d' b len show ?thesis by (simp add: pull_loop.simps [of d'])
qed

end
