(* ===== verification/Roundtrip.thy ===== *)
theory Roundtrip
  imports Sessions
begin

text \<open>
  The client library and the server agree on the wire format: the bytes that \<open>push_items\<close> and
  \<open>pull_items\<close> of libck.c leave in the caller's buffer are the encoding of a request, and
  \<open>extract_db_values\<close> finds every answer of the server.  libck.c writes a value and leaves the rest
  of its 16-byte payload as it was, so the payloads of the request are those bytes.
\<close>

section \<open>Requests that libck.c writes\<close>

text \<open>The number of payload bytes that a branch of \<open>push_item\<close> (or \<open>push_items\<close>, for an eNB) writes.\<close>

fun lib_len :: "item \<Rightarrow> nat" where
  "lib_len MME_UE_S1AP_ID = 4"
| "lib_len ENB_UE_S1AP_ID = 4"
| "lib_len Target_ENB_UE_S1AP_ID = 4"
| "lib_len UE_TEID = 4"
| "lib_len SPGW_IP = 4"
| "lib_len ENB_IP = 4"
| "lib_len PDN_IP = 4"
| "lib_len EPC_NAS_SEQUENCE_NUMBER = 1"
| "lib_len UE_NAS_SEQUENCE_NUMBER = 1"
| "lib_len NEXT_HOP_CHAINING_COUNT = 1"
| "lib_len AUTH_RES = 8"
| "lib_len ENC_KEY = 16"
| "lib_len INT_KEY = 16"
| "lib_len KASME_1 = 16"
| "lib_len KASME_2 = 16"
| "lib_len KNH_1 = 16"
| "lib_len KNH_2 = 16"
| "lib_len ENB_SOURCE_SOCKET = 4"
| "lib_len ENB_TARGET_SOCKET = 4"
| "lib_len NEW_ENB = 8"
| "lib_len _ = 0"

fun id_len :: "item \<Rightarrow> nat" where
  "id_len IMSI = 16" | "id_len MSIN = 11" | "id_len TMSI = 4" | "id_len MME_UE_S1AP_ID = 4"
| "id_len _ = 0"

definition payload :: "buf \<Rightarrow> nat \<Rightarrow> nat \<Rightarrow> byte list \<Rightarrow> byte list" where
  "payload buffer p n v = take n v @ drop n (take 16 (drop (p + 1) buffer))"

fun lib_pushes :: "buf \<Rightarrow> nat \<Rightarrow> (item \<times> byte list) list \<Rightarrow> (item \<times> byte list) list" where
  "lib_pushes buffer p [] = []"
| "lib_pushes buffer p ((it, v) # xs) =
     (it, payload buffer p (lib_len it) v) # lib_pushes buffer (p + 17) xs"

fun push_va :: "item \<times> byte list \<Rightarrow> va_arg list" where
  "push_va (it, v) =
     (if it = NEW_ENB then [VaInt (uint (item_code it)), VaPtr (take 4 v), VaPtr (drop 4 v)]
      else [VaInt (uint (item_code it)), VaPtr v])"

fun pull_va :: "pull \<Rightarrow> va_arg list" where
  "pull_va (Pull it) = [VaInt (uint (item_code it))]"
| "pull_va (Pull_enb e) = [VaInt (uint (item_code GET_ENB)), VaPtr e]"

definition lib_push_ok :: "item \<times> byte list \<Rightarrow> bool" where
  "lib_push_ok x \<longleftrightarrow> 0 < lib_len (fst x) \<and> lib_len (fst x) \<le> length (snd x)"

lemma length_payload:
  "n \<le> 16 \<Longrightarrow> n \<le> length v \<Longrightarrow> p + 17 \<le> length buffer \<Longrightarrow> length (payload buffer p n v) = 16"
  by (simp add: payload_def)

lemma lib_len_le: "lib_len it \<le> 16"
  by (cases it) simp_all

text \<open>One chunk: bytes \<open>p\<close> to \<open>p + 16\<close> are replaced, everything else stays.\<close>

lemma put_item_ok:
  assumes "p + 17 \<le> length buffer" and "n \<le> 16" and "n \<le> length v"
  shows "put_item buffer p it v n =
         Some (overlay buffer p (item_code it # payload buffer p n v), p + 17)"
proof -
  have "memcpy (buffer[p := item_code it]) (p + 1) v n =
        Some (overlay buffer p (item_code it # take n v))"
    using assms by (intro overlay_Cons_memcpy) simp_all
  moreover have "overlay buffer p (item_code it # payload buffer p n v) =
        overlay buffer p (item_code it # take n v)"
  proof -
    have "drop (16 - n) (drop (p + 1 + n) buffer) = drop (p + 17) buffer"
      using assms(2) by (simp add: add.commute)
    then have "take (16 - n) (drop (p + 1 + n) buffer) @ drop (p + 17) buffer = drop (p + 1 + n) buffer"
      by (metis append_take_drop_id)
    with assms show ?thesis
      by (simp add: overlay_def length_payload) (simp add: payload_def drop_take add.commute)
  qed
  ultimately show ?thesis using assms by (simp add: put_item_def wr_ok)
qed

lemma put_byte_ok:
  assumes "p + 17 \<le> length buffer" and "1 \<le> length v"
  shows "put_byte buffer p it v =
         Some (overlay buffer p (item_code it # payload buffer p 1 v), p + 17)"
proof -
  obtain x xs where v: "v = x # xs" using assms(2) by (cases v) auto
  have "put_byte buffer p it v = put_item buffer p it v 1"
    using assms(1)
    by (simp add: put_byte_def put_item_def v rd_def wr_def memcpy_def rdn_def wrn_def
        upd_conv_take_nth_drop)
  with put_item_ok [of p buffer 1 v it] assms show ?thesis by simp
qed

lemma push_item_ok:
  assumes "lib_push_ok (it, v)" and "it \<noteq> NEW_ENB" and "p + 17 \<le> length buffer"
  shows "push_item buffer p (item_code it) v =
         Some (overlay buffer p (item_code it # payload buffer p (lib_len it) v), p + 17)"
proof -
  have l: "lib_len it \<le> length v" "0 < lib_len it" using assms(1) by (simp_all add: lib_push_ok_def)
  note pi = put_item_ok [OF assms(3) lib_len_le l(1)]
  show ?thesis
  proof (cases "lib_len it = 1")
    case True
    with put_byte_ok [OF assms(3), of v it] l show ?thesis
      by (cases it) (simp_all add: push_item_def)
  next
    case False
    with l pi [of it] assms(2) show ?thesis by (cases it) (simp_all add: push_item_def)
  qed
qed

lemma push_enb_ok:
  assumes "p + 17 \<le> length buffer" and "8 \<le> length v"
  shows "do { buffer \<leftarrow> wr buffer p c;
              buffer \<leftarrow> memcpy buffer (p + 1) (take 4 v) 4;
              memcpy buffer (p + 5) (drop 4 v) 4 } =
         Some (overlay buffer p (c # payload buffer p 8 v))"
proof -
  have t8: "take 8 v = take 4 v @ take 4 (drop 4 v)" by (simp flip: take_add)
  have "overlay buffer p (c # payload buffer p 8 v) = overlay buffer p (c # take 8 v)"
  proof -
    have "take 8 (drop (p + 9) buffer) @ drop (p + 17) buffer = drop (p + 9) buffer"
      using append_take_drop_id [of 8 "drop (p + 9) buffer"] by (simp add: add.commute)
    with assms show ?thesis
      by (simp add: overlay_def length_payload) (simp add: payload_def drop_take add.commute)
  qed
  then show ?thesis
    using assms t8 by (simp add: mem_simps overlay_def take_Suc_conv_app_nth add.commute)
qed

lemma payload_overlay:
  assumes "q + length x \<le> p" and "p \<le> length b"
  shows "payload (overlay b q x) p n v = payload b p n v"
  using assms by (simp add: payload_def overlay_def)

lemma lib_pushes_overlay:
  "q + length x \<le> p \<Longrightarrow> p + 17 * length xs \<le> length b \<Longrightarrow>
   lib_pushes (overlay b q x) p xs = lib_pushes b p xs"
  by (induction xs arbitrary: p) (auto simp: payload_overlay)

lemma push_args_ok:
  assumes "list_all lib_push_ok xs" and "p + 17 * length xs \<le> length buffer"
  shows "push_args (length xs) (concat (map push_va xs)) buffer p =
         Some (overlay buffer p (concat (map encode_push (lib_pushes buffer p xs))), p + 17 * length xs)"
  using assms
proof (induction xs arbitrary: buffer p)
  case Nil
  then show ?case by (simp add: overlay_def)
next
  case (Cons x xs)
  obtain it v where x: "x = (it, v)" by fastforce
  let ?c = "item_code it # payload buffer p (lib_len it) v"
  let ?b = "overlay buffer p ?c"
  have ok: "lib_push_ok (it, v)" and r: "p + 17 \<le> length buffer" using Cons.prems x by simp_all
  have lc: "length ?c = 17"
    using ok r lib_len_le [of it] by (simp add: length_payload lib_push_ok_def)
  have lb: "length ?b = length buffer" using lc r by simp
  have step: "push_args (length (x # xs)) (concat (map push_va (x # xs))) buffer p =
      push_args (length xs) (concat (map push_va xs)) ?b (p + 17)"
  proof (cases "it = NEW_ENB")
    case True
    with push_enb_ok [OF r, of v "item_code NEW_ENB"] ok show ?thesis
      by (auto simp: x lib_push_ok_def split: bind_splits)
  next
    case False
    with push_item_ok [OF ok _ r] show ?thesis
      using item_code_inject [of it NEW_ENB] by (simp add: x del: item_code.simps item_code_inject)
  qed
  have "push_args (length xs) (concat (map push_va xs)) ?b (p + 17) =
      Some (overlay ?b (p + 17) (concat (map encode_push (lib_pushes ?b (p + 17) xs))), p + 17 + 17 * length xs)"
    using Cons.IH [of "p + 17" ?b] Cons.prems lb by simp
  also have "lib_pushes ?b (p + 17) xs = lib_pushes buffer (p + 17) xs"
    using lc Cons.prems(2) by (intro lib_pushes_overlay) simp_all
  finally show ?case
    using step overlay_append [of p ?c buffer] lc r by (simp add: x algebra_simps)
qed

definition lib_id_ok :: "item \<Rightarrow> byte list \<Rightarrow> bool" where
  "lib_id_ok it v \<longleftrightarrow>
     it = NEW_ENB \<or> (0 < id_len it \<and> id_len it \<le> length v \<and> (it = IMSI \<longrightarrow> v ! 15 = 0))"

lemma add_identifier_ok:
  assumes "lib_id_ok it v" and "it \<noteq> NEW_ENB" and "17 \<le> length buffer"
  shows "add_identifier buffer 0 (item_code it) v =
         Some (overlay buffer 0 (item_code it # payload buffer 0 (id_len it) v), 17)"
proof -
  have l: "id_len it \<le> length v" "0 < id_len it" "id_len it \<le> 16"
    using assms(1,2) by (cases it; simp add: lib_id_ok_def)+
  note put = put_item_ok [of 0 buffer "id_len it" v it, simplified, OF assms(3) l(3,1)]
  show ?thesis
  proof (cases "it = IMSI")
    case True
    let ?o = "overlay buffer 0 (item_code IMSI # payload buffer 0 16 v)"
    have "v ! 15 = 0" "16 \<le> length v" using True assms(1) l(1) by (simp_all add: lib_id_ok_def)
    then have "?o ! 16 = 0" and "16 < length ?o"
      using assms(3) by (simp_all add: overlay_def payload_def nth_append)
    then have "wr ?o 16 0 = Some ?o" by (simp add: wr_def list_update_same_conv)
    with put True show ?thesis by (simp add: add_identifier_def)
  next
    case False
    with put l(2) show ?thesis by (cases it) (simp_all add: add_identifier_def)
  qed
qed

lemma push_items_ok:
  assumes id: "lib_id_ok it v" and xs: "list_all lib_push_ok xs"
    and room: "17 + 17 * length xs \<le> length buffer"
  shows "push_items buffer (item_code it) v (length xs) (concat (map push_va xs)) =
         Some (overlay buffer 0 (item_code it # payload buffer 0 (id_len it) v @
                                 concat (map encode_push (lib_pushes buffer 17 xs))),
               17 + 17 * length xs)"
proof -
  let ?c = "item_code it # payload buffer 0 (id_len it) v"
  have lc: "length ?c = 17"
    using id room by (cases it) (auto simp: length_payload lib_id_ok_def)
  have lb: "length (overlay buffer 0 ?c) = length buffer" using lc room by simp
  have first: "(if item_code it = item_code NEW_ENB
        then do { buffer \<leftarrow> wr buffer 0 (item_code NEW_ENB); Some (buffer, 17) }
        else add_identifier buffer 0 (item_code it) v) = Some (overlay buffer 0 ?c, 17)"
  proof (cases "it = NEW_ENB")
    case True
    have "buffer = hd buffer # take 16 (drop 1 buffer) @ drop 17 buffer"
      using room append_take_drop_id [of 16 "tl buffer"] by (cases buffer) (simp_all add: drop_Suc)
    then have "wr buffer 0 (item_code NEW_ENB) =
        Some (item_code NEW_ENB # take 16 (drop 1 buffer) @ drop 17 buffer)"
      using room by (cases buffer) (simp_all add: wr_def)
    with True room show ?thesis by (simp add: overlay_def payload_def)
  next
    case False
    with add_identifier_ok [OF id] room show ?thesis
      by (simp del: item_code.simps)
  qed
  have "push_args (length xs) (concat (map push_va xs)) (overlay buffer 0 ?c) 17 =
     Some (overlay (overlay buffer 0 ?c) 17
             (concat (map encode_push (lib_pushes (overlay buffer 0 ?c) 17 xs))), 17 + 17 * length xs)"
    using push_args_ok [OF xs, of 17 "overlay buffer 0 ?c"] lb room by simp
  also have "lib_pushes (overlay buffer 0 ?c) 17 xs = lib_pushes buffer 17 xs"
    using lc room by (intro lib_pushes_overlay) simp_all
  finally show ?thesis
    using first overlay_append [of 0 ?c buffer] lc room by (simp add: push_items_def del: item_code.simps)
qed

lemma wr_overlay: "p < length b \<Longrightarrow> wr b p c = Some (overlay b p [c])"
  by (simp add: wr_def overlay_def upd_conv_take_nth_drop)

lemma memcpy_overlay:
  "p + n \<le> length b \<Longrightarrow> n = length v \<Longrightarrow> memcpy b p v n = Some (overlay b p v)"
  by (simp add: memcpy_ok overlay_def)

lemma overlay_append_Suc:
  assumes "p < length b"
  shows "overlay (overlay b p [c]) (p + 1) y = overlay b p (c # y)"
  using overlay_append [of p "[c]" b y] assms by simp

lemma pull_args_ok:
  assumes "list_all wf_pull ps" and "p + length (concat (map encode_pull ps)) \<le> length buffer"
  shows "pull_args (length ps) (concat (map pull_va ps)) buffer p =
         Some (overlay buffer p (concat (map encode_pull ps)), p + length (concat (map encode_pull ps)))"
  using assms
proof (induction ps arbitrary: buffer p)
  case Nil
  then show ?case by (simp add: overlay_def)
next
  case (Cons q ps)
  have room: "p + length (encode_pull q) \<le> length buffer" using Cons.prems(2) by simp
  have step: "pull_args (length (q # ps)) (concat (map pull_va (q # ps))) buffer p =
      pull_args (length ps) (concat (map pull_va ps)) (overlay buffer p (encode_pull q))
        (p + length (encode_pull q))"
  proof (cases q)
    case (Pull it)
    with Cons.prems(1) have "item_code it \<noteq> item_code GET_ENB"
      by (simp del: item_code.simps)
    with Pull room show ?thesis by (simp add: pull_item_def wr_overlay del: item_code.simps item_code_inject)
  next
    case (Pull_enb e)
    with Cons.prems(1) have e: "length e = 4" by simp
    have "memcpy (overlay buffer p [item_code GET_ENB]) (p + 1) e 4 =
        Some (overlay buffer p (item_code GET_ENB # e))"
      using room Pull_enb e overlay_append_Suc [of p buffer "item_code GET_ENB" e]
      by (simp add: memcpy_overlay)
    with Pull_enb room e show ?thesis
      by (simp add: pull_item_def wr_overlay) (simp only: add.commute [of p 5])
  qed
  let ?b = "overlay buffer p (encode_pull q)"
  have "length ?b = length buffer" using room by simp
  with Cons step overlay_append [OF room] show ?case by (simp add: add.assoc)
qed

lemma pull_items_ok:
  assumes "list_all wf_pull ps" and "p + 1 + length (encode_pulls ps) \<le> length buffer"
  shows "pull_items buffer p (length ps) (concat (map pull_va ps)) =
         Some (overlay buffer p (0 # encode_pulls ps), p + 1 + length (encode_pulls ps))"
proof -
  let ?e = "concat (map encode_pull ps)"
  have p: "p < length buffer" and l: "length (encode_pulls ps) = length ?e + 1"
    using assms(2) by (simp_all add: encode_pulls_def)
  have lb: "length (overlay buffer p (0 # ?e)) = length buffer" using assms(2) l by simp
  have "pull_args (length ps) (concat (map pull_va ps)) (overlay buffer p [0]) (p + 1) =
     Some (overlay buffer p (0 # ?e), p + 1 + length ?e)"
    using pull_args_ok [OF assms(1), of "p + 1" "overlay buffer p [0]"] assms(2) l
      overlay_append_Suc [OF p] by simp
  moreover have "wr (overlay buffer p (0 # ?e)) (p + 1 + length ?e) (item_code EOM) =
     Some (overlay buffer p (0 # encode_pulls ps))"
    using assms(2) l lb overlay_append [of p "0 # ?e" buffer "[item_code EOM]"]
    by (simp add: wr_overlay encode_pulls_def)
  ultimately show ?thesis using p l by (simp add: pull_items_def wr_overlay pull_item_def)
qed

text \<open>The request that a call of \<open>push_items\<close> followed by \<open>pull_items\<close> puts into \<open>buffer\<close>.\<close>

definition lib_request :: "buf \<Rightarrow> item \<Rightarrow> byte list \<Rightarrow> (item \<times> byte list) list \<Rightarrow> pull list \<Rightarrow> request" where
  "lib_request buffer it v xs ps =
     \<lparr>rq_id = it, rq_val = payload buffer 0 (id_len it) v, rq_pushes = lib_pushes buffer 17 xs,
      rq_pulls = ps\<rparr>"

lemma length_lib_pushes [simp]: "length (lib_pushes buffer p xs) = length xs"
  by (induction xs arbitrary: p) auto

lemma lib_pushes_16:
  assumes "list_all lib_push_ok xs" and "p + 17 * length xs \<le> length buffer"
  shows "list_all (\<lambda>x. length (snd x) = 16) (lib_pushes buffer p xs)"
  using assms
proof (induction xs arbitrary: p)
  case (Cons x xs)
  obtain it v where "x = (it, v)" by fastforce
  with Cons lib_len_le [of it] show ?case by (simp add: length_payload lib_push_ok_def)
qed simp

lemma length_encode:
  assumes "list_all (\<lambda>x. length (snd x) = 16) (rq_pushes r)" and "length (rq_val r) = 16"
  shows "length (encode r) = 18 + 17 * length (rq_pushes r) + length (encode_pulls (rq_pulls r))"
proof -
  have "length (concat (map encode_push xs)) = 17 * length xs"
    if "list_all (\<lambda>x. length (snd x) = 16) xs" for xs
    using that by (induction xs) auto
  with assms show ?thesis by (simp add: encode_def)
qed

lemma lib_encodes:
  assumes id: "lib_id_ok it v" and xs: "list_all lib_push_ok xs" and ps: "list_all wf_pull ps"
    and room: "18 + 17 * length xs + length (encode_pulls ps) \<le> length buffer"
  shows "\<exists>b. push_items buffer (item_code it) v (length xs) (concat (map push_va xs)) =
             Some (b, 17 + 17 * length xs) \<and>
           pull_items b (17 + 17 * length xs) (length ps) (concat (map pull_va ps)) =
             Some (overlay buffer 0 (encode (lib_request buffer it v xs ps)),
                   length (encode (lib_request buffer it v xs ps)))"
proof -
  let ?a = "item_code it # payload buffer 0 (id_len it) v @ concat (map encode_push (lib_pushes buffer 17 xs))"
  let ?r = "lib_request buffer it v xs ps"
  let ?b = "overlay buffer 0 ?a"
  have lv: "length (payload buffer 0 (id_len it) v) = 16"
    using id room by (cases it) (auto simp: length_payload lib_id_ok_def)
  have l: "length (encode ?r) = 18 + 17 * length xs + length (encode_pulls ps)"
    using length_encode [of ?r] lv lib_pushes_16 [OF xs, of 17 buffer] room by (simp add: lib_request_def)
  have e: "encode ?r = ?a @ 0 # encode_pulls ps" by (simp add: encode_def lib_request_def)
  from l e have la: "length ?a = 17 + 17 * length xs" by simp
  have lb: "length ?b = length buffer" using la room by simp
  have "push_items buffer (item_code it) v (length xs) (concat (map push_va xs)) =
      Some (?b, 17 + 17 * length xs)"
    using push_items_ok [OF id xs] room by simp
  moreover have "pull_items ?b (17 + 17 * length xs) (length ps) (concat (map pull_va ps)) =
      Some (overlay ?b (17 + 17 * length xs) (0 # encode_pulls ps), length (encode ?r))"
    using pull_items_ok [OF ps, of "17 + 17 * length xs" ?b] lb room l by simp
  moreover have "overlay ?b (17 + 17 * length xs) (0 # encode_pulls ps) = overlay buffer 0 (encode ?r)"
    using overlay_append [of 0 ?a buffer "0 # encode_pulls ps"] la room e by simp
  ultimately show ?thesis by auto
qed

section \<open>Finding the answers\<close>

text \<open>The pointer that \<open>extract_db_values\<close> sets for an item type.\<close>

fun pfield_of :: "item \<Rightarrow> pfield option" where
  "pfield_of IMSI = Some P_imsi"
| "pfield_of MSIN = Some P_msin"
| "pfield_of TMSI = Some P_tmsi"
| "pfield_of ENB_UE_S1AP_ID = Some P_enb_ue_s1ap_id"
| "pfield_of UE_TEID = Some P_ue_teid"
| "pfield_of SPGW_IP = Some P_spgw_ip"
| "pfield_of ENB_IP = Some P_enb_ip"
| "pfield_of PDN_IP = Some P_pdn_ip"
| "pfield_of UE_NAS_SEQUENCE_NUMBER = Some P_ue_nas_sequence_number"
| "pfield_of EPC_NAS_SEQUENCE_NUMBER = Some P_epc_nas_sequence_number"
| "pfield_of KEY = Some P_key"
| "pfield_of OPC = Some P_opc"
| "pfield_of RAND = Some P_rand"
| "pfield_of RAND_UPDATE = Some P_rand"
| "pfield_of MME_UE_S1AP_ID = Some P_mme_ue_s1ap_id"
| "pfield_of EPC_TEID = Some P_epc_teid"
| "pfield_of AUTH_RES = Some P_auth_res"
| "pfield_of ENC_KEY = Some P_enc_key"
| "pfield_of INT_KEY = Some P_int_key"
| "pfield_of KASME_1 = Some P_kasme1"
| "pfield_of KASME_2 = Some P_kasme2"
| "pfield_of KNH_1 = Some P_knh1"
| "pfield_of KNH_2 = Some P_knh2"
| "pfield_of NEXT_HOP_CHAINING_COUNT = Some P_ncc"
| "pfield_of Target_ENB_UE_S1AP_ID = Some P_target_enb_ue_s1ap_id"
| "pfield_of GET_ENB = Some P_get_enb"
| "pfield_of ENB_SOURCE_SOCKET = Some P_enb_source_socket"
| "pfield_of ENB_TARGET_SOCKET = Some P_enb_target_socket"
| "pfield_of _ = None"

lemma extract_one_eq:
  "extract_one (item_code it) i ptrs =
     (case pfield_of it of None \<Rightarrow> ptrs | Some f \<Rightarrow> ptrs(f := At (i + 1)))"
  by (cases it) (simp_all add: extract_one_def)

text \<open>The item type with which the server answers.\<close>

fun answer_item :: "pull \<Rightarrow> item" where
  "answer_item (Pull it) = (if it = UE_NAS_SEQUENCE_NUMBER_NO_INC then UE_NAS_SEQUENCE_NUMBER else it)"
| "answer_item (Pull_enb e) = GET_ENB"

lemma extract_from_all:
  assumes "\<forall>k < length its. rd buffer (17 * (j + k)) = Some (item_code (its ! k))"
    and "n = 17 * (j + length its)"
  shows "\<exists>ptrs'. extract_from (17 * j) buffer n ptrs = Some ptrs' \<and>
    (\<forall>k f. k < length its \<longrightarrow> pfield_of (its ! k) = Some f \<longrightarrow>
       (\<forall>l. k < l \<longrightarrow> l < length its \<longrightarrow> pfield_of (its ! l) \<noteq> Some f) \<longrightarrow>
       ptrs' f = At (17 * (j + k) + 1)) \<and>
    (\<forall>f. (\<forall>k < length its. pfield_of (its ! k) \<noteq> Some f) \<longrightarrow> ptrs' f = ptrs f)"
  using assms
proof (induction its arbitrary: j ptrs)
  case Nil
  then show ?case by (subst extract_from.simps) simp
next
  case (Cons it its)
  let ?p = "extract_one (item_code it) (17 * j) ptrs"
  have "rd buffer (17 * j) = Some (item_code it)" using Cons.prems(1) by force
  then have step: "extract_from (17 * j) buffer n ptrs = extract_from (17 * (j + 1)) buffer n ?p"
    using Cons.prems(2) by (subst extract_from.simps) (simp add: algebra_simps)
  have "\<forall>k < length its. rd buffer (17 * (j + 1 + k)) = Some (item_code (its ! k))"
  proof (intro allI impI)
    fix k assume "k < length its"
    then show "rd buffer (17 * (j + 1 + k)) = Some (item_code (its ! k))"
      using spec [OF Cons.prems(1), of "Suc k"] by simp
  qed
  from Cons.IH [OF this, of ?p] Cons.prems(2) obtain q where
    q: "extract_from (17 * (j + 1)) buffer n ?p = Some q"
    and set: "\<And>k f. k < length its \<Longrightarrow> pfield_of (its ! k) = Some f \<Longrightarrow>
       (\<forall>l. k < l \<longrightarrow> l < length its \<longrightarrow> pfield_of (its ! l) \<noteq> Some f) \<Longrightarrow>
       q f = At (17 * (j + 1 + k) + 1)"
    and keep: "\<And>f. (\<forall>k < length its. pfield_of (its ! k) \<noteq> Some f) \<Longrightarrow> q f = ?p f"
    by (auto simp: algebra_simps)
  show ?case
  proof (intro exI [of _ q] conjI allI impI)
    show "extract_from (17 * j) buffer n ptrs = Some q" using step q by simp
  next
    fix k f
    assume k: "k < length (it # its)" and f: "pfield_of ((it # its) ! k) = Some f"
      and last: "\<forall>l. k < l \<longrightarrow> l < length (it # its) \<longrightarrow> pfield_of ((it # its) ! l) \<noteq> Some f"
    show "q f = At (17 * (j + k) + 1)"
    proof (cases k)
      case 0
      have "q f = ?p f" by (rule keep) (use last 0 in force)
      with 0 f show ?thesis by (simp add: extract_one_eq)
    next
      case (Suc m)
      have "q f = At (17 * (j + 1 + m) + 1)" by (rule set) (use k f last Suc in force)+
      with Suc show ?thesis by simp
    qed
  next
    fix f
    assume *: "\<forall>k < length (it # its). pfield_of ((it # its) ! k) \<noteq> Some f"
    then have "q f = ?p f" by (intro keep) force
    moreover have "pfield_of it \<noteq> Some f" using * by force
    ultimately show "q f = ptrs f" by (auto simp: extract_one_eq split: option.splits)
  qed
qed

text \<open>Answer number \<open>k\<close> survives the writes of the later ones.\<close>

lemma rdn_overlay_before:
  "j + n \<le> i \<Longrightarrow> i + length v \<le> length b \<Longrightarrow> rdn (overlay b i v) j n = rdn b j n"
  by (rule wrn_frame [of b i v]) (auto simp: wrn_def overlay_def)

lemma rdn_overlay_same: "i + length v \<le> length b \<Longrightarrow> rdn (overlay b i v) i (length v) = Some v"
  by (simp add: rdn_def overlay_def)

lemma spec_answers_before:
  "sockets_ok s \<Longrightarrow> j + n \<le> res \<Longrightarrow> res + 17 * length ps \<le> length response \<Longrightarrow>
   rdn (spec_answers usr s ps response res) j n = rdn response j n"
proof (induction ps arbitrary: s response res)
  case (Cons p ps)
  have "sockets_ok (spec_pull usr s p)" using Cons.prems(1) by (simp add: sockets_ok_def)
  with Cons.IH [of "spec_pull usr s p"] Cons.prems length_spec_answer_abs [OF Cons.prems(1), of usr p]
  show ?case by (simp add: rdn_overlay_before)
qed simp

lemma spec_answers_nth:
  assumes "sockets_ok s" and "k < length ps" and "res + 17 * length ps \<le> length response"
    and ans: "ans = spec_answer usr (foldl (spec_pull usr) s (take k ps)) (ps ! k)"
  shows "rdn (spec_answers usr s ps response res) (res + 17 * k) (length ans) = Some ans"
  using assms(1-3) unfolding ans
proof (induction ps arbitrary: s response res k)
  case (Cons p ps)
  have so: "sockets_ok (spec_pull usr s p)" using Cons.prems(1) by (simp add: sockets_ok_def)
  note l = length_spec_answer_abs [OF Cons.prems(1), of usr p]
  let ?o = "overlay response res (spec_answer usr s p)"
  have lo: "length ?o = length response" using l Cons.prems(3) by simp
  show ?case
  proof (cases k)
    case 0
    then show ?thesis
      using spec_answers_before [OF so, of res "length (spec_answer usr s p)" "res + 17" ps ?o usr]
        l lo Cons.prems(3) by (simp add: rdn_overlay_same)
  next
    case (Suc m)
    with Cons.IH [OF so, of m "res + 17" ?o] lo Cons.prems(2,3) show ?thesis
      by (simp add: algebra_simps)
  qed
qed simp

lemma spec_answer_hd:
  assumes "pull_allowed usr p" and "p \<noteq> Pull NEW_ENB"
  obtains v where "spec_answer usr s p = item_code (answer_item p) # v"
proof (cases p)
  case (Pull_enb e)
  then show thesis by (intro that) (simp split: option.splits)
next
  case (Pull it)
  with assms obtain h where usr: "usr = Some h" and it: "it \<noteq> EOM" "it \<noteq> GET_ENB" "it \<noteq> NEW_ENB"
    "it \<noteq> ENB_SOURCE_SOCKET" "it \<noteq> ENB_TARGET_SOCKET"
    by (auto simp: pull_allowed_def)
  have "\<exists>v. user_answer u it = item_code (answer_item p) # v" for u
    using it Pull by (cases it) (simp_all add: user_answer_def)
  with usr Pull that show thesis by auto
qed

lemma rdn_ConsD:
  assumes "rdn b i (Suc n) = Some (x # xs)"
  shows "rd b i = Some x" and "rdn b (i + 1) n = Some xs"
proof -
  from assms have l: "i + Suc n \<le> length b" and t: "take (Suc n) (drop i b) = x # xs"
    by (auto simp: rdn_def split: if_splits)
  have d: "drop i b = b ! i # drop (i + 1) b" using l by (simp add: Cons_nth_drop_Suc)
  from t d have "b ! i = x" "take n (drop (i + 1) b) = xs" by simp_all
  with l show "rd b i = Some x" "rdn b (i + 1) n = Some xs" by (simp_all add: rd_def rdn_def)
qed

text \<open>The state in which pull number \<open>k\<close> of a request is answered.\<close>

definition state_at :: "adb \<Rightarrow> request \<Rightarrow> nat \<Rightarrow> adb" where
  "state_at s r k =
     foldl (spec_pull (request_user r)) (foldl (spec_push (request_user r)) s (rq_pushes r))
           (take k (rq_pulls r))"

text \<open>Every pointer that the client extracts points at the answer of the specification.\<close>

lemma extract_serve_answer:
  assumes so: "sockets_ok s" and ok: "request_ok s r" and resp: "length response = 1024"
    and ne: "list_all (\<lambda>p. p \<noteq> Pull NEW_ENB) (rq_pulls r)"
    and k: "k < length (rq_pulls r)" and f: "pfield_of (answer_item (rq_pulls r ! k)) = Some f"
    and last: "\<forall>l. k < l \<longrightarrow> l < length (rq_pulls r) \<longrightarrow> pfield_of (answer_item (rq_pulls r ! l)) \<noteq> Some f"
    and v: "v = tl (spec_answer (request_user r) (state_at s r k) (rq_pulls r ! k))"
  shows "\<exists>ptrs'. extract_db_values (serve_answer (request_user r) s r response) (17 * length (rq_pulls r)) ptrs =
           Some ptrs' \<and> ptrs' f = At (17 * k + 1) \<and>
         rdn (serve_answer (request_user r) s r response) (17 * k + 1) (length v) = Some v"
proof -
  let ?ps = "rq_pulls r" and ?u = "request_user r"
  let ?s = "foldl (spec_push ?u) s (rq_pushes r)"
  let ?R = "serve_answer ?u s r response"
  have so': "sockets_ok ?s" using so ok by (intro sockets_ok_pushes) (simp_all add: request_ok_def)
  have room: "0 + 17 * length ?ps \<le> length response" using ok resp by (simp add: request_ok_def)
  have at: "\<exists>w. spec_answer ?u (state_at s r l) (?ps ! l) = item_code (answer_item (?ps ! l)) # w \<and>
      rd ?R (17 * l) = Some (item_code (answer_item (?ps ! l))) \<and> rdn ?R (17 * l + 1) (length w) = Some w"
    if l: "l < length ?ps" for l
  proof -
    have "pull_allowed ?u (?ps ! l)" "?ps ! l \<noteq> Pull NEW_ENB"
      using ok ne l by (auto simp: request_ok_def list_all_length)
    then obtain w where w: "spec_answer ?u (state_at s r l) (?ps ! l) = item_code (answer_item (?ps ! l)) # w"
      by (rule spec_answer_hd)
    have "rdn ?R (17 * l) (Suc (length w)) = Some (item_code (answer_item (?ps ! l)) # w)"
      using spec_answers_nth [OF so' l room refl, of ?u] w
      by (simp add: serve_answer_def state_at_def)
    from rdn_ConsD [OF this] w show ?thesis by blast
  qed
  let ?its = "map answer_item ?ps"
  have "\<forall>l < length ?its. rd ?R (17 * (0 + l)) = Some (item_code (?its ! l))" using at by fastforce
  from extract_from_all [OF this, of "17 * length ?ps" ptrs] obtain ptrs' where
    "extract_from 0 ?R (17 * length ?ps) ptrs = Some ptrs'" and
    set: "\<And>k f. k < length ?its \<Longrightarrow> pfield_of (?its ! k) = Some f \<Longrightarrow>
       (\<forall>l. k < l \<longrightarrow> l < length ?its \<longrightarrow> pfield_of (?its ! l) \<noteq> Some f) \<Longrightarrow> ptrs' f = At (17 * (0 + k) + 1)"
    by auto
  moreover have "ptrs' f = At (17 * k + 1)" using set [of k f] k f last by simp
  moreover have "rdn ?R (17 * k + 1) (length v) = Some v" using at [OF k] v by auto
  ultimately show ?thesis by (simp add: extract_db_values_def)
qed

end
