(* ===== verification/Examples.thy ===== *)
theory Examples
  imports Roundtrip
begin

text \<open>
  A small database on which the properties are instantiated: one subscriber with IMSI
  \<open>208930000000003\<close> (key 3) and one eNB.  The tables have a single bucket.
\<close>

definition ex_imsi :: "byte list" where
  "ex_imsi = [50, 48, 56, 57, 51, 48, 48, 48, 48, 48, 48, 48, 48, 48, 51, 0]"

definition ex_user :: UserInfo where
  "ex_user = ex_imsi @ replicate 199 0"

definition ex_users :: "UserInfo hashmap" where
  "ex_users = \<lparr>initval = 0, hashmap_size = 1, hash_fn = hash_imsi_user_info, table = [[ex_user]]\<rparr>"

definition ex_enbs :: "ENBInfo hashmap" where
  "ex_enbs = \<lparr>initval = 0, hashmap_size = 1, hash_fn = hash_enb_info,
              table = [[\<lparr>enb_id = 7, sock_num = [0, 0, 0, 9]\<rparr>]]\<rparr>"

definition ex_db :: db where
  "ex_db = \<lparr>imsi_map = ex_users, eNBs = ex_enbs, rands = of_nat, mallocs = (\<lambda>_. True)\<rparr>"

lemma ex_bucket [simp]: "bucket_index ex_users h = Some 0" "bucket_index ex_enbs h = Some 0"
  by (simp_all add: bucket_index_def ex_users_def ex_enbs_def)

lemma length_ex_user [simp]: "length ex_user = user_info_size"
  by (simp add: ex_user_def ex_imsi_def layout_simps)

lemma wf_ex_user [simp]: "wf_user ex_user"
  by (simp add: wf_user_def fld_def layout_simps) (simp add: ex_user_def ex_imsi_def)

lemma hash_ex_imsi [simp]: "hash_imsi (ex_imsi @ r) = Some 3"
  by (simp add: hash_imsi_def ex_imsi_def atoi_def atoi_signed_def isdigit_def isspace_def)

lemma hash_ex_user [simp]: "hash_imsi_user_info ex_user = 3"
  by (simp add: hash_imsi_user_info_def ex_user_def)

lemma get_ex_users: "hashmap_get ex_users h = Some (if h = 3 then Some ex_user else None)"
  by (simp add: hashmap_get_def) (simp add: ex_users_def)

lemma get_ex_enbs:
  "hashmap_get ex_enbs i = Some (if i = 7 then Some \<lparr>enb_id = 7, sock_num = [0, 0, 0, 9]\<rparr> else None)"
  by (simp add: hashmap_get_def) (simp add: ex_enbs_def hash_enb_info_def)

lemma wf_ex_users: "wf_hashmap ex_users" and wf_ex_enbs: "wf_hashmap ex_enbs"
  by (simp_all add: wf_hashmap_def) (simp_all add: ex_users_def ex_enbs_def)

lemma wf_ex_db [simp]: "wf_db ex_db"
proof -
  have "hash_fn ex_users = hash_imsi_user_info" "hash_fn ex_enbs = hash_enb_info"
    by (simp_all add: ex_users_def ex_enbs_def)
  then show ?thesis
    using wf_ex_users wf_ex_enbs by (auto simp: wf_db_def ex_db_def get_ex_users get_ex_enbs split: if_splits)
qed

lemma alloc_ex_db [simp]: "alloc_ok ex_db"
  by (simp add: alloc_ok_def ex_db_def)

lemma users_ex_db [simp]: "users (abs_db ex_db) h = (if h = 3 then Some ex_user else None)"
  by (simp add: abs_db_def ex_db_def get_ex_users)

lemma enbs_ex_db [simp]: "enbs (abs_db ex_db) i = (if i = 7 then Some [0, 0, 0, 9] else None)"
  by (simp add: abs_db_def ex_db_def get_ex_enbs)

text \<open>A request that stores an eNB address for the subscriber and pulls its key and NAS counter.\<close>

definition ex_request :: request where
  "ex_request = \<lparr>rq_id = IMSI, rq_val = ex_imsi,
     rq_pushes = [(ENB_IP, [10, 0, 0, 1] @ replicate 12 0)],
     rq_pulls = [Pull KEY, Pull EPC_NAS_SEQUENCE_NUMBER, Pull_enb [0, 0, 0, 7]]\<rparr>"

lemma ex_request_user [simp]: "request_user ex_request = Some 3"
  using hash_ex_imsi [of "[]"] by (simp add: request_user_def ex_request_def)

lemma ex_request_ok [simp]: "request_ok (abs_db ex_db) ex_request"
  by (simp add: request_ok_def) (simp add: ex_request_def push_allowed_def pull_allowed_def ex_imsi_def)

lemma length_ex_request [simp]: "length (encode ex_request) = 43"
  by (simp add: encode_def ex_request_def ex_imsi_def encode_pulls_def)

end
