(* ===== verification/Robustness.thy ===== *)
theory Robustness
  imports Protocol
begin

text \<open>
  What no request can do, whatever its bytes are: the database stays well-formed, no subscriber
  appears or disappears, at most the record of the subscriber that the request names changes, and
  the provisioned members of a record (IMSI, key, operator code, TMSI, TEID and address) never
  change.  The server does not validate its input, so these statements quantify over all byte
  strings; they cover every run of \<open>analyze_request\<close> that stays inside its buffers.
\<close>

definition provisioned :: "ufield \<Rightarrow> bool" where
  "provisioned f \<longleftrightarrow> f \<in> {F_imsi, F_key, F_opc, F_tmsi, F_epc_teid, F_pdn_ipv4}"

definition keeps :: "user_ptr \<Rightarrow> db \<Rightarrow> db \<Rightarrow> bool" where
  "keeps usr d d' \<longleftrightarrow> wf_db d' \<and>
     (\<forall>h. users (abs_db d') h = None \<longleftrightarrow> users (abs_db d) h = None) \<and>
     (\<forall>h. Some h \<noteq> usr \<longrightarrow> users (abs_db d') h = users (abs_db d) h) \<and>
     (\<forall>h u u' f. users (abs_db d) h = Some u \<longrightarrow> users (abs_db d') h = Some u' \<longrightarrow>
        provisioned f \<longrightarrow> fld u' f = fld u f)"

lemma keeps_refl: "wf_db d \<Longrightarrow> keeps usr d d"
  by (auto simp: keeps_def)

lemma keeps_trans:
  assumes a: "keeps usr d d1" and b: "keeps usr d1 d2"
  shows "keeps usr d d2"
  unfolding keeps_def
proof (intro conjI allI impI)
  show "wf_db d2" using b by (simp add: keeps_def)
  show "users (abs_db d2) h = None \<longleftrightarrow> users (abs_db d) h = None" for h
    using a b by (simp add: keeps_def)
  show "users (abs_db d2) h = users (abs_db d) h" if "Some h \<noteq> usr" for h
    using a b that by (simp add: keeps_def)
  fix h u u' f
  assume u: "users (abs_db d) h = Some u" "users (abs_db d2) h = Some u'" and f: "provisioned f"
  with b obtain u1 where u1: "users (abs_db d1) h = Some u1"
    unfolding keeps_def by (metis not_None_eq option.distinct(1))
  have "fld u1 f = fld u f" using a u(1) u1 f by (simp add: keeps_def)
  moreover have "fld u' f = fld u1 f" using b u1 u(2) f by (simp add: keeps_def)
  ultimately show "fld u' f = fld u f" by simp
qed

lemma keeps_wf: "keeps usr d d' \<Longrightarrow> wf_db d'"
  by (simp add: keeps_def)

text \<open>A writer that, when it succeeds, replaces one member that is not provisioned.\<close>

definition sets_field :: "(UserInfo \<Rightarrow> UserInfo option) \<Rightarrow> bool" where
  "sets_field g \<longleftrightarrow> (\<forall>u u'. wf_user u \<longrightarrow> g u = Some u' \<longrightarrow>
     (\<exists>f v. \<not> provisioned f \<and> length v = fsize f \<and> u' = set_fld u f v))"

lemma modify_user_keeps:
  assumes wf: "wf_db d" and g: "sets_field g" and m: "modify_user d usr g = Some d'"
  shows "keeps usr d d'"
proof -
  from m obtain h u u' where usr: "usr = Some h" and u: "users (abs_db d) h = Some u"
    and gu: "g u = Some u'"
    by (auto simp: modify_user_def deref_user_def abs_db_def split: bind_splits)
  note wu = wf_db_user(1) [OF wf u]
  from g wu gu obtain f v where f: "\<not> provisioned f" "length v = fsize f" and u': "u' = set_fld u f v"
    unfolding sets_field_def by blast
  from f(1) have "f \<noteq> F_imsi" by (auto simp: provisioned_def)
  with modify_user_set_fld [where g = g, OF wf u] gu u' f(2) m usr
  have "wf_db d'" and a: "abs_db d' = (abs_db d)\<lparr>users := (users (abs_db d))(h \<mapsto> set_fld u f v)\<rparr>"
    by auto
  moreover have "fld (set_fld u f v) f' = fld u f'" if "provisioned f'" for f'
    using that f wu by (auto simp: fld_set_fld)
  ultimately show ?thesis
    using usr u by (auto simp: keeps_def split: if_splits)
qed

lemma sets_field_memcpy:
  assumes "\<not> provisioned f"
  shows "sets_field (\<lambda>u. memcpy u (offsetof f) src (fsize f))"
  unfolding sets_field_def
proof (intro allI impI)
  fix u u' assume w: "wf_user u" and m: "memcpy u (offsetof f) src (fsize f) = Some u'"
  from m have "fsize f \<le> length src" by (auto simp: memcpy_def rdn_def split: if_splits)
  with w m memcpy_set_fld [of u "fsize f" f src] assms
  show "\<exists>f v. \<not> provisioned f \<and> length v = fsize f \<and> u' = set_fld u f v"
    by (intro exI [of _ f] exI [of _ "take (fsize f) src"]) simp
qed

lemma sets_field_wr:
  assumes "\<not> provisioned f" and "fsize f = 1"
  shows "sets_field (\<lambda>u. wr u (offsetof f) v)"
  unfolding sets_field_def using assms wr_set_fld [of _ f v]
  by (metis One_nat_def length_Cons list.size(3) option.inject wf_user_length)

lemma sets_field_rand: "sets_field (\<lambda>u. generate_rand u a b c e)"
  unfolding sets_field_def
proof (intro allI impI)
  fix u u' assume "wf_user u" and "generate_rand u a b c e = Some u'"
  then show "\<exists>f v. \<not> provisioned f \<and> length v = fsize f \<and> u' = set_fld u f v"
    by (intro exI [of _ F_rand] exI [of _ "UINT32_TO_ARRAY a @ UINT32_TO_ARRAY b @
          UINT32_TO_ARRAY c @ UINT32_TO_ARRAY e"]) (simp add: generate_rand_spec provisioned_def)
qed

lemma push_copy_keeps:
  assumes "wf_db d" and "push_copy d usr request offset (offsetof f) (fsize f) = Some d'"
    and "\<not> provisioned f"
  shows "keeps usr d d'"
  using modify_user_keeps [OF assms(1) sets_field_memcpy [OF assms(3)]] assms(2)
  by (simp add: push_copy_def)

lemma store_enb_keeps:
  assumes wf: "wf_db d" and s: "store_enb d request offset = Some d'"
  shows "keeps usr d d'"
proof -
  have wfm: "wf_db (drop_mallocs k d)" "keeps usr d (drop_mallocs k d)" for k
    using wf by (auto simp: wf_db_def drop_mallocs_def keeps_def abs_db_def)
  have "keeps usr d (drop_mallocs k (d\<lparr>eNBs := m\<rparr>))"
    if add: "hashmap_add (eNBs d) e m1 m2 = Some (st, m)" and e: "length (sock_num e) = 4" for k e m1 m2 st m
  proof -
    have "wf_db (d\<lparr>eNBs := m\<rparr>)"
    proof (cases "m1 \<and> m2")
      case True
      from wf have we: "wf_hashmap (eNBs d)" by (simp add: wf_db_def)
      from True add hm.add_law [OF we, of e] have "wf_hashmap m" "hash_fn m = hash_fn (eNBs d)"
        "\<forall>h. hashmap_get m h = (if h = hash_fn (eNBs d) e \<and> hashmap_get (eNBs d) h = Some None
                                 then Some (Some e) else hashmap_get (eNBs d) h)" by auto
      with wf e show ?thesis by (auto simp: wf_db_def split: if_splits)
    next
      case False
      with add have "m = eNBs d" by (auto simp: hashmap_add_def split: if_splits)
      with wf show ?thesis by simp
    qed
    then show ?thesis by (auto simp: keeps_def wf_db_def drop_mallocs_def abs_db_def)
  qed
  moreover have "length (sock_num e) = 4" if "create_enb m i k = Some (Some e)" for m i k e
    using that by (auto simp: create_enb_def rdn_def split: bind_splits if_splits)
  ultimately show ?thesis
    using s wfm by (auto simp: store_enb_def split: bind_splits option.splits if_splits prod.splits)
qed

lemma push_step_keeps:
  assumes wf: "wf_db d" and s: "push_step d usr request offset = Some d'"
  shows "keeps usr d d'"
proof -
  from s obtain b where b: "rd request offset = Some b" by (auto simp: push_step_def split: bind_splits)
  consider (none) "item_of b = None \<or> (\<exists>it. item_of b = Some it \<and> push_target it = None \<and> it \<noteq> NEW_ENB)"
    | (enb) "item_of b = Some NEW_ENB"
    | (byte) it f where "item_of b = Some it" "push_target it = Some f" "fsize f = 1"
    | (copy) it f where "item_of b = Some it" "push_target it = Some f" "fsize f \<noteq> 1"
    by (metis not_None_eq)
  then show ?thesis
  proof cases
    case none
    then have "d' = d"
    proof
      assume "item_of b = None"
      with s b show ?thesis by (simp add: push_step_def)
    next
      assume "\<exists>it. item_of b = Some it \<and> push_target it = None \<and> it \<noteq> NEW_ENB"
      then obtain it where "b = item_code it" "push_target it = None" "it \<noteq> NEW_ENB"
        by (auto dest: item_of_SomeD)
      with push_step_other [of it request offset d usr] s b show ?thesis by simp
    qed
    with wf show ?thesis by (simp add: keeps_refl)
  next
    case enb
    with s b store_enb_keeps [OF wf] show ?thesis by (simp add: push_step_def)
  next
    case byte
    have np: "\<not> provisioned f" using byte(2) by (cases it) (auto simp: provisioned_def)
    from s b byte obtain v where "modify_user d usr (\<lambda>u. wr u (offsetof f) v) = Some d'"
      by (cases it) (auto simp: push_step_def set_user_epc_nas_sequence_number_def
          set_user_ue_nas_sequence_number_def set_user_next_hop_chaining_count_def split: bind_splits)
    with modify_user_keeps [OF wf sets_field_wr [OF np byte(3)]] show ?thesis by blast
  next
    case copy
    have np: "\<not> provisioned f" using copy(2) by (cases it) (auto simp: provisioned_def)
    from s b copy have "push_copy d usr request offset (offsetof f) (fsize f) = Some d'"
      by (cases it) (auto simp: push_step_def getter_offsets)
    with push_copy_keeps [OF wf _ np] show ?thesis by blast
  qed
qed

lemma push_loop_keeps:
  "wf_db d \<Longrightarrow> push_loop d usr request offset = Some (d', offset') \<Longrightarrow> keeps usr d d'"
proof (induction d usr request offset rule: push_loop.induct)
  case (1 d usr request offset)
  from "1.prems"(2) obtain b where b: "rd request offset = Some b"
    by (subst (asm) push_loop.simps) (auto split: option.splits)
  show ?case
  proof (cases "b = 0")
    case True
    with b "1.prems" show ?thesis by (subst (asm) push_loop.simps) (auto intro: keeps_refl)
  next
    case False
    with b "1.prems"(2) obtain d1 where d1: "push_step d usr request offset = Some d1"
      and l: "push_loop d1 usr request (offset + 17) = Some (d', offset')"
      by (subst (asm) push_loop.simps) (auto split: option.splits)
    have k: "keeps usr d d1" using push_step_keeps [OF "1.prems"(1) d1] .
    from "1.IH" [OF b False d1 keeps_wf [OF k] l] show ?thesis by (rule keeps_trans [OF k])
  qed
qed

lemma pull_copy_keeps:
  "wf_db d \<Longrightarrow> pull_copy d usr response res it src n = Some (d', response', k) \<Longrightarrow>
   keeps usr d d' \<and> length response' = length response"
  by (auto simp: pull_copy_def keeps_refl dest!: wr_length memcpy_length split: bind_splits)

lemma pull_counter_keeps:
  assumes "wf_db d" and "pull_counter d usr response res it getter setter at = Some (d', response', k)"
    and "\<And>v. sets_field (\<lambda>u. setter u v)"
  shows "keeps usr d d' \<and> length response' = length response"
  using assms(2) modify_user_keeps [OF assms(1) assms(3)]
  by (auto simp: pull_counter_def dest!: wr_length memset_length split: bind_splits)

lemma pull_get_enb_keeps:
  "wf_db d \<Longrightarrow> pull_get_enb d request offset response res = Some (d', response', k) \<Longrightarrow>
   keeps usr d d' \<and> length response' = length response"
  by (auto simp: pull_get_enb_def keeps_refl dest!: wr_length memcpy_length
      split: bind_splits option.splits)

lemma sets_field_counters:
  "sets_field (\<lambda>u. set_user_epc_nas_sequence_number u v)"
  "sets_field (\<lambda>u. set_user_ue_nas_sequence_number u v)"
  "sets_field (\<lambda>u. set_user_next_hop_chaining_count u v)"
  using sets_field_wr [of F_epc_nas_sequence_number v] sets_field_wr [of F_ue_nas_sequence_number v]
    sets_field_wr [of F_next_hop_chaining_count v]
  by (simp_all add: provisioned_def set_user_epc_nas_sequence_number_def
      set_user_ue_nas_sequence_number_def set_user_next_hop_chaining_count_def)

lemma keeps_drop_rands: "keeps usr d d' \<Longrightarrow> keeps usr d (drop_rands n d')"
  by (simp add: keeps_def drop_rands_def wf_db_def abs_db_def)

lemma pull_step_keeps:
  assumes wf: "wf_db d" and s: "pull_step d usr request offset response res = Some (d', response', k)"
  shows "keeps usr d d' \<and> length response' = length response"
proof -
  from s obtain b where b: "rd request offset = Some b" by (auto simp: pull_step_def split: bind_splits)
  show ?thesis
  proof (cases "item_of b")
    case None
    with s b wf show ?thesis by (simp add: pull_step_def keeps_refl)
  next
    case (Some it)
    note rules = pull_copy_keeps [OF wf] pull_get_enb_keeps [OF wf]
      pull_counter_keeps [OF wf _ sets_field_counters(1)]
      pull_counter_keeps [OF wf _ sets_field_counters(2)]
      pull_counter_keeps [OF wf _ sets_field_counters(3)]
    consider (upd) "it = RAND_UPDATE" | (imsi) "it = IMSI" | (no_inc) "it = UE_NAS_SEQUENCE_NUMBER_NO_INC"
      | (skip) "it = EOM \<or> it = NEW_ENB"
      | (other) "it \<notin> {RAND_UPDATE, IMSI, UE_NAS_SEQUENCE_NUMBER_NO_INC, EOM, NEW_ENB}" by blast
    then show ?thesis
    proof cases
      case upd
      with s b Some obtain d1 d2 where c: "pull_copy d usr response res RAND_UPDATE get_user_rand RAND_LEN =
          Some (d1, response', k)"
        and m: "modify_user d1 usr (\<lambda>u. generate_rand u (rands d1 0) (rands d1 1) (rands d1 2) (rands d1 3)) = Some d2"
        and d': "d' = drop_rands 4 d2"
        by (auto simp: pull_step_def split: bind_splits)
      from pull_copy_keeps [OF wf c] have k1: "keeps usr d d1" and l: "length response' = length response"
        by simp_all
      from modify_user_keeps [OF keeps_wf [OF k1] sets_field_rand m]
      have "keeps usr d d2" by (rule keeps_trans [OF k1])
      with l d' show ?thesis by (simp add: keeps_drop_rands)
    next
      case imsi
      with s b Some obtain d1 r1 where c: "pull_copy d usr response res IMSI get_user_imsi IMSI_LEN =
          Some (d1, r1, k)" and w: "wr r1 (res + 16) 0 = Some response'" and "d' = d1"
        by (auto simp: pull_step_def split: bind_splits)
      with pull_copy_keeps [OF wf c] wr_length [OF w] show ?thesis by simp
    next
      case no_inc
      with s b Some wf show ?thesis
        by (auto simp: pull_step_def keeps_refl dest!: wr_length memset_length split: bind_splits)
    next
      case skip
      with s b Some wf show ?thesis by (auto simp: pull_step_def keeps_refl)
    next
      case other
      with s b Some rules show ?thesis by (cases it) (auto simp: pull_step_def)
    qed
  qed
qed

lemma pull_loop_keeps:
  "wf_db d \<Longrightarrow> pull_loop d usr request n offset response res = Some (d', response', offset', res') \<Longrightarrow>
   keeps usr d d' \<and> length response' = length response"
proof (induction d usr request n offset response res rule: pull_loop.induct)
  case (1 d usr request n offset response res)
  show ?case
  proof (cases "offset < n \<and> rd request offset \<noteq> Some (item_code EOM)")
    case False
    with "1.prems" show ?thesis
      by (subst (asm) pull_loop.simps) (auto simp: keeps_refl split: if_splits option.splits)
  next
    case True
    with "1.prems"(2) obtain b d1 r1 k where b: "rd request offset = Some b" "b \<noteq> item_code EOM"
      and s: "pull_step d usr request offset response res = Some (d1, r1, k)"
      and l: "pull_loop d1 usr request n (offset + k + 1) r1 (res + 17) = Some (d', response', offset', res')"
      by (subst (asm) pull_loop.simps) (auto split: option.splits)
    from pull_step_keeps [OF "1.prems"(1) s] have k: "keeps usr d d1" "length r1 = length response"
      by simp_all
    from True have lt: "offset < n" by simp
    from "1.IH" [OF lt b s refl refl keeps_wf [OF k(1)] l] k show ?thesis
      by (auto intro: keeps_trans)
  qed
qed

lemma run_items_keeps:
  assumes wf: "wf_db d" and r: "run_items d usr request n response = Some a"
  shows "keeps usr d (ans_db a) \<and> length (ans_response a) = length response"
proof -
  from r obtain d1 off d2 response' off' res where
    p: "push_loop d usr request 17 = Some (d1, off)"
    and q: "pull_loop d1 usr request n (off + 1) response 0 = Some (d2, response', off', res)"
    and a: "ans_db a = d2" "ans_response a = response'"
    by (auto simp: run_items_def split: bind_splits)
  note k = push_loop_keeps [OF wf p]
  from pull_loop_keeps [OF keeps_wf [OF k] q] keeps_trans [OF k] a show ?thesis by auto
qed

lemma reject_keeps:
  "wf_db d \<Longrightarrow> reject_request d request n response = Some a \<Longrightarrow>
   ans_db a = d \<and> length (ans_response a) = length response"
  by (auto simp: reject_request_def dest!: wr_length split: bind_splits)

lemma skip_to_EOM_total: "n \<le> length request \<Longrightarrow> \<exists>j. skip_to_EOM request n i = Some j"
proof (induction request n i rule: skip_to_EOM.induct)
  case (1 request n i)
  show ?case
  proof (cases "i < n")
    case True
    with "1.prems" have r: "rd request i = Some (request ! i)" by (simp add: rd_def)
    show ?thesis
      using True r "1.IH" [OF True r] "1.prems" by (subst skip_to_EOM.simps) simp
  qed (subst skip_to_EOM.simps, simp)
qed

text \<open>The subscriber that the first bytes of a request name.\<close>

definition named_user :: "buf \<Rightarrow> u32 option" where
  "named_user request = do {
     b \<leftarrow> rd request 0;
     it \<leftarrow> item_of b;
     ident_key it (drop 1 request) }"

lemma lookup_keeps:
  assumes "wf_db d" and "lookup_and_run d (Some h) request n response = Some a"
  shows "keeps (Some h) d (ans_db a) \<and> length (ans_response a) = length response"
  using assms run_items_keeps [OF assms(1)] reject_keeps [OF assms(1)] keeps_refl [OF assms(1)]
  by (auto simp: lookup_and_run_def split: bind_splits if_splits)

lemma analyze_request_keeps:
  assumes wf: "wf_db d" and a: "analyze_request d request n response = Some a"
  shows "keeps (named_user request) d (ans_db a) \<and> length (ans_response a) = length response"
proof -
  from a obtain b where b: "rd request 0 = Some b" by (auto simp: analyze_request_def split: bind_splits)
  consider (key) it h where "b = item_code it" "ident_key it (drop 1 request) = Some h"
    | (enb) "b = item_code NEW_ENB" "named_user request = None"
    | (reject) "reject_request d request n response = Some a"
  proof (cases "item_of b")
    case None
    with a b that(3) show thesis by (simp add: analyze_request_def)
  next
    case (Some it)
    then have bi: "b = item_code it" by (rule item_of_SomeD)
    show thesis
    proof (cases "ident_key it (drop 1 request)")
      case None
      then show thesis
        using a b bi that(2,3)
        by (cases it) (simp_all add: analyze_request_def lookup_and_run_def named_user_def)
    next
      case (Some h)
      with bi that(1) show thesis by blast
    qed
  qed
  then show ?thesis
  proof cases
    case key
    then have "named_user request = Some h" using b by (simp add: named_user_def)
    with analyze_ident [of request it h d n response] key b a lookup_keeps [OF wf] show ?thesis by simp
  next
    case enb
    with a b run_items_keeps [OF wf] show ?thesis by (simp add: analyze_request_def)
  next
    case reject
    with reject_keeps [OF wf] keeps_refl [OF wf] show ?thesis by auto
  qed
qed

end
