(* ===== verification/Loader.thy ===== *)
theory Loader
  imports Aes Protocol
begin

text \<open>
  Loading the subscriber file (corekube-db/source/corekubeDB.c: \<open>key_to_hex\<close>, \<open>process_line\<close>,
  \<open>read_db_file\<close>, \<open>init_db\<close>).  A line is the buffer that \<open>getline\<close> filled: the characters, the NUL
  byte and whatever the buffer held behind it, because the code reads a fixed number of bytes from
  some tokens.  \<open>strtok\<close> writes NUL bytes into that buffer; tokens are offsets into it.  Fresh heap
  blocks and the local array \<open>op_key\<close> have arbitrary contents, which are arguments.
\<close>

definition ascii_map :: "byte list" where
  "ascii_map =
     replicate 48 0 @
     [0x00, 0x01, 0x02, 0x03, 0x04, 0x05, 0x06, 0x07,
      0x08, 0x09, 0x00, 0x00, 0x00, 0x00, 0x00, 0x00,
      0x00, 0x0a, 0x0b, 0x0c, 0x0d, 0x0e, 0x0f, 0x00] @
     replicate 24 0 @
     [0x00, 0x0a, 0x0b, 0x0c, 0x0d, 0x0e, 0x0f, 0x00] @
     replicate 152 0"

section \<open>C strings\<close>

fun strlen :: "byte list \<Rightarrow> nat option" where
  "strlen [] = None"
| "strlen (c # cs) = (if c = 0 then Some 0 else map_option Suc (strlen cs))"

text \<open>\<open>strcmp(s, lit) == 0\<close> for a literal without NUL.\<close>

definition streq :: "byte list \<Rightarrow> byte list \<Rightarrow> bool option" where
  "streq s lit = map_option (\<lambda>n. take n s = lit) (strlen s)"

definition comma :: byte where "comma = 44"

text \<open>\<open>strtok\<close> with the delimiter \<open>","\<close> from position \<open>i\<close>: the buffer, the token and the position to go on.\<close>

fun skip_delim :: "byte list \<Rightarrow> nat" where
  "skip_delim [] = 0"
| "skip_delim (c # cs) = (if c = comma then Suc (skip_delim cs) else 0)"

fun token_len :: "byte list \<Rightarrow> nat option" where
  "token_len [] = None"
| "token_len (c # cs) = (if c = comma \<or> c = 0 then Some 0 else map_option Suc (token_len cs))"

definition strtok :: "buf \<Rightarrow> nat \<Rightarrow> (buf \<times> (nat \<times> nat) option) option" where
  "strtok b i = do {
     let start = i + skip_delim (drop i b);
     c \<leftarrow> rd b start;
     if c = 0 then Some (b, None)
     else do {
       n \<leftarrow> token_len (drop start b);
       e \<leftarrow> rd b (start + n);
       if e = 0 then Some (b, Some (start, start + n))
       else Some (b[start + n := 0], Some (start, start + n + 1)) } }"

section \<open>Hexadecimal keys\<close>

definition hex_byte :: "byte \<Rightarrow> byte \<Rightarrow> byte" where
  "hex_byte c0 c1 = push_bit 4 (ascii_map ! unat c0) OR ascii_map ! unat c1"

function key_loop_hex :: "buf \<Rightarrow> nat \<Rightarrow> buf \<Rightarrow> nat \<Rightarrow> nat \<Rightarrow> buf option" where
  "key_loop_hex dst at key_str err pos =
     (if pos < 32 then do {
        n \<leftarrow> strlen key_str;
        if pos < n then do {
          idx0 \<leftarrow> rd key_str (pos + err);
          idx1 \<leftarrow> rd key_str (pos + err + 1);
          dst \<leftarrow> wr dst (at + pos div 2) (hex_byte idx0 idx1);
          key_loop_hex dst at key_str err (pos + 2) }
        else Some dst }
      else Some dst)"
  by pat_completeness auto
termination by (relation "measure (\<lambda>(dst, at, key_str, err, pos). 32 - pos)") auto

declare key_loop_hex.simps [simp del]

definition key_to_hex :: "buf \<Rightarrow> nat \<Rightarrow> buf \<Rightarrow> buf option" where
  "key_to_hex dst at key_str = do {
     c0 \<leftarrow> rd key_str 0;
     c1 \<leftarrow> (if c0 = 48 then rd key_str 1 else Some 0);
     let err = (if c0 = 48 \<and> c1 = 120 then 2 else 0);
     key_loop_hex dst at key_str err 0 }"

section \<open>Lines\<close>

text \<open>
  The token loop of \<open>process_line\<close>.  The state is the line buffer, the record under construction,
  \<open>op_key\<close> and \<open>opc_flag\<close> (\<open>None\<close> before it is assigned).  The inner \<open>None\<close> of the result is the
  early return for an unknown operator code type.
\<close>

definition line_column ::
  "nat \<Rightarrow> buf \<Rightarrow> UserInfo \<times> buf \<times> nat option \<Rightarrow> (UserInfo \<times> buf \<times> nat option) option option" where
  "line_column column token st =
     (case st of (u, op_key, opc_flag) \<Rightarrow>
        if column = 0 then do {
          u \<leftarrow> set_user_imsi u token;
          Some (Some (u, op_key, opc_flag)) }
        else if column = 1 then do {
          u \<leftarrow> key_to_hex u get_user_key token;
          Some (Some (u, op_key, opc_flag)) }
        else if column = 2 then do {
          is_opc \<leftarrow> streq token [111, 112, 99];
          if is_opc then Some (Some (u, op_key, Some 0))
          else do {
            is_op \<leftarrow> streq token [111, 112];
            if is_op then Some (Some (u, op_key, Some 1)) else Some None } }
        else if column = 3 then do {
          flag \<leftarrow> opc_flag;
          if flag = 1 then do {
            op_key \<leftarrow> key_to_hex op_key 0 token;
            opc \<leftarrow> generate_opc (drop get_user_key u) op_key;
            u \<leftarrow> wrn u get_user_opc opc;
            Some (Some (u, op_key, opc_flag)) }
          else do {
            u \<leftarrow> key_to_hex u get_user_opc token;
            Some (Some (u, op_key, opc_flag)) } }
        else Some (Some st))"

lemma strtok_progress:
  assumes "strtok b i = Some (b', Some (tok, j))"
  shows "i < j \<and> j \<le> length b' \<and> length b' = length b \<and> tok < j"
proof -
  define start where "start = i + skip_delim (drop i b)"
  note a = assms [unfolded strtok_def Let_def, folded start_def]
  from a obtain c where c: "rd b start = Some c" by (auto split: bind_splits)
  with a have c0: "c \<noteq> 0" by auto
  from a c c0 obtain n where n: "token_len (drop start b) = Some n" by (auto split: bind_splits)
  from a c c0 n obtain e where e: "rd b (start + n) = Some e" by (auto split: bind_splits)
  have n0: "0 < n \<or> e \<noteq> 0" using c c0 e by (cases n) auto
  have "start + n < length b" using e by (simp add: rd_def split: if_splits)
  moreover have "i \<le> start" by (simp add: start_def)
  ultimately show ?thesis using a c c0 n e n0 by (cases "e = 0") auto
qed

function token_loop ::
  "nat \<Rightarrow> buf \<Rightarrow> nat \<Rightarrow> UserInfo \<times> buf \<times> nat option \<Rightarrow> (UserInfo \<times> buf \<times> nat option) option option" where
  "token_loop column line i st =
     (case strtok line i of
        None \<Rightarrow> None
      | Some (line', None) \<Rightarrow> Some (Some st)
      | Some (line', Some (tok, j)) \<Rightarrow>
          (case line_column column (drop tok line') st of
             None \<Rightarrow> None
           | Some None \<Rightarrow> Some None
           | Some (Some st') \<Rightarrow> token_loop (column + 1) line' j st'))"
  by pat_completeness auto
termination
  by (relation "measure (\<lambda>(column, line, i, st). length line + 1 - i)")
    (auto dest!: strtok_progress)

declare token_loop.simps [simp del]

definition process_line :: "UserInfo \<Rightarrow> buf \<Rightarrow> db \<Rightarrow> buf \<Rightarrow> int \<Rightarrow> db option" where
  "process_line fresh op_key d line line_len = do {
     c \<leftarrow> rd line 0;
     if c = 35 \<or> line_len \<le> 1 then Some d
     else if \<not> mallocs d 0 then Some (drop_mallocs 1 d)
     else do {
       r \<leftarrow> token_loop 0 line 0 (fresh, op_key, None);
       case r of
         None \<Rightarrow> Some (drop_mallocs 1 d)
       | Some (u, _, _) \<Rightarrow> do {
           _ \<leftarrow> hash_imsi u;
           u \<leftarrow> complete_user_info u (rands d 0) (rands d 1) (rands d 2) (rands d 3);
           (st, m) \<leftarrow> hashmap_add (imsi_map d) u (mallocs d 1) (mallocs d 2);
           Some (drop_mallocs (if mallocs d 1 then 3 else 2) (drop_rands 4 (d\<lparr>imsi_map := m\<rparr>))) } } }"

text \<open>
  \<open>read_db_file\<close>: the lines of the file with the bytes that follow the NUL in the buffer, and for
  each call of \<open>process_line\<close> the initial contents of its record and of \<open>op_key\<close>.  \<open>None\<close> in place
  of the file is a failed \<open>fopen\<close>.
\<close>

fun read_lines :: "db \<Rightarrow> (byte list \<times> buf \<times> UserInfo \<times> buf) list \<Rightarrow> db option" where
  "read_lines d [] = Some d"
| "read_lines d ((text, pad, fresh, op_key) # ls) = do {
     d \<leftarrow> process_line fresh op_key d (text @ 0 # pad) (int (length text));
     read_lines d ls }"

definition read_db_file :: "db \<Rightarrow> (byte list \<times> buf \<times> UserInfo \<times> buf) list option \<Rightarrow> (status \<times> db) option" where
  "read_db_file d file =
     (case file of
        None \<Rightarrow> Some (ERROR, d)
      | Some ls \<Rightarrow> map_option (Pair OK) (read_lines d ls))"

text \<open>
  \<open>init_db\<close> creates both tables and reads the file; \<open>None\<close> inside the result stands for the return
  value \<open>ERROR\<close>, after which the tables do not exist.
\<close>

definition init_db ::
  "(byte list \<times> buf \<times> UserInfo \<times> buf) list option \<Rightarrow> u32 \<Rightarrow> (nat \<Rightarrow> u32) \<Rightarrow> (nat \<Rightarrow> bool) \<Rightarrow> db option option" where
  "init_db file sz rnd mal =
     (case init_hashmap sz hash_imsi_user_info (mal 0) (mal 1) (rnd 0) of
        None \<Rightarrow> Some None
      | Some m1 \<Rightarrow>
          (case init_hashmap sz hash_enb_info (mal 2) (mal 3) (rnd 1) of
             None \<Rightarrow> Some None
           | Some m2 \<Rightarrow> do {
               (st, d) \<leftarrow> read_db_file \<lparr>imsi_map = m1, eNBs = m2, rands = (\<lambda>i. rnd (i + 2)),
                                       mallocs = (\<lambda>i. mal (i + 4))\<rparr> file;
               if st = OK then Some (Some d) else Some None }))"

section \<open>Tokens\<close>

definition plain :: "byte list \<Rightarrow> bool" where
  "plain s \<longleftrightarrow> list_all (\<lambda>c. c \<noteq> 0 \<and> c \<noteq> comma) s"

lemma token_len_plain: "plain tok \<Longrightarrow> token_len (tok @ c # post) = Some (length tok)" if "c = 0 \<or> c = comma"
  using that by (induction tok) (auto simp: plain_def)

lemma strtok_comma:
  assumes "plain tok" and "tok \<noteq> []"
  shows "strtok (pre @ tok @ comma # post) (length pre) =
         Some (pre @ tok @ 0 # post, Some (length pre, length pre + length tok + 1))"
proof -
  from assms obtain c cs where t: "tok = c # cs" "c \<noteq> 0" "c \<noteq> comma" by (cases tok) (auto simp: plain_def)
  have "token_len (tok @ comma # post) = Some (length tok)" using assms(1) by (simp add: token_len_plain)
  moreover have "comma \<noteq> 0" by (simp add: comma_def)
  ultimately show ?thesis
    by (simp add: strtok_def Let_def t mem_simps list_update_append)
qed

lemma strtok_end:
  assumes "plain tok" and "tok \<noteq> []"
  shows "strtok (pre @ tok @ 0 # post) (length pre) =
         Some (pre @ tok @ 0 # post, Some (length pre, length pre + length tok))"
proof -
  from assms obtain c cs where t: "tok = c # cs" "c \<noteq> 0" "c \<noteq> comma" by (cases tok) (auto simp: plain_def)
  have "token_len (tok @ 0 # post) = Some (length tok)" using assms(1) by (simp add: token_len_plain)
  then show ?thesis by (simp add: strtok_def Let_def t mem_simps)
qed

lemma strtok_done: "strtok (pre @ 0 # post) (length pre) = Some (pre @ 0 # post, None)"
  by (simp add: strtok_def mem_simps comma_def)

lemma strlen_plain: "plain s \<Longrightarrow> strlen (s @ 0 # post) = Some (length s)"
  by (induction s) (auto simp: plain_def)

lemma streq_plain: "plain s \<Longrightarrow> streq (s @ 0 # post) lit = Some (s = lit)"
  by (simp add: streq_def strlen_plain)

section \<open>Reading back a hexadecimal key\<close>

definition hex_char :: "nat \<Rightarrow> byte" where
  "hex_char n = (if n < 10 then 48 + of_nat n else 87 + of_nat n)"

definition to_hex :: "byte list \<Rightarrow> byte list" where
  "to_hex bs = concat (map (\<lambda>b. [hex_char (unat b div 16), hex_char (unat b mod 16)]) bs)"

lemma ascii_map_char: "n < 16 \<Longrightarrow> ascii_map ! unat (hex_char n) = of_nat n"
proof -
  have "\<forall>n \<in> set [0..<16]. ascii_map ! unat (hex_char n) = of_nat n" by code_simp
  then show "n < 16 \<Longrightarrow> ?thesis" by simp
qed

lemma hex_byte_char: "hex_byte (hex_char (unat b div 16)) (hex_char (unat b mod 16)) = b"
proof -
  have "unat b div 16 < 16" using unat_byte [of b] by (simp add: less_mult_imp_div_less)
  then have "hex_byte (hex_char (unat b div 16)) (hex_char (unat b mod 16)) =
      push_bit 4 (of_nat (unat b div 16)) OR of_nat (unat b mod 16)"
    by (simp add: hex_byte_def ascii_map_char)
  also have "of_nat (unat b div 16) = drop_bit 4 b"
    by (simp add: drop_bit_eq_div unat_div_distrib word_arith_nat_div)
  also have "of_nat (unat b mod 16) = take_bit 4 b"
    by (simp add: take_bit_eq_mod word_arith_nat_mod)
  also have "push_bit 4 (drop_bit 4 b) OR take_bit 4 b = b"
    by (rule bit_word_eqI) (auto simp: bit_simps)
  finally show ?thesis .
qed

lemma hex_char_plain: "n < 16 \<Longrightarrow> hex_char n \<noteq> 0 \<and> hex_char n \<noteq> comma \<and> hex_char n \<noteq> 120"
proof -
  have "\<forall>n \<in> set [0..<16]. hex_char n \<noteq> 0 \<and> hex_char n \<noteq> comma \<and> hex_char n \<noteq> 120" by code_simp
  then show "n < 16 \<Longrightarrow> ?thesis" by simp
qed

lemma length_to_hex [simp]: "length (to_hex bs) = 2 * length bs"
  by (induction bs) (simp_all add: to_hex_def)

lemma plain_to_hex: "plain (to_hex bs)"
proof -
  have "unat b div 16 < 16" for b :: byte using unat_byte [of b] by (simp add: less_mult_imp_div_less)
  then show ?thesis by (induction bs) (auto simp: to_hex_def plain_def hex_char_plain)
qed

lemma to_hex_nth:
  assumes "k < length bs"
  shows "to_hex bs ! (2 * k) = hex_char (unat (bs ! k) div 16)"
    and "to_hex bs ! (2 * k + 1) = hex_char (unat (bs ! k) mod 16)"
  using assms
proof (induction bs arbitrary: k)
  case (Cons b bs)
  { case 1 then show ?case using Cons by (cases k) (auto simp: to_hex_def) }
  { case 2 then show ?case using Cons by (cases k) (auto simp: to_hex_def) }
qed simp_all

lemma key_loop_hex_ok:
  assumes bs: "length bs = 16" and tail: "plain tail" and room: "at + 16 \<le> length dst"
  shows "k \<le> 16 \<Longrightarrow> key_loop_hex dst at (to_hex bs @ tail @ 0 # post) 0 (2 * k) =
         Some (overlay dst (at + k) (drop k bs))"
  using room
proof (induction "16 - k" arbitrary: k dst)
  case 0
  then have "k = 16" by simp
  with bs "0.prems" show ?case by (subst key_loop_hex.simps) (simp add: overlay_def)
next
  case (Suc m)
  let ?s = "to_hex bs @ tail @ 0 # post"
  have k: "k < 16" using Suc.hyps(2) by simp
  have len: "strlen ?s = Some (32 + length tail)"
    using strlen_plain [of "to_hex bs @ tail" post] plain_to_hex [of bs] tail bs
    by (simp add: plain_def)
  have r: "rd ?s (2 * k) = Some (hex_char (unat (bs ! k) div 16))"
     "rd ?s (2 * k + 1) = Some (hex_char (unat (bs ! k) mod 16))"
    using to_hex_nth [of k bs] k bs by (simp_all add: rd_def nth_append)
  have w: "wr dst (at + k) (bs ! k) = Some (overlay dst (at + k) [bs ! k])"
    using k Suc.prems(2) by (simp add: wr_def overlay_def upd_conv_take_nth_drop)
  let ?d = "overlay dst (at + k) [bs ! k]"
  have ld: "length ?d = length dst" using k Suc.prems(2) by simp
  have "key_loop_hex dst at ?s 0 (2 * k) = key_loop_hex ?d at ?s 0 (2 * Suc k)"
    using k len r w by (subst key_loop_hex.simps) (simp add: hex_byte_char)
  also have "\<dots> = Some (overlay ?d (at + Suc k) (drop (Suc k) bs))"
    using Suc.hyps ld k Suc.prems(2) by (intro Suc.hyps(1)) simp_all
  also have "overlay ?d (at + Suc k) (drop (Suc k) bs) = overlay dst (at + k) (drop k bs)"
    using overlay_append [of "at + k" "[bs ! k]" dst "drop (Suc k) bs"] k bs Suc.prems(2)
    by (simp add: Cons_nth_drop_Suc)
  finally show ?case .
qed

lemma key_to_hex_ok:
  assumes bs: "length bs = 16" and tail: "plain tail" and room: "at + 16 \<le> length dst"
  shows "key_to_hex dst at (to_hex bs @ tail @ 0 # post) = Some (overlay dst at bs)"
proof -
  have r: "rd (to_hex bs @ tail @ 0 # post) 0 = Some (hex_char (unat (bs ! 0) div 16))"
     "rd (to_hex bs @ tail @ 0 # post) 1 = Some (hex_char (unat (bs ! 0) mod 16))"
    using to_hex_nth [of 0 bs] bs by (simp_all add: rd_def nth_append)
  have "hex_char (unat (bs ! 0) mod 16) \<noteq> 120" by (simp add: hex_char_plain)
  with r key_loop_hex_ok [OF assms, of 0] show ?thesis by (simp add: key_to_hex_def)
qed

lemma overlay_set_fld: "length v = fsize f \<Longrightarrow> overlay u (offsetof f) v = set_fld u f v"
  by (simp add: overlay_def set_fld_def)

lemma key_to_hex_field:
  assumes "length bs = 16" and "plain tail" and "length u = user_info_size" and "fsize f = 16"
  shows "key_to_hex u (offsetof f) (to_hex bs @ tail @ 0 # post) = Some (set_fld u f bs)"
  using key_to_hex_ok [OF assms(1,2), of "offsetof f" u post] assms field_inside [of f]
  by (simp add: overlay_set_fld)

section \<open>A subscriber line\<close>

text \<open>
  The columns of a line, with the operator code type \<open>opc\<close> or \<open>op\<close>; \<open>fin\<close> is what follows the last
  key, normally the newline, and \<open>pad\<close> the rest of the buffer.
\<close>

definition subscriber_line :: "byte list \<Rightarrow> byte list \<Rightarrow> byte list \<Rightarrow> byte list \<Rightarrow> byte list \<Rightarrow> byte list" where
  "subscriber_line imsi key ty code fin =
     imsi @ comma # to_hex key @ comma # ty @ comma # to_hex code @ fin"

definition line_ok :: "byte list \<Rightarrow> byte list \<Rightarrow> byte list \<Rightarrow> byte list \<Rightarrow> bool" where
  "line_ok imsi key code fin \<longleftrightarrow> length imsi = 15 \<and> plain imsi \<and> hd imsi \<noteq> 35 \<and> length key = 16 \<and>
     length code = 16 \<and> plain fin"

lemma token_loop_step:
  assumes "strtok line i = Some (line', Some (tok, j))"
    and "line_column column (drop tok line') st = Some (Some st')"
  shows "token_loop column line i st = token_loop (column + 1) line' j st'"
  using assms by (subst token_loop.simps) simp

text \<open>One column: the comma behind it becomes a NUL byte and the loop goes on behind that.\<close>

lemma token_loop_comma:
  assumes "plain tok" and "tok \<noteq> []"
    and "line_column column (tok @ 0 # post) st = Some (Some st')" and "column' = column + 1"
  shows "token_loop column (pre @ tok @ comma # post) (length pre) st =
         token_loop column' ((pre @ tok @ [0]) @ post) (length (pre @ tok @ [0])) st'"
proof -
  have c: "line_column column (drop (length pre) (pre @ tok @ 0 # post)) st = Some (Some st')"
    using assms(3) by simp
  show ?thesis using token_loop_step [OF strtok_comma [OF assms(1,2)] c] assms(4) by simp
qed

lemma token_loop_last:
  assumes "plain tok" and "tok \<noteq> []"
    and "line_column column (tok @ 0 # post) st = Some (Some st')"
  shows "token_loop column (pre @ tok @ 0 # post) (length pre) st = Some (Some st')"
proof -
  have "token_loop column (pre @ tok @ 0 # post) (length pre) st =
      token_loop (column + 1) (pre @ tok @ 0 # post) (length pre + length tok) st'"
    using assms(3) by (intro token_loop_step [OF strtok_end [OF assms(1,2)]]) simp
  also have "\<dots> = Some (Some st')"
    using strtok_done [of "pre @ tok" post] by (subst token_loop.simps) simp
  finally show ?thesis .
qed

definition user_with :: "UserInfo \<Rightarrow> byte list \<Rightarrow> byte list \<Rightarrow> byte list \<Rightarrow> UserInfo" where
  "user_with u imsi key opc = set_fld (set_fld (set_fld u F_imsi (imsi @ [0])) F_key key) F_opc opc"

definition derived_opc :: "byte list \<Rightarrow> byte list \<Rightarrow> byte list \<Rightarrow> byte list" where
  "derived_opc ty key code =
     (if ty = [111, 112, 99] then code else map2 (XOR) (aes128 key code) code)"

lemma length_user_with:
  "length u = user_info_size \<Longrightarrow> length imsi = 15 \<Longrightarrow> length key = 16 \<Longrightarrow> length opc = 16 \<Longrightarrow>
   length (user_with u imsi key opc) = user_info_size"
  by (simp add: user_with_def)

lemma to_hex_nonempty: "bs \<noteq> [] \<Longrightarrow> to_hex bs \<noteq> []"
  by (cases bs) (simp_all add: to_hex_def)

lemma columns_fld: "columns (drop (offsetof F_key) u) = columns (fld u F_key)"
  by (simp add: columns_def fld_def layout_simps drop_take upt4)

lemma aes128_key_fld: "aes128 (drop (offsetof F_key) u) b = aes128 (fld u F_key) b"
  by (simp add: aes128_def columns_fld)

lemma length_aes128:
  assumes "16 \<le> length key" and "16 \<le> length b"
  shows "length (aes128 key b) = 16"
proof -
  obtain E where "RijndaelEncrypt E b = Some (aes128 key b)" using rijndael_aes128 [OF assms] by blast
  then obtain x where "store_block x = aes128 key b"
    unfolding RijndaelEncrypt_def by (auto split: bind_splits simp del: store_block.simps)
  moreover have "length (store_block x) = 16" by (cases x) (simp add: u32_out_def)
  ultimately show ?thesis by simp
qed

lemma length_derived_opc: "length key = 16 \<Longrightarrow> length code = 16 \<Longrightarrow> length (derived_opc ty key code) = 16"
  by (simp add: derived_opc_def length_aes128)

lemma last_column:
  assumes u: "length u = user_info_size" and k: "length (fld u F_key) = 16" and code: "length code = 16"
    and fin: "plain fin" and op: "length op_key = 16"
    and ty: "ty = [111, 112, 99] \<and> flag = 0 \<or> ty = [111, 112] \<and> flag = 1"
  shows "\<exists>op'. line_column 3 (to_hex code @ fin @ 0 # pad) (u, op_key, Some flag) =
         Some (Some (set_fld u F_opc (derived_opc ty (fld u F_key) code), op', Some flag))"
  using ty
proof
  assume t: "ty = [111, 112, 99] \<and> flag = 0"
  then show ?thesis
    using key_to_hex_field [OF code fin u, of F_opc pad]
    by (simp add: line_column_def get_user_opc_def derived_opc_def)
next
  assume t: "ty = [111, 112] \<and> flag = 1"
  have h: "key_to_hex op_key 0 (to_hex code @ fin @ 0 # pad) = Some code"
    using key_to_hex_ok [OF code fin, of 0 op_key pad] op code by (simp add: overlay_def)
  have "16 \<le> length (drop (offsetof F_key) u)" using u by (simp add: layout_simps)
  from generate_opc_aes [OF this, of code] code
  have g: "generate_opc (drop get_user_key u) code = Some (derived_opc ty (fld u F_key) code)"
    using t by (simp add: get_user_key_def aes128_key_fld derived_opc_def)
  have w: "wrn u get_user_opc (derived_opc ty (fld u F_key) code) =
      Some (set_fld u F_opc (derived_opc ty (fld u F_key) code))"
    unfolding get_user_opc_def using u k code by (intro wrn_set_fld) (simp_all add: length_derived_opc)
  from t h g w show ?thesis by (simp add: line_column_def)
qed

lemma token_loop_line:
  assumes ok: "line_ok imsi key code fin" and u: "length u = user_info_size" and op: "length op_key = 16"
    and ty: "ty = [111, 112, 99] \<or> ty = [111, 112]"
  shows "\<exists>op' fl. token_loop 0 (subscriber_line imsi key ty code fin @ 0 # pad) 0 (u, op_key, None) =
         Some (Some (user_with u imsi key (derived_opc ty key code), op', fl))"
proof -
  have imsi: "plain imsi" "imsi \<noteq> []" "length imsi = 15" and key: "length key = 16" "key \<noteq> []"
    and code: "length code = 16" "code \<noteq> []" and fin: "plain fin"
    using ok by (auto simp: line_ok_def)
  have pty: "plain ty" "ty \<noteq> []" using ty by (auto simp: plain_def comma_def)
  define flag :: nat where "flag = (if ty = [111, 112, 99] then 0 else 1)"
  have flag: "ty = [111, 112, 99] \<and> flag = 0 \<or> ty = [111, 112] \<and> flag = 1"
    using ty by (auto simp: flag_def)
  let ?u1 = "set_fld u F_imsi (imsi @ [0])" and ?u2 = "set_fld (set_fld u F_imsi (imsi @ [0])) F_key key"
  let ?r1 = "to_hex key @ comma # ty @ comma # to_hex code @ fin @ 0 # pad"
  let ?r2 = "ty @ comma # to_hex code @ fin @ 0 # pad" and ?r3 = "to_hex code @ fin @ 0 # pad"
  have l: "length ?u1 = user_info_size" "length ?u2 = user_info_size" using u imsi key by simp_all
  have c0: "line_column 0 (imsi @ 0 # ?r1) (u, op_key, None) = Some (Some (?u1, op_key, None))"
    using set_user_imsi_spec(1) [OF u, of "imsi @ 0 # ?r1"] imsi by (simp add: line_column_def)
  have c1: "line_column 1 (to_hex key @ 0 # ?r2) (?u1, op_key, None) = Some (Some (?u2, op_key, None))"
    using key_to_hex_field [OF key(1) _ l(1), of "[]" F_key ?r2]
    by (simp add: line_column_def get_user_key_def plain_def)
  have c2: "line_column 2 (ty @ 0 # ?r3) (?u2, op_key, None) = Some (Some (?u2, op_key, Some flag))"
    using streq_plain [OF pty(1)] flag by (auto simp: line_column_def)
  have k: "fld ?u2 F_key = key" using u imsi key by (simp add: fld_set_fld)
  obtain op' where c3: "line_column 3 ?r3 (?u2, op_key, Some flag) =
      Some (Some (user_with u imsi key (derived_opc ty key code), op', Some flag))"
    using last_column [OF l(2) _ code(1) fin op flag, of pad] k key by (auto simp: user_with_def)
  have pl: "plain (to_hex code @ fin)" "to_hex code @ fin \<noteq> []"
    using plain_to_hex [of code] fin to_hex_nonempty [OF code(2)] by (simp_all add: plain_def)
  let ?p1 = "imsi @ [0]" let ?p2 = "?p1 @ to_hex key @ [0]" let ?p3 = "?p2 @ ty @ [0]"
  have "token_loop 0 (subscriber_line imsi key ty code fin @ 0 # pad) 0 (u, op_key, None) =
      token_loop 1 (?p1 @ ?r1) (length ?p1) (?u1, op_key, None)"
    using token_loop_comma [OF imsi(1,2) c0, of 1 "[]"] by (simp add: subscriber_line_def)
  also have "\<dots> = token_loop 2 (?p2 @ ?r2) (length ?p2) (?u2, op_key, None)"
    using token_loop_comma [OF plain_to_hex to_hex_nonempty [OF key(2)] c1, of 2 ?p1] by simp
  also have "\<dots> = token_loop 3 (?p3 @ ?r3) (length ?p3) (?u2, op_key, Some flag)"
    using token_loop_comma [OF pty c2, of 3 ?p2] by simp
  also have "\<dots> = Some (Some (user_with u imsi key (derived_opc ty key code), op', Some flag))"
    using token_loop_last [OF pl, of 3 pad _ _ ?p3] c3 by simp
  finally show ?thesis by blast
qed

text \<open>
  A line adds the subscriber it describes, unless a subscriber with the same key is already there;
  then the first one stays.
\<close>

lemma process_line_adds:
  assumes wf: "wf_db d" and al: "alloc_ok d" and ok: "line_ok imsi key code fin"
    and fresh: "length fresh = user_info_size" and op: "length op_key = 16"
    and ty: "ty = [111, 112, 99] \<or> ty = [111, 112]"
    and h: "hash_imsi (imsi @ [0]) = Some h"
  shows "\<exists>d' u. process_line fresh op_key d (subscriber_line imsi key ty code fin @ 0 # pad)
           (int (length (subscriber_line imsi key ty code fin))) = Some d' \<and>
         wf_db d' \<and> alloc_ok d' \<and> enbs (abs_db d') = enbs (abs_db d) \<and>
         users (abs_db d') = (if users (abs_db d) h = None then (users (abs_db d))(h \<mapsto> u)
                              else users (abs_db d)) \<and>
         fld u F_imsi = imsi @ [0] \<and> fld u F_key = key \<and> fld u F_opc = derived_opc ty key code \<and>
         fld u F_tmsi = UINT32_TO_ARRAY h \<and> fld u F_mme_ue_s1ap_id = UINT32_TO_ARRAY h \<and>
         fld u F_epc_nas_sequence_number = [0]"
proof -
  let ?line = "subscriber_line imsi key ty code fin"
  let ?u = "user_with fresh imsi key (derived_opc ty key code)"
  have len: "length imsi = 15" "length key = 16" "length code = 16" using ok by (simp_all add: line_ok_def)
  obtain op' fl where tl: "token_loop 0 (?line @ 0 # pad) 0 (fresh, op_key, None) = Some (Some (?u, op', fl))"
    using token_loop_line [OF ok fresh op ty] by blast
  have lu: "length ?u = user_info_size"
    using fresh len by (simp add: length_user_with length_derived_opc)
  have fu: "fld ?u F_imsi = imsi @ [0]" "fld ?u F_key = key" "fld ?u F_opc = derived_opc ty key code"
    using fresh len by (simp_all add: user_with_def fld_set_fld length_derived_opc)
  have "fld ?u F_imsi ! 15 = 0" unfolding fu(1) using len(1) by (simp add: nth_append)
  with lu have wu: "wf_user ?u" unfolding wf_user_def by simp
  have hu: "hash_imsi ?u = Some h" using hash_imsi_fld [OF wu] fu(1) h by simp
  then have hi: "hash_imsi_user_info ?u = h" by (simp add: hash_imsi_user_info_def)
  obtain u' where u': "complete_user_info ?u (rands d 0) (rands d 1) (rands d 2) (rands d 3) = Some u'"
      "wf_user u'" "hash_imsi_user_info u' = hash_imsi_user_info ?u"
    and cf: "\<And>f. fld u' f = completed_fld ?u (rands d 0) (rands d 1) (rands d 2) (rands d 3) f"
    by (rule complete_user_info_spec [OF wu, of "rands d 0" "rands d 1" "rands d 2" "rands d 3"])
      (rule that)
  have f: "fld u' F_imsi = imsi @ [0]" "fld u' F_key = key" "fld u' F_opc = derived_opc ty key code"
      "fld u' F_tmsi = UINT32_TO_ARRAY h" "fld u' F_mme_ue_s1ap_id = UINT32_TO_ARRAY h"
      "fld u' F_epc_nas_sequence_number = [0]"
    by (simp_all add: cf completed_fld_def fu hi Let_def)
  from wf have wm: "wf_hashmap (imsi_map d)" and hf: "hash_fn (imsi_map d) = hash_imsi_user_info"
    by (simp_all add: wf_db_def)
  obtain st m where m: "hashmap_add (imsi_map d) u' True True = Some (st, m)" "wf_hashmap m"
    "hash_fn m = hash_fn (imsi_map d)"
    and get: "\<forall>k. hashmap_get m k = (if k = hash_fn (imsi_map d) u' \<and> hashmap_get (imsi_map d) k = Some None
                              then Some (Some u') else hashmap_get (imsi_map d) k)"
    using hm.add_law [OF wm, of u'] by blast
  let ?d = "drop_mallocs 3 (drop_rands 4 (d\<lparr>imsi_map := m\<rparr>))"
  have l0: "rd (?line @ 0 # pad) 0 = Some (hd imsi)" "1 < length ?line"
    using len by (cases imsi; simp add: subscriber_line_def rd_def)+
  have "process_line fresh op_key d (?line @ 0 # pad) (int (length ?line)) = Some ?d"
    using l0 tl hu u'(1) m(1) al ok by (simp add: process_line_def alloc_ok_def line_ok_def)
  moreover have "wf_db ?d"
    using wf m u'(2) get by (auto simp: wf_db_def drop_mallocs_def drop_rands_def split: if_splits)
  moreover have "alloc_ok ?d" using al by (simp add: alloc_ok_def drop_mallocs_def drop_rands_def)
  moreover have "enbs (abs_db ?d) = enbs (abs_db d)"
    by (simp add: abs_db_def drop_mallocs_def drop_rands_def)
  moreover have "users (abs_db ?d) = (if users (abs_db d) h = None then (users (abs_db d))(h \<mapsto> u')
                              else users (abs_db d))"
  proof (cases "hashmap_get (imsi_map d) h = Some None")
    case True
    then show ?thesis using get u'(3) hf hi
      by (auto simp: abs_db_def drop_mallocs_def drop_rands_def)
  next
    case False
    with hm.get_total [OF wm, of h] obtain x where "hashmap_get (imsi_map d) h = Some (Some x)" by auto
    then show ?thesis using get u'(3) hf hi
      by (auto simp: abs_db_def drop_mallocs_def drop_rands_def intro!: ext)
  qed
  ultimately show ?thesis using f by (intro exI [of _ ?d] exI [of _ u']) simp
qed

end
