(* ===== verification/Yagra.thy ===== *)
theory Yagra
  imports Prelude
begin

text \<open>
  The metrics client yagra/yagra.c: definition of metrics, collection of observations in a batch and
  the two messages it sends to the metrics bus.  Strings are their characters without the NUL byte.
  \<open>None\<close> is undefined behaviour: an overflow of the send buffer by \<open>sprintf\<close>, or following a pointer
  that was never initialised (the \<open>next\<close> member of a fresh \<open>yagra_metric_t\<close>).  The outcomes of
  \<open>malloc\<close> and \<open>send\<close> and the initial contents of memory are arguments.
\<close>

section \<open>Text\<close>

fun dec_nat :: "nat \<Rightarrow> byte list" where
  "dec_nat n = (if n < 10 then [48 + of_nat n] else dec_nat (n div 10) @ [48 + of_nat (n mod 10)])"

declare dec_nat.simps [simp del]

definition dec_int :: "int \<Rightarrow> byte list" where
  "dec_int i = (if i < 0 then 45 # dec_nat (nat (- i)) else dec_nat (nat i))"

text \<open>\<open>sprintf(buffer + at, ...)\<close> writes the text and a NUL byte.\<close>

definition sprintf :: "buf \<Rightarrow> nat \<Rightarrow> byte list \<Rightarrow> buf option" where
  "sprintf buffer at text = wrn buffer at (text @ [0])"

section \<open>Metrics\<close>

datatype strategy =
    TYPE_KEEP_FIRST | TYPE_KEEP_LAST | TYPE_MIN | TYPE_MAX | TYPE_AVERAGE | TYPE_SUM | TYPE_NONE
  | TYPE_other int

record yagra_metric =
  m_name :: "byte list"
  m_type :: strategy

text \<open>
  The list of metrics; \<open>y_tail_null\<close> says whether the \<open>next\<close> member of its last element, which nothing
  initialises, happens to be NULL.
\<close>

record yagra_conn =
  y_metrics :: "yagra_metric list"
  y_tail_null :: bool

definition yagra_init :: yagra_conn where
  "yagra_init = \<lparr>y_metrics = [], y_tail_null = True\<rparr>"

text \<open>\<open>yagra_finalize\<close> frees the metrics one after the other; the result is what it frees.\<close>

definition yagra_finalize :: "yagra_conn \<Rightarrow> yagra_metric list option" where
  "yagra_finalize c = (if y_metrics c = [] \<or> y_tail_null c then Some (y_metrics c) else None)"

definition type_text :: "strategy \<Rightarrow> byte list" where
  "type_text t =
     (if t = TYPE_SUM then str ''type:counter|''
      else if t = TYPE_NONE \<or> t = TYPE_AVERAGE then str ''type:summary|''
      else [])"

text \<open>The result: the return value, the connection, and the message handed to \<open>send\<close>.\<close>

definition append_metric :: "yagra_conn \<Rightarrow> yagra_metric \<Rightarrow> bool \<Rightarrow> yagra_conn option" where
  "append_metric c x next_null =
     (if y_metrics c = [] then Some \<lparr>y_metrics = [x], y_tail_null = next_null\<rparr>
      else if y_tail_null c then Some \<lparr>y_metrics = y_metrics c @ [x], y_tail_null = next_null\<rparr>
      else None)"

definition yagra_define_metric ::
  "buf \<Rightarrow> yagra_conn \<Rightarrow> byte list \<Rightarrow> byte list \<Rightarrow> strategy \<Rightarrow> bool \<Rightarrow> bool \<Rightarrow> bool
     \<Rightarrow> (int \<times> yagra_conn \<times> byte list option) option" where
  "yagra_define_metric buffer c name description ty send_ok malloc_ok next_null = do {
     let s1 = str ''name:amf_'' @ name @ str ''|'';
     let s2 = str ''description:'' @ description @ str ''|'';
     let s3 = type_text ty;
     buffer \<leftarrow> sprintf buffer 4 s1;
     buffer \<leftarrow> sprintf buffer (4 + length s1) s2;
     buffer \<leftarrow> (if s3 = [] then Some buffer else sprintf buffer (4 + length s1 + length s2) s3);
     let buffer_len = length s1 + length s2 + length s3;
     if 4 + buffer_len > 512 then Some (-1, c, None)
     else do {
       buffer \<leftarrow> wr buffer 0 0x99;
       buffer \<leftarrow> wr buffer 1 0x98;
       buffer \<leftarrow> wr buffer 2 (of_nat (buffer_len mod 256));
       buffer \<leftarrow> wr buffer 3 (of_nat (buffer_len div 256 mod 256));
       msg \<leftarrow> rdn buffer 0 (4 + buffer_len);
       if \<not> send_ok then Some (-1, c, Some msg)
       else if \<not> malloc_ok then None
       else do {
         c \<leftarrow> append_metric c \<lparr>m_name = take 63 name, m_type = ty\<rparr> next_null;
         Some (0, c, Some msg) } } }"

section \<open>Batches\<close>

text \<open>
  An observation points to the name member of a metric of the connection, given by its position in
  the list; \<open>d_count\<close> is the extra data of the averaging strategy.
\<close>

record metric_data =
  d_metric :: nat
  d_value :: u64
  d_count :: "u32 option"

record yagra_batch =
  b_data :: "metric_data list"
  b_num :: nat

definition yagra_init_batch :: yagra_batch where
  "yagra_init_batch = \<lparr>b_data = [], b_num = 0\<rparr>"

fun find_index :: "('a \<Rightarrow> bool) \<Rightarrow> 'a list \<Rightarrow> nat option" where
  "find_index P [] = None"
| "find_index P (x # xs) = (if P x then Some 0 else map_option Suc (find_index P xs))"

text \<open>
  Aggregation with an existing observation.  The outer \<open>None\<close> is the division by zero of the average,
  the inner one the fall-through of \<open>TYPE_NONE\<close>; otherwise the return value and the new observation.
\<close>

definition aggregate :: "strategy \<Rightarrow> metric_data \<Rightarrow> u64 \<Rightarrow> (int \<times> metric_data) option option" where
  "aggregate ty x value =
     (case ty of
        TYPE_KEEP_FIRST \<Rightarrow> Some (Some (0, x))
      | TYPE_KEEP_LAST \<Rightarrow> Some (Some (0, x\<lparr>d_value := value\<rparr>))
      | TYPE_SUM \<Rightarrow> Some (Some (0, x\<lparr>d_value := value + d_value x\<rparr>))
      | TYPE_MIN \<Rightarrow> Some (Some (0, x\<lparr>d_value := if value < d_value x then value else d_value x\<rparr>))
      | TYPE_MAX \<Rightarrow> Some (Some (0, x\<lparr>d_value := if value > d_value x then value else d_value x\<rparr>))
      | TYPE_AVERAGE \<Rightarrow> do {
          count \<leftarrow> d_count x;
          if count + 1 = 0 then None
          else Some (Some (0, x\<lparr>d_value := (value + d_value x * ucast count) div ucast (count + 1),
                                d_count := Some (count + 1)\<rparr>)) }
      | TYPE_NONE \<Rightarrow> Some None
      | TYPE_other _ \<Rightarrow> Some (Some (-1, x)))"

text \<open>
  \<open>metric_ptr\<close> is the caller's pointer: \<open>Some j\<close> when the caller passes the name member of metric \<open>j\<close>
  itself, \<open>None\<close> for any other string with these characters.  Existing observations are compared by
  pointer.  When the matching observation is the first of the list, \<open>last_metric_data\<close> is NULL and a
  new observation replaces the whole list.
\<close>

definition yagra_observe_metric ::
  "yagra_conn \<Rightarrow> yagra_batch \<Rightarrow> byte list \<Rightarrow> nat option \<Rightarrow> u64 \<Rightarrow> (int \<times> yagra_batch) option" where
  "yagra_observe_metric c b name metric_ptr value =
     (case find_index (\<lambda>x. m_name x = name) (y_metrics c) of
        None \<Rightarrow> if y_metrics c = [] \<or> y_tail_null c then Some (-1, b) else None
      | Some i \<Rightarrow>
          let ty = m_type (y_metrics c ! i);
              existing = find_index (\<lambda>x. metric_ptr = Some (d_metric x)) (b_data b);
              new = \<lparr>d_metric = i, d_value = value, d_count = (if ty = TYPE_AVERAGE then Some 1 else None)\<rparr>;
              add = (case existing of
                       None \<Rightarrow> b_data b @ [new]
                     | Some k \<Rightarrow> if k = 0 then [new] else b_data b @ [new])
          in (case existing of
                None \<Rightarrow> Some (0, b\<lparr>b_data := add, b_num := b_num b + 1\<rparr>)
              | Some k \<Rightarrow> do {
                  r \<leftarrow> aggregate ty (b_data b ! k) value;
                  case r of
                    Some (rc, x) \<Rightarrow> Some (rc, b\<lparr>b_data := (b_data b)[k := x]\<rparr>)
                  | None \<Rightarrow> Some (0, b\<lparr>b_data := add, b_num := b_num b + 1\<rparr>) }))"

section \<open>Sending a batch\<close>

fun byte_count :: "nat \<Rightarrow> nat" where
  "byte_count n = (if n = 0 then 0 else Suc (byte_count (n div 256)))"

declare byte_count.simps [simp del]

definition datum_text :: "yagra_conn \<Rightarrow> metric_data \<Rightarrow> byte list" where
  "datum_text c x =
     str ''amf_'' @ m_name (y_metrics c ! d_metric x) @ str '':'' @ dec_int (sint (d_value x)) @ str ''|''"

fun write_data :: "buf \<Rightarrow> nat \<Rightarrow> byte list list \<Rightarrow> (buf \<times> nat) option" where
  "write_data buffer at [] = Some (buffer, at)"
| "write_data buffer at (t # ts) = do {
     buffer \<leftarrow> sprintf buffer at t;
     write_data buffer (at + length t) ts }"

definition le_bytes :: "nat \<Rightarrow> nat \<Rightarrow> byte list" where
  "le_bytes k n = map (\<lambda>i. of_nat (n div 256 ^ i mod 256)) [0..<k]"

text \<open>
  The product is an \<open>int\<close>: at 2^31 it overflows.  Below, four length bytes are enough and the shifts by
  \<open>8 * i\<close> are defined.
\<close>

definition yagra_send_batch ::
  "buf \<Rightarrow> yagra_conn \<Rightarrow> yagra_batch \<Rightarrow> bool \<Rightarrow> (int \<times> byte list option) option" where
  "yagra_send_batch buffer c b send_ok =
     (if b_num b = 0 then Some (0, None)
      else if (64 + 64) * b_num b \<ge> 2 ^ 31 then None
      else do {
        let body_length_bytes = byte_count ((64 + 64) * b_num b);
        let header_len = 2 + 1 + body_length_bytes;
        (buffer, end) \<leftarrow> write_data buffer header_len (map (datum_text c) (b_data b));
        let buffer_len = end - header_len;
        if header_len + buffer_len > 512 then Some (-1, None)
        else do {
          buffer \<leftarrow> wr buffer 0 0x99;
          buffer \<leftarrow> wr buffer 1 0x99;
          buffer \<leftarrow> wr buffer 2 (of_nat body_length_bytes);
          buffer \<leftarrow> wrn buffer 3 (le_bytes body_length_bytes buffer_len);
          msg \<leftarrow> rdn buffer 0 (header_len + buffer_len);
          Some (if send_ok then 0 else -1, Some msg) } })"

section \<open>The messages\<close>

lemma write_data_ok:
  assumes "at + length (concat ts) + 1 \<le> length buffer"
  shows "\<exists>b. write_data buffer at ts = Some (b, at + length (concat ts)) \<and> length b = length buffer \<and>
     (\<forall>j n. j + n \<le> at \<longrightarrow> rdn b j n = rdn buffer j n) \<and>
     rdn b at (length (concat ts)) = Some (concat ts)"
  using assms
proof (induction ts arbitrary: buffer at)
  case Nil
  then show ?case by (simp add: rdn_def)
next
  case (Cons t ts)
  have fits: "at + length (t @ [0]) \<le> length buffer" using Cons.prems by simp
  then obtain b1 where b1: "sprintf buffer at t = Some b1" by (simp add: sprintf_def wrn_def)
  then have w: "wrn buffer at (t @ [0]) = Some b1" by (simp add: sprintf_def)
  have l1: "length b1 = length buffer" using w by (rule wrn_length)
  obtain b where b: "write_data b1 (at + length t) ts = Some (b, at + length t + length (concat ts))"
    "length b = length b1" "\<forall>j n. j + n \<le> at + length t \<longrightarrow> rdn b j n = rdn b1 j n"
    "rdn b (at + length t) (length (concat ts)) = Some (concat ts)"
    using Cons.IH [of "at + length t" b1] Cons.prems l1 by auto
  have t1: "rdn b at (length t) = Some t"
    using b(3) wrn_read_back [OF w] w
    by (auto simp: rdn_def wrn_def split: if_splits)
  have "rdn b at (length t + length (concat ts)) = Some (t @ concat ts)"
    using t1 b(4) by (rule rdn_add)
  moreover have "rdn b j n = rdn buffer j n" if "j + n \<le> at" for j n
    using that b(3) wrn_frame [OF w] by simp
  ultimately show ?case using b b1 l1 by (simp add: add.assoc)
qed

lemma length_le_bytes [simp]: "length (le_bytes k n) = k"
  by (simp add: le_bytes_def)

text \<open>The bytes of a batch message.\<close>

definition batch_message :: "yagra_conn \<Rightarrow> yagra_batch \<Rightarrow> byte list" where
  "batch_message c b =
     (let body = concat (map (datum_text c) (b_data b)); k = byte_count (128 * b_num b)
      in [0x99, 0x99, of_nat k] @ le_bytes k (length body) @ body)"

lemma rdn_split:
  assumes "rdn b h n = Some v"
  shows "b = take h b @ v @ drop (h + n) b" and "length (take h b) = h" and "length v = n"
proof -
  from assms have l: "h + n \<le> length b" and v: "v = take n (drop h b)"
    by (auto simp: rdn_def split: if_splits)
  show "b = take h b @ v @ drop (h + n) b"
    using append_take_drop_id [of n "drop h b"] by (simp add: v add.commute)
  show "length (take h b) = h" and "length v = n" using l v by simp_all
qed

lemma yagra_send_batch_ok:
  assumes num: "b_num b \<noteq> 0" and buf: "length buffer = 1024" and k: "128 * b_num b < 2 ^ 31"
    and fits: "length (batch_message c b) \<le> 512"
  shows "yagra_send_batch buffer c b send_ok = Some (if send_ok then 0 else -1, Some (batch_message c b))"
proof -
  let ?ts = "map (datum_text c) (b_data b)" and ?k = "byte_count (128 * b_num b)"
  let ?h = "2 + 1 + ?k"
  have lm: "length (batch_message c b) = ?h + length (concat ?ts)"
    by (simp add: batch_message_def Let_def)
  obtain b1 where b1: "write_data buffer ?h ?ts = Some (b1, ?h + length (concat ?ts))"
    "length b1 = 1024" "rdn b1 ?h (length (concat ?ts)) = Some (concat ?ts)"
    using write_data_ok [of ?h ?ts buffer] fits lm buf by auto
  note sp = rdn_split [OF b1(3)]
  obtain x0 x1 x2 hs where hd: "take ?h b1 = x0 # x1 # x2 # hs" "length hs = ?k"
    using sp(2) by (cases "take ?h b1"; cases "tl (take ?h b1)"; cases "tl (tl (take ?h b1))") auto
  let ?rest = "drop (?h + length (concat ?ts)) b1"
  have b1': "b1 = x0 # x1 # x2 # hs @ concat ?ts @ ?rest" using sp(1) hd(1) by simp
  have "wrn (0x99 # 0x99 # of_nat ?k # hs @ concat ?ts @ ?rest) 3 (le_bytes ?k (length (concat ?ts))) =
      Some (0x99 # 0x99 # of_nat ?k # le_bytes ?k (length (concat ?ts)) @ concat ?ts @ ?rest)"
    using hd(2) by (simp add: wrn_def numeral_3_eq_3)
  moreover have "wr b1 0 0x99 = Some (0x99 # x1 # x2 # hs @ concat ?ts @ ?rest)"
    by (subst b1') (simp add: wr_def)
  moreover have "wr (0x99 # x1 # x2 # hs @ concat ?ts @ ?rest) 1 0x99 = Some (0x99 # 0x99 # x2 # hs @ concat ?ts @ ?rest)"
    by (simp add: wr_def)
  moreover have "wr (0x99 # 0x99 # x2 # hs @ concat ?ts @ ?rest) 2 (of_nat ?k) =
      Some (0x99 # 0x99 # of_nat ?k # hs @ concat ?ts @ ?rest)"
    by (simp add: wr_def numeral_2_eq_2)
  moreover have "rdn (0x99 # 0x99 # of_nat ?k # le_bytes ?k (length (concat ?ts)) @ concat ?ts @ ?rest) 0
        (?h + length (concat ?ts)) = Some (batch_message c b)"
    using lm by (simp add: rdn_def batch_message_def Let_def numeral_3_eq_3)
  ultimately show ?thesis
    using num k fits lm b1(1) by (simp add: yagra_send_batch_def Let_def)
qed

section \<open>Sizes\<close>

lemma length_dec_nat: "0 < k \<Longrightarrow> n < 10 ^ k \<Longrightarrow> length (dec_nat n) \<le> k"
proof (induction n arbitrary: k rule: dec_nat.induct)
  case (1 n)
  show ?case
  proof (cases "n < 10")
    case True
    with "1.prems" show ?thesis by (subst dec_nat.simps) simp
  next
    case False
    then obtain m where k: "k = Suc m" "0 < m" using "1.prems" by (cases k; cases "k - 1") auto
    with "1.prems"(2) have "n div 10 < 10 ^ m" by (simp add: less_mult_imp_div_less mult.commute)
    from "1.IH" [OF False k(2) this] False k show ?thesis by (subst dec_nat.simps) simp
  qed
qed

lemma length_dec_int:
  assumes "- (2 ^ 63) \<le> i" and "i < 2 ^ 63"
  shows "length (dec_int i) \<le> 20"
proof -
  have "nat (- i) < 10 ^ 19" "nat i < 10 ^ 19" using assms by auto
  then have "length (dec_nat (nat (- i))) \<le> 19" "length (dec_nat (nat i)) \<le> 19"
    using length_dec_nat [of 19] by auto
  then show ?thesis by (simp add: dec_int_def)
qed

lemma length_dec_value: "length (dec_int (sint (v :: u64))) \<le> 20"
proof -
  have "- (2 ^ 63) \<le> sint v" "sint v < 2 ^ 63"
    using sint_greater_eq [of v] sint_less [of v] by simp_all
  then show ?thesis by (rule length_dec_int)
qed

lemma byte_count_bound: "n < 256 ^ byte_count n"
proof (induction n rule: byte_count.induct)
  case (1 n)
  show ?case
  proof (cases "n = 0")
    case False
    with "1.IH" have "n div 256 < 256 ^ byte_count (n div 256)" by simp
    then have "n < 256 * 256 ^ byte_count (n div 256)" by (simp add: div_less_iff_less_mult mult.commute)
    with False show ?thesis by (subst byte_count.simps) simp
  qed (simp add: byte_count.simps)
qed

lemma byte_count_le: "n < 256 ^ k \<Longrightarrow> byte_count n \<le> k"
proof (induction n arbitrary: k rule: byte_count.induct)
  case (1 n)
  show ?case
  proof (cases "n = 0")
    case False
    with "1.prems" obtain m where k: "k = Suc m" by (cases k) auto
    with "1.prems" have "n div 256 < 256 ^ m" by (simp add: less_mult_imp_div_less mult.commute)
    with "1.IH" [OF False] False k show ?thesis by (subst byte_count.simps) simp
  qed (simp add: byte_count.simps)
qed

lemma byte_count_pos: "n \<noteq> 0 \<Longrightarrow> 0 < byte_count n"
  by (subst byte_count.simps) simp

section \<open>Well-formed batches\<close>

text \<open>Names as the program uses them: no separators, and short enough to be stored whole.\<close>

definition name_plain :: "byte list \<Rightarrow> bool" where
  "name_plain s \<longleftrightarrow> list_all (\<lambda>c. c \<noteq> 0 \<and> c \<noteq> 58 \<and> c \<noteq> 124 \<and> c \<noteq> 10) s \<and> length s \<le> 63"

definition conn_ok :: "yagra_conn \<Rightarrow> bool" where
  "conn_ok c \<longleftrightarrow> list_all (\<lambda>x. name_plain (m_name x)) (y_metrics c)"

definition batch_ok :: "yagra_conn \<Rightarrow> yagra_batch \<Rightarrow> bool" where
  "batch_ok c b \<longleftrightarrow> list_all (\<lambda>x. d_metric x < length (y_metrics c)) (b_data b) \<and>
     length (b_data b) \<le> b_num b \<and> (b_num b \<noteq> 0 \<longrightarrow> b_data b \<noteq> [])"

lemma datum_text_bound:
  assumes "conn_ok c" and "d_metric x < length (y_metrics c)"
  shows "length (datum_text c x) \<le> 128"
proof -
  have "length (m_name (y_metrics c ! d_metric x)) \<le> 63"
    using assms by (simp add: conn_ok_def list_all_length name_plain_def)
  with length_dec_value [of "d_value x"] show ?thesis by (simp add: datum_text_def)
qed

lemma batch_body_bound:
  assumes "conn_ok c" and "batch_ok c b"
  shows "length (concat (map (datum_text c) (b_data b))) \<le> 128 * b_num b"
proof -
  have *: "length (concat (map (datum_text c) xs)) \<le> 128 * length xs"
    if "list_all (\<lambda>x. d_metric x < length (y_metrics c)) xs" for xs
    using that
  proof (induction xs)
    case (Cons x xs)
    with datum_text_bound [OF assms(1), of x] show ?case by simp
  qed simp
  have "length (concat (map (datum_text c) (b_data b))) \<le> 128 * length (b_data b)"
    by (rule *) (use assms(2) in \<open>simp add: batch_ok_def\<close>)
  also have "\<dots> \<le> 128 * b_num b" using assms(2) by (simp add: batch_ok_def)
  finally show ?thesis .
qed

section \<open>Definition messages\<close>

definition definition_body :: "byte list \<Rightarrow> byte list \<Rightarrow> strategy \<Rightarrow> byte list" where
  "definition_body name description ty =
     (str ''name:amf_'' @ name @ str ''|'') @ (str ''description:'' @ description @ str ''|'') @ type_text ty"

definition definition_message :: "byte list \<Rightarrow> byte list \<Rightarrow> strategy \<Rightarrow> byte list" where
  "definition_message name description ty =
     (let n = length (definition_body name description ty)
      in [0x99, 0x98, of_nat (n mod 256), of_nat (n div 256 mod 256)] @ definition_body name description ty)"

lemma sprintf_None_iff: "sprintf b at t = None \<longleftrightarrow> length b < at + length t + 1"
  by (auto simp: sprintf_def wrn_def)

lemma sprintf_length: "sprintf b at t = Some b' \<Longrightarrow> length b' = length b"
  by (auto simp: sprintf_def dest: wrn_length)

text \<open>The three \<open>sprintf\<close> calls are the loop of a batch on three texts.\<close>

lemma define_writes:
  "write_data b 4 (s1 # s2 # (if s3 = [] then [] else [s3])) = do {
     b \<leftarrow> sprintf b 4 s1;
     b \<leftarrow> sprintf b (4 + length s1) s2;
     b \<leftarrow> (if s3 = [] then Some b else sprintf b (4 + length s1 + length s2) s3);
     Some (b, 4 + length s1 + length s2 + length s3) }"
  by (simp split: bind_splits)

lemma yagra_define_metric_ok:
  assumes buf: "length buffer = 512" and fits: "length (definition_message name description ty) < 512"
    and tail: "y_metrics c = [] \<or> y_tail_null c"
  shows "yagra_define_metric buffer c name description ty True True next_null =
     Some (0, \<lparr>y_metrics = y_metrics c @ [\<lparr>m_name = take 63 name, m_type = ty\<rparr>], y_tail_null = next_null\<rparr>,
           Some (definition_message name description ty))"
proof -
  define s1 s2 s3 where s: "s1 = str ''name:amf_'' @ name @ str ''|''"
    "s2 = str ''description:'' @ description @ str ''|''" "s3 = type_text ty"
  let ?body = "s1 @ s2 @ s3"
  let ?ts = "s1 # s2 # (if s3 = [] then [] else [s3])"
  have ct: "concat ?ts = ?body" by simp
  have bd: "definition_body name description ty = ?body" by (simp add: definition_body_def s)
  have lb: "4 + length ?body < 512" using fits by (simp add: definition_message_def Let_def bd)
  obtain b3 where w: "write_data buffer 4 ?ts = Some (b3, 4 + length ?body)" and l3: "length b3 = 512"
    and r3: "rdn b3 4 (length ?body) = Some ?body"
    using write_data_ok [of 4 ?ts buffer, unfolded ct] lb buf by auto
  from w obtain b1 b2 where b12: "sprintf buffer 4 s1 = Some b1" "sprintf b1 (4 + length s1) s2 = Some b2"
    "(if s3 = [] then Some b2 else sprintf b2 (4 + length s1 + length s2) s3) = Some b3"
    unfolding define_writes by (auto split: bind_splits)
  note sp = rdn_split [OF r3]
  obtain x0 x1 x2 x3 where hd: "take 4 b3 = [x0, x1, x2, x3]"
    using list4 [OF sp(2)] by blast
  let ?rest = "drop (4 + length ?body) b3"
  have b3: "b3 = x0 # x1 # x2 # x3 # ?body @ ?rest" using sp(1) hd by simp
  let ?n = "length ?body"
  have wr0: "wr b3 0 0x99 = Some (0x99 # x1 # x2 # x3 # ?body @ ?rest)" by (subst b3) (simp add: wr_def)
  have wr1: "wr (0x99 # x1 # x2 # x3 # ?body @ ?rest) 1 0x98 = Some (0x99 # 0x98 # x2 # x3 # ?body @ ?rest)"
    by (simp add: wr_def)
  have wr2: "wr (0x99 # 0x98 # x2 # x3 # ?body @ ?rest) 2 v = Some (0x99 # 0x98 # v # x3 # ?body @ ?rest)" for v
    by (simp add: wr_def numeral_2_eq_2)
  have wr3: "wr (0x99 # 0x98 # y # x3 # ?body @ ?rest) 3 v = Some (0x99 # 0x98 # y # v # ?body @ ?rest)" for y v
    by (simp add: wr_def numeral_3_eq_3)
  have rd: "rdn (0x99 # 0x98 # y # v # ?body @ ?rest) 0 (4 + ?n) = Some (0x99 # 0x98 # y # v # ?body)" for y v
    by (simp add: rdn_def numeral_eq_Suc)
  have dm: "definition_message name description ty =
      0x99 # 0x98 # of_nat (?n mod 256) # of_nat (?n div 256 mod 256) # ?body"
    by (simp add: definition_message_def Let_def bd)
  have ap: "append_metric c x next_null = Some \<lparr>y_metrics = y_metrics c @ [x], y_tail_null = next_null\<rparr>" for x
    using tail by (auto simp: append_metric_def)
  have n: "length s1 + length s2 + length s3 = ?n" by simp
  show ?thesis
    unfolding yagra_define_metric_def Let_def s(1,2,3) [symmetric] b12(1) bind.bind_lunit b12(2) b12(3) n
    using lb wr0 wr1 wr2 wr3 rd dm ap by (simp add: bind.bind_lunit)
qed

text \<open>The length check comes after the writes: it never sees a message that is too long.\<close>

lemma yagra_define_metric_check:
  assumes "length buffer = 512"
  shows "yagra_define_metric buffer c name description ty so mo nn \<noteq> Some (-1, c', None)"
proof
  assume a: "yagra_define_metric buffer c name description ty so mo nn = Some (-1, c', None)"
  define s1 s2 s3 where s: "s1 = str ''name:amf_'' @ name @ str ''|''"
    "s2 = str ''description:'' @ description @ str ''|''" "s3 = type_text ty"
  note a' = a [unfolded yagra_define_metric_def Let_def, folded s]
  from a' obtain b1 where b1: "sprintf buffer 4 s1 = Some b1" by (auto split: bind_splits)
  from a' b1 obtain b2 where b2: "sprintf b1 (4 + length s1) s2 = Some b2" by (auto split: bind_splits)
  from a' b1 b2 obtain b3 where b3: "(if s3 = [] then Some b2 else sprintf b2 (4 + length s1 + length s2) s3) = Some b3"
    by (auto split: bind_splits if_splits)
  have l: "length b1 = 512" "length b2 = 512" using sprintf_length [OF b1] sprintf_length [OF b2] assms by simp_all
  have "4 + length s1 + length s2 + length s3 < 512"
    using b2 b3 l sprintf_None_iff [of b1 "4 + length s1" s2] sprintf_None_iff [of b2 "4 + length s1 + length s2" s3]
    by (auto split: if_splits)
  with a' b1 b2 b3 show False by (auto split: bind_splits if_splits)
qed

end
