(* ===== verification/Metrics_Bus.thy ===== *)
theory Metrics_Bus
  imports Yagra
begin

text \<open>
  The metrics bus core-metrics-bus/source/main.cpp: the thread that reads one connection, the two
  message handlers and the registration of metrics.  The connection is the byte stream still to be
  read; \<open>asio::read\<close> into a buffer returns when the buffer is full and throws at the end of the stream.
  \<open>asio::buffer(array, n)\<close> never exceeds the array.

  The prometheus library is not part of the repository.  What the bus asks of it is the list of
  calls in \<open>calls\<close>; whether it accepts a metric name is the argument \<open>name_ok\<close>.  The conversion
  \<open>std::stod\<close> is the argument \<open>stod\<close>, with \<open>None\<close> when it throws.  Exceptions other than
  \<open>std::system_error\<close> leave the thread function, so they terminate the process.
\<close>

datatype mtype = MCounter | MGauge | MSummary

datatype 'v prom_call =
    Build mtype "byte list" "byte list"
  | Inc_plain "byte list"
  | Increment "byte list" "byte list \<times> byte list" 'v
  | Set_gauge "byte list" "byte list \<times> byte list" 'v
  | Observe "byte list" "byte list \<times> byte list" 'v

record 'v bus =
  metrics :: "byte list \<rightharpoonup> mtype"
  calls :: "'v prom_call list"

datatype stop = End_of_stream | Terminate | Undefined

section \<open>Streams\<close>

text \<open>\<open>asio::read(socket, asio::buffer(array, n))\<close> with an array of \<open>cap\<close> bytes.\<close>

definition asio_read :: "byte list \<Rightarrow> nat \<Rightarrow> nat \<Rightarrow> (byte list \<times> byte list) option" where
  "asio_read stream n cap =
     (let k = min n cap in if k \<le> length stream then Some (take k stream, drop k stream) else None)"

text \<open>All pieces that \<open>while (std::getline(stream, s, delim))\<close> delivers.\<close>

function getlines :: "byte \<Rightarrow> byte list \<Rightarrow> byte list list" where
  "getlines delim [] = []"
| "getlines delim (c # cs) =
     takeWhile (\<lambda>x. x \<noteq> delim) (c # cs) # getlines delim (drop 1 (dropWhile (\<lambda>x. x \<noteq> delim) (c # cs)))"
  by pat_completeness auto
termination
proof (relation "measure (\<lambda>(delim, s). length s)")
  fix delim c :: byte and cs
  have "length (dropWhile (\<lambda>x. x \<noteq> delim) (c # cs)) \<le> length (c # cs)" by (rule length_dropWhile_le)
  then show "((delim, drop 1 (dropWhile (\<lambda>x. x \<noteq> delim) (c # cs))), delim, c # cs) \<in> measure (\<lambda>(delim, s). length s)"
    by (cases "dropWhile (\<lambda>x. x \<noteq> delim) (c # cs)") auto
qed simp

definition newline :: byte where "newline = 10"
definition bar :: byte where "bar = 124"
definition colon :: byte where "colon = 58"

text \<open>The two \<open>getline\<close> calls that take a part \<open>key:value\<close> apart.\<close>

definition split_part :: "byte list \<Rightarrow> byte list \<times> byte list" where
  "split_part p =
     (takeWhile (\<lambda>x. x \<noteq> colon) p,
      takeWhile (\<lambda>x. x \<noteq> newline) (drop 1 (dropWhile (\<lambda>x. x \<noteq> colon) p)))"

section \<open>Definitions of metrics\<close>

text \<open>\<open>False\<close> in the result: an exception of the prometheus library leaves the function.\<close>

definition register_metric ::
  "(byte list \<Rightarrow> bool) \<Rightarrow> 'v bus \<Rightarrow> byte list \<Rightarrow> byte list \<Rightarrow> byte list \<Rightarrow> 'v bus \<times> bool" where
  "register_metric name_ok b name description ty =
     (if metrics b name \<noteq> None then (b, True)
      else if \<not> name_ok name then (b, False)
      else
        let t = (if ty = str ''summary'' then MSummary else if ty = str ''gauge'' then MGauge else MCounter)
        in (b\<lparr>metrics := (metrics b)(name \<mapsto> t), calls := calls b @ [Build t name description]\<rparr>, True))"

fun definition_parts :: "byte list \<times> byte list \<times> byte list \<Rightarrow> byte list list \<Rightarrow> byte list \<times> byte list \<times> byte list" where
  "definition_parts acc [] = acc"
| "definition_parts (name, description, ty) (p # ps) =
     (case split_part p of (key, value) \<Rightarrow>
        if key = str ''name'' then definition_parts (value, description, ty) ps
        else if key = str ''description'' then definition_parts (name, value, ty) ps
        else if key = str ''type'' then definition_parts (name, description, value) ps
        else definition_parts (name, description, ty) ps)"

fun definition_lines :: "(byte list \<Rightarrow> bool) \<Rightarrow> 'v bus \<Rightarrow> byte list list \<Rightarrow> 'v bus \<times> bool" where
  "definition_lines name_ok b [] = (b, True)"
| "definition_lines name_ok b (l # ls) =
     (case definition_parts ([], [], []) (getlines bar l) of (name, description, ty) \<Rightarrow>
        case register_metric name_ok b name description ty of
          (b', True) \<Rightarrow> definition_lines name_ok b' ls
        | (b', False) \<Rightarrow> (b', False))"

definition process_metric_definition ::
  "(byte list \<Rightarrow> bool) \<Rightarrow> 'v bus \<Rightarrow> byte list \<Rightarrow> 'v bus \<times> (stop + byte list)" where
  "process_metric_definition name_ok b stream =
     (case asio_read stream 2 2 of
        None \<Rightarrow> (b, Inl End_of_stream)
      | Some (header, stream) \<Rightarrow>
          let body_length = unat (header ! 0) + 256 * unat (header ! 1) in
          case asio_read stream body_length 1024 of
            None \<Rightarrow> (b, Inl End_of_stream)
          | Some (body, stream) \<Rightarrow>
              if body = [] then (b, Inr stream)
              else (case definition_lines name_ok b (getlines newline body) of
                      (b', True) \<Rightarrow> (b', Inr stream)
                    | (b', False) \<Rightarrow> (b', Inl Terminate)))"

section \<open>Batches of observations\<close>

text \<open>The labels are the message types that the parts of the line have given so far.\<close>

definition observe_part ::
  "(byte list \<Rightarrow> 'v option) \<Rightarrow> 'v bus \<Rightarrow> byte list \<times> byte list \<Rightarrow> byte list
     \<Rightarrow> ('v bus \<times> (byte list \<times> byte list)) option" where
  "observe_part stod b labels p =
     (case split_part p of (name, value) \<Rightarrow>
        case metrics b name of
          None \<Rightarrow> Some (b, labels)
        | Some t \<Rightarrow>
            let ngap = (if name = str ''amf_ngap_message_type'' then value else fst labels);
                nas = (if name = str ''amf_nas_message_type'' then value else snd labels)
            in do {
              v \<leftarrow> stod value;
              let call = (case t of
                            MCounter \<Rightarrow> Increment name (ngap, nas) v
                          | MGauge \<Rightarrow> Set_gauge name (ngap, nas) v
                          | MSummary \<Rightarrow> Observe name (ngap, nas) v);
              Some (b\<lparr>calls := calls b @ [call]\<rparr>, (ngap, nas)) })"

fun observe_parts ::
  "(byte list \<Rightarrow> 'v option) \<Rightarrow> 'v bus \<Rightarrow> byte list \<times> byte list \<Rightarrow> byte list list \<Rightarrow> 'v bus \<times> bool" where
  "observe_parts stod b labels [] = (b, True)"
| "observe_parts stod b labels (p # ps) =
     (case observe_part stod b labels p of
        None \<Rightarrow> (b, False)
      | Some (b', labels') \<Rightarrow> observe_parts stod b' labels' ps)"

definition count_packet :: "'v bus \<Rightarrow> 'v bus" where
  "count_packet b =
     (if metrics b (str ''uplink_packets'') = Some MCounter
      then b\<lparr>calls := calls b @ [Inc_plain (str ''uplink_packets'')]\<rparr> else b)"

fun observe_lines :: "(byte list \<Rightarrow> 'v option) \<Rightarrow> 'v bus \<Rightarrow> byte list list \<Rightarrow> 'v bus \<times> bool" where
  "observe_lines stod b [] = (b, True)"
| "observe_lines stod b (l # ls) =
     (case observe_parts stod (count_packet b) ([], []) (getlines bar l) of
        (b', True) \<Rightarrow> observe_lines stod b' ls
      | (b', False) \<Rightarrow> (b', False))"

fun le_value :: "byte list \<Rightarrow> nat" where
  "le_value [] = 0"
| "le_value (x # xs) = unat x + 256 * le_value xs"

text \<open>
  A header length above 8 shifts a \<open>size_t\<close> by 64 bits or more, and above 16 it reads outside
  \<open>header_buffer\<close>; both are undefined.
\<close>

definition process_metric_batch_observation ::
  "(byte list \<Rightarrow> 'v option) \<Rightarrow> 'v bus \<Rightarrow> byte list \<Rightarrow> 'v bus \<times> (stop + byte list)" where
  "process_metric_batch_observation stod b stream =
     (case asio_read stream 1 16 of
        None \<Rightarrow> (b, Inl End_of_stream)
      | Some (h, stream) \<Rightarrow>
          let header_length = unat (h ! 0) in
          case asio_read stream header_length 16 of
            None \<Rightarrow> (b, Inl End_of_stream)
          | Some (header, stream) \<Rightarrow>
              if header = [] then (b, Inr stream)
              else if header_length > 8 then (b, Inl Undefined)
              else
                (case asio_read stream (le_value header) 1024 of
                   None \<Rightarrow> (b, Inl End_of_stream)
                 | Some (body, stream) \<Rightarrow>
                     if body = [] then (b, Inr stream)
                     else (case observe_lines stod b (getlines newline body) of
                             (b', True) \<Rightarrow> (b', Inr stream)
                           | (b', False) \<Rightarrow> (b', Inl Terminate))))"

section \<open>The connection thread\<close>

lemma asio_read_shorter: "asio_read s n cap = Some (x, s') \<Longrightarrow> length s' \<le> length s"
  by (auto simp: asio_read_def Let_def split: if_splits)

lemma definition_shorter:
  "process_metric_definition name_ok b s = (b', Inr s') \<Longrightarrow> length s' \<le> length s"
  by (auto simp: process_metric_definition_def Let_def split: option.splits prod.splits if_splits bool.splits
      dest!: asio_read_shorter)

lemma observation_shorter:
  "process_metric_batch_observation stod b s = (b', Inr s') \<Longrightarrow> length s' \<le> length s"
  by (auto simp: process_metric_batch_observation_def Let_def
      split: option.splits prod.splits if_splits bool.splits dest!: asio_read_shorter)

text \<open>
  \<open>threadWorker\<close> runs until an exception; the result is the state and why it stopped.
\<close>

function threadWorker ::
  "(byte list \<Rightarrow> bool) \<Rightarrow> (byte list \<Rightarrow> 'v option) \<Rightarrow> 'v bus \<Rightarrow> byte list \<Rightarrow> 'v bus \<times> stop" where
  "threadWorker name_ok stod b stream =
     (case stream of
        [] \<Rightarrow> (b, End_of_stream)
      | x # s1 \<Rightarrow>
          if x \<noteq> 0x99 then threadWorker name_ok stod b s1
          else
            (case s1 of
               [] \<Rightarrow> (b, End_of_stream)
             | y # s2 \<Rightarrow>
                 if y \<noteq> 0x99 \<and> y \<noteq> 0x98 then threadWorker name_ok stod b s2
                 else
                   (case (if y = 0x98 then process_metric_definition name_ok b s2
                          else process_metric_batch_observation stod b s2) of
                      (b', Inl e) \<Rightarrow> (b', e)
                    | (b', Inr s3) \<Rightarrow> threadWorker name_ok stod b' s3)))"
  by pat_completeness auto
termination
  by (relation "measure (\<lambda>(name_ok, stod, b, stream). length stream)")
    (auto dest!: definition_shorter [OF sym] observation_shorter [OF sym] split: if_splits)

declare threadWorker.simps [simp del]

section \<open>The bus understands the client\<close>

lemma sep_while:
  assumes "delim \<notin> set p"
  shows "takeWhile (\<lambda>x. x \<noteq> delim) (p @ delim # r) = p"
    and "dropWhile (\<lambda>x. x \<noteq> delim) (p @ delim # r) = delim # r"
  using assms by (induction p) auto

lemma no_sep_while: "delim \<notin> set p \<Longrightarrow> takeWhile (\<lambda>x. x \<noteq> delim) p = p"
  by (induction p) auto

text \<open>Parsing a text that is made of parts, each ended by the separator.\<close>

lemma getlines_nonempty:
  "s \<noteq> [] \<Longrightarrow> getlines delim s =
     takeWhile (\<lambda>x. x \<noteq> delim) s # getlines delim (drop 1 (dropWhile (\<lambda>x. x \<noteq> delim) s))"
  by (cases s) simp_all

lemma getlines_parts:
  assumes "list_all (\<lambda>p. delim \<notin> set p) ps"
  shows "getlines delim (concat (map (\<lambda>p. p @ [delim]) ps)) = ps"
  using assms
proof (induction ps)
  case (Cons p ps)
  let ?r = "concat (map (\<lambda>p. p @ [delim]) ps)"
  have t: "takeWhile (\<lambda>x. x \<noteq> delim) (p @ delim # ?r) = p"
    and d: "dropWhile (\<lambda>x. x \<noteq> delim) (p @ delim # ?r) = delim # ?r"
    using Cons.prems by (simp_all add: sep_while)
  have "getlines delim (p @ delim # ?r) = p # getlines delim ?r"
    by (subst getlines_nonempty) (simp_all add: t d)
  with Cons show ?case by simp
qed simp

lemma getlines_single:
  assumes "delim \<notin> set s" and "s \<noteq> []"
  shows "getlines delim s = [s]"
proof -
  have d: "dropWhile (\<lambda>x. x \<noteq> delim) s = []" using assms(1) by auto
  show ?thesis unfolding getlines_nonempty [OF assms(2)] d using assms(1) by (simp add: no_sep_while)
qed

lemma split_part_colon:
  assumes "colon \<notin> set name" and "newline \<notin> set value"
  shows "split_part (name @ colon # value) = (name, value)"
  using assms
  by (simp add: split_part_def sep_while no_sep_while)

lemma le_value_bytes: "n < 256 ^ k \<Longrightarrow> le_value (le_bytes k n) = n"
proof (induction k arbitrary: n)
  case (Suc k)
  have eq: "le_bytes (Suc k) n = of_nat (n mod 256) # le_bytes k (n div 256)"
    by (simp add: le_bytes_def upt_conv_Cons map_Suc_upt [symmetric] div_mult2_eq del: upt_Suc)
  have "n div 256 < 256 ^ k" using Suc.prems by (simp add: less_mult_imp_div_less mult.commute)
  with Suc.IH [of "n div 256"] show ?case by (simp add: eq unat_of_nat)
qed (simp add: le_bytes_def)

definition amf_name :: "yagra_conn \<Rightarrow> metric_data \<Rightarrow> byte list" where
  "amf_name c x = str ''amf_'' @ m_name (y_metrics c ! d_metric x)"

definition value_text :: "metric_data \<Rightarrow> byte list" where
  "value_text x = dec_int (sint (d_value x))"

definition datum_part :: "yagra_conn \<Rightarrow> metric_data \<Rightarrow> byte list" where
  "datum_part c x = amf_name c x @ colon # value_text x"

lemma datum_text_part: "datum_text c x = datum_part c x @ [bar]"
  by (simp add: datum_text_def datum_part_def amf_name_def value_text_def str_def colon_def bar_def)

lemma dec_nat_digits: "set (dec_nat n) \<subseteq> {48..57}"
proof (induction n rule: dec_nat.induct)
  case (1 n)
  have d: "48 + of_nat m \<in> ({48..57} :: byte set)" if "m < 10" for m :: nat
  proof -
    have "m \<in> set [0..<10]" using that by simp
    moreover have "\<forall>m \<in> set [0..<10]. (48 :: byte) \<le> 48 + of_nat m \<and> 48 + of_nat m \<le> (57 :: byte)"
      by code_simp
    ultimately show ?thesis by simp
  qed
  show ?case
  proof (cases "n < 10")
    case True
    with d [of n] show ?thesis by (subst dec_nat.simps) simp
  next
    case False
    with "1.IH" d [of "n mod 10"] show ?thesis by (subst dec_nat.simps) simp
  qed
qed

lemma value_text_plain: "colon \<notin> set (value_text x)" "bar \<notin> set (value_text x)" "newline \<notin> set (value_text x)"
proof -
  have "set (value_text x) \<subseteq> insert 45 {48..57}"
    using dec_nat_digits by (auto simp: value_text_def dec_int_def)
  moreover have "colon \<notin> insert 45 {48..57}" "bar \<notin> insert 45 {48..57}" "newline \<notin> insert 45 {48..57}"
    by (simp_all add: colon_def bar_def newline_def)
  ultimately show "colon \<notin> set (value_text x)" "bar \<notin> set (value_text x)" "newline \<notin> set (value_text x)"
    by blast+
qed

lemma amf_name_plain:
  assumes "conn_ok c" and "d_metric x < length (y_metrics c)"
  shows "colon \<notin> set (amf_name c x)" "bar \<notin> set (amf_name c x)" "newline \<notin> set (amf_name c x)"
proof -
  have "name_plain (m_name (y_metrics c ! d_metric x))"
    using assms by (simp add: conn_ok_def list_all_length)
  then have "colon \<notin> set (m_name (y_metrics c ! d_metric x))" "bar \<notin> set (m_name (y_metrics c ! d_metric x))"
    "newline \<notin> set (m_name (y_metrics c ! d_metric x))"
    by (auto simp: name_plain_def list_all_iff colon_def bar_def newline_def)
  then show "colon \<notin> set (amf_name c x)" "bar \<notin> set (amf_name c x)" "newline \<notin> set (amf_name c x)"
    by (simp_all add: amf_name_def str_def colon_def bar_def newline_def)
qed

text \<open>What a call of the prometheus library says: the kind of metric, its name and the value.\<close>

fun call_key :: "'v prom_call \<Rightarrow> (mtype \<times> byte list \<times> 'v) option" where
  "call_key (Increment n l v) = Some (MCounter, n, v)"
| "call_key (Set_gauge n l v) = Some (MGauge, n, v)"
| "call_key (Observe n l v) = Some (MSummary, n, v)"
| "call_key _ = None"

lemma observe_parts_ok:
  assumes "conn_ok c"
    and "list_all (\<lambda>x. d_metric x < length (y_metrics c) \<and> metrics b (amf_name c x) \<noteq> None \<and>
                       stod (value_text x) \<noteq> None) xs"
  shows "\<exists>new. observe_parts stod b labels (map (datum_part c) xs) = (b\<lparr>calls := calls b @ new\<rparr>, True) \<and>
     map call_key new =
       map (\<lambda>x. Some (the (metrics b (amf_name c x)), amf_name c x, the (stod (value_text x)))) xs"
  using assms(2)
proof (induction xs arbitrary: b labels)
  case Nil
  then show ?case by simp
next
  case (Cons x xs)
  then have x: "d_metric x < length (y_metrics c)" by simp
  from Cons.prems obtain t v where t: "metrics b (amf_name c x) = Some t" and v: "stod (value_text x) = Some v"
    by auto
  have sp: "split_part (datum_part c x) = (amf_name c x, value_text x)"
    unfolding datum_part_def
    by (rule split_part_colon) (use amf_name_plain [OF assms(1) x] value_text_plain [of x] in simp_all)
  obtain labels' call where part: "observe_part stod b labels (datum_part c x) =
      Some (b\<lparr>calls := calls b @ [call]\<rparr>, labels')"
    and key: "call_key call = Some (t, amf_name c x, v)"
    using t v by (cases t) (auto simp: observe_part_def sp Let_def)
  from Cons.IH [of "b\<lparr>calls := calls b @ [call]\<rparr>" labels'] Cons.prems
  obtain new where "observe_parts stod (b\<lparr>calls := calls b @ [call]\<rparr>) labels' (map (datum_part c) xs) =
      (b\<lparr>calls := (calls b @ [call]) @ new\<rparr>, True)"
    "map call_key new = map (\<lambda>x. Some (the (metrics b (amf_name c x)), amf_name c x, the (stod (value_text x)))) xs"
    by auto
  with part key t v show ?case by (intro exI [of _ "call # new"]) simp
qed

text \<open>
  A batch message at the head of the stream: the bus consumes exactly that message and passes every
  observation, in order, to the metric of its name and kind.
\<close>

lemma threadWorker_batch:
  assumes c: "conn_ok c" and bt: "batch_ok c bt" and num: "b_num bt \<noteq> 0"
    and small: "128 * b_num bt < 2 ^ 31"
    and fits: "length (batch_message c bt) \<le> 512"
    and reg: "list_all (\<lambda>x. metrics b (amf_name c x) \<noteq> None \<and> stod (value_text x) \<noteq> None) (b_data bt)"
  shows "\<exists>new. threadWorker name_ok stod b (batch_message c bt @ rest) =
       threadWorker name_ok stod (count_packet b\<lparr>calls := calls (count_packet b) @ new\<rparr>) rest \<and>
     map call_key new = map (\<lambda>x. Some (the (metrics b (amf_name c x)), amf_name c x,
       the (stod (value_text x)))) (b_data bt)"
proof -
  let ?xs = "b_data bt" and ?k = "byte_count (128 * b_num bt)"
  let ?body = "concat (map (datum_text c) ?xs)"
  have body: "?body = concat (map (\<lambda>p. p @ [bar]) (map (datum_part c) ?xs))"
    by (simp add: datum_text_part [abs_def] comp_def)
  have msg: "batch_message c bt = [0x99, 0x99, of_nat ?k] @ le_bytes ?k (length ?body) @ ?body"
    by (simp add: batch_message_def Let_def)
  have ln: "length ?body \<le> 512" "3 + ?k \<le> 512" using fits msg by simp_all
  have lt: "length ?body < 256 ^ ?k"
    using batch_body_bound [OF c bt] byte_count_bound [of "128 * b_num bt"] by simp
  have d: "list_all (\<lambda>x. d_metric x < length (y_metrics c)) ?xs" using bt by (simp add: batch_ok_def)
  have ne: "?xs \<noteq> []" using bt num by (simp add: batch_ok_def)
  then have bne: "?body \<noteq> []" by (cases ?xs) (simp_all add: datum_text_part)
  have no_nl: "newline \<notin> set ?body"
    using d amf_name_plain(3) [OF c] value_text_plain(3)
    by (auto simp: datum_text_part datum_part_def list_all_iff newline_def bar_def colon_def)
  have no_bar: "list_all (\<lambda>p. bar \<notin> set p) (map (datum_part c) ?xs)"
    using d amf_name_plain(2) [OF c] value_text_plain(2)
    by (auto simp: datum_part_def list_all_iff bar_def colon_def)
  have parts: "getlines bar ?body = map (datum_part c) ?xs"
    unfolding body by (rule getlines_parts [OF no_bar])
  have nl: "getlines newline ?body = [?body]" using no_nl bne by (rule getlines_single)
  have m: "metrics (count_packet b) = metrics b" by (simp add: count_packet_def)
  have all: "list_all (\<lambda>x. d_metric x < length (y_metrics c) \<and> metrics (count_packet b) (amf_name c x) \<noteq> None \<and>
      stod (value_text x) \<noteq> None) ?xs"
    using d reg m by (auto simp: list_all_iff)
  obtain new where new: "observe_parts stod (count_packet b) ([], []) (map (datum_part c) ?xs) =
      (count_packet b\<lparr>calls := calls (count_packet b) @ new\<rparr>, True)"
    "map call_key new = map (\<lambda>x. Some (the (metrics b (amf_name c x)), amf_name c x, the (stod (value_text x)))) ?xs"
    using observe_parts_ok [OF c all, of "([], [])"] m by auto
  have ol: "observe_lines stod b (getlines newline ?body) = (count_packet b\<lparr>calls := calls (count_packet b) @ new\<rparr>, True)"
    using nl parts new(1) by simp
  have k4: "?k \<le> 4" using small by (intro byte_count_le) simp
  have k0: "0 < ?k" using num by (intro byte_count_pos) simp
  have uk: "unat (of_nat ?k :: byte) = ?k" using k4 by (simp add: unat_of_nat)
  let ?s = "[0x99, 0x99, of_nat ?k] @ le_bytes ?k (length ?body) @ ?body @ rest"
  have "process_metric_batch_observation stod b (of_nat ?k # le_bytes ?k (length ?body) @ ?body @ rest) =
      (count_packet b\<lparr>calls := calls (count_packet b) @ new\<rparr>, Inr rest)"
    using k4 k0 uk ol bne ln lt
    by (simp add: process_metric_batch_observation_def asio_read_def Let_def le_value_bytes)
      (auto simp: le_bytes_def)
  then have "threadWorker name_ok stod b (batch_message c bt @ rest) =
      threadWorker name_ok stod (count_packet b\<lparr>calls := calls (count_packet b) @ new\<rparr>) rest"
    unfolding msg by (subst threadWorker.simps) simp
  with new(2) show ?thesis by blast
qed

text \<open>The kind of metric that the bus creates for an aggregation strategy.\<close>

definition bus_type :: "strategy \<Rightarrow> mtype" where
  "bus_type ty = (if ty = TYPE_NONE \<or> ty = TYPE_AVERAGE then MSummary else MCounter)"

definition type_parts :: "strategy \<Rightarrow> byte list list" where
  "type_parts ty =
     (if ty = TYPE_SUM then [str ''type:counter'']
      else if ty = TYPE_NONE \<or> ty = TYPE_AVERAGE then [str ''type:summary''] else [])"

lemma definition_body_parts:
  "definition_body name description ty =
     concat (map (\<lambda>p. p @ [bar])
       ([str ''name:amf_'' @ name, str ''description:'' @ description] @ type_parts ty))"
  by (simp add: definition_body_def type_text_def type_parts_def str_def bar_def)

lemma split_text:
  "newline \<notin> set v \<Longrightarrow> split_part (str ''name:amf_'' @ v) = (str ''name'', str ''amf_'' @ v)"
  "newline \<notin> set v \<Longrightarrow> split_part (str ''description:'' @ v) = (str ''description'', v)"
  "split_part (str ''type:counter'') = (str ''type'', str ''counter'')"
  "split_part (str ''type:summary'') = (str ''type'', str ''summary'')"
  by (auto simp: split_part_def str_def colon_def newline_def no_sep_while)

lemma str_distinct:
  "str ''description'' \<noteq> str ''name''" "str ''type'' \<noteq> str ''name''" "str ''type'' \<noteq> str ''description''"
  "str ''counter'' \<noteq> str ''summary''" "str ''counter'' \<noteq> str ''gauge''" "[] \<noteq> str ''summary''" "[] \<noteq> str ''gauge''"
  by (simp_all add: str_def)

lemma threadWorker_definition:
  assumes name: "bar \<notin> set name" "newline \<notin> set name"
    and desc: "bar \<notin> set description" "newline \<notin> set description"
    and fits: "length (definition_message name description ty) < 512"
    and fresh: "metrics b (str ''amf_'' @ name) = None" and ok: "name_ok (str ''amf_'' @ name)"
  shows "threadWorker name_ok stod b (definition_message name description ty @ rest) =
     threadWorker name_ok stod
       (b\<lparr>metrics := (metrics b)(str ''amf_'' @ name \<mapsto> bus_type ty),
          calls := calls b @ [Build (bus_type ty) (str ''amf_'' @ name) description]\<rparr>) rest"
proof -
  let ?body = "definition_body name description ty" and ?n = "length (definition_body name description ty)"
  let ?ps = "[str ''name:amf_'' @ name, str ''description:'' @ description] @ type_parts ty"
  have n: "?n < 508" using fits by (simp add: definition_message_def Let_def)
  have len: "unat (of_nat (?n mod 256) :: byte) + 256 * unat (of_nat (?n div 256 mod 256) :: byte) = ?n"
    using n by (simp add: unat_of_nat)
  have no_bar: "list_all (\<lambda>p. bar \<notin> set p) ?ps"
    using name desc by (simp add: type_parts_def str_def bar_def)
  have parts: "getlines bar ?body = ?ps" unfolding definition_body_parts by (rule getlines_parts [OF no_bar])
  have nl: "newline \<notin> set ?body"
    using name desc by (simp add: definition_body_def type_text_def str_def newline_def)
  have ne: "?body \<noteq> []" by (simp add: definition_body_def str_def)
  define t where "t = (if ty = TYPE_SUM then str ''counter''
      else if ty = TYPE_NONE \<or> ty = TYPE_AVERAGE then str ''summary'' else [])"
  have t: "definition_parts ([], [], []) ?ps = (str ''amf_'' @ name, description, t)"
    using name desc by (simp add: t_def type_parts_def split_text str_distinct)
  have bt: "(if t = str ''summary'' then MSummary else if t = str ''gauge'' then MGauge else MCounter) = bus_type ty"
    by (simp add: t_def bus_type_def str_distinct)
  have lines: "definition_lines name_ok b (getlines newline ?body) =
      (b\<lparr>metrics := (metrics b)(str ''amf_'' @ name \<mapsto> bus_type ty),
         calls := calls b @ [Build (bus_type ty) (str ''amf_'' @ name) description]\<rparr>, True)"
    using getlines_single [OF nl ne] parts t bt fresh ok by (simp add: register_metric_def Let_def)
  have "process_metric_definition name_ok b
      (of_nat (?n mod 256) # of_nat (?n div 256 mod 256) # ?body @ rest) =
      (b\<lparr>metrics := (metrics b)(str ''amf_'' @ name \<mapsto> bus_type ty),
         calls := calls b @ [Build (bus_type ty) (str ''amf_'' @ name) description]\<rparr>, Inr rest)"
    using lines len n ne by (simp add: process_metric_definition_def asio_read_def Let_def numeral_2_eq_2)
  then show ?thesis
    unfolding definition_message_def Let_def by (subst threadWorker.simps) simp
qed

end
