(* ===== verification/Metrics.thy ===== *)
theory Metrics
  imports Metrics_Bus
begin

text \<open>
  What holds of the metrics client and bus over many calls: the aggregation of repeated observations
  in a batch, and the state of the bus after any byte stream.
\<close>

section \<open>Invariants of the bus\<close>

text \<open>A use of a metric that is registered with the kind the use needs.\<close>

fun use_ok :: "'v bus \<Rightarrow> 'v prom_call \<Rightarrow> bool" where
  "use_ok b (Build t n d) \<longleftrightarrow> False"
| "use_ok b (Inc_plain n) \<longleftrightarrow> metrics b n = Some MCounter"
| "use_ok b (Increment n l v) \<longleftrightarrow> metrics b n = Some MCounter"
| "use_ok b (Set_gauge n l v) \<longleftrightarrow> metrics b n = Some MGauge"
| "use_ok b (Observe n l v) \<longleftrightarrow> metrics b n = Some MSummary"

text \<open>A property that survives the two things the bus does survives every byte stream.\<close>

locale bus_invariant =
  fixes P :: "'v bus \<Rightarrow> bool"
  assumes register_step: "P b \<Longrightarrow> metrics b n = None \<Longrightarrow>
      P (b\<lparr>metrics := (metrics b)(n \<mapsto> t), calls := calls b @ [Build t n d]\<rparr>)"
    and use_step: "P b \<Longrightarrow> use_ok b k \<Longrightarrow> P (b\<lparr>calls := calls b @ [k]\<rparr>)"
begin

lemma register_keeps: "P b \<Longrightarrow> P (fst (register_metric name_ok b name description ty))"
  by (auto simp: register_metric_def Let_def intro: register_step)

lemma definition_lines_keeps: "P b \<Longrightarrow> P (fst (definition_lines name_ok b ls))"
proof (induction ls arbitrary: b)
  case (Cons l ls)
  obtain n d t where p: "definition_parts ([], [], []) (getlines bar l) = (n, d, t)" by (cases "definition_parts ([], [], []) (getlines bar l)") auto
  have "P (fst (register_metric name_ok b n d t))" using Cons.prems by (rule register_keeps)
  with Cons.IH show ?case by (auto simp: p split: prod.split bool.split)
qed simp

lemma definition_keeps: "P b \<Longrightarrow> P (fst (process_metric_definition name_ok b s))"
  using definition_lines_keeps
  by (auto simp: process_metric_definition_def Let_def split: option.split prod.splits bool.splits) (metis fst_conv)+

lemma observe_part_keeps: "P b \<Longrightarrow> observe_part stod b l p = Some (b', l') \<Longrightarrow> P b'"
  by (auto simp: observe_part_def Let_def split: prod.splits option.splits mtype.splits bind_splits intro!: use_step)

lemma observe_parts_keeps: "P b \<Longrightarrow> P (fst (observe_parts stod b l ps))"
  by (induction ps arbitrary: b l) (auto split: option.split dest: observe_part_keeps)

lemma count_packet_keeps: "P b \<Longrightarrow> P (count_packet b)"
  by (simp add: count_packet_def use_step)

lemma observe_lines_keeps: "P b \<Longrightarrow> P (fst (observe_lines stod b ls))"
proof (induction ls arbitrary: b)
  case (Cons l ls)
  have "P (fst (observe_parts stod (count_packet b) ([], []) (getlines bar l)))"
    using Cons.prems by (intro observe_parts_keeps count_packet_keeps)
  with Cons.IH show ?case by (auto split: prod.split bool.split)
qed simp

lemma observation_keeps: "P b \<Longrightarrow> P (fst (process_metric_batch_observation stod b s))"
  using observe_lines_keeps
  by (auto simp: process_metric_batch_observation_def Let_def split: option.split prod.splits bool.splits)
    (metis fst_conv)+

lemma threadWorker_keeps: "P b \<Longrightarrow> P (fst (threadWorker name_ok stod b s))"
proof (induction name_ok stod b s rule: threadWorker.induct)
  case (1 name_ok stod b s)
  have handler: "P (fst (if y = 0x98 then process_metric_definition name_ok b s2
      else process_metric_batch_observation stod b s2))" for y s2
    using "1.prems" by (simp add: definition_keeps observation_keeps)
  show ?case
  proof (cases "\<exists>x y s2. s = x # y # s2 \<and> x = 0x99 \<and> (y = 0x99 \<or> y = 0x98)")
    case True
    then obtain y s2 where s: "s = 0x99 # y # s2" and y: "y = 0x99 \<or> y = 0x98" by blast
    obtain b' r where h: "(if y = 0x98 then process_metric_definition name_ok b s2
      else process_metric_batch_observation stod b s2) = (b', r)" by (metis surj_pair)
    have "P b'" using handler [of y s2] h by simp
    with "1.IH"(3) [OF s _ refl, of b' r] h y show ?thesis
      unfolding s by (subst threadWorker.simps) (auto split: sum.split)
  next
    case False
    with "1.IH"(1,2) "1.prems" show ?thesis
      by (subst threadWorker.simps) (auto split: list.split)
  qed
qed

end

text \<open>Registered kinds and earlier calls are never revoked.\<close>

definition bus_extends :: "'v bus \<Rightarrow> 'v bus \<Rightarrow> bool" where
  "bus_extends b0 b \<longleftrightarrow> metrics b0 \<subseteq>\<^sub>m metrics b \<and> (\<exists>ks. calls b = calls b0 @ ks)"

interpretation ext: bus_invariant "bus_extends b0" for b0 :: "'v bus"
proof unfold_locales
  fix b :: "'v bus" and n t d
  assume "bus_extends b0 b" and "metrics b n = None"
  then show "bus_extends b0 (b\<lparr>metrics := (metrics b)(n \<mapsto> t), calls := calls b @ [Build t n d]\<rparr>)"
    by (auto simp: bus_extends_def map_le_def dom_def)
qed (auto simp: bus_extends_def)

text \<open>
  The registry and the calls agree: a metric is registered exactly when it was built, it is built once,
  with one kind, and it is only used with that kind.
\<close>

fun built :: "'v prom_call list \<Rightarrow> (byte list \<times> mtype) list" where
  "built [] = []"
| "built (Build t n d # ks) = (n, t) # built ks"
| "built (k # ks) = built ks"

lemma built_append [simp]: "built (ks @ ks') = built ks @ built ks'"
  by (induction ks rule: built.induct) simp_all

fun use_typed :: "(byte list \<times> mtype) list \<Rightarrow> 'v prom_call \<Rightarrow> bool" where
  "use_typed bs (Build t n d) \<longleftrightarrow> True"
| "use_typed bs (Inc_plain n) \<longleftrightarrow> (n, MCounter) \<in> set bs"
| "use_typed bs (Increment n l v) \<longleftrightarrow> (n, MCounter) \<in> set bs"
| "use_typed bs (Set_gauge n l v) \<longleftrightarrow> (n, MGauge) \<in> set bs"
| "use_typed bs (Observe n l v) \<longleftrightarrow> (n, MSummary) \<in> set bs"

definition bus_ok :: "'v bus \<Rightarrow> bool" where
  "bus_ok b \<longleftrightarrow> metrics b = map_of (built (calls b)) \<and> distinct (map fst (built (calls b))) \<and>
     (\<forall>i < length (calls b). use_typed (built (take i (calls b))) (calls b ! i))"

lemma use_typed_last:
  assumes "bus_ok b" and "use_ok b k"
  shows "use_typed (built (calls b)) k" and "built [k] = []"
  using assms by (cases k; auto simp: bus_ok_def dest: map_of_SomeD)+

lemma bus_ok_snoc:
  assumes "\<forall>i < length ks. use_typed (built (take i ks)) (ks ! i)" and "use_typed (built ks) k"
  shows "\<forall>i < length (ks @ [k]). use_typed (built (take i (ks @ [k]))) ((ks @ [k]) ! i)"
  using assms by (auto simp: nth_append less_Suc_eq)

interpretation typed: bus_invariant "bus_ok :: 'v bus \<Rightarrow> bool"
proof unfold_locales
  fix b :: "'v bus" and n t d
  assume a: "bus_ok b" "metrics b n = None"
  let ?bs = "built (calls b)"
  have n: "n \<notin> fst ` set ?bs" using a by (simp add: bus_ok_def map_of_eq_None_iff)
  have "(map_of ?bs)(n \<mapsto> t) = map_of (?bs @ [(n, t)])"
  proof (rule ext)
    fix m
    show "((map_of ?bs)(n \<mapsto> t)) m = map_of (?bs @ [(n, t)]) m"
      using n by (cases "m = n") (simp_all add: map_add_def map_of_eq_None_iff [THEN iffD2] split: option.split)
  qed
  with a n bus_ok_snoc [of "calls b" "Build t n d"]
  show "bus_ok (b\<lparr>metrics := (metrics b)(n \<mapsto> t), calls := calls b @ [Build t n d]\<rparr>)"
    by (simp add: bus_ok_def)
next
  fix b :: "'v bus" and k
  assume a: "bus_ok b" "use_ok b k"
  from use_typed_last [OF this] bus_ok_snoc [of "calls b" k] a(1)
  show "bus_ok (b\<lparr>calls := calls b @ [k]\<rparr>)" by (simp add: bus_ok_def)
qed

section \<open>Repeated observations\<close>

text \<open>The calls of \<open>yagra_observe_metric\<close> for a list of values; their return values are dropped.\<close>

fun observe_all :: "yagra_conn \<Rightarrow> yagra_batch \<Rightarrow> byte list \<Rightarrow> nat option \<Rightarrow> u64 list \<Rightarrow> yagra_batch option" where
  "observe_all c b name p [] = Some b"
| "observe_all c b name p (v # vs) = do {
     (rc, b) \<leftarrow> yagra_observe_metric c b name p v;
     observe_all c b name p vs }"

text \<open>What yagra.h promises of the strategies.\<close>

fun combined :: "strategy \<Rightarrow> u64 list \<Rightarrow> u64" where
  "combined TYPE_KEEP_FIRST vs = hd vs"
| "combined TYPE_KEEP_LAST vs = last vs"
| "combined TYPE_MIN vs = foldl min (hd vs) (tl vs)"
| "combined TYPE_MAX vs = foldl max (hd vs) (tl vs)"
| "combined TYPE_SUM vs = sum_list vs"
| "combined _ vs = hd vs"

definition combining :: "strategy \<Rightarrow> bool" where
  "combining ty \<longleftrightarrow> ty \<in> {TYPE_KEEP_FIRST, TYPE_KEEP_LAST, TYPE_MIN, TYPE_MAX, TYPE_SUM}"

lemma find_index_None: "(\<And>x. x \<in> set xs \<Longrightarrow> \<not> P x) \<Longrightarrow> find_index P xs = None"
  by (induction xs) simp_all

lemma find_index_snoc: "(\<And>x. x \<in> set xs \<Longrightarrow> \<not> P x) \<Longrightarrow> P y \<Longrightarrow> find_index P (xs @ [y]) = Some (length xs)"
  by (induction xs) simp_all

lemma observe_new:
  assumes "find_index (\<lambda>x. m_name x = name) (y_metrics c) = Some i"
    and "\<And>x. x \<in> set (b_data b) \<Longrightarrow> p \<noteq> Some (d_metric x)"
  shows "yagra_observe_metric c b name p v = Some (0, b\<lparr>b_data := b_data b @
      [\<lparr>d_metric = i, d_value = v, d_count = (if m_type (y_metrics c ! i) = TYPE_AVERAGE then Some 1 else None)\<rparr>],
      b_num := b_num b + 1\<rparr>)"
proof -
  have "find_index (\<lambda>x. p = Some (d_metric x)) (b_data b) = None" by (rule find_index_None) (rule assms(2))
  then show ?thesis by (simp add: yagra_observe_metric_def assms(1) Let_def)
qed

lemma observe_again:
  assumes i: "find_index (\<lambda>x. m_name x = name) (y_metrics c) = Some i"
    and ty: "combining (m_type (y_metrics c ! i))"
    and d: "b_data b = xs @ [\<lparr>d_metric = i, d_value = combined (m_type (y_metrics c ! i)) vs, d_count = None\<rparr>]"
    and new: "\<And>x. x \<in> set xs \<Longrightarrow> d_metric x \<noteq> i" and vs: "vs \<noteq> []"
  shows "yagra_observe_metric c b name (Some i) v = Some (0, b\<lparr>b_data := xs @
      [\<lparr>d_metric = i, d_value = combined (m_type (y_metrics c ! i)) (vs @ [v]), d_count = None\<rparr>]\<rparr>)"
proof -
  have f: "find_index (\<lambda>x. Some i = Some (d_metric x)) (b_data b) = Some (length xs)"
    unfolding d using new by (intro find_index_snoc) auto
  have c: "combined (m_type (y_metrics c ! i)) (vs @ [v]) =
      (case m_type (y_metrics c ! i) of
         TYPE_KEEP_FIRST \<Rightarrow> combined TYPE_KEEP_FIRST vs | TYPE_KEEP_LAST \<Rightarrow> v
       | TYPE_MIN \<Rightarrow> min (combined TYPE_MIN vs) v | TYPE_MAX \<Rightarrow> max (combined TYPE_MAX vs) v
       | _ \<Rightarrow> combined TYPE_SUM vs + v)"
    using ty vs by (auto simp: combining_def)
  show ?thesis
    using ty f d unfolding c
    by (auto simp: yagra_observe_metric_def i Let_def combining_def aggregate_def min_def max_def add.commute)
qed

lemma observe_all_again:
  assumes "find_index (\<lambda>x. m_name x = name) (y_metrics c) = Some i"
    and "combining (m_type (y_metrics c ! i))"
    and "b_data b = xs @ [\<lparr>d_metric = i, d_value = combined (m_type (y_metrics c ! i)) vs, d_count = None\<rparr>]"
    and "\<And>x. x \<in> set xs \<Longrightarrow> d_metric x \<noteq> i" and "vs \<noteq> []"
  shows "observe_all c b name (Some i) ws = Some (b\<lparr>b_data := xs @
      [\<lparr>d_metric = i, d_value = combined (m_type (y_metrics c ! i)) (vs @ ws), d_count = None\<rparr>]\<rparr>)"
  using assms(3,5)
proof (induction ws arbitrary: b vs)
  case (Cons w ws)
  note o = observe_again [OF assms(1,2) Cons.prems(1) assms(4) Cons.prems(2), of w]
  show ?case using Cons.IH [of _ "vs @ [w]"] by (simp add: o)
qed simp

lemma observe_all_combined:
  assumes i: "find_index (\<lambda>x. m_name x = name) (y_metrics c) = Some i"
    and ty: "combining (m_type (y_metrics c ! i))"
    and new: "\<And>x. x \<in> set (b_data b) \<Longrightarrow> d_metric x \<noteq> i" and vs: "vs \<noteq> []"
  shows "observe_all c b name (Some i) vs = Some (b\<lparr>b_data := b_data b @
      [\<lparr>d_metric = i, d_value = combined (m_type (y_metrics c ! i)) vs, d_count = None\<rparr>], b_num := b_num b + 1\<rparr>)"
proof -
  obtain w ws where vs': "vs = w # ws" using vs by (cases vs) auto
  have "yagra_observe_metric c b name (Some i) w = Some (0, b\<lparr>b_data := b_data b @
      [\<lparr>d_metric = i, d_value = w, d_count = (if m_type (y_metrics c ! i) = TYPE_AVERAGE then Some 1 else None)\<rparr>],
      b_num := b_num b + 1\<rparr>)"
    using new by (intro observe_new [OF i]) auto
  moreover have "combined (m_type (y_metrics c ! i)) [w] = w" and "m_type (y_metrics c ! i) \<noteq> TYPE_AVERAGE"
    using ty by (auto simp: combining_def)
  ultimately show ?thesis
    using observe_all_again [OF i ty, where vs = "[w]" and ws = ws and xs = "b_data b"] new by (simp add: vs')
qed

text \<open>With any other pointer nothing is combined.\<close>

lemma observe_all_appends:
  assumes i: "find_index (\<lambda>x. m_name x = name) (y_metrics c) = Some i"
  shows "observe_all c b name None vs = Some (b\<lparr>b_data := b_data b @
      map (\<lambda>v. \<lparr>d_metric = i, d_value = v, d_count = (if m_type (y_metrics c ! i) = TYPE_AVERAGE then Some 1 else None)\<rparr>) vs,
      b_num := b_num b + length vs\<rparr>)"
  by (induction vs arbitrary: b) (simp_all add: observe_new [OF i])

lemma unat_of_nat_byte: "k < 256 \<Longrightarrow> unat (of_nat k :: byte) = k"
  by (simp add: unat_of_nat)

section \<open>Batches stay well-formed\<close>

lemma find_index_SomeD: "find_index P xs = Some i \<Longrightarrow> i < length xs \<and> P (xs ! i)"
  by (induction xs arbitrary: i) (auto split: if_splits)

lemma aggregate_metric: "aggregate ty x v = Some (Some (rc, x')) \<Longrightarrow> d_metric x' = d_metric x"
  by (cases ty) (auto simp: aggregate_def split: bind_splits if_splits)

lemma observe_batch_ok:
  assumes "yagra_observe_metric c b name p v = Some (rc, b')" and "batch_ok c b"
  shows "batch_ok c b'"
proof (cases "find_index (\<lambda>x. m_name x = name) (y_metrics c)")
  case None
  with assms show ?thesis by (auto simp: yagra_observe_metric_def split: if_splits)
next
  case fi: (Some i)
  then have i: "i < length (y_metrics c)" using find_index_SomeD by blast
  show ?thesis
  proof (cases "find_index (\<lambda>x. p = Some (d_metric x)) (b_data b)")
    case None
    with fi i assms show ?thesis by (auto simp: yagra_observe_metric_def batch_ok_def Let_def)
  next
    case k: (Some k)
    then have kl: "k < length (b_data b)" using find_index_SomeD by blast
    show ?thesis
    proof (cases "aggregate (m_type (y_metrics c ! i)) (b_data b ! k) v")
      case None
      with k fi assms show ?thesis by (simp add: yagra_observe_metric_def)
    next
      case (Some r)
      note eq = assms(1) [unfolded yagra_observe_metric_def Let_def fi k option.case Some bind.bind_lunit]
      show ?thesis
      proof (cases r)
        case None
        with eq i kl assms(2) show ?thesis by (auto simp: batch_ok_def split: if_splits)
      next
        case (Some q)
        then obtain x where q: "r = Some (rc, x)" "b' = b\<lparr>b_data := (b_data b)[k := x]\<rparr>" using eq by (cases q) auto
        have "d_metric x = d_metric (b_data b ! k)"
          using \<open>aggregate _ _ _ = Some r\<close> q(1) aggregate_metric by blast
        with kl assms(2) q(2) show ?thesis by (auto simp: batch_ok_def list_all_length nth_list_update)
      qed
    qed
  qed
qed

lemma batch_ok_init: "batch_ok c yagra_init_batch"
  by (simp add: batch_ok_def yagra_init_batch_def)

section \<open>Properties\<close>

definition ex_conn :: yagra_conn where
  "ex_conn = \<lparr>y_metrics = [\<lparr>m_name = str ''n'', m_type = TYPE_SUM\<rparr>], y_tail_null = True\<rparr>"

definition ex_batch :: yagra_batch where
  "ex_batch = \<lparr>b_data = [\<lparr>d_metric = 0, d_value = 5, d_count = None\<rparr>], b_num = 1\<rparr>"

definition ex_bus :: "int bus" where
  "ex_bus = \<lparr>metrics = [str ''amf_n'' \<mapsto> MCounter], calls = [Build MCounter (str ''amf_n'') []]\<rparr>"

definition ex_stod :: "byte list \<Rightarrow> int option" where
  "ex_stod s = (if s = [53] then Some 5 else None)"

lemma ex_batch_facts:
  "conn_ok ex_conn" "batch_ok ex_conn ex_batch" "b_num ex_batch = 1"
  "batch_message ex_conn ex_batch = [0x99, 0x99, 1, 8] @ str ''amf_n:5|''"
  "b_data ex_batch = [\<lparr>d_metric = 0, d_value = 5, d_count = None\<rparr>]"
  by (simp_all add: ex_conn_def ex_batch_def conn_ok_def batch_ok_def name_plain_def str_def batch_message_def
      datum_text_def dec_int_def dec_nat.simps byte_count.simps Let_def le_bytes_def)

text \<open>
  C16.  A batch arrives.  A well-formed batch whose message has at most 512 bytes is sent with result 0,
  and the bus, reading that message, consumes exactly its bytes and passes every observation, in
  order, to the metric of its name with its value.
\<close>

theorem batch_delivered:
  assumes "conn_ok c" and "batch_ok c bt" and "b_num bt \<noteq> 0" and "128 * b_num bt < 2 ^ 31"
    and "length (batch_message c bt) \<le> 512" and "length buffer = 1024"
    and "list_all (\<lambda>x. metrics b (amf_name c x) \<noteq> None \<and> stod (value_text x) \<noteq> None) (b_data bt)"
  shows "\<exists>msg new. yagra_send_batch buffer c bt True = Some (0, Some msg) \<and>
     threadWorker name_ok stod b (msg @ rest) =
       threadWorker name_ok stod (count_packet b\<lparr>calls := calls (count_packet b) @ new\<rparr>) rest \<and>
     map call_key new =
       map (\<lambda>x. Some (the (metrics b (amf_name c x)), amf_name c x, the (stod (value_text x)))) (b_data bt)"
  using yagra_send_batch_ok [OF assms(3,6,4,5), of True] threadWorker_batch [OF assms(1-5,7), of name_ok rest] by simp

theorem batch_delivered_witness:
  "\<exists>msg new. yagra_send_batch (replicate 1024 0) ex_conn ex_batch True = Some (0, Some msg) \<and>
     threadWorker (\<lambda>_. True) ex_stod ex_bus (msg @ []) =
       threadWorker (\<lambda>_. True) ex_stod (count_packet ex_bus\<lparr>calls := calls (count_packet ex_bus) @ new\<rparr>) [] \<and>
     map call_key new = [Some (MCounter, str ''amf_n'', 5)]"
  using batch_delivered [OF ex_batch_facts(1,2), of "replicate 1024 0" ex_bus ex_stod "\<lambda>_. True" "[]"]
  by (simp add: ex_batch_facts(3,4,5))
    (simp add: amf_name_def value_text_def ex_conn_def ex_bus_def ex_stod_def str_def dec_int_def dec_nat.simps)

text \<open>
  A definition arrives.  When name and description contain no separator, the message stays below
  512 bytes and the metric is new to the bus, \<open>yagra_define_metric\<close> returns 0 and appends the metric
  to the connection, and the bus registers it under \<open>amf_<name>\<close> with the kind of its strategy: a summary
  for \<open>TYPE_NONE\<close> and \<open>TYPE_AVERAGE\<close>, a counter for every other one.
\<close>

lemma definition_registers:
  assumes "bar \<notin> set name" and "newline \<notin> set name" and "bar \<notin> set description" and "newline \<notin> set description"
    and "length (definition_message name description ty) < 512" and "length buffer = 512"
    and "y_metrics c = [] \<or> y_tail_null c"
    and "metrics b (str ''amf_'' @ name) = None" and "name_ok (str ''amf_'' @ name)"
  shows "\<exists>c' msg. yagra_define_metric buffer c name description ty True True next_null = Some (0, c', Some msg) \<and>
     y_metrics c' = y_metrics c @ [\<lparr>m_name = take 63 name, m_type = ty\<rparr>] \<and>
     threadWorker name_ok stod b (msg @ rest) = threadWorker name_ok stod
       (b\<lparr>metrics := (metrics b)(str ''amf_'' @ name \<mapsto> bus_type ty),
          calls := calls b @ [Build (bus_type ty) (str ''amf_'' @ name) description]\<rparr>) rest"
  using yagra_define_metric_ok [OF assms(6,5,7)] threadWorker_definition [OF assms(1-5,8), where name_ok = name_ok, OF assms(9)] by simp

text \<open>
  C18.  Aggregation.  Observing the values \<open>vs\<close> one after the other, with the name pointer of the metric
  itself, leaves one observation in the batch, whose value is the first, the last, the minimum, the
  maximum or the sum modulo 2^64, as the strategy of the metric says.
\<close>

theorem aggregation_correct:
  assumes "find_index (\<lambda>x. m_name x = name) (y_metrics c) = Some i"
    and "combining (m_type (y_metrics c ! i))"
    and "\<forall>x \<in> set (b_data b). d_metric x \<noteq> i" and "vs \<noteq> []"
  shows "observe_all c b name (Some i) vs = Some (b\<lparr>b_data := b_data b @
      [\<lparr>d_metric = i, d_value = combined (m_type (y_metrics c ! i)) vs, d_count = None\<rparr>], b_num := b_num b + 1\<rparr>)"
  using assms by (intro observe_all_combined) auto

theorem aggregation_correct_witness:
  "observe_all ex_conn yagra_init_batch (str ''n'') (Some 0) [2, 3, -1] =
     Some \<lparr>b_data = [\<lparr>d_metric = 0, d_value = 4, d_count = None\<rparr>], b_num = 1\<rparr>"
  using aggregation_correct [of "str ''n''" ex_conn 0 yagra_init_batch "[2, 3, -1]"]
  by (simp add: ex_conn_def combining_def yagra_init_batch_def)

text \<open>
  Existing observations are searched by pointer.  A caller that passes any other string with the
  characters of the name (as the worker does, with string literals) gets one observation per call,
  whatever the strategy.
\<close>

lemma aggregation_skipped:
  assumes "find_index (\<lambda>x. m_name x = name) (y_metrics c) = Some i"
  shows "observe_all c b name None vs = Some (b\<lparr>b_data := b_data b @
      map (\<lambda>v. \<lparr>d_metric = i, d_value = v, d_count = (if m_type (y_metrics c ! i) = TYPE_AVERAGE then Some 1 else None)\<rparr>) vs,
      b_num := b_num b + length vs\<rparr>)"
  by (rule observe_all_appends [OF assms])

text \<open>
  C20.  The state of the bus.  Whatever bytes a connection delivers, the registry and the calls of the
  library keep agreeing: each registered metric was built once, with the kind that is registered, before
  its first use, every use has that kind, and neither a registration nor an earlier call is revoked.
\<close>

theorem bus_state_invariant:
  assumes "bus_ok b"
  shows "bus_ok (fst (threadWorker name_ok stod b stream)) \<and>
     bus_extends b (fst (threadWorker name_ok stod b stream))"
proof
  show "bus_ok (fst (threadWorker name_ok stod b stream))" using assms by (rule typed.threadWorker_keeps)
  have "bus_extends b b" by (simp add: bus_extends_def)
  then show "bus_extends b (fst (threadWorker name_ok stod b stream))" by (rule ext.threadWorker_keeps)
qed

theorem bus_state_invariant_witness:
  "bus_ok (fst (threadWorker (\<lambda>_. True) ex_stod ex_bus [0x99, 0x99, 1, 8]))"
proof -
  have "bus_ok ex_bus" by (simp add: bus_ok_def ex_bus_def)
  from bus_state_invariant [OF this] show ?thesis by blast
qed

text \<open>
  One bad value stops the bus.  A batch message with an observation of a registered metric whose text is not
  a number makes \<open>std::stod\<close> throw an exception that the thread does not catch: the process terminates.
\<close>

lemma bad_value_terminates:
  assumes "colon \<notin> set name" and "bar \<notin> set (name @ value)" and "newline \<notin> set (name @ value)"
    and "metrics b name \<noteq> None" and "stod value = None" and "length (name @ value) < 255"
  shows "\<exists>b'. threadWorker name_ok stod b
     ([0x99, 0x99, 1, of_nat (length (name @ value) + 1)] @ name @ colon # value @ rest) = (b', Terminate)"
proof -
  let ?m = "name @ colon # value"
  have no: "newline \<notin> set ?m" "bar \<notin> set ?m" using assms(2,3) by (auto simp: colon_def newline_def bar_def)
  have ls: "getlines newline ?m = [?m]" "getlines bar ?m = [?m]" using no by (auto intro!: getlines_single)
  have sp: "split_part ?m = (name, value)" using assms(1,3) by (intro split_part_colon) auto
  have "metrics (count_packet b) = metrics b" by (simp add: count_packet_def)
  then have "observe_part stod (count_packet b) ([], []) ?m = None"
    using assms(4,5) by (auto simp: observe_part_def sp)
  then have o: "observe_lines stod b (getlines newline ?m) = (count_packet b, False)" by (simp add: ls)
  have n: "unat (of_nat (length (name @ value) + 1) :: byte) = length ?m" using assms(6) unat_of_nat_byte [of "length (name @ value) + 1"] by simp
  have "process_metric_batch_observation stod b
     (1 # of_nat (length (name @ value) + 1) # ?m @ rest) = (count_packet b, Inl Terminate)"
    using o n assms(6) by (simp add: process_metric_batch_observation_def asio_read_def Let_def)
  then show ?thesis by (subst threadWorker.simps) simp
qed

text \<open>
  C22.  Batches are well-formed.  A new batch is, and every observation, on every branch, keeps it so: all entries
  refer to metrics of the connection, and there are at most as many entries as the counter says.
\<close>

theorem batch_well_formed:
  assumes "batch_ok c b" and "yagra_observe_metric c b name p v = Some (rc, b')"
  shows "batch_ok c yagra_init_batch \<and> batch_ok c b'"
  using observe_batch_ok [OF assms(2,1)] batch_ok_init by blast

theorem batch_well_formed_witness:
  "batch_ok ex_conn \<lparr>b_data = [\<lparr>d_metric = 0, d_value = 12, d_count = None\<rparr>], b_num = 1\<rparr>"
proof -
  have "yagra_observe_metric ex_conn ex_batch (str ''n'') (Some 0) 7 =
      Some (0, \<lparr>b_data = [\<lparr>d_metric = 0, d_value = 12, d_count = None\<rparr>], b_num = 1\<rparr>)"
    by (simp add: yagra_observe_metric_def ex_conn_def ex_batch_def aggregate_def)
  from batch_well_formed [OF ex_batch_facts(2) this] show ?thesis by blast
qed

end
