(* ===== verification/Sha256.thy ===== *)
theory Sha256
  imports Prelude
begin

text \<open>
  SHA-256 and HMAC-SHA-256 of ran-emulator/source/crypto.c, and their agreement with FIPS 180-4 and
  RFC 2104.  \<open>message\<close> is the array of exactly \<open>length\<close> bytes that a call passes.

  \<open>sha256_initialize\<close> clears 17 words of a buffer of 16; the last one falls on \<open>state[0]\<close>, which the next
  line sets.
\<close>

section \<open>The code\<close>

record sha256 =
  sha_hash :: "byte list"
  sha_buffer :: "u32 list"
  sha_state :: "u32 list"
  sha_length :: "byte list"

definition initial_state :: "u32 list" where
  "initial_state =
     [0x6a09e667, 0xbb67ae85, 0x3c6ef372, 0xa54ff53a, 0x510e527f, 0x9b05688c, 0x1f83d9ab, 0x5be0cd19]"

definition sha256_initialize :: "sha256 \<Rightarrow> sha256" where
  "sha256_initialize sha =
     sha\<lparr>sha_buffer := replicate 16 0, sha_state := initial_state, sha_length := replicate 8 0\<rparr>"

definition length_bits :: "u32 \<Rightarrow> nat \<Rightarrow> u32" where
  "length_bits len i =
     (if i = 7 then push_bit 3 len
      else if i = 0 \<or> i = 1 \<or> i = 2 then 0
      else drop_bit (53 - 8 * i) len) AND 0xFF"

text \<open>\<open>for (j = i - 1; j >= 0 && sha->length[j]++ == 0xff; --j);\<close>\<close>

fun carry_up :: "nat \<Rightarrow> byte list \<Rightarrow> byte list" where
  "carry_up 0 l = l"
| "carry_up (Suc j) l =
     (let l' = l[j := l ! j + 1] in if l ! j = 0xFF then carry_up j l' else l')"

definition add_bits :: "u32 \<Rightarrow> byte list \<Rightarrow> nat \<Rightarrow> byte list" where
  "add_bits len l i =
     (let bits = length_bits len i;
          l = (if unat (l ! i) + unat bits > 0xFF then carry_up i l else l)
      in l[i := l ! i + ucast bits])"

definition count_length :: "byte list \<Rightarrow> u32 \<Rightarrow> byte list" where
  "count_length l len = foldl (add_bits len) l [7, 6, 5, 4, 3, 2, 1, 0]"

text \<open>The inner loop: bytes go into the buffer until it is full or the message ends.\<close>

fun fill :: "u32 list \<Rightarrow> nat \<Rightarrow> byte list \<Rightarrow> u32 list \<times> nat \<times> byte list" where
  "fill buffer index [] = (buffer, index, [])"
| "fill buffer index (m # ms) =
     (if index < 64
      then fill (buffer[index div 4 := buffer ! (index div 4) OR push_bit (24 - index mod 4 * 8) (ucast m)])
             (index + 1) ms
      else (buffer, index, m # ms))"

definition sha_k :: "u32 list" where
  "sha_k = concat [
     [0x428a2f98, 0x71374491, 0xb5c0fbcf, 0xe9b5dba5], [0x3956c25b, 0x59f111f1, 0x923f82a4, 0xab1c5ed5],
     [0xd807aa98, 0x12835b01, 0x243185be, 0x550c7dc3], [0x72be5d74, 0x80deb1fe, 0x9bdc06a7, 0xc19bf174],
     [0xe49b69c1, 0xefbe4786, 0x0fc19dc6, 0x240ca1cc], [0x2de92c6f, 0x4a7484aa, 0x5cb0a9dc, 0x76f988da],
     [0x983e5152, 0xa831c66d, 0xb00327c8, 0xbf597fc7], [0xc6e00bf3, 0xd5a79147, 0x06ca6351, 0x14292967],
     [0x27b70a85, 0x2e1b2138, 0x4d2c6dfc, 0x53380d13], [0x650a7354, 0x766a0abb, 0x81c2c92e, 0x92722c85],
     [0xa2bfe8a1, 0xa81a664b, 0xc24b8b70, 0xc76c51a3], [0xd192e819, 0xd6990624, 0xf40e3585, 0x106aa070],
     [0x19a4c116, 0x1e376c08, 0x2748774c, 0x34b0bcb5], [0x391c0cb3, 0x4ed8aa4a, 0x5b9cca4f, 0x682e6ff3],
     [0x748f82ee, 0x78a5636f, 0x84c87814, 0x8cc70208], [0x90befffa, 0xa4506ceb, 0xbef9a3f7, 0xc67178f2]]"

text \<open>\<open>x >> r | x << l\<close>\<close>

definition rot :: "nat \<Rightarrow> nat \<Rightarrow> u32 \<Rightarrow> u32" where
  "rot r l x = drop_bit r x OR push_bit l x"

definition schedule_step :: "u32 list \<Rightarrow> nat \<Rightarrow> u32 list" where
  "schedule_step w t =
     (let s0 = rot 7 25 (w ! (t - 15)) XOR rot 18 14 (w ! (t - 15)) XOR drop_bit 3 (w ! (t - 15));
          s1 = rot 17 15 (w ! (t - 2)) XOR rot 19 13 (w ! (t - 2)) XOR drop_bit 10 (w ! (t - 2))
      in w[t := s1 + w ! (t - 7) + s0 + w ! (t - 16)])"

definition schedule :: "u32 list \<Rightarrow> u32 list" where
  "schedule buffer = foldl schedule_step (buffer @ replicate 48 0) [16..<64]"

type_synonym vars = "u32 \<times> u32 \<times> u32 \<times> u32 \<times> u32 \<times> u32 \<times> u32 \<times> u32"

fun round_step :: "u32 list \<Rightarrow> vars \<Rightarrow> nat \<Rightarrow> vars" where
  "round_step w (a, b, c, d, e, f, g, h) t =
     (let e0 = rot 2 30 a XOR rot 13 19 a XOR rot 22 10 a;
          e1 = rot 6 26 e XOR rot 11 21 e XOR rot 25 7 e;
          t1 = h + e1 + ((e AND f) XOR (NOT e AND g)) + sha_k ! t + w ! t;
          t2 = e0 + ((a AND b) XOR (a AND c) XOR (b AND c))
      in (t1 + t2, a, b, c, d + t1, e, f, g))"

fun load_vars :: "u32 list \<Rightarrow> vars" where
  "load_vars st = (st ! 0, st ! 1, st ! 2, st ! 3, st ! 4, st ! 5, st ! 6, st ! 7)"

fun add_vars :: "u32 list \<Rightarrow> vars \<Rightarrow> u32 list" where
  "add_vars st (a, b, c, d, e, f, g, h) =
     [st ! 0 + a, st ! 1 + b, st ! 2 + c, st ! 3 + d, st ! 4 + e, st ! 5 + f, st ! 6 + g, st ! 7 + h]"

definition compress :: "u32 list \<Rightarrow> u32 list \<Rightarrow> u32 list" where
  "compress st buffer = add_vars st (foldl (round_step (schedule buffer)) (load_vars st) [0..<64])"

lemma fill_length:
  "fill buffer index ms = (b, i, r) \<Longrightarrow> length r \<le> length ms \<and> (ms \<noteq> [] \<longrightarrow> index < 64 \<longrightarrow> length r < length ms)"
proof (induction buffer index ms arbitrary: b i r rule: fill.induct)
  case (2 buffer index m ms)
  show ?case
  proof (cases "index < 64")
    case True
    with 2 show ?thesis by (force split: if_splits)
  next
    case False
    with 2 show ?thesis by simp
  qed
qed simp

text \<open>The outer loop.\<close>

function absorb :: "sha256 \<Rightarrow> byte list \<Rightarrow> sha256" where
  "absorb sha message =
     (if message = [] then sha
      else
        let index = unat (sha_length sha ! 6) mod 2 * 32 + unat (sha_length sha ! 7) div 8;
            index = (index + 64 - length message mod 64) mod 64;
            (buffer, index, rest) = fill (sha_buffer sha) index message
        in absorb (if index = 64
                   then sha\<lparr>sha_buffer := replicate 16 0, sha_state := compress (sha_state sha) buffer\<rparr>
                   else sha\<lparr>sha_buffer := buffer\<rparr>) rest)"
  by pat_completeness auto
termination
  by (relation "measure (\<lambda>(sha, message). length message)")
    (auto dest!: fill_length [OF sym])

declare absorb.simps [simp del]

definition sha256_update :: "sha256 \<Rightarrow> byte list \<Rightarrow> sha256" where
  "sha256_update sha message =
     absorb (sha\<lparr>sha_length := count_length (sha_length sha) (of_nat (length message))\<rparr>) message"

definition terminator :: "byte list \<Rightarrow> nat \<Rightarrow> byte list" where
  "terminator l len =
     take len (foldl (\<lambda>x i. x[len - 8 + i := l ! i]) (0x80 # replicate 71 0) [0..<8])"

definition sha256_finalize :: "sha256 \<Rightarrow> byte list \<Rightarrow> sha256" where
  "sha256_finalize sha message =
     (let sha = (if length message > 0 then sha256_update sha message else sha);
          len = 64 - unat (sha_length sha ! 6) mod 2 * 32 - unat (sha_length sha ! 7) div 8;
          len = (if len < 9 then len + 64 else len);
          sha = sha256_update sha (terminator (sha_length sha) len)
      in sha\<lparr>sha_hash := map (\<lambda>i. ucast (drop_bit (24 - 8 * (i mod 4)) (sha_state sha ! (i div 4)) AND 0xFF)) [0..<32]\<rparr>)"

definition sha256_get :: "sha256 \<Rightarrow> byte list \<Rightarrow> byte list" where
  "sha256_get sha message = sha_hash (sha256_finalize (sha256_initialize sha) message)"

subsection \<open>HMAC\<close>

record hmac_sha256 =
  hm_digest :: "byte list"
  hm_key :: "byte list"
  hm_sha :: sha256

definition hmac_sha256_initialize :: "hmac_sha256 \<Rightarrow> byte list \<Rightarrow> hmac_sha256" where
  "hmac_sha256_initialize hmac key =
     (let hmac =
        (if length key \<le> 64
         then hmac\<lparr>hm_key := map (\<lambda>x. x XOR 0x36) key @ replicate (64 - length key) 0x36\<rparr>
         else let sha = sha256_finalize (sha256_initialize (hm_sha hmac)) key
              in hmac\<lparr>hm_sha := sha, hm_key := map (\<lambda>x. x XOR 0x36) (sha_hash sha) @ replicate 32 0x36\<rparr>)
      in hmac\<lparr>hm_sha := sha256_update (sha256_initialize (hm_sha hmac)) (hm_key hmac)\<rparr>)"

definition hmac_sha256_update :: "hmac_sha256 \<Rightarrow> byte list \<Rightarrow> hmac_sha256" where
  "hmac_sha256_update hmac message = hmac\<lparr>hm_sha := sha256_update (hm_sha hmac) message\<rparr>"

definition hmac_sha256_finalize :: "hmac_sha256 \<Rightarrow> byte list \<Rightarrow> hmac_sha256" where
  "hmac_sha256_finalize hmac message =
     (let sha = sha256_finalize (hm_sha hmac) message;
          digest = sha_hash sha;
          key = map (\<lambda>x. x XOR (0x36 XOR 0x5c)) (hm_key hmac);
          sha = sha256_finalize (sha256_update (sha256_initialize sha) key) digest
      in hmac\<lparr>hm_digest := sha_hash sha, hm_key := key, hm_sha := sha\<rparr>)"

definition sha_256 :: "hmac_sha256 \<Rightarrow> byte list \<Rightarrow> byte list \<Rightarrow> byte list" where
  "sha_256 hmac message key = hm_digest (hmac_sha256_finalize (hmac_sha256_initialize hmac key) message)"

section \<open>The standard\<close>

text \<open>FIPS 180-4, sections 4.1.2, 5.1.1 and 6.2.\<close>

definition Ch :: "u32 \<Rightarrow> u32 \<Rightarrow> u32 \<Rightarrow> u32" where "Ch x y z = (x AND y) XOR (NOT x AND z)"
definition Maj :: "u32 \<Rightarrow> u32 \<Rightarrow> u32 \<Rightarrow> u32" where "Maj x y z = (x AND y) XOR (x AND z) XOR (y AND z)"
definition Sigma0 :: "u32 \<Rightarrow> u32" where "Sigma0 x = word_rotr 2 x XOR word_rotr 13 x XOR word_rotr 22 x"
definition Sigma1 :: "u32 \<Rightarrow> u32" where "Sigma1 x = word_rotr 6 x XOR word_rotr 11 x XOR word_rotr 25 x"
definition sigma0 :: "u32 \<Rightarrow> u32" where "sigma0 x = word_rotr 7 x XOR word_rotr 18 x XOR drop_bit 3 x"
definition sigma1 :: "u32 \<Rightarrow> u32" where "sigma1 x = word_rotr 17 x XOR word_rotr 19 x XOR drop_bit 10 x"

fun W :: "(nat \<Rightarrow> u32) \<Rightarrow> nat \<Rightarrow> u32" where
  "W M t = (if t < 16 then M t
            else sigma1 (W M (t - 2)) + W M (t - 7) + sigma0 (W M (t - 15)) + W M (t - 16))"

declare W.simps [simp del]

definition block_words :: "byte list \<Rightarrow> nat \<Rightarrow> u32" where
  "block_words p i = be32 (p ! (4 * i)) (p ! (4 * i + 1)) (p ! (4 * i + 2)) (p ! (4 * i + 3))"

fun fips_round :: "(nat \<Rightarrow> u32) \<Rightarrow> vars \<Rightarrow> nat \<Rightarrow> vars" where
  "fips_round M (a, b, c, d, e, f, g, h) t =
     (let T1 = h + Sigma1 e + Ch e f g + sha_k ! t + W M t; T2 = Sigma0 a + Maj a b c
      in (T1 + T2, a, b, c, d + T1, e, f, g))"

definition fips_block :: "u32 list \<Rightarrow> byte list \<Rightarrow> u32 list" where
  "fips_block st p = add_vars st (foldl (fips_round (block_words p)) (load_vars st) [0..<64])"

definition be64 :: "nat \<Rightarrow> byte list" where
  "be64 n = map (\<lambda>i. of_nat (n div 256 ^ (7 - i) mod 256)) [0..<8]"

definition sha_pad :: "byte list \<Rightarrow> byte list" where
  "sha_pad m = m @ 0x80 # replicate ((119 - length m mod 64) mod 64) 0 @ be64 (8 * length m)"

function chunks :: "byte list \<Rightarrow> byte list list" where
  "chunks xs = (if length xs < 64 then [] else take 64 xs # chunks (drop 64 xs))"
  by pat_completeness auto
termination by (relation "measure length") auto

declare chunks.simps [simp del]

definition SHA256 :: "byte list \<Rightarrow> byte list" where
  "SHA256 m = concat (map UINT32_TO_ARRAY (foldl fips_block initial_state (chunks (sha_pad m))))"

text \<open>RFC 2104 with a block of 64 bytes.\<close>

definition hmac_key :: "byte list \<Rightarrow> byte list" where
  "hmac_key key = (let k = (if length key \<le> 64 then key else SHA256 key) in k @ replicate (64 - length k) 0)"

definition HMAC :: "byte list \<Rightarrow> byte list \<Rightarrow> byte list" where
  "HMAC key m =
     SHA256 (map (\<lambda>x. x XOR 0x5c) (hmac_key key) @ SHA256 (map (\<lambda>x. x XOR 0x36) (hmac_key key) @ m))"

text \<open>
  The constants: the first 32 bits of the fractional parts of the cube roots of the first 64 primes and
  of the square roots of the first eight.
\<close>

definition primes :: "nat list" where
  "primes = [2, 3, 5, 7, 11, 13, 17, 19, 23, 29, 31, 37, 41, 43, 47, 53, 59, 61, 67, 71, 73, 79, 83, 89,
     97, 101, 103, 107, 109, 113, 127, 131, 137, 139, 149, 151, 157, 163, 167, 173, 179, 181, 191, 193,
     197, 199, 211, 223, 227, 229, 233, 239, 241, 251, 257, 263, 269, 271, 277, 281, 283, 293, 307, 311]"

text \<open>\<open>v = floor(2^32 * p^(1/k)) mod 2^32\<close>\<close>

definition root_bits :: "nat \<Rightarrow> nat \<Rightarrow> u32 \<Rightarrow> bool" where
  "root_bits k p v \<longleftrightarrow>
     (\<exists>q < 32. (q * 2 ^ 32 + unat v) ^ k \<le> p * 2 ^ (32 * k) \<and> p * 2 ^ (32 * k) < (q * 2 ^ 32 + unat v + 1) ^ k)"

end
