(* ===== verification/Sha256_Correct.thy ===== *)
theory Sha256_Correct
  imports Sha256
begin

text \<open>
  The streaming code of Sha256 computes FIPS 180-4: the compression loop, the buffer that is filled
  byte by byte, the 64-bit length counter kept in eight bytes, and the padding.
\<close>

section \<open>The compression function\<close>

lemma rot_word_rotr:
  assumes "0 < r" and "r + l = 32"
  shows "rot r l (x :: u32) = word_rotr r x"
proof (rule bit_word_eqI)
  fix n assume n: "n < LENGTH(32)"
  show "bit (rot r l x) n = bit (word_rotr r x) n"
  proof (cases "n + r < 32")
    case True
    with n assms show ?thesis by (simp add: rot_def bit_simps bit_word_rotr_iff add.commute)
  next
    case False
    then have "n + r = 32 + (n - l)" using n assms by arith
    then have "(n + r) mod 32 = n - l" using n by simp
    moreover have "\<not> bit x (r + n)" using False by (auto dest: bit_imp_le_length)
    ultimately show ?thesis using n assms False by (simp add: rot_def bit_simps bit_word_rotr_iff)
  qed
qed

lemma schedule_step_length [simp]: "length (schedule_step w t) = length w"
  by (simp add: schedule_step_def Let_def)

lemma schedule_prefix:
  assumes "length w = 64" and "n \<le> 64" and "16 \<le> n" and "\<And>i. i < 16 \<Longrightarrow> w ! i = M i"
  shows "length (foldl schedule_step w [16..<n]) = 64 \<and> (\<forall>t < n. foldl schedule_step w [16..<n] ! t = W M t)"
  using assms(3,2)
proof (induction n rule: dec_induct)
  case base
  with assms(1,4) show ?case by (simp add: W.simps)
next
  case (step n)
  let ?w = "foldl schedule_step w [16..<n]"
  have IH: "length ?w = 64" "\<And>t. t < n \<Longrightarrow> ?w ! t = W M t" using step by auto
  have "schedule_step ?w n = ?w[n := W M n]"
    using step IH by (subst W.simps) (simp add: schedule_step_def Let_def sigma0_def sigma1_def rot_word_rotr)
  with step IH show ?case by (auto simp: nth_list_update less_Suc_eq)
qed

lemma schedule_W:
  assumes "length buffer = 16" and "\<And>i. i < 16 \<Longrightarrow> buffer ! i = M i" and "t < 64"
  shows "schedule buffer ! t = W M t"
  using schedule_prefix [of "buffer @ replicate 48 0" 64 M] assms by (simp add: schedule_def nth_append)

lemma round_step_fips: "w ! t = W M t \<Longrightarrow> round_step w v t = fips_round M v t"
  by (cases "(w, v, t)" rule: round_step.cases) (simp add: Let_def Sigma0_def Sigma1_def Ch_def Maj_def rot_word_rotr add_ac)

lemma compress_fips:
  assumes "length buffer = 16" and "\<And>i. i < 16 \<Longrightarrow> buffer ! i = block_words p i"
  shows "compress st buffer = fips_block st p"
proof -
  have "foldl (round_step (schedule buffer)) v [0..<n] = foldl (fips_round (block_words p)) v [0..<n]" if "n \<le> 64" for v n
    using that by (induction n) (simp_all add: round_step_fips schedule_W [OF assms])
  then show ?thesis by (simp add: compress_def fips_block_def)
qed

section \<open>The buffer\<close>

text \<open>The words that hold the bytes \<open>p\<close> and zeros after them.\<close>

definition packw :: "byte list \<Rightarrow> u32 list" where
  "packw p = map (block_words (p @ replicate (64 - length p) 0)) [0..<16]"

lemma length_packw [simp]: "length (packw p) = 16"
  by (simp add: packw_def)

lemma packw_Nil: "packw [] = replicate 16 0"
  by (simp add: packw_def block_words_def be32_def list_eq_iff_nth_eq)

lemma packw_block: "length p = 64 \<Longrightarrow> i < 16 \<Longrightarrow> packw p ! i = block_words p i"
  by (simp add: packw_def)

lemma be32_put:
  "be32 0 0 0 0 OR push_bit 24 (ucast m) = be32 m 0 0 0"
  "be32 a 0 0 0 OR push_bit 16 (ucast m) = be32 a m 0 0"
  "be32 a b 0 0 OR push_bit 8 (ucast m) = be32 a b m 0"
  "be32 a b c 0 OR ucast m = be32 a b c m"
  by (simp_all add: be32_def or.assoc)

lemma less4: "(r :: nat) < 4 \<longleftrightarrow> r = 0 \<or> r = 1 \<or> r = 2 \<or> r = 3"
  by auto

lemma packw_put:
  assumes n: "length p < 64"
  shows "(packw p)[length p div 4 := packw p ! (length p div 4) OR push_bit (24 - length p mod 4 * 8) (ucast m)] =
     packw (p @ [m])"
proof (rule nth_equalityI)
  let ?n = "length p"
  let ?p = "p @ replicate (64 - ?n) 0" and ?q = "(p @ [m]) @ replicate (64 - Suc ?n) 0"
  have q: "?q ! j = (if j = ?n then m else ?p ! j)" if "j < 64" for j
    using that n by (auto simp: nth_append nth_Cons')
  have z: "?p ! j = 0" if "?n \<le> j" "j < 64" for j using that by (simp add: nth_append)
  fix i assume "i < length ((packw p)[?n div 4 := packw p ! (?n div 4) OR push_bit (24 - ?n mod 4 * 8) (ucast m)])"
  then have i: "i < 16" by simp
  then have w: "packw p ! i = block_words ?p i" "packw (p @ [m]) ! i = block_words ?q i" by (simp_all add: packw_def)
  show "(packw p)[?n div 4 := packw p ! (?n div 4) OR push_bit (24 - ?n mod 4 * 8) (ucast m)] ! i = packw (p @ [m]) ! i"
  proof (cases "i = ?n div 4")
    case False
    then have "4 * i + k \<noteq> ?n" if "k < 4" for k using that by auto
    from this [of 0] this [of 1] this [of 2] this [of 3] have "block_words ?q i = block_words ?p i"
      using i unfolding block_words_def by (simp only: q) simp
    with False w show ?thesis by simp
  next
    case True
    then obtain r where r: "?n = 4 * i + r" "r < 4" by (metis mult_div_mod_eq mod_less_divisor zero_less_numeral)
    then have "?n mod 4 = r" by simp
    moreover have "block_words ?p i OR push_bit (24 - r * 8) (ucast m) = block_words ?q i"
    proof -
      have q4: "?q ! (4 * i + k) = (if k = r then m else ?p ! (4 * i + k))" if "k < 4" for k using q that i r(1) by simp
      have z4: "?p ! (4 * i + k) = 0" if "r \<le> k" "k < 4" for k using z that i r(1) by simp
      show ?thesis
        using r(2) unfolding block_words_def less4
        using q4 [of 0] q4 [of 1] q4 [of 2] q4 [of 3] z4 [of 0] z4 [of 1] z4 [of 2] z4 [of 3]
        by (elim disjE) (simp_all add: be32_put del: append_assoc append_Cons append_Nil)
    qed
    ultimately have "block_words ?p i OR push_bit (24 - ?n mod 4 * 8) (ucast m) = block_words ?q i" by simp
    with True w i show ?thesis by simp
  qed
qed simp

lemma fill_pack:
  "length p < 64 \<or> ms = [] \<or> length p = 64 \<Longrightarrow>
   fill (packw p) (length p) ms =
     (packw (p @ take (64 - length p) ms), length p + min (64 - length p) (length ms), drop (64 - length p) ms)"
proof (induction ms arbitrary: p)
  case (Cons m ms)
  show ?case
  proof (cases "length p < 64")
    case True
    then have pre: "length (p @ [m]) < 64 \<or> ms = [] \<or> length (p @ [m]) = 64" by auto
    have k: "64 - length p = Suc (63 - length p)" using True by arith
    from Cons.IH [OF pre] True show ?thesis by (simp add: packw_put k)
  next
    case False
    with Cons.prems show ?thesis by simp
  qed
qed simp

section \<open>Byte by byte\<close>

text \<open>The state of the hash after some bytes: the chaining value and the bytes of the open block.\<close>

fun feed :: "u32 list \<times> byte list \<Rightarrow> byte \<Rightarrow> u32 list \<times> byte list" where
  "feed (st, p) m = (if length p = 63 then (fips_block st (p @ [m]), []) else (st, p @ [m]))"

lemma feed_short: "length p + length xs < 64 \<Longrightarrow> foldl feed (st, p) xs = (st, p @ xs)"
  by (induction xs arbitrary: p) simp_all

lemma feed_full: "length p + length xs = 64 \<Longrightarrow> xs \<noteq> [] \<Longrightarrow> foldl feed (st, p) xs = (fips_block st (p @ xs), [])"
proof (induction xs arbitrary: p)
  case (Cons x xs)
  show ?case using Cons.IH [of "p @ [x]"] Cons.prems by (cases xs) simp_all
qed simp

lemma feed_open: "length (snd s) < 64 \<Longrightarrow> length (snd (foldl feed s xs)) = (length (snd s) + length xs) mod 64"
proof (induction xs arbitrary: s)
  case (Cons x xs)
  have "length (snd (feed s x)) = (length (snd s) + 1) mod 64" using Cons.prems by (cases s) auto
  with Cons.IH [of "feed s x"] show ?case by (simp add: mod_add_left_eq)
qed simp

lemma feed_chunks: "length xs mod 64 = 0 \<Longrightarrow> foldl feed (st, []) xs = (foldl fips_block st (chunks xs), [])"
proof (induction xs arbitrary: st rule: chunks.induct)
  case (1 xs)
  show ?case
  proof (cases "length xs < 64")
    case True
    with "1.prems" show ?thesis by (simp add: chunks.simps)
  next
    case False
    then have "foldl feed (st, []) (take 64 xs) = (fips_block st (take 64 xs), [])" using feed_full [of "[]" "take 64 xs" st] by force
    then have "foldl feed (st, []) xs = foldl feed (fips_block st (take 64 xs), []) (drop 64 xs)"
      by (metis append_take_drop_id foldl_append)
    also have "\<dots> = (foldl fips_block (fips_block st (take 64 xs)) (chunks (drop 64 xs)), [])"
      using "1.prems" False by (intro "1.IH") (simp_all add: mod_if)
    finally show ?thesis using False by (simp add: chunks.simps [of xs])
  qed
qed

definition holds :: "sha256 \<Rightarrow> u32 list \<times> byte list \<Rightarrow> bool" where
  "holds sha s \<longleftrightarrow> sha_state sha = fst s \<and> sha_buffer sha = packw (snd s) \<and> length (snd s) < 64"

lemma index_eq: "(p :: nat) < 64 \<Longrightarrow> ((p + l) mod 64 + 64 - l mod 64) mod 64 = p"
proof -
  assume p: "p < 64"
  define r where "r = l mod 64"
  then have r: "r < 64" and pl: "(p + l) mod 64 = (p + r) mod 64" by (simp_all add: mod_add_right_eq)
  show ?thesis unfolding pl r_def [symmetric] using p r by (cases "p + r < 64") (simp_all add: mod_if)
qed

lemma absorb_feed:
  "holds sha s \<Longrightarrow>
   unat (sha_length sha ! 6) mod 2 * 32 + unat (sha_length sha ! 7) div 8 = (length (snd s) + length msg) mod 64 \<Longrightarrow>
   holds (absorb sha msg) (foldl feed s msg) \<and> sha_length (absorb sha msg) = sha_length sha"
proof (induction sha msg arbitrary: s rule: absorb.induct)
  case (1 sha msg)
  show ?case
  proof (cases "msg = []")
    case True
    with "1.prems"(1) show ?thesis by (simp add: absorb.simps)
  next
    case False
    obtain st p where s: "s = (st, p)" by (cases s)
    have h: "sha_state sha = st" "sha_buffer sha = packw p" "length p < 64" using "1.prems"(1) by (simp_all add: holds_def s)
    define sha' where "sha' = (if length p + min (64 - length p) (length msg) = 64
      then sha\<lparr>sha_buffer := replicate 16 0, sha_state := compress (sha_state sha) (packw (p @ take (64 - length p) msg))\<rparr>
      else sha\<lparr>sha_buffer := packw (p @ take (64 - length p) msg)\<rparr>)"
    have ix: "(unat (sha_length sha ! 6) mod 2 * 32 + unat (sha_length sha ! 7) div 8 + 64 - length msg mod 64) mod 64 = length p"
      unfolding "1.prems"(2) s by (simp add: index_eq h)
    have f: "fill (packw p) (length p) msg = (packw (p @ take (64 - length p) msg),
        length p + min (64 - length p) (length msg), drop (64 - length p) msg)"
      using h(3) by (intro fill_pack) simp
    have ab: "absorb sha msg = absorb sha' (drop (64 - length p) msg)"
      using False h by (subst absorb.simps) (simp add: ix Let_def h(1,2) f sha'_def)
    have l: "sha_length sha' = sha_length sha" by (simp add: sha'_def)
    have hs: "holds sha' (foldl feed s (take (64 - length p) msg))"
    proof (cases "64 - length p \<le> length msg")
      case True
      then have "foldl feed s (take (64 - length p) msg) = (fips_block st (p @ take (64 - length p) msg), [])"
        unfolding s using h(3) by (intro feed_full) auto
      moreover have "compress st (packw (p @ take (64 - length p) msg)) = fips_block st (p @ take (64 - length p) msg)"
        using True h(3) by (intro compress_fips) (simp_all add: packw_block)
      ultimately show ?thesis using True h by (simp add: sha'_def holds_def packw_Nil)
    next
      case short: False
      then have "foldl feed s (take (64 - length p) msg) = (st, p @ take (64 - length p) msg)"
        unfolding s by (intro feed_short) simp
      moreover have "length p + length msg < 64" using short h(3) by arith
      ultimately show ?thesis using short h by (simp add: sha'_def holds_def)
    qed
    have pos: "unat (sha_length sha' ! 6) mod 2 * 32 + unat (sha_length sha' ! 7) div 8 =
        (length (snd (foldl feed s (take (64 - length p) msg))) + length (drop (64 - length p) msg)) mod 64"
    proof -
      have sum: "length (take (64 - length p) msg) + length (drop (64 - length p) msg) = length msg"
        by (metis append_take_drop_id length_append)
      have "length (snd s) < 64" using h(3) by (simp add: s)
      from feed_open [OF this] show ?thesis
        unfolding l "1.prems"(2) by (simp only: mod_add_left_eq add.assoc sum)
    qed
    have "holds (absorb sha' (drop (64 - length p) msg)) (foldl feed (foldl feed s (take (64 - length p) msg)) (drop (64 - length p) msg)) \<and>
        sha_length (absorb sha' (drop (64 - length p) msg)) = sha_length sha'"
      by (rule "1.IH" [OF False refl ix [symmetric] refl f [folded h(2), symmetric] refl, folded sha'_def, OF hs pos])
    then show ?thesis unfolding ab l foldl_append [symmetric] append_take_drop_id .
  qed
qed

section \<open>The length counter\<close>

fun beval :: "byte list \<Rightarrow> nat" where
  "beval [] = 0"
| "beval (x # xs) = unat x * 256 ^ length xs + beval xs"

lemma beval_update:
  "j < length l \<Longrightarrow> beval (l[j := b]) + unat (l ! j) * 256 ^ (length l - 1 - j) = beval l + unat b * 256 ^ (length l - 1 - j)"
  by (induction l arbitrary: j) (auto split: nat.split)

lemma beval_bound: "beval l < 256 ^ length l"
proof (induction l)
  case (Cons x l)
  have a: "unat x * 256 ^ length l + 256 ^ length l \<le> (256 :: nat) * 256 ^ length l"
    using mult_le_mono1 [of "Suc (unat x)" 256 "256 ^ length l"] unat_byte [of x] by simp
  show ?case unfolding beval.simps list.size power_Suc add_Suc_right add_0_right using a Cons.IH by linarith
qed simp

lemma beval_inject: "length l = length l' \<Longrightarrow> beval l = beval l' \<Longrightarrow> l = l'"
proof (induction l l' rule: list_induct2)
  case (Cons x xs y ys)
  have b: "beval xs < 256 ^ length xs" "beval ys < 256 ^ length xs" using beval_bound [of xs] beval_bound [of ys] Cons(1) by simp_all
  have eq: "unat x * 256 ^ length xs + beval xs = unat y * 256 ^ length xs + beval ys" using Cons by simp
  then have "(unat x * 256 ^ length xs + beval xs) div 256 ^ length xs = (unat y * 256 ^ length xs + beval ys) div 256 ^ length xs" by simp
  then have "unat x = unat y" using b by simp
  with eq Cons show ?case by (simp add: word_unat_eq_iff)
qed simp

lemma length_be64 [simp]: "length (be64 n) = 8"
  by (simp add: be64_def)

lemma upt8: "[0..<8] = [0, 1, 2, 3, 4, 5, 6, 7 :: nat]"
  by (simp add: upt_rec)

lemma unat_digit: "unat (of_nat (n mod 256) :: byte) = n mod 256"
  by (simp add: unat_of_nat)

lemma beval_be64: "beval (be64 n) = n mod 2 ^ 64"
proof -
  have d: "n mod (256 * m) = 256 * (n div 256 mod m) + n mod 256" for n m :: nat by (simp add: mod_mult2_eq)
  have e: "n mod 2 ^ 64 = n mod (256 * (256 * (256 * (256 * (256 * (256 * (256 * 256)))))))" by simp
  show ?thesis
    unfolding e d by (simp add: be64_def upt8 unat_digit div_mult2_eq [symmetric] del: unsigned_of_nat)
qed

lemma be64_beval:
  assumes "length l = 8"
  shows "be64 (beval l) = l"
proof -
  have "beval l < 2 ^ 64" using beval_bound [of l] assms by simp
  then have "beval (be64 (beval l)) = beval l" by (simp add: beval_be64)
  then show ?thesis using assms by (intro beval_inject) simp_all
qed

lemma be64_cong: "n mod 2 ^ 64 = m mod 2 ^ 64 \<Longrightarrow> be64 n = be64 m"
  by (metis be64_beval beval_be64 length_be64)

lemma length_carry_up [simp]: "length (carry_up i l) = length l"
  by (induction i l rule: carry_up.induct) (simp_all add: Let_def)

lemma carry_up_above: "i \<le> k \<Longrightarrow> carry_up i l ! k = l ! k"
  by (induction i l rule: carry_up.induct) (auto simp: Let_def)

lemma beval_carry_up:
  "length l = 8 \<Longrightarrow> i \<le> 8 \<Longrightarrow> beval (carry_up i l) mod 2 ^ 64 = (beval l + 256 ^ (8 - i)) mod 2 ^ 64"
proof (induction i l rule: carry_up.induct)
  case (1 l)
  then show ?case by simp
next
  case (2 j l)
  then have j: "j < length l" by simp
  let ?l = "l[j := l ! j + 1]"
  have up: "beval ?l + unat (l ! j) * 256 ^ (7 - j) = beval l + unat (l ! j + 1) * 256 ^ (7 - j)"
    using beval_update [OF j, of "l ! j + 1"] 2 by simp
  show ?case
  proof (cases "l ! j = 0xFF")
    case True
    have "beval (carry_up (Suc j) l) mod 2 ^ 64 = (beval ?l + 256 ^ (8 - j)) mod 2 ^ 64"
      using "2.IH" [OF refl True] "2.prems" True by (simp add: Let_def)
    also have "256 ^ (8 - j) = 256 * (256 :: nat) ^ (7 - j)" using "2.prems" by (simp add: Suc_diff_le flip: power_Suc)
    also have "beval ?l + \<dots> = beval l + 256 ^ (7 - j)" using up True by simp
    finally show ?thesis by simp
  next
    case False
    have "unat (l ! j) \<noteq> unat (0xFF :: byte)" using False by (simp add: word_unat_eq_iff del: unat_numeral)
    then have "unat (l ! j) < 255" using unat_byte [of "l ! j"] by simp
    then have "unat (l ! j + 1) = unat (l ! j) + 1" by (simp add: unat_word_ariths)
    with up False show ?thesis by (simp add: Let_def)
  qed
qed

lemma length_add_bits [simp]: "length (add_bits len l i) = length l"
  by (simp add: add_bits_def Let_def)

lemma length_bits_small: "unat (length_bits len i) < 256"
proof -
  have "length_bits len i \<le> 0xFF" by (simp add: length_bits_def word_and_le1)
  then have "unat (length_bits len i) \<le> unat (0xFF :: u32)" by (simp only: word_le_nat_alt)
  then show ?thesis by simp
qed

lemma mod_cancel:
  assumes "(a + c) mod m = (b + c) mod (m :: nat)"
  shows "a mod m = b mod m"
proof -
  have "int (a + c) mod int m = int (b + c) mod int m" using assms by (simp only: flip: zmod_int)
  then have "(int (a + c) - int c) mod int m = (int (b + c) - int c) mod int m" by (rule mod_diff_cong) simp
  then have "int (a mod m) = int (b mod m)" by (simp add: zmod_int)
  then show ?thesis by simp
qed

lemma beval_add_bits:
  assumes l: "length l = 8" and i: "i < 8"
  shows "beval (add_bits len l i) mod 2 ^ 64 = (beval l + unat (length_bits len i) * 256 ^ (7 - i)) mod 2 ^ 64"
proof -
  let ?b = "unat (length_bits len i)" and ?p = "(256 :: nat) ^ (7 - i)"
  have small: "?b < 256" by (rule length_bits_small)
  have x: "unat (x + ucast (length_bits len i) :: byte) = (unat x + ?b) mod 256" for x :: byte
    using small by (simp add: unat_word_ariths unsigned_ucast_eq take_bit_eq_mod)
  show ?thesis
  proof (cases "unat (l ! i) + ?b > 0xFF")
    case False
    then have "add_bits len l i = l[i := l ! i + ucast (length_bits len i)]" by (simp add: add_bits_def)
    with beval_update [of i l "l ! i + ucast (length_bits len i)"] False l i
    show ?thesis by (simp add: x algebra_simps)
  next
    case True
    let ?c = "carry_up i l"
    have ci: "?c ! i = l ! i" by (simp add: carry_up_above)
    have e: "add_bits len l i = ?c[i := l ! i + ucast (length_bits len i)]"
      using True by (simp add: add_bits_def ci)
    have m: "(unat (l ! i) + ?b) mod 256 + 256 = unat (l ! i) + ?b"
      using True small unat_byte [of "l ! i"] by (auto simp: mod_if)
    have p: "256 ^ (8 - i) = 256 * ?p" using i by (simp add: Suc_diff_le flip: power_Suc)
    have "beval (add_bits len l i) + unat (l ! i) * ?p = beval ?c + (unat (l ! i) + ?b) mod 256 * ?p"
      using beval_update [of i ?c "l ! i + ucast (length_bits len i)"] l i by (simp add: e x ci)
    then have "beval (add_bits len l i) + 256 * ?p + unat (l ! i) * ?p = beval ?c + ((unat (l ! i) + ?b) mod 256 + 256) * ?p"
      by (simp add: algebra_simps)
    then have "beval (add_bits len l i) + 256 * ?p = beval ?c + ?b * ?p" unfolding m by (simp add: algebra_simps)
    moreover have "(beval ?c + ?b * ?p) mod 2 ^ 64 = (beval l + 256 ^ (8 - i) + ?b * ?p) mod 2 ^ 64"
      using beval_carry_up [of l i] l i by (intro mod_add_cong) simp_all
    ultimately have "(beval (add_bits len l i) + 256 * ?p) mod 2 ^ 64 = (beval l + ?b * ?p + 256 * ?p) mod 2 ^ 64"
      unfolding p by (simp add: add_ac)
    then show ?thesis by (rule mod_cancel)
  qed
qed

lemma beval_add_bits_list:
  "length l = 8 \<Longrightarrow> list_all (\<lambda>i. i < 8) is \<Longrightarrow>
   beval (foldl (add_bits len) l is) mod 2 ^ 64 =
     (beval l + sum_list (map (\<lambda>i. unat (length_bits len i) * 256 ^ (7 - i)) is)) mod 2 ^ 64"
proof (induction "is" arbitrary: l)
  case (Cons i ids)
  let ?s = "sum_list (map (\<lambda>i. unat (length_bits len i) * 256 ^ (7 - i)) ids)"
  have "beval (foldl (add_bits len) (add_bits len l i) ids) mod 2 ^ 64 = (beval (add_bits len l i) + ?s) mod 2 ^ 64"
    using Cons.IH [of "add_bits len l i"] Cons.prems by simp
  also have "\<dots> = (beval l + unat (length_bits len i) * 256 ^ (7 - i) + ?s) mod 2 ^ 64"
    using beval_add_bits [of l i len] Cons.prems by (intro mod_add_cong) simp_all
  finally show ?case by (simp add: add.assoc)
qed simp

lemma unat_length_bits:
  assumes "n < 2 ^ 32"
  shows "unat (length_bits (of_nat n) i) =
     (if i = 7 then 8 * n mod 256 else if i = 0 \<or> i = 1 \<or> i = 2 then 0 else n div 2 ^ (53 - 8 * i) mod 256)"
proof -
  have m: "(0xFF :: u32) = mask 8" by (simp add: mask_eq_exp_minus_1)
  have n: "unat (of_nat n :: u32) = n" using assms by (simp add: unat_of_nat)
  have t: "unat (w AND 0xFF) = unat w mod 256" for w :: u32
    unfolding m by (simp only: flip: take_bit_eq_mask) (simp add: take_bit_eq_mod unat_mod_distrib)
  have "unat (push_bit 3 (of_nat n :: u32)) mod 256 = 8 * n mod 256"
    by (simp add: push_bit_eq_mult unat_word_ariths n mod_mod_cancel mult.commute del: unsigned_of_nat)
  moreover have "unat (drop_bit k (of_nat n :: u32)) = n div 2 ^ k" for k
    unfolding unsigned_drop_bit_eq n using assms by (simp add: drop_bit_eq_div take_bit_eq_mod)
  ultimately show ?thesis by (simp add: length_bits_def t)
qed

lemma five_digits_sum:
  "x0 + 256 * a = m \<Longrightarrow> x1 + 256 * b = a \<Longrightarrow> x2 + 256 * c = b \<Longrightarrow> x3 + 256 * d = c \<Longrightarrow>
   x0 + x1 * 256 + x2 * 2 ^ 16 + x3 * 2 ^ 24 + d * 2 ^ 32 = (m :: nat)"
  by simp

lemma five_digits:
  assumes "m < 2 ^ 40"
  shows "m mod 256 + m div 256 mod 256 * 256 + m div 2 ^ 16 mod 256 * 2 ^ 16 + m div 2 ^ 24 mod 256 * 2 ^ 24 +
     m div 2 ^ 32 mod 256 * 2 ^ 32 = (m :: nat)"
proof -
  have e: "m div 2 ^ 16 = m div 256 div 256" "m div 2 ^ 24 = m div 256 div 256 div 256"
    "m div 2 ^ 32 = m div 256 div 256 div 256 div 256" by (simp_all flip: div_mult2_eq)
  define a b c d where "a = m div 256" and "b = a div 256" and "c = b div 256" and "d = c div 256"
  note abcd = this
  have "d < 256" using assms unfolding abcd by (simp flip: div_mult2_eq)
  then have "d mod 256 = d" by simp
  moreover have "m mod 256 + 256 * a = m" "a mod 256 + 256 * b = a" "b mod 256 + 256 * c = b" "c mod 256 + 256 * d = c"
    by (simp_all add: abcd)
  ultimately show ?thesis
    unfolding e abcd(1) [symmetric] abcd(2) [symmetric] abcd(3) [symmetric] abcd(4) [symmetric]
    by (simp only: five_digits_sum)
qed

lemma count_length_be64:
  assumes n: "n < 2 ^ 32"
  shows "count_length (be64 v) (of_nat n) = be64 (v + 8 * n)"
proof -
  let ?l = "count_length (be64 v) (of_nat n)"
  have d: "n div 2 ^ (k - 3) = 8 * n div 2 ^ k" if "3 \<le> k" for k
  proof -
    from le_Suc_ex [OF that] obtain j where "k = 3 + j" ..
    then show ?thesis using div_mult_mult1 [of 8 n "2 ^ j"] by (simp add: power_add)
  qed
  have "sum_list (map (\<lambda>i. unat (length_bits (of_nat n) i) * 256 ^ (7 - i)) [7, 6, 5, 4, 3, 2, 1, 0]) = 8 * n"
    using five_digits [of "8 * n"] n d [of 8] d [of 16] d [of 24] d [of 32] by (simp add: unat_length_bits)
  then have "beval ?l mod 2 ^ 64 = (beval (be64 v) + 8 * n) mod 2 ^ 64"
    using beval_add_bits_list [of "be64 v" "[7, 6, 5, 4, 3, 2, 1, 0]" "of_nat n"] by (simp add: count_length_def)
  then have "beval ?l mod 2 ^ 64 = (v + 8 * n) mod 2 ^ 64" by (simp add: beval_be64 mod_add_left_eq)
  then have "be64 (beval ?l) = be64 (v + 8 * n)" by (rule be64_cong)
  moreover have "length ?l = 8" by (simp add: count_length_def)
  ultimately show ?thesis by (simp add: be64_beval)
qed

lemma position_be64: "unat (be64 (8 * n) ! 6) mod 2 * 32 + unat (be64 (8 * n) ! 7) div 8 = n mod 64"
proof -
  have a: "unat (be64 (8 * n) ! 6) mod 2 = n div 32 mod 2"
    by (simp add: be64_def unat_digit mod_mod_cancel del: unsigned_of_nat)
  have b: "unat (be64 (8 * n) ! 7) div 8 = n mod 32"
    using mult_mod_right [of 8 n 32] by (simp add: be64_def unat_digit del: unsigned_of_nat)
  have "n mod (32 * 2) = 32 * (n div 32 mod 2) + n mod 32" by (rule mod_mult2_eq)
  then show ?thesis unfolding a b by simp
qed

section \<open>The streaming interface\<close>

text \<open>The hash state after the bytes \<open>bs\<close>.\<close>

definition sha_rep :: "byte list \<Rightarrow> sha256 \<Rightarrow> bool" where
  "sha_rep bs sha \<longleftrightarrow> sha_length sha = be64 (8 * length bs) \<and> holds sha (foldl feed (initial_state, []) bs)"

lemma sha_rep_position:
  "sha_rep bs sha \<Longrightarrow> unat (sha_length sha ! 6) mod 2 * 32 + unat (sha_length sha ! 7) div 8 = length bs mod 64"
  by (simp add: sha_rep_def position_be64)

lemma initialize_rep: "sha_rep [] (sha256_initialize sha)"
  by (simp add: sha_rep_def sha256_initialize_def holds_def packw_Nil be64_def list_eq_iff_nth_eq)

lemma update_rep:
  assumes "sha_rep bs sha" and "length ms < 2 ^ 32"
  shows "sha_rep (bs @ ms) (sha256_update sha ms)"
proof -
  let ?s = "foldl feed (initial_state, []) bs"
  let ?sha = "sha\<lparr>sha_length := be64 (8 * length (bs @ ms))\<rparr>"
  have len: "count_length (sha_length sha) (of_nat (length ms)) = be64 (8 * length (bs @ ms))"
    using assms count_length_be64 [of "length ms" "8 * length bs"] by (simp add: sha_rep_def)
  have "length (snd ?s) = length bs mod 64" using feed_open [of "(initial_state, [])" bs] by simp
  then have "unat (sha_length ?sha ! 6) mod 2 * 32 + unat (sha_length ?sha ! 7) div 8 = (length (snd ?s) + length ms) mod 64"
    using position_be64 [of "length (bs @ ms)"] by (simp add: mod_add_left_eq)
  moreover have "holds ?sha ?s" using assms(1) by (simp add: sha_rep_def holds_def)
  ultimately show ?thesis
    using absorb_feed [of ?sha ?s ms] by (simp add: sha_rep_def sha256_update_def len)
qed

lemma terminator_pad:
  assumes "length l = 8" and "9 \<le> n" and "n \<le> 72"
  shows "terminator l n = 0x80 # replicate (n - 9) 0 @ l"
proof -
  have put: "foldl (\<lambda>x i. x[j + i := l ! i]) x [0..<m] = take j x @ take m l @ drop (j + m) x"
    if "j + m \<le> length x" "m \<le> length l" for j m and x :: "byte list"
    using that
  proof (induction m)
    case (Suc m)
    then have "drop (j + m) x = x ! (j + m) # drop (j + Suc m) x" by (simp add: Cons_nth_drop_Suc)
    with Suc show ?case by (simp add: take_Suc_conv_app_nth list_update_append)
  qed simp
  have "terminator l n = take n (foldl (\<lambda>x i. x[n - 8 + i := l ! i]) (0x80 # replicate 71 0) [0..<8])"
    by (simp add: terminator_def)
  also have "\<dots> = take n (take (n - 8) (0x80 # replicate 71 0) @ l @ drop n (0x80 # replicate 71 0))"
    using put [of "n - 8" 8 "0x80 # replicate 71 0"] assms by simp
  also have "take (n - 8) (0x80 # replicate 71 0) = 0x80 # replicate (n - 9) (0 :: byte)"
    using assms by (cases "n - 8") auto
  also have "take n ((0x80 # replicate (n - 9) 0) @ l @ drop n (0x80 # replicate 71 0)) = (0x80 # replicate (n - 9) 0) @ l"
  proof -
    have "length ((0x80 # replicate (n - 9) (0 :: byte)) @ l) = n" using assms by simp
    then show ?thesis unfolding append_assoc [symmetric] by (simp only: take_append) simp
  qed
  finally show ?thesis by simp
qed

lemma zeros_length:
  assumes "r < (64 :: nat)"
  shows "(119 - r) mod 64 = (if r \<le> 55 then 55 - r else 119 - r)"
proof (cases "r \<le> 55")
  case True
  then have "119 - r = 64 + (55 - r)" by arith
  then have "(119 - r) mod 64 = (55 - r) mod 64" by (simp only: mod_add_self1)
  with True show ?thesis by simp
next
  case False
  with assms show ?thesis by simp
qed

lemma terminator_length:
  assumes r: "r < (64 :: nat)" and n: "n = 64 - r" and n': "n' = (if n < 9 then n + 64 else n)"
  shows "9 \<le> n' \<and> n' \<le> 72 \<and> n' - 9 = (119 - r) mod 64"
proof (cases "r \<le> 55")
  case True
  with n n' have "n' = 64 - r" by simp
  with True zeros_length [OF r] show ?thesis by auto
next
  case False
  with n n' r have "n' = 128 - r" by simp
  with False r zeros_length [OF r] show ?thesis by auto
qed

lemma length_pad: "length (sha_pad m) mod 64 = 0"
proof -
  define r where "r = length m mod 64"
  have "(length m + Suc ((119 - r) mod 64 + 8)) mod 64 = (r + Suc ((119 - r) mod 64 + 8)) mod 64"
    unfolding r_def by (simp only: mod_add_left_eq)
  also have "r < 64" by (simp add: r_def)
  then have "(r + Suc ((119 - r) mod 64 + 8)) mod 64 = 0" by (cases "r \<le> 55") (simp_all add: zeros_length)
  finally show ?thesis by (simp add: sha_pad_def r_def)
qed

lemma digest_bytes:
  assumes "length st = 8"
  shows "map (\<lambda>i. ucast (drop_bit (24 - 8 * (i mod 4)) (st ! (i div 4)) AND 0xFF)) [0..<32] =
     concat (map UINT32_TO_ARRAY st)"
proof -
  obtain a b c d where l: "st = a # b # c # d # drop 4 st" "length (drop 4 st) = 4"
    using assms by (auto simp: numeral_eq_Suc length_Suc_conv)
  then obtain e f g h where st: "st = [a, b, c, d, e, f, g, h]" using list4 [OF l(2)] by metis
  have u: "[0..<32] = [0, 1, 2, 3, 4, 5, 6, 7, 8, 9, 10, 11, 12, 13, 14, 15, 16, 17, 18, 19, 20, 21, 22, 23, 24, 25,
      26, 27, 28, 29, 30, 31 :: nat]" by (simp add: upt_rec)
  show ?thesis unfolding st u by (simp add: UINT32_TO_ARRAY_def)
qed

lemma length_fips_block: "length (fips_block st p) = 8"
  unfolding fips_block_def
  by (cases "(st, foldl (fips_round (block_words p)) (load_vars st) [0..<64])" rule: add_vars.cases)
    (simp del: load_vars.simps)

lemma length_chain: "length st = 8 \<Longrightarrow> length (foldl fips_block st bs) = 8"
  by (induction bs arbitrary: st) (simp_all add: length_fips_block)

lemma length_initial_state: "length initial_state = 8"
  by (simp add: initial_state_def)

lemma finalize_hash:
  assumes rep: "sha_rep bs sha" and l: "length m < 2 ^ 32"
  shows "sha_hash (sha256_finalize sha m) = SHA256 (bs @ m)"
proof -
  define s1 where "s1 = (if length m > 0 then sha256_update sha m else sha)"
  define n where "n = 64 - unat (sha_length s1 ! 6) mod 2 * 32 - unat (sha_length s1 ! 7) div 8"
  define n' where "n' = (if n < 9 then n + 64 else n)"
  define s2 where "s2 = sha256_update s1 (terminator (sha_length s1) n')"
  let ?r = "length (bs @ m) mod 64"
  have r1: "sha_rep (bs @ m) s1" using update_rep [OF rep l] rep by (auto simp: s1_def)
  have n: "n = 64 - ?r" using sha_rep_position [OF r1] by (simp add: n_def)
  have r64: "?r < 64" by simp
  have n': "9 \<le> n'" "n' \<le> 72" "n' - 9 = (119 - ?r) mod 64"
    using terminator_length [OF r64 n n'_def] by blast+
  have l1: "sha_length s1 = be64 (8 * length (bs @ m))" using r1 by (simp add: sha_rep_def)
  have t: "terminator (sha_length s1) n' = 0x80 # replicate ((119 - ?r) mod 64) 0 @ be64 (8 * length (bs @ m))"
    using terminator_pad [of "sha_length s1" n'] n' by (simp add: l1)
  have p: "(bs @ m) @ terminator (sha_length s1) n' = sha_pad (bs @ m)" unfolding t by (simp add: sha_pad_def)
  have "length (terminator (sha_length s1) n') < 2 ^ 32" using n' by (simp add: terminator_def)
  from update_rep [OF r1 this] have "sha_rep (sha_pad (bs @ m)) s2" unfolding p s2_def .
  then have st: "sha_state s2 = foldl fips_block initial_state (chunks (sha_pad (bs @ m)))"
    by (simp add: sha_rep_def holds_def feed_chunks [OF length_pad])
  have "sha_hash (sha256_finalize sha m) =
      map (\<lambda>i. ucast (drop_bit (24 - 8 * (i mod 4)) (sha_state s2 ! (i div 4)) AND 0xFF)) [0..<32]"
    unfolding sha256_finalize_def Let_def s1_def [symmetric] n_def [symmetric] n'_def [symmetric] s2_def [symmetric] by simp
  also have "\<dots> = concat (map UINT32_TO_ARRAY (sha_state s2))"
    by (rule digest_bytes) (simp add: st length_chain length_initial_state)
  finally show ?thesis by (simp add: SHA256_def st)
qed

lemma sha256_get_fips: "length m < 2 ^ 32 \<Longrightarrow> sha256_get sha m = SHA256 m"
  using finalize_hash [OF initialize_rep, of m sha] by (simp add: sha256_get_def)

lemma length_SHA256 [simp]: "length (SHA256 m) = 32"
proof -
  have l: "length (concat (map UINT32_TO_ARRAY xs)) = 4 * length xs" for xs by (induction xs) simp_all
  show ?thesis unfolding SHA256_def l using length_chain [OF length_initial_state] by simp
qed

section \<open>HMAC\<close>

lemma length_hmac_key: "length (hmac_key key) = 64"
  by (simp add: hmac_key_def Let_def)

lemma hmac_initialize_key:
  assumes "length key < 2 ^ 32"
  shows "hm_key (hmac_sha256_initialize hmac key) = map (\<lambda>x. x XOR 0x36) (hmac_key key) \<and>
     sha_rep (map (\<lambda>x. x XOR 0x36) (hmac_key key)) (hm_sha (hmac_sha256_initialize hmac key))"
proof -
  let ?k = "map (\<lambda>x. x XOR 0x36) (hmac_key key)"
  have k: "hm_key (hmac_sha256_initialize hmac key) = ?k"
    using finalize_hash [OF initialize_rep assms, of "hm_sha hmac"]
    by (auto simp: hmac_sha256_initialize_def Let_def hmac_key_def)
  have "length ?k < 2 ^ 32" by (simp add: length_hmac_key)
  from update_rep [OF initialize_rep this] k show ?thesis by (auto simp: hmac_sha256_initialize_def Let_def)
qed

lemma hmac_update_rep:
  "sha_rep bs (hm_sha hmac) \<Longrightarrow> length ms < 2 ^ 32 \<Longrightarrow> sha_rep (bs @ ms) (hm_sha (hmac_sha256_update hmac ms))"
  by (simp add: hmac_sha256_update_def update_rep)

lemma hmac_finalize_digest:
  assumes k: "hm_key hmac = map (\<lambda>x. x XOR 0x36) (hmac_key key)"
    and r: "sha_rep (map (\<lambda>x. x XOR 0x36) (hmac_key key) @ ms) (hm_sha hmac)" and l: "length m < 2 ^ 32"
  shows "hm_digest (hmac_sha256_finalize hmac m) = HMAC key (ms @ m)"
proof -
  let ?i = "map (\<lambda>x. x XOR 0x36) (hmac_key key)" and ?o = "map (\<lambda>x. x XOR 0x5c) (hmac_key key)"
  have h: "sha_hash (sha256_finalize (hm_sha hmac) m) = SHA256 (?i @ ms @ m)" using finalize_hash [OF r l] by simp
  have o: "map (\<lambda>x. x XOR (0x36 XOR 0x5c)) (hm_key hmac) = ?o"
    by (simp add: k xor.assoc)
  have "length ?o < 2 ^ 32" by (simp add: length_hmac_key)
  from update_rep [OF initialize_rep this] have "sha_rep ?o (sha256_update (sha256_initialize sha) ?o)" for sha by simp
  from finalize_hash [OF this, of "SHA256 (?i @ ms @ m)"]
  show ?thesis unfolding hmac_sha256_finalize_def Let_def h o HMAC_def by simp
qed

lemma sha_256_HMAC:
  assumes "length m < 2 ^ 32" and "length key < 2 ^ 32"
  shows "sha_256 hmac m key = HMAC key m"
  using hmac_finalize_digest [of "hmac_sha256_initialize hmac key" key "[]" m] hmac_initialize_key [OF assms(2)] assms(1)
  by (simp add: sha_256_def)

end
