(* ===== verification/Ran_Crypto.thy ===== *)
theory Ran_Crypto
  imports Aes Sha256_Correct
begin

text \<open>
  The authentication functions and key derivations of ran-emulator/source/crypto.c, against Milenage
  (TS 35.206), the key derivation function of TS 33.220 and the integrity algorithm EIA2 of TS 33.401.
  The AES part of that file is the text of corekube-db/source/crypto.c, modelled in Aes.  Arrays that a
  function declares without initialiser are arguments.  \<open>CMAC_Final\<close> is OpenSSL's, the argument \<open>cmac\<close>.
\<close>

section \<open>Writing an array from the front\<close>

text \<open>The array \<open>a\<close> after its first bytes have been set to \<open>p\<close>.\<close>

definition front :: "buf \<Rightarrow> byte list \<Rightarrow> buf" where
  "front a p = p @ drop (length p) a"

lemma front_simps:
  "0 < length a \<Longrightarrow> wr a 0 v = Some (front a [v])"
  "n \<le> length src \<Longrightarrow> n \<le> length a \<Longrightarrow> memcpy a 0 src n = Some (front a (take n src))"
  "i = length p \<Longrightarrow> i < length a \<Longrightarrow> wr (front a p) i v = Some (front a (p @ [v]))"
  "i = length p \<Longrightarrow> n \<le> length src \<Longrightarrow> i + n \<le> length a \<Longrightarrow>
     memcpy (front a p) i src n = Some (front a (p @ take n src))"
  "n = length p \<Longrightarrow> n \<le> length a \<Longrightarrow> rdn (front a p) 0 n = Some p"
  "length p = length a \<Longrightarrow> front a p = p"
  "n = length p \<Longrightarrow> rdn p 0 n = Some p"
proof -
  show "0 < length a \<Longrightarrow> wr a 0 v = Some (front a [v])" by (cases a) (auto simp: wr_def front_def)
  show "n \<le> length src \<Longrightarrow> n \<le> length a \<Longrightarrow> memcpy a 0 src n = Some (front a (take n src))"
    by (simp add: memcpy_ok front_def)
  show "i = length p \<Longrightarrow> i < length a \<Longrightarrow> wr (front a p) i v = Some (front a (p @ [v]))"
    by (simp add: wr_def front_def list_update_append Cons_nth_drop_Suc [symmetric])
  show "i = length p \<Longrightarrow> n \<le> length src \<Longrightarrow> i + n \<le> length a \<Longrightarrow>
     memcpy (front a p) i src n = Some (front a (p @ take n src))"
    by (simp add: memcpy_ok front_def add.commute)
  show "n = length p \<Longrightarrow> n \<le> length a \<Longrightarrow> rdn (front a p) 0 n = Some p" by (simp add: rdn_def front_def)
  show "length p = length a \<Longrightarrow> front a p = p" by (simp add: front_def)
  show "n = length p \<Longrightarrow> rdn p 0 n = Some p" by (simp add: rdn_def)
qed

section \<open>Milenage\<close>

definition xor_bytes :: "byte list \<Rightarrow> byte list \<Rightarrow> byte list" where
  "xor_bytes = map2 (XOR)"

text \<open>\<open>for (i = 0; i < 16; i++) rijndaelInput[(i + n) % 16] = temp[i] ^ op_c[i];\<close>\<close>

definition rotate_into :: "byte list \<Rightarrow> nat \<Rightarrow> byte list \<Rightarrow> byte list" where
  "rotate_into input n xs = foldl (\<lambda>x i. x[(i + n) mod 16 := xs ! i]) input [0..<16]"

definition f2345 :: "buf \<Rightarrow> buf \<Rightarrow> buf \<Rightarrow> (byte list \<times> byte list \<times> byte list \<times> byte list) option" where
  "f2345 k rand op_c = do {
     Ekey \<leftarrow> RijndaelKeySchedule k;
     rand \<leftarrow> rdn rand 0 16;
     op_c \<leftarrow> rdn op_c 0 16;
     temp \<leftarrow> RijndaelEncrypt Ekey (xor_bytes rand op_c);
     let input = xor_bytes temp op_c;
     let input = input[15 := input ! 15 XOR 1];
     out \<leftarrow> RijndaelEncrypt Ekey input;
     let out = xor_bytes out op_c;
     let res = take 8 (drop 8 out);
     let ak = take 6 out;
     let input = rotate_into input 12 (xor_bytes temp op_c);
     let input = input[15 := input ! 15 XOR 2];
     out \<leftarrow> RijndaelEncrypt Ekey input;
     let ck = xor_bytes out op_c;
     let input = rotate_into input 8 (xor_bytes temp op_c);
     let input = input[15 := input ! 15 XOR 4];
     out \<leftarrow> RijndaelEncrypt Ekey input;
     let ik = xor_bytes out op_c;
     Some (res, ck, ik, ak) }"

text \<open>
  TS 35.206, 4.1: \<open>OUTi = E(rot(TEMP xor OPc, ri) xor ci) xor OPc\<close>, where \<open>rot\<close> rotates to the left and the
  constant \<open>ci\<close> is zero but for its last byte; f2 is the second half of OUT2, f5 its first six bytes,
  f3 is OUT3 and f4 is OUT4.
\<close>

definition milenage_out :: "byte list \<Rightarrow> byte list \<Rightarrow> byte list \<Rightarrow> nat \<Rightarrow> byte \<Rightarrow> byte list" where
  "milenage_out k rand opc r c =
     (let temp = aes128 k (xor_bytes rand opc)
      in xor_bytes (aes128 k (xor_bytes (rotate (r div 8) (xor_bytes temp opc)) (replicate 15 0 @ [c]))) opc)"

definition milenage_f2 :: "byte list \<Rightarrow> byte list \<Rightarrow> byte list \<Rightarrow> byte list" where
  "milenage_f2 k rand opc = drop 8 (milenage_out k rand opc 0 1)"
definition milenage_f3 :: "byte list \<Rightarrow> byte list \<Rightarrow> byte list \<Rightarrow> byte list" where
  "milenage_f3 k rand opc = milenage_out k rand opc 32 2"
definition milenage_f4 :: "byte list \<Rightarrow> byte list \<Rightarrow> byte list \<Rightarrow> byte list" where
  "milenage_f4 k rand opc = milenage_out k rand opc 64 4"
definition milenage_f5 :: "byte list \<Rightarrow> byte list \<Rightarrow> byte list \<Rightarrow> byte list" where
  "milenage_f5 k rand opc = take 6 (milenage_out k rand opc 0 1)"

section \<open>Key derivation\<close>

text \<open>The serving network name, \<open>5G:mnc0XX.mccXXX.3gppnetwork.org\<close>.\<close>

definition make_snn :: "buf \<Rightarrow> buf \<Rightarrow> byte list option" where
  "make_snn mcc mnc = do {
     let snn = str ''5G:mnc0XX.mccXXX.3gppnetwork.org'';
     mnc0 \<leftarrow> rd mnc 0; mnc1 \<leftarrow> rd mnc 1;
     mcc0 \<leftarrow> rd mcc 0; mcc1 \<leftarrow> rd mcc 1; mcc2 \<leftarrow> rd mcc 2;
     Some (snn[7 := mnc0, 8 := mnc1, 13 := mcc0, 14 := mcc1, 15 := mcc2]) }"

definition generate_res_5g ::
  "hmac_sha256 \<Rightarrow> buf \<Rightarrow> buf \<Rightarrow> buf \<Rightarrow> buf \<Rightarrow> buf \<Rightarrow> buf \<Rightarrow> buf \<Rightarrow> buf \<Rightarrow> byte list option" where
  "generate_res_5g hmac input key ck ik rand res mcc mnc = do {
     snn \<leftarrow> make_snn mcc mnc;
     input \<leftarrow> wr input 0 0x6B;
     input \<leftarrow> memcpy input 1 snn 32;
     input \<leftarrow> wr input 33 0x00;
     input \<leftarrow> wr input 34 0x20;
     input \<leftarrow> memcpy input 35 rand 16;
     input \<leftarrow> wr input 51 0x00;
     input \<leftarrow> wr input 52 0x10;
     input \<leftarrow> memcpy input 53 res 8;
     input \<leftarrow> wr input 61 0x00;
     input \<leftarrow> wr input 62 0x08;
     key \<leftarrow> memcpy key 0 ck 16;
     key \<leftarrow> memcpy key 16 ik 16;
     rdn (sha_256 hmac input key) 16 16 }"

definition generate_kausf ::
  "hmac_sha256 \<Rightarrow> buf \<Rightarrow> buf \<Rightarrow> buf \<Rightarrow> buf \<Rightarrow> buf \<Rightarrow> buf \<Rightarrow> buf \<Rightarrow> byte list option" where
  "generate_kausf hmac input key ck ik autn mcc mnc = do {
     snn \<leftarrow> make_snn mcc mnc;
     key \<leftarrow> memcpy key 0 ck 16;
     key \<leftarrow> memcpy key 16 ik 16;
     input \<leftarrow> wr input 0 0x6A;
     input \<leftarrow> memcpy input 1 snn 32;
     input \<leftarrow> wr input 33 0x00;
     input \<leftarrow> wr input 34 0x20;
     input \<leftarrow> memcpy input 35 autn 6;
     input \<leftarrow> wr input 41 0x00;
     input \<leftarrow> wr input 42 0x06;
     m \<leftarrow> rdn input 0 43;
     Some (sha_256 hmac m key) }"

definition generate_kseaf :: "hmac_sha256 \<Rightarrow> buf \<Rightarrow> buf \<Rightarrow> buf \<Rightarrow> buf \<Rightarrow> byte list option" where
  "generate_kseaf hmac input kausf mcc mnc = do {
     snn \<leftarrow> make_snn mcc mnc;
     input \<leftarrow> wr input 0 0x6C;
     input \<leftarrow> memcpy input 1 snn 32;
     input \<leftarrow> wr input 33 0x00;
     input \<leftarrow> wr input 34 0x20;
     m \<leftarrow> rdn input 0 35;
     key \<leftarrow> rdn kausf 0 32;
     Some (sha_256 hmac m key) }"

definition generate_kamf :: "hmac_sha256 \<Rightarrow> buf \<Rightarrow> buf \<Rightarrow> buf \<Rightarrow> byte list option" where
  "generate_kamf hmac input supi kseaf = do {
     input \<leftarrow> wr input 0 0x6D;
     input \<leftarrow> memcpy input 1 supi 15;
     input \<leftarrow> wr input 16 0x00;
     input \<leftarrow> wr input 17 0x0F;
     input \<leftarrow> wr input 18 0x00;
     input \<leftarrow> wr input 19 0x00;
     input \<leftarrow> wr input 20 0x00;
     input \<leftarrow> wr input 21 0x02;
     m \<leftarrow> rdn input 0 22;
     key \<leftarrow> rdn kseaf 0 32;
     Some (sha_256 hmac m key) }"

definition NAS_ENC_ALG :: byte where "NAS_ENC_ALG = 0x01"
definition NAS_INT_ALG :: byte where "NAS_INT_ALG = 0x02"

definition generate_5g_nas_enc_key :: "hmac_sha256 \<Rightarrow> buf \<Rightarrow> buf \<Rightarrow> byte \<Rightarrow> byte list option" where
  "generate_5g_nas_enc_key hmac input kamf alg_identity = do {
     input \<leftarrow> wr input 0 0x69;
     input \<leftarrow> wr input 1 NAS_ENC_ALG;
     input \<leftarrow> wr input 2 0x00;
     input \<leftarrow> wr input 3 0x01;
     input \<leftarrow> wr input 4 alg_identity;
     input \<leftarrow> wr input 5 0x00;
     input \<leftarrow> wr input 6 0x01;
     m \<leftarrow> rdn input 0 7;
     key \<leftarrow> rdn kamf 0 32;
     rdn (sha_256 hmac m key) 16 16 }"

definition generate_5g_nas_int_key :: "hmac_sha256 \<Rightarrow> buf \<Rightarrow> buf \<Rightarrow> byte \<Rightarrow> byte list option" where
  "generate_5g_nas_int_key hmac input kamf alg_identity = do {
     input \<leftarrow> wr input 0 0x69;
     input \<leftarrow> wr input 1 NAS_INT_ALG;
     input \<leftarrow> wr input 2 0x00;
     input \<leftarrow> wr input 3 0x01;
     input \<leftarrow> wr input 4 alg_identity;
     input \<leftarrow> wr input 5 0x00;
     input \<leftarrow> wr input 6 0x01;
     m \<leftarrow> rdn input 0 7;
     key \<leftarrow> rdn kamf 0 32;
     rdn (sha_256 hmac m key) 16 16 }"

text \<open>The 4G keys; no pointer is NULL.\<close>

definition generate_kasme :: "hmac_sha256 \<Rightarrow> buf \<Rightarrow> buf \<Rightarrow> buf \<Rightarrow> buf \<Rightarrow> buf \<Rightarrow> buf \<Rightarrow> byte \<Rightarrow> byte list option" where
  "generate_kasme hmac s key ck ik sqn plmn plmn_len = do {
     s \<leftarrow> wr s 0 0x10;
     s \<leftarrow> memcpy s 1 plmn (unat plmn_len);
     s \<leftarrow> wr s 4 0x00;
     s \<leftarrow> wr s 5 0x03;
     s \<leftarrow> memcpy s 6 sqn 6;
     s \<leftarrow> wr s 12 0x00;
     s \<leftarrow> wr s 13 0x06;
     key \<leftarrow> memcpy key 0 ck 16;
     key \<leftarrow> memcpy key 16 ik 16;
     m \<leftarrow> rdn s 0 14;
     Some (sha_256 hmac m key) }"

definition generate_nas_enc_keys :: "hmac_sha256 \<Rightarrow> buf \<Rightarrow> byte \<Rightarrow> byte list option" where
  "generate_nas_enc_keys hmac k_asme alg_identity = do {
     let s = [0x15, NAS_ENC_ALG, 0x00, 0x01, alg_identity, 0x00, 0x01];
     key \<leftarrow> rdn k_asme 0 32;
     rdn (sha_256 hmac s key) 16 16 }"

definition generate_nas_int_keys :: "hmac_sha256 \<Rightarrow> buf \<Rightarrow> byte \<Rightarrow> byte list option" where
  "generate_nas_int_keys hmac k_asme alg_identity = do {
     let s = [0x15, NAS_INT_ALG, 0x00, 0x01, alg_identity, 0x00, 0x01];
     key \<leftarrow> rdn k_asme 0 32;
     rdn (sha_256 hmac s key) 16 16 }"

text \<open>TS 33.220, B.2: \<open>S = FC || P0 || L0 || P1 || L1 ...\<close> and the key is \<open>HMAC-SHA-256(K, S)\<close>.\<close>

definition kdf_param :: "byte list \<Rightarrow> byte list" where
  "kdf_param p = p @ [of_nat (length p div 256), of_nat (length p)]"

definition KDF :: "byte list \<Rightarrow> byte \<Rightarrow> byte list list \<Rightarrow> byte list" where
  "KDF key fc ps = HMAC key (fc # concat (map kdf_param ps))"

definition network_name :: "byte list \<Rightarrow> byte list \<Rightarrow> byte list" where
  "network_name mcc mnc = str ''5G:mnc0'' @ mnc @ str ''.mcc'' @ mcc @ str ''.3gppnetwork.org''"

section \<open>Integrity\<close>

definition hton_int32 :: "u32 \<Rightarrow> u32" where
  "hton_int32 x = (push_bit 24 (x AND 0x000000FF) OR push_bit 8 (x AND 0x0000FF00)) OR
                  drop_bit 8 (x AND 0x00FF0000) OR drop_bit 24 (x AND 0xFF000000)"

definition nas_integrity_eia2 ::
  "(byte list \<Rightarrow> byte list \<Rightarrow> byte list) \<Rightarrow> buf \<Rightarrow> buf \<Rightarrow> byte \<Rightarrow> u32 \<Rightarrow> byte \<Rightarrow> byte list option" where
  "nas_integrity_eia2 cmac key message message_length count bearer = do {
     let msg = replicate (unat message_length + 8) 0;
     msg \<leftarrow> wrn msg 0 (u32_out (hton_int32 count));
     msg \<leftarrow> wr msg 4 (push_bit 3 bearer);
     msg \<leftarrow> memcpy msg 8 message (unat message_length);
     key \<leftarrow> rdn key 0 16;
     rdn (cmac key msg) 0 4 }"

text \<open>
  TS 33.401, B.2.3: the input is \<open>COUNT || BEARER || DIRECTION || 0^26 || MESSAGE\<close>, with 32, 5 and 1 bits, and
  the code the first 32 bits of the CMAC.
\<close>

definition eia2_input :: "u32 \<Rightarrow> byte \<Rightarrow> bool \<Rightarrow> byte list \<Rightarrow> byte list" where
  "eia2_input count bearer direction message =
     UINT32_TO_ARRAY count @ [8 * bearer + (if direction then 4 else 0), 0, 0, 0] @ message"

definition EIA2 :: "(byte list \<Rightarrow> byte list \<Rightarrow> byte list) \<Rightarrow> byte list \<Rightarrow> u32 \<Rightarrow> byte \<Rightarrow> bool \<Rightarrow> byte list \<Rightarrow> byte list" where
  "EIA2 cmac key count bearer direction message = take 4 (cmac key (eia2_input count bearer direction message))"

section \<open>The code computes the standards\<close>

lemma length_store_block: "length (store_block q) = 16"
  by (cases q) (simp add: u32_out_def)

lemma length_aes_shape:
  "16 \<le> length k \<Longrightarrow> 16 \<le> length b \<Longrightarrow> length (aes128 k b) = 16"
proof -
  assume a: "16 \<le> length k" "16 \<le> length b"
  obtain x where "RijndaelEncrypt x b = Some (aes128 k b)" using rijndael_aes128 [OF a] by blast
  then obtain q where "aes128 k b = store_block q"
    unfolding RijndaelEncrypt_def by (cases "load_block b") (simp_all del: store_block.simps, metis)
  then show ?thesis by (simp add: length_store_block)
qed

lemma length_xor_bytes [simp]: "length (xor_bytes x y) = min (length x) (length y)"
  by (simp add: xor_bytes_def)

lemma rotate_into_rotate:
  assumes "length input = 16" and "length xs = 16" and "n \<le> 16"
  shows "rotate_into input n xs = rotate (16 - n) xs"
proof -
  have put: "length (foldl (\<lambda>x i. x[(i + n) mod 16 := xs ! i]) input [0..<m]) = 16 \<and>
      (\<forall>i < m. foldl (\<lambda>x i. x[(i + n) mod 16 := xs ! i]) input [0..<m] ! ((i + n) mod 16) = xs ! i)"
    if "m \<le> 16" for m
    using that
  proof (induction m)
    case (Suc m)
    have "(i + n) mod 16 \<noteq> (m + n) mod 16" if "i < m" for i
      using that Suc.prems mod_eq_nat1E [of "i + n" 16 "m + n"]
      by (metis (no_types) Suc_le_lessD add_right_cancel mod_cancel mod_less less_trans less_irrefl)
    with Suc show ?case by (auto simp: less_Suc_eq nth_list_update dest!: sym [of "(m + n) mod 16"])
  qed (simp add: assms)
  show ?thesis
  proof (rule nth_equalityI)
    show "length (rotate_into input n xs) = length (rotate (16 - n) xs)"
      using put [of 16] assms by (simp add: rotate_into_def)
    fix j assume "j < length (rotate_into input n xs)"
    then have j: "j < 16" using put [of 16] by (simp add: rotate_into_def)
    define i where "i = (16 - n + j) mod 16"
    have "(i + n) mod 16 = j"
    proof -
      have "(i + n) mod 16 = (16 - n + j + n) mod 16" unfolding i_def by (simp only: mod_add_left_eq)
      also have "16 - n + j + n = 16 + j" using assms(3) by simp
      finally show ?thesis using j by simp
    qed
    moreover have "i < 16" by (simp add: i_def)
    ultimately have "rotate_into input n xs ! j = xs ! i" using put [of 16] by (auto simp: rotate_into_def)
    with j assms(2) show "rotate_into input n xs ! j = rotate (16 - n) xs ! j" by (simp add: nth_rotate i_def)
  qed
qed

lemma xor_last:
  assumes "length x = 16"
  shows "x[15 := x ! 15 XOR c] = xor_bytes x (replicate 15 0 @ [c])"
proof -
  have s: "x = take 15 x @ [x ! 15]" using assms take_Suc_conv_app_nth [of 15 x] by simp
  have z: "map2 (XOR) ys (replicate (length ys) 0) = ys" for ys :: "byte list" by (induction ys) simp_all
  have l: "length (take 15 x) = 15" using assms by simp
  show ?thesis
    by (subst (1 3) s) (use z [of "take 15 x"] l in \<open>simp add: xor_bytes_def list_update_append\<close>)
qed

lemma f2345_milenage:
  assumes "16 \<le> length k" and "length rand = 16" and "length opc = 16"
  shows "f2345 k rand opc =
     Some (milenage_f2 k rand opc, milenage_f3 k rand opc, milenage_f4 k rand opc, milenage_f5 k rand opc)"
proof -
  obtain Ekey where ks: "RijndaelKeySchedule k = Some Ekey"
    using rijndael_aes128 [OF assms(1), of rand] assms by auto
  have enc: "RijndaelEncrypt Ekey b = Some (aes128 k b)" if "length b = 16" for b
    using rijndael_aes128 [OF assms(1), of b] ks that by auto
  let ?t = "xor_bytes (aes128 k (xor_bytes rand opc)) opc"
  have la: "length (aes128 k b) = 16" if "length b = 16" for b using length_aes_shape [OF assms(1), of b] that by simp
  have lt: "length ?t = 16" using assms by (simp add: la)
  have out: "xor_bytes (aes128 k (xor_bytes (rotate n ?t) (replicate 15 0 @ [c]))) opc = milenage_out k rand opc (8 * n) c" for n c
    by (simp add: milenage_out_def)
  have rot: "rotate_into input m ?t = rotate (16 - m) ?t" if "length input = 16" "m \<le> 16" for input m
    using rotate_into_rotate [OF that(1) lt that(2)] .
  have "length (milenage_out k rand opc r c) = 16" for r c
    using assms lt by (simp add: milenage_out_def Let_def la)
  then show ?thesis
    using out [of 0 1] out [of 4 2] out [of 8 4]
    by (simp add: f2345_def ks enc la assms rdn_def Let_def rot xor_last milenage_f2_def milenage_f3_def
        milenage_f4_def milenage_f5_def)
qed

section \<open>Key derivation is the KDF\<close>

lemma make_snn_name:
  assumes "length mcc = 3" and "length mnc = 2"
  shows "make_snn mcc mnc = Some (network_name mcc mnc)" and "length (network_name mcc mnc) = 32"
proof -
  obtain a b c where m: "mcc = [a, b, c]" using assms(1) by (auto simp: numeral_eq_Suc length_Suc_conv)
  obtain d e where n: "mnc = [d, e]" using assms(2) by (auto simp: numeral_eq_Suc length_Suc_conv)
  show "make_snn mcc mnc = Some (network_name mcc mnc)"
    by (simp add: make_snn_def m n rd_def network_name_def str_def)
  show "length (network_name mcc mnc) = 32" by (simp add: network_name_def assms)
qed

lemma kdf_param_lengths:
  "length p = 1 \<Longrightarrow> kdf_param p = p @ [0, 1]" "length p = 2 \<Longrightarrow> kdf_param p = p @ [0, 2]"
  "length p = 3 \<Longrightarrow> kdf_param p = p @ [0, 3]" "length p = 6 \<Longrightarrow> kdf_param p = p @ [0, 6]"
  "length p = 8 \<Longrightarrow> kdf_param p = p @ [0, 8]" "length p = 15 \<Longrightarrow> kdf_param p = p @ [0, 0x0F]"
  "length p = 16 \<Longrightarrow> kdf_param p = p @ [0, 0x10]" "length p = 32 \<Longrightarrow> kdf_param p = p @ [0, 0x20]"
  by (simp_all add: kdf_param_def)

lemmas kdf_simps = front_simps kdf_param_lengths sha_256_HMAC KDF_def

lemma generate_res_5g_KDF:
  assumes "length input = 63" "length key = 32" "length ck = 16" "length ik = 16" "length rand = 16" "length res = 8"
    "length mcc = 3" "length mnc = 2"
  shows "generate_res_5g hmac input key ck ik rand res mcc mnc =
     Some (drop 16 (KDF (ck @ ik) 0x6B [network_name mcc mnc, rand, res]))"
  using assms by (simp add: generate_res_5g_def make_snn_name kdf_simps) (simp add: HMAC_def rdn_def)

lemma generate_kausf_KDF:
  assumes "length input = 64" "length key = 32" "length ck = 16" "length ik = 16" "6 \<le> length autn" "length mcc = 3" "length mnc = 2"
  shows "generate_kausf hmac input key ck ik autn mcc mnc =
     Some (KDF (ck @ ik) 0x6A [network_name mcc mnc, take 6 autn])"
  using assms by (simp add: generate_kausf_def make_snn_name kdf_simps)

lemma generate_kseaf_KDF:
  assumes "length input = 64" "length kausf = 32" "length mcc = 3" "length mnc = 2"
  shows "generate_kseaf hmac input kausf mcc mnc = Some (KDF kausf 0x6C [network_name mcc mnc])"
  using assms by (simp add: generate_kseaf_def make_snn_name kdf_simps)

lemma generate_kamf_KDF:
  assumes "length input = 64" "length supi = 15" "length kseaf = 32"
  shows "generate_kamf hmac input supi kseaf = Some (KDF kseaf 0x6D [supi, [0, 0]])"
  using assms by (simp add: generate_kamf_def kdf_simps)

lemma generate_5g_nas_keys_KDF:
  assumes "length input = 8" "length kamf = 32"
  shows "generate_5g_nas_enc_key hmac input kamf alg = Some (drop 16 (KDF kamf 0x69 [[1], [alg]]))"
    and "generate_5g_nas_int_key hmac input kamf alg = Some (drop 16 (KDF kamf 0x69 [[2], [alg]]))"
  using assms
  by (simp_all add: generate_5g_nas_enc_key_def generate_5g_nas_int_key_def NAS_ENC_ALG_def NAS_INT_ALG_def kdf_simps)
    (simp_all add: rdn_def kdf_simps HMAC_def)

lemma generate_kasme_KDF:
  assumes "length s = 14" "length key = 32" "length ck = 16" "length ik = 16" "6 \<le> length sqn" "length plmn = 3"
  shows "generate_kasme hmac s key ck ik sqn plmn 3 = Some (KDF (ck @ ik) 0x10 [plmn, take 6 sqn])"
  using assms by (simp add: generate_kasme_def kdf_simps)

lemma generate_nas_keys_KDF:
  assumes "length k_asme = 32"
  shows "generate_nas_enc_keys hmac k_asme alg = Some (drop 16 (KDF k_asme 0x15 [[1], [alg]]))"
    and "generate_nas_int_keys hmac k_asme alg = Some (drop 16 (KDF k_asme 0x15 [[2], [alg]]))"
  using assms
  by (simp_all add: generate_nas_enc_keys_def generate_nas_int_keys_def NAS_ENC_ALG_def NAS_INT_ALG_def rdn_def kdf_simps)
    (simp_all add: kdf_simps HMAC_def)

section \<open>Integrity\<close>

lemma u32_out_hton: "u32_out (hton_int32 x) = UINT32_TO_ARRAY x"
proof -
  have m: "(0x000000FF :: u32) = mask 8" "(0x0000FF00 :: u32) = push_bit 8 (mask 8)"
    "(0x00FF0000 :: u32) = push_bit 16 (mask 8)" "(0xFF000000 :: u32) = push_bit 24 (mask 8)"
    by (simp_all add: mask_eq_exp_minus_1 push_bit_eq_mult)
  show ?thesis
    unfolding u32_out_def UINT32_TO_ARRAY_def hton_int32_def byte_defs m
    by (auto intro!: bit_word_eqI simp: bit_simps)
qed

lemma push_bit_bearer: "push_bit 3 (bearer :: byte) = 8 * bearer"
  by (simp add: push_bit_eq_mult)

lemma nas_integrity_eia2_EIA2:
  assumes "unat message_length \<le> length message" and "length key = 16" and "\<And>k m. length (cmac k m) = 16"
  shows "nas_integrity_eia2 cmac key message message_length count bearer =
     Some (EIA2 cmac key count bearer False (take (unat message_length) message))"
proof -
  define n where "n = unat message_length"
  have w: "wrn (replicate (n + 8) 0) 0 (UINT32_TO_ARRAY count) = Some (UINT32_TO_ARRAY count @ replicate (n + 4) 0)"
    by (simp add: wrn_def)
  have r: "replicate (n + 4) (0 :: byte) = 0 # 0 # 0 # 0 # replicate n 0" by (simp add: numeral_eq_Suc)
  have w4: "wr (UINT32_TO_ARRAY count @ 0 # 0 # 0 # 0 # replicate n 0) 4 v =
      Some ((UINT32_TO_ARRAY count @ [v, 0, 0, 0]) @ replicate n 0)" for v
    by (simp add: wr_def list_update_append)
  have mc: "memcpy ((UINT32_TO_ARRAY count @ [v, 0, 0, 0]) @ replicate n 0) 8 message n =
      Some ((UINT32_TO_ARRAY count @ [v, 0, 0, 0]) @ take n message)" for v
    using assms(1) by (simp add: memcpy_ok n_def)
  show ?thesis
    unfolding nas_integrity_eia2_def Let_def u32_out_hton n_def [symmetric] w bind.bind_lunit r w4 mc
    using assms(2,3) by (simp add: rdn_def EIA2_def eia2_input_def push_bit_bearer)
qed

section \<open>Properties\<close>

definition root_at :: "nat \<Rightarrow> nat \<Rightarrow> nat \<Rightarrow> u32 \<Rightarrow> bool" where
  "root_at q k p v \<longleftrightarrow> q < 32 \<and> (q * 2 ^ 32 + unat v) ^ k \<le> p * 2 ^ (32 * k) \<and>
     p * 2 ^ (32 * k) < (q * 2 ^ 32 + unat v + 1) ^ k"

lemma root_bits_zip:
  assumes "list_all2 (\<lambda>p (q, v). root_at q k p v) ps (zip qs vs)" and "length qs = length vs"
  shows "list_all2 (root_bits k) ps vs"
proof -
  have "list_all2 (root_bits k) ps (map snd (zip qs vs))"
    using assms(1) by (auto simp: list_all2_conv_all_nth root_bits_def root_at_def split: prod.splits)
  with assms(2) show ?thesis by simp
qed

text \<open>The integer parts of the roots.\<close>

lemma sha_k_roots: "list_all2 (root_bits 3) primes sha_k"
proof (rule root_bits_zip)
  show "list_all2 (\<lambda>p (q, v). root_at q 3 p v) primes (zip
      [1, 1, 1, 1, 2, 2, 2, 2, 2, 3, 3, 3, 3, 3, 3, 3, 3, 3, 4, 4, 4, 4, 4, 4, 4, 4, 4, 4, 4, 4, 5, 5,
      5, 5, 5, 5, 5, 5, 5, 5, 5, 5, 5, 5, 5, 5, 5, 6, 6, 6, 6, 6, 6, 6, 6, 6, 6, 6, 6, 6, 6, 6, 6, 6] sha_k)"
    by (simp add: primes_def sha_k_def root_at_def)
qed (simp add: sha_k_def)

lemma initial_state_roots: "list_all2 (root_bits 2) (take 8 primes) initial_state"
proof (rule root_bits_zip)
  show "list_all2 (\<lambda>p (q, v). root_at q 2 p v) (take 8 primes) (zip [1, 1, 2, 2, 3, 3, 4, 4] initial_state)"
    by (simp add: primes_def initial_state_def root_at_def)
qed (simp add: initial_state_def)

definition ex_sha :: sha256 where
  "ex_sha = \<lparr>sha_hash = [], sha_buffer = [], sha_state = [], sha_length = []\<rparr>"

definition ex_hmac :: hmac_sha256 where
  "ex_hmac = \<lparr>hm_digest = [], hm_key = [], hm_sha = ex_sha\<rparr>"

text \<open>
  C23.  The hash functions of the emulator are the standard ones: \<open>sha256_get\<close>, with its byte-wise buffer,
  its length counter in eight bytes and its padding, is SHA-256 of FIPS 180-4 for every message below
  2^32 bytes, \<open>sha_256\<close> is HMAC-SHA-256 of RFC 2104, and the constants of the code are those of the standard.
\<close>

theorem sha256_is_fips:
  assumes "length m < 2 ^ 32" and "length key < 2 ^ 32"
  shows "sha256_get sha m = SHA256 m \<and> sha_256 hmac m key = HMAC key m \<and>
     list_all2 (root_bits 3) primes sha_k \<and> list_all2 (root_bits 2) (take 8 primes) initial_state"
  using sha256_get_fips [OF assms(1)] sha_256_HMAC [OF assms] sha_k_roots initial_state_roots by blast

theorem sha256_is_fips_witness:
  "sha256_get ex_sha (str ''abc'') = SHA256 (str ''abc'') \<and> sha_256 ex_hmac [] [1] = HMAC [1] []"
  using sha256_is_fips [of "str ''abc''" "[1]" ex_sha ex_hmac] sha256_is_fips [of "[]" "[1]" ex_sha ex_hmac] by simp

text \<open>
  C24.  \<open>f2345\<close> computes the Milenage functions: RES is f2, CK is f3, IK is f4 and AK is f5 of TS 35.206, for
  every key, RAND and OPc.
\<close>

theorem f2345_is_milenage:
  assumes "length k = 16" and "length rand = 16" and "length opc = 16"
  shows "f2345 k rand opc =
     Some (milenage_f2 k rand opc, milenage_f3 k rand opc, milenage_f4 k rand opc, milenage_f5 k rand opc)"
  using assms by (simp add: f2345_milenage)

theorem f2345_is_milenage_witness:
  "f2345 (replicate 16 1) (replicate 16 2) (replicate 16 3) =
     Some (milenage_f2 (replicate 16 1) (replicate 16 2) (replicate 16 3),
           milenage_f3 (replicate 16 1) (replicate 16 2) (replicate 16 3),
           milenage_f4 (replicate 16 1) (replicate 16 2) (replicate 16 3),
           milenage_f5 (replicate 16 1) (replicate 16 2) (replicate 16 3))"
  by (rule f2345_is_milenage) simp_all

text \<open>
  C25.  The key hierarchy.  From CK and IK the emulator derives RES* and K_AUSF, from K_AUSF K_SEAF, from that and the SUPI
  K_AMF, and from K_AMF the two NAS keys, each by the key derivation function of TS 33.220 with the function
  code and the parameters of TS 33.501 (Annexes A.4, A.2, A.6, A.7 and A.8), and no array is left.
\<close>

theorem key_hierarchy_correct:
  assumes "length ck = 16" and "length ik = 16" and "length rand = 16" and "length res = 8" and "length autn = 16"
    and "length mcc = 3" and "length mnc = 2" and "length supi = 15"
    and "length b63 = 63" and "length b64 = 64" and "length b32 = 32" and "length b8 = 8"
    and kausf: "kausf = KDF (ck @ ik) 0x6A [network_name mcc mnc, take 6 autn]"
    and kseaf: "kseaf = KDF kausf 0x6C [network_name mcc mnc]"
    and kamf: "kamf = KDF kseaf 0x6D [supi, [0, 0]]"
  shows "generate_res_5g hmac b63 b32 ck ik rand res mcc mnc =
       Some (drop 16 (KDF (ck @ ik) 0x6B [network_name mcc mnc, rand, res])) \<and>
     generate_kausf hmac b64 b32 ck ik autn mcc mnc = Some kausf \<and>
     generate_kseaf hmac b64 kausf mcc mnc = Some kseaf \<and>
     generate_kamf hmac b64 supi kseaf = Some kamf \<and>
     generate_5g_nas_enc_key hmac b8 kamf alg = Some (drop 16 (KDF kamf 0x69 [[1], [alg]])) \<and>
     generate_5g_nas_int_key hmac b8 kamf alg = Some (drop 16 (KDF kamf 0x69 [[2], [alg]]))"
proof -
  have l: "length kausf = 32" "length kseaf = 32" "length kamf = 32"
    unfolding kausf kseaf kamf by (simp_all add: KDF_def HMAC_def)
  have a: "6 \<le> length autn" using assms(5) by simp
  show ?thesis
    using generate_res_5g_KDF [OF assms(9,11,1-4,6,7)] generate_kausf_KDF [OF assms(10,11,1,2) a assms(6,7), folded kausf]
      generate_kseaf_KDF [OF assms(10) l(1) assms(6,7), folded kseaf] generate_kamf_KDF [OF assms(10,8) l(2), folded kamf]
      generate_5g_nas_keys_KDF [OF assms(12) l(3)]
    by simp
qed

theorem key_hierarchy_correct_witness:
  "\<exists>kausf. generate_kausf ex_hmac (replicate 64 0) (replicate 32 0) (replicate 16 1) (replicate 16 2) (replicate 16 3)
     (str ''001'') (str ''01'') = Some kausf \<and> length kausf = 32"
  using key_hierarchy_correct [OF _ _ _ _ _ _ _ _ _ _ _ _ refl refl refl, of "replicate 16 1" "replicate 16 2"
      "replicate 16 9" "replicate 8 9" "replicate 16 3" "str ''001''" "str ''01''" "replicate 15 9" "replicate 63 0"
      "replicate 64 0" "replicate 32 0" "replicate 8 0" ex_hmac 2]
  by (simp add: KDF_def HMAC_def)

text \<open>
  C26.  \<open>nas_integrity_eia2\<close> is the algorithm 128-EIA2 of TS 33.401 for uplink messages, whatever the CMAC: its
  input is the counter in big-endian order, the bearer, direction 0, 26 zero bits and the message.
\<close>

theorem nas_integrity_is_eia2:
  assumes "unat message_length \<le> length message" and "length key = 16" and "\<forall>k m. length (cmac k m) = 16"
  shows "nas_integrity_eia2 cmac key message message_length count bearer =
     Some (EIA2 cmac key count bearer False (take (unat message_length) message))"
  using assms by (intro nas_integrity_eia2_EIA2) simp_all

theorem nas_integrity_is_eia2_witness:
  "nas_integrity_eia2 (\<lambda>k m. take 16 (m @ replicate 16 0)) (replicate 16 7) [9, 8, 7] 2 0x01020304 1 = Some [1, 2, 3, 4]"
proof -
  let ?cmac = "\<lambda>k m :: byte list. take 16 (m @ replicate 16 0) :: byte list"
  have "\<forall>k m. length (?cmac k m) = 16" by (simp add: min_def)
  from nas_integrity_is_eia2 [where message_length = 2 and message = "[9, 8, 7]" and key = "replicate 16 7"
      and count = "0x01020304" and bearer = 1, OF _ _ this]
  show ?thesis by (simp add: EIA2_def eia2_input_def UINT32_TO_ARRAY_def)
qed

end
