(* ===== verification/Syscalls.thy ===== *)
theory Syscalls
  imports Prelude "HOL-Library.State_Monad"
begin

text \<open>
  Calls of the operating system whose only effect on a program is their result: the set-up of sockets and
  the creation of threads.  The results are the argument \<open>os_result\<close>, one per call, and the calls are recorded
  with them.
\<close>

datatype kind = UDP | TCP | SCTP

datatype call =
    Socket kind
  | Setsockopt int string
  | Bind int string nat
  | Listen int nat
  | Accept int
  | Malloc
  | Thread string "int list"
  | Cancel int
  | Open_file string
  | Ioctl int string
  | Connect int "byte list" nat
  | Close int

record os =
  os_result :: "nat \<Rightarrow> int"
  os_log :: "(call \<times> int) list"

type_synonym 'a sys = "(os, 'a) state"

abbreviation ret :: "'a \<Rightarrow> 'a sys" where
  "ret \<equiv> State_Monad.return"

definition sys :: "call \<Rightarrow> int sys" where
  "sys c = State (\<lambda>s. let r = os_result s (length (os_log s)) in (r, s\<lparr>os_log := os_log s @ [(c, r)]\<rparr>))"

text \<open>\<open>if (c fails) { close(fd); return -1; }\<close>\<close>

definition or_close :: "int \<Rightarrow> call \<Rightarrow> (int \<Rightarrow> bool) \<Rightarrow> int sys \<Rightarrow> int sys" where
  "or_close fd c fails k = do {
     r \<leftarrow> sys c;
     if fails r then do { _ \<leftarrow> sys (Close fd); ret (-1) } else k }"

section \<open>Open descriptors\<close>

text \<open>The descriptors that the calls of a log leave open.\<close>

fun open_fds :: "int list \<Rightarrow> (call \<times> int) list \<Rightarrow> int list" where
  "open_fds fds [] = fds"
| "open_fds fds ((Socket _, r) # l) = open_fds (if 0 \<le> r then r # fds else fds) l"
| "open_fds fds ((Accept _, r) # l) = open_fds (if 0 \<le> r then r # fds else fds) l"
| "open_fds fds ((Open_file _, r) # l) = open_fds (if 0 \<le> r then r # fds else fds) l"
| "open_fds fds ((Close fd, _) # l) = open_fds (remove1 fd fds) l"
| "open_fds fds (_ # l) = open_fds fds l"

lemma open_fds_append [simp]: "open_fds fds (l @ l') = open_fds (open_fds fds l) l'"
  by (induction fds l rule: open_fds.induct) simp_all

definition fds_of :: "os \<Rightarrow> int list" where
  "fds_of s = open_fds [] (os_log s)"

text \<open>A call that neither opens nor closes anything.\<close>

fun neutral :: "call \<Rightarrow> bool" where
  "neutral (Socket _) \<longleftrightarrow> False"
| "neutral (Accept _) \<longleftrightarrow> False"
| "neutral (Open_file _) \<longleftrightarrow> False"
| "neutral (Close _) \<longleftrightarrow> False"
| "neutral _ \<longleftrightarrow> True"

lemma run_sys: "run_state (sys c) s =
    (os_result s (length (os_log s)), s\<lparr>os_log := os_log s @ [(c, os_result s (length (os_log s)))]\<rparr>)"
  by (simp add: sys_def Let_def)

lemma run_bind: "run_state (p \<bind> f) s = (case run_state p s of (a, s') \<Rightarrow> run_state (f a) s')"
  by (simp add: State_Monad.bind_def)

lemma run_ret: "run_state (ret a) s = (a, s)"
  by (simp add: State_Monad.return_def)

lemma run_if: "run_state (if b then p else q) s = (if b then run_state p s else run_state q s)"
  by simp

lemma fds_of_close: "fds_of (s\<lparr>os_log := os_log s @ [(Close fd, x)]\<rparr>) = remove1 fd (fds_of s)"
  by (simp add: fds_of_def)

lemmas run_simps = run_sys run_bind run_ret run_if

text \<open>The promise of the rest of a set-up, while \<open>fd\<close> is open already.\<close>

definition owns :: "int \<Rightarrow> int list \<Rightarrow> int sys \<Rightarrow> bool" where
  "owns fd fds p \<longleftrightarrow>
     (\<forall>s. fds_of s = fd # fds \<longrightarrow>
        (case run_state p s of (r, s') \<Rightarrow>
           (r = fd \<and> fds_of s' = fd # fds \<or> r = -1 \<and> fds_of s' = fds) \<and> os_result s' = os_result s))"

lemma owns_ret: "owns fd fds (ret fd)"
  by (simp add: owns_def run_ret)

lemma fds_of_neutral: "neutral c \<Longrightarrow> fds_of (s\<lparr>os_log := os_log s @ [(c, r)]\<rparr>) = fds_of s"
  by (cases c) (simp_all add: fds_of_def)

lemma owns_or_close:
  assumes "neutral c" and "owns fd fds k"
  shows "owns fd fds (or_close fd c fails k)"
proof -
  have "(case run_state (or_close fd c fails k) s of (r, s') \<Rightarrow>
      (r = fd \<and> fds_of s' = fd # fds \<or> r = -1 \<and> fds_of s' = fds) \<and> os_result s' = os_result s)"
    if s: "fds_of s = fd # fds" for s
  proof -
    let ?r = "os_result s (length (os_log s))"
    let ?s = "s\<lparr>os_log := os_log s @ [(c, ?r)]\<rparr>"
    have f: "fds_of ?s = fd # fds" using fds_of_neutral [OF assms(1)] s by simp
    have run: "run_state (or_close fd c fails k) s =
        (if fails ?r then (-1, ?s\<lparr>os_log := os_log ?s @ [(Close fd, os_result ?s (length (os_log ?s)))]\<rparr>) else run_state k ?s)"
      by (simp add: or_close_def run_simps)
    show ?thesis
    proof (cases "fails ?r")
      case True
      have "fds_of (?s\<lparr>os_log := os_log ?s @ [(Close fd, x)]\<rparr>) = fds" for x
        unfolding fds_of_close f by simp
      with True show ?thesis unfolding run by simp
    next
      case False
      obtain r s' where k: "run_state k ?s = (r, s')" by (cases "run_state k ?s")
      from assms(2) [unfolded owns_def, rule_format, OF f] False show ?thesis unfolding run k by simp
    qed
  qed
  then show ?thesis by (simp add: owns_def)
qed

text \<open>A set-up that opens one socket and owns it.\<close>

lemma socket_owns:
  assumes "\<And>fd. owns fd (fds_of s) (k fd)" and "\<And>r. 0 \<le> r \<Longrightarrow> \<not> bad r" and "\<And>r. r < 0 \<Longrightarrow> bad r"
    and "run_state (do { fd \<leftarrow> sys (Socket t); if bad fd then ret (-1) else k fd }) s = (r, s')"
  shows "0 \<le> r \<and> fds_of s' = r # fds_of s \<or> r = -1 \<and> fds_of s' = fds_of s"
proof -
  let ?fd = "os_result s (length (os_log s))"
  let ?s = "s\<lparr>os_log := os_log s @ [(Socket t, ?fd)]\<rparr>"
  have run: "(if bad ?fd then (-1, ?s) else run_state (k ?fd) ?s) = (r, s')"
    using assms(4) unfolding run_simps by (cases "bad ?fd") simp_all
  show ?thesis
  proof (cases "0 \<le> ?fd")
    case True
    then have "fds_of ?s = ?fd # fds_of s" by (simp add: fds_of_def)
    from assms(1) [of ?fd, unfolded owns_def, rule_format, OF this] run assms(2) [OF True] True show ?thesis by auto
  next
    case False
    then have "fds_of ?s = fds_of s" by (simp add: fds_of_def)
    with run assms(3) [of ?fd] False show ?thesis by simp
  qed
qed

end
