(* ===== verification/Frontend.thy ===== *)
theory Frontend
  imports Syscalls
begin

text \<open>
  The front end corekube-frontend/source: it accepts eNBs on SCTP and starts an uplink and a downlink thread for
  each.  The uplink thread puts the number of its socket in front of every message and forwards it to the
  workers; the downlink thread reads that number in the answer.  Sockets are 32-bit integers.
\<close>

section \<open>Set-up\<close>

text \<open>
  \<open>memset(&sin_zero, 0, sizeof(struct sockaddr))\<close> clears 16 bytes from a member of 8 bytes at offset 8 of the address: the last 8 lie
  behind the structure.  What is there the compiler decides, so the frame of the function is an argument: its size, the
  position of the address (16 bytes), and the position of the descriptor unless that is kept in a register.  Both are aligned
  to 4 bytes, hence the descriptor is overwritten as a whole or not at all.  A write beyond the frame is undefined.
\<close>

record frame =
  fr_size :: nat
  fr_addr :: nat
  fr_fd :: "nat option"

definition room :: "frame \<Rightarrow> bool" where
  "room f \<longleftrightarrow> fr_addr f + 24 \<le> fr_size f"

definition overwritten :: "frame \<Rightarrow> bool" where
  "overwritten f \<longleftrightarrow> (case fr_fd f of None \<Rightarrow> False | Some p \<Rightarrow> fr_addr f + 8 \<le> p \<and> p + 4 \<le> fr_addr f + 24)"

definition memset_sin_zero :: "frame \<Rightarrow> int \<Rightarrow> int option" where
  "memset_sin_zero f fd = (if room f then Some (if overwritten f then 0 else fd) else None)"

text \<open>\<open>if (c fails) { close(fd); return -1; }\<close> where the rest may be undefined.\<close>

definition or_close_fd :: "int \<Rightarrow> call \<Rightarrow> (int \<Rightarrow> bool) \<Rightarrow> int option sys \<Rightarrow> int option sys" where
  "or_close_fd fd c fails k = do {
     r \<leftarrow> sys c;
     if fails r then do { _ \<leftarrow> sys (Close fd); ret (Some (-1)) } else k }"

definition configure_sctp_socket :: "frame \<Rightarrow> string \<Rightarrow> bool \<Rightarrow> int option sys" where
  "configure_sctp_socket f mme_ip_address is5g = do {
     sock_sctp \<leftarrow> sys (Socket SCTP);
     if sock_sctp < 0 then ret (Some (-1)) else
     or_close_fd sock_sctp (Setsockopt sock_sctp ''SCTP_INITMSG'') (\<lambda>r. r < 0)
     (or_close_fd sock_sctp (Setsockopt sock_sctp ''SCTP_EVENTS'') (\<lambda>r. r < 0)
     (or_close_fd sock_sctp (Setsockopt sock_sctp ''SCTP_NODELAY'') (\<lambda>r. r < 0)
     (case memset_sin_zero f sock_sctp of
        None \<Rightarrow> ret None
      | Some sock_sctp \<Rightarrow>
          or_close_fd sock_sctp (Bind sock_sctp mme_ip_address (if is5g then 38412 else 36412)) (\<lambda>r. r = -1)
          (or_close_fd sock_sctp (Listen sock_sctp 5) (\<lambda>r. r < 0)
          (ret (Some sock_sctp)))))) }"

definition configure_udp_socket :: "frame \<Rightarrow> string \<Rightarrow> int option sys" where
  "configure_udp_socket f mme_ip_address = do {
     sock_udp \<leftarrow> sys (Socket UDP);
     if sock_udp < 0 then ret (Some (-1)) else
     (case memset_sin_zero f sock_udp of
        None \<Rightarrow> ret None
      | Some sock_udp \<Rightarrow>
          or_close_fd sock_udp (Bind sock_udp mme_ip_address 32566) (\<lambda>r. r < 0)
          (ret (Some sock_udp))) }"

text \<open>
  One turn of the accept loop; \<open>False\<close> leaves \<open>frontend\<close>.  A thread is identified by the position of its creation
  among the calls.  \<open>Malloc\<close> gives 0 for NULL.
\<close>

definition next_thread :: "int sys" where
  "next_thread = State (\<lambda>s. (int (length (os_log s)), s))"

definition accept_enb :: "int \<Rightarrow> int \<Rightarrow> bool sys" where
  "accept_enb sock_sctp sock_udp = do {
     sock_enb \<leftarrow> sys (Accept sock_sctp);
     if sock_enb < 0 then ret True
     else do {
       dargs \<leftarrow> sys Malloc;
       if dargs = 0 then do { _ \<leftarrow> sys (Close sock_enb); ret True }
       else do {
         downlink_t \<leftarrow> next_thread;
         r \<leftarrow> sys (Thread ''downlink'' [sock_udp]);
         if r \<noteq> 0 then do { _ \<leftarrow> sys (Close sock_sctp); _ \<leftarrow> sys (Close sock_udp); ret False }
         else do {
           uargs \<leftarrow> sys Malloc;
           if uargs = 0 then do { _ \<leftarrow> sys (Close sock_enb); _ \<leftarrow> sys (Cancel downlink_t); ret True }
           else do {
             r \<leftarrow> sys (Thread ''uplink'' [sock_enb, downlink_t]);
             if r \<noteq> 0 then do { _ \<leftarrow> sys (Close sock_enb); ret True }
             else ret True } } } } }"

text \<open>The first \<open>n\<close> turns of \<open>while(1)\<close>.\<close>

fun accept_loop :: "nat \<Rightarrow> int \<Rightarrow> int \<Rightarrow> bool sys" where
  "accept_loop 0 sock_sctp sock_udp = ret True"
| "accept_loop (Suc n) sock_sctp sock_udp = do {
     go \<leftarrow> accept_enb sock_sctp sock_udp;
     if go then accept_loop n sock_sctp sock_udp else ret False }"

text \<open>\<open>None\<close> when the set-up of a socket is undefined.\<close>

definition frontend :: "frame \<Rightarrow> frame \<Rightarrow> nat \<Rightarrow> string \<Rightarrow> bool \<Rightarrow> bool option sys" where
  "frontend f g n mme_ip_address is5g = do {
     sock_sctp \<leftarrow> configure_sctp_socket f mme_ip_address is5g;
     case sock_sctp of None \<Rightarrow> ret None | Some sock_sctp \<Rightarrow>
     if sock_sctp < 0 then ret (Some False)
     else do {
       sock_udp \<leftarrow> configure_udp_socket g mme_ip_address;
       case sock_udp of None \<Rightarrow> ret None | Some sock_udp \<Rightarrow>
       if sock_udp < 0 then do { _ \<leftarrow> sys (Close sock_sctp); ret (Some False) }
       else do { go \<leftarrow> accept_loop n sock_sctp sock_udp; ret (Some go) } } }"

section \<open>Uplink\<close>

definition int_to_array :: "u32 \<Rightarrow> buf \<Rightarrow> buf option" where
  "int_to_array num buffer = do {
     buffer \<leftarrow> wr buffer 0 (ucast (signed_drop_bit 24 num AND 0xFF));
     buffer \<leftarrow> wr buffer 1 (ucast (signed_drop_bit 16 num AND 0xFF));
     buffer \<leftarrow> wr buffer 2 (ucast (signed_drop_bit 8 num AND 0xFF));
     wr buffer 3 (ucast (num AND 0xFF)) }"

definition BUFFER_LEN :: nat where "BUFFER_LEN = 1020"

text \<open>
  A result of \<open>sctp_recvmsg\<close>: a message with its PPID in host order and the outcomes of \<open>socket\<close> and \<open>bind\<close> that
  follow, or a result of at most 0.  The call never delivers more than \<open>BUFFER_LEN\<close> bytes, and a result of 0 ends the loop.
\<close>

datatype uplink_event =
    Up_message u32 "byte list" bool bool
  | Up_closed

datatype uplink_end = Up_waiting | Up_disconnected | Up_failed

fun uplink_loop :: "buf \<Rightarrow> u32 \<Rightarrow> uplink_event list \<Rightarrow> (byte list list \<times> uplink_end) option" where
  "uplink_loop buffer ppid [] = Some ([], Up_waiting)"
| "uplink_loop buffer ppid (Up_closed # es) = Some ([], Up_disconnected)"
| "uplink_loop buffer ppid (Up_message recv_ppid m socket_ok bind_ok # es) = do {
     let n = min (length m) BUFFER_LEN;
     buffer \<leftarrow> memcpy buffer 4 m n;
     if n = 0 then Some ([], Up_disconnected)
     else if recv_ppid \<noteq> ppid then uplink_loop buffer ppid es
     else if \<not> socket_ok then Some ([], Up_failed)
     else if \<not> bind_ok then Some ([], Up_failed)
     else do {
       let n = n + 4;
       datagram \<leftarrow> rdn buffer 0 n;
       (sent, e) \<leftarrow> uplink_loop buffer ppid es;
       Some (datagram # sent, e) } }"

definition S1AP_PPID :: u32 where "S1AP_PPID = 18"
definition NGAP_PPID :: u32 where "NGAP_PPID = 60"

text \<open>
  The thread clears 16 bytes at \<open>sin_zero\<close> of \<open>epc_addr\<close>, too, before it uses \<open>ppid\<close> and \<open>sock_enb\<close>: \<open>uf_room\<close> tells whether the
  8 bytes behind the structure belong to the frame, and \<open>uf_ppid\<close> and \<open>uf_sock_enb\<close> whether these variables are among them.
\<close>

record uplink_frame =
  uf_room :: bool
  uf_ppid :: bool
  uf_sock_enb :: bool

definition uplink_thread :: "uplink_frame \<Rightarrow> buf \<Rightarrow> u32 \<Rightarrow> bool \<Rightarrow> uplink_event list \<Rightarrow> (byte list list \<times> uplink_end) option" where
  "uplink_thread f buffer sock_enb flag_5g es = do {
     let ppid = (if flag_5g then NGAP_PPID else S1AP_PPID);
     if \<not> uf_room f then None
     else do {
       let ppid = (if uf_ppid f then 0 else ppid);
       let sock_enb = (if uf_sock_enb f then 0 else sock_enb);
       buffer \<leftarrow> int_to_array sock_enb buffer;
       uplink_loop buffer ppid es } }"

section \<open>Downlink\<close>

definition array_to_int :: "buf \<Rightarrow> u32 option" where
  "array_to_int buffer = do {
     b0 \<leftarrow> rd buffer 0; b1 \<leftarrow> rd buffer 1; b2 \<leftarrow> rd buffer 2; b3 \<leftarrow> rd buffer 3;
     Some (push_bit 24 (ucast b0) OR push_bit 16 (ucast b1) OR push_bit 8 (ucast b2) OR ucast b3) }"

text \<open>
  A call of \<open>sctp_sendmsg\<close>: socket, the bytes at the pointer, the length (an \<open>int\<close> converted to \<open>size_t\<close>), the PPID in host
  order and the stream.  The results of the calls are the argument \<open>ok\<close>.
\<close>

record sctp_send =
  ss_sock :: u32
  ss_data :: "byte list"
  ss_len :: u64
  ss_ppid :: u32
  ss_sid :: u32

fun downlink_loop :: "buf \<Rightarrow> u32 \<Rightarrow> byte list option list \<Rightarrow> (nat \<Rightarrow> bool) \<Rightarrow> sctp_send list \<Rightarrow> (sctp_send list \<times> bool) option" where
  "downlink_loop buffer ppid [] ok sent = Some (sent, True)"
| "downlink_loop buffer ppid (None # ds) ok sent = Some (sent, False)"
| "downlink_loop buffer ppid (Some d # ds) ok sent = do {
     let n = min (length d) 1024;
     if n = 0 then Some (sent, False)
     else do {
       buffer \<leftarrow> memcpy buffer 0 d n;
       sock_enb \<leftarrow> array_to_int buffer;
       b4 \<leftarrow> rd buffer 4;
       let sid = ucast b4;
       let n' = int n - 5;
       let call = \<lparr>ss_sock = sock_enb, ss_data = drop 5 (take n buffer), ss_len = word_of_int n', ss_ppid = ppid, ss_sid = sid\<rparr>;
       if \<not> ok (length sent) then Some (sent @ [call], False)
       else downlink_loop buffer ppid ds ok (sent @ [call]) } }"

definition downlink_thread :: "buf \<Rightarrow> bool \<Rightarrow> byte list option list \<Rightarrow> (nat \<Rightarrow> bool) \<Rightarrow> (sctp_send list \<times> bool) option" where
  "downlink_thread buffer flag_5g ds ok =
     downlink_loop buffer (if flag_5g then NGAP_PPID else S1AP_PPID) ds ok []"

section \<open>Descriptors\<close>

text \<open>What a set-up returns and leaves open, from the descriptors that are open before.\<close>

definition leaves :: "int list \<Rightarrow> (int option \<Rightarrow> int list \<Rightarrow> bool) \<Rightarrow> int option sys \<Rightarrow> bool" where
  "leaves fds Q p \<longleftrightarrow> (\<forall>s. fds_of s = fds \<longrightarrow> (case run_state p s of (r, s') \<Rightarrow> Q r (fds_of s')))"

lemma leaves_ret: "Q r fds \<Longrightarrow> leaves fds Q (ret r)"
  by (simp add: leaves_def run_ret)

lemma leaves_or_close:
  assumes "neutral c" and "Q (Some (-1)) (remove1 fd fds)" and "leaves fds Q k"
  shows "leaves fds Q (or_close_fd fd c fails k)"
proof -
  have "fds_of (s\<lparr>os_log := os_log s @ [(c, x), (Close fd, y)]\<rparr>) = remove1 fd (fds_of s)" for s x y
    using assms(1) by (cases c) (simp_all add: fds_of_def)
  with assms fds_of_neutral [OF assms(1)] show ?thesis by (auto simp: leaves_def or_close_fd_def run_bind run_sys run_ret)
qed

lemma leaves_socket:
  assumes "\<And>fd. 0 \<le> fd \<Longrightarrow> leaves (fd # fds) Q (k fd)" and "Q (Some (-1)) fds"
  shows "leaves fds Q (do { fd \<leftarrow> sys (Socket t); if fd < 0 then ret (Some (-1)) else k fd })"
proof -
  have "fds_of (s\<lparr>os_log := os_log s @ [(Socket t, fd)]\<rparr>) = (if 0 \<le> fd then fd # fds_of s else fds_of s)" for s fd
    by (simp add: fds_of_def)
  with assms show ?thesis by (auto simp: leaves_def run_bind run_sys run_ret)
qed

text \<open>The set-up of a socket, depending on what lies behind the address.\<close>

definition set_up :: "frame \<Rightarrow> int list \<Rightarrow> int option \<Rightarrow> int list \<Rightarrow> bool" where
  "set_up f fds r fds' \<longleftrightarrow>
     r = Some (-1) \<and> fds' = fds \<or>
     (\<exists>fd \<ge> 0.
        if \<not> room f then r = None
        else if overwritten f then fds' = fd # fds \<and> r = Some 0 \<or> fds' = remove1 0 (fd # fds) \<and> r = Some (-1)
        else fds' = fd # fds \<and> r = Some fd)"

lemma set_up_cases:
  assumes "set_up f fds r fds'"
  shows "room f \<and> \<not> overwritten f \<longrightarrow> (\<exists>fd \<ge> 0. r = Some fd \<and> fds' = fd # fds) \<or> r = Some (-1) \<and> fds' = fds"
    and "room f \<and> overwritten f \<longrightarrow> r = Some (-1) \<and> fds' = fds \<or>
      (\<exists>fd \<ge> 0. r = Some 0 \<and> fds' = fd # fds \<or> r = Some (-1) \<and> fds' = remove1 0 (fd # fds))"
    and "\<not> room f \<longrightarrow> r = None \<or> r = Some (-1) \<and> fds' = fds"
proof -
  consider "r = Some (-1)" "fds' = fds"
    | fd where "0 \<le> fd" "if \<not> room f then r = None
        else if overwritten f then fds' = fd # fds \<and> r = Some 0 \<or> fds' = remove1 0 (fd # fds) \<and> r = Some (-1)
        else fds' = fd # fds \<and> r = Some fd"
    using assms unfolding set_up_def by blast
  note c = this
  show "room f \<and> \<not> overwritten f \<longrightarrow> (\<exists>fd \<ge> 0. r = Some fd \<and> fds' = fd # fds) \<or> r = Some (-1) \<and> fds' = fds"
    by (cases rule: c) auto
  show "room f \<and> overwritten f \<longrightarrow> r = Some (-1) \<and> fds' = fds \<or>
      (\<exists>fd \<ge> 0. r = Some 0 \<and> fds' = fd # fds \<or> r = Some (-1) \<and> fds' = remove1 0 (fd # fds))"
  proof (cases rule: c)
    case 2
    then show ?thesis by (intro impI disjI2 exI [of _ fd]) (auto simp del: remove1.simps split: if_splits)
  qed simp
  show "\<not> room f \<longrightarrow> r = None \<or> r = Some (-1) \<and> fds' = fds" by (cases rule: c) simp_all
qed

lemma set_up_tail:
  assumes "0 \<le> fd"
    and "\<And>v Q. Q (Some (-1)) (remove1 v (fd # fds)) \<Longrightarrow> Q (Some v) (fd # fds) \<Longrightarrow> leaves (fd # fds) Q (k v)"
  shows "leaves (fd # fds) (set_up f fds) (case memset_sin_zero f fd of None \<Rightarrow> ret None | Some v \<Rightarrow> k v)"
proof (cases "room f")
  case True
  then show ?thesis using assms by (fastforce simp: memset_sin_zero_def set_up_def intro!: assms(2))
next
  case False
  with assms(1) show ?thesis by (auto simp: memset_sin_zero_def set_up_def intro!: leaves_ret exI [of _ fd])
qed

lemma configure_sctp_leaves: "leaves fds (set_up f fds) (configure_sctp_socket f ip is5g)"
  unfolding configure_sctp_socket_def
  by (intro leaves_socket leaves_or_close set_up_tail leaves_ret) (assumption | simp add: set_up_def)+

lemma configure_udp_leaves: "leaves fds (set_up f fds) (configure_udp_socket f ip)"
  unfolding configure_udp_socket_def
  by (intro leaves_socket leaves_or_close set_up_tail leaves_ret) (assumption | simp add: set_up_def)+

section \<open>Messages keep their eNB\<close>

lemma int_to_array_bytes:
  "4 \<le> length buffer \<Longrightarrow> int_to_array num buffer = Some (UINT32_TO_ARRAY num @ drop 4 buffer)"
proof -
  assume l: "4 \<le> length buffer"
  obtain a b c d r where b: "buffer = a # b # c # d # r"
    using l by (cases buffer; cases "tl buffer"; cases "tl (tl buffer)"; cases "tl (tl (tl buffer))") auto
  have s: "ucast (signed_drop_bit k num) = (ucast (drop_bit k num) :: byte)" if "k \<le> 24" for k
    using that by (intro bit_word_eqI) (auto simp: bit_simps min_def)
  show ?thesis by (simp add: int_to_array_def b wr_def UINT32_TO_ARRAY_def s numeral_2_eq_2 numeral_3_eq_3)
qed

lemma array_to_int_bytes: "array_to_int (UINT32_TO_ARRAY num @ r) = Some num"
  by (simp add: array_to_int_def UINT32_TO_ARRAY_def mem_simps be32_bytes [unfolded be32_def])

text \<open>The datagrams that the specification asks for: the messages with the right PPID, behind the socket number.\<close>

fun forwarded :: "u32 \<Rightarrow> u32 \<Rightarrow> uplink_event list \<Rightarrow> byte list list" where
  "forwarded sock ppid (Up_message p m so bo # es) =
     (if p = ppid then [UINT32_TO_ARRAY sock @ m] else []) @ forwarded sock ppid es"
| "forwarded sock ppid _ = []"

fun uplink_events_ok :: "uplink_event list \<Rightarrow> bool" where
  "uplink_events_ok (Up_message p m so bo # es) \<longleftrightarrow> m \<noteq> [] \<and> length m \<le> 1020 \<and> so \<and> bo \<and> uplink_events_ok es"
| "uplink_events_ok _ \<longleftrightarrow> True"

lemma uplink_loop_forwards:
  assumes "uplink_events_ok es" and "length r = 1020"
  shows "uplink_loop (UINT32_TO_ARRAY sock @ r) ppid es =
     Some (forwarded sock ppid es, if Up_closed \<in> set es then Up_disconnected else Up_waiting)"
  using assms
proof (induction es arbitrary: r rule: uplink_events_ok.induct)
  case (1 p m so bo es)
  let ?r = "m @ drop (length m) r"
  have b: "memcpy (UINT32_TO_ARRAY sock @ r) 4 m (length m) = Some (UINT32_TO_ARRAY sock @ ?r)"
    using "1.prems" by (simp add: memcpy_ok)
  have d: "rdn (UINT32_TO_ARRAY sock @ ?r) 0 (length m + 4) = Some (UINT32_TO_ARRAY sock @ m)"
    using "1.prems" by (simp add: rdn_def)
  have "length ?r = 1020" using "1.prems" by simp
  with 1 b d show ?case by (simp add: BUFFER_LEN_def min_absorb1)
qed simp_all

lemma uplink_thread_forwards:
  assumes "uplink_events_ok es" and "length buffer = 1024" and "uf_room f"
  shows "uplink_thread f buffer sock flag_5g es =
     Some (forwarded (if uf_sock_enb f then 0 else sock)
             (if uf_ppid f then 0 else if flag_5g then NGAP_PPID else S1AP_PPID) es,
           if Up_closed \<in> set es then Up_disconnected else Up_waiting)"
  using uplink_loop_forwards [OF assms(1), of "drop 4 buffer" "if uf_sock_enb f then 0 else sock"] assms(2,3)
  by (simp add: uplink_thread_def int_to_array_bytes Let_def)

text \<open>The answers that workers send: socket, stream, message.\<close>

definition answer_datagram :: "u32 \<times> byte \<times> byte list \<Rightarrow> byte list" where
  "answer_datagram a = (case a of (sock, sid, m) \<Rightarrow> UINT32_TO_ARRAY sock @ sid # m)"

definition answer_call :: "u32 \<Rightarrow> u32 \<times> byte \<times> byte list \<Rightarrow> sctp_send" where
  "answer_call ppid a = (case a of (sock, sid, m) \<Rightarrow>
     \<lparr>ss_sock = sock, ss_data = m, ss_len = of_nat (length m), ss_ppid = ppid, ss_sid = ucast sid\<rparr>)"

lemma downlink_step:
  assumes "length buffer = 1024" and "5 + length m \<le> 1024" and "ok (length sent)"
  shows "\<exists>b. length b = 1024 \<and> downlink_loop buffer ppid (Some (answer_datagram (sock, sid, m)) # ds) ok sent =
     downlink_loop b ppid ds ok (sent @ [answer_call ppid (sock, sid, m)])"
proof -
  let ?d = "UINT32_TO_ARRAY sock @ sid # m"
  let ?b = "?d @ drop (length ?d) buffer"
  have mc: "memcpy buffer 0 ?d (length ?d) = Some ?b" using assms by (simp add: memcpy_ok)
  have b4: "rd ?b 4 = Some sid" by (simp add: rd_def nth_append)
  have sk: "array_to_int ?b = Some sock" using array_to_int_bytes [of sock "sid # m @ drop (length ?d) buffer"] by simp
  have n: "min (length ?d) 1024 = length ?d" using assms(2) by simp
  have data: "drop 5 (take (length ?d) ?b) = m" by simp
  have len: "(word_of_int (int (length ?d) - 5) :: u64) = of_nat (length m)" by simp
  have "downlink_loop buffer ppid (Some ?d # ds) ok sent =
      downlink_loop ?b ppid ds ok (sent @ [answer_call ppid (sock, sid, m)])"
    unfolding downlink_loop.simps Let_def n mc bind.bind_lunit sk b4 data len
    using assms(3) by (simp add: answer_call_def)
  moreover have "length ?b = 1024" using assms by simp
  ultimately show ?thesis unfolding answer_datagram_def prod.case by blast
qed

lemma downlink_loop_routes:
  assumes "length buffer = 1024" and "list_all (\<lambda>(sock, sid, m). 5 + length m \<le> 1024) as" and "\<And>i. ok i"
  shows "downlink_loop buffer ppid (map (\<lambda>a. Some (answer_datagram a)) as) ok sent =
     Some (sent @ map (answer_call ppid) as, True)"
  using assms(1,2)
proof (induction as arbitrary: buffer sent)
  case (Cons a as)
  obtain sock sid m where a: "a = (sock, sid, m)" by (cases a)
  have "5 + length m \<le> 1024" using Cons.prems(2) a by simp
  from downlink_step [where ok = ok and sent = sent, OF Cons.prems(1) this assms(3), of ppid sock sid "map (\<lambda>a. Some (answer_datagram a)) as"]
  obtain b where "length b = 1024" "downlink_loop buffer ppid (Some (answer_datagram a) # map (\<lambda>a. Some (answer_datagram a)) as) ok sent =
      downlink_loop b ppid (map (\<lambda>a. Some (answer_datagram a)) as) ok (sent @ [answer_call ppid a])"
    unfolding a by blast
  with Cons.IH [of b "sent @ [answer_call ppid a]"] Cons.prems(2) show ?case by simp
qed simp

section \<open>Properties\<close>

definition ex_os :: os where
  "ex_os = \<lparr>os_result = (\<lambda>i. if i = 0 then 3 else 0), os_log = []\<rparr>"

text \<open>
  C27.  The set-up of the two sockets.  When the 8 bytes that the code clears behind the address hold neither the descriptor nor
  anything outside the frame, each function leaves exactly the descriptor it returns open, and when it returns -1, after a
  failure of any of its calls, it has closed what it had opened.  When they hold the descriptor, the function returns 0 and the socket it
  opened is lost, or after a failure of the last calls it returns -1 having closed descriptor 0 instead.  When they
  lie outside the frame, the function has undefined behaviour unless a call fails before.
\<close>

theorem configure_no_leak:
  assumes "run_state (configure_sctp_socket f ip is5g) s = (r, s')"
    and "run_state (configure_udp_socket g ip) t = (q, t')"
  shows "(room f \<and> \<not> overwritten f \<longrightarrow>
       (\<exists>fd \<ge> 0. r = Some fd \<and> fds_of s' = fd # fds_of s) \<or> r = Some (-1) \<and> fds_of s' = fds_of s) \<and>
     (room g \<and> \<not> overwritten g \<longrightarrow>
       (\<exists>fd \<ge> 0. q = Some fd \<and> fds_of t' = fd # fds_of t) \<or> q = Some (-1) \<and> fds_of t' = fds_of t) \<and>
     (room f \<and> overwritten f \<longrightarrow> r = Some (-1) \<and> fds_of s' = fds_of s \<or>
       (\<exists>fd \<ge> 0. r = Some 0 \<and> fds_of s' = fd # fds_of s \<or> r = Some (-1) \<and> fds_of s' = remove1 0 (fd # fds_of s))) \<and>
     (room g \<and> overwritten g \<longrightarrow> q = Some (-1) \<and> fds_of t' = fds_of t \<or>
       (\<exists>fd \<ge> 0. q = Some 0 \<and> fds_of t' = fd # fds_of t \<or> q = Some (-1) \<and> fds_of t' = remove1 0 (fd # fds_of t))) \<and>
     (\<not> room f \<longrightarrow> r = None \<or> r = Some (-1) \<and> fds_of s' = fds_of s) \<and>
     (\<not> room g \<longrightarrow> q = None \<or> q = Some (-1) \<and> fds_of t' = fds_of t)"
proof -
  have "set_up f (fds_of s) r (fds_of s')" "set_up g (fds_of t) q (fds_of t')"
    using configure_sctp_leaves [of "fds_of s" f ip is5g] configure_udp_leaves [of "fds_of t" g ip] assms
    by (auto simp: leaves_def)
  from set_up_cases [OF this(1)] set_up_cases [OF this(2)] show ?thesis by (intro conjI) assumption+
qed

theorem configure_no_leak_witness:
  "(let f = \<lparr>fr_size = 64, fr_addr = 16, fr_fd = None\<rparr>; (q, t) = run_state (configure_udp_socket f ''10.0.0.1'') ex_os in
      q = Some 3 \<and> fds_of t = [3]) \<and>
   (let f = \<lparr>fr_size = 64, fr_addr = 16, fr_fd = Some 36\<rparr>; (q, t) = run_state (configure_udp_socket f ''10.0.0.1'') ex_os in
      q = Some 0 \<and> fds_of t = [3])"
proof -
  let ?f = "\<lparr>fr_size = 64, fr_addr = 16, fr_fd = None\<rparr>" and ?g = "\<lparr>fr_size = 64, fr_addr = 16, fr_fd = Some 36\<rparr>"
  let ?run = "\<lambda>h. run_state (configure_udp_socket h ''10.0.0.1'') ex_os"
  have e: "fds_of ex_os = []" by (simp add: fds_of_def ex_os_def)
  have f: "fds_of (snd (?run ?f)) = [3] \<and> fst (?run ?f) \<noteq> Some (-1)" and g: "fds_of (snd (?run ?g)) = [3] \<and> fst (?run ?g) \<noteq> Some (-1)"
    by (simp_all add: configure_udp_socket_def or_close_fd_def run_simps ex_os_def memset_sin_zero_def room_def
        overwritten_def fds_of_def)
  obtain r s where sctp: "run_state (configure_sctp_socket ?f ''10.0.0.1'' True) ex_os = (r, s)" by fastforce
  obtain q t q' t' where run: "?run ?f = (q, t)" "?run ?g = (q', t')" by fastforce
  have "q = Some 3" using configure_no_leak [OF sctp run(1)] f e run(1) by (auto simp: room_def overwritten_def)
  moreover have "q' = Some 0" using configure_no_leak [OF sctp run(2)] g e run(2) by (auto simp: room_def overwritten_def)
  ultimately show ?thesis using f g run by (simp add: Let_def)
qed

text \<open>
  Downlink.  When the sends succeed, each answer of a worker (socket number, stream, message) is sent once, in order,
  to that socket and stream, with exactly the message as its bytes; the number written by the uplink thread of an eNB
  is read back as the socket of the same eNB.
\<close>

lemma downlink_routes:
  assumes "length buffer = 1024" and "list_all (\<lambda>(sock, sid, m). 5 + length m \<le> 1024) as" and "\<forall>i. ok i"
  shows "downlink_thread buffer flag_5g (map (\<lambda>a. Some (answer_datagram a)) as) ok =
     Some (map (answer_call (if flag_5g then NGAP_PPID else S1AP_PPID)) as, True)"
  using downlink_loop_routes [OF assms(1,2), where ok = ok] assms(3) by (simp add: downlink_thread_def)

text \<open>
  Short datagrams.  The downlink thread does not check the size of what it receives: for one to four bytes the length
  it passes to \<open>sctp_sendmsg\<close> is negative, an enormous \<open>size_t\<close>, and an empty datagram ends the thread.
\<close>

lemma short_datagram:
  assumes "length buffer = 1024" and "length d \<le> 4" and "\<not> ok 0"
  shows "if d = [] then downlink_thread buffer flag_5g (Some d # ds) ok = Some ([], False)
     else \<exists>call. downlink_thread buffer flag_5g (Some d # ds) ok = Some ([call], False) \<and>
       unat (ss_len call) = 2 ^ 64 - (5 - length d)"
proof (cases "d = []")
  case True
  then show ?thesis by (simp add: downlink_thread_def)
next
  case False
  then have l: "length d \<in> {1, 2, 3, 4}" using assms(2) by (cases d) (auto simp: le_Suc_eq numeral_eq_Suc)
  define b where "b = d @ drop (length d) buffer"
  have mc: "memcpy buffer 0 d (length d) = Some b" using assms by (simp add: memcpy_ok b_def)
  have lb: "length b = 1024" using assms by (simp add: b_def)
  obtain sock where sk: "array_to_int b = Some sock" using lb by (simp add: array_to_int_def rd_def)
  have n: "min (length d) 1024 = length d" using assms(2) by simp
  have "unat (word_of_int (int (length d) - 5) :: u64) = 2 ^ 64 - (5 - length d)"
    using l by (auto simp: unsigned_minus_1_eq_mask mask_eq_exp_minus_1)
  then show ?thesis
    using False assms(3) n mc sk lb by (simp add: downlink_thread_def rd_def Let_def)
qed

end
