(* ===== verification/Multiplexer.thy ===== *)
theory Multiplexer
  imports Hashmap
begin

text \<open>
  The user-plane multiplexer ran-emulator/multiplexer/source: two threads forward GTP packets between the UEs
  and the core, and a hash table remembers the address of the UE behind each TEID.  The table has the type and the
  functions of Hashmap, except for \<open>hashmap_add\<close>.  Packets are handled one at a time: a data race between the
  threads is not modelled.  \<open>None\<close> is undefined behaviour or a loop that never ends.
\<close>

section \<open>The code\<close>

type_synonym addr = "byte list"

record Data =
  ue_addr :: addr
  ue_teid :: u32
  ue_len :: nat

definition data_hash :: "Data \<Rightarrow> u32" where
  "data_hash d = ue_teid d"

text \<open>
  The loop \<open>while(iter->next != NULL)\<close>: \<open>iter\<close> stays the first node, and each turn makes the new node its
  successor.
\<close>

partial_function (option) append_loop :: "('a \<Rightarrow> u32) \<Rightarrow> u32 \<Rightarrow> 'a \<Rightarrow> 'a list \<Rightarrow> 'a list option" where
  "append_loop hf h d chain =
     (case chain of
        iter # next # rest \<Rightarrow>
          if hf iter = h then Some (d # next # rest)
          else append_loop hf h d [iter, d]
      | _ \<Rightarrow> Some chain)"

definition mux_bucket_add :: "('a \<Rightarrow> u32) \<Rightarrow> u32 \<Rightarrow> 'a \<Rightarrow> 'a list \<Rightarrow> 'a list option" where
  "mux_bucket_add hf h d l =
     (case l of
        [] \<Rightarrow> Some [d]
      | iter # rest \<Rightarrow> if hf iter = h then Some (d # rest) else append_loop hf h d l)"

definition mux_hashmap_add :: "'a hashmap \<Rightarrow> 'a \<Rightarrow> bool \<Rightarrow> bool \<Rightarrow> (status \<times> 'a hashmap) option" where
  "mux_hashmap_add hm data malloc_node malloc_data =
     (if \<not> malloc_node then Some (ERROR, hm)
      else if \<not> malloc_data then Some (ERROR, hm)
      else do {
        let h = hash_fn hm data;
        index \<leftarrow> bucket_index hm h;
        if index < length (table hm) then do {
          l \<leftarrow> mux_bucket_add (hash_fn hm) h data (table hm ! index);
          Some (OK, hm\<lparr>table := (table hm)[index := l]\<rparr>) }
        else None })"

record mux =
  mx_map :: "Data hashmap"
  mx_coreaddr :: addr
  mx_up :: buf
  mx_down :: buf
  mx_to_core :: "(addr \<times> byte list) list"
  mx_to_ue :: "(addr \<times> byte list) list"

definition get_ue_teid :: "buf \<Rightarrow> u32 option" where
  "get_ue_teid buffer = do {
     b4 \<leftarrow> rd buffer 4; b5 \<leftarrow> rd buffer 5; b6 \<leftarrow> rd buffer 6; b7 \<leftarrow> rd buffer 7;
     Some (be32 b4 b5 b6 b7) }"

text \<open>One turn of the loop in \<open>uplink\<close>, for a packet from \<open>from\<close>.\<close>

definition uplink :: "mux \<Rightarrow> addr \<Rightarrow> byte list \<Rightarrow> bool \<Rightarrow> bool \<Rightarrow> mux option" where
  "uplink m from packet malloc_node malloc_data = do {
     buffer \<leftarrow> memcpy (mx_up m) 0 packet (length packet);
     teid \<leftarrow> get_ue_teid buffer;
     let data = \<lparr>ue_addr = from, ue_teid = teid, ue_len = length from\<rparr>;
     (st, hm) \<leftarrow> mux_hashmap_add (mx_map m) data malloc_node malloc_data;
     n \<leftarrow> rdn buffer 0 (length packet);
     Some (m\<lparr>mx_map := hm, mx_up := buffer, mx_to_core := mx_to_core m @ [(mx_coreaddr m, n)]\<rparr>) }"

text \<open>One turn of the loop in \<open>downlink\<close>: \<open>recvfrom\<close> stores the address of the sender in the global \<open>coreaddr\<close>.\<close>

definition downlink :: "mux \<Rightarrow> addr \<Rightarrow> byte list \<Rightarrow> mux option" where
  "downlink m from packet = do {
     buffer \<leftarrow> memcpy (mx_down m) 0 packet (length packet);
     teid \<leftarrow> get_ue_teid buffer;
     data \<leftarrow> hashmap_get (mx_map m) teid;
     data \<leftarrow> data;
     n \<leftarrow> rdn buffer 0 (length packet);
     Some (m\<lparr>mx_coreaddr := from, mx_down := buffer, mx_to_ue := mx_to_ue m @ [(ue_addr data, n)]\<rparr>) }"

text \<open>\<open>main\<close>: \<open>HASHMAP_SIZE\<close> is 8192; the memory of the buffers is arbitrary.\<close>

definition mux_init :: "u32 \<Rightarrow> addr \<Rightarrow> buf \<Rightarrow> buf \<Rightarrow> mux option" where
  "mux_init rnd core up down = do {
     hm \<leftarrow> init_hashmap 8192 data_hash True True rnd;
     Some \<lparr>mx_map = hm, mx_coreaddr = core, mx_up = up, mx_down = down, mx_to_core = [], mx_to_ue = []\<rparr> }"

section \<open>All interleavings\<close>

text \<open>What can happen to a multiplexer that has not crashed: packets of at most 65536 bytes, in any order.\<close>

inductive mux_step :: "mux \<Rightarrow> mux \<Rightarrow> bool" where
  up: "length packet \<le> 65536 \<Longrightarrow> uplink m from packet mn md = Some m' \<Longrightarrow> mux_step m m'"
| down: "length packet \<le> 65536 \<Longrightarrow> downlink m from packet = Some m' \<Longrightarrow> mux_step m m'"

inductive mux_reachable :: "mux \<Rightarrow> bool" where
  start: "mux_init rnd core up_buf down_buf = Some m \<Longrightarrow> length up_buf = 65536 \<Longrightarrow> length down_buf = 65536 \<Longrightarrow> mux_reachable m"
| step: "mux_reachable m \<Longrightarrow> mux_step m m' \<Longrightarrow> mux_reachable m'"

text \<open>The invariant: no chain has two nodes, so \<open>append_loop\<close> has nothing to do.\<close>

definition mux_inv :: "mux \<Rightarrow> bool" where
  "mux_inv m \<longleftrightarrow> wf_hashmap (mx_map m) \<and> hash_fn (mx_map m) = data_hash \<and>
     (\<forall>l \<in> set (table (mx_map m)). length l \<le> 1) \<and> length (mx_up m) = 65536 \<and> length (mx_down m) = 65536"

lemma append_loop_short: "length l \<le> 1 \<Longrightarrow> append_loop hf h d l = Some l"
  by (subst append_loop.simps) (auto split: list.split)

lemma mux_bucket_add_short:
  "length l \<le> 1 \<Longrightarrow> mux_bucket_add hf h d l = Some (if l = [] \<or> hf (hd l) = h then [d] else l)"
  by (cases l) (auto simp: mux_bucket_add_def append_loop_short)

text \<open>The table after an insertion.\<close>

lemma mux_add_ok:
  assumes wf: "wf_hashmap hm" and short: "\<forall>l \<in> set (table hm). length l \<le> 1" and i: "bucket_index hm (hash_fn hm d) = Some i"
  shows "mux_hashmap_add hm d True True = Some (OK, hm\<lparr>table := (table hm)[i :=
      (if table hm ! i = [] \<or> hash_fn hm (hd (table hm ! i)) = hash_fn hm d then [d] else table hm ! i)]\<rparr>)"
    and "i < length (table hm)"
proof -
  show il: "i < length (table hm)" using bucket_index_wf [OF wf, of "hash_fn hm d"] i by auto
  then have "length (table hm ! i) \<le> 1" using short nth_mem by blast
  from mux_bucket_add_short [OF this] show "mux_hashmap_add hm d True True = Some (OK, hm\<lparr>table := (table hm)[i :=
      (if table hm ! i = [] \<or> hash_fn hm (hd (table hm ! i)) = hash_fn hm d then [d] else table hm ! i)]\<rparr>)"
    using i il by (simp add: mux_hashmap_add_def)
qed

lemma mux_add_inv:
  assumes wf: "wf_hashmap hm" and short: "\<forall>l \<in> set (table hm). length l \<le> 1"
  shows "\<exists>st hm'. mux_hashmap_add hm d mn md = Some (st, hm') \<and> wf_hashmap hm' \<and> hash_fn hm' = hash_fn hm \<and>
     (\<forall>l \<in> set (table hm'). length l \<le> 1)"
proof (cases "mn \<and> md")
  case False
  with assms show ?thesis by (auto simp: mux_hashmap_add_def)
next
  case True
  obtain i where i: "bucket_index hm (hash_fn hm d) = Some i" "i < length (table hm)"
    using bucket_index_wf [OF wf] by blast
  let ?l = "if table hm ! i = [] \<or> hash_fn hm (hd (table hm ! i)) = hash_fn hm d then [d] else table hm ! i"
  have s: "length ?l \<le> 1" using short i(2) by (auto dest: nth_mem)
  have "\<forall>l \<in> set ((table hm)[i := ?l]). length l \<le> 1"
    using short s set_update_subset_insert [of "table hm" i ?l] by blast
  moreover have "wf_hashmap (hm\<lparr>table := (table hm)[i := ?l]\<rparr>)"
    by (rule wf_table_update [OF wf i(1)]) (auto split: if_splits)
  ultimately show ?thesis using mux_add_ok(1) [OF wf short i(1)] True by auto
qed

lemma get_ue_teid_total: "8 \<le> length b \<Longrightarrow> \<exists>t. get_ue_teid b = Some t"
  by (simp add: get_ue_teid_def rd_def)

lemma uplink_total:
  assumes inv: "mux_inv m" and l: "length packet \<le> 65536"
  shows "\<exists>m'. uplink m from packet mn md = Some m' \<and> mux_inv m' \<and>
     mx_to_core m' = mx_to_core m @ [(mx_coreaddr m, packet)]"
proof -
  let ?b = "packet @ drop (length packet) (mx_up m)"
  have lb: "length ?b = 65536" and lu: "length (mx_up m) = 65536" using inv l by (simp_all add: mux_inv_def)
  have mc: "memcpy (mx_up m) 0 packet (length packet) = Some ?b" using l lu by (simp add: memcpy_ok)
  obtain t where t: "get_ue_teid ?b = Some t" using get_ue_teid_total [of ?b] lb by auto
  obtain st hm' where h: "mux_hashmap_add (mx_map m) \<lparr>ue_addr = from, ue_teid = t, ue_len = length from\<rparr> mn md = Some (st, hm')"
    "wf_hashmap hm'" "hash_fn hm' = hash_fn (mx_map m)" "\<forall>l \<in> set (table hm'). length l \<le> 1"
    using mux_add_inv [of "mx_map m"] inv unfolding mux_inv_def by blast
  have r: "rdn ?b 0 (length packet) = Some packet" by (simp add: rdn_def)
  show ?thesis
    unfolding uplink_def mc bind.bind_lunit t Let_def h(1) r
    using h(2-4) inv lb by (simp add: mux_inv_def)
qed

lemma downlink_inv: "mux_inv m \<Longrightarrow> downlink m from packet = Some m' \<Longrightarrow> mux_inv m'"
  by (auto simp: downlink_def mux_inv_def dest: memcpy_length split: bind_splits)

lemma mux_init_inv:
  assumes "mux_init rnd core up_buf down_buf = Some m" and "length up_buf = 65536" and "length down_buf = 65536"
  shows "mux_inv m"
  using assms by (auto simp: mux_init_def init_hashmap_def mux_inv_def wf_hashmap_def)

lemma mux_reachable_inv: "mux_reachable m \<Longrightarrow> mux_inv m"
proof (induction rule: mux_reachable.induct)
  case (start rnd core up_buf down_buf m)
  then show ?case by (rule mux_init_inv)
next
  case (step m m')
  from step(2) show ?case
  proof (cases rule: mux_step.cases)
    case (up packet "from" mn md)
    then show ?thesis using uplink_total [OF step(3) up(1), of "from" mn md] by simp
  next
    case (down packet "from")
    then show ?thesis using downlink_inv [OF step(3)] by blast
  qed
qed

section \<open>The address table\<close>

text \<open>The specification: the last address of each TEID, except that the first TEID of a bucket keeps it.\<close>

definition mux_abs :: "mux \<Rightarrow> u32 \<Rightarrow> addr option" where
  "mux_abs m t = (case hashmap_get (mx_map m) t of Some (Some d) \<Rightarrow> Some (ue_addr d) | _ \<Rightarrow> None)"

definition learn :: "(u32 \<Rightarrow> nat option) \<Rightarrow> (u32 \<Rightarrow> addr option) \<Rightarrow> u32 \<Rightarrow> addr \<Rightarrow> u32 \<Rightarrow> addr option" where
  "learn slot A t a =
     (if \<exists>t'. t' \<noteq> t \<and> A t' \<noteq> None \<and> slot t' = slot t then A else A(t \<mapsto> a))"

lemma short_chain: "length l \<le> 1 \<Longrightarrow> l = [] \<or> l = [hd l]"
  by (cases l) auto

lemma mux_add_learn:
  assumes wf: "wf_hashmap hm" and short: "\<forall>l \<in> set (table hm). length l \<le> 1"
    and add: "mux_hashmap_add hm d True True = Some (st, hm')"
  shows "hashmap_get hm' h =
     (if h = hash_fn hm d \<and> (\<nexists>h'. h' \<noteq> h \<and> hashmap_get hm h' \<noteq> Some None \<and> bucket_index hm h' = bucket_index hm h)
      then Some (Some d) else hashmap_get hm h)"
proof -
  let ?k = "hash_fn hm d"
  obtain i where i: "bucket_index hm ?k = Some i" using bucket_index_wf [OF wf] by blast
  have il: "i < length (table hm)" by (rule mux_add_ok(2) [OF wf short i])
  let ?b = "table hm ! i"
  have b: "?b = [] \<or> ?b = [hd ?b]" using short il short_chain nth_mem by blast
  have hm': "hm' = hm\<lparr>table := (table hm)[i := (if ?b = [] \<or> hash_fn hm (hd ?b) = ?k then [d] else ?b)]\<rparr>"
    using add mux_add_ok(1) [OF wf short i] by simp
  have other: "(\<exists>h'. h' \<noteq> ?k \<and> hashmap_get hm h' \<noteq> Some None \<and> bucket_index hm h' = bucket_index hm ?k) \<longleftrightarrow>
      ?b \<noteq> [] \<and> hash_fn hm (hd ?b) \<noteq> ?k"
  proof
    assume "\<exists>h'. h' \<noteq> ?k \<and> hashmap_get hm h' \<noteq> Some None \<and> bucket_index hm h' = bucket_index hm ?k"
    then obtain h' where h': "h' \<noteq> ?k" "hashmap_get hm h' \<noteq> Some None" "bucket_index hm h' = Some i" using i by auto
    then have "find (\<lambda>x. hash_fn hm x = h') ?b \<noteq> None" using il by (simp add: hashmap_get_def)
    then show "?b \<noteq> [] \<and> hash_fn hm (hd ?b) \<noteq> ?k" using b h'(1) by (cases ?b) (auto split: if_splits)
  next
    assume n: "?b \<noteq> [] \<and> hash_fn hm (hd ?b) \<noteq> ?k"
    then have "hd ?b \<in> set ?b" by simp
    then have "bucket_index hm (hash_fn hm (hd ?b)) = Some i" using wf il by (simp add: wf_hashmap_def)
    moreover from this have "hashmap_get hm (hash_fn hm (hd ?b)) = Some (Some (hd ?b))"
      using il b n by (cases ?b) (simp_all add: hashmap_get_def)
    ultimately show "\<exists>h'. h' \<noteq> ?k \<and> hashmap_get hm h' \<noteq> Some None \<and> bucket_index hm h' = bucket_index hm ?k"
      using n i by (intro exI [of _ "hash_fn hm (hd ?b)"]) simp
  qed
  show ?thesis
  proof (cases "?b = [] \<or> hash_fn hm (hd ?b) = ?k")
    case True
    then have "find (\<lambda>x. hash_fn hm x = h') ?b = None" if "h' \<noteq> ?k" for h'
      using b that by (cases ?b) auto
    then have "hashmap_get hm' h = (if h = ?k then Some (Some d) else hashmap_get hm h)"
      unfolding hm' using True by (simp only: if_True, intro hashmap_get_update [OF wf i]) auto
    with True other show ?thesis by auto
  next
    case False
    then have "hm' = hm" unfolding hm' by simp
    with False other show ?thesis by auto
  qed
qed

lemma uplink_learns:
  assumes inv: "mux_inv m" and l: "8 \<le> length packet" "length packet \<le> 65536"
    and up: "uplink m from packet True True = Some m'"
    and t: "t = be32 (packet ! 4) (packet ! 5) (packet ! 6) (packet ! 7)"
  shows "mux_abs m' = learn (bucket_index (mx_map m)) (mux_abs m) t from"
proof -
  let ?b = "packet @ drop (length packet) (mx_up m)"
  let ?d = "\<lparr>ue_addr = from, ue_teid = t, ue_len = length from\<rparr>"
  have lu: "length (mx_up m) = 65536" using inv by (simp add: mux_inv_def)
  have mc: "memcpy (mx_up m) 0 packet (length packet) = Some ?b" using l lu by (simp add: memcpy_ok)
  have te: "get_ue_teid ?b = Some t" using l by (simp add: get_ue_teid_def rd_def nth_append t)
  from up obtain st hm' where add: "mux_hashmap_add (mx_map m) ?d True True = Some (st, hm')" and m': "mx_map m' = hm'"
    unfolding uplink_def mc bind.bind_lunit te Let_def by (auto split: bind_splits)
  have wf: "wf_hashmap (mx_map m)" and sh: "\<forall>l \<in> set (table (mx_map m)). length l \<le> 1"
    and f: "hash_fn (mx_map m) = data_hash" using inv by (simp_all add: mux_inv_def)
  have abs: "mux_abs m t' \<noteq> None \<longleftrightarrow> hashmap_get (mx_map m) t' \<noteq> Some None" for t'
    using hashmap_get_total [OF wf, of t'] by (auto simp: mux_abs_def split: option.splits)
  show ?thesis
  proof (rule ext)
    fix h
    show "mux_abs m' h = learn (bucket_index (mx_map m)) (mux_abs m) t from h"
      using mux_add_learn [OF wf sh add, of h] abs
      by (auto simp: learn_def mux_abs_def m' f data_hash_def)
  qed
qed

section \<open>Properties\<close>

definition ex_mux :: mux where
  "ex_mux = the (mux_init 0 [1] (replicate 65536 0) (replicate 65536 0))"

lemma ex_mux_init: "mux_init 0 [1] (replicate 65536 0) (replicate 65536 0) = Some ex_mux"
  by (simp add: ex_mux_def mux_init_def init_hashmap_def)

lemma ex_mux_reachable: "mux_reachable ex_mux"
  by (rule start [OF ex_mux_init]) simp_all

lemma ex_mux_map: "init_hashmap 8192 data_hash True True 0 = Some (mx_map ex_mux)"
  and ex_mux_fields: "mx_to_core ex_mux = []" "mx_coreaddr ex_mux = [1]"
proof -
  obtain hm where hm: "init_hashmap 8192 data_hash True True 0 = Some hm"
    by (simp add: init_hashmap_def)
  then have e: "ex_mux = \<lparr>mx_map = hm, mx_coreaddr = [1], mx_up = replicate 65536 0, mx_down = replicate 65536 0,
      mx_to_core = [], mx_to_ue = []\<rparr>"
    by (simp add: ex_mux_def mux_init_def)
  show "init_hashmap 8192 data_hash True True 0 = Some (mx_map ex_mux)" "mx_to_core ex_mux = []" "mx_coreaddr ex_mux = [1]"
    unfolding e using hm by simp_all
qed

text \<open>The packet of a UE: a GTP header with the TEID in bytes 4 to 7.\<close>

definition gtp :: "u32 \<Rightarrow> byte list" where
  "gtp t = [0x30, 0xff, 0, 0] @ UINT32_TO_ARRAY t"

lemma gtp_teid: "be32 (gtp t ! 4) (gtp t ! 5) (gtp t ! 6) (gtp t ! 7) = t" "length (gtp t) = 8"
  by (simp_all add: gtp_def UINT32_TO_ARRAY_def be32_bytes)

text \<open>
  C31.  Uplink forwarding never stops.  In every state that the two threads can reach, whatever packets came before
  and in whatever order, handling the next uplink packet terminates (the loop in \<open>hashmap_add\<close> that could run
  forever is never entered), forwards exactly that packet to the core, and leads to a reachable state.
\<close>

theorem uplink_always_forwards:
  assumes "mux_reachable m" and "length packet \<le> 65536"
  shows "\<exists>m'. uplink m from packet mn md = Some m' \<and> mx_to_core m' = mx_to_core m @ [(mx_coreaddr m, packet)] \<and>
     mux_reachable m'"
proof -
  obtain m' where m': "uplink m from packet mn md = Some m'" "mx_to_core m' = mx_to_core m @ [(mx_coreaddr m, packet)]"
    using uplink_total [OF mux_reachable_inv [OF assms(1)] assms(2)] by blast
  with mux_reachable.step [OF assms(1) mux_step.up [OF assms(2) m'(1)]] show ?thesis by blast
qed

theorem uplink_always_forwards_witness:
  "\<exists>m'. uplink ex_mux [9] [1, 2, 3] True True = Some m' \<and> mx_to_core m' = [([1], [1, 2, 3])]"
  using uplink_always_forwards [OF ex_mux_reachable, of "[1, 2, 3]" "[9]" True True] by (auto simp: ex_mux_fields)

text \<open>
  C32.  The table implements its specification: after an uplink packet with a TEID, the address of that TEID is the
  sender, and no other changes, unless another TEID already lives in the same bucket; then nothing is learned.
\<close>

theorem uplink_learns_address:
  assumes "mux_reachable m" and "8 \<le> length packet" and "length packet \<le> 65536"
    and "uplink m from packet True True = Some m'"
    and "t = be32 (packet ! 4) (packet ! 5) (packet ! 6) (packet ! 7)"
  shows "mux_abs m' = learn (bucket_index (mx_map m)) (mux_abs m) t from"
  by (rule uplink_learns [OF mux_reachable_inv [OF assms(1)] assms(2-5)])

lemma ex_mux_abs: "mux_abs ex_mux t = None"
  using get_init_hashmap [OF ex_mux_map, of t] by (simp add: mux_abs_def)

theorem uplink_learns_address_witness:
  "\<exists>m'. uplink ex_mux [9] (gtp 5) True True = Some m' \<and> mux_abs m' = [5 \<mapsto> [9]]"
proof -
  obtain m' where m': "uplink ex_mux [9] (gtp 5) True True = Some m'"
    using uplink_total [OF mux_reachable_inv [OF ex_mux_reachable], of "gtp 5"] gtp_teid(2) by force
  have "mux_abs m' = learn (bucket_index (mx_map ex_mux)) (mux_abs ex_mux) 5 [9]"
    by (rule uplink_learns_address [OF ex_mux_reachable _ _ m']) (simp_all add: gtp_teid)
  with m' show ?thesis by (auto simp: learn_def ex_mux_abs fun_eq_iff)
qed

text \<open>
  C33.  Two UEs in one bucket.  When the TEID of a UE shares its bucket with one that is known already, its uplink packets
  are forwarded but its address is never stored, and the first downlink packet for it (as for any unknown TEID)
  dereferences NULL: the multiplexer crashes for all UEs.
\<close>

theorem collision_crashes:
  assumes "mux_reachable m" and "mux_abs m t' = Some a" and "mux_abs m t = None"
    and "bucket_index (mx_map m) t' = bucket_index (mx_map m) t"
    and "8 \<le> length packet" and "length packet \<le> 65536" and "t = be32 (packet ! 4) (packet ! 5) (packet ! 6) (packet ! 7)"
  shows "\<exists>m'. uplink m from packet True True = Some m' \<and> mux_abs m' = mux_abs m \<and> downlink m' core packet = None"
proof -
  note inv = mux_reachable_inv [OF assms(1)]
  obtain m' where m': "uplink m from packet True True = Some m'" "mux_inv m'"
    using uplink_total [OF inv assms(6)] by blast
  have "t' \<noteq> t" using assms(2,3) by auto
  then have a: "mux_abs m' = mux_abs m"
    using uplink_learns [OF inv assms(5,6) m'(1) assms(7)] assms(2,4) by (auto simp: learn_def)
  have wf: "wf_hashmap (mx_map m')" and ld: "length (mx_down m') = 65536" using m'(2) by (simp_all add: mux_inv_def)
  have none: "mux_abs m' t = None" using a assms(3) by simp
  obtain r where r: "hashmap_get (mx_map m') t = Some r" using hashmap_get_total [OF wf, of t] by blast
  with none have g: "hashmap_get (mx_map m') t = Some None" by (cases r) (simp_all add: mux_abs_def)
  have mc: "memcpy (mx_down m') 0 packet (length packet) = Some (packet @ drop (length packet) (mx_down m'))"
    using assms(6) ld by (simp add: memcpy_ok)
  have "get_ue_teid (packet @ drop (length packet) (mx_down m')) = Some t"
    using assms(5,7) by (simp add: get_ue_teid_def rd_def nth_append)
  with g mc have "downlink m' core packet = None" by (simp add: downlink_def)
  with m'(1) a show ?thesis by blast
qed

lemma mux_add_slot: "mux_hashmap_add hm d mn md = Some (st, hm') \<Longrightarrow> bucket_index hm' = bucket_index hm"
  by (auto simp: mux_hashmap_add_def bucket_index_def Let_def fun_eq_iff split: if_splits bind_splits)

lemma uplink_slot: "uplink m from packet mn md = Some m' \<Longrightarrow> bucket_index (mx_map m') = bucket_index (mx_map m)"
  using mux_add_slot by (fastforce simp: uplink_def Let_def split: bind_splits)

lemma ex_mux_slot: "bucket_index (mx_map ex_mux) 2 = Some 2329" "bucket_index (mx_map ex_mux) 101 = Some 2329"
proof -
  have e: "mx_map ex_mux = \<lparr>initval = 0, hashmap_size = 8192, hash_fn = data_hash, table = replicate 8192 []\<rparr>"
    using ex_mux_map by (simp add: init_hashmap_def)
  have "unat (jhash 2 0 mod 8192) = 2329" "unat (jhash 101 0 mod 8192) = 2329" by code_simp+
  then show "bucket_index (mx_map ex_mux) 2 = Some 2329" "bucket_index (mx_map ex_mux) 101 = Some 2329"
    by (simp_all add: e bucket_index_def)
qed

theorem collision_crashes_witness:
  "\<exists>m m'. mux_reachable m \<and> mux_abs m = [2 \<mapsto> [9]] \<and> uplink m [7] (gtp 101) True True = Some m' \<and>
     mux_abs m' = [2 \<mapsto> [9]] \<and> downlink m' [1] (gtp 101) = None"
proof -
  note inv = mux_reachable_inv [OF ex_mux_reachable]
  obtain m where m: "uplink ex_mux [9] (gtp 2) True True = Some m"
    using uplink_total [OF inv, of "gtp 2"] gtp_teid(2) by force
  have r: "mux_reachable m"
    by (rule step [OF ex_mux_reachable mux_step.up [OF _ m]]) (simp add: gtp_teid)
  have a: "mux_abs m = [2 \<mapsto> [9]]"
    using uplink_learns [OF inv _ _ m, of 2] by (simp add: gtp_teid learn_def ex_mux_abs fun_eq_iff)
  have "bucket_index (mx_map m) 2 = bucket_index (mx_map m) 101"
    by (simp add: uplink_slot [OF m] ex_mux_slot)
  with r a collision_crashes [OF r, of 2 "[9]" 101 "gtp 101" "[7]" "[1]"] show ?thesis
    by (auto simp: gtp_teid)
qed

end
