(* ===== verification/Ue.thy ===== *)
theory Ue
  imports Prelude
begin

text \<open>
  The two objects of the RAN emulator: the UE of ran-emulator/source/ue.c and the base station of
  ran-emulator/source/enb.c.  An array member is a list of bytes, whose length \<open>wf_UE\<close> and \<open>wf_eNB\<close> fix; a getter
  that returns a pointer to a member is modelled by the bytes it points to.
\<close>

named_theorems ue_simps \<open>the getters and setters of a UE and of a base station\<close>

section \<open>UEs\<close>

record Auth_Challenge =
  RAND :: buf
  AUTN :: buf
  CK :: buf
  IK :: buf
  AK :: buf
  RES :: buf
  KASME :: buf
  NAS_KEY_ENC :: buf
  NAS_KEY_INT :: buf

record UE =
  ue_id :: u32
  ue_mcc :: buf
  ue_mnc :: buf
  ue_plmn :: buf
  ue_msin :: buf
  msin_string :: buf
  net_capabilities :: buf
  nas_session_security_algorithms :: byte
  ue_s1ap_id :: u32
  mme_s1ap_id :: buf
  mme_s1ap_id_len :: byte
  ue_key :: buf
  ue_op_key :: buf
  spgw_ip :: buf
  gtp_teid :: u32
  apn_name :: buf
  pdn_ip :: buf
  guti :: buf
  tun_name :: buf
  data_plane_socket :: u32
  tun_device :: u32
  ue_ip :: buf
  nas_sequence_number :: byte
  auth_challenge :: Auth_Challenge
  security_capabilities :: buf
  guami :: buf

definition wf_challenge :: "Auth_Challenge \<Rightarrow> bool" where
  "wf_challenge a \<longleftrightarrow> length (RAND a) = 16 \<and> length (AUTN a) = 16 \<and> length (CK a) = 16 \<and> length (IK a) = 16 \<and>
     length (AK a) = 16 \<and> length (RES a) = 8 \<and> length (KASME a) = 32 \<and>
     length (NAS_KEY_ENC a) = 16 \<and> length (NAS_KEY_INT a) = 16"

definition wf_UE :: "UE \<Rightarrow> bool" where
  "wf_UE u \<longleftrightarrow> length (ue_mcc u) = 3 \<and> length (ue_mnc u) = 2 \<and> length (ue_plmn u) = 3 \<and> length (ue_msin u) = 5 \<and>
     length (msin_string u) = 16 \<and> length (net_capabilities u) = 3 \<and> length (mme_s1ap_id u) = 16 \<and>
     length (ue_key u) = 16 \<and> length (ue_op_key u) = 16 \<and> length (spgw_ip u) = 4 \<and> length (apn_name u) = 32 \<and>
     length (pdn_ip u) = 4 \<and> length (guti u) = 10 \<and> length (tun_name u) = 32 \<and> length (ue_ip u) = 4 \<and>
     wf_challenge (auth_challenge u) \<and> length (security_capabilities u) = 4 \<and> length (guami u) = 6"

text \<open>
  The digits are C strings.  The subtraction and the shift are done on \<open>int\<close> and the result is stored in a
  \<open>uint8_t\<close>, which is the arithmetic on bytes.
\<close>

definition nibbles :: "byte \<Rightarrow> byte \<Rightarrow> byte" where
  "nibbles high low = push_bit 4 (high - 0x30) OR (low - 0x30)"

definition generate_plmn_UE :: "buf \<Rightarrow> buf \<Rightarrow> buf \<Rightarrow> buf option" where
  "generate_plmn_UE plmn mcc mnc = do {
     mcc0 \<leftarrow> rd mcc 0; mcc1 \<leftarrow> rd mcc 1; mcc2 \<leftarrow> rd mcc 2;
     mnc0 \<leftarrow> rd mnc 0; mnc1 \<leftarrow> rd mnc 1;
     plmn \<leftarrow> wr plmn 0 (push_bit 4 (mcc0 - 0x30));
     plmn \<leftarrow> wr plmn 1 (nibbles mcc2 mcc1);
     wr plmn 2 (nibbles mnc1 mnc0) }"

fun msin_loop :: "nat list \<Rightarrow> buf \<Rightarrow> buf \<Rightarrow> buf option" where
  "msin_loop [] msin msinText = Some msin"
| "msin_loop (i # is) msin msinText = do {
     c1 \<leftarrow> rd msinText (i + 1);
     c0 \<leftarrow> rd msinText i;
     msin \<leftarrow> wr msin (i div 2) (nibbles c1 c0);
     msin_loop is msin msinText }"

definition generate_msin :: "buf \<Rightarrow> buf \<Rightarrow> buf option" where
  "generate_msin msin msinText = msin_loop [0, 2, 4, 6, 8] msin msinText"

definition generate_net_capabilities :: "u16 \<Rightarrow> buf" where
  "generate_net_capabilities capabilities =
     [0x02, ucast (drop_bit 8 capabilities AND 0xFF), ucast (capabilities AND 0xFF)]"

text \<open>
  \<open>atoi\<close> of the text up to its NUL: its decimal digits, as far as they go, for texts that fit an \<open>int\<close>; a larger
  value is undefined and glibc truncates it to 32 bits, as is done here.  White space and signs do not occur.
\<close>

fun atoi :: "u32 \<Rightarrow> byte list \<Rightarrow> u32" where
  "atoi n [] = n"
| "atoi n (c # cs) = (if 0x30 \<le> c \<and> c \<le> 0x39 then atoi (10 * n + ucast (c - 0x30)) cs else n)"

definition TUN_NAME :: "byte list" where
  "TUN_NAME = str ''tunNervion'' @ [0]"

definition generate_tun_name :: "UE \<Rightarrow> buf \<Rightarrow> UE option" where
  "generate_tun_name ue msin = do {
     tun \<leftarrow> wrn (tun_name ue) 0 TUN_NAME;
     Some (ue\<lparr>ue_id := atoi 0 msin, tun_name := tun\<rparr>) }"

text \<open>
  \<open>init_UE\<close> on the memory \<open>fresh\<close> that \<open>GC_malloc\<close> returned; the result is \<open>Some None\<close> when it returns NULL.
\<close>

definition init_UE :: "UE option \<Rightarrow> buf \<Rightarrow> buf \<Rightarrow> buf \<Rightarrow> buf \<Rightarrow> buf \<Rightarrow> buf \<Rightarrow> UE option option" where
  "init_UE fresh mcc mnc msin key op ip =
     (case fresh of
        None \<Rightarrow> Some None
      | Some ue \<Rightarrow> do {
          s \<leftarrow> memset (msin_string ue) 0 0 16;
          s \<leftarrow> memcpy s 0 msin 16;
          plmn \<leftarrow> generate_plmn_UE (ue_plmn ue) mcc mnc;
          m \<leftarrow> generate_msin (ue_msin ue) s;
          let ue = ue\<lparr>msin_string := s, ue_plmn := plmn, ue_msin := m,
                      net_capabilities := generate_net_capabilities 0x8020\<rparr>;
          ue \<leftarrow> generate_tun_name ue (msin_string ue);
          k \<leftarrow> memcpy (ue_key ue) 0 key 16;
          opk \<leftarrow> memcpy (ue_op_key ue) 0 op 16;
          i \<leftarrow> memcpy (ue_ip ue) 0 ip 4;
          mcc \<leftarrow> memcpy (ue_mcc ue) 0 mcc 3;
          mnc \<leftarrow> memcpy (ue_mnc ue) 0 mnc 2;
          m2 \<leftarrow> rd m 2; m3 \<leftarrow> rd m 3; m4 \<leftarrow> rd m 4;
          Some (Some (ue\<lparr>ue_key := k, ue_op_key := opk, mme_s1ap_id_len := 0, ue_ip := i, ue_mcc := mcc,
            ue_mnc := mnc, nas_sequence_number := 0,
            ue_s1ap_id := 0x80000000 OR push_bit 16 (ucast m2) OR push_bit 8 (ucast m3) OR ucast m4\<rparr>)) })"

definition get_ue_plmn :: "UE \<Rightarrow> buf" where [ue_simps]: "get_ue_plmn ue = ue_plmn ue"
definition get_ue_mcc :: "UE \<Rightarrow> buf" where [ue_simps]: "get_ue_mcc ue = ue_mcc ue"
definition get_ue_mnc :: "UE \<Rightarrow> buf" where [ue_simps]: "get_ue_mnc ue = ue_mnc ue"
definition get_ue_msin :: "UE \<Rightarrow> buf" where [ue_simps]: "get_ue_msin ue = ue_msin ue"
definition get_ue_capabilities :: "UE \<Rightarrow> buf" where [ue_simps]: "get_ue_capabilities ue = net_capabilities ue"
definition get_ue_s1ap_id :: "UE \<Rightarrow> u32" where [ue_simps]: "get_ue_s1ap_id ue = ue_s1ap_id ue"
definition get_ue_key :: "UE \<Rightarrow> buf" where [ue_simps]: "get_ue_key ue = ue_key ue"
definition get_ue_op_key :: "UE \<Rightarrow> buf" where [ue_simps]: "get_ue_op_key ue = ue_op_key ue"
definition get_spgw_ip :: "UE \<Rightarrow> buf" where [ue_simps]: "get_spgw_ip ue = spgw_ip ue"
definition get_gtp_teid :: "UE \<Rightarrow> u32" where [ue_simps]: "get_gtp_teid ue = gtp_teid ue"
definition get_apn_name :: "UE \<Rightarrow> buf" where [ue_simps]: "get_apn_name ue = apn_name ue"
definition get_pdn_ip :: "UE \<Rightarrow> buf" where [ue_simps]: "get_pdn_ip ue = pdn_ip ue"
definition get_guti :: "UE \<Rightarrow> buf" where [ue_simps]: "get_guti ue = guti ue"
definition get_tun_name :: "UE \<Rightarrow> buf" where [ue_simps]: "get_tun_name ue = tun_name ue"
definition get_data_plane_socket :: "UE \<Rightarrow> u32" where [ue_simps]: "get_data_plane_socket ue = data_plane_socket ue"
definition get_tun_device :: "UE \<Rightarrow> u32" where [ue_simps]: "get_tun_device ue = tun_device ue"
definition get_ue_id :: "UE \<Rightarrow> u32" where [ue_simps]: "get_ue_id ue = ue_id ue"
definition get_ue_ip :: "UE \<Rightarrow> buf" where [ue_simps]: "get_ue_ip ue = ue_ip ue"
definition get_auth_challenge :: "UE \<Rightarrow> Auth_Challenge" where [ue_simps]: "get_auth_challenge ue = auth_challenge ue"
definition get_msin_string :: "UE \<Rightarrow> buf" where [ue_simps]: "get_msin_string ue = msin_string ue"
definition get_security_capabilities :: "UE \<Rightarrow> buf" where
  [ue_simps]: "get_security_capabilities ue = security_capabilities ue"
definition get_guami :: "UE \<Rightarrow> buf" where [ue_simps]: "get_guami ue = guami ue"
definition get_mme_code :: "UE \<Rightarrow> byte option" where [ue_simps]: "get_mme_code ue = rd (guti ue) 5"
definition get_m_tmsi :: "UE \<Rightarrow> buf" where [ue_simps]: "get_m_tmsi ue = drop 6 (guti ue)"

definition get_nas_session_enc_alg :: "UE \<Rightarrow> byte" where
  "get_nas_session_enc_alg ue = drop_bit 4 (nas_session_security_algorithms ue AND 0x70)"

definition get_nas_session_int_alg :: "UE \<Rightarrow> byte" where
  "get_nas_session_int_alg ue = nas_session_security_algorithms ue AND 0x07"

definition get_mme_s1ap_id :: "UE \<Rightarrow> buf \<times> byte" where
  [ue_simps]: "get_mme_s1ap_id ue = (mme_s1ap_id ue, mme_s1ap_id_len ue)"

text \<open>\<open>memcpy\<close> with a length from the network: more than 16 bytes are written outside the member.\<close>

definition set_mme_s1ap_id :: "UE \<Rightarrow> buf \<Rightarrow> byte \<Rightarrow> UE option" where
  "set_mme_s1ap_id ue src len = do {
     b \<leftarrow> memcpy (mme_s1ap_id ue) 0 src (unat len);
     Some (ue\<lparr>mme_s1ap_id := b, mme_s1ap_id_len := len\<rparr>) }"

definition reset_mme_s1ap_id_len :: "UE \<Rightarrow> UE" where
  [ue_simps]: "reset_mme_s1ap_id_len ue = ue\<lparr>mme_s1ap_id_len := 0\<rparr>"

definition set_nas_session_security_algorithms :: "UE \<Rightarrow> byte \<Rightarrow> UE" where
  [ue_simps]: "set_nas_session_security_algorithms ue algs = ue\<lparr>nas_session_security_algorithms := algs\<rparr>"

definition set_spgw_ip :: "UE \<Rightarrow> buf \<Rightarrow> UE option" where
  "set_spgw_ip ue ip = do { b \<leftarrow> memcpy (spgw_ip ue) 0 ip 4; Some (ue\<lparr>spgw_ip := b\<rparr>) }"

definition set_gtp_teid :: "UE \<Rightarrow> u32 \<Rightarrow> UE" where
  [ue_simps]: "set_gtp_teid ue teid = ue\<lparr>gtp_teid := teid\<rparr>"

definition set_apn_name :: "UE \<Rightarrow> buf \<Rightarrow> byte \<Rightarrow> UE option" where
  "set_apn_name ue name name_len = do {
     let len = (if name_len > 31 then 31 else name_len);
     b \<leftarrow> memcpy (apn_name ue) 0 name (unat len);
     b \<leftarrow> wr b (unat len) 0;
     Some (ue\<lparr>apn_name := b\<rparr>) }"

definition set_pdn_ip :: "UE \<Rightarrow> buf \<Rightarrow> UE option" where
  "set_pdn_ip ue ip = do { b \<leftarrow> memcpy (pdn_ip ue) 0 ip 4; Some (ue\<lparr>pdn_ip := b\<rparr>) }"

definition set_guti :: "UE \<Rightarrow> buf \<Rightarrow> UE option" where
  "set_guti ue src = do { b \<leftarrow> memcpy (guti ue) 0 src 10; Some (ue\<lparr>guti := b\<rparr>) }"

definition set_guami :: "UE \<Rightarrow> buf \<Rightarrow> UE option" where
  "set_guami ue src = do { b \<leftarrow> memcpy (guami ue) 0 src 6; Some (ue\<lparr>guami := b\<rparr>) }"

definition set_security_capabilities :: "UE \<Rightarrow> buf \<Rightarrow> UE option" where
  "set_security_capabilities ue sec_cap = do {
     b \<leftarrow> memcpy (security_capabilities ue) 0 sec_cap 4; Some (ue\<lparr>security_capabilities := b\<rparr>) }"

definition set_data_plane_socket :: "UE \<Rightarrow> u32 \<Rightarrow> UE" where
  [ue_simps]: "set_data_plane_socket ue sockfd = ue\<lparr>data_plane_socket := sockfd\<rparr>"

definition set_tun_device :: "UE \<Rightarrow> u32 \<Rightarrow> UE" where
  [ue_simps]: "set_tun_device ue tun = ue\<lparr>tun_device := tun\<rparr>"

text \<open>The sequence number is read and advanced in one call.\<close>

definition get_nas_sequence_number :: "UE \<Rightarrow> byte \<times> UE" where
  "get_nas_sequence_number ue = (nas_sequence_number ue, ue\<lparr>nas_sequence_number := nas_sequence_number ue + 1\<rparr>)"

definition reset_nas_sequence_number :: "UE \<Rightarrow> UE" where
  [ue_simps]: "reset_nas_sequence_number ue = ue\<lparr>nas_sequence_number := 0\<rparr>"

text \<open>\<open>memcmp\<close> of the ten digits; only whether it is zero is used.\<close>

definition ue_compare :: "UE \<Rightarrow> buf \<Rightarrow> bool option" where
  "ue_compare ue key = do { k \<leftarrow> rdn key 0 10; s \<leftarrow> rdn (msin_string ue) 0 10; Some (s = k) }"

section \<open>Base stations\<close>

record eNB =
  enb_id :: u32
  enb_plmn :: buf
  enb_ip :: buf
  mme_socket :: int
  spgw_socket :: int

definition wf_eNB :: "eNB \<Rightarrow> bool" where
  "wf_eNB e \<longleftrightarrow> length (enb_plmn e) = 3 \<and> length (enb_ip e) = 4"

definition generate_plmn_eNB :: "buf \<Rightarrow> buf \<Rightarrow> buf \<Rightarrow> buf option" where
  "generate_plmn_eNB plmn mcc mnc = do {
     mcc0 \<leftarrow> rd mcc 0; mcc1 \<leftarrow> rd mcc 1; mcc2 \<leftarrow> rd mcc 2;
     mnc0 \<leftarrow> rd mnc 0; mnc1 \<leftarrow> rd mnc 1;
     plmn \<leftarrow> wr plmn 0 (nibbles mcc1 mcc0);
     plmn \<leftarrow> wr plmn 1 (0xF0 OR (mcc2 - 0x30));
     wr plmn 2 (nibbles mnc1 mnc0) }"

definition init_eNB :: "eNB option \<Rightarrow> u32 \<Rightarrow> buf \<Rightarrow> buf \<Rightarrow> buf \<Rightarrow> eNB option option" where
  "init_eNB fresh i mcc mnc ip =
     (case fresh of
        None \<Rightarrow> Some None
      | Some enb \<Rightarrow> do {
          plmn \<leftarrow> generate_plmn_eNB (enb_plmn enb) mcc mnc;
          a \<leftarrow> memcpy (enb_ip enb) 0 ip 4;
          Some (Some (enb\<lparr>enb_id := i, enb_plmn := plmn, enb_ip := a, mme_socket := -1, spgw_socket := -1\<rparr>)) })"

definition get_plmn :: "eNB \<Rightarrow> buf" where [ue_simps]: "get_plmn enb = enb_plmn enb"
definition get_enb_id :: "eNB \<Rightarrow> u32" where [ue_simps]: "get_enb_id enb = enb_id enb"
definition get_enb_ip :: "eNB \<Rightarrow> buf" where [ue_simps]: "get_enb_ip enb = enb_ip enb"
definition get_mme_socket :: "eNB \<Rightarrow> int" where [ue_simps]: "get_mme_socket enb = mme_socket enb"
definition get_spgw_socket :: "eNB \<Rightarrow> int" where [ue_simps]: "get_spgw_socket enb = spgw_socket enb"
definition set_mme_socket :: "eNB \<Rightarrow> int \<Rightarrow> eNB" where [ue_simps]: "set_mme_socket enb s = enb\<lparr>mme_socket := s\<rparr>"
definition set_spgw_socket :: "eNB \<Rightarrow> int \<Rightarrow> eNB" where [ue_simps]: "set_spgw_socket enb s = enb\<lparr>spgw_socket := s\<rparr>"

section \<open>The members keep their lengths\<close>

lemma wf_UE_setters:
  "wf_UE u \<Longrightarrow> set_mme_s1ap_id u src n = Some u' \<Longrightarrow> wf_UE u'"
  "wf_UE u \<Longrightarrow> set_spgw_ip u src = Some u' \<Longrightarrow> wf_UE u'"
  "wf_UE u \<Longrightarrow> set_pdn_ip u src = Some u' \<Longrightarrow> wf_UE u'"
  "wf_UE u \<Longrightarrow> set_guti u src = Some u' \<Longrightarrow> wf_UE u'"
  "wf_UE u \<Longrightarrow> set_guami u src = Some u' \<Longrightarrow> wf_UE u'"
  "wf_UE u \<Longrightarrow> wf_UE (set_gtp_teid u t)"
  "wf_UE u \<Longrightarrow> wf_UE (set_nas_session_security_algorithms u a)"
  "wf_UE u \<Longrightarrow> wf_UE (reset_nas_sequence_number u)"
  by (auto simp: wf_UE_def set_mme_s1ap_id_def set_spgw_ip_def set_pdn_ip_def set_guti_def set_guami_def
      set_gtp_teid_def set_nas_session_security_algorithms_def reset_nas_sequence_number_def
      split: Option.bind_splits dest: memcpy_length)

text \<open>A setter with enough bytes stores them.\<close>

lemma setters_ok:
  assumes "wf_UE u"
  shows "unat n \<le> 16 \<Longrightarrow> unat n \<le> length src \<Longrightarrow> set_mme_s1ap_id u src n =
      Some (u\<lparr>mme_s1ap_id := take (unat n) src @ drop (unat n) (mme_s1ap_id u), mme_s1ap_id_len := n\<rparr>)"
    and "4 \<le> length src \<Longrightarrow> set_spgw_ip u src = Some (u\<lparr>spgw_ip := take 4 src\<rparr>)"
    and "4 \<le> length src \<Longrightarrow> set_pdn_ip u src = Some (u\<lparr>pdn_ip := take 4 src\<rparr>)"
    and "10 \<le> length src \<Longrightarrow> set_guti u src = Some (u\<lparr>guti := take 10 src\<rparr>)"
    and "6 \<le> length src \<Longrightarrow> set_guami u src = Some (u\<lparr>guami := take 6 src\<rparr>)"
  using assms
  by (simp_all add: wf_UE_def set_mme_s1ap_id_def set_spgw_ip_def set_pdn_ip_def set_guti_def set_guami_def memcpy_ok)

lemma length_plmn: "generate_plmn_UE p a b = Some p' \<Longrightarrow> length p' = length p"
  "generate_plmn_eNB p a b = Some p' \<Longrightarrow> length p' = length p"
  by (auto simp: generate_plmn_UE_def generate_plmn_eNB_def split: Option.bind_splits dest!: wr_length)

lemma length_msin_loop: "msin_loop is m t = Some m' \<Longrightarrow> length m' = length m"
  by (induction "is" arbitrary: m) (auto split: Option.bind_splits dest!: wr_length)

lemma length_generate_msin: "generate_msin m t = Some m' \<Longrightarrow> length m' = length m"
  unfolding generate_msin_def by (rule length_msin_loop)

lemma init_UE_wf:
  assumes "init_UE (Some fresh) mcc mnc msin key op ip = Some (Some u)" and "wf_UE fresh"
  shows "wf_UE u" and "nas_sequence_number u = 0" and "mme_s1ap_id_len u = 0"
  using assms
  by (auto simp: init_UE_def wf_UE_def generate_tun_name_def generate_net_capabilities_def memset_def
      Let_def split: Option.bind_splits dest!: memcpy_length wrn_length length_plmn length_generate_msin)

lemma init_eNB_wf: "init_eNB (Some fresh) i mcc mnc ip = Some (Some e) \<Longrightarrow> wf_eNB fresh \<Longrightarrow> wf_eNB e"
  by (auto simp: init_eNB_def wf_eNB_def split: Option.bind_splits dest!: memcpy_length length_plmn)

end
