(* ===== verification/Ngap.thy ===== *)
theory Ngap
  imports Ue Ran_Crypto
begin

text \<open>
  The NGAP messages of ran-emulator/source/ngap.c: one definition per \<open>add_...\<close> and \<open>generate_...\<close> function.
  The parameter \<open>buffer\<close> of the code is the whole array \<open>b\<close> with the offset \<open>p\<close> the caller has added to it, and
  the result is the array with the number of bytes that the code returns.  Consecutive assignments \<open>buffer[i] = v\<close>
  are one \<open>poke\<close>.  \<open>CMAC\<close> and the arrays without initialiser are the record \<open>env\<close>.
\<close>

section \<open>The environment\<close>

record env =
  e_cmac :: "byte list \<Rightarrow> byte list \<Rightarrow> byte list"
  e_hmac :: hmac_sha256
  e_input63 :: buf
  e_input64 :: buf
  e_key32 :: buf
  e_input8 :: buf

definition wf_env :: "env \<Rightarrow> bool" where
  "wf_env E \<longleftrightarrow> (\<forall>k m. length (e_cmac E k m) = 16) \<and> length (e_input63 E) = 63 \<and> length (e_input64 E) = 64 \<and>
     length (e_key32 E) = 32 \<and> length (e_input8 E) = 8"

fun poke :: "buf \<Rightarrow> nat \<Rightarrow> byte list \<Rightarrow> buf option" where
  "poke b i [] = Some b"
| "poke b i (x # xs) = do { b \<leftarrow> wr b i x; poke b (i + 1) xs }"

section \<open>Constants\<close>

abbreviation (input) CRITICALITY_REJECT :: byte where "CRITICALITY_REJECT \<equiv> 0x00"
abbreviation (input) CRITICALITY_IGNORE :: byte where "CRITICALITY_IGNORE \<equiv> 0x40"
abbreviation (input) SUCCESFUL_OUTCOME :: byte where "SUCCESFUL_OUTCOME \<equiv> 0x20"
abbreviation (input) ID_NG_SETUP :: byte where "ID_NG_SETUP \<equiv> 0x15"
abbreviation (input) ID_GLOBAL_RAN_NODE_ID :: byte where "ID_GLOBAL_RAN_NODE_ID \<equiv> 0x1b"
abbreviation (input) GLOBAL_GNB_ID :: byte where "GLOBAL_GNB_ID \<equiv> 0"
abbreviation (input) ID_RAN_NODE_NAME :: byte where "ID_RAN_NODE_NAME \<equiv> 0x52"
abbreviation (input) ID_SUPPORTED_TA_LIST :: byte where "ID_SUPPORTED_TA_LIST \<equiv> 0x66"
abbreviation (input) ID_DEFAULT_PAGING_DRX :: byte where "ID_DEFAULT_PAGING_DRX \<equiv> 0x15"
abbreviation (input) PAGING_DRX_128 :: byte where "PAGING_DRX_128 \<equiv> 0x40"
abbreviation (input) ID_AMF_NAME :: byte where "ID_AMF_NAME \<equiv> 0x01"
abbreviation (input) ID_SERVER_GUAMI_LIST :: byte where "ID_SERVER_GUAMI_LIST \<equiv> 0x60"
abbreviation (input) ID_RELATIVE_AMF_CAPACITY :: byte where "ID_RELATIVE_AMF_CAPACITY \<equiv> 0x56"
abbreviation (input) ID_PLMN_SUPPORT_LIST :: byte where "ID_PLMN_SUPPORT_LIST \<equiv> 0x50"
abbreviation (input) ID_INITIAL_UE_MESSAGE :: byte where "ID_INITIAL_UE_MESSAGE \<equiv> 0x0F"
abbreviation (input) ID_RAN_UE_NGAP_ID :: byte where "ID_RAN_UE_NGAP_ID \<equiv> 0x55"
abbreviation (input) ID_NAS_PDU :: byte where "ID_NAS_PDU \<equiv> 0x26"
abbreviation (input) EPD_5G_Mobility_Management_Messages :: byte where "EPD_5G_Mobility_Management_Messages \<equiv> 0x7e"
abbreviation (input) MESSAGE_TYPE_REGISTRATION_REQUEST :: byte where "MESSAGE_TYPE_REGISTRATION_REQUEST \<equiv> 0x41"
abbreviation (input) ID_5GS_REGISTRATION_TYPE :: byte where "ID_5GS_REGISTRATION_TYPE \<equiv> 0x09"
abbreviation (input) NAS_KEY_SET_IDENTIFIER :: byte where "NAS_KEY_SET_IDENTIFIER \<equiv> 0x70"
abbreviation (input) ID_USER_LOCATION_INFORMATION :: byte where "ID_USER_LOCATION_INFORMATION \<equiv> 0x79"
abbreviation (input) ID_NR_CGI :: byte where "ID_NR_CGI \<equiv> 0x40"
abbreviation (input) ID_RCC_ESTABLISHMENT_CAUSE :: byte where "ID_RCC_ESTABLISHMENT_CAUSE \<equiv> 0x5a"
abbreviation (input) CAUSE_MT_ACCESS :: byte where "CAUSE_MT_ACCESS \<equiv> 0x10"
abbreviation (input) ID_UE_CONTEXT_REQUEST :: byte where "ID_UE_CONTEXT_REQUEST \<equiv> 0x70"
abbreviation (input) ID_DOWNLINK_NAS_TRANSPORT :: byte where "ID_DOWNLINK_NAS_TRANSPORT \<equiv> 0x04"
abbreviation (input) ID_AMF_UE_NGAP_ID :: byte where "ID_AMF_UE_NGAP_ID \<equiv> 0x0a"
abbreviation (input) AUTHENTICATION_REQUEST :: byte where "AUTHENTICATION_REQUEST \<equiv> 0x56"
abbreviation (input) ID_UPLINK_NAS_TRANSPORT :: byte where "ID_UPLINK_NAS_TRANSPORT \<equiv> 0x2e"
abbreviation (input) MESSAGE_TYPE_AUTHENTICATION_RESPONSE :: byte where "MESSAGE_TYPE_AUTHENTICATION_RESPONSE \<equiv> 0x57"
abbreviation (input) SECURITY_MODE_COMMAND :: byte where "SECURITY_MODE_COMMAND \<equiv> 0x5D"
abbreviation (input) REGISTRATION_REQUEST :: byte where "REGISTRATION_REQUEST \<equiv> 0x41"
abbreviation (input) SECURITY_MODE_COMPLETE :: byte where "SECURITY_MODE_COMPLETE \<equiv> 0x5e"
abbreviation (input) ID_INITIAL_CONTEXT_SETUP :: byte where "ID_INITIAL_CONTEXT_SETUP \<equiv> 0x0E"
abbreviation (input) ID_GUAMI :: byte where "ID_GUAMI \<equiv> 0x1C"
abbreviation (input) ID_ALLOWED_NSSAI :: byte where "ID_ALLOWED_NSSAI \<equiv> 0x00"
abbreviation (input) ID_UE_SECURITY_CAPABILITIES :: byte where "ID_UE_SECURITY_CAPABILITIES \<equiv> 0x77"
abbreviation (input) ID_SECURITY_KEY :: byte where "ID_SECURITY_KEY \<equiv> 0x5E"
abbreviation (input) ID_MOBILE_RESTRICTION_LIST :: byte where "ID_MOBILE_RESTRICTION_LIST \<equiv> 0x24"
abbreviation (input) ID_MASKED_IMEI_SV :: byte where "ID_MASKED_IMEI_SV \<equiv> 0x22"
abbreviation (input) REGISTRATION_ACCEPT :: byte where "REGISTRATION_ACCEPT \<equiv> 0x42"
abbreviation (input) ID_PDU_SESSION_RESOURCE_SETUP :: byte where "ID_PDU_SESSION_RESOURCE_SETUP \<equiv> 0x1d"
abbreviation (input) UL_NAS_TRANSPORT :: byte where "UL_NAS_TRANSPORT \<equiv> 0x67"
abbreviation (input) EPD_5G_Session_Management_Messages :: byte where "EPD_5G_Session_Management_Messages \<equiv> 0x2e"
abbreviation (input) ID_UE_AGGREGATE_MAXIMUM_BIT_RATE :: byte where "ID_UE_AGGREGATE_MAXIMUM_BIT_RATE \<equiv> 0x6e"
abbreviation (input) ID_PDU_SESSION_RESOURCE_SETUP_LIST_SU_REQ :: byte where "ID_PDU_SESSION_RESOURCE_SETUP_LIST_SU_REQ \<equiv> 0x4a"
abbreviation (input) CONFIGURATION_UPDATE_COMMAND :: byte where "CONFIGURATION_UPDATE_COMMAND \<equiv> 0x54"
abbreviation (input) REGISTRATION_COMPLETE :: byte where "REGISTRATION_COMPLETE \<equiv> 0x43"
abbreviation (input) ID_CAUSE :: byte where "ID_CAUSE \<equiv> 0x0F"
abbreviation (input) ID_UE_CONTEXT_RELEASE :: byte where "ID_UE_CONTEXT_RELEASE \<equiv> 0x29"
abbreviation (input) DEREGISTRATION_ACCEPT :: byte where "DEREGISTRATION_ACCEPT \<equiv> 0x46"
abbreviation (input) ID_UE_NGAP_IDS :: byte where "ID_UE_NGAP_IDS \<equiv> 0x72"
abbreviation (input) ID_PDU_SESSION_RESOURCE_SETUP_LIST_SU_RES :: byte where "ID_PDU_SESSION_RESOURCE_SETUP_LIST_SU_RES \<equiv> 0x4b"
abbreviation (input) DEREGISTRATION_REQUEST :: byte where "DEREGISTRATION_REQUEST \<equiv> 0x45"

text \<open>\<open>bzero(buffer, NG_REGISTRATION_REQUEST_LEN)\<close>, which every message but the first does\<close>

definition NG_SETUP_REQUEST_LEN :: nat where "NG_SETUP_REQUEST_LEN = 53"
definition NG_REGISTRATION_REQUEST_LEN :: nat where "NG_REGISTRATION_REQUEST_LEN = 69"

section \<open>NG Setup Request\<close>

definition add_NG_Setup_header :: "buf \<Rightarrow> nat \<Rightarrow> (buf \<times> nat) option" where
  "add_NG_Setup_header b p = do {
     b \<leftarrow> poke b p [0, ID_NG_SETUP, CRITICALITY_REJECT, 0x35, 0, 0, 4];
     Some (b, 7) }"

definition add_protocolIE_Global_RAN_Node_ID :: "eNB \<Rightarrow> buf \<Rightarrow> nat \<Rightarrow> (buf \<times> nat) option" where
  "add_protocolIE_Global_RAN_Node_ID enb b p = do {
     let enb_id = get_enb_id enb;
     b \<leftarrow> poke b p [0, ID_GLOBAL_RAN_NODE_ID, CRITICALITY_REJECT, 8, GLOBAL_GNB_ID];
     b \<leftarrow> memcpy b (p + 5) (get_plmn enb) 3;
     let enb_id = push_bit 2 enb_id;
     b \<leftarrow> poke b (p + 8) (UINT32_TO_ARRAY enb_id);
     Some (b, 12) }"

definition RAN_NODE_NAME :: "byte list" where
  "RAN_NODE_NAME = str ''Nervion'' @ [0]"

definition add_protocolIE_RAN_Node_Name :: "buf \<Rightarrow> nat \<Rightarrow> (buf \<times> nat) option" where
  "add_protocolIE_RAN_Node_Name b p = do {
     b \<leftarrow> poke b p [0, ID_RAN_NODE_NAME, CRITICALITY_IGNORE, 9, 0x03, 0];
     b \<leftarrow> memcpy b (p + 6) RAN_NODE_NAME 7;
     Some (b, 13) }"

definition add_protocolIE_TA_List :: "eNB \<Rightarrow> buf \<Rightarrow> nat \<Rightarrow> (buf \<times> nat) option" where
  "add_protocolIE_TA_List enb b p = do {
     b \<leftarrow> poke b p [0, ID_SUPPORTED_TA_LIST, CRITICALITY_REJECT, 0x10, 0, 0, 0, 0, 1, 0];
     b \<leftarrow> memcpy b (p + 10) (get_plmn enb) 3;
     b \<leftarrow> poke b (p + 13) [0, 0, 0x10, 0x08, 0x00, 0x00, 0x01];
     Some (b, 20) }"

definition add_protocolIE_DefaultPaging_DRX :: "buf \<Rightarrow> nat \<Rightarrow> (buf \<times> nat) option" where
  "add_protocolIE_DefaultPaging_DRX b p = do {
     b \<leftarrow> poke b p [0, ID_DEFAULT_PAGING_DRX, CRITICALITY_IGNORE, 1, PAGING_DRX_128];
     Some (b, 5) }"

definition generate_NG_SetupRequest :: "buf \<Rightarrow> eNB \<Rightarrow> (buf \<times> nat) option" where
  "generate_NG_SetupRequest buffer enb = do {
     b \<leftarrow> memset buffer 0 0 NG_SETUP_REQUEST_LEN;
     (b, offset) \<leftarrow> add_NG_Setup_header b 0;
     (b, n) \<leftarrow> add_protocolIE_Global_RAN_Node_ID enb b offset;
     let offset = offset + n;
     (b, n) \<leftarrow> add_protocolIE_RAN_Node_Name b offset;
     let offset = offset + n;
     (b, n) \<leftarrow> add_protocolIE_TA_List enb b offset;
     let offset = offset + n;
     (b, n) \<leftarrow> add_protocolIE_DefaultPaging_DRX b offset;
     Some (b, offset + n) }"

section \<open>Information elements of several messages\<close>

definition add_protocolIE_RAN_UE_NGAP_ID :: "UE \<Rightarrow> buf \<Rightarrow> nat \<Rightarrow> (buf \<times> nat) option" where
  "add_protocolIE_RAN_UE_NGAP_ID ue b p = do {
     let ngap_id = get_ue_id ue;
     b \<leftarrow> poke b p [0, ID_RAN_UE_NGAP_ID, CRITICALITY_REJECT, 3, 0x40,
            ucast (drop_bit 8 ngap_id AND 0xFF), ucast (ngap_id AND 0xFF)];
     Some (b, 7) }"

text \<open>\<open>header\<close> is the offset of the message header, whose length byte grows by the length of the identifier.\<close>

definition add_protocolIE_AMF_UE_NGAP_ID :: "UE \<Rightarrow> buf \<Rightarrow> nat \<Rightarrow> nat \<Rightarrow> (buf \<times> nat) option" where
  "add_protocolIE_AMF_UE_NGAP_ID ue b p header =
     (case get_mme_s1ap_id ue of (amf_id, len) \<Rightarrow> do {
        b \<leftarrow> poke b p [0, ID_AMF_UE_NGAP_ID, CRITICALITY_REJECT, len];
        b \<leftarrow> memcpy b (p + 4) amf_id (unat len);
        h \<leftarrow> rd b (header + 3);
        b \<leftarrow> wr b (header + 3) (h + len);
        Some (b, 4 + unat len) })"

definition add_protocolIE_User_Location_Information :: "eNB \<Rightarrow> buf \<Rightarrow> nat \<Rightarrow> (buf \<times> nat) option" where
  "add_protocolIE_User_Location_Information enb b p = do {
     let enb_id = get_enb_id enb;
     b \<leftarrow> poke b p [0, ID_USER_LOCATION_INFORMATION, CRITICALITY_REJECT, 0x0F, ID_NR_CGI];
     b \<leftarrow> memcpy b (p + 5) (get_plmn enb) 3;
     b \<leftarrow> poke b (p + 8) (UINT32_TO_ARRAY enb_id @ [0]);
     b \<leftarrow> memcpy b (p + 13) (get_plmn enb) 3;
     b \<leftarrow> poke b (p + 16) [0x00, 0x00, 0x01];
     Some (b, 19) }"

text \<open>The function \<open>nas_integrity_eia2(key, buffer + 11, n, count, bearer, buffer + 7)\<close> on a NAS message at \<open>p\<close>.\<close>

definition add_mac :: "env \<Rightarrow> UE \<Rightarrow> buf \<Rightarrow> nat \<Rightarrow> byte \<Rightarrow> u32 \<Rightarrow> buf option" where
  "add_mac E ue b p n count = do {
     mac \<leftarrow> nas_integrity_eia2 (e_cmac E) (NAS_KEY_INT (get_auth_challenge ue)) (drop (p + 11) b) n count 1;
     wrn b (p + 7) mac }"

section \<open>Registration Request\<close>

definition add_NG_Registration_Request_Header :: "buf \<Rightarrow> nat \<Rightarrow> (buf \<times> nat) option" where
  "add_NG_Registration_Request_Header b p = do {
     b \<leftarrow> poke b p [0, ID_INITIAL_UE_MESSAGE, CRITICALITY_IGNORE, 0x52, 0, 0, 5];
     Some (b, 7) }"

definition add_protocolIE_NAS_PDU_Registration_Request :: "UE \<Rightarrow> eNB \<Rightarrow> buf \<Rightarrow> nat \<Rightarrow> (buf \<times> nat) option" where
  "add_protocolIE_NAS_PDU_Registration_Request ue enb b p = do {
     b \<leftarrow> poke b p [0, ID_NAS_PDU, CRITICALITY_REJECT, 0x27, 0x26, EPD_5G_Mobility_Management_Messages, 0,
            MESSAGE_TYPE_REGISTRATION_REQUEST, ID_5GS_REGISTRATION_TYPE OR NAS_KEY_SET_IDENTIFIER,
            0, 0x0d, 0x01];
     b \<leftarrow> memcpy b (p + 12) (get_plmn enb) 3;
     b \<leftarrow> poke b (p + 15) [0x00, 0x00, 0, 0];
     b \<leftarrow> memcpy b (p + 19) (get_ue_msin ue) 5;
     b \<leftarrow> poke b (p + 24) [0x10, 0x01, 0x00, 0x2e, 0x04, 0x80, 0xa0, 0x80, 0xa0,
            0x2f, 0x05, 0x04, 0x01, 0x00, 0x00, 0x01, 0x53, 0x01, 0x00];
     Some (b, 43) }"

definition add_protocolIE_RRC_Establishment_Cause :: "byte \<Rightarrow> buf \<Rightarrow> nat \<Rightarrow> (buf \<times> nat) option" where
  "add_protocolIE_RRC_Establishment_Cause cause b p = do {
     b \<leftarrow> poke b p [0, ID_RCC_ESTABLISHMENT_CAUSE, CRITICALITY_IGNORE, 0x01, cause];
     Some (b, 5) }"

definition add_protocolIE_UE_Context_Request :: "buf \<Rightarrow> nat \<Rightarrow> (buf \<times> nat) option" where
  "add_protocolIE_UE_Context_Request b p = do {
     b \<leftarrow> poke b p [0, ID_UE_CONTEXT_REQUEST, CRITICALITY_IGNORE, 0x01, 0];
     Some (b, 5) }"

definition generate_NG_Registration_Request :: "eNB \<Rightarrow> UE \<Rightarrow> buf \<Rightarrow> (buf \<times> nat) option" where
  "generate_NG_Registration_Request enb ue buffer = do {
     b \<leftarrow> memset buffer 0 0 NG_REGISTRATION_REQUEST_LEN;
     (b, offset) \<leftarrow> add_NG_Registration_Request_Header b 0;
     (b, n) \<leftarrow> add_protocolIE_RAN_UE_NGAP_ID ue b offset;
     let offset = offset + n;
     (b, n) \<leftarrow> add_protocolIE_NAS_PDU_Registration_Request ue enb b offset;
     let offset = offset + n;
     (b, n) \<leftarrow> add_protocolIE_User_Location_Information enb b offset;
     let offset = offset + n;
     (b, n) \<leftarrow> add_protocolIE_RRC_Establishment_Cause CAUSE_MT_ACCESS b offset;
     let offset = offset + n;
     (b, n) \<leftarrow> add_protocolIE_UE_Context_Request b offset;
     Some (b, offset + n) }"

section \<open>Authentication Response\<close>

definition add_NG_Registration_Response_Header :: "buf \<Rightarrow> nat \<Rightarrow> (buf \<times> nat) option" where
  "add_NG_Registration_Response_Header b p = do {
     b \<leftarrow> poke b p [0, ID_UPLINK_NAS_TRANSPORT, CRITICALITY_IGNORE, 0x3B, 0, 0, 4];
     Some (b, 7) }"

definition add_protocolIE_NAS_PDU_Registration_Response :: "env \<Rightarrow> UE \<Rightarrow> buf \<Rightarrow> nat \<Rightarrow> (buf \<times> nat) option" where
  "add_protocolIE_NAS_PDU_Registration_Response E ue b p = do {
     b \<leftarrow> poke b p [0, ID_NAS_PDU, CRITICALITY_REJECT, 0x16, 0x15, EPD_5G_Mobility_Management_Messages, 0,
            MESSAGE_TYPE_AUTHENTICATION_RESPONSE, 0x2d, 16];
     let a = get_auth_challenge ue;
     res \<leftarrow> generate_res_5g (e_hmac E) (e_input63 E) (e_key32 E) (CK a) (IK a) (RAND a) (RES a) (get_ue_mcc ue) (get_ue_mnc ue);
     b \<leftarrow> wrn b (p + 10) res;
     Some (b, 26) }"

definition generate_NG_Authentication_Response :: "env \<Rightarrow> eNB \<Rightarrow> UE \<Rightarrow> buf \<Rightarrow> (buf \<times> nat) option" where
  "generate_NG_Authentication_Response E enb ue buffer = do {
     b \<leftarrow> memset buffer 0 0 NG_REGISTRATION_REQUEST_LEN;
     (b, offset) \<leftarrow> add_NG_Registration_Response_Header b 0;
     (b, n) \<leftarrow> add_protocolIE_AMF_UE_NGAP_ID ue b offset 0;
     let offset = offset + n;
     (b, n) \<leftarrow> add_protocolIE_RAN_UE_NGAP_ID ue b offset;
     let offset = offset + n;
     (b, n) \<leftarrow> add_protocolIE_NAS_PDU_Registration_Response E ue b offset;
     let offset = offset + n;
     (b, n) \<leftarrow> add_protocolIE_User_Location_Information enb b offset;
     Some (b, offset + n) }"

section \<open>Security Mode Complete\<close>

definition add_NG_Security_Mode_Complete_Header :: "buf \<Rightarrow> nat \<Rightarrow> (buf \<times> nat) option" where
  "add_NG_Security_Mode_Complete_Header b p = do {
     b \<leftarrow> poke b p [0, ID_UPLINK_NAS_TRANSPORT, CRITICALITY_IGNORE, 0x65, 0, 0, 4];
     Some (b, 7) }"

definition add_protocolIE_NAS_PDU_Security_Mode_Complete ::
  "env \<Rightarrow> UE \<Rightarrow> eNB \<Rightarrow> buf \<Rightarrow> nat \<Rightarrow> (buf \<times> UE \<times> nat) option" where
  "add_protocolIE_NAS_PDU_Security_Mode_Complete E ue enb b p = do {
     b \<leftarrow> poke b p [0, ID_NAS_PDU, CRITICALITY_REJECT, 0x40, 0x3F, EPD_5G_Mobility_Management_Messages, 0x04];
     let (sq, ue) = get_nas_sequence_number ue;
     b \<leftarrow> poke b (p + 11) [sq, EPD_5G_Mobility_Management_Messages, 0, SECURITY_MODE_COMPLETE,
            0x77, 0, 0x09, 0x45, 0x73, 0x80, 0x61, 0x21, 0x85, 0x61, 0x51, 0xf1,
            0x71, 0x00, 0x26, EPD_5G_Mobility_Management_Messages, 0x00, REGISTRATION_REQUEST, 0x79,
            0x00, 0x0D, 0x01];
     b \<leftarrow> memcpy b (p + 37) (get_plmn enb) 3;
     b \<leftarrow> poke b (p + 40) [0x00, 0x00, 0x00, 0x00];
     b \<leftarrow> memcpy b (p + 44) (get_ue_msin ue) 5;
     b \<leftarrow> poke b (p + 49) [0x10, 0x01, 0x00, 0x2e, 0x04, 0x80, 0xa0, 0x80, 0xa0,
            0x2f, 0x05, 0x04, 0x01, 0x00, 0x00, 0x01, 0x53, 0x01, 0x00];
     b \<leftarrow> add_mac E ue b p 57 0;
     Some (b, ue, 68) }"

definition generate_NG_Security_Mode_Complete :: "env \<Rightarrow> eNB \<Rightarrow> UE \<Rightarrow> buf \<Rightarrow> (buf \<times> UE \<times> nat) option" where
  "generate_NG_Security_Mode_Complete E enb ue buffer = do {
     b \<leftarrow> memset buffer 0 0 NG_REGISTRATION_REQUEST_LEN;
     (b, offset) \<leftarrow> add_NG_Security_Mode_Complete_Header b 0;
     (b, n) \<leftarrow> add_protocolIE_AMF_UE_NGAP_ID ue b offset 0;
     let offset = offset + n;
     (b, n) \<leftarrow> add_protocolIE_RAN_UE_NGAP_ID ue b offset;
     let offset = offset + n;
     (b, ue, n) \<leftarrow> add_protocolIE_NAS_PDU_Security_Mode_Complete E ue enb b offset;
     let offset = offset + n;
     (b, n) \<leftarrow> add_protocolIE_User_Location_Information enb b offset;
     Some (b, ue, offset + n) }"

section \<open>Initial Context Setup Response and Registration Complete\<close>

definition add_NG_Initial_Context_Setup_Response_Header :: "buf \<Rightarrow> nat \<Rightarrow> (buf \<times> nat) option" where
  "add_NG_Initial_Context_Setup_Response_Header b p = do {
     b \<leftarrow> poke b p [SUCCESFUL_OUTCOME, ID_INITIAL_CONTEXT_SETUP, CRITICALITY_REJECT, 0x0e, 0, 0, 2];
     Some (b, 7) }"

definition generate_NG_InitialContextSetupResponse :: "eNB \<Rightarrow> UE \<Rightarrow> buf \<Rightarrow> (buf \<times> nat) option" where
  "generate_NG_InitialContextSetupResponse enb ue buffer = do {
     b \<leftarrow> memset buffer 0 0 NG_REGISTRATION_REQUEST_LEN;
     (b, offset) \<leftarrow> add_NG_Initial_Context_Setup_Response_Header b 0;
     (b, n) \<leftarrow> add_protocolIE_AMF_UE_NGAP_ID ue b offset 0;
     let offset = offset + n;
     (b, n) \<leftarrow> add_protocolIE_RAN_UE_NGAP_ID ue b offset;
     Some (b, offset + n) }"

definition add_NG_Registration_Complete_Header :: "buf \<Rightarrow> nat \<Rightarrow> (buf \<times> nat) option" where
  "add_NG_Registration_Complete_Header b p = do {
     b \<leftarrow> poke b p [0, ID_UPLINK_NAS_TRANSPORT, CRITICALITY_IGNORE, 0x30, 0, 0, 4];
     Some (b, 7) }"

definition add_protocolIE_NAS_PDU_Registration_Complete ::
  "env \<Rightarrow> UE \<Rightarrow> buf \<Rightarrow> nat \<Rightarrow> (buf \<times> UE \<times> nat) option" where
  "add_protocolIE_NAS_PDU_Registration_Complete E ue b p = do {
     b \<leftarrow> poke b p [0, ID_NAS_PDU, CRITICALITY_REJECT, 0x0B, 0x0A, EPD_5G_Mobility_Management_Messages, 0x02];
     let (sq, ue) = get_nas_sequence_number ue;
     b \<leftarrow> poke b (p + 11) [sq, EPD_5G_Mobility_Management_Messages, 0x00, REGISTRATION_COMPLETE];
     b \<leftarrow> add_mac E ue b p 4 1;
     Some (b, ue, 15) }"

definition generate_NG_RegistrationComplete :: "env \<Rightarrow> eNB \<Rightarrow> UE \<Rightarrow> buf \<Rightarrow> (buf \<times> UE \<times> nat) option" where
  "generate_NG_RegistrationComplete E enb ue buffer = do {
     b \<leftarrow> memset buffer 0 0 NG_REGISTRATION_REQUEST_LEN;
     (b, offset) \<leftarrow> add_NG_Registration_Complete_Header b 0;
     (b, n) \<leftarrow> add_protocolIE_AMF_UE_NGAP_ID ue b offset 0;
     let offset = offset + n;
     (b, n) \<leftarrow> add_protocolIE_RAN_UE_NGAP_ID ue b offset;
     let offset = offset + n;
     (b, ue, n) \<leftarrow> add_protocolIE_NAS_PDU_Registration_Complete E ue b offset;
     let offset = offset + n;
     (b, n) \<leftarrow> add_protocolIE_User_Location_Information enb b offset;
     Some (b, ue, offset + n) }"

section \<open>PDU sessions\<close>

definition add_NG_PDU_Session_Request_Header :: "buf \<Rightarrow> nat \<Rightarrow> (buf \<times> nat) option" where
  "add_NG_PDU_Session_Request_Header b p = do {
     b \<leftarrow> poke b p [0, ID_UPLINK_NAS_TRANSPORT, CRITICALITY_IGNORE, 0x59, 0, 0, 4];
     Some (b, 7) }"

definition add_protocolIE_NAS_PDU_PDU_Session_Request ::
  "env \<Rightarrow> UE \<Rightarrow> buf \<Rightarrow> nat \<Rightarrow> (buf \<times> UE \<times> nat) option" where
  "add_protocolIE_NAS_PDU_PDU_Session_Request E ue b p = do {
     let dnn = str ''internet'';
     b \<leftarrow> poke b p [0, ID_NAS_PDU, CRITICALITY_REJECT, 0x34, 0x33, EPD_5G_Mobility_Management_Messages, 0x02];
     let (sq, ue) = get_nas_sequence_number ue;
     b \<leftarrow> poke b (p + 11) [sq, EPD_5G_Mobility_Management_Messages, 0x00, UL_NAS_TRANSPORT, 0x01,
            0x00, 0x12, EPD_5G_Session_Management_Messages, 0x01, 0x01, 0xc1, 0xFF, 0xFF, 0x91, 0xa1,
            0x7b, 0x00, 0x07, 0x80, 0x00, 0x0a, 0x00, 0x00, 0x0d, 0x00,
            0x12, 0x01, 0x81, 0x22, 0x04, 0x01, 0x01, 0x02, 0x03, 0x25, 0x09, 0x08];
     b \<leftarrow> memcpy b (p + 48) dnn 8;
     b \<leftarrow> add_mac E ue b p 45 2;
     Some (b, ue, 56) }"

definition generate_NG_PDUSessionRequest :: "env \<Rightarrow> eNB \<Rightarrow> UE \<Rightarrow> buf \<Rightarrow> (buf \<times> UE \<times> nat) option" where
  "generate_NG_PDUSessionRequest E enb ue buffer = do {
     b \<leftarrow> memset buffer 0 0 NG_REGISTRATION_REQUEST_LEN;
     (b, offset) \<leftarrow> add_NG_PDU_Session_Request_Header b 0;
     (b, n) \<leftarrow> add_protocolIE_AMF_UE_NGAP_ID ue b offset 0;
     let offset = offset + n;
     (b, n) \<leftarrow> add_protocolIE_RAN_UE_NGAP_ID ue b offset;
     let offset = offset + n;
     (b, ue, n) \<leftarrow> add_protocolIE_NAS_PDU_PDU_Session_Request E ue b offset;
     let offset = offset + n;
     (b, n) \<leftarrow> add_protocolIE_User_Location_Information enb b offset;
     Some (b, ue, offset + n) }"

definition add_NG_PDU_Session_Response_Header :: "buf \<Rightarrow> nat \<Rightarrow> (buf \<times> nat) option" where
  "add_NG_PDU_Session_Response_Header b p = do {
     b \<leftarrow> poke b p [SUCCESFUL_OUTCOME, ID_PDU_SESSION_RESOURCE_SETUP, CRITICALITY_REJECT, 0x23, 0, 0, 3];
     Some (b, 7) }"

definition add_protocolIE_NAS_PDU_PDU_Session_Response :: "UE \<Rightarrow> buf \<Rightarrow> nat \<Rightarrow> (buf \<times> nat) option" where
  "add_protocolIE_NAS_PDU_PDU_Session_Response ue b p = do {
     b \<leftarrow> poke b p [0, ID_PDU_SESSION_RESOURCE_SETUP_LIST_SU_RES, CRITICALITY_IGNORE, 0x11,
            0x00, 0x00, 0x01, 0x0d, 0x00, 0x03, 0xe0];
     b \<leftarrow> memcpy b (p + 11) (get_ue_ip ue) 4;
     let teid = get_gtp_teid ue;
     b \<leftarrow> poke b (p + 15) (UINT32_TO_ARRAY teid);
     b \<leftarrow> poke b (p + 19) [0x00, 0x09];
     Some (b, 21) }"

definition generate_NG_PDUSessionResponse :: "eNB \<Rightarrow> UE \<Rightarrow> buf \<Rightarrow> (buf \<times> nat) option" where
  "generate_NG_PDUSessionResponse enb ue buffer = do {
     b \<leftarrow> memset buffer 0 0 NG_REGISTRATION_REQUEST_LEN;
     (b, offset) \<leftarrow> add_NG_PDU_Session_Response_Header b 0;
     (b, n) \<leftarrow> add_protocolIE_AMF_UE_NGAP_ID ue b offset 0;
     let offset = offset + n;
     (b, n) \<leftarrow> add_protocolIE_RAN_UE_NGAP_ID ue b offset;
     let offset = offset + n;
     (b, n) \<leftarrow> add_protocolIE_NAS_PDU_PDU_Session_Response ue b offset;
     Some (b, offset + n) }"

section \<open>Deregistration\<close>

definition add_NG_Deregistration_Request_Header :: "buf \<Rightarrow> nat \<Rightarrow> (buf \<times> nat) option" where
  "add_NG_Deregistration_Request_Header b p = do {
     b \<leftarrow> poke b p [0, ID_UPLINK_NAS_TRANSPORT, CRITICALITY_IGNORE, 0x3e, 0, 0, 4];
     Some (b, 7) }"

definition add_NG_UEContextReleaseComplete_Header :: "buf \<Rightarrow> nat \<Rightarrow> (buf \<times> nat) option" where
  "add_NG_UEContextReleaseComplete_Header b p = do {
     b \<leftarrow> poke b p [SUCCESFUL_OUTCOME, ID_UE_CONTEXT_RELEASE, CRITICALITY_REJECT, 0x21, 0, 0, 3];
     Some (b, 7) }"

definition add_protocolIE_NAS_PDU_Deregistration_Request ::
  "env \<Rightarrow> UE \<Rightarrow> buf \<Rightarrow> nat \<Rightarrow> bool \<Rightarrow> (buf \<times> UE \<times> nat) option" where
  "add_protocolIE_NAS_PDU_Deregistration_Request E ue b p switch_off = do {
     b \<leftarrow> poke b p [0, ID_NAS_PDU, CRITICALITY_REJECT, 0x19, 0x18, EPD_5G_Mobility_Management_Messages, 0x02];
     let (sq, ue) = get_nas_sequence_number ue;
     b \<leftarrow> poke b (p + 11) [sq, EPD_5G_Mobility_Management_Messages, 0, DEREGISTRATION_REQUEST,
            if \<not> switch_off then 0x01 else 0x09, 0x00, 0x0b, 0xF2];
     b \<leftarrow> memcpy b (p + 19) (get_guami ue) 6;
     b \<leftarrow> memcpy b (p + 25) (get_m_tmsi ue) 4;
     b \<leftarrow> add_mac E ue b p 18 3;
     Some (b, ue, 29) }"

definition generate_NG_Deregistration_Request ::
  "env \<Rightarrow> eNB \<Rightarrow> UE \<Rightarrow> buf \<Rightarrow> bool \<Rightarrow> (buf \<times> UE \<times> nat) option" where
  "generate_NG_Deregistration_Request E enb ue buffer switch_off = do {
     b \<leftarrow> memset buffer 0 0 NG_REGISTRATION_REQUEST_LEN;
     (b, offset) \<leftarrow> add_NG_Deregistration_Request_Header b 0;
     (b, n) \<leftarrow> add_protocolIE_AMF_UE_NGAP_ID ue b offset 0;
     let offset = offset + n;
     (b, n) \<leftarrow> add_protocolIE_RAN_UE_NGAP_ID ue b offset;
     let offset = offset + n;
     (b, ue, n) \<leftarrow> add_protocolIE_NAS_PDU_Deregistration_Request E ue b offset switch_off;
     let offset = offset + n;
     (b, n) \<leftarrow> add_protocolIE_User_Location_Information enb b offset;
     Some (b, ue, offset + n) }"

definition generate_NG_UEContextReleaseComplete :: "eNB \<Rightarrow> UE \<Rightarrow> buf \<Rightarrow> (buf \<times> nat) option" where
  "generate_NG_UEContextReleaseComplete enb ue buffer = do {
     b \<leftarrow> memset buffer 0 0 NG_REGISTRATION_REQUEST_LEN;
     (b, offset) \<leftarrow> add_NG_UEContextReleaseComplete_Header b 0;
     (b, n) \<leftarrow> add_protocolIE_AMF_UE_NGAP_ID ue b offset 0;
     let offset = offset + n;
     (b, n) \<leftarrow> add_protocolIE_RAN_UE_NGAP_ID ue b offset;
     let offset = offset + n;
     (b, n) \<leftarrow> add_protocolIE_User_Location_Information enb b offset;
     Some (b, offset + n) }"

end
