(* ===== verification/Ngap_Analysis.thy ===== *)
theory Ngap_Analysis
  imports Ngap
begin

text \<open>
  How the emulator reads the answers of the core: \<open>analyze_message_items\<close> and the \<open>analyze_NG_...\<close> functions of
  ran-emulator/source/ngap.c.  The buffer is what is left of the receive array at the pointer the code passes; the
  length of the message is never used.  Reads that only feed a log message are kept, because they can leave the
  array.  The UE is \<open>None\<close> when the pointer is NULL.
\<close>

section \<open>Information elements\<close>

text \<open>The loops \<open>for(; j < limit; j++) if(p j) break;\<close>\<close>

function scan :: "(nat \<Rightarrow> bool option) \<Rightarrow> nat \<Rightarrow> nat \<Rightarrow> nat option" where
  "scan p j limit =
     (if j < limit then
        (case p j of None \<Rightarrow> None | Some True \<Rightarrow> Some j | Some False \<Rightarrow> scan p (j + 1) limit)
      else Some j)"
  by pat_completeness auto
termination by (relation "measure (\<lambda>(p, j, limit). limit - j)") auto

declare scan.simps [simp del]

definition skip_item :: "buf \<Rightarrow> nat \<Rightarrow> nat option" where
  "skip_item b offset = do { n \<leftarrow> rd b (offset + 2); Some (offset + 3 + unat n) }"

definition pdu_session_item :: "UE option \<Rightarrow> buf \<Rightarrow> nat \<Rightarrow> (UE option \<times> nat) option" where
  "pdu_session_item ue b offset = do {
     n \<leftarrow> rd b (offset + 2);
     let offset = (if n = 0x80 then offset + 1 else offset);
     _ \<leftarrow> rd b (offset + 5);
     c \<leftarrow> rd b (offset + 7);
     ue \<leftarrow> (if c = 0x7e then do {
         _ \<leftarrow> rdn b (offset + 8) 6;
         n \<leftarrow> rd b (offset + 2);
         j \<leftarrow> scan (\<lambda>j. do { x \<leftarrow> rd b (offset + j); Some (x = 0x29) }) 7 (unat n - 5);
         u \<leftarrow> ue;
         u \<leftarrow> set_pdn_ip u (drop (offset + j + 3) b);
         j \<leftarrow> scan (\<lambda>j. do { x \<leftarrow> rd b (offset + j);
                if x = 0x8b then do { y \<leftarrow> rd b (offset + j - 1); Some (y = 0x00) } else Some False }) j (unat n - 5);
         u \<leftarrow> set_spgw_ip u (drop (offset + j + 5) b);
         b0 \<leftarrow> rd b (offset + j + 9); b1 \<leftarrow> rd b (offset + j + 10);
         b2 \<leftarrow> rd b (offset + j + 11); b3 \<leftarrow> rd b (offset + j + 12);
         Some (Some (set_gtp_teid u (be32 b0 b1 b2 b3))) }
       else Some ue);
     offset \<leftarrow> skip_item b offset;
     Some (ue, offset) }"

definition nas_pdu_item :: "UE option \<Rightarrow> buf \<Rightarrow> nat \<Rightarrow> (UE option \<times> nat) option" where
  "nas_pdu_item ue b offset = do {
     c \<leftarrow> rd b (offset + 5);
     ue \<leftarrow> (if c = 0x02 then do {
         t \<leftarrow> rd b (offset + 13);
         if t = REGISTRATION_ACCEPT then do {
           _ \<leftarrow> rd b (offset + 15);
           u \<leftarrow> ue;
           u \<leftarrow> set_guti u (drop (offset + 20) b);
           Some (Some u) }
         else Some ue }
       else if c = 0x03 then do {
         _ \<leftarrow> rdn b (offset + 6) 5;
         t \<leftarrow> rd b (offset + 13);
         if t = SECURITY_MODE_COMMAND then do {
           a \<leftarrow> rd b (offset + 14);
           u \<leftarrow> ue;
           Some (Some (set_nas_session_security_algorithms u a)) }
         else Some ue }
       else if c = 0 then do {
         t \<leftarrow> rd b (offset + 6);
         if t = AUTHENTICATION_REQUEST then do {
           rand \<leftarrow> rdn b (offset + 12) 16;
           autn \<leftarrow> rdn b (offset + 30) 16;
           u \<leftarrow> ue;
           Some (Some (u\<lparr>auth_challenge := (get_auth_challenge u)\<lparr>RAND := rand, AUTN := autn\<rparr>\<rparr>)) }
         else Some ue }
       else Some ue);
     offset \<leftarrow> skip_item b offset;
     Some (ue, offset) }"

text \<open>One turn of the loop: \<open>offset\<close> is the value at its start.  Identifiers without an effect are skipped.\<close>

definition analyze_item :: "UE option \<Rightarrow> buf \<Rightarrow> nat \<Rightarrow> (UE option \<times> nat) option" where
  "analyze_item ue b offset = do {
     let offset = offset + 1;
     t \<leftarrow> rd b offset;
     if t = ID_AMF_UE_NGAP_ID then do {
       n \<leftarrow> rd b (offset + 2);
       u \<leftarrow> ue;
       u \<leftarrow> set_mme_s1ap_id u (drop (offset + 3) b) n;
       offset \<leftarrow> skip_item b offset;
       Some (Some u, offset) }
     else if t = ID_GUAMI then do {
       u \<leftarrow> ue;
       u \<leftarrow> set_guami u (drop (offset + 4) b);
       offset \<leftarrow> skip_item b offset;
       Some (Some u, offset) }
     else if t = ID_UE_SECURITY_CAPABILITIES then do {
       _ \<leftarrow> rdn b (offset + 3) 7;
       offset \<leftarrow> skip_item b offset;
       Some (ue, offset) }
     else if t = ID_UE_NGAP_IDS then do {
       n \<leftarrow> rd b (offset + 2);
       _ \<leftarrow> rdn b (offset + 3) (unat n);
       offset \<leftarrow> skip_item b offset;
       Some (ue, offset) }
     else if t = ID_CAUSE then do {
       _ \<leftarrow> rd b (offset + 3);
       offset \<leftarrow> skip_item b offset;
       Some (ue, offset) }
     else if t = ID_PDU_SESSION_RESOURCE_SETUP_LIST_SU_REQ then pdu_session_item ue b offset
     else if t = ID_NAS_PDU then nas_pdu_item ue b offset
     else do {
       offset \<leftarrow> skip_item b offset;
       Some (ue, offset) } }"

fun analyze_loop :: "nat \<Rightarrow> UE option \<Rightarrow> buf \<Rightarrow> nat \<Rightarrow> UE option option" where
  "analyze_loop 0 ue b offset = Some ue"
| "analyze_loop (Suc n) ue b offset = do {
     (ue, offset) \<leftarrow> analyze_item ue b offset;
     analyze_loop n ue b offset }"

definition analyze_message_items :: "UE option \<Rightarrow> buf \<Rightarrow> UE option option" where
  "analyze_message_items ue b = do {
     b1 \<leftarrow> rd b 1; b2 \<leftarrow> rd b 2;
     analyze_loop (256 * unat b1 + unat b2) ue b 3 }"

section \<open>Messages\<close>

text \<open>The first three bytes of a message, and the byte the code passes as length, are read.\<close>

definition analyze_NG_SetupResponse :: "buf \<Rightarrow> status option" where
  "analyze_NG_SetupResponse b = do {
     b0 \<leftarrow> rd b 0; b1 \<leftarrow> rd b 1; b2 \<leftarrow> rd b 2; _ \<leftarrow> rd b 3;
     if b0 \<noteq> SUCCESFUL_OUTCOME \<or> b1 \<noteq> ID_NG_SETUP then Some ERROR
     else if b2 \<noteq> CRITICALITY_REJECT then Some ERROR
     else do { _ \<leftarrow> analyze_message_items None (drop 4 b); Some OK } }"

definition analyze_items_of :: "UE \<Rightarrow> buf \<Rightarrow> (status \<times> UE) option" where
  "analyze_items_of u b = do { r \<leftarrow> analyze_message_items (Some u) b; u \<leftarrow> r; Some (OK, u) }"

definition analyze_NG_AuthenticationRequest :: "UE \<Rightarrow> buf \<Rightarrow> (status \<times> UE) option" where
  "analyze_NG_AuthenticationRequest u b = do {
     b0 \<leftarrow> rd b 0; b1 \<leftarrow> rd b 1; b2 \<leftarrow> rd b 2; _ \<leftarrow> rd b 3;
     if b0 \<noteq> 0x00 \<or> b1 \<noteq> ID_DOWNLINK_NAS_TRANSPORT then Some (ERROR, u)
     else if b2 \<noteq> CRITICALITY_IGNORE then Some (ERROR, u)
     else analyze_items_of u (drop 4 b) }"

definition analyze_NG_SecurityModeCommand :: "UE \<Rightarrow> buf \<Rightarrow> (status \<times> UE) option" where
  "analyze_NG_SecurityModeCommand u b = do {
     b0 \<leftarrow> rd b 0; b1 \<leftarrow> rd b 1; b2 \<leftarrow> rd b 2; _ \<leftarrow> rd b 3;
     if b0 \<noteq> 0x00 \<or> b1 \<noteq> ID_DOWNLINK_NAS_TRANSPORT then Some (ERROR, u)
     else if b2 \<noteq> CRITICALITY_IGNORE then Some (ERROR, u)
     else analyze_items_of u (drop 4 b) }"

definition analyze_NG_RegistrationRequest :: "UE \<Rightarrow> buf \<Rightarrow> (status \<times> UE) option" where
  "analyze_NG_RegistrationRequest u b = do {
     b0 \<leftarrow> rd b 0; b1 \<leftarrow> rd b 1; b2 \<leftarrow> rd b 2; _ \<leftarrow> rd b 4;
     if b0 \<noteq> 0x00 \<or> b1 \<noteq> ID_INITIAL_CONTEXT_SETUP then Some (ERROR, u)
     else if b2 \<noteq> CRITICALITY_REJECT then Some (ERROR, u)
     else analyze_items_of u (drop 5 b) }"

definition analyze_NG_DeregistrationAccept :: "UE \<Rightarrow> buf \<Rightarrow> (status \<times> UE) option" where
  "analyze_NG_DeregistrationAccept u b = do {
     b0 \<leftarrow> rd b 0; b1 \<leftarrow> rd b 1; _ \<leftarrow> rd b 2; _ \<leftarrow> rd b 3;
     if b0 \<noteq> 0x00 \<or> b1 \<noteq> ID_DOWNLINK_NAS_TRANSPORT then Some (ERROR, u)
     else analyze_items_of u (drop 4 b) }"

definition analyze_NR_UEContextReleaseCommand :: "UE \<Rightarrow> buf \<Rightarrow> (status \<times> UE) option" where
  "analyze_NR_UEContextReleaseCommand u b = do {
     b0 \<leftarrow> rd b 0; b1 \<leftarrow> rd b 1; _ \<leftarrow> rd b 2; _ \<leftarrow> rd b 3;
     if b0 \<noteq> 0x00 \<or> b1 \<noteq> ID_UE_CONTEXT_RELEASE then Some (ERROR, u)
     else analyze_items_of u (drop 4 b) }"

definition analyze_NG_PDUSessionEstablishmentAccept :: "UE \<Rightarrow> buf \<Rightarrow> (status \<times> UE) option" where
  "analyze_NG_PDUSessionEstablishmentAccept u b = do {
     b0 \<leftarrow> rd b 0; b1 \<leftarrow> rd b 1; b2 \<leftarrow> rd b 2; _ \<leftarrow> rd b 4;
     if b0 \<noteq> 0x00 \<or> b1 \<noteq> ID_PDU_SESSION_RESOURCE_SETUP then Some (ERROR, u)
     else if b2 \<noteq> CRITICALITY_REJECT then Some (ERROR, u)
     else analyze_items_of u (drop 5 b) }"

definition analyze_NG_ConfigurationUpdateCommand :: "UE \<Rightarrow> buf \<Rightarrow> (status \<times> UE) option" where
  "analyze_NG_ConfigurationUpdateCommand u b = do {
     b0 \<leftarrow> rd b 0; b1 \<leftarrow> rd b 1; b2 \<leftarrow> rd b 2;
     if b0 \<noteq> 0x00 \<or> b1 \<noteq> ID_DOWNLINK_NAS_TRANSPORT then Some (ERROR, u)
     else if b2 \<noteq> CRITICALITY_IGNORE then Some (ERROR, u)
     else Some (OK, u) }"

section \<open>Procedures\<close>

text \<open>
  The connection to the core: what each call of \<open>sctp_recvmsg\<close> returns (\<open>None\<close> an error, otherwise the bytes it delivers,
  never more than the 1024 of the array) and what has been sent.  \<open>Blocked\<close> is a procedure that waits for a message that has not come.
\<close>

record proc =
  pr_in :: "byte list option list"
  pr_sent :: "byte list list"
  pr_buf :: buf
  pr_ue :: UE

datatype result = Going | Returned status | Blocked

definition and_then :: "(proc \<times> result) option \<Rightarrow> (proc \<Rightarrow> (proc \<times> result) option) \<Rightarrow> (proc \<times> result) option" where
  "and_then m f = do { (s, r) \<leftarrow> m; if r = Going then f s else Some (s, r) }"

definition send :: "proc \<Rightarrow> buf \<Rightarrow> nat \<Rightarrow> proc option" where
  "send s b n = do { m \<leftarrow> rdn b 0 n; Some (s\<lparr>pr_buf := b, pr_sent := pr_sent s @ [m]\<rparr>) }"

definition receive :: "(UE \<Rightarrow> buf \<Rightarrow> (status \<times> UE) option) \<Rightarrow> proc \<Rightarrow> (proc \<times> result) option" where
  "receive analyze s =
     (case pr_in s of
        [] \<Rightarrow> Some (s, Blocked)
      | None # es \<Rightarrow> Some (s\<lparr>pr_in := es\<rparr>, Returned ERROR)
      | Some m # es \<Rightarrow> do {
          b \<leftarrow> memcpy (pr_buf s) 0 m (min (length m) 1024);
          (st, u) \<leftarrow> analyze (pr_ue s) b;
          Some (s\<lparr>pr_in := es, pr_buf := b, pr_ue := u\<rparr>, if st = ERROR then Returned ERROR else Going) })"

definition procedure_NG_Setup :: "eNB \<Rightarrow> byte list option list \<Rightarrow> buf \<Rightarrow> (byte list list \<times> result) option" where
  "procedure_NG_Setup enb input buffer = do {
     (b, len) \<leftarrow> generate_NG_SetupRequest buffer enb;
     m \<leftarrow> rdn b 0 len;
     case input of
       [] \<Rightarrow> Some ([m], Blocked)
     | None # es \<Rightarrow> Some ([m], Returned ERROR)
     | Some r # es \<Rightarrow> do {
         b \<leftarrow> memcpy b 0 r (min (length r) 1024);
         st \<leftarrow> analyze_NG_SetupResponse b;
         Some ([m], Returned st) } }"

text \<open>\<open>f2345\<close> on the members of the challenge.\<close>

definition compute_challenge :: "UE \<Rightarrow> UE option" where
  "compute_challenge u = do {
     let a = get_auth_challenge u;
     (res, ck, ik, ak) \<leftarrow> f2345 (get_ue_key u) (RAND a) (get_ue_op_key u);
     res \<leftarrow> wrn (RES a) 0 res;
     ck \<leftarrow> wrn (CK a) 0 ck;
     ik \<leftarrow> wrn (IK a) 0 ik;
     ak \<leftarrow> wrn (AK a) 0 ak;
     Some (u\<lparr>auth_challenge := a\<lparr>RES := res, CK := ck, IK := ik, AK := ak\<rparr>\<rparr>) }"

definition derive_kamf :: "env \<Rightarrow> UE \<Rightarrow> buf option" where
  "derive_kamf E u = do {
     let a = get_auth_challenge u;
     kausf \<leftarrow> generate_kausf (e_hmac E) (e_input64 E) (e_key32 E) (CK a) (IK a) (AUTN a) (get_ue_mcc u) (get_ue_mnc u);
     kseaf \<leftarrow> generate_kseaf (e_hmac E) (e_input64 E) kausf (get_ue_mcc u) (get_ue_mnc u);
     mcc \<leftarrow> rdn (get_ue_mcc u) 0 3;
     mnc \<leftarrow> rdn (get_ue_mnc u) 0 2;
     msin \<leftarrow> rdn (get_msin_string u) 0 10;
     let supi = mcc @ mnc @ msin;
     generate_kamf (e_hmac E) (e_input64 E) supi kseaf }"

definition derive_nas_keys :: "env \<Rightarrow> buf \<Rightarrow> UE \<Rightarrow> UE option" where
  "derive_nas_keys E kamf u = do {
     enc \<leftarrow> generate_5g_nas_enc_key (e_hmac E) (e_input8 E) kamf (get_nas_session_enc_alg u);
     int \<leftarrow> generate_5g_nas_int_key (e_hmac E) (e_input8 E) kamf (get_nas_session_int_alg u);
     Some (u\<lparr>auth_challenge := (get_auth_challenge u)\<lparr>NAS_KEY_ENC := enc, NAS_KEY_INT := int\<rparr>\<rparr>) }"

text \<open>The loop that passes over configuration update commands; it consumes one event per turn.\<close>

fun await_pdu_session :: "byte list option list \<Rightarrow> proc \<Rightarrow> (proc \<times> result) option" where
  "await_pdu_session [] s = Some (s\<lparr>pr_in := []\<rparr>, Blocked)"
| "await_pdu_session (None # es) s = Some (s\<lparr>pr_in := es\<rparr>, Returned ERROR)"
| "await_pdu_session (Some m # es) s = do {
     b \<leftarrow> memcpy (pr_buf s) 0 m (min (length m) 1024);
     (st, u) \<leftarrow> analyze_NG_ConfigurationUpdateCommand (pr_ue s) b;
     if st = OK then await_pdu_session es (s\<lparr>pr_buf := b\<rparr>)
     else do {
       (st, u) \<leftarrow> analyze_NG_PDUSessionEstablishmentAccept u b;
       Some (s\<lparr>pr_in := es, pr_buf := b, pr_ue := u\<rparr>, if st = ERROR then Returned ERROR else Going) } }"

text \<open>\<open>procedure_Registration_Request\<close>, from its end: what follows each answer of the core.\<close>

definition after_session :: "eNB \<Rightarrow> proc \<Rightarrow> (proc \<times> result) option" where
  "after_session enb s = do {
     (b, len) \<leftarrow> generate_NG_PDUSessionResponse enb (pr_ue s) (pr_buf s);
     s \<leftarrow> send s b len;
     Some (s, Returned OK) }"

definition after_context_setup :: "env \<Rightarrow> eNB \<Rightarrow> proc \<Rightarrow> (proc \<times> result) option" where
  "after_context_setup E enb s = do {
     (b, len) \<leftarrow> generate_NG_InitialContextSetupResponse enb (pr_ue s) (pr_buf s);
     s \<leftarrow> send s b len;
     (b, u, len) \<leftarrow> generate_NG_RegistrationComplete E enb (pr_ue s) (pr_buf s);
     s \<leftarrow> send (s\<lparr>pr_ue := u\<rparr>) b len;
     (b, u, len) \<leftarrow> generate_NG_PDUSessionRequest E enb (pr_ue s) (pr_buf s);
     s \<leftarrow> send (s\<lparr>pr_ue := u\<rparr>) b len;
     and_then (await_pdu_session (pr_in s) s) (after_session enb) }"

definition after_security_mode :: "env \<Rightarrow> eNB \<Rightarrow> buf \<Rightarrow> proc \<Rightarrow> (proc \<times> result) option" where
  "after_security_mode E enb kamf s = do {
     u \<leftarrow> derive_nas_keys E kamf (pr_ue s);
     (b, u, len) \<leftarrow> generate_NG_Security_Mode_Complete E enb u (pr_buf s);
     s \<leftarrow> send (s\<lparr>pr_ue := u\<rparr>) b len;
     and_then (receive analyze_NG_RegistrationRequest s) (after_context_setup E enb) }"

definition after_authentication :: "env \<Rightarrow> eNB \<Rightarrow> proc \<Rightarrow> (proc \<times> result) option" where
  "after_authentication E enb s = do {
     u \<leftarrow> compute_challenge (pr_ue s);
     (b, len) \<leftarrow> generate_NG_Authentication_Response E enb u (pr_buf s);
     s \<leftarrow> send (s\<lparr>pr_ue := u\<rparr>) b len;
     kamf \<leftarrow> derive_kamf E (pr_ue s);
     and_then (receive analyze_NG_SecurityModeCommand s) (after_security_mode E enb kamf) }"

definition procedure_Registration_Request :: "env \<Rightarrow> eNB \<Rightarrow> proc \<Rightarrow> (proc \<times> result) option" where
  "procedure_Registration_Request E enb s = do {
     let s = s\<lparr>pr_ue := reset_nas_sequence_number (pr_ue s)\<rparr>;
     (b, len) \<leftarrow> generate_NG_Registration_Request enb (pr_ue s) (pr_buf s);
     s \<leftarrow> send s b len;
     and_then (receive analyze_NG_AuthenticationRequest s) (after_authentication E enb) }"

definition procedure_Deregistration_Request :: "env \<Rightarrow> eNB \<Rightarrow> proc \<Rightarrow> bool \<Rightarrow> (proc \<times> result) option" where
  "procedure_Deregistration_Request E enb s switch_off = do {
     (b, u, len) \<leftarrow> generate_NG_Deregistration_Request E enb (pr_ue s) (pr_buf s) switch_off;
     s \<leftarrow> send (s\<lparr>pr_ue := u\<rparr>) b len;
     and_then (if \<not> switch_off then receive analyze_NG_DeregistrationAccept s else Some (s, Going)) (\<lambda>s.
       and_then (receive analyze_NR_UEContextReleaseCommand s) (\<lambda>s. do {
         (b, len) \<leftarrow> generate_NG_UEContextReleaseComplete enb (pr_ue s) (pr_buf s);
         s \<leftarrow> send s b len;
         Some (s, Returned OK) })) }"

end
