(* ===== verification/Ngap_Messages.thy ===== *)
theory Ngap_Messages
  imports Ngap_Analysis
begin

text \<open>
  What the NGAP messages of the emulator mean.  A reference encoder and decoder for NGAP PDUs in aligned PER, the PDU of
  every message, and the proof that each \<open>generate_...\<close> function writes the encoding of its PDU, with its lengths
  and its message authentication code, whatever the buffer held before.
\<close>

section \<open>PDUs\<close>

record ie =
  ie_id :: byte
  ie_crit :: byte
  ie_value :: "byte list"

record pdu =
  p_type :: byte
  p_proc :: byte
  p_crit :: byte
  p_ies :: "ie list"

text \<open>An information element or message of 128 bytes or more has a length of two bytes.\<close>

definition encode_length :: "nat \<Rightarrow> byte list" where
  "encode_length n = (if n < 128 then [of_nat n] else [of_nat (128 + n div 256), of_nat n])"

definition encode_ie :: "ie \<Rightarrow> byte list" where
  "encode_ie x = [0, ie_id x, ie_crit x] @ encode_length (length (ie_value x)) @ ie_value x"

definition encode_body :: "ie list \<Rightarrow> byte list" where
  "encode_body xs = [0, of_nat (length xs div 256), of_nat (length xs)] @ concat (map encode_ie xs)"

definition encode_pdu :: "pdu \<Rightarrow> byte list" where
  "encode_pdu p = [p_type p, p_proc p, p_crit p] @ encode_length (length (encode_body (p_ies p))) @ encode_body (p_ies p)"

fun decode_length :: "byte list \<Rightarrow> (nat \<times> byte list) option" where
  "decode_length [] = None"
| "decode_length (x # xs) =
     (if x < 128 then Some (unat x, xs)
      else case xs of [] \<Rightarrow> None | y # ys \<Rightarrow> Some (256 * unat (x - 128) + unat y, ys))"

fun decode_ies :: "nat \<Rightarrow> byte list \<Rightarrow> ie list option" where
  "decode_ies 0 b = (if b = [] then Some [] else None)"
| "decode_ies (Suc n) (h # i # c # b) =
     (if h \<noteq> 0 then None
      else do {
        (l, b) \<leftarrow> decode_length b;
        if length b < l then None
        else do {
          xs \<leftarrow> decode_ies n (drop l b);
          Some (\<lparr>ie_id = i, ie_crit = c, ie_value = take l b\<rparr> # xs) } })"
| "decode_ies (Suc n) _ = None"

fun decode_pdu :: "byte list \<Rightarrow> pdu option" where
  "decode_pdu (t # p # c # b) = do {
     (l, b) \<leftarrow> decode_length b;
     if length b \<noteq> l then None
     else case b of
       h # n1 # n2 # b \<Rightarrow>
         if h \<noteq> 0 then None
         else do {
           xs \<leftarrow> decode_ies (256 * unat n1 + unat n2) b;
           Some \<lparr>p_type = t, p_proc = p, p_crit = c, p_ies = xs\<rparr> }
     | _ \<Rightarrow> None }"
| "decode_pdu _ = None"

definition pdu_ok :: "pdu \<Rightarrow> bool" where
  "pdu_ok p \<longleftrightarrow> (\<forall>x \<in> set (p_ies p). length (ie_value x) < 0x4000) \<and> length (p_ies p) < 0x10000 \<and>
     length (encode_body (p_ies p)) < 0x4000"

lemma decode_encode_length:
  assumes "n < 0x4000"
  shows "decode_length (encode_length n @ b) = Some (n, b)"
proof (cases "n < 128")
  case True
  then have "unat (of_nat n :: byte) = n" by (simp add: unat_of_nat)
  with True show ?thesis by (simp add: encode_length_def word_less_nat_alt)
next
  case False
  define q where "q = n div 256"
  have q: "q < 64" using assms by (simp add: q_def)
  have a: "unat (of_nat (128 + q) :: byte) = 128 + q" and b: "of_nat (128 + q) - 128 = (of_nat q :: byte)"
    and c: "unat (of_nat q :: byte) = q" and d: "unat (of_nat n :: byte) = n mod 256"
    using q by (simp_all add: unat_of_nat del: of_nat_add) simp
  have "\<not> (of_nat (128 + q) :: byte) < 128" using a by (simp add: word_less_nat_alt)
  with False show ?thesis
    unfolding encode_length_def q_def [symmetric] using b c d by (simp add: q_def)
qed

lemma decode_encode_ies:
  "\<forall>x \<in> set xs. length (ie_value x) < 0x4000 \<Longrightarrow> decode_ies (length xs) (concat (map encode_ie xs)) = Some xs"
  by (induction xs) (simp_all add: encode_ie_def decode_encode_length)

lemma count_bytes: "n < 0x10000 \<Longrightarrow> 256 * unat (of_nat (n div 256) :: byte) + unat (of_nat n :: byte) = n"
  by (simp add: unat_of_nat)

lemma decode_encode_pdu: "pdu_ok p \<Longrightarrow> decode_pdu (encode_pdu p) = Some p"
  by (cases p)
    (auto simp: pdu_ok_def encode_pdu_def decode_encode_length encode_body_def count_bytes decode_encode_ies)

section \<open>Writing from the front\<close>

lemma poke_front:
  "i = length p \<Longrightarrow> length p + length xs \<le> length a \<Longrightarrow> poke (front a p) i xs = Some (front a (p @ xs))"
proof (induction xs arbitrary: i p)
  case (Cons x xs)
  from Cons.IH [of "Suc (length p)" "p @ [x]"] Cons.prems show ?case by (simp add: front_simps)
qed simp

lemma front_Nil: "front a [] = a"
  by (simp add: front_def)

lemma length_front [simp]: "length p \<le> length a \<Longrightarrow> length (front a p) = length a"
  by (simp add: front_def)

text \<open>Bytes that are not written are those of the array.\<close>

lemma front_gap: "length p + n \<le> length a \<Longrightarrow> front a p = front a (p @ take n (drop (length p) a))"
  by (simp add: front_def add.commute) (metis add.commute append_take_drop_id drop_drop)

lemma poke_gap:
  assumes "i = length p + n" and "length p + n + length xs \<le> length a"
  shows "poke (front a p) i xs = Some (front a (p @ take n (drop (length p) a) @ xs))"
proof -
  have "length p + n \<le> length a" using assms by simp
  from poke_front [of i "p @ take n (drop (length p) a)" xs a] assms front_gap [OF this]
  show ?thesis by simp
qed

lemma wrn_front_mid:
  assumes "i = length p" and "length g = length v" and "length p + length v + length q \<le> length a"
  shows "wrn (front a (p @ g @ q)) i v = Some (front a (p @ v @ q))"
  using assms by (simp add: wrn_def front_def)

lemma wrn_front: "i = length p \<Longrightarrow> length p + length v \<le> length a \<Longrightarrow> wrn (front a p) i v = Some (front a (p @ v))"
  by (simp add: wrn_def front_def add.commute)

lemma front_header:
  assumes "length p \<le> length a" and "3 < length p"
  shows "rd (front a p) 3 = Some (p ! 3)" and "wr (front a p) 3 v = Some (front a (p[3 := v]))"
  using assms by (simp_all add: rd_def wr_def front_def nth_append list_update_append)

section \<open>The messages\<close>

definition ie_amf :: "UE \<Rightarrow> ie" where
  "ie_amf u = \<lparr>ie_id = ID_AMF_UE_NGAP_ID, ie_crit = CRITICALITY_REJECT,
     ie_value = take (unat (mme_s1ap_id_len u)) (mme_s1ap_id u)\<rparr>"

definition ie_ran :: "UE \<Rightarrow> ie" where
  "ie_ran u = \<lparr>ie_id = ID_RAN_UE_NGAP_ID, ie_crit = CRITICALITY_REJECT,
     ie_value = 0x40 # drop 2 (UINT32_TO_ARRAY (ue_id u))\<rparr>"

definition ie_location :: "eNB \<Rightarrow> ie" where
  "ie_location e = \<lparr>ie_id = ID_USER_LOCATION_INFORMATION, ie_crit = CRITICALITY_REJECT,
     ie_value = [ID_NR_CGI] @ enb_plmn e @ UINT32_TO_ARRAY (enb_id e) @ [0] @ enb_plmn e @ [0, 0, 1]\<rparr>"

text \<open>A NAS message is an octet string inside the information element.\<close>

definition ie_nas :: "byte list \<Rightarrow> ie" where
  "ie_nas m = \<lparr>ie_id = ID_NAS_PDU, ie_crit = CRITICALITY_REJECT, ie_value = of_nat (length m) # m\<rparr>"

text \<open>
  A NAS message with integrity protection (TS 24.501, 9.1): the code covers the sequence number and the message, with
  the NAS COUNT \<open>count\<close> of the sender and bearer 1.
\<close>

definition protected :: "env \<Rightarrow> UE \<Rightarrow> byte \<Rightarrow> nat \<Rightarrow> byte \<Rightarrow> byte list \<Rightarrow> byte list" where
  "protected E u kind count sq m =
     [EPD_5G_Mobility_Management_Messages, kind] @
     EIA2 (e_cmac E) (NAS_KEY_INT (auth_challenge u)) (of_nat count) 1 False (sq # m) @ [sq] @ m"

definition nas_mobility :: "byte \<Rightarrow> byte list" where
  "nas_mobility t = [EPD_5G_Mobility_Management_Messages, 0, t]"

text \<open>The SUCI with the null scheme, and the capabilities that the Registration Request carries.\<close>

definition suci :: "eNB \<Rightarrow> UE \<Rightarrow> byte list" where
  "suci e u = [0, 0x0d, 0x01] @ enb_plmn e @ [0, 0, 0, 0] @ ue_msin u"

definition capabilities :: "byte list" where
  "capabilities = [0x10, 1, 0, 0x2e, 4, 0x80, 0xa0, 0x80, 0xa0, 0x2f, 5, 4, 1, 0, 0, 1, 0x53, 1, 0]"

definition nas_registration_request :: "eNB \<Rightarrow> UE \<Rightarrow> byte list" where
  "nas_registration_request e u = nas_mobility MESSAGE_TYPE_REGISTRATION_REQUEST @ [0x79] @ suci e u @ capabilities"

definition nas_authentication_response :: "byte list \<Rightarrow> byte list" where
  "nas_authentication_response res = nas_mobility MESSAGE_TYPE_AUTHENTICATION_RESPONSE @ [0x2d, 16] @ res"

text \<open>The Security Mode Complete repeats the Registration Request in a container, after the IMEISV.\<close>

definition nas_security_mode_complete :: "eNB \<Rightarrow> UE \<Rightarrow> byte list" where
  "nas_security_mode_complete e u = nas_mobility SECURITY_MODE_COMPLETE @
     [0x77, 0, 9, 0x45, 0x73, 0x80, 0x61, 0x21, 0x85, 0x61, 0x51, 0xf1] @
     [0x71, 0, 38] @ nas_registration_request e u"

definition nas_session_request :: "byte list" where
  "nas_session_request =
     (let container = [EPD_5G_Session_Management_Messages, 1, 1, 0xc1, 0xff, 0xff, 0x91, 0xa1,
            0x7b, 0, 7, 0x80, 0, 0x0a, 0, 0, 0x0d, 0]
      in nas_mobility UL_NAS_TRANSPORT @ [1, 0, of_nat (length container)] @ container @
         [0x12, 1, 0x81, 0x22, 4, 1, 1, 2, 3, 0x25, 9, 8] @ str ''internet'')"

definition nas_deregistration_request :: "UE \<Rightarrow> bool \<Rightarrow> byte list" where
  "nas_deregistration_request u switch_off = nas_mobility DEREGISTRATION_REQUEST @
     [if switch_off then 9 else 1, 0, 11, 0xf2] @ guami u @ drop 6 (guti u)"

definition pdu_setup :: "eNB \<Rightarrow> pdu" where
  "pdu_setup e = \<lparr>p_type = 0, p_proc = ID_NG_SETUP, p_crit = CRITICALITY_REJECT, p_ies =
     [\<lparr>ie_id = ID_GLOBAL_RAN_NODE_ID, ie_crit = CRITICALITY_REJECT, ie_value =
         [GLOBAL_GNB_ID] @ enb_plmn e @ UINT32_TO_ARRAY (push_bit 2 (enb_id e))\<rparr>,
      \<lparr>ie_id = ID_RAN_NODE_NAME, ie_crit = CRITICALITY_IGNORE, ie_value = [3, 0] @ str ''Nervion''\<rparr>,
      \<lparr>ie_id = ID_SUPPORTED_TA_LIST, ie_crit = CRITICALITY_REJECT, ie_value =
         [0, 0, 0, 0, 1, 0] @ enb_plmn e @ [0, 0, 0x10, 8, 0, 0, 1]\<rparr>,
      \<lparr>ie_id = ID_DEFAULT_PAGING_DRX, ie_crit = CRITICALITY_IGNORE, ie_value = [PAGING_DRX_128]\<rparr>]\<rparr>"

definition pdu_initial :: "eNB \<Rightarrow> UE \<Rightarrow> pdu" where
  "pdu_initial e u = \<lparr>p_type = 0, p_proc = ID_INITIAL_UE_MESSAGE, p_crit = CRITICALITY_IGNORE, p_ies =
     [ie_ran u, ie_nas (nas_registration_request e u), ie_location e,
      \<lparr>ie_id = ID_RCC_ESTABLISHMENT_CAUSE, ie_crit = CRITICALITY_IGNORE, ie_value = [CAUSE_MT_ACCESS]\<rparr>,
      \<lparr>ie_id = ID_UE_CONTEXT_REQUEST, ie_crit = CRITICALITY_IGNORE, ie_value = [0]\<rparr>]\<rparr>"

definition pdu_uplink :: "eNB \<Rightarrow> UE \<Rightarrow> byte list \<Rightarrow> pdu" where
  "pdu_uplink e u m = \<lparr>p_type = 0, p_proc = ID_UPLINK_NAS_TRANSPORT, p_crit = CRITICALITY_IGNORE, p_ies =
     [ie_amf u, ie_ran u, ie_nas m, ie_location e]\<rparr>"

definition pdu_response :: "byte \<Rightarrow> UE \<Rightarrow> ie list \<Rightarrow> pdu" where
  "pdu_response p u xs = \<lparr>p_type = SUCCESFUL_OUTCOME, p_proc = p, p_crit = CRITICALITY_REJECT, p_ies =
     [ie_amf u, ie_ran u] @ xs\<rparr>"

definition ie_session_response :: "UE \<Rightarrow> ie" where
  "ie_session_response u = \<lparr>ie_id = ID_PDU_SESSION_RESOURCE_SETUP_LIST_SU_RES, ie_crit = CRITICALITY_IGNORE,
     ie_value = [0, 0, 1, 0x0d, 0, 3, 0xe0] @ ue_ip u @ UINT32_TO_ARRAY (gtp_teid u) @ [0, 9]\<rparr>"

section \<open>The code writes the messages\<close>

declare poke.simps [simp del]

lemmas write_simps = poke_front front_simps wrn_front ue_simps Let_def

lemma encode_ie_short:
  "length v < 128 \<Longrightarrow> encode_ie \<lparr>ie_id = t, ie_crit = c, ie_value = v\<rparr> = [0, t, c, of_nat (length v)] @ v"
  by (simp add: encode_ie_def encode_length_def)

lemma wf_eNB_plmn [simp]: "wf_eNB e \<Longrightarrow> length (enb_plmn e) = 3"
  by (simp add: wf_eNB_def)

lemma wf_UE_advance [simp]: "wf_UE (u\<lparr>nas_sequence_number := n\<rparr>) = wf_UE u"
  by (simp add: wf_UE_def)

lemma wf_UE_lengths [simp]:
  "wf_UE u \<Longrightarrow> length (ue_msin u) = 5" "wf_UE u \<Longrightarrow> length (mme_s1ap_id u) = 16" "wf_UE u \<Longrightarrow> length (guami u) = 6"
  "wf_UE u \<Longrightarrow> length (guti u) = 10" "wf_UE u \<Longrightarrow> length (ue_ip u) = 4" "wf_UE u \<Longrightarrow> length (ue_mcc u) = 3"
  "wf_UE u \<Longrightarrow> length (ue_mnc u) = 2" "wf_UE u \<Longrightarrow> wf_challenge (auth_challenge u)"
  "wf_UE u \<Longrightarrow> length (ue_key u) = 16" "wf_UE u \<Longrightarrow> length (ue_op_key u) = 16" "wf_UE u \<Longrightarrow> length (msin_string u) = 16"
  by (simp_all add: wf_UE_def)

lemma ie_ran_written:
  assumes "i = length p" and "length p + 7 \<le> length a"
  shows "add_protocolIE_RAN_UE_NGAP_ID u (front a p) i = Some (front a (p @ encode_ie (ie_ran u)), 7)"
  using assms by (simp add: add_protocolIE_RAN_UE_NGAP_ID_def write_simps ie_ran_def encode_ie_short UINT32_TO_ARRAY_def)

lemma ie_location_written:
  assumes "i = length p" and "length p + 19 \<le> length a" and "wf_eNB e"
  shows "add_protocolIE_User_Location_Information e (front a p) i = Some (front a (p @ encode_ie (ie_location e)), 19)"
  using assms
  by (simp add: add_protocolIE_User_Location_Information_def write_simps ie_location_def encode_ie_short)

lemma ie_amf_written:
  assumes "i = length p" and "length p + 4 + unat (mme_s1ap_id_len u) \<le> length a" and "3 < length p" and "wf_UE u"
    and "unat (mme_s1ap_id_len u) \<le> 16"
  shows "add_protocolIE_AMF_UE_NGAP_ID u (front a p) i 0 =
     Some (front a (p[3 := p ! 3 + mme_s1ap_id_len u] @ encode_ie (ie_amf u)), 4 + unat (mme_s1ap_id_len u))"
  using assms
  by (simp add: add_protocolIE_AMF_UE_NGAP_ID_def write_simps ie_amf_def encode_ie_short front_header nth_append list_update_append)

lemma drop_front_end: "i = length p \<Longrightarrow> drop i (front a (p @ q)) = q @ drop (length p + length q) a"
  by (simp add: front_def)

text \<open>The four bytes that a protected message leaves for its authentication code.\<close>

definition gap :: "buf \<Rightarrow> byte list \<Rightarrow> byte list" where
  "gap a p = take 4 (drop (length p) a)"

lemma length_gap [simp]: "length p + 4 \<le> length a \<Longrightarrow> length (gap a p) = 4"
  by (simp add: gap_def)

lemma poke_gap4:
  "i = length p + 4 \<Longrightarrow> length p + 4 + length xs \<le> length a \<Longrightarrow> poke (front a p) i xs = Some (front a (p @ gap a p @ xs))"
  unfolding gap_def by (rule poke_gap)

text \<open>The message authentication code is written into the gap.\<close>

lemma mac_written:
  assumes "wf_env E" and "wf_UE u" and "length g = 4" and "unat n = length q" and "length p + 11 + length q \<le> length a"
    and "i = length p"
  shows "add_mac E u (front a (p @ x0 # x1 # x2 # x3 # x4 # x5 # x6 # g @ q)) i n count =
     Some (front a (p @ x0 # x1 # x2 # x3 # x4 # x5 # x6 #
       EIA2 (e_cmac E) (NAS_KEY_INT (auth_challenge u)) count 1 False q @ q))"
proof -
  let ?h = "[x0, x1, x2, x3, x4, x5, x6]"
  let ?mac = "EIA2 (e_cmac E) (NAS_KEY_INT (auth_challenge u)) count 1 False q"
  have k: "length (NAS_KEY_INT (auth_challenge u)) = 16" using wf_UE_lengths(8) [OF assms(2)] by (simp add: wf_challenge_def)
  have c: "\<And>k m. length (e_cmac E k m) = 16" using assms(1) by (simp add: wf_env_def)
  have d: "drop (length p + 11) (front a ((p @ ?h @ g) @ q)) = q @ drop (length (p @ ?h @ g) + length q) a"
    by (rule drop_front_end) (simp add: assms(3))
  have "length ?mac = 4" by (simp add: EIA2_def c)
  with assms(3-5) have w: "wrn (front a ((p @ ?h) @ g @ q)) (length p + 7) ?mac = Some (front a ((p @ ?h) @ ?mac @ q))"
    by (intro wrn_front_mid) simp_all
  show ?thesis
    using d w assms(4) nas_integrity_eia2_EIA2 [OF _ k c, where message_length = n and message = "drop (length p + 11) (front a ((p @ ?h @ g) @ q))"]
    by (simp add: add_mac_def assms(6) ue_simps)
qed

lemma EIA2_length: "wf_env E \<Longrightarrow> length (EIA2 (e_cmac E) k c b d m) = 4"
  by (simp add: EIA2_def wf_env_def)

lemma nas_registration_written:
  assumes "i = length p" and "length p + 43 \<le> length a" and "wf_eNB e" and "wf_UE u"
  shows "add_protocolIE_NAS_PDU_Registration_Request u e (front a p) i =
     Some (front a (p @ encode_ie (ie_nas (nas_registration_request e u))), 43)"
  using assms
  by (simp add: add_protocolIE_NAS_PDU_Registration_Request_def write_simps ie_nas_def encode_ie_short
      nas_registration_request_def nas_mobility_def suci_def capabilities_def)

lemma nas_response_written:
  assumes "i = length p" and "length p + 26 \<le> length a" and "wf_env E" and "wf_UE u"
  shows "add_protocolIE_NAS_PDU_Registration_Response E u (front a p) i =
     Some (front a (p @ encode_ie (ie_nas (nas_authentication_response
       (drop 16 (KDF (CK (auth_challenge u) @ IK (auth_challenge u)) 0x6B
          [network_name (ue_mcc u) (ue_mnc u), RAND (auth_challenge u), RES (auth_challenge u)]))))), 26)"
proof -
  have r: "generate_res_5g (e_hmac E) (e_input63 E) (e_key32 E) (CK (auth_challenge u)) (IK (auth_challenge u))
      (RAND (auth_challenge u)) (RES (auth_challenge u)) (ue_mcc u) (ue_mnc u) =
      Some (drop 16 (KDF (CK (auth_challenge u) @ IK (auth_challenge u)) 0x6B
          [network_name (ue_mcc u) (ue_mnc u), RAND (auth_challenge u), RES (auth_challenge u)]))" (is "_ = Some ?res")
    using assms(3) wf_UE_lengths(8) [OF assms(4)] assms(4)
    by (intro generate_res_5g_KDF) (simp_all add: wf_env_def wf_challenge_def)
  have l: "length ?res = 16" by (simp add: KDF_def HMAC_def)
  show ?thesis
    using assms(1,2) l
    by (simp add: add_protocolIE_NAS_PDU_Registration_Response_def write_simps r ie_nas_def encode_ie_short
        nas_authentication_response_def nas_mobility_def)
qed


lemmas nas_simps = write_simps poke_gap4 mac_written get_nas_sequence_number_def ie_nas_def encode_ie_short protected_def
  nas_mobility_def EIA2_length

lemma nas_security_mode_written:
  assumes "i = length p" and "length p + 68 \<le> length a" and "wf_eNB e" and "wf_UE u" and "wf_env E"
  shows "add_protocolIE_NAS_PDU_Security_Mode_Complete E u e (front a p) i =
     Some (front a (p @ encode_ie (ie_nas (protected E u 4 0 (nas_sequence_number u) (nas_security_mode_complete e u)))),
       u\<lparr>nas_sequence_number := nas_sequence_number u + 1\<rparr>, 68)"
    using assms
    by (simp add: add_protocolIE_NAS_PDU_Security_Mode_Complete_def nas_simps nas_security_mode_complete_def 
      nas_registration_request_def suci_def capabilities_def)

lemma nas_complete_written:
  assumes "i = length p" and "length p + 15 \<le> length a" and "wf_UE u" and "wf_env E"
  shows "add_protocolIE_NAS_PDU_Registration_Complete E u (front a p) i =
     Some (front a (p @ encode_ie (ie_nas (protected E u 2 1 (nas_sequence_number u) (nas_mobility REGISTRATION_COMPLETE)))),
       u\<lparr>nas_sequence_number := nas_sequence_number u + 1\<rparr>, 15)"
  using assms by (simp add: add_protocolIE_NAS_PDU_Registration_Complete_def nas_simps)

lemma nas_session_written:
  assumes "i = length p" and "length p + 56 \<le> length a" and "wf_UE u" and "wf_env E"
  shows "add_protocolIE_NAS_PDU_PDU_Session_Request E u (front a p) i =
     Some (front a (p @ encode_ie (ie_nas (protected E u 2 2 (nas_sequence_number u) nas_session_request))),
       u\<lparr>nas_sequence_number := nas_sequence_number u + 1\<rparr>, 56)"
  using assms by (simp add: add_protocolIE_NAS_PDU_PDU_Session_Request_def nas_simps nas_session_request_def)

lemma nas_deregistration_written:
  assumes "i = length p" and "length p + 29 \<le> length a" and "wf_UE u" and "wf_env E"
  shows "add_protocolIE_NAS_PDU_Deregistration_Request E u (front a p) i switch_off =
     Some (front a (p @ encode_ie (ie_nas (protected E u 2 3 (nas_sequence_number u) (nas_deregistration_request u switch_off)))),
       u\<lparr>nas_sequence_number := nas_sequence_number u + 1\<rparr>, 29)"
  using assms by (simp add: add_protocolIE_NAS_PDU_Deregistration_Request_def nas_simps nas_deregistration_request_def)

lemma session_response_written:
  assumes "i = length p" and "length p + 21 \<le> length a" and "wf_UE u"
  shows "add_protocolIE_NAS_PDU_PDU_Session_Response u (front a p) i =
     Some (front a (p @ encode_ie (ie_session_response u)), 21)"
  using assms
  by (simp add: add_protocolIE_NAS_PDU_PDU_Session_Response_def write_simps ie_session_response_def encode_ie_short)

section \<open>Whole messages\<close>

definition clean :: "nat \<Rightarrow> buf \<Rightarrow> buf" where
  "clean n b = replicate n 0 @ drop n b"

lemma length_clean [simp]: "n \<le> length b \<Longrightarrow> length (clean n b) = length b"
  by (simp add: clean_def)

lemma memset_clean: "n \<le> length b \<Longrightarrow> memset b 0 0 n = Some (front (clean n b) [])"
  by (simp add: memset_ok clean_def front_def)

lemma header_update: "[x0, x1, x2, x3, x4, x5, x6][3 := v] = [x0, x1, x2, v, x4, x5, x6]"
  "(x0 # x1 # x2 # x3 # xs) ! 3 = x3"
  by (simp_all add: numeral_3_eq_3)

lemma length_ies:
  "length (encode_ie (ie_ran u)) = 7"
  "wf_eNB e \<Longrightarrow> length (encode_ie (ie_location e)) = 19"
  "wf_UE u \<Longrightarrow> unat (mme_s1ap_id_len u) \<le> 16 \<Longrightarrow> length (encode_ie (ie_amf u)) = 4 + unat (mme_s1ap_id_len u)"
  "length m < 127 \<Longrightarrow> length (encode_ie (ie_nas m)) = 5 + length m"
  "wf_UE u \<Longrightarrow> length (encode_ie (ie_session_response u)) = 21"
  by (simp_all add: ie_ran_def ie_location_def ie_amf_def ie_nas_def ie_session_response_def encode_ie_short)

lemma length_nas:
  "wf_eNB e \<Longrightarrow> wf_UE u \<Longrightarrow> length (nas_registration_request e u) = 38"
  "wf_eNB e \<Longrightarrow> wf_UE u \<Longrightarrow> length (nas_security_mode_complete e u) = 56"
  "length (nas_authentication_response res) = 5 + length res"
  "length nas_session_request = 44"
  "wf_UE u \<Longrightarrow> length (nas_deregistration_request u b) = 17"
  "wf_env E \<Longrightarrow> length (protected E u k c sq m) = 7 + length m"
  "length (nas_mobility t) = 3"
  by (simp_all add: nas_registration_request_def nas_security_mode_complete_def nas_authentication_response_def suci_def
      nas_session_request_def nas_deregistration_request_def protected_def capabilities_def nas_mobility_def EIA2_length Let_def)

lemma encode_pdu_short:
  "length xs < 256 \<Longrightarrow> length (concat (map encode_ie xs)) < 125 \<Longrightarrow>
   encode_pdu \<lparr>p_type = t, p_proc = p, p_crit = c, p_ies = xs\<rparr> =
     [t, p, c, of_nat (3 + length (concat (map encode_ie xs))), 0, 0, of_nat (length xs)] @ concat (map encode_ie xs)"
  by (simp add: encode_pdu_def encode_body_def encode_length_def)

lemmas message_simps = Let_def memset_clean poke_front NG_SETUP_REQUEST_LEN_def NG_REGISTRATION_REQUEST_LEN_def header_update ie_amf_written
  ie_ran_written ie_location_written nas_registration_written nas_response_written nas_security_mode_written
  nas_complete_written nas_session_written nas_deregistration_written session_response_written length_ies length_nas
  encode_pdu_short

definition id_ok :: "UE \<Rightarrow> bool" where
  "id_ok u \<longleftrightarrow> unat (mme_s1ap_id_len u) \<le> 16"

lemma registration_request_message:
  assumes "wf_eNB e" and "wf_UE u" and "length b = 1024"
  shows "generate_NG_Registration_Request e u b =
     Some (front (clean 69 b) (encode_pdu (pdu_initial e u)), length (encode_pdu (pdu_initial e u)))"
  using assms
  by (simp add: generate_NG_Registration_Request_def add_NG_Registration_Request_Header_def message_simps pdu_initial_def
    add_protocolIE_RRC_Establishment_Cause_def add_protocolIE_UE_Context_Request_def encode_ie_short)

lemma security_mode_complete_message:
  assumes "wf_eNB e" and "wf_UE u" and "length b = 1024" and "wf_env E" and "id_ok u"
    and p: "p = pdu_uplink e u (protected E u 4 0 (nas_sequence_number u) (nas_security_mode_complete e u))"
  shows "generate_NG_Security_Mode_Complete E e u b =
     Some (front (clean 69 b) (encode_pdu p), u\<lparr>nas_sequence_number := nas_sequence_number u + 1\<rparr>, length (encode_pdu p))"
  using assms(1-5) unfolding p
  by (simp add: generate_NG_Security_Mode_Complete_def add_NG_Security_Mode_Complete_Header_def message_simps pdu_uplink_def id_ok_def)

lemma setup_message:
  assumes "wf_eNB e" and "length b = 1024"
  shows "generate_NG_SetupRequest b e = Some (front (clean 53 b) (encode_pdu (pdu_setup e)), length (encode_pdu (pdu_setup e)))"
  using assms
  by (simp add: generate_NG_SetupRequest_def add_NG_Setup_header_def add_protocolIE_Global_RAN_Node_ID_def
    add_protocolIE_RAN_Node_Name_def add_protocolIE_TA_List_def add_protocolIE_DefaultPaging_DRX_def message_simps
    write_simps pdu_setup_def encode_ie_short RAN_NODE_NAME_def)

lemma authentication_response_message:
  assumes "wf_eNB e" and "wf_UE u" and "length b = 1024" and "wf_env E" and "id_ok u"
    and p: "p = pdu_uplink e u (nas_authentication_response
       (drop 16 (KDF (CK (auth_challenge u) @ IK (auth_challenge u)) 0x6B
          [network_name (ue_mcc u) (ue_mnc u), RAND (auth_challenge u), RES (auth_challenge u)])))"
  shows "generate_NG_Authentication_Response E e u b = Some (front (clean 69 b) (encode_pdu p), length (encode_pdu p))"
proof -
  let ?res = "drop 16 (KDF (CK (auth_challenge u) @ IK (auth_challenge u)) 0x6B
          [network_name (ue_mcc u) (ue_mnc u), RAND (auth_challenge u), RES (auth_challenge u)])"
  have "length ?res = 16" by (simp add: KDF_def HMAC_def)
  with assms(1-5) show ?thesis unfolding p
    by (simp add: generate_NG_Authentication_Response_def add_NG_Registration_Response_Header_def message_simps pdu_uplink_def id_ok_def)
qed

lemma context_response_message:
  assumes "wf_UE u" and "length b = 1024" and "id_ok u" and p: "p = pdu_response ID_INITIAL_CONTEXT_SETUP u []"
  shows "generate_NG_InitialContextSetupResponse e u b = Some (front (clean 69 b) (encode_pdu p), length (encode_pdu p))"
  using assms(1-3) unfolding p
  by (simp add: generate_NG_InitialContextSetupResponse_def add_NG_Initial_Context_Setup_Response_Header_def message_simps
      pdu_response_def id_ok_def)

lemma registration_complete_message:
  assumes "wf_eNB e" and "wf_UE u" and "length b = 1024" and "wf_env E" and "id_ok u"
    and p: "p = pdu_uplink e u (protected E u 2 1 (nas_sequence_number u) (nas_mobility REGISTRATION_COMPLETE))"
  shows "generate_NG_RegistrationComplete E e u b =
     Some (front (clean 69 b) (encode_pdu p), u\<lparr>nas_sequence_number := nas_sequence_number u + 1\<rparr>, length (encode_pdu p))"
  using assms(1-5) unfolding p
  by (simp add: generate_NG_RegistrationComplete_def add_NG_Registration_Complete_Header_def message_simps pdu_uplink_def id_ok_def)

lemma session_request_message:
  assumes "wf_eNB e" and "wf_UE u" and "length b = 1024" and "wf_env E" and "id_ok u"
    and p: "p = pdu_uplink e u (protected E u 2 2 (nas_sequence_number u) nas_session_request)"
  shows "generate_NG_PDUSessionRequest E e u b =
     Some (front (clean 69 b) (encode_pdu p), u\<lparr>nas_sequence_number := nas_sequence_number u + 1\<rparr>, length (encode_pdu p))"
  using assms(1-5) unfolding p
  by (simp add: generate_NG_PDUSessionRequest_def add_NG_PDU_Session_Request_Header_def message_simps pdu_uplink_def id_ok_def)

lemma session_response_message:
  assumes "wf_UE u" and "length b = 1024" and "id_ok u"
    and p: "p = pdu_response ID_PDU_SESSION_RESOURCE_SETUP u [ie_session_response u]"
  shows "generate_NG_PDUSessionResponse e u b = Some (front (clean 69 b) (encode_pdu p), length (encode_pdu p))"
  using assms(1-3) unfolding p
  by (simp add: generate_NG_PDUSessionResponse_def add_NG_PDU_Session_Response_Header_def message_simps
      pdu_response_def id_ok_def)

lemma deregistration_message:
  assumes "wf_eNB e" and "wf_UE u" and "length b = 1024" and "wf_env E" and "id_ok u"
    and p: "p = pdu_uplink e u (protected E u 2 3 (nas_sequence_number u) (nas_deregistration_request u switch_off))"
  shows "generate_NG_Deregistration_Request E e u b switch_off =
     Some (front (clean 69 b) (encode_pdu p), u\<lparr>nas_sequence_number := nas_sequence_number u + 1\<rparr>, length (encode_pdu p))"
  using assms(1-5) unfolding p
  by (simp add: generate_NG_Deregistration_Request_def add_NG_Deregistration_Request_Header_def message_simps pdu_uplink_def id_ok_def)

lemma release_complete_message:
  assumes "wf_eNB e" and "wf_UE u" and "length b = 1024" and "id_ok u"
    and p: "p = pdu_response ID_UE_CONTEXT_RELEASE u [ie_location e]"
  shows "generate_NG_UEContextReleaseComplete e u b = Some (front (clean 69 b) (encode_pdu p), length (encode_pdu p))"
  using assms(1-4) unfolding p
  by (simp add: generate_NG_UEContextReleaseComplete_def add_NG_UEContextReleaseComplete_Header_def message_simps
      pdu_response_def id_ok_def)

lemma length_ie_values:
  "length (ie_value (ie_ran u)) = 3"
  "wf_eNB e \<Longrightarrow> length (ie_value (ie_location e)) = 15"
  "wf_UE u \<Longrightarrow> id_ok u \<Longrightarrow> length (ie_value (ie_amf u)) = unat (mme_s1ap_id_len u)"
  "length (ie_value (ie_nas m)) = 1 + length m"
  "wf_UE u \<Longrightarrow> length (ie_value (ie_session_response u)) = 17"
  by (simp_all add: ie_ran_def ie_location_def ie_amf_def ie_nas_def ie_session_response_def id_ok_def)

text \<open>All these PDUs fit their length fields, so the decoder finds them again.\<close>

lemma pdus_ok:
  "wf_eNB e \<Longrightarrow> pdu_ok (pdu_setup e)"
  "wf_eNB e \<Longrightarrow> wf_UE u \<Longrightarrow> pdu_ok (pdu_initial e u)"
  "wf_eNB e \<Longrightarrow> wf_UE u \<Longrightarrow> id_ok u \<Longrightarrow> length m < 127 \<Longrightarrow> pdu_ok (pdu_uplink e u m)"
  "wf_UE u \<Longrightarrow> id_ok u \<Longrightarrow> pdu_ok (pdu_response p u [])"
  "wf_UE u \<Longrightarrow> id_ok u \<Longrightarrow> pdu_ok (pdu_response p u [ie_session_response u])"
  "wf_eNB e \<Longrightarrow> wf_UE u \<Longrightarrow> id_ok u \<Longrightarrow> pdu_ok (pdu_response p u [ie_location e])"
  by (simp_all add: pdu_ok_def pdu_setup_def pdu_initial_def pdu_uplink_def pdu_response_def encode_body_def length_ies
      length_ie_values length_nas encode_ie_short id_ok_def)

end
