(* ===== verification/Ngap_Effects.thy ===== *)
theory Ngap_Effects
  imports Ngap_Messages
begin

text \<open>
  What the answers of the core do to a UE.  \<open>apply_ie\<close> is the meaning of one information element, and the analysis of an
  encoded list of elements, at any place of a larger buffer, is the fold of these meanings: it reads nothing outside
  the message, terminates after the last element and keeps the UE well-formed.
\<close>

section \<open>What an information element means\<close>

text \<open>
  The NAS message starts after its length byte.  TS 24.501: a Registration Accept carries the 5G-GUTI, a Security Mode
  Command the selected algorithms, an Authentication Request RAND and AUTN.
\<close>

definition apply_nas :: "byte list \<Rightarrow> UE \<Rightarrow> UE" where
  "apply_nas v u =
     (if v ! 2 = 2 \<and> v ! 10 = REGISTRATION_ACCEPT then u\<lparr>guti := take 10 (drop 17 v)\<rparr>
      else if v ! 2 = 3 \<and> v ! 10 = SECURITY_MODE_COMMAND then u\<lparr>nas_session_security_algorithms := v ! 11\<rparr>
      else if v ! 2 = 0 \<and> v ! 3 = AUTHENTICATION_REQUEST then
        u\<lparr>auth_challenge := (auth_challenge u)\<lparr>RAND := take 16 (drop 9 v), AUTN := take 16 (drop 27 v)\<rparr>\<rparr>
      else u)"

definition nas_ok :: "byte list \<Rightarrow> bool" where
  "nas_ok v \<longleftrightarrow> 3 \<le> length v \<and>
     (v ! 2 = 2 \<longrightarrow> 11 \<le> length v \<and> (v ! 10 = REGISTRATION_ACCEPT \<longrightarrow> 27 \<le> length v)) \<and>
     (v ! 2 = 3 \<longrightarrow> 11 \<le> length v \<and> (v ! 10 = SECURITY_MODE_COMMAND \<longrightarrow> 12 \<le> length v)) \<and>
     (v ! 2 = 0 \<longrightarrow> 4 \<le> length v \<and> (v ! 3 = AUTHENTICATION_REQUEST \<longrightarrow> 43 \<le> length v))"

text \<open>
  The list of PDU sessions: the address of the UE follows the element 0x29, and the tunnel end point follows the
  bytes 0x00 0x8b.
\<close>

definition address_index :: "byte list \<Rightarrow> nat option" where
  "address_index v = find (\<lambda>i. v ! i = 0x29) [4..<length v - 8]"

definition tunnel_index :: "byte list \<Rightarrow> nat \<Rightarrow> nat option" where
  "tunnel_index v i = find (\<lambda>i. v ! i = 0x8b \<and> v ! (i - 1) = 0) [i..<length v - 8]"

definition apply_session :: "byte list \<Rightarrow> UE \<Rightarrow> UE" where
  "apply_session v u =
     (if v ! 4 = 0x7e then
        (case address_index v of
           Some i \<Rightarrow>
             (case tunnel_index v i of
                Some k \<Rightarrow> u\<lparr>pdn_ip := take 4 (drop (i + 3) v), spgw_ip := take 4 (drop (k + 5) v),
                             gtp_teid := be32 (v ! (k + 9)) (v ! (k + 10)) (v ! (k + 11)) (v ! (k + 12))\<rparr>
              | None \<Rightarrow> u)
         | None \<Rightarrow> u)
      else u)"

definition session_ok :: "byte list \<Rightarrow> bool" where
  "session_ok v \<longleftrightarrow> 5 \<le> length v \<and>
     (v ! 4 = 0x7e \<longrightarrow> 11 \<le> length v \<and> (\<exists>i k. address_index v = Some i \<and> tunnel_index v i = Some k \<and> k + 13 \<le> length v))"

definition apply_ie :: "ie \<Rightarrow> UE \<Rightarrow> UE" where
  "apply_ie x u =
     (let v = ie_value x in
      if ie_id x = ID_AMF_UE_NGAP_ID then
        u\<lparr>mme_s1ap_id := v @ drop (length v) (mme_s1ap_id u), mme_s1ap_id_len := of_nat (length v)\<rparr>
      else if ie_id x = ID_GUAMI then u\<lparr>guami := take 6 (drop 1 v)\<rparr>
      else if ie_id x = ID_NAS_PDU then apply_nas v u
      else if ie_id x = ID_PDU_SESSION_RESOURCE_SETUP_LIST_SU_REQ then apply_session v u
      else u)"

definition ie_ok :: "ie \<Rightarrow> bool" where
  "ie_ok x \<longleftrightarrow>
     (let v = ie_value x in
      (length v < 128 \<or> ie_id x = ID_PDU_SESSION_RESOURCE_SETUP_LIST_SU_REQ \<and> length v < 256) \<and>
      (ie_id x = ID_AMF_UE_NGAP_ID \<longrightarrow> length v \<le> 16) \<and>
      (ie_id x = ID_GUAMI \<longrightarrow> 7 \<le> length v) \<and>
      (ie_id x = ID_UE_SECURITY_CAPABILITIES \<longrightarrow> 7 \<le> length v) \<and>
      (ie_id x = ID_CAUSE \<longrightarrow> 1 \<le> length v) \<and>
      (ie_id x = ID_NAS_PDU \<longrightarrow> nas_ok v) \<and>
      (ie_id x = ID_PDU_SESSION_RESOURCE_SETUP_LIST_SU_REQ \<longrightarrow> session_ok v))"

section \<open>The analysis\<close>

lemma scan_find:
  assumes "\<And>i. j \<le> i \<Longrightarrow> i < limit \<Longrightarrow> p i = Some (q i)" and "find q [j..<limit] = Some k"
  shows "scan p j limit = Some k"
  using assms
proof (induction "limit - j" arbitrary: j)
  case 0
  then show ?case by simp
next
  case (Suc n)
  then have l: "j < limit" by simp
  have "[j..<limit] = j # [Suc j..<limit]" using l by (simp add: upt_conv_Cons)
  then have f: "find q [j..<limit] = (if q j then Some j else find q [Suc j..<limit])" by simp
  show ?case
  proof (cases "q j")
    case True
    with f Suc.prems l show ?thesis by (subst scan.simps) simp
  next
    case False
    with Suc.hyps(1) [of "Suc j"] Suc.hyps(2) Suc.prems f l show ?thesis by (subst scan.simps) simp
  qed
qed

lemma find_upt_bounds: "find q [j..<m] = Some k \<Longrightarrow> j \<le> k \<and> k < m \<and> q k"
  by (auto simp: find_Some_iff)

text \<open>The buffer \<open>b\<close> holds an element with the value \<open>v\<close> whose identifier is at \<open>i\<close>.\<close>

definition value_at :: "buf \<Rightarrow> nat \<Rightarrow> byte list \<Rightarrow> bool" where
  "value_at b i v \<longleftrightarrow> (\<exists>pre rest. b = pre @ v @ rest \<and> length pre = i + 3) \<and>
     length v < 256 \<and> rd b (i + 2) = Some (of_nat (length v))"

lemma value_atI:
  "b = pre @ v @ rest \<Longrightarrow> length pre = i + 3 \<Longrightarrow> length v < 256 \<Longrightarrow> rd b (i + 2) = Some (of_nat (length v)) \<Longrightarrow> value_at b i v"
  by (auto simp: value_at_def)

lemma value_at_rd: "value_at b i v \<Longrightarrow> i + 3 \<le> j \<Longrightarrow> j < i + 3 + length v \<Longrightarrow> rd b j = Some (v ! (j - (i + 3)))"
  by (auto simp: value_at_def rd_def nth_append)

lemma value_at_take:
  assumes "value_at b i v" and "i + 3 \<le> j" and "j + n \<le> i + 3 + length v"
  shows "take n (drop j b) = take n (drop (j - (i + 3)) v)" and "n \<le> length b - j" and "rdn b j n = Some (take n (drop (j - (i + 3)) v))"
proof -
  obtain pre rest where b: "b = pre @ v @ rest" "length pre = i + 3" using assms(1) by (auto simp: value_at_def)
  from b assms(2,3) show "take n (drop j b) = take n (drop (j - (i + 3)) v)" "n \<le> length b - j"
    "rdn b j n = Some (take n (drop (j - (i + 3)) v))"
    by (simp_all add: rdn_def)
qed

lemma value_at_skip: "value_at b i v \<Longrightarrow> skip_item b i = Some (i + 3 + length v)"
  by (auto simp: skip_item_def value_at_def unat_of_nat)

lemmas value_simps = value_at_rd value_at_take value_at_skip

lemma nas_pdu_item_ok:
  assumes va: "value_at b i v" and ok: "nas_ok v" and wf: "wf_UE u"
  shows "nas_pdu_item (Some u) b i = Some (Some (apply_nas v u), i + 3 + length v)"
proof -
  have c: "rd b (i + 5) = Some (v ! 2)" using ok by (simp add: value_simps [OF va] nas_ok_def)
  consider "v ! 2 = 2" | "v ! 2 = 3" | "v ! 2 = 0" | "v ! 2 \<noteq> 2 \<and> v ! 2 \<noteq> 3 \<and> v ! 2 \<noteq> 0" by blast
  then show ?thesis
  proof cases
    case 1
    with ok show ?thesis
      by (auto simp: nas_pdu_item_def c value_simps [OF va] nas_ok_def apply_nas_def setters_ok(4) [OF wf])
  next
    case 2
    with ok show ?thesis
      by (auto simp: nas_pdu_item_def c value_simps [OF va] nas_ok_def apply_nas_def ue_simps)
  next
    case 3
    with ok show ?thesis
      by (auto simp: nas_pdu_item_def c value_simps [OF va] nas_ok_def apply_nas_def ue_simps)
  next
    case 4
    then show ?thesis by (simp add: nas_pdu_item_def c value_simps [OF va] apply_nas_def)
  qed
qed


text \<open>The scans of the code run over the offsets \<open>j\<close>, three after the index in the value.\<close>

lemma find_map_list: "find P (map f xs) = map_option f (find (P \<circ> f) xs)"
  by (induction xs) simp_all

lemma scan_value:
  assumes "\<And>j. lo + 3 \<le> j \<Longrightarrow> j < hi + 3 \<Longrightarrow> p j = Some (q (j - 3))" and "find q [lo..<hi] = Some k"
  shows "scan p (lo + 3) (hi + 3) = Some (k + 3)"
proof (rule scan_find)
  show "p j = Some ((\<lambda>j. q (j - 3)) j)" if "lo + 3 \<le> j" "j < hi + 3" for j using assms(1) that by simp
  have "[lo + 3..<hi + 3] = map (\<lambda>i. i + 3) [lo..<hi]" by (rule nth_equalityI) simp_all
  then have "find (\<lambda>j. q (j - 3)) [lo + 3..<hi + 3] = map_option (\<lambda>i. i + 3) (find (q \<circ> id) [lo..<hi])"
    by (simp add: find_map_list comp_def)
  with assms(2) show "find (\<lambda>j. q (j - 3)) [lo + 3..<hi + 3] = Some (k + 3)" by (simp add: comp_def)
qed

lemma pdu_session_item_ok:
  assumes n: "rd b (i + 2) = Some n" and at: "at = (if n = 0x80 then i + 1 else i)" and va: "value_at b at v"
    and ok: "session_ok v" and wf: "wf_UE u"
  shows "pdu_session_item (Some u) b i = Some (Some (apply_session v u), at + 3 + length v)"
proof -
  note val = value_simps [OF va]
  have l5: "5 \<le> length v" using ok by (simp add: session_ok_def)
  have c: "rd b (at + 5) = Some (v ! 2)" "rd b (at + 7) = Some (v ! 4)" using l5 by (simp_all add: val)
  show ?thesis
  proof (cases "v ! 4 = 0x7e")
    case False
    with l5 show ?thesis
      unfolding pdu_session_item_def n bind.bind_lunit Let_def at [symmetric]
      by (simp add: c val apply_session_def)
  next
    case True
    then obtain i1 k where len: "11 \<le> length v" "k + 13 \<le> length v" and a: "address_index v = Some i1"
      and tk: "tunnel_index v i1 = Some k"
      using ok by (auto simp: session_ok_def)
    have b1: "4 \<le> i1" "i1 < length v - 8" "i1 \<le> k" "k < length v - 8"
      using find_upt_bounds [OF a [unfolded address_index_def]] find_upt_bounds [OF tk [unfolded tunnel_index_def]] by auto
    have lim: "unat (of_nat (length v) :: byte) - 5 = (length v - 8) + 3"
      using va len by (simp add: value_at_def unat_of_nat)
    have r: "rd b (at + j) = Some (v ! (j - 3))" if "3 \<le> j" "j < length v + 3" for j
      using that by (simp add: val)
    have s1: "scan (\<lambda>j. rd b (at + j) \<bind> (\<lambda>x. Some (x = 0x29))) 7 (unat (of_nat (length v) :: byte) - 5) = Some (i1 + 3)"
      using scan_value [of 4 "length v - 8" _ "\<lambda>i. v ! i = 0x29", OF _ a [unfolded address_index_def]] b1 
      unfolding lim by (simp add: r)
    have s2: "scan (\<lambda>j. rd b (at + j) \<bind> (\<lambda>x. if x = 0x8b then rd b (at + j - 1) \<bind> (\<lambda>y. Some (y = 0x00)) else Some False))
        (i1 + 3) (unat (of_nat (length v) :: byte) - 5) = Some (k + 3)"
      unfolding lim
    proof (rule scan_value [OF _ tk [unfolded tunnel_index_def]])
      fix j assume j: "i1 + 3 \<le> j" "j < length v - 8 + 3"
      have "rd b (at + j - 1) = Some (v ! (j - 3 - 1))" using r [of "j - 1"] j b1(1) by simp
      with r [of j] j show "rd b (at + j) \<bind> (\<lambda>x. if x = 0x8b then rd b (at + j - 1) \<bind> (\<lambda>y. Some (y = 0x00)) else Some False) =
          Some (v ! (j - 3) = 0x8b \<and> v ! (j - 3 - 1) = 0)" by simp
    qed
    have n2: "rd b (at + 2) = Some (of_nat (length v))" using va by (simp add: value_at_def)
    define u1 where "u1 = u\<lparr>pdn_ip := take 4 (drop (i1 + 3) v)\<rparr>"
    have four: "4 \<le> length (drop (at + (x + 3) + y) b) \<and> take 4 (drop (at + (x + 3) + y) b) = take 4 (drop (x + y) v)"
      if "x + y + 4 \<le> length v" for x y
      using value_at_take(1,2) [OF va, of "at + (x + 3) + y" 4] that by simp
    have p: "set_pdn_ip u (drop (at + (i1 + 3) + 3) b) = Some u1"
      using setters_ok(3) [OF wf, of "drop (at + (i1 + 3) + 3) b"] four [of i1 3] b1 unfolding u1_def by simp
    have s: "set_spgw_ip u1 (drop (at + (k + 3) + 5) b) = Some (u1\<lparr>spgw_ip := take 4 (drop (k + 5) v)\<rparr>)"
      using setters_ok(2) [OF wf_UE_setters(3) [OF wf p], of "drop (at + (k + 3) + 5) b"] four [of k 5] len(2) by simp
    have q: "rdn b (at + 8) 6 = Some (take 6 (drop 5 v))" using len(1) by (simp add: val)
    have t: "rd b (at + (k + 3) + 9) = Some (v ! (k + 9))" "rd b (at + (k + 3) + 10) = Some (v ! (k + 10))"
      "rd b (at + (k + 3) + 11) = Some (v ! (k + 11))" "rd b (at + (k + 3) + 12) = Some (v ! (k + 12))"
      using len(2) by (simp_all add: val add.commute)
    have "apply_session v u = set_gtp_teid (u1\<lparr>spgw_ip := take 4 (drop (k + 5) v)\<rparr>)
        (be32 (v ! (k + 9)) (v ! (k + 10)) (v ! (k + 11)) (v ! (k + 12)))"
      using True a tk by (simp add: apply_session_def u1_def ue_simps)
    with True show ?thesis
      unfolding pdu_session_item_def n bind.bind_lunit Let_def at [symmetric] c
      by (simp only: if_True q n2 s1 s2 p s t bind.bind_lunit val(5)) simp
  qed
qed

lemma analyze_item_ok:
  assumes b: "b = pre @ encode_ie x @ rest" and i: "i = length pre" and ok: "ie_ok x" and wf: "wf_UE u"
  shows "analyze_item (Some u) b i = Some (Some (apply_ie x u), length pre + length (encode_ie x))"
proof -
  define v where "v = ie_value x"
  note okv = ok [unfolded ie_ok_def Let_def, folded v_def]
  have t: "rd b (i + 1) = Some (ie_id x)" by (simp add: b i encode_ie_def rd_def nth_append)
  show ?thesis
  proof (cases "length v < 128")
    case True
    have e: "encode_ie x = [0, ie_id x, ie_crit x, of_nat (length v)] @ v"
      using True by (simp add: encode_ie_def encode_length_def v_def)
    have n: "rd b (i + 1 + 2) = Some (of_nat (length v))" unfolding b e by (simp add: i rd_def nth_append)
    have va: "value_at b (i + 1) v"
      by (rule value_atI [of b "pre @ [0, ie_id x, ie_crit x, of_nat (length v)]" v rest]) (use n True b e i in simp_all)
    note val = value_simps [OF va]
    have u: "unat (of_nat (length v) :: byte) = length v" and n80: "of_nat (length v) \<noteq> (0x80 :: byte)"
    proof -
      show u: "unat (of_nat (length v) :: byte) = length v" using True by (simp add: unat_of_nat)
      show "of_nat (length v) \<noteq> (0x80 :: byte)"
      proof
        assume "of_nat (length v) = (0x80 :: byte)"
        then have "unat (of_nat (length v) :: byte) = unat (0x80 :: byte)" by (rule arg_cong)
        with u True show False by simp
      qed
    qed
    have le: "length pre + length (encode_ie x) = i + 1 + 3 + length v" by (simp add: e i)
    have sk: "skip_item b (Suc i) = Some (4 + i + length v)" using val(5) by simp
    consider "ie_id x = ID_AMF_UE_NGAP_ID" | "ie_id x = ID_GUAMI" | "ie_id x = ID_UE_SECURITY_CAPABILITIES"
      | "ie_id x = ID_UE_NGAP_IDS" | "ie_id x = ID_CAUSE" | "ie_id x = ID_PDU_SESSION_RESOURCE_SETUP_LIST_SU_REQ"
      | "ie_id x = ID_NAS_PDU" | "ie_id x \<notin> {0x0a, 0x1c, 0x77, 0x72, 0x0f, 0x4a, 0x26}" by blast
    then show ?thesis
    proof cases
      case 1
      with okv have l: "length v \<le> 16" by simp
      have "set_mme_s1ap_id u (drop (i + 1 + 3) b) (of_nat (length v)) =
          Some (u\<lparr>mme_s1ap_id := v @ drop (length v) (mme_s1ap_id u), mme_s1ap_id_len := of_nat (length v)\<rparr>)"
        using setters_ok(1) [OF wf, of "of_nat (length v)" "drop (i + 1 + 3) b"] l u value_at_take(1,2) [OF va, of "i + 1 + 3" "length v"]
        by simp
      with 1 show ?thesis unfolding analyze_item_def Let_def t le by (simp only: bind.bind_lunit n val(5) apply_ie_def Let_def v_def simp_thms if_True)
    next
      case 2
      with okv have l: "7 \<le> length v" by simp
      have "set_guami u (drop (i + 1 + 4) b) = Some (u\<lparr>guami := take 6 (drop 1 v)\<rparr>)"
        using setters_ok(5) [OF wf, of "drop (i + 1 + 4) b"] l value_at_take(1,2) [OF va, of "i + 1 + 4" 6] by simp
      with 2 show ?thesis unfolding analyze_item_def Let_def t le by (simp add: sk val v_def [symmetric] apply_ie_def)
    next
      case 3
      with okv have l: "7 \<le> length v" by simp
      with 3 show ?thesis unfolding analyze_item_def Let_def t le by (simp add: sk val apply_ie_def)
    next
      case 4
      then show ?thesis unfolding analyze_item_def Let_def t le bind.bind_lunit n by (simp add: sk val u apply_ie_def)
    next
      case 5
      with okv have l: "1 \<le> length v" by simp
      then have "rd b (4 + i) = Some (v ! 0)" using value_at_rd [OF va, of "4 + i"] by (simp add: Suc_le_eq)
      with 5 show ?thesis unfolding analyze_item_def Let_def t le by (simp add: sk val apply_ie_def)
    next
      case 6
      with okv have l: "session_ok v" by simp
      from pdu_session_item_ok [OF n _ va l wf] n80 6 show ?thesis
        unfolding analyze_item_def Let_def t le by (simp add: apply_ie_def v_def)
    next
      case 7
      with okv have l: "nas_ok v" by simp
      from nas_pdu_item_ok [OF va l wf] 7 show ?thesis
        unfolding analyze_item_def Let_def t le by (simp add: apply_ie_def v_def)
    next
      case 8
      then show ?thesis unfolding analyze_item_def Let_def t le by (simp add: sk val apply_ie_def)
    qed
  next
    case False
    with ok have id: "ie_id x = ID_PDU_SESSION_RESOURCE_SETUP_LIST_SU_REQ" and l: "length v < 256" and s: "session_ok v"
      by (auto simp: ie_ok_def Let_def v_def)
    have "length v div 256 = 0" using l by simp
    then have e: "encode_ie x = [0, ie_id x, ie_crit x, 0x80, of_nat (length v)] @ v"
      using False by (simp add: encode_ie_def encode_length_def v_def)
    have n: "rd b (i + 1 + 2) = Some 0x80" unfolding b e by (simp add: i rd_def nth_append)
    have va: "value_at b (i + 1 + 1) v"
      unfolding b e
      by (rule value_atI [of _ "pre @ [0, ie_id x, ie_crit x, 0x80, of_nat (length v)]" v rest]) (use l in \<open>simp_all add: i rd_def nth_append\<close>)
    from pdu_session_item_ok [OF n _ va s wf] id show ?thesis
      unfolding analyze_item_def Let_def t by (simp add: apply_ie_def v_def e i)
  qed
qed

lemma wf_UE_updates:
  "wf_UE u \<Longrightarrow> length x = 16 \<Longrightarrow> wf_UE (u\<lparr>mme_s1ap_id := x, mme_s1ap_id_len := n\<rparr>)"
  "wf_UE u \<Longrightarrow> length x = 6 \<Longrightarrow> wf_UE (u\<lparr>guami := x\<rparr>)"
  "wf_UE u \<Longrightarrow> length x = 10 \<Longrightarrow> wf_UE (u\<lparr>guti := x\<rparr>)"
  "wf_UE u \<Longrightarrow> wf_UE (u\<lparr>nas_session_security_algorithms := a\<rparr>)"
  "wf_UE u \<Longrightarrow> length x = 16 \<Longrightarrow> length y = 16 \<Longrightarrow> wf_UE (u\<lparr>auth_challenge := (auth_challenge u)\<lparr>RAND := x, AUTN := y\<rparr>\<rparr>)"
  "wf_UE u \<Longrightarrow> length x = 4 \<Longrightarrow> length y = 4 \<Longrightarrow> wf_UE (u\<lparr>pdn_ip := x, spgw_ip := y, gtp_teid := t\<rparr>)"
  by (simp_all add: wf_UE_def wf_challenge_def del: wf_UE_lengths)

lemma apply_ie_wf:
  assumes ok: "ie_ok x" and wf: "wf_UE u"
  shows "wf_UE (apply_ie x u)"
proof -
  define v where "v = ie_value x"
  have "wf_UE (apply_nas v u)" if "nas_ok v"
    unfolding apply_nas_def using that by (auto simp: nas_ok_def intro!: wf_UE_updates wf)
  moreover have "wf_UE (apply_session v u)" if "session_ok v"
    unfolding apply_session_def using that
    by (auto simp: session_ok_def address_index_def tunnel_index_def dest!: find_upt_bounds split: option.split intro!: wf_UE_updates wf)
  ultimately show ?thesis
    using ok wf unfolding apply_ie_def Let_def v_def [symmetric]
    by (auto simp: ie_ok_def Let_def v_def [symmetric] intro!: wf_UE_updates)
qed

lemma analyze_loop_ok:
  assumes "\<forall>x \<in> set xs. ie_ok x" and "wf_UE u" and "b = pre @ concat (map encode_ie xs) @ rest" and "i = length pre"
  shows "analyze_loop (length xs) (Some u) b i = Some (Some (foldl (\<lambda>u x. apply_ie x u) u xs))"
  using assms
proof (induction xs arbitrary: u pre i)
  case (Cons x xs)
  have "analyze_item (Some u) b i = Some (Some (apply_ie x u), length pre + length (encode_ie x))"
    using Cons.prems by (intro analyze_item_ok) auto
  with Cons.IH [of "apply_ie x u" "pre @ encode_ie x"] Cons.prems apply_ie_wf [of x u] show ?case by simp
qed simp

definition learn_ies :: "ie list \<Rightarrow> UE \<Rightarrow> UE" where
  "learn_ies xs u = foldl (\<lambda>u x. apply_ie x u) u xs"

lemma analyze_items_ok:
  assumes "\<forall>x \<in> set xs. ie_ok x" and "wf_UE u" and "length xs < 0x10000"
  shows "analyze_items_of u (encode_body xs @ rest) = Some (OK, learn_ies xs u)"
proof -
  have "analyze_loop (length xs) (Some u) (encode_body xs @ rest) 3 = Some (Some (learn_ies xs u))"
    unfolding learn_ies_def
    by (rule analyze_loop_ok [OF assms(1,2), of _ "[0, of_nat (length xs div 256), of_nat (length xs)]" rest]) (simp_all add: encode_body_def)
  with count_bytes [OF assms(3)] show ?thesis
    by (simp add: analyze_items_of_def analyze_message_items_def) (simp add: encode_body_def rd_def)
qed

end
