(* ===== verification/Registration.thy ===== *)
theory Registration
  imports Ngap_Effects
begin

text \<open>
  The NAS procedures of a 5G UE in ran-emulator/source/ngap.c, from the first message to the last: for every choice of
  well-formed answers of the core, the registration and the deregistration send the messages of the standard, in
  order, with keys and authentication codes computed from those answers; and what happens when the answers are not
  well-formed.
\<close>

section \<open>Messages of the core\<close>

text \<open>
  A message of the core with the procedure code and criticality that the code expects.  The code takes the length of an
  Initial Context Setup Request and of a PDU Session Resource Setup Request to have two bytes (128 bytes or more),
  that of the other messages to have one.
\<close>

definition core_pdu :: "byte \<Rightarrow> byte \<Rightarrow> bool \<Rightarrow> pdu \<Rightarrow> bool" where
  "core_pdu proc crit long p \<longleftrightarrow> p_type p = 0 \<and> p_proc p = proc \<and> p_crit p = crit \<and> (\<forall>x \<in> set (p_ies p). ie_ok x) \<and>
     length (p_ies p) < 0x10000 \<and> (128 \<le> length (encode_body (p_ies p)) \<longleftrightarrow> long) \<and> length (encode_pdu p) \<le> 1024"

lemma core_pdu_short:
  assumes "core_pdu proc crit False p" and "wf_UE u"
  shows "rd (encode_pdu p @ r) 0 = Some 0" "rd (encode_pdu p @ r) (Suc 0) = Some proc" "rd (encode_pdu p @ r) 2 = Some crit"
    "rd (encode_pdu p @ r) 3 \<bind> (\<lambda>_. y) = (y :: (status \<times> UE) option)" "analyze_items_of u (drop 4 (encode_pdu p @ r)) = Some (OK, learn_ies (p_ies p) u)"
proof -
  have e: "encode_pdu p @ r = [0, proc, crit, of_nat (length (encode_body (p_ies p)))] @ encode_body (p_ies p) @ r"
    using assms(1) by (simp add: encode_pdu_def encode_length_def core_pdu_def)
  show "rd (encode_pdu p @ r) 0 = Some 0" "rd (encode_pdu p @ r) (Suc 0) = Some proc" "rd (encode_pdu p @ r) 2 = Some crit"
    "rd (encode_pdu p @ r) 3 \<bind> (\<lambda>_. y) = (y :: (status \<times> UE) option)"
    unfolding e by (simp_all add: rd_def)
  have d: "drop 4 ([a, b, c, d] @ xs) = xs" for a b c d :: byte and xs by simp
  show "analyze_items_of u (drop 4 (encode_pdu p @ r)) = Some (OK, learn_ies (p_ies p) u)"
    unfolding e d by (rule analyze_items_ok) (use assms in \<open>simp_all add: core_pdu_def\<close>)
qed

lemma core_pdu_long:
  assumes "core_pdu proc crit True p" and "wf_UE u"
  shows "rd (encode_pdu p @ r) 0 = Some 0" "rd (encode_pdu p @ r) (Suc 0) = Some proc" "rd (encode_pdu p @ r) 2 = Some crit"
    "rd (encode_pdu p @ r) 4 \<bind> (\<lambda>_. y) = (y :: (status \<times> UE) option)" "analyze_items_of u (drop 5 (encode_pdu p @ r)) = Some (OK, learn_ies (p_ies p) u)"
proof -
  obtain a b where e: "encode_pdu p @ r = [0, proc, crit, a, b] @ encode_body (p_ies p) @ r"
    using assms(1) by (auto simp: encode_pdu_def encode_length_def core_pdu_def)
  show "rd (encode_pdu p @ r) 0 = Some 0" "rd (encode_pdu p @ r) (Suc 0) = Some proc" "rd (encode_pdu p @ r) 2 = Some crit"
    "rd (encode_pdu p @ r) 4 \<bind> (\<lambda>_. y) = (y :: (status \<times> UE) option)"
    unfolding e by (simp_all add: rd_def)
  have d: "drop 5 ([v, w, x, y, z] @ xs) = xs" for v w x y z :: byte and xs by simp
  show "analyze_items_of u (drop 5 (encode_pdu p @ r)) = Some (OK, learn_ies (p_ies p) u)"
    unfolding e d by (rule analyze_items_ok) (use assms in \<open>simp_all add: core_pdu_def\<close>)
qed

lemma analyses_ok:
  assumes "wf_UE u"
  shows "core_pdu ID_DOWNLINK_NAS_TRANSPORT CRITICALITY_IGNORE False p \<Longrightarrow>
      analyze_NG_AuthenticationRequest u (encode_pdu p @ r) = Some (OK, learn_ies (p_ies p) u)"
    and "core_pdu ID_DOWNLINK_NAS_TRANSPORT CRITICALITY_IGNORE False p \<Longrightarrow>
      analyze_NG_SecurityModeCommand u (encode_pdu p @ r) = Some (OK, learn_ies (p_ies p) u)"
    and "core_pdu ID_DOWNLINK_NAS_TRANSPORT c False p \<Longrightarrow>
      analyze_NG_DeregistrationAccept u (encode_pdu p @ r) = Some (OK, learn_ies (p_ies p) u)"
    and "core_pdu ID_UE_CONTEXT_RELEASE c False p \<Longrightarrow>
      analyze_NR_UEContextReleaseCommand u (encode_pdu p @ r) = Some (OK, learn_ies (p_ies p) u)"
    and "core_pdu ID_INITIAL_CONTEXT_SETUP CRITICALITY_REJECT True p \<Longrightarrow>
      analyze_NG_RegistrationRequest u (encode_pdu p @ r) = Some (OK, learn_ies (p_ies p) u)"
    and "core_pdu ID_PDU_SESSION_RESOURCE_SETUP CRITICALITY_REJECT True p \<Longrightarrow>
      analyze_NG_PDUSessionEstablishmentAccept u (encode_pdu p @ r) = Some (OK, learn_ies (p_ies p) u)"
    and "core_pdu ID_PDU_SESSION_RESOURCE_SETUP CRITICALITY_REJECT True p \<Longrightarrow>
      analyze_NG_ConfigurationUpdateCommand u (encode_pdu p @ r) = Some (ERROR, u)"
proof -
  note short = core_pdu_short [OF _ assms, of _ _ p r] and long = core_pdu_long [OF _ assms, of _ _ p r]
  show "core_pdu ID_DOWNLINK_NAS_TRANSPORT CRITICALITY_IGNORE False p \<Longrightarrow>
      analyze_NG_AuthenticationRequest u (encode_pdu p @ r) = Some (OK, learn_ies (p_ies p) u)"
    by (simp add: analyze_NG_AuthenticationRequest_def short del: drop_append)
  show "core_pdu ID_DOWNLINK_NAS_TRANSPORT CRITICALITY_IGNORE False p \<Longrightarrow>
      analyze_NG_SecurityModeCommand u (encode_pdu p @ r) = Some (OK, learn_ies (p_ies p) u)"
    by (simp add: analyze_NG_SecurityModeCommand_def short del: drop_append)
  show "core_pdu ID_DOWNLINK_NAS_TRANSPORT c False p \<Longrightarrow>
      analyze_NG_DeregistrationAccept u (encode_pdu p @ r) = Some (OK, learn_ies (p_ies p) u)"
    by (simp add: analyze_NG_DeregistrationAccept_def short del: drop_append)
  show "core_pdu ID_UE_CONTEXT_RELEASE c False p \<Longrightarrow>
      analyze_NR_UEContextReleaseCommand u (encode_pdu p @ r) = Some (OK, learn_ies (p_ies p) u)"
    by (simp add: analyze_NR_UEContextReleaseCommand_def short del: drop_append)
  show "core_pdu ID_INITIAL_CONTEXT_SETUP CRITICALITY_REJECT True p \<Longrightarrow>
      analyze_NG_RegistrationRequest u (encode_pdu p @ r) = Some (OK, learn_ies (p_ies p) u)"
    by (simp add: analyze_NG_RegistrationRequest_def long del: drop_append)
  show "core_pdu ID_PDU_SESSION_RESOURCE_SETUP CRITICALITY_REJECT True p \<Longrightarrow>
      analyze_NG_PDUSessionEstablishmentAccept u (encode_pdu p @ r) = Some (OK, learn_ies (p_ies p) u)"
    by (simp add: analyze_NG_PDUSessionEstablishmentAccept_def long del: drop_append)
  show "core_pdu ID_PDU_SESSION_RESOURCE_SETUP CRITICALITY_REJECT True p \<Longrightarrow>
      analyze_NG_ConfigurationUpdateCommand u (encode_pdu p @ r) = Some (ERROR, u)"
    by (simp add: analyze_NG_ConfigurationUpdateCommand_def long(1-3))
qed

lemma receive_pdu:
  assumes "pr_in s = Some (encode_pdu p) # es" and "length (encode_pdu p) \<le> 1024" and "length (pr_buf s) = 1024"
    and "\<And>r. analyze (pr_ue s) (encode_pdu p @ r) = Some (OK, u)"
  shows "receive analyze s =
     Some (s\<lparr>pr_in := es, pr_buf := encode_pdu p @ drop (length (encode_pdu p)) (pr_buf s), pr_ue := u\<rparr>, Going)"
  using assms by (simp add: receive_def memcpy_ok)

section \<open>What the procedures keep\<close>

lemma apply_ie_frame:
  "nas_sequence_number (apply_ie x u) = nas_sequence_number u" "ue_id (apply_ie x u) = ue_id u"
  "ue_key (apply_ie x u) = ue_key u" "ue_op_key (apply_ie x u) = ue_op_key u" "ue_msin (apply_ie x u) = ue_msin u"
  by (simp_all add: apply_ie_def apply_nas_def apply_session_def Let_def split: option.split)

lemma apply_ie_len:
  "mme_s1ap_id_len (apply_ie x u) =
     (if ie_id x = ID_AMF_UE_NGAP_ID then of_nat (length (ie_value x)) else mme_s1ap_id_len u)"
  by (simp add: apply_ie_def apply_nas_def apply_session_def Let_def split: option.split)

lemma apply_ie_id:
  assumes "ie_ok x" and "id_ok u"
  shows "id_ok (apply_ie x u)"
proof (cases "ie_id x = ID_AMF_UE_NGAP_ID")
  case True
  with assms(1) have "length (ie_value x) \<le> 16" by (simp add: ie_ok_def Let_def)
  with True show ?thesis by (simp add: id_ok_def apply_ie_len unat_of_nat)
next
  case False
  with assms(2) show ?thesis by (simp add: id_ok_def apply_ie_len)
qed

lemma learn_ies_keeps:
  "nas_sequence_number (learn_ies xs u) = nas_sequence_number u"
  "\<forall>x \<in> set xs. ie_ok x \<Longrightarrow> wf_UE u \<Longrightarrow> wf_UE (learn_ies xs u)"
  "\<forall>x \<in> set xs. ie_ok x \<Longrightarrow> id_ok u \<Longrightarrow> id_ok (learn_ies xs u)"
  unfolding learn_ies_def
  by (induction xs arbitrary: u) (simp_all add: apply_ie_frame apply_ie_wf apply_ie_id)


lemma wf_UE_seq: "wf_UE (reset_nas_sequence_number u) = wf_UE u" "id_ok (u\<lparr>nas_sequence_number := n\<rparr>) = id_ok u"
  "id_ok (reset_nas_sequence_number u) = id_ok u"
  by (simp_all add: reset_nas_sequence_number_def id_ok_def)

section \<open>The registration\<close>

text \<open>The answer to the challenge: Milenage on the RAND of the core.\<close>

definition answered :: "UE \<Rightarrow> UE" where
  "answered u =
     (let a = auth_challenge u; k = ue_key u; opc = ue_op_key u
      in u\<lparr>auth_challenge := a\<lparr>RES := milenage_f2 k (RAND a) opc, CK := milenage_f3 k (RAND a) opc,
          IK := milenage_f4 k (RAND a) opc, AK := milenage_f5 k (RAND a) opc @ drop 6 (AK a)\<rparr>\<rparr>)"

text \<open>TS 33.501: RES*, the key hierarchy down to K_AMF and the NAS keys for the algorithms the core has selected.\<close>

definition res_star :: "UE \<Rightarrow> byte list" where
  "res_star u = (let a = auth_challenge u in
     drop 16 (KDF (CK a @ IK a) 0x6B [network_name (ue_mcc u) (ue_mnc u), RAND a, RES a]))"

definition k_amf :: "UE \<Rightarrow> byte list" where
  "k_amf u =
     (let a = auth_challenge u; name = network_name (ue_mcc u) (ue_mnc u);
          kausf = KDF (CK a @ IK a) 0x6A [name, take 6 (AUTN a)];
          kseaf = KDF kausf 0x6C [name]
      in KDF kseaf 0x6D [ue_mcc u @ ue_mnc u @ take 10 (msin_string u), [0, 0]])"

definition secured :: "byte list \<Rightarrow> UE \<Rightarrow> UE" where
  "secured kamf u = u\<lparr>auth_challenge := (auth_challenge u)
     \<lparr>NAS_KEY_ENC := drop 16 (KDF kamf 0x69 [[1], [get_nas_session_enc_alg u]]),
      NAS_KEY_INT := drop 16 (KDF kamf 0x69 [[2], [get_nas_session_int_alg u]])\<rparr>\<rparr>"

lemma length_KDF [simp]: "length (KDF k c ps) = 32"
  by (simp add: KDF_def HMAC_def)

lemma milenage_lengths:
  assumes "length k = 16" and "length r = 16" and "length opc = 16"
  shows "length (milenage_f2 k r opc) = 8" "length (milenage_f3 k r opc) = 16" "length (milenage_f4 k r opc) = 16"
    "length (milenage_f5 k r opc) = 6"
proof -
  have "length (aes128 k b) = 16" if "16 \<le> length b" for b using length_aes_shape [of k b] assms that by simp
  then have "length (milenage_out k r opc n c) = 16" for n c using assms by (simp add: milenage_out_def Let_def)
  then show "length (milenage_f2 k r opc) = 8" "length (milenage_f3 k r opc) = 16" "length (milenage_f4 k r opc) = 16"
    "length (milenage_f5 k r opc) = 6"
    by (simp_all add: milenage_f2_def milenage_f3_def milenage_f4_def milenage_f5_def)
qed

lemma compute_challenge_ok:
  assumes wf: "wf_UE u"
  shows "compute_challenge u = Some (answered u)" and "wf_UE (answered u)" and "id_ok (answered u) = id_ok u"
    and "nas_sequence_number (answered u) = nas_sequence_number u"
proof -
  let ?a = "auth_challenge u"
  have a: "length (RAND ?a) = 16" "length (RES ?a) = 8" "length (CK ?a) = 16" "length (IK ?a) = 16" "length (AK ?a) = 16"
    using wf_UE_lengths(8) [OF wf] by (simp_all add: wf_challenge_def)
  note l = milenage_lengths [OF wf_UE_lengths(9) [OF wf] a(1) wf_UE_lengths(10) [OF wf]]
  have m: "f2345 (ue_key u) (RAND ?a) (ue_op_key u) = Some (milenage_f2 (ue_key u) (RAND ?a) (ue_op_key u),
      milenage_f3 (ue_key u) (RAND ?a) (ue_op_key u), milenage_f4 (ue_key u) (RAND ?a) (ue_op_key u), milenage_f5 (ue_key u) (RAND ?a) (ue_op_key u))"
    using f2345_milenage [of "ue_key u" "RAND ?a" "ue_op_key u"] wf a by simp
  show "compute_challenge u = Some (answered u)"
    using a l by (simp add: compute_challenge_def ue_simps Let_def m wrn_def answered_def)
  show "wf_UE (answered u)"
    using wf a l by (simp add: answered_def wf_UE_def wf_challenge_def Let_def del: wf_UE_lengths)
  show "id_ok (answered u) = id_ok u" "nas_sequence_number (answered u) = nas_sequence_number u"
    by (simp_all add: answered_def id_ok_def Let_def)
qed

lemma derive_kamf_ok:
  assumes E: "wf_env E" and wf: "wf_UE u"
  shows "derive_kamf E u = Some (k_amf u)"
proof -
  let ?a = "auth_challenge u"
  have a: "length (AUTN ?a) = 16" "length (CK ?a) = 16" "length (IK ?a) = 16"
    using wf_UE_lengths(8) [OF wf] by (simp_all add: wf_challenge_def)
  have e: "length (e_input64 E) = 64" "length (e_key32 E) = 32" using E by (simp_all add: wf_env_def)
  show ?thesis
    using wf a e
    by (simp add: derive_kamf_def ue_simps Let_def generate_kausf_KDF generate_kseaf_KDF generate_kamf_KDF rdn_def k_amf_def)
qed

lemma derive_nas_keys_ok:
  assumes E: "wf_env E" and k: "length kamf = 32" and wf: "wf_UE u"
  shows "derive_nas_keys E kamf u = Some (secured kamf u)" and "wf_UE (secured kamf u)" and "id_ok (secured kamf u) = id_ok u"
    and "nas_sequence_number (secured kamf u) = nas_sequence_number u"
proof -
  have e: "length (e_input8 E) = 8" using E by (simp add: wf_env_def)
  show "derive_nas_keys E kamf u = Some (secured kamf u)"
    using e k by (simp add: derive_nas_keys_def ue_simps generate_5g_nas_keys_KDF secured_def)
  show "wf_UE (secured kamf u)" using wf by (simp add: secured_def wf_UE_def wf_challenge_def del: wf_UE_lengths)
  show "id_ok (secured kamf u) = id_ok u" "nas_sequence_number (secured kamf u) = nas_sequence_number u"
    by (simp_all add: secured_def id_ok_def)
qed

text \<open>A message that has been written into the buffer is sent.\<close>

definition sends :: "buf \<Rightarrow> nat \<Rightarrow> pdu \<Rightarrow> bool" where
  "sends b n p \<longleftrightarrow> length b = 1024 \<and> (\<forall>s. send s b n = Some (s\<lparr>pr_buf := b, pr_sent := pr_sent s @ [encode_pdu p]\<rparr>))"

lemma sends_front:
  assumes "length b = 1024" and "length (encode_pdu p) \<le> 1024"
  shows "sends (front (clean 69 b) (encode_pdu p)) (length (encode_pdu p)) p"
proof -
  have "rdn (front (clean 69 b) (encode_pdu p)) 0 (length (encode_pdu p)) = Some (encode_pdu p)"
    using assms by (intro front_simps(5)) simp_all
  with assms show ?thesis by (simp add: sends_def send_def)
qed

lemma pdu_lengths:
  "wf_eNB e \<Longrightarrow> wf_UE u \<Longrightarrow> length (encode_pdu (pdu_initial e u)) \<le> 1024"
  "wf_eNB e \<Longrightarrow> wf_UE u \<Longrightarrow> id_ok u \<Longrightarrow> length m < 70 \<Longrightarrow> length (encode_pdu (pdu_uplink e u m)) \<le> 1024"
  "wf_UE u \<Longrightarrow> id_ok u \<Longrightarrow> length (encode_pdu (pdu_response p u [])) \<le> 1024"
  "wf_UE u \<Longrightarrow> id_ok u \<Longrightarrow> length (encode_pdu (pdu_response p u [ie_session_response u])) \<le> 1024"
  "wf_eNB e \<Longrightarrow> wf_UE u \<Longrightarrow> id_ok u \<Longrightarrow> length (encode_pdu (pdu_response p u [ie_location e])) \<le> 1024"
  by (simp_all add: pdu_initial_def pdu_uplink_def pdu_response_def length_ies length_nas encode_ie_short id_ok_def encode_pdu_short)

lemma messages_sent:
  assumes e: "wf_eNB e" and wf: "wf_UE u" and b: "length b = 1024"
  shows "\<exists>b' n. generate_NG_Registration_Request e u b = Some (b', n) \<and> sends b' n (pdu_initial e u)"
    and "wf_env E \<Longrightarrow> id_ok u \<Longrightarrow> \<exists>b' n. generate_NG_Authentication_Response E e u b = Some (b', n) \<and>
       sends b' n (pdu_uplink e u (nas_authentication_response (res_star u)))"
    and "wf_env E \<Longrightarrow> id_ok u \<Longrightarrow> nas_sequence_number u = sq \<Longrightarrow>
       \<exists>b' n. generate_NG_Security_Mode_Complete E e u b = Some (b', u\<lparr>nas_sequence_number := sq + 1\<rparr>, n) \<and>
       sends b' n (pdu_uplink e u (protected E u 4 0 sq (nas_security_mode_complete e u)))"
    and "id_ok u \<Longrightarrow> \<exists>b' n. generate_NG_InitialContextSetupResponse e u b = Some (b', n) \<and>
       sends b' n (pdu_response ID_INITIAL_CONTEXT_SETUP u [])"
    and "wf_env E \<Longrightarrow> id_ok u \<Longrightarrow> nas_sequence_number u = sq \<Longrightarrow>
       \<exists>b' n. generate_NG_RegistrationComplete E e u b = Some (b', u\<lparr>nas_sequence_number := sq + 1\<rparr>, n) \<and>
       sends b' n (pdu_uplink e u (protected E u 2 1 sq (nas_mobility REGISTRATION_COMPLETE)))"
    and "wf_env E \<Longrightarrow> id_ok u \<Longrightarrow> nas_sequence_number u = sq \<Longrightarrow>
       \<exists>b' n. generate_NG_PDUSessionRequest E e u b = Some (b', u\<lparr>nas_sequence_number := sq + 1\<rparr>, n) \<and>
       sends b' n (pdu_uplink e u (protected E u 2 2 sq nas_session_request))"
    and "id_ok u \<Longrightarrow> \<exists>b' n. generate_NG_PDUSessionResponse e u b = Some (b', n) \<and>
       sends b' n (pdu_response ID_PDU_SESSION_RESOURCE_SETUP u [ie_session_response u])"
    and "wf_env E \<Longrightarrow> id_ok u \<Longrightarrow> nas_sequence_number u = sq \<Longrightarrow>
       \<exists>b' n. generate_NG_Deregistration_Request E e u b off = Some (b', u\<lparr>nas_sequence_number := sq + 1\<rparr>, n) \<and>
       sends b' n (pdu_uplink e u (protected E u 2 3 sq (nas_deregistration_request u off)))"
    and "id_ok u \<Longrightarrow> \<exists>b' n. generate_NG_UEContextReleaseComplete e u b = Some (b', n) \<and>
       sends b' n (pdu_response ID_UE_CONTEXT_RELEASE u [ie_location e])"
  using registration_request_message [OF e wf b] authentication_response_message [OF e wf b _ _ refl, of E]
    security_mode_complete_message [OF e wf b _ _ refl, of E] context_response_message [OF wf b _ refl, of e]
    registration_complete_message [OF e wf b _ _ refl, of E] session_request_message [OF e wf b _ _ refl, of E]
    session_response_message [OF wf b _ refl, of e] deregistration_message [OF e wf b _ _ refl, of E off]
    release_complete_message [OF e wf b _ refl] sends_front [OF b] e wf
  by (simp_all add: res_star_def Let_def pdu_lengths length_nas)

text \<open>Configuration update commands, or what the code takes for them, are passed over.\<close>

definition passed_over :: "byte list \<Rightarrow> bool" where
  "passed_over m \<longleftrightarrow> 3 \<le> length m \<and> length m \<le> 1024 \<and> take 3 m = [0, ID_DOWNLINK_NAS_TRANSPORT, CRITICALITY_IGNORE]"

lemma passed_over_analysis:
  assumes "passed_over m"
  shows "analyze_NG_ConfigurationUpdateCommand u (m @ r) = Some (OK, u)"
proof -
  from assms obtain x y z zs where m: "m = x # y # z # zs"
    by (auto simp: passed_over_def numeral_eq_Suc Suc_le_length_iff)
  with assms show ?thesis by (simp add: passed_over_def analyze_NG_ConfigurationUpdateCommand_def rd_def)
qed

lemma await_session:
  assumes "\<forall>m \<in> set ms. passed_over m" and "core_pdu ID_PDU_SESSION_RESOURCE_SETUP CRITICALITY_REJECT True p"
    and "wf_UE (pr_ue s)" and "length (pr_buf s) = 1024"
  shows "\<exists>b. length b = 1024 \<and> await_pdu_session (map Some ms @ Some (encode_pdu p) # es) s =
     Some (s\<lparr>pr_in := es, pr_buf := b, pr_ue := learn_ies (p_ies p) (pr_ue s)\<rparr>, Going)"
  using assms
proof (induction ms arbitrary: s)
  case Nil
  then have "length (encode_pdu p) \<le> 1024" by (simp add: core_pdu_def)
  with Nil analyses_ok(6,7) [OF Nil(3,2)] show ?case
    by (auto simp: memcpy_ok intro!: exI [of _ "encode_pdu p @ drop (length (encode_pdu p)) (pr_buf s)"])
next
  case (Cons m ms)
  have l: "length m \<le> 1024" and pm: "passed_over m" using Cons.prems by (auto simp: passed_over_def)
  let ?b = "m @ drop (length m) (pr_buf s)"
  from Cons.IH [of "s\<lparr>pr_buf := ?b\<rparr>"] Cons.prems l passed_over_analysis [OF pm]
  show ?case by (auto simp: memcpy_ok)
qed

lemma receive_core:
  assumes "pr_in s = Some (encode_pdu p) # es" and "length (encode_pdu p) \<le> 1024" and "length (pr_buf s) = 1024"
    and "\<And>r. analyze (pr_ue s) (encode_pdu p @ r) = Some (OK, u)"
  shows "\<exists>b. length b = 1024 \<and> receive analyze s = Some (s\<lparr>pr_in := es, pr_buf := b, pr_ue := u\<rparr>, Going)"
  using receive_pdu [where analyze = analyze, OF assms(1-3) assms(4)] assms(2,3)
  by (auto intro!: exI [of _ "encode_pdu p @ drop (length (encode_pdu p)) (pr_buf s)"])

text \<open>An answer of the core and the message that follows it.\<close>

lemma protected_seq [simp]: "protected E (u\<lparr>nas_sequence_number := n\<rparr>) = protected E u"
  "pdu_uplink e (u\<lparr>nas_sequence_number := n\<rparr>) = pdu_uplink e u"
  "id_ok (u\<lparr>nas_sequence_number := n\<rparr>) = id_ok u"
  by (simp_all add: protected_def fun_eq_iff pdu_uplink_def ie_amf_def ie_ran_def id_ok_def)

definition after_request :: "UE \<Rightarrow> pdu \<Rightarrow> UE" where
  "after_request u p = answered (learn_ies (p_ies p) (u\<lparr>nas_sequence_number := 0\<rparr>))"

definition after_command :: "UE \<Rightarrow> pdu \<Rightarrow> UE" where
  "after_command u p = secured (k_amf u) (learn_ies (p_ies p) u)"

text \<open>
  \<open>runs f u es ps u' g\<close>: from a UE \<open>u\<close> the code \<open>f\<close> consumes the events \<open>es\<close>, sends the messages \<open>ps\<close>, makes the UE \<open>u'\<close> and
  goes on as \<open>g\<close>, whatever is in the buffer, has been sent before and comes after.
\<close>

definition runs ::
  "(proc \<Rightarrow> 'r option) \<Rightarrow> UE \<Rightarrow> byte list option list \<Rightarrow> pdu list \<Rightarrow> UE \<Rightarrow> (proc \<Rightarrow> 'r option) \<Rightarrow> bool" where
  "runs f u es ps u' g \<longleftrightarrow> (\<forall>b rest sent. length b = 1024 \<longrightarrow>
     (\<exists>b'. length b' = 1024 \<and> f \<lparr>pr_in = es @ rest, pr_sent = sent, pr_buf = b, pr_ue = u\<rparr> =
        g \<lparr>pr_in = rest, pr_sent = sent @ map encode_pdu ps, pr_buf = b', pr_ue = u'\<rparr>))"

lemma runsI:
  "(\<And>b rest sent. length b = 1024 \<Longrightarrow> \<exists>b'. length b' = 1024 \<and> f \<lparr>pr_in = es @ rest, pr_sent = sent, pr_buf = b, pr_ue = u\<rparr> =
     g \<lparr>pr_in = rest, pr_sent = sent @ map encode_pdu ps, pr_buf = b', pr_ue = u'\<rparr>) \<Longrightarrow> runs f u es ps u' g"
  by (simp add: runs_def)

lemma runsD:
  "runs f u es ps u' g \<Longrightarrow> length b = 1024 \<Longrightarrow> \<exists>b'. length b' = 1024 \<and>
     f \<lparr>pr_in = es @ rest, pr_sent = sent, pr_buf = b, pr_ue = u\<rparr> =
     g \<lparr>pr_in = rest, pr_sent = sent @ map encode_pdu ps, pr_buf = b', pr_ue = u'\<rparr>"
  by (simp add: runs_def)

lemma runs_trans:
  assumes "runs f u es ps v g" and "runs g v fs qs w h"
  shows "runs f u (es @ fs) (ps @ qs) w h"
proof (rule runsI)
  fix b :: buf and rest sent assume "length b = 1024"
  from runsD [OF assms(1) this] obtain b1 where b1: "length b1 = 1024"
    "f \<lparr>pr_in = es @ (fs @ rest), pr_sent = sent, pr_buf = b, pr_ue = u\<rparr> =
     g \<lparr>pr_in = fs @ rest, pr_sent = sent @ map encode_pdu ps, pr_buf = b1, pr_ue = v\<rparr>" by blast
  from runsD [OF assms(2) b1(1), of rest "sent @ map encode_pdu ps"] b1(2)
  show "\<exists>b'. length b' = 1024 \<and> f \<lparr>pr_in = (es @ fs) @ rest, pr_sent = sent, pr_buf = b, pr_ue = u\<rparr> =
     h \<lparr>pr_in = rest, pr_sent = sent @ map encode_pdu (ps @ qs), pr_buf = b', pr_ue = w\<rparr>"
    by simp
qed

lemma sendsD: "sends b n p \<Longrightarrow> length b = 1024"
  "sends b n p \<Longrightarrow> send s b n = Some (s\<lparr>pr_buf := b, pr_sent := pr_sent s @ [encode_pdu p]\<rparr>)"
  by (simp_all add: sends_def)

lemma receive_runs:
  assumes "length (encode_pdu p) \<le> 1024" and "\<And>r. analyze u (encode_pdu p @ r) = Some (OK, u')"
  shows "runs (\<lambda>s. and_then (receive analyze s) f) u [Some (encode_pdu p)] [] u' f"
proof (rule runsI)
  fix b :: buf and rest sent assume b: "length b = 1024"
  let ?s = "\<lparr>pr_in = Some (encode_pdu p) # rest, pr_sent = sent, pr_buf = b, pr_ue = u\<rparr>"
  obtain b1 where "length b1 = 1024" "receive analyze ?s = Some (?s\<lparr>pr_in := rest, pr_buf := b1, pr_ue := u'\<rparr>, Going)"
    using receive_core [of ?s p rest analyze u'] assms b by auto
  then show "\<exists>b'. length b' = 1024 \<and>
      and_then (receive analyze \<lparr>pr_in = [Some (encode_pdu p)] @ rest, pr_sent = sent, pr_buf = b, pr_ue = u\<rparr>) f =
      f \<lparr>pr_in = rest, pr_sent = sent @ map encode_pdu [], pr_buf = b', pr_ue = u'\<rparr>"
    by (intro exI [of _ b1]) (simp add: and_then_def)
qed

lemma await_runs:
  assumes "\<forall>m \<in> set ms. passed_over m" and "core_pdu ID_PDU_SESSION_RESOURCE_SETUP CRITICALITY_REJECT True p"
    and "wf_UE u"
  shows "runs (\<lambda>s. and_then (await_pdu_session (pr_in s) s) f) u (map Some ms @ [Some (encode_pdu p)]) []
     (learn_ies (p_ies p) u) f"
proof (rule runsI)
  fix b :: buf and rest sent assume b: "length b = 1024"
  let ?s = "\<lparr>pr_in = (map Some ms @ [Some (encode_pdu p)]) @ rest, pr_sent = sent, pr_buf = b, pr_ue = u\<rparr>"
  obtain b1 where "length b1 = 1024" "await_pdu_session (pr_in ?s) ?s =
      Some (?s\<lparr>pr_in := rest, pr_buf := b1, pr_ue := learn_ies (p_ies p) u\<rparr>, Going)"
    using await_session [OF assms(1,2), of ?s rest] assms(3) b by auto
  then show "\<exists>b'. length b' = 1024 \<and> and_then (await_pdu_session (pr_in ?s) ?s) f =
      f \<lparr>pr_in = rest, pr_sent = sent @ map encode_pdu [], pr_buf = b', pr_ue = learn_ies (p_ies p) u\<rparr>"
    by (intro exI [of _ b1]) (simp add: and_then_def)
qed

text \<open>The stages of the registration, each up to the point where it waits for the core.\<close>

abbreviation returned_OK :: "proc \<Rightarrow> (proc \<times> result) option" where
  "returned_OK s \<equiv> Some (s, Returned OK)"

abbreviation awaiting :: "eNB \<Rightarrow> proc \<Rightarrow> (proc \<times> result) option" where
  "awaiting e s \<equiv> and_then (await_pdu_session (pr_in s) s) (after_session e)"

lemma after_session_runs:
  assumes "wf_eNB e" and "wf_UE u" and "id_ok u"
  shows "runs (after_session e) u [] [pdu_response ID_PDU_SESSION_RESOURCE_SETUP u [ie_session_response u]] u returned_OK"
proof (rule runsI)
  fix b :: buf and rest sent assume "length b = 1024"
  from messages_sent(7) [OF assms(1,2) this assms(3)] obtain b' n where
    "generate_NG_PDUSessionResponse e u b = Some (b', n)"
    "sends b' n (pdu_response ID_PDU_SESSION_RESOURCE_SETUP u [ie_session_response u])" by auto
  then show "\<exists>b'. length b' = 1024 \<and> after_session e \<lparr>pr_in = [] @ rest, pr_sent = sent, pr_buf = b, pr_ue = u\<rparr> =
      returned_OK \<lparr>pr_in = rest, pr_sent = sent @ map encode_pdu [pdu_response ID_PDU_SESSION_RESOURCE_SETUP u [ie_session_response u]],
        pr_buf = b', pr_ue = u\<rparr>"
    by (intro exI [of _ b']) (auto simp: after_session_def sendsD(2) dest: sendsD(1))
qed

lemma after_context_runs:
  assumes E: "wf_env E" and e: "wf_eNB e" and wf: "wf_UE u" and id: "id_ok u" and sq: "nas_sequence_number u = 1"
  shows "runs (after_context_setup E e) u []
     [pdu_response ID_INITIAL_CONTEXT_SETUP u [],
      pdu_uplink e u (protected E u 2 1 1 (nas_mobility REGISTRATION_COMPLETE)),
      pdu_uplink e u (protected E u 2 2 2 nas_session_request)] (u\<lparr>nas_sequence_number := 3\<rparr>) (awaiting e)" (is "runs _ _ _ ?qs _ _")
proof (rule runsI)
  fix b :: buf and rest sent assume b: "length b = 1024"
  obtain b3 n3 where m3: "generate_NG_InitialContextSetupResponse e u b = Some (b3, n3)"
      "sends b3 n3 (pdu_response ID_INITIAL_CONTEXT_SETUP u [])"
    using messages_sent(4) [OF e wf b id] by auto
  obtain b4 n4 where m4: "generate_NG_RegistrationComplete E e u b3 = Some (b4, u\<lparr>nas_sequence_number := 2\<rparr>, n4)"
      "sends b4 n4 (pdu_uplink e u (protected E u 2 1 1 (nas_mobility REGISTRATION_COMPLETE)))"
    using messages_sent(5) [OF e wf sendsD(1) [OF m3(2)] E id sq] by auto
  have u2: "wf_UE (u\<lparr>nas_sequence_number := 2\<rparr>)" "id_ok (u\<lparr>nas_sequence_number := 2\<rparr>)" using wf id by simp_all
  obtain b5 n5 where m5: "generate_NG_PDUSessionRequest E e (u\<lparr>nas_sequence_number := 2\<rparr>) b4 =
        Some (b5, u\<lparr>nas_sequence_number := 3\<rparr>, n5)" "sends b5 n5 (pdu_uplink e u (protected E u 2 2 2 nas_session_request))"
    using messages_sent(6) [OF e u2(1) sendsD(1) [OF m4(2)] E u2(2), of 2] by auto
  show "\<exists>b1. length b1 = 1024 \<and> after_context_setup E e \<lparr>pr_in = [] @ rest, pr_sent = sent, pr_buf = b, pr_ue = u\<rparr> =
      awaiting e \<lparr>pr_in = rest, pr_sent = sent @ map encode_pdu ?qs, pr_buf = b1, pr_ue = u\<lparr>nas_sequence_number := 3\<rparr>\<rparr>"
    using m3 m4 m5 by (intro exI [of _ b5]) (auto simp: after_context_setup_def sendsD(2) dest: sendsD(1))
qed

lemma after_security_runs:
  assumes E: "wf_env E" and e: "wf_eNB e" and wf: "wf_UE u" and id: "id_ok u" and sq: "nas_sequence_number u = 0"
    and k: "length kamf = 32" and u2: "u2 = secured kamf u"
  shows "runs (after_security_mode E e kamf) u []
     [pdu_uplink e u2 (protected E u2 4 0 0 (nas_security_mode_complete e u2))] (u2\<lparr>nas_sequence_number := 1\<rparr>)
     (\<lambda>s. and_then (receive analyze_NG_RegistrationRequest s) (after_context_setup E e))" (is "runs _ _ _ ?qs _ ?g")
proof (rule runsI)
  note c = derive_nas_keys_ok [OF E k wf, folded u2]
  fix b :: buf and rest sent assume b: "length b = 1024"
  obtain b2 n2 where "generate_NG_Security_Mode_Complete E e u2 b = Some (b2, u2\<lparr>nas_sequence_number := 1\<rparr>, n2)"
      "sends b2 n2 (pdu_uplink e u2 (protected E u2 4 0 0 (nas_security_mode_complete e u2)))"
    using messages_sent(3) [OF e c(2) b E, of 0] c(3,4) id sq by auto
  then show "\<exists>b1. length b1 = 1024 \<and>
      after_security_mode E e kamf \<lparr>pr_in = [] @ rest, pr_sent = sent, pr_buf = b, pr_ue = u\<rparr> =
      ?g \<lparr>pr_in = rest, pr_sent = sent @ map encode_pdu ?qs, pr_buf = b1, pr_ue = u2\<lparr>nas_sequence_number := 1\<rparr>\<rparr>"
    by (intro exI [of _ b2]) (auto simp: after_security_mode_def c(1) sendsD(2) dest: sendsD(1))
qed

lemma after_authentication_runs:
  assumes E: "wf_env E" and e: "wf_eNB e" and wf: "wf_UE u" and id: "id_ok u" and u1: "u1 = answered u"
  shows "runs (after_authentication E e) u []
     [pdu_uplink e u1 (nas_authentication_response (res_star u1))] u1
     (\<lambda>s. and_then (receive analyze_NG_SecurityModeCommand s) (after_security_mode E e (k_amf u1)))" (is "runs _ _ _ ?qs _ ?g")
proof (rule runsI)
  note c = compute_challenge_ok [OF wf, folded u1]
  fix b :: buf and rest sent assume b: "length b = 1024"
  obtain b1 n1 where "generate_NG_Authentication_Response E e u1 b = Some (b1, n1)"
      "sends b1 n1 (pdu_uplink e u1 (nas_authentication_response (res_star u1)))"
    using messages_sent(2) [OF e c(2) b E] c(3) id by auto
  then show "\<exists>b1. length b1 = 1024 \<and>
      after_authentication E e \<lparr>pr_in = [] @ rest, pr_sent = sent, pr_buf = b, pr_ue = u\<rparr> =
      ?g \<lparr>pr_in = rest, pr_sent = sent @ map encode_pdu ?qs, pr_buf = b1, pr_ue = u1\<rparr>"
    by (intro exI [of _ b1]) (auto simp: after_authentication_def c(1) sendsD(2) derive_kamf_ok [OF E c(2)] dest: sendsD(1))
qed

lemma request_runs:
  assumes e: "wf_eNB e" and wf: "wf_UE u"
  shows "runs (procedure_Registration_Request E e) u [] [pdu_initial e u] (u\<lparr>nas_sequence_number := 0\<rparr>)
     (\<lambda>s. and_then (receive analyze_NG_AuthenticationRequest s) (after_authentication E e))" (is "runs _ _ _ ?qs ?v ?g")
proof (rule runsI)
  have v: "wf_UE ?v" "pdu_initial e ?v = pdu_initial e u"
    using wf by (simp_all add: pdu_initial_def ie_ran_def nas_registration_request_def suci_def)
  fix b :: buf and rest sent assume b: "length b = 1024"
  obtain b0 n0 where "generate_NG_Registration_Request e ?v b = Some (b0, n0)" "sends b0 n0 (pdu_initial e u)"
    using messages_sent(1) [OF e v(1) b] v(2) by auto
  then show "\<exists>b1. length b1 = 1024 \<and>
      procedure_Registration_Request E e \<lparr>pr_in = [] @ rest, pr_sent = sent, pr_buf = b, pr_ue = u\<rparr> =
      ?g \<lparr>pr_in = rest, pr_sent = sent @ map encode_pdu ?qs, pr_buf = b1, pr_ue = ?v\<rparr>"
    by (intro exI [of _ b0]) (auto simp: procedure_Registration_Request_def sendsD(2) ue_simps dest: sendsD(1))
qed

lemma registration_states:
  assumes "wf_env E" and "wf_UE u" and "id_ok u"
    and p: "core_pdu a1 c1 l1 p1" "core_pdu a2 c2 l2 p2" "core_pdu a3 c3 l3 p3"
    and u: "u1 = after_request u p1" "u2 = after_command u1 p2" "u3 = learn_ies (p_ies p3) (u2\<lparr>nas_sequence_number := 1\<rparr>)"
  shows "wf_UE u1 \<and> id_ok u1 \<and> nas_sequence_number u1 = 0" and "wf_UE u2 \<and> id_ok u2 \<and> nas_sequence_number u2 = 0"
    and "wf_UE u3 \<and> id_ok u3 \<and> nas_sequence_number u3 = 1"
proof -
  have ies: "\<forall>x \<in> set (p_ies p1). ie_ok x" "\<forall>x \<in> set (p_ies p2). ie_ok x" "\<forall>x \<in> set (p_ies p3). ie_ok x"
    using p by (simp_all add: core_pdu_def)
  have k: "length (k_amf u1) = 32" by (simp add: k_amf_def Let_def)
  show u1: "wf_UE u1 \<and> id_ok u1 \<and> nas_sequence_number u1 = 0"
    using compute_challenge_ok [of "learn_ies (p_ies p1) (u\<lparr>nas_sequence_number := 0\<rparr>)"] assms(2,3) u(1) ies learn_ies_keeps
    by (simp add: after_request_def)
  then show u2: "wf_UE u2 \<and> id_ok u2 \<and> nas_sequence_number u2 = 0"
    using derive_nas_keys_ok [OF assms(1) k, of "learn_ies (p_ies p2) u1"] u(2) ies learn_ies_keeps
    by (simp add: after_command_def)
  then show "wf_UE u3 \<and> id_ok u3 \<and> nas_sequence_number u3 = 1"
    using u(3) ies learn_ies_keeps by simp
qed

text \<open>The registration up to the loop that waits for the PDU session.\<close>

lemma registration_awaits:
  assumes E: "wf_env E" and e: "wf_eNB e" and wf: "wf_UE u" and id: "id_ok u"
    and p1: "core_pdu ID_DOWNLINK_NAS_TRANSPORT CRITICALITY_IGNORE False p1"
    and p2: "core_pdu ID_DOWNLINK_NAS_TRANSPORT CRITICALITY_IGNORE False p2"
    and p3: "core_pdu ID_INITIAL_CONTEXT_SETUP CRITICALITY_REJECT True p3"
    and u1: "u1 = after_request u p1" and u2: "u2 = after_command u1 p2"
    and u3: "u3 = learn_ies (p_ies p3) (u2\<lparr>nas_sequence_number := 1\<rparr>)"
  shows "runs (procedure_Registration_Request E e) u (map (Some \<circ> encode_pdu) [p1, p2, p3])
     [pdu_initial e u,
      pdu_uplink e u1 (nas_authentication_response (res_star u1)),
      pdu_uplink e u2 (protected E u2 4 0 0 (nas_security_mode_complete e u2)),
      pdu_response ID_INITIAL_CONTEXT_SETUP u3 [],
      pdu_uplink e u3 (protected E u3 2 1 1 (nas_mobility REGISTRATION_COMPLETE)),
      pdu_uplink e u3 (protected E u3 2 2 2 nas_session_request)] (u3\<lparr>nas_sequence_number := 3\<rparr>) (awaiting e)"
proof -
  note st = registration_states [OF E wf id p1 p2 p3 u1 u2 u3]
  have l: "length (encode_pdu p1) \<le> 1024" "length (encode_pdu p2) \<le> 1024" "length (encode_pdu p3) \<le> 1024"
    and ies: "\<forall>x \<in> set (p_ies p1). ie_ok x" "\<forall>x \<in> set (p_ies p2). ie_ok x"
    using p1 p2 p3 by (simp_all add: core_pdu_def)
  define v where "v = u\<lparr>nas_sequence_number := 0\<rparr>"
  define v1 where "v1 = learn_ies (p_ies p1) v"
  define v2 where "v2 = learn_ies (p_ies p2) u1"
  have v: "wf_UE v" "wf_UE v1" "id_ok v1" "wf_UE v2" "id_ok v2" "nas_sequence_number v2 = 0"
    using wf id st(1) ies learn_ies_keeps by (simp_all add: v_def v1_def v2_def)
  have k: "length (k_amf u1) = 32" by (simp add: k_amf_def Let_def)
  have w1: "u1 = answered v1" and w2: "u2 = secured (k_amf u1) v2"
    by (simp_all add: u1 u2 after_request_def after_command_def v_def v1_def v2_def)
  have w: "wf_UE (u2\<lparr>nas_sequence_number := 1\<rparr>)" using st(2) by simp
  note r1 = receive_runs [where analyze = analyze_NG_AuthenticationRequest, OF l(1) analyses_ok(1) [OF v(1) p1], folded v1_def]
  note r2 = receive_runs [where analyze = analyze_NG_SecurityModeCommand, OF l(2) analyses_ok(2) [OF _ p2], of u1, folded v2_def]
  note r3 = receive_runs [where analyze = analyze_NG_RegistrationRequest, OF l(3) analyses_ok(5) [OF w p3], folded u3]
  note a = runs_trans [OF runs_trans [OF request_runs [OF e wf, of E, folded v_def] r1] after_authentication_runs [OF E e v(2,3) w1]]
  note b = runs_trans [OF runs_trans [OF a r2] after_security_runs [OF E e v(4-6) k w2]]
  from runs_trans [OF runs_trans [OF b r3] after_context_runs [OF E e, of u3]] st show ?thesis by simp
qed

text \<open>The whole registration.\<close>

lemma registration_runs:
  assumes "wf_env E" and "wf_eNB e" and "wf_UE u" and "id_ok u"
    and "core_pdu ID_DOWNLINK_NAS_TRANSPORT CRITICALITY_IGNORE False p1"
    and "core_pdu ID_DOWNLINK_NAS_TRANSPORT CRITICALITY_IGNORE False p2"
    and "core_pdu ID_INITIAL_CONTEXT_SETUP CRITICALITY_REJECT True p3"
    and "\<forall>m \<in> set ms. passed_over m"
    and "core_pdu ID_PDU_SESSION_RESOURCE_SETUP CRITICALITY_REJECT True p4"
    and "u1 = after_request u p1" and "u2 = after_command u1 p2"
    and "u3 = learn_ies (p_ies p3) (u2\<lparr>nas_sequence_number := 1\<rparr>)"
    and "u4 = learn_ies (p_ies p4) (u3\<lparr>nas_sequence_number := 3\<rparr>)"
  shows "runs (procedure_Registration_Request E e) u
     (map (Some \<circ> encode_pdu) [p1, p2, p3] @ map Some ms @ [Some (encode_pdu p4)])
     [pdu_initial e u,
      pdu_uplink e u1 (nas_authentication_response (res_star u1)),
      pdu_uplink e u2 (protected E u2 4 0 0 (nas_security_mode_complete e u2)),
      pdu_response ID_INITIAL_CONTEXT_SETUP u3 [],
      pdu_uplink e u3 (protected E u3 2 1 1 (nas_mobility REGISTRATION_COMPLETE)),
      pdu_uplink e u3 (protected E u3 2 2 2 nas_session_request),
      pdu_response ID_PDU_SESSION_RESOURCE_SETUP u4 [ie_session_response u4]] u4 (\<lambda>s. Some (s, Returned OK))"
proof -
  note st = registration_states [OF assms(1,3-7,10-12)]
  have w: "wf_UE (u3\<lparr>nas_sequence_number := 3\<rparr>)" using st(3) by simp
  have u4: "wf_UE u4" "id_ok u4" using st(3) assms(9,13) learn_ies_keeps by (simp_all add: core_pdu_def)
  from runs_trans [OF runs_trans [OF registration_awaits [OF assms(1-7,10-12)]
      await_runs [OF assms(8,9) w, folded assms(13)]] after_session_runs [OF assms(2) u4]]
  show ?thesis by simp
qed

text \<open>The deregistration; \<open>ps\<close> is the accept message, which is not awaited when the UE switches off.\<close>

lemma deregistration_runs:
  assumes E: "wf_env E" and e: "wf_eNB e" and wf: "wf_UE u" and id: "id_ok u"
    and p: "off = (ps = [])" "\<forall>p \<in> set ps. core_pdu ID_DOWNLINK_NAS_TRANSPORT c1 False p" "length ps \<le> 1"
    and q: "core_pdu ID_UE_CONTEXT_RELEASE c2 False q"
    and u1: "u1 = u\<lparr>nas_sequence_number := nas_sequence_number u + 1\<rparr>"
    and u2: "u2 = learn_ies (p_ies q) (learn_ies (concat (map p_ies ps)) u1)"
  shows "runs (\<lambda>s. procedure_Deregistration_Request E e s off) u (map (Some \<circ> encode_pdu) (ps @ [q]))
     [pdu_uplink e u (protected E u 2 3 (nas_sequence_number u) (nas_deregistration_request u off)),
      pdu_response ID_UE_CONTEXT_RELEASE u2 [ie_location e]] u2 returned_OK"
proof -
  let ?m = "pdu_uplink e u (protected E u 2 3 (nas_sequence_number u) (nas_deregistration_request u off))"
  define g where "g = (\<lambda>s. do { (b, len) \<leftarrow> generate_NG_UEContextReleaseComplete e (pr_ue s) (pr_buf s);
     s \<leftarrow> send s b len; Some (s, Returned OK) })"
  define h where "h = (\<lambda>s. and_then (receive analyze_NR_UEContextReleaseCommand s) g)"
  define k where "k = (\<lambda>s. and_then (if \<not> off then receive analyze_NG_DeregistrationAccept s else Some (s, Going)) h)"
  let ?v = "learn_ies (concat (map p_ies ps)) u1"
  have ies: "\<forall>x \<in> set (concat (map p_ies ps)). ie_ok x" "\<forall>x \<in> set (p_ies q). ie_ok x"
    and l: "length (encode_pdu q) \<le> 1024" "\<forall>p \<in> set ps. length (encode_pdu p) \<le> 1024"
    using p(2) q by (auto simp: core_pdu_def)
  have w: "wf_UE u1" "wf_UE ?v" "wf_UE u2" "id_ok u2" using wf id ies learn_ies_keeps by (simp_all add: u1 u2)
  have "runs (\<lambda>s. procedure_Deregistration_Request E e s off) u [] [?m] u1 k"
  proof (rule runsI)
    fix b :: buf and rest sent assume b: "length b = 1024"
    obtain b0 n0 where "generate_NG_Deregistration_Request E e u b off = Some (b0, u1, n0)" "sends b0 n0 ?m"
      using messages_sent(8) [OF e wf b E id refl, of off] by (auto simp: u1)
    then show "\<exists>b1. length b1 = 1024 \<and>
        procedure_Deregistration_Request E e \<lparr>pr_in = [] @ rest, pr_sent = sent, pr_buf = b, pr_ue = u\<rparr> off =
        k \<lparr>pr_in = rest, pr_sent = sent @ map encode_pdu [?m], pr_buf = b1, pr_ue = u1\<rparr>"
      by (intro exI [of _ b0])
        (auto simp: procedure_Deregistration_Request_def k_def h_def g_def sendsD(2) dest: sendsD(1))
  qed
  moreover have "runs k u1 (map (Some \<circ> encode_pdu) ps) [] ?v h"
  proof (cases ps)
    case Nil
    with p(1) show ?thesis by (auto simp: runs_def k_def and_then_def learn_ies_def)
  next
    case (Cons x xs)
    then have ps: "ps = [x]" using p(3) by simp
    with p(2) l(2) have x: "core_pdu ID_DOWNLINK_NAS_TRANSPORT c1 False x" and len: "length (encode_pdu x) \<le> 1024" by simp_all
    from p(1) ps have "k = (\<lambda>s. and_then (receive analyze_NG_DeregistrationAccept s) h)" by (simp add: k_def)
    with receive_runs [where analyze = analyze_NG_DeregistrationAccept, OF len analyses_ok(3) [OF w(1) x], of h] ps
    show ?thesis by simp
  qed
  moreover have "runs h ?v [Some (encode_pdu q)] [] u2 g"
    unfolding h_def u2
    by (rule receive_runs [where analyze = analyze_NR_UEContextReleaseCommand, OF l(1) analyses_ok(4) [OF w(2) q]])
  moreover have "runs g u2 [] [pdu_response ID_UE_CONTEXT_RELEASE u2 [ie_location e]] u2 returned_OK"
  proof (rule runsI)
    fix b :: buf and rest sent assume "length b = 1024"
    from messages_sent(9) [OF e w(3) this w(4)] obtain b' n where
      "generate_NG_UEContextReleaseComplete e u2 b = Some (b', n)" "sends b' n (pdu_response ID_UE_CONTEXT_RELEASE u2 [ie_location e])"
      by auto
    then show "\<exists>b'. length b' = 1024 \<and> g \<lparr>pr_in = [] @ rest, pr_sent = sent, pr_buf = b, pr_ue = u2\<rparr> =
        returned_OK \<lparr>pr_in = rest, pr_sent = sent @ map encode_pdu [pdu_response ID_UE_CONTEXT_RELEASE u2 [ie_location e]],
          pr_buf = b', pr_ue = u2\<rparr>"
      by (intro exI [of _ b']) (auto simp: g_def sendsD(2) dest: sendsD(1))
  qed
  ultimately show ?thesis
    using runs_trans [OF runs_trans [OF runs_trans [of _ u "[]" "[?m]" u1 k]]] by fastforce
qed

text \<open>What has been sent decodes.\<close>

lemma decode_sent: "\<forall>p \<in> set ps. pdu_ok p \<Longrightarrow> map decode_pdu (map encode_pdu ps) = map Some ps"
  by (induction ps) (simp_all add: decode_encode_pdu)

lemma runs_decoded:
  assumes "runs f u es ps u' (\<lambda>s. Some (s, r))" and "length b = 1024" and "\<forall>p \<in> set ps. pdu_ok p"
  shows "\<exists>s. f \<lparr>pr_in = es @ rest, pr_sent = [], pr_buf = b, pr_ue = u\<rparr> = Some (s, r) \<and> pr_in s = rest \<and> pr_ue s = u' \<and>
     map decode_pdu (pr_sent s) = map Some ps"
  using runsD [OF assms(1,2), of rest "[]"] decode_sent [OF assms(3)] by auto

text \<open>
  A connection that is closed: \<open>sctp_recvmsg\<close> delivers nothing and the buffer keeps the last message.  When that is a
  configuration update command, the loop turns on it for ever.
\<close>

lemma await_closed:
  assumes "length (pr_buf s) = 1024" and "\<And>u. analyze_NG_ConfigurationUpdateCommand u (pr_buf s) = Some (OK, u)"
  shows "await_pdu_session (replicate n (Some [])) s = Some (s\<lparr>pr_in := []\<rparr>, Blocked)"
  using assms by (induction n) (simp_all add: memcpy_def wrn_def rdn_def)

lemma await_command_closed:
  assumes "passed_over m" and "length (pr_buf s) = 1024"
  shows "\<exists>b. await_pdu_session (Some m # replicate n (Some [])) s = Some (s\<lparr>pr_in := [], pr_buf := b\<rparr>, Blocked)"
proof -
  have l: "length m \<le> 1024" using assms(1) by (simp add: passed_over_def)
  let ?b = "m @ drop (length m) (pr_buf s)"
  have "await_pdu_session (replicate n (Some [])) (s\<lparr>pr_buf := ?b\<rparr>) = Some (s\<lparr>pr_buf := ?b\<rparr>\<lparr>pr_in := []\<rparr>, Blocked)"
    by (rule await_closed) (use l assms(2) passed_over_analysis [OF assms(1)] in simp_all)
  with l assms(2) passed_over_analysis [OF assms(1)] show ?thesis
    by (intro exI [of _ ?b]) (simp add: memcpy_ok)
qed

section \<open>Properties\<close>

text \<open>A core and a UE for the examples.\<close>

definition ex_env :: env where
  "ex_env = \<lparr>e_cmac = (\<lambda>k m. replicate 16 (of_nat (length m))), e_hmac = ex_hmac, e_input63 = replicate 63 0,
     e_input64 = replicate 64 0, e_key32 = replicate 32 0, e_input8 = replicate 8 0\<rparr>"

definition ex_enb :: eNB where
  "ex_enb = \<lparr>enb_id = 7, enb_plmn = [0, 0xf1, 0x10], enb_ip = [10, 0, 0, 1], mme_socket = 3, spgw_socket = -1\<rparr>"

definition ex_challenge :: Auth_Challenge where
  "ex_challenge = \<lparr>RAND = replicate 16 0, AUTN = replicate 16 0, CK = replicate 16 0, IK = replicate 16 0,
     AK = replicate 16 0, RES = replicate 8 0, KASME = replicate 32 0, NAS_KEY_ENC = replicate 16 0, NAS_KEY_INT = replicate 16 0\<rparr>"

definition ex_ue :: UE where
  "ex_ue = \<lparr>ue_id = 1, ue_mcc = str ''001'', ue_mnc = str ''01'', ue_plmn = [0, 0x10, 0x10], ue_msin = [0, 0, 0, 0, 0x10],
     msin_string = str ''0000000001'' @ replicate 6 0, net_capabilities = [2, 0x80, 0x20], nas_session_security_algorithms = 0,
     ue_s1ap_id = 0x80000010, mme_s1ap_id = replicate 16 0, mme_s1ap_id_len = 0, ue_key = replicate 16 0x11,
     ue_op_key = replicate 16 0x22, spgw_ip = replicate 4 0, gtp_teid = 0, apn_name = replicate 32 0, pdn_ip = replicate 4 0,
     guti = replicate 10 0, tun_name = TUN_NAME @ replicate 21 0, data_plane_socket = 0, tun_device = 0, ue_ip = [10, 0, 0, 2],
     nas_sequence_number = 9, auth_challenge = ex_challenge, security_capabilities = replicate 4 0, guami = replicate 6 0\<rparr>"

lemma ex_wf: "wf_env ex_env" "wf_eNB ex_enb" "wf_UE ex_ue" "id_ok ex_ue"
  by (simp_all add: ex_env_def wf_env_def ex_enb_def wf_eNB_def ex_ue_def wf_UE_def ex_challenge_def wf_challenge_def
      TUN_NAME_def id_ok_def del: wf_UE_lengths)

definition elem :: "byte \<Rightarrow> byte list \<Rightarrow> ie" where
  "elem i v = \<lparr>ie_id = i, ie_crit = 0, ie_value = v\<rparr>"

definition ex_auth_request :: pdu where
  "ex_auth_request = \<lparr>p_type = 0, p_proc = ID_DOWNLINK_NAS_TRANSPORT, p_crit = CRITICALITY_IGNORE, p_ies =
     [elem ID_AMF_UE_NGAP_ID [0, 5], elem ID_RAN_UE_NGAP_ID [0, 1],
      elem ID_NAS_PDU ([42, 0x7e, 0, AUTHENTICATION_REQUEST, 0, 2, 0, 0, 0x21] @ replicate 16 0x33 @ [0x20, 16] @ replicate 16 0x44)]\<rparr>"

definition ex_security_command :: pdu where
  "ex_security_command = \<lparr>p_type = 0, p_proc = ID_DOWNLINK_NAS_TRANSPORT, p_crit = CRITICALITY_IGNORE, p_ies =
     [elem ID_AMF_UE_NGAP_ID [0, 5],
      elem ID_NAS_PDU [14, 0x7e, 3, 1, 2, 3, 4, 0, 0x7e, 0, SECURITY_MODE_COMMAND, 0x02, 0, 0, 0]]\<rparr>"

definition ex_context_setup :: pdu where
  "ex_context_setup = \<lparr>p_type = 0, p_proc = ID_INITIAL_CONTEXT_SETUP, p_crit = CRITICALITY_REJECT, p_ies =
     [elem ID_GUAMI [0, 0, 0xf1, 0x10, 2, 0, 0x40], elem ID_SECURITY_KEY (replicate 32 0), elem ID_MOBILE_RESTRICTION_LIST (replicate 60 0),
      elem ID_NAS_PDU ([30, 0x7e, 2, 1, 2, 3, 4, 1, 0x7e, 0, REGISTRATION_ACCEPT, 1, 1, 0x77, 0, 11, 0xf2] @ [0, 0xf1, 0x10, 2, 0, 0x40, 1, 2, 3, 4])]\<rparr>"

definition ex_session_setup :: pdu where
  "ex_session_setup = \<lparr>p_type = 0, p_proc = ID_PDU_SESSION_RESOURCE_SETUP, p_crit = CRITICALITY_REJECT, p_ies =
     [elem ID_PDU_SESSION_RESOURCE_SETUP_LIST_SU_REQ ([0, 0, 1, 40, 0x7e, 2, 0, 0, 0, 0, 2] @ [0x29, 5, 1, 12, 1, 1, 7] @ replicate 8 0x55 @
        [0x00, 0x8b, 0, 10, 1, 0xf0, 192, 168, 0, 9, 0, 0, 0, 42] @ replicate 100 0x11)]\<rparr>"

lemma ex_core:
  "core_pdu ID_DOWNLINK_NAS_TRANSPORT CRITICALITY_IGNORE False ex_auth_request"
  "core_pdu ID_DOWNLINK_NAS_TRANSPORT CRITICALITY_IGNORE False ex_security_command"
  "core_pdu ID_INITIAL_CONTEXT_SETUP CRITICALITY_REJECT True ex_context_setup"
  by (simp_all add: core_pdu_def ex_auth_request_def ex_security_command_def ex_context_setup_def elem_def ie_ok_def
      nas_ok_def encode_pdu_def encode_body_def encode_ie_def encode_length_def)

lemma ex_session_core: "core_pdu ID_PDU_SESSION_RESOURCE_SETUP CRITICALITY_REJECT True ex_session_setup"
proof -
  let ?v = "ie_value (hd (p_ies ex_session_setup))"
  have "address_index ?v = Some 11" "tunnel_index ?v 11 = Some 27" by code_simp+
  then have "session_ok ?v" by (simp add: session_ok_def) (simp add: ex_session_setup_def elem_def)
  then show ?thesis
    by (simp add: core_pdu_def ex_session_setup_def elem_def ie_ok_def encode_pdu_def encode_body_def encode_ie_def encode_length_def)
qed

text \<open>
  C34.  The registration of a UE.  Whatever well-formed answers the core gives (any information elements in any order, and
  any number of configuration update commands before the PDU session), the procedure returns \<open>OK\<close> and sends exactly
  seven messages that decode to the PDUs of the standard: the initial message with the SUCI; RES* for the RAND of the
  core; Security Mode Complete, Registration Complete and the session request, protected with the integrity key that
  the key hierarchy yields from RAND, AUTN and the selected algorithm, under the NAS counts 0, 1 and 2, which are the
  sequence numbers they carry; and the responses with the identifiers, address and TEID that the core has assigned.
\<close>

theorem registration_succeeds:
  assumes "wf_env E" and "wf_eNB e" and "wf_UE u" and "id_ok u" and "length b = 1024"
    and "core_pdu ID_DOWNLINK_NAS_TRANSPORT CRITICALITY_IGNORE False p1"
    and "core_pdu ID_DOWNLINK_NAS_TRANSPORT CRITICALITY_IGNORE False p2"
    and "core_pdu ID_INITIAL_CONTEXT_SETUP CRITICALITY_REJECT True p3"
    and "\<forall>m \<in> set ms. passed_over m"
    and "core_pdu ID_PDU_SESSION_RESOURCE_SETUP CRITICALITY_REJECT True p4"
    and "u1 = after_request u p1" and "u2 = after_command u1 p2"
    and "u3 = learn_ies (p_ies p3) (u2\<lparr>nas_sequence_number := 1\<rparr>)"
    and "u4 = learn_ies (p_ies p4) (u3\<lparr>nas_sequence_number := 3\<rparr>)"
  shows "\<exists>s. procedure_Registration_Request E e
       \<lparr>pr_in = (map (Some \<circ> encode_pdu) [p1, p2, p3] @ map Some ms @ [Some (encode_pdu p4)]) @ rest,
        pr_sent = [], pr_buf = b, pr_ue = u\<rparr> = Some (s, Returned OK) \<and>
     pr_in s = rest \<and> pr_ue s = u4 \<and>
     map decode_pdu (pr_sent s) = map Some
       [pdu_initial e u,
        pdu_uplink e u1 (nas_authentication_response (res_star u1)),
        pdu_uplink e u2 (protected E u2 4 0 0 (nas_security_mode_complete e u2)),
        pdu_response ID_INITIAL_CONTEXT_SETUP u3 [],
        pdu_uplink e u3 (protected E u3 2 1 1 (nas_mobility REGISTRATION_COMPLETE)),
        pdu_uplink e u3 (protected E u3 2 2 2 nas_session_request),
        pdu_response ID_PDU_SESSION_RESOURCE_SETUP u4 [ie_session_response u4]]"
proof -
  note st = registration_states [OF assms(1,3,4,6-8,11-13)]
  have u4: "wf_UE u4" "id_ok u4" using st(3) assms(10,14) learn_ies_keeps by (simp_all add: core_pdu_def)
  from runs_decoded [of _ _ _ _ _ "Returned OK", OF registration_runs [OF assms(1-4,6-14)] assms(5), of rest] st u4 pdus_ok assms(1-4)
  show ?thesis by (simp add: length_nas res_star_def Let_def)
qed

theorem registration_succeeds_witness:
  "\<exists>s. procedure_Registration_Request ex_env ex_enb
       \<lparr>pr_in = (map (Some \<circ> encode_pdu) [ex_auth_request, ex_security_command, ex_context_setup] @
          map Some [[0, ID_DOWNLINK_NAS_TRANSPORT, CRITICALITY_IGNORE, 1]] @ [Some (encode_pdu ex_session_setup)]) @ [None],
        pr_sent = [], pr_buf = replicate 1024 7, pr_ue = ex_ue\<rparr> = Some (s, Returned OK) \<and>
     pr_in s = [None] \<and> length (pr_sent s) = 7"
proof -
  have m: "\<forall>m \<in> set [[0, ID_DOWNLINK_NAS_TRANSPORT, CRITICALITY_IGNORE, 1]]. passed_over m" by (simp add: passed_over_def)
  from registration_succeeds [OF ex_wf _ ex_core m ex_session_core refl refl refl refl, of "replicate 1024 7" "[None]"]
  show ?thesis by (auto dest: arg_cong [of _ _ length])
qed

text \<open>
  The deregistration.  The procedure sends the request, protected under the fixed NAS count 3 while the sequence
  number in the message is that of the UE (so the code is right exactly for a UE whose number is 3, as after one
  registration), waits for the accept unless the UE switches off, and answers the release command.
\<close>

lemma deregistration_succeeds:
  assumes "wf_env E" and "wf_eNB e" and "wf_UE u" and "id_ok u" and "length b = 1024"
    and "off = (ps = [])" and "\<forall>p \<in> set ps. core_pdu ID_DOWNLINK_NAS_TRANSPORT c1 False p" and "length ps \<le> 1"
    and "core_pdu ID_UE_CONTEXT_RELEASE c2 False q"
    and "u2 = learn_ies (p_ies q) (learn_ies (concat (map p_ies ps)) (u\<lparr>nas_sequence_number := nas_sequence_number u + 1\<rparr>))"
  shows "\<exists>s. procedure_Deregistration_Request E e
       \<lparr>pr_in = map (Some \<circ> encode_pdu) (ps @ [q]) @ rest, pr_sent = [], pr_buf = b, pr_ue = u\<rparr> off = Some (s, Returned OK) \<and>
     pr_in s = rest \<and> pr_ue s = u2 \<and>
     map decode_pdu (pr_sent s) = map Some
       [pdu_uplink e u (protected E u 2 3 (nas_sequence_number u) (nas_deregistration_request u off)),
        pdu_response ID_UE_CONTEXT_RELEASE u2 [ie_location e]]"
proof -
  note run = deregistration_runs [OF assms(1-4,6-9) refl assms(10)]
  have u2: "wf_UE u2" "id_ok u2"
    using assms(3,4,7,9,10) learn_ies_keeps by (auto simp: core_pdu_def)
  from runs_decoded [of _ _ _ _ _ "Returned OK", OF run assms(5), of rest] u2 pdus_ok assms(1-4)
  show ?thesis by (simp add: length_nas)
qed

definition ex_release :: pdu where
  "ex_release = \<lparr>p_type = 0, p_proc = ID_UE_CONTEXT_RELEASE, p_crit = CRITICALITY_REJECT, p_ies =
     [elem ID_UE_NGAP_IDS [0, 5, 0, 1], elem ID_CAUSE [0x48]]\<rparr>"

lemma ex_release_core: "core_pdu ID_UE_CONTEXT_RELEASE CRITICALITY_REJECT False ex_release"
  by (simp add: core_pdu_def ex_release_def elem_def ie_ok_def encode_pdu_def encode_body_def encode_ie_def encode_length_def)

text \<open>
  A rejected answer.  When the core's first answer is an error or a message of another kind, the procedure returns
  \<open>ERROR\<close> at once: only the initial message has been sent, and the UE has learned nothing from the answer.
\<close>

lemma wrong_answer_rejected:
  assumes "wf_eNB e" and "wf_UE u" and "length b = 1024"
    and "answer = None \<or> (\<exists>x y z m. answer = Some (x # y # z # w # m) \<and> length m \<le> 1020 \<and>
       [x, y, z] \<noteq> [0, ID_DOWNLINK_NAS_TRANSPORT, CRITICALITY_IGNORE])"
  shows "\<exists>s. procedure_Registration_Request E e \<lparr>pr_in = answer # rest, pr_sent = [], pr_buf = b, pr_ue = u\<rparr> =
       Some (s, Returned ERROR) \<and>
     pr_in s = rest \<and> map decode_pdu (pr_sent s) = [Some (pdu_initial e u)] \<and> pr_ue s = u\<lparr>nas_sequence_number := 0\<rparr>"
proof -
  obtain b1 where b1: "length b1 = 1024" "procedure_Registration_Request E e \<lparr>pr_in = answer # rest, pr_sent = [], pr_buf = b, pr_ue = u\<rparr> =
      and_then (receive analyze_NG_AuthenticationRequest
        \<lparr>pr_in = answer # rest, pr_sent = [encode_pdu (pdu_initial e u)], pr_buf = b1, pr_ue = u\<lparr>nas_sequence_number := 0\<rparr>\<rparr>)
        (after_authentication E e)"
    using runsD [OF request_runs [OF assms(1,2)] assms(3), of E "answer # rest" "[]"] by auto
  have d: "decode_pdu (encode_pdu (pdu_initial e u)) = Some (pdu_initial e u)"
    by (rule decode_encode_pdu) (rule pdus_ok(2) [OF assms(1,2)])
  from assms(4) show ?thesis
  proof
    assume "answer = None"
    with b1 d show ?thesis by (simp add: receive_def and_then_def)
  next
    assume "\<exists>x y z m. answer = Some (x # y # z # w # m) \<and> length m \<le> 1020 \<and>
       [x, y, z] \<noteq> [0, ID_DOWNLINK_NAS_TRANSPORT, CRITICALITY_IGNORE]"
    then obtain x y z m where a: "answer = Some (x # y # z # w # m)" "length m \<le> 1020"
      and n: "[x, y, z] \<noteq> [0, ID_DOWNLINK_NAS_TRANSPORT, CRITICALITY_IGNORE]" by blast
    have "analyze_NG_AuthenticationRequest v (x # y # z # w # m @ r) = Some (ERROR, v)" for v r
      using n by (auto simp: analyze_NG_AuthenticationRequest_def rd_def)
    with a b1 d show ?thesis by (simp add: receive_def and_then_def memcpy_ok)
  qed
qed

text \<open>
  C37.  The identifier that the core assigns has a length byte that is not checked: with more than 16 bytes
  \<open>set_mme_s1ap_id\<close> writes outside its member, whatever else is in the message.
\<close>

theorem long_identifier_overflows:
  assumes "wf_eNB e" and "wf_UE u" and "length b = 1024" and "16 < unat n" and "length m \<le> 1013" and "0 < unat k"
  shows "procedure_Registration_Request E e
     \<lparr>pr_in = Some ([0, ID_DOWNLINK_NAS_TRANSPORT, CRITICALITY_IGNORE, l, 0, 0, k, 0, ID_AMF_UE_NGAP_ID, c, n] @ m) # rest,
      pr_sent = [], pr_buf = b, pr_ue = u\<rparr> = None"
proof -
  let ?m = "[0, ID_DOWNLINK_NAS_TRANSPORT, CRITICALITY_IGNORE, l, 0, 0, k, 0, ID_AMF_UE_NGAP_ID, c, n] @ m"
  obtain b1 where b1: "length b1 = 1024" "procedure_Registration_Request E e \<lparr>pr_in = Some ?m # rest, pr_sent = [], pr_buf = b, pr_ue = u\<rparr> =
      and_then (receive analyze_NG_AuthenticationRequest
        \<lparr>pr_in = Some ?m # rest, pr_sent = [encode_pdu (pdu_initial e u)], pr_buf = b1, pr_ue = u\<lparr>nas_sequence_number := 0\<rparr>\<rparr>)
        (after_authentication E e)"
    using runsD [OF request_runs [OF assms(1,2)] assms(3), of E "Some ?m # rest" "[]"] by auto
  obtain j where j: "unat k = Suc j" using assms(6) by (cases "unat k") auto
  have none: "set_mme_s1ap_id v src n = None" if "wf_UE v" for v src
    using that assms(4) by (simp add: set_mme_s1ap_id_def memcpy_def wrn_def split: Option.bind_split)
       (auto dest: rdn_SomeD)
  have wv: "wf_UE (u\<lparr>nas_sequence_number := 0\<rparr>)" using assms(2) by simp
  have "analyze_NG_AuthenticationRequest (u\<lparr>nas_sequence_number := 0\<rparr>) (?m @ r) = None" for r
    by (simp add: analyze_NG_AuthenticationRequest_def rd_def analyze_items_of_def analyze_message_items_def j
        analyze_item_def none [OF wv] numeral_2_eq_2 numeral_3_eq_3)
  with b1 assms(5) show ?thesis by (simp add: receive_def and_then_def memcpy_ok)
qed

theorem long_identifier_overflows_witness:
  "procedure_Registration_Request ex_env ex_enb
     \<lparr>pr_in = [Some ([0, ID_DOWNLINK_NAS_TRANSPORT, CRITICALITY_IGNORE, 24, 0, 0, 1, 0, ID_AMF_UE_NGAP_ID, 0, 17] @ replicate 17 9)],
      pr_sent = [], pr_buf = replicate 1024 7, pr_ue = ex_ue\<rparr> = None"
  by (rule long_identifier_overflows [OF ex_wf(2,3)]) simp_all

text \<open>
  C38.  A registration that does not terminate.  When the core closes the connection after a configuration update command,
  every further call of \<open>sctp_recvmsg\<close> returns 0 and leaves the command in the buffer, and the loop takes it for a new
  one: after any number \<open>n\<close> of such calls the procedure has neither returned nor sent anything.
\<close>

theorem closed_connection_never_returns:
  assumes "wf_env E" and "wf_eNB e" and "wf_UE u" and "id_ok u" and "length b = 1024"
    and "core_pdu ID_DOWNLINK_NAS_TRANSPORT CRITICALITY_IGNORE False p1"
    and "core_pdu ID_DOWNLINK_NAS_TRANSPORT CRITICALITY_IGNORE False p2"
    and "core_pdu ID_INITIAL_CONTEXT_SETUP CRITICALITY_REJECT True p3"
    and "passed_over m"
  shows "\<exists>s. procedure_Registration_Request E e
       \<lparr>pr_in = map (Some \<circ> encode_pdu) [p1, p2, p3] @ Some m # replicate n (Some []), pr_sent = [], pr_buf = b, pr_ue = u\<rparr> =
       Some (s, Blocked) \<and> pr_in s = [] \<and> length (pr_sent s) = 6"
proof -
  let ?es = "Some m # replicate n (Some [])"
  obtain sent v where l: "length sent = 6"
    and r: "runs (procedure_Registration_Request E e) u (map (Some \<circ> encode_pdu) [p1, p2, p3]) sent v (awaiting e)"
    by (rule that [OF _ registration_awaits [OF assms(1-4,6-8) refl refl refl]]) simp
  from runsD [OF r assms(5), of ?es "[]"] obtain b' where b': "length b' = 1024" "procedure_Registration_Request E e
       \<lparr>pr_in = map (Some \<circ> encode_pdu) [p1, p2, p3] @ ?es, pr_sent = [], pr_buf = b, pr_ue = u\<rparr> =
       awaiting e \<lparr>pr_in = ?es, pr_sent = map encode_pdu sent, pr_buf = b', pr_ue = v\<rparr>"
    by auto
  from await_command_closed [OF assms(9), of "\<lparr>pr_in = ?es, pr_sent = map encode_pdu sent, pr_buf = b', pr_ue = v\<rparr>" n] b' l
  show ?thesis by (auto simp: and_then_def simp del: await_pdu_session.simps)
qed

theorem closed_connection_never_returns_witness:
  "\<exists>s. procedure_Registration_Request ex_env ex_enb
       \<lparr>pr_in = map (Some \<circ> encode_pdu) [ex_auth_request, ex_security_command, ex_context_setup] @
          Some [0, ID_DOWNLINK_NAS_TRANSPORT, CRITICALITY_IGNORE, 1] # replicate 1000 (Some []),
        pr_sent = [], pr_buf = replicate 1024 7, pr_ue = ex_ue\<rparr> = Some (s, Blocked) \<and> length (pr_sent s) = 6"
proof -
  have m: "passed_over [0, ID_DOWNLINK_NAS_TRANSPORT, CRITICALITY_IGNORE, 1]" by (simp add: passed_over_def)
  from closed_connection_never_returns [OF ex_wf _ ex_core m, of "replicate 1024 7" 1000] show ?thesis by auto
qed

end
