(* ===== verification/S1ap.thy ===== *)
theory S1ap
  imports Ngap_Messages
begin

text \<open>
  The messages of ran-emulator/source/s1ap.c, the 4G counterpart of ngap.c: the information elements, the items of a
  message and the message, one record each, with the functions that write them.  The structures of the messages all
  have the fields of \<open>s1ap_items\<close>.  A \<open>GC_malloc\<close> succeeds, and a block that is filled at once is the list of its bytes;
  \<open>None\<close> is an access outside an array.  The structures are laid out for a little-endian machine.
\<close>

named_theorems s1_simps \<open>the functions that write S1AP messages\<close>

section \<open>Constants\<close>

text \<open>Those of ngap.c that have another value here end in \<open>_S1\<close>.\<close>

abbreviation (input) S1_SETUP :: u16 where "S1_SETUP \<equiv> 0x0011"
abbreviation (input) GLOBAL_ENB_ID :: u16 where "GLOBAL_ENB_ID \<equiv> 0x003B"
abbreviation (input) ENB_NAME :: u16 where "ENB_NAME \<equiv> 0x003C"
abbreviation (input) SUPPORTED_TAS :: u16 where "SUPPORTED_TAS \<equiv> 0x0040"
abbreviation (input) DEFAULT_PAGING_DRX :: u16 where "DEFAULT_PAGING_DRX \<equiv> 0x0089"
abbreviation (input) PAGING_DRX :: byte where "PAGING_DRX \<equiv> 0x40"
abbreviation (input) S1_SETUP_SUCCESSFUL :: byte where "S1_SETUP_SUCCESSFUL \<equiv> 0x20"
abbreviation (input) S1_SETUP_UNSUCCESSFUL :: byte where "S1_SETUP_UNSUCCESSFUL \<equiv> 0x40"
abbreviation (input) ServedGUMMEIs :: u16 where "ServedGUMMEIs \<equiv> 0x0069"
abbreviation (input) ID_UEAGGREGATE_MAXIMUM_BITRATE :: u16 where "ID_UEAGGREGATE_MAXIMUM_BITRATE \<equiv> 0x0042"
abbreviation (input) ID_E_RAB_TO_BE_SETUP_LIST_C_TXT_SU_REQ :: u16 where "ID_E_RAB_TO_BE_SETUP_LIST_C_TXT_SU_REQ \<equiv> 0x0018"
abbreviation (input) ID_UE_SECURITY_CAPABILITIES_S1 :: u16 where "ID_UE_SECURITY_CAPABILITIES_S1 \<equiv> 0x006b"
abbreviation (input) ID_SECURITY_KEY_S1 :: u16 where "ID_SECURITY_KEY_S1 \<equiv> 0x0049"
abbreviation (input) ID_UE_S1AP_IDS :: u16 where "ID_UE_S1AP_IDS \<equiv> 0x0063"
abbreviation (input) ID_CAUSE_S1 :: u16 where "ID_CAUSE_S1 \<equiv> 0x0002"
abbreviation (input) ID_TAI :: u16 where "ID_TAI \<equiv> 0x0043"
abbreviation (input) ID_EUTRAN_CGI :: u16 where "ID_EUTRAN_CGI \<equiv> 0x0064"
abbreviation (input) ID_RRC_ESTABLISHMENT_CAUSE :: u16 where "ID_RRC_ESTABLISHMENT_CAUSE \<equiv> 0x0086"
abbreviation (input) ID_UE_RADIO_CAPABILITY :: u16 where "ID_UE_RADIO_CAPABILITY \<equiv> 0x004a"
abbreviation (input) ID_E_RAB_TO_BE_SETUP_ITEM_C_TXT_SU_REQ :: nat where "ID_E_RAB_TO_BE_SETUP_ITEM_C_TXT_SU_REQ \<equiv> 0x0034"
abbreviation (input) ID_E_RAB_SETUP_LIST_C_TXT_SU_RES :: u16 where "ID_E_RAB_SETUP_LIST_C_TXT_SU_RES \<equiv> 0x0033"
abbreviation (input) ID_E_RAB_SETUP_ITEM_C_TXT_SU_RES :: u16 where "ID_E_RAB_SETUP_ITEM_C_TXT_SU_RES \<equiv> 0x0032"
abbreviation (input) ID_E_RAB_TO_BE_SWITCHED_DL_LIST :: u16 where "ID_E_RAB_TO_BE_SWITCHED_DL_LIST \<equiv> 0x0016"
abbreviation (input) ID_E_RAB_TO_BE_SWITCHED_DL_ITEM :: u16 where "ID_E_RAB_TO_BE_SWITCHED_DL_ITEM \<equiv> 0x0017"
abbreviation (input) ID_MME_UE_S1AP_IE :: u16 where "ID_MME_UE_S1AP_IE \<equiv> 0x0000"
abbreviation (input) ID_ENB_UE_S1AP_ID :: u16 where "ID_ENB_UE_S1AP_ID \<equiv> 0x0008"
abbreviation (input) ID_S_TMSI :: u16 where "ID_S_TMSI \<equiv> 0x0060"
abbreviation (input) ID_SOURCEMME_UE_S1AP_ID :: u16 where "ID_SOURCEMME_UE_S1AP_ID \<equiv> 0x0058"
abbreviation (input) ID_PATH_SWITCH_REQUEST :: u16 where "ID_PATH_SWITCH_REQUEST \<equiv> 0x0003"
abbreviation (input) ID_SECURITY_CONTEXT :: u16 where "ID_SECURITY_CONTEXT \<equiv> 0x0028"
abbreviation (input) INITIAL_UE_MESSAGE :: u16 where "INITIAL_UE_MESSAGE \<equiv> 0x000C"
abbreviation (input) ID_NAS_PDU_S1 :: u16 where "ID_NAS_PDU_S1 \<equiv> 0x001A"
abbreviation (input) MO_SIGNALLING :: byte where "MO_SIGNALLING \<equiv> 0x30"
abbreviation (input) MO_DATA :: byte where "MO_DATA \<equiv> 0x40"
abbreviation (input) DOWNLINK_NAS_TRANSPORT :: byte where "DOWNLINK_NAS_TRANSPORT \<equiv> 0x0b"
abbreviation (input) AUTHENTICATION_REQUEST_S1 :: byte where "AUTHENTICATION_REQUEST_S1 \<equiv> 0x52"
abbreviation (input) EMM_INFORMATION :: byte where "EMM_INFORMATION \<equiv> 0x61"
abbreviation (input) DETACH_ACCEPT :: byte where "DETACH_ACCEPT \<equiv> 0x46"
abbreviation (input) ACTIVATE_DEFAULT_EPS_BEARER_CONTEXT_REQUEST :: byte where
  "ACTIVATE_DEFAULT_EPS_BEARER_CONTEXT_REQUEST \<equiv> 0xC1"
abbreviation (input) INITIAL_CONTEXT_SETUP :: u16 where "INITIAL_CONTEXT_SETUP \<equiv> 0x09"
abbreviation (input) UE_CAPABILITY_INFO_INDICATION :: u16 where "UE_CAPABILITY_INFO_INDICATION \<equiv> 0x16"
abbreviation (input) UPLINK_NAS_TRANSPORT :: u16 where "UPLINK_NAS_TRANSPORT \<equiv> 0x000D"
abbreviation (input) UE_CONTEXT_RELEASE_REQUEST :: u16 where "UE_CONTEXT_RELEASE_REQUEST \<equiv> 0x12"
abbreviation (input) UE_CONTEXT_RELEASE :: byte where "UE_CONTEXT_RELEASE \<equiv> 0x17"

section \<open>Structures\<close>

record ProtocolIE =
  IE_id :: u16
  IE_criticality :: byte
  IE_value :: buf
  IE_value_len :: byte

record s1ap_items =
  it_init :: byte
  it_numItems :: u16
  it_items :: buf
  it_items_len :: u16

record s1ap_initiatingMessage =
  im_procedureCode :: u16
  im_criticality :: byte
  im_value :: buf
  im_value_len :: u16

definition bytes16 :: "u16 \<Rightarrow> byte list" where
  [s1_simps]: "bytes16 w = [ucast (drop_bit 8 w), ucast (w AND 0xFF)]"

text \<open>A length is counted in an \<open>int\<close> and stored in 16 bits.\<close>

definition s1ap_initiatingMessage_to_buffer :: "s1ap_initiatingMessage \<Rightarrow> (buf \<times> u16) option" where
  [s1_simps]: "s1ap_initiatingMessage_to_buffer m = do {
     v \<leftarrow> rdn (im_value m) 0 (unat (im_value_len m));
     Some (bytes16 (im_procedureCode m) @ [im_criticality m] @ v, 3 + im_value_len m) }"

definition S1SetupRequest_to_buffer :: "s1ap_items \<Rightarrow> (buf \<times> u16) option" where
  [s1_simps]: "S1SetupRequest_to_buffer m = do {
     v \<leftarrow> rdn (it_items m) 0 (unat (it_items_len m));
     Some (it_init m # bytes16 (it_numItems m) @ v, 3 + it_items_len m) }"

definition ProtocolIE_to_buffer :: "ProtocolIE \<Rightarrow> (buf \<times> nat) option" where
  [s1_simps]: "ProtocolIE_to_buffer p = do {
     v \<leftarrow> rdn (IE_value p) 0 (unat (IE_value_len p));
     Some (bytes16 (IE_id p) @ [IE_criticality p] @ v, 3 + unat (IE_value_len p)) }"

text \<open>The functions that follow repeat the statements of \<open>S1SetupRequest_to_buffer\<close>.\<close>

definition InitialUEMessage_to_buffer :: "s1ap_items \<Rightarrow> (buf \<times> u16) option" where
  [s1_simps]: "InitialUEMessage_to_buffer = S1SetupRequest_to_buffer"

definition AuthenticationResponse_to_buffer :: "s1ap_items \<Rightarrow> (buf \<times> u16) option" where
  [s1_simps]: "AuthenticationResponse_to_buffer = S1SetupRequest_to_buffer"

definition SecurityCommandComplete_to_buffer :: "s1ap_items \<Rightarrow> (buf \<times> u16) option" where
  [s1_simps]: "SecurityCommandComplete_to_buffer = S1SetupRequest_to_buffer"

definition UplinkNASTransport_to_buffer :: "s1ap_items \<Rightarrow> (buf \<times> u16) option" where
  [s1_simps]: "UplinkNASTransport_to_buffer = S1SetupRequest_to_buffer"

definition UECapabilityInfoIndication_to_buffer :: "s1ap_items \<Rightarrow> (buf \<times> u16) option" where
  [s1_simps]: "UECapabilityInfoIndication_to_buffer = S1SetupRequest_to_buffer"

definition InitialContextSetupResponse_to_buffer :: "s1ap_items \<Rightarrow> (buf \<times> u16) option" where
  [s1_simps]: "InitialContextSetupResponse_to_buffer = S1SetupRequest_to_buffer"

definition UEContextReleaseRequest_to_buffer :: "s1ap_items \<Rightarrow> (buf \<times> u16) option" where
  [s1_simps]: "UEContextReleaseRequest_to_buffer = S1SetupRequest_to_buffer"

definition UEContextReleaseResponse_to_buffer :: "s1ap_items \<Rightarrow> (buf \<times> u16) option" where
  [s1_simps]: "UEContextReleaseResponse_to_buffer = S1SetupRequest_to_buffer"

definition UEDetach_to_buffer :: "s1ap_items \<Rightarrow> (buf \<times> u16) option" where
  [s1_simps]: "UEDetach_to_buffer = S1SetupRequest_to_buffer"

definition InitialUEMessage_ServiceRequest_to_buffer :: "s1ap_items \<Rightarrow> (buf \<times> u16) option" where
  [s1_simps]: "InitialUEMessage_ServiceRequest_to_buffer = S1SetupRequest_to_buffer"

definition Path_Switch_Request_to_buffer :: "s1ap_items \<Rightarrow> (buf \<times> u16) option" where
  [s1_simps]: "Path_Switch_Request_to_buffer = S1SetupRequest_to_buffer"

section \<open>Steps that every message repeats\<close>

definition generate_s1ap_value :: "buf \<Rightarrow> byte \<Rightarrow> buf option" where
  [s1_simps]: "generate_s1ap_value content len = do { v \<leftarrow> rdn content 0 (unat len); Some (len # v) }"

text \<open>The copy of a value of \<open>n\<close> bytes into a new element; the length is cut to a byte.\<close>

definition with_value :: "u16 \<Rightarrow> byte \<Rightarrow> buf \<Rightarrow> nat \<Rightarrow> ProtocolIE option" where
  [s1_simps]: "with_value i c value n = do {
     v \<leftarrow> rdn value 0 n;
     Some \<lparr>IE_id = i, IE_criticality = c, IE_value = v, IE_value_len = of_nat n\<rparr> }"

text \<open>A structure of \<open>n\<close> bytes, and a NAS message, which is a value in a value.\<close>

definition struct_IE :: "u16 \<Rightarrow> byte \<Rightarrow> buf \<Rightarrow> byte \<Rightarrow> ProtocolIE option" where
  [s1_simps]: "struct_IE i c s n = do { value \<leftarrow> generate_s1ap_value s n; with_value i c value (unat n + 1) }"

definition encapsulated_IE :: "u16 \<Rightarrow> byte \<Rightarrow> buf \<Rightarrow> byte \<Rightarrow> ProtocolIE option" where
  [s1_simps]: "encapsulated_IE i c s n = do {
     value \<leftarrow> generate_s1ap_value s n;
     encapsulated \<leftarrow> generate_s1ap_value value (n + 1);
     with_value i c encapsulated (unat n + 2) }"

text \<open>\<open>memcpy(items + i, buffer, len); i += len;\<close> for the elements in order.\<close>

fun items_of :: "ProtocolIE list \<Rightarrow> buf option" where
  "items_of [] = Some []"
| "items_of (p # ps) = do { (b, n) \<leftarrow> ProtocolIE_to_buffer p; v \<leftarrow> rdn b 0 n; bs \<leftarrow> items_of ps; Some (v @ bs) }"

definition with_items :: "byte \<Rightarrow> u16 \<Rightarrow> ProtocolIE list \<Rightarrow> s1ap_items option" where
  [s1_simps]: "with_items init n ps = do {
     b \<leftarrow> items_of ps;
     Some \<lparr>it_init = init, it_numItems = n, it_items = b, it_items_len = of_nat (length b)\<rparr> }"

definition initiating :: "u16 \<Rightarrow> byte \<Rightarrow> buf \<times> u16 \<Rightarrow> s1ap_initiatingMessage option" where
  [s1_simps]: "initiating proc c m =
     (case m of (b, len) \<Rightarrow> do {
        v \<leftarrow> rdn b 0 (unat len);
        Some \<lparr>im_procedureCode = proc, im_criticality = c, im_value = ucast len # v, im_value_len = len + 1\<rparr> })"

section \<open>Information elements\<close>

definition generate_ProtocolIE_default_paging_drx :: "ProtocolIE option" where
  [s1_simps]: "generate_ProtocolIE_default_paging_drx = struct_IE DEFAULT_PAGING_DRX CRITICALITY_IGNORE [PAGING_DRX] 1"

definition generate_ProtocolIE_supported_tas :: "eNB \<Rightarrow> ProtocolIE option" where
  [s1_simps]: "generate_ProtocolIE_supported_tas enb = do {
     plmn \<leftarrow> rdn (get_plmn enb) 0 3;
     struct_IE SUPPORTED_TAS CRITICALITY_REJECT ([0x00, 0x00, 0x00, 0x40] @ plmn) 7 }"

definition generate_ProtocolIE_enb_name :: "ProtocolIE option" where
  [s1_simps]: "generate_ProtocolIE_enb_name = struct_IE ENB_NAME CRITICALITY_IGNORE
     [0x07, 0x00, 0x4e, 0x65, 0x72, 0x76, 0x69, 0x6f, 0x6e, 0x5f, 0x65, 0x2d, 0x4e, 0x6f, 0x64, 0x65, 0x42] 17"

definition generate_ProtocolIE_global_enb_id :: "eNB \<Rightarrow> ProtocolIE option" where
  [s1_simps]: "generate_ProtocolIE_global_enb_id enb = do {
     plmn \<leftarrow> rdn (get_plmn enb) 0 3;
     struct_IE GLOBAL_ENB_ID CRITICALITY_REJECT ([0] @ plmn @ UINT32_TO_ARRAY (get_enb_id enb)) 8 }"

definition generate_ProtocolIE_enb_ue_s1ap_id :: "UE \<Rightarrow> ProtocolIE option" where
  [s1_simps]: "generate_ProtocolIE_enb_ue_s1ap_id ue =
     (let s1ap_id = get_ue_id ue
      in struct_IE ID_ENB_UE_S1AP_ID CRITICALITY_REJECT
           [0x40, ucast (drop_bit 8 s1ap_id AND 0xFF), ucast (s1ap_id AND 0xFF)] 3)"

text \<open>The Attach Request, with its PDN connectivity request; the members that are not set are zero.\<close>

definition generate_ProtocolIE_nas_pdu :: "UE \<Rightarrow> ProtocolIE option" where
  [s1_simps]: "generate_ProtocolIE_nas_pdu ue = do {
     plmn \<leftarrow> rdn (get_ue_plmn ue) 0 3;
     p0 \<leftarrow> rd plmn 0;
     plmn \<leftarrow> wr plmn 0 (p0 OR 0x09);
     msin \<leftarrow> rdn (get_ue_msin ue) 0 5;
     capabilities \<leftarrow> rdn (get_ue_capabilities ue) 0 3;
     encapsulated_IE ID_NAS_PDU_S1 CRITICALITY_REJECT
       ([0x07, 0x41, 0x71, 0x08] @ plmn @ msin @ capabilities @
        [0x00, 0x20, 0x02, 0x01, 0xD0, 0x11, 0x27, 0x1a, 0x80, 0x80, 0x21, 0x10, 0x01, 0x00, 0x00, 0x10,
         0x81, 0x06, 0, 0, 0, 0, 0x83, 0x06, 0, 0, 0, 0, 0x00, 0x0d, 0x00, 0x00, 0x0a, 0x00]) 49 }"

definition generate_ProtocolIE_tai :: "eNB \<Rightarrow> ProtocolIE option" where
  [s1_simps]: "generate_ProtocolIE_tai enb = do {
     plmn \<leftarrow> rdn (get_plmn enb) 0 3;
     struct_IE ID_TAI CRITICALITY_REJECT ([0] @ plmn @ [0x00, 0x01]) 6 }"

definition generate_ProtocolIE_eutran_cgi :: "eNB \<Rightarrow> ProtocolIE option" where
  [s1_simps]: "generate_ProtocolIE_eutran_cgi enb = do {
     plmn \<leftarrow> rdn (get_plmn enb) 0 3;
     struct_IE ID_EUTRAN_CGI CRITICALITY_IGNORE ([0] @ plmn @ UINT32_TO_ARRAY (get_enb_id enb)) 8 }"

definition generate_ProtocolIE_rrc_establishment_cause :: "byte \<Rightarrow> ProtocolIE option" where
  [s1_simps]: "generate_ProtocolIE_rrc_establishment_cause cause =
     struct_IE ID_RRC_ESTABLISHMENT_CAUSE CRITICALITY_IGNORE [cause] 1"

definition generate_ProtocolIE_cause :: "ProtocolIE" where
  [s1_simps]: "generate_ProtocolIE_cause =
     \<lparr>IE_id = ID_CAUSE_S1, IE_criticality = CRITICALITY_IGNORE, IE_value = [2, 0, 0], IE_value_len = 3\<rparr>"

text \<open>\<open>get_mme_code(ue) << 6\<close> is cut to 16 bits.\<close>

definition generate_ProtocolIE_s_tmsi :: "UE \<Rightarrow> ProtocolIE option" where
  [s1_simps]: "generate_ProtocolIE_s_tmsi ue = do {
     c \<leftarrow> get_mme_code ue;
     let mmec = push_bit 6 (ucast c :: u16);
     m_tmsi \<leftarrow> rdn (get_m_tmsi ue) 0 4;
     Some \<lparr>IE_id = ID_S_TMSI, IE_criticality = CRITICALITY_REJECT,
       IE_value = [6, ucast (drop_bit 8 mmec AND 0xFF), ucast (mmec AND 0xFF)] @ m_tmsi, IE_value_len = 7\<rparr> }"

definition generate_ProtocolIE_security_capabilities :: "UE \<Rightarrow> ProtocolIE option" where
  [s1_simps]: "generate_ProtocolIE_security_capabilities ue = do {
     c \<leftarrow> rdn (get_security_capabilities ue) 0 4;
     Some \<lparr>IE_id = ID_UE_SECURITY_CAPABILITIES_S1, IE_criticality = CRITICALITY_REJECT,
       IE_value = [5] @ c @ [0], IE_value_len = 6\<rparr> }"

definition generate_ProtocolIE_mme_ue_s1ap_id :: "UE \<Rightarrow> ProtocolIE option" where
  [s1_simps]: "generate_ProtocolIE_mme_ue_s1ap_id ue =
     (case get_mme_s1ap_id ue of (mme_id, len) \<Rightarrow> struct_IE ID_MME_UE_S1AP_IE CRITICALITY_REJECT mme_id len)"

definition generate_SourceMME_UE_S1AP_ID :: "UE \<Rightarrow> ProtocolIE option" where
  [s1_simps]: "generate_SourceMME_UE_S1AP_ID ue =
     (case get_mme_s1ap_id ue of (mme_id, len) \<Rightarrow> struct_IE ID_SOURCEMME_UE_S1AP_ID CRITICALITY_REJECT mme_id len)"

definition generate_ProtocolIE_nas_pdu_auth_response :: "Auth_Challenge \<Rightarrow> ProtocolIE option" where
  [s1_simps]: "generate_ProtocolIE_nas_pdu_auth_response auth = do {
     res \<leftarrow> rdn (RES auth) 0 8;
     encapsulated_IE ID_NAS_PDU_S1 CRITICALITY_REJECT ([0x07, 0x53, 8] @ res) 11 }"

text \<open>
  The protected NAS messages.  The code is computed over the bytes from the sequence number on, and \<open>message\<close> is what
  follows it.
\<close>

definition protected_nas :: "env \<Rightarrow> Auth_Challenge \<Rightarrow> byte \<Rightarrow> byte \<Rightarrow> byte list \<Rightarrow> byte \<Rightarrow> u32 \<Rightarrow> byte \<Rightarrow> ProtocolIE option" where
  [s1_simps]: "protected_nas E auth header sq message n count len = do {
     mac \<leftarrow> nas_integrity_eia2 (e_cmac E) (NAS_KEY_INT auth) (sq # message) n count 0;
     encapsulated_IE ID_NAS_PDU_S1 CRITICALITY_REJECT ([header] @ mac @ [sq] @ message) len }"

definition generate_ProtocolIE_nas_pdu_security_command_complete ::
  "env \<Rightarrow> UE \<Rightarrow> Auth_Challenge \<Rightarrow> (ProtocolIE \<times> UE) option" where
  [s1_simps]: "generate_ProtocolIE_nas_pdu_security_command_complete E ue auth =
     (let (sq, ue) = get_nas_sequence_number ue
      in do { p \<leftarrow> protected_nas E auth 0x47 sq [0x07, 0x5e] 3 0 8; Some (p, ue) })"

definition generate_ProtocolIE_nas_pdu_attach_complete ::
  "env \<Rightarrow> UE \<Rightarrow> Auth_Challenge \<Rightarrow> (ProtocolIE \<times> UE) option" where
  [s1_simps]: "generate_ProtocolIE_nas_pdu_attach_complete E ue auth =
     (let (sq, ue) = get_nas_sequence_number ue
      in do { p \<leftarrow> protected_nas E auth 0x27 sq [0x07, 0x43, 0x00, 0x03, 0x52, 0x00, 0xc2] 8 1 13; Some (p, ue) })"

definition generate_ProtocolIE_nas_pdu_detach ::
  "env \<Rightarrow> UE \<Rightarrow> Auth_Challenge \<Rightarrow> byte \<Rightarrow> (ProtocolIE \<times> UE) option" where
  [s1_simps]: "generate_ProtocolIE_nas_pdu_detach E ue auth switch_off =
     (let (sq, ue) = get_nas_sequence_number ue
      in do {
        g \<leftarrow> rdn (get_guti ue) 0 10;
        p \<leftarrow> protected_nas E auth 0x27 sq
          ([0x07, 0x45, if switch_off \<noteq> 0 then 0x01 OR 0x08 else 0x01, 0x0B, 0xF6] @ g) 16 1 21;
        Some (p, ue) })"

definition generate_ProtocolIE_nas_pdu_service_request ::
  "env \<Rightarrow> UE \<Rightarrow> Auth_Challenge \<Rightarrow> (ProtocolIE \<times> UE) option" where
  [s1_simps]: "generate_ProtocolIE_nas_pdu_service_request E ue auth =
     (let (sq, ue) = get_nas_sequence_number ue; ksi = (0 AND 0xE0) OR (sq AND 0x1F)
      in do {
        mac \<leftarrow> nas_integrity_eia2 (e_cmac E) (NAS_KEY_INT auth) [0xC7, ksi, 0, 0] 2 2 0;
        m2 \<leftarrow> rd mac 2; m3 \<leftarrow> rd mac 3;
        p \<leftarrow> encapsulated_IE ID_NAS_PDU_S1 CRITICALITY_REJECT [0xC7, ksi, m2, m3] 4;
        Some (p, ue) })"

definition generate_ProtocolIE_ue_capability_info_indication :: "ProtocolIE option" where
  [s1_simps]: "generate_ProtocolIE_ue_capability_info_indication =
     encapsulated_IE ID_UE_RADIO_CAPABILITY CRITICALITY_REJECT
       [0x00, 0x94, 0x01, 0x00, 0xf0, 0x18, 0x00, 0x03, 0x08, 0x98,
        0x64, 0xa0, 0xc1, 0xb8, 0x3b, 0x07, 0xa0, 0xf8, 0x00, 0x00] 20"

section \<open>Bearers\<close>

record E_RABItem =
  e_rab_id :: u16
  transport_layer_address :: buf
  e_rab_teid :: u32

record E_RABList =
  el_id :: u16
  el_criticality :: byte
  el_value :: buf
  el_value_len :: byte

text \<open>The identifier in memory, and the TEID, which \<open>htonl\<close> has turned.\<close>

definition E_RABSetupItemCtxtSURes_to_buffer :: "E_RABItem \<Rightarrow> buf option" where
  [s1_simps]: "E_RABSetupItemCtxtSURes_to_buffer e = do {
     a \<leftarrow> rdn (transport_layer_address e) 0 4;
     Some ([ucast (e_rab_id e), ucast (drop_bit 8 (e_rab_id e))] @ a @ UINT32_TO_ARRAY (e_rab_teid e)) }"

definition E_RABToBeSwitchedDLItem_to_buffer :: "E_RABItem \<Rightarrow> buf option" where
  [s1_simps]: "E_RABToBeSwitchedDLItem_to_buffer e = do {
     a \<leftarrow> rdn (transport_layer_address e) 0 4;
     Some ([ucast (e_rab_id e), ucast (drop_bit 8 (e_rab_id e))] @ a @ UINT32_TO_ARRAY (e_rab_teid e)) }"

definition E_RAB_Setup_List_C_txt_SU_Res_to_buffer :: "E_RABList \<Rightarrow> (buf \<times> u16) option" where
  [s1_simps]: "E_RAB_Setup_List_C_txt_SU_Res_to_buffer l = do {
     v \<leftarrow> rdn (el_value l) 0 (unat (el_value_len l));
     Some ([0x00, ucast (drop_bit 8 (el_id l AND 0xFF00)), ucast (el_id l AND 0xFF), el_criticality l, el_value_len l] @ v,
       ucast (el_value_len l) + 5) }"

definition E_RABToBeSwitchedDLList_to_buffer :: "E_RABList \<Rightarrow> (buf \<times> u16) option" where
  [s1_simps]: "E_RABToBeSwitchedDLList_to_buffer l = do {
     v \<leftarrow> rdn (el_value l) 0 (unat (el_value_len l));
     Some ([0x00, ucast (drop_bit 8 (el_id l AND 0xFF00)), ucast (el_id l AND 0xFF), el_criticality l, el_value_len l] @ v,
       ucast (el_value_len l) + 5) }"

definition generate_ProtocolIE_e_rab_setup_list_c_txt_su_res :: "UE \<Rightarrow> buf \<Rightarrow> ProtocolIE option" where
  [s1_simps]: "generate_ProtocolIE_e_rab_setup_list_c_txt_su_res ue ip = do {
     a \<leftarrow> rdn ip 0 4;
     b \<leftarrow> E_RABSetupItemCtxtSURes_to_buffer \<lparr>e_rab_id = 0x1f0a, transport_layer_address = a, e_rab_teid = get_gtp_teid ue\<rparr>;
     (b, len) \<leftarrow> E_RAB_Setup_List_C_txt_SU_Res_to_buffer
       \<lparr>el_id = ID_E_RAB_SETUP_ITEM_C_TXT_SU_RES, el_criticality = CRITICALITY_IGNORE, el_value = b, el_value_len = 0x0A\<rparr>;
     struct_IE ID_E_RAB_SETUP_LIST_C_TXT_SU_RES CRITICALITY_IGNORE b (ucast len) }"

definition generate_ProtocolIE_e_rabtobeswitcheddllist :: "UE \<Rightarrow> ProtocolIE option" where
  [s1_simps]: "generate_ProtocolIE_e_rabtobeswitcheddllist ue = do {
     a \<leftarrow> rdn (get_ue_ip ue) 0 4;
     b \<leftarrow> E_RABToBeSwitchedDLItem_to_buffer \<lparr>e_rab_id = 0x1f0a, transport_layer_address = a, e_rab_teid = get_gtp_teid ue\<rparr>;
     (b, len) \<leftarrow> E_RABToBeSwitchedDLList_to_buffer
       \<lparr>el_id = ID_E_RAB_TO_BE_SWITCHED_DL_ITEM, el_criticality = CRITICALITY_REJECT, el_value = b, el_value_len = 0x0A\<rparr>;
     struct_IE ID_E_RAB_TO_BE_SWITCHED_DL_LIST CRITICALITY_REJECT b (ucast len) }"

section \<open>Items\<close>

text \<open>The elements are generated in the order of the code, which is not always the order in which they are written.\<close>

definition generate_s1_setup_request :: "eNB \<Rightarrow> s1ap_items option" where
  [s1_simps]: "generate_s1_setup_request enb = do {
     global_enb_id \<leftarrow> generate_ProtocolIE_global_enb_id enb;
     enb_name \<leftarrow> generate_ProtocolIE_enb_name;
     supported_tas \<leftarrow> generate_ProtocolIE_supported_tas enb;
     paging_drx \<leftarrow> generate_ProtocolIE_default_paging_drx;
     with_items 0x00 0x0004 [global_enb_id, enb_name, supported_tas, paging_drx] }"

definition generate_Initial_UE_Message :: "eNB \<Rightarrow> UE \<Rightarrow> s1ap_items option" where
  [s1_simps]: "generate_Initial_UE_Message enb ue = do {
     enb_ue_s1ap_id \<leftarrow> generate_ProtocolIE_enb_ue_s1ap_id ue;
     nas_pdu \<leftarrow> generate_ProtocolIE_nas_pdu ue;
     tai \<leftarrow> generate_ProtocolIE_tai enb;
     eutran_cgi \<leftarrow> generate_ProtocolIE_eutran_cgi enb;
     cause \<leftarrow> generate_ProtocolIE_rrc_establishment_cause MO_SIGNALLING;
     with_items 0x00 0x0005 [enb_ue_s1ap_id, nas_pdu, tai, eutran_cgi, cause] }"

definition generate_Authentication_Response :: "eNB \<Rightarrow> UE \<Rightarrow> Auth_Challenge \<Rightarrow> s1ap_items option" where
  [s1_simps]: "generate_Authentication_Response enb ue auth = do {
     mme_ue_s1ap_id \<leftarrow> generate_ProtocolIE_mme_ue_s1ap_id ue;
     enb_ue_s1ap_id \<leftarrow> generate_ProtocolIE_enb_ue_s1ap_id ue;
     nas_pdu \<leftarrow> generate_ProtocolIE_nas_pdu_auth_response auth;
     eutran_cgi \<leftarrow> generate_ProtocolIE_eutran_cgi enb;
     tai \<leftarrow> generate_ProtocolIE_tai enb;
     let tai = tai\<lparr>IE_criticality := CRITICALITY_IGNORE\<rparr>;
     with_items 0x00 0x0005 [mme_ue_s1ap_id, enb_ue_s1ap_id, nas_pdu, eutran_cgi, tai] }"

definition generate_Security_Command_Complete :: "env \<Rightarrow> eNB \<Rightarrow> UE \<Rightarrow> Auth_Challenge \<Rightarrow> (s1ap_items \<times> UE) option" where
  [s1_simps]: "generate_Security_Command_Complete E enb ue auth = do {
     mme_ue_s1ap_id \<leftarrow> generate_ProtocolIE_mme_ue_s1ap_id ue;
     enb_ue_s1ap_id \<leftarrow> generate_ProtocolIE_enb_ue_s1ap_id ue;
     (nas_pdu, ue) \<leftarrow> generate_ProtocolIE_nas_pdu_security_command_complete E ue auth;
     eutran_cgi \<leftarrow> generate_ProtocolIE_eutran_cgi enb;
     tai \<leftarrow> generate_ProtocolIE_tai enb;
     let tai = tai\<lparr>IE_criticality := CRITICALITY_IGNORE\<rparr>;
     m \<leftarrow> with_items 0x00 0x0005 [mme_ue_s1ap_id, enb_ue_s1ap_id, nas_pdu, eutran_cgi, tai];
     Some (m, ue) }"

definition generate_Uplink_NAS_Transport :: "env \<Rightarrow> eNB \<Rightarrow> UE \<Rightarrow> Auth_Challenge \<Rightarrow> (s1ap_items \<times> UE) option" where
  [s1_simps]: "generate_Uplink_NAS_Transport E enb ue auth = do {
     mme_ue_s1ap_id \<leftarrow> generate_ProtocolIE_mme_ue_s1ap_id ue;
     enb_ue_s1ap_id \<leftarrow> generate_ProtocolIE_enb_ue_s1ap_id ue;
     (nas_pdu, ue) \<leftarrow> generate_ProtocolIE_nas_pdu_attach_complete E ue auth;
     eutran_cgi \<leftarrow> generate_ProtocolIE_eutran_cgi enb;
     tai \<leftarrow> generate_ProtocolIE_tai enb;
     let tai = tai\<lparr>IE_criticality := CRITICALITY_IGNORE\<rparr>;
     m \<leftarrow> with_items 0x00 0x0005 [mme_ue_s1ap_id, enb_ue_s1ap_id, nas_pdu, eutran_cgi, tai];
     Some (m, ue) }"

definition generate_ue_capability_info_indication :: "UE \<Rightarrow> s1ap_items option" where
  [s1_simps]: "generate_ue_capability_info_indication ue = do {
     mme_ue_s1ap_id \<leftarrow> generate_ProtocolIE_mme_ue_s1ap_id ue;
     enb_ue_s1ap_id \<leftarrow> generate_ProtocolIE_enb_ue_s1ap_id ue;
     ue_radio_capability \<leftarrow> generate_ProtocolIE_ue_capability_info_indication;
     with_items 0x00 0x0003 [mme_ue_s1ap_id, enb_ue_s1ap_id, ue_radio_capability] }"

definition generate_initial_context_setup_response :: "UE \<Rightarrow> buf \<Rightarrow> s1ap_items option" where
  [s1_simps]: "generate_initial_context_setup_response ue ip = do {
     mme_ue_s1ap_id \<leftarrow> generate_ProtocolIE_mme_ue_s1ap_id ue;
     let mme_ue_s1ap_id = mme_ue_s1ap_id\<lparr>IE_criticality := CRITICALITY_IGNORE\<rparr>;
     enb_ue_s1ap_id \<leftarrow> generate_ProtocolIE_enb_ue_s1ap_id ue;
     let enb_ue_s1ap_id = enb_ue_s1ap_id\<lparr>IE_criticality := CRITICALITY_IGNORE\<rparr>;
     response \<leftarrow> generate_ProtocolIE_e_rab_setup_list_c_txt_su_res ue ip;
     with_items 0x00 0x0003 [mme_ue_s1ap_id, enb_ue_s1ap_id, response] }"

definition generate_ue_context_release_request :: "UE \<Rightarrow> s1ap_items option" where
  [s1_simps]: "generate_ue_context_release_request ue = do {
     mme_ue_s1ap_id \<leftarrow> generate_ProtocolIE_mme_ue_s1ap_id ue;
     let mme_ue_s1ap_id = mme_ue_s1ap_id\<lparr>IE_criticality := CRITICALITY_REJECT\<rparr>;
     enb_ue_s1ap_id \<leftarrow> generate_ProtocolIE_enb_ue_s1ap_id ue;
     let enb_ue_s1ap_id = enb_ue_s1ap_id\<lparr>IE_criticality := CRITICALITY_REJECT\<rparr>;
     let cause = generate_ProtocolIE_cause\<lparr>IE_criticality := CRITICALITY_IGNORE\<rparr>;
     with_items 0x00 0x0003 [mme_ue_s1ap_id, enb_ue_s1ap_id, cause] }"

definition generate_ue_detach :: "env \<Rightarrow> eNB \<Rightarrow> UE \<Rightarrow> Auth_Challenge \<Rightarrow> byte \<Rightarrow> (s1ap_items \<times> UE) option" where
  [s1_simps]: "generate_ue_detach E enb ue auth switch_off = do {
     mme_ue_s1ap_id \<leftarrow> generate_ProtocolIE_mme_ue_s1ap_id ue;
     enb_ue_s1ap_id \<leftarrow> generate_ProtocolIE_enb_ue_s1ap_id ue;
     (nas_pdu, ue) \<leftarrow> generate_ProtocolIE_nas_pdu_detach E ue auth switch_off;
     eutran_cgi \<leftarrow> generate_ProtocolIE_eutran_cgi enb;
     tai \<leftarrow> generate_ProtocolIE_tai enb;
     m \<leftarrow> with_items 0x00 0x0005 [mme_ue_s1ap_id, enb_ue_s1ap_id, nas_pdu, eutran_cgi, tai];
     Some (m, ue) }"

definition generate_InitialUEMessage_ServiceRequest ::
  "env \<Rightarrow> eNB \<Rightarrow> UE \<Rightarrow> Auth_Challenge \<Rightarrow> (s1ap_items \<times> UE) option" where
  [s1_simps]: "generate_InitialUEMessage_ServiceRequest E enb ue auth = do {
     enb_ue_s1ap_id \<leftarrow> generate_ProtocolIE_enb_ue_s1ap_id ue;
     (nas_pdu, ue) \<leftarrow> generate_ProtocolIE_nas_pdu_service_request E ue auth;
     eutran_cgi \<leftarrow> generate_ProtocolIE_eutran_cgi enb;
     tai \<leftarrow> generate_ProtocolIE_tai enb;
     cause \<leftarrow> generate_ProtocolIE_rrc_establishment_cause MO_DATA;
     s_tmsi \<leftarrow> generate_ProtocolIE_s_tmsi ue;
     m \<leftarrow> with_items 0x00 0x0006 [enb_ue_s1ap_id, nas_pdu, tai, eutran_cgi, cause, s_tmsi];
     Some (m, ue) }"

definition generate_PathSwitchRequest :: "eNB \<Rightarrow> UE \<Rightarrow> s1ap_items option" where
  [s1_simps]: "generate_PathSwitchRequest enb ue = do {
     enb_ue_s1ap_id \<leftarrow> generate_ProtocolIE_enb_ue_s1ap_id ue;
     bearers \<leftarrow> generate_ProtocolIE_e_rabtobeswitcheddllist ue;
     sourcemme_ue_s1ap_id \<leftarrow> generate_SourceMME_UE_S1AP_ID ue;
     eutran_cgi \<leftarrow> generate_ProtocolIE_eutran_cgi enb;
     tai \<leftarrow> generate_ProtocolIE_tai enb;
     capabilities \<leftarrow> generate_ProtocolIE_security_capabilities ue;
     with_items 0x00 0x0006 [enb_ue_s1ap_id, bearers, sourcemme_ue_s1ap_id, eutran_cgi, tai, capabilities] }"

definition generate_ue_context_release_response :: "UE \<Rightarrow> s1ap_items option" where
  [s1_simps]: "generate_ue_context_release_response ue = do {
     mme_ue_s1ap_id \<leftarrow> generate_ProtocolIE_mme_ue_s1ap_id ue;
     let mme_ue_s1ap_id = mme_ue_s1ap_id\<lparr>IE_criticality := CRITICALITY_REJECT\<rparr>;
     enb_ue_s1ap_id \<leftarrow> generate_ProtocolIE_enb_ue_s1ap_id ue;
     let enb_ue_s1ap_id = enb_ue_s1ap_id\<lparr>IE_criticality := CRITICALITY_REJECT\<rparr>;
     with_items 0x20 0x0002 [mme_ue_s1ap_id, enb_ue_s1ap_id] }"

section \<open>Messages\<close>

definition generate_s1ap_initiatingMessage :: "eNB \<Rightarrow> s1ap_initiatingMessage option" where
  [s1_simps]: "generate_s1ap_initiatingMessage enb = do {
     m \<leftarrow> generate_s1_setup_request enb;
     b \<leftarrow> S1SetupRequest_to_buffer m;
     initiating S1_SETUP CRITICALITY_REJECT b }"

definition generate_InitiatingMessage :: "eNB \<Rightarrow> UE \<Rightarrow> s1ap_initiatingMessage option" where
  [s1_simps]: "generate_InitiatingMessage enb ue = do {
     m \<leftarrow> generate_Initial_UE_Message enb ue;
     b \<leftarrow> InitialUEMessage_to_buffer m;
     initiating INITIAL_UE_MESSAGE CRITICALITY_IGNORE b }"

definition generate_S1AP_Authentication_Response :: "eNB \<Rightarrow> UE \<Rightarrow> Auth_Challenge \<Rightarrow> s1ap_initiatingMessage option" where
  [s1_simps]: "generate_S1AP_Authentication_Response enb ue auth = do {
     m \<leftarrow> generate_Authentication_Response enb ue auth;
     b \<leftarrow> AuthenticationResponse_to_buffer m;
     initiating 0x000d CRITICALITY_IGNORE b }"

definition generate_S1AP_Security_Command_Complete ::
  "env \<Rightarrow> eNB \<Rightarrow> UE \<Rightarrow> Auth_Challenge \<Rightarrow> (s1ap_initiatingMessage \<times> UE) option" where
  [s1_simps]: "generate_S1AP_Security_Command_Complete E enb ue auth = do {
     (m, ue) \<leftarrow> generate_Security_Command_Complete E enb ue auth;
     b \<leftarrow> SecurityCommandComplete_to_buffer m;
     i \<leftarrow> initiating 0x000d CRITICALITY_IGNORE b;
     Some (i, ue) }"

definition generate_S1AP_Attach_Complete ::
  "env \<Rightarrow> eNB \<Rightarrow> UE \<Rightarrow> Auth_Challenge \<Rightarrow> (s1ap_initiatingMessage \<times> UE) option" where
  [s1_simps]: "generate_S1AP_Attach_Complete E enb ue auth = do {
     (m, ue) \<leftarrow> generate_Uplink_NAS_Transport E enb ue auth;
     b \<leftarrow> UplinkNASTransport_to_buffer m;
     i \<leftarrow> initiating UPLINK_NAS_TRANSPORT CRITICALITY_IGNORE b;
     Some (i, ue) }"

definition generate_S1AP_ue_capability_info_indication :: "UE \<Rightarrow> s1ap_initiatingMessage option" where
  [s1_simps]: "generate_S1AP_ue_capability_info_indication ue = do {
     m \<leftarrow> generate_ue_capability_info_indication ue;
     b \<leftarrow> UECapabilityInfoIndication_to_buffer m;
     initiating UE_CAPABILITY_INFO_INDICATION CRITICALITY_IGNORE b }"

definition generate_S1AP_initial_context_setup_response :: "UE \<Rightarrow> buf \<Rightarrow> s1ap_initiatingMessage option" where
  [s1_simps]: "generate_S1AP_initial_context_setup_response ue ip = do {
     m \<leftarrow> generate_initial_context_setup_response ue ip;
     b \<leftarrow> InitialContextSetupResponse_to_buffer m;
     initiating INITIAL_CONTEXT_SETUP CRITICALITY_REJECT b }"

definition generate_UE_Context_Release_Request :: "UE \<Rightarrow> s1ap_initiatingMessage option" where
  [s1_simps]: "generate_UE_Context_Release_Request ue = do {
     m \<leftarrow> generate_ue_context_release_request ue;
     b \<leftarrow> UEContextReleaseRequest_to_buffer m;
     initiating UE_CONTEXT_RELEASE_REQUEST CRITICALITY_IGNORE b }"

definition generate_UE_Context_Release_Response :: "UE \<Rightarrow> s1ap_initiatingMessage option" where
  [s1_simps]: "generate_UE_Context_Release_Response ue = do {
     m \<leftarrow> generate_ue_context_release_response ue;
     b \<leftarrow> UEContextReleaseResponse_to_buffer m;
     initiating (push_bit 8 0x20 OR 0x17) CRITICALITY_REJECT b }"

definition generate_s1ap_UE_Detach ::
  "env \<Rightarrow> eNB \<Rightarrow> UE \<Rightarrow> Auth_Challenge \<Rightarrow> byte \<Rightarrow> (s1ap_initiatingMessage \<times> UE) option" where
  [s1_simps]: "generate_s1ap_UE_Detach E enb ue auth switch_off = do {
     (m, ue) \<leftarrow> generate_ue_detach E enb ue auth switch_off;
     b \<leftarrow> UEDetach_to_buffer m;
     i \<leftarrow> initiating UPLINK_NAS_TRANSPORT CRITICALITY_IGNORE b;
     Some (i, ue) }"

definition generate_Initial_UE_Message_Service_Request ::
  "env \<Rightarrow> eNB \<Rightarrow> UE \<Rightarrow> Auth_Challenge \<Rightarrow> (s1ap_initiatingMessage \<times> UE) option" where
  [s1_simps]: "generate_Initial_UE_Message_Service_Request E enb ue auth = do {
     (m, ue) \<leftarrow> generate_InitialUEMessage_ServiceRequest E enb ue auth;
     b \<leftarrow> InitialUEMessage_ServiceRequest_to_buffer m;
     i \<leftarrow> initiating INITIAL_UE_MESSAGE CRITICALITY_IGNORE b;
     Some (i, ue) }"

definition generate_Path_Switch_Request :: "eNB \<Rightarrow> UE \<Rightarrow> s1ap_initiatingMessage option" where
  [s1_simps]: "generate_Path_Switch_Request enb ue = do {
     m \<leftarrow> generate_PathSwitchRequest enb ue;
     b \<leftarrow> Path_Switch_Request_to_buffer m;
     initiating ID_PATH_SWITCH_REQUEST CRITICALITY_IGNORE b }"

end
