(* ===== verification/S1ap_Messages.thy ===== *)
theory S1ap_Messages
  imports S1ap
begin

text \<open>
  What the S1AP messages of the emulator mean: each \<open>generate_...\<close> function of s1ap.c writes the encoding of the PDU
  that this theory gives it, with all its lengths, for every base station and UE.  The PDUs and their encoding are those
  of NGAP (Ngap_Messages): in both protocols the identifiers that occur fit one byte.
\<close>

section \<open>Elements and messages\<close>

definition IE_of :: "ie \<Rightarrow> ProtocolIE" where
  "IE_of x = \<lparr>IE_id = ucast (ie_id x), IE_criticality = ie_crit x, IE_value = of_nat (length (ie_value x)) # ie_value x,
     IE_value_len = of_nat (length (ie_value x) + 1)\<rparr>"

definition message_of :: "byte \<Rightarrow> pdu \<Rightarrow> s1ap_initiatingMessage" where
  "message_of init p =
     (let b = init # drop 1 (encode_body (p_ies p))
      in \<lparr>im_procedureCode = push_bit 8 (ucast (p_type p)) OR ucast (p_proc p), im_criticality = p_crit p,
          im_value = of_nat (length b) # b, im_value_len = of_nat (length b + 1)\<rparr>)"

definition small_ies :: "ie list \<Rightarrow> bool" where
  "small_ies xs \<longleftrightarrow> (\<forall>x \<in> set xs. length (ie_value x) < 128) \<and> length (concat (map encode_ie xs)) < 125 \<and> length xs < 256"

lemma high_low_bytes: "ucast (drop_bit 8 (ucast (b :: byte) :: u16)) = (0 :: byte)" "ucast (ucast b AND 0xFF :: u16) = (b :: byte)"
  "ucast (drop_bit 8 (push_bit 8 (ucast t) OR ucast b :: u16)) = (t :: byte)"
  "ucast ((push_bit 8 (ucast t) OR ucast b) AND 0xFF :: u16) = (b :: byte)"
  "ucast (drop_bit 8 (push_bit 8 (ucast t)) OR drop_bit 8 (ucast b) :: u16) = (t :: byte)"
proof -
  have m: "(0xFF :: u16) = mask 8" by (simp add: mask_eq_exp_minus_1)
  show "ucast (drop_bit 8 (ucast b :: u16)) = (0 :: byte)" "ucast (ucast b AND 0xFF :: u16) = b"
    "ucast (drop_bit 8 (push_bit 8 (ucast t) OR ucast b :: u16)) = t" "ucast ((push_bit 8 (ucast t) OR ucast b) AND 0xFF :: u16) = b"
    "ucast (drop_bit 8 (push_bit 8 (ucast t)) OR drop_bit 8 (ucast b) :: u16) = t"
    unfolding m by (rule bit_word_eqI; auto simp: bit_simps)+
qed

lemma unat_Suc_byte: "n < 128 \<Longrightarrow> unat (1 + of_nat n :: byte) = Suc n"
  by (simp add: unat_word_ariths unat_of_nat)

lemma IE_of_to_buffer:
  "length (ie_value x) < 128 \<Longrightarrow> ProtocolIE_to_buffer (IE_of x) = Some (encode_ie x, length (encode_ie x))"
  by (simp add: ProtocolIE_to_buffer_def IE_of_def bytes16_def high_low_bytes rdn_def encode_ie_def encode_length_def unat_Suc_byte)

lemma items_of_IEs: "\<forall>x \<in> set xs. length (ie_value x) < 128 \<Longrightarrow> items_of (map IE_of xs) = Some (concat (map encode_ie xs))"
  by (induction xs) (simp_all add: IE_of_to_buffer rdn_def)

lemma bytes16_small: "n < 256 \<Longrightarrow> bytes16 (of_nat n) = [0, of_nat n]"
proof -
  assume n: "n < 256"
  then have "(of_nat n :: u16) = ucast (of_nat n :: byte)"
    by (simp add: unsigned_of_nat take_bit_nat_eq_self)
  then show ?thesis by (simp add: bytes16_def high_low_bytes)
qed

lemma written:
  assumes "small_ies xs" and "n = of_nat (length xs)"
    and "proc = push_bit 8 (ucast t) OR ucast p"
  shows "do { m \<leftarrow> with_items init n (map IE_of xs); b \<leftarrow> S1SetupRequest_to_buffer m; initiating proc c b } =
     Some (message_of init \<lparr>p_type = t, p_proc = p, p_crit = c, p_ies = xs\<rparr>)"
proof -
  have l: "length (concat (map encode_ie xs)) < 125" "length xs < 256" using assms(1) by (simp_all add: small_ies_def)
  have u: "unat (of_nat (length (concat (map encode_ie xs))) :: u16) = length (concat (map encode_ie xs))"
    using l by (simp add: unat_of_nat del: length_concat)
  have v: "unat (3 + of_nat (length (concat (map encode_ie xs))) :: u16) = 3 + length (concat (map encode_ie xs))"
    using l by (simp add: unat_word_ariths u del: length_concat)
  have w: "ucast (3 + of_nat (length (concat (map encode_ie xs))) :: u16) = (3 + of_nat (length (concat (map encode_ie xs))) :: byte)"
  proof -
    have "(3 + of_nat (length (concat (map encode_ie xs))) :: u16) = of_nat (3 + length (concat (map encode_ie xs)))" by simp
    then show ?thesis using l by (simp only: unsigned_of_nat) (simp add: take_bit_nat_eq_self del: length_concat)
  qed
  show ?thesis
    using assms(1) l(2)
    by (simp add: with_items_def items_of_IEs small_ies_def S1SetupRequest_to_buffer_def rdn_def u initiating_def v assms(2,3)
        bytes16_small message_of_def encode_body_def w del: length_concat)
qed

lemma message_to_buffer:
  assumes "small_ies (p_ies p)"
  shows "s1ap_initiatingMessage_to_buffer (message_of init p) =
     Some ((encode_pdu p)[4 := init], of_nat (length (encode_pdu p)))"
proof -
  have l: "length (concat (map encode_ie (p_ies p))) < 125" using assms by (simp add: small_ies_def)
  have u: "unat (4 + of_nat (length (concat (map encode_ie (p_ies p)))) :: u16) = 4 + length (concat (map encode_ie (p_ies p)))"
    using l by (simp add: unat_word_ariths unat_of_nat del: length_concat)
  show ?thesis
    using l
    by (simp add: s1ap_initiatingMessage_to_buffer_def message_of_def encode_body_def rdn_def u bytes16_def high_low_bytes
        encode_pdu_def encode_length_def del: length_concat)
qed

section \<open>PDUs\<close>

definition s1_enb :: "byte \<Rightarrow> UE \<Rightarrow> ie" where
  "s1_enb c u = \<lparr>ie_id = 0x08, ie_crit = c, ie_value = 0x40 # drop 2 (UINT32_TO_ARRAY (ue_id u))\<rparr>"

definition s1_mme :: "byte \<Rightarrow> byte \<Rightarrow> UE \<Rightarrow> ie" where
  "s1_mme i c u = \<lparr>ie_id = i, ie_crit = c, ie_value = take (unat (mme_s1ap_id_len u)) (mme_s1ap_id u)\<rparr>"

text \<open>A NAS message is an octet string in its element.\<close>

definition s1_nas :: "byte list \<Rightarrow> ie" where
  "s1_nas m = \<lparr>ie_id = 0x1A, ie_crit = CRITICALITY_REJECT, ie_value = of_nat (length m) # m\<rparr>"

definition s1_cgi :: "eNB \<Rightarrow> ie" where
  "s1_cgi e = \<lparr>ie_id = 0x64, ie_crit = CRITICALITY_IGNORE, ie_value = [0] @ enb_plmn e @ UINT32_TO_ARRAY (enb_id e)\<rparr>"

definition s1_tai :: "byte \<Rightarrow> eNB \<Rightarrow> ie" where
  "s1_tai c e = \<lparr>ie_id = 0x43, ie_crit = c, ie_value = [0] @ enb_plmn e @ [0, 1]\<rparr>"

definition s1_rrc :: "byte \<Rightarrow> ie" where
  "s1_rrc cause = \<lparr>ie_id = 0x86, ie_crit = CRITICALITY_IGNORE, ie_value = [cause]\<rparr>"

text \<open>One bearer: its identity, the address of its end point and the TEID.\<close>

definition s1_bearer :: "byte \<Rightarrow> byte \<Rightarrow> byte \<Rightarrow> byte list \<Rightarrow> u32 \<Rightarrow> ie" where
  "s1_bearer i item c ip teid = \<lparr>ie_id = i, ie_crit = c,
     ie_value = [0, 0, item, c, 10, 0x0a, 0x1f] @ ip @ UINT32_TO_ARRAY teid\<rparr>"

definition pdu_s1_setup :: "eNB \<Rightarrow> pdu" where
  "pdu_s1_setup e = \<lparr>p_type = 0, p_proc = 0x11, p_crit = CRITICALITY_REJECT, p_ies =
     [\<lparr>ie_id = 0x3B, ie_crit = CRITICALITY_REJECT, ie_value = [0] @ enb_plmn e @ UINT32_TO_ARRAY (enb_id e)\<rparr>,
      \<lparr>ie_id = 0x3C, ie_crit = CRITICALITY_IGNORE, ie_value = [0x07, 0x00] @ str ''Nervion_e-NodeB''\<rparr>,
      \<lparr>ie_id = 0x40, ie_crit = CRITICALITY_REJECT, ie_value = [0, 0, 0, 0x40] @ enb_plmn e\<rparr>,
      \<lparr>ie_id = 0x89, ie_crit = CRITICALITY_IGNORE, ie_value = [0x40]\<rparr>]\<rparr>"

definition pdu_attach :: "eNB \<Rightarrow> UE \<Rightarrow> byte list \<Rightarrow> pdu" where
  "pdu_attach e u m = \<lparr>p_type = 0, p_proc = 0x0C, p_crit = CRITICALITY_IGNORE, p_ies =
     [s1_enb CRITICALITY_REJECT u, s1_nas m, s1_tai CRITICALITY_REJECT e, s1_cgi e, s1_rrc MO_SIGNALLING]\<rparr>"

definition pdu_s1_uplink :: "byte \<Rightarrow> eNB \<Rightarrow> UE \<Rightarrow> byte list \<Rightarrow> pdu" where
  "pdu_s1_uplink c e u m = \<lparr>p_type = 0, p_proc = 0x0D, p_crit = CRITICALITY_IGNORE, p_ies =
     [s1_mme 0 CRITICALITY_REJECT u, s1_enb CRITICALITY_REJECT u, s1_nas m, s1_cgi e, s1_tai c e]\<rparr>"

definition pdu_capability :: "UE \<Rightarrow> pdu" where
  "pdu_capability u = \<lparr>p_type = 0, p_proc = 0x16, p_crit = CRITICALITY_IGNORE, p_ies =
     [s1_mme 0 CRITICALITY_REJECT u, s1_enb CRITICALITY_REJECT u,
      \<lparr>ie_id = 0x4a, ie_crit = CRITICALITY_REJECT, ie_value = [20, 0x00, 0x94, 0x01, 0x00, 0xf0, 0x18, 0x00, 0x03, 0x08, 0x98,
         0x64, 0xa0, 0xc1, 0xb8, 0x3b, 0x07, 0xa0, 0xf8, 0x00, 0x00]\<rparr>]\<rparr>"

definition pdu_context_response :: "byte \<Rightarrow> UE \<Rightarrow> byte list \<Rightarrow> pdu" where
  "pdu_context_response t u ip = \<lparr>p_type = t, p_proc = 0x09, p_crit = CRITICALITY_REJECT, p_ies =
     [s1_mme 0 CRITICALITY_IGNORE u, s1_enb CRITICALITY_IGNORE u,
      s1_bearer 0x33 0x32 CRITICALITY_IGNORE ip (gtp_teid u)]\<rparr>"

definition pdu_release_request :: "UE \<Rightarrow> pdu" where
  "pdu_release_request u = \<lparr>p_type = 0, p_proc = 0x12, p_crit = CRITICALITY_IGNORE, p_ies =
     [s1_mme 0 CRITICALITY_REJECT u, s1_enb CRITICALITY_REJECT u,
      \<lparr>ie_id = 0x02, ie_crit = CRITICALITY_IGNORE, ie_value = [0, 0]\<rparr>]\<rparr>"

definition pdu_release_response :: "UE \<Rightarrow> pdu" where
  "pdu_release_response u = \<lparr>p_type = 0x20, p_proc = 0x17, p_crit = CRITICALITY_REJECT, p_ies =
     [s1_mme 0 CRITICALITY_REJECT u, s1_enb CRITICALITY_REJECT u]\<rparr>"

definition pdu_service :: "eNB \<Rightarrow> UE \<Rightarrow> byte list \<Rightarrow> pdu" where
  "pdu_service e u m = \<lparr>p_type = 0, p_proc = 0x0C, p_crit = CRITICALITY_IGNORE, p_ies =
     [s1_enb CRITICALITY_REJECT u, s1_nas m, s1_tai CRITICALITY_REJECT e, s1_cgi e, s1_rrc MO_DATA,
      \<lparr>ie_id = 0x60, ie_crit = CRITICALITY_REJECT, ie_value =
         [drop_bit 2 (guti u ! 5), push_bit 6 (guti u ! 5)] @ drop 6 (guti u)\<rparr>]\<rparr>"

definition pdu_path_switch :: "eNB \<Rightarrow> UE \<Rightarrow> pdu" where
  "pdu_path_switch e u = \<lparr>p_type = 0, p_proc = 0x03, p_crit = CRITICALITY_IGNORE, p_ies =
     [s1_enb CRITICALITY_REJECT u, s1_bearer 0x16 0x17 CRITICALITY_REJECT (ue_ip u) (gtp_teid u),
      s1_mme 0x58 CRITICALITY_REJECT u, s1_cgi e, s1_tai CRITICALITY_REJECT e,
      \<lparr>ie_id = 0x6b, ie_crit = CRITICALITY_REJECT, ie_value = security_capabilities u @ [0]\<rparr>]\<rparr>"

text \<open>
  NAS messages (TS 24.301).  An Attach Request with the IMSI and a PDN connectivity request; the others are protected
  with bearer 0 and the NAS COUNT \<open>count\<close>, a Service Request with the last two bytes of its code.
\<close>

definition nas_attach_request :: "UE \<Rightarrow> byte list" where
  "nas_attach_request u =
     [0x07, 0x41, 0x71, 8, ue_plmn u ! 0 OR 0x09] @ drop 1 (ue_plmn u) @ ue_msin u @ net_capabilities u @
     [0x00, 0x20, 0x02, 0x01, 0xD0, 0x11, 0x27, 0x1a, 0x80, 0x80, 0x21, 0x10, 0x01, 0x00, 0x00, 0x10,
      0x81, 6, 0, 0, 0, 0, 0x83, 6, 0, 0, 0, 0, 0x00, 0x0d, 0, 0x00, 0x0a, 0]"

definition s1_protected :: "env \<Rightarrow> UE \<Rightarrow> byte \<Rightarrow> nat \<Rightarrow> byte \<Rightarrow> byte list \<Rightarrow> byte list" where
  "s1_protected E u header count sq m =
     [header] @ EIA2 (e_cmac E) (NAS_KEY_INT (auth_challenge u)) (of_nat count) 0 False (sq # m) @ [sq] @ m"

definition nas_detach_request :: "UE \<Rightarrow> bool \<Rightarrow> byte list" where
  "nas_detach_request u off = [0x07, 0x45, if off then 9 else 1, 0x0B, 0xF6] @ guti u"

definition nas_service_request :: "env \<Rightarrow> UE \<Rightarrow> byte \<Rightarrow> byte list" where
  "nas_service_request E u sq =
     (let h = [0xC7, sq AND 0x1F]
      in h @ drop 2 (EIA2 (e_cmac E) (NAS_KEY_INT (auth_challenge u)) 2 0 False h))"

section \<open>The code writes them\<close>

lemma wf_UE_lengths4 [simp]:
  "wf_UE u \<Longrightarrow> length (ue_plmn u) = 3" "wf_UE u \<Longrightarrow> length (net_capabilities u) = 3"
  "wf_UE u \<Longrightarrow> length (security_capabilities u) = 4" "wf_UE u \<Longrightarrow> length (NAS_KEY_INT (auth_challenge u)) = 16"
  "wf_UE u \<Longrightarrow> length (RES (auth_challenge u)) = 8"
  by (simp_all add: wf_UE_def wf_challenge_def del: wf_UE_lengths)

lemma struct_IE_of:
  "unat n \<le> length s \<Longrightarrow> struct_IE i c s n =
     Some \<lparr>IE_id = i, IE_criticality = c, IE_value = n # take (unat n) s, IE_value_len = n + 1\<rparr>"
  by (simp add: struct_IE_def generate_s1ap_value_def with_value_def rdn_def)

lemma encapsulated_IE_of:
  assumes "unat n = length s" and "unat n < 255"
  shows "encapsulated_IE i c s n =
     Some \<lparr>IE_id = i, IE_criticality = c, IE_value = (n + 1) # n # s, IE_value_len = n + 2\<rparr>"
proof -
  have "unat (n + 1) = length s + 1" using assms by (simp add: unat_word_ariths)
  with assms show ?thesis by (simp add: encapsulated_IE_def generate_s1ap_value_def with_value_def rdn_def flip: assms(1))
qed

lemmas element_simps = struct_IE_of encapsulated_IE_of ue_simps IE_of_def

lemma eNB_elements:
  assumes "wf_eNB e"
  shows "generate_ProtocolIE_eutran_cgi e = Some (IE_of (s1_cgi e))"
    and "generate_ProtocolIE_tai e = Some (IE_of (s1_tai CRITICALITY_REJECT e))"
  using assms
  by (simp_all add: generate_ProtocolIE_eutran_cgi_def generate_ProtocolIE_tai_def element_simps s1_cgi_def s1_tai_def wf_eNB_def rdn_def)

lemma with_criticality: "(IE_of x)\<lparr>IE_criticality := c\<rparr> = IE_of (x\<lparr>ie_crit := c\<rparr>)"
  "(s1_tai d e)\<lparr>ie_crit := c\<rparr> = s1_tai c e" "(s1_mme i d u)\<lparr>ie_crit := c\<rparr> = s1_mme i c u" "(s1_enb d u)\<lparr>ie_crit := c\<rparr> = s1_enb c u"
  by (simp_all add: IE_of_def s1_tai_def s1_mme_def s1_enb_def)

lemma cause_element: "generate_ProtocolIE_rrc_establishment_cause c = Some (IE_of (s1_rrc c))"
  by (simp add: generate_ProtocolIE_rrc_establishment_cause_def element_simps s1_rrc_def)

lemma UE_elements:
  assumes "wf_UE u" and "id_ok u"
  shows "generate_ProtocolIE_enb_ue_s1ap_id u = Some (IE_of (s1_enb CRITICALITY_REJECT u))"
    and "generate_ProtocolIE_mme_ue_s1ap_id u = Some (IE_of (s1_mme 0 CRITICALITY_REJECT u))"
    and "generate_SourceMME_UE_S1AP_ID u = Some (IE_of (s1_mme 0x58 CRITICALITY_REJECT u))"
  using assms
  by (simp_all add: generate_ProtocolIE_enb_ue_s1ap_id_def generate_ProtocolIE_mme_ue_s1ap_id_def generate_SourceMME_UE_S1AP_ID_def
      element_simps s1_enb_def s1_mme_def id_ok_def UINT32_TO_ARRAY_def min_absorb2 Let_def)

lemma bearer_elements:
  assumes "wf_UE u"
  shows "length ip = 4 \<Longrightarrow> generate_ProtocolIE_e_rab_setup_list_c_txt_su_res u ip = Some (IE_of (s1_bearer 0x33 0x32 CRITICALITY_IGNORE ip (gtp_teid u)))"
    and "generate_ProtocolIE_e_rabtobeswitcheddllist u = Some (IE_of (s1_bearer 0x16 0x17 CRITICALITY_REJECT (ue_ip u) (gtp_teid u)))"
  using assms
  by (simp_all add: generate_ProtocolIE_e_rab_setup_list_c_txt_su_res_def generate_ProtocolIE_e_rabtobeswitcheddllist_def
      E_RABSetupItemCtxtSURes_to_buffer_def E_RABToBeSwitchedDLItem_to_buffer_def E_RAB_Setup_List_C_txt_SU_Res_to_buffer_def
      E_RABToBeSwitchedDLList_to_buffer_def element_simps s1_bearer_def rdn_def)

lemma nas_written:
  assumes "unat n = length m" and "unat n < 127"
  shows "encapsulated_IE ID_NAS_PDU_S1 CRITICALITY_REJECT m n = Some (IE_of (s1_nas m))"
proof -
  have "of_nat (length m) = n" by (simp flip: assms(1))
  with assms show ?thesis by (simp add: element_simps s1_nas_def)
qed

lemma protected_written:
  assumes "wf_env E" and "wf_UE u" and "n = of_nat (length m) + 1" and "len = n + 5" and "length m < 100"
  shows "protected_nas E (auth_challenge u) header sq m n count len =
     Some (IE_of (s1_nas ([header] @ EIA2 (e_cmac E) (NAS_KEY_INT (auth_challenge u)) count 0 False (sq # m) @ [sq] @ m)))"
proof -
  have n: "unat n = length m + 1" using assms(3,5) by (simp add: unat_word_ariths unat_of_nat)
  have l: "unat len = length m + 6" using assms(4,5) n by (simp add: unat_word_ariths)
  have "nas_integrity_eia2 (e_cmac E) (NAS_KEY_INT (auth_challenge u)) (sq # m) n count 0 =
      Some (EIA2 (e_cmac E) (NAS_KEY_INT (auth_challenge u)) count 0 False (sq # m))"
    using nas_integrity_eia2_EIA2 [of n "sq # m" "NAS_KEY_INT (auth_challenge u)" "e_cmac E" count 0] assms(1,2) n
    by (simp add: wf_env_def)
  moreover have "encapsulated_IE ID_NAS_PDU_S1 CRITICALITY_REJECT
      ([header] @ EIA2 (e_cmac E) (NAS_KEY_INT (auth_challenge u)) count 0 False (sq # m) @ [sq] @ m) len =
      Some (IE_of (s1_nas ([header] @ EIA2 (e_cmac E) (NAS_KEY_INT (auth_challenge u)) count 0 False (sq # m) @ [sq] @ m)))"
    using assms(1,5) l by (intro nas_written) (simp_all add: EIA2_length)
  ultimately show ?thesis by (simp add: protected_nas_def)
qed

lemma nas_elements:
  assumes "wf_UE u" and "wf_env E"
  shows "generate_ProtocolIE_nas_pdu u = Some (IE_of (s1_nas (nas_attach_request u)))"
    and "generate_ProtocolIE_nas_pdu_auth_response (auth_challenge u) = Some (IE_of (s1_nas ([0x07, 0x53, 8] @ RES (auth_challenge u))))"
    and "generate_ProtocolIE_nas_pdu_security_command_complete E u (auth_challenge u) =
      Some (IE_of (s1_nas (s1_protected E u 0x47 0 (nas_sequence_number u) [0x07, 0x5e])),
        u\<lparr>nas_sequence_number := nas_sequence_number u + 1\<rparr>)"
    and "generate_ProtocolIE_nas_pdu_attach_complete E u (auth_challenge u) =
      Some (IE_of (s1_nas (s1_protected E u 0x27 1 (nas_sequence_number u) [0x07, 0x43, 0x00, 0x03, 0x52, 0x00, 0xc2])),
        u\<lparr>nas_sequence_number := nas_sequence_number u + 1\<rparr>)"
    and "generate_ProtocolIE_nas_pdu_detach E u (auth_challenge u) off =
      Some (IE_of (s1_nas (s1_protected E u 0x27 1 (nas_sequence_number u) (nas_detach_request u (off \<noteq> 0)))),
        u\<lparr>nas_sequence_number := nas_sequence_number u + 1\<rparr>)"
    and "generate_ProtocolIE_nas_pdu_service_request E u (auth_challenge u) =
      Some (IE_of (s1_nas (nas_service_request E u (nas_sequence_number u))),
        u\<lparr>nas_sequence_number := nas_sequence_number u + 1\<rparr>)"
proof -
  obtain p0 p1 p2 where p: "ue_plmn u = [p0, p1, p2]"
    using wf_UE_lengths4(1) [OF assms(1)] by (auto simp: numeral_eq_Suc length_Suc_conv)
  show "generate_ProtocolIE_nas_pdu u = Some (IE_of (s1_nas (nas_attach_request u)))"
    using assms(1)
    by (simp add: generate_ProtocolIE_nas_pdu_def p ue_simps rdn_def rd_def wr_def nas_written nas_attach_request_def)
  show "generate_ProtocolIE_nas_pdu_auth_response (auth_challenge u) = Some (IE_of (s1_nas ([0x07, 0x53, 8] @ RES (auth_challenge u))))"
    using assms(1) by (simp add: generate_ProtocolIE_nas_pdu_auth_response_def rdn_def nas_written)
  show "generate_ProtocolIE_nas_pdu_security_command_complete E u (auth_challenge u) =
      Some (IE_of (s1_nas (s1_protected E u 0x47 0 (nas_sequence_number u) [0x07, 0x5e])),
        u\<lparr>nas_sequence_number := nas_sequence_number u + 1\<rparr>)"
    using assms by (simp add: generate_ProtocolIE_nas_pdu_security_command_complete_def get_nas_sequence_number_def
        protected_written s1_protected_def)
  show "generate_ProtocolIE_nas_pdu_attach_complete E u (auth_challenge u) =
      Some (IE_of (s1_nas (s1_protected E u 0x27 1 (nas_sequence_number u) [0x07, 0x43, 0x00, 0x03, 0x52, 0x00, 0xc2])),
        u\<lparr>nas_sequence_number := nas_sequence_number u + 1\<rparr>)"
    using assms by (simp add: generate_ProtocolIE_nas_pdu_attach_complete_def get_nas_sequence_number_def
        protected_written s1_protected_def)
  show "generate_ProtocolIE_nas_pdu_detach E u (auth_challenge u) off =
      Some (IE_of (s1_nas (s1_protected E u 0x27 1 (nas_sequence_number u) (nas_detach_request u (off \<noteq> 0)))),
        u\<lparr>nas_sequence_number := nas_sequence_number u + 1\<rparr>)"
    using assms by (simp add: generate_ProtocolIE_nas_pdu_detach_def get_nas_sequence_number_def rdn_def ue_simps
        protected_written s1_protected_def nas_detach_request_def)
  let ?h = "[0xC7, nas_sequence_number u AND 0x1F]"
  have m: "nas_integrity_eia2 (e_cmac E) (NAS_KEY_INT (auth_challenge u)) (?h @ [0, 0]) 2 2 0 =
      Some (EIA2 (e_cmac E) (NAS_KEY_INT (auth_challenge u)) 2 0 False ?h)"
    using nas_integrity_eia2_EIA2 [of 2 "?h @ [0, 0]" "NAS_KEY_INT (auth_challenge u)" "e_cmac E" 2 0] assms
    by (simp add: wf_env_def)
  obtain m0 m1 m2 m3 where mac: "EIA2 (e_cmac E) (NAS_KEY_INT (auth_challenge u)) 2 0 False ?h = [m0, m1, m2, m3]"
    using list4 [OF EIA2_length [OF assms(2)]] by blast
  show "generate_ProtocolIE_nas_pdu_service_request E u (auth_challenge u) =
      Some (IE_of (s1_nas (nas_service_request E u (nas_sequence_number u))),
        u\<lparr>nas_sequence_number := nas_sequence_number u + 1\<rparr>)"
    using m by (simp add: generate_ProtocolIE_nas_pdu_service_request_def get_nas_sequence_number_def mac rd_def nas_written
        nas_service_request_def)
qed

section \<open>Whole messages\<close>

lemma written_steps:
  assumes "small_ies (p_ies p)"
  shows "\<exists>m b. with_items init (of_nat (length (p_ies p))) (map IE_of (p_ies p)) = Some m \<and> S1SetupRequest_to_buffer m = Some b \<and>
     initiating (push_bit 8 (ucast (p_type p)) OR ucast (p_proc p)) (p_crit p) b = Some (message_of init p)"
  using written [OF assms refl refl, of init "p_type p" "p_proc p" "p_crit p"]
  by (cases p) (auto simp: bind_eq_Some_conv)

lemma s1_lengths:
  "length (encode_ie (s1_enb c u)) = 7"
  "wf_UE u \<Longrightarrow> id_ok u \<Longrightarrow> length (encode_ie (s1_mme i c u)) = 4 + unat (mme_s1ap_id_len u)"
  "length m < 127 \<Longrightarrow> length (encode_ie (s1_nas m)) = 5 + length m"
  "wf_eNB e \<Longrightarrow> length (encode_ie (s1_cgi e)) = 12" "wf_eNB e \<Longrightarrow> length (encode_ie (s1_tai c e)) = 10"
  "length (encode_ie (s1_rrc b)) = 5" "length ip = 4 \<Longrightarrow> length (encode_ie (s1_bearer i t c ip d)) = 19"
  by (simp_all add: s1_enb_def s1_mme_def s1_nas_def s1_cgi_def s1_tai_def s1_rrc_def s1_bearer_def encode_ie_short wf_eNB_def id_ok_def)

lemma s1_value_lengths:
  "length (ie_value (s1_enb c u)) = 3"
  "wf_UE u \<Longrightarrow> id_ok u \<Longrightarrow> length (ie_value (s1_mme i c u)) = unat (mme_s1ap_id_len u)"
  "length (ie_value (s1_nas m)) = 1 + length m"
  "wf_eNB e \<Longrightarrow> length (ie_value (s1_cgi e)) = 8" "wf_eNB e \<Longrightarrow> length (ie_value (s1_tai c e)) = 6"
  "length (ie_value (s1_rrc b)) = 1" "length ip = 4 \<Longrightarrow> length (ie_value (s1_bearer i t c ip d)) = 15"
  by (simp_all add: s1_enb_def s1_mme_def s1_nas_def s1_cgi_def s1_tai_def s1_rrc_def s1_bearer_def wf_eNB_def id_ok_def)

lemma s1_nas_lengths:
  "wf_UE u \<Longrightarrow> length (nas_attach_request u) = 49"
  "wf_env E \<Longrightarrow> length (s1_protected E u h c sq m) = 6 + length m"
  "wf_UE u \<Longrightarrow> length (nas_detach_request u off) = 15"
  "wf_env E \<Longrightarrow> length (nas_service_request E u sq) = 4"
  by (simp_all add: nas_attach_request_def s1_protected_def nas_detach_request_def nas_service_request_def EIA2_length Let_def)

lemma small_pdus:
  "wf_eNB e \<Longrightarrow> small_ies (p_ies (pdu_s1_setup e))"
  "wf_eNB e \<Longrightarrow> length m \<le> 49 \<Longrightarrow> small_ies (p_ies (pdu_attach e u m))"
  "wf_eNB e \<Longrightarrow> wf_UE u \<Longrightarrow> id_ok u \<Longrightarrow> length m \<le> 49 \<Longrightarrow> small_ies (p_ies (pdu_s1_uplink c e u m))"
  "wf_UE u \<Longrightarrow> id_ok u \<Longrightarrow> small_ies (p_ies (pdu_capability u))"
  "wf_UE u \<Longrightarrow> id_ok u \<Longrightarrow> length ip = 4 \<Longrightarrow> small_ies (p_ies (pdu_context_response t u ip))"
  "wf_UE u \<Longrightarrow> id_ok u \<Longrightarrow> small_ies (p_ies (pdu_release_request u))"
  "wf_UE u \<Longrightarrow> id_ok u \<Longrightarrow> small_ies (p_ies (pdu_release_response u))"
  "wf_eNB e \<Longrightarrow> wf_UE u \<Longrightarrow> length m \<le> 49 \<Longrightarrow> small_ies (p_ies (pdu_service e u m))"
  "wf_eNB e \<Longrightarrow> wf_UE u \<Longrightarrow> id_ok u \<Longrightarrow> small_ies (p_ies (pdu_path_switch e u))"
  by (auto simp: small_ies_def pdu_s1_setup_def pdu_attach_def pdu_s1_uplink_def pdu_capability_def pdu_context_response_def
      pdu_release_request_def pdu_release_response_def pdu_service_def pdu_path_switch_def s1_lengths s1_value_lengths encode_ie_short
      wf_eNB_def id_ok_def)

text \<open>The message of the PDU \<open>p\<close>, whose extension byte is \<open>init\<close>.\<close>

lemma setup_written: "wf_eNB e \<Longrightarrow> generate_s1ap_initiatingMessage e = Some (message_of 0 (pdu_s1_setup e))"
  using written_steps [OF small_pdus(1), of e 0]
  by (auto simp: generate_s1ap_initiatingMessage_def generate_s1_setup_request_def generate_ProtocolIE_global_enb_id_def
      generate_ProtocolIE_enb_name_def generate_ProtocolIE_supported_tas_def generate_ProtocolIE_default_paging_drx_def
      element_simps pdu_s1_setup_def wf_eNB_def rdn_def str_def)

lemma messages_written:
  assumes "wf_eNB e" and "wf_UE u" and "id_ok u" and "wf_env E"
  shows attach_written: "generate_InitiatingMessage e u = Some (message_of 0 (pdu_attach e u (nas_attach_request u)))"
    and response_written: "generate_S1AP_Authentication_Response e u (auth_challenge u) =
      Some (message_of 0 (pdu_s1_uplink CRITICALITY_IGNORE e u ([0x07, 0x53, 8] @ RES (auth_challenge u))))"
    and secured_written: "generate_S1AP_Security_Command_Complete E e u (auth_challenge u) =
      Some (message_of 0 (pdu_s1_uplink CRITICALITY_IGNORE e u
        (s1_protected E u 0x47 0 (nas_sequence_number u) [0x07, 0x5e])), u\<lparr>nas_sequence_number := nas_sequence_number u + 1\<rparr>)"
    and complete_written: "generate_S1AP_Attach_Complete E e u (auth_challenge u) =
      Some (message_of 0 (pdu_s1_uplink CRITICALITY_IGNORE e u
        (s1_protected E u 0x27 1 (nas_sequence_number u) [0x07, 0x43, 0x00, 0x03, 0x52, 0x00, 0xc2])),
        u\<lparr>nas_sequence_number := nas_sequence_number u + 1\<rparr>)"
    and detach_written: "generate_s1ap_UE_Detach E e u (auth_challenge u) off =
      Some (message_of 0 (pdu_s1_uplink CRITICALITY_REJECT e u
        (s1_protected E u 0x27 1 (nas_sequence_number u) (nas_detach_request u (off \<noteq> 0)))),
        u\<lparr>nas_sequence_number := nas_sequence_number u + 1\<rparr>)"
proof -
  note gen = assms eNB_elements [OF assms(1)] UE_elements [OF assms(2,3)] nas_elements [OF assms(2,4)] cause_element
    with_criticality s1_nas_lengths Let_def
  note small = small_pdus(3) [OF assms(1-3)]
  show "generate_InitiatingMessage e u = Some (message_of 0 (pdu_attach e u (nas_attach_request u)))"
    using written_steps [OF small_pdus(2) [of e "nas_attach_request u" u], of 0]
    by (auto simp: generate_InitiatingMessage_def generate_Initial_UE_Message_def InitialUEMessage_to_buffer_def pdu_attach_def gen)
  show "generate_S1AP_Authentication_Response e u (auth_challenge u) =
      Some (message_of 0 (pdu_s1_uplink CRITICALITY_IGNORE e u ([0x07, 0x53, 8] @ RES (auth_challenge u))))"
    using written_steps [OF small [of "[0x07, 0x53, 8] @ RES (auth_challenge u)" CRITICALITY_IGNORE], of 0]
    by (auto simp: generate_S1AP_Authentication_Response_def generate_Authentication_Response_def AuthenticationResponse_to_buffer_def
        pdu_s1_uplink_def gen)
  show "generate_S1AP_Security_Command_Complete E e u (auth_challenge u) =
      Some (message_of 0 (pdu_s1_uplink CRITICALITY_IGNORE e u
        (s1_protected E u 0x47 0 (nas_sequence_number u) [0x07, 0x5e])), u\<lparr>nas_sequence_number := nas_sequence_number u + 1\<rparr>)"
    using written_steps [OF small [of "s1_protected E u 0x47 0 (nas_sequence_number u) [0x07, 0x5e]" CRITICALITY_IGNORE], of 0]
    by (auto simp: generate_S1AP_Security_Command_Complete_def generate_Security_Command_Complete_def
        SecurityCommandComplete_to_buffer_def pdu_s1_uplink_def gen)
  show "generate_S1AP_Attach_Complete E e u (auth_challenge u) =
      Some (message_of 0 (pdu_s1_uplink CRITICALITY_IGNORE e u
        (s1_protected E u 0x27 1 (nas_sequence_number u) [0x07, 0x43, 0x00, 0x03, 0x52, 0x00, 0xc2])),
        u\<lparr>nas_sequence_number := nas_sequence_number u + 1\<rparr>)"
    using written_steps [OF small [of "s1_protected E u 0x27 1 (nas_sequence_number u) [0x07, 0x43, 0x00, 0x03, 0x52, 0x00, 0xc2]"
        CRITICALITY_IGNORE], of 0]
    by (auto simp: generate_S1AP_Attach_Complete_def generate_Uplink_NAS_Transport_def UplinkNASTransport_to_buffer_def
        pdu_s1_uplink_def gen)
  show "generate_s1ap_UE_Detach E e u (auth_challenge u) off =
      Some (message_of 0 (pdu_s1_uplink CRITICALITY_REJECT e u
        (s1_protected E u 0x27 1 (nas_sequence_number u) (nas_detach_request u (off \<noteq> 0)))),
        u\<lparr>nas_sequence_number := nas_sequence_number u + 1\<rparr>)"
    using written_steps [OF small [of "s1_protected E u 0x27 1 (nas_sequence_number u) (nas_detach_request u (off \<noteq> 0))"
        CRITICALITY_REJECT], of 0]
    by (auto simp: generate_s1ap_UE_Detach_def generate_ue_detach_def UEDetach_to_buffer_def pdu_s1_uplink_def gen)
qed

lemma plain_messages_written:
  assumes "wf_eNB e" and "wf_UE u" and "id_ok u"
  shows capability_written: "generate_S1AP_ue_capability_info_indication u = Some (message_of 0 (pdu_capability u))"
    and context_written: "length ip = 4 \<Longrightarrow> generate_S1AP_initial_context_setup_response u ip = Some (message_of 0 (pdu_context_response 0 u ip))"
    and release_request_written: "generate_UE_Context_Release_Request u = Some (message_of 0 (pdu_release_request u))"
    and release_response_written: "generate_UE_Context_Release_Response u = Some (message_of 0x20 (pdu_release_response u))"
    and path_switch_written: "generate_Path_Switch_Request e u = Some (message_of 0 (pdu_path_switch e u))"
proof -
  note gen = assms eNB_elements [OF assms(1)] UE_elements [OF assms(2,3)] bearer_elements [OF assms(2)] with_criticality Let_def
  show "generate_S1AP_ue_capability_info_indication u = Some (message_of 0 (pdu_capability u))"
    using written_steps [OF small_pdus(4) [OF assms(2,3)], of 0]
    by (auto simp: generate_S1AP_ue_capability_info_indication_def generate_ue_capability_info_indication_def gen
        UECapabilityInfoIndication_to_buffer_def pdu_capability_def generate_ProtocolIE_ue_capability_info_indication_def element_simps)
  show "generate_S1AP_initial_context_setup_response u ip = Some (message_of 0 (pdu_context_response 0 u ip))" if "length ip = 4"
    using written_steps [OF small_pdus(5) [OF assms(2,3) that, of 0], of 0] that
    by (auto simp: generate_S1AP_initial_context_setup_response_def generate_initial_context_setup_response_def gen
        InitialContextSetupResponse_to_buffer_def pdu_context_response_def)
  have "generate_ProtocolIE_cause\<lparr>IE_criticality := CRITICALITY_IGNORE\<rparr> =
      IE_of \<lparr>ie_id = 0x02, ie_crit = CRITICALITY_IGNORE, ie_value = [0, 0]\<rparr>"
    by (simp add: generate_ProtocolIE_cause_def IE_of_def)
  then show "generate_UE_Context_Release_Request u = Some (message_of 0 (pdu_release_request u))"
    using written_steps [OF small_pdus(6) [OF assms(2,3)], of 0]
    by (auto simp: generate_UE_Context_Release_Request_def generate_ue_context_release_request_def gen
        UEContextReleaseRequest_to_buffer_def pdu_release_request_def)
  show "generate_UE_Context_Release_Response u = Some (message_of 0x20 (pdu_release_response u))"
    using written_steps [OF small_pdus(7) [OF assms(2,3)], of "0x20"]
    by (auto simp: generate_UE_Context_Release_Response_def generate_ue_context_release_response_def gen
        UEContextReleaseResponse_to_buffer_def pdu_release_response_def)
  have "generate_ProtocolIE_security_capabilities u =
      Some (IE_of \<lparr>ie_id = 0x6b, ie_crit = CRITICALITY_REJECT, ie_value = security_capabilities u @ [0]\<rparr>)"
    using assms(2) by (simp add: generate_ProtocolIE_security_capabilities_def ue_simps rdn_def IE_of_def)
  then show "generate_Path_Switch_Request e u = Some (message_of 0 (pdu_path_switch e u))"
    using written_steps [OF small_pdus(9) [OF assms], of 0]
    by (auto simp: generate_Path_Switch_Request_def generate_PathSwitchRequest_def gen Path_Switch_Request_to_buffer_def
        pdu_path_switch_def)
qed

lemma mmec_bytes: "ucast (drop_bit 8 (push_bit 6 (ucast c :: u16))) = drop_bit 2 (c :: byte)"
  "ucast (push_bit 6 (ucast c :: u16)) = push_bit 6 (c :: byte)"
  "ucast (drop_bit 8 (push_bit 6 (ucast c :: u16)) AND 0xFF) = drop_bit 2 (c :: byte)"
  "ucast (push_bit 6 (ucast c :: u16) AND 0xFF) = push_bit 6 (c :: byte)"
proof -
  have m: "(0xFF :: u16) = mask 8" by (simp add: mask_eq_exp_minus_1)
  show "ucast (drop_bit 8 (push_bit 6 (ucast c :: u16))) = drop_bit 2 c" "ucast (push_bit 6 (ucast c :: u16)) = push_bit 6 c"
    "ucast (drop_bit 8 (push_bit 6 (ucast c :: u16)) AND 0xFF) = drop_bit 2 c" "ucast (push_bit 6 (ucast c :: u16) AND 0xFF) = push_bit 6 c"
    unfolding m by (rule bit_word_eqI; auto simp: bit_simps)+
qed

lemma service_written:
  assumes "wf_eNB e" and "wf_UE u" and "id_ok u" and "wf_env E"
  shows "generate_Initial_UE_Message_Service_Request E e u (auth_challenge u) =
      Some (message_of 0 (pdu_service e u (nas_service_request E u (nas_sequence_number u))),
        u\<lparr>nas_sequence_number := nas_sequence_number u + 1\<rparr>)"
proof -
  have t: "generate_ProtocolIE_s_tmsi (u\<lparr>nas_sequence_number := n\<rparr>) = Some (IE_of \<lparr>ie_id = 0x60, ie_crit = CRITICALITY_REJECT, ie_value =
         [drop_bit 2 (guti u ! 5), push_bit 6 (guti u ! 5)] @ drop 6 (guti u)\<rparr>)" for n
    using assms(2) by (simp add: generate_ProtocolIE_s_tmsi_def ue_simps rd_def rdn_def Let_def IE_of_def mmec_bytes)
  show ?thesis
    using written_steps [OF small_pdus(8) [of e u "nas_service_request E u (nas_sequence_number u)"], of 0] assms
    by (auto simp: generate_Initial_UE_Message_Service_Request_def generate_InitialUEMessage_ServiceRequest_def t cause_element
        InitialUEMessage_ServiceRequest_to_buffer_def pdu_service_def eNB_elements UE_elements nas_elements s1_nas_lengths)
qed

end
