(* ===== verification/S1ap_Procedures.thy ===== *)
theory S1ap_Procedures
  imports S1ap
begin

text \<open>
  How the emulator reads the answers of a 4G core, and the S1AP procedures of ran-emulator/source/s1ap.c.  A message is
  copied into a block of the length that its fourth byte gives; \<open>v\<close> is this block, and \<open>None\<close> is an access outside it or
  outside a member of the UE.  Reads that only feed a log message are kept.  An analysis returns the code of the C
  function, 0, 1 or 2, unless it never ends.
\<close>

section \<open>Information elements\<close>

datatype analysis = Code nat | Spins

text \<open>The names of the network in an EMM Information: the byte after the tag is a length.\<close>

definition skip_name :: "buf \<Rightarrow> nat \<Rightarrow> byte \<Rightarrow> nat option" where
  "skip_name v i tag = do {
     t \<leftarrow> rd v i;
     if t = tag then do { n \<leftarrow> rd v (i + 1); Some (i + 1 + unat n) } else Some i }"

text \<open>
  A NAS message: \<open>offset\<close> is after the length of the element.  \<open>flag\<close> is 0 for an Authentication Request, 1 for a Security
  Mode Command and -1 otherwise.  The challenge is that of the UE or, when \<open>challenge\<close> is false, NULL.
\<close>

definition nas_start :: "buf \<Rightarrow> nat \<Rightarrow> nat option" where
  "nas_start v i = do {
     h \<leftarrow> rd v i;
     if h = 0x07 then Some (i + 1)
     else if h = 0x37 \<or> h = 0x27 then do { _ \<leftarrow> rdn v (i + 1) 6; Some (i + 7) }
     else Some (i + 1) }"

definition nas_type :: "UE \<Rightarrow> buf \<Rightarrow> nat \<Rightarrow> nat \<Rightarrow> (UE \<times> int \<times> nat \<times> nat) option" where
  "nas_type ue v i ret = do {
     t \<leftarrow> rd v i;
     if t = AUTHENTICATION_REQUEST_S1 then Some (ue, 0, ret, i + 1)
     else if t = SECURITY_MODE_COMMAND then do {
       a \<leftarrow> rd v (i + 1);
       Some (set_nas_session_security_algorithms ue a, 1, ret, i + 2) }
     else if t = EMM_INFORMATION then do {
       i \<leftarrow> skip_name v (i + 1) 0x43;
       i \<leftarrow> skip_name v i 0x45;
       Some (ue, -1, 2, i) }
     else if t = DETACH_ACCEPT then Some (ue, -1, ret, i + 1)
     else Some (ue, -1, ret, i + 1) }"

definition nas_item :: "bool \<Rightarrow> UE \<Rightarrow> buf \<Rightarrow> nat \<Rightarrow> nat \<Rightarrow> (UE \<times> nat) option" where
  "nas_item challenge ue v offset ret = do {
     i \<leftarrow> nas_start v (offset + 1);
     (ue, flag, ret, i) \<leftarrow> nas_type ue v i ret;
     let i = i + 1;
     if flag = 0 \<and> challenge then do {
       rand \<leftarrow> rdn v i 16;
       autn \<leftarrow> rdn v (i + 16 + 1) 16;
       Some (ue\<lparr>auth_challenge := (get_auth_challenge ue)\<lparr>RAND := rand, AUTN := autn\<rparr>\<rparr>, 0) }
     else if flag = 1 then do { _ \<leftarrow> rdn v i 3; Some (ue, 0) }
     else Some (ue, ret) }"

text \<open>
  The loop that looks for the GUTI: it steps over two kinds of elements and ends at 0x50.  At any other byte it reads
  the same byte again, forever: \<open>Some None\<close>.
\<close>

function find_guti :: "buf \<Rightarrow> nat \<Rightarrow> nat option option" where
  "find_guti v i =
     (if i < length v then
        (if v ! i = 0x27 \<or> v ! i = 0x5e then do { n \<leftarrow> rd v (i + 1); find_guti v (i + unat n + 2) }
         else if v ! i = 0x50 then do { _ \<leftarrow> rd v (i + 1); Some (Some (i + 3)) }
         else Some None)
      else None)"
  by pat_completeness auto
termination by (relation "measure (\<lambda>(v, i). length v - i)") auto

declare find_guti.simps [simp del]

text \<open>The bearer of an Initial Context Setup Request, with the Attach Accept that it carries.\<close>

definition default_bearer :: "UE \<Rightarrow> buf \<Rightarrow> nat \<Rightarrow> nat \<Rightarrow> (UE \<times> analysis) option" where
  "default_bearer ue v i ret = do {
     _ \<leftarrow> rd v i;
     let i = i + 1;
     n \<leftarrow> rd v i;
     ue \<leftarrow> set_apn_name ue (drop (i + 1) v) n;
     let i = i + unat n + 1;
     t \<leftarrow> rd v (i + 1);
     if t AND 0x01 = 0 then Some (ue, Code 1)
     else do {
       let i = i + 2;
       ue \<leftarrow> set_pdn_ip ue (drop i v);
       let i = i + 4;
       g \<leftarrow> find_guti v i;
       case g of
         None \<Rightarrow> Some (ue, Spins)
       | Some i \<Rightarrow> do { ue \<leftarrow> set_guti ue (drop i v); Some (ue, Code ret) } } }"

definition e_rab_item :: "UE \<Rightarrow> buf \<Rightarrow> nat \<Rightarrow> nat \<Rightarrow> (UE \<times> analysis) option" where
  "e_rab_item ue v offset ret = do {
     i1 \<leftarrow> rd v (offset + 1); i2 \<leftarrow> rd v (offset + 2);
     if 256 * unat i1 + unat i2 \<noteq> ID_E_RAB_TO_BE_SETUP_ITEM_C_TXT_SU_REQ then Some (ue, Code 1)
     else do {
       let i = offset + 5;
       _ \<leftarrow> rd v i;
       let i = i + 6;
       ue \<leftarrow> set_spgw_ip ue (drop i v);
       let i = i + 4;
       teid \<leftarrow> ARRAY_TO_UINT32 v i;
       let ue = set_gtp_teid ue teid;
       let i = i + 4;
       t \<leftarrow> rd v (i + 1);
       if t AND 0x0F \<noteq> 0x07 then Some (ue, Code ret)
       else do {
         let i = i + 10;
         _ \<leftarrow> rd v i;
         let i = i + 8 + 4;
         t \<leftarrow> rd v i;
         if t \<noteq> ACTIVATE_DEFAULT_EPS_BEARER_CONTEXT_REQUEST then Some (ue, Code 1)
         else default_bearer ue v (i + 2) ret } } }"

text \<open>The other elements; what is printed of an unknown one are its first 16 bytes.\<close>

definition other_item :: "UE \<Rightarrow> u16 \<Rightarrow> buf \<Rightarrow> nat \<Rightarrow> byte \<Rightarrow> nat \<Rightarrow> (UE \<times> analysis) option" where
  "other_item ue i v offset value_len ret = do {
     (ue, ret) \<leftarrow> (if i = ID_MME_UE_S1AP_IE
        then do { ue \<leftarrow> set_mme_s1ap_id ue (drop offset v) value_len; Some (ue, 0) }
        else Some (ue, ret));
     if i = ID_UEAGGREGATE_MAXIMUM_BITRATE \<and> value_len = 10 then do {
       d \<leftarrow> rd v offset;
       _ \<leftarrow> (if d = 0x18 then rdn v (offset + 1) 4 else Some []);
       u \<leftarrow> rd v (offset + 5);
       _ \<leftarrow> (if u = 0x60 then rdn v (offset + 6) 4 else Some []);
       Some (ue, Code 0) }
     else if i = ID_E_RAB_TO_BE_SETUP_LIST_C_TXT_SU_REQ then e_rab_item ue v offset ret
     else if i = ID_UE_SECURITY_CAPABILITIES_S1 then do {
       _ \<leftarrow> rdn v offset 4;
       ue \<leftarrow> set_security_capabilities ue (drop offset v);
       Some (ue, Code 0) }
     else if i = ID_SECURITY_KEY_S1 then do { _ \<leftarrow> rdn v offset 32; Some (ue, Code 0) }
     else if i = ID_UE_S1AP_IDS then do { _ \<leftarrow> rdn v offset 4; Some (ue, Code 0) }
     else if i = ID_CAUSE_S1 then do { _ \<leftarrow> rdn v offset (min (unat value_len) 16); Some (ue, Code 0) }
     else if i = ID_SECURITY_CONTEXT then do { _ \<leftarrow> rdn v offset 33; Some (ue, Code 0) }
     else do { _ \<leftarrow> rdn v offset (min (unat value_len) 16); Some (ue, Code 0) } }"

text \<open>
  One turn per element.  The offset is advanced past an element only when it is not a NAS message: after one, the next
  turn starts inside it.
\<close>

fun nas_transport_loop :: "nat \<Rightarrow> bool \<Rightarrow> UE \<Rightarrow> buf \<Rightarrow> nat \<Rightarrow> nat \<Rightarrow> nat \<Rightarrow> (UE \<times> analysis) option" where
  "nas_transport_loop 0 challenge ue v len offset ret = Some (ue, Code ret)"
| "nas_transport_loop (Suc n) challenge ue v len offset ret =
     (if offset \<ge> len then Some (ue, Code ret)
      else do {
        i1 \<leftarrow> rd v offset; i2 \<leftarrow> rd v (offset + 1);
        let i = push_bit 8 (ucast i1) OR ucast i2;
        _ \<leftarrow> rd v (offset + 2);
        value_len \<leftarrow> rd v (offset + 3);
        let offset = offset + 4;
        if i = ID_NAS_PDU_S1 then do {
          (ue, ret) \<leftarrow> nas_item challenge ue v offset ret;
          nas_transport_loop n challenge ue v len offset ret }
        else do {
          (ue, r) \<leftarrow> other_item ue i v offset value_len ret;
          case r of
            Spins \<Rightarrow> Some (ue, Spins)
          | Code ret \<Rightarrow> nas_transport_loop n challenge ue v len (offset + unat value_len) ret } })"

definition analyze_downlink_NAS_Transport :: "buf \<Rightarrow> nat \<Rightarrow> bool \<Rightarrow> UE \<Rightarrow> (UE \<times> analysis) option" where
  "analyze_downlink_NAS_Transport v len challenge ue = do {
     b1 \<leftarrow> rd v 1; b2 \<leftarrow> rd v 2;
     nas_transport_loop (256 * unat b1 + unat b2) challenge ue v len 3 1 }"

section \<open>Messages\<close>

text \<open>The block is allocated and filled before the header is checked.\<close>

definition message_block :: "buf \<Rightarrow> nat \<Rightarrow> byte \<Rightarrow> buf option" where
  "message_block b i len = rdn b i (unat len)"

definition analyze_Authentication_Request :: "UE \<Rightarrow> buf \<Rightarrow> (UE \<times> analysis) option" where
  "analyze_Authentication_Request ue b = do {
     s \<leftarrow> rd b 0; p \<leftarrow> rd b 1; _ \<leftarrow> rd b 2; len \<leftarrow> rd b 3;
     v \<leftarrow> message_block b 4 len;
     if s \<noteq> 0 \<or> p \<noteq> DOWNLINK_NAS_TRANSPORT then Some (ue, Code 1)
     else analyze_downlink_NAS_Transport v (unat len) True ue }"

definition analyze_Security_Mode_Command :: "UE \<Rightarrow> buf \<Rightarrow> (UE \<times> analysis) option" where
  "analyze_Security_Mode_Command ue b = do {
     s \<leftarrow> rd b 0; p \<leftarrow> rd b 1; _ \<leftarrow> rd b 2; len \<leftarrow> rd b 3;
     v \<leftarrow> message_block b 4 len;
     if s \<noteq> 0 \<or> p \<noteq> DOWNLINK_NAS_TRANSPORT then Some (ue, Code 1)
     else analyze_downlink_NAS_Transport v (unat len) False ue }"

text \<open>A length of two bytes starts with 0x80, when it is less than 256.\<close>

definition analyze_InitialContextSetupRequest :: "UE \<Rightarrow> buf \<Rightarrow> (UE \<times> analysis) option" where
  "analyze_InitialContextSetupRequest ue b = do {
     s \<leftarrow> rd b 0; p \<leftarrow> rd b 1; _ \<leftarrow> rd b 2; unknown \<leftarrow> rd b 3; len \<leftarrow> rd b 4;
     if s \<noteq> 0 \<or> p \<noteq> 0x09 \<and> p \<noteq> DOWNLINK_NAS_TRANSPORT then Some (ue, Code 1)
     else if unknown = 0x80 then do {
       v \<leftarrow> message_block b 5 len;
       analyze_downlink_NAS_Transport v (unat len) False ue }
     else do {
       v \<leftarrow> message_block b 4 unknown;
       analyze_downlink_NAS_Transport v (unat unknown) False ue } }"

definition analyze_UEContextReleaseCommand :: "UE \<Rightarrow> buf \<Rightarrow> (UE \<times> analysis) option" where
  "analyze_UEContextReleaseCommand ue b = do {
     s \<leftarrow> rd b 0; p \<leftarrow> rd b 1; _ \<leftarrow> rd b 2; len \<leftarrow> rd b 3;
     v \<leftarrow> message_block b 4 len;
     if s \<noteq> 0 \<or> p \<noteq> UE_CONTEXT_RELEASE \<and> p \<noteq> DOWNLINK_NAS_TRANSPORT then Some (ue, Code 1)
     else analyze_downlink_NAS_Transport v (unat len) False ue }"

definition analyze_UEAccept :: "UE \<Rightarrow> buf \<Rightarrow> (UE \<times> analysis) option" where
  "analyze_UEAccept ue b = do {
     s \<leftarrow> rd b 0; p \<leftarrow> rd b 1; _ \<leftarrow> rd b 2; len \<leftarrow> rd b 3;
     v \<leftarrow> message_block b 4 len;
     if s \<noteq> 0 \<or> p \<noteq> DOWNLINK_NAS_TRANSPORT then Some (ue, Code 1)
     else analyze_downlink_NAS_Transport v (unat len) False ue }"

definition analyze_PathSwitchRequestAcknowledge :: "UE \<Rightarrow> buf \<Rightarrow> (UE \<times> analysis) option" where
  "analyze_PathSwitchRequestAcknowledge ue b = do {
     s \<leftarrow> rd b 0; p \<leftarrow> rd b 1; _ \<leftarrow> rd b 2; len \<leftarrow> rd b 3;
     v \<leftarrow> message_block b 4 len;
     if s \<noteq> 0x20 \<or> p \<noteq> 0x03 \<and> p \<noteq> DOWNLINK_NAS_TRANSPORT then Some (ue, Code 1)
     else analyze_downlink_NAS_Transport v (unat len) False ue }"

text \<open>The S1 Setup Response is only printed; the reads of the printing are kept.\<close>

fun setup_loop :: "nat \<Rightarrow> buf \<Rightarrow> nat \<Rightarrow> nat \<Rightarrow> unit option" where
  "setup_loop 0 v len offset = Some ()"
| "setup_loop (Suc n) v len offset =
     (if offset \<ge> len then Some ()
      else do {
        i1 \<leftarrow> rd v offset; i2 \<leftarrow> rd v (offset + 1);
        let i = push_bit 8 (ucast i1) OR ucast i2;
        _ \<leftarrow> rd v (offset + 2);
        value_len \<leftarrow> rd v (offset + 3);
        let offset = offset + 4;
        _ \<leftarrow> (if i = ServedGUMMEIs then do {
            _ \<leftarrow> rdn v (offset + 2) 3; _ \<leftarrow> rdn v (offset + 7) 2; _ \<leftarrow> rd v (offset + 10); Some [] }
          else if value_len = 16 then Some []
          else rdn v offset (unat value_len));
        setup_loop n v len (offset + unat value_len) })"

definition analyze_S1_Setup_Content :: "buf \<Rightarrow> nat \<Rightarrow> unit option" where
  "analyze_S1_Setup_Content v len = do {
     b1 \<leftarrow> rd v 1; b2 \<leftarrow> rd v 2;
     setup_loop (256 * unat b1 + unat b2) v len 3 }"

definition analyze_S1_Setup_Response :: "buf \<Rightarrow> status option" where
  "analyze_S1_Setup_Response b = do {
     s \<leftarrow> rd b 0; p \<leftarrow> rd b 1; c \<leftarrow> rd b 2; len \<leftarrow> rd b 3;
     v \<leftarrow> message_block b 4 len;
     if p \<noteq> 0x11 \<or> c \<noteq> CRITICALITY_REJECT then Some ERROR
     else if s = S1_SETUP_SUCCESSFUL then do { _ \<leftarrow> analyze_S1_Setup_Content v (unat len); Some OK }
     else if s = S1_SETUP_UNSUCCESSFUL then Some ERROR
     else Some ERROR }"

section \<open>Procedures\<close>

text \<open>
  The state is that of the NGAP procedures; \<open>pr_buf\<close> is the local array of 2048 bytes.  \<open>Blocked\<close> is also the result when
  an analysis never ends.
\<close>

definition send_S1 :: "proc \<Rightarrow> s1ap_initiatingMessage \<Rightarrow> proc option" where
  "send_S1 s i = do {
     (b, len) \<leftarrow> s1ap_initiatingMessage_to_buffer i;
     m \<leftarrow> rdn b 0 (unat len);
     Some (s\<lparr>pr_sent := pr_sent s @ [m]\<rparr>) }"

text \<open>\<open>init_context_setup_response_buffer[0] = SUCCESSFUL_OUTCOME\<close>\<close>

definition send_outcome :: "proc \<Rightarrow> s1ap_initiatingMessage \<Rightarrow> proc option" where
  "send_outcome s i = do {
     (b, len) \<leftarrow> s1ap_initiatingMessage_to_buffer i;
     b \<leftarrow> wr b 0 0x20;
     m \<leftarrow> rdn b 0 (unat len);
     Some (s\<lparr>pr_sent := pr_sent s @ [m]\<rparr>) }"

text \<open>One answer of the core, an error when the analysis returns 1.\<close>

definition receive_S1 :: "(UE \<Rightarrow> buf \<Rightarrow> (UE \<times> analysis) option) \<Rightarrow> proc \<Rightarrow> (proc \<times> result) option" where
  "receive_S1 analyze s =
     (case pr_in s of
        [] \<Rightarrow> Some (s, Blocked)
      | None # es \<Rightarrow> Some (s\<lparr>pr_in := es\<rparr>, Returned ERROR)
      | Some m # es \<Rightarrow> do {
          b \<leftarrow> memcpy (pr_buf s) 0 m (min (length m) 2048);
          (u, r) \<leftarrow> analyze (pr_ue s) b;
          Some (s\<lparr>pr_in := es, pr_buf := b, pr_ue := u\<rparr>,
            case r of Spins \<Rightarrow> Blocked | Code c \<Rightarrow> if c = 1 then Returned ERROR else Going) })"

text \<open>The loops that pass over EMM Information messages, for which the analysis returns 2.\<close>

fun await_S1 :: "(UE \<Rightarrow> buf \<Rightarrow> (UE \<times> analysis) option) \<Rightarrow> byte list option list \<Rightarrow> proc \<Rightarrow> (proc \<times> result) option" where
  "await_S1 analyze [] s = Some (s\<lparr>pr_in := []\<rparr>, Blocked)"
| "await_S1 analyze (None # es) s = Some (s\<lparr>pr_in := es\<rparr>, Returned ERROR)"
| "await_S1 analyze (Some m # es) s = do {
     b \<leftarrow> memcpy (pr_buf s) 0 m (min (length m) 2048);
     (u, r) \<leftarrow> analyze (pr_ue s) b;
     let s = s\<lparr>pr_in := es, pr_buf := b, pr_ue := u\<rparr>;
     case r of
       Spins \<Rightarrow> Some (s, Blocked)
     | Code c \<Rightarrow> if c = 1 then Some (s, Returned ERROR) else if c = 2 then await_S1 analyze es s else Some (s, Going) }"

text \<open>The loop of the detach: it passes over every accept, and ends at a release command.\<close>

fun await_release :: "byte list option list \<Rightarrow> proc \<Rightarrow> (proc \<times> result) option" where
  "await_release [] s = Some (s\<lparr>pr_in := []\<rparr>, Blocked)"
| "await_release (None # es) s = Some (s\<lparr>pr_in := es\<rparr>, Returned ERROR)"
| "await_release (Some m # es) s = do {
     b \<leftarrow> memcpy (pr_buf s) 0 m (min (length m) 2048);
     (u, r) \<leftarrow> analyze_UEAccept (pr_ue s) b;
     case r of
       Spins \<Rightarrow> Some (s\<lparr>pr_in := es, pr_buf := b, pr_ue := u\<rparr>, Blocked)
     | Code c \<Rightarrow>
         if c = 1 then do {
           (u, r) \<leftarrow> analyze_UEContextReleaseCommand u b;
           Some (s\<lparr>pr_in := es, pr_buf := b, pr_ue := u\<rparr>,
             case r of Spins \<Rightarrow> Blocked | Code c \<Rightarrow> if c = 1 then Returned ERROR else Going) }
         else await_release es (s\<lparr>pr_in := es, pr_buf := b, pr_ue := u\<rparr>) }"

definition procedure_S1_Setup :: "eNB \<Rightarrow> byte list option list \<Rightarrow> buf \<Rightarrow> (byte list list \<times> result) option" where
  "procedure_S1_Setup enb input buffer = do {
     b \<leftarrow> memset buffer 0 0 2048;
     i \<leftarrow> generate_s1ap_initiatingMessage enb;
     (r, len) \<leftarrow> s1ap_initiatingMessage_to_buffer i;
     m \<leftarrow> rdn r 0 (unat len);
     case input of
       [] \<Rightarrow> Some ([m], Blocked)
     | None # es \<Rightarrow> Some ([m], Returned ERROR)
     | Some r # es \<Rightarrow> do {
         b \<leftarrow> memcpy b 0 r (min (length r) 2048);
         st \<leftarrow> analyze_S1_Setup_Response b;
         Some ([m], Returned st) } }"

text \<open>The attach, from its end: what follows each answer of the core.  \<open>generate_kasme\<close> has two arrays without initialiser.\<close>

definition after_context_request :: "env \<Rightarrow> eNB \<Rightarrow> proc \<Rightarrow> (proc \<times> result) option" where
  "after_context_request E enb s = do {
     i \<leftarrow> generate_S1AP_ue_capability_info_indication (pr_ue s);
     s \<leftarrow> send_S1 s i;
     i \<leftarrow> generate_S1AP_initial_context_setup_response (pr_ue s) (get_ue_ip (pr_ue s));
     s \<leftarrow> send_outcome s i;
     (i, u) \<leftarrow> generate_S1AP_Attach_Complete E enb (pr_ue s) (get_auth_challenge (pr_ue s));
     s \<leftarrow> send_S1 (s\<lparr>pr_ue := u\<rparr>) i;
     Some (s, Returned OK) }"

definition derive_eps_keys :: "env \<Rightarrow> UE \<Rightarrow> UE option" where
  "derive_eps_keys E u = do {
     let a = get_auth_challenge u;
     enc \<leftarrow> generate_nas_enc_keys (e_hmac E) (KASME a) (get_nas_session_enc_alg u);
     let a = a\<lparr>NAS_KEY_ENC := enc\<rparr>;
     int \<leftarrow> generate_nas_int_keys (e_hmac E) (KASME a) (get_nas_session_int_alg u);
     Some (u\<lparr>auth_challenge := a\<lparr>NAS_KEY_INT := int\<rparr>\<rparr>) }"

definition after_security_command :: "env \<Rightarrow> eNB \<Rightarrow> proc \<Rightarrow> (proc \<times> result) option" where
  "after_security_command E enb s = do {
     u \<leftarrow> derive_eps_keys E (pr_ue s);
     (i, u) \<leftarrow> generate_S1AP_Security_Command_Complete E enb u (get_auth_challenge u);
     s \<leftarrow> send_S1 (s\<lparr>pr_ue := u\<rparr>) i;
     and_then (receive_S1 analyze_InitialContextSetupRequest s) (after_context_request E enb) }"

definition derive_kasme :: "env \<Rightarrow> eNB \<Rightarrow> UE \<Rightarrow> UE option" where
  "derive_kasme E enb u = do {
     let a = get_auth_challenge u;
     k \<leftarrow> generate_kasme (e_hmac E) (take 14 (e_input63 E)) (e_key32 E) (CK a) (IK a) (AUTN a) (get_plmn enb) 3;
     k \<leftarrow> wrn (KASME a) 0 k;
     Some (u\<lparr>auth_challenge := a\<lparr>KASME := k\<rparr>\<rparr>) }"

definition after_challenge :: "env \<Rightarrow> eNB \<Rightarrow> proc \<Rightarrow> (proc \<times> result) option" where
  "after_challenge E enb s = do {
     u \<leftarrow> compute_challenge (pr_ue s);
     i \<leftarrow> generate_S1AP_Authentication_Response enb u (get_auth_challenge u);
     s \<leftarrow> send_S1 (s\<lparr>pr_ue := u\<rparr>) i;
     u \<leftarrow> derive_kasme E enb (pr_ue s);
     and_then (receive_S1 analyze_Security_Mode_Command (s\<lparr>pr_ue := u\<rparr>)) (after_security_command E enb) }"

definition procedure_Attach_Default_EPS_Bearer :: "env \<Rightarrow> eNB \<Rightarrow> proc \<Rightarrow> (proc \<times> result) option" where
  "procedure_Attach_Default_EPS_Bearer E enb s = do {
     b \<leftarrow> memset (pr_buf s) 0 0 2048;
     let s = s\<lparr>pr_buf := b, pr_ue := reset_nas_sequence_number (pr_ue s)\<rparr>;
     i \<leftarrow> generate_InitiatingMessage enb (pr_ue s);
     s \<leftarrow> send_S1 s i;
     and_then (await_S1 analyze_Authentication_Request (pr_in s) s) (after_challenge E enb) }"

definition procedure_UE_Context_Release :: "proc \<Rightarrow> (proc \<times> result) option" where
  "procedure_UE_Context_Release s = do {
     i \<leftarrow> generate_UE_Context_Release_Request (pr_ue s);
     s \<leftarrow> send_S1 s i;
     and_then (await_S1 analyze_UEContextReleaseCommand (pr_in s) s) (\<lambda>s. do {
       i \<leftarrow> generate_UE_Context_Release_Response (pr_ue s);
       s \<leftarrow> send_S1 s i;
       Some (s, Returned OK) }) }"

definition procedure_UE_Detach :: "env \<Rightarrow> eNB \<Rightarrow> proc \<Rightarrow> byte \<Rightarrow> (proc \<times> result) option" where
  "procedure_UE_Detach E enb s switch_off = do {
     (i, u) \<leftarrow> generate_s1ap_UE_Detach E enb (pr_ue s) (get_auth_challenge (pr_ue s)) switch_off;
     s \<leftarrow> send_S1 (s\<lparr>pr_ue := u\<rparr>) i;
     and_then (await_release (pr_in s) s) (\<lambda>s. do {
       i \<leftarrow> generate_UE_Context_Release_Response (pr_ue s);
       s \<leftarrow> send_S1 s i;
       Some (s, Returned OK) }) }"

definition procedure_UE_Service_Request :: "env \<Rightarrow> eNB \<Rightarrow> proc \<Rightarrow> buf \<Rightarrow> (proc \<times> result) option" where
  "procedure_UE_Service_Request E enb s ip = do {
     (i, u) \<leftarrow> generate_Initial_UE_Message_Service_Request E enb (pr_ue s) (get_auth_challenge (pr_ue s));
     s \<leftarrow> send_S1 (s\<lparr>pr_ue := u\<rparr>) i;
     and_then (await_S1 analyze_InitialContextSetupRequest (pr_in s) s) (\<lambda>s. do {
       i \<leftarrow> generate_S1AP_initial_context_setup_response (pr_ue s) ip;
       s \<leftarrow> send_outcome s i;
       Some (s, Returned OK) }) }"

definition procedure_UE_X2_handover :: "eNB \<Rightarrow> proc \<Rightarrow> (proc \<times> result) option" where
  "procedure_UE_X2_handover enb s = do {
     i \<leftarrow> generate_Path_Switch_Request enb (pr_ue s);
     s \<leftarrow> send_S1 s i;
     and_then (await_S1 analyze_PathSwitchRequestAcknowledge (pr_in s) s) (\<lambda>s. Some (s, Returned OK)) }"

text \<open>These two are not implemented: they print a warning.\<close>

definition procedure_S1_Handover_Source_eNB :: "eNB \<Rightarrow> proc \<Rightarrow> (proc \<times> result) option" where
  "procedure_S1_Handover_Source_eNB enb s = Some (s, Returned OK)"

definition procedure_S1_Handover_Target_eNB :: "eNB \<Rightarrow> proc \<Rightarrow> (proc \<times> result) option" where
  "procedure_S1_Handover_Target_eNB enb s = Some (s, Returned OK)"

end
