(* ===== verification/S1ap_Flow.thy ===== *)
theory S1ap_Flow
  imports Registration S1ap_Messages S1ap_Procedures
begin

text \<open>
  The procedures of a 4G UE in ran-emulator/source/s1ap.c: what the analysis learns from the messages of the core, the
  attach, the release, the detach and the path switch for every well-formed answers, and where the analysis goes wrong.
\<close>

section \<open>Reading inside a message\<close>

text \<open>A block that starts with \<open>pre\<close> is read behind it as what follows.\<close>

lemma shift_simps:
  "rd (pre @ w) (length pre + i) = rd w i" "rd (pre @ w) (length pre) = rd w 0"
  "rdn (pre @ w) (length pre + i) n = rdn w i n" "rdn (pre @ w) (length pre) n = rdn w 0 n"
  "drop (length pre + i) (pre @ w) = drop i w"
  "ARRAY_TO_UINT32 (pre @ w) (length pre + i) = ARRAY_TO_UINT32 w i"
  by (simp_all add: rd_def rdn_def nth_append ARRAY_TO_UINT32_def add.assoc)

lemma rd_shift_Suc: "rd (pre @ w) (Suc (Suc (length pre))) = rd w 2"
  "rd (pre @ w) (Suc (length pre)) = rd w 1" "rd (pre @ w) (Suc (length pre + i)) = rd w (Suc i)"
  "drop (Suc (length pre + i)) (pre @ w) = drop (Suc i) w" "rdn (pre @ w) (Suc (length pre + i)) n = rdn w (Suc i) n"
  using shift_simps(1) [of pre w "Suc i"] shift_simps(1) [of pre w 1] shift_simps(1) [of pre w 2] shift_simps(3) [of pre w "Suc i" n] by simp_all

lemma find_guti_shift: "find_guti (pre @ w) (length pre + i) = map_option (map_option ((+) (length pre))) (find_guti w i)"
proof (induction "length w - i" arbitrary: i rule: less_induct)
  case less
  show ?case
  proof (cases "i < length w \<and> (w ! i = 0x27 \<or> w ! i = 0x5e)")
    case True
    show ?thesis
    proof (cases "rd w (Suc i)")
      case None
      with True show ?thesis by (subst (1 2) find_guti.simps) (simp add: rd_shift_Suc nth_append)
    next
      case (Some n)
      have "length w - (i + unat n + 2) < length w - i" using True by linarith
      with less [of "i + unat n + 2"] True Some show ?thesis
        by (subst (1 2) find_guti.simps) (simp add: rd_shift_Suc nth_append add.assoc)
    qed
  next
    case False
    then show ?thesis
      by (subst (1 2) find_guti.simps) (auto simp: rd_shift_Suc nth_append split: Option.bind_split)
  qed
qed

lemma shift_commuted:
  "rd (pre @ w) (i + length pre) = rd w i" "rd (pre @ w) (i + (length pre + j)) = rd w (i + j)"
  "ARRAY_TO_UINT32 (pre @ w) (i + length pre) = ARRAY_TO_UINT32 w i"
  "find_guti (pre @ w) (i + (length pre + j)) = map_option (map_option ((+) (length pre))) (find_guti w (i + j))"
  using shift_simps(1) [of pre w i] shift_simps(1) [of pre w "i + j"] shift_simps(6) [of pre w i] find_guti_shift [of pre w "i + j"]
  by (simp_all add: add.commute add.left_commute)

lemma map_option_bind: "map_option f m \<bind> g = m \<bind> (\<lambda>x. g (f x))"
  by (cases m) simp_all

lemma e_rab_shift: "e_rab_item u (pre @ w) (length pre) ret = e_rab_item u w 0 ret"
  by (simp add: e_rab_item_def default_bearer_def shift_simps shift_commuted rd_shift_Suc find_guti_shift Let_def numeral_2_eq_2
      map_option_bind case_map_option comp_def cong: if_cong option.case_cong)

section \<open>The default bearer\<close>

text \<open>
  What a core tells of the default bearer: the identity and quality of service, the gateway and its TEID, the header of the
  Attach Accept, the access point name, the address of the UE, options and the GUTI.  The element is of less than 128 bytes.
\<close>

record bearer =
  br_qos :: "byte list"
  br_gateway :: "byte list"
  br_teid :: u32
  br_nas :: "byte list"
  br_esm :: "byte list"
  br_apn :: "byte list"
  br_type :: "byte list"
  br_address :: "byte list"
  br_options :: "(byte \<times> byte list) list"
  br_guti_head :: "byte list"
  br_guti :: "byte list"
  br_rest :: "byte list"

definition option_bytes :: "byte \<times> byte list \<Rightarrow> byte list" where
  "option_bytes x = fst x # of_nat (length (snd x)) # snd x"

definition bearer_end :: "bearer \<Rightarrow> byte list" where
  "bearer_end b = concat (map option_bytes (br_options b)) @ [0x50] @ br_guti_head b @ br_guti b @ br_rest b"

definition bearer_accept :: "bearer \<Rightarrow> byte list" where
  "bearer_accept b = drop 1 (br_esm b) @ [of_nat (length (br_apn b))] @ br_apn b @ br_type b @ br_address b @ bearer_end b"

definition bearer_value :: "bearer \<Rightarrow> byte list" where
  "bearer_value b =
     (let item = br_qos b @ br_gateway b @ UINT32_TO_ARRAY (br_teid b) @ br_nas b @
        [ACTIVATE_DEFAULT_EPS_BEARER_CONTEXT_REQUEST] @ take 1 (br_esm b) @ bearer_accept b
      in [0, 0, 0x34, 0, of_nat (length item)] @ item)"

definition bearer_ok :: "bearer \<Rightarrow> bool" where
  "bearer_ok b \<longleftrightarrow> length (br_qos b) = 6 \<and> length (br_gateway b) = 4 \<and> length (br_nas b) = 22 \<and> br_nas b ! 1 AND 0x0F = 0x07 \<and>
     length (br_esm b) = 2 \<and> length (br_apn b) \<le> 31 \<and> length (br_type b) = 2 \<and> br_type b ! 1 AND 1 \<noteq> 0 \<and>
     length (br_address b) = 4 \<and> (\<forall>x \<in> set (br_options b). fst x \<in> {0x27, 0x5e} \<and> length (snd x) < 256) \<and>
     length (br_guti_head b) = 2 \<and> length (br_guti b) = 10 \<and> length (bearer_value b) < 128"

definition apply_bearer :: "bearer \<Rightarrow> UE \<Rightarrow> UE" where
  "apply_bearer b u = u\<lparr>spgw_ip := br_gateway b, gtp_teid := br_teid b,
     apn_name := br_apn b @ [0] @ drop (length (br_apn b) + 1) (apn_name u), pdn_ip := br_address b, guti := br_guti b\<rparr>"

lemma find_guti_options:
  assumes "\<forall>x \<in> set os. fst x \<in> {0x27, 0x5e} \<and> length (snd x) < 256"
  shows "find_guti (pre @ concat (map option_bytes os) @ [0x50, a] @ r) (length pre) =
     Some (Some (length pre + length (concat (map option_bytes os)) + 3))"
  using assms
proof (induction os arbitrary: pre)
  case Nil
  then show ?case by (subst find_guti.simps) (simp add: nth_append rd_shift_Suc rd_def)
next
  case (Cons x os)
  have n: "unat (of_nat (length (snd x)) :: byte) = length (snd x)" using Cons.prems by (simp add: unat_of_nat)
  have o: "option_bytes x = fst x # of_nat (length (snd x)) # snd x" by (simp add: option_bytes_def)
  from Cons.IH [of "pre @ option_bytes x"] Cons.prems n show ?case
    by (subst find_guti.simps) (auto simp: nth_append rd_shift_Suc rd_def o add.assoc)
qed

lemma drop_update: "n < length xs \<Longrightarrow> (drop n xs)[0 := v] = v # drop (Suc n) xs"
  by (subst Cons_nth_drop_Suc [symmetric]) simp_all

lemma set_apn_name_ok:
  assumes "wf_UE u" and "length a \<le> 31"
  shows "set_apn_name u (a @ r) (of_nat (length a)) = Some (u\<lparr>apn_name := a @ [0] @ drop (length a + 1) (apn_name u)\<rparr>)"
proof -
  have n: "unat (of_nat (length a) :: byte) = length a" using assms(2) by (simp add: unat_of_nat)
  have g: "\<not> (of_nat (length a) :: byte) > 31" using assms(2) n by (simp add: word_less_nat_alt)
  have l: "length (apn_name u) = 32" using assms(1) by (simp add: wf_UE_def del: wf_UE_lengths wf_UE_lengths4)
  have "memcpy (apn_name u) 0 (a @ r) (length a) = Some (a @ drop (length a) (apn_name u))" using l assms(2) by (simp add: memcpy_ok)
  moreover have "wr (a @ drop (length a) (apn_name u)) (length a) 0 = Some (a @ [0] @ drop (length a + 1) (apn_name u))"
    using l assms(2) by (simp add: wr_def list_update_append drop_update)
  ultimately show ?thesis using g n by (simp add: set_apn_name_def)
qed

lemma default_bearer_reads:
  assumes "rd v p = Some q" and "rd v (p + 1) = Some n" and "set_apn_name u (drop (p + 2) v) n = Some u1"
    and "rd v (p + (unat n + 3)) = Some t" and "t AND 1 \<noteq> 0" and "set_pdn_ip u1 (drop (p + (unat n + 4)) v) = Some u2"
    and "find_guti v (p + (unat n + 8)) = Some (Some g)" and "set_guti u2 (drop g v) = Some u3"
  shows "default_bearer u v p ret = Some (u3, Code ret)"
proof -
  have "p + 1 + unat n + 1 + 1 = p + (unat n + 3)" "p + 1 + unat n + 1 + 2 = p + (unat n + 4)"
    "p + 1 + unat n + 1 + 2 + 4 = p + (unat n + 8)" "p + 1 + 1 = p + 2" by simp_all
  with assms show ?thesis by (simp only: default_bearer_def Let_def bind.bind_lunit if_False option.case)
qed

lemma default_bearer_ok:
  assumes ok: "bearer_ok b" and wf: "wf_UE u"
  shows "default_bearer u (pre @ bearer_accept b @ post) (length pre) ret =
    Some (u\<lparr>apn_name := br_apn b @ [0] @ drop (length (br_apn b) + 1) (apn_name u), pdn_ip := br_address b, guti := br_guti b\<rparr>, Code ret)"
proof -
  obtain q0 q1 t0 t1 g0 g1 where l: "br_esm b = [q0, q1]" "br_type b = [t0, t1]" "br_guti_head b = [g0, g1]"
    using ok by (auto simp: bearer_ok_def numeral_eq_Suc length_Suc_conv)
  let ?a = "br_apn b"
  let ?n = "of_nat (length ?a) :: byte"
  let ?o = "concat (map option_bytes (br_options b))"
  let ?u1 = "u\<lparr>apn_name := ?a @ [0] @ drop (length ?a + 1) (apn_name u)\<rparr>"
  have n: "unat ?n = length ?a" using ok by (simp add: bearer_ok_def unat_of_nat)
  have wf1: "wf_UE ?u1" using wf ok by (simp add: wf_UE_def bearer_ok_def del: wf_UE_lengths wf_UE_lengths4)
  have wf2: "wf_UE (?u1\<lparr>pdn_ip := br_address b\<rparr>)"
    using wf ok by (simp add: wf_UE_def bearer_ok_def del: wf_UE_lengths wf_UE_lengths4)
  define w where "w = [q1, ?n] @ ?a @ [t0, t1] @ br_address b @ ?o @ [0x50, g0, g1] @ br_guti b @ br_rest b @ post"
  have e: "pre @ bearer_accept b @ post = pre @ w" by (simp add: bearer_accept_def bearer_end_def l w_def)
  have ok': "length ?a \<le> 31" "length (br_address b) = 4" "length (br_guti b) = 10" "t1 AND 1 \<noteq> 0"
    "\<forall>x \<in> set (br_options b). fst x \<in> {0x27, 0x5e} \<and> length (snd x) < 256"
    using ok by (simp_all add: bearer_ok_def l)
  have g: "find_guti (pre @ w) (length pre + (unat ?n + 8)) = Some (Some (length pre + (length ?a + 8 + length ?o + 3)))"
    using find_guti_options [OF ok'(5), of "pre @ [q1, ?n] @ ?a @ [t0, t1] @ br_address b" g0 "g1 # br_guti b @ br_rest b @ post"]
      ok'(2) n by (simp add: w_def add.assoc add.commute add.left_commute)
  show ?thesis
    unfolding e
  proof (rule default_bearer_reads [OF _ _ _ _ ok'(4) _ g])
    show "rd (pre @ w) (length pre) = Some q1" "rd (pre @ w) (length pre + 1) = Some ?n"
      "rd (pre @ w) (length pre + (unat ?n + 3)) = Some t1"
      unfolding shift_simps n by (simp_all add: w_def rd_def nth_append)
    show "set_apn_name u (drop (length pre + 2) (pre @ w)) ?n = Some ?u1"
      unfolding shift_simps using set_apn_name_ok [OF wf ok'(1)] by (simp add: w_def)
    show "set_pdn_ip ?u1 (drop (length pre + (unat ?n + 4)) (pre @ w)) = Some (?u1\<lparr>pdn_ip := br_address b\<rparr>)"
      unfolding shift_simps n using setters_ok(3) [OF wf1] ok'(2) by (simp add: w_def drop_Cons')
    show "set_guti (?u1\<lparr>pdn_ip := br_address b\<rparr>) (drop (length pre + (length ?a + 8 + length ?o + 3)) (pre @ w)) =
        Some (u\<lparr>apn_name := ?a @ [0] @ drop (length ?a + 1) (apn_name u), pdn_ip := br_address b, guti := br_guti b\<rparr>)"
      unfolding shift_simps using setters_ok(4) [OF wf2] ok'(2,3) by (simp add: w_def drop_Cons')
  qed
qed

lemma e_rab_item_ok:
  assumes ok: "bearer_ok b" and wf: "wf_UE u"
  shows "e_rab_item u (pre @ bearer_value b @ post) (length pre) ret = Some (apply_bearer b u, Code ret)"
proof -
  obtain q0 q1 where q: "br_esm b = [q0, q1]" using ok by (auto simp: bearer_ok_def numeral_eq_Suc length_Suc_conv)
  define z where "z = (of_nat (length (drop 5 (bearer_value b))) :: byte)"
  have l: "length (br_qos b) = 6" "length (br_gateway b) = 4" "length (br_nas b) = 22" "br_nas b ! 1 AND 0x0F = 0x07"
    using ok by (simp_all add: bearer_ok_def)
  define h where "h = [0, 0, 0x34, 0, z] @ br_qos b @ br_gateway b @ UINT32_TO_ARRAY (br_teid b) @ br_nas b @
      [ACTIVATE_DEFAULT_EPS_BEARER_CONTEXT_REQUEST, q0]"
  define w where "w = h @ bearer_accept b @ post"
  have hl: "length h = 43" using l by (simp add: h_def)
  have e: "bearer_value b @ post = w" by (simp add: w_def h_def bearer_value_def q z_def Let_def)
  let ?u = "u\<lparr>spgw_ip := br_gateway b, gtp_teid := br_teid b\<rparr>"
  have wf': "wf_UE ?u" using wf l by (simp add: wf_UE_def del: wf_UE_lengths wf_UE_lengths4)
  have r: "rd w 1 = Some 0" "rd w (Suc (Suc 0)) = Some 0x34" "rd w 41 = Some ACTIVATE_DEFAULT_EPS_BEARER_CONTEXT_REQUEST" "rd w 20 = Some (br_nas b ! 1)"
    "rd w 5 = Some (w ! 5)" "rd w 29 = Some (w ! 29)"
    using l by (simp_all add: w_def h_def rd_def nth_append)
  have s: "set_spgw_ip u (drop 11 w) = Some (u\<lparr>spgw_ip := br_gateway b\<rparr>)"
    using l setters_ok(2) [OF wf, of "drop 11 w"] by (simp add: w_def h_def)
  have t: "ARRAY_TO_UINT32 w 15 = Some (br_teid b)"
    by (rule ARRAY_TO_UINT32_read) (use l in \<open>simp add: w_def h_def rdn_def\<close>)
  have d: "default_bearer ?u w 43 ret = Some (apply_bearer b u, Code ret)"
    using default_bearer_ok [OF ok wf', of h post ret] by (simp add: w_def hl apply_bearer_def)
  have "e_rab_item u w 0 ret = Some (apply_bearer b u, Code ret)"
    using r s t d l(4) by (simp add: e_rab_item_def Let_def ue_simps)
  then show ?thesis by (simp add: e e_rab_shift)
qed

section \<open>Other elements\<close>

text \<open>What the UE learns from an element that is not a NAS message, in a message of the core.\<close>

datatype core_ie = Mme_Id "byte list" | Bearer bearer | Capabilities "byte list" | Other byte "byte list"

definition core_element :: "byte \<Rightarrow> core_ie \<Rightarrow> ie" where
  "core_element c x =
     (case x of
        Mme_Id m \<Rightarrow> \<lparr>ie_id = 0, ie_crit = c, ie_value = m\<rparr>
      | Bearer b \<Rightarrow> \<lparr>ie_id = 0x18, ie_crit = c, ie_value = bearer_value b\<rparr>
      | Capabilities v \<Rightarrow> \<lparr>ie_id = 0x6b, ie_crit = c, ie_value = v\<rparr>
      | Other i v \<Rightarrow> \<lparr>ie_id = i, ie_crit = c, ie_value = v\<rparr>)"

definition core_ok :: "core_ie \<Rightarrow> bool" where
  "core_ok x \<longleftrightarrow>
     (case x of
        Mme_Id m \<Rightarrow> length m \<le> 16
      | Bearer b \<Rightarrow> bearer_ok b
      | Capabilities v \<Rightarrow> 4 \<le> length v \<and> length v < 128
      | Other i v \<Rightarrow> length v < 128 \<and> i \<notin> {0, 0x18, 0x1A, 0x6b} \<and> (i = 0x49 \<longrightarrow> 32 \<le> length v) \<and>
          (i = 0x63 \<longrightarrow> 4 \<le> length v) \<and> (i = 0x28 \<longrightarrow> 33 \<le> length v))"

definition apply_core :: "core_ie \<Rightarrow> UE \<Rightarrow> UE" where
  "apply_core x u =
     (case x of
        Mme_Id m \<Rightarrow> u\<lparr>mme_s1ap_id := m @ drop (length m) (mme_s1ap_id u), mme_s1ap_id_len := of_nat (length m)\<rparr>
      | Bearer b \<Rightarrow> apply_bearer b u
      | Capabilities v \<Rightarrow> u\<lparr>security_capabilities := take 4 v\<rparr>
      | Other i v \<Rightarrow> u)"

text \<open>All but the bearer, which keeps what the elements before it gave, are a success.\<close>

definition core_code :: "core_ie \<Rightarrow> nat \<Rightarrow> nat" where
  "core_code x ret = (case x of Bearer b \<Rightarrow> ret | _ \<Rightarrow> 0)"

lemma core_value_short: "core_ok x \<Longrightarrow> length (ie_value (core_element c x)) < 128"
  by (cases x) (simp_all add: core_ok_def core_element_def bearer_ok_def)

lemma core_wf: "wf_UE u \<Longrightarrow> core_ok x \<Longrightarrow> wf_UE (apply_core x u)"
  by (cases x)
    (simp_all add: wf_UE_def apply_core_def apply_bearer_def core_ok_def bearer_ok_def del: wf_UE_lengths wf_UE_lengths4)

lemma set_security_capabilities_ok:
  "wf_UE u \<Longrightarrow> 4 \<le> length v \<Longrightarrow> set_security_capabilities u v = Some (u\<lparr>security_capabilities := take 4 v\<rparr>)"
  by (simp add: set_security_capabilities_def memcpy_ok)

lemma ucast_byte_inject: "(ucast (i :: byte) :: u16) = ucast (j :: byte) \<longleftrightarrow> i = j"
  by (metis high_low_bytes(2))

lemma byte_ids:
  "(ucast (i :: byte) :: u16) = 0 \<longleftrightarrow> i = 0" "(ucast i :: u16) = 0x42 \<longleftrightarrow> i = 0x42" "(ucast i :: u16) = 0x18 \<longleftrightarrow> i = 0x18"
  "(ucast i :: u16) = 0x6b \<longleftrightarrow> i = 0x6b" "(ucast i :: u16) = 0x49 \<longleftrightarrow> i = 0x49" "(ucast i :: u16) = 0x63 \<longleftrightarrow> i = 0x63"
  "(ucast i :: u16) = 0x02 \<longleftrightarrow> i = 0x02" "(ucast i :: u16) = 0x28 \<longleftrightarrow> i = 0x28" "(ucast i :: u16) = 0x1A \<longleftrightarrow> i = 0x1A"
  using ucast_byte_inject [of i 0] ucast_byte_inject [of i "0x42"] ucast_byte_inject [of i "0x18"] ucast_byte_inject [of i "0x6b"]
    ucast_byte_inject [of i "0x49"] ucast_byte_inject [of i "0x63"] ucast_byte_inject [of i "0x02"] ucast_byte_inject [of i "0x28"]
    ucast_byte_inject [of i "0x1A"] by simp_all

lemma other_item_ok:
  assumes ok: "core_ok x" and wf: "wf_UE u"
  shows "other_item u (ucast (ie_id (core_element c x))) (pre @ ie_value (core_element c x) @ post) (length pre)
      (of_nat (length (ie_value (core_element c x)))) ret = Some (apply_core x u, Code (core_code x ret))"
proof (cases x)
  case (Mme_Id m)
  then show ?thesis using ok wf setters_ok(1) [OF wf, of "of_nat (length m)" "m @ post"]
    by (simp add: core_element_def other_item_def core_ok_def apply_core_def core_code_def rdn_def unat_of_nat shift_simps)
next
  case (Bearer b)
  then show ?thesis using ok e_rab_item_ok [OF _ wf, of b pre post ret]
    by (simp add: core_element_def other_item_def core_ok_def apply_core_def core_code_def)
next
  case (Capabilities v)
  then show ?thesis using ok set_security_capabilities_ok [OF wf, of "v @ post"]
    by (simp add: core_element_def other_item_def core_ok_def apply_core_def core_code_def rdn_def)
next
  case (Other i v)
  have l: "length v < 128" using ok by (simp add: core_ok_def Other)
  then have n: "unat (of_nat (length v) :: byte) = length v" by (simp add: unat_of_nat)
  have ten: "(of_nat (length v) :: byte) = 10 \<longleftrightarrow> length v = 10"
  proof
    assume "(of_nat (length v) :: byte) = 10"
    then have "unat (of_nat (length v) :: byte) = unat (10 :: byte)" by simp
    then show "length v = 10" by (simp add: n)
  qed simp
  show ?thesis using ok l
    by (auto simp: Other core_element_def other_item_def core_ok_def apply_core_def core_code_def byte_ids n ten shift_simps
        rdn_def rd_def nth_append)
qed

section \<open>Messages of the core\<close>

text \<open>An element with its criticality, which the code does not look at.\<close>

type_synonym element = "byte \<times> core_ie"

definition learn_core :: "element list \<Rightarrow> UE \<Rightarrow> UE" where
  "learn_core xs u = foldl (\<lambda>u x. apply_core (snd x) u) u xs"

definition codes :: "element list \<Rightarrow> nat \<Rightarrow> nat" where
  "codes xs ret = foldl (\<lambda>r x. core_code (snd x) r) ret xs"

lemma codes_success: "codes xs ret = (if \<exists>x \<in> set xs. \<forall>b. snd x \<noteq> Bearer b then 0 else ret)"
  unfolding codes_def by (induction xs arbitrary: ret) (auto simp: core_code_def split: core_ie.split)

abbreviation (input) elements :: "element list \<Rightarrow> ie list" where
  "elements xs \<equiv> map (\<lambda>x. core_element (fst x) (snd x)) xs"

lemma element_step:
  assumes ok: "core_ok x" and wf: "wf_UE u" and len: "length pre < len"
  shows "nas_transport_loop (Suc n) ch u (pre @ encode_ie (core_element c x) @ post) len (length pre) ret =
     nas_transport_loop n ch (apply_core x u) (pre @ encode_ie (core_element c x) @ post) len
       (length (pre @ encode_ie (core_element c x))) (core_code x ret)"
proof -
  let ?x = "core_element c x"
  let ?h = "[0, ie_id ?x, ie_crit ?x, of_nat (length (ie_value ?x))]"
  have l: "length (ie_value ?x) < 128" by (rule core_value_short [OF ok])
  then have n: "unat (of_nat (length (ie_value ?x)) :: byte) = length (ie_value ?x)" by (simp add: unat_of_nat)
  have i: "ie_id ?x \<noteq> 0x1A" using ok by (cases x) (simp_all add: core_element_def core_ok_def)
  have e: "encode_ie ?x = ?h @ ie_value ?x" using l by (simp add: encode_ie_def encode_length_def)
  have o: "other_item u (ucast (ie_id ?x)) (pre @ ?h @ ie_value ?x @ post) (length pre + 4) (of_nat (length (ie_value ?x))) ret =
      Some (apply_core x u, Code (core_code x ret))"
    using other_item_ok [OF ok wf, of c "pre @ ?h" post ret] by (simp add: numeral_eq_Suc)
  have r: "rd (pre @ ?h @ ie_value ?x @ post) (length pre) = Some 0" "rd (pre @ ?h @ ie_value ?x @ post) (length pre + 1) = Some (ie_id ?x)"
    "rd (pre @ ?h @ ie_value ?x @ post) (length pre + 2) = Some (ie_crit ?x)"
    "rd (pre @ ?h @ ie_value ?x @ post) (length pre + 3) = Some (of_nat (length (ie_value ?x)))"
    unfolding shift_simps by (simp_all add: rd_def)
  have "nas_transport_loop (Suc n) ch u (pre @ ?h @ ie_value ?x @ post) len (length pre) ret =
      nas_transport_loop n ch (apply_core x u) (pre @ ?h @ ie_value ?x @ post) len (length pre + 4 + length (ie_value ?x)) (core_code x ret)"
    using len o r i by (simp add: Let_def byte_ids n add.assoc)
  moreover have "length (pre @ encode_ie ?x) = length pre + 4 + length (ie_value ?x)" by (simp add: e)
  ultimately show ?thesis by (simp only: e append_assoc)
qed

lemma loop_elements:
  assumes "\<forall>x \<in> set xs. core_ok (snd x)" and "wf_UE u" and "length pre + length (concat (map encode_ie (elements xs))) \<le> len"
  shows "nas_transport_loop (length xs + n) ch u (pre @ concat (map encode_ie (elements xs)) @ post) len (length pre) ret =
     nas_transport_loop n ch (learn_core xs u) (pre @ concat (map encode_ie (elements xs)) @ post) len
       (length pre + length (concat (map encode_ie (elements xs)))) (codes xs ret)"
  using assms
proof (induction xs arbitrary: u pre ret)
  case (Cons x xs)
  let ?e = "encode_ie (core_element (fst x) (snd x))"
  have "length ?e > 0" by (simp add: encode_ie_def)
  moreover have "length pre + (length ?e + length (concat (map encode_ie (elements xs)))) \<le> len" using Cons.prems(3) by simp
  ultimately have p: "length pre < len" by linarith
  have "nas_transport_loop (Suc (length xs + n)) ch u (pre @ ?e @ concat (map encode_ie (elements xs)) @ post) len (length pre) ret =
      nas_transport_loop (length xs + n) ch (apply_core (snd x) u) ((pre @ ?e) @ concat (map encode_ie (elements xs)) @ post) len
        (length (pre @ ?e)) (core_code (snd x) ret)"
    using element_step [OF _ _ p, of "snd x" u "length xs + n" ch "fst x" "concat (map encode_ie (elements xs)) @ post" ret] Cons.prems
    by (simp del: nas_transport_loop.simps)
  also have "\<dots> = nas_transport_loop n ch (learn_core xs (apply_core (snd x) u)) ((pre @ ?e) @ concat (map encode_ie (elements xs)) @ post) len
      (length (pre @ ?e) + length (concat (map encode_ie (elements xs)))) (codes xs (core_code (snd x) ret))"
    using Cons.prems by (intro Cons.IH) (simp_all add: core_wf)
  finally show ?case by (simp add: learn_core_def codes_def add.assoc del: nas_transport_loop.simps)
qed (simp add: learn_core_def codes_def)

text \<open>The NAS messages the attach expects.\<close>

definition nas_challenge :: "byte \<Rightarrow> byte list \<Rightarrow> byte list \<Rightarrow> byte list" where
  "nas_challenge k rand autn = [0x07, AUTHENTICATION_REQUEST_S1, k] @ rand @ [16] @ autn"

definition nas_command :: "byte list \<Rightarrow> byte \<Rightarrow> byte \<Rightarrow> byte list \<Rightarrow> byte list" where
  "nas_command mac sq algs rest = [0x37] @ mac @ [sq, 0x07, SECURITY_MODE_COMMAND, algs] @ rest"

definition challenged :: "byte list \<Rightarrow> byte list \<Rightarrow> UE \<Rightarrow> UE" where
  "challenged rand autn u = u\<lparr>auth_challenge := (auth_challenge u)\<lparr>RAND := rand, AUTN := autn\<rparr>\<rparr>"

lemma nas_challenge_reads:
  assumes "rd v (p + 1) = Some 0x07" and "rd v (p + 2) = Some AUTHENTICATION_REQUEST_S1"
    and "rdn v (p + 4) 16 = Some rand" and "rdn v (p + 21) 16 = Some autn"
  shows "nas_item True u v p ret = Some (challenged rand autn u, 0)"
proof -
  have "p + 1 + 1 = p + 2" "p + 2 + 1 = p + 3" "p + 3 + 1 = p + 4" "p + 4 + 16 + 1 = p + 21" by simp_all
  with assms show ?thesis
    by (simp only: nas_item_def nas_start_def nas_type_def Let_def bind.bind_lunit if_True if_P refl prod.case simp_thms challenged_def
        get_auth_challenge_def)
qed

lemma nas_command_reads:
  assumes "rd v (p + 1) = Some 0x37" and "rdn v (p + 2) 6 = Some m" and "rd v (p + 8) = Some SECURITY_MODE_COMMAND"
    and "rd v (p + 9) = Some algs" and "rdn v (p + 11) 3 = Some c"
  shows "nas_item ch u v p ret = Some (u\<lparr>nas_session_security_algorithms := algs\<rparr>, 0)"
proof -
  have "p + 1 + 1 = p + 2" "p + 1 + 7 = p + 8" "p + 8 + 1 = p + 9" "p + 8 + 2 = p + 10" "p + 10 + 1 = p + 11" by simp_all
  moreover have "(0x37 :: byte) \<noteq> 0x07" "(SECURITY_MODE_COMMAND :: byte) \<noteq> AUTHENTICATION_REQUEST_S1" "(1 :: int) \<noteq> 0" by simp_all
  ultimately show ?thesis using assms
    by (simp only: nas_item_def nas_start_def nas_type_def Let_def bind.bind_lunit if_True if_False if_P refl prod.case simp_thms
        set_nas_session_security_algorithms_def)
qed

lemma nas_challenge_item:
  assumes "length rand = 16" and "length autn = 16"
  shows "nas_item True u (pre @ l # nas_challenge k rand autn) (length pre) ret = Some (challenged rand autn u, 0)"
proof (rule nas_challenge_reads)
  show "rd (pre @ l # nas_challenge k rand autn) (length pre + 1) = Some 0x07"
    "rd (pre @ l # nas_challenge k rand autn) (length pre + 2) = Some AUTHENTICATION_REQUEST_S1"
    "rdn (pre @ l # nas_challenge k rand autn) (length pre + 4) 16 = Some rand"
    "rdn (pre @ l # nas_challenge k rand autn) (length pre + 21) 16 = Some autn"
    unfolding shift_simps using assms by (simp_all add: nas_challenge_def rd_def rdn_def)
qed

lemma nas_command_item:
  assumes "length mac = 4" and "4 \<le> length rest"
  shows "nas_item ch u (pre @ l # nas_command mac sq algs rest) (length pre) ret = Some (u\<lparr>nas_session_security_algorithms := algs\<rparr>, 0)"
proof (rule nas_command_reads)
  obtain m0 m1 m2 m3 where m: "mac = [m0, m1, m2, m3]" using list4 [OF assms(1)] by blast
  show "rd (pre @ l # nas_command mac sq algs rest) (length pre + 1) = Some 0x37"
    "rdn (pre @ l # nas_command mac sq algs rest) (length pre + 2) 6 = Some (mac @ [sq, 0x07])"
    "rd (pre @ l # nas_command mac sq algs rest) (length pre + 8) = Some SECURITY_MODE_COMMAND"
    "rd (pre @ l # nas_command mac sq algs rest) (length pre + 9) = Some algs"
    "rdn (pre @ l # nas_command mac sq algs rest) (length pre + 11) 3 = Some (take 3 (drop 1 rest))"
    unfolding shift_simps using assms by (simp_all add: m nas_command_def rd_def rdn_def)
qed

text \<open>A message with elements and, at its end, a NAS message; the code reads nothing right after a NAS message.\<close>

definition pdu_downlink :: "byte \<Rightarrow> element list \<Rightarrow> byte list \<Rightarrow> pdu" where
  "pdu_downlink c xs m = \<lparr>p_type = 0, p_proc = DOWNLINK_NAS_TRANSPORT, p_crit = c, p_ies = elements xs @ [s1_nas m]\<rparr>"

definition pdu_context_request :: "byte \<Rightarrow> element list \<Rightarrow> pdu" where
  "pdu_context_request c xs = \<lparr>p_type = 0, p_proc = 0x09, p_crit = c, p_ies = elements xs\<rparr>"

lemma count_of: "n < 0x10000 \<Longrightarrow> 256 * unat (of_nat (n div 256) :: byte) + unat (of_nat n :: byte) = n"
  by (rule count_bytes)

lemma downlink_elements:
  assumes "\<forall>x \<in> set xs. core_ok (snd x)" and "wf_UE u" and "length xs < 0x10000" and "v = encode_body (elements xs)"
  shows "analyze_downlink_NAS_Transport v (length v) ch u = Some (learn_core xs u, Code (codes xs 1))"
proof -
  let ?h = "[0, of_nat (length xs div 256), of_nat (length xs)] :: byte list"
  have v: "v = ?h @ concat (map encode_ie (elements xs)) @ []" by (simp add: assms(4) encode_body_def)
  have "nas_transport_loop (length xs + 0) ch u v (length v) (length ?h) 1 = Some (learn_core xs u, Code (codes xs 1))"
    unfolding v by (subst loop_elements [OF assms(1,2)]) simp_all
  then show ?thesis
    using count_of [OF assms(3)] by (simp add: analyze_downlink_NAS_Transport_def v rd_def numeral_3_eq_3)
qed

lemma downlink_with_nas:
  assumes "\<forall>x \<in> set xs. core_ok (snd x)" and "wf_UE u" and "length xs < 0xFFFF" and "length m < 127"
    and nas: "\<And>pre l ret. nas_item ch (learn_core xs u) (pre @ l # m) (length pre) ret = Some (u', 0)"
    and "v = encode_body (elements xs @ [s1_nas m])"
  shows "analyze_downlink_NAS_Transport v (length v) ch u = Some (u', Code 0)"
proof -
  let ?h = "[0, of_nat (Suc (length xs) div 256), of_nat (Suc (length xs))] :: byte list"
  let ?e = "concat (map encode_ie (elements xs))"
  let ?n = "[0, 0x1A, CRITICALITY_REJECT, of_nat (Suc (length m))] :: byte list"
  have e: "encode_ie (s1_nas m) = ?n @ of_nat (length m) # m"
    using assms(4) by (simp add: s1_nas_def encode_ie_def encode_length_def)
  have v: "v = ?h @ ?e @ ?n @ of_nat (length m) # m" by (simp add: assms(6) encode_body_def e)
  have "nas_transport_loop (length xs + 1) ch u v (length v) (length ?h) 1 =
      nas_transport_loop 1 ch (learn_core xs u) v (length v) (length ?h + length ?e) (codes xs 1)"
    unfolding v by (rule loop_elements [OF assms(1,2)]) simp
  also have "\<dots> = Some (u', Code 0)"
  proof -
    let ?p = "?h @ ?e"
    have w: "v = ?p @ ?n @ of_nat (length m) # m" and w': "v = (?p @ ?n) @ of_nat (length m) # m" by (simp_all add: v)
    have r: "rd v (length ?p) = Some 0" "rd v (length ?p + 1) = Some 0x1A" "rd v (length ?p + 2) = Some CRITICALITY_REJECT"
      "rd v (length ?p + 3) = Some (of_nat (Suc (length m)))"
      unfolding w shift_simps by (simp_all add: rd_def)
    have i: "nas_item ch (learn_core xs u) v (length ?p + 4) (codes xs 1) = Some (u', 0)"
    proof -
      have "length (?p @ ?n) = length ?p + 4" by simp
      with nas [of "?p @ ?n" "of_nat (length m)" "codes xs 1"] show ?thesis by (simp only: w')
    qed
    have l: "\<not> length v \<le> length ?p" by (simp add: w)
    have "nas_transport_loop (Suc 0) ch (learn_core xs u) v (length v) (length ?p) (codes xs 1) = Some (u', Code 0)"
      using r i l by (simp del: length_append)
    then show ?thesis by simp
  qed
  finally show ?thesis
    using count_of [of "Suc (length xs)"] assms(3) by (simp add: analyze_downlink_NAS_Transport_def v rd_def numeral_3_eq_3)
qed

lemma ie_count: "length xs \<le> length (concat (map encode_ie xs))"
proof (induction xs)
  case (Cons x xs)
  have "4 \<le> length (encode_ie x)" by (simp add: encode_ie_def encode_length_def)
  with Cons show ?case by simp
qed simp

text \<open>A message of less than 128 bytes after its header has a length of one byte, which counts a block of its body.\<close>

definition core_message :: "pdu \<Rightarrow> bool" where
  "core_message p \<longleftrightarrow> length (encode_body (p_ies p)) < 128"

lemma core_message_block:
  assumes "core_message p"
  shows "rd (encode_pdu p @ r) 0 = Some (p_type p)" "rd (encode_pdu p @ r) 1 = Some (p_proc p)" "rd (encode_pdu p @ r) 2 = Some (p_crit p)"
    "rd (encode_pdu p @ r) 3 = Some (of_nat (length (encode_body (p_ies p))))"
    "message_block (encode_pdu p @ r) 4 (of_nat (length (encode_body (p_ies p)))) = Some (encode_body (p_ies p))"
    "unat (of_nat (length (encode_body (p_ies p))) :: byte) = length (encode_body (p_ies p))"
    "length (encode_pdu p) \<le> 2048"
proof -
  have l: "length (encode_body (p_ies p)) < 128" using assms by (simp add: core_message_def)
  then show u: "unat (of_nat (length (encode_body (p_ies p))) :: byte) = length (encode_body (p_ies p))" by (simp add: unat_of_nat)
  have e: "encode_pdu p @ r = [p_type p, p_proc p, p_crit p, of_nat (length (encode_body (p_ies p)))] @ encode_body (p_ies p) @ r"
    using l by (simp add: encode_pdu_def encode_length_def)
  show "rd (encode_pdu p @ r) 0 = Some (p_type p)" "rd (encode_pdu p @ r) 1 = Some (p_proc p)" "rd (encode_pdu p @ r) 2 = Some (p_crit p)"
    "rd (encode_pdu p @ r) 3 = Some (of_nat (length (encode_body (p_ies p))))"
    "message_block (encode_pdu p @ r) 4 (of_nat (length (encode_body (p_ies p)))) = Some (encode_body (p_ies p))"
    unfolding e message_block_def u by (simp_all add: rd_def rdn_def)
  show "length (encode_pdu p) \<le> 2048" using l by (simp add: encode_pdu_def encode_length_def)
qed

lemma challenge_read:
  assumes "p = pdu_downlink c xs (nas_challenge k rand autn)" and "core_message p" and "\<forall>x \<in> set xs. core_ok (snd x)" and "wf_UE u"
    and "length rand = 16" and "length autn = 16"
  shows "analyze_Authentication_Request u (encode_pdu p @ r) = Some (challenged rand autn (learn_core xs u), Code 0)"
proof -
  have l: "length xs < 0xFFFF" using assms(2) ie_count [of "elements xs"]
    by (simp add: core_message_def assms(1) pdu_downlink_def encode_body_def)
  have "analyze_downlink_NAS_Transport (encode_body (p_ies p)) (length (encode_body (p_ies p))) True u =
      Some (challenged rand autn (learn_core xs u), Code 0)"
    by (rule downlink_with_nas [OF assms(3,4) l])
      (simp_all add: nas_challenge_item assms(1,5,6) pdu_downlink_def, simp add: nas_challenge_def assms(5,6))
  moreover have "p_type p = 0" "p_proc p = DOWNLINK_NAS_TRANSPORT" by (simp_all add: assms(1) pdu_downlink_def)
  ultimately show ?thesis
    using core_message_block(1-5) [OF assms(2), of r] core_message_block(6) [OF assms(2)] by (simp add: analyze_Authentication_Request_def del: length_append)
qed

lemma command_read:
  assumes "p = pdu_downlink c xs (nas_command mac sq algs rest)" and "core_message p" and "\<forall>x \<in> set xs. core_ok (snd x)" and "wf_UE u"
    and "length mac = 4" and "4 \<le> length rest" and "length rest < 100"
  shows "analyze_Security_Mode_Command u (encode_pdu p @ r) =
    Some ((learn_core xs u)\<lparr>nas_session_security_algorithms := algs\<rparr>, Code 0)"
proof -
  have l: "length xs < 0xFFFF" using assms(2) ie_count [of "elements xs"]
    by (simp add: core_message_def assms(1) pdu_downlink_def encode_body_def)
  have "analyze_downlink_NAS_Transport (encode_body (p_ies p)) (length (encode_body (p_ies p))) False u =
      Some ((learn_core xs u)\<lparr>nas_session_security_algorithms := algs\<rparr>, Code 0)"
    by (rule downlink_with_nas [OF assms(3,4) l])
      (simp_all add: nas_command_item assms(1,5,6) pdu_downlink_def, use assms(5-7) in \<open>simp add: nas_command_def\<close>)
  moreover have "p_type p = 0" "p_proc p = DOWNLINK_NAS_TRANSPORT" by (simp_all add: assms(1) pdu_downlink_def)
  ultimately show ?thesis
    using core_message_block(1-5) [OF assms(2), of r] core_message_block(6) [OF assms(2)] by (simp add: analyze_Security_Mode_Command_def del: length_append)
qed

text \<open>An Initial Context Setup Request is longer than that.\<close>

definition context_message :: "pdu \<Rightarrow> bool" where
  "context_message p \<longleftrightarrow> 128 \<le> length (encode_body (p_ies p)) \<and> length (encode_body (p_ies p)) < 256"

lemma context_read:
  assumes "p = pdu_context_request c xs" and "context_message p" and "\<forall>x \<in> set xs. core_ok (snd x)" and "wf_UE u"
    and some: "\<exists>x \<in> set xs. \<forall>b. snd x \<noteq> Bearer b"
  shows "analyze_InitialContextSetupRequest u (encode_pdu p @ r) = Some (learn_core xs u, Code 0)"
proof -
  let ?b = "encode_body (elements xs)"
  have l: "128 \<le> length ?b" "length ?b < 256" using assms(2) by (simp_all add: context_message_def assms(1) pdu_context_request_def)
  then have u: "unat (of_nat (length ?b) :: byte) = length ?b" by (simp add: unat_of_nat)
  have xs: "length xs < 0x10000" using l(2) ie_count [of "elements xs"] by (simp add: encode_body_def)
  have e: "encode_pdu p @ r = [0, 0x09, c, 0x80, of_nat (length ?b)] @ ?b @ r"
    using l by (simp add: assms(1) pdu_context_request_def encode_pdu_def encode_length_def)
  have "message_block (encode_pdu p @ r) 5 (of_nat (length ?b)) = Some ?b"
    unfolding e message_block_def u by (simp add: rdn_def)
  moreover have "rd (encode_pdu p @ r) 0 = Some 0" "rd (encode_pdu p @ r) 1 = Some 0x09" "rd (encode_pdu p @ r) 2 = Some c"
    "rd (encode_pdu p @ r) 3 = Some 0x80" "rd (encode_pdu p @ r) 4 = Some (of_nat (length ?b))"
    unfolding e by (simp_all add: rd_def)
  ultimately show ?thesis
    using downlink_elements [OF assms(3,4) xs refl, of False] some u
    by (simp add: analyze_InitialContextSetupRequest_def codes_success)
qed

section \<open>The attach\<close>

text \<open>TS 33.401, annex A: K_ASME from CK and IK, the serving network and SQN xor AK, and the NAS keys from it.\<close>

definition with_kasme :: "eNB \<Rightarrow> UE \<Rightarrow> UE" where
  "with_kasme e u = u\<lparr>auth_challenge := (auth_challenge u)
     \<lparr>KASME := KDF (CK (auth_challenge u) @ IK (auth_challenge u)) 0x10 [enb_plmn e, take 6 (AUTN (auth_challenge u))]\<rparr>\<rparr>"

definition eps_secured :: "UE \<Rightarrow> UE" where
  "eps_secured u = u\<lparr>auth_challenge := (auth_challenge u)
     \<lparr>NAS_KEY_ENC := drop 16 (KDF (KASME (auth_challenge u)) 0x15 [[1], [get_nas_session_enc_alg u]]),
      NAS_KEY_INT := drop 16 (KDF (KASME (auth_challenge u)) 0x15 [[2], [get_nas_session_int_alg u]])\<rparr>\<rparr>"

lemma derive_kasme_ok:
  assumes "wf_env E" and "wf_eNB e" and "wf_UE u"
  shows "derive_kasme E e u = Some (with_kasme e u)" and "wf_UE (with_kasme e u)"
proof -
  have c: "wf_challenge (auth_challenge u)" using assms(3) by simp
  have k: "generate_kasme (e_hmac E) (take 14 (e_input63 E)) (e_key32 E) (CK (auth_challenge u)) (IK (auth_challenge u))
      (AUTN (auth_challenge u)) (enb_plmn e) 3 =
      Some (KDF (CK (auth_challenge u) @ IK (auth_challenge u)) 0x10 [enb_plmn e, take 6 (AUTN (auth_challenge u))])"
    using assms(1,2) c by (intro generate_kasme_KDF) (simp_all add: wf_env_def wf_eNB_def wf_challenge_def)
  show "derive_kasme E e u = Some (with_kasme e u)"
    using c by (simp add: derive_kasme_def Let_def ue_simps k wrn_def wf_challenge_def with_kasme_def)
  show "wf_UE (with_kasme e u)"
    using assms(3) c by (simp add: with_kasme_def wf_UE_def wf_challenge_def del: wf_UE_lengths wf_UE_lengths4)
qed

lemma derive_eps_keys_ok:
  assumes "wf_UE u"
  shows "derive_eps_keys E u = Some (eps_secured u)" and "wf_UE (eps_secured u)"
proof -
  have c: "wf_challenge (auth_challenge u)" using assms by simp
  then show "derive_eps_keys E u = Some (eps_secured u)"
    by (simp add: derive_eps_keys_def Let_def ue_simps wf_challenge_def generate_nas_keys_KDF eps_secured_def)
  show "wf_UE (eps_secured u)"
    using assms c by (simp add: eps_secured_def wf_UE_def wf_challenge_def del: wf_UE_lengths wf_UE_lengths4)
qed

lemma apply_core_keeps:
  "nas_sequence_number (apply_core x u) = nas_sequence_number u" "core_ok x \<Longrightarrow> id_ok u \<Longrightarrow> id_ok (apply_core x u)"
  by (cases x; simp add: apply_core_def apply_bearer_def core_ok_def id_ok_def unat_of_nat)+

lemma learn_core_keeps:
  "nas_sequence_number (learn_core xs u) = nas_sequence_number u"
  "\<forall>x \<in> set xs. core_ok (snd x) \<Longrightarrow> wf_UE u \<Longrightarrow> wf_UE (learn_core xs u)"
  "\<forall>x \<in> set xs. core_ok (snd x) \<Longrightarrow> id_ok u \<Longrightarrow> id_ok (learn_core xs u)"
  unfolding learn_core_def by (induction xs arbitrary: u) (simp_all add: apply_core_keeps core_wf)

lemma challenged_keeps:
  "nas_sequence_number (challenged r a u) = nas_sequence_number u" "id_ok (challenged r a u) = id_ok u"
  "length r = 16 \<Longrightarrow> length a = 16 \<Longrightarrow> wf_UE u \<Longrightarrow> wf_UE (challenged r a u)"
  by (simp_all add: challenged_def id_ok_def)
    (simp add: wf_UE_def wf_challenge_def del: wf_UE_lengths wf_UE_lengths4)

lemma key_states:
  "nas_sequence_number (with_kasme e u) = nas_sequence_number u" "id_ok (with_kasme e u) = id_ok u"
  "nas_sequence_number (eps_secured u) = nas_sequence_number u" "id_ok (eps_secured u) = id_ok u"
  "id_ok (u\<lparr>nas_session_security_algorithms := a\<rparr>) = id_ok u"
  by (simp_all add: with_kasme_def eps_secured_def id_ok_def)

lemma algs_wf: "wf_UE (u\<lparr>nas_session_security_algorithms := a\<rparr>) = wf_UE u" "wf_UE (u\<lparr>nas_sequence_number := n\<rparr>) = wf_UE u"
  by (simp_all add: wf_UE_def del: wf_UE_lengths wf_UE_lengths4)

text \<open>What is sent and received.\<close>

lemma send_message:
  assumes "small_ies (p_ies p)"
  shows "send_S1 s (message_of init p) = Some (s\<lparr>pr_sent := pr_sent s @ [(encode_pdu p)[4 := init]]\<rparr>)"
proof -
  have "length (encode_pdu p) < 0x10000" using assms by (simp add: small_ies_def encode_pdu_def encode_body_def encode_length_def)
  then have "unat (of_nat (length (encode_pdu p)) :: u16) = length (encode_pdu p)" by (simp add: unat_of_nat)
  then show ?thesis by (simp add: send_S1_def message_to_buffer [OF assms] rdn_def)
qed

lemma encode_update:
  assumes "small_ies (p_ies p)"
  shows "(encode_pdu p)[4 := 0] = encode_pdu p" and "((encode_pdu p)[4 := 0])[0 := t] = encode_pdu (p\<lparr>p_type := t\<rparr>)"
proof -
  obtain l xs where e: "\<And>t. encode_pdu (p\<lparr>p_type := t\<rparr>) = t # p_proc p # p_crit p # l # 0 # xs"
    using assms by (auto simp: small_ies_def encode_pdu_def encode_body_def encode_length_def)
  have "encode_pdu p = p_type p # p_proc p # p_crit p # l # 0 # xs" using e [of "p_type p"] by simp
  moreover have "(a # b # c # d # x # xs)[4 := y] = a # b # c # d # y # xs" for a b c d x y :: byte by (simp add: numeral_eq_Suc)
  ultimately show "(encode_pdu p)[4 := 0] = encode_pdu p" and "((encode_pdu p)[4 := 0])[0 := t] = encode_pdu (p\<lparr>p_type := t\<rparr>)"
    by (simp_all only: e list_update.simps nat.case)
qed

lemma send_plain: "small_ies (p_ies p) \<Longrightarrow> send_S1 s (message_of 0 p) = Some (s\<lparr>pr_sent := pr_sent s @ [encode_pdu p]\<rparr>)"
  by (simp add: send_message encode_update)

lemma send_outcome_message:
  assumes "small_ies (p_ies p)"
  shows "send_outcome s (message_of 0 p) = Some (s\<lparr>pr_sent := pr_sent s @ [encode_pdu (p\<lparr>p_type := 0x20\<rparr>)]\<rparr>)"
proof -
  have l: "length (encode_pdu p) < 0x10000" using assms by (simp add: small_ies_def encode_pdu_def encode_body_def encode_length_def)
  have p: "0 < length (encode_pdu p)" by (simp add: encode_pdu_def)
  from l have "unat (of_nat (length (encode_pdu p)) :: u16) = length (encode_pdu p)" by (simp add: unat_of_nat)
  moreover have "wr ((encode_pdu p)[4 := 0]) 0 0x20 = Some (encode_pdu (p\<lparr>p_type := 0x20\<rparr>))"
    using p encode_update(2) [OF assms, of "0x20"] by (simp add: wr_def)
  moreover have "length (encode_pdu (p\<lparr>p_type := 0x20\<rparr>)) = length (encode_pdu p)" by (simp add: encode_pdu_def)
  ultimately show ?thesis by (simp add: send_outcome_def message_to_buffer [OF assms] rdn_def)
qed

lemma receive_message:
  assumes "length m \<le> 2048" and "length (pr_buf s) = 2048" and "pr_in s = Some m # es"
    and "\<And>r. analyze (pr_ue s) (m @ r) = Some (u, Code 0)"
  shows "receive_S1 analyze s = Some (s\<lparr>pr_in := es, pr_buf := m @ drop (length m) (pr_buf s), pr_ue := u\<rparr>, Going)"
    and "await_S1 analyze (pr_in s) s = Some (s\<lparr>pr_in := es, pr_buf := m @ drop (length m) (pr_buf s), pr_ue := u\<rparr>, Going)"
  using assms by (simp_all add: receive_S1_def memcpy_ok)

text \<open>The procedure from its end; each step sends its messages and hands over the UE.\<close>

abbreviation attach_complete :: "env \<Rightarrow> UE \<Rightarrow> byte list" where
  "attach_complete E u \<equiv> s1_protected E u 0x27 1 (nas_sequence_number u) [0x07, 0x43, 0x00, 0x03, 0x52, 0x00, 0xc2]"

lemma small_uplink:
  "wf_eNB e \<Longrightarrow> wf_UE u \<Longrightarrow> id_ok u \<Longrightarrow> wf_env E \<Longrightarrow> length m \<le> 43 \<Longrightarrow>
   small_ies (p_ies (pdu_s1_uplink c e u (s1_protected E v h n q m)))"
  by (rule small_pdus(3)) (simp_all add: s1_nas_lengths)

lemma context_request_sends:
  assumes "wf_env E" and "wf_eNB e" and "wf_UE (pr_ue s)" and "id_ok (pr_ue s)"
  shows "after_context_request E e s = Some (s\<lparr>pr_sent := pr_sent s @ map encode_pdu
      [pdu_capability (pr_ue s), pdu_context_response 0x20 (pr_ue s) (ue_ip (pr_ue s)),
       pdu_s1_uplink CRITICALITY_IGNORE e (pr_ue s) (attach_complete E (pr_ue s))],
      pr_ue := (pr_ue s)\<lparr>nas_sequence_number := nas_sequence_number (pr_ue s) + 1\<rparr>\<rparr>, Returned OK)"
proof -
  let ?u = "pr_ue s"
  have ip: "length (ue_ip ?u) = 4" using assms(3) by simp
  have t: "(pdu_context_response 0 ?u (ue_ip ?u))\<lparr>p_type := 0x20\<rparr> = pdu_context_response 0x20 ?u (ue_ip ?u)"
    by (simp add: pdu_context_response_def)
  show ?thesis
    using small_pdus(4) [OF assms(3,4)] small_pdus(5) [OF assms(3,4) ip, of 0]
      small_uplink [OF assms(2-4,1), of "[0x07, 0x43, 0x00, 0x03, 0x52, 0x00, 0xc2]"]
    by (simp add: after_context_request_def capability_written [OF assms(2-4)] context_written [OF assms(2-4) ip] ue_simps
        complete_written [OF assms(2-4,1)] send_plain send_outcome_message t)
qed

lemma security_command_sends:
  assumes "wf_env E" and "wf_eNB e" and "wf_UE (pr_ue s)" and "id_ok (pr_ue s)" and "length (pr_buf s) = 2048"
    and "pr_in s = Some (encode_pdu p) # es" and p: "p = pdu_context_request c xs" "context_message p" "\<forall>x \<in> set xs. core_ok (snd x)"
      "\<exists>x \<in> set xs. \<forall>b. snd x \<noteq> Bearer b"
    and "v = eps_secured (pr_ue s)" and "w = learn_core xs (v\<lparr>nas_sequence_number := nas_sequence_number v + 1\<rparr>)"
  shows "\<exists>b. after_security_command E e s = Some (s\<lparr>pr_in := es, pr_buf := b, pr_sent := pr_sent s @ map encode_pdu
      [pdu_s1_uplink CRITICALITY_IGNORE e v (s1_protected E v 0x47 0 (nas_sequence_number v) [0x07, 0x5e]),
       pdu_capability w, pdu_context_response 0x20 w (ue_ip w), pdu_s1_uplink CRITICALITY_IGNORE e w (attach_complete E w)],
      pr_ue := w\<lparr>nas_sequence_number := nas_sequence_number w + 1\<rparr>\<rparr>, Returned OK)"
proof -
  have v: "wf_UE v" "id_ok v" using derive_eps_keys_ok(2) [OF assms(3)] assms(4) by (simp_all add: assms(11) key_states)
  let ?v = "v\<lparr>nas_sequence_number := nas_sequence_number v + 1\<rparr>"
  have v': "wf_UE ?v" "id_ok ?v" using v by (simp_all add: algs_wf wf_UE_seq)
  have w: "wf_UE w" "id_ok w" using learn_core_keeps(2,3) [OF p(3)] v' by (simp_all add: assms(12))
  let ?m = "encode_pdu (pdu_s1_uplink CRITICALITY_IGNORE e v (s1_protected E v 0x47 0 (nas_sequence_number v) [0x07, 0x5e]))"
  let ?s = "s\<lparr>pr_ue := ?v, pr_sent := pr_sent s @ [?m]\<rparr>"
  have l: "length (encode_pdu p) \<le> 2048"
    using p(2) by (simp add: context_message_def encode_pdu_def encode_length_def)
  have r: "receive_S1 analyze_InitialContextSetupRequest ?s =
      Some (?s\<lparr>pr_in := es, pr_buf := encode_pdu p @ drop (length (encode_pdu p)) (pr_buf s), pr_ue := w\<rparr>, Going)"
    using receive_message(1) [OF l, of ?s es analyze_InitialContextSetupRequest w] assms(5,6,12)
      context_read [OF p(1-3) v'(1) p(4)] by simp
  show ?thesis
    using derive_eps_keys_ok(1) [OF assms(3)] secured_written [OF assms(2) v assms(1)] small_uplink [OF assms(2) v assms(1), of "[0x07, 0x5e]"]
    by (simp add: after_security_command_def ue_simps send_plain r and_then_def context_request_sends [OF assms(1,2)] w assms(11) [symmetric])
      (rule exI [of _ "encode_pdu p @ drop (length (encode_pdu p)) (pr_buf s)"], simp)
qed

lemma challenge_sends:
  assumes "wf_env E" and "wf_eNB e" and "wf_UE (pr_ue s)" and "id_ok (pr_ue s)" and "length (pr_buf s) = 2048"
    and "pr_in s = Some (encode_pdu p) # Some (encode_pdu q) # es"
    and p: "p = pdu_downlink c xs (nas_command mac sq algs rest)" "core_message p" "\<forall>x \<in> set xs. core_ok (snd x)"
      "length mac = 4" "4 \<le> length rest" "length rest < 100"
    and q: "q = pdu_context_request d ys" "context_message q" "\<forall>x \<in> set ys. core_ok (snd x)" "\<exists>x \<in> set ys. \<forall>b. snd x \<noteq> Bearer b"
    and u: "u = answered (pr_ue s)" and v: "v = eps_secured ((learn_core xs (with_kasme e u))\<lparr>nas_session_security_algorithms := algs\<rparr>)"
    and w: "w = learn_core ys (v\<lparr>nas_sequence_number := nas_sequence_number v + 1\<rparr>)"
  shows "\<exists>b. after_challenge E e s = Some (s\<lparr>pr_in := es, pr_buf := b, pr_sent := pr_sent s @ map encode_pdu
      [pdu_s1_uplink CRITICALITY_IGNORE e u ([0x07, 0x53, 8] @ RES (auth_challenge u)),
       pdu_s1_uplink CRITICALITY_IGNORE e v (s1_protected E v 0x47 0 (nas_sequence_number v) [0x07, 0x5e]),
       pdu_capability w, pdu_context_response 0x20 w (ue_ip w), pdu_s1_uplink CRITICALITY_IGNORE e w (attach_complete E w)],
      pr_ue := w\<lparr>nas_sequence_number := nas_sequence_number w + 1\<rparr>\<rparr>, Returned OK)"
proof -
  have a: "wf_UE u" "id_ok u" using compute_challenge_ok(2,3) [OF assms(3)] assms(4) by (simp_all add: u)
  note k = derive_kasme_ok [OF assms(1,2) a(1)]
  let ?k = "with_kasme e u"
  let ?l = "(learn_core xs ?k)\<lparr>nas_session_security_algorithms := algs\<rparr>"
  have l: "wf_UE ?l" "id_ok ?l"
    using learn_core_keeps(2,3) [OF p(3), of ?k] k(2) a(2) by (simp_all add: algs_wf key_states)
  let ?m = "encode_pdu (pdu_s1_uplink CRITICALITY_IGNORE e u ([0x07, 0x53, 8] @ RES (auth_challenge u)))"
  let ?s = "s\<lparr>pr_sent := pr_sent s @ [?m], pr_ue := ?k\<rparr>"
  let ?b = "encode_pdu p @ drop (length (encode_pdu p)) (pr_buf s)"
  let ?t = "?s\<lparr>pr_in := Some (encode_pdu q) # es, pr_buf := ?b, pr_ue := ?l\<rparr>"
  have r: "receive_S1 analyze_Security_Mode_Command ?s = Some (?t, Going)"
    using receive_message(1) [OF core_message_block(7) [OF p(2)], of ?s "Some (encode_pdu q) # es" analyze_Security_Mode_Command ?l]
      assms(5,6) command_read [OF p(1-3) k(2) p(4-6)] by simp
  have small: "small_ies (p_ies (pdu_s1_uplink CRITICALITY_IGNORE e u ([0x07, 0x53, 8] @ RES (auth_challenge u))))"
    using a(1) by (intro small_pdus(3) [OF assms(2) a]) simp
  have "length (pr_buf ?t) = 2048" using assms(5) core_message_block(7) [OF p(2)] by simp
  from security_command_sends [OF assms(1,2) _ _ this _ q _ w, of es] l obtain b where
    "after_security_command E e ?t = Some (?t\<lparr>pr_in := es, pr_buf := b, pr_sent := pr_sent ?t @ map encode_pdu
      [pdu_s1_uplink CRITICALITY_IGNORE e v (s1_protected E v 0x47 0 (nas_sequence_number v) [0x07, 0x5e]),
       pdu_capability w, pdu_context_response 0x20 w (ue_ip w), pdu_s1_uplink CRITICALITY_IGNORE e w (attach_complete E w)],
      pr_ue := w\<lparr>nas_sequence_number := nas_sequence_number w + 1\<rparr>\<rparr>, Returned OK)"
    by (auto simp: v)
  then show ?thesis
    using compute_challenge_ok(1) [OF assms(3)] response_written [OF assms(2) a assms(1)] small r
    by (intro exI [of _ b]) (simp add: after_challenge_def u [symmetric] ue_simps send_plain k(1) and_then_def)
qed

lemma attach_sends:
  assumes "wf_env E" and "wf_eNB e" and "wf_UE u" and "id_ok u" and "length b = 2048"
    and p: "p1 = pdu_downlink c1 xs1 (nas_challenge k rand autn)" "core_message p1" "\<forall>x \<in> set xs1. core_ok (snd x)"
      "length rand = 16" "length autn = 16"
    and q: "p2 = pdu_downlink c2 xs2 (nas_command mac sq algs rest)" "core_message p2" "\<forall>x \<in> set xs2. core_ok (snd x)"
      "length mac = 4" "4 \<le> length rest" "length rest < 100"
    and r: "p3 = pdu_context_request c3 xs3" "context_message p3" "\<forall>x \<in> set xs3. core_ok (snd x)" "\<exists>x \<in> set xs3. \<forall>b. snd x \<noteq> Bearer b"
    and u0: "u0 = u\<lparr>nas_sequence_number := 0\<rparr>" and u1: "u1 = answered (challenged rand autn (learn_core xs1 u0))"
    and u2: "u2 = eps_secured ((learn_core xs2 (with_kasme e u1))\<lparr>nas_session_security_algorithms := algs\<rparr>)"
    and u3: "u3 = learn_core xs3 (u2\<lparr>nas_sequence_number := 1\<rparr>)"
  shows "\<exists>b'. procedure_Attach_Default_EPS_Bearer E e
       \<lparr>pr_in = map (Some \<circ> encode_pdu) [p1, p2, p3] @ es, pr_sent = [], pr_buf = b, pr_ue = u\<rparr> =
     Some (\<lparr>pr_in = es, pr_sent = map encode_pdu
      [pdu_attach e u0 (nas_attach_request u0),
       pdu_s1_uplink CRITICALITY_IGNORE e u1 ([0x07, 0x53, 8] @ RES (auth_challenge u1)),
       pdu_s1_uplink CRITICALITY_IGNORE e u2 (s1_protected E u2 0x47 0 0 [0x07, 0x5e]),
       pdu_capability u3, pdu_context_response 0x20 u3 (ue_ip u3),
       pdu_s1_uplink CRITICALITY_IGNORE e u3 (s1_protected E u3 0x27 1 1 [0x07, 0x43, 0x00, 0x03, 0x52, 0x00, 0xc2])],
      pr_buf = b', pr_ue = u3\<lparr>nas_sequence_number := 2\<rparr>\<rparr>, Returned OK)"
proof -
  let ?c = "challenged rand autn (learn_core xs1 u0)"
  have i: "wf_UE u0" "id_ok u0" "nas_sequence_number u0 = 0" using assms(3,4) by (simp_all add: u0 algs_wf wf_UE_seq)
  have c: "wf_UE ?c" "id_ok ?c" "nas_sequence_number ?c = 0"
    using learn_core_keeps(2,3) [OF p(3)] i p(4,5) by (simp_all add: challenged_keeps learn_core_keeps(1))
  have n: "nas_sequence_number u2 = 0" "nas_sequence_number u3 = 1"
    using c compute_challenge_ok(4) [OF c(1)] by (simp_all add: u3 u2 u1 key_states learn_core_keeps(1))
  let ?z = "replicate 2048 0 :: buf"
  let ?m = "encode_pdu (pdu_attach e u0 (nas_attach_request u0))"
  let ?b = "encode_pdu p1 @ drop (length (encode_pdu p1)) ?z"
  let ?s = "\<lparr>pr_in = Some (encode_pdu p1) # Some (encode_pdu p2) # Some (encode_pdu p3) # es, pr_sent = [?m], pr_buf = ?z, pr_ue = u0\<rparr>"
  let ?t = "?s\<lparr>pr_in := Some (encode_pdu p2) # Some (encode_pdu p3) # es, pr_buf := ?b, pr_ue := ?c\<rparr>"
  have a: "await_S1 analyze_Authentication_Request (pr_in ?s) ?s = Some (?t, Going)"
    using receive_message(2) [OF core_message_block(7) [OF p(2)], of ?s _ analyze_Authentication_Request ?c]
      challenge_read [OF p(1-3) i(1) p(4,5)] by simp
  have small: "small_ies (p_ies (pdu_attach e u0 (nas_attach_request u0)))"
    using i(1) by (intro small_pdus(2) [OF assms(2)]) (simp add: s1_nas_lengths)
  have "length (pr_buf ?t) = 2048" using core_message_block(7) [OF p(2)] by simp
  from challenge_sends [OF assms(1,2) _ _ this _ q r, of es u1 u2 u3] c obtain b' where
    "after_challenge E e ?t = Some (?t\<lparr>pr_in := es, pr_buf := b', pr_sent := pr_sent ?t @ map encode_pdu
      [pdu_s1_uplink CRITICALITY_IGNORE e u1 ([0x07, 0x53, 8] @ RES (auth_challenge u1)),
       pdu_s1_uplink CRITICALITY_IGNORE e u2 (s1_protected E u2 0x47 0 0 [0x07, 0x5e]),
       pdu_capability u3, pdu_context_response 0x20 u3 (ue_ip u3),
       pdu_s1_uplink CRITICALITY_IGNORE e u3 (s1_protected E u3 0x27 1 1 [0x07, 0x43, 0x00, 0x03, 0x52, 0x00, 0xc2])],
      pr_ue := u3\<lparr>nas_sequence_number := 2\<rparr>\<rparr>, Returned OK)"
    using n by (auto simp: u1 u2 u3)
  then show ?thesis
    using assms(5) a attach_written [OF assms(2) i(1,2) assms(1)] small
    by (intro exI [of _ b'])
      (simp add: procedure_Attach_Default_EPS_Bearer_def memset_ok ue_simps u0 [symmetric] send_plain and_then_def del: await_S1.simps)
qed


text \<open>
  The procedures with one answer.  The release and the detach answer the release command, whose response carries 0x20 in
  the extension byte of its body; a path switch ends with the acknowledgement.
\<close>

definition pdu_elements :: "byte \<Rightarrow> byte \<Rightarrow> byte \<Rightarrow> element list \<Rightarrow> pdu" where
  "pdu_elements t proc c xs = \<lparr>p_type = t, p_proc = proc, p_crit = c, p_ies = elements xs\<rparr>"

lemma elements_block:
  assumes "p = pdu_elements t proc c xs" and "core_message p" and "\<forall>x \<in> set xs. core_ok (snd x)" and "wf_UE u"
    and "\<exists>x \<in> set xs. \<forall>b. snd x \<noteq> Bearer b"
  shows "analyze_downlink_NAS_Transport (encode_body (p_ies p)) (length (encode_body (p_ies p))) ch u = Some (learn_core xs u, Code 0)"
proof -
  have l: "length xs < 0x10000" using assms(2) ie_count [of "elements xs"]
    by (simp add: core_message_def assms(1) pdu_elements_def encode_body_def)
  have "p_ies p = elements xs" by (simp add: assms(1) pdu_elements_def)
  with downlink_elements [OF assms(3,4) l refl] assms(5) show ?thesis by (simp add: codes_success)
qed

lemma elements_read:
  assumes "p = pdu_elements t proc c xs" and "core_message p" and "\<forall>x \<in> set xs. core_ok (snd x)" and "wf_UE u"
    and "\<exists>x \<in> set xs. \<forall>b. snd x \<noteq> Bearer b"
  shows "t = 0 \<and> proc = UE_CONTEXT_RELEASE \<Longrightarrow> analyze_UEContextReleaseCommand u (encode_pdu p @ r) = Some (learn_core xs u, Code 0)"
    and "t = 0 \<and> proc = UE_CONTEXT_RELEASE \<Longrightarrow> analyze_UEAccept u (encode_pdu p @ r) = Some (u, Code 1)"
    and "t = 0x20 \<and> proc = 0x03 \<Longrightarrow> analyze_PathSwitchRequestAcknowledge u (encode_pdu p @ r) = Some (learn_core xs u, Code 0)"
  using core_message_block(1-5) [OF assms(2), of r] core_message_block(6) [OF assms(2)] elements_block [OF assms, of False]
  by (simp_all add: analyze_UEContextReleaseCommand_def analyze_UEAccept_def analyze_PathSwitchRequestAcknowledge_def assms(1) pdu_elements_def)

lemma path_switch_sends:
  assumes "wf_eNB e" and "wf_UE (pr_ue s)" and "id_ok (pr_ue s)" and "length (pr_buf s) = 2048" and "pr_in s = Some (encode_pdu p) # es"
    and p: "p = pdu_elements 0x20 0x03 c xs" "core_message p" "\<forall>x \<in> set xs. core_ok (snd x)" "\<exists>x \<in> set xs. \<forall>b. snd x \<noteq> Bearer b"
  shows "procedure_UE_X2_handover e s = Some (s\<lparr>pr_in := es, pr_buf := encode_pdu p @ drop (length (encode_pdu p)) (pr_buf s),
      pr_sent := pr_sent s @ [encode_pdu (pdu_path_switch e (pr_ue s))], pr_ue := learn_core xs (pr_ue s)\<rparr>, Returned OK)"
proof -
  let ?s = "s\<lparr>pr_sent := pr_sent s @ [encode_pdu (pdu_path_switch e (pr_ue s))]\<rparr>"
  have "await_S1 analyze_PathSwitchRequestAcknowledge (pr_in ?s) ?s =
      Some (?s\<lparr>pr_in := es, pr_buf := encode_pdu p @ drop (length (encode_pdu p)) (pr_buf s), pr_ue := learn_core xs (pr_ue s)\<rparr>, Going)"
    using receive_message(2) [OF core_message_block(7) [OF p(2)], of ?s es analyze_PathSwitchRequestAcknowledge "learn_core xs (pr_ue s)"]
      assms(4,5) elements_read(3) [OF p(1-3) assms(2) p(4)] by simp
  then show ?thesis
    using path_switch_written [OF assms(1-3)] small_pdus(9) [OF assms(1-3)]
    by (simp add: procedure_UE_X2_handover_def send_plain and_then_def del: await_S1.simps)
qed

lemma release_sends:
  assumes "wf_eNB e" and "wf_UE (pr_ue s)" and "id_ok (pr_ue s)" and "length (pr_buf s) = 2048" and "pr_in s = Some (encode_pdu p) # es"
    and p: "p = pdu_elements 0 UE_CONTEXT_RELEASE c xs" "core_message p" "\<forall>x \<in> set xs. core_ok (snd x)" "\<exists>x \<in> set xs. \<forall>b. snd x \<noteq> Bearer b"
    and v: "v = learn_core xs (pr_ue s)"
  shows "procedure_UE_Context_Release s = Some (s\<lparr>pr_in := es, pr_buf := encode_pdu p @ drop (length (encode_pdu p)) (pr_buf s),
      pr_sent := pr_sent s @ [encode_pdu (pdu_release_request (pr_ue s)), (encode_pdu (pdu_release_response v))[4 := 0x20]],
      pr_ue := v\<rparr>, Returned OK)"
proof -
  have w: "wf_UE v" "id_ok v" using learn_core_keeps(2,3) [OF p(3)] assms(2,3) by (simp_all add: v)
  let ?s = "s\<lparr>pr_sent := pr_sent s @ [encode_pdu (pdu_release_request (pr_ue s))]\<rparr>"
  have "await_S1 analyze_UEContextReleaseCommand (pr_in ?s) ?s =
      Some (?s\<lparr>pr_in := es, pr_buf := encode_pdu p @ drop (length (encode_pdu p)) (pr_buf s), pr_ue := v\<rparr>, Going)"
    using receive_message(2) [OF core_message_block(7) [OF p(2)], of ?s es analyze_UEContextReleaseCommand v]
      assms(4,5) elements_read(1) [OF p(1-3) assms(2) p(4)] by (simp add: v)
  then show ?thesis
    using release_request_written [OF assms(1-3)] small_pdus(6) [OF assms(2,3)]
      release_response_written [OF assms(1) w] small_pdus(7) [OF w]
    by (simp add: procedure_UE_Context_Release_def send_plain send_message [of "pdu_release_response v"] and_then_def del: await_S1.simps)
qed

lemma switch_off_sends:
  assumes "wf_env E" and "wf_eNB e" and "wf_UE (pr_ue s)" and "id_ok (pr_ue s)" and "length (pr_buf s) = 2048"
    and "pr_in s = Some (encode_pdu p) # es"
    and p: "p = pdu_elements 0 UE_CONTEXT_RELEASE c xs" "core_message p" "\<forall>x \<in> set xs. core_ok (snd x)" "\<exists>x \<in> set xs. \<forall>b. snd x \<noteq> Bearer b"
    and v: "v = learn_core xs ((pr_ue s)\<lparr>nas_sequence_number := nas_sequence_number (pr_ue s) + 1\<rparr>)" and "off \<noteq> 0"
  shows "procedure_UE_Detach E e s off = Some (s\<lparr>pr_in := es, pr_buf := encode_pdu p @ drop (length (encode_pdu p)) (pr_buf s),
      pr_sent := pr_sent s @ [encode_pdu (pdu_s1_uplink CRITICALITY_REJECT e (pr_ue s)
          (s1_protected E (pr_ue s) 0x27 1 (nas_sequence_number (pr_ue s)) (nas_detach_request (pr_ue s) True))),
        (encode_pdu (pdu_release_response v))[4 := 0x20]], pr_ue := v\<rparr>, Returned OK)"
proof -
  let ?u = "(pr_ue s)\<lparr>nas_sequence_number := nas_sequence_number (pr_ue s) + 1\<rparr>"
  let ?m = "s1_protected E (pr_ue s) 0x27 1 (nas_sequence_number (pr_ue s)) (nas_detach_request (pr_ue s) True)"
  have u: "wf_UE ?u" "id_ok ?u" using assms(3,4) by (simp_all add: algs_wf wf_UE_seq)
  have w: "wf_UE v" "id_ok v" using learn_core_keeps(2,3) [OF p(3)] u by (simp_all add: v)
  let ?s = "s\<lparr>pr_ue := ?u, pr_sent := pr_sent s @ [encode_pdu (pdu_s1_uplink CRITICALITY_REJECT e (pr_ue s) ?m)]\<rparr>"
  have "memcpy (pr_buf s) 0 (encode_pdu p) (min (length (encode_pdu p)) 2048) = Some (encode_pdu p @ drop (length (encode_pdu p)) (pr_buf s))"
    using core_message_block(7) [OF p(2)] assms(5) by (simp add: memcpy_ok)
  then have "await_release (pr_in ?s) ?s =
      Some (?s\<lparr>pr_in := es, pr_buf := encode_pdu p @ drop (length (encode_pdu p)) (pr_buf s), pr_ue := v\<rparr>, Going)"
    using assms(6) elements_read(1,2) [OF p(1-3) u(1) p(4)] by (simp add: v)
  moreover have "length (nas_detach_request (pr_ue s) True) \<le> 43" using assms(3) by (simp add: nas_detach_request_def)
  ultimately show ?thesis
    using detach_written [OF assms(2-4,1), of off] small_uplink [OF assms(2-4,1)] assms(12)
      release_response_written [OF assms(2) w] small_pdus(7) [OF w]
    by (simp add: procedure_UE_Detach_def ue_simps send_plain send_message [of "pdu_release_response v"] and_then_def del: await_release.simps)
qed

lemma attach_states:
  assumes "wf_env E" and "wf_eNB e" and "wf_UE u" and "id_ok u"
    and "\<forall>x \<in> set xs1. core_ok (snd x)" "length rand = 16" "length autn = 16" "\<forall>x \<in> set xs2. core_ok (snd x)" "\<forall>x \<in> set xs3. core_ok (snd x)"
    and u0: "u0 = u\<lparr>nas_sequence_number := 0\<rparr>" and u1: "u1 = answered (challenged rand autn (learn_core xs1 u0))"
    and u2: "u2 = eps_secured ((learn_core xs2 (with_kasme e u1))\<lparr>nas_session_security_algorithms := algs\<rparr>)"
    and u3: "u3 = learn_core xs3 (u2\<lparr>nas_sequence_number := 1\<rparr>)"
  shows "wf_UE u0" "id_ok u0" "wf_UE u1" "id_ok u1" "wf_UE u2" "id_ok u2" "wf_UE u3" "id_ok u3"
proof -
  show 0: "wf_UE u0" "id_ok u0" using assms(3,4) by (simp_all add: u0 algs_wf wf_UE_seq)
  have "wf_UE (challenged rand autn (learn_core xs1 u0))" "id_ok (challenged rand autn (learn_core xs1 u0))"
    using learn_core_keeps(2,3) [OF assms(5)] 0 assms(6,7) by (simp_all add: challenged_keeps)
  then show 1: "wf_UE u1" "id_ok u1" using compute_challenge_ok(2,3) by (simp_all add: u1)
  have "wf_UE ((learn_core xs2 (with_kasme e u1))\<lparr>nas_session_security_algorithms := algs\<rparr>)"
    "id_ok ((learn_core xs2 (with_kasme e u1))\<lparr>nas_session_security_algorithms := algs\<rparr>)"
    using learn_core_keeps(2,3) [OF assms(8)] derive_kasme_ok(2) [OF assms(1,2) 1(1)] 1(2) by (simp_all add: algs_wf key_states)
  then show 2: "wf_UE u2" "id_ok u2" using derive_eps_keys_ok(2) by (simp_all add: u2 key_states)
  show "wf_UE u3" "id_ok u3"
    using learn_core_keeps(2,3) [OF assms(9)] 2 by (simp_all add: u3 algs_wf wf_UE_seq)
qed

lemma small_pdu_ok: "small_ies (p_ies p) \<Longrightarrow> pdu_ok p"
  by (fastforce simp: small_ies_def pdu_ok_def encode_body_def)

section \<open>Properties\<close>

text \<open>
  C35.  The attach of a 4G UE.  The core answers with two Downlink NAS Transports, of any elements with any criticality in
  any order and the NAS message as the last element, and an Initial Context Setup Request, of any elements with any criticality
  in any order, with any options in the Attach Accept; the bodies have less than 128 bytes, that of the last from 128 to 255 bytes.  Then the
  procedure returns \<open>OK\<close> and sends exactly six messages that decode to the PDUs of TS 36.413: the Attach Request with the IMSI; RES
  for the RAND of the core; Security Mode Complete under the NAS count 0; the radio capability; the response with the address
  and the TEID that the core has assigned; and Attach Complete under the count 1.  Both protected messages use the integrity
  key that the key hierarchy of TS 33.401 yields from RAND, AUTN and the algorithm that the core has selected.  (The code does not
  skip a NAS message, so that an element behind one is not covered.)
\<close>

theorem attach_succeeds:
  assumes "wf_env E" and "wf_eNB e" and "wf_UE u" and "id_ok u" and "length b = 2048"
    and p1: "p1 = pdu_downlink c1 xs1 (nas_challenge k rand autn)" "core_message p1" "\<forall>x \<in> set xs1. core_ok (snd x)"
      "length rand = 16" "length autn = 16"
    and p2: "p2 = pdu_downlink c2 xs2 (nas_command mac sq algs rest)" "core_message p2" "\<forall>x \<in> set xs2. core_ok (snd x)"
      "length mac = 4" "4 \<le> length rest" "length rest < 100"
    and p3: "p3 = pdu_context_request c3 xs3" "context_message p3" "\<forall>x \<in> set xs3. core_ok (snd x)" "\<exists>x \<in> set xs3. \<forall>b. snd x \<noteq> Bearer b"
    and u0: "u0 = u\<lparr>nas_sequence_number := 0\<rparr>" and u1: "u1 = answered (challenged rand autn (learn_core xs1 u0))"
    and u2: "u2 = eps_secured ((learn_core xs2 (with_kasme e u1))\<lparr>nas_session_security_algorithms := algs\<rparr>)"
    and u3: "u3 = learn_core xs3 (u2\<lparr>nas_sequence_number := 1\<rparr>)"
  shows "\<exists>s. procedure_Attach_Default_EPS_Bearer E e
       \<lparr>pr_in = map (Some \<circ> encode_pdu) [p1, p2, p3] @ es, pr_sent = [], pr_buf = b, pr_ue = u\<rparr> = Some (s, Returned OK) \<and>
     pr_in s = es \<and> pr_ue s = u3\<lparr>nas_sequence_number := 2\<rparr> \<and>
     map decode_pdu (pr_sent s) = map Some
       [pdu_attach e u0 (nas_attach_request u0),
        pdu_s1_uplink CRITICALITY_IGNORE e u1 ([0x07, 0x53, 8] @ RES (auth_challenge u1)),
        pdu_s1_uplink CRITICALITY_IGNORE e u2 (s1_protected E u2 0x47 0 0 [0x07, 0x5e]),
        pdu_capability u3, pdu_context_response 0x20 u3 (ue_ip u3),
        pdu_s1_uplink CRITICALITY_IGNORE e u3 (s1_protected E u3 0x27 1 1 [0x07, 0x43, 0x00, 0x03, 0x52, 0x00, 0xc2])]"
    (is "\<exists>s. _ \<and> _ \<and> _ \<and> _ = map Some ?ps")
proof -
  note run = attach_sends [OF assms(1-5) p1 p2 p3 u0 u1 u2 u3, of es]
  note w = attach_states [OF assms(1-4) p1(3-5) p2(3) p3(3) u0 u1 u2 u3]
  have ip: "length (ue_ip u3) = 4" "length ([0x07, 0x53, 8] @ RES (auth_challenge u1)) \<le> 49" using w by simp_all
  have "\<forall>p \<in> set ?ps. small_ies (p_ies p)"
    using small_pdus(2) [OF assms(2), of "nas_attach_request u0" u0] small_pdus(3) [OF assms(2) w(3,4) ip(2)]
      small_pdus(4) [OF w(7,8)] small_pdus(5) [OF w(7,8) ip(1)] w(1)
      small_uplink [OF assms(2) w(5,6) assms(1), of "[0x07, 0x5e]"]
      small_uplink [OF assms(2) w(7,8) assms(1), of "[0x07, 0x43, 0x00, 0x03, 0x52, 0x00, 0xc2]"]
    by (simp add: s1_nas_lengths)
  then have "\<forall>p \<in> set ?ps. pdu_ok p" using small_pdu_ok by blast
  with run decode_sent [of ?ps] show ?thesis by auto
qed

definition ex_bearer :: bearer where
  "ex_bearer = \<lparr>br_qos = [0x45, 0, 9, 0x1c, 0x0f, 0x80], br_gateway = [192, 168, 0, 9], br_teid = 42,
     br_nas = [39, 0x27, 1, 2, 3, 4, 1, 0x07, 0x42, 1, 0x49, 6, 0, 0, 0xf1, 0x10, 0, 1, 0, 40, 0x52, 1],
     br_esm = [1, 9], br_apn = [8] @ str ''internet'', br_type = [5, 1], br_address = [10, 45, 0, 2],
     br_options = [(0x27, [0x80, 0]), (0x5e, [6, 0x3f, 0x3f])], br_guti_head = [11, 0xf6],
     br_guti = [0, 0xf1, 0x10, 0, 4, 1, 0xc0, 0, 1, 2], br_rest = [0x13]\<rparr>"

definition ex_challenge_xs :: "element list" where
  "ex_challenge_xs = [(CRITICALITY_REJECT, Mme_Id [0, 5]), (CRITICALITY_REJECT, Other 8 [0x40, 0, 1])]"

definition ex_context_xs :: "element list" where
  "ex_context_xs = [(CRITICALITY_REJECT, Mme_Id [0, 5]), (CRITICALITY_REJECT, Other 8 [0x40, 0, 1]),
     (CRITICALITY_REJECT, Other 0x42 ([0x18, 1, 2, 3, 4] @ [0x60, 1, 2, 3, 4])), (CRITICALITY_REJECT, Bearer ex_bearer),
     (CRITICALITY_REJECT, Capabilities [0x1c, 0, 0x0e, 0, 0]), (CRITICALITY_REJECT, Other 0x49 (replicate 32 0))]"

lemma ex_core_xs: "\<forall>x \<in> set ex_challenge_xs. core_ok (snd x)" "\<forall>x \<in> set ex_context_xs. core_ok (snd x)" "\<exists>x \<in> set ex_context_xs. \<forall>b. snd x \<noteq> Bearer b"
  by (simp_all add: ex_challenge_xs_def ex_context_xs_def core_ok_def bearer_ok_def ex_bearer_def bearer_value_def bearer_accept_def
      bearer_end_def option_bytes_def str_def Let_def)

lemma ex_core_messages:
  "core_message (pdu_downlink 0x40 ex_challenge_xs (nas_challenge 0x10 (replicate 16 0x33) (replicate 16 0x44)))"
  "core_message (pdu_downlink 0x40 ex_challenge_xs (nas_command [1, 2, 3, 4] 0 0x12 [0, 4, 0x1c, 0, 0x0e]))"
  "context_message (pdu_context_request 0 ex_context_xs)"
  by code_simp+

theorem attach_succeeds_witness:
  "\<exists>s. procedure_Attach_Default_EPS_Bearer ex_env ex_enb
       \<lparr>pr_in = map (Some \<circ> encode_pdu)
          [pdu_downlink 0x40 ex_challenge_xs (nas_challenge 0x10 (replicate 16 0x33) (replicate 16 0x44)),
           pdu_downlink 0x40 ex_challenge_xs (nas_command [1, 2, 3, 4] 0 0x12 [0, 4, 0x1c, 0, 0x0e]),
           pdu_context_request 0 ex_context_xs] @ [],
        pr_sent = [], pr_buf = replicate 2048 7, pr_ue = ex_ue\<rparr> = Some (s, Returned OK) \<and>
     nas_sequence_number (pr_ue s) = 2 \<and> length (pr_sent s) = 6"
proof -
  have l: "length (replicate 2048 7 :: buf) = 2048" "length (replicate 16 0x33 :: buf) = 16" "length (replicate 16 0x44 :: buf) = 16"
    "length ([1, 2, 3, 4] :: buf) = 4" "4 \<le> length ([0, 4, 0x1c, 0, 0x0e] :: buf)" "length ([0, 4, 0x1c, 0, 0x0e] :: buf) < 100"
    by simp_all
  from attach_succeeds [OF ex_wf l(1) refl ex_core_messages(1) ex_core_xs(1) l(2,3) refl ex_core_messages(2) ex_core_xs(1) l(4-6)
      refl ex_core_messages(3) ex_core_xs(2,3) refl refl refl refl, of "[]"]
  obtain s where s: "procedure_Attach_Default_EPS_Bearer ex_env ex_enb
       \<lparr>pr_in = map (Some \<circ> encode_pdu)
          [pdu_downlink 0x40 ex_challenge_xs (nas_challenge 0x10 (replicate 16 0x33) (replicate 16 0x44)),
           pdu_downlink 0x40 ex_challenge_xs (nas_command [1, 2, 3, 4] 0 0x12 [0, 4, 0x1c, 0, 0x0e]),
           pdu_context_request 0 ex_context_xs] @ [],
        pr_sent = [], pr_buf = replicate 2048 7, pr_ue = ex_ue\<rparr> = Some (s, Returned OK)"
    and n: "nas_sequence_number (pr_ue s) = 2" and d: "length (map decode_pdu (pr_sent s)) = 6"
    by auto
  then show ?thesis by (intro exI [of _ s]) simp
qed

section \<open>Where the analysis goes wrong\<close>

text \<open>
  Between the address of the UE and the GUTI the code expects the protocol options and the bit rate only.  At any other
  element that TS 24.301 allows there, as an ESM cause, its loop never ends, and so neither does the attach.
\<close>

definition ex_esm_cause :: "element list" where
  "ex_esm_cause = [(CRITICALITY_REJECT, Mme_Id [0, 5]), (CRITICALITY_REJECT, Bearer (ex_bearer\<lparr>br_options := [], br_address := [10, 45, 0, 2, 0x58, 0x32]\<rparr>))]"

lemma find_guti_spins: "i < length v \<Longrightarrow> v ! i \<notin> {0x27, 0x5e, 0x50} \<Longrightarrow> find_guti v i = Some None"
  by (subst find_guti.simps) simp

lemma esm_cause_spins:
  "map_option snd (analyze_InitialContextSetupRequest ex_ue (encode_pdu (pdu_context_request 0 ex_esm_cause) @ replicate 100 0)) = Some Spins"
  by code_simp

text \<open>
  Any other NAS message is taken for the challenge once an identifier of the MME precedes it: here an Attach Reject, after
  which the UE answers the RAND it had before.
\<close>

lemma reject_accepted:
  "map_option (\<lambda>(u, c). (RAND (auth_challenge u) = RAND (auth_challenge ex_ue), c))
     (analyze_Authentication_Request ex_ue (encode_pdu (pdu_downlink 0x40 ex_challenge_xs [0x07, 0x44, 0x07]) @ replicate 100 0)) =
   Some (True, Code 0)"
  by code_simp

end
