(* ===== verification/Ran_List.thy ===== *)
theory Ran_List
  imports Prelude
begin

text \<open>
  The doubly linked list of ran-emulator/source/list.c, in which a base station keeps its UEs: nodes in a heap with
  their \<open>prev\<close> and \<open>next\<close> pointers, and the proof that the operations work on the sequence of the data.  The comparison
  that \<open>initList\<close> stores is the argument \<open>eq\<close> of the searches: \<open>eq d = Some b\<close> tells whether it returns 0 on \<open>d\<close> and the
  key, \<open>None\<close> that it reads outside its arguments.  \<open>None\<close> as a result is undefined behaviour.
\<close>

section \<open>The code\<close>

record 'a node =
  node_data :: 'a
  node_prev :: "nat option"
  node_next :: "nat option"

record List =
  l_head :: "nat option"
  l_tail :: "nat option"

type_synonym 'a nodes = "nat \<rightharpoonup> 'a node"

definition initList :: "bool \<Rightarrow> List option" where
  "initList malloc_ok = (if malloc_ok then Some \<lparr>l_head = None, l_tail = None\<rparr> else None)"

text \<open>\<open>new_node\<close> is the address that \<open>malloc\<close> returns.\<close>

definition addElem :: "'a nodes \<Rightarrow> List \<Rightarrow> nat option \<Rightarrow> 'a \<Rightarrow> (status \<times> 'a nodes \<times> List) option" where
  "addElem h l new_node elem =
     (case new_node of
        None \<Rightarrow> Some (ERROR, h, l)
      | Some n \<Rightarrow> do {
          let h = h(n \<mapsto> \<lparr>node_data = elem, node_prev = l_tail l, node_next = None\<rparr>);
          (case l_head l of
             None \<Rightarrow> Some (OK, h, l\<lparr>l_head := Some n, l_tail := Some n\<rparr>)
           | Some _ \<Rightarrow> do {
               t \<leftarrow> l_tail l;
               nd \<leftarrow> h t;
               Some (OK, h(t \<mapsto> nd\<lparr>node_next := Some n\<rparr>), l\<lparr>l_tail := Some n\<rparr>) }) })"

text \<open>The loop of both searches: the first node with data on which \<open>test\<close> is true.\<close>

partial_function (option) find_node :: "'a nodes \<Rightarrow> ('a \<Rightarrow> bool option) \<Rightarrow> nat option \<Rightarrow> nat option option" where
  "find_node h test iter =
     (case iter of
        None \<Rightarrow> Some None
      | Some a \<Rightarrow> do {
          nd \<leftarrow> h a;
          b \<leftarrow> test (node_data nd);
          if b then Some (Some a) else find_node h test (node_next nd) })"

definition peekElem :: "'a nodes \<Rightarrow> List \<Rightarrow> ('a \<Rightarrow> bool option) \<Rightarrow> 'a option option" where
  "peekElem h l eq = do {
     r \<leftarrow> find_node h eq (l_head l);
     (case r of None \<Rightarrow> Some None | Some a \<Rightarrow> do { nd \<leftarrow> h a; Some (Some (node_data nd)) }) }"

definition unlink :: "'a nodes \<Rightarrow> List \<Rightarrow> nat \<Rightarrow> ('a nodes \<times> List) option" where
  "unlink h l iter = do {
     nd \<leftarrow> h iter;
     (case (node_prev nd, node_next nd) of
        (None, None) \<Rightarrow> Some (h, l\<lparr>l_head := None, l_tail := None\<rparr>)
      | (None, Some q) \<Rightarrow> do { m \<leftarrow> h q; Some (h(q \<mapsto> m\<lparr>node_prev := None\<rparr>), l\<lparr>l_head := Some q\<rparr>) }
      | (Some p, None) \<Rightarrow> do { m \<leftarrow> h p; Some (h(p \<mapsto> m\<lparr>node_next := None\<rparr>), l\<lparr>l_tail := Some p\<rparr>) }
      | (Some p, Some q) \<Rightarrow> do {
          m \<leftarrow> h p;
          let h = h(p \<mapsto> m\<lparr>node_next := Some q\<rparr>);
          m \<leftarrow> h q;
          Some (h(q \<mapsto> m\<lparr>node_prev := Some p\<rparr>), l) }) }"

text \<open>
  \<open>getElem\<close> tests \<open>cmp(...)\<close>, not \<open>cmp(...) == 0\<close>; it frees the node before it reads the data that it returns.
\<close>

definition getElem :: "'a nodes \<Rightarrow> List \<Rightarrow> ('a \<Rightarrow> bool option) \<Rightarrow> ('a option \<times> 'a nodes \<times> List) option" where
  "getElem h l eq = do {
     r \<leftarrow> find_node h (\<lambda>d. do { b \<leftarrow> eq d; Some (\<not> b) }) (l_head l);
     (case r of
        None \<Rightarrow> Some (None, h, l)
      | Some iter \<Rightarrow> do {
          (h, l) \<leftarrow> unlink h l iter;
          let h = h(iter := None);
          nd \<leftarrow> h iter;
          Some (Some (node_data nd), h, l) }) }"

text \<open>The data that \<open>destroy\<close> is called on, in order, and the heap after the nodes are freed.\<close>

partial_function (option) destroyList :: "'a nodes \<Rightarrow> nat option \<Rightarrow> ('a list \<times> 'a nodes) option" where
  "destroyList h iter =
     (case iter of
        None \<Rightarrow> Some ([], h)
      | Some a \<Rightarrow> do {
          nd \<leftarrow> h a;
          (ds, h) \<leftarrow> destroyList (h(a := None)) (node_next nd);
          Some (node_data nd # ds, h) })"

section \<open>The sequence that a list stands for\<close>

definition first :: "nat list \<Rightarrow> nat option \<Rightarrow> nat option" where
  "first as n = (case as of [] \<Rightarrow> n | a # _ \<Rightarrow> Some a)"

definition final :: "nat option \<Rightarrow> nat list \<Rightarrow> nat option" where
  "final p as = (if as = [] then p else Some (last as))"

text \<open>A segment: the nodes at \<open>as\<close> hold \<open>xs\<close>, after the node \<open>p\<close> and before the node \<open>n\<close>.\<close>

fun segment :: "'a nodes \<Rightarrow> nat option \<Rightarrow> nat list \<Rightarrow> 'a list \<Rightarrow> nat option \<Rightarrow> bool" where
  "segment h p [] [] n \<longleftrightarrow> True"
| "segment h p (a # as) (x # xs) n \<longleftrightarrow>
     h a = Some \<lparr>node_data = x, node_prev = p, node_next = first as n\<rparr> \<and> segment h (Some a) as xs n"
| "segment h p _ _ n \<longleftrightarrow> False"

definition chained :: "'a nodes \<Rightarrow> List \<Rightarrow> nat list \<Rightarrow> 'a list \<Rightarrow> bool" where
  "chained h l as xs \<longleftrightarrow> distinct as \<and> segment h None as xs None \<and> l_head l = first as None \<and> l_tail l = final None as"

lemma first_simps [simp]: "first [] n = n" "first (a # as) n = Some a" "first (as @ bs) n = first as (first bs n)"
  by (auto simp: first_def split: list.split)

lemma final_simps [simp]: "final p [] = p" "final p (a # as) = final (Some a) as" "final p (as @ [a]) = Some a"
  by (auto simp: final_def)

lemma segment_length: "segment h p as xs n \<Longrightarrow> length as = length xs"
  by (induction h p as xs n rule: segment.induct) auto

lemma segment_append:
  "length as = length xs \<Longrightarrow> segment h p (as @ bs) (xs @ ys) n \<longleftrightarrow>
     segment h p as xs (first bs n) \<and> segment h (final p as) bs ys n"
  by (induction as xs arbitrary: p rule: list_induct2) auto

lemma segment_upd [simp]: "a \<notin> set as \<Longrightarrow> segment (h(a := v)) p as xs n = segment h p as xs n"
  by (induction h p as xs n rule: segment.induct) auto

lemma segment_dom: "segment h p as xs n \<Longrightarrow> a \<in> set as \<Longrightarrow> h a \<noteq> None"
  by (induction h p as xs n rule: segment.induct) auto

lemma segment_snoc:
  "segment h p (as @ [a]) zs n \<longleftrightarrow> (\<exists>xs x. zs = xs @ [x] \<and> segment h p as xs (Some a) \<and>
     h a = Some \<lparr>node_data = x, node_prev = final p as, node_next = n\<rparr>)"
proof (cases zs rule: rev_cases)
  case Nil
  then show ?thesis by (cases as) auto
next
  case (snoc xs x)
  show ?thesis
  proof (cases "length as = length xs")
    case True
    then show ?thesis unfolding snoc by (auto simp: segment_append)
  next
    case False
    then show ?thesis unfolding snoc by (auto dest: segment_length)
  qed
qed

text \<open>The pointers at the two ends of a segment can be redirected.\<close>

lemma segment_prev:
  "segment h p (a # as) xs n \<Longrightarrow> distinct (a # as) \<Longrightarrow> h a = Some m \<Longrightarrow>
     segment (h(a \<mapsto> m\<lparr>node_prev := q\<rparr>)) q (a # as) xs n"
  by (cases xs) auto

lemma segment_next:
  "segment h p (as @ [a]) xs n \<Longrightarrow> distinct (as @ [a]) \<Longrightarrow> h a = Some m \<Longrightarrow>
     segment (h(a \<mapsto> m\<lparr>node_next := q\<rparr>)) p (as @ [a]) xs q"
  by (auto simp: segment_snoc)

section \<open>The operations on it\<close>

lemma holds_init: "initList True = Some l \<Longrightarrow> chained h l [] []"
  by (auto simp: initList_def chained_def)

lemma addElem_holds:
  assumes "chained h l as xs" and "h n = None"
  shows "\<exists>h' l'. addElem h l (Some n) x = Some (OK, h', l') \<and> chained h' l' (as @ [n]) (xs @ [x])"
proof -
  have n: "n \<notin> set as" using assms segment_dom [of h None as xs None n] by (auto simp: chained_def)
  show ?thesis
  proof (cases as rule: rev_cases)
    case Nil
    with assms show ?thesis by (auto simp: chained_def addElem_def dest: segment_length)
  next
    case (snoc bs t)
    have h: "distinct (bs @ [t])" "segment h None (bs @ [t]) xs None" "l_head l = first (bs @ [t]) None" "l_tail l = Some t"
      using assms(1) by (simp_all add: chained_def snoc)
    have nt: "n \<noteq> t" "n \<notin> set (bs @ [t])" using n snoc by auto
    obtain hd where hd: "l_head l = Some hd" using h(3) by (cases bs) auto
    obtain m where m: "h t = Some m" using segment_dom [OF h(2), of t] by auto
    let ?h = "(h(n \<mapsto> \<lparr>node_data = x, node_prev = Some t, node_next = None\<rparr>))(t \<mapsto> m\<lparr>node_next := Some n\<rparr>)"
    have "segment ?h None (bs @ [t]) xs (Some n)"
      by (rule segment_next [where n = None]) (use h nt m in auto)
    then have "segment ?h None ((bs @ [t]) @ [n]) (xs @ [x]) None"
      using nt h(2) by (subst segment_append) (auto dest: segment_length)
    moreover have "addElem h l (Some n) x = Some (OK, ?h, l\<lparr>l_tail := Some n\<rparr>)"
      using nt m hd h(4) by (simp add: addElem_def Let_def)
    moreover have "l_head l = first ((bs @ [t]) @ [n]) None" using h(3) by (cases bs) simp_all
    ultimately show ?thesis using h(1) nt unfolding snoc chained_def
      by (intro exI [of _ ?h] exI [of _ "l\<lparr>l_tail := Some n\<rparr>"]) (simp add: final_def)
  qed
qed

text \<open>The searches: the first element that passes the test, if no earlier one is undefined.\<close>

fun search :: "('a \<Rightarrow> bool option) \<Rightarrow> 'a list \<Rightarrow> 'a option option" where
  "search test [] = Some None"
| "search test (x # xs) = do { b \<leftarrow> test x; if b then Some (Some x) else search test xs }"

lemma search_total: "(\<And>x. x \<in> set xs \<Longrightarrow> test x = Some (P x)) \<Longrightarrow> search test xs = Some (find P xs)"
  by (induction xs) auto

lemma find_node_search:
  "segment h p as xs None \<Longrightarrow> find_node h test (first as None) =
     (case search test xs of
        None \<Rightarrow> None
      | Some None \<Rightarrow> Some None
      | Some (Some x) \<Rightarrow> Some (Some (as ! length (takeWhile (\<lambda>y. test y = Some False) xs))))"
proof (induction as arbitrary: p xs)
  case Nil
  then show ?case by (cases xs) (simp_all add: find_node.simps)
next
  case (Cons a as)
  then obtain y ys where xs: "xs = y # ys" by (cases xs) auto
  have "find_node h test (first as None) = (case search test ys of None \<Rightarrow> None | Some None \<Rightarrow> Some None
     | Some (Some x) \<Rightarrow> Some (Some (as ! length (takeWhile (\<lambda>y. test y = Some False) ys))))"
    by (rule Cons.IH [where p = "Some a"]) (use Cons.prems xs in simp)
  with Cons.prems show ?case
    by (simp add: xs find_node.simps [of h test "Some a"] split: option.splits bind_splits if_splits)
qed

lemma search_nth:
  "search test xs = Some (Some x) \<Longrightarrow>
     length (takeWhile (\<lambda>y. test y = Some False) xs) < length xs \<and> xs ! length (takeWhile (\<lambda>y. test y = Some False) xs) = x"
  by (induction xs) (auto split: bind_splits if_splits)

lemma segment_nth:
  "segment h p as xs n \<Longrightarrow> i < length xs \<Longrightarrow> \<exists>nd. h (as ! i) = Some nd \<and> node_data nd = xs ! i"
  by (induction h p as xs n arbitrary: i rule: segment.induct) (auto simp: nth_Cons split: nat.split)

lemma peekElem_search: "chained h l as xs \<Longrightarrow> peekElem h l eq = search eq xs"
proof -
  assume "chained h l as xs"
  then have s: "segment h None as xs None" and l: "l_head l = first as None" by (simp_all add: chained_def)
  show ?thesis
  proof (cases "search eq xs")
    case None
    then show ?thesis by (simp add: peekElem_def l find_node_search [OF s])
  next
    case (Some r)
    let ?i = "length (takeWhile (\<lambda>y. eq y = Some False) xs)"
    from Some show ?thesis
      using segment_nth [OF s, of ?i] search_nth [of eq xs]
      by (cases r) (auto simp: peekElem_def l find_node_search [OF s])
  qed
qed

text \<open>Unlinking a node removes its element.\<close>

lemma unlink_holds:
  assumes "chained h l (as @ a # bs) (xs @ x # ys)" and "length as = length xs"
  shows "\<exists>h' l'. unlink h l a = Some (h', l') \<and> chained h' l' (as @ bs) (xs @ ys)"
proof -
  have d: "distinct (as @ a # bs)" and s: "segment h None as xs (Some a)" "segment h (Some a) bs ys None"
    and a: "h a = Some \<lparr>node_data = x, node_prev = final None as, node_next = first bs None\<rparr>"
    and l: "l_head l = first as (Some a)" "l_tail l = final None (as @ a # bs)"
    using assms by (simp_all add: chained_def segment_append)
  have len: "length as = length xs" by (rule assms(2))
  show ?thesis
  proof (cases as rule: rev_cases)
    case Nil
    then have xs: "xs = []" using len by simp
    show ?thesis
    proof (cases bs)
      case bs: Nil
      then show ?thesis using s a Nil xs
        by (auto simp: unlink_def chained_def dest: segment_length)
    next
      case (Cons b cs)
      then obtain m where m: "h b = Some m" using segment_dom [OF s(2), of b] by auto
      have "segment (h(b \<mapsto> m\<lparr>node_prev := None\<rparr>)) None (b # cs) ys None"
        by (rule segment_prev [where p = "Some a"]) (use s(2) d m Cons in auto)
      then show ?thesis using Nil Cons xs a m d l
        by (auto simp: unlink_def chained_def final_def)
    qed
  next
    case (snoc cs p)
    obtain m where m: "h p = Some m" using segment_dom [OF s(1), of p] snoc by auto
    show ?thesis
    proof (cases bs)
      case Nil
      have "segment (h(p \<mapsto> m\<lparr>node_next := None\<rparr>)) None (cs @ [p]) xs None"
        by (rule segment_next [where n = "Some a"]) (use s(1) d m snoc in auto)
      then show ?thesis using Nil snoc s(2) a m d l
        by (auto simp: unlink_def chained_def final_def first_def dest: segment_length split: list.splits)
    next
      case (Cons b ds)
      then obtain k where k: "h b = Some k" using segment_dom [OF s(2), of b] by auto
      let ?h = "h(p \<mapsto> m\<lparr>node_next := Some b\<rparr>)"
      let ?g = "?h(b \<mapsto> k\<lparr>node_prev := Some p\<rparr>)"
      have pb: "p \<noteq> b" "p \<notin> set bs" "b \<notin> set as" using d snoc Cons by auto
      have "segment ?h None (cs @ [p]) xs (Some b)"
        by (rule segment_next [where n = "Some a"]) (use s(1) d m snoc in auto)
      then have 1: "segment ?g None (cs @ [p]) xs (Some b)" using pb snoc by auto
      have 2: "segment ?g (Some p) (b # ds) ys None"
        by (rule segment_prev [where p = "Some a"]) (use s(2) d k pb Cons in auto)
      have "segment ?g None ((cs @ [p]) @ (b # ds)) (xs @ ys) None"
        using 1 2 len snoc by (subst segment_append) auto
      moreover have "unlink h l a = Some (?g, l)"
        using a m k pb snoc Cons by (simp add: unlink_def Let_def)
      moreover have "l_head l = first (as @ bs) None" "l_tail l = final None (as @ bs)"
        using l snoc Cons by (simp_all add: final_def)
      ultimately show ?thesis using d snoc Cons by (simp add: chained_def)
    qed
  qed
qed

lemma getElem_outcome:
  assumes "chained h l as xs"
  shows "getElem h l eq =
     (if search (\<lambda>d. do { b \<leftarrow> eq d; Some (\<not> b) }) xs = Some None then Some (None, h, l) else None)"
proof -
  from assms have s: "segment h None as xs None" and l: "l_head l = first as None" by (simp_all add: chained_def)
  show ?thesis
    by (auto simp: getElem_def l find_node_search [OF s] Let_def split: option.split bind_split)
qed

lemma destroyList_all:
  "segment h p as xs None \<Longrightarrow> distinct as \<Longrightarrow>
     \<exists>h'. destroyList h (first as None) = Some (xs, h') \<and> (\<forall>a. h' a = (if a \<in> set as then None else h a))"
proof (induction as arbitrary: h p xs)
  case Nil
  then show ?case by (cases xs) (simp_all add: destroyList.simps)
next
  case (Cons a as)
  then obtain y ys where xs: "xs = y # ys" by (cases xs) auto
  have "\<exists>h'. destroyList (h(a := None)) (first as None) = Some (ys, h') \<and>
     (\<forall>b. h' b = (if b \<in> set as then None else (h(a := None)) b))"
    by (rule Cons.IH [where p = "Some a"]) (use Cons.prems xs segment_upd [of a as h None] in \<open>simp_all add: fun_upd_def\<close>)
  with Cons.prems show ?case by (auto simp: xs destroyList.simps [of h "Some a"])
qed

section \<open>The interface\<close>

text \<open>
  What a client relies on: a container that stands for a sequence, to which elements are added at the end and in which
  the first match is found.
\<close>

locale registry =
  fixes stands_for :: "'s \<Rightarrow> 'a list \<Rightarrow> bool"
    and add :: "'s \<Rightarrow> 'm \<Rightarrow> 'a \<Rightarrow> (status \<times> 's) option"
    and peek :: "'s \<Rightarrow> ('a \<Rightarrow> bool option) \<Rightarrow> 'a option option"
    and fresh :: "'s \<Rightarrow> 'm \<Rightarrow> bool"
  assumes add_law: "stands_for s xs \<Longrightarrow> fresh s m \<Longrightarrow> \<exists>s'. add s m x = Some (OK, s') \<and> stands_for s' (xs @ [x])"
    and peek_law: "stands_for s xs \<Longrightarrow> peek s eq = search eq xs"
begin

text \<open>An element that has just been added is found, unless an earlier one matches too.\<close>

lemma peek_added:
  assumes "stands_for s xs" and "add s m x = Some (OK, s')" and "fresh s m"
    and "\<And>y. y \<in> set xs \<Longrightarrow> eq y = Some False" and "eq x = Some True"
  shows "peek s' eq = Some (Some x)"
proof -
  have "search eq (xs @ [x]) = Some (Some x)" using assms(4,5) by (induction xs) auto
  with add_law [OF assms(1,3), of x] assms(2) peek_law show ?thesis by auto
qed

text \<open>A second element with the same key is hidden by the first.\<close>

lemma peek_hidden:
  assumes "stands_for s xs" and "peek s eq = Some (Some y)" and "fresh s m"
  shows "\<exists>s'. add s m x = Some (OK, s') \<and> peek s' eq = Some (Some y)"
proof -
  have "search eq xs = Some (Some y) \<Longrightarrow> search eq (xs @ [x]) = Some (Some y)"
    by (induction xs) (auto split: bind_splits if_splits)
  with add_law [OF assms(1,3), of x] assms(2) peek_law [OF assms(1)] peek_law show ?thesis by fastforce
qed

end

definition list_stands_for :: "'a nodes \<times> List \<Rightarrow> 'a list \<Rightarrow> bool" where
  "list_stands_for s xs \<longleftrightarrow> (\<exists>as. chained (fst s) (snd s) as xs)"

interpretation linked: registry list_stands_for
  "\<lambda>s n x. addElem (fst s) (snd s) (Some n) x" "\<lambda>s eq. peekElem (fst s) (snd s) eq" "\<lambda>s n. fst s n = None"
proof
  fix s :: "'a nodes \<times> List" and xs m and x :: 'a
  assume "list_stands_for s xs" and "fst s m = None"
  then obtain as where "chained (fst s) (snd s) as xs" "fst s m = None" by (auto simp: list_stands_for_def)
  from addElem_holds [OF this, of x] show "\<exists>s'. addElem (fst s) (snd s) (Some m) x = Some (OK, s') \<and> list_stands_for s' (xs @ [x])"
    unfolding list_stands_for_def by auto
next
  fix s :: "'a nodes \<times> List" and xs eq
  assume "list_stands_for s xs"
  then show "peekElem (fst s) (snd s) eq = search eq xs"
    unfolding list_stands_for_def using peekElem_search by blast
qed

end
