(* ===== verification/Ue_Layout.thy ===== *)
theory Ue_Layout
  imports Ue
begin

text \<open>
  A UE as the bytes of its C structure.  Base stations hand UEs over by copying \<open>sizeof(UE)\<close> bytes of memory into a
  message and by treating a received buffer as a UE, so the layout of the structure (of the ABI of x86-64, with the
  integers in little-endian order) is part of the protocol.
\<close>

section \<open>Members at offsets\<close>

text \<open>The bytes of each member, at its offset; the bytes between them are padding.\<close>

definition fields_of :: "(nat \<times> nat) list \<Rightarrow> buf \<Rightarrow> byte list list" where
  "fields_of layout b = map (\<lambda>(i, n). take n (drop i b)) layout"

fun put_fields :: "(nat \<times> nat) list \<Rightarrow> byte list list \<Rightarrow> buf \<Rightarrow> buf option" where
  "put_fields ((i, n) # ls) (v # vs) b = do { b \<leftarrow> wrn b i v; put_fields ls vs b }"
| "put_fields _ _ b = Some b"

text \<open>The members follow each other and end at \<open>sz\<close>.\<close>

fun wf_layout :: "nat \<Rightarrow> (nat \<times> nat) list \<Rightarrow> nat \<Rightarrow> bool" where
  "wf_layout i [] sz \<longleftrightarrow> i \<le> sz"
| "wf_layout i ((j, n) # ls) sz \<longleftrightarrow> i \<le> j \<and> wf_layout (j + n) ls sz"

lemma wf_layout_le: "wf_layout i ls sz \<Longrightarrow> i \<le> sz"
  by (induction i ls sz rule: wf_layout.induct) auto

lemma put_fields_frame:
  "put_fields ls vs b = Some b' \<Longrightarrow> wf_layout i ls sz \<Longrightarrow> map length vs = map snd ls \<Longrightarrow> j + n \<le> i \<Longrightarrow>
     length b' = length b \<and> rdn b' j n = rdn b j n"
proof (induction ls vs b arbitrary: i rule: put_fields.induct)
  case (1 k m ls v vs b)
  then obtain c where c: "wrn b k v = Some c" "put_fields ls vs c = Some b'" by (auto split: bind_splits)
  from 1 have "j + n \<le> k + m" "length v = m" by auto
  with 1 c have "length b' = length c \<and> rdn b' j n = rdn c j n" by auto
  moreover have "rdn c j n = rdn b j n" using c(1) 1(3,5) by (intro wrn_frame [of b k v]) auto
  ultimately show ?case using wrn_length [OF c(1)] by simp
qed auto

lemma put_fields_total:
  "wf_layout i ls sz \<Longrightarrow> map length vs = map snd ls \<Longrightarrow> sz \<le> length b \<Longrightarrow> \<exists>b'. put_fields ls vs b = Some b'"
proof (induction ls vs b arbitrary: i rule: put_fields.induct)
  case (1 k m ls v vs b)
  then have "k + length v \<le> length b" using wf_layout_le [of "k + m" ls sz] by auto
  then obtain c where c: "wrn b k v = Some c" by (simp add: wrn_def)
  with 1 wrn_length [OF c] show ?case by auto
qed auto

lemma fields_put:
  "put_fields ls vs b = Some b' \<Longrightarrow> wf_layout i ls sz \<Longrightarrow> map length vs = map snd ls \<Longrightarrow> fields_of ls b' = vs"
proof (induction ls vs b arbitrary: i rule: put_fields.induct)
  case (1 k m ls v vs b)
  then obtain c where c: "wrn b k v = Some c" "put_fields ls vs c = Some b'" by (auto split: bind_splits)
  have v: "length v = m" "wf_layout (k + m) ls sz" "map length vs = map snd ls" using 1 by auto
  have "rdn b' k m = rdn c k m" using put_fields_frame [OF c(2) v(2,3), of k m] by simp
  also have "\<dots> = Some v" using wrn_read_back [OF c(1)] v(1) by simp
  finally show ?case using 1(1) [OF c v(2,3)] by (auto simp: fields_of_def dest: rdn_SomeD)
qed (auto simp: fields_of_def)

lemma fields_of_lengths: "wf_layout i ls sz \<Longrightarrow> sz \<le> length b \<Longrightarrow> map length (fields_of ls b) = map snd ls"
  by (induction i ls sz rule: wf_layout.induct) (auto simp: fields_of_def dest!: wf_layout_le)

lemma fields_of_append: "wf_layout i ls sz \<Longrightarrow> sz \<le> length b \<Longrightarrow> fields_of ls (b @ c) = fields_of ls b"
  by (induction i ls sz rule: wf_layout.induct) (auto simp: fields_of_def dest!: wf_layout_le)

section \<open>The structure UE\<close>

definition host32 :: "u32 \<Rightarrow> byte list" where
  "host32 w = rev (UINT32_TO_ARRAY w)"

definition of_host32 :: "byte list \<Rightarrow> u32" where
  "of_host32 v = be32 (v ! 3) (v ! 2) (v ! 1) (v ! 0)"

lemma host32_simps [simp]: "length (host32 w) = 4" "of_host32 (host32 w) = w"
  by (simp_all add: host32_def of_host32_def UINT32_TO_ARRAY_def be32_bytes)

definition UE_SIZE :: nat where
  "UE_SIZE = 360"

definition ue_layout :: "(nat \<times> nat) list" where
  "ue_layout = [(0, 4), (4, 3), (7, 2), (9, 3), (12, 5), (17, 16), (33, 3), (36, 1), (40, 4), (44, 16), (60, 1),
     (61, 16), (77, 16), (93, 4), (100, 4), (104, 32), (136, 4), (140, 10), (150, 32), (184, 4), (188, 4), (192, 4),
     (196, 1), (197, 16), (213, 16), (229, 16), (245, 16), (261, 16), (277, 8), (285, 32), (317, 16), (333, 16),
     (349, 4), (353, 6)]"

definition ue_fields :: "UE \<Rightarrow> byte list list" where
  "ue_fields u = (let a = auth_challenge u in
     [host32 (ue_id u), ue_mcc u, ue_mnc u, ue_plmn u, ue_msin u, msin_string u, net_capabilities u,
      [nas_session_security_algorithms u], host32 (ue_s1ap_id u), mme_s1ap_id u, [mme_s1ap_id_len u],
      ue_key u, ue_op_key u, spgw_ip u, host32 (gtp_teid u), apn_name u, pdn_ip u, guti u, tun_name u,
      host32 (data_plane_socket u), host32 (tun_device u), ue_ip u, [nas_sequence_number u],
      RAND a, AUTN a, CK a, IK a, AK a, RES a, KASME a, NAS_KEY_ENC a, NAS_KEY_INT a,
      security_capabilities u, guami u])"

definition ue_of_fields :: "byte list list \<Rightarrow> UE" where
  "ue_of_fields v =
     \<lparr>ue_id = of_host32 (v ! 0), ue_mcc = v ! 1, ue_mnc = v ! 2, ue_plmn = v ! 3, ue_msin = v ! 4, msin_string = v ! 5,
      net_capabilities = v ! 6, nas_session_security_algorithms = hd (v ! 7), ue_s1ap_id = of_host32 (v ! 8),
      mme_s1ap_id = v ! 9, mme_s1ap_id_len = hd (v ! 10), ue_key = v ! 11, ue_op_key = v ! 12, spgw_ip = v ! 13,
      gtp_teid = of_host32 (v ! 14), apn_name = v ! 15, pdn_ip = v ! 16, guti = v ! 17, tun_name = v ! 18,
      data_plane_socket = of_host32 (v ! 19), tun_device = of_host32 (v ! 20), ue_ip = v ! 21,
      nas_sequence_number = hd (v ! 22),
      auth_challenge = \<lparr>RAND = v ! 23, AUTN = v ! 24, CK = v ! 25, IK = v ! 26, AK = v ! 27, RES = v ! 28,
        KASME = v ! 29, NAS_KEY_ENC = v ! 30, NAS_KEY_INT = v ! 31\<rparr>,
      security_capabilities = v ! 32, guami = v ! 33\<rparr>"

text \<open>A buffer treated as a UE, and the buffer after the UE has been changed.\<close>

definition load_UE :: "buf \<Rightarrow> UE option" where
  "load_UE b = (if UE_SIZE \<le> length b then Some (ue_of_fields (fields_of ue_layout b)) else None)"

definition store_UE :: "buf \<Rightarrow> UE \<Rightarrow> buf option" where
  "store_UE b u = (if UE_SIZE \<le> length b then put_fields ue_layout (ue_fields u) b else None)"

definition get_ue_size :: nat where
  "get_ue_size = UE_SIZE"

lemma ue_layout_wf: "wf_layout 0 ue_layout UE_SIZE"
  by (simp add: ue_layout_def UE_SIZE_def)

lemma ue_layout_length: "length ue_layout = 34"
  by (simp add: ue_layout_def)

lemma ue_of_fields [simp]: "ue_of_fields (ue_fields u) = u"
  by (simp add: ue_of_fields_def ue_fields_def Let_def)

lemma ue_fields_fit: "wf_UE u \<Longrightarrow> map length (ue_fields u) = map snd ue_layout"
  by (simp add: wf_UE_def wf_challenge_def ue_fields_def ue_layout_def Let_def)

lemma load_wf:
  assumes "load_UE b = Some u"
  shows "wf_UE u"
proof -
  let ?v = "fields_of ue_layout b"
  from assms have b: "UE_SIZE \<le> length b" and u: "u = ue_of_fields ?v" by (simp_all add: load_UE_def split: if_splits)
  have "map length ?v = map snd ue_layout" by (rule fields_of_lengths [OF ue_layout_wf b])
  then have "length (?v ! i) = map snd ue_layout ! i" if "i < 34" for i
    using that by (metis length_map nth_map ue_layout_length)
  then show ?thesis by (simp add: u ue_of_fields_def wf_UE_def wf_challenge_def) (simp add: ue_layout_def)
qed

lemma store_total: "wf_UE u \<Longrightarrow> UE_SIZE \<le> length b \<Longrightarrow> \<exists>b'. store_UE b u = Some b'"
  using put_fields_total [OF ue_layout_wf ue_fields_fit] by (simp add: store_UE_def)

lemma store_length: "store_UE b u = Some b' \<Longrightarrow> wf_UE u \<Longrightarrow> length b' = length b"
  using put_fields_frame [OF _ ue_layout_wf ue_fields_fit, where j = 0 and n = 0] by (auto simp: store_UE_def split: if_splits)

lemma load_store: "store_UE b u = Some b' \<Longrightarrow> wf_UE u \<Longrightarrow> load_UE b' = Some u"
  using fields_put [OF _ ue_layout_wf ue_fields_fit] store_length [of b u b']
  by (auto simp: store_UE_def load_UE_def split: if_splits)

lemma load_append: "UE_SIZE \<le> length b \<Longrightarrow> load_UE (b @ c) = load_UE b"
  by (simp add: load_UE_def fields_of_append [OF ue_layout_wf])

lemma load_take: "UE_SIZE \<le> n \<Longrightarrow> n \<le> length b \<Longrightarrow> load_UE (take n b) = load_UE b"
  using load_append [of "take n b" "drop n b"] by simp

end
