(* ===== verification/Gnb_Emulator.thy ===== *)
theory Gnb_Emulator
  imports Registration Ran_List Ue_Layout S1ap_Procedures
begin

text \<open>
  The base station of the RAN emulator, ran-emulator/source/enb_emulator.c, as the Makefile builds it (with \<open>_5G\<close>):
  the handler of the messages that UEs and other base stations send over TCP, the loop around it, and the thread that
  receives UEs from other base stations over UDP.  \<open>None\<close> is undefined behaviour.
\<close>

section \<open>Messages (message.h)\<close>

definition OK_CODE :: byte where "OK_CODE = 0x80"
definition INIT_CODE :: byte where "INIT_CODE = 0x01"
definition MOVE_TO_IDLE :: byte where "MOVE_TO_IDLE = 0x02"
definition UE_DETACH :: byte where "UE_DETACH = 0x03"
definition UE_SWITCH_OFF_DETACH :: byte where "UE_SWITCH_OFF_DETACH = 0x04"
definition UE_ATTACH :: byte where "UE_ATTACH = 0x05"
definition MOVE_TO_CONNECTED :: byte where "MOVE_TO_CONNECTED = 0x06"
definition HO_SETUP :: byte where "HO_SETUP = 0x07"
definition HO_REQUEST :: byte where "HO_REQUEST = 0x08"
definition UE_TRANFSER :: byte where "UE_TRANFSER = 0x09"
definition UE_S1_HANDOVER :: byte where "UE_S1_HANDOVER = 0x0a"
definition S1_SYNC :: byte where "S1_SYNC = 0x0b"
definition S1_SYNC2 :: byte where "S1_SYNC2 = 0x0c"
definition S1_ERROR :: byte where "S1_ERROR = 0x0d"
definition X2_OK :: byte where "X2_OK = 0"
definition X2_ERROR :: byte where "X2_ERROR = 1"
definition ENB_PORT :: nat where "ENB_PORT = 2233"
definition X2_ENB_PORT :: nat where "X2_ENB_PORT = 2234"

lemmas code_defs = OK_CODE_def INIT_CODE_def MOVE_TO_IDLE_def UE_DETACH_def UE_SWITCH_OFF_DETACH_def UE_ATTACH_def
  MOVE_TO_CONNECTED_def HO_SETUP_def HO_REQUEST_def UE_TRANFSER_def UE_S1_HANDOVER_def S1_SYNC_def S1_SYNC2_def
  S1_ERROR_def X2_OK_def X2_ERROR_def

section \<open>State\<close>

text \<open>
  What a pointer to a UE points to: an object of the garbage collector, the array of \<open>x2_thread\<close> or the array of
  \<open>enb_emulator_thread\<close>.
\<close>

datatype ue_ptr = Object nat | X2_Buffer | Msg_Buffer

text \<open>
  The globals and arrays of the two threads: the list of UEs, the memory of the UEs, the connection to the core,
  what has been sent to other base stations (address, port and bytes) and to the client of the current request.
  \<open>g_local\<close> is the memory in which the local arrays lie.
\<close>

record gnb =
  g_nodes :: "ue_ptr option nodes"
  g_list :: List
  g_objects :: "nat \<rightharpoonup> UE"
  g_x2 :: buf
  g_buffer :: buf
  g_response :: buf
  g_response_len :: nat
  g_local :: buf
  g_enb :: eNB
  g_in :: "byte list option list"
  g_sent :: "byte list list"
  g_peer :: "(byte list \<times> nat \<times> byte list) list"
  g_client :: "byte list list"

text \<open>
  What happens outside during a request: the results of \<open>GC_malloc\<close>, of \<open>malloc\<close>, of \<open>socket\<close> and \<open>connect\<close>, of the
  reads from another base station, and what the local array of the path switch holds before.
\<close>

record world =
  w_object :: "(nat \<times> UE) option"
  w_node :: "nat option"
  w_socket :: bool
  w_connect :: bool
  w_reads :: "byte list option list"
  w_stack :: buf

definition ue_at :: "gnb \<Rightarrow> ue_ptr option \<Rightarrow> UE option" where
  "ue_at g p =
     (case p of
        None \<Rightarrow> None
      | Some (Object a) \<Rightarrow> g_objects g a
      | Some X2_Buffer \<Rightarrow> load_UE (g_x2 g)
      | Some Msg_Buffer \<Rightarrow> load_UE (g_buffer g))"

definition put_ue :: "gnb \<Rightarrow> ue_ptr option \<Rightarrow> UE \<Rightarrow> gnb option" where
  "put_ue g p u =
     (case p of
        None \<Rightarrow> None
      | Some (Object a) \<Rightarrow> Some (g\<lparr>g_objects := (g_objects g)(a \<mapsto> u)\<rparr>)
      | Some X2_Buffer \<Rightarrow> do { b \<leftarrow> store_UE (g_x2 g) u; Some (g\<lparr>g_x2 := b\<rparr>) }
      | Some Msg_Buffer \<Rightarrow> do { b \<leftarrow> store_UE (g_buffer g) u; Some (g\<lparr>g_buffer := b\<rparr>) })"

text \<open>\<open>GC_free\<close> of anything but an object is undefined.\<close>

definition free_UE :: "gnb \<Rightarrow> ue_ptr option \<Rightarrow> gnb option" where
  "free_UE g p =
     (case p of
        None \<Rightarrow> Some g
      | Some (Object a) \<Rightarrow> Some (g\<lparr>g_objects := (g_objects g)(a := None)\<rparr>)
      | Some _ \<Rightarrow> None)"

text \<open>The comparison with a key, which is NULL in the handover messages.\<close>

definition matches :: "gnb \<Rightarrow> buf option \<Rightarrow> ue_ptr option \<Rightarrow> bool option" where
  "matches g key p = do { u \<leftarrow> ue_at g p; k \<leftarrow> key; ue_compare u k }"

text \<open>The search in the list; the result is the pointer, NULL when no UE matches.\<close>

definition peek_ue :: "gnb \<Rightarrow> buf option \<Rightarrow> ue_ptr option option" where
  "peek_ue g key = do {
     r \<leftarrow> peekElem (g_nodes g) (g_list g) (matches g key);
     Some (case r of None \<Rightarrow> None | Some p \<Rightarrow> p) }"

definition run_procedure :: "gnb \<Rightarrow> ue_ptr option \<Rightarrow> (proc \<Rightarrow> (proc \<times> result) option) \<Rightarrow> (gnb \<times> result) option" where
  "run_procedure g p f = do {
     u \<leftarrow> ue_at g p;
     (s, r) \<leftarrow> f \<lparr>pr_in = g_in g, pr_sent = g_sent g, pr_buf = g_local g, pr_ue = u\<rparr>;
     g \<leftarrow> put_ue g p (pr_ue s);
     Some (g\<lparr>g_in := pr_in s, g_sent := pr_sent s, g_local := pr_buf s\<rparr>, r) }"

section \<open>The handler\<close>

definition set_response :: "gnb \<Rightarrow> byte list \<Rightarrow> gnb option" where
  "set_response g m = do {
     b \<leftarrow> wrn (g_response g) 0 m;
     Some (g\<lparr>g_response := b, g_response_len := length m\<rparr>) }"

definition finish :: "status \<Rightarrow> gnb \<Rightarrow> byte list \<Rightarrow> (gnb \<times> result) option" where
  "finish st g m = do { g \<leftarrow> set_response g m; Some (g, Returned st) }"

text \<open>\<open>if(procedure(...)) error response; else ...\<close>\<close>

definition on_success :: "(gnb \<times> result) option \<Rightarrow> byte \<Rightarrow> (gnb \<Rightarrow> (gnb \<times> result) option) \<Rightarrow> (gnb \<times> result) option" where
  "on_success m code k = do {
     (g, r) \<leftarrow> m;
     if r = Returned ERROR then finish ERROR g [code]
     else if r = Returned OK then k g
     else Some (g, r) }"

text \<open>The \<open>init_response_msg\<close> with the TEID and the addresses of the session.\<close>

definition session_response :: "gnb \<Rightarrow> ue_ptr option \<Rightarrow> byte \<Rightarrow> (gnb \<times> result) option" where
  "session_response g p code = do {
     u \<leftarrow> ue_at g p;
     ip \<leftarrow> rdn (get_pdn_ip u) 0 4;
     spgw \<leftarrow> rdn (get_spgw_ip u) 0 4;
     finish OK g ((OK_CODE OR code) # UINT32_TO_ARRAY (get_gtp_teid u) @ ip @ spgw) }"

text \<open>\<open>initmsg->mcc[3] = 0\<close> and so on: the strings of the message are ended.\<close>

definition terminate_strings :: "buf \<Rightarrow> buf option" where
  "terminate_strings b = do { b \<leftarrow> wr b 8 0; b \<leftarrow> wr b 11 0; wr b 23 0 }"

definition handle_init :: "world \<Rightarrow> env \<Rightarrow> gnb \<Rightarrow> byte \<Rightarrow> (gnb \<times> result) option" where
  "handle_init w E g code = do {
     b \<leftarrow> terminate_strings (g_buffer g);
     ue \<leftarrow> init_UE (map_option snd (w_object w)) (drop 5 b) (drop 9 b) (drop 13 b) (drop 25 b) (drop 41 b) (drop 57 b);
     let p = (case ue of None \<Rightarrow> None | Some _ \<Rightarrow> map_option (Object \<circ> fst) (w_object w));
     g \<leftarrow> (case ue of None \<Rightarrow> Some (g\<lparr>g_buffer := b\<rparr>) | Some u \<Rightarrow> put_ue (g\<lparr>g_buffer := b\<rparr>) p u);
     (st, h, l) \<leftarrow> addElem (g_nodes g) (g_list g) (w_node w) p;
     let g = g\<lparr>g_nodes := h, g_list := l\<rparr>;
     if st = ERROR then do { g \<leftarrow> free_UE g p; finish ERROR g [code] }
     else on_success (run_procedure g p (procedure_Registration_Request E (g_enb g))) code
       (\<lambda>g. session_response g p code) }"

text \<open>\<open>idlemsg->msin\<close>\<close>

definition msin_key :: "gnb \<Rightarrow> buf option" where
  "msin_key g = Some (drop 1 (g_buffer g))"

definition handle_idle :: "gnb \<Rightarrow> byte \<Rightarrow> (gnb \<times> result) option" where
  "handle_idle g code = do { p \<leftarrow> peek_ue g (msin_key g); finish OK g [OK_CODE OR code] }"

definition handle_detach :: "env \<Rightarrow> gnb \<Rightarrow> byte \<Rightarrow> (gnb \<times> result) option" where
  "handle_detach E g code = do {
     let switch_off = code AND UE_SWITCH_OFF_DETACH;
     p \<leftarrow> peek_ue g (msin_key g);
     on_success (run_procedure g p (\<lambda>s. procedure_Deregistration_Request E (g_enb g) s (switch_off \<noteq> 0))) 0
       (\<lambda>g. finish OK g [OK_CODE OR code]) }"

definition handle_attach :: "env \<Rightarrow> gnb \<Rightarrow> byte \<Rightarrow> (gnb \<times> result) option" where
  "handle_attach E g code = do {
     p \<leftarrow> peek_ue g (msin_key g);
     on_success (run_procedure g p (procedure_Registration_Request E (g_enb g))) code
       (\<lambda>g. session_response g p code) }"

definition handle_connected :: "gnb \<Rightarrow> byte \<Rightarrow> (gnb \<times> result) option" where
  "handle_connected g code = do {
     p \<leftarrow> peek_ue g (msin_key g);
     u \<leftarrow> ue_at g p;
     spgw \<leftarrow> rdn (get_spgw_ip u) 0 4;
     finish OK g ((OK_CODE OR code) # UINT32_TO_ARRAY (get_gtp_teid u) @ spgw) }"

text \<open>\<open>homsg->msin\<close> is at the place of \<open>idlemsg->msin\<close>; \<open>homsg->target_enb_ip\<close> follows.\<close>

definition target_ip :: "gnb \<Rightarrow> byte list option" where
  "target_ip g = rdn (g_buffer g) 17 4"

text \<open>\<open>free_UE(getElem(list, (void *)homsg->msin))\<close>\<close>

definition drop_ue :: "gnb \<Rightarrow> gnb option" where
  "drop_ue g = do {
     (p, h, l) \<leftarrow> getElem (g_nodes g) (g_list g) (matches g (msin_key g));
     free_UE (g\<lparr>g_nodes := h, g_list := l\<rparr>) (case p of None \<Rightarrow> None | Some q \<Rightarrow> q) }"

text \<open>
  \<open>HO_SETUP\<close>.  The search key is \<open>idlemsg->msin\<close> with \<open>idlemsg\<close> still NULL, and the answer of the target is looked
  for in \<open>buffer\<close>, which holds the request, not in \<open>buffer_ho\<close>.
\<close>

definition handle_ho_setup :: "world \<Rightarrow> gnb \<Rightarrow> byte \<Rightarrow> (gnb \<times> result) option" where
  "handle_ho_setup w g code = do {
     p \<leftarrow> peek_ue g None;
     if p = None then finish ERROR g [X2_ERROR]
     else if \<not> w_socket w then finish ERROR g [X2_ERROR]
     else do {
       ip \<leftarrow> target_ip g;
       u \<leftarrow> ue_at g p;
       b \<leftarrow> store_UE (g_local g) u;
       d \<leftarrow> rdn b 0 get_ue_size;
       let g = g\<lparr>g_local := b, g_peer := g_peer g @ [(ip, X2_ENB_PORT, d)]\<rparr>;
       (case w_reads w of
          [] \<Rightarrow> Some (g, Blocked)
        | None # _ \<Rightarrow> finish ERROR g [X2_ERROR]
        | Some _ # _ \<Rightarrow>
            if code = X2_ERROR then finish ERROR g [X2_ERROR]
            else do { g \<leftarrow> drop_ue g; finish OK g [X2_OK] }) } }"

text \<open>The handover messages call the procedures of s1ap.c; that of X2 has an array of 2048 bytes of its own.\<close>

definition x2_handover :: "world \<Rightarrow> eNB \<Rightarrow> proc \<Rightarrow> (proc \<times> result) option" where
  "x2_handover w e s = do {
     (t, r) \<leftarrow> procedure_UE_X2_handover e (s\<lparr>pr_buf := w_stack w\<rparr>);
     Some (t\<lparr>pr_buf := pr_buf s\<rparr>, r) }"

definition handle_ho_request :: "world \<Rightarrow> gnb \<Rightarrow> (gnb \<times> result) option" where
  "handle_ho_request w g = do {
     p \<leftarrow> peek_ue g None;
     if p = None then finish ERROR g [X2_ERROR]
     else on_success (run_procedure g p (x2_handover w (g_enb g))) X2_ERROR (\<lambda>g. finish OK g [X2_OK]) }"

text \<open>\<open>UE_TRANFSER\<close> repeats the statements of \<open>HO_SETUP\<close>.\<close>

definition handle_ue_transfer :: "world \<Rightarrow> gnb \<Rightarrow> byte \<Rightarrow> (gnb \<times> result) option" where
  "handle_ue_transfer w g code = handle_ho_setup w g code"

text \<open>
  \<open>UE_S1_HANDOVER\<close>.  A read of one byte that ends the connection leaves the first byte of \<open>buffer_ho\<close> as it was.
  Some error paths return without a response.
\<close>

definition first_byte :: "byte list \<Rightarrow> byte \<Rightarrow> byte" where
  "first_byte m old = (case m of [] \<Rightarrow> old | x # _ \<Rightarrow> x)"

definition s1_confirm :: "world \<Rightarrow> gnb \<Rightarrow> byte \<Rightarrow> (gnb \<times> result) option" where
  "s1_confirm w g code =
     (case drop 1 (w_reads w) of
        [] \<Rightarrow> Some (g, Blocked)
      | None # _ \<Rightarrow> finish ERROR g [code]
      | Some m # _ \<Rightarrow>
          if first_byte m (OK_CODE OR S1_SYNC) \<noteq> S1_SYNC2 then finish ERROR g [code]
          else do { g \<leftarrow> drop_ue g; finish OK g [OK_CODE OR code] })"

definition handle_s1_handover :: "world \<Rightarrow> gnb \<Rightarrow> byte \<Rightarrow> (gnb \<times> result) option" where
  "handle_s1_handover w g code = do {
     p \<leftarrow> peek_ue g None;
     if p = None then finish ERROR g [X2_ERROR]
     else do {
       ip \<leftarrow> target_ip g;
       if \<not> w_socket w then Some (g, Returned ERROR)
       else if \<not> w_connect w then Some (g, Returned ERROR)
       else do {
         u \<leftarrow> ue_at g p;
         b \<leftarrow> store_UE (drop 1 (g_local g)) u;
         d \<leftarrow> rdn (S1_SYNC # b) 0 (get_ue_size + 1);
         let g = g\<lparr>g_local := S1_SYNC # b, g_peer := g_peer g @ [(ip, ENB_PORT, d)]\<rparr>;
         (case w_reads w of
            [] \<Rightarrow> Some (g, Blocked)
          | None # _ \<Rightarrow> Some (g, Returned ERROR)
          | Some m # _ \<Rightarrow>
              if first_byte m S1_SYNC \<noteq> OK_CODE OR S1_SYNC then Some (g, Returned ERROR)
              else on_success (run_procedure g p (procedure_S1_Handover_Source_eNB (g_enb g))) code (\<lambda>g. s1_confirm w g code)) } } }"

text \<open>\<open>S1_SYNC\<close>.  The UE is \<open>(UE *) buffer\<close>, although it starts at \<open>buffer + 1\<close>; it is in the array of the thread.\<close>

definition handle_s1_sync :: "world \<Rightarrow> gnb \<Rightarrow> (gnb \<times> result) option" where
  "handle_s1_sync w g = do {
     let p = Some Msg_Buffer;
     let g = g\<lparr>g_client := g_client g @ [ [OK_CODE OR S1_SYNC] ]\<rparr>;
     on_success (run_procedure g p (procedure_S1_Handover_Target_eNB (g_enb g))) S1_ERROR (\<lambda>g. do {
       (st, h, l) \<leftarrow> addElem (g_nodes g) (g_list g) (w_node w) p;
       finish OK (g\<lparr>g_nodes := h, g_list := l\<rparr>) [S1_SYNC2] }) }"

definition analyze_ue_msg :: "world \<Rightarrow> env \<Rightarrow> gnb \<Rightarrow> (gnb \<times> result) option" where
  "analyze_ue_msg w E g = do {
     code \<leftarrow> rd (g_buffer g) 0;
     if code = INIT_CODE then handle_init w E g code
     else if code = MOVE_TO_IDLE then handle_idle g code
     else if code = UE_DETACH \<or> code = UE_SWITCH_OFF_DETACH then handle_detach E g code
     else if code = UE_ATTACH then handle_attach E g code
     else if code = MOVE_TO_CONNECTED then handle_connected g code
     else if code = HO_SETUP then handle_ho_setup w g code
     else if code = HO_REQUEST then handle_ho_request w g
     else if code = UE_TRANFSER then handle_ue_transfer w g code
     else if code = UE_S1_HANDOVER then handle_s1_handover w g code
     else if code = S1_SYNC then handle_s1_sync w g
     else Some (g, Returned OK) }"

section \<open>The threads\<close>

text \<open>
  One turn of the loop of \<open>enb_emulator_thread\<close>, for what \<open>accept\<close> and \<open>recv\<close> return.  The response array and its length
  live outside the loop.  \<open>Blocked\<close> is a request that waits forever.
\<close>

datatype client_event = Accept_Error | Recv_Error | Message "byte list"

definition serve_client :: "world \<Rightarrow> env \<Rightarrow> gnb \<Rightarrow> client_event \<Rightarrow> (gnb \<times> result) option" where
  "serve_client w E g ev =
     (case ev of
        Accept_Error \<Rightarrow> Some (g, Going)
      | Recv_Error \<Rightarrow> Some (g, Going)
      | Message m \<Rightarrow>
          if m = [] then Some (g, Going)
          else do {
            b \<leftarrow> memcpy (g_buffer g) 0 m (min (length m) 1024);
            (g, r) \<leftarrow> analyze_ue_msg w E (g\<lparr>g_buffer := b, g_client := []\<rparr>);
            if r = Blocked then Some (g, Blocked)
            else do {
              d \<leftarrow> rdn (g_response g) 0 (g_response_len g);
              Some (g\<lparr>g_client := g_client g @ [d]\<rparr>, Going) } })"

text \<open>One turn of the loop of \<open>x2_thread\<close>, for a datagram; the result is the answer to its sender.\<close>

definition x2_receive :: "gnb \<Rightarrow> nat option \<Rightarrow> byte list \<Rightarrow> (gnb \<times> byte) option" where
  "x2_receive g node m = do {
     b \<leftarrow> memset (g_x2 g) 0 0 1024;
     b \<leftarrow> memcpy b 0 m (min (length m) 1024);
     (st, h, l) \<leftarrow> addElem (g_nodes g) (g_list g) node (Some X2_Buffer);
     Some (g\<lparr>g_x2 := b, g_nodes := h, g_list := l\<rparr>, if st = ERROR then X2_ERROR else X2_OK) }"

end
