(* ===== verification/Ue_Emulator.thy ===== *)
theory Ue_Emulator
  imports Gnb_Emulator
begin

text \<open>
  The UE side of the RAN emulator: the notifications of the controller (ran-emulator/source/ran_emulator.c) and the
  requests that a UE makes of its base station, with the script that drives them (ran-emulator/source/ue_emulator.c).
  \<open>None\<close> is undefined behaviour.  The pauses of two seconds after a connection are left out.
\<close>

section \<open>State\<close>

record ue_data =
  d_id :: buf
  d_mcc :: buf
  d_mnc :: buf
  d_msin :: buf
  d_key :: buf
  d_op_key :: buf
  d_command :: "byte list"
  d_enb_ip :: buf
  d_local_ip :: buf
  d_ue_ip :: buf
  d_spgw_port :: u16
  d_thread_id :: int
  d_control_plane :: buf

text \<open>
  A connection to a base station: whether \<open>socket\<close> works, what each \<open>connect\<close> gives and what \<open>read\<close> returns.
\<close>

datatype connect = Refused | Failed | Connected

record connection =
  c_socket :: bool
  c_connect :: "connect list"
  c_read :: "byte list option"

text \<open>What becomes of a question to the controller.\<close>

datatype reply = No_Socket | No_Answer | Answer "byte list"

datatype event =
    To_Gnb "byte list" "byte list"
  | Notify "byte list"
  | Generator_Started "byte list"
  | Generator_Killed
  | Sleep nat

text \<open>
  The data of the UE, the globals, the results of the calls still to come, and what has been done.  The arrays \<open>ue_ip\<close> of
  ran_emulator.c, ue_emulator.c and data_plane.c are one object of the linked program (they are tentative definitions, and
  the compiler of the image places them in common storage), as are \<open>gtp_teid\<close>, four bytes in one file and a
  \<open>uint32_t\<close> in another, and \<open>local_ip\<close>.  \<open>r_tun\<close> are the results of \<open>start_data_plane\<close> and \<open>update_ip\<close>.
\<close>

record ran =
  r_data :: ue_data
  r_cp_only :: int
  r_ue_ip :: buf
  r_local_ip :: buf
  r_spgw_ip :: buf
  r_gtp_teid :: buf
  r_spgw_addr :: buf
  r_conns :: "connection list"
  r_tun :: "bool list"
  r_controller :: "reply list"
  r_log :: "event list"

definition emit :: "event \<Rightarrow> ran \<Rightarrow> ran" where
  "emit e s = s\<lparr>r_log := r_log s @ [e]\<rparr>"

section \<open>Notifications (ran\_emulator.c)\<close>

definition CODE_IDLE :: byte where "CODE_IDLE = 0x03"
definition CODE_DETACHED :: byte where "CODE_DETACHED = 0x04"
definition CODE_ATTACHED :: byte where "CODE_ATTACHED = 0x05"
definition CODE_MOVE_TO_CONNECTED :: byte where "CODE_MOVE_TO_CONNECTED = 0x06"
definition CODE_GET_ENB :: byte where "CODE_GET_ENB = 0x07"
definition CODE_X2_HANDOVER_COMPLETED :: byte where "CODE_X2_HANDOVER_COMPLETED = 0x08"
definition CODE_ATTACHED_TO_ENB :: byte where "CODE_ATTACHED_TO_ENB = 0x09"
definition CODE_S1_HANDOVER_COMPLETED :: byte where "CODE_S1_HANDOVER_COMPLETED = 0x0A"
definition CODE_UE_BEHAVIOUR :: byte where "CODE_UE_BEHAVIOUR = 0x02"
definition CODE_ENB_BEHAVIOUR :: byte where "CODE_ENB_BEHAVIOUR = 0x01"

definition send_idle_controller :: "u32 \<Rightarrow> ran \<Rightarrow> ran" where
  "send_idle_controller i = emit (Notify (CODE_IDLE # UINT32_TO_ARRAY i))"

definition send_ue_detach_controller :: "u32 \<Rightarrow> ran \<Rightarrow> ran" where
  "send_ue_detach_controller i = emit (Notify (CODE_DETACHED # UINT32_TO_ARRAY i))"

definition send_ue_attach_controller :: "u32 \<Rightarrow> ran \<Rightarrow> ran" where
  "send_ue_attach_controller i = emit (Notify (CODE_ATTACHED # UINT32_TO_ARRAY i))"

definition send_ue_behaviour :: "u32 \<Rightarrow> ran \<Rightarrow> ran" where
  "send_ue_behaviour i = emit (Notify ((OK_CODE OR CODE_UE_BEHAVIOUR) # UINT32_TO_ARRAY i))"

definition send_ue_behaviour_error :: "u32 \<Rightarrow> ran \<Rightarrow> ran" where
  "send_ue_behaviour_error i = emit (Notify (CODE_UE_BEHAVIOUR # UINT32_TO_ARRAY i))"

definition send_ue_moved_to_connected_controller :: "u32 \<Rightarrow> ran \<Rightarrow> ran" where
  "send_ue_moved_to_connected_controller i = emit (Notify (CODE_MOVE_TO_CONNECTED # UINT32_TO_ARRAY i))"

definition send_x2_handover_complete :: "u32 \<Rightarrow> u32 \<Rightarrow> ran \<Rightarrow> ran" where
  "send_x2_handover_complete i e = emit (Notify (CODE_X2_HANDOVER_COMPLETED # UINT32_TO_ARRAY i @ UINT32_TO_ARRAY e))"

definition send_ue_attach_to_enb_controller :: "u32 \<Rightarrow> u32 \<Rightarrow> ran \<Rightarrow> ran" where
  "send_ue_attach_to_enb_controller i e = emit (Notify (CODE_ATTACHED_TO_ENB # UINT32_TO_ARRAY i @ UINT32_TO_ARRAY e))"

definition send_s1_handover_complete :: "u32 \<Rightarrow> u32 \<Rightarrow> ran \<Rightarrow> ran" where
  "send_s1_handover_complete i e = emit (Notify (CODE_S1_HANDOVER_COMPLETED # UINT32_TO_ARRAY i @ UINT32_TO_ARRAY e))"

text \<open>
  The address of a base station from the controller.  At most five bytes are received into a cleared array; an error is
  the value -1.  \<open>None\<close> inside the result is an answer that has not come.
\<close>

definition send_get_enb_ip :: "u32 \<Rightarrow> u32 \<Rightarrow> ran \<Rightarrow> (ran \<times> u32 option) option" where
  "send_get_enb_ip i e s =
     (case r_controller s of
        [] \<Rightarrow> Some (s, None)
      | No_Socket # as \<Rightarrow> Some (s\<lparr>r_controller := as\<rparr>, Some (-1))
      | a # as \<Rightarrow> do {
          let s = emit (Notify (CODE_GET_ENB # UINT32_TO_ARRAY i @ UINT32_TO_ARRAY e)) (s\<lparr>r_controller := as\<rparr>);
          (case a of
             Answer m \<Rightarrow>
               if length m \<le> 1 then Some (s, Some (-1))
               else do {
                 b \<leftarrow> memcpy (replicate 9 0) 0 m (min (length m) 5);
                 ip \<leftarrow> ARRAY_TO_UINT32 b 1;
                 Some (s, Some ip) }
           | _ \<Rightarrow> Some (s, Some (-1))) })"

section \<open>Requests (ue\_emulator.c)\<close>

definition start_traffic_generator :: "byte list \<Rightarrow> ran \<Rightarrow> ran" where
  "start_traffic_generator command = emit (Generator_Started command)"

definition stop_traffic_generator :: "ran \<Rightarrow> ran" where
  "stop_traffic_generator = emit Generator_Killed"

text \<open>The expression \<open>(ue->id[0] << 24) | ... | ue->id[3]\<close>.\<close>

definition ue_number :: "ran \<Rightarrow> u32 option" where
  "ue_number s = ARRAY_TO_UINT32 (d_id (r_data s)) 0"

text \<open>\<open>while(1) connect(...)\<close>: a refused connection is tried again.\<close>

fun connect_loop :: "connect list \<Rightarrow> result" where
  "connect_loop [] = Blocked"
| "connect_loop (Refused # cs) = connect_loop cs"
| "connect_loop (Failed # cs) = Returned ERROR"
| "connect_loop (Connected # cs) = Going"

text \<open>
  What every request does: make a socket, connect to \<open>ip\<close>, fill a cleared array of \<open>sz\<close> bytes with the code and the members of the
  message, write \<open>n\<close> bytes of it, and read the answer into the same array.  \<open>Going\<close> is an answer (or the end of
  the connection, which leaves the array as it was).
\<close>

definition exchange :: "byte list \<Rightarrow> byte list \<Rightarrow> nat \<Rightarrow> nat \<Rightarrow> ran \<Rightarrow> (ran \<times> result \<times> buf) option" where
  "exchange ip msg n sz s =
     (case r_conns s of
        [] \<Rightarrow> Some (s, Blocked, [])
      | c # cs \<Rightarrow> do {
          let s = s\<lparr>r_conns := cs\<rparr>;
          if \<not> c_socket c then Some (s, Returned ERROR, [])
          else if connect_loop (c_connect c) \<noteq> Going then Some (s, connect_loop (c_connect c), [])
          else do {
            b \<leftarrow> wrn (replicate sz 0) 0 msg;
            m \<leftarrow> rdn b 0 n;
            let s = emit (To_Gnb ip m) s;
            (case c_read c of
               None \<Rightarrow> Some (s, Returned ERROR, [])
             | Some a \<Rightarrow> do {
                 b \<leftarrow> memcpy b 0 a (min (length a) sz);
                 Some (s, Going, b) }) } })"

text \<open>The message with the code and ten digits of the MSIN.\<close>

definition idle_message :: "byte \<Rightarrow> ran \<Rightarrow> byte list option" where
  "idle_message code s = do { m \<leftarrow> rdn (d_msin (r_data s)) 0 10; Some (code # m) }"

definition ho_message :: "byte \<Rightarrow> byte list \<Rightarrow> ran \<Rightarrow> byte list option" where
  "ho_message code ip s = do { m \<leftarrow> rdn (d_msin (r_data s)) 0 10; Some (code # m @ replicate 6 0 @ ip) }"

text \<open>One request whose answer must have its first byte in \<open>good\<close>; \<open>k\<close> is what follows.\<close>

definition ask_gnb ::
  "byte list \<Rightarrow> byte list \<Rightarrow> nat \<Rightarrow> nat \<Rightarrow> (byte \<Rightarrow> bool) \<Rightarrow> ran \<Rightarrow> (ran \<Rightarrow> buf \<Rightarrow> (ran \<times> result) option) \<Rightarrow> (ran \<times> result) option" where
  "ask_gnb ip msg n sz good s k = do {
     (s, r, b) \<leftarrow> exchange ip msg n sz s;
     if r \<noteq> Going then Some (s, r)
     else do {
       c \<leftarrow> rd b 0;
       if \<not> good c then Some (s, Returned ERROR) else k s b } }"

definition send_ue_context_release :: "ran \<Rightarrow> (ran \<times> result) option" where
  "send_ue_context_release s = do {
     let s = (if r_cp_only s = 0 then stop_traffic_generator s else s);
     m \<leftarrow> idle_message MOVE_TO_IDLE s;
     ask_gnb (d_enb_ip (r_data s)) m 18 32 (\<lambda>c. c = OK_CODE OR MOVE_TO_IDLE) s (\<lambda>s b. do {
       i \<leftarrow> ue_number s;
       Some (send_idle_controller i s, Returned OK) }) }"

definition send_ue_detach :: "bool \<Rightarrow> bool \<Rightarrow> ran \<Rightarrow> (ran \<times> result) option" where
  "send_ue_detach switch_off traffic_flag s = do {
     let s = (if r_cp_only s = 0 \<and> traffic_flag then stop_traffic_generator s else s);
     m \<leftarrow> idle_message (if \<not> switch_off then UE_DETACH else UE_SWITCH_OFF_DETACH) s;
     ask_gnb (d_enb_ip (r_data s)) m 18 32
       (\<lambda>c. c = OK_CODE OR UE_DETACH \<or> c = OK_CODE OR UE_SWITCH_OFF_DETACH) s (\<lambda>s b. do {
       i \<leftarrow> ue_number s;
       Some (if traffic_flag then send_ue_detach_controller i s else s, Returned OK) }) }"

text \<open>The result of the next operation on the TUN device; one that is not listed fails.\<close>

definition tun_result :: "ran \<Rightarrow> status" where
  "tun_result s = (if r_tun s \<noteq> [] \<and> hd (r_tun s) then OK else ERROR)"

text \<open>
  \<open>update_data_plane\<close> of data_plane.c: the destination, the address and the TEID are stored before \<open>update_ip\<close> changes the
  device; a negative result is an error.
\<close>

definition update_data_plane :: "buf \<Rightarrow> buf \<Rightarrow> u32 \<Rightarrow> ran \<Rightarrow> ran \<times> status" where
  "update_data_plane ip spgw teid s =
     (s\<lparr>r_spgw_addr := spgw, r_ue_ip := ip, r_gtp_teid := host32 teid, r_tun := drop 1 (r_tun s)\<rparr>, tun_result s)"

text \<open>
  The tail of an attachment: with a data plane, take the TEID and the address from the answer, update the data plane and
  start the traffic; \<open>k\<close> notifies the controller.
\<close>

definition adopt_session :: "buf \<Rightarrow> ran \<Rightarrow> (ran \<Rightarrow> (ran \<times> result) option) \<Rightarrow> (ran \<times> result) option" where
  "adopt_session b s k =
     (if r_cp_only s \<noteq> 0 then k s
      else do {
        teid \<leftarrow> ARRAY_TO_UINT32 b 1;
        t \<leftarrow> rdn b 1 4;
        ip \<leftarrow> rdn b 5 4;
        let (s, st) = update_data_plane ip (r_spgw_ip s) teid (s\<lparr>r_gtp_teid := t, r_ue_ip := ip\<rparr>);
        if st = ERROR then Some (s, Returned ERROR)
        else k (start_traffic_generator (d_command (r_data s)) s) })"

definition send_ue_attach :: "ran \<Rightarrow> (ran \<times> result) option" where
  "send_ue_attach s = do {
     m \<leftarrow> idle_message UE_ATTACH s;
     ask_gnb (d_enb_ip (r_data s)) m 18 256 (\<lambda>c. c = OK_CODE OR UE_ATTACH) s (\<lambda>s b.
       adopt_session b s (\<lambda>s. do {
         i \<leftarrow> ue_number s;
         Some (send_ue_attach_controller i s, Returned OK) })) }"

definition send_move_to_connect :: "ran \<Rightarrow> (ran \<times> result) option" where
  "send_move_to_connect s = do {
     m \<leftarrow> idle_message MOVE_TO_CONNECTED s;
     ask_gnb (d_enb_ip (r_data s)) m 18 256 (\<lambda>c. c = OK_CODE OR MOVE_TO_CONNECTED) s (\<lambda>s b. do {
       i \<leftarrow> ue_number s;
       if r_cp_only s \<noteq> 0 then Some (send_ue_moved_to_connected_controller i s, Returned OK)
       else do {
         teid \<leftarrow> ARRAY_TO_UINT32 b 1;
         t \<leftarrow> rdn b 1 4;
         let (s, st) = update_data_plane (r_ue_ip s) (r_spgw_ip s) teid (s\<lparr>r_gtp_teid := t\<rparr>);
         if st = ERROR then Some (s, Returned ERROR)
         else Some (send_ue_moved_to_connected_controller i
           (start_traffic_generator (d_command (r_data s)) s), Returned OK) } }) }"

text \<open>The number and the address of the target base station; an answer of 0 is one that does not run.\<close>

definition find_target :: "buf \<Rightarrow> ran \<Rightarrow> (ran \<Rightarrow> u32 \<Rightarrow> byte list \<Rightarrow> (ran \<times> result) option) \<Rightarrow> (ran \<times> result) option" where
  "find_target enb_num s k = do {
     e0 \<leftarrow> rd enb_num 0; e1 \<leftarrow> rd enb_num 1; e2 \<leftarrow> rd enb_num 2;
     let enb_n = be32 0 e0 e1 e2;
     i \<leftarrow> ue_number s;
     (s, ip) \<leftarrow> send_get_enb_ip i enb_n s;
     (case ip of
        None \<Rightarrow> Some (s, Blocked)
      | Some ip \<Rightarrow> if ip = -1 \<or> ip = 0 then Some (s, Returned ERROR) else k s enb_n (UINT32_TO_ARRAY ip)) }"

text \<open>
  \<open>send_x2_handover\<close>.  The address of the second connection is still \<open>enb_addr\<close>, the source.  Only the code
  \<open>X2_SETUP_ERROR\<close> counts as an error.
\<close>

definition send_x2_handover :: "buf \<Rightarrow> ran \<Rightarrow> (ran \<times> result) option" where
  "send_x2_handover enb_num s =
     find_target enb_num s (\<lambda>s enb_n ip. do {
       let enb_addr = d_enb_ip (r_data s);
       m \<leftarrow> ho_message HO_SETUP ip s;
       ask_gnb enb_addr m 22 32 (\<lambda>c. c \<noteq> X2_ERROR) s (\<lambda>s b. do {
         let s = s\<lparr>r_data := (r_data s)\<lparr>d_enb_ip := ip\<rparr>\<rparr>;
         m \<leftarrow> ho_message HO_REQUEST [0, 0, 0, 0] s;
         ask_gnb enb_addr m 22 32 (\<lambda>c. c \<noteq> X2_ERROR) s (\<lambda>s b. do {
           i \<leftarrow> ue_number s;
           Some (send_x2_handover_complete i enb_n s, Returned OK) }) }) })"

definition send_s1_handover :: "buf \<Rightarrow> ran \<Rightarrow> (ran \<times> result) option" where
  "send_s1_handover enb_num s =
     find_target enb_num s (\<lambda>s enb_n ip. do {
       m \<leftarrow> ho_message UE_S1_HANDOVER ip s;
       ask_gnb (d_enb_ip (r_data s)) m 22 32 (\<lambda>c. c = OK_CODE OR UE_S1_HANDOVER) s (\<lambda>s b. do {
         let s = s\<lparr>r_data := (r_data s)\<lparr>d_enb_ip := ip\<rparr>\<rparr>;
         i \<leftarrow> ue_number s;
         Some (send_s1_handover_complete i enb_n s, Returned OK) }) })"

definition send_ue_attach_to_enb :: "buf \<Rightarrow> ran \<Rightarrow> (ran \<times> result) option" where
  "send_ue_attach_to_enb enb_num s =
     find_target enb_num s (\<lambda>s enb_n ip. do {
       m \<leftarrow> ho_message UE_TRANFSER ip s;
       ask_gnb (d_enb_ip (r_data s)) m 22 256 (\<lambda>c. c \<noteq> X2_ERROR) s (\<lambda>s b. do {
         m \<leftarrow> idle_message UE_ATTACH s;
         ask_gnb ip m 18 256 (\<lambda>c. c = OK_CODE OR UE_ATTACH) s (\<lambda>s b. do {
           let s = s\<lparr>r_data := (r_data s)\<lparr>d_enb_ip := ip\<rparr>\<rparr>;
           adopt_session b s (\<lambda>s. do {
             i \<leftarrow> ue_number s;
             Some (send_ue_attach_to_enb_controller i enb_n s, Returned OK) }) }) }) })"

section \<open>The control-plane script\<close>

text \<open>
  The action at \<open>i\<close>: the state after it, whether it is one that is followed by a word of its own, and whether it never returns.  The
  results of the requests are ignored.
\<close>

definition do_control_plane_action :: "buf \<Rightarrow> nat \<Rightarrow> ran \<Rightarrow> (ran \<times> bool \<times> result) option" where
  "do_control_plane_action cp i s = do {
     a \<leftarrow> rd cp i;
     if a = 0 then Some (s, False, Going)
     else if a = 1 then do { (s, r) \<leftarrow> send_ue_detach False True s; Some (s, False, r) }
     else if a = 2 then do { (s, r) \<leftarrow> send_ue_detach True True s; Some (s, False, r) }
     else if a = 3 then do { (s, r) \<leftarrow> send_ue_attach s; Some (s, False, r) }
     else if a = 4 then do { (s, r) \<leftarrow> send_ue_context_release s; Some (s, False, r) }
     else if a = 5 then do { (s, r) \<leftarrow> send_move_to_connect s; Some (s, False, r) }
     else if a = 6 then do { (s, r) \<leftarrow> send_x2_handover (drop (i + 1) cp) s; Some (s, True, r) }
     else if a = 7 then do { (s, r) \<leftarrow> send_ue_attach_to_enb (drop (i + 1) cp) s; Some (s, True, r) }
     else if a = 8 then do { (s, r) \<leftarrow> send_s1_handover (drop (i + 1) cp) s; Some (s, True, r) }
     else Some (s, False, Going) }"

datatype outcome = Pass_Done | Stopped | Stuck

text \<open>The loop over the script, from \<open>i\<close>.\<close>

function control_plane_loop :: "buf \<Rightarrow> nat \<Rightarrow> ran \<Rightarrow> (ran \<times> outcome) option" where
  "control_plane_loop cp i s =
     (if i < length cp then do {
        (s, handover, r) \<leftarrow> do_control_plane_action cp i s;
        if r = Blocked then Some (s, Stuck)
        else do {
          let j = (if handover then i + 4 else i);
          if handover \<and> length cp \<le> j then Some (s, Pass_Done)
          else do {
            b1 \<leftarrow> rd cp (j + 1); b2 \<leftarrow> rd cp (j + 2); b3 \<leftarrow> rd cp (j + 3);
            let cp_sleep = be32 0 b1 b2 b3;
            if cp_sleep = 16777215 then Some (s, Stopped)
            else control_plane_loop cp (j + 4) (emit (Sleep (unat cp_sleep)) s) } } }
      else Some (s, Pass_Done))"
  by pat_completeness auto
termination by (relation "measure (\<lambda>(cp, i, s). length cp - i)") (auto split: if_splits)

declare control_plane_loop.simps [simp del]

text \<open>The loop \<open>while(1)\<close> of \<open>control_plane\<close>, for at most \<open>n\<close> turns.\<close>

fun control_plane_turns :: "nat \<Rightarrow> ran \<Rightarrow> (ran \<times> outcome) option" where
  "control_plane_turns 0 s = Some (s, Pass_Done)"
| "control_plane_turns (Suc n) s = do {
     (s, r) \<leftarrow> control_plane_loop (d_control_plane (r_data s)) 0 s;
     if r = Pass_Done then control_plane_turns n s else Some (s, r) }"

definition control_plane :: "nat \<Rightarrow> ran \<Rightarrow> (ran \<times> outcome) option" where
  "control_plane n s =
     control_plane_turns n (if r_cp_only s = 0 then start_traffic_generator (d_command (r_data s)) s else s)"

section \<open>The start of a UE\<close>

text \<open>The message on the uninitialised array \<open>fresh\<close>: \<open>bzero(msg, sizeof(msg))\<close> clears the eight bytes of a pointer.\<close>

definition init_message :: "buf \<Rightarrow> ue_data \<Rightarrow> buf option" where
  "init_message fresh d = do {
     b \<leftarrow> wr fresh 0 INIT_CODE;
     b \<leftarrow> memset b 1 0 8;
     b \<leftarrow> memcpy b 1 (d_id d) 4;
     b \<leftarrow> memcpy b 5 (d_mcc d) 3;
     b \<leftarrow> memcpy b 9 (d_mnc d) 2;
     b \<leftarrow> memcpy b 13 (d_msin d) 10;
     b \<leftarrow> memcpy b 25 (d_key d) 16;
     b \<leftarrow> memcpy b 41 (d_op_key d) 16;
     memcpy b 57 (d_ue_ip d) 4 }"

text \<open>\<open>start_data_plane\<close> of data_plane.c, as far as it changes the globals of a UE.\<close>

definition start_data_plane :: "buf \<Rightarrow> buf \<Rightarrow> u32 \<Rightarrow> ran \<Rightarrow> ran \<times> status" where
  "start_data_plane ip spgw teid s =
     (s\<lparr>r_ue_ip := ip, r_gtp_teid := host32 teid, r_spgw_addr := spgw, r_tun := drop 1 (r_tun s)\<rparr>, tun_result s)"

definition start_failed :: "ran \<Rightarrow> (ran \<times> result) option" where
  "start_failed s = do { i \<leftarrow> ue_number s; Some (send_ue_behaviour_error i s, Returned ERROR) }"

text \<open>The end of \<open>ue_emulator_start\<close>; \<open>thread\<close> tells whether \<open>pthread_create\<close> works.\<close>

definition start_control_plane :: "bool \<Rightarrow> ran \<Rightarrow> (ran \<times> result) option" where
  "start_control_plane thread s = do {
     i \<leftarrow> ue_number s;
     let s = send_ue_attach_controller i s;
     if \<not> thread then Some (send_ue_behaviour_error i s, Returned ERROR)
     else Some (send_ue_behaviour i s, Returned OK) }"

text \<open>\<open>ue_emulator_start\<close>, whose connection is tried only once.\<close>

definition ue_emulator_start :: "ue_data \<Rightarrow> buf \<Rightarrow> bool \<Rightarrow> ran \<Rightarrow> (ran \<times> result) option" where
  "ue_emulator_start data fresh thread s = do {
     let s = s\<lparr>r_cp_only := d_thread_id data, r_data := data\<rparr>;
     (case r_conns s of
        [] \<Rightarrow> Some (s, Blocked)
      | c # cs \<Rightarrow> do {
          let s = s\<lparr>r_conns := cs\<rparr>;
          if \<not> c_socket c then start_failed s
          else if take 1 (c_connect c) \<noteq> [Connected] then start_failed s
          else do {
            b \<leftarrow> init_message fresh data;
            m \<leftarrow> rdn b 0 61;
            let s = emit (To_Gnb (d_enb_ip data) m) s;
            (case c_read c of
               None \<Rightarrow> start_failed s
             | Some a \<Rightarrow> do {
                 b \<leftarrow> memcpy b 0 a (min (length a) 1024);
                 code \<leftarrow> rd b 0;
                 if code \<noteq> OK_CODE OR INIT_CODE then start_failed s
                 else if r_cp_only s \<noteq> 0 then start_control_plane thread s
                 else do {
                   teid \<leftarrow> ARRAY_TO_UINT32 b 1;
                   t \<leftarrow> rdn b 1 4;
                   ip \<leftarrow> rdn b 5 4;
                   spgw \<leftarrow> (if d_spgw_port data = 2152 then rdn b 9 4 else rdn (d_ue_ip data) 0 4);
                   let (s, st) = start_data_plane ip spgw teid (s\<lparr>r_gtp_teid := t, r_ue_ip := ip, r_spgw_ip := spgw\<rparr>);
                   if st = ERROR then do {
                     (s, r) \<leftarrow> send_ue_detach True False s;
                     if r = Blocked then Some (s, Blocked) else start_failed s }
                   else start_control_plane thread s } }) } }) }"

end
