(* ===== verification/Ran_Controller.thy ===== *)
theory Ran_Controller
  imports Ue_Emulator
begin

text \<open>
  The control protocol of the RAN emulator: the messages that tell a process to be a UE or a base station, decoded by
  \<open>analyze_controller_msg\<close> of ran-emulator/source/ran_emulator.c, and how the controller writes them
  (ran-emulator/ran_controller/UE.py, eNB.py and UserInput.py).  \<open>None\<close> is undefined behaviour.
\<close>

section \<open>Decoding\<close>

definition CODE_OK :: byte where "CODE_OK = 0x80"
definition CODE_ERROR :: byte where "CODE_ERROR = 0x00"
definition CODE_CP_MODE_ONLY :: byte where "CODE_CP_MODE_ONLY = 0x0B"
definition INIT_MSG :: byte where "INIT_MSG = 0xFF"

record enb_data =
  b_id :: buf
  b_mcc :: buf
  b_mnc :: buf
  b_epc_ip :: buf
  b_enb_ip :: buf

text \<open>What \<open>analyze_controller_msg\<close> decides to do.\<close>

datatype action =
    Ignore
  | Abort
  | Run_UE ue_data
  | Run_gNB enb_data
  | Run_Threads int
  | Wrong_Format

text \<open>
  The branch for a UE.  The offset is a \<open>uint8_t\<close>, the length of the command a \<open>uint16_t\<close>; the copies read from the
  array of 1024 bytes.  The structure is cleared first, so the strings are padded with zeros.  \<open>ip\<close> and \<open>lip\<close> are the
  globals \<open>ue_ip\<close> and \<open>local_ip\<close>.
\<close>

definition at :: "buf \<Rightarrow> byte \<Rightarrow> nat \<Rightarrow> byte list option" where
  "at buffer offset n = rdn buffer (unat offset) n"

definition decode_ue :: "buf \<Rightarrow> int \<Rightarrow> int \<Rightarrow> buf \<Rightarrow> buf \<Rightarrow> action option" where
  "decode_ue buffer len cp_mode ip lip = do {
     let offset = (0 + 1 :: byte);
     id \<leftarrow> at buffer offset 4;
     let offset = offset + 4;
     mcc \<leftarrow> at buffer offset 3;
     let offset = offset + 3;
     mnc \<leftarrow> at buffer offset 2;
     let offset = offset + 2;
     msin \<leftarrow> at buffer offset 10;
     let offset = offset + 10;
     key \<leftarrow> at buffer offset 16;
     let offset = offset + 16;
     op \<leftarrow> at buffer offset 16;
     let offset = offset + 16;
     l0 \<leftarrow> rd buffer (unat offset);
     l1 \<leftarrow> rd buffer (unat offset + 1);
     let command_len = (push_bit 8 (ucast l0) OR ucast l1 :: u16);
     let offset = offset + 2;
     command \<leftarrow> at buffer offset (unat command_len);
     let offset = offset + ucast command_len;
     enb_ip \<leftarrow> at buffer offset 4;
     let offset = offset + 4;
     temp_ip \<leftarrow> at buffer offset 4;
     let offset = offset + 4;
     p0 \<leftarrow> rd buffer (unat offset);
     p1 \<leftarrow> rd buffer (unat offset + 1);
     let port = (push_bit 8 (ucast p0) OR ucast p1 :: u16);
     let offset = offset + 2;
     let control_plane_len = (word_of_int (len - uint offset) :: u16);
     cp \<leftarrow> at buffer offset (unat control_plane_len);
     let offset = offset + ucast control_plane_len;
     let offset = offset + 4;
     if uint offset > len + 4 then Some Wrong_Format
     else Some (Run_UE \<lparr>d_id = id, d_mcc = mcc @ [0], d_mnc = mnc @ [0, 0], d_msin = msin @ [0, 0], d_key = key,
       d_op_key = op, d_command = command, d_enb_ip = enb_ip, d_local_ip = lip,
       d_ue_ip = (if port = 2152 then ip else temp_ip), d_spgw_port = port, d_thread_id = cp_mode,
       d_control_plane = cp\<rparr>) }"

definition decode_enb :: "buf \<Rightarrow> int \<Rightarrow> buf \<Rightarrow> action option" where
  "decode_enb buffer len lip = do {
     let offset = (0 + 1 :: byte);
     id \<leftarrow> at buffer offset 4;
     let offset = offset + 4;
     mcc \<leftarrow> at buffer offset 3;
     let offset = offset + 3;
     mnc \<leftarrow> at buffer offset 2;
     let offset = offset + 2;
     epc \<leftarrow> at buffer offset 4;
     let offset = offset + 4;
     if uint offset > len then Some Wrong_Format
     else Some (Run_gNB \<lparr>b_id = id, b_mcc = map (\<lambda>c. c + 0x30) mcc @ [0], b_mnc = map (\<lambda>c. c + 0x30) mnc @ [0, 0],
       b_epc_ip = epc, b_enb_ip = lip\<rparr>) }"

definition analyze_controller_msg :: "buf \<Rightarrow> int \<Rightarrow> int \<Rightarrow> ran \<Rightarrow> action option" where
  "analyze_controller_msg buffer len cp_mode s =
     (if len \<le> 0 then Some Ignore
      else do {
        code \<leftarrow> rd buffer 0;
        if code = CODE_ERROR then Some Abort
        else if code = CODE_OK OR CODE_UE_BEHAVIOUR then decode_ue buffer len cp_mode (r_ue_ip s) (r_local_ip s)
        else if code = CODE_OK OR CODE_ENB_BEHAVIOUR then decode_enb buffer len (r_local_ip s)
        else if code = CODE_OK OR CODE_CP_MODE_ONLY then do {
          n \<leftarrow> ARRAY_TO_UINT32 buffer 1;
          Some (Run_Threads (sint n)) }
        else Some Ignore })"

section \<open>Running\<close>

text \<open>The identifiers of the threads that \<open>start_cp_mode_only\<close> creates.\<close>

definition start_cp_mode_only :: "int \<Rightarrow> bool \<Rightarrow> int list" where
  "start_cp_mode_only num_threads malloc_ok = (if malloc_ok then map (\<lambda>i. i + 1) [0..num_threads - 1] else [])"

text \<open>
  \<open>receive_controller\<close>: what the process does with one message.  \<open>fresh\<close> is its uninitialised array; \<open>gnb_start\<close> is
  \<open>enb_emulator_start\<close>; \<open>fresh_msg\<close> and \<open>thread\<close> are the arguments of \<open>ue_emulator_start\<close>.  The identifiers are those of the
  threads it starts.
\<close>

datatype continuation = Continue "int list" | Exit | Hang

definition continue_with :: "result \<Rightarrow> continuation" where
  "continue_with r = (case r of Returned ERROR \<Rightarrow> Exit | Returned OK \<Rightarrow> Continue [] | _ \<Rightarrow> Hang)"

definition receive_controller ::
  "(enb_data \<Rightarrow> ran \<Rightarrow> (ran \<times> result) option) \<Rightarrow> buf \<Rightarrow> buf \<Rightarrow> bool \<Rightarrow> bool \<Rightarrow> int \<Rightarrow> byte list option \<Rightarrow> ran \<Rightarrow>
   (ran \<times> continuation) option" where
  "receive_controller gnb_start fresh fresh_msg thread malloc_ok cp_mode m s = do {
     (buffer, n) \<leftarrow> (case m of
        None \<Rightarrow> Some (fresh, -1)
      | Some m \<Rightarrow> do { b \<leftarrow> memcpy fresh 0 m (min (length m) 1024); Some (b, int (min (length m) 1024)) });
     a \<leftarrow> analyze_controller_msg buffer n cp_mode s;
     (case a of
        Ignore \<Rightarrow> Some (s, Continue [])
      | Abort \<Rightarrow> Some (s, Exit)
      | Wrong_Format \<Rightarrow> Some (s, Exit)
      | Run_UE d \<Rightarrow> do { (s, r) \<leftarrow> ue_emulator_start d fresh_msg thread s; Some (s, continue_with r) }
      | Run_gNB d \<Rightarrow> do { (s, r) \<leftarrow> gnb_start d s; Some (s, continue_with r) }
      | Run_Threads n \<Rightarrow> Some (s, Continue (start_cp_mode_only n malloc_ok))) }"

text \<open>
  \<open>main\<close> up to its loop; the addresses are what \<open>inet_addr\<close> returns for the arguments, in network byte order, and the result
  \<open>None\<close> is \<open>exit(1)\<close>.
\<close>

definition emulator_main :: "nat \<Rightarrow> u32 \<Rightarrow> u32 \<Rightarrow> bool \<Rightarrow> ran \<Rightarrow> ran option" where
  "emulator_main argc serv_address ue_address socket_ok s =
     (if argc \<noteq> 3 then None
      else if serv_address = -1 then None
      else if \<not> socket_ok then None
      else let s = s\<lparr>r_ue_ip := host32 ue_address, r_local_ip := replicate 4 0\<rparr>
        in Some (emit (Notify (INIT_MSG # r_ue_ip s)) s))"

text \<open>The first message of a thread of the control-plane mode.\<close>

definition control_plane_only_mode :: "ran \<Rightarrow> ran" where
  "control_plane_only_mode s = emit (Notify (CODE_CP_MODE_ONLY # r_ue_ip s)) s"

section \<open>How the controller writes the messages\<close>

text \<open>A UE of the controller, and \<open>UE.serialize\<close>; the keys are lists of bytes and the strings ASCII.\<close>

record controller_ue =
  cu_id :: u32
  cu_mcc :: "byte list"
  cu_mnc :: "byte list"
  cu_msin :: "byte list"
  cu_key :: "byte list"
  cu_op_key :: "byte list"
  cu_command :: "byte list"
  cu_control_plane :: "byte list"

definition serialize_ue :: "byte \<Rightarrow> u32 \<Rightarrow> u32 \<Rightarrow> u32 \<Rightarrow> controller_ue \<Rightarrow> byte list" where
  "serialize_ue code enb_address multiplexer epc u =
     code # UINT32_TO_ARRAY (cu_id u) @ (cu_mcc u @ cu_mnc u @ cu_msin u) @ cu_key u @ cu_op_key u @
     [word_of_nat (length (cu_command u) div 256), word_of_nat (length (cu_command u))] @ cu_command u @
     UINT32_TO_ARRAY enb_address @ UINT32_TO_ARRAY multiplexer @
     (if epc = multiplexer then [0x08, 0x68] else [0x08, 0x6a]) @ cu_control_plane u"

definition serialize_enb :: "byte \<Rightarrow> u32 \<Rightarrow> byte list \<Rightarrow> byte list \<Rightarrow> u32 \<Rightarrow> byte list" where
  "serialize_enb code i mcc mnc epc = code # UINT32_TO_ARRAY i @ mcc @ mnc @ UINT32_TO_ARRAY epc"

text \<open>
  A script: actions, some towards the base station of a number, each with the seconds to wait after it, \<open>None\<close> being
  \<open>inf\<close>, after which \<open>serialize_control_plane\<close> stops.  The codes are the tables \<open>actions\<close> and \<open>special_actions\<close>.
\<close>

datatype cp_action =
    Init | Detach | Detach_Switch_Off | Attach | Move_To_Idle | Move_To_Connected
  | X2_Handover u32 | Attach_To u32 | S1_Handover u32

type_synonym script = "(cp_action \<times> u32 option) list"

definition low_bytes :: "u32 \<Rightarrow> byte list" where
  "low_bytes n = drop 1 (UINT32_TO_ARRAY n)"

fun serialize_action :: "cp_action \<Rightarrow> byte list" where
  "serialize_action Init = [0]"
| "serialize_action Detach = [1]"
| "serialize_action Detach_Switch_Off = [2]"
| "serialize_action Attach = [3]"
| "serialize_action Move_To_Idle = [4]"
| "serialize_action Move_To_Connected = [5]"
| "serialize_action (X2_Handover e) = 6 # low_bytes e @ [0]"
| "serialize_action (Attach_To e) = 7 # low_bytes e @ [0]"
| "serialize_action (S1_Handover e) = 8 # low_bytes e @ [0]"

fun serialize_control_plane :: "script \<Rightarrow> byte list" where
  "serialize_control_plane [] = []"
| "serialize_control_plane ((a, None) # steps) = serialize_action a @ [0xFF, 0xFF, 0xFF]"
| "serialize_control_plane ((a, Some n) # steps) = serialize_action a @ low_bytes n @ serialize_control_plane steps"

end
