(* ===== verification/Ran_Script.thy ===== *)
theory Ran_Script
  imports Ran_Controller
begin

text \<open>
  The control protocol end to end: the message that the controller writes for a UE is decoded to what it wrote, as long as the command is
  short, and the control-plane thread performs the script that was serialised, round after round.
\<close>

section \<open>The message\<close>

lemma be16: "push_bit 8 (ucast (a :: byte)) OR ucast (b :: byte) = (word_of_nat (256 * unat a + unat b) :: u16)"
proof -
  have "push_bit 8 (ucast a) OR ucast b = (push_bit 8 (ucast a) + ucast b :: u16)"
    by (rule disjunctive_add [symmetric]) (auto simp: bit_simps dest: bit_imp_le_length)
  also have "\<dots> = word_of_nat (256 * unat a + unat b)"
    by (simp add: push_bit_eq_mult)
  finally show ?thesis .
qed

lemma unat_offset: "unat (x + ucast (word_of_nat c :: u16) :: byte) = (unat x + c) mod 256"
proof -
  have "ucast (word_of_nat c :: u16) = (word_of_nat c :: byte)"
    by (rule bit_word_eqI) (auto simp: bit_simps)
  then have "x + ucast (word_of_nat c :: u16) = (word_of_nat (unat x + c) :: byte)" by simp
  then show ?thesis by (simp only: unat_of_nat) simp
qed

lemma unat_add_byte: "unat (x + k :: byte) = (unat x + unat k) mod 256"
  by (simp add: unat_word_ariths)

lemma be16_unat: "unat (push_bit 8 (ucast (a :: byte)) OR ucast (b :: byte) :: u16) = 256 * unat a + unat b"
  using unat_byte [of a] unat_byte [of b] by (simp only: be16 unat_of_nat) simp

text \<open>
  The branch for a UE, for any message: the fixed part is in its place; what follows the command is read at its place
  modulo 256, and the check of the format never fails.
\<close>

lemma decode_ue_general:
  fixes c n :: nat
  assumes b: "length buffer = 1024" and c: "c = 256 * unat (buffer ! 52) + unat (buffer ! 53)" "54 + c \<le> 1024"
    and n: "(64 + c) mod 256 \<le> n" "n \<le> 1024"
    and o: "o1 = (54 + c) mod 256" "o2 = (58 + c) mod 256" "o3 = (62 + c) mod 256" "o4 = (64 + c) mod 256"
    and port: "port = word_of_nat (256 * unat (buffer ! o3) + unat (buffer ! (o3 + 1)))"
  shows "decode_ue buffer (int n) cp_mode ip lip = Some (Run_UE
     \<lparr>d_id = take 4 (drop 1 buffer), d_mcc = take 3 (drop 5 buffer) @ [0], d_mnc = take 2 (drop 8 buffer) @ [0, 0],
      d_msin = take 10 (drop 10 buffer) @ [0, 0], d_key = take 16 (drop 20 buffer), d_op_key = take 16 (drop 36 buffer),
      d_command = take c (drop 54 buffer), d_enb_ip = take 4 (drop o1 buffer), d_local_ip = lip,
      d_ue_ip = (if port = 2152 then ip else take 4 (drop o2 buffer)), d_spgw_port = port, d_thread_id = cp_mode,
      d_control_plane = take (n - o4) (drop o4 buffer)\<rparr>)"
proof -
  let ?l = "push_bit 8 (ucast (buffer ! 52)) OR ucast (buffer ! 53) :: u16"
  have l: "?l = word_of_nat c" by (simp only: be16 c)
  have c16: "c < 65536" using c(2) by simp
  have u: "unat (54 + ucast ?l :: byte) = o1" unfolding l o by (simp add: unat_offset)
  define off where "off = (54 + ucast ?l :: byte)"
  have u1: "unat off = (54 + c) mod 256" using u o(1) by (simp only: off_def)
  have o2: "unat (off + 4) = o2" and o3: "unat (off + 4 + 4) = o3" and o4: "unat (off + 4 + 4 + 2) = o4"
    unfolding unat_add_byte u1 o by (simp_all add: mod_simps)
  have small: "o1 < 256" "o2 < 256" "o3 < 256" "o4 < 256" by (simp_all add: o)
  have i4: "uint (off + 4 + 4 + 2) = int o4" using o4 by (metis uint_nat)
  have cpl: "(word_of_int (int n - uint (off + 4 + 4 + 2)) :: u16) = word_of_nat (n - o4)"
    unfolding i4 using n(1) o(4) by (simp flip: of_nat_diff)
  have nl: "n - o4 < 65536" using n(2) by simp
  have last: "uint (off + 4 + 4 + 2 + ucast (word_of_nat (n - o4) :: u16) + 4) \<le> int n + 4"
  proof -
    have "unat (off + 4 + 4 + 2 + ucast (word_of_nat (n - o4) :: u16) + 4) = (n + 4) mod 256"
      unfolding unat_add_byte [of _ 4] unat_offset o4 using n(1) o(4) by (simp add: mod_simps)
    then show ?thesis by (metis mod_less_eq_dividend of_nat_add of_nat_le_iff of_nat_numeral uint_nat)
  qed
  have r: "at buffer (off + 4 + 4 + 2) (n - o4) = Some (take (n - o4) (drop o4 buffer))"
    using b n o(4) small by (simp only: at_def o4) (simp add: rdn_def)
  have e: "at buffer off 4 = Some (take 4 (drop o1 buffer))" "at buffer (off + 4) 4 = Some (take 4 (drop o2 buffer))"
    "rd buffer (unat (off + 4 + 4)) = Some (buffer ! o3)" "rd buffer (unat (off + 4 + 4) + 1) = Some (buffer ! (o3 + 1))"
    unfolding at_def u1 o(1) [symmetric] o2 o3 using b small by (simp_all add: rdn_def rd_def)
  have f: "at buffer 1 4 = Some (take 4 (drop 1 buffer))" "at buffer 5 3 = Some (take 3 (drop 5 buffer))"
    "at buffer 8 2 = Some (take 2 (drop 8 buffer))" "at buffer 10 10 = Some (take 10 (drop 10 buffer))"
    "at buffer 20 16 = Some (take 16 (drop 20 buffer))" "at buffer 36 16 = Some (take 16 (drop 36 buffer))"
    "rd buffer (unat (52 :: byte)) = Some (buffer ! 52)" "rd buffer (unat (52 :: byte) + 1) = Some (buffer ! 53)"
    "at buffer 54 (unat ?l) = Some (take c (drop 54 buffer))"
    using b c by (simp_all add: at_def rdn_def rd_def be16_unat)
  have k: "(0 + 1 :: byte) = 1" "(1 + 4 :: byte) = 5" "(5 + 3 :: byte) = 8" "(8 + 2 :: byte) = 10" "(10 + 10 :: byte) = 20"
    "(20 + 16 :: byte) = 36" "(36 + 16 :: byte) = 52" "(52 + 2 :: byte) = 54" by simp_all
  have unl: "unat (word_of_nat (n - o4) :: u16) = n - o4" using nl by (simp add: unat_of_nat)
  have p: "push_bit 8 (ucast (buffer ! o3)) OR ucast (buffer ! (o3 + 1)) = port" by (simp only: be16 port)
  show ?thesis
    unfolding decode_ue_def Let_def k f bind.bind_lunit off_def [symmetric] e p cpl unl r
    using last by (simp only: not_less [symmetric] if_False)
qed

definition cu_ok :: "controller_ue \<Rightarrow> bool" where
  "cu_ok u \<longleftrightarrow> length (cu_mcc u) = 3 \<and> length (cu_mnc u) = 2 \<and> length (cu_msin u) = 10 \<and>
     length (cu_key u) = 16 \<and> length (cu_op_key u) = 16"

lemma length_bytes: "c < 65536 \<Longrightarrow> 256 * unat (word_of_nat (c div 256) :: byte) + unat (word_of_nat c :: byte) = c"
proof -
  assume "c < 65536"
  then have "unat (word_of_nat (c div 256) :: byte) = c div 256" "unat (word_of_nat c :: byte) = c mod 256"
    by (simp_all only: unat_of_nat) (simp_all add: div_less_iff_less_mult)
  then show ?thesis by simp
qed

text \<open>The data that a message stands for.\<close>

definition configured :: "controller_ue \<Rightarrow> u32 \<Rightarrow> u32 \<Rightarrow> u32 \<Rightarrow> int \<Rightarrow> buf \<Rightarrow> buf \<Rightarrow> ue_data" where
  "configured u enb multiplexer epc cp_mode ip lip =
     \<lparr>d_id = UINT32_TO_ARRAY (cu_id u), d_mcc = cu_mcc u @ [0], d_mnc = cu_mnc u @ [0, 0], d_msin = cu_msin u @ [0, 0],
      d_key = cu_key u, d_op_key = cu_op_key u, d_command = cu_command u, d_enb_ip = UINT32_TO_ARRAY enb, d_local_ip = lip,
      d_ue_ip = (if epc = multiplexer then ip else UINT32_TO_ARRAY multiplexer),
      d_spgw_port = (if epc = multiplexer then 2152 else 2154), d_thread_id = cp_mode,
      d_control_plane = cu_control_plane u\<rparr>"

lemma take_drop_mid: "length pre = i \<Longrightarrow> length x = n \<Longrightarrow> take n (drop i (pre @ x @ post)) = x"
  by simp

lemma decode_serialized:
  assumes u: "cu_ok u" and c: "length (cu_command u) \<le> 191"
    and m: "m = serialize_ue (CODE_OK OR CODE_UE_BEHAVIOUR) enb mux epc u" "length m \<le> 1024" and b: "length (m @ rest) = 1024"
  shows "decode_ue (m @ rest) (int (length m)) cp_mode ip lip = Some (Run_UE (configured u enb mux epc cp_mode ip lip))"
proof -
  let ?c = "length (cu_command u)"
  let ?b = "m @ rest"
  define P where "P = (if epc = mux then [0x08, 0x68] else [0x08, 0x6a] :: byte list)"
  define L where "L = [word_of_nat (?c div 256), word_of_nat ?c :: byte]"
  define pre where "pre = (CODE_OK OR CODE_UE_BEHAVIOUR) # UINT32_TO_ARRAY (cu_id u) @ (cu_mcc u @ cu_mnc u @ cu_msin u) @
     cu_key u @ cu_op_key u"
  have PL: "length P = 2" "length L = 2" and pre: "length pre = 52" using u by (simp_all add: P_def L_def pre_def cu_ok_def)
  have bm: "?b = pre @ L @ cu_command u @ UINT32_TO_ARRAY enb @ UINT32_TO_ARRAY mux @ P @ cu_control_plane u @ rest"
    by (simp add: m(1) serialize_ue_def pre_def P_def L_def)
  have lm: "length m = 64 + ?c + length (cu_control_plane u)" using u by (simp add: m(1) serialize_ue_def cu_ok_def)
  have fixed: "take 4 (drop 1 ?b) = UINT32_TO_ARRAY (cu_id u)" "take 3 (drop 5 ?b) = cu_mcc u" "take 2 (drop 8 ?b) = cu_mnc u"
    "take 10 (drop 10 ?b) = cu_msin u" "take 16 (drop 20 ?b) = cu_key u" "take 16 (drop 36 ?b) = cu_op_key u"
    using u unfolding bm pre_def by (simp_all add: cu_ok_def)
  have l: "?b ! 52 = word_of_nat (?c div 256)" "?b ! 53 = word_of_nat ?c"
    using pre unfolding bm by (simp_all add: nth_append L_def)
  have cmd: "take ?c (drop 54 ?b) = cu_command u"
    "take 4 (drop (54 + ?c) ?b) = UINT32_TO_ARRAY enb" "take 4 (drop (58 + ?c) ?b) = UINT32_TO_ARRAY mux"
    "take (length m - (64 + ?c)) (drop (64 + ?c) ?b) = cu_control_plane u"
    using pre PL lm unfolding bm by simp_all
  have p: "?b ! (62 + ?c) = P ! 0" "?b ! (62 + ?c + 1) = P ! 1"
    using pre PL unfolding bm by (simp_all add: nth_append)
  have md: "(54 + ?c) mod 256 = 54 + ?c" "(58 + ?c) mod 256 = 58 + ?c" "(62 + ?c) mod 256 = 62 + ?c" "(64 + ?c) mod 256 = 64 + ?c"
    using c by simp_all
  have c2: "?c = 256 * unat (?b ! 52) + unat (?b ! 53)" unfolding l using c by (intro length_bytes [symmetric]) simp
  have port: "(if epc = mux then 2152 else 2154 :: u16) = word_of_nat (256 * unat (?b ! (62 + ?c)) + unat (?b ! (62 + ?c + 1)))"
    unfolding p P_def by simp
  have n: "(64 + ?c) mod 256 \<le> length m" using lm md by simp
  have c3: "54 + ?c \<le> 1024" using c by simp
  from decode_ue_general [OF b c2 c3 n m(2) refl refl refl refl, unfolded md, OF port]
  show ?thesis unfolding fixed cmd configured_def by simp
qed

text \<open>A command of 202 characters makes the offset start again at 0.\<close>

lemma decode_wrapped:
  assumes u: "cu_ok u" and c: "length (cu_command u) = 202"
    and m: "m = serialize_ue (CODE_OK OR CODE_UE_BEHAVIOUR) enb mux epc u" "length m \<le> 1024" and b: "length (m @ rest) = 1024"
  shows "\<exists>d. decode_ue (m @ rest) (int (length m)) cp_mode ip lip = Some (Run_UE d) \<and>
     d_enb_ip d = [0x82] @ take 3 (UINT32_TO_ARRAY (cu_id u)) \<and> d_control_plane d = drop 10 m"
proof -
  have lm: "length m = 266 + length (cu_control_plane u)" using u c by (simp add: m(1) serialize_ue_def cu_ok_def)
  have l: "(m @ rest) ! 52 = 0" "(m @ rest) ! 53 = 202"
    using u c by (simp_all add: m(1) serialize_ue_def cu_ok_def nth_append nth_Cons' UINT32_TO_ARRAY_def)
  have h: "take 4 (m @ rest) = [0x82] @ take 3 (UINT32_TO_ARRAY (cu_id u))"
    by (simp add: m(1) serialize_ue_def CODE_OK_def CODE_UE_BEHAVIOUR_def UINT32_TO_ARRAY_def)
  have cc: "202 = 256 * unat ((m @ rest) ! 52) + unat ((m @ rest) ! 53)" unfolding l by simp
  from decode_ue_general [OF b cc _ _ m(2) refl refl refl refl refl] show ?thesis
    using h lm by simp
qed

section \<open>The script\<close>

text \<open>The meaning of a script: its actions in order, each followed by its wait, up to the first \<open>inf\<close>.\<close>

fun perform :: "cp_action \<Rightarrow> ran \<Rightarrow> (ran \<times> result) option" where
  "perform Init s = Some (s, Going)"
| "perform Detach s = send_ue_detach False True s"
| "perform Detach_Switch_Off s = send_ue_detach True True s"
| "perform Attach s = send_ue_attach s"
| "perform Move_To_Idle s = send_ue_context_release s"
| "perform Move_To_Connected s = send_move_to_connect s"
| "perform (X2_Handover e) s = send_x2_handover (low_bytes e) s"
| "perform (Attach_To e) s = send_ue_attach_to_enb (low_bytes e) s"
| "perform (S1_Handover e) s = send_s1_handover (low_bytes e) s"

fun run_script :: "script \<Rightarrow> ran \<Rightarrow> (ran \<times> outcome) option" where
  "run_script [] s = Some (s, Pass_Done)"
| "run_script ((a, d) # steps) s = do {
     (s, r) \<leftarrow> perform a s;
     if r = Blocked then Some (s, Stuck)
     else (case d of
       None \<Rightarrow> Some (s, Stopped)
     | Some n \<Rightarrow> run_script steps (emit (Sleep (unat n)) s)) }"

text \<open>Waits are below the three bytes that stand for \<open>inf\<close>.\<close>

definition script_ok :: "script \<Rightarrow> bool" where
  "script_ok steps \<longleftrightarrow> (\<forall>(a, d) \<in> set steps. case d of None \<Rightarrow> True | Some n \<Rightarrow> n < 0xFFFFFF)"

lemma low_bytes_be32:
  assumes "n < 0x1000000"
  shows "\<exists>b1 b2 b3. low_bytes n = [b1, b2, b3] \<and> be32 0 b1 b2 b3 = n"
proof -
  have "drop_bit 24 n = 0" using assms by (simp add: drop_bit_eq_div word_div_def word_less_def)
  with be32_bytes [of n] show ?thesis by (simp add: low_bytes_def UINT32_TO_ARRAY_def)
qed

lemma low_bytes_three: "\<exists>b1 b2 b3. low_bytes n = [b1, b2, b3]"
  by (simp add: low_bytes_def UINT32_TO_ARRAY_def)

lemma find_target_prefix: "find_target (b1 # b2 # b3 # rest) = find_target [b1, b2, b3]"
  by (simp add: find_target_def fun_eq_iff mem_simps)

lemma handover_prefix:
  "send_x2_handover (low_bytes e @ rest) = send_x2_handover (low_bytes e)"
  "send_ue_attach_to_enb (low_bytes e @ rest) = send_ue_attach_to_enb (low_bytes e)"
  "send_s1_handover (low_bytes e @ rest) = send_s1_handover (low_bytes e)"
  using low_bytes_three [of e] find_target_prefix
  by (auto simp: fun_eq_iff send_x2_handover_def send_ue_attach_to_enb_def send_s1_handover_def)

fun towards :: "cp_action \<Rightarrow> bool" where
  "towards (X2_Handover e) \<longleftrightarrow> True"
| "towards (Attach_To e) \<longleftrightarrow> True"
| "towards (S1_Handover e) \<longleftrightarrow> True"
| "towards _ \<longleftrightarrow> False"

lemma do_action_serialized:
  "do_control_plane_action (pre @ serialize_action a @ rest) (length pre) s =
     map_option (\<lambda>(s, r). (s, towards a, r)) (perform a s)"
  by (cases a) (auto simp: do_control_plane_action_def mem_simps handover_prefix split: bind_splits)

lemma length_serialize_action: "length (serialize_action a) = (if towards a then 5 else 1)"
  by (cases a) (simp_all add: low_bytes_def)

text \<open>One turn of the loop: the three bytes after the action are the wait.\<close>

lemma loop_step:
  "control_plane_loop (pre @ serialize_action a @ [b1, b2, b3] @ rest) (length pre) s = do {
     (s, r) \<leftarrow> perform a s;
     if r = Blocked then Some (s, Stuck)
     else if be32 0 b1 b2 b3 = 16777215 then Some (s, Stopped)
     else control_plane_loop ((pre @ serialize_action a @ [b1, b2, b3]) @ rest) (length (pre @ serialize_action a @ [b1, b2, b3]))
       (emit (Sleep (unat (be32 0 b1 b2 b3))) s) }"
proof -
  let ?j = "length pre + (if towards a then 4 else 0)"
  have rd: "rd (pre @ serialize_action a @ [b1, b2, b3] @ rest) (?j + 1) = Some b1"
    "rd (pre @ serialize_action a @ [b1, b2, b3] @ rest) (?j + 2) = Some b2"
    "rd (pre @ serialize_action a @ [b1, b2, b3] @ rest) (?j + 3) = Some b3"
    using length_serialize_action [of a] by (simp_all add: mem_simps)
  have i: "length pre < length (pre @ serialize_action a @ [b1, b2, b3] @ rest)" by simp
  have j: "\<not> length (pre @ serialize_action a @ [b1, b2, b3] @ rest) \<le> ?j"
    "length (pre @ serialize_action a @ [b1, b2, b3]) = ?j + 4"
    using length_serialize_action [of a] by simp_all
  show ?thesis
    unfolding control_plane_loop.simps [of _ "length pre"] do_action_serialized j(2)
    using i j(1) rd by (cases "perform a s") (auto simp: Let_def split: if_splits)
qed

lemma script_loop:
  "script_ok steps \<Longrightarrow> control_plane_loop (pre @ serialize_control_plane steps) (length pre) s = run_script steps s"
proof (induction steps arbitrary: pre s rule: serialize_control_plane.induct)
  case 1
  then show ?case by (simp add: control_plane_loop.simps)
next
  case (2 a steps)
  have "be32 0 0xFF 0xFF 0xFF = 16777215" by (simp add: be32_def)
  then show ?case using loop_step [of pre a "0xFF" "0xFF" "0xFF" "[]" s] by (simp split: bind_splits)
next
  case (3 a n steps)
  from 3(2) have n: "n < 0xFFFFFF" and ok: "script_ok steps" by (simp_all add: script_ok_def)
  from n have "n < 0x1000000" by (simp add: word_less_nat_alt)
  from low_bytes_be32 [OF this] obtain b1 b2 b3 where b: "low_bytes n = [b1, b2, b3]" "be32 0 b1 b2 b3 = n" by blast
  have n2: "n \<noteq> 16777215" using n by auto
  show ?case using loop_step [of pre a b1 b2 b3 "serialize_control_plane steps" s] n2
      3(1) [OF ok, of "pre @ serialize_action a @ [b1, b2, b3]"]
    by (simp add: b split: bind_splits)
qed

section \<open>The whole thread\<close>

text \<open>No request changes the script: only the address of the base station changes in the data of the UE.\<close>

abbreviation script_of :: "ran \<Rightarrow> buf" where
  "script_of s \<equiv> d_control_plane (r_data s)"

lemma emit_data [simp]: "r_data (emit e s) = r_data s"
  by (simp add: emit_def)

lemmas notification_defs =
  send_idle_controller_def send_ue_detach_controller_def send_ue_attach_controller_def send_ue_moved_to_connected_controller_def
  send_x2_handover_complete_def send_ue_attach_to_enb_controller_def send_s1_handover_complete_def
  start_traffic_generator_def stop_traffic_generator_def

lemma exchange_keeps: "exchange ip msg n sz s = Some (s', r, b) \<Longrightarrow> r_data s' = r_data s"
  by (auto simp: exchange_def Let_def split: list.splits if_splits option.splits bind_splits)

lemma request_keeps:
  assumes "ask_gnb ip msg n sz good s k = Some (s', r)" and "script_of s = c"
    and "\<And>t b. script_of t = c \<Longrightarrow> k t b = Some (s', r) \<Longrightarrow> script_of s' = c"
  shows "script_of s' = c"
proof -
  obtain t q b where x: "exchange ip msg n sz s = Some (t, q, b)" using assms(1) by (auto simp: ask_gnb_def split: bind_splits)
  have e: "script_of t = c" using exchange_keeps [OF x] assms(2) by simp
  show ?thesis
    using assms(1) assms(3) [OF e] e by (auto simp: ask_gnb_def x split: if_splits bind_splits)
qed

lemma send_get_enb_ip_keeps: "send_get_enb_ip i e s = Some (s', r) \<Longrightarrow> r_data s' = r_data s"
  by (auto simp: send_get_enb_ip_def Let_def split: list.splits reply.splits if_splits bind_splits)

lemma find_target_keeps:
  assumes "find_target e s k = Some (s', r)" and "script_of s = c"
    and "\<And>t n ip. script_of t = c \<Longrightarrow> k t n ip = Some (s', r) \<Longrightarrow> script_of s' = c"
  shows "script_of s' = c"
proof -
  have "\<exists>t. r_data t = r_data s \<and> (s' = t \<or> (\<exists>n ip. k t n ip = Some (s', r)))"
    using assms(1) by (auto simp: find_target_def Let_def split: bind_splits option.splits if_splits dest!: send_get_enb_ip_keeps)
  with assms(2,3) show ?thesis by metis
qed

lemma adopt_session_keeps:
  assumes "adopt_session b s k = Some (s', r)" and "script_of s = c"
    and "\<And>t. script_of t = c \<Longrightarrow> k t = Some (s', r) \<Longrightarrow> script_of s' = c"
  shows "script_of s' = c"
proof (cases "r_cp_only s = 0")
  case True
  have kI: "k t = Some (s', r) \<Longrightarrow> r_data t = r_data s \<Longrightarrow> \<exists>t. r_data t = r_data s \<and> k t = Some (s', r)" for t by blast
  have "r_data s' = r_data s \<or> (\<exists>t. r_data t = r_data s \<and> k t = Some (s', r))"
    using assms(1) True
    by (auto simp: adopt_session_def update_data_plane_def Let_def notification_defs split: if_splits bind_splits elim!: kI)
  with assms(2,3) show ?thesis by metis
qed (use assms in \<open>simp add: adopt_session_def\<close>)

lemma perform_keeps: "perform a s = Some (s', r) \<Longrightarrow> script_of s' = script_of s"
  by (cases a)
    (auto simp: notification_defs send_ue_detach_def send_ue_attach_def send_ue_context_release_def send_move_to_connect_def
       send_x2_handover_def send_ue_attach_to_enb_def send_s1_handover_def update_data_plane_def Let_def
       split: bind_splits if_splits elim!: find_target_keeps request_keeps adopt_session_keeps)

lemma run_script_keeps: "run_script steps s = Some (s', r) \<Longrightarrow> script_of s' = script_of s"
proof (induction steps s arbitrary: s' rule: run_script.induct)
  case (2 a d steps s)
  obtain t q where p: "perform a s = Some (t, q)" using 2(2) by (auto split: bind_splits)
  note k = perform_keeps [OF p]
  show ?case
  proof (cases "q = Blocked \<or> d = None")
    case True
    then show ?thesis using 2(2) k by (auto simp: p split: if_splits)
  next
    case False
    then obtain n where n: "d = Some n" "q \<noteq> Blocked" by blast
    then have "run_script steps (emit (Sleep (unat n)) t) = Some (s', r)" using 2(2) by (simp add: p)
    from 2(1) [OF p _ n(2,1) this] k show ?thesis by simp
  qed
qed simp

text \<open>The script over and over, until it stops or waits for ever.\<close>

fun run_rounds :: "nat \<Rightarrow> script \<Rightarrow> ran \<Rightarrow> (ran \<times> outcome) option" where
  "run_rounds 0 steps s = Some (s, Pass_Done)"
| "run_rounds (Suc n) steps s = do {
     (s, r) \<leftarrow> run_script steps s;
     if r = Pass_Done then run_rounds n steps s else Some (s, r) }"

lemma turns_rounds:
  "script_ok steps \<Longrightarrow> script_of s = serialize_control_plane steps \<Longrightarrow> control_plane_turns n s = run_rounds n steps s"
proof (induction n arbitrary: s)
  case (Suc n)
  have l: "control_plane_loop (script_of s) 0 s = run_script steps s"
    using script_loop [OF Suc(2), of "[]" s] Suc(3) by simp
  show ?case
  proof (cases "run_script steps s")
    case (Some x)
    obtain t r where x: "x = (t, r)" by fastforce
    have "script_of t = serialize_control_plane steps" using run_script_keeps Some x Suc(3) by simp
    from Suc(1) [OF Suc(2) this] show ?thesis by (simp add: l Some x)
  qed (simp add: l)
qed simp

text \<open>A script with an infinite wait comes to an end of its own, or to a wait for a peer, in its first round.\<close>

lemma inf_ends: "run_script steps s = Some (s', r) \<Longrightarrow> \<exists>a. (a, None) \<in> set steps \<Longrightarrow> r \<noteq> Pass_Done"
proof (induction steps s arbitrary: s' rule: run_script.induct)
  case (2 a d steps s)
  obtain t q where p: "perform a s = Some (t, q)" using 2(2) by (auto split: bind_splits)
  show ?case
  proof (cases "q = Blocked \<or> d = None")
    case True
    then show ?thesis using 2(2) by (auto simp: p split: if_splits)
  next
    case False
    then obtain n where n: "d = Some n" "q \<noteq> Blocked" by blast
    then have "run_script steps (emit (Sleep (unat n)) t) = Some (s', r)" using 2(2) by (simp add: p)
    from 2(1) [OF p _ n(2,1) this] 2(3) n show ?thesis by simp
  qed
qed simp

end
