(* ===== verification/Gnb_Requests.thy ===== *)
theory Gnb_Requests
  imports Gnb_Emulator
begin

text \<open>
  What the base station of Gnb\_Emulator does with each request: the invariant of its state, and its answer on every branch that
  the controller can reach.
\<close>

section \<open>Invariant\<close>

text \<open>A base station with the UEs \<open>xs\<close> in its list.\<close>

definition gnb_ok :: "gnb \<Rightarrow> ue_ptr option list \<Rightarrow> bool" where
  "gnb_ok g xs \<longleftrightarrow> list_stands_for (g_nodes g, g_list g) xs \<and> length (g_buffer g) = 1024 \<and> length (g_response g) = 1024 \<and>
     length (g_local g) = 1024 \<and> length (g_x2 g) = 1024 \<and> g_response_len g \<le> 1024 \<and> wf_eNB (g_enb g) \<and>
     (\<forall>a u. g_objects g a = Some u \<longrightarrow> wf_UE u)"

lemma peek_ue_search:
  "gnb_ok g xs \<Longrightarrow> peek_ue g key = map_option (\<lambda>r. case r of None \<Rightarrow> None | Some p \<Rightarrow> p) (search (matches g key) xs)"
  using linked.peek_law [of "(g_nodes g, g_list g)" xs "matches g key"]
  by (cases "search (matches g key) xs") (simp_all add: gnb_ok_def peek_ue_def)

lemma respond_ok:
  "gnb_ok g xs \<Longrightarrow> length m \<le> 1024 \<Longrightarrow>
     set_response g m = Some (g\<lparr>g_response := m @ drop (length m) (g_response g), g_response_len := length m\<rparr>)"
  by (simp add: set_response_def wrn_def gnb_ok_def)

lemma respond_gnb_ok: "gnb_ok g xs \<Longrightarrow> set_response g m = Some g' \<Longrightarrow> gnb_ok g' xs"
  by (auto simp: set_response_def gnb_ok_def wrn_def split: if_splits)

section \<open>The new UE\<close>

lemma memset_take: "length b = 16 \<Longrightarrow> memset b 0 0 16 = Some (replicate 16 0)"
  by (simp add: memset_def wrn_def)

lemma plmn_ok: "3 \<le> length mcc \<Longrightarrow> 2 \<le> length mnc \<Longrightarrow> length p = 3 \<Longrightarrow> \<exists>q. generate_plmn_UE p mcc mnc = Some q \<and> length q = 3"
  by (cases mcc; cases mnc) (auto simp: generate_plmn_UE_def rd_def wr_def)

lemma msin_ok: "10 \<le> length s \<Longrightarrow> length m = 5 \<Longrightarrow> \<exists>q. generate_msin m s = Some q \<and> length q = 5"
  by (cases s) (auto simp: generate_msin_def rd_def wr_def)

lemma init_UE_ok:
  assumes f: "wf_UE fresh" and l: "3 \<le> length mcc" "2 \<le> length mnc" "16 \<le> length msin" "16 \<le> length key" "16 \<le> length op" "4 \<le> length ip"
  shows "\<exists>u. init_UE (Some fresh) mcc mnc msin key op ip = Some (Some u) \<and> wf_UE u \<and> mme_s1ap_id_len u = 0 \<and>
     msin_string u = take 16 msin \<and> ue_key u = take 16 key \<and> ue_op_key u = take 16 op \<and>
     ue_mcc u = take 3 mcc \<and> ue_mnc u = take 2 mnc \<and> ue_ip u = take 4 ip"
proof -
  have w: "length (msin_string fresh) = 16" "length (ue_plmn fresh) = 3" "length (ue_msin fresh) = 5" "length (tun_name fresh) = 32"
    "length (ue_key fresh) = 16" "length (ue_op_key fresh) = 16" "length (ue_ip fresh) = 4" "length (ue_mcc fresh) = 3" "length (ue_mnc fresh) = 2"
    using f unfolding wf_UE_def by blast+
  obtain p where p: "generate_plmn_UE (ue_plmn fresh) mcc mnc = Some p" using plmn_ok [OF l(1,2) w(2)] by blast
  obtain q where q: "generate_msin (ue_msin fresh) (take 16 msin) = Some q" "length q = 5"
    using msin_ok [OF _ w(3), of "take 16 msin"] l(3) by auto
  obtain t where t: "wrn (tun_name fresh) 0 TUN_NAME = Some t" using w(4) by (simp add: wrn_def TUN_NAME_def)
  have m: "memset (msin_string fresh) 0 0 16 = Some (replicate 16 0)" "memcpy (replicate 16 0) 0 msin 16 = Some (take 16 msin)"
    "memcpy (ue_key fresh) 0 key 16 = Some (take 16 key)" "memcpy (ue_op_key fresh) 0 op 16 = Some (take 16 op)"
    "memcpy (ue_ip fresh) 0 ip 4 = Some (take 4 ip)" "memcpy (ue_mcc fresh) 0 mcc 3 = Some (take 3 mcc)"
    "memcpy (ue_mnc fresh) 0 mnc 2 = Some (take 2 mnc)" "rd q 2 = Some (q ! 2)" "rd q 3 = Some (q ! 3)" "rd q 4 = Some (q ! 4)"
    using w l q(2) by (simp_all add: memset_take memcpy_ok rd_def)
  obtain u where u: "init_UE (Some fresh) mcc mnc msin key op ip = Some (Some u)"
    "msin_string u = take 16 msin \<and> ue_key u = take 16 key \<and> ue_op_key u = take 16 op \<and>
     ue_mcc u = take 3 mcc \<and> ue_mnc u = take 2 mnc \<and> ue_ip u = take 4 ip"
    by (simp add: init_UE_def Let_def m p q(1) generate_tun_name_def t)
  with init_UE_wf [OF u(1) f] show ?thesis by blast
qed

section \<open>Procedures\<close>

lemma run_procedure_object:
  assumes r: "runs f u es ps u' (\<lambda>s. Some (s, r))" and g: "g_objects g a = Some u" "length (g_local g) = 1024" "g_in g = es @ rest"
  shows "\<exists>b. length b = 1024 \<and> run_procedure g (Some (Object a)) f =
     Some (g\<lparr>g_objects := (g_objects g)(a \<mapsto> u'), g_in := rest, g_sent := g_sent g @ map encode_pdu ps, g_local := b\<rparr>, r)"
  using runsD [OF r g(2), of rest "g_sent g"] g(1,3)
  by (auto simp: run_procedure_def ue_at_def put_ue_def)

text \<open>The answers of the core to a registration, and the UE that it makes of \<open>u\<close>.\<close>

definition core_answers :: "pdu \<Rightarrow> pdu \<Rightarrow> pdu \<Rightarrow> byte list list \<Rightarrow> pdu \<Rightarrow> bool" where
  "core_answers p1 p2 p3 ms p4 \<longleftrightarrow>
     core_pdu ID_DOWNLINK_NAS_TRANSPORT CRITICALITY_IGNORE False p1 \<and>
     core_pdu ID_DOWNLINK_NAS_TRANSPORT CRITICALITY_IGNORE False p2 \<and>
     core_pdu ID_INITIAL_CONTEXT_SETUP CRITICALITY_REJECT True p3 \<and> (\<forall>m \<in> set ms. passed_over m) \<and>
     core_pdu ID_PDU_SESSION_RESOURCE_SETUP CRITICALITY_REJECT True p4"

definition answers :: "pdu \<Rightarrow> pdu \<Rightarrow> pdu \<Rightarrow> byte list list \<Rightarrow> pdu \<Rightarrow> byte list option list" where
  "answers p1 p2 p3 ms p4 = map (Some \<circ> encode_pdu) [p1, p2, p3] @ map Some ms @ [Some (encode_pdu p4)]"

definition registered_ue :: "UE \<Rightarrow> pdu \<Rightarrow> pdu \<Rightarrow> pdu \<Rightarrow> pdu \<Rightarrow> UE" where
  "registered_ue u p1 p2 p3 p4 = learn_ies (p_ies p4)
     ((learn_ies (p_ies p3) ((after_command (after_request u p1) p2)\<lparr>nas_sequence_number := 1\<rparr>))\<lparr>nas_sequence_number := 3\<rparr>)"

lemma registered_ue_wf:
  assumes "wf_env E" and "wf_UE u" and "id_ok u" and "core_answers p1 p2 p3 ms p4"
  shows "wf_UE (registered_ue u p1 p2 p3 p4)" and "id_ok (registered_ue u p1 p2 p3 p4)"
proof -
  have c: "core_pdu ID_DOWNLINK_NAS_TRANSPORT CRITICALITY_IGNORE False p1"
    "core_pdu ID_DOWNLINK_NAS_TRANSPORT CRITICALITY_IGNORE False p2"
    "core_pdu ID_INITIAL_CONTEXT_SETUP CRITICALITY_REJECT True p3"
    and p4: "\<forall>x \<in> set (p_ies p4). ie_ok x"
    using assms(4) by (simp_all add: core_answers_def core_pdu_def)
  from registration_states(3) [OF assms(1-3) c refl refl refl] p4 learn_ies_keeps
  show "wf_UE (registered_ue u p1 p2 p3 p4)" "id_ok (registered_ue u p1 p2 p3 p4)"
    by (simp_all add: registered_ue_def)
qed

lemma registration_on_gnb:
  assumes "wf_env E" and "wf_eNB e" and "wf_UE u" and "id_ok u" and "core_answers p1 p2 p3 ms p4"
  shows "\<exists>ps. length ps = 7 \<and> hd ps = pdu_initial e u \<and>
     runs (procedure_Registration_Request E e) u (answers p1 p2 p3 ms p4) ps (registered_ue u p1 p2 p3 p4) (\<lambda>s. Some (s, Returned OK))"
proof -
  have c: "core_pdu ID_DOWNLINK_NAS_TRANSPORT CRITICALITY_IGNORE False p1"
    "core_pdu ID_DOWNLINK_NAS_TRANSPORT CRITICALITY_IGNORE False p2"
    "core_pdu ID_INITIAL_CONTEXT_SETUP CRITICALITY_REJECT True p3" "\<forall>m \<in> set ms. passed_over m"
    "core_pdu ID_PDU_SESSION_RESOURCE_SETUP CRITICALITY_REJECT True p4"
    using assms(5) by (simp_all add: core_answers_def)
  from registration_runs [OF assms(1-4) c refl refl refl refl] show ?thesis
    unfolding answers_def registered_ue_def by (intro exI conjI) simp_all
qed

section \<open>Registration of a new UE\<close>

text \<open>An \<open>init_msg\<close> as a UE sends it; the \<open>x\<close> are bytes that it does not set.\<close>

definition init_msg :: "byte list \<Rightarrow> byte list \<Rightarrow> byte list \<Rightarrow> byte list \<Rightarrow> byte list \<Rightarrow> byte list \<Rightarrow> byte list \<Rightarrow> byte list \<Rightarrow> byte list" where
  "init_msg x i mcc mnc msin key op ip =
     INIT_CODE # i @ mcc @ [x ! 0] @ mnc @ [x ! 1, x ! 2] @ msin @ [x ! 3, x ! 4] @ key @ op @ ip"

definition init_parts :: "byte list \<Rightarrow> byte list \<Rightarrow> byte list \<Rightarrow> byte list \<Rightarrow> byte list \<Rightarrow> byte list \<Rightarrow> byte list \<Rightarrow> bool" where
  "init_parts i mcc mnc msin key op ip \<longleftrightarrow> length i = 4 \<and> length mcc = 3 \<and> length mnc = 2 \<and> length msin = 10 \<and>
     length key = 16 \<and> length op = 16 \<and> length ip = 4"

lemma length_init_msg: "init_parts i mcc mnc msin key op ip \<Longrightarrow> length (init_msg x i mcc mnc msin key op ip) = 61"
  by (simp add: init_parts_def init_msg_def)

lemma terminated:
  assumes "init_parts i mcc mnc msin key op ip" and "length (init_msg x i mcc mnc msin key op ip @ rest) = 1024"
  shows "terminate_strings (init_msg x i mcc mnc msin key op ip @ rest) =
     Some (init_msg [0, 0, x ! 2, 0, x ! 4] i mcc mnc msin key op ip @ rest)"
proof -
  have l: "length i = 4" "length mcc = 3" "length mnc = 2" "length msin = 10" using assms(1) by (simp_all add: init_parts_def)
  show ?thesis using l by (simp add: terminate_strings_def init_msg_def wr_def list_update_append)
qed

lemma init_offsets:
  assumes "init_parts i mcc mnc msin key op ip" and "b = init_msg x i mcc mnc msin key op ip @ rest"
  shows "take 3 (drop 5 b) = mcc" "take 2 (drop 9 b) = mnc" "take 16 (drop 13 b) = msin @ [x ! 3, x ! 4] @ take 4 key"
    "take 16 (drop 25 b) = key" "take 16 (drop 41 b) = op" "take 4 (drop 57 b) = ip"
  using assms by (simp_all add: init_parts_def init_msg_def)

text \<open>What the base station stores for it before the registration.\<close>

definition new_ue :: "UE \<Rightarrow> byte list \<Rightarrow> byte list \<Rightarrow> byte list \<Rightarrow> byte list \<Rightarrow> byte list \<Rightarrow> byte list \<Rightarrow> bool" where
  "new_ue u mcc mnc msin key op ip \<longleftrightarrow> wf_UE u \<and> mme_s1ap_id_len u = 0 \<and> take 10 (msin_string u) = msin \<and>
     ue_key u = key \<and> ue_op_key u = op \<and> ue_mcc u = mcc \<and> ue_mnc u = mnc \<and> ue_ip u = ip"

lemma init_UE_message:
  assumes p: "init_parts i mcc mnc msin key op ip" and b: "b = init_msg x i mcc mnc msin key op ip @ rest" "length b = 1024"
    and f: "wf_UE fresh"
  shows "\<exists>u. init_UE (Some fresh) (drop 5 b) (drop 9 b) (drop 13 b) (drop 25 b) (drop 41 b) (drop 57 b) = Some (Some u) \<and>
     new_ue u mcc mnc msin key op ip"
proof -
  have l: "3 \<le> length (drop 5 b)" "2 \<le> length (drop 9 b)" "16 \<le> length (drop 13 b)" "16 \<le> length (drop 25 b)"
    "16 \<le> length (drop 41 b)" "4 \<le> length (drop 57 b)" using b(2) by simp_all
  have m: "length msin = 10" using p by (simp add: init_parts_def)
  from init_UE_ok [OF f l] show ?thesis
    unfolding init_offsets [OF p b(1)] new_ue_def using m by auto
qed

lemma add_object:
  assumes "gnb_ok g xs" and "g_nodes g n = None"
  shows "\<exists>h l. addElem (g_nodes g) (g_list g) (Some n) p = Some (OK, h, l) \<and>
     gnb_ok (g\<lparr>g_nodes := h, g_list := l\<rparr>) (xs @ [p])"
proof -
  have s: "list_stands_for (g_nodes g, g_list g) xs" using assms(1) by (simp add: gnb_ok_def)
  from linked.add_law [of "(g_nodes g, g_list g)" xs n p] assms(2) s
  obtain h l where "addElem (g_nodes g) (g_list g) (Some n) p = Some (OK, h, l)" "list_stands_for (h, l) (xs @ [p])"
    by auto
  with assms(1) show ?thesis by (intro exI [of _ h] exI [of _ l]) (simp add: gnb_ok_def)
qed

text \<open>The response with the session.\<close>

definition session_message :: "byte \<Rightarrow> UE \<Rightarrow> byte list" where
  "session_message code u = (OK_CODE OR code) # UINT32_TO_ARRAY (gtp_teid u) @ pdn_ip u @ spgw_ip u"

lemma session_response_ok:
  assumes "gnb_ok g xs" and "ue_at g p = Some u" and "wf_UE u"
  shows "\<exists>g'. session_response g p code = Some (g', Returned OK) \<and> set_response g (session_message code u) = Some g' \<and>
     length (session_message code u) = 13"
proof -
  have l: "length (pdn_ip u) = 4" "length (spgw_ip u) = 4" using assms(3) unfolding wf_UE_def by blast+
  then have m: "length (session_message code u) = 13" by (simp add: session_message_def)
  with respond_ok [OF assms(1), of "session_message code u"] l assms(2) show ?thesis
    by (simp add: session_response_def rdn_def ue_simps finish_def session_message_def)
qed

text \<open>The registration of an object of the list, and its response.\<close>

lemma attach_object:
  assumes g: "gnb_ok g xs" and u: "g_objects g a = Some u" "id_ok u" and E: "wf_env E" and c: "core_answers p1 p2 p3 ms p4"
    and i: "g_in g = answers p1 p2 p3 ms p4 @ rest" and v: "v = registered_ue u p1 p2 p3 p4"
  shows "\<exists>b g' ps. on_success (run_procedure g (Some (Object a)) (procedure_Registration_Request E (g_enb g))) code
       (\<lambda>g. session_response g (Some (Object a)) code) = Some (g', Returned OK) \<and>
     set_response (g\<lparr>g_objects := (g_objects g)(a \<mapsto> v), g_in := rest, g_sent := g_sent g @ map encode_pdu ps, g_local := b\<rparr>)
       (session_message code v) = Some g' \<and> length (session_message code v) = 13 \<and>
     length ps = 7 \<and> hd ps = pdu_initial (g_enb g) u \<and> length b = 1024 \<and> wf_UE v"
proof -
  have wf: "wf_UE u" "wf_eNB (g_enb g)" "length (g_local g) = 1024" using g u(1) by (auto simp: gnb_ok_def)
  obtain ps where ps: "length ps = 7" "hd ps = pdu_initial (g_enb g) u"
    "runs (procedure_Registration_Request E (g_enb g)) u (answers p1 p2 p3 ms p4) ps v (\<lambda>s. Some (s, Returned OK))"
    using registration_on_gnb [OF E wf(2,1) u(2) c] v by blast
  have wv: "wf_UE v" using registered_ue_wf(1) [OF E wf(1) u(2) c] v by simp
  obtain b where b: "length b = 1024" and r: "run_procedure g (Some (Object a)) (procedure_Registration_Request E (g_enb g)) =
     Some (g\<lparr>g_objects := (g_objects g)(a \<mapsto> v), g_in := rest, g_sent := g_sent g @ map encode_pdu ps, g_local := b\<rparr>, Returned OK)"
    using run_procedure_object [OF ps(3) u(1) wf(3) i] by blast
  let ?g = "g\<lparr>g_objects := (g_objects g)(a \<mapsto> v), g_in := rest, g_sent := g_sent g @ map encode_pdu ps, g_local := b\<rparr>"
  have ok: "gnb_ok ?g xs" using g wv b by (auto simp: gnb_ok_def)
  have at: "ue_at ?g (Some (Object a)) = Some v" by (simp add: ue_at_def)
  from session_response_ok [OF ok at wv, of code] obtain g' where "session_response ?g (Some (Object a)) code = Some (g', Returned OK)"
    "set_response ?g (session_message code v) = Some g'" "length (session_message code v) = 13" by blast
  with ps(1,2) b wv show ?thesis
    by (intro exI [of _ b] exI [of _ g'] exI [of _ ps]) (simp add: on_success_def r)
qed

text \<open>A request whose handler ends with a response.\<close>

lemma serve_respond:
  assumes g: "gnb_ok g xs" and m: "m \<noteq> []" "length m \<le> 1024"
    and a: "analyze_ue_msg w E (g\<lparr>g_buffer := m @ drop (length m) (g_buffer g), g_client := []\<rparr>) = Some (g', Returned st)"
    and r: "set_response k d = Some g'" "gnb_ok k ys" "length d \<le> 1024"
  shows "serve_client w E g (Message m) = Some (g'\<lparr>g_client := g_client k @ [d]\<rparr>, Going)"
    and "gnb_ok (g'\<lparr>g_client := cl\<rparr>) ys"
    and "g' = k\<lparr>g_response := g_response g', g_response_len := length d\<rparr>"
proof -
  have k: "g' = k\<lparr>g_response := d @ drop (length d) (g_response k), g_response_len := length d\<rparr>"
    using r(1) respond_ok [OF r(2,3)] by simp
  then show "g' = k\<lparr>g_response := g_response g', g_response_len := length d\<rparr>" by simp
  have "gnb_ok g' ys" by (rule respond_gnb_ok [OF r(2,1)])
  then show "gnb_ok (g'\<lparr>g_client := cl\<rparr>) ys" by (simp add: gnb_ok_def)
  have lb: "length (g_buffer g) = 1024" "length (g_response k) = 1024" using g r(2) by (simp_all add: gnb_ok_def)
  then have "rdn (g_response g') 0 (g_response_len g') = Some d" "g_client g' = g_client k"
    using r(3) by (simp_all add: k rdn_def)
  then show "serve_client w E g (Message m) = Some (g'\<lparr>g_client := g_client k @ [d]\<rparr>, Going)"
    using m a lb(1) by (simp add: serve_client_def memcpy_ok)
qed

lemma new_ue_id: "new_ue u mcc mnc msin key op ip \<Longrightarrow> id_ok u"
  by (simp add: new_ue_def id_ok_def)

text \<open>The state in which the registration of a new UE starts.\<close>

lemma handle_init_starts:
  assumes g: "gnb_ok g xs" and p: "init_parts i mcc mnc msin key op ip"
    and b: "g_buffer g = init_msg x i mcc mnc msin key op ip @ rest"
    and w: "w_object w = Some (a, fresh)" "wf_UE fresh" "w_node w = Some n" "g_nodes g n = None"
  shows "\<exists>u c h l. new_ue u mcc mnc msin key op ip \<and>
     gnb_ok (g\<lparr>g_buffer := c, g_objects := (g_objects g)(a \<mapsto> u), g_nodes := h, g_list := l\<rparr>) (xs @ [Some (Object a)]) \<and>
     handle_init w E g code =
       on_success (run_procedure (g\<lparr>g_buffer := c, g_objects := (g_objects g)(a \<mapsto> u), g_nodes := h, g_list := l\<rparr>)
         (Some (Object a)) (procedure_Registration_Request E (g_enb g))) code (\<lambda>g. session_response g (Some (Object a)) code)"
proof -
  define c where "c = init_msg [0, 0, x ! 2, 0, x ! 4] i mcc mnc msin key op ip @ rest"
  have lb: "length (init_msg x i mcc mnc msin key op ip @ rest) = 1024" using g b by (simp add: gnb_ok_def)
  then have lc: "length c = 1024" using length_init_msg [OF p] by (simp add: c_def)
  have t: "terminate_strings (g_buffer g) = Some c" using terminated [OF p lb] by (simp add: c_def b)
  obtain u where u: "init_UE (Some fresh) (drop 5 c) (drop 9 c) (drop 13 c) (drop 25 c) (drop 41 c) (drop 57 c) = Some (Some u)"
    "new_ue u mcc mnc msin key op ip"
    using init_UE_message [OF p c_def lc w(2)] by blast
  define g1 where "g1 = g\<lparr>g_buffer := c, g_objects := (g_objects g)(a \<mapsto> u)\<rparr>"
  have g1: "gnb_ok g1 xs" using g lc u(2) by (auto simp: gnb_ok_def g1_def new_ue_def)
  have n: "g_nodes g1 n = None" using w(4) by (simp add: g1_def)
  obtain h l where add: "addElem (g_nodes g1) (g_list g1) (Some n) (Some (Object a)) = Some (OK, h, l)"
    "gnb_ok (g1\<lparr>g_nodes := h, g_list := l\<rparr>) (xs @ [Some (Object a)])"
    using add_object [OF g1 n] by blast
  have e: "g_nodes g1 = g_nodes g" "g_list g1 = g_list g" "g_enb g1 = g_enb g" by (simp_all add: g1_def)
  have o: "map_option snd (w_object w) = Some fresh" "map_option (Object \<circ> fst) (w_object w) = Some (Object a)" by (simp_all add: w(1))
  have "handle_init w E g code = on_success (run_procedure (g1\<lparr>g_nodes := h, g_list := l\<rparr>)
       (Some (Object a)) (procedure_Registration_Request E (g_enb g))) code (\<lambda>g. session_response g (Some (Object a)) code)"
    unfolding handle_init_def t bind.bind_lunit o u(1) w(3)
    using add(1) by (simp add: put_ue_def flip: g1_def) (simp add: e Let_def)
  with u(2) add(2) show ?thesis unfolding g1_def by (intro exI conjI) simp_all
qed

lemma init_served:
  assumes g: "gnb_ok g xs" and E: "wf_env E" and p: "init_parts i mcc mnc msin key op ip"
    and w: "w_object w = Some (a, fresh)" "wf_UE fresh" "w_node w = Some n" "g_nodes g n = None"
    and c: "core_answers p1 p2 p3 ms p4" and i: "g_in g = answers p1 p2 p3 ms p4 @ rest"
  shows "\<exists>u g' ps. new_ue u mcc mnc msin key op ip \<and>
     serve_client w E g (Message (init_msg x i mcc mnc msin key op ip)) = Some (g', Going) \<and>
     gnb_ok g' (xs @ [Some (Object a)]) \<and> g_objects g' = (g_objects g)(a \<mapsto> registered_ue u p1 p2 p3 p4) \<and>
     g_client g' = [session_message INIT_CODE (registered_ue u p1 p2 p3 p4)] \<and> g_in g' = rest \<and> g_enb g' = g_enb g \<and>
     g_sent g' = g_sent g @ map encode_pdu ps \<and> length ps = 7 \<and> hd ps = pdu_initial (g_enb g) u"
proof -
  let ?m = "init_msg x i mcc mnc msin key op ip"
  define g0 where "g0 = g\<lparr>g_buffer := ?m @ drop (length ?m) (g_buffer g), g_client := []\<rparr>"
  have lm: "length ?m = 61" by (rule length_init_msg [OF p])
  have m: "?m \<noteq> []" "length ?m \<le> 1024" using lm by (simp_all add: init_msg_def)
  have g0: "gnb_ok g0 xs" "g_nodes g0 n = None" using g lm w(4) by (simp_all add: g0_def gnb_ok_def)
  have b: "g_buffer g0 = ?m @ drop (length ?m) (g_buffer g)" by (simp add: g0_def)
  from handle_init_starts [OF g0(1) p b w(1-3) g0(2)] obtain u d h l where u: "new_ue u mcc mnc msin key op ip"
    and ok: "gnb_ok (g0\<lparr>g_buffer := d, g_objects := (g_objects g0)(a \<mapsto> u), g_nodes := h, g_list := l\<rparr>) (xs @ [Some (Object a)])"
    and hi: "handle_init w E g0 INIT_CODE =
       on_success (run_procedure (g0\<lparr>g_buffer := d, g_objects := (g_objects g0)(a \<mapsto> u), g_nodes := h, g_list := l\<rparr>)
         (Some (Object a)) (procedure_Registration_Request E (g_enb g0))) INIT_CODE (\<lambda>g. session_response g (Some (Object a)) INIT_CODE)"
    by blast
  define g2 where "g2 = g0\<lparr>g_buffer := d, g_objects := (g_objects g0)(a \<mapsto> u), g_nodes := h, g_list := l\<rparr>"
  define v where "v = registered_ue u p1 p2 p3 p4"
  have g2: "gnb_ok g2 (xs @ [Some (Object a)])" "g_objects g2 a = Some u" "g_in g2 = answers p1 p2 p3 ms p4 @ rest" "g_enb g2 = g_enb g"
    using ok i by (simp_all add: g2_def g0_def)
  obtain e g3 ps where r: "on_success (run_procedure g2 (Some (Object a)) (procedure_Registration_Request E (g_enb g2))) INIT_CODE
       (\<lambda>g. session_response g (Some (Object a)) INIT_CODE) = Some (g3, Returned OK)"
    "set_response (g2\<lparr>g_objects := (g_objects g2)(a \<mapsto> v), g_in := rest, g_sent := g_sent g2 @ map encode_pdu ps, g_local := e\<rparr>)
       (session_message INIT_CODE v) = Some g3" "length (session_message INIT_CODE v) = 13"
    "length ps = 7" "hd ps = pdu_initial (g_enb g2) u" "length e = 1024" "wf_UE v"
    using attach_object [OF g2(1,2) new_ue_id [OF u] E c g2(3) v_def, of INIT_CODE] by blast
  let ?k = "g2\<lparr>g_objects := (g_objects g2)(a \<mapsto> v), g_in := rest, g_sent := g_sent g2 @ map encode_pdu ps, g_local := e\<rparr>"
  have k: "gnb_ok ?k (xs @ [Some (Object a)])" using g2(1) r(6,7) by (auto simp: gnb_ok_def)
  have "rd (g_buffer g0) 0 = Some INIT_CODE" by (simp add: b init_msg_def rd_def)
  then have "analyze_ue_msg w E g0 = Some (g3, Returned OK)" using hi r(1) g2(4) by (simp add: analyze_ue_msg_def g2_def g0_def)
  note s = serve_respond [OF g m this [unfolded g0_def] r(2) k, unfolded r(3)]
  show ?thesis
    using s(1,2) s(3) [THEN arg_cong, of g_objects] s(3) [THEN arg_cong, of g_in] s(3) [THEN arg_cong, of g_enb]
      s(3) [THEN arg_cong, of g_sent] u r(4,5) g2(4)
    by (intro exI [of _ u] exI [of _ "g3\<lparr>g_client := [session_message INIT_CODE v]\<rparr>"] exI [of _ ps]) (simp add: g2_def g0_def v_def)
qed

section \<open>Requests of a known UE\<close>

text \<open>The object \<open>a\<close> is the first of the list with this MSIN.\<close>

definition known :: "gnb \<Rightarrow> ue_ptr option list \<Rightarrow> byte list \<Rightarrow> nat \<Rightarrow> UE \<Rightarrow> bool" where
  "known g xs msin a u \<longleftrightarrow> g_objects g a = Some u \<and> take 10 (msin_string u) = msin \<and>
     (\<exists>ys zs. xs = ys @ Some (Object a) # zs \<and>
        (\<forall>p \<in> set ys. \<exists>b v. p = Some (Object b) \<and> g_objects g b = Some v \<and> take 10 (msin_string v) \<noteq> msin))"

lemma matches_object:
  assumes "gnb_ok g xs" and "g_objects g b = Some v" and "10 \<le> length key"
  shows "matches g (Some key) (Some (Object b)) = Some (take 10 (msin_string v) = take 10 key)"
proof -
  have "wf_UE v" using assms by (auto simp: gnb_ok_def)
  then have "length (msin_string v) = 16" unfolding wf_UE_def by blast
  with assms show ?thesis by (simp add: matches_def ue_at_def ue_compare_def rdn_def)
qed

lemma search_append_skip: "(\<And>y. y \<in> set ys \<Longrightarrow> test y = Some False) \<Longrightarrow> search test (ys @ xs) = search test xs"
  by (induction ys) auto

lemma peek_known:
  assumes g: "gnb_ok g xs" and k: "known g xs msin a u" and b: "g_buffer g = code # msin @ r" and l: "length msin = 10"
  shows "peek_ue g (msin_key g) = Some (Some (Object a))"
proof -
  have key: "msin_key g = Some (msin @ r)" by (simp add: msin_key_def b)
  from k obtain ys zs where xs: "xs = ys @ Some (Object a) # zs" and u: "g_objects g a = Some u" "take 10 (msin_string u) = msin"
    and ys: "\<And>p. p \<in> set ys \<Longrightarrow> \<exists>b v. p = Some (Object b) \<and> g_objects g b = Some v \<and> take 10 (msin_string v) \<noteq> msin"
    by (auto simp: known_def)
  have "matches g (Some (msin @ r)) p = Some False" if "p \<in> set ys" for p
    using ys [OF that] matches_object [OF g, of _ _ "msin @ r"] l by auto
  then have "search (matches g (Some (msin @ r))) xs = Some (Some (Some (Object a)))"
    unfolding xs using search_append_skip [of ys] matches_object [OF g u(1), of "msin @ r"] u(2) l by simp
  then show ?thesis unfolding key peek_ue_search [OF g] by simp
qed

text \<open>The common start of the requests.\<close>

lemma request_state:
  assumes g: "gnb_ok g xs" and k: "known g xs msin a u" and m: "m = code # msin @ r" "length msin = 10" "length m \<le> 1024"
    and g0: "g0 = g\<lparr>g_buffer := m @ drop (length m) (g_buffer g), g_client := []\<rparr>"
  shows "gnb_ok g0 xs" and "g_objects g0 a = Some u" and "rd (g_buffer g0) 0 = Some code"
    and "peek_ue g0 (msin_key g0) = Some (Some (Object a))"
proof -
  show ok: "gnb_ok g0 xs" using g m(3) by (simp add: g0 gnb_ok_def)
  have k0: "known g0 xs msin a u" using k by (simp add: known_def g0)
  then show "g_objects g0 a = Some u" by (simp add: known_def)
  show "rd (g_buffer g0) 0 = Some code" by (simp add: g0 m(1) rd_def)
  show "peek_ue g0 (msin_key g0) = Some (Some (Object a))"
    by (rule peek_known [OF ok k0 _ m(2), of code "r @ drop (length m) (g_buffer g)"]) (simp add: g0 m(1))
qed

lemma attach_served:
  assumes g: "gnb_ok g xs" and k: "known g xs msin a u" and id: "id_ok u" and m: "m = UE_ATTACH # msin @ r" "length msin = 10" "length m \<le> 1024"
    and E: "wf_env E" and c: "core_answers p1 p2 p3 ms p4" and i: "g_in g = answers p1 p2 p3 ms p4 @ rest"
  shows "\<exists>g' ps. serve_client w E g (Message m) = Some (g', Going) \<and> gnb_ok g' xs \<and>
     g_objects g' = (g_objects g)(a \<mapsto> registered_ue u p1 p2 p3 p4) \<and>
     g_client g' = [session_message UE_ATTACH (registered_ue u p1 p2 p3 p4)] \<and> g_in g' = rest \<and> g_enb g' = g_enb g \<and>
     g_sent g' = g_sent g @ map encode_pdu ps \<and> length ps = 7 \<and> hd ps = pdu_initial (g_enb g) u"
proof -
  define g0 where "g0 = g\<lparr>g_buffer := m @ drop (length m) (g_buffer g), g_client := []\<rparr>"
  note s0 = request_state [OF g k m g0_def]
  define v where "v = registered_ue u p1 p2 p3 p4"
  have i0: "g_in g0 = answers p1 p2 p3 ms p4 @ rest" "g_enb g0 = g_enb g" using i by (simp_all add: g0_def)
  obtain e g3 ps where r: "on_success (run_procedure g0 (Some (Object a)) (procedure_Registration_Request E (g_enb g0))) UE_ATTACH
       (\<lambda>g. session_response g (Some (Object a)) UE_ATTACH) = Some (g3, Returned OK)"
    "set_response (g0\<lparr>g_objects := (g_objects g0)(a \<mapsto> v), g_in := rest, g_sent := g_sent g0 @ map encode_pdu ps, g_local := e\<rparr>)
       (session_message UE_ATTACH v) = Some g3" "length (session_message UE_ATTACH v) = 13"
    "length ps = 7" "hd ps = pdu_initial (g_enb g0) u" "length e = 1024" "wf_UE v"
    using attach_object [OF s0(1,2) id E c i0(1) v_def, of UE_ATTACH] by blast
  let ?k = "g0\<lparr>g_objects := (g_objects g0)(a \<mapsto> v), g_in := rest, g_sent := g_sent g0 @ map encode_pdu ps, g_local := e\<rparr>"
  have k: "gnb_ok ?k xs" using s0(1) r(6,7) by (auto simp: gnb_ok_def)
  have "analyze_ue_msg w E g0 = Some (g3, Returned OK)"
    using r(1) by (simp add: analyze_ue_msg_def s0(3,4) handle_attach_def code_defs)
  note s = serve_respond [OF g _ m(3) this [unfolded g0_def] r(2) k, unfolded r(3)]
  show ?thesis
    using s(1,2) m(1) s(3) [THEN arg_cong, of g_objects] s(3) [THEN arg_cong, of g_in] s(3) [THEN arg_cong, of g_enb]
      s(3) [THEN arg_cong, of g_sent] r(4,5) i0(2)
    by (intro exI [of _ "g3\<lparr>g_client := [session_message UE_ATTACH v]\<rparr>"] exI [of _ ps]) (simp add: g0_def v_def)
qed

lemma detach_served:
  assumes g: "gnb_ok g xs" and k: "known g xs msin a u" and id: "id_ok u" and m: "m = code # msin @ r" "length msin = 10" "length m \<le> 1024"
    and E: "wf_env E" and code: "code = (if off then UE_SWITCH_OFF_DETACH else UE_DETACH)"
    and c: "off = (ps = [])" "\<forall>p \<in> set ps. core_pdu ID_DOWNLINK_NAS_TRANSPORT c1 False p" "length ps \<le> 1"
      "core_pdu ID_UE_CONTEXT_RELEASE c2 False q"
    and i: "g_in g = map (Some \<circ> encode_pdu) (ps @ [q]) @ rest"
    and v: "v = learn_ies (p_ies q) (learn_ies (concat (map p_ies ps)) (u\<lparr>nas_sequence_number := nas_sequence_number u + 1\<rparr>))"
  shows "\<exists>g' ds. serve_client w E g (Message m) = Some (g', Going) \<and> gnb_ok g' xs \<and> g_objects g' = (g_objects g)(a \<mapsto> v) \<and>
     g_client g' = [ [OK_CODE OR code] ] \<and> g_in g' = rest \<and> g_enb g' = g_enb g \<and>
     g_sent g' = g_sent g @ map encode_pdu ds \<and> length ds = 2"
proof -
  define g0 where "g0 = g\<lparr>g_buffer := m @ drop (length m) (g_buffer g), g_client := []\<rparr>"
  note s0 = request_state [OF g k m g0_def]
  have i0: "g_in g0 = map (Some \<circ> encode_pdu) (ps @ [q]) @ rest" "g_enb g0 = g_enb g" "length (g_local g0) = 1024"
    using i s0(1) by (simp_all add: g0_def gnb_ok_def)
  have wf: "wf_UE u" "wf_eNB (g_enb g0)" using s0(1,2) by (auto simp: gnb_ok_def)
  have wv: "wf_UE v" using wf(1) id c learn_ies_keeps by (auto simp: v core_pdu_def)
  obtain ds where ds: "length ds = 2" "runs (\<lambda>s. procedure_Deregistration_Request E (g_enb g0) s off) u
      (map (Some \<circ> encode_pdu) (ps @ [q])) ds v (\<lambda>s. Some (s, Returned OK))"
    using deregistration_runs [OF E wf(2,1) id c refl v] by (metis length_Cons list.size(3) numeral_2_eq_2)
  obtain e where e: "length e = 1024" and run: "run_procedure g0 (Some (Object a)) (\<lambda>s. procedure_Deregistration_Request E (g_enb g0) s off) =
     Some (g0\<lparr>g_objects := (g_objects g0)(a \<mapsto> v), g_in := rest, g_sent := g_sent g0 @ map encode_pdu ds, g_local := e\<rparr>, Returned OK)"
    using run_procedure_object [OF ds(2) s0(2) i0(3,1)] by blast
  let ?k = "g0\<lparr>g_objects := (g_objects g0)(a \<mapsto> v), g_in := rest, g_sent := g_sent g0 @ map encode_pdu ds, g_local := e\<rparr>"
  have k: "gnb_ok ?k xs" using s0(1) e wv by (auto simp: gnb_ok_def)
  obtain g3 where g3: "set_response ?k [OK_CODE OR code] = Some g3" using respond_ok [OF k, of "[OK_CODE OR code]"] by simp
  have off: "(code AND UE_SWITCH_OFF_DETACH \<noteq> 0) = off" by (simp add: code code_defs)
  have an: "analyze_ue_msg w E g0 = Some (g3, Returned OK)"
  proof -
    have "analyze_ue_msg w E g0 = handle_detach E g0 code" by (simp add: analyze_ue_msg_def s0(3) code code_defs)
    also have "\<dots> = Some (g3, Returned OK)"
      by (simp only: handle_detach_def Let_def s0(4) bind.bind_lunit off run) (simp add: on_success_def finish_def g3)
    finally show ?thesis .
  qed
  note s = serve_respond [OF g _ m(3) an [unfolded g0_def] g3 k]
  show ?thesis
    using s(1,2) m(1) s(3) [THEN arg_cong, of g_objects] s(3) [THEN arg_cong, of g_in] s(3) [THEN arg_cong, of g_enb]
      s(3) [THEN arg_cong, of g_sent] ds(1) i0(2)
    by (intro exI [of _ "g3\<lparr>g_client := [ [OK_CODE OR code] ]\<rparr>"] exI [of _ ds]) (simp add: g0_def)
qed

section \<open>What goes wrong\<close>

lemma matches_null: "matches g None p = None"
  by (cases "ue_at g p") (simp_all add: matches_def)

lemma peek_null: "gnb_ok g xs \<Longrightarrow> peek_ue g None = (if xs = [] then Some None else None)"
  by (cases xs) (simp_all add: peek_ue_search matches_null)

text \<open>The handover messages, whose handlers search with a NULL key.\<close>

definition handover_codes :: "byte set" where
  "handover_codes = {HO_SETUP, HO_REQUEST, UE_TRANFSER, UE_S1_HANDOVER}"

lemma handover_handled:
  assumes g: "gnb_ok g xs" and c: "code \<in> handover_codes" "rd (g_buffer g) 0 = Some code"
  shows "analyze_ue_msg w E g = (if xs = [] then finish ERROR g [X2_ERROR] else None)"
  using c peek_null [OF g]
  by (auto simp: handover_codes_def analyze_ue_msg_def code_defs handle_ho_setup_def handle_ho_request_def
      handle_ue_transfer_def handle_s1_handover_def)

lemma handover_served:
  assumes g: "gnb_ok g xs" and c: "code \<in> handover_codes" and m: "m = code # r" "length m \<le> 1024"
  shows "xs \<noteq> [] \<Longrightarrow> serve_client w E g (Message m) = None"
    and "xs = [] \<Longrightarrow> \<exists>g'. serve_client w E g (Message m) = Some (g', Going) \<and> g_client g' = [ [X2_ERROR] ] \<and> gnb_ok g' []"
proof -
  define g0 where "g0 = g\<lparr>g_buffer := m @ drop (length m) (g_buffer g), g_client := []\<rparr>"
  have g0: "gnb_ok g0 xs" "rd (g_buffer g0) 0 = Some code" using g m by (simp_all add: g0_def gnb_ok_def rd_def)
  note h = handover_handled [OF g0(1) c g0(2), of w E]
  have lb: "length (g_buffer g) = 1024" using g by (simp add: gnb_ok_def)
  show "xs \<noteq> [] \<Longrightarrow> serve_client w E g (Message m) = None"
    using h m lb by (simp add: serve_client_def memcpy_ok g0_def)
  assume xs: "xs = []"
  obtain g' where g': "set_response g0 [X2_ERROR] = Some g'" using respond_ok [OF g0(1), of "[X2_ERROR]"] by simp
  have "analyze_ue_msg w E g0 = Some (g', Returned ERROR)" using h xs g' by (simp add: finish_def)
  from serve_respond [OF g _ m(2) this [unfolded g0_def] g' g0(1)] m(1) xs
  show "\<exists>g'. serve_client w E g (Message m) = Some (g', Going) \<and> g_client g' = [ [X2_ERROR] ] \<and> gnb_ok g' []"
    by (intro exI [of _ "g'\<lparr>g_client := [ [X2_ERROR] ]\<rparr>"]) (simp add: g0_def)
qed

text \<open>A message of another kind is answered with the response to the message before it.\<close>

definition handled_codes :: "byte set" where
  "handled_codes = handover_codes \<union> {INIT_CODE, MOVE_TO_IDLE, UE_DETACH, UE_SWITCH_OFF_DETACH, UE_ATTACH, MOVE_TO_CONNECTED, S1_SYNC}"

lemma unknown_code_served:
  assumes g: "gnb_ok g xs" and c: "code \<notin> handled_codes" and m: "m = code # r" "length m \<le> 1024"
  shows "serve_client w E g (Message m) = Some (g\<lparr>g_buffer := m @ drop (length m) (g_buffer g),
     g_client := [take (g_response_len g) (g_response g)]\<rparr>, Going)"
proof -
  define g0 where "g0 = g\<lparr>g_buffer := m @ drop (length m) (g_buffer g), g_client := []\<rparr>"
  have "rd (g_buffer g0) 0 = Some code" using m by (simp add: g0_def rd_def)
  then have a: "analyze_ue_msg w E g0 = Some (g0, Returned OK)"
    using c by (auto simp: analyze_ue_msg_def handled_codes_def handover_codes_def)
  have lb: "length (g_buffer g) = 1024" "length (g_response g) = 1024" "g_response_len g \<le> 1024" using g by (simp_all add: gnb_ok_def)
  show ?thesis using a [unfolded g0_def] m lb by (simp add: serve_client_def memcpy_ok rdn_def)
qed

section \<open>UEs from other base stations\<close>

lemma x2_received:
  assumes g: "gnb_ok g xs" and n: "g_nodes g n = None" and m: "length m \<le> 1024"
  shows "\<exists>h l. x2_receive g (Some n) m = Some (g\<lparr>g_x2 := m @ replicate (1024 - length m) 0, g_nodes := h, g_list := l\<rparr>, X2_OK) \<and>
     gnb_ok (g\<lparr>g_x2 := m @ replicate (1024 - length m) 0, g_nodes := h, g_list := l\<rparr>) (xs @ [Some X2_Buffer])"
proof -
  obtain h l where a: "addElem (g_nodes g) (g_list g) (Some n) (Some X2_Buffer) = Some (OK, h, l)"
    "gnb_ok (g\<lparr>g_nodes := h, g_list := l\<rparr>) (xs @ [Some X2_Buffer])" using add_object [OF g n] by blast
  have lx: "length (g_x2 g) = 1024" using g by (simp add: gnb_ok_def)
  have "memset (g_x2 g) 0 0 1024 = Some (replicate 1024 0)" using lx by (simp add: memset_def wrn_def)
  with a m show ?thesis
    by (intro exI [of _ h] exI [of _ l]) (simp add: x2_receive_def memcpy_ok gnb_ok_def)
qed

lemma load_padded: "load_UE d = Some u \<Longrightarrow> load_UE (d @ r) = Some u"
  using load_append [of d r] by (simp add: load_UE_def split: if_splits)

lemma matches_x2:
  assumes "load_UE (g_x2 g) = Some u" and "10 \<le> length key"
  shows "matches g (Some key) (Some X2_Buffer) = Some (take 10 (msin_string u) = take 10 key)"
proof -
  have "length (msin_string u) = 16" using load_wf [OF assms(1)] unfolding wf_UE_def by blast
  with assms show ?thesis by (simp add: matches_def ue_at_def ue_compare_def rdn_def)
qed

text \<open>No object of the list has this MSIN.\<close>

definition unknown :: "gnb \<Rightarrow> ue_ptr option list \<Rightarrow> byte list \<Rightarrow> bool" where
  "unknown g xs msin \<longleftrightarrow> (\<forall>p \<in> set xs. \<exists>b v. p = Some (Object b) \<and> g_objects g b = Some v \<and> take 10 (msin_string v) \<noteq> msin)"

lemma peek_unknown:
  assumes g: "gnb_ok g xs" and l: "length msin = 10" and p: "\<And>p. p \<in> set xs \<Longrightarrow> matches g (Some (msin @ r)) p = Some False"
  shows "peek_ue g (Some (msin @ r)) = Some None"
proof -
  have "search (matches g (Some (msin @ r))) xs = Some None" using search_append_skip [of xs _ "[]"] p by simp
  then show ?thesis by (simp add: peek_ue_search [OF g])
qed

lemma unknown_matches:
  assumes "gnb_ok g ys" and "unknown g xs msin" and "p \<in> set xs" and "length msin = 10"
  shows "matches g (Some (msin @ r)) p = Some False"
proof -
  from assms(2,3) obtain b v where p: "p = Some (Object b)" "g_objects g b = Some v" "take 10 (msin_string v) \<noteq> msin"
    by (auto simp: unknown_def)
  show ?thesis using matches_object [OF assms(1) p(2), of "msin @ r"] p(1,3) assms(4) by simp
qed

lemma x2_overwritten:
  assumes g: "gnb_ok g xs" and n: "g_nodes g n1 = None" and d: "load_UE d1 = Some u1" "load_UE d2 = Some u2" "length d1 \<le> 1024" "length d2 \<le> 1024"
    and k: "unknown g xs (take 10 (msin_string u1))" "take 10 (msin_string u1) \<noteq> take 10 (msin_string u2)"
    and r1: "x2_receive g (Some n1) d1 = Some (g1, a1)" and n2: "g_nodes g1 n2 = None" and r2: "x2_receive g1 (Some n2) d2 = Some (g2, a2)"
  shows "a1 = X2_OK" and "a2 = X2_OK" and "gnb_ok g2 (xs @ [Some X2_Buffer, Some X2_Buffer])" and "ue_at g2 (Some X2_Buffer) = Some u2"
    and "peek_ue g1 (Some (take 10 (msin_string u1))) = Some (Some X2_Buffer)"
    and "peek_ue g2 (Some (take 10 (msin_string u1))) = Some None"
proof -
  let ?m = "take 10 (msin_string u1)"
  have l: "length ?m = 10" using load_wf [OF d(1)] unfolding wf_UE_def by simp
  have g1: "a1 = X2_OK" "gnb_ok g1 (xs @ [Some X2_Buffer])" "g_x2 g1 = d1 @ replicate (1024 - length d1) 0" "g_objects g1 = g_objects g"
    using x2_received [OF g n d(3)] r1 by auto
  have g2: "a2 = X2_OK" "gnb_ok g2 ((xs @ [Some X2_Buffer]) @ [Some X2_Buffer])" "g_x2 g2 = d2 @ replicate (1024 - length d2) 0"
    "g_objects g2 = g_objects g"
    using x2_received [OF g1(2) n2 d(4)] r2 g1(4) by auto
  have x: "load_UE (g_x2 g1) = Some u1" "load_UE (g_x2 g2) = Some u2"
    using load_padded d(1,2) by (simp_all add: g1(3) g2(3))
  show "a1 = X2_OK" "a2 = X2_OK" "gnb_ok g2 (xs @ [Some X2_Buffer, Some X2_Buffer])" "ue_at g2 (Some X2_Buffer) = Some u2"
    using g1(1) g2(1,2) x(2) by (simp_all add: ue_at_def)
  have un: "unknown g1 xs ?m" "unknown g2 xs ?m" using k(1) g1(4) g2(4) by (simp_all add: unknown_def)
  have s1: "matches g1 (Some (?m @ [])) p = Some False" "matches g2 (Some (?m @ [])) p = Some False" if "p \<in> set xs" for p
    using unknown_matches [OF g1(2) un(1) that l] unknown_matches [OF g2(2) un(2) that l] by blast+
  have "search (matches g1 (Some ?m)) (xs @ [Some X2_Buffer]) = Some (Some (Some X2_Buffer))"
    using search_append_skip [of xs "matches g1 (Some ?m)"] s1(1) matches_x2 [OF x(1), of ?m] l by simp
  then show "peek_ue g1 (Some ?m) = Some (Some X2_Buffer)" by (simp add: peek_ue_search [OF g1(2)])
  have "matches g2 (Some (?m @ [])) (Some X2_Buffer) = Some False" using matches_x2 [OF x(2), of ?m] l k(2) by simp
  with peek_unknown [OF g2(2) l, of "[]"] s1(2) show "peek_ue g2 (Some ?m) = Some None" by auto
qed

end
