(* ===== verification/Ran_Flow.thy ===== *)
theory Ran_Flow
  imports Ran_Script Gnb_Requests
begin

text \<open>
  The parts of the RAN emulator together: a message of the controller starts a UE process, which registers through a
  base station with the core; a UE detaches and attaches again; a handover goes to the source.  What a process reads from its
  connection is what the base station of Gnb\_Emulator wrote to it.
\<close>

section \<open>Requests that are answered\<close>

text \<open>A connection that is accepted at once and answered with \<open>a\<close>.\<close>

definition answered_by :: "byte list \<Rightarrow> connection" where
  "answered_by a = \<lparr>c_socket = True, c_connect = [Connected], c_read = Some a\<rparr>"

lemma exchange_answered:
  assumes "r_conns s = answered_by a # cs" and "length msg \<le> n" and "n \<le> sz" and "length a \<le> sz"
  shows "\<exists>b. exchange ip msg n sz s =
     Some (s\<lparr>r_conns := cs, r_log := r_log s @ [To_Gnb ip (msg @ replicate (n - length msg) 0)]\<rparr>, Going, a @ b)"
proof -
  have "msg @ take (n - length msg) (replicate (sz - length msg) 0) = msg @ replicate (n - length msg) 0"
    using assms(3) by simp
  with assms show ?thesis
    by (simp add: exchange_def answered_by_def wrn_def rdn_def memcpy_ok emit_def)
qed

lemma request_answered:
  assumes "r_conns s = answered_by (c # a) # cs" and "length msg \<le> n" and "n \<le> sz" and "Suc (length a) \<le> sz" and "good c"
  shows "\<exists>b. ask_gnb ip msg n sz good s k =
     k (s\<lparr>r_conns := cs, r_log := r_log s @ [To_Gnb ip (msg @ replicate (n - length msg) 0)]\<rparr>) (c # a @ b)"
proof -
  obtain b where "exchange ip msg n sz s =
     Some (s\<lparr>r_conns := cs, r_log := r_log s @ [To_Gnb ip (msg @ replicate (n - length msg) 0)]\<rparr>, Going, (c # a) @ b)"
    using exchange_answered [OF assms(1-3)] assms(4) by auto
  with assms(5) show ?thesis by (intro exI [of _ b]) (simp add: ask_gnb_def rd_def)
qed

lemma init_message_bytes:
  assumes "length fresh = 1024" and "length (d_id d) = 4" and "3 \<le> length (d_mcc d)" and "2 \<le> length (d_mnc d)" and "10 \<le> length (d_msin d)"
    and "length (d_key d) = 16" and "length (d_op_key d) = 16" and "length (d_ue_ip d) = 4"
  shows "\<exists>b. init_message fresh d = Some b \<and> length b = 1024 \<and>
     take 61 b = init_msg [0, fresh ! 11, fresh ! 12, fresh ! 23, fresh ! 24] (d_id d) (take 3 (d_mcc d)) (take 2 (d_mnc d))
       (take 10 (d_msin d)) (d_key d) (d_op_key d) (d_ue_ip d)"
proof -
  have pair: "take 2 (drop i fresh) = [fresh ! i, fresh ! Suc i]" if "i < 1000" for i
    using that assms(1) by (simp add: take_Suc_conv_app_nth numeral_2_eq_2)
  obtain f0 f where fresh: "fresh = f0 # f" "length f = 1023" using assms(1) by (cases fresh) auto
  show ?thesis
    using assms pair [of 11] pair [of 23]
    by (simp add: init_message_def wr_def memset_ok memcpy_ok init_msg_def fresh)
qed

lemma session_fields:
  assumes "wf_UE v" and "b = session_message code v @ r"
  shows "rd b 0 = Some (OK_CODE OR code)" "ARRAY_TO_UINT32 b 1 = Some (gtp_teid v)" "rdn b 1 4 = Some (UINT32_TO_ARRAY (gtp_teid v))"
    "rdn b 5 4 = Some (pdn_ip v)" "rdn b 9 4 = Some (spgw_ip v)" "length (session_message code v) = 13"
proof -
  have l: "length (pdn_ip v) = 4" "length (spgw_ip v) = 4" using assms(1) unfolding wf_UE_def by blast+
  then show "rd b 0 = Some (OK_CODE OR code)" and t: "rdn b 1 4 = Some (UINT32_TO_ARRAY (gtp_teid v))"
    and "rdn b 5 4 = Some (pdn_ip v)" "rdn b 9 4 = Some (spgw_ip v)" "length (session_message code v) = 13"
    by (simp_all add: assms(2) session_message_def rd_def rdn_def)
  show "ARRAY_TO_UINT32 b 1 = Some (gtp_teid v)" by (rule ARRAY_TO_UINT32_read [OF t])
qed

definition ue_data_ok :: "ue_data \<Rightarrow> bool" where
  "ue_data_ok d \<longleftrightarrow> length (d_id d) = 4 \<and> 3 \<le> length (d_mcc d) \<and> 2 \<le> length (d_mnc d) \<and> 10 \<le> length (d_msin d) \<and>
     length (d_key d) = 16 \<and> length (d_op_key d) = 16 \<and> length (d_ue_ip d) = 4"

definition init_request :: "buf \<Rightarrow> ue_data \<Rightarrow> byte list" where
  "init_request fresh d = init_msg [0, fresh ! 11, fresh ! 12, fresh ! 23, fresh ! 24] (d_id d) (take 3 (d_mcc d)) (take 2 (d_mnc d))
     (take 10 (d_msin d)) (d_key d) (d_op_key d) (d_ue_ip d)"

definition gateway :: "ue_data \<Rightarrow> UE \<Rightarrow> byte list" where
  "gateway d v = (if d_spgw_port d = 2152 then spgw_ip v else d_ue_ip d)"

definition started :: "ue_data \<Rightarrow> UE \<Rightarrow> byte list \<Rightarrow> connection list \<Rightarrow> ran \<Rightarrow> ran" where
  "started d v m cs s = s\<lparr>r_data := d, r_cp_only := 0, r_ue_ip := pdn_ip v, r_spgw_ip := gateway d v, r_gtp_teid := host32 (gtp_teid v),
     r_spgw_addr := gateway d v, r_conns := cs, r_tun := drop 1 (r_tun s),
     r_log := r_log s @ [To_Gnb (d_enb_ip d) m, Notify (CODE_ATTACHED # d_id d),
       Notify ((OK_CODE OR CODE_UE_BEHAVIOUR) # d_id d)]\<rparr>"

lemma id_bytes: "length i = 4 \<Longrightarrow> \<exists>n. ARRAY_TO_UINT32 i 0 = Some n \<and> UINT32_TO_ARRAY n = i"
proof -
  assume "length i = 4"
  then obtain a b c d where "i = [a, b, c, d]" using list4 by blast
  then show ?thesis by (simp add: ARRAY_TO_UINT32_def mem_simps bytes_be32)
qed

lemma start_answered:
  assumes f: "length fresh = 1024" and d: "ue_data_ok d" "d_thread_id d = 0" and v: "wf_UE v"
    and s: "r_conns s = answered_by (session_message INIT_CODE v) # cs" "r_tun s = True # ts"
  shows "ue_emulator_start d fresh True s = Some (started d v (init_request fresh d) cs s, Returned OK)"
proof -
  obtain b where b: "init_message fresh d = Some b" "length b = 1024" "take 61 b = init_request fresh d"
    using init_message_bytes [OF f, of d] d(1) by (auto simp: ue_data_ok_def init_request_def)
  let ?a = "session_message INIT_CODE v"
  note a = session_fields [OF v refl [of "session_message INIT_CODE v @ drop 13 b"]]
  have m: "rdn b 0 61 = Some (init_request fresh d)" "memcpy b 0 ?a 13 = Some (?a @ drop 13 b)"
    using b(2,3) a(6) by (simp_all add: rdn_def memcpy_ok)
  have ip: "rdn (d_ue_ip d) 0 4 = Some (d_ue_ip d)" using d(1) by (simp add: ue_data_ok_def rdn_def)
  obtain n where n: "ARRAY_TO_UINT32 (d_id d) 0 = Some n" "UINT32_TO_ARRAY n = d_id d"
    using id_bytes d(1) by (auto simp: ue_data_ok_def)
  show ?thesis
    by (simp add: ue_emulator_start_def s answered_by_def b(1) m a a(2,3) [unfolded One_nat_def] d(2) ip Let_def emit_def start_data_plane_def tun_result_def
        start_control_plane_def ue_number_def n send_ue_attach_controller_def send_ue_behaviour_def started_def gateway_def)
qed

text \<open>The bytes that the base station returns on a connection.\<close>

definition reply_of :: "gnb \<Rightarrow> byte list" where
  "reply_of g = concat (g_client g)"

text \<open>A UE process that the controller starts, and the base station it registers with.\<close>

lemma configured_ok:
  "cu_ok u \<Longrightarrow> length ip = 4 \<Longrightarrow> ue_data_ok (configured u enb mux epc cp ip lip)"
  by (simp add: ue_data_ok_def configured_def cu_ok_def)

lemma receive_ue:
  assumes u: "cu_ok u" "length (cu_command u) \<le> 191" and m: "m = serialize_ue (CODE_OK OR CODE_UE_BEHAVIOUR) enb mux epc u" "length m \<le> 1024"
    and f: "length fresh = 1024"
  shows "receive_controller gs fresh fm th mo cp (Some m) s = do {
     (s, r) \<leftarrow> ue_emulator_start (configured u enb mux epc cp (r_ue_ip s) (r_local_ip s)) fm th s; Some (s, continue_with r) }"
proof -
  let ?b = "m @ drop (length m) fresh"
  have b: "memcpy fresh 0 m (length m) = Some ?b" "length ?b = 1024" using m(2) f by (simp_all add: memcpy_ok)
  have l: "0 < length m" "rd ?b 0 = Some (CODE_OK OR CODE_UE_BEHAVIOUR)" by (simp_all add: m(1) serialize_ue_def rd_def)
  have a: "analyze_controller_msg ?b (int (length m)) cp s = Some (Run_UE (configured u enb mux epc cp (r_ue_ip s) (r_local_ip s)))"
    using decode_serialized [OF u m b(2)] l by (simp add: analyze_controller_msg_def CODE_OK_def CODE_UE_BEHAVIOUR_def CODE_ERROR_def)
  show ?thesis using m(2) b(1) by (simp add: receive_controller_def a)
qed

lemma ue_boots:
  assumes u: "cu_ok cu" "length (cu_command cu) \<le> 191" and m: "m = serialize_ue (CODE_OK OR CODE_UE_BEHAVIOUR) enb mux epc cu" "length m \<le> 1024"
    and f: "length fresh = 1024" "length fm = 1024"
    and g: "gnb_ok g xs" and E: "wf_env E"
    and w: "w_object w = Some (a, obj)" "wf_UE obj" "w_node w = Some n" "g_nodes g n = None"
    and c: "core_answers p1 p2 p3 ms p4" and i: "g_in g = answers p1 p2 p3 ms p4 @ rest"
    and s: "length (r_ue_ip s) = 4" "r_tun s = True # ts"
    and d: "d = configured cu enb mux epc 0 (r_ue_ip s) (r_local_ip s)"
  shows "\<exists>v0 v g'. new_ue v0 (cu_mcc cu) (cu_mnc cu) (cu_msin cu) (cu_key cu) (cu_op_key cu) (d_ue_ip d) \<and>
     v = registered_ue v0 p1 p2 p3 p4 \<and>
     serve_client w E g (Message (init_request fm d)) = Some (g', Going) \<and>
     gnb_ok g' (xs @ [Some (Object a)]) \<and> g_objects g' = (g_objects g)(a \<mapsto> v) \<and>
     receive_controller gs fresh fm True mo 0 (Some m) (s\<lparr>r_conns := answered_by (reply_of g') # cs\<rparr>) =
       Some (started d v (init_request fm d) cs s, Continue [])"
proof -
  have ok: "ue_data_ok d" using configured_ok [OF u(1) s(1)] by (simp add: d)
  have parts: "init_parts (d_id d) (take 3 (d_mcc d)) (take 2 (d_mnc d)) (take 10 (d_msin d)) (d_key d) (d_op_key d) (d_ue_ip d)"
    using ok by (simp add: ue_data_ok_def init_parts_def)
  have fields: "take 3 (d_mcc d) = cu_mcc cu" "take 2 (d_mnc d) = cu_mnc cu" "take 10 (d_msin d) = cu_msin cu" "d_key d = cu_key cu"
    "d_op_key d = cu_op_key cu" "d_thread_id d = 0" using u(1) by (simp_all add: d configured_def cu_ok_def)
  obtain v0 g' ps where r: "new_ue v0 (take 3 (d_mcc d)) (take 2 (d_mnc d)) (take 10 (d_msin d)) (d_key d) (d_op_key d) (d_ue_ip d)"
    "serve_client w E g (Message (init_request fm d)) = Some (g', Going)" "gnb_ok g' (xs @ [Some (Object a)])"
    "g_objects g' = (g_objects g)(a \<mapsto> registered_ue v0 p1 p2 p3 p4)"
    "g_client g' = [session_message INIT_CODE (registered_ue v0 p1 p2 p3 p4)]"
    using init_served [OF g E parts w c i, of "[0, fm ! 11, fm ! 12, fm ! 23, fm ! 24]"] unfolding init_request_def by blast
  define v where "v = registered_ue v0 p1 p2 p3 p4"
  have "g_objects g' a = Some v" by (simp add: r(4) v_def)
  then have wv: "wf_UE v" using r(3) unfolding gnb_ok_def by blast
  define t where "t = s\<lparr>r_conns := answered_by (reply_of g') # cs\<rparr>"
  have t: "r_conns t = answered_by (session_message INIT_CODE v) # cs" "r_tun t = True # ts" "r_ue_ip t = r_ue_ip s" "r_local_ip t = r_local_ip s"
    using r(5) s(2) by (simp_all add: t_def reply_of_def v_def)
  have "receive_controller gs fresh fm True mo 0 (Some m) t = Some (started d v (init_request fm d) cs t, Continue [])"
    using receive_ue [OF u m f(1), of gs fm True mo 0 t] start_answered [OF f(2) ok fields(6) wv t(1,2)]
    by (simp add: t(3,4) d continue_with_def)
  moreover have "started d v (init_request fm d) cs t = started d v (init_request fm d) cs s" by (simp add: started_def t_def)
  ultimately show ?thesis using r(1-4) unfolding fields t_def [symmetric] v_def [symmetric] 
    by (intro exI [of _ v0] exI [of _ v] exI [of _ g']) (simp add: t_def v_def)
qed

section \<open>Detach and attach\<close>

text \<open>A process with a UE.\<close>

definition ran_ok :: "ran \<Rightarrow> byte list \<Rightarrow> bool" where
  "ran_ok s msin \<longleftrightarrow> length (d_id (r_data s)) = 4 \<and> 10 \<le> length (d_msin (r_data s)) \<and> take 10 (d_msin (r_data s)) = msin"

definition idle_request :: "byte \<Rightarrow> byte list \<Rightarrow> byte list" where
  "idle_request code msin = (code # msin) @ replicate 7 0"

lemma detach_answered:
  assumes s: "ran_ok s msin" "r_conns s = answered_by [OK_CODE OR code] # cs" and code: "code = (if off then UE_SWITCH_OFF_DETACH else UE_DETACH)"
  shows "send_ue_detach off True s = Some (s\<lparr>r_conns := cs, r_log := r_log s @
     (if r_cp_only s = 0 then [Generator_Killed] else []) @
     [To_Gnb (d_enb_ip (r_data s)) (idle_request code msin), Notify (CODE_DETACHED # d_id (r_data s))]\<rparr>, Returned OK)"
proof -
  define t where "t = (if r_cp_only s = 0 then stop_traffic_generator s else s)"
  have t: "r_conns t = answered_by ((OK_CODE OR code) # []) # cs" "r_data t = r_data s"
    using s(2) by (simp_all add: t_def stop_traffic_generator_def emit_def)
  have msg: "idle_message code t = Some (code # msin)" "length (code # msin) = 11"
    using s(1) by (auto simp: idle_message_def t(2) rdn_def ran_ok_def)
  obtain n where n: "ARRAY_TO_UINT32 (d_id (r_data s)) 0 = Some n" "UINT32_TO_ARRAY n = d_id (r_data s)"
    using id_bytes s(1) by (auto simp: ran_ok_def)
  let ?good = "\<lambda>c. c = OK_CODE OR UE_DETACH \<or> c = OK_CODE OR UE_SWITCH_OFF_DETACH"
  have good: "?good (OK_CODE OR code)" by (simp add: code)
  have c: "(if \<not> off then UE_DETACH else UE_SWITCH_OFF_DETACH) = code" by (simp add: code)
  from request_answered [where good = ?good, OF t(1) _ _ _ good, of "code # msin" 18 32] msg(2)
  have r: "\<exists>b. ask_gnb ip (code # msin) 18 32 ?good t k = k (t\<lparr>r_conns := cs, r_log := r_log t @ [To_Gnb ip (idle_request code msin)]\<rparr>) ((OK_CODE OR code) # b)" for ip k
    by (simp add: idle_request_def)
  let ?k = "\<lambda>s b. do { i \<leftarrow> ue_number s; Some (send_ue_detach_controller i s, Returned OK) }"
  have e: "send_ue_detach off True s = ask_gnb (d_enb_ip (r_data t)) (code # msin) 18 32 ?good t ?k"
    unfolding send_ue_detach_def c using msg(1) by (simp add: t_def Let_def)
  obtain b where "send_ue_detach off True s =
      ?k (t\<lparr>r_conns := cs, r_log := r_log t @ [To_Gnb (d_enb_ip (r_data t)) (idle_request code msin)]\<rparr>) ((OK_CODE OR code) # b)"
    using r [of "d_enb_ip (r_data t)" ?k] unfolding e by blast
  then show ?thesis
    by (auto simp: ue_number_def t(2) n send_ue_detach_controller_def emit_def t_def stop_traffic_generator_def)
qed

lemma attach_answered:
  assumes s: "ran_ok s msin" "r_conns s = answered_by (session_message UE_ATTACH v) # cs" "r_cp_only s = 0" "r_tun s = True # ts" and v: "wf_UE v"
  shows "send_ue_attach s = Some (s\<lparr>r_conns := cs, r_ue_ip := pdn_ip v, r_gtp_teid := host32 (gtp_teid v), r_spgw_addr := r_spgw_ip s,
     r_tun := ts, r_log := r_log s @ [To_Gnb (d_enb_ip (r_data s)) (idle_request UE_ATTACH msin),
       Generator_Started (d_command (r_data s)), Notify (CODE_ATTACHED # d_id (r_data s))]\<rparr>, Returned OK)"
proof -
  have msg: "idle_message UE_ATTACH s = Some (UE_ATTACH # msin)" "length (UE_ATTACH # msin) = 11"
    using s(1) by (auto simp: idle_message_def rdn_def ran_ok_def)
  obtain n where n: "ARRAY_TO_UINT32 (d_id (r_data s)) 0 = Some n" "UINT32_TO_ARRAY n = d_id (r_data s)"
    using id_bytes s(1) by (auto simp: ran_ok_def)
  have l: "length (session_message UE_ATTACH v) = 13" by (rule session_fields(6) [OF v refl])
  obtain x where x: "session_message UE_ATTACH v = (OK_CODE OR UE_ATTACH) # x" by (simp add: session_message_def)
  let ?k = "\<lambda>s b. adopt_session b s (\<lambda>s. do { i \<leftarrow> ue_number s; Some (send_ue_attach_controller i s, Returned OK) })"
  have sx: "r_conns s = answered_by ((OK_CODE OR UE_ATTACH) # x) # cs" using s(2) x by simp
  let ?t = "s\<lparr>r_conns := cs, r_log := r_log s @ [To_Gnb (d_enb_ip (r_data s)) (idle_request UE_ATTACH msin)]\<rparr>"
  have "Suc (length x) \<le> 256" using l x by simp
  then obtain b where r: "ask_gnb (d_enb_ip (r_data s)) (UE_ATTACH # msin) 18 256 (\<lambda>c. c = OK_CODE OR UE_ATTACH) s ?k = ?k ?t ((OK_CODE OR UE_ATTACH) # x @ b)"
    using request_answered [where good = "\<lambda>c. c = OK_CODE OR UE_ATTACH", OF sx, of "UE_ATTACH # msin" 18 256 "d_enb_ip (r_data s)" ?k] msg(2)
    by (auto simp: idle_request_def)
  have bx: "(OK_CODE OR UE_ATTACH) # x @ b = session_message UE_ATTACH v @ b" by (simp add: x)
  note a = session_fields [OF v refl [of "session_message UE_ATTACH v @ b"]]
  show ?thesis
    unfolding send_ue_attach_def msg(1) bind.bind_lunit r bx
    by (simp add: adopt_session_def s(3,4) a a(2,3) [unfolded One_nat_def] update_data_plane_def tun_result_def start_traffic_generator_def
        emit_def ue_number_def n send_ue_attach_controller_def)
qed

lemma apply_ie_msin: "msin_string (apply_ie x u) = msin_string u"
  by (simp add: apply_ie_def apply_nas_def apply_session_def Let_def split: option.split)

lemma learn_ies_msin: "msin_string (learn_ies xs u) = msin_string u"
  unfolding learn_ies_def by (induction xs arbitrary: u) (simp_all add: apply_ie_msin)

lemma known_update:
  assumes "known g xs msin a u" and "g_objects g' = (g_objects g)(a \<mapsto> v)" and "msin_string v = msin_string u"
  shows "known g' xs msin a v"
proof -
  from assms(1) obtain ys zs where xs: "xs = ys @ Some (Object a) # zs" and u: "g_objects g a = Some u" "take 10 (msin_string u) = msin"
    and ys: "\<forall>p \<in> set ys. \<exists>b v. p = Some (Object b) \<and> g_objects g b = Some v \<and> take 10 (msin_string v) \<noteq> msin"
    by (auto simp: known_def)
  have ys': "\<forall>p \<in> set ys. \<exists>b v. p = Some (Object b) \<and> g_objects g' b = Some v \<and> take 10 (msin_string v) \<noteq> msin"
  proof
    fix p assume "p \<in> set ys"
    with ys obtain b w where b: "p = Some (Object b)" "g_objects g b = Some w" "take 10 (msin_string w) \<noteq> msin" by blast
    then have "b \<noteq> a" using u by auto
    with b assms(2) show "\<exists>b v. p = Some (Object b) \<and> g_objects g' b = Some v \<and> take 10 (msin_string v) \<noteq> msin" by auto
  qed
  show ?thesis unfolding known_def
    by (intro conjI exI [of _ ys] exI [of _ zs]) (use xs u(2) assms(2,3) ys' in simp_all)
qed

lemma detach_then_attach:
  assumes g: "gnb_ok g xs" "known g xs msin a u" "id_ok u" and E: "wf_env E" and l: "length msin = 10"
    and c: "core_pdu ID_DOWNLINK_NAS_TRANSPORT c1 False p" "core_pdu ID_UE_CONTEXT_RELEASE c2 False q" "core_answers p1 p2 p3 ms p4"
    and i: "g_in g = map (Some \<circ> encode_pdu) [p, q] @ answers p1 p2 p3 ms p4 @ rest"
    and s: "ran_ok s msin" "r_cp_only s = 0" "r_tun s = True # ts"
    and u: "u1 = learn_ies (p_ies q) (learn_ies (p_ies p) (u\<lparr>nas_sequence_number := nas_sequence_number u + 1\<rparr>))"
      "v = registered_ue u1 p1 p2 p3 p4"
  shows "\<exists>g1 g2 s1 s2. serve_client w E g (Message (idle_request UE_DETACH msin)) = Some (g1, Going) \<and>
     serve_client w' E g1 (Message (idle_request UE_ATTACH msin)) = Some (g2, Going) \<and>
     gnb_ok g2 xs \<and> g_objects g2 = (g_objects g)(a \<mapsto> v) \<and> g_in g2 = rest \<and>
     send_ue_detach False True (s\<lparr>r_conns := [answered_by (reply_of g1), answered_by (reply_of g2)]\<rparr>) = Some (s1, Returned OK) \<and>
     send_ue_attach s1 = Some (s2, Returned OK) \<and>
     r_ue_ip s2 = pdn_ip v \<and> r_gtp_teid s2 = host32 (gtp_teid v) \<and> r_spgw_addr s2 = r_spgw_ip s \<and>
     r_log s2 = r_log s @
       [Generator_Killed, To_Gnb (d_enb_ip (r_data s)) (idle_request UE_DETACH msin), Notify (CODE_DETACHED # d_id (r_data s)),
        To_Gnb (d_enb_ip (r_data s)) (idle_request UE_ATTACH msin), Generator_Started (d_command (r_data s)),
        Notify (CODE_ATTACHED # d_id (r_data s))]"
proof -
  have ps: "False = ([p] = [])" "\<forall>x \<in> set [p]. core_pdu ID_DOWNLINK_NAS_TRANSPORT c1 False x" "length [p] \<le> 1" using c(1) by simp_all
  have m: "idle_request UE_DETACH msin = UE_DETACH # msin @ replicate 7 0" "idle_request UE_ATTACH msin = UE_ATTACH # msin @ replicate 7 0"
    "length (idle_request UE_DETACH msin) \<le> 1024" "length (idle_request UE_ATTACH msin) \<le> 1024"
    using l by (simp_all add: idle_request_def)
  have i1: "g_in g = map (Some \<circ> encode_pdu) ([p] @ [q]) @ answers p1 p2 p3 ms p4 @ rest"
    and u1: "u1 = learn_ies (p_ies q) (learn_ies (concat (map p_ies [p])) (u\<lparr>nas_sequence_number := nas_sequence_number u + 1\<rparr>))"
    and code: "UE_DETACH = (if False then UE_SWITCH_OFF_DETACH else UE_DETACH)" using i u(1) by simp_all
  obtain g1 where g1: "serve_client w E g (Message (idle_request UE_DETACH msin)) = Some (g1, Going)" "gnb_ok g1 xs"
    "g_objects g1 = (g_objects g)(a \<mapsto> u1)" "g_client g1 = [ [OK_CODE OR UE_DETACH] ]" "g_in g1 = answers p1 p2 p3 ms p4 @ rest"
    using detach_served [OF g m(1) l m(3) E code ps c(2) i1 u1] by blast
  have ms: "msin_string u1 = msin_string u" by (simp add: u(1) learn_ies_msin)
  have id: "id_ok u1" using g(3) c(1,2) learn_ies_keeps by (simp add: u(1) core_pdu_def)
  obtain g2 where g2: "serve_client w' E g1 (Message (idle_request UE_ATTACH msin)) = Some (g2, Going)" "gnb_ok g2 xs"
    "g_objects g2 = (g_objects g1)(a \<mapsto> v)" "g_client g2 = [session_message UE_ATTACH v]" "g_in g2 = rest"
    using attach_served [OF g1(2) known_update [OF g(2) g1(3) ms] id m(2) l m(4) E c(3) g1(5)] u(2) by blast
  have v: "wf_UE v" using g2(2,3) unfolding gnb_ok_def by (metis fun_upd_same)
  define t where "t = s\<lparr>r_conns := [answered_by (reply_of g1), answered_by (reply_of g2)]\<rparr>"
  have t: "ran_ok t msin" "r_conns t = answered_by [OK_CODE OR UE_DETACH] # [answered_by (session_message UE_ATTACH v)]"
    using s(1) g1(4) g2(4) by (simp_all add: t_def ran_ok_def reply_of_def)
  define s1 where "s1 = t\<lparr>r_conns := [answered_by (session_message UE_ATTACH v)], r_log := r_log s @ [Generator_Killed,
     To_Gnb (d_enb_ip (r_data s)) (idle_request UE_DETACH msin), Notify (CODE_DETACHED # d_id (r_data s))]\<rparr>"
  have d: "send_ue_detach False True t = Some (s1, Returned OK)"
    using detach_answered [OF t code] s(2) by (simp add: s1_def t_def)
  have s1: "ran_ok s1 msin" "r_conns s1 = answered_by (session_message UE_ATTACH v) # []" "r_cp_only s1 = 0" "r_tun s1 = True # ts"
    using s t(1) by (simp_all add: s1_def t_def ran_ok_def)
  note at = attach_answered [OF s1 v]
  show ?thesis
    by (intro exI conjI, rule g1(1), rule g2(1), rule g2(2), simp add: g2(3) g1(3), rule g2(5), rule d [unfolded t_def], rule at)
      (simp_all add: s1_def t_def)
qed

section \<open>Handover\<close>

lemma find_target_answered:
  assumes "r_controller s = Answer (x # UINT32_TO_ARRAY ip) # as" and "length (d_id (r_data s)) = 4" and "ip \<noteq> 0" "ip \<noteq> -1"
    and "s' = s\<lparr>r_controller := as, r_log := r_log s @ [Notify (CODE_GET_ENB # d_id (r_data s) @ UINT32_TO_ARRAY (be32 0 e0 e1 e2))]\<rparr>"
  shows "find_target [e0, e1, e2] s k = k s' (be32 0 e0 e1 e2) (UINT32_TO_ARRAY ip)"
proof -
  obtain n where n: "ARRAY_TO_UINT32 (d_id (r_data s)) 0 = Some n" "UINT32_TO_ARRAY n = d_id (r_data s)" using id_bytes assms(2) by blast
  have b: "memcpy (replicate 9 0) 0 (x # UINT32_TO_ARRAY ip) 5 = Some ([x] @ UINT32_TO_ARRAY ip @ replicate 4 0)"
    by (simp add: memcpy_ok UINT32_TO_ARRAY_def)
  have a: "ARRAY_TO_UINT32 ([x] @ UINT32_TO_ARRAY ip @ replicate 4 0) 1 = Some ip"
    by (rule ARRAY_TO_UINT32_read) (simp add: rdn_def)
  have "send_get_enb_ip n (be32 0 e0 e1 e2) s = Some (s', Some ip)"
    using a by (simp add: send_get_enb_ip_def assms(1,5) b emit_def n(2))
  with assms(3,4) show ?thesis by (simp add: find_target_def mem_simps ue_number_def n(1))
qed

text \<open>
  An X2 handover: whatever the two connections return, as long as they are accepted and not answered with the one error code, the
  process goes over to the target, and both requests have gone to the source.
\<close>

definition handover_request :: "byte \<Rightarrow> byte list \<Rightarrow> byte list \<Rightarrow> byte list" where
  "handover_request code msin ip = code # msin @ replicate 6 0 @ ip @ [0]"

lemma accepted_request:
  assumes "r_conns s = answered_by a # cs" and "length msg = 21" and "length a \<le> 32" and "a = [] \<or> hd a \<noteq> X2_ERROR" and "hd msg \<noteq> X2_ERROR"
  shows "\<exists>b. ask_gnb ip msg 22 32 (\<lambda>c. c \<noteq> X2_ERROR) s k =
     k (s\<lparr>r_conns := cs, r_log := r_log s @ [To_Gnb ip (msg @ [0])]\<rparr>) b"
proof (cases a)
  case Nil
  let ?b = "msg @ replicate 11 0"
  have "exchange ip msg 22 32 s = Some (s\<lparr>r_conns := cs, r_log := r_log s @ [To_Gnb ip (msg @ [0])]\<rparr>, Going, ?b)"
    using assms(1,2) Nil by (simp add: exchange_def answered_by_def wrn_def rdn_def memcpy_ok emit_def)
  moreover have "rd ?b 0 = Some (hd msg)" using assms(2) by (cases msg) (simp_all add: rd_def)
  ultimately show ?thesis using assms(5) by (intro exI [of _ ?b]) (simp add: ask_gnb_def)
next
  case (Cons c r)
  then show ?thesis using request_answered [where good = "\<lambda>c. c \<noteq> X2_ERROR", of s c r cs msg 22 32 ip k] assms by auto
qed

lemma x2_handover_accepted:
  assumes s: "ran_ok s msin" "length msin = 10" and c: "r_controller s = Answer (x # UINT32_TO_ARRAY ip) # as" "ip \<noteq> 0" "ip \<noteq> -1"
    and r: "r_conns s = answered_by a1 # answered_by a2 # cs" "length a1 \<le> 32" "length a2 \<le> 32" "a1 = [] \<or> hd a1 \<noteq> X2_ERROR" "a2 = [] \<or> hd a2 \<noteq> X2_ERROR"
    and e: "low_bytes n = [e0, e1, e2]" "be32 0 e0 e1 e2 = n"
  shows "\<exists>s'. send_x2_handover (low_bytes n) s = Some (s', Returned OK) \<and> d_enb_ip (r_data s') = UINT32_TO_ARRAY ip \<and>
     r_log s' = r_log s @ [Notify (CODE_GET_ENB # d_id (r_data s) @ UINT32_TO_ARRAY n),
       To_Gnb (d_enb_ip (r_data s)) (handover_request HO_SETUP msin (UINT32_TO_ARRAY ip)),
       To_Gnb (d_enb_ip (r_data s)) (handover_request HO_REQUEST msin [0, 0, 0, 0]),
       Notify (CODE_X2_HANDOVER_COMPLETED # d_id (r_data s) @ UINT32_TO_ARRAY n)]"
proof -
  have i: "length (d_id (r_data s)) = 4" using s(1) by (simp add: ran_ok_def)
  obtain k where k: "ARRAY_TO_UINT32 (d_id (r_data s)) 0 = Some k" "UINT32_TO_ARRAY k = d_id (r_data s)" using id_bytes i by blast
  define s1 where "s1 = s\<lparr>r_controller := as, r_log := r_log s @ [Notify (CODE_GET_ENB # d_id (r_data s) @ UINT32_TO_ARRAY n)]\<rparr>"
  let ?m = "\<lambda>code t. code # msin @ replicate 6 0 @ t"
  let ?ip = "UINT32_TO_ARRAY ip"
  have m: "ho_message code t u = Some (?m code t)" if "r_data u = r_data s \<or> r_data u = (r_data s)\<lparr>d_enb_ip := ?ip\<rparr>" for code t u
    using that s(1) by (auto simp: ho_message_def ran_ok_def rdn_def)
  define s2 where "s2 = s1\<lparr>r_conns := answered_by a2 # cs, r_log := r_log s1 @ [To_Gnb (d_enb_ip (r_data s)) (?m HO_SETUP ?ip @ [0])],
     r_data := (r_data s)\<lparr>d_enb_ip := ?ip\<rparr>\<rparr>"
  have st: "r_conns s1 = answered_by a1 # answered_by a2 # cs" "r_data s1 = r_data s" "r_conns s2 = answered_by a2 # cs"
    using r(1) by (simp_all add: s1_def s2_def)
  have h: "hd (?m HO_SETUP t) \<noteq> X2_ERROR" "hd (?m HO_REQUEST t) \<noteq> X2_ERROR" for t by (simp_all add: code_defs)
  have l: "length (?m c ?ip) = 21" "length (?m c [0, 0, 0, 0]) = 21" for c using s(2) by simp_all
  note q1 = accepted_request [OF st(1) l(1) r(2,4) h(1), of "d_enb_ip (r_data s)"]
  note q2 = accepted_request [OF st(3) l(2) r(3,5) h(2), of "d_enb_ip (r_data s)"]
  let ?k2 = "\<lambda>s b. do { i \<leftarrow> ue_number s; Some (send_x2_handover_complete i n s, Returned OK) }"
  let ?k1 = "\<lambda>t b. do { let t = t\<lparr>r_data := (r_data t)\<lparr>d_enb_ip := ?ip\<rparr>\<rparr>; m \<leftarrow> ho_message HO_REQUEST [0, 0, 0, 0] t;
     ask_gnb (d_enb_ip (r_data s)) m 22 32 (\<lambda>c. c \<noteq> X2_ERROR) t ?k2 }"
  have "send_x2_handover (low_bytes n) s = ask_gnb (d_enb_ip (r_data s)) (?m HO_SETUP ?ip) 22 32 (\<lambda>c. c \<noteq> X2_ERROR) s1 ?k1"
    unfolding send_x2_handover_def e(1) find_target_answered [OF c(1) i c(2,3) refl] e(2) s1_def [symmetric]
    using m [of s1] st(2) by (simp add: Let_def)
  also obtain b where "\<dots> = ?k1 (s1\<lparr>r_conns := answered_by a2 # cs, r_log := r_log s1 @ [To_Gnb (d_enb_ip (r_data s)) (?m HO_SETUP ?ip @ [0])]\<rparr>) b"
    using q1 [of ?k1] by blast
  also have "\<dots> = ask_gnb (d_enb_ip (r_data s)) (?m HO_REQUEST [0, 0, 0, 0]) 22 32 (\<lambda>c. c \<noteq> X2_ERROR) s2 ?k2"
    using m [of s2 HO_REQUEST "[0, 0, 0, 0]"] st(2) by (simp add: s2_def Let_def)
  also obtain b' where "\<dots> = ?k2 (s2\<lparr>r_conns := cs, r_log := r_log s2 @ [To_Gnb (d_enb_ip (r_data s)) (?m HO_REQUEST [0, 0, 0, 0] @ [0])]\<rparr>) b'"
    using q2 [of ?k2] by blast
  finally show ?thesis
    by (simp add: ue_number_def s2_def s1_def k send_x2_handover_complete_def emit_def handover_request_def)
qed

end
