(* ===== verification/Gnb_Start.thy ===== *)
theory Gnb_Start
  imports Ran_Script Syscalls Ngap_Messages
begin

text \<open>
  The start of a base station: the SCTP connection to the core (ran-emulator/source/sctp.c), \<open>enb_emulator_start\<close>
  and the socket of the X2 thread (ran-emulator/source/enb_emulator.c).  The calls of the operating system are those of Syscalls.
\<close>

section \<open>The code\<close>

definition id_to_uint32 :: "buf \<Rightarrow> u32 option" where
  "id_to_uint32 i = ARRAY_TO_UINT32 i 0"

definition CLIENT_NUMBER :: nat where "CLIENT_NUMBER = 256"
definition SCTP_5G_CONTROL_PLANE :: nat where "SCTP_5G_CONTROL_PLANE = 38412"

definition send_enb_behaviour :: "u32 \<Rightarrow> ran \<Rightarrow> ran" where
  "send_enb_behaviour i s = emit (Notify ((OK_CODE OR CODE_ENB_BEHAVIOUR) # UINT32_TO_ARRAY i @ r_ue_ip s)) s"

definition send_enb_behaviour_error :: "u32 \<Rightarrow> ran \<Rightarrow> ran" where
  "send_enb_behaviour_error i s = emit (Notify (CODE_ENB_BEHAVIOUR # UINT32_TO_ARRAY i @ r_ue_ip s)) s"

text \<open>\<open>if (setsockopt(...) < 0) { close(sock_sctp); return 1; }\<close>\<close>

definition option_or_close :: "int \<Rightarrow> string \<Rightarrow> eNB \<Rightarrow> (int \<times> eNB) sys \<Rightarrow> (int \<times> eNB) sys" where
  "option_or_close fd opt enb k = do {
     e \<leftarrow> sys (Setsockopt fd opt);
     if e < 0 then do { _ \<leftarrow> sys (Close fd); ret (1, enb) } else k }"

text \<open>
  \<open>sctp_connect_enb_to_mme\<close> as it is compiled for 5G: the result and the base station with its socket.  After a failure of
  \<open>sctp_bindx\<close> the socket stays open.
\<close>

definition sctp_connect_enb_to_mme :: "eNB \<Rightarrow> byte list \<Rightarrow> (int \<times> eNB) sys" where
  "sctp_connect_enb_to_mme enb mme_ip = do {
     fd \<leftarrow> sys (Socket SCTP);
     if fd < 0 then ret (1, enb)
     else option_or_close fd ''SCTP_INITMSG'' enb
       (option_or_close fd ''SCTP_EVENTS'' enb
         (option_or_close fd ''SCTP_NODELAY'' enb
           (option_or_close fd ''SO_RCVTIMEO'' enb (do {
              b \<leftarrow> sys (Bind fd ''enb_ip'' 0);
              if b = -1 then ret (1, enb)
              else do {
                c \<leftarrow> sys (Connect fd mme_ip SCTP_5G_CONTROL_PLANE);
                if c \<noteq> 0 then do { _ \<leftarrow> sys (Close fd); ret (1, enb) }
                else ret (0, set_mme_socket enb fd) } })))) }"

text \<open>The part of \<open>enb_emulator_start\<close> after the NG setup: the socket for the UEs and the two threads.\<close>

definition listen_for_UEs :: "int sys" where
  "listen_for_UEs = do {
     sockfd \<leftarrow> sys (Socket TCP);
     if sockfd = -1 then ret 1
     else do {
       b \<leftarrow> sys (Bind sockfd ''enb_ip'' ENB_PORT);
       if b = -1 then ret 1
       else do {
         l \<leftarrow> sys (Listen sockfd CLIENT_NUMBER);
         if l = -1 then ret 1
         else do {
           t \<leftarrow> sys (Thread ''enb_emulator_thread'' []);
           if t \<noteq> 0 then ret 1
           else do {
             t \<leftarrow> sys (Thread ''x2_thread'' []);
             if t \<noteq> 0 then ret 1 else ret 0 } } } } }"

text \<open>The start of \<open>x2_thread\<close>: the socket, or -1 when the thread ends.\<close>

definition x2_socket :: "int sys" where
  "x2_socket = do {
     x2sock \<leftarrow> sys (Socket UDP);
     if x2sock < 0 then ret (-1)
     else or_close x2sock (Bind x2sock ''enb_ip'' X2_ENB_PORT) (\<lambda>r. r = -1) (ret x2sock) }"

text \<open>What a start leaves: the log of the calls, the base station and what was sent to the core.\<close>

record start =
  st_os :: os
  st_enb :: "eNB option"
  st_sent :: "byte list list"

text \<open>
  \<open>enb_emulator_start\<close>: \<open>fresh\<close> is the new memory of the base station, \<open>input\<close> what the core sends and \<open>buffer\<close> the array
  of the NG setup.
\<close>

definition enb_emulator_start ::
  "eNB option \<Rightarrow> byte list option list \<Rightarrow> buf \<Rightarrow> os \<Rightarrow> enb_data \<Rightarrow> ran \<Rightarrow> (start \<times> ran \<times> result) option" where
  "enb_emulator_start fresh input buffer os data s = do {
     i \<leftarrow> id_to_uint32 (b_id data);
     e \<leftarrow> init_eNB fresh i (b_mcc data) (b_mnc data) (b_enb_ip data);
     (case e of
        None \<Rightarrow> Some (\<lparr>st_os = os, st_enb = None, st_sent = []\<rparr>, send_enb_behaviour_error i s, Returned ERROR)
      | Some enb \<Rightarrow>
          (case run_state (sctp_connect_enb_to_mme enb (b_epc_ip data)) os of
             ((r, enb), os) \<Rightarrow>
               if r = 1 then
                 Some (\<lparr>st_os = os, st_enb = Some enb, st_sent = []\<rparr>, send_enb_behaviour_error (get_enb_id enb) s, Returned ERROR)
               else do {
                 (sent, q) \<leftarrow> procedure_NG_Setup enb input buffer;
                 if q = Returned ERROR then
                   Some (\<lparr>st_os = os, st_enb = Some enb, st_sent = sent\<rparr>, send_enb_behaviour_error (get_enb_id enb) s, q)
                 else if q \<noteq> Returned OK then Some (\<lparr>st_os = os, st_enb = Some enb, st_sent = sent\<rparr>, s, q)
                 else
                   (case run_state listen_for_UEs os of
                      (r, os) \<Rightarrow>
                        if r = 1 then
                          Some (\<lparr>st_os = os, st_enb = Some enb, st_sent = sent\<rparr>,
                            send_enb_behaviour_error (get_enb_id enb) s, Returned ERROR)
                        else
                          Some (\<lparr>st_os = os, st_enb = Some enb, st_sent = sent\<rparr>,
                            send_enb_behaviour (get_enb_id enb) s, Returned OK)) })) }"

section \<open>Lemmas\<close>

lemma sctp_keeps_id:
  assumes "run_state (sctp_connect_enb_to_mme enb ip) os = ((r, enb'), os')"
  shows "enb_id enb' = enb_id enb"
proof -
  have "enb_id (snd (fst (run_state (sctp_connect_enb_to_mme enb ip) os))) = enb_id enb"
    by (simp add: sctp_connect_enb_to_mme_def option_or_close_def run_simps set_mme_socket_def)
  with assms show ?thesis by simp
qed

text \<open>Whatever fails, the controller gets exactly one message, and it is true.\<close>

lemma start_notifies:
  assumes "enb_emulator_start fresh input buffer os d s = Some (b, s', Returned st)" and "id_to_uint32 (b_id d) = Some i"
  shows "s' = (if st = OK then send_enb_behaviour i s else send_enb_behaviour_error i s)"
proof -
  obtain e where e: "init_eNB fresh i (b_mcc d) (b_mnc d) (b_enb_ip d) = Some e"
    using assms by (auto simp: enb_emulator_start_def split: bind_splits)
  show ?thesis
  proof (cases e)
    case None
    with assms e show ?thesis by (auto simp: enb_emulator_start_def)
  next
    case (Some enb)
    have i: "enb_id enb = i" using e Some by (auto simp: init_eNB_def split: option.splits bind_splits)
    obtain r enb' os' where c: "run_state (sctp_connect_enb_to_mme enb (b_epc_ip d)) os = ((r, enb'), os')" by (metis prod.exhaust)
    obtain q os'' where l: "run_state listen_for_UEs os' = (q, os'')" by fastforce
    have "get_enb_id enb' = i" using sctp_keeps_id [OF c] i by (simp add: get_enb_id_def)
    moreover have "st = OK \<or> st = ERROR" by (cases st) simp_all
    ultimately show ?thesis using assms e Some c l by (auto simp: enb_emulator_start_def split: if_splits bind_splits)
  qed
qed

text \<open>The calls of a start when all of them succeed, from position \<open>n\<close> of the log.\<close>

definition sctp_succeeds :: "(nat \<Rightarrow> int) \<Rightarrow> nat \<Rightarrow> bool" where
  "sctp_succeeds r n \<longleftrightarrow> 0 \<le> r n \<and> 0 \<le> r (n + 1) \<and> 0 \<le> r (n + 2) \<and> 0 \<le> r (n + 3) \<and> 0 \<le> r (n + 4) \<and> r (n + 5) \<noteq> -1 \<and> r (n + 6) = 0"

definition listen_succeeds :: "(nat \<Rightarrow> int) \<Rightarrow> nat \<Rightarrow> bool" where
  "listen_succeeds r n \<longleftrightarrow> 0 \<le> r n \<and> r (n + 1) \<noteq> -1 \<and> r (n + 2) \<noteq> -1 \<and> r (n + 3) = 0 \<and> r (n + 4) = 0"

lemma sctp_connects:
  assumes "sctp_succeeds (os_result os) (length (os_log os))"
  shows "\<exists>os'. run_state (sctp_connect_enb_to_mme enb ip) os =
       ((0, enb\<lparr>mme_socket := os_result os (length (os_log os))\<rparr>), os') \<and> os_result os' = os_result os \<and>
     length (os_log os') = length (os_log os) + 7 \<and> fds_of os' = os_result os (length (os_log os)) # fds_of os"
  using assms
  by (simp add: sctp_succeeds_def sctp_connect_enb_to_mme_def option_or_close_def run_simps set_mme_socket_def fds_of_def numeral_eq_Suc)

lemma listens:
  assumes "listen_succeeds (os_result os) (length (os_log os))"
  shows "\<exists>os'. run_state listen_for_UEs os = (0, os') \<and> fds_of os' = os_result os (length (os_log os)) # fds_of os \<and>
     {(Thread ''enb_emulator_thread'' [], 0), (Thread ''x2_thread'' [], 0)} \<subseteq> set (os_log os')"
  using assms by (simp add: listen_succeeds_def listen_for_UEs_def run_simps fds_of_def numeral_eq_Suc)

lemma decode_serialized_enb:
  assumes "length mcc = 3" and "length mnc = 2" and "length buffer = 1024"
  shows "\<exists>b. memcpy buffer 0 (serialize_enb (CODE_OK OR CODE_ENB_BEHAVIOUR) i mcc mnc epc) 14 = Some b \<and>
     analyze_controller_msg b 14 cp_mode s = Some (Run_gNB \<lparr>b_id = UINT32_TO_ARRAY i, b_mcc = map (\<lambda>c. c + 0x30) mcc @ [0],
       b_mnc = map (\<lambda>c. c + 0x30) mnc @ [0, 0], b_epc_ip = UINT32_TO_ARRAY epc, b_enb_ip = r_local_ip s\<rparr>)"
proof -
  obtain m0 m1 m2 where m: "mcc = [m0, m1, m2]" using assms(1) by (auto simp: length_Suc_conv numeral_eq_Suc)
  obtain n0 n1 where n: "mnc = [n0, n1]" using assms(2) by (auto simp: length_Suc_conv numeral_eq_Suc)
  let ?m = "serialize_enb (CODE_OK OR CODE_ENB_BEHAVIOUR) i mcc mnc epc"
  have l: "length ?m = 14" by (simp add: serialize_enb_def m n)
  then have b: "memcpy buffer 0 ?m 14 = Some (?m @ drop 14 buffer)" using assms(3) by (simp add: memcpy_ok)
  show ?thesis
    by (intro exI conjI, rule b)
      (simp add: analyze_controller_msg_def decode_enb_def at_def serialize_enb_def m n UINT32_TO_ARRAY_def rdn_def rd_def
        CODE_OK_def CODE_ENB_BEHAVIOUR_def CODE_UE_BEHAVIOUR_def CODE_ERROR_def)
qed

lemma init_eNB_ok:
  assumes "wf_eNB fresh" and "length mcc = 3" and "length mnc = 2" and "length ip = 4"
  shows "\<exists>enb. init_eNB (Some fresh) i (map (\<lambda>c. c + 0x30) mcc @ [0]) (map (\<lambda>c. c + 0x30) mnc @ [0, 0]) ip = Some (Some enb) \<and>
     wf_eNB enb \<and> enb_id enb = i \<and> enb_ip enb = ip"
proof -
  obtain m0 m1 m2 where m: "mcc = [m0, m1, m2]" using assms(2) by (auto simp: length_Suc_conv numeral_eq_Suc)
  obtain n0 n1 where n: "mnc = [n0, n1]" using assms(3) by (auto simp: length_Suc_conv numeral_eq_Suc)
  show ?thesis using assms(1,4)
    by (simp add: init_eNB_def generate_plmn_eNB_def m n rd_def wr_def memcpy_ok wf_eNB_def)
qed

text \<open>
  An NG setup response: a successful outcome with short elements that the analysis passes over (the name of the AMF, its
  capacity and the supported PLMNs are among them).
\<close>

definition plain_ie :: "ie \<Rightarrow> bool" where
  "plain_ie x \<longleftrightarrow> length (ie_value x) < 128 \<and>
     ie_id x \<notin> {ID_AMF_UE_NGAP_ID, ID_GUAMI, ID_UE_SECURITY_CAPABILITIES, ID_UE_NGAP_IDS, ID_CAUSE,
       ID_PDU_SESSION_RESOURCE_SETUP_LIST_SU_REQ, ID_NAS_PDU}"

definition setup_response :: "pdu \<Rightarrow> bool" where
  "setup_response p \<longleftrightarrow> p_type p = SUCCESFUL_OUTCOME \<and> p_proc p = ID_NG_SETUP \<and> p_crit p = CRITICALITY_REJECT \<and>
     list_all plain_ie (p_ies p) \<and> length (encode_body (p_ies p)) < 128"

lemma analyze_item_plain:
  assumes "plain_ie x"
  shows "analyze_item ue (pre @ encode_ie x @ rest) (length pre) = Some (ue, length (pre @ encode_ie x))"
proof -
  let ?n = "length (ie_value x)"
  have l: "?n < 128" using assms by (simp add: plain_ie_def)
  then have e: "encode_ie x = [0, ie_id x, ie_crit x, of_nat ?n] @ ie_value x" by (simp add: encode_ie_def encode_length_def)
  have u: "unat (of_nat ?n :: byte) = ?n" using l by (simp add: unat_of_nat)
  let ?b = "pre @ encode_ie x @ rest"
  have r: "rd ?b (length pre + 1) = Some (ie_id x)" "rd ?b (length pre + 1 + 2) = Some (of_nat ?n)"
    unfolding e by (simp_all add: rd_def nth_append)
  have "skip_item ?b (length pre + 1) = Some (length pre + 4 + ?n)" unfolding skip_item_def r(2) by (simp add: u)
  with assms r(1) show ?thesis unfolding analyze_item_def Let_def r(1) plain_ie_def by (simp add: e)
qed

lemma analyze_loop_plain:
  "list_all plain_ie xs \<Longrightarrow> analyze_loop (length xs) ue (pre @ concat (map encode_ie xs) @ rest) (length pre) = Some ue"
proof (induction xs arbitrary: pre)
  case (Cons x xs)
  then show ?case
    using analyze_item_plain [of x ue pre "concat (map encode_ie xs) @ rest"] Cons.IH [of "pre @ encode_ie x"] by simp
qed simp

lemma setup_response_analyzed:
  assumes "setup_response p"
  shows "length (encode_pdu p) \<le> 1024" and "analyze_NG_SetupResponse (encode_pdu p @ r) = Some OK"
proof -
  let ?xs = "p_ies p"
  have l: "length (encode_body ?xs) < 128" using assms by (simp add: setup_response_def)
  have e: "encode_pdu p = [p_type p, p_proc p, p_crit p, of_nat (length (encode_body ?xs))] @ encode_body ?xs"
    using l by (simp add: encode_pdu_def encode_length_def)
  then show "length (encode_pdu p) \<le> 1024" using l by simp
  have "length xs \<le> length (concat (map encode_ie xs))" for xs
    by (induction xs) (simp_all add: encode_ie_def)
  from this [of ?xs] have n: "length ?xs < 128" using l by (simp add: encode_body_def)
  have "analyze_loop (length ?xs) None (encode_body ?xs @ r) 3 = Some None"
    using analyze_loop_plain [of ?xs None "[0, of_nat (length ?xs div 256), of_nat (length ?xs)]" r] assms
    by (simp add: encode_body_def setup_response_def numeral_3_eq_3)
  then have "analyze_message_items None (encode_body ?xs @ r) = Some None"
    using n by (simp add: analyze_message_items_def) (simp add: encode_body_def rd_def unat_of_nat)
  then show "analyze_NG_SetupResponse (encode_pdu p @ r) = Some OK"
    using assms by (simp add: analyze_NG_SetupResponse_def e rd_def setup_response_def)
qed

lemma setup_answered:
  assumes "wf_eNB enb" and "length buffer = 1024" and "setup_response p"
  shows "procedure_NG_Setup enb (Some (encode_pdu p) # input) buffer = Some ([encode_pdu (pdu_setup enb)], Returned OK)"
proof -
  let ?p = "encode_pdu (pdu_setup enb)"
  let ?b = "front (clean 53 buffer) ?p"
  have g: "generate_NG_SetupRequest buffer enb = Some (?b, length ?p)" by (rule setup_message [OF assms(1,2)])
  have p: "length ?p \<le> 1024" using assms(1) by (simp add: pdu_setup_def encode_pdu_short encode_ie_short)
  have r: "rdn ?b 0 (length ?p) = Some ?p" using p assms(2) by (intro front_simps(5)) simp_all
  have "length ?b = 1024" using p assms(2) by simp
  then have m: "memcpy ?b 0 (encode_pdu p) (length (encode_pdu p)) = Some (encode_pdu p @ drop (length (encode_pdu p)) ?b)"
    using setup_response_analyzed(1) [OF assms(3)] by (simp add: memcpy_ok)
  show ?thesis
    using setup_response_analyzed [OF assms(3)] by (simp add: procedure_NG_Setup_def g r m min_def)
qed

text \<open>From the message of the controller to a base station that serves.\<close>

lemma gnb_starts:
  assumes "wf_eNB fresh" and "length mcc = 3" and "length mnc = 2" and "length (r_local_ip s) = 4"
    and "length buffer = 1024" and "length recv_buffer = 1024" and "setup_response p"
    and "sctp_succeeds (os_result os) (length (os_log os))" and "listen_succeeds (os_result os) (length (os_log os) + 7)"
  shows "\<exists>b d t enb. memcpy recv_buffer 0 (serialize_enb (CODE_OK OR CODE_ENB_BEHAVIOUR) i mcc mnc epc) 14 = Some b \<and>
     analyze_controller_msg b 14 cp_mode s = Some (Run_gNB d) \<and>
     enb_emulator_start (Some fresh) (Some (encode_pdu p) # input) buffer os d s = Some (t, send_enb_behaviour i s, Returned OK) \<and>
     st_enb t = Some enb \<and> wf_eNB enb \<and> enb_id enb = i \<and> enb_ip enb = r_local_ip s \<and>
     mme_socket enb = os_result os (length (os_log os)) \<and> st_sent t = [encode_pdu (pdu_setup enb)] \<and>
     fds_of (st_os t) = [os_result os (length (os_log os) + 7), os_result os (length (os_log os))] @ fds_of os \<and>
     {(Thread ''enb_emulator_thread'' [], 0), (Thread ''x2_thread'' [], 0)} \<subseteq> set (os_log (st_os t))"
proof -
  let ?n = "length (os_log os)"
  obtain b where b: "memcpy recv_buffer 0 (serialize_enb (CODE_OK OR CODE_ENB_BEHAVIOUR) i mcc mnc epc) 14 = Some b"
    "analyze_controller_msg b 14 cp_mode s = Some (Run_gNB \<lparr>b_id = UINT32_TO_ARRAY i, b_mcc = map (\<lambda>c. c + 0x30) mcc @ [0],
       b_mnc = map (\<lambda>c. c + 0x30) mnc @ [0, 0], b_epc_ip = UINT32_TO_ARRAY epc, b_enb_ip = r_local_ip s\<rparr>)"
    (is "_ = Some (Run_gNB ?d)")
    using decode_serialized_enb [OF assms(2,3,6)] by blast
  obtain enb where enb: "init_eNB (Some fresh) i (b_mcc ?d) (b_mnc ?d) (b_enb_ip ?d) = Some (Some enb)" "wf_eNB enb"
    "enb_id enb = i" "enb_ip enb = r_local_ip s"
    using init_eNB_ok [OF assms(1-4), of i] by auto
  let ?e = "enb\<lparr>mme_socket := os_result os ?n\<rparr>"
  obtain os1 where os1: "run_state (sctp_connect_enb_to_mme enb (b_epc_ip ?d)) os = ((0, ?e), os1)" "os_result os1 = os_result os"
    "length (os_log os1) = ?n + 7" "fds_of os1 = os_result os ?n # fds_of os"
    using sctp_connects [OF assms(8)] by metis
  obtain os2 where os2: "run_state listen_for_UEs os1 = (0, os2)" "fds_of os2 = os_result os (?n + 7) # fds_of os1"
    "{(Thread ''enb_emulator_thread'' [], 0), (Thread ''x2_thread'' [], 0)} \<subseteq> set (os_log os2)"
    using listens [of os1] assms(9) os1(2,3) by auto
  have wf: "wf_eNB ?e" using enb(2) by (simp add: wf_eNB_def)
  have i: "id_to_uint32 (b_id ?d) = Some i" using ARRAY_TO_UINT32_read [of "UINT32_TO_ARRAY i" 0 i] by (simp add: id_to_uint32_def rdn_def)
  let ?t = "\<lparr>st_os = os2, st_enb = Some ?e, st_sent = [encode_pdu (pdu_setup ?e)]\<rparr>"
  have "enb_emulator_start (Some fresh) (Some (encode_pdu p) # input) buffer os ?d s = Some (?t, send_enb_behaviour i s, Returned OK)"
    unfolding enb_emulator_start_def i bind.bind_lunit enb(1) option.case os1(1) prod.case setup_answered [OF wf assms(5,7)] os2(1)
    by (simp add: get_enb_id_def enb(3))
  then show ?thesis using b wf enb os1 os2 by (intro exI [of _ b] exI [of _ ?d] exI [of _ ?t] exI [of _ ?e]) simp
qed

end
