(* ===== verification/Data_Plane.thy ===== *)
theory Data_Plane
  imports Syscalls Multiplexer
begin

text \<open>
  The user plane of a UE: the GTP header and the two threads between the TUN device and the core
  (ran-emulator/source/data_plane.c), and the set-up of the device (ran-emulator/source/tun.c).  \<open>None\<close> is undefined
  behaviour; the calls of the operating system are those of Syscalls.
\<close>

section \<open>The GTP header\<close>

definition GTP_FLAGS :: byte where "GTP_FLAGS = 0x30"
definition GTP_MESSAGE_TYPE :: byte where "GTP_MESSAGE_TYPE = 0xFF"
definition BUFFER_DATA_LEN :: nat where "BUFFER_DATA_LEN = 2048"

text \<open>The TEID and, when the packet is one of GTP, the value for \<open>*len\<close>.\<close>

definition analyze_gtp_header :: "buf \<Rightarrow> (u32 \<times> nat option) option" where
  "analyze_gtp_header b = do {
     flags \<leftarrow> rd b 0;
     message_type \<leftarrow> rd b 1;
     if flags AND 0xF0 = GTP_FLAGS \<and> message_type = GTP_MESSAGE_TYPE then do {
       l0 \<leftarrow> rd b 2; l1 \<leftarrow> rd b 3;
       teid \<leftarrow> ARRAY_TO_UINT32 b 4;
       Some (teid, Some (256 * unat l0 + unat l1)) }
     else Some (0, None) }"

definition htons :: "u16 \<Rightarrow> byte list" where
  "htons w = [ucast (drop_bit 8 w), ucast w]"

definition generate_gtp_header :: "buf \<Rightarrow> u32 \<Rightarrow> int \<Rightarrow> buf option" where
  "generate_gtp_header b teid len =
     wrn b 0 ([GTP_FLAGS, GTP_MESSAGE_TYPE] @ htons (word_of_int len) @ UINT32_TO_ARRAY teid)"

section \<open>The threads\<close>

text \<open>
  The globals and the arrays of the threads.  \<open>dp_len\<close> is the local \<open>packet_len\<close>, which has no value at first.
\<close>

record plane =
  dp_teid :: u32
  dp_spgw :: addr
  dp_up :: buf
  dp_down :: buf
  dp_len :: "nat option"
  dp_to_core :: "(addr \<times> byte list) list"
  dp_to_tun :: "byte list list"

text \<open>
  One turn of \<open>uplink_thread\<close>, for what \<open>tun_read\<close> returns (\<open>None\<close> is -1): up to 2048 bytes are read behind the header, in an array
  of 2048 bytes.
\<close>

definition uplink_turn :: "plane \<Rightarrow> byte list option \<Rightarrow> plane option" where
  "uplink_turn p r = do {
     (b, len) \<leftarrow> (case r of
        None \<Rightarrow> Some (dp_up p, -1)
      | Some m \<Rightarrow> do {
          b \<leftarrow> memcpy (dp_up p) 8 m (min (length m) BUFFER_DATA_LEN);
          Some (b, int (min (length m) BUFFER_DATA_LEN)) });
     b \<leftarrow> generate_gtp_header b (dp_teid p) len;
     d \<leftarrow> rdn b 0 (nat (len + 8));
     Some (p\<lparr>dp_up := b, dp_to_core := dp_to_core p @ [(dp_spgw p, d)]\<rparr>) }"

text \<open>
  One turn of \<open>downlink_thread\<close>: \<open>recvfrom\<close> stores the address of the sender in \<open>spgw_addr\<close>, an error (\<open>None\<close>) leaves everything as
  it is, and the array is analysed in both cases.
\<close>

definition downlink_turn :: "plane \<Rightarrow> (addr \<times> byte list) option \<Rightarrow> plane option" where
  "downlink_turn p r = do {
     p \<leftarrow> (case r of
        None \<Rightarrow> Some p
      | Some (from, m) \<Rightarrow> do {
          b \<leftarrow> memcpy (dp_down p) 0 m (min (length m) BUFFER_DATA_LEN);
          Some (p\<lparr>dp_down := b, dp_spgw := from\<rparr>) });
     (teid, l) \<leftarrow> analyze_gtp_header (dp_down p);
     let p = p\<lparr>dp_len := (case l of None \<Rightarrow> dp_len p | Some n \<Rightarrow> Some n)\<rparr>;
     if dp_teid p = teid then do {
       n \<leftarrow> dp_len p;
       d \<leftarrow> rdn (dp_down p) 8 n;
       Some (p\<lparr>dp_to_tun := dp_to_tun p @ [d]\<rparr>) }
     else Some p }"

section \<open>The device\<close>

definition tun_init :: "int sys" where
  "tun_init = do {
     fd \<leftarrow> sys (Open_file ''/dev/net/tun'');
     if fd < 0 then ret fd
     else do {
       err \<leftarrow> sys (Ioctl fd ''TUNSETIFF'');
       if err < 0 then do { _ \<leftarrow> sys (Close fd); ret err } else ret fd } }"

definition tun_close :: "int \<Rightarrow> int sys" where
  "tun_close fd = (if fd \<noteq> -1 then sys (Close fd) else ret 0)"

definition set_ip :: "int \<Rightarrow> int sys" where
  "set_ip sock = do {
     e \<leftarrow> sys (Ioctl sock ''SIOCSIFADDR'');
     if e < 0 then do { _ \<leftarrow> sys (Close sock); ret (-1) } else ret 0 }"

text \<open>\<open>if (ioctl(sock, ...) < 0) { tun_close(tunfd); close(sock); return -1; }\<close>\<close>

definition ioctl_or_close :: "int \<Rightarrow> int \<Rightarrow> string \<Rightarrow> (int \<times> int) sys \<Rightarrow> (int \<times> int) sys" where
  "ioctl_or_close tunfd sock req k = do {
     e \<leftarrow> sys (Ioctl sock req);
     if e < 0 then do { _ \<leftarrow> tun_close tunfd; _ \<leftarrow> sys (Close sock); ret (-1, sock) } else k }"

text \<open>The result and the global \<open>sock\<close>, which is closed at the end and keeps its value.\<close>

definition open_tun_iface :: "(int \<times> int) sys" where
  "open_tun_iface = do {
     tunfd \<leftarrow> tun_init;
     sock \<leftarrow> sys (Socket UDP);
     if sock < 0 then do { _ \<leftarrow> tun_close tunfd; ret (-1, sock) }
     else do {
       e \<leftarrow> set_ip sock;
       if e < 0 then do { _ \<leftarrow> tun_close tunfd; ret (-1, sock) }
       else ioctl_or_close tunfd sock ''SIOCSIFNETMASK''
         (ioctl_or_close tunfd sock ''SIOCGIFFLAGS''
           (ioctl_or_close tunfd sock ''SIOCSIFFLAGS''
             (ioctl_or_close tunfd sock ''SIOCSIFMTU''
               (do { _ \<leftarrow> sys (Close sock); ret (tunfd, sock) })))) } }"

definition update_ip :: "int \<Rightarrow> int sys" where
  "update_ip sock = do {
     e \<leftarrow> sys (Ioctl sock ''SIOCSIFADDR'');
     if e < 0 then ret (-1)
     else do {
       e \<leftarrow> sys (Ioctl sock ''SIOCSIFNETMASK'');
       if e < 0 then ret (-1) else ret 0 } }"

text \<open>
  The calls of \<open>start_data_plane\<close>: its result and the globals \<open>tunfd\<close>, \<open>sock\<close> and \<open>sockfd\<close>.
  The stores into its structures are left out; the one of \<open>local_ip\<close> copies the 16 bytes of a \<open>struct sockaddr\<close> to offset 4 of
  \<open>ue_addr\<close>, which has 16 bytes.
\<close>

definition start_data_plane_calls :: "nat \<Rightarrow> (int \<times> int \<times> int \<times> int) sys" where
  "start_data_plane_calls port = do {
     (tunfd, sock) \<leftarrow> open_tun_iface;
     if tunfd = -1 then ret (1, tunfd, sock, 0)
     else do {
       sockfd \<leftarrow> sys (Socket UDP);
       if sockfd < 0 then do { _ \<leftarrow> tun_close tunfd; ret (1, tunfd, sock, sockfd) }
       else do {
         b \<leftarrow> sys (Bind sockfd ''local_ip'' port);
         if b = -1 then ret (1, tunfd, sock, sockfd)
         else do {
           u \<leftarrow> sys (Thread ''uplink_thread'' []);
           if u \<noteq> 0 then do { _ \<leftarrow> sys (Close sockfd); _ \<leftarrow> tun_close tunfd; ret (1, tunfd, sock, sockfd) }
           else do {
             d \<leftarrow> sys (Thread ''downlink_thread'' []);
             if d \<noteq> 0 then do {
               _ \<leftarrow> sys (Cancel 0); _ \<leftarrow> sys (Close sockfd); _ \<leftarrow> tun_close tunfd; ret (1, tunfd, sock, sockfd) }
             else ret (0, tunfd, sock, sockfd) } } } } }"

section \<open>Packets\<close>

lemma htons_value: "256 * unat (ucast (drop_bit 8 w) :: byte) + unat (ucast w :: byte) = unat (w :: u16)"
proof -
  have "unat w < 2 ^ 16" using unsigned_less [of w] by simp
  moreover have "unat (drop_bit 8 w) = drop_bit 8 (take_bit 16 (unat w))" by (simp only: unsigned_drop_bit_eq) simp
  ultimately have "unat (ucast (drop_bit 8 w) :: byte) = unat w div 256" "unat (ucast w :: byte) = unat w mod 256"
    unfolding unsigned_ucast_eq take_bit_eq_mod by (simp_all add: drop_bit_eq_div)
  then show ?thesis by simp
qed

definition gtp_packet :: "u32 \<Rightarrow> byte list \<Rightarrow> byte list" where
  "gtp_packet teid d = [GTP_FLAGS, GTP_MESSAGE_TYPE] @ htons (word_of_nat (length d)) @ UINT32_TO_ARRAY teid @ d"

lemma gtp_packet_length [simp]: "length (gtp_packet t d) = 8 + length d"
  by (simp add: gtp_packet_def htons_def)

lemma generated_header:
  assumes "8 \<le> length b"
  shows "generate_gtp_header b teid len =
     Some ([GTP_FLAGS, GTP_MESSAGE_TYPE] @ htons (word_of_int len) @ UINT32_TO_ARRAY teid @ drop 8 b)"
  using assms by (simp add: generate_gtp_header_def wrn_def htons_def)

lemma analyze_packet:
  assumes "length d < 65536"
  shows "analyze_gtp_header (gtp_packet teid d @ r) = Some (teid, Some (length d))"
proof -
  have t: "rdn (gtp_packet teid d @ r) 4 4 = Some (UINT32_TO_ARRAY teid)" by (simp add: gtp_packet_def htons_def rdn_def)
  have "unat (word_of_nat (length d) :: u16) = length d" using assms by (simp add: unat_of_nat)
  with htons_value [of "word_of_nat (length d)"] show ?thesis
    using ARRAY_TO_UINT32_read [OF t]
    by (simp add: analyze_gtp_header_def) (simp add: gtp_packet_def htons_def rd_def GTP_FLAGS_def GTP_MESSAGE_TYPE_def)
qed

definition plane_ok :: "plane \<Rightarrow> bool" where
  "plane_ok p \<longleftrightarrow> length (dp_up p) = 2048 \<and> length (dp_down p) = 2048"

lemma uplink_packet:
  assumes "plane_ok p" and "length d \<le> 2040"
  shows "\<exists>p'. uplink_turn p (Some d) = Some p' \<and> plane_ok p' \<and> dp_teid p' = dp_teid p \<and> dp_spgw p' = dp_spgw p \<and>
     dp_to_core p' = dp_to_core p @ [(dp_spgw p, gtp_packet (dp_teid p) d)] \<and> dp_to_tun p' = dp_to_tun p \<and> dp_down p' = dp_down p"
proof -
  let ?b = "take 8 (dp_up p) @ d @ drop (8 + length d) (dp_up p)"
  have l: "length (dp_up p) = 2048" using assms(1) by (simp add: plane_ok_def)
  then have m: "memcpy (dp_up p) 8 d (min (length d) BUFFER_DATA_LEN) = Some ?b" "length ?b = 2048" "min (length d) BUFFER_DATA_LEN = length d"
    using assms(2) by (simp_all add: memcpy_ok BUFFER_DATA_LEN_def)
  have h: "generate_gtp_header ?b (dp_teid p) (int (length d)) = Some (gtp_packet (dp_teid p) d @ drop (8 + length d) (dp_up p))"
    using generated_header [of ?b] m(2) l by (simp add: gtp_packet_def)
  have n: "nat (int (length d) + 8) = 8 + length d" by simp
  show ?thesis using assms(1) m h l n
    by (simp add: uplink_turn_def) (simp add: rdn_def plane_ok_def assms(2))
qed

lemma downlink_packet:
  assumes "plane_ok p" and "length d \<le> 2040"
  shows "\<exists>p'. downlink_turn p (Some (from, gtp_packet t d)) = Some p' \<and> plane_ok p' \<and> dp_spgw p' = from \<and> dp_teid p' = dp_teid p \<and>
     dp_to_tun p' = dp_to_tun p @ (if t = dp_teid p then [d] else []) \<and> dp_to_core p' = dp_to_core p"
proof -
  let ?b = "gtp_packet t d @ drop (8 + length d) (dp_down p)"
  have l: "length (dp_down p) = 2048" using assms(1) by (simp add: plane_ok_def)
  then have m: "memcpy (dp_down p) 0 (gtp_packet t d) (min (length (gtp_packet t d)) BUFFER_DATA_LEN) = Some ?b" "length ?b = 2048"
    using assms(2) by (simp_all add: memcpy_ok BUFFER_DATA_LEN_def)
  have a: "analyze_gtp_header (gtp_packet t' d @ drop (8 + length d) (dp_down p)) = Some (t', Some (length d))" for t'
    using analyze_packet assms(2) by simp
  have r: "rdn (gtp_packet t' d @ drop (8 + length d) (dp_down p)) 8 (length d) = Some d" for t'
    by (simp add: rdn_def gtp_packet_def htons_def)
  show ?thesis
    using assms(1) m(2) unfolding downlink_turn_def option.case prod.case m(1) bind.bind_lunit
    by (cases "t = dp_teid p") (simp_all add: a r plane_ok_def)
qed

text \<open>More than 2040 bytes from the device are written past the array.\<close>

lemma uplink_overflow: "plane_ok p \<Longrightarrow> 2040 < length d \<Longrightarrow> uplink_turn p (Some d) = None"
  by (simp add: uplink_turn_def memcpy_def rdn_def wrn_def plane_ok_def BUFFER_DATA_LEN_def min_def)

text \<open>A packet whose header promises more than the array holds is written to the device from beyond it.\<close>

lemma downlink_overread:
  assumes "plane_ok p" and "length m \<le> 2048" and "analyze_gtp_header (m @ drop (length m) (dp_down p)) = Some (dp_teid p, Some n)" and "2040 < n"
  shows "downlink_turn p (Some (from, m)) = None"
  using assms by (simp add: downlink_turn_def memcpy_ok plane_ok_def BUFFER_DATA_LEN_def rdn_def)

section \<open>Through the multiplexer\<close>

lemma gtp_packet_teid: "be32 (gtp_packet t d ! 4) (gtp_packet t d ! 5) (gtp_packet t d ! 6) (gtp_packet t d ! 7) = t"
  by (simp add: gtp_packet_def htons_def UINT32_TO_ARRAY_def be32_bytes)

lemma downlink_known:
  assumes "mux_inv m" and "mux_abs m t = Some a" and "length d \<le> 2040"
  shows "\<exists>m'. downlink m core (gtp_packet t d) = Some m' \<and> mx_to_ue m' = mx_to_ue m @ [(a, gtp_packet t d)] \<and> mx_coreaddr m' = core"
proof -
  let ?b = "gtp_packet t d @ drop (8 + length d) (mx_down m)"
  have l: "length (mx_down m) = 65536" using assms(1) by (simp add: mux_inv_def)
  then have m: "memcpy (mx_down m) 0 (gtp_packet t d) (length (gtp_packet t d)) = Some ?b" using assms(3) by (simp add: memcpy_ok)
  have t: "get_ue_teid ?b = Some t" using gtp_packet_teid [of t d] by (simp add: get_ue_teid_def rd_def nth_append)
  obtain x where x: "hashmap_get (mx_map m) t = Some (Some x)" "ue_addr x = a"
    using assms(2) by (auto simp: mux_abs_def split: option.splits)
  show ?thesis unfolding downlink_def m bind.bind_lunit t x(1) using x(2) by (simp add: rdn_def)
qed

lemma user_plane:
  assumes "plane_ok p" and "mux_reachable m" and "length d \<le> 2040" and "length e \<le> 2040"
    and "\<forall>t. t \<noteq> dp_teid p \<and> mux_abs m t \<noteq> None \<longrightarrow> bucket_index (mx_map m) t \<noteq> bucket_index (mx_map m) (dp_teid p)"
  defines "up \<equiv> gtp_packet (dp_teid p) d" and "down \<equiv> gtp_packet (dp_teid p) e"
  shows "\<exists>p1 m1 m2 p2. uplink_turn p (Some d) = Some p1 \<and> dp_to_core p1 = dp_to_core p @ [(dp_spgw p, up)] \<and>
     uplink m a up True True = Some m1 \<and> mx_to_core m1 = mx_to_core m @ [(mx_coreaddr m, up)] \<and>
     downlink m1 core down = Some m2 \<and> mx_to_ue m2 = mx_to_ue m1 @ [(a, down)] \<and>
     downlink_turn p1 (Some (b, down)) = Some p2 \<and> dp_to_tun p2 = dp_to_tun p @ [e]"
proof -
  note inv = mux_reachable_inv [OF assms(2)]
  have l: "8 \<le> length up" "length up \<le> 65536" using assms(3) by (simp_all add: up_def)
  obtain p1 where p1: "uplink_turn p (Some d) = Some p1" "plane_ok p1" "dp_teid p1 = dp_teid p" "dp_to_tun p1 = dp_to_tun p"
    "dp_to_core p1 = dp_to_core p @ [(dp_spgw p, up)]"
    using uplink_packet [OF assms(1,3)] unfolding up_def by blast
  obtain m1 where m1: "uplink m a up True True = Some m1" "mux_inv m1" "mx_to_core m1 = mx_to_core m @ [(mx_coreaddr m, up)]"
    using uplink_total [OF inv l(2)] by blast
  have "mux_abs m1 (dp_teid p) = Some a"
    using uplink_learns [OF inv l m1(1), of "dp_teid p"] assms(5) gtp_packet_teid by (auto simp: learn_def up_def)
  from downlink_known [OF m1(2) this assms(4), of core] obtain m2 where
    m2: "downlink m1 core down = Some m2" "mx_to_ue m2 = mx_to_ue m1 @ [(a, down)]" unfolding down_def by blast
  obtain p2 where "downlink_turn p1 (Some (b, down)) = Some p2" "dp_to_tun p2 = dp_to_tun p @ [e]"
    using downlink_packet [OF p1(2) assms(4), of b "dp_teid p"] p1(3,4) unfolding down_def by auto
  with p1 m1 m2 show ?thesis by blast
qed

section \<open>The descriptor of the device's socket\<close>

text \<open>
  POSIX: a new descriptor is the lowest that is free.  \<open>lowest_free fds l\<close> says so of the calls \<open>l\<close>, made while
  \<open>fds\<close> are open.
\<close>

definition lowest :: "int list \<Rightarrow> int \<Rightarrow> bool" where
  "lowest fds r \<longleftrightarrow> (0 \<le> r \<longrightarrow> r \<notin> set fds \<and> (\<forall>j. 0 \<le> j \<and> j < r \<longrightarrow> j \<in> set fds))"

fun lowest_free :: "int list \<Rightarrow> (call \<times> int) list \<Rightarrow> bool" where
  "lowest_free fds [] \<longleftrightarrow> True"
| "lowest_free fds ((Socket k, r) # l) \<longleftrightarrow> lowest fds r \<and> lowest_free (open_fds fds [(Socket k, r)]) l"
| "lowest_free fds ((Open_file f, r) # l) \<longleftrightarrow> lowest fds r \<and> lowest_free (open_fds fds [(Open_file f, r)]) l"
| "lowest_free fds (c # l) \<longleftrightarrow> lowest_free (open_fds fds [c]) l"

lemma lowest_unique: "lowest fds r \<Longrightarrow> lowest fds r' \<Longrightarrow> 0 \<le> r \<Longrightarrow> 0 \<le> r' \<Longrightarrow> r = r'"
  unfolding lowest_def by (meson linorder_neqE_linordered_idom)

lemma lowest_free_append: "lowest_free fds (l @ l') \<longleftrightarrow> lowest_free fds l \<and> lowest_free (open_fds fds l) l'"
  by (induction fds l rule: lowest_free.induct) auto

lemma tun_init_ok:
  assumes "run_state tun_init s = (fd, s')" and "0 \<le> fd"
  shows "\<exists>r. os_log s' = os_log s @ [(Open_file ''/dev/net/tun'', fd), (Ioctl fd ''TUNSETIFF'', r)] \<and> os_result s' = os_result s"
  using assms by (auto simp: tun_init_def run_simps split: if_splits)

lemma ioctl_or_close_ok:
  assumes "run_state (ioctl_or_close tunfd sock req k) s = ((fd, x), s')" and "0 \<le> fd"
  shows "\<exists>r. run_state k (s\<lparr>os_log := os_log s @ [(Ioctl sock req, r)]\<rparr>) = ((fd, x), s')"
  using assms by (auto simp: ioctl_or_close_def run_simps tun_close_def split: if_splits)

lemma set_ip_ok:
  assumes "run_state (set_ip sock) s = (e, s')" and "\<not> e < 0"
  shows "\<exists>r. s' = s\<lparr>os_log := os_log s @ [(Ioctl sock ''SIOCSIFADDR'', r)]\<rparr>"
  using assms by (auto simp: set_ip_def run_simps split: if_splits)

lemma open_tun_iface_ok:
  assumes "run_state open_tun_iface s = ((tunfd, sock), s')" and "0 \<le> tunfd"
  shows "\<exists>a b x. 0 \<le> sock \<and> (\<forall>c \<in> set b. neutral (fst c)) \<and> neutral (fst a) \<and>
     os_log s' = os_log s @ [(Open_file ''/dev/net/tun'', tunfd), a, (Socket UDP, sock)] @ b @ [(Close sock, x)]"
proof -
  obtain fd t where t: "run_state tun_init s = (fd, t)" by fastforce
  let ?sock = "os_result t (length (os_log t))"
  let ?t1 = "t\<lparr>os_log := os_log t @ [(Socket UDP, ?sock)]\<rparr>"
  obtain e t2 where t2: "run_state (set_ip ?sock) ?t1 = (e, t2)" by fastforce
  let ?k = "ioctl_or_close fd ?sock ''SIOCSIFNETMASK'' (ioctl_or_close fd ?sock ''SIOCGIFFLAGS'' (ioctl_or_close fd ?sock ''SIOCSIFFLAGS''
       (ioctl_or_close fd ?sock ''SIOCSIFMTU'' (do { _ \<leftarrow> sys (Close ?sock); ret (fd, ?sock) }))))"
  define fail where "fail = (\<lambda>x. run_state (do { _ \<leftarrow> tun_close fd; ret (-1 :: int, ?sock) }) x)"
  have run: "run_state open_tun_iface s = (if ?sock < 0 then fail ?t1 else if e < 0 then fail t2 else run_state ?k t2)"
    by (simp add: open_tun_iface_def run_bind t run_sys t2 fail_def)
  have "fst (fst (fail x)) = -1" for x by (simp add: fail_def tun_close_def run_simps)
  then have bad: "fail x \<noteq> ((tunfd, sock), s')" for x using assms(2) by (metis fst_conv not_one_le_zero neg_0_le_iff_le)
  have ok: "\<not> ?sock < 0" "\<not> e < 0" "run_state ?k t2 = ((tunfd, sock), s')"
    using assms(1) unfolding run by (simp_all add: bad split: if_splits)
  obtain r1 where r1: "t2 = ?t1\<lparr>os_log := os_log ?t1 @ [(Ioctl ?sock ''SIOCSIFADDR'', r1)]\<rparr>" using set_ip_ok [OF t2 ok(2)] by blast
  obtain r2 r3 r4 r5 where k: "run_state (do { _ \<leftarrow> sys (Close ?sock); ret (fd, ?sock) })
      (t2\<lparr>os_log := os_log t2 @ [(Ioctl ?sock ''SIOCSIFNETMASK'', r2), (Ioctl ?sock ''SIOCGIFFLAGS'', r3),
        (Ioctl ?sock ''SIOCSIFFLAGS'', r4), (Ioctl ?sock ''SIOCSIFMTU'', r5)]\<rparr>) = ((tunfd, sock), s')"
    using ioctl_or_close_ok [OF ok(3) assms(2)] by (fastforce dest: ioctl_or_close_ok [OF _ assms(2)])
  then have f: "fd = tunfd" "?sock = sock" by (simp_all add: run_simps)
  obtain r0 where t0: "os_log t = os_log s @ [(Open_file ''/dev/net/tun'', tunfd), (Ioctl tunfd ''TUNSETIFF'', r0)]" "os_result t = os_result s"
    using tun_init_ok [OF t] f(1) assms(2) by blast
  let ?b = "[(Ioctl sock ''SIOCSIFADDR'', r1), (Ioctl sock ''SIOCSIFNETMASK'', r2), (Ioctl sock ''SIOCGIFFLAGS'', r3),
     (Ioctl sock ''SIOCSIFFLAGS'', r4), (Ioctl sock ''SIOCSIFMTU'', r5)]"
  show ?thesis
    using k ok(1) t0 unfolding f r1 by (intro exI [of _ "(Ioctl tunfd ''TUNSETIFF'', r0)"] exI [of _ ?b]) (auto simp: run_simps)
qed

lemma open_fds_neutral: "\<forall>c \<in> set b. neutral (fst c) \<Longrightarrow> open_fds fds b = fds"
proof (induction b)
  case (Cons c b)
  then show ?case by (cases "fst c"; cases c) auto
qed simp

lemma start_calls_ok:
  assumes "run_state (start_data_plane_calls port) s = ((0, tunfd, sock, sockfd), s')" and "0 \<le> tunfd"
  shows "\<exists>a b c x. 0 \<le> sock \<and> 0 \<le> sockfd \<and> (\<forall>c \<in> set b. neutral (fst c)) \<and> neutral (fst a) \<and> (\<forall>x \<in> set c. neutral (fst x)) \<and>
     os_log s' = os_log s @ [(Open_file ''/dev/net/tun'', tunfd), a, (Socket UDP, sock)] @ b @ [(Close sock, x), (Socket UDP, sockfd)] @ c"
proof -
  obtain fd k t where t: "run_state open_tun_iface s = ((fd, k), t)" by (metis prod.exhaust)
  from assms have f: "fd = tunfd" "k = sock" and so: "0 \<le> sockfd" and l: "\<exists>p q r. os_log s' = os_log t @ [(Socket UDP, sockfd),
      (Bind sockfd ''local_ip'' port, p), (Thread ''uplink_thread'' [], q), (Thread ''downlink_thread'' [], r)]"
    by (auto simp: start_data_plane_calls_def run_simps t tun_close_def split: if_splits)
  then obtain p q r where l: "os_log s' = os_log t @ [(Socket UDP, sockfd),
      (Bind sockfd ''local_ip'' port, p), (Thread ''uplink_thread'' [], q), (Thread ''downlink_thread'' [], r)]" by blast
  obtain a b x where ab: "0 \<le> sock" "\<forall>c \<in> set b. neutral (fst c)" "neutral (fst a)"
    "os_log t = os_log s @ [(Open_file ''/dev/net/tun'', tunfd), a, (Socket UDP, sock)] @ b @ [(Close sock, x)]"
    using open_tun_iface_ok [OF t [unfolded f] assms(2)] by blast
  let ?c = "[(Bind sockfd ''local_ip'' port, p), (Thread ''uplink_thread'' [], q), (Thread ''downlink_thread'' [], r)]"
  show ?thesis using ab so unfolding l ab(4)
    by (intro exI [of _ a] exI [of _ b] exI [of _ ?c] exI [of _ x]) simp
qed

lemma socket_reused:
  assumes "run_state (start_data_plane_calls port) s = ((0, tunfd, sock, sockfd), s')" and "0 \<le> tunfd"
    and "lowest_free (fds_of s) (drop (length (os_log s)) (os_log s'))"
  shows "sockfd = sock" and "set (fds_of s') = {tunfd, sock} \<union> set (fds_of s)"
proof -
  obtain a b c x where l: "0 \<le> sock" "0 \<le> sockfd" "\<forall>c \<in> set b. neutral (fst c)" "neutral (fst a)" "\<forall>x \<in> set c. neutral (fst x)"
    and log: "os_log s' = os_log s @ [(Open_file ''/dev/net/tun'', tunfd), a, (Socket UDP, sock)] @ b @ [(Close sock, x), (Socket UDP, sockfd)] @ c"
    using start_calls_ok [OF assms(1,2)] by blast
  let ?F = "tunfd # fds_of s"
  have a: "open_fds fds (a # l) = open_fds fds l" for fds l
    using open_fds_neutral [of "[a]"] open_fds_append [of fds "[a]" l] l(4) by simp
  define l1 where "l1 = [(Open_file ''/dev/net/tun'', tunfd), a]"
  define l2 where "l2 = (Socket UDP, sock) # b @ [(Close sock, x)]"
  have o1: "open_fds (fds_of s) l1 = ?F" using assms(2) by (simp add: l1_def a)
  have o2: "open_fds ?F l2 = ?F" using l(1) by (simp add: l2_def open_fds_neutral [OF l(3)])
  have log': "os_log s' = os_log s @ l1 @ l2 @ [(Socket UDP, sockfd)] @ c" using log by (simp add: l1_def l2_def)
  then have "lowest_free (fds_of s) (l1 @ l2 @ [(Socket UDP, sockfd)] @ c)" using assms(3) by simp
  then have "lowest_free ?F l2" "lowest_free ?F ([(Socket UDP, sockfd)] @ c)"
    unfolding lowest_free_append [of _ l1] lowest_free_append [of _ l2] o1 o2 by blast+
  then have "lowest ?F sock" "lowest ?F sockfd" by (simp_all add: l2_def)
  then show eq: "sockfd = sock" using lowest_unique l(1,2) by blast
  have "fds_of s' = open_fds (open_fds (open_fds (fds_of s) l1) l2) ([(Socket UDP, sockfd)] @ c)"
    unfolding fds_of_def log' by simp
  also have "\<dots> = sockfd # ?F" unfolding o1 o2 using l(2) by (simp add: open_fds_neutral [OF l(5)])
  finally have "fds_of s' = sockfd # ?F" .
  then show "set (fds_of s') = {tunfd, sock} \<union> set (fds_of s)" using eq by auto
qed

end
