(* ===== verification/Emulator.thy ===== *)
theory Emulator
  imports Ran_Flow Gnb_Start Data_Plane 
begin

text \<open>
  What the RAN emulator as a whole does: the properties over Ran\_Flow, Gnb\_Start,
  Data\_Plane and Ran\_List, each with an example.
\<close>

section \<open>A base station and a UE for the examples\<close>

definition ex_core_input :: "byte list option list" where
  "ex_core_input = answers ex_auth_request ex_security_command ex_context_setup [] ex_session_setup"

definition ex_gnb :: gnb where
  "ex_gnb = \<lparr>g_nodes = Map.empty, g_list = \<lparr>l_head = None, l_tail = None\<rparr>, g_objects = Map.empty, g_x2 = replicate 1024 0,
     g_buffer = replicate 1024 0, g_response = replicate 1024 0, g_response_len = 0, g_local = replicate 1024 0, g_enb = ex_enb,
     g_in = ex_core_input, g_sent = [], g_peer = [], g_client = []\<rparr>"

definition ex_world :: world where
  "ex_world = \<lparr>w_object = Some (7, ex_ue), w_node = Some 1, w_socket = True, w_connect = True, w_reads = [],
     w_stack = replicate 2048 0\<rparr>"

lemma ex_core_answers: "core_answers ex_auth_request ex_security_command ex_context_setup [] ex_session_setup"
  using ex_core ex_session_core by (simp add: core_answers_def)

lemma ex_gnb_ok: "gnb_ok ex_gnb []"
  using ex_wf(2) by (simp add: gnb_ok_def ex_gnb_def list_stands_for_def chained_def final_def)

definition ex_cu :: controller_ue where
  "ex_cu = \<lparr>cu_id = 1, cu_mcc = [50, 48, 56], cu_mnc = [57, 51], cu_msin = replicate 10 48, cu_key = replicate 16 1,
     cu_op_key = replicate 16 2, cu_command = [108, 115], cu_control_plane = []\<rparr>"

definition ex_ran :: ran where
  "ex_ran = \<lparr>r_data = \<lparr>d_id = [0, 0, 0, 1], d_mcc = [50, 48, 56, 0], d_mnc = [57, 51, 0, 0], d_msin = msin_string ex_ue,
        d_key = replicate 16 1, d_op_key = replicate 16 2, d_command = [108, 115], d_enb_ip = [10, 0, 0, 9], d_local_ip = [0, 0, 0, 0],
        d_ue_ip = [10, 0, 0, 8], d_spgw_port = 2152, d_thread_id = 0, d_control_plane = []\<rparr>,
     r_cp_only = 0, r_ue_ip = [10, 0, 0, 8], r_local_ip = [0, 0, 0, 0], r_spgw_ip = [10, 0, 0, 7], r_gtp_teid = [0, 0, 0, 0],
     r_spgw_addr = [0, 0, 0, 0], r_conns = [], r_tun = [True], r_controller = [], r_log = []\<rparr>"

section \<open>UEs and base stations\<close>

text \<open>
  C10.  A UE comes up.  When the controller's message for a UE (with a command of at most 191 characters) reaches a process, the base
  station has memory for it and the core answers the registration, then: the process decodes the message to what the controller wrote,
  its request makes the base station register a new UE with exactly the identity and keys of the message and append it to its
  list, and the answer gives the process the address, the gateway and the TEID that the core assigned, of which it
  tells the controller.
\<close>

theorem ue_comes_up:
  assumes "cu_ok cu" and "length (cu_command cu) \<le> 191"
    and "m = serialize_ue (CODE_OK OR CODE_UE_BEHAVIOUR) enb mux epc cu" and "length m \<le> 1024"
    and "length fresh = 1024" and "length fm = 1024" and "gnb_ok g xs" and "wf_env E"
    and "w_object w = Some (a, obj)" and "wf_UE obj" and "w_node w = Some n" and "g_nodes g n = None"
    and "core_answers p1 p2 p3 ms p4" and "g_in g = answers p1 p2 p3 ms p4 @ rest"
    and "length (r_ue_ip s) = 4" and "r_tun s = True # ts"
    and "d = configured cu enb mux epc 0 (r_ue_ip s) (r_local_ip s)"
  shows "\<exists>v0 v g'. new_ue v0 (cu_mcc cu) (cu_mnc cu) (cu_msin cu) (cu_key cu) (cu_op_key cu) (d_ue_ip d) \<and>
     v = registered_ue v0 p1 p2 p3 p4 \<and>
     serve_client w E g (Message (init_request fm d)) = Some (g', Going) \<and>
     gnb_ok g' (xs @ [Some (Object a)]) \<and> g_objects g' = (g_objects g)(a \<mapsto> v) \<and>
     receive_controller gs fresh fm True mo 0 (Some m) (s\<lparr>r_conns := answered_by (reply_of g') # cs\<rparr>) =
       Some (started d v (init_request fm d) cs s, Continue [])"
  by (rule ue_boots [OF assms])

theorem ue_comes_up_witness:
  "\<exists>v g'. serve_client ex_world ex_env ex_gnb
       (Message (init_request (replicate 1024 0) (configured ex_cu 5 6 6 0 (r_ue_ip ex_ran) (r_local_ip ex_ran)))) = Some (g', Going) \<and>
     g_objects g' = [7 \<mapsto> v] \<and>
     (\<exists>s. receive_controller (\<lambda>_ _. None) (replicate 1024 0) (replicate 1024 0) True True 0
         (Some (serialize_ue (CODE_OK OR CODE_UE_BEHAVIOUR) 5 6 6 ex_cu)) (ex_ran\<lparr>r_conns := [answered_by (reply_of g')]\<rparr>) =
       Some (s, Continue []) \<and> r_ue_ip s = pdn_ip v)"
proof -
  have "cu_ok ex_cu" "length (cu_command ex_cu) \<le> 191" "length (serialize_ue (CODE_OK OR CODE_UE_BEHAVIOUR) 5 6 6 ex_cu) \<le> 1024"
    by (simp_all add: cu_ok_def ex_cu_def serialize_ue_def)
  note h = ue_comes_up [OF this(1,2) refl this(3) _ _ ex_gnb_ok ex_wf(1) _ ex_wf(3) _ _ ex_core_answers _ _ _ refl]
  from h [of "replicate 1024 0" "replicate 1024 0" ex_world 7 1 "[]" ex_ran "[]" "\<lambda>_ _. None" True "[]"]
  show ?thesis by (fastforce simp: ex_world_def ex_gnb_def ex_core_input_def ex_ran_def started_def)
qed

text \<open>
  C14.  A UE goes and comes back.  A registered UE that detaches and then attaches, with a core that answers, ends with the
  address and the TEID of its new session; the base station keeps exactly its list of UEs, with the new state of this one,
  the traffic generator is stopped before the first request and started after the second, and the controller hears of both.
\<close>

theorem ue_detaches_and_attaches:
  assumes "gnb_ok g xs" and "known g xs msin a u" and "id_ok u" and "wf_env E" and "length msin = 10"
    and "core_pdu ID_DOWNLINK_NAS_TRANSPORT c1 False p" and "core_pdu ID_UE_CONTEXT_RELEASE c2 False q"
    and "core_answers p1 p2 p3 ms p4"
    and "g_in g = map (Some \<circ> encode_pdu) [p, q] @ answers p1 p2 p3 ms p4 @ rest"
    and "ran_ok s msin" and "r_cp_only s = 0" and "r_tun s = True # ts"
    and "u1 = learn_ies (p_ies q) (learn_ies (p_ies p) (u\<lparr>nas_sequence_number := nas_sequence_number u + 1\<rparr>))"
    and "v = registered_ue u1 p1 p2 p3 p4"
  shows "\<exists>g1 g2 s1 s2. serve_client w E g (Message (idle_request UE_DETACH msin)) = Some (g1, Going) \<and>
     serve_client w' E g1 (Message (idle_request UE_ATTACH msin)) = Some (g2, Going) \<and>
     gnb_ok g2 xs \<and> g_objects g2 = (g_objects g)(a \<mapsto> v) \<and> g_in g2 = rest \<and>
     send_ue_detach False True (s\<lparr>r_conns := [answered_by (reply_of g1), answered_by (reply_of g2)]\<rparr>) = Some (s1, Returned OK) \<and>
     send_ue_attach s1 = Some (s2, Returned OK) \<and>
     r_ue_ip s2 = pdn_ip v \<and> r_gtp_teid s2 = host32 (gtp_teid v) \<and> r_spgw_addr s2 = r_spgw_ip s \<and>
     r_log s2 = r_log s @
       [Generator_Killed, To_Gnb (d_enb_ip (r_data s)) (idle_request UE_DETACH msin), Notify (CODE_DETACHED # d_id (r_data s)),
        To_Gnb (d_enb_ip (r_data s)) (idle_request UE_ATTACH msin), Generator_Started (d_command (r_data s)),
        Notify (CODE_ATTACHED # d_id (r_data s))]"
  by (rule detach_then_attach [OF assms])

text \<open>A base station with one UE.\<close>

definition ex_gnb_one :: gnb where
  "ex_gnb_one = ex_gnb\<lparr>g_nodes := [1 \<mapsto> \<lparr>node_data = Some (Object 7), node_prev = None, node_next = None\<rparr>],
     g_list := \<lparr>l_head = Some 1, l_tail = Some 1\<rparr>, g_objects := [7 \<mapsto> ex_ue],
     g_in := map (Some \<circ> encode_pdu) [ex_auth_request, ex_release] @ ex_core_input\<rparr>"

lemma ex_gnb_one_ok: "gnb_ok ex_gnb_one [Some (Object 7)]"
proof -
  have "chained (g_nodes ex_gnb_one) (g_list ex_gnb_one) [1] [Some (Object 7)]"
    by (simp add: ex_gnb_one_def chained_def)
  then show ?thesis using ex_wf(2,3) ex_gnb_ok
    by (auto simp: gnb_ok_def list_stands_for_def) (auto simp: ex_gnb_one_def ex_gnb_def split: if_splits)
qed

lemma ex_known: "known ex_gnb_one [Some (Object 7)] (take 10 (msin_string ex_ue)) 7 ex_ue"
  by (simp add: known_def ex_gnb_one_def)

lemma ex_msin: "length (take 10 (msin_string ex_ue)) = 10" "ran_ok ex_ran (take 10 (msin_string ex_ue))"
proof -
  have "length (msin_string ex_ue) = 16" using ex_wf(3) unfolding wf_UE_def by blast
  then show "length (take 10 (msin_string ex_ue)) = 10" "ran_ok ex_ran (take 10 (msin_string ex_ue))"
    by (simp_all add: ran_ok_def ex_ran_def)
qed

theorem ue_detaches_and_attaches_witness:
  "\<exists>g1 g2 s1 s2. serve_client ex_world ex_env ex_gnb_one (Message (idle_request UE_DETACH (take 10 (msin_string ex_ue)))) = Some (g1, Going) \<and>
     serve_client ex_world ex_env g1 (Message (idle_request UE_ATTACH (take 10 (msin_string ex_ue)))) = Some (g2, Going) \<and>
     send_ue_detach False True (ex_ran\<lparr>r_conns := [answered_by (reply_of g1), answered_by (reply_of g2)]\<rparr>) = Some (s1, Returned OK) \<and>
     send_ue_attach s1 = Some (s2, Returned OK) \<and> length (r_log s2) = 6"
proof -
  have "g_in ex_gnb_one = map (Some \<circ> encode_pdu) [ex_auth_request, ex_release] @
      answers ex_auth_request ex_security_command ex_context_setup [] ex_session_setup @ []"
    by (simp add: ex_gnb_one_def ex_core_input_def)
  from ue_detaches_and_attaches [OF ex_gnb_one_ok ex_known ex_wf(4,1) ex_msin(1) ex_core(1) ex_release_core ex_core_answers this
      ex_msin(2) _ _ refl refl, of "[]" ex_world ex_world]
  show ?thesis by (auto simp: ex_ran_def)
qed

text \<open>
  C28.  An X2 handover ends both sides.  When the script of a registered UE hands it over (and the controller knows the target), the base
  station dereferences the NULL key of its search at the first request and crashes.  The end of that connection
  counts as success for the UE, which goes over to the target on paper and connects to the same, dead, base station
  again, for as long as the connection is refused.
\<close>

lemma ask_refused:
  assumes "r_conns s = \<lparr>c_socket = True, c_connect = replicate k Refused, c_read = r\<rparr> # cs"
  shows "ask_gnb ip msg n sz good s f = Some (s\<lparr>r_conns := cs\<rparr>, Blocked)"
proof -
  have "connect_loop (replicate k Refused) = Blocked" by (induction k) simp_all
  then show ?thesis using assms by (simp add: ask_gnb_def exchange_def)
qed

theorem x2_handover_stuck:
  assumes "gnb_ok g xs" and "xs \<noteq> []" and "ran_ok s msin" and "length msin = 10"
    and "r_controller s = Answer (x # UINT32_TO_ARRAY ip) # as" and "ip \<noteq> 0" and "ip \<noteq> -1"
    and "r_conns s = [answered_by [], \<lparr>c_socket = True, c_connect = replicate k Refused, c_read = None\<rparr>]"
    and "n < 0x1000000"
  shows "serve_client w E g (Message (handover_request HO_SETUP msin (UINT32_TO_ARRAY ip))) = None \<and>
     (\<exists>s'. perform (X2_Handover n) s = Some (s', Blocked) \<and> d_enb_ip (r_data s') = UINT32_TO_ARRAY ip \<and>
        r_log s' = r_log s @ [Notify (CODE_GET_ENB # d_id (r_data s) @ UINT32_TO_ARRAY n),
          To_Gnb (d_enb_ip (r_data s)) (handover_request HO_SETUP msin (UINT32_TO_ARRAY ip))])"
proof
  show "serve_client w E g (Message (handover_request HO_SETUP msin (UINT32_TO_ARRAY ip))) = None"
    using handover_served(1) [OF assms(1), of HO_SETUP] assms(2,4) by (simp add: handover_codes_def handover_request_def)
  have i: "length (d_id (r_data s)) = 4" using assms(3) by (simp add: ran_ok_def)
  obtain e0 e1 e2 where e: "low_bytes n = [e0, e1, e2]" "be32 0 e0 e1 e2 = n" using low_bytes_be32 [OF assms(9)] by blast
  let ?ip = "UINT32_TO_ARRAY ip"
  let ?m = "HO_SETUP # msin @ replicate 6 0 @ ?ip"
  define s1 where "s1 = s\<lparr>r_controller := as, r_log := r_log s @ [Notify (CODE_GET_ENB # d_id (r_data s) @ UINT32_TO_ARRAY n)]\<rparr>"
  let ?c2 = "\<lparr>c_socket = True, c_connect = replicate k Refused, c_read = None\<rparr>"
  have c: "r_conns s1 = answered_by [] # [?c2]" using assms(8) by (simp add: s1_def)
  have m: "ho_message code t u = Some (code # msin @ replicate 6 0 @ t)" if "d_msin (r_data u) = d_msin (r_data s)" for code t u
    using that assms(3) by (auto simp: ho_message_def ran_ok_def rdn_def)
  let ?k2 = "\<lambda>s b. do { i \<leftarrow> ue_number s; Some (send_x2_handover_complete i n s, Returned OK) }"
  let ?k1 = "\<lambda>t b. do { let t = t\<lparr>r_data := (r_data t)\<lparr>d_enb_ip := ?ip\<rparr>\<rparr>; m \<leftarrow> ho_message HO_REQUEST [0, 0, 0, 0] t;
     ask_gnb (d_enb_ip (r_data s)) m 22 32 (\<lambda>c. c \<noteq> X2_ERROR) t ?k2 }"
  have "send_x2_handover (low_bytes n) s = ask_gnb (d_enb_ip (r_data s)) ?m 22 32 (\<lambda>c. c \<noteq> X2_ERROR) s1 ?k1"
    unfolding send_x2_handover_def e(1) find_target_answered [OF assms(5) i assms(6,7) refl] e(2) s1_def [symmetric]
    using m [of s1] by (simp add: Let_def s1_def)
  also obtain b where "\<dots> = ?k1 (s1\<lparr>r_conns := [?c2], r_log := r_log s1 @ [To_Gnb (d_enb_ip (r_data s)) (?m @ [0])]\<rparr>) b"
    using accepted_request [OF c, of ?m "d_enb_ip (r_data s)" ?k1] assms(4) by (auto simp: code_defs)
  finally show "\<exists>s'. perform (X2_Handover n) s = Some (s', Blocked) \<and> d_enb_ip (r_data s') = ?ip \<and>
      r_log s' = r_log s @ [Notify (CODE_GET_ENB # d_id (r_data s) @ UINT32_TO_ARRAY n),
        To_Gnb (d_enb_ip (r_data s)) (handover_request HO_SETUP msin ?ip)]"
    by (simp add: m s1_def ask_refused [of _ k None "[]"] handover_request_def)
qed

theorem x2_handover_stuck_witness:
  "serve_client ex_world ex_env ex_gnb_one (Message (handover_request HO_SETUP (take 10 (msin_string ex_ue)) [10, 0, 0, 6])) = None \<and>
   (\<exists>s'. perform (X2_Handover 2) (ex_ran\<lparr>r_controller := [Answer (7 # [10, 0, 0, 6])],
       r_conns := [answered_by [], \<lparr>c_socket = True, c_connect = replicate 5 Refused, c_read = None\<rparr>]\<rparr>) = Some (s', Blocked) \<and>
     d_enb_ip (r_data s') = [10, 0, 0, 6])"
proof -
  let ?s = "ex_ran\<lparr>r_controller := [Answer (7 # UINT32_TO_ARRAY 0x0a000006)],
    r_conns := [answered_by [], \<lparr>c_socket = True, c_connect = replicate 5 Refused, c_read = None\<rparr>]\<rparr>"
  have "ran_ok ?s (take 10 (msin_string ex_ue))" using ex_msin(2) by (simp add: ran_ok_def)
  from x2_handover_stuck [OF ex_gnb_one_ok _ this ex_msin(1), of 7 "0x0a000006" "[]" 5 2 ex_world ex_env]
  have h: "serve_client ex_world ex_env ex_gnb_one (Message (handover_request HO_SETUP (take 10 (msin_string ex_ue)) (UINT32_TO_ARRAY 0x0a000006))) = None \<and>
    (\<exists>s'. perform (X2_Handover 2) ?s = Some (s', Blocked) \<and> d_enb_ip (r_data s') = UINT32_TO_ARRAY 0x0a000006)"
    by auto
  moreover have "UINT32_TO_ARRAY 0x0a000006 = [10, 0, 0, 6]" by (simp add: UINT32_TO_ARRAY_def)
  ultimately show ?thesis by simp
qed

section \<open>The controller and its messages\<close>

text \<open>
  C29.  The message for a UE is read back.  Whatever UE the controller serialises, with a command of at most 191 characters
  and a message of at most 1024 bytes, the process decodes exactly its identity, keys, command, addresses, port
  and script, whatever follows in its array.
\<close>

theorem controller_message_roundtrip:
  assumes "cu_ok u" and "length (cu_command u) \<le> 191"
    and "m = serialize_ue (CODE_OK OR CODE_UE_BEHAVIOUR) enb mux epc u" and "length m \<le> 1024" and "length (m @ rest) = 1024"
  shows "analyze_controller_msg (m @ rest) (int (length m)) cp_mode s =
     Some (Run_UE (configured u enb mux epc cp_mode (r_ue_ip s) (r_local_ip s)))"
proof -
  have "0 < length m" "rd (m @ rest) 0 = Some (CODE_OK OR CODE_UE_BEHAVIOUR)" by (simp_all add: assms(3) serialize_ue_def rd_def)
  then show ?thesis
    using decode_serialized [OF assms] by (simp add: analyze_controller_msg_def CODE_OK_def CODE_UE_BEHAVIOUR_def CODE_ERROR_def)
qed

lemma ex_cu_ok: "cu_ok ex_cu" "length (cu_command ex_cu) \<le> 191" "length (serialize_ue c 5 6 6 ex_cu) = 66"
  by (simp_all add: cu_ok_def ex_cu_def serialize_ue_def)

theorem controller_message_roundtrip_witness:
  "analyze_controller_msg (serialize_ue (CODE_OK OR CODE_UE_BEHAVIOUR) 5 6 6 ex_cu @ replicate 958 9) 66 0 ex_ran =
     Some (Run_UE (configured ex_cu 5 6 6 0 [10, 0, 0, 8] [0, 0, 0, 0]))"
  using controller_message_roundtrip [OF ex_cu_ok(1,2) refl, of 5 6 6 "replicate 958 9" 0 ex_ran]
  by (simp add: ex_cu_ok(3)) (simp add: ex_ran_def)

text \<open>
  C12.  The script is what runs.  The control-plane thread of a UE whose script the controller serialised (waits below the
  three bytes of \<open>inf\<close>) performs exactly the rounds of that script, action by action and wait by wait, until an
  infinite wait or a peer stops it; and a script with an infinite wait is over within its first round.
\<close>

theorem control_plane_runs_script:
  assumes "script_ok steps" and "d_control_plane (r_data s) = serialize_control_plane steps"
  shows "control_plane n s = run_rounds n steps (if r_cp_only s = 0 then start_traffic_generator (d_command (r_data s)) s else s) \<and>
     (\<forall>a s' r. (a, None) \<in> set steps \<longrightarrow> run_script steps s = Some (s', r) \<longrightarrow> r \<noteq> Pass_Done)"
proof -
  let ?s = "if r_cp_only s = 0 then start_traffic_generator (d_command (r_data s)) s else s"
  have "script_of ?s = serialize_control_plane steps" using assms(2) by (simp add: start_traffic_generator_def)
  from turns_rounds [OF assms(1) this] have "control_plane n s = run_rounds n steps ?s" by (simp add: control_plane_def)
  then show ?thesis using inf_ends by blast
qed

theorem control_plane_runs_script_witness:
  "\<exists>s'. control_plane 3 (ex_ran\<lparr>r_data := (r_data ex_ran)\<lparr>d_control_plane := [0, 0, 0, 5, 0, 255, 255, 255]\<rparr>\<rparr>) = Some (s', Stopped) \<and>
     r_log s' = [Generator_Started [108, 115], Sleep 5]"
proof -
  have ok: "script_ok [(Init, Some 5), (Init, None)]" by (simp add: script_ok_def)
  have e: "serialize_control_plane [(Init, Some 5), (Init, None)] = [0, 0, 0, 5, 0, 255, 255, 255]"
    by (simp add: low_bytes_def UINT32_TO_ARRAY_def)
  let ?s = "ex_ran\<lparr>r_data := (r_data ex_ran)\<lparr>d_control_plane := serialize_control_plane [(Init, Some 5), (Init, None)]\<rparr>\<rparr>"
  have "control_plane 3 ?s = run_rounds 3 [(Init, Some 5), (Init, None)]
      (if r_cp_only ?s = 0 then start_traffic_generator (d_command (r_data ?s)) ?s else ?s)"
    by (rule control_plane_runs_script [OF ok, THEN conjunct1]) simp
  then show ?thesis
    unfolding e by (simp add: numeral_3_eq_3) (simp add: ex_ran_def start_traffic_generator_def emit_def)
qed

text \<open>
  C21.  A base station comes up.  When the controller's message for a base station reaches a process whose calls of the operating
  system succeed, and the core answers the NG setup, then: the base station has the identity of the message, is connected over SCTP and has
  sent exactly the NG Setup Request, listens for UEs with both threads started, holds exactly these two descriptors, and the
  controller is told of its success.
\<close>

theorem gnb_comes_up:
  assumes "wf_eNB fresh" and "length mcc = 3" and "length mnc = 2" and "length (r_local_ip s) = 4"
    and "length buffer = 1024" and "length recv_buffer = 1024" and "setup_response p"
    and "sctp_succeeds (os_result os) (length (os_log os))" and "listen_succeeds (os_result os) (length (os_log os) + 7)"
  shows "\<exists>b d t enb. memcpy recv_buffer 0 (serialize_enb (CODE_OK OR CODE_ENB_BEHAVIOUR) i mcc mnc epc) 14 = Some b \<and>
     analyze_controller_msg b 14 cp_mode s = Some (Run_gNB d) \<and>
     enb_emulator_start (Some fresh) (Some (encode_pdu p) # input) buffer os d s = Some (t, send_enb_behaviour i s, Returned OK) \<and>
     st_enb t = Some enb \<and> wf_eNB enb \<and> enb_id enb = i \<and> enb_ip enb = r_local_ip s \<and>
     mme_socket enb = os_result os (length (os_log os)) \<and> st_sent t = [encode_pdu (pdu_setup enb)] \<and>
     fds_of (st_os t) = [os_result os (length (os_log os) + 7), os_result os (length (os_log os))] @ fds_of os \<and>
     {(Thread ''enb_emulator_thread'' [], 0), (Thread ''x2_thread'' [], 0)} \<subseteq> set (os_log (st_os t))"
  by (rule gnb_starts [OF assms])

definition ex_setup_response :: pdu where
  "ex_setup_response = \<lparr>p_type = SUCCESFUL_OUTCOME, p_proc = ID_NG_SETUP, p_crit = CRITICALITY_REJECT,
     p_ies = [\<lparr>ie_id = 1, ie_crit = CRITICALITY_REJECT, ie_value = [0, 65, 77, 70]\<rparr>]\<rparr>"

definition ex_os :: os where
  "ex_os = \<lparr>os_result = (\<lambda>n. if n = 0 then 3 else if n = 7 then 4 else 0), os_log = []\<rparr>"

theorem gnb_comes_up_witness:
  "\<exists>b d t enb. analyze_controller_msg b 14 0 ex_ran = Some (Run_gNB d) \<and>
     enb_emulator_start (Some ex_enb) [Some (encode_pdu ex_setup_response)] (replicate 1024 0) ex_os d ex_ran =
       Some (t, send_enb_behaviour 14680064 ex_ran, Returned OK) \<and>
     st_enb t = Some enb \<and> mme_socket enb = 3 \<and> fds_of (st_os t) = [4, 3]"
proof -
  have "setup_response ex_setup_response"
    by (simp add: setup_response_def ex_setup_response_def plain_ie_def encode_body_def encode_ie_short)
  moreover have "sctp_succeeds (os_result ex_os) 0" "listen_succeeds (os_result ex_os) 7"
    by (simp_all add: sctp_succeeds_def listen_succeeds_def ex_os_def)
  moreover have "os_log ex_os = []" "os_result ex_os 0 = 3" "os_result ex_os 7 = 4" "fds_of ex_os = []"
    by (simp_all add: ex_os_def fds_of_def)
  ultimately show ?thesis
    using gnb_comes_up [OF ex_wf(2), of "[2, 0, 8]" "[9, 3]" ex_ran "replicate 1024 0" "replicate 1024 0" ex_setup_response ex_os 14680064 1 0 "[]"]
    by (simp add: ex_ran_def) metis
qed

section \<open>The user plane and the list of UEs\<close>

text \<open>
  C17.  A packet and its answer.  A packet of at most 2040 bytes that a UE's device delivers reaches the core with the GTP header of the UE's
  tunnel, through its uplink thread and the multiplexer; a packet of the core for that tunnel is then sent back by the multiplexer to this
  UE, and its downlink thread writes exactly the payload to the device.  The TEID must not share its bucket with a known one.
\<close>

theorem packet_and_answer:
  assumes "plane_ok p" and "mux_reachable m" and "length d \<le> 2040" and "length e \<le> 2040"
    and "\<forall>t. t \<noteq> dp_teid p \<and> mux_abs m t \<noteq> None \<longrightarrow> bucket_index (mx_map m) t \<noteq> bucket_index (mx_map m) (dp_teid p)"
  shows "\<exists>p1 m1 m2 p2. uplink_turn p (Some d) = Some p1 \<and>
     dp_to_core p1 = dp_to_core p @ [(dp_spgw p, gtp_packet (dp_teid p) d)] \<and>
     uplink m a (gtp_packet (dp_teid p) d) True True = Some m1 \<and>
     mx_to_core m1 = mx_to_core m @ [(mx_coreaddr m, gtp_packet (dp_teid p) d)] \<and>
     downlink m1 core (gtp_packet (dp_teid p) e) = Some m2 \<and> mx_to_ue m2 = mx_to_ue m1 @ [(a, gtp_packet (dp_teid p) e)] \<and>
     downlink_turn p1 (Some (b, gtp_packet (dp_teid p) e)) = Some p2 \<and> dp_to_tun p2 = dp_to_tun p @ [e]"
  by (rule user_plane [OF assms])

definition ex_plane :: plane where
  "ex_plane = \<lparr>dp_teid = 5, dp_spgw = [10, 0, 0, 7], dp_up = replicate 2048 0, dp_down = replicate 2048 0, dp_len = None,
     dp_to_core = [], dp_to_tun = []\<rparr>"

theorem packet_and_answer_witness:
  "\<exists>p1 m1 m2 p2. uplink_turn ex_plane (Some [69, 0]) = Some p1 \<and> uplink ex_mux [9] (gtp_packet 5 [69, 0]) True True = Some m1 \<and>
     downlink m1 [1] (gtp_packet 5 [70]) = Some m2 \<and> downlink_turn p1 (Some ([2], gtp_packet 5 [70])) = Some p2 \<and> dp_to_tun p2 = [ [70] ]"
  using packet_and_answer [OF _ ex_mux_reachable, of ex_plane "[69, 0]" "[70]" "[9]" "[1]" "[2]"]
  by (auto simp: ex_plane_def plane_ok_def ex_mux_abs)

text \<open>
  C15.  The list of UEs is a sequence.  On every well-formed doubly linked list, adding appends, \<open>peekElem\<close> finds the first
  match, \<open>destroyList\<close> destroys every element once, in order, and frees every node; \<open>getElem\<close>, whose comparison
  is inverted, finds nothing when all elements match and otherwise uses a node after freeing it.
\<close>

theorem list_is_sequence:
  assumes "chained h l as xs" and "h n = None"
  shows "(\<exists>h' l'. addElem h l (Some n) x = Some (OK, h', l') \<and> chained h' l' (as @ [n]) (xs @ [x])) \<and>
     peekElem h l eq = search eq xs \<and>
     (\<exists>h'. destroyList h (l_head l) = Some (xs, h') \<and> (\<forall>a. h' a = (if a \<in> set as then None else h a))) \<and>
     getElem h l eq = (if search (\<lambda>d. do { b \<leftarrow> eq d; Some (\<not> b) }) xs = Some None then Some (None, h, l) else None)"
  using addElem_holds [OF assms, of x] peekElem_search [OF assms(1), of eq] getElem_outcome [OF assms(1), of eq]
    destroyList_all [of h None as xs] assms(1)
  by (auto simp: chained_def)

theorem list_is_sequence_witness:
  "\<exists>h' l'. addElem (g_nodes ex_gnb_one) (g_list ex_gnb_one) (Some 2) (Some (Object 8)) = Some (OK, h', l') \<and>
     chained h' l' [1, 2] [Some (Object 7), Some (Object 8)] \<and>
     getElem (g_nodes ex_gnb_one) (g_list ex_gnb_one) (\<lambda>d. Some (d = Some (Object 8))) = None"
proof -
  have "chained (g_nodes ex_gnb_one) (g_list ex_gnb_one) [1] [Some (Object 7)]" "g_nodes ex_gnb_one 2 = None"
    by (simp_all add: ex_gnb_one_def chained_def)
  from list_is_sequence [OF this, of "Some (Object 8)" "\<lambda>d. Some (d = Some (Object 8))"] show ?thesis by auto
qed

end
