(* ===== verification/Db_Start.thy ===== *)
theory Db_Start
  imports Loader Server Syscalls
begin

text \<open>
  The start of the database server (corekube-db/source/corekubeDB.c: \<open>configure_network\<close>, \<open>main_worker\<close> and \<open>main\<close>), and the hand-over of
  a connection to its thread.  The configuration file is read by libconfig, whose answers are arguments.
\<close>

section \<open>The code\<close>

text \<open>The global \<open>sock\<close>, or -1 for the result \<open>ERROR\<close>.\<close>

definition configure_network :: "string \<Rightarrow> nat \<Rightarrow> int sys" where
  "configure_network ip_address port = do {
     sock \<leftarrow> sys (Socket TCP);
     if sock = -1 then ret (-1)
     else or_close sock (Setsockopt sock ''TCP_NODELAY'') (\<lambda>r. r < 0)
       (or_close sock (Bind sock ip_address port) (\<lambda>r. r = -1)
         (or_close sock (Listen sock 128) (\<lambda>r. r = -1)
           (ret sock))) }"

text \<open>
  One turn of \<open>main_worker\<close>.  The argument of the thread is the address of the variable \<open>client\<close>, not its value: the calls
  do not depend on it, and what the thread reads there is the subject of the next section.
\<close>

definition accept_client :: "int \<Rightarrow> int sys" where
  "accept_client sock = do {
     client \<leftarrow> sys (Accept sock);
     if client = -1 then ret 0
     else do {
       r \<leftarrow> sys (Thread ''attend_request'' []);
       if r \<noteq> 0 then sys (Close client) else ret 0 } }"

fun main_worker :: "nat \<Rightarrow> int \<Rightarrow> unit sys" where
  "main_worker 0 sock = ret ()"
| "main_worker (Suc n) sock = do { _ \<leftarrow> accept_client sock; main_worker n sock }"

text \<open>The answers of libconfig: whether the file can be read, and the four values.\<close>

record config =
  cf_read :: bool
  cf_users_db :: "string option"
  cf_num_ues :: "u32 option"
  cf_db_ip_address :: "string option"
  cf_db_port :: "nat option"

text \<open>
  \<open>main\<close> for \<open>n\<close> turns of \<open>main_worker\<close>; \<open>file\<close> gives the lines behind a path.  With an argument (\<open>argc\<close> is 2) the address in the
  configuration is freed, so that \<open>config_destroy\<close> frees it again, and replaced by a copy without a terminating zero, which
  \<open>inet_addr\<close> reads: both are undefined.
\<close>

definition config_destroy :: "nat \<Rightarrow> os \<Rightarrow> (os \<times> status) option" where
  "config_destroy argc s = (if argc = 2 then None else Some (s, ERROR))"

definition db_main ::
  "nat \<Rightarrow> nat \<Rightarrow> config \<Rightarrow> (string \<Rightarrow> (byte list \<times> buf \<times> UserInfo \<times> buf) list option) \<Rightarrow> (nat \<Rightarrow> u32) \<Rightarrow> (nat \<Rightarrow> bool) \<Rightarrow>
   os \<Rightarrow> (os \<times> status) option" where
  "db_main n argc cfg file rnd mal s =
     (if \<not> cf_read cfg then Some (s, ERROR)
      else case cf_users_db cfg of
        None \<Rightarrow> Some (s, ERROR)
      | Some path \<Rightarrow> (case cf_num_ues cfg of
          None \<Rightarrow> Some (s, ERROR)
        | Some num_ues \<Rightarrow> (case cf_db_ip_address cfg of
            None \<Rightarrow> Some (s, ERROR)
          | Some ip \<Rightarrow> (case cf_db_port cfg of
              None \<Rightarrow> config_destroy argc s
            | Some port \<Rightarrow> do {
                db \<leftarrow> init_db (file path) num_ues rnd mal;
                (case db of
                   None \<Rightarrow> config_destroy argc s
                 | Some d \<Rightarrow>
                     if argc = 2 then None
                     else (case run_state (configure_network ip port) s of
                       (sock, s) \<Rightarrow>
                         if sock = -1 then config_destroy argc s
                         else Some (snd (run_state (main_worker n sock) s), OK))) }))))"

section \<open>The accept loop and its threads\<close>

text \<open>
  \<open>main_worker\<close> against the threads it creates.  The variable \<open>client\<close> is one object: \<open>accept\<close> writes it, also the -1 of a failure, the
  argument of \<open>pthread_create\<close> is its address, \<open>close(client)\<close> after a failed creation reads it, and so does \<open>client = *client_ref\<close>,
  the first statement of a thread, whenever the thread gets to it.  The state is that of the operating system, where the main
  thread stands, the variable, and the threads in the order of their creation.
\<close>

datatype main_pc = At_accept | At_create | At_close

datatype client_thread = Starting | Serving int

record serving =
  sv_os :: os
  sv_pc :: main_pc
  sv_client :: int
  sv_threads :: "client_thread list"

datatype event = Main call int | Reads nat int

inductive serve_step :: "int \<Rightarrow> serving \<Rightarrow> event \<Rightarrow> serving \<Rightarrow> bool" for sock where
  accepts: "sv_pc s = At_accept \<Longrightarrow> run_state (sys (Accept sock)) (sv_os s) = (client, os) \<Longrightarrow>
     serve_step sock s (Main (Accept sock) client)
       (s\<lparr>sv_os := os, sv_client := client, sv_pc := (if client = -1 then At_accept else At_create)\<rparr>)"
| creates: "sv_pc s = At_create \<Longrightarrow> run_state (sys (Thread ''attend_request'' [])) (sv_os s) = (r, os) \<Longrightarrow> r = 0 \<Longrightarrow>
     serve_step sock s (Main (Thread ''attend_request'' []) r)
       (s\<lparr>sv_os := os, sv_threads := sv_threads s @ [Starting], sv_pc := At_accept\<rparr>)"
| fails: "sv_pc s = At_create \<Longrightarrow> run_state (sys (Thread ''attend_request'' [])) (sv_os s) = (r, os) \<Longrightarrow> r \<noteq> 0 \<Longrightarrow>
     serve_step sock s (Main (Thread ''attend_request'' []) r) (s\<lparr>sv_os := os, sv_pc := At_close\<rparr>)"
| closes: "sv_pc s = At_close \<Longrightarrow> run_state (sys (Close (sv_client s))) (sv_os s) = (r, os) \<Longrightarrow>
     serve_step sock s (Main (Close (sv_client s)) r) (s\<lparr>sv_os := os, sv_pc := At_accept\<rparr>)"
| reads: "t < length (sv_threads s) \<Longrightarrow> sv_threads s ! t = Starting \<Longrightarrow>
     serve_step sock s (Reads t (sv_client s)) (s\<lparr>sv_threads := (sv_threads s)[t := Serving (sv_client s)]\<rparr>)"

inductive serve_run :: "int \<Rightarrow> serving \<Rightarrow> event list \<Rightarrow> serving \<Rightarrow> bool" for sock s where
  none: "serve_run sock s [] s"
| more: "serve_run sock s es s1 \<Longrightarrow> serve_step sock s1 e s2 \<Longrightarrow> serve_run sock s (es @ [e]) s2"

definition serving_start :: "os \<Rightarrow> int \<Rightarrow> serving" where
  "serving_start os client = \<lparr>sv_os = os, sv_pc = At_accept, sv_client = client, sv_threads = []\<rparr>"

text \<open>
  What the events of a run say: the connection accepted last, the connections for which a thread was created, the
  connections that the threads have read, and the calls of the main thread.
\<close>

fun accepted_after :: "int \<Rightarrow> event \<Rightarrow> int" where
  "accepted_after client (Main (Accept sock) fd) = fd"
| "accepted_after client e = client"

definition last_accepted :: "int \<Rightarrow> event list \<Rightarrow> int" where
  "last_accepted client es = foldl accepted_after client es"

fun created_by :: "int \<Rightarrow> event list \<Rightarrow> int list" where
  "created_by client [] = []"
| "created_by client (Main (Thread f xs) r # es) = (if r = 0 then [client] else []) @ created_by client es"
| "created_by client (e # es) = created_by (accepted_after client e) es"

fun read_by :: "event list \<Rightarrow> int list" where
  "read_by [] = []"
| "read_by (Reads t fd # es) = fd # read_by es"
| "read_by (Main c r # es) = read_by es"

fun calls_of :: "event list \<Rightarrow> (call \<times> int) list" where
  "calls_of [] = []"
| "calls_of (Reads t fd # es) = calls_of es"
| "calls_of (Main c r # es) = (c, r) # calls_of es"

lemma last_accepted_snoc [simp]: "last_accepted c (es @ [e]) = accepted_after (last_accepted c es) e" "last_accepted c [] = c"
  by (simp_all add: last_accepted_def)

lemma created_append: "created_by c (es @ es') = created_by c es @ created_by (last_accepted c es) es'"
  by (induction c es rule: created_by.induct) (simp_all add: last_accepted_def)

lemma created_snoc [simp]:
  "created_by c (es @ [e]) = created_by c es @ (case e of Main (Thread f xs) r \<Rightarrow> if r = 0 then [last_accepted c es] else [] | _ \<Rightarrow> [])"
  by (simp add: created_append split: event.split call.split)

lemma events_snoc [simp]:
  "read_by (es @ [e]) = read_by es @ (case e of Reads t fd \<Rightarrow> [fd] | _ \<Rightarrow> [])"
  "calls_of (es @ [e]) = calls_of es @ (case e of Main c r \<Rightarrow> [(c, r)] | _ \<Rightarrow> [])"
  by (induction es rule: read_by.induct) (simp_all split: event.split)

text \<open>A schedule is prompt when at every \<open>accept\<close> every thread created before has read the variable.\<close>

definition prompt :: "int \<Rightarrow> event list \<Rightarrow> bool" where
  "prompt client es \<longleftrightarrow> (\<forall>i sock fd. i < length es \<longrightarrow> es ! i = Main (Accept sock) fd \<longrightarrow>
     length (read_by (take i es)) = length (created_by client (take i es)))"

lemma prompt_snoc:
  "prompt c (es @ [e]) \<longleftrightarrow> prompt c es \<and> (\<forall>sock fd. e = Main (Accept sock) fd \<longrightarrow> length (read_by es) = length (created_by c es))"
  by (auto simp: prompt_def nth_append less_Suc_eq)

section \<open>What holds in every run\<close>

text \<open>\<open>at_turn\<close>: the main thread has made the calls of some turns of \<open>main_worker\<close>, and those of the turn in which it stands.\<close>

definition at_turn :: "int \<Rightarrow> os \<Rightarrow> serving \<Rightarrow> bool" where
  "at_turn sock os s \<longleftrightarrow> (\<exists>n. let os1 = snd (run_state (main_worker n sock) os) in
     case sv_pc s of
       At_accept \<Rightarrow> sv_os s = os1
     | At_create \<Rightarrow> run_state (sys (Accept sock)) os1 = (sv_client s, sv_os s) \<and> sv_client s \<noteq> -1
     | At_close \<Rightarrow> (\<exists>os2 r. run_state (sys (Accept sock)) os1 = (sv_client s, os2) \<and> sv_client s \<noteq> -1 \<and>
         run_state (sys (Thread ''attend_request'' [])) os2 = (r, sv_os s) \<and> r \<noteq> 0))"

lemma snd_main_worker_Suc:
  "snd (run_state (main_worker (Suc n) sock) os) = snd (run_state (accept_client sock) (snd (run_state (main_worker n sock) os)))"
  by (induction n arbitrary: os) (simp_all add: run_bind run_ret case_prod_unfold)

lemma at_turn_step:
  assumes "at_turn sock os s" and "serve_step sock s e s'"
  shows "at_turn sock os s'"
proof -
  from assms(1) obtain n where n: "let os1 = snd (run_state (main_worker n sock) os) in
     case sv_pc s of
       At_accept \<Rightarrow> sv_os s = os1
     | At_create \<Rightarrow> run_state (sys (Accept sock)) os1 = (sv_client s, sv_os s) \<and> sv_client s \<noteq> -1
     | At_close \<Rightarrow> (\<exists>os2 r. run_state (sys (Accept sock)) os1 = (sv_client s, os2) \<and> sv_client s \<noteq> -1 \<and>
         run_state (sys (Thread ''attend_request'' [])) os2 = (r, sv_os s) \<and> r \<noteq> 0)"
    unfolding at_turn_def by blast
  note N = snd_main_worker_Suc [of n sock os]
  from assms(2) show ?thesis
  proof cases
    case (accepts client os')
    show ?thesis
    proof (cases "client = -1")
      case True
      with accepts n N show ?thesis
        by (auto simp: at_turn_def accept_client_def run_bind run_ret Let_def intro!: exI [of _ "Suc n"])
    next
      case False
      with accepts n show ?thesis by (auto simp: at_turn_def Let_def intro!: exI [of _ n])
    qed
  next
    case (creates r os')
    with n N show ?thesis
      by (auto simp: at_turn_def accept_client_def run_bind run_ret Let_def intro!: exI [of _ "Suc n"])
  next
    case (fails r os')
    with n show ?thesis by (auto simp: at_turn_def Let_def intro!: exI [of _ n])
  next
    case (closes r os')
    with n N show ?thesis
      by (auto simp: at_turn_def accept_client_def run_bind run_ret Let_def intro!: exI [of _ "Suc n"])
  next
    case (reads t)
    with n show ?thesis by (auto simp: at_turn_def Let_def split: main_pc.splits intro!: exI [of _ n])
  qed
qed

lemma sys_effect:
  assumes "run_state (sys c) os = (r, os')"
  shows "os_result os' = os_result os" "os_log os' = os_log os @ [(c, r)]" "r = os_result os (length (os_log os))"
    "fds_of os' = open_fds (fds_of os) [(c, r)]"
  using assms by (auto simp: run_sys fds_of_def)

lemma length_filter_update:
  "t < length xs \<Longrightarrow> \<not> P (xs ! t) \<Longrightarrow> P y \<Longrightarrow> length (filter P (xs[t := y])) = Suc (length (filter P xs))"
proof (induction xs arbitrary: t)
  case (Cons x xs)
  then show ?case by (cases t) auto
qed simp

text \<open>The connections that the main thread has open: those it has created threads for, and the one in hand.\<close>

abbreviation in_hand :: "serving \<Rightarrow> int list" where
  "in_hand s \<equiv> (if sv_pc s = At_accept then [] else [sv_client s])"

definition serving_inv :: "os \<Rightarrow> int \<Rightarrow> event list \<Rightarrow> serving \<Rightarrow> bool" where
  "serving_inv os c es s \<longleftrightarrow> sv_client s = last_accepted c es \<and> length (sv_threads s) = length (created_by c es) \<and>
     length (read_by es) = length (filter (\<lambda>t. t \<noteq> Starting) (sv_threads s)) \<and>
     os_log (sv_os s) = os_log os @ calls_of es \<and> os_result (sv_os s) = os_result os \<and>
     ((\<forall>n. -1 \<le> os_result os n) \<longrightarrow> fds_of (sv_os s) = in_hand s @ rev (created_by c es) @ fds_of os \<and>
        (sv_pc s \<noteq> At_accept \<longrightarrow> 0 \<le> sv_client s))"

lemma serving_inv_step:
  assumes i: "serving_inv os c es s" and "serve_step sock s e s'"
  shows "serving_inv os c (es @ [e]) s'"
  using assms(2)
proof cases
  case (accepts client os')
  note eff = sys_effect [OF accepts(4)]
  have "-1 \<le> client" if "\<forall>n. -1 \<le> os_result os n" using that eff(3) i by (auto simp: serving_inv_def)
  with i accepts(1-3) eff(1,2,4) show ?thesis
    by (cases "\<forall>n. -1 \<le> os_result os n") (auto simp: serving_inv_def)
next
  case (creates r os')
  with i sys_effect(1,2,4) [OF creates(4)] show ?thesis by (auto simp: serving_inv_def)
next
  case (fails r os')
  with i sys_effect(1,2,4) [OF fails(4)] show ?thesis by (auto simp: serving_inv_def)
next
  case (closes r os')
  with i sys_effect(1,2,4) [OF closes(4)] show ?thesis by (auto simp: serving_inv_def)
next
  case (reads t)
  with i length_filter_update [of t "sv_threads s" "\<lambda>t. t \<noteq> Starting" "Serving (sv_client s)"] show ?thesis
    by (auto simp: serving_inv_def)
qed

lemma serve_run_inv: "serve_run sock (serving_start os c) es s \<Longrightarrow> serving_inv os c es s \<and> at_turn sock os s"
proof (induction rule: serve_run.induct)
  case none
  have "at_turn sock os (serving_start os c)"
    unfolding at_turn_def by (rule exI [of _ 0]) (simp add: serving_start_def run_ret)
  then show ?case by (simp add: serving_inv_def serving_start_def)
qed (blast intro: serving_inv_step at_turn_step)

text \<open>A thread reads the connection that was accepted last.\<close>

lemma reads_last_accepted:
  assumes "serve_run sock (serving_start os c) es s"
  shows "i < length es \<Longrightarrow> es ! i = Reads t fd \<Longrightarrow> fd = last_accepted c (take i es)"
  using assms
proof (induction rule: serve_run.induct)
  case (more es s1 e s2)
  show ?case
  proof (cases "i < length es")
    case False
    then have "i = length es" "e = Reads t fd" using more.prems by (simp_all add: nth_append)
    with more(2) serve_run_inv [OF more(1)] show ?thesis by (auto simp: serving_inv_def elim: serve_step.cases)
  qed (use more in \<open>simp add: nth_append\<close>)
qed simp

text \<open>Prompt threads serve their own connections.\<close>

lemma prompt_run:
  assumes "serve_run sock (serving_start os c) es s"
  shows "prompt c es \<Longrightarrow> \<exists>w. created_by c es = read_by es @ (if w then [sv_client s] else []) \<and>
     sv_threads s = map Serving (read_by es) @ (if w then [Starting] else []) \<and> (w \<longrightarrow> sv_pc s = At_accept)"
  using assms
proof (induction rule: serve_run.induct)
  case (more es s1 e s2)
  from more.prems have p: "prompt c es" by (simp add: prompt_snoc)
  from more.IH [OF p] obtain w where w: "created_by c es = read_by es @ (if w then [sv_client s1] else [])"
    "sv_threads s1 = map Serving (read_by es) @ (if w then [Starting] else [])" "w \<longrightarrow> sv_pc s1 = At_accept" by blast
  have client: "sv_client s1 = last_accepted c es" using serve_run_inv [OF more(1)] by (simp add: serving_inv_def)
  from more(2) show ?case
  proof cases
    case (accepts client os')
    then have "\<not> w" using more.prems w(1) by (auto simp: prompt_snoc)
    with w accepts show ?thesis by (intro exI [of _ False]) simp
  next
    case (creates r os')
    then have "\<not> w" using w(3) by auto
    with w creates client show ?thesis by (intro exI [of _ True]) simp
  next
    case (fails r os')
    then have "\<not> w" using w(3) by auto
    with w fails show ?thesis by (intro exI [of _ False]) simp
  next
    case (closes r os')
    then have "\<not> w" using w(3) by auto
    with w closes show ?thesis by (intro exI [of _ False]) simp
  next
    case (reads t)
    then have "w" "t = length (read_by es)" using w(2) by (cases w; auto simp: nth_append split: if_splits)+
    with w reads show ?thesis by (intro exI [of _ False]) (simp add: list_update_append)
  qed
qed (auto simp: serving_start_def intro: exI [of _ False])

text \<open>Two connections before the first thread has read: both threads serve the second.\<close>

lemma overtaken_run:
  assumes run: "serve_run sock (serving_start os c) es s" and pc: "sv_pc s = At_accept" and n: "n = length (os_log (sv_os s))"
    and r: "os_result os n = a" "os_result os (n + 1) = 0" "os_result os (n + 2) = b" "os_result os (n + 3) = 0"
    and ab: "a \<noteq> -1" "b \<noteq> -1" and t: "t = length (sv_threads s)"
    and es': "es' = es @ [Main (Accept sock) a, Main (Thread ''attend_request'' []) 0, Main (Accept sock) b,
      Main (Thread ''attend_request'' []) 0, Reads t b, Reads (t + 1) b]"
  shows "\<exists>s'. serve_run sock (serving_start os c) es' s' \<and> sv_threads s' = sv_threads s @ [Serving b, Serving b] \<and>
     created_by c es' = created_by c es @ [a, b] \<and> sv_pc s' = At_accept"
proof -
  have res: "os_result (sv_os s) = os_result os" using serve_run_inv [OF run] by (simp add: serving_inv_def)
  define o1 where "o1 = (sv_os s)\<lparr>os_log := os_log (sv_os s) @ [(Accept sock, a)]\<rparr>"
  define o2 where "o2 = o1\<lparr>os_log := os_log o1 @ [(Thread ''attend_request'' [], 0)]\<rparr>"
  define o3 where "o3 = o2\<lparr>os_log := os_log o2 @ [(Accept sock, b)]\<rparr>"
  define o4 where "o4 = o3\<lparr>os_log := os_log o3 @ [(Thread ''attend_request'' [], 0)]\<rparr>"
  have os: "run_state (sys (Accept sock)) (sv_os s) = (a, o1)" "run_state (sys (Thread ''attend_request'' [])) o1 = (0, o2)"
    "run_state (sys (Accept sock)) o2 = (b, o3)" "run_state (sys (Thread ''attend_request'' [])) o3 = (0, o4)"
    using r n by (simp_all add: run_sys o1_def o2_def o3_def o4_def res numeral_3_eq_3)
  let ?s1 = "s\<lparr>sv_os := o1, sv_client := a, sv_pc := At_create\<rparr>"
  let ?s2 = "?s1\<lparr>sv_os := o2, sv_threads := sv_threads s @ [Starting], sv_pc := At_accept\<rparr>"
  let ?s3 = "?s2\<lparr>sv_os := o3, sv_client := b, sv_pc := At_create\<rparr>"
  let ?s4 = "?s3\<lparr>sv_os := o4, sv_threads := sv_threads s @ [Starting, Starting], sv_pc := At_accept\<rparr>"
  let ?s5 = "?s4\<lparr>sv_threads := sv_threads s @ [Serving b, Starting]\<rparr>"
  let ?s6 = "?s4\<lparr>sv_threads := sv_threads s @ [Serving b, Serving b]\<rparr>"
  have steps: "serve_step sock s (Main (Accept sock) a) ?s1" "serve_step sock ?s1 (Main (Thread ''attend_request'' []) 0) ?s2"
    "serve_step sock ?s2 (Main (Accept sock) b) ?s3" "serve_step sock ?s3 (Main (Thread ''attend_request'' []) 0) ?s4"
    "serve_step sock ?s4 (Reads t b) ?s5" "serve_step sock ?s5 (Reads (t + 1) b) ?s6"
    using serve_step.accepts [of s sock a o1] serve_step.creates [of ?s1 0 o2 sock] serve_step.accepts [of ?s2 sock b o3]
      serve_step.creates [of ?s3 0 o4 sock] serve_step.reads [of t ?s4 sock] serve_step.reads [of "t + 1" ?s5 sock] os ab pc t
    by (simp_all add: list_update_append nth_append)
  have "serve_run sock (serving_start os c) es' ?s6"
    using serve_run.more [OF serve_run.more [OF serve_run.more [OF serve_run.more [OF serve_run.more [OF serve_run.more
      [OF run steps(1)] steps(2)] steps(3)] steps(4)] steps(5)] steps(6)] by (simp add: es')
  moreover have "created_by c es' = created_by c es @ [a, b]"
    by (simp add: es' created_append)
  ultimately show ?thesis by (intro exI [of _ ?s6]) simp
qed

section \<open>Descriptors\<close>

lemma configure_network_fds:
  assumes "run_state (configure_network ip port) s = (r, s')" and "\<And>n. -1 \<le> os_result s n"
  shows "0 \<le> r \<and> fds_of s' = r # fds_of s \<or> r = -1 \<and> fds_of s' = fds_of s"
proof -
  let ?fd = "os_result s (length (os_log s))"
  have "\<And>fd. owns fd (fds_of s) (or_close fd (Setsockopt fd ''TCP_NODELAY'') (\<lambda>r. r < 0)
      (or_close fd (Bind fd ip port) (\<lambda>r. r = -1) (or_close fd (Listen fd 128) (\<lambda>r. r = -1) (ret fd))))"
    by (intro owns_or_close owns_ret) simp_all
  moreover have "run_state (do { fd \<leftarrow> sys (Socket TCP); if fd < 0 then ret (-1) else or_close fd (Setsockopt fd ''TCP_NODELAY'') (\<lambda>r. r < 0)
      (or_close fd (Bind fd ip port) (\<lambda>r. r = -1) (or_close fd (Listen fd 128) (\<lambda>r. r = -1) (ret fd))) }) s = (r, s')"
    using assms(1) assms(2) [of "length (os_log s)"] unfolding configure_network_def run_bind run_sys prod.case
    by (cases "?fd = -1") (auto split: if_splits)
  ultimately show ?thesis by (intro socket_owns [where bad = "\<lambda>fd. fd < 0"]) auto
qed

section \<open>The program\<close>

lemma db_main_with_argument: "db_main n 2 cfg file rnd mal s = Some (s', st) \<Longrightarrow> st = ERROR \<and> s' = s"
  by (auto simp: db_main_def config_destroy_def split: if_splits option.splits bind_splits)

lemma db_main_runs:
  assumes "cf_read cfg" and "cf_users_db cfg = Some path" and "cf_num_ues cfg = Some num_ues" and "cf_db_ip_address cfg = Some ip"
    and "cf_db_port cfg = Some port" and "init_db (file path) num_ues rnd mal = Some (Some d)" and "argc \<noteq> 2"
    and "\<And>k. -1 \<le> os_result s k"
  shows "\<exists>sock t. run_state (configure_network ip port) s = (sock, t) \<and>
     (sock = -1 \<and> db_main n argc cfg file rnd mal s = Some (t, ERROR) \<and> fds_of t = fds_of s \<or>
      0 \<le> sock \<and> db_main n argc cfg file rnd mal s = Some (snd (run_state (main_worker n sock) t), OK) \<and> fds_of t = sock # fds_of s)"
proof -
  obtain sock t where c: "run_state (configure_network ip port) s = (sock, t)" by fastforce
  from configure_network_fds [OF c assms(8)] show ?thesis
    using assms(1-7) c by (auto simp: db_main_def config_destroy_def)
qed

section \<open>Property\<close>

text \<open>
  C36.  Who serves a connection, in every run of \<open>main_worker\<close> with its threads, whatever the operating system answers and whenever the
  threads read their argument.  Between two turns the main thread has made exactly the calls of some turns of \<open>main_worker\<close>, and when the system
  calls behave it has closed the connections it could not create a thread for and no others.  There is one thread per
  other connection; each thread serves the connection that was accepted last when it read the variable.  So when every
  thread has read before the next \<open>accept\<close>, the threads serve their own connections, in order, the last one perhaps not yet; but
  from every state in which two connections arrive before the first of their threads has read, the second can be served by both, while the first
  stays open and is served by none.
\<close>

theorem connections_served:
  assumes "serve_run sock (serving_start os c) es s"
  shows "os_log (sv_os s) = os_log os @ calls_of es \<and>
     (sv_pc s = At_accept \<longrightarrow> (\<exists>n. sv_os s = snd (run_state (main_worker n sock) os))) \<and>
     (sv_pc s = At_accept \<longrightarrow> (\<forall>n. -1 \<le> os_result os n) \<longrightarrow> fds_of (sv_os s) = rev (created_by c es) @ fds_of os) \<and>
     length (sv_threads s) = length (created_by c es) \<and>
     (\<forall>i t fd. i < length es \<longrightarrow> es ! i = Reads t fd \<longrightarrow> fd = last_accepted c (take i es)) \<and>
     (prompt c es \<longrightarrow> (\<exists>fds. created_by c es = read_by es @ fds \<and> length fds \<le> 1 \<and>
        sv_threads s = map Serving (read_by es) @ map (\<lambda>_. Starting) fds)) \<and>
     (\<forall>a b n t. sv_pc s = At_accept \<longrightarrow> n = length (os_log (sv_os s)) \<longrightarrow> t = length (sv_threads s) \<longrightarrow>
        map (os_result os) [n, n + 1, n + 2, n + 3] = [a, 0, b, 0] \<longrightarrow> a \<noteq> -1 \<longrightarrow> b \<noteq> -1 \<longrightarrow>
        (\<exists>s' es'. es' = es @ [Main (Accept sock) a, Main (Thread ''attend_request'' []) 0, Main (Accept sock) b,
             Main (Thread ''attend_request'' []) 0, Reads t b, Reads (t + 1) b] \<and>
           serve_run sock (serving_start os c) es' s' \<and> created_by c es' = created_by c es @ [a, b] \<and>
           sv_threads s' = sv_threads s @ [Serving b, Serving b] \<and> sv_pc s' = At_accept))"
proof (intro conjI allI impI)
  have inv: "serving_inv os c es s" "at_turn sock os s" using serve_run_inv [OF assms] by blast+
  show "os_log (sv_os s) = os_log os @ calls_of es" "length (sv_threads s) = length (created_by c es)"
    using inv(1) by (simp_all add: serving_inv_def)
  show "\<exists>n. sv_os s = snd (run_state (main_worker n sock) os)" if "sv_pc s = At_accept"
    using inv(2) that by (auto simp: at_turn_def Let_def)
  show "fds_of (sv_os s) = rev (created_by c es) @ fds_of os" if "sv_pc s = At_accept" "\<forall>n. -1 \<le> os_result os n"
    using inv(1) that by (simp add: serving_inv_def)
  show "fd = last_accepted c (take i es)" if "i < length es" "es ! i = Reads t fd" for i t fd
    using reads_last_accepted [OF assms that] .
  show "\<exists>fds. created_by c es = read_by es @ fds \<and> length fds \<le> 1 \<and>
      sv_threads s = map Serving (read_by es) @ map (\<lambda>_. Starting) fds" if "prompt c es"
    using prompt_run [OF assms that] by (auto split: if_splits)
  show "\<exists>s' es'. es' = es @ [Main (Accept sock) a, Main (Thread ''attend_request'' []) 0, Main (Accept sock) b,
             Main (Thread ''attend_request'' []) 0, Reads t b, Reads (t + 1) b] \<and>
           serve_run sock (serving_start os c) es' s' \<and> created_by c es' = created_by c es @ [a, b] \<and>
           sv_threads s' = sv_threads s @ [Serving b, Serving b] \<and> sv_pc s' = At_accept"
    if "sv_pc s = At_accept" "n = length (os_log (sv_os s))" "t = length (sv_threads s)"
      "map (os_result os) [n, n + 1, n + 2, n + 3] = [a, 0, b, 0]" "a \<noteq> -1" "b \<noteq> -1" for a b n t
    using overtaken_run [OF assms that(1,2) _ _ _ _ that(5,6,3) refl] that(4) by auto
qed

text \<open>Two prompt connections with a failed \<open>accept\<close> between them, and one whose thread is refused, before the two that collide.\<close>

definition ex_accepts :: os where
  "ex_accepts = \<lparr>os_result = (\<lambda>i. [4, 0, -1, 5, 11, 0, 6, 0, 7, 0] ! (i mod 10)), os_log = []\<rparr>"

theorem connections_served_witness:
  "\<exists>es s. serve_run 3 (serving_start ex_accepts 0) es s \<and> created_by 0 es = [4, 6, 7] \<and> fds_of (sv_os s) = [7, 6, 4] \<and>
     sv_threads s = [Serving 4, Serving 7, Serving 7]"
proof -
  let ?t = "Thread ''attend_request'' []"
  let ?s = "\<lambda>l pc client threads. \<lparr>sv_os = ex_accepts\<lparr>os_log := l\<rparr>, sv_pc = pc, sv_client = client, sv_threads = threads\<rparr>"
  let ?l = "[(Accept 3, 4), (?t, 0), (Accept 3, -1), (Accept 3, 5), (?t, 11), (Close 5, 0)]"
  let ?es = "[Main (Accept 3) 4, Main ?t 0, Reads 0 4, Main (Accept 3) (-1), Main (Accept 3) 5, Main ?t 11, Main (Close 5) 0]"
  have "serve_step 3 (serving_start ex_accepts 0) (Main (Accept 3) 4) (?s (take 1 ?l) At_create 4 [])"
    "serve_step 3 (?s (take 1 ?l) At_create 4 []) (Main ?t 0) (?s (take 2 ?l) At_accept 4 [Starting])"
    "serve_step 3 (?s (take 2 ?l) At_accept 4 [Starting]) (Reads 0 4) (?s (take 2 ?l) At_accept 4 [Serving 4])"
    "serve_step 3 (?s (take 2 ?l) At_accept 4 [Serving 4]) (Main (Accept 3) (-1)) (?s (take 3 ?l) At_accept (-1) [Serving 4])"
    "serve_step 3 (?s (take 3 ?l) At_accept (-1) [Serving 4]) (Main (Accept 3) 5) (?s (take 4 ?l) At_create 5 [Serving 4])"
    "serve_step 3 (?s (take 4 ?l) At_create 5 [Serving 4]) (Main ?t 11) (?s (take 5 ?l) At_close 5 [Serving 4])"
    "serve_step 3 (?s (take 5 ?l) At_close 5 [Serving 4]) (Main (Close 5) 0) (?s ?l At_accept 5 [Serving 4])"
    by (simp_all add: serve_step.simps run_sys ex_accepts_def serving_start_def)
  from serve_run.more [OF serve_run.more [OF serve_run.more [OF serve_run.more [OF serve_run.more [OF serve_run.more [OF serve_run.more
      [OF serve_run.none this(1)] this(2)] this(3)] this(4)] this(5)] this(6)] this(7)]
  have run: "serve_run 3 (serving_start ex_accepts 0) ?es (?s ?l At_accept 5 [Serving 4])" by simp
  have m: "map (os_result ex_accepts) [6, 6 + 1, 6 + 2, 6 + 3] = [6, 0, 7, 0]" by (simp add: ex_accepts_def)
  note c36 = connections_served [OF run, THEN conjunct2, THEN conjunct2, THEN conjunct2, THEN conjunct2, THEN conjunct2, THEN conjunct2,
    THEN spec, of 6, THEN spec, of 7, THEN spec, of 6, THEN spec, of 1, rule_format, OF _ _ _ m]
  from c36 obtain s es where s: "serve_run 3 (serving_start ex_accepts 0) es s"
    "created_by 0 es = [4, 6, 7]" "sv_threads s = [Serving 4, Serving 7, Serving 7]" "sv_pc s = At_accept"
    by fastforce
  have "-1 \<le> os_result ex_accepts n" for n
  proof -
    have "n mod 10 < 10" by simp
    then show ?thesis by (simp add: ex_accepts_def nth_Cons' )
  qed
  with connections_served [OF s(1)] s show ?thesis by (auto simp: fds_of_def ex_accepts_def)
qed

end
