(* ===== verification/Worker_Messages.thy ===== *)
theory Worker_Messages
  imports Prelude
begin

text \<open>
  The messages that the worker reads and builds.  The structs of Open5GS and of asn1c are generated or foreign code;
  what stands here are the members that corekube5g-worker/source sets or reads, under the names of the source, with
  the constants of corekube5g-worker/headers/corekube_config.h and of the Open5GS headers.
\<close>

section \<open>NAS messages of the UE\<close>

datatype gmm_message =
    Registration_request (mobile_identity: "byte list")
  | Authentication_response "byte list"
  | Authentication_failure byte "byte list"
  | Security_mode_complete (nas_message_container: "byte list option") (imeisv: "byte list option")
  | Registration_complete
  | Ul_nas_transport byte "byte list" "byte option"
  | Deregistration_request_from_ue byte bool bool
  | Other_gmm byte

text \<open>The NAS message types, \<open>OGS_NAS_5GS_...\<close>.\<close>

fun gmm_message_type :: "gmm_message \<Rightarrow> byte" where
  "gmm_message_type (Registration_request _) = 65"
| "gmm_message_type (Authentication_response _) = 87"
| "gmm_message_type (Authentication_failure _ _) = 89"
| "gmm_message_type (Security_mode_complete _ _) = 94"
| "gmm_message_type Registration_complete = 67"
| "gmm_message_type (Ul_nas_transport _ _ _) = 103"
| "gmm_message_type (Deregistration_request_from_ue _ _ _) = 69"
| "gmm_message_type (Other_gmm t) = t"

datatype gsm_message = Pdu_session_establishment_request byte | Other_gsm byte

fun gsm_message_type :: "gsm_message \<Rightarrow> byte" where
  "gsm_message_type (Pdu_session_establishment_request _) = 193"
| "gsm_message_type (Other_gsm t) = t"

abbreviation (input) "OGS_NAS_5GS_REGISTRATION_COMPLETE \<equiv> (67 :: byte)"
abbreviation (input) "OGS_NAS_5GS_DEREGISTRATION_REQUEST \<equiv> (69 :: byte)"
abbreviation (input) "OGS_NAS_5GS_SECURITY_MODE_COMPLETE \<equiv> (94 :: byte)"
abbreviation (input) "OGS_NAS_5GS_PDU_SESSION_ESTABLISHMENT_REQUEST \<equiv> (193 :: byte)"
abbreviation (input) "OGS_NAS_EXTENDED_PROTOCOL_DISCRIMINATOR_5GSM \<equiv> (0x2e :: byte)"
abbreviation (input) "OGS_NAS_EXTENDED_PROTOCOL_DISCRIMINATOR_5GMM \<equiv> (0x7e :: byte)"
abbreviation (input) "OGS_5GMM_CAUSE_SYNCH_FAILURE \<equiv> (21 :: byte)"
abbreviation (input) "OGS_NAS_5GS_MOBILE_IDENTITY_IMEISV \<equiv> (5 :: byte)"
abbreviation (input) "OGS_NAS_PAYLOAD_CONTAINER_N1_SM_INFORMATION \<equiv> (1 :: byte)"
abbreviation (input) "OGS_PDU_SESSION_TYPE_IPV4 \<equiv> (1 :: byte)"
abbreviation (input) "OGS_S_NSSAI_NO_SD_VALUE \<equiv> (0xffffff :: u32)"

section \<open>Configuration\<close>

abbreviation (input) "CoreKube_MCC \<equiv> (208 :: nat)"
abbreviation (input) "CoreKube_MNC \<equiv> (93 :: nat)"
abbreviation (input) "CoreKube_MNClen \<equiv> (2 :: nat)"
abbreviation (input) "CoreKube_AMFRegionID \<equiv> (2 :: nat)"
abbreviation (input) "CoreKube_AMFSetID \<equiv> (1 :: nat)"
abbreviation (input) "CoreKube_AMFPointer \<equiv> (0 :: nat)"
abbreviation (input) "CoreKube_RelativeCapacity \<equiv> (255 :: nat)"
abbreviation (input) "CoreKube_NSSAI_sST \<equiv> (1 :: byte)"
abbreviation (input) "CoreKube_AMF_Field \<equiv> [0x80, 0x00 :: byte]"
abbreviation (input) "CoreKube_NGKSI_TSC \<equiv> (0 :: byte)"
abbreviation (input) "CoreKube_NGKSI_Value \<equiv> (0 :: byte)"
abbreviation (input) "CoreKube_ABBA \<equiv> [0x00, 0x00 :: byte]"
abbreviation (input) "COREKUBE_NAS_SECURITY_DOWNLINK_DIRECTION \<equiv> (1 :: byte)"
abbreviation (input) "COREKUBE_NAS_SECURITY_UPLINK_DIRECTION \<equiv> (0 :: byte)"
abbreviation (input) "COREKUBE_NAS_SECURITY_MAC_SIZE \<equiv> (4 :: nat)"
abbreviation (input) "COREKUBE_NAS_SECURITY_ACCESS_TYPE_3GPP_ACCESS \<equiv> (1 :: byte)"
abbreviation (input) "COREKUBE_NAS_SECURITY_ENC_ALGORITHM \<equiv> (0 :: byte)"
abbreviation (input) "COREKUBE_NAS_SECURITY_INT_ALGORITHM \<equiv> (2 :: byte)"
abbreviation (input) "COREKUBE_AMBR_BPS \<equiv> (1 * 1024 * 1024 * 1024 :: u64)"
abbreviation (input) "COREKUBE_PDN_SESSION_IDENTITY \<equiv> (1 :: byte)"

section \<open>NAS messages of the worker\<close>

record authentication_request =
  ar_ngksi_tsc :: byte
  ar_ngksi_value :: byte
  ar_abba :: "byte list"
  ar_rand :: "byte list"
  ar_autn :: "byte list"

record security_mode_command =
  smc_integrity_algorithm :: byte
  smc_ciphering_algorithm :: byte
  smc_ngksi_tsc :: byte
  smc_ngksi_value :: byte
  smc_nr_ea :: byte
  smc_nr_ia :: byte
  smc_eutra_ea :: byte
  smc_eutra_ia :: byte
  smc_capability_length :: nat
  smc_imeisv_request_type :: byte
  smc_imeisv_request_value :: byte
  smc_retransmission :: byte

record registration_accept =
  ra_registration_result :: byte
  ra_amf_pointer :: nat
  ra_amf_region :: nat
  ra_amf_set :: nat
  ra_plmn :: "byte list"
  ra_m_tmsi :: u32
  ra_tai_plmn :: "byte list"
  ra_tac :: nat
  ra_allowed_nssai :: "byte list"
  ra_ims_vops_3gpp :: byte
  ra_t3512_unit :: byte
  ra_t3512_value :: byte

record dl_nas_transport =
  dl_payload_container_type :: byte
  dl_payload_container :: "byte list"
  dl_pdu_session_id :: byte
  dl_gmm_cause :: "byte option"
  dl_back_off_timer :: "byte option"

record qos_rule =
  qr_identifier :: byte
  qr_code :: byte
  qr_DQR_bit :: byte
  qr_filter_direction :: byte
  qr_filter_identifier :: byte
  qr_component_type :: byte
  qr_precedence :: byte
  qr_flow_segregation :: byte
  qr_flow_identifier :: byte

record pdu_session_establishment_accept =
  psa_pdu_session_identity :: byte
  psa_procedure_transaction_identity :: byte
  psa_selected_type :: byte
  psa_selected_value :: byte
  psa_qos_rule :: qos_rule
  psa_ambr_unit :: byte
  psa_ambr_downlink :: nat
  psa_ambr_uplink :: nat
  psa_pdn_type :: byte
  psa_address :: u32
  psa_sst :: byte
  psa_flow_identifier :: byte
  psa_flow_5qi :: byte
  psa_dns :: "byte list list"
  psa_dnn :: "byte list"

datatype nas_body =
    Authentication_request authentication_request
  | Security_mode_command security_mode_command
  | Registration_accept registration_accept
  | Dl_nas_transport dl_nas_transport
  | Deregistration_accept
  | Pdu_session_establishment_accept pdu_session_establishment_accept

text \<open>The members of \<open>message->h\<close>, which \<open>memset\<close> leaves 0 in plain messages, and the body.\<close>

record nas_message =
  extended_protocol_discriminator :: byte
  security_header_type :: byte
  nas_body :: nas_body

section \<open>NGAP messages\<close>

datatype criticality = Reject | Ignore | Notify

datatype procedure =
    NGSetup | InitialUEMessage | UplinkNASTransport | DownlinkNASTransport | InitialContextSetup
  | PDUSessionResourceSetup | UEContextRelease | Other_procedure nat

record pdu_session_setup_item =
  ps_pDUSessionID :: byte
  ps_pDUSessionNAS_PDU :: "byte list option"
  ps_sST :: byte
  ps_transfer :: "byte list"

datatype ngap_ie =
    Ie_AMF_UE_NGAP_ID u64
  | Ie_RAN_UE_NGAP_ID u64
  | Ie_NAS_PDU "byte list"
  | Ie_UserLocationInformation bool
  | Ie_GlobalRANNodeID "u32 option"
  | Ie_SupportedTAList
  | Ie_DefaultPagingDRX int
  | Ie_AMFName "byte list"
  | Ie_ServedGUAMIList "(byte list \<times> nat \<times> nat \<times> nat) list"
  | Ie_RelativeAMFCapacity nat
  | Ie_PLMNSupportList "(byte list \<times> byte list) list"
  | Ie_GUAMI "byte list" nat nat nat
  | Ie_AllowedNSSAI "(byte \<times> u32 option) list"
  | Ie_UESecurityCapabilities "byte list" "byte list" "byte list" "byte list"
  | Ie_SecurityKey "byte list"
  | Ie_MaskedIMEISV "byte list"
  | Ie_UEAggregateMaximumBitRate u64 u64
  | Ie_PDUSessionListSUReq "pdu_session_setup_item list"
  | Ie_PDUSessionListSURes "(byte \<times> byte list) list"
  | Ie_UE_NGAP_IDs u64 "u64 option"
  | Ie_Cause byte byte
  | Other_ie nat

datatype ngap_pdu =
    Initiating_message procedure criticality "(criticality \<times> ngap_ie) list"
  | Successful_outcome procedure criticality "(criticality \<times> ngap_ie) list"
  | Unsuccessful_outcome
  | Pdu_nothing

text \<open>The positions of the procedures in the enumerations \<open>..._value_PR\<close>, which are reported as metrics.\<close>

fun initiating_present :: "procedure \<Rightarrow> nat" where
  "initiating_present NGSetup = 7"
| "initiating_present InitialUEMessage = 37"
| "initiating_present UplinkNASTransport = 60"
| "initiating_present DownlinkNASTransport = 27"
| "initiating_present InitialContextSetup = 5"
| "initiating_present PDUSessionResourceSetup = 12"
| "initiating_present UEContextRelease = 16"
| "initiating_present (Other_procedure n) = n"

fun successful_present :: "procedure \<Rightarrow> nat" where
  "successful_present NGSetup = 7"
| "successful_present InitialContextSetup = 5"
| "successful_present PDUSessionResourceSetup = 12"
| "successful_present UEContextRelease = 16"
| "successful_present (Other_procedure n) = n"
| "successful_present _ = 0"

text \<open>The transfer containers of a PDU session, which are encoded on their own.\<close>

record request_transfer =
  rt_ambr_uplink :: u64
  rt_ambr_downlink :: u64
  rt_transport_address :: "byte list"
  rt_gTP_TEID :: "byte list"
  rt_pdu_session_type :: byte
  rt_qos_flow_identifier :: byte
  rt_fiveQI :: byte
  rt_priorityLevelARP :: byte

text \<open>The tunnel of a response transfer; \<open>None\<close> when it names no GTP tunnel.\<close>

record response_transfer =
  st_tunnel :: "(byte list \<times> byte list) option"

text \<open>
  \<open>response->responses\<close> is an array of \<open>void *\<close>: a NAS message that is turned into bytes in place, and then an NGAP
  message that is turned into bytes in place.
\<close>

datatype resp = R_nas nas_message | R_pkbuf "byte list" | R_ngap ngap_pdu

end
