(* ===== verification/Worker_Run.thy ===== *)
theory Worker_Run
  imports Prelude
begin

text \<open>
  How a handler of the worker runs.  A thread of the worker computes on memory of its own until it needs the database;
  there it waits for the mutex, exchanges one request for one answer and goes on.  \<open>'a run\<close> is such a program: it has
  returned, it has stopped, or it is about to exchange a request, with the rest of the program as a function of the
  answer.  The reasons for stopping are kept apart: a failed \<open>ogs_assert\<close>, undefined behaviour, a \<open>recv\<close> that waits for an
  answer that nobody sends, and a database server whose own behaviour is undefined.
\<close>

section \<open>Programs\<close>

datatype stop = Assertion_failed | Undefined_behaviour | Blocked | Server_stopped

datatype 'a run = Returns 'a | Stops stop | Access "byte list" nat "byte list \<Rightarrow> 'a run"

primrec andthen :: "'a run \<Rightarrow> ('a \<Rightarrow> 'b run) \<Rightarrow> 'b run" where
  "andthen (Returns x) f = f x"
| "andthen (Stops s) f = Stops s"
| "andthen (Access request n k) f = Access request n (\<lambda>b. andthen (k b) f)"

text \<open>\<open>ogs_assert\<close> aborts the process; a memory access outside an object, or through NULL, is undefined.\<close>

definition ogs_assert :: "bool \<Rightarrow> unit run" where
  "ogs_assert b = (if b then Returns () else Stops Assertion_failed)"

definition required :: "'a option \<Rightarrow> 'a run" where
  "required p = (case p of None \<Rightarrow> Stops Assertion_failed | Some x \<Rightarrow> Returns x)"

definition deref :: "'a option \<Rightarrow> 'a run" where
  "deref p = (case p of None \<Rightarrow> Stops Undefined_behaviour | Some x \<Rightarrow> Returns x)"

lemma run_simps [simp]:
  "ogs_assert True = Returns ()" "ogs_assert False = Stops Assertion_failed"
  "required (Some x) = Returns x" "required None = Stops Assertion_failed"
  "deref (Some x) = Returns x" "deref None = Stops Undefined_behaviour"
  by (simp_all add: ogs_assert_def required_def deref_def)

lemma andthen_assoc [simp]: "andthen (andthen m f) g = andthen m (\<lambda>x. andthen (f x) g)"
  by (induction m) simp_all

lemma andthen_Returns [simp]: "andthen m Returns = m"
  by (induction m) simp_all

section \<open>What a program asks for and returns\<close>

text \<open>\<open>leads Q R m\<close>: every request that the program makes satisfies \<open>Q\<close>, whatever it is answered, and every result \<open>R\<close>.\<close>

primrec leads :: "(byte list \<Rightarrow> nat \<Rightarrow> bool) \<Rightarrow> ('a \<Rightarrow> bool) \<Rightarrow> 'a run \<Rightarrow> bool" where
  "leads Q R (Returns x) \<longleftrightarrow> R x"
| "leads Q R (Stops s) \<longleftrightarrow> True"
| "leads Q R (Access request n k) \<longleftrightarrow> Q request n \<and> (\<forall>b. leads Q R (k b))"

named_theorems leading

lemma leads_andthen: "leads Q R m \<Longrightarrow> (\<And>x. R x \<Longrightarrow> leads Q S (f x)) \<Longrightarrow> leads Q S (andthen m f)"
  by (induction m) auto

lemma leads_mono: "leads Q R m \<Longrightarrow> (\<And>x. R x \<Longrightarrow> S x) \<Longrightarrow> leads Q S m"
  by (induction m) auto

text \<open>A step that makes no request.\<close>

lemma leads_pure [leading]:
  "leads Q S (ogs_assert b) \<longleftrightarrow> (b \<longrightarrow> S ())"
  "leads Q R (required p) \<longleftrightarrow> (\<forall>x. p = Some x \<longrightarrow> R x)"
  "leads Q R (deref p) \<longleftrightarrow> (\<forall>x. p = Some x \<longrightarrow> R x)"
  by (simp_all add: ogs_assert_def required_def deref_def split: option.split)

lemma leads_pure_any [simp, intro!]:
  "leads Q (\<lambda>_. True) (ogs_assert b)" "leads Q (\<lambda>_. True) (required p)" "leads Q (\<lambda>_. True) (deref p)"
  by (simp_all add: leading)

lemma leads_andthen_pure [leading]:
  "leads Q R (andthen (ogs_assert b) f) \<longleftrightarrow> (b \<longrightarrow> leads Q R (f ()))"
  "leads Q R (andthen (required p) g) \<longleftrightarrow> (\<forall>x. p = Some x \<longrightarrow> leads Q R (g x))"
  "leads Q R (andthen (deref p) g) \<longleftrightarrow> (\<forall>x. p = Some x \<longrightarrow> leads Q R (g x))"
  by (simp_all add: ogs_assert_def required_def deref_def split: option.split)

lemma andthen_leads_cong:
  "leads (\<lambda>_ _. True) R m \<Longrightarrow> (\<And>x. R x \<Longrightarrow> f x = g x) \<Longrightarrow> andthen m f = andthen m g"
  by (induction m) auto

text \<open>What a program returns when the database gives the answers of a list, whatever they are.\<close>

fun answered :: "'a run \<Rightarrow> byte list list \<Rightarrow> 'a option" where
  "answered (Returns x) bs = Some x"
| "answered (Stops s) bs = None"
| "answered (Access request n k) [] = None"
| "answered (Access request n k) (b # bs) = answered (k b) bs"

lemma leads_answered: "leads Q R m \<Longrightarrow> answered m bs = Some x \<Longrightarrow> R x"
  by (induction m bs rule: answered.induct) auto

end
