(* ===== verification/Worker_Db.thy ===== *)
theory Worker_Db
  imports Roundtrip Worker_Messages Worker_Run
begin

text \<open>
  The worker of the core network keeps no state of its own: whatever it knows about a subscriber it fetches from the
  database while it handles a message.  This theory holds corekube5g-worker/source/db_accesses.c, the request and
  response exchange over one connection to the model of the database server, and the functions of the libraries of
  Open5GS and asn1c that the worker calls.

  The functions that only form bytes are functions into \<open>option\<close>, \<open>None\<close> for an access outside an object; what uses the
  database is a \<open>run\<close>.
\<close>

section \<open>Library functions\<close>

text \<open>
  What the libraries do is an argument of the model, and so is the memory the code uses without having set it.
  \<open>o_slack n\<close> is the number of bytes behind a block of \<open>n\<close> bytes from \<open>ogs_calloc\<close> that belong to no object, so that a write there is
  without effect; nothing says that there are any.  \<open>o_behind_imsi\<close> are such bytes behind the array \<open>imsi\<close> of 15 bytes on the
  stack, \<open>o_stack\<close> the 16 bytes that an uninitialised array of the stack holds, \<open>o_null\<close> tells which members of an
  uninitialised \<open>corekube_db_pulls_t\<close> happen to be NULL.  Every property holds for all of these.
\<close>

record ogs =
  o_slack :: "nat \<Rightarrow> nat"
  o_null :: "pfield \<Rightarrow> bool"
  o_stack :: "byte list"
  o_behind_imsi :: "byte list"
  o_headroom :: "byte list"
  ogs_asn_uint32_to_OCTET_STRING :: "u32 \<Rightarrow> byte list"
  ogs_asn_OCTET_STRING_to_uint32 :: "byte list \<Rightarrow> u32"
  ogs_buffer_to_uint64 :: "byte list \<Rightarrow> u64"
  ogs_uint64_to_buffer :: "u64 \<Rightarrow> byte list"
  ogs_nas_5gs_imsi_to_bcd :: "byte list \<Rightarrow> byte list"
  ogs_nas_imeisv_to_buffer :: "byte list \<Rightarrow> byte list"
  ogs_plmn_id_build :: "nat \<Rightarrow> nat \<Rightarrow> nat \<Rightarrow> byte list"
  ogs_serving_network_name_from_plmn_id :: "byte list \<Rightarrow> byte list"
  ogs_nas_5gs_suci_from_mobile_identity :: "byte list \<Rightarrow> byte list"
  ogs_supi_from_suci :: "byte list \<Rightarrow> byte list"
  milenage_generate :: "byte list \<Rightarrow> byte list \<Rightarrow> byte list \<Rightarrow> byte list \<Rightarrow> byte list \<Rightarrow>
    byte list \<times> byte list \<times> byte list \<times> byte list"
  ogs_auc_sqn :: "byte list \<Rightarrow> byte list \<Rightarrow> byte list \<Rightarrow> byte list \<Rightarrow> byte list"
  ogs_kdf_kausf :: "byte list \<Rightarrow> byte list \<Rightarrow> byte list \<Rightarrow> byte list \<Rightarrow> byte list"
  ogs_kdf_kseaf :: "byte list \<Rightarrow> byte list \<Rightarrow> byte list"
  ogs_kdf_kamf :: "byte list \<Rightarrow> byte list \<Rightarrow> byte list \<Rightarrow> byte list"
  ogs_kdf_nas_5gs :: "byte \<Rightarrow> byte \<Rightarrow> byte list \<Rightarrow> byte list"
  ogs_kdf_kgnb_and_kn3iwf :: "byte list \<Rightarrow> u32 \<Rightarrow> byte \<Rightarrow> byte list"
  ogs_nas_mac_calculate :: "byte \<Rightarrow> byte list \<Rightarrow> u32 \<Rightarrow> byte \<Rightarrow> byte \<Rightarrow> byte list \<Rightarrow> byte list"
  ogs_nas_encrypt :: "byte \<Rightarrow> byte list \<Rightarrow> u32 \<Rightarrow> byte \<Rightarrow> byte \<Rightarrow> byte list \<Rightarrow> byte list"
  ogs_nas_5gmm_decode :: "byte list \<Rightarrow> gmm_message option"
  ogs_nas_5gsm_decode :: "byte list \<Rightarrow> gsm_message option"
  ogs_nas_5gs_plain_encode :: "nas_message \<Rightarrow> byte list option"
  ogs_ngap_decode :: "byte list \<Rightarrow> ngap_pdu option"
  ogs_ngap_encode :: "ngap_pdu \<Rightarrow> byte list option"
  ogs_asn_encode_request_transfer :: "request_transfer \<Rightarrow> byte list option"
  ogs_asn_decode_response_transfer :: "byte list \<Rightarrow> response_transfer option"
  ogs_asn_BIT_STRING_to_ip :: "byte list \<Rightarrow> bool \<times> u32"

section \<open>The state of a message in progress\<close>

text \<open>
  \<open>w_batch\<close> are the observations for the metrics bus; those that measure a duration are left out.
  \<open>w_responses\<close> and \<open>w_sctpStreamID\<close> are the members of \<open>message_handler_response_t\<close>; \<open>num_responses\<close> is the length.
  \<open>w_warnings\<close> is what \<open>ogs_warn\<close> has written to the log.
\<close>

record worker =
  w_batch :: "(string \<times> int) list"
  w_responses :: "resp list"
  w_sctpStreamID :: byte
  w_warnings :: "string list"

definition fresh_worker :: worker where
  "fresh_worker = \<lparr>w_batch = [], w_responses = [], w_sctpStreamID = 0, w_warnings = []\<rparr>"

definition observe :: "string \<Rightarrow> int \<Rightarrow> worker \<Rightarrow> worker" where
  "observe name v w = w\<lparr>w_batch := w_batch w @ [(name, v)]\<rparr>"

definition ogs_warn :: "string \<Rightarrow> worker \<Rightarrow> worker" where
  "ogs_warn s w = w\<lparr>w_warnings := w_warnings w @ [s]\<rparr>"

definition respond :: "resp list \<Rightarrow> worker \<Rightarrow> worker" where
  "respond rs w = w\<lparr>w_responses := rs\<rparr>"

section \<open>Requests\<close>

definition db_buffer_input_size :: "nat \<Rightarrow> nat \<Rightarrow> nat" where
  "db_buffer_input_size numPush numPull = 18 + 17 * numPush + numPull"

definition db_buffer_output_size :: "nat \<Rightarrow> nat" where
  "db_buffer_output_size numPull = 17 * numPull"

fun form_pushes :: "nat \<Rightarrow> va_arg list \<Rightarrow> buf \<Rightarrow> nat \<Rightarrow> (buf \<times> nat \<times> va_arg list) option" where
  "form_pushes 0 ap buffer p = Some (buffer, p, ap)"
| "form_pushes (Suc n) (VaInt t # VaPtr v # ap) buffer p = do {
     (buffer, p) \<leftarrow> push_item buffer p (of_int t) v;
     form_pushes n ap buffer p }"
| "form_pushes (Suc n) _ buffer p = None"

fun form_pulls :: "nat \<Rightarrow> va_arg list \<Rightarrow> buf \<Rightarrow> nat \<Rightarrow> (buf \<times> nat) option" where
  "form_pulls 0 ap buffer p = Some (buffer, p)"
| "form_pulls (Suc n) (VaInt t # ap) buffer p = do {
     (buffer, p) \<leftarrow> pull_item buffer p (of_int t);
     form_pulls n ap buffer p }"
| "form_pulls (Suc n) _ buffer p = None"

definition form_db_request :: "buf \<Rightarrow> va_arg list \<Rightarrow> byte \<Rightarrow> byte list \<Rightarrow> nat \<Rightarrow> nat \<Rightarrow> buf option" where
  "form_db_request buffer ap dbKey dbKeyValue numPush numPull = do {
     (buffer, p) \<leftarrow> add_identifier buffer 0 dbKey dbKeyValue;
     (buffer, p, ap) \<leftarrow> form_pushes numPush ap buffer p;
     buffer \<leftarrow> wr buffer p 0;
     (buffer, p) \<leftarrow> form_pulls numPull ap buffer (p + 1);
     wr buffer p (item_code EOM) }"

text \<open>The variable arguments of an access: an item that is pulled, and an item that is pushed with its value.\<close>

definition item_arg :: "item \<Rightarrow> va_arg" where
  "item_arg it = VaInt (uint (item_code it))"

definition push_arg :: "item \<Rightarrow> byte list \<Rightarrow> va_arg list" where
  "push_arg it v = [item_arg it, VaPtr v]"

section \<open>The connection\<close>

text \<open>
  \<open>send_request\<close> hands the request to the server, whose thread for this connection answers it; \<open>recv_response\<close> takes what
  one \<open>send\<close> of the server has delivered, at most \<open>n\<close> bytes, and nothing when the server has closed the connection.
\<close>

definition send_request :: "conn \<Rightarrow> byte list \<Rightarrow> (conn \<times> conn_state) option" where
  "send_request c request = attend_request c [Recv_data request]"

definition recv_response :: "conn \<Rightarrow> conn_state \<Rightarrow> nat \<Rightarrow> (byte list \<times> conn) option" where
  "recv_response c st n =
     (case c_sent c of
        [] \<Rightarrow> (case st of Closed \<Rightarrow> Some ([], c) | Open \<Rightarrow> None)
      | m # ms \<Rightarrow> Some (take n m, c\<lparr>c_sent := (if n < length m then drop n m # ms else ms)\<rparr>))"

text \<open>
  The part of \<open>db_access\<close> that holds \<open>db_sock_mutex\<close>, so that no other thread uses the connection between the request and
  the answer: the assertion on the length of the answer comes before the mutex is released.
\<close>

definition db_exchange :: "conn \<Rightarrow> byte list \<Rightarrow> nat \<Rightarrow> (stop + byte list) \<times> conn" where
  "db_exchange c request n =
     (case send_request c request of
        None \<Rightarrow> (Inl Server_stopped, c)
      | Some (c, st) \<Rightarrow>
          if n = 0 then (Inr [], c)
          else (case recv_response c st n of
                  None \<Rightarrow> (Inl Blocked, c)
                | Some (answer, c) \<Rightarrow> if length answer = n then (Inr answer, c) else (Inl Assertion_failed, c)))"

text \<open>A program alone on the connection: its exchanges follow each other.\<close>

datatype 'a result = Done 'a | Halted stop

primrec exec :: "'a run \<Rightarrow> conn \<Rightarrow> 'a result \<times> conn" where
  "exec (Returns x) c = (Done x, c)"
| "exec (Stops s) c = (Halted s, c)"
| "exec (Access request n k) c =
     (case db_exchange c request n of (Inl s, c) \<Rightarrow> (Halted s, c) | (Inr answer, c) \<Rightarrow> exec (k answer) c)"

lemma exec_andthen [simp]:
  "exec (andthen m f) c = (case exec m c of (Done x, c) \<Rightarrow> exec (f x) c | (Halted s, c) \<Rightarrow> (Halted s, c))"
  by (induction m arbitrary: c) (auto split: prod.splits sum.splits)

text \<open>
  \<open>db_access\<close>.  The request is formed in a block of \<open>bufferInputSize\<close> bytes; the end mark is the byte behind it.  The answer is
  the block \<open>dbPulls->head\<close>, into which the pointers of \<open>dbPulls\<close> point.
\<close>

definition uninitialised :: "ogs \<Rightarrow> db_pulls" where
  "uninitialised L f = (if o_null L f then Null else Indeterminate)"

definition db_access :: "ogs \<Rightarrow> item \<Rightarrow> byte list \<Rightarrow> nat \<Rightarrow> nat \<Rightarrow> va_arg list \<Rightarrow> (byte list \<times> db_pulls) run" where
  "db_access L dbKey dbKeyValue numPush numPull ap =
    (let bufferInputSize = db_buffer_input_size numPush numPull; bufferOutputSize = db_buffer_output_size numPull in
     andthen (deref (form_db_request (replicate (bufferInputSize + o_slack L bufferInputSize) 0) ap (item_code dbKey)
       dbKeyValue numPush numPull)) (\<lambda>inputBuffer.
     andthen (deref (rdn inputBuffer 0 bufferInputSize)) (\<lambda>request.
     Access request bufferOutputSize (\<lambda>answer.
     andthen (deref (wrn (replicate bufferOutputSize 0) 0 answer)) (\<lambda>outputBuffer.
     andthen (deref (extract_db_values outputBuffer (length answer) (uninitialised L))) (\<lambda>dbPulls.
     Returns (outputBuffer, dbPulls)))))))"

text \<open>A member of \<open>dbPulls\<close>: the test against NULL and a read of \<open>n\<close> bytes behind the pointer.\<close>

fun is_set :: "cptr \<Rightarrow> bool option" where
  "is_set Indeterminate = None"
| "is_set Null = Some False"
| "is_set (At i) = Some True"

fun pulled :: "byte list \<Rightarrow> cptr \<Rightarrow> nat \<Rightarrow> nat \<Rightarrow> byte list option" where
  "pulled head (At i) k n = rdn head (i + k) n"
| "pulled head _ k n = None"

end
