(* ===== verification/Worker_Nas.thy ===== *)
theory Worker_Nas
  imports Worker_Db
begin

text \<open>
  The NAS layer of the worker: the security functions of nas_security.c, the handlers of the messages of the UE, the
  functions that build the answers, and the dispatch of nas_handler.c, all in corekube5g-worker/source.  A handler
  is a \<open>run\<close> that returns its status, the parameters and the state; a caller asserts that the status is \<open>OK\<close>.
\<close>

section \<open>Parameters\<close>

record security_params =
  ul_count :: u32
  dl_count :: u32
  knas_int :: "byte list option"
  knas_enc :: "byte list option"
  kamf :: "byte list option"

definition no_security :: security_params where
  "no_security = \<lparr>ul_count = 0, dl_count = 0, knas_int = None, knas_enc = None, kamf = None\<rparr>"

record nas_params =
  ran_ue_ngap_id :: u64
  amf_ue_ngap_id :: "u64 option"
  nas_message_type :: byte
  masked_imeisv :: "byte list option"
  nas_security_params :: "security_params option"

section \<open>Packet buffers\<close>

text \<open>The inline functions of lib/core/ogs-pkbuf.h: the bytes, the position of \<open>data\<close> and \<open>len\<close>.\<close>

record pkbuf =
  pk_mem :: buf
  pk_data :: nat
  pk_len :: nat

definition ogs_pkbuf_pull :: "pkbuf \<Rightarrow> nat \<Rightarrow> bool \<times> pkbuf" where
  "ogs_pkbuf_pull pk n =
     (if pk_len pk < n then (False, pk) else (True, pk\<lparr>pk_data := pk_data pk + n, pk_len := pk_len pk - n\<rparr>))"

definition ogs_pkbuf_push :: "pkbuf \<Rightarrow> nat \<Rightarrow> pkbuf run" where
  "ogs_pkbuf_push pk n =
     andthen (ogs_assert (n \<le> pk_data pk)) (\<lambda>_.
     Returns (pk\<lparr>pk_data := pk_data pk - n, pk_len := pk_len pk + n\<rparr>))"

definition pk_bytes :: "pkbuf \<Rightarrow> byte list option" where
  "pk_bytes pk = rdn (pk_mem pk) (pk_data pk) (pk_len pk)"

section \<open>Keys\<close>

datatype counts = NAS_COUNTS_BOTH_UL_DL | NAS_COUNTS_JUST_UL | NAS_COUNTS_JUST_DL

text \<open>A count is read behind its pointer when the pointer is not NULL.\<close>

definition pulled_count :: "ogs \<Rightarrow> byte list \<Rightarrow> cptr \<Rightarrow> u32 option run" where
  "pulled_count L head p =
     andthen (deref (is_set p)) (\<lambda>b.
     if b then andthen (deref (pulled head p 2 4)) (\<lambda>c. Returns (Some (ogs_asn_OCTET_STRING_to_uint32 L c)))
     else Returns None)"

definition nas_security_store_keys_in_params ::
  "ogs \<Rightarrow> byte list \<Rightarrow> db_pulls \<Rightarrow> security_params option \<Rightarrow> security_params run" where
  "nas_security_store_keys_in_params L head db_pulls params =
     andthen (required params) (\<lambda>sp.
     andthen (deref (is_set (db_pulls P_kasme1))) (\<lambda>b1. andthen (ogs_assert b1) (\<lambda>_.
     andthen (deref (is_set (db_pulls P_kasme2))) (\<lambda>b2. andthen (ogs_assert b2) (\<lambda>_.
     andthen (deref (pulled head (db_pulls P_kasme1) 0 16)) (\<lambda>k1.
     andthen (deref (pulled head (db_pulls P_kasme2) 0 16)) (\<lambda>k2.
     let kamf = k1 @ k2;
         sp = sp\<lparr>kamf := Some kamf,
                 knas_int := Some (ogs_kdf_nas_5gs L 0x02 COREKUBE_NAS_SECURITY_INT_ALGORITHM kamf),
                 knas_enc := Some (ogs_kdf_nas_5gs L 0x01 COREKUBE_NAS_SECURITY_ENC_ALGORITHM kamf)\<rparr> in
     andthen (pulled_count L head (db_pulls P_epc_nas_sequence_number)) (\<lambda>dl.
     let sp = (case dl of None \<Rightarrow> sp | Some n \<Rightarrow> sp\<lparr>dl_count := n\<rparr>) in
     andthen (pulled_count L head (db_pulls P_ue_nas_sequence_number)) (\<lambda>ul.
     Returns (case ul of None \<Rightarrow> sp | Some n \<Rightarrow> sp\<lparr>ul_count := n\<rparr>))))))))))"

fun counts_pulls :: "counts \<Rightarrow> item list" where
  "counts_pulls NAS_COUNTS_BOTH_UL_DL = [KASME_1, KASME_2, EPC_NAS_SEQUENCE_NUMBER, UE_NAS_SEQUENCE_NUMBER]"
| "counts_pulls NAS_COUNTS_JUST_DL = [KASME_1, KASME_2, EPC_NAS_SEQUENCE_NUMBER]"
| "counts_pulls NAS_COUNTS_JUST_UL = [KASME_1, KASME_2, UE_NAS_SEQUENCE_NUMBER]"

abbreviation id_bytes :: "ogs \<Rightarrow> u64 \<Rightarrow> byte list" where
  "id_bytes L i \<equiv> ogs_asn_uint32_to_OCTET_STRING L (ucast i)"

definition nas_security_fetch_keys :: "ogs \<Rightarrow> nas_params \<Rightarrow> counts \<Rightarrow> nas_params run" where
  "nas_security_fetch_keys L params includeCounts =
     andthen (required (amf_ue_ngap_id params)) (\<lambda>i.
     let pulls = counts_pulls includeCounts in
     andthen (db_access L MME_UE_S1AP_ID (id_bytes L i) 0 (length pulls) (map item_arg pulls)) (\<lambda>(head, db_pulls).
     andthen (nas_security_store_keys_in_params L head db_pulls (nas_security_params params)) (\<lambda>sp.
     Returns (params\<lparr>nas_security_params := Some sp\<rparr>))))"

text \<open>The integrity key, fetched when it is missing.\<close>

definition need_knas_int :: "ogs \<Rightarrow> counts \<Rightarrow> nas_params \<Rightarrow> (byte list \<times> security_params \<times> nas_params) run" where
  "need_knas_int L includeCounts params =
     andthen (deref (nas_security_params params)) (\<lambda>sp.
     andthen (if knas_int sp = None then nas_security_fetch_keys L params includeCounts else Returns params) (\<lambda>params.
     andthen (deref (nas_security_params params)) (\<lambda>sp.
     andthen (deref (knas_int sp)) (\<lambda>k.
     Returns (k, sp, params)))))"

definition need_knas_enc :: "ogs \<Rightarrow> counts \<Rightarrow> nas_params \<Rightarrow> (byte list \<times> security_params \<times> nas_params) run" where
  "need_knas_enc L includeCounts params =
     andthen (deref (nas_security_params params)) (\<lambda>sp.
     andthen (if knas_enc sp = None then nas_security_fetch_keys L params includeCounts else Returns params) (\<lambda>params.
     andthen (deref (nas_security_params params)) (\<lambda>sp.
     andthen (deref (knas_enc sp)) (\<lambda>k.
     Returns (k, sp, params)))))"

definition nas_5gs_generate_keys :: "ogs \<Rightarrow> byte list \<Rightarrow> byte list \<Rightarrow> byte list \<Rightarrow> byte list \<Rightarrow> byte list \<Rightarrow>
    (byte list \<times> byte list) run" where
  "nas_5gs_generate_keys L mob_ident opc key rand sqn =
    (let (autn, ik, ck, res) = milenage_generate L opc CoreKube_AMF_Field key sqn rand in
     andthen (ogs_assert (res \<noteq> [])) (\<lambda>_.
     let PLMNid = ogs_plmn_id_build L CoreKube_MCC CoreKube_MNC CoreKube_MNClen;
         serving_network_name = ogs_serving_network_name_from_plmn_id L PLMNid;
         kausf = ogs_kdf_kausf L ck ik serving_network_name autn;
         kseaf = ogs_kdf_kseaf L serving_network_name kausf;
         supi = ogs_supi_from_suci L (ogs_nas_5gs_suci_from_mobile_identity L mob_ident) in
     Returns (autn, ogs_kdf_kamf L supi CoreKube_ABBA kseaf)))"

section \<open>Security of a message\<close>

fun header_flags :: "byte \<Rightarrow> (bool \<times> bool) option" where
  "header_flags t =
     (if t = 0 then Some (False, False)
      else if t = 1 then Some (True, False)
      else if t = 2 then Some (True, True)
      else if t = 3 then Some (True, False)
      else if t = 4 then Some (True, True)
      else None)"

text \<open>The result is \<open>NULL\<close> for a header type that is not implemented and when the encoder fails.\<close>

definition nas_5gs_security_encode :: "ogs \<Rightarrow> nas_params \<Rightarrow> nas_message \<Rightarrow> (byte list option \<times> nas_params) run" where
  "nas_5gs_security_encode L params message =
     andthen (required (nas_security_params params)) (\<lambda>sp.
     case header_flags (security_header_type message) of
       None \<Rightarrow> Returns (None, params)
     | Some (integrity_protected, ciphered) \<Rightarrow>
         if security_header_type message = 0 then Returns (ogs_nas_5gs_plain_encode L message, params)
         else
          (let ciphered = (ciphered \<and> COREKUBE_NAS_SECURITY_ENC_ALGORITHM \<noteq> 0);
               integrity_protected = (integrity_protected \<and> COREKUBE_NAS_SECURITY_INT_ALGORITHM \<noteq> 0);
               sequence_number = (ucast (dl_count sp) :: byte) in
           case ogs_nas_5gs_plain_encode L message of
             None \<Rightarrow> Returns (None, params)
           | Some new \<Rightarrow>
               andthen (if ciphered then
                   andthen (need_knas_enc L NAS_COUNTS_JUST_DL params) (\<lambda>(k, sp, params).
                   Returns (ogs_nas_encrypt L COREKUBE_NAS_SECURITY_ENC_ALGORITHM k (dl_count sp)
                     COREKUBE_NAS_SECURITY_ACCESS_TYPE_3GPP_ACCESS COREKUBE_NAS_SECURITY_DOWNLINK_DIRECTION new, params))
                 else Returns (new, params)) (\<lambda>(new, params).
               let new = sequence_number # new in
               andthen (if integrity_protected then
                   andthen (need_knas_int L NAS_COUNTS_JUST_DL params) (\<lambda>(k, sp, params).
                   andthen (deref (rdn (ogs_nas_mac_calculate L COREKUBE_NAS_SECURITY_INT_ALGORITHM k (dl_count sp)
                     COREKUBE_NAS_SECURITY_ACCESS_TYPE_3GPP_ACCESS COREKUBE_NAS_SECURITY_DOWNLINK_DIRECTION new)
                     0 COREKUBE_NAS_SECURITY_MAC_SIZE)) (\<lambda>mac.
                   Returns (mac, params)))
                 else Returns (replicate 4 0, params)) (\<lambda>(mac, params).
               Returns (Some ([extended_protocol_discriminator message, security_header_type message] @ mac @ new), params)))))"

text \<open>A code that does not verify is logged.\<close>

definition nas_5gs_security_decode :: "ogs \<Rightarrow> nas_params \<Rightarrow> bool \<times> bool \<Rightarrow> pkbuf \<Rightarrow> worker \<Rightarrow>
    (nas_params \<times> pkbuf \<times> worker) run" where
  "nas_5gs_security_decode L params header_type pk w =
     andthen (deref (rd (pk_mem pk) (pk_data pk))) (\<lambda>e.
     if e = OGS_NAS_EXTENDED_PROTOCOL_DISCRIMINATOR_5GSM then Returns (params, pk, w)
     else
      (let integrity_protected = (fst header_type \<and> COREKUBE_NAS_SECURITY_INT_ALGORITHM \<noteq> 0);
           ciphered = (snd header_type \<and> COREKUBE_NAS_SECURITY_ENC_ALGORITHM \<noteq> 0) in
       if ciphered \<or> integrity_protected then
         andthen (ogs_pkbuf_push pk 7) (\<lambda>pk.
         let h = pk_data pk; (ok, pk) = ogs_pkbuf_pull pk 6 in
         andthen (ogs_assert ok) (\<lambda>_.
         andthen (if integrity_protected then
             andthen (deref (rdn (pk_mem pk) (h + 2) COREKUBE_NAS_SECURITY_MAC_SIZE)) (\<lambda>original_mac.
             andthen (need_knas_int L NAS_COUNTS_BOTH_UL_DL params) (\<lambda>(k, sp, params).
             andthen (deref (pk_bytes pk)) (\<lambda>bs.
             andthen (deref (rdn (ogs_nas_mac_calculate L COREKUBE_NAS_SECURITY_INT_ALGORITHM k (ul_count sp)
               COREKUBE_NAS_SECURITY_ACCESS_TYPE_3GPP_ACCESS COREKUBE_NAS_SECURITY_UPLINK_DIRECTION bs)
               0 COREKUBE_NAS_SECURITY_MAC_SIZE)) (\<lambda>mac.
             Returns (params, if mac \<noteq> original_mac then ogs_warn ''NAS MAC verification failed'' w else w)))))
           else Returns (params, w)) (\<lambda>(params, w).
         let (ok, pk) = ogs_pkbuf_pull pk 1 in
         andthen (ogs_assert ok) (\<lambda>_.
         if ciphered then
           andthen (need_knas_enc L NAS_COUNTS_BOTH_UL_DL params) (\<lambda>(k, sp, params).
           andthen (deref (pk_bytes pk)) (\<lambda>bs.
           andthen (deref (wrn (pk_mem pk) (pk_data pk) (ogs_nas_encrypt L COREKUBE_NAS_SECURITY_ENC_ALGORITHM k (ul_count sp)
             COREKUBE_NAS_SECURITY_ACCESS_TYPE_3GPP_ACCESS COREKUBE_NAS_SECURITY_UPLINK_DIRECTION bs))) (\<lambda>mem.
           Returns (params, pk\<lparr>pk_mem := mem\<rparr>, w))))
         else Returns (params, pk, w)))))
       else Returns (params, pk, w)))"

section \<open>Answers\<close>

definition nas_build_authentication_request :: "byte list \<Rightarrow> byte list \<Rightarrow> nas_message" where
  "nas_build_authentication_request rand autn =
     \<lparr>extended_protocol_discriminator = 0, security_header_type = 0, nas_body = Authentication_request
       \<lparr>ar_ngksi_tsc = CoreKube_NGKSI_TSC, ar_ngksi_value = CoreKube_NGKSI_Value, ar_abba = CoreKube_ABBA,
        ar_rand = rand, ar_autn = autn\<rparr>\<rparr>"

definition nas_build_security_mode_command :: "status \<times> nas_message" where
  "nas_build_security_mode_command =
     (if COREKUBE_NAS_SECURITY_INT_ALGORITHM = 0 then ERROR else OK,
      \<lparr>extended_protocol_discriminator = OGS_NAS_EXTENDED_PROTOCOL_DISCRIMINATOR_5GMM, security_header_type = 3,
       nas_body = Security_mode_command
         \<lparr>smc_integrity_algorithm = COREKUBE_NAS_SECURITY_INT_ALGORITHM,
          smc_ciphering_algorithm = COREKUBE_NAS_SECURITY_ENC_ALGORITHM,
          smc_ngksi_tsc = CoreKube_NGKSI_TSC, smc_ngksi_value = CoreKube_NGKSI_Value,
          smc_nr_ea = 0xF0, smc_nr_ia = 0xF0, smc_eutra_ea = 0xF0, smc_eutra_ia = 0xF0, smc_capability_length = 4,
          smc_imeisv_request_type = 0xc, smc_imeisv_request_value = 1, smc_retransmission = 1\<rparr>\<rparr>)"

definition nas_build_registration_accept :: "ogs \<Rightarrow> u32 \<Rightarrow> nas_message" where
  "nas_build_registration_accept L m_tmsi =
     (let PLMNid = ogs_plmn_id_build L CoreKube_MCC CoreKube_MNC CoreKube_MNClen in
      \<lparr>extended_protocol_discriminator = OGS_NAS_EXTENDED_PROTOCOL_DISCRIMINATOR_5GMM, security_header_type = 2,
       nas_body = Registration_accept
         \<lparr>ra_registration_result = COREKUBE_NAS_SECURITY_ACCESS_TYPE_3GPP_ACCESS,
          ra_amf_pointer = CoreKube_AMFPointer, ra_amf_region = CoreKube_AMFRegionID, ra_amf_set = CoreKube_AMFSetID,
          ra_plmn = PLMNid, ra_m_tmsi = m_tmsi, ra_tai_plmn = PLMNid, ra_tac = 1, ra_allowed_nssai = [0, 0],
          ra_ims_vops_3gpp = 1, ra_t3512_unit = 1, ra_t3512_value = 9\<rparr>\<rparr>)"

definition nas_build_deregistration_accept :: nas_message where
  "nas_build_deregistration_accept =
     \<lparr>extended_protocol_discriminator = OGS_NAS_EXTENDED_PROTOCOL_DISCRIMINATOR_5GMM, security_header_type = 2,
      nas_body = Deregistration_accept\<rparr>"

text \<open>The optional parameters: a cause, and a timer in units of two seconds.\<close>

definition nas_build_dl_nas_transport :: "byte \<Rightarrow> byte list \<Rightarrow> byte option \<Rightarrow> byte option \<Rightarrow> nas_message" where
  "nas_build_dl_nas_transport container_type container gmm_cause back_off_timer_value =
     \<lparr>extended_protocol_discriminator = OGS_NAS_EXTENDED_PROTOCOL_DISCRIMINATOR_5GMM, security_header_type = 2,
      nas_body = Dl_nas_transport
        \<lparr>dl_payload_container_type = container_type, dl_payload_container = container,
         dl_pdu_session_id = COREKUBE_PDN_SESSION_IDENTITY, dl_gmm_cause = gmm_cause,
         dl_back_off_timer =
           (case back_off_timer_value of None \<Rightarrow> None | Some v \<Rightarrow> if 2 \<le> v then Some (v div 2) else None)\<rparr>\<rparr>"

definition nas_build_pdu_session_establishment_accept :: "u32 \<Rightarrow> nas_message" where
  "nas_build_pdu_session_establishment_accept pdu_ip =
     \<lparr>extended_protocol_discriminator = 0, security_header_type = 0, nas_body = Pdu_session_establishment_accept
       \<lparr>psa_pdu_session_identity = COREKUBE_PDN_SESSION_IDENTITY, psa_procedure_transaction_identity = 1,
        psa_selected_type = 1, psa_selected_value = 1,
        psa_qos_rule = \<lparr>qr_identifier = 1, qr_code = 1, qr_DQR_bit = 1, qr_filter_direction = 3,
          qr_filter_identifier = 1, qr_component_type = 1, qr_precedence = 255, qr_flow_segregation = 0,
          qr_flow_identifier = 1\<rparr>,
        psa_ambr_unit = 11, psa_ambr_downlink = 1, psa_ambr_uplink = 1,
        psa_pdn_type = 1, psa_address = pdu_ip, psa_sst = CoreKube_NSSAI_sST,
        psa_flow_identifier = 1, psa_flow_5qi = 9, psa_dns = [[8, 8, 8, 8], [8, 8, 8, 4]],
        psa_dnn = str ''internet''\<rparr>\<rparr>"

section \<open>Handlers\<close>

text \<open>The database stores the key in two halves and both NAS counts as 0.\<close>

definition store_kamf :: "ogs \<Rightarrow> item \<Rightarrow> byte list \<Rightarrow> byte list \<Rightarrow> unit run" where
  "store_kamf L dbKey dbKeyValue k =
    (let zero_nas_count = replicate 6 0 in
     andthen (db_access L dbKey dbKeyValue 4 1
       (push_arg KASME_1 k @ push_arg KASME_2 (drop 16 k) @ push_arg EPC_NAS_SEQUENCE_NUMBER zero_nas_count @
        push_arg UE_NAS_SEQUENCE_NUMBER zero_nas_count @ [item_arg SPGW_IP])) (\<lambda>_.
     Returns ()))"

text \<open>
  The array \<open>imsi\<close> has 15 bytes; the library writes the digits and a zero there, and \<open>add_identifier\<close> copies 16 bytes from
  it.  The array and the bytes that belong to no object behind it are one block here.
\<close>

definition nas_handle_registration_request :: "ogs \<Rightarrow> byte list \<Rightarrow> nas_params \<Rightarrow> worker \<Rightarrow>
    (status \<times> nas_params \<times> worker) run" where
  "nas_handle_registration_request L mob_ident params w =
    (let bcd = ogs_nas_5gs_imsi_to_bcd L mob_ident in
     andthen (deref (memcpy (take 15 (o_stack L) @ o_behind_imsi L) 0 bcd (length bcd))) (\<lambda>imsi.
     let ran = id_bytes L (ran_ue_ngap_id params) in
     andthen (ogs_assert (length mob_ident \<le> 14)) (\<lambda>_.
     andthen (deref (wrn (o_stack L) 0 [of_nat (length mob_ident), of_nat (length mob_ident div 256)])) (\<lambda>mob_ident_buffer.
     andthen (deref (wrn mob_ident_buffer 2 mob_ident)) (\<lambda>mob_ident_buffer.
     andthen (db_access L IMSI imsi 2 4
       (push_arg ENB_UE_S1AP_ID ran @ push_arg KNH_1 mob_ident_buffer @ map item_arg [MME_UE_S1AP_ID, RAND, KEY, OPC]))
       (\<lambda>(head, db_pulls).
     andthen (deref (pulled head (db_pulls P_mme_ue_s1ap_id) 0 4)) (\<lambda>i.
     let params = params\<lparr>amf_ue_ngap_id := Some (ucast (ogs_asn_OCTET_STRING_to_uint32 L i))\<rparr> in
     andthen (deref (pulled head (db_pulls P_opc) 0 16)) (\<lambda>opc.
     andthen (deref (pulled head (db_pulls P_key) 0 16)) (\<lambda>key.
     andthen (deref (pulled head (db_pulls P_rand) 0 16)) (\<lambda>rand.
     andthen (nas_5gs_generate_keys L mob_ident opc key rand (replicate 6 0)) (\<lambda>(autn, kamf).
     andthen (store_kamf L IMSI imsi kamf) (\<lambda>_.
     Returns (OK, params, respond [R_nas (nas_build_authentication_request rand autn)] w)))))))))))))"

definition nas_handle_authentication_response :: "byte list \<Rightarrow> nas_params \<Rightarrow> worker \<Rightarrow>
    (status \<times> nas_params \<times> worker) run" where
  "nas_handle_authentication_response response_parameter params w =
     (let (st, m) = nas_build_security_mode_command in Returns (st, params, respond [R_nas m] w))"

definition next_sqn :: "ogs \<Rightarrow> byte list \<Rightarrow> byte list" where
  "next_sqn L new_sqn = ogs_uint64_to_buffer L ((ogs_buffer_to_uint64 L new_sqn + 32 + 1) AND 0xffffffffffff)"

definition nas_handle_authentication_failure :: "ogs \<Rightarrow> byte \<Rightarrow> byte list \<Rightarrow> nas_params \<Rightarrow> worker \<Rightarrow>
    (status \<times> nas_params \<times> worker) run" where
  "nas_handle_authentication_failure L gmm_cause auts params w =
     andthen (ogs_assert (gmm_cause = OGS_5GMM_CAUSE_SYNCH_FAILURE)) (\<lambda>_.
     andthen (deref (amf_ue_ngap_id params)) (\<lambda>amf.
     let i = id_bytes L amf in
     andthen (db_access L MME_UE_S1AP_ID i 0 4 (map item_arg [RAND, KEY, OPC, KNH_1])) (\<lambda>(head, db_pulls).
     andthen (deref (pulled head (db_pulls P_opc) 0 16)) (\<lambda>opc.
     andthen (deref (pulled head (db_pulls P_key) 0 16)) (\<lambda>key.
     andthen (deref (pulled head (db_pulls P_rand) 0 16)) (\<lambda>rand.
     let new_sqn = next_sqn L (ogs_auc_sqn L opc key rand auts) in
     andthen (deref (pulled head (db_pulls P_knh1) 0 2)) (\<lambda>len.
     andthen (deref (pulled head (db_pulls P_knh1) 2 (unat (len ! 0) + 256 * unat (len ! 1)))) (\<lambda>mob_ident.
     andthen (nas_5gs_generate_keys L mob_ident opc key rand new_sqn) (\<lambda>(autn, kamf).
     andthen (store_kamf L MME_UE_S1AP_ID i kamf) (\<lambda>_.
     Returns (OK, params, respond [R_nas (nas_build_authentication_request rand autn)] w)))))))))))"

text \<open>The mobile identity is an IMEISV when the low three bits of its first byte say so; its length is 9.\<close>

definition mask_imeisv :: "ogs \<Rightarrow> byte list \<Rightarrow> byte list option run" where
  "mask_imeisv L ident =
     andthen (deref (rd ident 0)) (\<lambda>t.
     if t AND 7 = OGS_NAS_5GS_MOBILE_IDENTITY_IMEISV \<and> length ident = 9 then
       let b = ogs_nas_imeisv_to_buffer L ident in
       andthen (deref (memcpy (replicate 8 0) 0 b (length b))) (\<lambda>m.
       Returns (Some (m[5 := 0xff, 6 := 0xff])))
     else Returns None)"

definition nas_handle_security_mode_complete :: "ogs \<Rightarrow> byte list option \<Rightarrow> byte list option \<Rightarrow> nas_params \<Rightarrow> worker \<Rightarrow>
    (status \<times> nas_params \<times> worker) run" where
  "nas_handle_security_mode_complete L container ident params w =
     (if container = None then Returns (ERROR, params, w)
      else
        andthen (case ident of None \<Rightarrow> Returns (masked_imeisv params)
           | Some x \<Rightarrow> andthen (mask_imeisv L x) (\<lambda>m. Returns (if m = None then masked_imeisv params else m))) (\<lambda>masked.
        let params = params\<lparr>masked_imeisv := masked\<rparr> in
        andthen (deref (amf_ue_ngap_id params)) (\<lambda>amf.
        andthen (db_access L MME_UE_S1AP_ID (id_bytes L amf) 0 1 [item_arg TMSI]) (\<lambda>(head, db_pulls).
        andthen (deref (pulled head (db_pulls P_tmsi) 0 4)) (\<lambda>t.
        Returns (OK, params, respond [R_nas (nas_build_registration_accept L (ogs_asn_OCTET_STRING_to_uint32 L t))] w))))))"

definition nas_pdu_session_establishment_fetch_pdu_ip :: "ogs \<Rightarrow> u64 \<Rightarrow> u32 run" where
  "nas_pdu_session_establishment_fetch_pdu_ip L amf =
     andthen (db_access L MME_UE_S1AP_ID (id_bytes L amf) 0 1 [item_arg PDN_IP]) (\<lambda>(head, db_pulls).
     andthen (deref (pulled head (db_pulls P_pdn_ip) 0 IP_LEN)) (\<lambda>a.
     Returns (ogs_asn_OCTET_STRING_to_uint32 L a)))"

definition nas_handle_pdu_session_establishment_request :: "ogs \<Rightarrow> byte \<Rightarrow> nas_params \<Rightarrow> worker \<Rightarrow>
    (status \<times> nas_params \<times> worker) run" where
  "nas_handle_pdu_session_establishment_request L session_type params w =
     andthen (ogs_assert (session_type = OGS_PDU_SESSION_TYPE_IPV4)) (\<lambda>_.
     andthen (required (amf_ue_ngap_id params)) (\<lambda>amf.
     andthen (nas_pdu_session_establishment_fetch_pdu_ip L amf) (\<lambda>pdu_ip.
     Returns (OK, params, respond [R_nas (nas_build_pdu_session_establishment_accept pdu_ip)] w))))"

definition nas_handle_deregistration_request_from_ue :: "byte \<Rightarrow> bool \<Rightarrow> bool \<Rightarrow> nas_params \<Rightarrow> worker \<Rightarrow>
    (status \<times> nas_params \<times> worker) run" where
  "nas_handle_deregistration_request_from_ue access_type re_registration_required switch_off params w =
     andthen (ogs_assert (access_type = COREKUBE_NAS_SECURITY_ACCESS_TYPE_3GPP_ACCESS)) (\<lambda>_.
     andthen (ogs_assert (\<not> re_registration_required)) (\<lambda>_.
     Returns (OK, params, respond (if switch_off then [] else [R_nas nas_build_deregistration_accept]) w)))"

text \<open>
  The bytes of the only response, which \<open>nas_message_to_bytes\<close> has left.  A message that is not in bytes would be read as the
  wrong type.
\<close>

definition single_pkbuf :: "worker \<Rightarrow> byte list run" where
  "single_pkbuf w =
     andthen (ogs_assert (length (w_responses w) = 1)) (\<lambda>_.
     case hd (w_responses w) of R_pkbuf nas \<Rightarrow> Returns nas | _ \<Rightarrow> Stops Undefined_behaviour)"

text \<open>
  A container is handed to \<open>entry\<close>, the NAS handler itself; its length is cast to one byte.
\<close>

definition nas_handle_ul_nas_transport ::
  "(byte list \<Rightarrow> nas_params \<Rightarrow> worker \<Rightarrow> (status \<times> nas_params \<times> worker) run) \<Rightarrow>
   byte \<Rightarrow> byte list \<Rightarrow> byte option \<Rightarrow> nas_params \<Rightarrow> worker \<Rightarrow> (status \<times> nas_params \<times> worker) run" where
  "nas_handle_ul_nas_transport entry container_type container session_id params w =
     andthen (ogs_assert (container_type \<noteq> 0)) (\<lambda>_.
     andthen (ogs_assert (container \<noteq> [])) (\<lambda>_.
     andthen (required session_id) (\<lambda>i.
     andthen (ogs_assert (i \<noteq> 0)) (\<lambda>_.
     if container_type = OGS_NAS_PAYLOAD_CONTAINER_N1_SM_INFORMATION then
       andthen (entry (take (length container mod 256) container) params w) (\<lambda>(st, params, w).
       andthen (ogs_assert (st = OK)) (\<lambda>_.
       andthen (single_pkbuf w) (\<lambda>nas.
       Returns (OK, params, respond
         [R_nas (nas_build_dl_nas_transport OGS_NAS_PAYLOAD_CONTAINER_N1_SM_INFORMATION nas None None)] w))))
     else Returns (ERROR, params, w)))))"

section \<open>Dispatch\<close>

text \<open>The assertion on the status of the handler that has been called.\<close>

definition checked :: "(status \<times> nas_params \<times> worker) run \<Rightarrow> (status \<times> nas_params \<times> worker) run" where
  "checked r = andthen r (\<lambda>(st, params, w). andthen (ogs_assert (st = OK)) (\<lambda>_. Returns (OK, params, w)))"

definition nas_5gmm_handler ::
  "(byte list \<Rightarrow> nas_params \<Rightarrow> worker \<Rightarrow> (status \<times> nas_params \<times> worker) run) \<Rightarrow>
   ogs \<Rightarrow> gmm_message \<Rightarrow> nas_params \<Rightarrow> worker \<Rightarrow> (status \<times> nas_params \<times> worker) run" where
  "nas_5gmm_handler entry L m params w =
    (let params = params\<lparr>nas_message_type := gmm_message_type m\<rparr> in
     case m of
       Registration_request ident \<Rightarrow> checked (nas_handle_registration_request L ident params w)
     | Authentication_response r \<Rightarrow> checked (nas_handle_authentication_response r params w)
     | Authentication_failure cause auts \<Rightarrow> checked (nas_handle_authentication_failure L cause auts params w)
     | Security_mode_complete container ident \<Rightarrow>
         checked (nas_handle_security_mode_complete L container ident params w)
     | Registration_complete \<Rightarrow> checked (Returns (OK, params, w))
     | Ul_nas_transport t c i \<Rightarrow> checked (nas_handle_ul_nas_transport entry t c i params w)
     | Deregistration_request_from_ue a r s \<Rightarrow>
         checked (nas_handle_deregistration_request_from_ue a r s params w)
     | Other_gmm t \<Rightarrow> Returns (ERROR, params, w))"

definition nas_5gsm_handler :: "ogs \<Rightarrow> gsm_message \<Rightarrow> nas_params \<Rightarrow> worker \<Rightarrow> (status \<times> nas_params \<times> worker) run" where
  "nas_5gsm_handler L m params w =
    (let params = params\<lparr>nas_message_type := gsm_message_type m\<rparr> in
     case m of
       Pdu_session_establishment_request t \<Rightarrow> checked (nas_handle_pdu_session_establishment_request L t params w)
     | Other_gsm t \<Rightarrow> Returns (ERROR, params, w))"

definition security_decode_gsm :: "ogs \<Rightarrow> nas_params \<Rightarrow> pkbuf \<Rightarrow> worker \<Rightarrow> (status \<times> nas_params \<times> pkbuf \<times> worker) run" where
  "security_decode_gsm L params nasbuf w =
     andthen (deref (rd (pk_mem nasbuf) (pk_data nasbuf))) (\<lambda>e.
     if e = OGS_NAS_EXTENDED_PROTOCOL_DISCRIMINATOR_5GMM then
       andthen (deref (rd (pk_mem nasbuf) (pk_data nasbuf + 1))) (\<lambda>t.
       case header_flags t of
         None \<Rightarrow> Returns (ERROR, params, nasbuf, w)
       | Some flags \<Rightarrow>
           let nasbuf = (if t = 0 then nasbuf else snd (ogs_pkbuf_pull nasbuf 7)) in
           andthen (nas_5gs_security_decode L params flags nasbuf w) (\<lambda>(params, nasbuf, w).
           Returns (OK, params, nasbuf, w)))
     else Returns (OK, params, nasbuf, w))"

datatype decoded = Gmm gmm_message | Gsm gsm_message

text \<open>\<open>nas_bytes_to_message\<close>; the message type decides which member of the union is read.\<close>

definition nas_bytes_to_message :: "ogs \<Rightarrow> nas_params \<Rightarrow> byte list \<Rightarrow> worker \<Rightarrow>
    (status \<times> decoded option \<times> nas_params \<times> worker) run" where
  "nas_bytes_to_message L params nasPdu w =
    (let nasbuf = \<lparr>pk_mem = o_headroom L @ nasPdu, pk_data = length (o_headroom L), pk_len = length nasPdu\<rparr> in
     andthen (security_decode_gsm L params nasbuf w) (\<lambda>(st, params, nasbuf, w).
     andthen (ogs_assert (st = OK)) (\<lambda>_.
     andthen (deref (rd (pk_mem nasbuf) (pk_data nasbuf))) (\<lambda>messageType.
     andthen (deref (pk_bytes nasbuf)) (\<lambda>bs.
     if messageType = OGS_NAS_EXTENDED_PROTOCOL_DISCRIMINATOR_5GMM then
       andthen (required (ogs_nas_5gmm_decode L bs)) (\<lambda>m. Returns (OK, Some (Gmm m), params, w))
     else if messageType = OGS_NAS_EXTENDED_PROTOCOL_DISCRIMINATOR_5GSM then
       andthen (required (ogs_nas_5gsm_decode L bs)) (\<lambda>m. Returns (OK, Some (Gsm m), params, w))
     else Returns (ERROR, None, params, w))))))"

fun encode_responses :: "ogs \<Rightarrow> nas_params \<Rightarrow> resp list \<Rightarrow> (resp list \<times> nas_params) run" where
  "encode_responses L params [] = Returns ([], params)"
| "encode_responses L params (R_nas m # rs) =
     andthen (nas_5gs_security_encode L params m) (\<lambda>(b, params).
     andthen (required b) (\<lambda>pkbuf.
     andthen (encode_responses L params rs) (\<lambda>(rs, params).
     Returns (R_pkbuf pkbuf # rs, params))))"
| "encode_responses L params (_ # rs) = Stops Undefined_behaviour"

definition nas_message_to_bytes :: "ogs \<Rightarrow> nas_params \<Rightarrow> worker \<Rightarrow> (status \<times> nas_params \<times> worker) run" where
  "nas_message_to_bytes L params w =
     andthen (ogs_assert (length (w_responses w) \<le> 1)) (\<lambda>_.
     andthen (encode_responses L params (w_responses w)) (\<lambda>(rs, params).
     Returns (OK, params, respond rs w)))"

text \<open>
  \<open>nas_handler_entrypoint\<close> calls itself for the container of an UL NAS Transport; the first argument bounds the depth
  of these calls.  A container is shorter than the message around it, so that the length of the message is enough; a depth
  beyond the bound stands for an exhausted stack.
\<close>

fun nas_handler :: "nat \<Rightarrow> ogs \<Rightarrow> byte list \<Rightarrow> nas_params \<Rightarrow> worker \<Rightarrow> (status \<times> nas_params \<times> worker) run" where
  "nas_handler 0 L nasPdu params w = Stops Undefined_behaviour"
| "nas_handler (Suc n) L nasPdu params w =
    (let params = (if nas_security_params params = None
       then params\<lparr>nas_security_params := Some no_security\<rparr> else params) in
     andthen (nas_bytes_to_message L params nasPdu w) (\<lambda>(st, nasMessage, params, w).
     andthen (ogs_assert (st = OK)) (\<lambda>_.
     andthen (deref nasMessage) (\<lambda>m.
     andthen (case m of
         Gmm m \<Rightarrow> nas_5gmm_handler (nas_handler n L) L m params w
       | Gsm m \<Rightarrow> nas_5gsm_handler L m params w) (\<lambda>(st, params, w).
     let w = observe ''nas_message_type'' (uint (nas_message_type params)) w in
     andthen (ogs_assert (st = OK)) (\<lambda>_.
     nas_message_to_bytes L params w))))))"

definition nas_handler_entrypoint :: "ogs \<Rightarrow> byte list \<Rightarrow> nas_params \<Rightarrow> worker \<Rightarrow>
    (status \<times> nas_params \<times> worker) run" where
  "nas_handler_entrypoint L nasPdu = nas_handler (Suc (length nasPdu)) L nasPdu"

end
