(* ===== verification/Worker_Ngap.thy ===== *)
theory Worker_Ngap
  imports Worker_Nas
begin

text \<open>
  The NGAP layer of the worker, the ngap_*.c files of corekube5g-worker/source with nas_initial_context_setup_request.c,
  and the listener of udp_listener.c: a datagram of the front end is decoded, handled and answered, by a thread of its own
  or, when the worker is started without threads, by the thread that receives.
\<close>

section \<open>Building messages\<close>

definition ngap_build_ng_setup_response :: "ogs \<Rightarrow> ngap_pdu" where
  "ngap_build_ng_setup_response L =
     (let PLMNid = ogs_plmn_id_build L CoreKube_MCC CoreKube_MNC CoreKube_MNClen in
      Successful_outcome NGSetup Reject
        [(Reject, Ie_AMFName (str ''CoreKube5G_Worker'')),
         (Reject, Ie_ServedGUAMIList [(PLMNid, CoreKube_AMFRegionID, CoreKube_AMFSetID, CoreKube_AMFPointer)]),
         (Ignore, Ie_RelativeAMFCapacity CoreKube_RelativeCapacity),
         (Reject, Ie_PLMNSupportList [(PLMNid, [CoreKube_NSSAI_sST])])])"

definition allowed_nssai :: "(byte \<times> u32) list \<Rightarrow> (byte \<times> u32 option) list" where
  "allowed_nssai = map (\<lambda>(sst, sd). (sst, if sd \<noteq> OGS_S_NSSAI_NO_SD_VALUE then Some sd else None))"

definition ngap_build_downlink_nas_transport :: "u64 \<Rightarrow> u64 \<Rightarrow> byte list \<Rightarrow> (u64 \<times> u64) option \<Rightarrow> (byte \<times> u32) list \<Rightarrow>
    ngap_pdu run" where
  "ngap_build_downlink_nas_transport amf ran_id nas ambr s_nssai =
     andthen (ogs_assert (amf \<noteq> 0)) (\<lambda>_.
     andthen (ogs_assert (ran_id \<noteq> 0)) (\<lambda>_.
     andthen (case ambr of
         None \<Rightarrow> Returns []
       | Some (downlink, uplink) \<Rightarrow>
           andthen (ogs_assert (downlink \<noteq> 0 \<and> uplink \<noteq> 0)) (\<lambda>_.
           Returns [(Ignore, Ie_UEAggregateMaximumBitRate uplink downlink)])) (\<lambda>rate.
     Returns (Initiating_message DownlinkNASTransport Ignore
       ([(Reject, Ie_AMF_UE_NGAP_ID amf), (Reject, Ie_RAN_UE_NGAP_ID ran_id), (Reject, Ie_NAS_PDU nas)] @ rate @
        (if s_nssai = [] then [] else [(Reject, Ie_AllowedNSSAI (allowed_nssai s_nssai))]))))))"

text \<open>The code passes the AMF set as region of the GUAMI.\<close>

definition ngap_build_initial_context_setup_request :: "ogs \<Rightarrow> u64 \<Rightarrow> u64 \<Rightarrow> byte list option \<Rightarrow> (byte \<times> u32) list \<Rightarrow>
    byte list \<Rightarrow> byte list option \<Rightarrow> ngap_pdu run" where
  "ngap_build_initial_context_setup_request L amf ran_id nas s_nssai kgnb imei =
     andthen (ogs_assert (amf \<noteq> 0)) (\<lambda>_.
     andthen (ogs_assert (ran_id \<noteq> 0)) (\<lambda>_.
     let PLMNid = ogs_plmn_id_build L CoreKube_MCC CoreKube_MNC CoreKube_MNClen in
     andthen (deref (rdn kgnb 0 32)) (\<lambda>key.
     andthen (case imei of None \<Rightarrow> Returns []
        | Some m \<Rightarrow> andthen (deref (rdn m 0 8)) (\<lambda>m. Returns [(Ignore, Ie_MaskedIMEISV m)])) (\<lambda>masked.
     Returns (Initiating_message InitialContextSetup Reject
       ([(Reject, Ie_AMF_UE_NGAP_ID amf), (Reject, Ie_RAN_UE_NGAP_ID ran_id),
         (Reject, Ie_GUAMI PLMNid CoreKube_AMFSetID CoreKube_AMFSetID CoreKube_AMFPointer),
         (Reject, Ie_AllowedNSSAI (allowed_nssai s_nssai)),
         (Reject, Ie_UESecurityCapabilities [0xE0, 0] [0xE0, 0] [0xE0, 0] [0xE0, 0]),
         (Reject, Ie_SecurityKey key)] @ masked @
        (case nas of None \<Rightarrow> [] | Some n \<Rightarrow> [(Ignore, Ie_NAS_PDU n)])))))))"

definition ngap_build_ue_context_release_command :: "u64 \<Rightarrow> u64 option \<Rightarrow> byte \<Rightarrow> byte \<Rightarrow> ngap_pdu" where
  "ngap_build_ue_context_release_command amf ran_id grp cause =
     Initiating_message UEContextRelease Reject
       [(Reject, Ie_UE_NGAP_IDs amf ran_id), (Ignore, Ie_Cause grp cause)]"

definition nas_fetch_ngap_pdu_session_resource_setup_request_transfer_fetch_prerequisites ::
  "ogs \<Rightarrow> u64 \<Rightarrow> (byte list \<times> byte list) run" where
  "nas_fetch_ngap_pdu_session_resource_setup_request_transfer_fetch_prerequisites L amf =
     andthen (db_access L MME_UE_S1AP_ID (id_bytes L amf) 0 2 (map item_arg [EPC_TEID, SPGW_IP])) (\<lambda>(head, db_pulls).
     andthen (deref (pulled head (db_pulls P_epc_teid) 0 TEID_LEN)) (\<lambda>epc_teid.
     andthen (deref (pulled head (db_pulls P_spgw_ip) 0 IP_LEN)) (\<lambda>spgw_ip.
     Returns (epc_teid, spgw_ip))))"

definition nas_build_ngap_pdu_session_resource_setup_request_transfer :: "ogs \<Rightarrow> u64 \<Rightarrow> byte list option run" where
  "nas_build_ngap_pdu_session_resource_setup_request_transfer L amf =
     andthen (nas_fetch_ngap_pdu_session_resource_setup_request_transfer_fetch_prerequisites L amf) (\<lambda>(epc_teid, spgw_ip).
     Returns (ogs_asn_encode_request_transfer L
       \<lparr>rt_ambr_uplink = COREKUBE_AMBR_BPS, rt_ambr_downlink = COREKUBE_AMBR_BPS, rt_transport_address = spgw_ip,
        rt_gTP_TEID = epc_teid, rt_pdu_session_type = 0, rt_qos_flow_identifier = 1, rt_fiveQI = 9,
        rt_priorityLevelARP = 8\<rparr>))"

definition ngap_build_pdu_session_resource_setup_request :: "ogs \<Rightarrow> u64 \<Rightarrow> u64 \<Rightarrow> byte list option \<Rightarrow> ngap_pdu run" where
  "ngap_build_pdu_session_resource_setup_request L amf ran_id nas =
     andthen (ogs_assert (amf \<noteq> 0)) (\<lambda>_.
     andthen (ogs_assert (ran_id \<noteq> 0)) (\<lambda>_.
     andthen (nas_build_ngap_pdu_session_resource_setup_request_transfer L amf) (\<lambda>transferBuf.
     andthen (required transferBuf) (\<lambda>transfer.
     Returns (Initiating_message PDUSessionResourceSetup Reject
       [(Reject, Ie_AMF_UE_NGAP_ID amf), (Reject, Ie_RAN_UE_NGAP_ID ran_id),
        (Reject, Ie_PDUSessionListSUReq [\<lparr>ps_pDUSessionID = COREKUBE_PDN_SESSION_IDENTITY, ps_pDUSessionNAS_PDU = nas,
           ps_sST = CoreKube_NSSAI_sST, ps_transfer = transfer\<rparr>]),
        (Ignore, Ie_UEAggregateMaximumBitRate COREKUBE_AMBR_BPS COREKUBE_AMBR_BPS)])))))"

section \<open>Reading messages\<close>

text \<open>The loops over the information elements keep the last element of each kind.\<close>

definition last_ie :: "(ngap_ie \<Rightarrow> 'a option) \<Rightarrow> (criticality \<times> ngap_ie) list \<Rightarrow> 'a option" where
  "last_ie f ies = foldl (\<lambda>acc (c, ie). case f ie of None \<Rightarrow> acc | Some v \<Rightarrow> Some v) None ies"

fun amf_of :: "ngap_ie \<Rightarrow> u64 option" where
  "amf_of (Ie_AMF_UE_NGAP_ID i) = Some i" | "amf_of _ = None"

fun ran_of :: "ngap_ie \<Rightarrow> u64 option" where
  "ran_of (Ie_RAN_UE_NGAP_ID i) = Some i" | "ran_of _ = None"

fun nas_of :: "ngap_ie \<Rightarrow> byte list option" where
  "nas_of (Ie_NAS_PDU b) = Some b" | "nas_of _ = None"

fun location_of :: "ngap_ie \<Rightarrow> bool option" where
  "location_of (Ie_UserLocationInformation nr) = Some nr" | "location_of _ = None"

fun node_of :: "ngap_ie \<Rightarrow> u32 option option" where
  "node_of (Ie_GlobalRANNodeID g) = Some g" | "node_of _ = None"

fun ta_of :: "ngap_ie \<Rightarrow> unit option" where
  "ta_of Ie_SupportedTAList = Some ()" | "ta_of _ = None"

fun sessions_of :: "ngap_ie \<Rightarrow> (byte \<times> byte list) list option" where
  "sessions_of (Ie_PDUSessionListSURes l) = Some l" | "sessions_of _ = None"

definition new_params :: "u64 \<Rightarrow> u64 option \<Rightarrow> nas_params" where
  "new_params ran_id amf = \<lparr>ran_ue_ngap_id = ran_id, amf_ue_ngap_id = amf, nas_message_type = 0, masked_imeisv = None,
     nas_security_params = None\<rparr>"

definition ngap_handle_ng_setup_request :: "ogs \<Rightarrow> (criticality \<times> ngap_ie) list \<Rightarrow> worker \<Rightarrow> (status \<times> worker) run" where
  "ngap_handle_ng_setup_request L ies w =
     (case last_ie node_of ies of
        None \<Rightarrow> Returns (ERROR, w)
      | Some None \<Rightarrow> Returns (ERROR, w)
      | Some (Some gnb) \<Rightarrow>
          if last_ie ta_of ies = None then Returns (ERROR, w)
          else Returns (OK, respond [R_ngap (ngap_build_ng_setup_response L)] (w\<lparr>w_sctpStreamID := 0\<rparr>)))"

definition ngap_handle_initial_ue_message :: "ogs \<Rightarrow> (criticality \<times> ngap_ie) list \<Rightarrow> worker \<Rightarrow> (status \<times> worker) run" where
  "ngap_handle_initial_ue_message L ies w =
     andthen (required (last_ie ran_of ies)) (\<lambda>ran_id.
     andthen (required (last_ie location_of ies)) (\<lambda>nr.
     andthen (ogs_assert nr) (\<lambda>_.
     andthen (required (last_ie nas_of ies)) (\<lambda>nas.
     andthen (nas_handler_entrypoint L nas (new_params ran_id None) w) (\<lambda>(st, params, w).
     andthen (ogs_assert (st = OK)) (\<lambda>_.
     andthen (single_pkbuf w) (\<lambda>nas.
     andthen (required (amf_ue_ngap_id params)) (\<lambda>amf.
     let w = observe ''ue_id'' (uint amf) w in
     andthen (ngap_build_downlink_nas_transport amf ran_id nas None []) (\<lambda>m.
     Returns (OK, respond [R_ngap m] w))))))))))"

text \<open>The answer to an Uplink NAS Transport, by the type of the NAS message that has been handled last.\<close>

definition answer_downlink :: "nas_params \<Rightarrow> u64 \<Rightarrow> worker \<Rightarrow> worker run" where
  "answer_downlink params ran_id w =
     andthen (single_pkbuf w) (\<lambda>nas.
     andthen (deref (amf_ue_ngap_id params)) (\<lambda>amf.
     andthen (ngap_build_downlink_nas_transport amf ran_id nas None []) (\<lambda>m.
     Returns (respond [R_ngap m] w))))"

definition answer_security_mode_complete :: "ogs \<Rightarrow> nas_params \<Rightarrow> u64 \<Rightarrow> u64 \<Rightarrow> worker \<Rightarrow> worker run" where
  "answer_security_mode_complete L params amf ran_id w =
     andthen (single_pkbuf w) (\<lambda>nas.
     andthen (required (masked_imeisv params)) (\<lambda>imei.
     andthen (deref (nas_security_params params)) (\<lambda>sp.
     andthen (deref (kamf sp)) (\<lambda>k.
     let kgnb = ogs_kdf_kgnb_and_kn3iwf L k (ul_count sp) COREKUBE_NAS_SECURITY_ACCESS_TYPE_3GPP_ACCESS in
     andthen (ngap_build_initial_context_setup_request L amf ran_id (Some nas)
        [(CoreKube_NSSAI_sST, OGS_S_NSSAI_NO_SD_VALUE)] kgnb (Some imei)) (\<lambda>m.
     Returns (respond [R_ngap m] w))))))"

definition answer_pdu_session :: "ogs \<Rightarrow> nas_params \<Rightarrow> u64 \<Rightarrow> worker \<Rightarrow> worker run" where
  "answer_pdu_session L params ran_id w =
     andthen (single_pkbuf w) (\<lambda>nas.
     andthen (deref (amf_ue_ngap_id params)) (\<lambda>amf.
     andthen (ngap_build_pdu_session_resource_setup_request L amf ran_id (Some nas)) (\<lambda>m.
     Returns (respond [R_ngap m] w))))"

definition answer_deregistration :: "nas_params \<Rightarrow> u64 \<Rightarrow> worker \<Rightarrow> worker run" where
  "answer_deregistration params ran_id w =
     andthen (deref (amf_ue_ngap_id params)) (\<lambda>amf.
     let release = R_ngap (ngap_build_ue_context_release_command amf (Some ran_id) 3 2) in
     if length (w_responses w) = 1 then
       andthen (single_pkbuf w) (\<lambda>nas.
       andthen (ngap_build_downlink_nas_transport amf ran_id nas None []) (\<lambda>m.
       Returns (respond [R_ngap m, release] w)))
     else Returns (respond [release] w))"

definition answer_uplink :: "ogs \<Rightarrow> nas_params \<Rightarrow> u64 \<Rightarrow> u64 \<Rightarrow> worker \<Rightarrow> worker run" where
  "answer_uplink L params amf ran_id w =
     (if nas_message_type params = OGS_NAS_5GS_SECURITY_MODE_COMPLETE then
        answer_security_mode_complete L params amf ran_id w
      else if nas_message_type params = OGS_NAS_5GS_PDU_SESSION_ESTABLISHMENT_REQUEST then
        answer_pdu_session L params ran_id w
      else if nas_message_type params = OGS_NAS_5GS_REGISTRATION_COMPLETE then
        andthen (ogs_assert (w_responses w = [])) (\<lambda>_. Returns w)
      else if nas_message_type params = OGS_NAS_5GS_DEREGISTRATION_REQUEST then
        answer_deregistration params ran_id w
      else answer_downlink params ran_id w)"

definition ngap_handle_uplink_nas_transport :: "ogs \<Rightarrow> (criticality \<times> ngap_ie) list \<Rightarrow> worker \<Rightarrow> (status \<times> worker) run" where
  "ngap_handle_uplink_nas_transport L ies w =
     andthen (required (last_ie ran_of ies)) (\<lambda>ran_id.
     andthen (required (last_ie amf_of ies)) (\<lambda>amf.
     andthen (required (last_ie location_of ies)) (\<lambda>nr.
     andthen (ogs_assert nr) (\<lambda>_.
     andthen (required (last_ie nas_of ies)) (\<lambda>nas.
     let w = observe ''ue_id'' (uint amf) w in
     andthen (nas_handler_entrypoint L nas (new_params ran_id (Some amf)) w) (\<lambda>(st, params, w).
     andthen (ogs_assert (st = OK)) (\<lambda>_.
     andthen (answer_uplink L params amf ran_id w) (\<lambda>w.
     Returns (OK, w)))))))))"

definition nas_store_ngap_pdu_session_resource_setup_response_transfer_fetch_prerequisites ::
  "ogs \<Rightarrow> u64 \<Rightarrow> byte list \<Rightarrow> byte list \<Rightarrow> unit run" where
  "nas_store_ngap_pdu_session_resource_setup_response_transfer_fetch_prerequisites L amf ue_teid enb_ip =
     andthen (db_access L MME_UE_S1AP_ID (id_bytes L amf) 2 1
       (push_arg UE_TEID ue_teid @ push_arg ENB_IP enb_ip @ [item_arg PDN_IP])) (\<lambda>_.
     Returns ())"

definition ngap_handle_pdu_session_resource_setup_response_transfer :: "ogs \<Rightarrow> u64 \<Rightarrow> byte list \<Rightarrow> unit run" where
  "ngap_handle_pdu_session_resource_setup_response_transfer L amf bs =
     andthen (required (ogs_asn_decode_response_transfer L bs)) (\<lambda>message.
     andthen (required (st_tunnel message)) (\<lambda>(address, teid).
     let (ipv4, ip) = ogs_asn_BIT_STRING_to_ip L address in
     andthen (ogs_assert ipv4) (\<lambda>_.
     let gnb_n3_teid = ogs_asn_OCTET_STRING_to_uint32 L teid in
     nas_store_ngap_pdu_session_resource_setup_response_transfer_fetch_prerequisites L amf
       (ogs_asn_uint32_to_OCTET_STRING L gnb_n3_teid) (ogs_asn_uint32_to_OCTET_STRING L ip))))"

fun setup_items :: "ogs \<Rightarrow> u64 \<Rightarrow> (byte \<times> byte list) list \<Rightarrow> unit run" where
  "setup_items L amf [] = Returns ()"
| "setup_items L amf ((i, transfer) # items) =
     andthen (ogs_assert (i \<noteq> 0)) (\<lambda>_.
     andthen (ngap_handle_pdu_session_resource_setup_response_transfer L amf transfer) (\<lambda>_.
     setup_items L amf items))"

definition ngap_handle_pdu_session_resource_setup_response :: "ogs \<Rightarrow> (criticality \<times> ngap_ie) list \<Rightarrow> worker \<Rightarrow>
    (status \<times> worker) run" where
  "ngap_handle_pdu_session_resource_setup_response L ies w =
     andthen (required (last_ie amf_of ies)) (\<lambda>amf.
     andthen (required (last_ie sessions_of ies)) (\<lambda>items.
     andthen (setup_items L amf items) (\<lambda>_.
     Returns (OK, respond [] w))))"

section \<open>Dispatch\<close>

definition ngap_initiatingMessage_handler :: "ogs \<Rightarrow> procedure \<Rightarrow> (criticality \<times> ngap_ie) list \<Rightarrow> worker \<Rightarrow>
    (status \<times> worker) run" where
  "ngap_initiatingMessage_handler L p ies w =
     (let w = observe ''ngap_message_type'' (int (initiating_present p)) w in
      if p = NGSetup then ngap_handle_ng_setup_request L ies w
      else if p = InitialUEMessage then ngap_handle_initial_ue_message L ies w
      else if p = UplinkNASTransport then ngap_handle_uplink_nas_transport L ies w
      else Returns (ERROR, respond [] w))"

definition ngap_successfulOutcome_handler :: "ogs \<Rightarrow> procedure \<Rightarrow> (criticality \<times> ngap_ie) list \<Rightarrow> worker \<Rightarrow>
    (status \<times> worker) run" where
  "ngap_successfulOutcome_handler L p ies w =
     (let w = observe ''ngap_message_type'' (int (successful_present p)) (respond [] w) in
      if p = InitialContextSetup then Returns (OK, w)
      else if p = PDUSessionResourceSetup then ngap_handle_pdu_session_resource_setup_response L ies w
      else if p = UEContextRelease then Returns (OK, w)
      else Returns (ERROR, w))"

definition ngap_message_handler :: "ogs \<Rightarrow> ngap_pdu \<Rightarrow> worker \<Rightarrow> (status \<times> worker) run" where
  "ngap_message_handler L message w =
     (let w = w\<lparr>w_sctpStreamID := 1\<rparr> in
      case message of
        Initiating_message p c ies \<Rightarrow> ngap_initiatingMessage_handler L p ies w
      | Successful_outcome p c ies \<Rightarrow> ngap_successfulOutcome_handler L p ies w
      | _ \<Rightarrow> Returns (ERROR, respond [] w))"

text \<open>
  \<open>message_to_bytes\<close> for every response.  The encoder returns \<open>None\<close> for NULL, which \<open>message_to_bytes\<close> does not test; the
  thread dereferences it when it sends.
\<close>

fun messages_to_bytes :: "ogs \<Rightarrow> resp list \<Rightarrow> byte list option list run" where
  "messages_to_bytes L [] = Returns []"
| "messages_to_bytes L (R_ngap m # rs) = andthen (messages_to_bytes L rs) (\<lambda>bs. Returns (ogs_ngap_encode L m # bs))"
| "messages_to_bytes L (_ # rs) = Stops Undefined_behaviour"

definition ngap_handler_entrypoint :: "ogs \<Rightarrow> byte list \<Rightarrow> worker \<Rightarrow> (byte list option list \<times> worker) run" where
  "ngap_handler_entrypoint L incoming w =
     (case ogs_ngap_decode L incoming of
        None \<Rightarrow> Returns ([], observe ''invalid'' 1 w)
      | Some message \<Rightarrow>
          andthen (ngap_message_handler L message w) (\<lambda>(st, w).
          andthen (ogs_assert (st = OK)) (\<lambda>_.
          andthen (messages_to_bytes L (w_responses w)) (\<lambda>out.
          Returns (out, w)))))"

section \<open>The listener\<close>

text \<open>
  A datagram starts with the four bytes in which the front end names the base station's socket; every answer starts with
  the same bytes and the stream.  A datagram of fewer than four bytes gives a negative length.  The result are the answers
  to send, in order; one that is NULL stops the thread when its turn comes.
\<close>

definition process_message :: "ogs \<Rightarrow> byte list \<Rightarrow> (byte list option list \<times> worker) run" where
  "process_message L buffer =
    (let w = observe ''uplink_packets_total'' 1 fresh_worker in
     andthen (deref (rdn buffer 0 4)) (\<lambda>header.
     andthen (ngap_handler_entrypoint L (drop 4 buffer) w) (\<lambda>(out, w).
     let w = observe ''downlink_packets_total'' (int (length out)) w in
     Returns (map (map_option (\<lambda>b. header @ [w_sctpStreamID w] @ b)) out, w))))"

text \<open>
  Two datagrams of three bytes are test hooks: one aborts the worker, the other makes it spin.  \<open>recvfrom\<close> returning no bytes
  fails an assertion.
\<close>

datatype received = Fails | Spins | Handles "byte list"

definition receive :: "byte list \<Rightarrow> received" where
  "receive d =
     (if d = [] \<or> length d = 3 \<and> d ! 0 = 0x03 then Fails
      else if length d = 3 \<and> d ! 0 = 0x04 then Spins
      else Handles d)"

text \<open>
  The listener without threads: the datagrams are handled one after the other.  The result is the connection, what has been
  sent, and how the worker stands.  Sends succeed.
\<close>

datatype listening = Waiting | Spinning | Ended stop

fun send_all :: "byte list list \<Rightarrow> byte list option list \<Rightarrow> stop option \<times> byte list list" where
  "send_all sent [] = (None, sent)"
| "send_all sent (None # out) = (Some Undefined_behaviour, sent)"
| "send_all sent (Some b # out) = send_all (sent @ [b]) out"

fun start_listener :: "ogs \<Rightarrow> conn \<Rightarrow> byte list list \<Rightarrow> byte list list \<Rightarrow> listening \<times> conn \<times> byte list list" where
  "start_listener L c sent [] = (Waiting, c, sent)"
| "start_listener L c sent (d # ds) =
     (case receive d of
        Fails \<Rightarrow> (Ended Assertion_failed, c, sent)
      | Spins \<Rightarrow> (Spinning, c, sent)
      | Handles d \<Rightarrow>
          (case exec (process_message L d) c of
             (Halted s, c) \<Rightarrow> (Ended s, c, sent)
           | (Done (out, w), c) \<Rightarrow>
               (case send_all sent out of
                  (Some s, sent) \<Rightarrow> (Ended s, c, sent)
                | (None, sent) \<Rightarrow> start_listener L c sent ds)))"

text \<open>
  The listener with a thread per datagram, which is the default.  A thread is the program that it still has to run, or the
  answers that it still has to send; the threads take turns in any order.  An exchange is one step, because the thread
  holds the mutex; a thread that waits for an answer that never comes keeps the mutex.  A thread that stops ends the process, with
  every other thread.
\<close>

datatype thread = Handling "(byte list option list \<times> worker) run" | Sending "byte list option list"

record listener =
  l_conn :: conn
  l_threads :: "thread list"
  l_sent :: "byte list list"
  l_spinning :: bool
  l_locked :: bool
  l_end :: "stop option"

inductive listener_step :: "ogs \<Rightarrow> listener \<Rightarrow> listener \<Rightarrow> bool" for L where
  received: "l_end s = None \<Longrightarrow> \<not> l_spinning s \<Longrightarrow> receive d = Handles d \<Longrightarrow>
     listener_step L s (s\<lparr>l_threads := l_threads s @ [Handling (process_message L d)]\<rparr>)"
| received_hook: "l_end s = None \<Longrightarrow> \<not> l_spinning s \<Longrightarrow> receive d = Spins \<Longrightarrow>
     listener_step L s (s\<lparr>l_spinning := True\<rparr>)"
| received_nothing: "l_end s = None \<Longrightarrow> \<not> l_spinning s \<Longrightarrow> receive d = Fails \<Longrightarrow>
     listener_step L s (s\<lparr>l_end := Some Assertion_failed\<rparr>)"
| no_thread: "l_end s = None \<Longrightarrow> \<not> l_spinning s \<Longrightarrow> receive d = Handles d \<Longrightarrow>
     listener_step L s (s\<lparr>l_end := Some Assertion_failed\<rparr>)"
| exchanged: "l_end s = None \<Longrightarrow> \<not> l_locked s \<Longrightarrow> t < length (l_threads s) \<Longrightarrow>
     l_threads s ! t = Handling (Access request n k) \<Longrightarrow> db_exchange (l_conn s) request n = (Inr answer, c) \<Longrightarrow>
     listener_step L s (s\<lparr>l_conn := c, l_threads := (l_threads s)[t := Handling (k answer)]\<rparr>)"
| blocked: "l_end s = None \<Longrightarrow> \<not> l_locked s \<Longrightarrow> t < length (l_threads s) \<Longrightarrow>
     l_threads s ! t = Handling (Access request n k) \<Longrightarrow> db_exchange (l_conn s) request n = (Inl Blocked, c) \<Longrightarrow>
     listener_step L s (s\<lparr>l_conn := c, l_locked := True\<rparr>)"
| exchange_stopped: "l_end s = None \<Longrightarrow> \<not> l_locked s \<Longrightarrow> t < length (l_threads s) \<Longrightarrow>
     l_threads s ! t = Handling (Access request n k) \<Longrightarrow> db_exchange (l_conn s) request n = (Inl e, c) \<Longrightarrow> e \<noteq> Blocked \<Longrightarrow>
     listener_step L s (s\<lparr>l_conn := c, l_end := Some e\<rparr>)"
| stopped: "l_end s = None \<Longrightarrow> t < length (l_threads s) \<Longrightarrow> l_threads s ! t = Handling (Stops e) \<Longrightarrow>
     listener_step L s (s\<lparr>l_end := Some e\<rparr>)"
| handled: "l_end s = None \<Longrightarrow> t < length (l_threads s) \<Longrightarrow> l_threads s ! t = Handling (Returns (out, w)) \<Longrightarrow>
     listener_step L s (s\<lparr>l_threads := (l_threads s)[t := Sending out]\<rparr>)"
| sends: "l_end s = None \<Longrightarrow> t < length (l_threads s) \<Longrightarrow> l_threads s ! t = Sending (Some b # out) \<Longrightarrow>
     listener_step L s (s\<lparr>l_threads := (l_threads s)[t := Sending out], l_sent := l_sent s @ [b]\<rparr>)"
| send_fails: "l_end s = None \<Longrightarrow> t < length (l_threads s) \<Longrightarrow> l_threads s ! t = Sending (Some b # out) \<Longrightarrow>
     listener_step L s (s\<lparr>l_end := Some Assertion_failed\<rparr>)"
| sends_null: "l_end s = None \<Longrightarrow> t < length (l_threads s) \<Longrightarrow> l_threads s ! t = Sending (None # out) \<Longrightarrow>
     listener_step L s (s\<lparr>l_end := Some Undefined_behaviour\<rparr>)"

definition listening_on :: "conn \<Rightarrow> listener" where
  "listening_on c = \<lparr>l_conn = c, l_threads = [], l_sent = [], l_spinning = False, l_locked = False, l_end = None\<rparr>"

end
