(* ===== verification/Worker_Access.thy ===== *)
theory Worker_Access
  imports Worker_Db
begin

text \<open>
  What an access of the worker does: it sends a request without its last byte, the end mark, which it has written
  behind the block it allocated; the server executes the request all the same, because its loop over the pulled items
  also ends at the length of the message; and the worker finds every answer.
\<close>

section \<open>Requests without an end mark\<close>

definition body :: "request \<Rightarrow> byte list" where
  "body r = item_code (rq_id r) # rq_val r @ concat (map encode_push (rq_pushes r)) @ 0 # concat (map encode_pull (rq_pulls r))"

lemma encode_as_body: "encode r = body r @ [item_code EOM]"
  by (simp add: encode_def body_def encode_pulls_def)

lemma run_items_body:
  assumes wf: "wf_db d" and al: "alloc_ok d" and ptr: "ptr_ok (abs_db d) usr"
    and v: "length (rq_val r) = 16"
    and pushes: "list_all (push_allowed usr) (rq_pushes r)"
    and pulls: "list_all (pull_allowed usr) (rq_pulls r)"
    and room: "17 * length (rq_pulls r) \<le> length response"
  shows "\<exists>d'. run_items d usr (body r @ rest) (length (body r)) response =
       Some \<lparr>ans_db = d', ans_response = serve_answer usr (abs_db d) r response,
             ans_response_len = 17 * length (rq_pulls r), ans_consumed = length (body r) + 1\<rparr> \<and>
     wf_db d' \<and> alloc_ok d' \<and> abs_db d' = serve usr (abs_db d) r"
proof -
  let ?pre = "item_code (rq_id r) # rq_val r"
  let ?ps = "concat (map encode_push (rq_pushes r))" and ?qs = "concat (map encode_pull (rq_pulls r))"
  have req: "body r @ rest = ?pre @ ?ps @ 0 # ?qs @ rest" by (simp add: body_def)
  have lps: "length ?ps = 17 * length (rq_pushes r)" using pushes by (rule length_encode_pushes)
  have "length ?pre = 17" using v by simp
  from push_loop_refines [OF wf al ptr pushes req this]
  obtain d1 where d1: "push_loop d usr (body r @ rest) 17 = Some (d1, 17 + 17 * length (rq_pushes r))"
    "wf_db d1" "alloc_ok d1" "ptr_ok (abs_db d1) usr"
    "abs_db d1 = foldl (spec_push usr) (abs_db d) (rq_pushes r)" by auto
  have req2: "body r @ rest = (?pre @ ?ps @ [0]) @ ?qs @ rest" using req by simp
  have lb: "length (body r) = 18 + 17 * length (rq_pushes r) + length ?qs" using v lps by (simp add: body_def)
  have l2: "length (?pre @ ?ps @ [0]) = 18 + 17 * length (rq_pushes r)" using v lps by simp
  from pull_loop_prefix [OF d1(2,4) pulls req2 l2, of "length (body r)" 0 response]
  obtain d2 where "pull_loop d1 usr (body r @ rest) (length (body r)) (18 + 17 * length (rq_pushes r)) response 0 =
      pull_loop d2 usr (body r @ rest) (length (body r)) (length (body r))
        (spec_answers usr (abs_db d1) (rq_pulls r) response 0) (17 * length (rq_pulls r))"
    "wf_db d2" "mallocs d2 = mallocs d1" "abs_db d2 = foldl (spec_pull usr) (abs_db d1) (rq_pulls r)"
    using room lb by auto
  with d1 show ?thesis
    by (simp add: run_items_def serve_def serve_answer_def alloc_ok_def pull_loop.simps [of d2])
qed

lemma analyze_request_body:
  assumes wf: "wf_db d" and al: "alloc_ok d" and ok: "request_ok (abs_db d) r" and resp: "length response = 1024"
    and h: "request_user r = Some h"
  shows "\<exists>d'. analyze_request d (body r @ rest) (length (body r)) response =
       Some \<lparr>ans_db = d', ans_response = serve_answer (Some h) (abs_db d) r response,
             ans_response_len = 17 * length (rq_pulls r), ans_consumed = length (body r) + 1\<rparr> \<and>
     wf_db d' \<and> alloc_ok d' \<and> abs_db d' = serve (Some h) (abs_db d) r"
proof -
  obtain u where u: "users (abs_db d) h = Some u" using ok h by (auto simp: request_ok_def)
  have hd: "rd (body r @ rest) 0 = Some (item_code (rq_id r))" by (simp add: body_def rd_Cons)
  have "ident_key (rq_id r) (drop 1 (body r @ rest)) = Some h"
    using h ok ident_key_append [of "rq_id r" "rq_val r" h]
    by (simp add: body_def request_user_def request_ok_def)
  from analyze_ident [OF hd this]
  have "analyze_request d (body r @ rest) (length (body r)) response =
      run_items d (Some h) (body r @ rest) (length (body r)) response"
    using u by (simp add: lookup_and_run_def users_abs)
  with run_items_body [OF wf al _ _ _ _, of "Some h" r response rest] u ok resp h show ?thesis
    by (simp add: request_ok_def ptr_ok_def)
qed

section \<open>The connection\<close>

text \<open>A connection on which the worker has read everything the server has sent.\<close>

definition ready :: "conn \<Rightarrow> bool" where
  "ready c \<longleftrightarrow> wf_db (c_db c) \<and> alloc_ok (c_db c) \<and> length (c_request c) = 1024 \<and> length (c_response c) = 1024 \<and>
     (\<forall>i. c_sends c i) \<and> c_sent c = []"

abbreviation store :: "conn \<Rightarrow> adb" where
  "store c \<equiv> abs_db (c_db c)"

lemma exchange_ok:
  assumes c: "ready c" and ok: "request_ok (store c) r" and h: "request_user r = Some h"
    and n: "rq_pulls r \<noteq> []" and l: "length (body r) \<le> 1024"
  shows "\<exists>c'. db_exchange c (body r) (17 * length (rq_pulls r)) =
       (Inr (take (17 * length (rq_pulls r)) (serve_answer (Some h) (store c) r (c_response c))), c') \<and>
     ready c' \<and> store c' = serve (Some h) (store c) r"
proof -
  let ?k = "17 * length (rq_pulls r)" and ?R = "serve_answer (Some h) (store c) r (c_response c)"
  let ?req = "body r @ drop (length (body r)) (c_request c)"
  note cs = c [unfolded ready_def]
  obtain d1 where a: "analyze_request (c_db c) ?req (length (body r)) (c_response c) =
      Some \<lparr>ans_db = d1, ans_response = ?R, ans_response_len = ?k, ans_consumed = length (body r) + 1\<rparr>"
    and d1: "wf_db d1" "alloc_ok d1" "abs_db d1 = serve (Some h) (store c) r"
    using analyze_request_body [of "c_db c" r "c_response c" h] cs ok h by blast
  have lr: "length ?R = 1024"
    using length_serve_answer [of "store c" r "c_response c"] sockets_ok_abs cs ok h by simp
  have k: "0 < ?k" "?k \<le> 1024" using n ok by (simp_all add: request_ok_def)
  let ?c = "c\<lparr>c_request := ?req, c_db := d1, c_response := ?R\<rparr>"
  let ?c1 = "?c\<lparr>c_sends := (\<lambda>i. c_sends c (i + 1)), c_sent := [take ?k ?R]\<rparr>"
  have send: "send_response ?c ?k = Some (?c1, Open)"
    using k lr cs by (simp add: send_response_def rdn_def)
  have pos: "0 < length (body r)" by (simp add: body_def)
  have loop: "multi_pkt_loop (c\<lparr>c_request := ?req\<rparr>) 0 (length (body r)) = Some (?c1, Open)"
    using a send pos by (simp add: multi_pkt_loop.simps)
  have "wrn (c_request c) 0 (body r) = Some ?req" using l cs by (simp add: wrn_def)
  with loop have s: "send_request c (body r) = Some (?c1, Open)" by (simp add: send_request_def)
  let ?c' = "?c1\<lparr>c_sent := []\<rparr>"
  have "recv_response ?c1 Open ?k = Some (take ?k ?R, ?c')" using k by (simp add: recv_response_def)
  then have "db_exchange c (body r) ?k = (Inr (take ?k ?R), ?c')" using s k lr by (simp add: db_exchange_def)
  moreover have "ready ?c'" using d1 lr cs l by (simp add: ready_def)
  moreover have "store ?c' = serve (Some h) (store c) r" using d1(3) by simp
  ultimately show ?thesis by blast
qed

section \<open>The request of an access\<close>

text \<open>A value in a block of zeros, and the request that the arguments of an access denote.\<close>

definition pad16 :: "nat \<Rightarrow> byte list \<Rightarrow> byte list" where
  "pad16 n v = take n v @ replicate (16 - n) 0"

definition access_request :: "item \<Rightarrow> byte list \<Rightarrow> (item \<times> byte list) list \<Rightarrow> item list \<Rightarrow> request" where
  "access_request it v xs its =
     \<lparr>rq_id = it, rq_val = pad16 (id_len it) v, rq_pushes = map (\<lambda>(it, v). (it, pad16 (lib_len it) v)) xs,
      rq_pulls = map Pull its\<rparr>"

abbreviation access_args :: "(item \<times> byte list) list \<Rightarrow> item list \<Rightarrow> va_arg list" where
  "access_args xs its \<equiv> concat (map (\<lambda>(it, v). push_arg it v) xs) @ map item_arg its"

definition access_ok :: "item \<Rightarrow> byte list \<Rightarrow> (item \<times> byte list) list \<Rightarrow> item list \<Rightarrow> bool" where
  "access_ok it v xs its \<longleftrightarrow> it \<noteq> NEW_ENB \<and> lib_id_ok it v \<and> list_all (\<lambda>x. fst x \<noteq> NEW_ENB \<and> lib_push_ok x) xs"

lemma payload_zero: "p + 17 \<le> m \<Longrightarrow> n \<le> 16 \<Longrightarrow> payload (replicate m 0) p n v = pad16 n v"
  by (simp add: payload_def pad16_def min_def)

lemma id_len_le: "id_len it \<le> 16"
  by (cases it) simp_all

lemma lib_pushes_zero:
  "p + 17 * length xs \<le> m \<Longrightarrow> lib_pushes (replicate m 0) p xs = map (\<lambda>(it, v). (it, pad16 (lib_len it) v)) xs"
  by (induction xs arbitrary: p) (auto simp: payload_zero lib_len_le)

lemma form_pushes_ok:
  assumes "list_all (\<lambda>x. fst x \<noteq> NEW_ENB \<and> lib_push_ok x) xs" and "p + 17 * length xs \<le> length buffer"
  shows "form_pushes (length xs) (concat (map (\<lambda>(it, v). push_arg it v) xs) @ ap) buffer p =
         Some (overlay buffer p (concat (map encode_push (lib_pushes buffer p xs))), p + 17 * length xs, ap)"
  using assms
proof (induction xs arbitrary: buffer p)
  case Nil
  then show ?case by (simp add: overlay_def)
next
  case (Cons x xs)
  obtain it v where x: "x = (it, v)" by fastforce
  let ?c = "item_code it # payload buffer p (lib_len it) v"
  let ?b = "overlay buffer p ?c"
  have ok: "lib_push_ok (it, v)" "it \<noteq> NEW_ENB" and r: "p + 17 \<le> length buffer" using Cons.prems x by simp_all
  have lc: "length ?c = 17"
    using ok r lib_len_le [of it] by (simp add: length_payload lib_push_ok_def)
  have lb: "length ?b = length buffer" using lc r by simp
  have step: "form_pushes (length (x # xs)) (concat (map (\<lambda>(it, v). push_arg it v) (x # xs)) @ ap) buffer p =
      form_pushes (length xs) (concat (map (\<lambda>(it, v). push_arg it v) xs) @ ap) ?b (p + 17)"
    using push_item_ok [OF ok r] by (simp add: x push_arg_def item_arg_def)
  have "form_pushes (length xs) (concat (map (\<lambda>(it, v). push_arg it v) xs) @ ap) ?b (p + 17) =
      Some (overlay ?b (p + 17) (concat (map encode_push (lib_pushes ?b (p + 17) xs))), p + 17 + 17 * length xs, ap)"
    using Cons.IH [of "p + 17" ?b] Cons.prems lb by simp
  also have "lib_pushes ?b (p + 17) xs = lib_pushes buffer (p + 17) xs"
    using lc Cons.prems(2) by (intro lib_pushes_overlay) simp_all
  finally show ?case
    using step overlay_append [of p ?c buffer] lc r by (simp add: x algebra_simps)
qed

lemma form_pulls_ok:
  "p + length its \<le> length buffer \<Longrightarrow>
   form_pulls (length its) (map item_arg its) buffer p = Some (overlay buffer p (map item_code its), p + length its)"
proof (induction its arbitrary: buffer p)
  case Nil
  then show ?case by (simp add: overlay_def)
next
  case (Cons it its)
  from Cons.prems have p: "p < length buffer" by simp
  with Cons.IH [of "p + 1" "overlay buffer p [item_code it]"] Cons.prems overlay_append_Suc [OF p, of "item_code it"]
  show ?case by (simp add: pull_item_def wr_overlay item_arg_def)
qed

lemma concat_pulls: "concat (map encode_pull (map Pull its)) = map item_code its"
  by (induction its) simp_all

lemma length_body_access:
  assumes "access_ok it v xs its"
  shows "length (body (access_request it v xs its)) = db_buffer_input_size (length xs) (length its)"
proof -
  have "length (pad16 (id_len it) v) = 16"
    using assms by (cases it) (auto simp: pad16_def access_ok_def lib_id_ok_def)
  moreover have "length (concat (map encode_push (map (\<lambda>(it, v). (it, pad16 (lib_len it) v)) xs))) = 17 * length xs"
    if "list_all (\<lambda>x. fst x \<noteq> NEW_ENB \<and> lib_push_ok x) xs" for xs :: "(item \<times> byte list) list"
    using that lib_len_le by (induction xs) (auto simp: pad16_def lib_push_ok_def)
  ultimately show ?thesis
    using assms concat_pulls [of its]
    by (simp add: body_def access_request_def access_ok_def db_buffer_input_size_def comp_def)
qed

text \<open>The buffer before its last write: the request, and the position at which the end mark is written.\<close>

lemma form_db_request_eq:
  fixes xs its
  defines "n \<equiv> db_buffer_input_size (length xs) (length its)"
  assumes ok: "access_ok it v xs its" and m: "n \<le> m"
  shows "form_db_request (replicate m 0) (concat (map (\<lambda>(it, v). push_arg it v) xs) @ map item_arg its) (item_code it) v
       (length xs) (length its) =
     wr (overlay (replicate m 0) 0 (body (access_request it v xs its))) n (item_code EOM)"
proof -
  let ?z = "replicate m (0 :: byte)" and ?r = "access_request it v xs its"
  let ?c = "item_code it # pad16 (id_len it) v"
  let ?ps = "concat (map encode_push (map (\<lambda>(it, v). (it, pad16 (lib_len it) v)) xs))"
  have m': "18 + 17 * length xs + length its \<le> m" using m by (simp add: n_def db_buffer_input_size_def)
  have xs: "list_all (\<lambda>x. fst x \<noteq> NEW_ENB \<and> lib_push_ok x) xs" using ok by (simp add: access_ok_def)
  have lc: "length ?c = 17"
    using ok by (cases it) (auto simp: pad16_def access_ok_def lib_id_ok_def)
  have e: "body ?r = (?c @ ?ps) @ 0 # map item_code its"
    using concat_pulls [of its] by (simp add: body_def access_request_def comp_def)
  have lb: "length (body ?r) = n" unfolding n_def by (rule length_body_access [OF ok])
  then have lcp: "length (?c @ ?ps) = 17 + 17 * length xs"
    unfolding e by (simp add: n_def db_buffer_input_size_def)
  have id: "add_identifier ?z 0 (item_code it) v = Some (overlay ?z 0 ?c, 17)"
    using add_identifier_ok [of it v ?z] ok m' payload_zero [of 0 m "id_len it" v] id_len_le [of it]
    by (simp add: access_ok_def)
  have "form_pushes (length xs) (concat (map (\<lambda>(it, v). push_arg it v) xs) @ map item_arg its) (overlay ?z 0 ?c) 17 =
      Some (overlay (overlay ?z 0 ?c) 17 (concat (map encode_push (lib_pushes (overlay ?z 0 ?c) 17 xs))),
        17 + 17 * length xs, map item_arg its)"
    using lc m' by (intro form_pushes_ok [OF xs]) simp
  also have "lib_pushes (overlay ?z 0 ?c) 17 xs = lib_pushes ?z 17 xs"
    using lc m' by (intro lib_pushes_overlay) simp_all
  also have "lib_pushes ?z 17 xs = map (\<lambda>(it, v). (it, pad16 (lib_len it) v)) xs"
    using m' by (intro lib_pushes_zero) simp
  also have "overlay (overlay ?z 0 ?c) 17 ?ps = overlay ?z 0 (?c @ ?ps)"
    using overlay_append [of 0 ?c ?z ?ps] lc m' by simp
  finally have pushes: "form_pushes (length xs) (concat (map (\<lambda>(it, v). push_arg it v) xs) @ map item_arg its)
      (overlay ?z 0 ?c) 17 = Some (overlay ?z 0 (?c @ ?ps), 17 + 17 * length xs, map item_arg its)" .
  let ?b = "overlay ?z 0 (?c @ ?ps)"
  have lz: "length ?b = m" using lcp m' by (subst length_overlay) simp_all
  have "form_pulls (length its) (map item_arg its) (overlay ?b (17 + 17 * length xs) [0]) (17 + 17 * length xs + 1) =
      Some (overlay (overlay ?b (17 + 17 * length xs) [0]) (17 + 17 * length xs + 1) (map item_code its),
        17 + 17 * length xs + 1 + length its)"
    using lz m' by (intro form_pulls_ok) simp
  also have "overlay (overlay ?b (17 + 17 * length xs) [0]) (17 + 17 * length xs + 1) (map item_code its) =
      overlay ?b (17 + 17 * length xs) (0 # map item_code its)"
    using lz m' by (intro overlay_append_Suc) simp
  also have "\<dots> = overlay ?z 0 (body ?r)"
    using overlay_append [of 0 "?c @ ?ps" ?z "0 # map item_code its"] lcp m' e by simp
  finally show ?thesis
    using id pushes lz m' unfolding form_db_request_def
    by (simp add: wr_overlay n_def db_buffer_input_size_def add.assoc)
qed

section \<open>What an access does to the subscriber\<close>

text \<open>Items that the worker pulls: they copy a member of the record or a counter.\<close>

definition plain_pull :: "item \<Rightarrow> bool" where
  "plain_pull it \<longleftrightarrow> pull_source it \<noteq> None \<and> it \<noteq> RAND_UPDATE \<or>
     it = EPC_NAS_SEQUENCE_NUMBER \<or> it = UE_NAS_SEQUENCE_NUMBER"

definition after_pushes :: "UserInfo \<Rightarrow> (item \<times> byte list) list \<Rightarrow> UserInfo" where
  "after_pushes u xs = foldl apply_push u (map (\<lambda>(it, v). (it, pad16 (lib_len it) v)) xs)"

definition after_pulls :: "UserInfo \<Rightarrow> item list \<Rightarrow> UserInfo" where
  "after_pulls u its = foldl (user_after (\<lambda>_. 0)) u its"

definition answer_at :: "UserInfo \<Rightarrow> item list \<Rightarrow> nat \<Rightarrow> byte list" where
  "answer_at u its k = tl (user_answer (after_pulls u (take k its)) (its ! k))"

lemma adb_triv: "users s h = Some u \<Longrightarrow> s\<lparr>users := (users s)(h \<mapsto> u)\<rparr> = s"
  by (cases s) (auto simp: map_upd_triv)

lemma foldl_spec_push:
  "users s h = Some u \<Longrightarrow> list_all (\<lambda>x. fst x \<noteq> NEW_ENB) xs \<Longrightarrow>
   foldl (spec_push (Some h)) s xs = s\<lparr>users := (users s)(h \<mapsto> foldl apply_push u xs)\<rparr>"
  by (induction xs arbitrary: s u) (auto simp: spec_push_def adb_triv)

lemma plain_pull_user_after: "plain_pull it \<Longrightarrow> user_after rnd u it = user_after (\<lambda>_. 0) u it"
  by (auto simp: plain_pull_def user_after_def)

lemma foldl_spec_pull:
  "users s h = Some u \<Longrightarrow> list_all plain_pull its \<Longrightarrow>
   foldl (spec_pull (Some h)) s (map Pull its) = s\<lparr>users := (users s)(h \<mapsto> after_pulls u its)\<rparr>"
proof (induction its arbitrary: s u)
  case (Cons it its)
  let ?u = "user_after (\<lambda>_. 0) u it"
  have it: "it \<noteq> RAND_UPDATE" "plain_pull it" using Cons.prems(2) by (auto simp: plain_pull_def)
  have "spec_pull (Some h) s (Pull it) = s\<lparr>users := (users s)(h \<mapsto> ?u)\<rparr>"
    using Cons.prems(1) plain_pull_user_after [OF it(2), of "arands s" u] it(1) by simp
  with Cons.IH [of "s\<lparr>users := (users s)(h \<mapsto> ?u)\<rparr>" ?u] Cons.prems(2) show ?case
    by (simp add: after_pulls_def cong: if_cong)
qed (simp add: after_pulls_def adb_triv)

lemma plain_pull_field: "plain_pull it \<Longrightarrow> \<exists>f. pfield_of it = Some f"
  by (cases it) (simp_all add: plain_pull_def)

lemma plain_pull_inj:
  assumes "plain_pull a" and "plain_pull b" and "pfield_of a = pfield_of b"
  shows "a = b"
  using assms by (cases a; simp add: plain_pull_def; cases b; simp)

lemma plain_pull_allowed: "plain_pull it \<Longrightarrow> pull_allowed (Some h) (Pull it)"
  by (cases it) (simp_all add: plain_pull_def pull_allowed_def)

lemma rdn_take: "i + n \<le> m \<Longrightarrow> rdn (take m b) i n = rdn b i n"
  by (auto simp: rdn_def drop_take)

lemma rd_rdn: "rd b i = Some x \<longleftrightarrow> rdn b i 1 = Some [x]"
  by (auto simp: rd_def rdn_def take_Suc_conv_app_nth)

lemma user_answer_plain:
  assumes "plain_pull it"
  shows "\<exists>v. user_answer u it = item_code it # v \<and> length v \<le> 16"
  using assms pull_source_inside [of it] by (auto simp: plain_pull_def user_answer_def counter_bytes_def)

section \<open>An access\<close>

text \<open>
  With a byte to spare behind its block an access sends its request without the end mark; with none, the end mark is
  written outside the block, whatever the request is.
\<close>

lemma db_access_eq:
  assumes ok: "access_ok it v xs its" and slack: "0 < o_slack L (db_buffer_input_size (length xs) (length its))"
  shows "db_access L it v (length xs) (length its) (access_args xs its) =
     Access (body (access_request it v xs its)) (17 * length its) (\<lambda>answer.
       andthen (deref (wrn (replicate (17 * length its) 0) 0 answer)) (\<lambda>head.
       andthen (deref (extract_db_values head (length answer) (uninitialised L))) (\<lambda>P.
       Returns (head, P))))"
proof -
  let ?n = "db_buffer_input_size (length xs) (length its)" and ?r = "access_request it v xs its"
  let ?m = "?n + o_slack L ?n"
  let ?o = "overlay (replicate ?m 0) 0 (body ?r)"
  have lb: "length (body ?r) = ?n" by (rule length_body_access [OF ok])
  have lo: "length ?o = ?m" using lb by (subst length_overlay) simp_all
  have "form_db_request (replicate ?m 0) (access_args xs its) (item_code it) v (length xs) (length its) =
      Some (?o[?n := item_code EOM])"
    using form_db_request_eq [OF ok, of ?m] lo slack by (simp add: wr_def)
  moreover have "rdn (?o[?n := item_code EOM]) 0 ?n = Some (body ?r)"
    using lo lb by (simp add: rdn_def overlay_def)
  ultimately show ?thesis by (simp add: db_access_def Let_def db_buffer_output_size_def)
qed

lemma db_access_overflow:
  assumes ok: "access_ok it v xs its" and slack: "o_slack L (db_buffer_input_size (length xs) (length its)) = 0"
  shows "db_access L it v (length xs) (length its) (access_args xs its) = Stops Undefined_behaviour"
proof -
  let ?n = "db_buffer_input_size (length xs) (length its)"
  have "length (overlay (replicate ?n 0) 0 (body (access_request it v xs its))) = ?n"
    using length_body_access [OF ok] by (subst length_overlay) simp_all
  with form_db_request_eq [OF ok, of ?n] slack show ?thesis by (simp add: db_access_def Let_def wr_def)
qed

text \<open>The exchange for a subscriber that the database knows.\<close>

lemma access_pushed:
  assumes "users s h = Some u" and "access_ok it v xs its"
  shows "foldl (spec_push (Some h)) s (rq_pushes (access_request it v xs its)) =
     s\<lparr>users := (users s)(h \<mapsto> after_pushes u xs)\<rparr>"
proof -
  have "list_all (\<lambda>x. fst x \<noteq> NEW_ENB) (rq_pushes (access_request it v xs its))"
    using assms(2) by (auto simp: access_request_def access_ok_def list_all_iff)
  from foldl_spec_push [OF assms(1) this] show ?thesis by (simp add: access_request_def after_pushes_def)
qed

lemma access_request_ok:
  assumes "users s h = Some u" and ok: "access_ok it v xs its" and "ident_key it (pad16 (id_len it) v) = Some h"
    and its: "list_all plain_pull its" "length its \<le> 20"
  shows "request_ok s (access_request it v xs its)" "request_user (access_request it v xs its) = Some h"
proof -
  let ?r = "access_request it v xs its"
  show req: "request_user ?r = Some h" using assms(3) by (simp add: request_user_def access_request_def)
  have "length (pad16 (id_len it) v) = 16"
    using ok by (cases it) (auto simp: pad16_def access_ok_def lib_id_ok_def)
  moreover have "list_all (push_allowed (Some h)) (rq_pushes ?r)"
    using ok lib_len_le
    by (fastforce simp: access_request_def access_ok_def list_all_iff push_allowed_def pad16_def lib_push_ok_def)
  moreover have "list_all (pull_allowed (Some h)) (rq_pulls ?r)"
    using its(1) plain_pull_allowed by (auto simp: access_request_def list_all_iff)
  ultimately show "request_ok s ?r" using assms(1) its(2) by (simp add: request_ok_def req) (simp add: access_request_def)
qed

lemma exchange_known:
  assumes c: "ready c" and u: "users (store c) h = Some u"
    and ok: "access_ok it v xs its" and id: "ident_key it (pad16 (id_len it) v) = Some h"
    and its: "its \<noteq> []" "list_all plain_pull its" "length its \<le> 20" "length xs \<le> 20"
  shows "\<exists>c'. db_exchange c (body (access_request it v xs its)) (17 * length its) =
       (Inr (take (17 * length its) (serve_answer (Some h) (store c) (access_request it v xs its) (c_response c))), c') \<and>
     ready c' \<and> store c' = (store c)\<lparr>users := (users (store c))(h \<mapsto> after_pulls (after_pushes u xs) its)\<rparr>"
proof -
  let ?s = "store c" and ?r = "access_request it v xs its"
  note rok = access_request_ok [OF u ok id its(2,3)]
  have "length (body ?r) \<le> 1024" using length_body_access [OF ok] its(3,4) by (simp add: db_buffer_input_size_def)
  with exchange_ok [OF c rok] its(1) obtain c' where
    x: "db_exchange c (body ?r) (17 * length its) = (Inr (take (17 * length its) (serve_answer (Some h) ?s ?r (c_response c))), c')"
    "ready c'" "store c' = serve (Some h) ?s ?r" by (auto simp: access_request_def)
  have "users (?s\<lparr>users := (users ?s)(h \<mapsto> after_pushes u xs)\<rparr>) h = Some (after_pushes u xs)" by simp
  from foldl_spec_pull [OF this its(2)] access_pushed [OF u ok]
  have "serve (Some h) ?s ?r = ?s\<lparr>users := (users ?s)(h \<mapsto> after_pulls (after_pushes u xs) its)\<rparr>"
    by (simp add: serve_def) (simp add: access_request_def)
  with x show ?thesis by simp
qed

text \<open>An access for such a subscriber: the answers are found behind the pointers.\<close>

theorem db_access_ok:
  assumes c: "ready c" and u: "users (store c) h = Some u"
    and ok: "access_ok it v xs its" and id: "ident_key it (pad16 (id_len it) v) = Some h"
    and its: "its \<noteq> []" "distinct its" "list_all plain_pull its" "length its \<le> 20" "length xs \<le> 20"
    and slack: "0 < o_slack L (db_buffer_input_size (length xs) (length its))"
  shows "\<exists>c' head P. exec (db_access L it v (length xs) (length its) (access_args xs its)) c = (Done (head, P), c') \<and> ready c' \<and>
     store c' = (store c)\<lparr>users := (users (store c))(h \<mapsto> after_pulls (after_pushes u xs) its)\<rparr> \<and>
     (\<forall>k f. k < length its \<longrightarrow> pfield_of (its ! k) = Some f \<longrightarrow> P f = At (17 * k + 1)) \<and>
     (\<forall>k < length its. rdn head (17 * k + 1) (length (answer_at (after_pushes u xs) its k)) = Some (answer_at (after_pushes u xs) its k)) \<and>
     (\<forall>f. (\<forall>it \<in> set its. pfield_of it \<noteq> Some f) \<longrightarrow> P f = uninitialised L f)"
proof -
  let ?r = "access_request it v xs its" and ?s = "store c" and ?N = "17 * length its" and ?u = "after_pushes u xs"
  define R where "R = serve_answer (Some h) ?s ?r (c_response c)"
  note rok = access_request_ok [OF u ok id its(3,4)]
  from exchange_known [OF c u ok id its(1,3-5)] obtain c' where
    x: "db_exchange c (body ?r) ?N = (Inr (take ?N R), c')" "ready c'"
    "store c' = ?s\<lparr>users := (users ?s)(h \<mapsto> after_pulls ?u its)\<rparr>" unfolding R_def by blast
  have so: "sockets_ok ?s" using c by (simp add: ready_def sockets_ok_abs)
  have lR: "length R = 1024"
    using length_serve_answer [OF so rok(1)] c rok(2) by (simp add: R_def ready_def)
  let ?p = "foldl (spec_push (Some h)) ?s (rq_pushes ?r)"
  have pu: "users ?p h = Some ?u" using access_pushed [OF u ok] by simp
  have sop: "sockets_ok ?p" using so rok by (intro sockets_ok_pushes) (simp_all add: request_ok_def)
  have at: "rd (take ?N R) (17 * k) = Some (item_code (its ! k)) \<and>
      rdn (take ?N R) (17 * k + 1) (length (answer_at ?u its k)) = Some (answer_at ?u its k)" if k: "k < length its" for k
  proof -
    have pl: "list_all plain_pull (take k its)" "plain_pull (its ! k)"
      using its(3) k by (simp_all add: list_all_length)
    obtain w' where w': "user_answer (after_pulls ?u (take k its)) (its ! k) = item_code (its ! k) # w'" "length w' \<le> 16"
      using user_answer_plain [OF pl(2)] by blast
    have "spec_answer (Some h) (foldl (spec_pull (Some h)) ?p (take k (rq_pulls ?r))) (rq_pulls ?r ! k) = item_code (its ! k) # w'"
      using foldl_spec_pull [OF pu pl(1)] w'(1) k by (simp add: access_request_def take_map)
    from spec_answers_nth [OF sop _ _ this [symmetric], of 0 "c_response c"] k c its(4)
    have "rdn R (17 * k) (Suc (length w')) = Some (item_code (its ! k) # w')"
      by (simp add: R_def serve_answer_def ready_def) (simp add: access_request_def)
    moreover have "17 * k + Suc (length w') \<le> ?N" using k w'(2) by simp
    ultimately have "rdn (take ?N R) (17 * k) (Suc (length w')) = Some (item_code (its ! k) # w')"
      by (simp only: rdn_take)
    from rdn_ConsD [OF this] show ?thesis by (simp add: answer_at_def w'(1))
  qed
  have "\<forall>k < length its. rd (take ?N R) (17 * (0 + k)) = Some (item_code (its ! k))" using at by simp
  from extract_from_all [OF this, of ?N "uninitialised L"] obtain P where
    P: "extract_from 0 (take ?N R) ?N (uninitialised L) = Some P" and
    set: "\<And>k f. k < length its \<Longrightarrow> pfield_of (its ! k) = Some f \<Longrightarrow>
       (\<forall>l. k < l \<longrightarrow> l < length its \<longrightarrow> pfield_of (its ! l) \<noteq> Some f) \<Longrightarrow> P f = At (17 * (0 + k) + 1)" and
    keep: "\<And>f. (\<forall>k < length its. pfield_of (its ! k) \<noteq> Some f) \<Longrightarrow> P f = uninitialised L f"
    by auto
  have "P f = At (17 * k + 1)" if "k < length its" "pfield_of (its ! k) = Some f" for k f
  proof -
    have "\<forall>l. k < l \<longrightarrow> l < length its \<longrightarrow> pfield_of (its ! l) \<noteq> Some f"
      using that its(2,3) plain_pull_inj by (metis list_all_length nat_neq_iff nth_eq_iff_index_eq)
    from set [OF that this] show ?thesis by simp
  qed
  moreover have "P f = uninitialised L f" if "\<forall>it \<in> set its. pfield_of it \<noteq> Some f" for f
    using keep that by simp
  moreover have "exec (db_access L it v (length xs) (length its) (access_args xs its)) c = (Done (take ?N R, P), c')"
    using db_access_eq [OF ok slack] x(1) P its(4) lR by (simp add: wrn_def extract_db_values_def)
  ultimately show ?thesis using x(2,3) at by auto
qed

section \<open>Subscribers that are not in the database\<close>

text \<open>What the server has sent first stays the first message.\<close>

lemma multi_pkt_loop_first:
  "multi_pkt_loop c p n = Some (c', st) \<Longrightarrow> c_sent c = m # ms \<Longrightarrow> \<exists>ms'. c_sent c' = m # ms'"
proof (induction c p n arbitrary: ms rule: multi_pkt_loop.induct)
  case (1 c p n)
  show ?case
  proof (cases "p < n")
    case True
    with "1.prems"(1) obtain a c1 st1 where
      a: "analyze_request (c_db c) (drop p (c_request c)) (n - p) (c_response c) = Some a"
      and s: "send_response (c\<lparr>c_db := ans_db a, c_response := ans_response a\<rparr>) (ans_response_len a) = Some (c1, st1)"
      and st1: "st1 = Closed \<and> c' = c1 \<or> st1 = Open \<and> multi_pkt_loop c1 (p + ans_consumed a) n = Some (c', st)"
      by (subst (asm) multi_pkt_loop.simps) (auto split: option.splits conn_state.splits)
    from s "1.prems"(2) obtain ms1 where "c_sent c1 = m # ms1"
      by (auto simp: send_response_def split: bind_splits if_splits)
    with st1 "1.IH" [OF True a s refl, of ms1] show ?thesis by auto
  next
    case False
    with "1.prems" show ?thesis by (subst (asm) multi_pkt_loop.simps) auto
  qed
qed

lemma unknown_rejected:
  assumes wf: "wf_db d" and h: "request_user r = Some h" "users (abs_db d) h = None" and v: "length (rq_val r) = 16"
    and resp: "response \<noteq> []"
    and a: "analyze_request d (body r @ rest) n response = Some a"
  shows "ans_response_len a = 1 \<and> ans_response a = response[0 := 0] \<and> ans_db a = d \<and>
     skip_to_EOM (body r @ rest) n 1 = Some (ans_consumed a)"
proof -
  have "rd (body r @ rest) 0 = Some (item_code (rq_id r))" by (simp add: body_def rd_Cons)
  moreover have "ident_key (rq_id r) (drop 1 (body r @ rest)) = Some h"
    using h(1) v ident_key_append [of "rq_id r" "rq_val r" h] by (simp add: body_def request_user_def)
  ultimately have "lookup_and_run d (Some h) (body r @ rest) n response = Some a" using analyze_ident a by simp
  moreover have "hashmap_get (imsi_map d) h = Some None"
    using hm.get_total [of "imsi_map d" h] wf h(2) by (auto simp: wf_db_def abs_db_def)
  ultimately show ?thesis
    using resp by (auto simp: lookup_and_run_def reject_request_def wr_def split: bind_splits)
qed

text \<open>
  The answer has one byte, which is not what the worker asserts.  A byte of the request that looks like an end mark makes
  the server take the rest for another request; when it goes wrong over that, the server stops.
\<close>

lemma db_exchange_unknown:
  assumes c: "ready c" and u: "users (store c) h = None" and h: "request_user r = Some h" and v: "length (rq_val r) = 16"
    and n: "1 < n"
  shows "fst (db_exchange c (body r) n) = Inl (if send_request c (body r) = None then Server_stopped else Assertion_failed)"
proof (cases "send_request c (body r)")
  case None
  then show ?thesis by (simp add: db_exchange_def)
next
  case (Some p)
  then obtain c1 st where s: "send_request c (body r) = Some (c1, st)" by (cases p) auto
  then obtain rest where mp: "multi_pkt_loop (c\<lparr>c_request := body r @ rest\<rparr>) 0 (length (body r)) = Some (c1, st)"
    by (auto simp: send_request_def wrn_def split: bind_splits if_splits conn_state.splits)
  let ?c = "c\<lparr>c_request := body r @ rest\<rparr>"
  have "0 < length (body r)" by (simp add: body_def)
  with mp obtain a c' st' where
    a: "analyze_request (c_db ?c) (body r @ rest) (length (body r)) (c_response ?c) = Some a"
    and sr: "send_response (?c\<lparr>c_db := ans_db a, c_response := ans_response a\<rparr>) (ans_response_len a) = Some (c', st')"
    and st': "st' = Closed \<and> c1 = c' \<or> st' = Open \<and> multi_pkt_loop c' (ans_consumed a) (length (body r)) = Some (c1, st)"
    by (subst (asm) multi_pkt_loop.simps) (auto split: option.splits conn_state.splits)
  have "wf_db (c_db ?c)" "users (abs_db (c_db ?c)) h = None" "c_response ?c \<noteq> []" using c u by (auto simp: ready_def)
  from unknown_rejected [OF this(1) h this(2) v this(3) a]
  have "ans_response_len a = 1 \<and> ans_response a = (c_response ?c)[0 := 0]" by blast
  with sr c have "c_sent c' = [[0]]"
    by (auto simp: send_response_def ready_def rdn_def take_Suc_conv_app_nth split: bind_splits)
  with st' multi_pkt_loop_first [of c' "ans_consumed a" "length (body r)" c1 st "[0]" "[]"] obtain ms where
    "c_sent c1 = [0] # ms" by auto
  with s n show ?thesis by (simp add: db_exchange_def recv_response_def)
qed

lemma skip_to_EOM_none:
  "n \<le> length b \<Longrightarrow> item_code EOM \<notin> set (drop i (take n b)) \<Longrightarrow> i \<le> n \<Longrightarrow> skip_to_EOM b n i = Some (n + 1)"
proof (induction b n i rule: skip_to_EOM.induct)
  case (1 b n i)
  show ?case
  proof (cases "i < n")
    case True
    then have "drop i (take n b) = b ! i # drop (Suc i) (take n b)"
      using "1.prems"(1) by (simp add: Cons_nth_drop_Suc [symmetric])
    with 1 True show ?thesis by (subst skip_to_EOM.simps) (simp add: rd_def)
  next
    case False
    with "1.prems" show ?thesis by (subst skip_to_EOM.simps) simp
  qed
qed

text \<open>Without such a byte the server goes on, and nothing in the database has changed.\<close>

lemma db_exchange_unknown_plain:
  assumes c: "ready c" and u: "users (store c) h = None" and h: "request_user r = Some h" and v: "length (rq_val r) = 16"
    and n: "1 < n" and e: "item_code EOM \<notin> set (tl (body r))" and l: "length (body r) \<le> 1024"
  shows "send_request c (body r) \<noteq> None \<and> c_db (snd (db_exchange c (body r) n)) = c_db c"
proof -
  let ?req = "body r @ drop (length (body r)) (c_request c)" and ?b = "length (body r)"
  have b: "drop 1 (take ?b ?req) = tl (body r)" by (simp add: drop_Suc)
  have g: "hashmap_get (imsi_map (c_db c)) h = Some None"
    using hm.get_total [of "imsi_map (c_db c)" h] c u by (auto simp: ready_def wf_db_def abs_db_def)
  have "rd ?req 0 = Some (item_code (rq_id r))" by (simp add: body_def rd_Cons)
  moreover have "ident_key (rq_id r) (drop 1 ?req) = Some h"
    using h v ident_key_append [of "rq_id r" "rq_val r" h] by (simp add: body_def request_user_def)
  ultimately have "analyze_request (c_db c) ?req ?b (c_response c) = reject_request (c_db c) ?req ?b (c_response c)"
    using analyze_ident g by (simp add: lookup_and_run_def)
  moreover have "skip_to_EOM ?req ?b 1 = Some (?b + 1)"
    using e b by (intro skip_to_EOM_none) (simp_all add: body_def)
  ultimately have a: "analyze_request (c_db c) ?req ?b (c_response c) =
      Some \<lparr>ans_db = c_db c, ans_response = (c_response c)[0 := 0], ans_response_len = 1, ans_consumed = ?b + 1\<rparr>"
    using c by (auto simp: reject_request_def ready_def wr_def)
  let ?c1 = "c\<lparr>c_request := ?req, c_response := (c_response c)[0 := 0], c_sends := (\<lambda>i. c_sends c (i + 1)), c_sent := [[0]]\<rparr>"
  have "send_response (c\<lparr>c_request := ?req, c_db := c_db c, c_response := (c_response c)[0 := 0]\<rparr>) 1 = Some (?c1, Open)"
    using c by (auto simp: send_response_def rdn_def ready_def take_Suc_conv_app_nth)
  with a have "multi_pkt_loop (c\<lparr>c_request := ?req\<rparr>) 0 ?b = Some (?c1, Open)"
    by (simp add: multi_pkt_loop.simps body_def)
  moreover have "wrn (c_request c) 0 (body r) = Some ?req" using l c by (simp add: wrn_def ready_def)
  ultimately have "send_request c (body r) = Some (?c1, Open)" by (simp add: send_request_def)
  with n show ?thesis by (simp add: db_exchange_def recv_response_def)
qed

lemma request_user_access: "request_user (access_request it v xs its) = ident_key it (pad16 (id_len it) v)"
  by (simp add: request_user_def access_request_def)

lemma length_pad16_id: "access_ok it v xs its \<Longrightarrow> length (rq_val (access_request it v xs its)) = 16"
  by (cases it) (auto simp: access_request_def pad16_def access_ok_def lib_id_ok_def)

lemma db_access_unknown:
  assumes c: "ready c" and u: "users (store c) h = None"
    and ok: "access_ok it v xs its" and id: "ident_key it (pad16 (id_len it) v) = Some h"
    and its: "its \<noteq> []" and slack: "0 < o_slack L (db_buffer_input_size (length xs) (length its))"
  shows "\<exists>c'. exec (db_access L it v (length xs) (length its) (access_args xs its)) c =
     (Halted (if send_request c (body (access_request it v xs its)) = None then Server_stopped else Assertion_failed), c')"
proof -
  let ?r = "access_request it v xs its"
  have n: "1 < 17 * length its" using its by (cases its) simp_all
  have "request_user ?r = Some h" using id by (simp add: request_user_access)
  from db_exchange_unknown [OF c u this length_pad16_id [OF ok] n] show ?thesis
    using db_access_eq [OF ok slack] by (auto split: prod.splits)
qed

end
