(* ===== verification/Worker_Frame.thy ===== *)
theory Worker_Frame
  imports Worker_Ngap Worker_Access Robustness "HOL-Library.Sublist"
begin

text \<open>
  What no message can do.  The handlers of the worker reach the database only through \<open>db_access\<close>, with eleven combinations of
  items, and change the rest of their state only by adding observations and warnings and by setting the responses and the
  stream.  The locale states once that every request and every state that a handler leads to is as these operations make
  it, whatever the libraries return, whatever the database answers and whatever the bytes of the message are; it is
  interpreted for the requests and for the metrics.  From the requests follows what any interleaving of threads does to the
  database.
\<close>

section \<open>The accesses of the worker\<close>

text \<open>The identifier, the pushed and the pulled items of every call of \<open>db_access\<close>.\<close>

definition worker_access :: "item \<Rightarrow> item list \<Rightarrow> item list \<Rightarrow> bool" where
  "worker_access it xs its \<longleftrightarrow> (it, xs, its) \<in> set
     [(IMSI, [ENB_UE_S1AP_ID, KNH_1], [MME_UE_S1AP_ID, RAND, KEY, OPC]),
      (IMSI, [KASME_1, KASME_2, EPC_NAS_SEQUENCE_NUMBER, UE_NAS_SEQUENCE_NUMBER], [SPGW_IP]),
      (MME_UE_S1AP_ID, [KASME_1, KASME_2, EPC_NAS_SEQUENCE_NUMBER, UE_NAS_SEQUENCE_NUMBER], [SPGW_IP]),
      (MME_UE_S1AP_ID, [], [RAND, KEY, OPC, KNH_1]),
      (MME_UE_S1AP_ID, [], [TMSI]),
      (MME_UE_S1AP_ID, [], [PDN_IP]),
      (MME_UE_S1AP_ID, [], [EPC_TEID, SPGW_IP]),
      (MME_UE_S1AP_ID, [UE_TEID, ENB_IP], [PDN_IP]),
      (MME_UE_S1AP_ID, [], counts_pulls NAS_COUNTS_BOTH_UL_DL),
      (MME_UE_S1AP_ID, [], counts_pulls NAS_COUNTS_JUST_UL),
      (MME_UE_S1AP_ID, [], counts_pulls NAS_COUNTS_JUST_DL)]"

section \<open>What every handler respects\<close>

abbreviation in_nas :: "(worker \<Rightarrow> bool) \<Rightarrow> 'a \<times> 'b \<times> worker \<Rightarrow> bool" where
  "in_nas I \<equiv> \<lambda>(_, _, w). I w"

abbreviation in_ngap :: "(worker \<Rightarrow> bool) \<Rightarrow> 'a \<times> worker \<Rightarrow> bool" where
  "in_ngap I \<equiv> \<lambda>(_, w). I w"

lemma leads_any: "leads Q (\<lambda>_. True) m \<Longrightarrow> (\<And>x. leads Q S (f x)) \<Longrightarrow> leads Q S (andthen m f)"
  by (rule leads_andthen)

locale worker_frame =
  fixes Q :: "byte list \<Rightarrow> nat \<Rightarrow> bool" and I :: "worker \<Rightarrow> bool" and L :: ogs
  assumes access: "worker_access it (map fst xs) its \<Longrightarrow>
      leads Q (\<lambda>_. True) (db_access L it v (length xs) (length its) (access_args xs its))"
    and observed: "I w \<Longrightarrow> I (observe s i w)"
    and warned: "I w \<Longrightarrow> I (ogs_warn s w)"
    and responded: "I w \<Longrightarrow> I (respond rs w)"
    and streamed: "I w \<Longrightarrow> I (w\<lparr>w_sctpStreamID := b\<rparr>)"
begin

lemma pull_access:
  "worker_access MME_UE_S1AP_ID [] its \<Longrightarrow> n = length its \<Longrightarrow>
   leads Q (\<lambda>_. True) (db_access L MME_UE_S1AP_ID v 0 n (map item_arg its))"
  using access [of MME_UE_S1AP_ID "[]" its v] by simp

lemma fetch_keys: "leads Q (\<lambda>_. True) (nas_security_fetch_keys L params cs)"
proof -
  have "leads Q (\<lambda>_. True) (nas_security_store_keys_in_params L head P sp)" for head P sp
    by (simp add: nas_security_store_keys_in_params_def pulled_count_def leading Let_def)
  moreover have "worker_access MME_UE_S1AP_ID [] (counts_pulls cs)" by (cases cs) (simp_all add: worker_access_def)
  ultimately show ?thesis
    by (auto simp: nas_security_fetch_keys_def leading Let_def intro!: leads_any pull_access)
qed

lemma need_key:
  "leads Q (\<lambda>_. True) (need_knas_int L cs params)" "leads Q (\<lambda>_. True) (need_knas_enc L cs params)"
  by (auto simp: need_knas_int_def need_knas_enc_def leading intro!: leads_any fetch_keys)

lemma security_encode: "leads Q (\<lambda>_. True) (nas_5gs_security_encode L params m)"
  by (auto simp: nas_5gs_security_encode_def leading Let_def split: option.split intro!: leads_any need_key)

lemma security_decode: "I w \<Longrightarrow> leads Q (in_nas I) (nas_5gs_security_decode L params ht pk w)"
  by (auto simp: nas_5gs_security_decode_def ogs_pkbuf_push_def ogs_pkbuf_pull_def leading Let_def
      intro!: leads_any [OF need_key(1)] leads_any [OF need_key(2)] warned)

lemma kamf_stored: "it \<in> {IMSI, MME_UE_S1AP_ID} \<Longrightarrow> leads Q (\<lambda>_. True) (store_kamf L it v k)"
  using access [of it "[(KASME_1, k), (KASME_2, drop 16 k), (EPC_NAS_SEQUENCE_NUMBER, replicate 6 0),
      (UE_NAS_SEQUENCE_NUMBER, replicate 6 0)]" "[SPGW_IP]" v]
  by (auto simp: store_kamf_def worker_access_def Let_def eval_nat_numeral intro!: leads_any)

lemma keys_generated: "leads Q (\<lambda>_. True) (nas_5gs_generate_keys L ident opc key rand sqn)"
  by (simp add: nas_5gs_generate_keys_def leading Let_def split: prod.split)

lemma registration_request: "I w \<Longrightarrow> leads Q (in_nas I) (nas_handle_registration_request L ident params w)"
proof -
  assume w: "I w"
  have a: "leads Q (\<lambda>_. True) (db_access L IMSI v 2 4
      (push_arg ENB_UE_S1AP_ID x @ push_arg KNH_1 y @ map item_arg [MME_UE_S1AP_ID, RAND, KEY, OPC]))" for v x y
    using access [of IMSI "[(ENB_UE_S1AP_ID, x), (KNH_1, y)]" "[MME_UE_S1AP_ID, RAND, KEY, OPC]" v]
    by (simp add: worker_access_def eval_nat_numeral)
  show ?thesis
    using w by (auto simp: nas_handle_registration_request_def leading Let_def simp del: list.map
        intro!: leads_any [OF a] leads_any [OF keys_generated] leads_any [OF kamf_stored] responded)
qed

lemma authentication_failure: "I w \<Longrightarrow> leads Q (in_nas I) (nas_handle_authentication_failure L c auts params w)"
  by (auto simp: nas_handle_authentication_failure_def leading Let_def simp del: list.map
      intro!: leads_any [OF pull_access] leads_any [OF keys_generated] leads_any [OF kamf_stored] responded)
    (simp_all add: worker_access_def)

lemma security_mode_complete: "I w \<Longrightarrow> leads Q (in_nas I) (nas_handle_security_mode_complete L c ident params w)"
proof -
  assume w: "I w"
  have "leads Q (\<lambda>_. True) (mask_imeisv L x)" for x by (simp add: mask_imeisv_def leading Let_def)
  then have m: "leads Q (\<lambda>_. True) (case ident of None \<Rightarrow> Returns (masked_imeisv params)
      | Some x \<Rightarrow> andthen (mask_imeisv L x) (\<lambda>m. Returns (if m = None then masked_imeisv params else m)))"
    by (auto split: option.split intro!: leads_any)
  have a: "leads Q (\<lambda>_. True) (db_access L MME_UE_S1AP_ID v 0 1 [item_arg TMSI])" for v
    using pull_access [of "[TMSI]" 1 v] by (simp add: worker_access_def)
  show ?thesis
    using w by (auto simp: nas_handle_security_mode_complete_def leading Let_def simp del: One_nat_def
        intro!: leads_any [OF m] leads_any [OF a] responded)
qed

lemma pdu_session_establishment: "I w \<Longrightarrow> leads Q (in_nas I) (nas_handle_pdu_session_establishment_request L t params w)"
proof -
  assume w: "I w"
  have a: "leads Q (\<lambda>_. True) (db_access L MME_UE_S1AP_ID v 0 1 [item_arg PDN_IP])" for v
    using pull_access [of "[PDN_IP]" 1 v] by (simp add: worker_access_def)
  show ?thesis
    using w by (auto simp: nas_handle_pdu_session_establishment_request_def nas_pdu_session_establishment_fetch_pdu_ip_def
        leading simp del: One_nat_def intro!: leads_any [OF a] responded)
qed

lemma ul_nas_transport:
  assumes "\<And>bs params w. I w \<Longrightarrow> leads Q (in_nas I) (entry bs params w)" and "I w"
  shows "leads Q (in_nas I) (nas_handle_ul_nas_transport entry t c i params w)"
  using assms(2)
  by (auto simp: nas_handle_ul_nas_transport_def single_pkbuf_def leading
      split: resp.split intro!: leads_andthen [OF assms(1)] responded)

lemma status_checked: "leads Q (in_nas I) m \<Longrightarrow> leads Q (in_nas I) (checked m)"
  by (auto simp: checked_def leading intro!: leads_andthen)

lemma gmm_handler:
  assumes "\<And>bs params w. I w \<Longrightarrow> leads Q (in_nas I) (entry bs params w)" and "I w"
  shows "leads Q (in_nas I) (nas_5gmm_handler entry L m params w)"
  using assms(2)
  by (cases m) (auto simp: nas_5gmm_handler_def nas_handle_authentication_response_def
      nas_handle_deregistration_request_from_ue_def leading Let_def split: prod.split
      intro!: status_checked registration_request authentication_failure security_mode_complete ul_nas_transport [OF assms(1)] responded)

lemma gsm_handler: "I w \<Longrightarrow> leads Q (in_nas I) (nas_5gsm_handler L m params w)"
  by (cases m) (auto simp: nas_5gsm_handler_def intro!: status_checked pdu_session_establishment)

lemma bytes_to_message: "I w \<Longrightarrow> leads Q (\<lambda>(_, _, _, w). I w) (nas_bytes_to_message L params bs w)"
  by (auto simp: nas_bytes_to_message_def security_decode_gsm_def leading Let_def split: option.split
      intro!: leads_andthen [OF security_decode])

lemma responses_encoded: "leads Q (\<lambda>_. True) (encode_responses L params rs)"
proof (induction rs arbitrary: params)
  case (Cons r rs)
  then show ?case by (cases r) (auto simp: leading intro!: leads_any [OF security_encode] leads_any)
qed simp

lemma message_to_bytes: "I w \<Longrightarrow> leads Q (in_nas I) (nas_message_to_bytes L params w)"
  by (auto simp: nas_message_to_bytes_def leading intro!: leads_any [OF responses_encoded] responded)

lemma nas_handled: "I w \<Longrightarrow> leads Q (in_nas I) (nas_handler n L bs params w)"
proof (induction n arbitrary: bs params w)
  case (Suc n)
  have h: "leads Q (in_nas I) (case m of Gmm m \<Rightarrow> nas_5gmm_handler (nas_handler n L) L m p w
      | Gsm m \<Rightarrow> nas_5gsm_handler L m p w)" if "I w" for m p w
    using that by (cases m) (auto intro!: gmm_handler [OF Suc.IH] gsm_handler)
  show ?case
    using Suc.prems by (auto simp: leading Let_def intro!: leads_andthen [OF bytes_to_message] leads_andthen [OF h]
        message_to_bytes observed)
qed simp

lemma nas_entered: "I w \<Longrightarrow> leads Q (in_nas I) (nas_handler_entrypoint L bs params w)"
  unfolding nas_handler_entrypoint_def by (rule nas_handled)

lemma downlink_built: "leads Q (\<lambda>_. True) (ngap_build_downlink_nas_transport amf i nas ambr s)"
  by (auto simp: ngap_build_downlink_nas_transport_def leading split: option.split intro!: leads_any)

lemma single: "leads Q (\<lambda>_. True) (single_pkbuf w)"
  by (simp add: single_pkbuf_def leading split: resp.split)

lemma initial_ue_message: "I w \<Longrightarrow> leads Q (in_ngap I) (ngap_handle_initial_ue_message L ies w)"
  by (auto simp: ngap_handle_initial_ue_message_def leading Let_def
      intro!: leads_andthen [OF nas_entered] leads_any [OF downlink_built] leads_any [OF single] observed responded)

lemma context_setup_built: "leads Q (\<lambda>_. True) (ngap_build_initial_context_setup_request L amf i nas s kgnb imei)"
  by (auto simp: ngap_build_initial_context_setup_request_def leading Let_def split: option.split intro!: leads_any)

lemma session_setup_built: "leads Q (\<lambda>_. True) (ngap_build_pdu_session_resource_setup_request L amf i nas)"
proof -
  have a: "leads Q (\<lambda>_. True) (db_access L MME_UE_S1AP_ID v 0 2 (map item_arg [EPC_TEID, SPGW_IP]))" for v
    by (rule pull_access) (simp_all add: worker_access_def)
  have "leads Q (\<lambda>_. True) (nas_build_ngap_pdu_session_resource_setup_request_transfer L amf)"
    by (auto simp: nas_build_ngap_pdu_session_resource_setup_request_transfer_def
        nas_fetch_ngap_pdu_session_resource_setup_request_transfer_fetch_prerequisites_def leading simp del: list.map
        intro!: leads_any [OF a] leads_any)
  then show ?thesis
    by (auto simp: ngap_build_pdu_session_resource_setup_request_def leading intro!: leads_any)
qed

lemma uplink_answered: "I w \<Longrightarrow> leads Q I (answer_uplink L params amf i w)"
  by (auto simp: answer_uplink_def answer_downlink_def answer_security_mode_complete_def answer_pdu_session_def
      answer_deregistration_def leading Let_def
      intro!: leads_any [OF downlink_built] leads_any [OF single] leads_any [OF context_setup_built]
        leads_any [OF session_setup_built] responded)

lemma uplink_nas_transport: "I w \<Longrightarrow> leads Q (in_ngap I) (ngap_handle_uplink_nas_transport L ies w)"
  by (auto simp: ngap_handle_uplink_nas_transport_def leading Let_def
      intro!: leads_andthen [OF nas_entered] leads_andthen [OF uplink_answered] observed)

lemma transfer_handled: "leads Q (\<lambda>_. True) (ngap_handle_pdu_session_resource_setup_response_transfer L amf bs)"
proof -
  have "leads Q (\<lambda>_. True) (db_access L MME_UE_S1AP_ID v 2 1 (push_arg UE_TEID x @ push_arg ENB_IP y @ [item_arg PDN_IP]))"
    for v x y
    using access [of MME_UE_S1AP_ID "[(UE_TEID, x), (ENB_IP, y)]" "[PDN_IP]" v]
    by (simp add: worker_access_def eval_nat_numeral)
  then show ?thesis
    by (auto simp: ngap_handle_pdu_session_resource_setup_response_transfer_def leading Let_def
        nas_store_ngap_pdu_session_resource_setup_response_transfer_fetch_prerequisites_def split: prod.split intro!: leads_any)
qed

lemma items_set_up: "leads Q (\<lambda>_. True) (setup_items L amf items)"
  by (induction items) (auto simp: leading intro!: leads_any [OF transfer_handled])

lemma setup_response: "I w \<Longrightarrow> leads Q (in_ngap I) (ngap_handle_pdu_session_resource_setup_response L ies w)"
  by (auto simp: ngap_handle_pdu_session_resource_setup_response_def leading intro!: leads_any [OF items_set_up] responded)

lemma message_handled: "I w \<Longrightarrow> leads Q (in_ngap I) (ngap_message_handler L message w)"
  by (cases message)
    (auto simp: ngap_message_handler_def ngap_initiatingMessage_handler_def ngap_successfulOutcome_handler_def
      ngap_handle_ng_setup_request_def Let_def split: option.split
      intro!: streamed observed responded initial_ue_message uplink_nas_transport setup_response)

lemma encoded: "leads Q (\<lambda>_. True) (messages_to_bytes L rs)"
proof (induction rs)
  case (Cons r rs)
  then show ?case by (cases r) (auto intro!: leads_any)
qed simp

lemma entrypoint: "I w \<Longrightarrow> leads Q (in_ngap I) (ngap_handler_entrypoint L bs w)"
  by (auto simp: ngap_handler_entrypoint_def leading split: option.split
      intro!: observed leads_andthen [OF message_handled] leads_any [OF encoded])

lemma processed: "I fresh_worker \<Longrightarrow> leads Q (in_ngap I) (process_message L buffer)"
  by (auto simp: process_message_def leading Let_def intro!: observed leads_andthen [OF entrypoint])

end

section \<open>The requests\<close>

text \<open>What the worker sends: the bytes of one of its accesses, with values that are long enough.\<close>

definition worker_request :: "byte list \<Rightarrow> nat \<Rightarrow> bool" where
  "worker_request request n \<longleftrightarrow> (\<exists>it v xs its. worker_access it (map fst xs) its \<and> access_ok it v xs its \<and>
     request = body (access_request it v xs its) \<and> n = 17 * length its)"

abbreviation worker_pushes :: "item set" where
  "worker_pushes \<equiv> {ENB_UE_S1AP_ID, KNH_1, KASME_1, KASME_2, EPC_NAS_SEQUENCE_NUMBER, UE_NAS_SEQUENCE_NUMBER, UE_TEID, ENB_IP}"

lemma worker_access_items:
  assumes "worker_access it xs its"
  shows "it \<in> {IMSI, MME_UE_S1AP_ID}" "set xs \<subseteq> worker_pushes" "list_all plain_pull its" "distinct its" "its \<noteq> []"
    "length its \<le> 20" "length xs \<le> 20"
  using assms by (auto simp: worker_access_def plain_pull_def)

text \<open>An array from which the library copies is as long as what it copies; the last byte of an IMSI is overwritten.\<close>

lemma add_identifier_SomeD:
  assumes "add_identifier buffer 0 (item_code it) v = Some r" and "it \<in> {IMSI, MME_UE_S1AP_ID}"
  shows "\<exists>v'. lib_id_ok it v' \<and> add_identifier buffer 0 (item_code it) v' = Some r"
proof (cases "it = IMSI")
  case True
  with assms have l: "16 \<le> length v" "17 \<le> length buffer"
    by (auto simp: add_identifier_def put_item_def memcpy_def rdn_def wr_def wrn_def split: bind_splits if_splits)
  then have "add_identifier buffer 0 (item_code it) v = add_identifier buffer 0 (item_code it) ((take 16 v)[15 := 0])"
    using True by (simp add: add_identifier_def put_item_def memcpy_def rdn_def wr_def wrn_def list_update_append)
  moreover have "lib_id_ok it ((take 16 v)[15 := 0])" using True l by (simp add: lib_id_ok_def)
  ultimately show ?thesis using assms(1) by auto
next
  case False
  with assms have "lib_id_ok it v"
    by (auto simp: lib_id_ok_def add_identifier_def put_item_def memcpy_def rdn_def split: bind_splits if_splits)
  with assms(1) show ?thesis by blast
qed

lemma push_item_SomeD:
  assumes "push_item buffer p (item_code it) v = Some r" and "it \<in> worker_pushes"
  shows "it \<noteq> NEW_ENB \<and> lib_push_ok (it, v)"
  using assms by (auto simp: push_item_def put_item_def put_byte_def memcpy_def rdn_def rd_def lib_push_ok_def Suc_le_eq
      split: bind_splits if_splits)

lemma form_pushes_SomeD:
  "form_pushes (length xs) (concat (map (\<lambda>(it, v). push_arg it v) xs) @ ap) buffer p = Some r \<Longrightarrow>
   set (map fst xs) \<subseteq> worker_pushes \<Longrightarrow> list_all (\<lambda>x. fst x \<noteq> NEW_ENB \<and> lib_push_ok x) xs"
proof (induction xs arbitrary: buffer p)
  case (Cons x xs)
  obtain it v where x: "x = (it, v)" by fastforce
  from Cons.prems(1) obtain b q where p: "push_item buffer p (item_code it) v = Some (b, q)"
    and r: "form_pushes (length xs) (concat (map (\<lambda>(it, v). push_arg it v) xs) @ ap) b q = Some r"
    by (auto simp: x push_arg_def item_arg_def split: bind_splits)
  have "it \<in> worker_pushes" using Cons.prems(2) x by simp
  from push_item_SomeD [OF p this] Cons.IH [OF r] Cons.prems(2) x show ?case by simp
qed simp

lemma db_access_request:
  assumes "worker_access it (map fst xs) its"
  shows "leads worker_request (\<lambda>_. True) (db_access L it v (length xs) (length its) (access_args xs its))"
proof -
  let ?n = "db_buffer_input_size (length xs) (length its)"
  have "worker_request request (db_buffer_output_size (length its))"
    if f: "form_db_request (replicate (?n + o_slack L ?n) 0) (access_args xs its) (item_code it) v (length xs) (length its) =
        Some b" and r: "rdn b 0 ?n = Some request" for b request
  proof -
    let ?m = "?n + o_slack L ?n"
    from f obtain b1 b2 where i: "add_identifier (replicate ?m 0) 0 (item_code it) v = Some (b1, b2)"
      and p: "form_pushes (length xs) (access_args xs its) b1 b2 \<noteq> None"
      by (auto simp: form_db_request_def split: bind_splits)
    from add_identifier_SomeD [OF i worker_access_items(1) [OF assms]] obtain v' where
      v': "lib_id_ok it v'" "add_identifier (replicate ?m 0) 0 (item_code it) v' = Some (b1, b2)" by blast
    have ok: "access_ok it v' xs its"
      using v'(1) worker_access_items(1,2) [OF assms] p form_pushes_SomeD [of xs "map item_arg its" b1 b2]
      by (auto simp: access_ok_def)
    have "form_db_request (replicate ?m 0) (access_args xs its) (item_code it) v' (length xs) (length its) = Some b"
      using f i v'(2) by (simp add: form_db_request_def)
    with form_db_request_eq [OF ok, of ?m] have
      b: "wr (overlay (replicate ?m 0) 0 (body (access_request it v' xs its))) ?n (item_code EOM) = Some b" by simp
    have lb: "length (body (access_request it v' xs its)) = ?n" by (rule length_body_access [OF ok])
    have "length (overlay (replicate ?m 0) 0 (body (access_request it v' xs its))) = ?m"
      using lb by (subst length_overlay) simp_all
    with b r lb have "request = body (access_request it v' xs its)"
      by (auto simp: wr_def rdn_def overlay_def split: if_splits)
    with ok assms show ?thesis unfolding worker_request_def db_buffer_output_size_def by blast
  qed
  then show ?thesis by (auto simp: db_access_def leading Let_def)
qed

interpretation requests: worker_frame worker_request "\<lambda>_. True" L for L
  by unfold_locales (simp_all add: db_access_request)

lemma process_message_requests: "leads worker_request (\<lambda>_. True) (process_message L d)"
  by (rule leads_mono [OF requests.processed]) simp_all

section \<open>What a request does to the database\<close>

text \<open>The members of a record that the worker writes: those that it pushes, and the counts that the database advances.\<close>

definition worker_members :: "ufield set" where
  "worker_members = {F_enb_ue_s1ap_id, F_knh1, F_kasme1, F_kasme2, F_epc_nas_sequence_number, F_ue_nas_sequence_number,
     F_ue_teid, F_enb_ip}"

text \<open>The store after some accesses: the same subscribers, whose other members are as they were, and nothing else changed.\<close>

definition confined :: "adb \<Rightarrow> adb \<Rightarrow> bool" where
  "confined s s' \<longleftrightarrow> (\<exists>U. s' = s\<lparr>users := U\<rparr> \<and> dom U = dom (users s) \<and>
     (\<forall>h u u' f. users s h = Some u \<longrightarrow> U h = Some u' \<longrightarrow> f \<notin> worker_members \<longrightarrow> fld u' f = fld u f))"

lemma confined_refl: "confined s s"
  unfolding confined_def by (intro exI [of _ "users s"]) (cases s, auto)

lemma confined_trans: "confined s s1 \<Longrightarrow> confined s1 s2 \<Longrightarrow> confined s s2"
proof -
  assume "confined s s1" "confined s1 s2"
  then obtain U V where U: "s1 = s\<lparr>users := U\<rparr>" "dom U = dom (users s)"
    "\<And>h u u' f. users s h = Some u \<Longrightarrow> U h = Some u' \<Longrightarrow> f \<notin> worker_members \<Longrightarrow> fld u' f = fld u f"
    and V: "s2 = s1\<lparr>users := V\<rparr>" "dom V = dom (users s1)"
    "\<And>h u u' f. users s1 h = Some u \<Longrightarrow> V h = Some u' \<Longrightarrow> f \<notin> worker_members \<Longrightarrow> fld u' f = fld u f"
    unfolding confined_def by blast
  have "fld u' f = fld u f" if "users s h = Some u" "V h = Some u'" "f \<notin> worker_members" for h u u' f
  proof -
    have "h \<in> dom U" using U(2) that(1) by blast
    then obtain u1 where u1: "U h = Some u1" by blast
    with U(3) [OF that(1) u1 that(3)] V(3) [of h u1 u' f] that U(1) show ?thesis by simp
  qed
  with U V show ?thesis unfolding confined_def by (intro exI [of _ V]) simp
qed

lemma after_pushes_members:
  assumes "set (map fst xs) \<subseteq> worker_pushes" and "list_all (\<lambda>x. fst x \<noteq> NEW_ENB \<and> lib_push_ok x) xs"
    and "length u = user_info_size" and "f \<notin> worker_members"
  shows "length (after_pushes u xs) = user_info_size \<and> fld (after_pushes u xs) f = fld u f"
  using assms(1-3)
proof (induction xs arbitrary: u)
  case (Cons x xs)
  obtain it v where x: "x = (it, v)" by fastforce
  have it: "it \<in> worker_pushes" and l: "length (pad16 (lib_len it) v) = 16"
    using Cons.prems(1,2) x lib_len_le [of it] by (simp_all add: lib_push_ok_def pad16_def)
  from it obtain g where g: "push_target it = Some g" "g \<in> worker_members" by (auto simp: worker_members_def)
  let ?u = "apply_push u (it, pad16 (lib_len it) v)"
  have "length (pushed_value g (pad16 (lib_len it) v)) = fsize g" using length_pushed_value [OF l] .
  then have "length ?u = user_info_size" "fld ?u f = fld u f"
    using g Cons.prems(3) assms(4) by (auto simp: apply_push_def fld_set_fld)
  with Cons.IH [of ?u] Cons.prems(1,2) x show ?case by (simp add: after_pushes_def)
qed (simp add: after_pushes_def)

lemma user_after_members:
  assumes "plain_pull it" and "length u = user_info_size" and "f \<notin> worker_members"
  shows "length (user_after rnd u it) = user_info_size \<and> fld (user_after rnd u it) f = fld u f"
proof -
  have m: "g \<in> worker_members \<and> fsize g = 1" if "pull_count it = Some (g, k)" for g k
    using that assms(1) by (cases it) (auto simp: worker_members_def plain_pull_def)
  have "it \<noteq> RAND_UPDATE" using assms(1) by (auto simp: plain_pull_def)
  then show ?thesis
    using assms(2,3) m by (cases "pull_count it") (auto simp: user_after_def fld_set_fld)
qed

lemma after_pulls_members:
  "list_all plain_pull its \<Longrightarrow> length u = user_info_size \<Longrightarrow> f \<notin> worker_members \<Longrightarrow>
   length (after_pulls u its) = user_info_size \<and> fld (after_pulls u its) f = fld u f"
proof (induction its arbitrary: u)
  case (Cons it its)
  with user_after_members [of it u f "\<lambda>_. 0"] show ?case by (simp add: after_pulls_def)
qed (simp add: after_pulls_def)

text \<open>
  An answer of the right length comes only for a subscriber that the database knows; otherwise the answer has one byte,
  or the server stops.  So the worker never waits in vain.
\<close>

lemma identifiable:
  assumes "access_ok it v xs its" and "it \<in> {IMSI, MME_UE_S1AP_ID}"
  shows "\<exists>h. ident_key it (pad16 (id_len it) v) = Some h"
proof (cases "it = IMSI")
  case True
  with assms(1) have v: "16 \<le> length v" "v ! 15 = 0" by (simp_all add: access_ok_def lib_id_ok_def)
  have "take 10 (drop 6 v) = take 9 (drop 6 v) @ [v ! 15]"
    using v(1) take_Suc_conv_app_nth [of 9 "drop 6 v"] by simp
  then have "drop 6 (take 16 v) = take 9 (drop 6 v) @ [0]" using v(2) by (simp add: drop_take)
  with True atoi_total [of "take 9 (drop 6 v)" "[]"] show ?thesis by (auto simp: hash_imsi_def pad16_def)
next
  case False
  with assms have "it = MME_UE_S1AP_ID" "4 \<le> length v" by (auto simp: access_ok_def lib_id_ok_def)
  then show ?thesis by (auto simp: hash_mme_ue_s1ap_id_def ARRAY_TO_UINT32_def rd_def pad16_def)
qed

lemma request_exchanged:
  assumes c: "ready c" and r: "worker_request request n"
  shows "case db_exchange c request n of
     (Inr answer, c') \<Rightarrow> ready c' \<and> confined (store c) (store c')
   | (Inl e, c') \<Rightarrow> e = Assertion_failed \<or> e = Server_stopped"
proof -
  from r obtain it v xs its where a: "worker_access it (map fst xs) its" and ok: "access_ok it v xs its"
    and q: "request = body (access_request it v xs its)" "n = 17 * length its" by (auto simp: worker_request_def)
  note w = worker_access_items [OF a]
  from identifiable [OF ok w(1)] obtain h where h: "ident_key it (pad16 (id_len it) v) = Some h" by blast
  show ?thesis
  proof (cases "users (store c) h")
    case None
    have "1 < n" using q(2) w(5) by (cases its) simp_all
    moreover have "request_user (access_request it v xs its) = Some h" using h by (simp add: request_user_access)
    ultimately have "fst (db_exchange c request n) \<in> {Inl Assertion_failed, Inl Server_stopped}"
      unfolding q(1) using db_exchange_unknown [OF c None _ length_pad16_id [OF ok]] by auto
    then show ?thesis by (cases "db_exchange c request n") auto
  next
    case (Some u)
    from exchange_known [OF c Some ok h w(5,3,6)] w(7) q obtain c' where
      x: "db_exchange c request n = (Inr (take n (serve_answer (Some h) (store c) (access_request it v xs its) (c_response c))), c')"
      "ready c'" "store c' = (store c)\<lparr>users := (users (store c))(h \<mapsto> after_pulls (after_pushes u xs) its)\<rparr>" by auto
    have lu: "length u = user_info_size"
      using wf_db_user(1) [of "c_db c" h u] c Some by (simp add: ready_def wf_user_def)
    have "fld (after_pulls (after_pushes u xs) its) f = fld u f" if "f \<notin> worker_members" for f
      using after_pushes_members [of xs u f] after_pulls_members [OF w(3), of "after_pushes u xs" f] w(2) ok lu that
      by (simp add: access_ok_def)
    with Some have "confined (store c) (store c')"
      unfolding x(3) confined_def by (intro exI [of _ "(users (store c))(h \<mapsto> after_pulls (after_pushes u xs) its)"]) auto
    with x show ?thesis by simp
  qed
qed

section \<open>The database, whatever happens\<close>

text \<open>What every exchange keeps, also one that ends the worker: the subscribers, and the provisioned members of their records.\<close>

definition guards :: "db \<Rightarrow> db \<Rightarrow> bool" where
  "guards d d' \<longleftrightarrow> wf_db d' \<and> dom (users (abs_db d')) = dom (users (abs_db d)) \<and>
     (\<forall>h u u' f. users (abs_db d) h = Some u \<longrightarrow> users (abs_db d') h = Some u' \<longrightarrow>
        provisioned f \<longrightarrow> fld u' f = fld u f)"

lemma guards_refl: "wf_db d \<Longrightarrow> guards d d"
  by (auto simp: guards_def)

lemma guards_trans:
  assumes a: "guards d d1" and b: "guards d1 d2"
  shows "guards d d2"
  unfolding guards_def
proof (intro conjI allI impI)
  fix h u u' f
  assume u: "users (abs_db d) h = Some u" "users (abs_db d2) h = Some u'" and f: "provisioned f"
  from u(1) a obtain u1 where u1: "users (abs_db d1) h = Some u1" unfolding guards_def by (metis domD domI)
  with a u(1) f have "fld u1 f = fld u f" by (simp add: guards_def)
  moreover from b u1 u(2) f have "fld u' f = fld u1 f" by (simp add: guards_def)
  ultimately show "fld u' f = fld u f" by simp
qed (use a b in \<open>simp_all add: guards_def\<close>)

lemma keeps_guards: "keeps usr d d' \<Longrightarrow> guards d d'"
  by (auto simp: keeps_def guards_def dom_def)

lemma c_db_send_response: "send_response c n = Some (c', st) \<Longrightarrow> c_db c' = c_db c"
  by (auto simp: send_response_def split: bind_splits if_splits)

lemma multi_pkt_loop_guards:
  "multi_pkt_loop c p n = Some (c', st) \<Longrightarrow> wf_db (c_db c) \<Longrightarrow> guards (c_db c) (c_db c')"
proof (induction c p n rule: multi_pkt_loop.induct)
  case (1 c p n)
  show ?case
  proof (cases "p < n")
    case True
    with "1.prems"(1) obtain a c1 st1 where
      a: "analyze_request (c_db c) (drop p (c_request c)) (n - p) (c_response c) = Some a"
      and s: "send_response (c\<lparr>c_db := ans_db a, c_response := ans_response a\<rparr>) (ans_response_len a) = Some (c1, st1)"
      and st1: "st1 = Closed \<and> c' = c1 \<or> st1 = Open \<and> multi_pkt_loop c1 (p + ans_consumed a) n = Some (c', st)"
      by (subst (asm) multi_pkt_loop.simps) (auto split: option.splits conn_state.splits)
    have g: "guards (c_db c) (ans_db a)"
      using analyze_request_keeps [OF "1.prems"(2) a] by (auto intro: keeps_guards)
    have d1: "c_db c1 = ans_db a" using c_db_send_response [OF s] by simp
    from st1 show ?thesis
    proof
      assume "st1 = Closed \<and> c' = c1"
      with g d1 show ?thesis by simp
    next
      assume o: "st1 = Open \<and> multi_pkt_loop c1 (p + ans_consumed a) n = Some (c', st)"
      have "wf_db (c_db c1)" using g d1 by (simp add: guards_def)
      with "1.IH" [OF True a] s o have "guards (c_db c1) (c_db c')" by simp
      with g d1 show ?thesis by (auto intro: guards_trans)
    qed
  next
    case False
    with "1.prems" show ?thesis by (subst (asm) multi_pkt_loop.simps) (auto intro: guards_refl)
  qed
qed

lemma send_request_guards:
  assumes "send_request c bs = Some (c', st)" and "wf_db (c_db c)"
  shows "guards (c_db c) (c_db c')"
proof -
  from assms(1) obtain rq st where
    "multi_pkt_loop (c\<lparr>c_request := rq\<rparr>) 0 (length bs) = Some (c', st)"
    by (auto simp: send_request_def split: bind_splits conn_state.splits)
  from multi_pkt_loop_guards [OF this] assms(2) show ?thesis by simp
qed

lemma db_exchange_guards: "db_exchange c request n = (r, c') \<Longrightarrow> wf_db (c_db c) \<Longrightarrow> guards (c_db c) (c_db c')"
  by (auto simp: db_exchange_def recv_response_def guards_refl dest!: send_request_guards
      split: option.splits list.splits if_splits conn_state.splits)

section \<open>The metrics of a message\<close>

interpretation metrics: worker_frame "\<lambda>_ _. True"
    "\<lambda>w. prefix (w_batch w0) (w_batch w) \<and> prefix (w_warnings w0) (w_warnings w)" L for w0 L
proof unfold_locales
  fix it and xs :: "(item \<times> byte list) list" and its v
  show "leads (\<lambda>_ _. True) (\<lambda>_. True) (db_access L it v (length xs) (length its) (access_args xs its))"
    by (simp add: db_access_def leading Let_def)
qed (auto simp: observe_def ogs_warn_def respond_def intro: prefix_order.trans)

lemma message_counted:
  "leads (\<lambda>_ _. True) (\<lambda>(out, w). prefix [(''uplink_packets_total'', 1)] (w_batch w)) (process_message L d)"
proof -
  let ?w = "observe ''uplink_packets_total'' 1 fresh_worker"
  have e: "leads (\<lambda>_ _. True) (in_ngap (\<lambda>w. prefix (w_batch ?w) (w_batch w) \<and> prefix (w_warnings ?w) (w_warnings w)))
      (ngap_handler_entrypoint L (drop 4 d) ?w)"
    by (rule metrics.entrypoint) simp
  show ?thesis
    unfolding process_message_def Let_def
    by (auto simp: leading intro!: leads_andthen [OF e]) (auto simp: observe_def fresh_worker_def prefix_def)
qed

section \<open>The depth of the calls\<close>

text \<open>
  The NAS handler calls itself for the container of an UL NAS Transport.  A decoder that finds a container inside the
  bytes it is given returns fewer bytes than that, so that the bound of \<open>nas_handler_entrypoint\<close> is never reached: any larger
  bound gives the same program.
\<close>

lemma security_decode_length:
  "leads (\<lambda>_ _. True) (\<lambda>(params, pk', w). pk_len pk' = pk_len pk) (nas_5gs_security_decode L params ht pk w)"
proof -
  have "leads (\<lambda>_ _. True) (\<lambda>_. True) (need_knas_int L cs p)" "leads (\<lambda>_ _. True) (\<lambda>_. True) (need_knas_enc L cs p)" for cs p
    by (rule metrics.need_key)+
  then show ?thesis
    by (auto simp: nas_5gs_security_decode_def ogs_pkbuf_push_def ogs_pkbuf_pull_def leading Let_def intro!: leads_any)
qed

lemma bytes_to_message_length:
  "leads (\<lambda>_ _. True) (\<lambda>(st, m, params, w). \<forall>g. m = Some (Gmm g) \<longrightarrow>
     (\<exists>bs'. length bs' \<le> length bs \<and> ogs_nas_5gmm_decode L bs' = Some g)) (nas_bytes_to_message L params bs w)"
proof -
  let ?pk = "\<lparr>pk_mem = o_headroom L @ bs, pk_data = length (o_headroom L), pk_len = length bs\<rparr>"
  have d: "leads (\<lambda>_ _. True) (\<lambda>(st, params, pk, w). pk_len pk \<le> length bs) (security_decode_gsm L params ?pk w)"
    by (auto simp: security_decode_gsm_def ogs_pkbuf_pull_def leading Let_def split: option.split
        intro!: leads_andthen [OF security_decode_length])
  show ?thesis
    unfolding nas_bytes_to_message_def Let_def
    by (rule leads_andthen [OF d])
      (auto simp: leading pk_bytes_def rdn_def split: if_splits intro!: exI [of _ "take _ (drop _ _)"] min.coboundedI2)
qed

lemma nas_handler_fuel:
  assumes dec: "\<And>bs t con i. ogs_nas_5gmm_decode L bs = Some (Ul_nas_transport t con i) \<Longrightarrow> length con < length bs"
  shows "length bs < n \<Longrightarrow> length bs < m \<Longrightarrow> nas_handler n L bs params w = nas_handler m L bs params w"
proof (induction n arbitrary: bs m params w)
  case (Suc n)
  then obtain m' where m': "m = Suc m'" by (cases m) auto
  have same: "nas_5gmm_handler (nas_handler n L) L g p1 w1 = nas_5gmm_handler (nas_handler m' L) L g p1 w1"
    if d: "\<exists>bs'. length bs' \<le> length bs \<and> ogs_nas_5gmm_decode L bs' = Some g" for g p1 w1
  proof (cases g)
    case (Ul_nas_transport t con i)
    with d dec have "length con < length bs" by fastforce
    then have "length (take (length con mod 256) con) < n" "length (take (length con mod 256) con) < m'"
      using Suc.prems m' by simp_all
    from Suc.IH [OF this] show ?thesis
      by (simp add: Ul_nas_transport nas_5gmm_handler_def nas_handle_ul_nas_transport_def Let_def)
  qed (simp_all add: nas_5gmm_handler_def)
  show ?case
    unfolding m' nas_handler.simps Let_def
    by (rule andthen_leads_cong [OF bytes_to_message_length])
      (auto simp: deref_def ogs_assert_def same split: option.split decoded.split)
qed simp

end
