(* ===== verification/Worker_Threads.thy ===== *)
theory Worker_Threads
  imports Worker_Frame
begin

text \<open>
  The listener with a thread per datagram.  A thread may be suspended before each exchange with the database and before each
  answer that it sends.  From the requests of a thread follows an invariant of every state that the listener can reach,
  whatever the datagrams and the order of the threads; a thread that runs without interruption computes what it computes
  alone, so that the listener without threads is one of the runs.
\<close>

section \<open>Invariant\<close>

inductive_cases listener_stepE: "listener_step L s s'"

abbreviation thread_ok :: "thread \<Rightarrow> bool" where
  "thread_ok t \<equiv> \<forall>m. t = Handling m \<longrightarrow> leads worker_request (\<lambda>_. True) m"

definition listener_inv :: "conn \<Rightarrow> listener \<Rightarrow> bool" where
  "listener_inv c s \<longleftrightarrow> guards (c_db c) (c_db (l_conn s)) \<and> \<not> l_locked s \<and> (\<forall>t \<in> set (l_threads s). thread_ok t) \<and>
     (l_end s = None \<longrightarrow> ready (l_conn s) \<and> confined (store c) (store (l_conn s)))"

lemma listener_inv_init: "ready c \<Longrightarrow> listener_inv c (listening_on c)"
  by (simp add: listener_inv_def listening_on_def guards_refl confined_refl ready_def)

lemma thread_ok_update:
  "\<forall>t \<in> set ts. thread_ok t \<Longrightarrow> thread_ok t' \<Longrightarrow> \<forall>t \<in> set (ts[i := t']). thread_ok t"
  using set_update_subset_insert [of ts i t'] by blast

lemma thread_requests:
  "\<forall>t \<in> set ts. thread_ok t \<Longrightarrow> i < length ts \<Longrightarrow> ts ! i = Handling m \<Longrightarrow> leads worker_request (\<lambda>_. True) m"
  using nth_mem [of i ts] by metis

lemma listener_inv_step:
  assumes "listener_step L s s'" and i: "listener_inv c s"
  shows "listener_inv c s'"
  using assms(1)
proof cases
  case (exchanged t request n k answer c')
  then have l: "leads worker_request (\<lambda>_. True) (Access request n k)"
    using i thread_requests unfolding listener_inv_def by blast
  have r: "ready (l_conn s)" and f: "confined (store c) (store (l_conn s))" and g: "guards (c_db c) (c_db (l_conn s))"
    using i exchanged by (simp_all add: listener_inv_def)
  from request_exchanged [OF r] l exchanged have "ready c'" "confined (store (l_conn s)) (store c')" by fastforce+
  moreover have "guards (c_db c) (c_db c')"
    using guards_trans [OF g db_exchange_guards [OF exchanged(6)]] g by (simp add: guards_def)
  moreover have "\<forall>t \<in> set ((l_threads s)[t := Handling (k answer)]). thread_ok t"
    using i l by (intro thread_ok_update) (simp_all add: listener_inv_def)
  ultimately show ?thesis using i f exchanged by (auto simp: listener_inv_def intro: confined_trans)
next
  case (blocked t request n k c')
  then have "leads worker_request (\<lambda>_. True) (Access request n k)"
    using i thread_requests unfolding listener_inv_def by blast
  with request_exchanged [of "l_conn s" request n] blocked i show ?thesis by (simp add: listener_inv_def)
next
  case (exchange_stopped t request n k e c')
  have g: "guards (c_db c) (c_db (l_conn s))" using i by (simp add: listener_inv_def)
  have "guards (c_db c) (c_db c')"
    using guards_trans [OF g db_exchange_guards [OF exchange_stopped(6)]] g by (simp add: guards_def)
  with i exchange_stopped show ?thesis by (simp add: listener_inv_def)
next
  case (received d)
  with i process_message_requests show ?thesis by (auto simp: listener_inv_def)
next
  case (handled t out w)
  with i show ?thesis by (auto simp: listener_inv_def dest: set_update_subset_insert [THEN subsetD])
next
  case (sends t b out)
  with i show ?thesis by (auto simp: listener_inv_def dest: set_update_subset_insert [THEN subsetD])
qed (use i in \<open>simp_all add: listener_inv_def\<close>)

lemma listener_inv_reachable:
  assumes "(listener_step L)\<^sup>*\<^sup>* (listening_on c) s" and "ready c"
  shows "listener_inv c s"
  using assms(1) by (induction rule: rtranclp_induct) (use listener_inv_init [OF assms(2)] listener_inv_step in blast)+

lemma exec_answered: "exec m c = (Done x, c') \<Longrightarrow> \<exists>bs. answered m bs = Some x"
proof (induction m arbitrary: c)
  case (Returns y)
  then show ?case by simp
next
  case (Access request n k)
  then obtain answer c1 where "exec (k answer) c1 = (Done x, c')" by (auto split: prod.splits sum.splits)
  with Access.IH obtain bs where "answered (k answer) bs = Some x" by blast
  then show ?case by (intro exI [of _ "answer # bs"]) simp
qed simp

text \<open>Every answer starts with the header of the datagram and the stream.\<close>

lemma process_message_outs:
  assumes "length header = 4" and "answered (process_message L (header @ m)) bs = Some (outs, w)"
  shows "\<exists>out. outs = map (map_option (\<lambda>b. header @ [w_sctpStreamID w] @ b)) out"
proof -
  have "leads (\<lambda>_ _. True) (\<lambda>_. True) (ngap_handler_entrypoint L m w0)" for w0
    by (rule leads_mono [OF metrics.entrypoint [of w0]]) simp_all
  note e = this
  have "leads (\<lambda>_ _. True) (\<lambda>(outs, w). \<exists>out. outs = map (map_option (\<lambda>b. header @ [w_sctpStreamID w] @ b)) out)
      (process_message L (header @ m))"
    using assms(1) unfolding process_message_def Let_def
    by (auto simp: leading rdn_def intro!: leads_andthen [OF e])
  from leads_answered [OF this assms(2)] show ?thesis by simp
qed

lemma send_all_map: "send_all sent (map (map_option f) out) = (e, ds) \<Longrightarrow> \<exists>bs. ds = sent @ map f bs"
proof (induction out arbitrary: sent)
  case (Cons b out)
  show ?case
  proof (cases b)
    case (Some x)
    with Cons.IH [of "sent @ [f x]"] Cons.prems obtain bs where "ds = (sent @ [f x]) @ map f bs" by auto
    then show ?thesis by (intro exI [of _ "x # bs"]) simp
  qed (use Cons.prems in simp)
qed simp

section \<open>A thread that is not interrupted\<close>

text \<open>The state in which thread \<open>t\<close> has come to \<open>m\<close> and the connection to \<open>c\<close>.\<close>

abbreviation thread_at :: "listener \<Rightarrow> nat \<Rightarrow> thread \<Rightarrow> conn \<Rightarrow> listener" where
  "thread_at s t m c \<equiv> s\<lparr>l_conn := c, l_threads := (l_threads s)[t := m]\<rparr>"

lemma thread_alone:
  assumes "l_end s = None" "\<not> l_locked s" "t < length (l_threads s)"
  shows "exec m c = (Done x, c') \<Longrightarrow>
      (listener_step L)\<^sup>*\<^sup>* (thread_at s t (Handling m) c) (thread_at s t (Handling (Returns x)) c')"
    and "exec m c = (Halted e, c') \<Longrightarrow> e \<noteq> Blocked \<Longrightarrow>
      \<exists>s'. (listener_step L)\<^sup>*\<^sup>* (thread_at s t (Handling m) c) s' \<and> l_end s' = Some e \<and> l_conn s' = c' \<and> l_sent s' = l_sent s"
proof (induction m arbitrary: c)
  case (Returns y)
  { case 1 then show ?case by simp next case 2 then show ?case by simp }
next
  case (Stops e)
  { case 1 then show ?case by simp
  next
    case 2
    let ?s = "thread_at s t (Handling (Stops e)) c"
    have "listener_step L ?s (?s\<lparr>l_end := Some e\<rparr>)" by (rule listener_step.stopped [of _ t]) (use assms in simp_all)
    with 2 show ?case by (intro exI [of _ "?s\<lparr>l_end := Some e\<rparr>"]) auto }
next
  case (Access request n k)
  have go: "listener_step L (thread_at s t (Handling (Access request n k)) c) (thread_at s t (Handling (k answer)) c1)"
    if "db_exchange c request n = (Inr answer, c1)" for c answer c1
    using listener_step.exchanged [of "thread_at s t (Handling (Access request n k)) c" t request n k answer c1 L] assms that
    by simp
  { case 1
    then obtain answer c1 where x: "db_exchange c request n = (Inr answer, c1)" "exec (k answer) c1 = (Done x, c')"
      by (auto split: prod.splits sum.splits)
    from Access.IH(1) [OF rangeI x(2)] go [OF x(1)] show ?case by (rule converse_rtranclp_into_rtranclp [rotated])
  next
    case 2
    let ?s = "thread_at s t (Handling (Access request n k)) c"
    show ?case
    proof (cases "db_exchange c request n")
      case (Pair r c1)
      show ?thesis
      proof (cases r)
        case (Inl e1)
        have "listener_step L ?s (?s\<lparr>l_conn := c1, l_end := Some e1\<rparr>)"
          by (rule listener_step.exchange_stopped [of _ t request n k]) (use assms Pair Inl 2 in simp_all)
        with Pair Inl 2 show ?thesis by (intro exI [of _ "?s\<lparr>l_conn := c1, l_end := Some e1\<rparr>"]) auto
      next
        case (Inr answer)
        with Pair 2 Access.IH(2) [of "k answer" c1] obtain s' where
          "(listener_step L)\<^sup>*\<^sup>* (thread_at s t (Handling (k answer)) c1) s'"
          "l_end s' = Some e" "l_conn s' = c'" "l_sent s' = l_sent s" by auto
        with go [of c answer c1] Pair Inr show ?thesis by (blast intro: converse_rtranclp_into_rtranclp)
      qed
    qed }
qed

lemma thread_sends:
  assumes "l_end s = None" "t < length (l_threads s)"
  shows "send_all sent out = (None, sent') \<Longrightarrow>
      (listener_step L)\<^sup>*\<^sup>* (thread_at s t (Sending out) c\<lparr>l_sent := sent\<rparr>) (thread_at s t (Sending []) c\<lparr>l_sent := sent'\<rparr>)"
    and "send_all sent out = (Some e, sent') \<Longrightarrow>
      \<exists>s'. (listener_step L)\<^sup>*\<^sup>* (thread_at s t (Sending out) c\<lparr>l_sent := sent\<rparr>) s' \<and> l_end s' = Some e \<and> l_conn s' = c \<and>
        l_sent s' = sent'"
proof (induction sent out rule: send_all.induct)
  case (2 sent out)
  { case 1 then show ?case by simp
  next
    case 2
    let ?s = "thread_at s t (Sending (None # out)) c\<lparr>l_sent := sent\<rparr>"
    have "listener_step L ?s (?s\<lparr>l_end := Some Undefined_behaviour\<rparr>)"
      by (rule listener_step.sends_null [of _ t out]) (use assms in simp_all)
    with 2 show ?case by (intro exI [of _ "?s\<lparr>l_end := Some Undefined_behaviour\<rparr>"]) auto }
next
  case (3 sent b out)
  let ?s = "thread_at s t (Sending (Some b # out)) c\<lparr>l_sent := sent\<rparr>"
  have go: "listener_step L ?s (thread_at s t (Sending out) c\<lparr>l_sent := sent @ [b]\<rparr>)"
    using listener_step.sends [of ?s t b out L] assms by simp
  { case 1 with 3(1) go show ?case by (auto intro: converse_rtranclp_into_rtranclp)
  next
    case 2
    with 3(2) obtain s' where "(listener_step L)\<^sup>*\<^sup>* (thread_at s t (Sending out) c\<lparr>l_sent := sent @ [b]\<rparr>) s'"
      "l_end s' = Some e" "l_conn s' = c" "l_sent s' = sent'" by auto
    with go show ?case by (blast intro: converse_rtranclp_into_rtranclp) }
qed simp_all

text \<open>A datagram that is handled without interruption, whatever the other threads stand at.\<close>

lemma datagram_alone:
  assumes s: "l_end s = None" "\<not> l_locked s" "\<not> l_spinning s" and d: "receive d = Handles d"
  shows "exec (process_message L d) (l_conn s) = (Halted e, c') \<Longrightarrow> e \<noteq> Blocked \<Longrightarrow>
      \<exists>s'. (listener_step L)\<^sup>*\<^sup>* s s' \<and> l_end s' = Some e \<and> l_conn s' = c' \<and> l_sent s' = l_sent s"
    and "exec (process_message L d) (l_conn s) = (Done (out, w), c') \<Longrightarrow> send_all (l_sent s) out = (None, sent') \<Longrightarrow>
      (listener_step L)\<^sup>*\<^sup>* s (s\<lparr>l_conn := c', l_threads := l_threads s @ [Sending []], l_sent := sent'\<rparr>)"
    and "exec (process_message L d) (l_conn s) = (Done (out, w), c') \<Longrightarrow> send_all (l_sent s) out = (Some e, sent') \<Longrightarrow>
      \<exists>s'. (listener_step L)\<^sup>*\<^sup>* s s' \<and> l_end s' = Some e \<and> l_conn s' = c' \<and> l_sent s' = sent'"
proof -
  let ?t = "length (l_threads s)"
  let ?s = "s\<lparr>l_threads := l_threads s @ [Handling (process_message L d)]\<rparr>"
  have start: "listener_step L s ?s" by (rule listener_step.received) (use s d in simp_all)
  note alone = thread_alone [of ?s ?t, simplified, OF s(1,2)]
  {
    assume "exec (process_message L d) (l_conn s) = (Halted e, c')" "e \<noteq> Blocked"
    with alone(2) [of "process_message L d" "l_conn s" e c' L] start
    show "\<exists>s'. (listener_step L)\<^sup>*\<^sup>* s s' \<and> l_end s' = Some e \<and> l_conn s' = c' \<and> l_sent s' = l_sent s"
      by (auto intro: converse_rtranclp_into_rtranclp)
  }
  {
    assume x: "exec (process_message L d) (l_conn s) = (Done (out, w), c')"
    let ?s2 = "s\<lparr>l_conn := c', l_threads := l_threads s @ [Handling (Returns (out, w))]\<rparr>"
    have "(listener_step L)\<^sup>*\<^sup>* ?s ?s2" using alone(1) [OF x, of L] by simp
    moreover have "listener_step L ?s2 (s\<lparr>l_conn := c', l_threads := l_threads s @ [Sending out]\<rparr>)"
      using listener_step.handled [of ?s2 ?t out w L] s by simp
    ultimately have h: "(listener_step L)\<^sup>*\<^sup>* s (s\<lparr>l_conn := c', l_threads := l_threads s @ [Sending out]\<rparr>)"
      using start by (meson converse_rtranclp_into_rtranclp rtranclp.rtrancl_into_rtrancl)
    note send = thread_sends [of "?s\<lparr>l_conn := c'\<rparr>" ?t, simplified, OF s(1)]
    {
      assume "send_all (l_sent s) out = (None, sent')"
      from send(1) [OF this, of L c'] h
      show "(listener_step L)\<^sup>*\<^sup>* s (s\<lparr>l_conn := c', l_threads := l_threads s @ [Sending []], l_sent := sent'\<rparr>)"
        by (auto elim: rtranclp_trans)
    }
    {
      assume "send_all (l_sent s) out = (Some e, sent')"
      from send(2) [OF this, of L c'] h
      show "\<exists>s'. (listener_step L)\<^sup>*\<^sup>* s s' \<and> l_end s' = Some e \<and> l_conn s' = c' \<and> l_sent s' = sent'"
        by (auto elim: rtranclp_trans)
    }
  }
qed

text \<open>The listener without threads is a run of the listener with threads.\<close>

lemma sequential_run:
  assumes "start_listener L (l_conn s) (l_sent s) ds = (r, c', sent')" and "r \<noteq> Ended Blocked"
    and "l_end s = None" "\<not> l_locked s" "\<not> l_spinning s"
  shows "\<exists>s'. (listener_step L)\<^sup>*\<^sup>* s s' \<and> l_conn s' = c' \<and> l_sent s' = sent' \<and> (r = Spinning \<longrightarrow> l_spinning s') \<and>
    l_end s' = (case r of Ended e \<Rightarrow> Some e | _ \<Rightarrow> None)"
  using assms
proof (induction ds arbitrary: s)
  case (Cons d ds)
  show ?case
  proof (cases "receive d")
    case Fails
    have "listener_step L s (s\<lparr>l_end := Some Assertion_failed\<rparr>)"
      by (rule listener_step.received_nothing) (use Cons.prems Fails in simp_all)
    with Cons.prems Fails show ?thesis by (intro exI [of _ "s\<lparr>l_end := Some Assertion_failed\<rparr>"]) auto
  next
    case Spins
    have "listener_step L s (s\<lparr>l_spinning := True\<rparr>)"
      by (rule listener_step.received_hook) (use Cons.prems Spins in simp_all)
    with Cons.prems Spins show ?thesis by (intro exI [of _ "s\<lparr>l_spinning := True\<rparr>"]) auto
  next
    case (Handles d')
    then have d: "receive d = Handles d" by (auto simp: receive_def split: if_splits)
    note alone = datagram_alone [OF Cons.prems(3-5) d]
    show ?thesis
    proof (cases "exec (process_message L d) (l_conn s)")
      case Pair1: (Pair x c1)
      show ?thesis
      proof (cases x)
        case (Halted e)
        with Cons.prems(1,2) d Pair1 have e: "r = Ended e" "e \<noteq> Blocked" "c1 = c'" "sent' = l_sent s" by auto
        from alone(1) [OF Pair1 [unfolded Halted] e(2)] e show ?thesis by auto
      next
        case (Done y)
        then obtain out w where y: "x = Done (out, w)" by (cases y) auto
        show ?thesis
        proof (cases "send_all (l_sent s) out")
          case (Pair z sent1)
          show ?thesis
          proof (cases z)
            case None
            let ?s = "s\<lparr>l_conn := c1, l_threads := l_threads s @ [Sending []], l_sent := sent1\<rparr>"
            have a: "(listener_step L)\<^sup>*\<^sup>* s ?s" using alone(2) [of L out w c1 sent1] y None Pair Pair1 by simp
            from Cons.IH [of ?s] Cons.prems d y None Pair Pair1 obtain s' where
              s': "(listener_step L)\<^sup>*\<^sup>* ?s s'" "l_conn s' = c'" "l_sent s' = sent'" "r = Spinning \<longrightarrow> l_spinning s'"
              "l_end s' = (case r of Ended e \<Rightarrow> Some e | _ \<Rightarrow> None)" by auto
            from rtranclp_trans [OF a s'(1)] s'(2-) show ?thesis by blast
          next
            case (Some e)
            with Cons.prems d y Pair Pair1 alone(3) [of L out w c1 e sent1] show ?thesis by auto
          qed
        qed
      qed
    qed
  qed
qed auto

section \<open>A thread that makes no progress\<close>

text \<open>
  A thread whose next exchange fails on every connection that has the subscribers of \<open>c\<close> stays where it is as long as the worker
  goes on.
\<close>

definition fails_with :: "conn \<Rightarrow> 'a run \<Rightarrow> bool" where
  "fails_with c m \<longleftrightarrow> (\<exists>e. m = Stops e) \<or> (\<exists>request n k. m = Access request n k \<and>
     (\<forall>c1. ready c1 \<longrightarrow> dom (users (store c1)) = dom (users (store c)) \<longrightarrow> (\<exists>e. fst (db_exchange c1 request n) = Inl e)))"

lemma thread_stuck_step:
  assumes "listener_step L s s'" and i: "listener_inv c s" and m: "fails_with c m"
    and t: "t < length (l_threads s)" "l_threads s ! t = Handling m" and "l_end s' = None"
  shows "t < length (l_threads s') \<and> l_threads s' ! t = Handling m"
  using assms(1)
proof cases
  case (exchanged u request n k answer c1)
  have "ready (l_conn s)" "dom (users (store (l_conn s))) = dom (users (store c))"
    using i exchanged by (auto simp: listener_inv_def guards_def)
  with m t exchanged have "u \<noteq> t" by (auto simp: fails_with_def)
  with t exchanged show ?thesis by simp
next
  case (handled u out w)
  then have "u \<noteq> t" using m t by (auto simp: fails_with_def)
  with t handled show ?thesis by simp
qed (use assms in \<open>auto simp: nth_append nth_list_update\<close>)

lemma step_running: "listener_step L s s' \<Longrightarrow> l_end s = None"
  by (auto elim: listener_step.cases)

lemma thread_stuck:
  assumes "(listener_step L)\<^sup>*\<^sup>* s s'" and "listener_inv c s" and m: "fails_with c m"
    and "t < length (l_threads s)" "l_threads s ! t = Handling m"
  shows "listener_inv c s' \<and> (l_end s' = None \<longrightarrow> t < length (l_threads s') \<and> l_threads s' ! t = Handling m)"
  using assms(1)
proof (induction rule: rtranclp_induct)
  case (step s1 s2)
  then show ?case using listener_inv_step thread_stuck_step [OF step(2) _ m] step_running [OF step(2)] by blast
qed (use assms in simp)

end
