(* ===== verification/Worker_Flow.thy ===== *)
theory Worker_Flow
  imports Worker_Ngap Worker_Access
begin

text \<open>
  A message of the UE from the datagram to the answer: what the accesses of a handler find, what they store, and what
  the worker sends.
\<close>

section \<open>What an access finds\<close>

lemma rdn_within: "rdn b i n = Some v \<Longrightarrow> j + m \<le> n \<Longrightarrow> rdn b (i + j) m = Some (take m (drop j v))"
  by (auto simp: rdn_def drop_take add.commute split: if_splits)

text \<open>The sizes that the interface of the libraries documents.\<close>

definition library_ok :: "ogs \<Rightarrow> bool" where
  "library_ok L \<longleftrightarrow> length (o_stack L) = 16 \<and>
     (\<forall>x. length (ogs_asn_uint32_to_OCTET_STRING L x) = 4) \<and> (\<forall>s a k. length (ogs_kdf_kamf L s a k) = 32)"

lemma db_access_pulled:
  assumes c: "ready c" and u: "users (store c) h = Some u"
    and ok: "access_ok it v xs its" and id: "ident_key it (pad16 (id_len it) v) = Some h"
    and its: "its \<noteq> []" "distinct its" "list_all plain_pull its" "length its \<le> 20" "length xs \<le> 20"
    and slack: "0 < o_slack L (db_buffer_input_size n m)"
    and n: "n = length xs" "m = length its" "ap = access_args xs its"
  shows "\<exists>c' head P. exec (db_access L it v n m ap) c = (Done (head, P), c') \<and> ready c' \<and>
     store c' = (store c)\<lparr>users := (users (store c))(h \<mapsto> after_pulls (after_pushes u xs) its)\<rparr> \<and>
     (\<forall>k f i j. k < length its \<longrightarrow> pfield_of (its ! k) = Some f \<longrightarrow> i + j \<le> length (answer_at (after_pushes u xs) its k) \<longrightarrow>
        pulled head (P f) i j = Some (take j (drop i (answer_at (after_pushes u xs) its k)))) \<and>
     (\<forall>k f. k < length its \<longrightarrow> pfield_of (its ! k) = Some f \<longrightarrow> is_set (P f) = Some True) \<and>
     (\<forall>f. (\<forall>it \<in> set its. pfield_of it \<noteq> Some f) \<longrightarrow> P f = uninitialised L f)"
proof -
  have "0 < o_slack L (db_buffer_input_size (length xs) (length its))" using slack n by simp
  from db_access_ok [OF c u ok id its this] obtain c' head P where
    a: "exec (db_access L it v n m ap) c = (Done (head, P), c')" "ready c'"
    "store c' = (store c)\<lparr>users := (users (store c))(h \<mapsto> after_pulls (after_pushes u xs) its)\<rparr>"
    and p: "\<forall>k f. k < length its \<longrightarrow> pfield_of (its ! k) = Some f \<longrightarrow> P f = At (17 * k + 1)"
    and r: "\<forall>k < length its. rdn head (17 * k + 1) (length (answer_at (after_pushes u xs) its k)) =
        Some (answer_at (after_pushes u xs) its k)"
    and o: "\<forall>f. (\<forall>it \<in> set its. pfield_of it \<noteq> Some f) \<longrightarrow> P f = uninitialised L f"
    unfolding n by blast
  have "pulled head (P f) i j = Some (take j (drop i (answer_at (after_pushes u xs) its k)))"
    if k: "k < length its" "pfield_of (its ! k) = Some f" "i + j \<le> length (answer_at (after_pushes u xs) its k)" for k f i j
    using p k(1,2) rdn_within [OF r [rule_format, OF k(1)] k(3)] by simp
  with a p o show ?thesis by (intro exI [of _ c'] exI [of _ head] exI [of _ P]) simp
qed

text \<open>Items that are copied out of the record, without a counter.\<close>

definition copied :: "item \<Rightarrow> bool" where
  "copied it \<longleftrightarrow> pull_source it \<noteq> None \<and> it \<noteq> RAND_UPDATE"

lemma copied_plain: "list_all copied its \<Longrightarrow> list_all plain_pull its"
  by (auto simp: list_all_iff copied_def plain_pull_def)

lemma user_after_copied: "copied it \<Longrightarrow> user_after rnd u it = u"
  by (cases it) (simp_all add: copied_def user_after_def)

lemma after_pulls_copied: "list_all copied its \<Longrightarrow> after_pulls u its = u"
  by (induction its) (simp_all add: after_pulls_def user_after_copied)

lemma answer_copied:
  "list_all copied its \<Longrightarrow> k < length its \<Longrightarrow> pull_source (its ! k) = Some (off, n) \<Longrightarrow>
   answer_at u its k = take n (drop off u)"
  by (simp add: answer_at_def user_answer_def after_pulls_copied list_all_length)

text \<open>The bytes that are stored for a pushed value.\<close>

lemma after_pushes_simps:
  "after_pushes u [] = u"
  "after_pushes u ((it, v) # xs) = after_pushes (apply_push u (it, pad16 (lib_len it) v)) xs"
  by (simp_all add: after_pushes_def)

lemma length_pad16 [simp]: "n \<le> 16 \<Longrightarrow> n \<le> length v \<Longrightarrow> length (pad16 n v) = 16"
  by (simp add: pad16_def)

lemma apply_push_fld:
  assumes "length u = user_info_size" and "length v = 16" and "push_target it = Some f"
  shows "length (apply_push u (it, v)) = user_info_size"
    "fld (apply_push u (it, v)) g = (if g = f then pushed_value f v else fld u g)"
  using assms length_pushed_value [OF assms(2), of f] by (simp_all add: apply_push_def fld_set_fld)

lemma length_after_pushes:
  assumes "list_all (\<lambda>x. fst x \<noteq> NEW_ENB \<and> lib_push_ok x) xs" and "length u = user_info_size"
  shows "length (after_pushes u xs) = user_info_size"
  using assms
proof (induction xs arbitrary: u)
  case (Cons x xs)
  obtain it v where x: "x = (it, v)" by fastforce
  have "length (pad16 (lib_len it) v) = 16" using Cons.prems(1) x lib_len_le [of it] by (simp add: lib_push_ok_def)
  then have "length (apply_push u (it, pad16 (lib_len it) v)) = user_info_size"
    using Cons.prems(2) by (cases "push_target it") (simp_all add: apply_push_def length_pushed_value)
  with Cons x show ?case by (simp add: after_pushes_simps)
qed (simp add: after_pushes_simps)

text \<open>The store with one record replaced, and an answer in which the members of a record are found.\<close>

definition set_user :: "adb \<Rightarrow> u32 \<Rightarrow> UserInfo \<Rightarrow> adb" where
  "set_user s h u = s\<lparr>users := (users s)(h \<mapsto> u)\<rparr>"

lemma set_user_simps [simp]:
  "users (set_user s h u) = (users s)(h \<mapsto> u)" "set_user (set_user s h u) h u' = set_user s h u'"
  by (simp_all add: set_user_def)

definition finds :: "byte list \<Rightarrow> db_pulls \<Rightarrow> item list \<Rightarrow> UserInfo \<Rightarrow> bool" where
  "finds head P its u \<longleftrightarrow> (\<forall>it \<in> set its. \<forall>f off l i j. pfield_of it = Some f \<longrightarrow> pull_source it = Some (off, l) \<longrightarrow>
     i + j \<le> l \<longrightarrow> pulled head (P f) i j = Some (take j (drop (off + i) u)))"

lemma finds_fld:
  assumes "finds head P its u" and "it \<in> set its" and "pfield_of it = Some f"
    and "pull_source it = Some (offsetof g, l)" and "n = fsize g" and "n \<le> l"
  shows "pulled head (P f) 0 n = Some (fld u g)"
  using assms by (simp add: finds_def fld_def)

text \<open>An access that copies members of the record \<open>U\<close> that its pushes leave.\<close>

lemma db_access_copied:
  assumes c: "ready c" and u: "users (store c) h = Some u"
    and ok: "access_ok it v xs its" and id: "ident_key it (pad16 (id_len it) v) = Some h"
    and slack: "0 < o_slack L (db_buffer_input_size n m)"
    and its: "its \<noteq> []" "distinct its" "list_all copied its" "length its \<le> 20" "length xs \<le> 20"
    and n: "n = length xs" "m = length its" "ap = access_args xs its"
    and U: "U = after_pushes u xs"
  shows "\<exists>c' head P. exec (db_access L it v n m ap) c = (Done (head, P), c') \<and> ready c' \<and>
     store c' = set_user (store c) h U \<and> length U = user_info_size \<and> finds head P its U"
proof -
  have lu: "length u = user_info_size"
    using wf_db_user(1) [of "c_db c" h u] c u by (simp add: ready_def wf_user_def)
  have lU: "length U = user_info_size"
    unfolding U using ok lu by (intro length_after_pushes) (simp_all add: access_ok_def)
  from db_access_pulled [OF c u ok id its(1,2) copied_plain [OF its(3)] its(4,5) slack n] obtain c' head P where
    a: "exec (db_access L it v n m ap) c = (Done (head, P), c')" "ready c'"
    "store c' = (store c)\<lparr>users := (users (store c))(h \<mapsto> after_pulls U its)\<rparr>"
    and p: "\<And>k f i j. k < length its \<Longrightarrow> pfield_of (its ! k) = Some f \<Longrightarrow> i + j \<le> length (answer_at U its k) \<Longrightarrow>
        pulled head (P f) i j = Some (take j (drop i (answer_at U its k)))"
    unfolding U by blast
  have "pulled head (P f) i j = Some (take j (drop (off + i) U))"
    if x: "it \<in> set its" "pfield_of it = Some f" "pull_source it = Some (off, l)" "i + j \<le> l" for it f off l i j
  proof -
    from x(1) obtain k where k: "k < length its" "its ! k = it" by (auto simp: in_set_conv_nth)
    have e: "answer_at U its k = take l (drop off U)" using answer_copied [OF its(3) k(1)] k(2) x(3) by simp
    have "i + j \<le> length (answer_at U its k)" using e x(4) pull_source_inside [OF x(3)] lU by simp linarith
    from p [OF k(1) _ this] x(2,4) k(2) e show ?thesis by (simp add: drop_take min_def add.commute)
  qed
  with a lU after_pulls_copied [OF its(3)] show ?thesis
    by (intro exI [of _ c'] exI [of _ head] exI [of _ P]) (simp add: finds_def set_user_def)
qed

section \<open>Registration Request\<close>

text \<open>
  The values that the first access pushes, and the array \<open>imsi\<close> with what lies behind it.  The record after the first access
  has the identities of the RAN and of the UE; after the second also the key in two halves and no messages counted.
\<close>

definition identities :: "ogs \<Rightarrow> u64 \<Rightarrow> byte list \<Rightarrow> (item \<times> byte list) list" where
  "identities L i ident =
     [(ENB_UE_S1AP_ID, id_bytes L i),
      (KNH_1, [of_nat (length ident), 0] @ ident @ drop (length ident + 2) (o_stack L))]"

definition key_and_counts :: "byte list \<Rightarrow> (item \<times> byte list) list" where
  "key_and_counts k =
     [(KASME_1, k), (KASME_2, drop 16 k), (EPC_NAS_SEQUENCE_NUMBER, replicate 6 0), (UE_NAS_SEQUENCE_NUMBER, replicate 6 0)]"

definition imsi_array :: "ogs \<Rightarrow> byte list \<Rightarrow> byte list" where
  "imsi_array L ident = ogs_nas_5gs_imsi_to_bcd L ident @ drop 1 (o_behind_imsi L)"

definition identified :: "ogs \<Rightarrow> u64 \<Rightarrow> byte list \<Rightarrow> UserInfo \<Rightarrow> UserInfo" where
  "identified L i ident u = after_pushes u (identities L i ident)"

definition registered :: "ogs \<Rightarrow> u64 \<Rightarrow> byte list \<Rightarrow> byte list \<Rightarrow> UserInfo \<Rightarrow> UserInfo" where
  "registered L i ident k u = after_pushes (identified L i ident u) (key_and_counts k)"

lemma identified_fld:
  assumes "library_ok L" and "length u = user_info_size" and "length ident \<le> 14"
  shows "length (identified L i ident u) = user_info_size"
    "fld (identified L i ident u) f =
     (case f of
        F_enb_ue_s1ap_id \<Rightarrow> id_bytes L i
      | F_knh1 \<Rightarrow> [of_nat (length ident), 0] @ ident @ drop (length ident + 2) (o_stack L)
      | _ \<Rightarrow> fld u f)"
  using assms by (simp_all add: identified_def identities_def after_pushes_simps library_ok_def apply_push_fld pushed_value_def
      pad16_def nth_append nth_Cons' take_Cons' split: ufield.split)

lemma registered_fld:
  assumes "library_ok L" and "length u = user_info_size" and "length k = 32" and "length ident \<le> 14"
  shows "fld (registered L i ident k u) f =
     (case f of
        F_enb_ue_s1ap_id \<Rightarrow> id_bytes L i
      | F_knh1 \<Rightarrow> [of_nat (length ident), 0] @ ident @ drop (length ident + 2) (o_stack L)
      | F_kasme1 \<Rightarrow> take 16 k
      | F_kasme2 \<Rightarrow> drop 16 k
      | F_epc_nas_sequence_number \<Rightarrow> [0]
      | F_ue_nas_sequence_number \<Rightarrow> [0]
      | _ \<Rightarrow> fld u f)"
  using assms identified_fld [OF assms(1,2,4), of i]
  by (cases f) (simp_all add: registered_def key_and_counts_def after_pushes_simps apply_push_fld pushed_value_def pad16_def)

text \<open>The pieces of a request that come from the libraries, named by what the handler does with them.\<close>

definition imsi_of :: "ogs \<Rightarrow> byte list \<Rightarrow> u32 \<Rightarrow> bool" where
  "imsi_of L ident h \<longleftrightarrow> (let bcd = ogs_nas_5gs_imsi_to_bcd L ident in
     length ident \<le> 14 \<and> length bcd = 16 \<and> bcd ! 15 = 0 \<and> hash_imsi bcd = Some h)"

definition registration_keys :: "ogs \<Rightarrow> UserInfo \<Rightarrow> byte list \<Rightarrow> (byte list \<times> byte list) run" where
  "registration_keys L u ident =
     nas_5gs_generate_keys L ident (fld u F_opc) (fld u F_key) (fld u F_rand) (replicate 6 0)"

definition amf_id :: "ogs \<Rightarrow> UserInfo \<Rightarrow> u64" where
  "amf_id L u = ucast (ogs_asn_OCTET_STRING_to_uint32 L (fld u F_mme_ue_s1ap_id))"

lemma registration_keys_length:
  "library_ok L \<Longrightarrow> registration_keys L u ident = Returns (autn, k) \<Longrightarrow> length k = 32"
  by (auto simp: registration_keys_def nas_5gs_generate_keys_def library_ok_def Let_def ogs_assert_def split: prod.splits if_splits)

lemma imsi_ok:
  assumes "imsi_of L ident h"
  shows "lib_id_ok IMSI (imsi_array L ident)" "ident_key IMSI (pad16 (id_len IMSI) (imsi_array L ident)) = Some h"
  using assms by (simp_all add: imsi_of_def Let_def lib_id_ok_def imsi_array_def pad16_def nth_append)

lemma identities_ok:
  assumes "library_ok L" and "imsi_of L ident h"
  shows "access_ok IMSI (imsi_array L ident) (identities L i ident) its"
  using assms imsi_ok(1) [OF assms(2)] by (simp add: access_ok_def identities_def lib_push_ok_def library_ok_def imsi_of_def Let_def)

lemma key_and_counts_ok:
  "it \<noteq> NEW_ENB \<Longrightarrow> lib_id_ok it v \<Longrightarrow> length k = 32 \<Longrightarrow> access_ok it v (key_and_counts k) its"
  by (simp add: access_ok_def key_and_counts_def lib_push_ok_def)

text \<open>The second access.\<close>

lemma store_kamf_args:
  "store_kamf L it v k = andthen (db_access L it v 4 1 (access_args (key_and_counts k) [SPGW_IP])) (\<lambda>_. Returns ())"
  by (simp add: store_kamf_def key_and_counts_def Let_def)

lemma store_kamf_ok:
  assumes c: "ready c" and u: "users (store c) h = Some u"
    and id: "it \<noteq> NEW_ENB" "lib_id_ok it v" "ident_key it (pad16 (id_len it) v) = Some h" and k: "length k = 32"
    and slack: "0 < o_slack L 87"
  shows "\<exists>c'. exec (store_kamf L it v k) c = (Done (), c') \<and> ready c' \<and>
     store c' = set_user (store c) h (after_pushes u (key_and_counts k))"
proof -
  have s: "0 < o_slack L (db_buffer_input_size 4 1)" using slack by (simp add: db_buffer_input_size_def)
  have "\<exists>c' head P. exec (db_access L it v 4 1 (access_args (key_and_counts k) [SPGW_IP])) c = (Done (head, P), c') \<and> ready c' \<and>
      store c' = set_user (store c) h (after_pushes u (key_and_counts k)) \<and>
      length (after_pushes u (key_and_counts k)) = user_info_size \<and> finds head P [SPGW_IP] (after_pushes u (key_and_counts k))"
    by (rule db_access_copied [OF c u key_and_counts_ok [OF id(1,2) k] id(3) s _ _ _ _ _ _ _ refl refl])
      (simp_all add: copied_def key_and_counts_def)
  then show ?thesis by (auto simp: store_kamf_args)
qed

lemma store_kamf_overflow:
  assumes "it \<noteq> NEW_ENB" "lib_id_ok it v" and "length k = 32" and "o_slack L 87 = 0"
  shows "store_kamf L it v k = Stops Undefined_behaviour"
  using db_access_overflow [OF key_and_counts_ok [OF assms(1-3), of "[SPGW_IP]"], of L] assms(4)
  by (simp add: store_kamf_args key_and_counts_def db_buffer_input_size_def eval_nat_numeral)

text \<open>The handler before its first access.\<close>

lemma registration_request_memory:
  assumes L: "library_ok L" and id: "imsi_of L ident h"
  shows "o_behind_imsi L = [] \<Longrightarrow> nas_handle_registration_request L ident params w = Stops Undefined_behaviour"
    and "o_behind_imsi L \<noteq> [] \<Longrightarrow> nas_handle_registration_request L ident params w =
      andthen (db_access L IMSI (imsi_array L ident) 2 4
        (access_args (identities L (ran_ue_ngap_id params) ident) [MME_UE_S1AP_ID, RAND, KEY, OPC])) (\<lambda>(head, db_pulls).
      andthen (deref (pulled head (db_pulls P_mme_ue_s1ap_id) 0 4)) (\<lambda>i.
      let params = params\<lparr>amf_ue_ngap_id := Some (ucast (ogs_asn_OCTET_STRING_to_uint32 L i))\<rparr> in
      andthen (deref (pulled head (db_pulls P_opc) 0 16)) (\<lambda>opc.
      andthen (deref (pulled head (db_pulls P_key) 0 16)) (\<lambda>key.
      andthen (deref (pulled head (db_pulls P_rand) 0 16)) (\<lambda>rand.
      andthen (nas_5gs_generate_keys L ident opc key rand (replicate 6 0)) (\<lambda>(autn, kamf).
      andthen (store_kamf L IMSI (imsi_array L ident) kamf) (\<lambda>_.
      Returns (OK, params, respond [R_nas (nas_build_authentication_request rand autn)] w))))))))"
proof -
  note L' = L [unfolded library_ok_def] and id' = id [unfolded imsi_of_def Let_def]
  let ?imsi = "ogs_nas_5gs_imsi_to_bcd L ident" and ?mem = "take 15 (o_stack L) @ o_behind_imsi L"
  show "nas_handle_registration_request L ident params w = Stops Undefined_behaviour" if "o_behind_imsi L = []"
    using that L' id' by (simp add: nas_handle_registration_request_def Let_def memcpy_def rdn_def wrn_def)
  have mob: "wrn (o_stack L) 0 [of_nat (length ident), of_nat (length ident div 256)] =
      Some ([of_nat (length ident), 0] @ drop 2 (o_stack L))"
    "wrn ([of_nat (length ident), 0] @ drop 2 (o_stack L)) 2 ident =
      Some ([of_nat (length ident), 0] @ ident @ drop (length ident + 2) (o_stack L))"
    using L' id' by (simp_all add: wrn_def add.commute numeral_2_eq_2)
  assume "o_behind_imsi L \<noteq> []"
  then have "memcpy ?mem 0 ?imsi (length ?imsi) = Some (imsi_array L ident)"
    using L' id' by (cases "o_behind_imsi L") (simp_all add: memcpy_def rdn_def wrn_def imsi_array_def)
  then show "nas_handle_registration_request L ident params w =
      andthen (db_access L IMSI (imsi_array L ident) 2 4
        (access_args (identities L (ran_ue_ngap_id params) ident) [MME_UE_S1AP_ID, RAND, KEY, OPC])) (\<lambda>(head, db_pulls).
      andthen (deref (pulled head (db_pulls P_mme_ue_s1ap_id) 0 4)) (\<lambda>i.
      let params = params\<lparr>amf_ue_ngap_id := Some (ucast (ogs_asn_OCTET_STRING_to_uint32 L i))\<rparr> in
      andthen (deref (pulled head (db_pulls P_opc) 0 16)) (\<lambda>opc.
      andthen (deref (pulled head (db_pulls P_key) 0 16)) (\<lambda>key.
      andthen (deref (pulled head (db_pulls P_rand) 0 16)) (\<lambda>rand.
      andthen (nas_5gs_generate_keys L ident opc key rand (replicate 6 0)) (\<lambda>(autn, kamf).
      andthen (store_kamf L IMSI (imsi_array L ident) kamf) (\<lambda>_.
      Returns (OK, params, respond [R_nas (nas_build_authentication_request rand autn)] w))))))))"
    using mob id' by (simp add: nas_handle_registration_request_def Let_def identities_def)
qed

lemma registration_request_overflow:
  assumes L: "library_ok L" and id: "imsi_of L ident h" and o: "o_behind_imsi L = [] \<or> o_slack L 56 = 0"
  shows "nas_handle_registration_request L ident params w = Stops Undefined_behaviour"
proof (cases "o_behind_imsi L = []")
  case True
  then show ?thesis by (rule registration_request_memory(1) [OF L id])
next
  case False
  with db_access_overflow [OF identities_ok [OF L id, of "ran_ue_ngap_id params" "[MME_UE_S1AP_ID, RAND, KEY, OPC]"], of L] o
  show ?thesis
    by (simp add: registration_request_memory(2) [OF L id] identities_def db_buffer_input_size_def eval_nat_numeral)
qed

text \<open>The handler up to its second access, for a subscriber of the database.\<close>

lemma registration_request_first:
  assumes L: "library_ok L" and c: "ready c" and u: "users (store c) h = Some u"
    and id: "imsi_of L ident h" and keys: "registration_keys L u ident = Returns (autn, k)"
    and room: "o_behind_imsi L \<noteq> []" "0 < o_slack L 56"
  shows "\<exists>c1. ready c1 \<and> store c1 = set_user (store c) h (identified L (ran_ue_ngap_id params) ident u) \<and>
     exec (nas_handle_registration_request L ident params w) c =
     exec (andthen (store_kamf L IMSI (imsi_array L ident) k) (\<lambda>_.
       Returns (OK, params\<lparr>amf_ue_ngap_id := Some (amf_id L u)\<rparr>,
         respond [R_nas (nas_build_authentication_request (fld u F_rand) autn)] w))) c1"
proof -
  let ?its = "[MME_UE_S1AP_ID, RAND, KEY, OPC]" and ?i = "ran_ue_ngap_id params"
  let ?U = "identified L ?i ident u"
  note ids = identified_fld [OF L _ id [unfolded imsi_of_def Let_def, THEN conjunct1]]
  have lu: "length u = user_info_size" using wf_db_user(1) [of "c_db c" h u] c u by (simp add: ready_def wf_user_def)
  have s: "0 < o_slack L (db_buffer_input_size 2 4)" using room(2) by (simp add: db_buffer_input_size_def)
  have "\<exists>c1 head P. exec (db_access L IMSI (imsi_array L ident) 2 4 (access_args (identities L ?i ident) ?its)) c =
      (Done (head, P), c1) \<and> ready c1 \<and> store c1 = set_user (store c) h ?U \<and> length ?U = user_info_size \<and> finds head P ?its ?U"
    by (rule db_access_copied [OF c u identities_ok [OF L id] imsi_ok(2) [OF id] s _ _ _ _ _ _ _ refl identified_def])
      (simp_all add: copied_def identities_def)
  then obtain c1 head P where
    x: "exec (db_access L IMSI (imsi_array L ident) 2 4 (access_args (identities L ?i ident) ?its)) c = (Done (head, P), c1)"
    "ready c1" "store c1 = set_user (store c) h ?U" and p: "finds head P ?its ?U" by blast
  have "pulled head (P P_mme_ue_s1ap_id) 0 4 = Some (fld u F_mme_ue_s1ap_id)"
    "pulled head (P P_rand) 0 16 = Some (fld u F_rand)" "pulled head (P P_key) 0 16 = Some (fld u F_key)"
    "pulled head (P P_opc) 0 16 = Some (fld u F_opc)"
    using finds_fld [OF p, of MME_UE_S1AP_ID P_mme_ue_s1ap_id F_mme_ue_s1ap_id] finds_fld [OF p, of RAND P_rand F_rand]
      finds_fld [OF p, of KEY P_key F_key] finds_fld [OF p, of OPC P_opc F_opc] ids(2) [OF lu] by simp_all
  then show ?thesis
    using x keys unfolding registration_request_memory(2) [OF L id room(1)]
    by (intro exI [of _ c1]) (simp add: Let_def registration_keys_def amf_id_def)
qed

section \<open>From the datagram to the answer\<close>

lemma nas_bytes_plain:
  assumes "ogs_nas_5gmm_decode L (0x7e # 0 # bs) = Some m"
  shows "nas_bytes_to_message L params (0x7e # 0 # bs) w = Returns (OK, Some (Gmm m), params, w)"
  using assms by (simp add: nas_bytes_to_message_def security_decode_gsm_def nas_5gs_security_decode_def rd_def
      pk_bytes_def rdn_def nth_append)

lemma nas_message_to_bytes_plain:
  assumes "security_header_type m = 0" and "ogs_nas_5gs_plain_encode L m = Some b" and "w_responses w = [R_nas m]"
    and "nas_security_params params \<noteq> None"
  shows "nas_message_to_bytes L params w = Returns (OK, params, respond [R_pkbuf b] w)"
  using assms by (auto simp: nas_message_to_bytes_def nas_5gs_security_encode_def)

text \<open>
  What the worker's libraries make of a datagram: an Initial UE Message with a plain Registration Request, and bytes
  for the two answers.
\<close>

definition registration_datagram :: "ogs \<Rightarrow> byte list \<Rightarrow> u64 \<Rightarrow> byte list \<Rightarrow> bool" where
  "registration_datagram L pdu i ident \<longleftrightarrow>
     (\<exists>cr ies bs. ogs_ngap_decode L pdu = Some (Initiating_message InitialUEMessage cr ies) \<and>
        last_ie ran_of ies = Some i \<and> last_ie location_of ies = Some True \<and> last_ie nas_of ies = Some (0x7e # 0 # bs) \<and>
        ogs_nas_5gmm_decode L (0x7e # 0 # bs) = Some (Registration_request ident))"

definition authentication_pdu :: "u64 \<Rightarrow> u64 \<Rightarrow> byte list \<Rightarrow> ngap_pdu" where
  "authentication_pdu amf i nas = Initiating_message DownlinkNASTransport Ignore
     [(Reject, Ie_AMF_UE_NGAP_ID amf), (Reject, Ie_RAN_UE_NGAP_ID i), (Reject, Ie_NAS_PDU nas)]"

lemma build_downlink:
  "amf \<noteq> 0 \<Longrightarrow> i \<noteq> 0 \<Longrightarrow> ngap_build_downlink_nas_transport amf i nas None [] = Returns (authentication_pdu amf i nas)"
  by (simp add: ngap_build_downlink_nas_transport_def authentication_pdu_def)

text \<open>The state in which the handler of the Registration Request starts, and the program around it.\<close>

definition registration_start :: worker where
  "registration_start = \<lparr>w_batch = [(''uplink_packets_total'', 1), (''ngap_message_type'', 37)], w_responses = [],
     w_sctpStreamID = 1, w_warnings = []\<rparr>"

definition registration_params :: "u64 \<Rightarrow> nas_params" where
  "registration_params i = (new_params i None)\<lparr>nas_security_params := Some no_security, nas_message_type := 65\<rparr>"

definition registration_rest :: "ogs \<Rightarrow> byte list \<Rightarrow> u64 \<Rightarrow> status \<times> nas_params \<times> worker \<Rightarrow> (byte list option list \<times> worker) run" where
  "registration_rest L header i = (\<lambda>(st, params, w).
     andthen (ogs_assert (st = OK)) (\<lambda>_.
     andthen (nas_message_to_bytes L params (observe ''nas_message_type'' (uint (nas_message_type params)) w)) (\<lambda>(st, params, w).
     andthen (ogs_assert (st = OK)) (\<lambda>_.
     andthen (single_pkbuf w) (\<lambda>nas.
     andthen (required (amf_ue_ngap_id params)) (\<lambda>amf.
     andthen (ngap_build_downlink_nas_transport amf i nas None []) (\<lambda>m.
     let w = respond [R_ngap m] (observe ''ue_id'' (uint amf) w) in
     Returns ([map_option (\<lambda>b. header @ [w_sctpStreamID w] @ b) (ogs_ngap_encode L m)],
       observe ''downlink_packets_total'' 1 w))))))))"

lemma registration_program:
  assumes pdu: "registration_datagram L pdu i ident" and hd: "length header = 4"
  shows "process_message L (header @ pdu) =
     andthen (nas_handle_registration_request L ident (registration_params i) registration_start) (registration_rest L header i)"
proof -
  from pdu obtain cr ies bs where d: "ogs_ngap_decode L pdu = Some (Initiating_message InitialUEMessage cr ies)"
    "last_ie ran_of ies = Some i" "last_ie location_of ies = Some True" "last_ie nas_of ies = Some (0x7e # 0 # bs)"
    "ogs_nas_5gmm_decode L (0x7e # 0 # bs) = Some (Registration_request ident)"
    by (auto simp: registration_datagram_def)
  have "rdn (header @ pdu) 0 4 = Some header" using hd by (simp add: rdn_def)
  then have "process_message L (header @ pdu) =
      andthen (nas_handle_registration_request L ident (registration_params i) registration_start) (\<lambda>x.
      andthen (case x of (st, params, w) \<Rightarrow> andthen (ogs_assert (st = OK)) (\<lambda>_. Returns (OK, params, w))) (\<lambda>(st, params, w).
      andthen (ogs_assert (st = OK)) (\<lambda>_.
      andthen (nas_message_to_bytes L params (observe ''nas_message_type'' (uint (nas_message_type params)) w)) (\<lambda>(st, params, w).
      andthen (ogs_assert (st = OK)) (\<lambda>_.
      andthen (single_pkbuf w) (\<lambda>nas.
      andthen (required (amf_ue_ngap_id params)) (\<lambda>amf.
      andthen (ngap_build_downlink_nas_transport amf i nas None []) (\<lambda>m.
      let w = respond [R_ngap m] (observe ''ue_id'' (uint amf) w) in
      Returns ([map_option (\<lambda>b. header @ [w_sctpStreamID w] @ b) (ogs_ngap_encode L m)],
        observe ''downlink_packets_total'' 1 w)))))))))"
    using d nas_bytes_plain [OF d(5)] hd
    by (simp add: process_message_def ngap_handler_entrypoint_def ngap_message_handler_def nas_handler_entrypoint_def
        ngap_initiatingMessage_handler_def ngap_handle_initial_ue_message_def nas_5gmm_handler_def checked_def
        registration_start_def registration_params_def new_params_def fresh_worker_def observe_def respond_def
        case_prod_unfold Let_def)
  also have "\<dots> = andthen (nas_handle_registration_request L ident (registration_params i) registration_start)
      (registration_rest L header i)"
    by (rule arg_cong [where f = "andthen (nas_handle_registration_request L ident (registration_params i) registration_start)"],
        rule ext) (auto simp: registration_rest_def ogs_assert_def)
  finally show ?thesis .
qed

lemma registration_rest_ok:
  assumes "security_header_type m = 0" and "ogs_nas_5gs_plain_encode L m = Some nas" and "amf \<noteq> 0" and "i \<noteq> 0"
    and "ogs_ngap_encode L (authentication_pdu amf i nas) = Some out" 
  shows "\<exists>w'. registration_rest L header i (OK, (registration_params i)\<lparr>amf_ue_ngap_id := Some amf\<rparr>, respond [R_nas m] registration_start) =
     Returns ([Some (header @ [1] @ out)], w')"
proof -
  let ?p = "(registration_params i)\<lparr>amf_ue_ngap_id := Some amf\<rparr>"
  let ?w = "observe ''nas_message_type'' (uint (nas_message_type ?p)) (respond [R_nas m] registration_start)"
  have "w_responses ?w = [R_nas m]" "nas_security_params ?p \<noteq> None"
    by (simp_all add: observe_def respond_def registration_params_def)
  from nas_message_to_bytes_plain [OF assms(1,2) this] show ?thesis
    using assms(5) build_downlink [OF assms(3,4)]
    by (simp add: registration_rest_def single_pkbuf_def) (simp add: respond_def observe_def registration_start_def)
qed

text \<open>
  The whole message for a subscriber of the database: without room behind the array or the block of the first request the
  behaviour is undefined before anything is sent; without room behind the block of the second, after the first access.
\<close>

lemma registration_processed:
  assumes L: "library_ok L" and c: "ready c" and u: "users (store c) h = Some u"
    and hd: "length header = 4" and pdu: "registration_datagram L pdu i ident" "i \<noteq> 0" "amf_id L u \<noteq> 0"
    and id: "imsi_of L ident h" and keys: "registration_keys L u ident = Returns (autn, k)"
    and e: "ogs_nas_5gs_plain_encode L (nas_build_authentication_request (fld u F_rand) autn) = Some nas"
      "ogs_ngap_encode L (authentication_pdu (amf_id L u) i nas) = Some out"
  shows "o_behind_imsi L = [] \<or> o_slack L 56 = 0 \<Longrightarrow> exec (process_message L (header @ pdu)) c = (Halted Undefined_behaviour, c)"
    and "o_behind_imsi L \<noteq> [] \<Longrightarrow> 0 < o_slack L 56 \<Longrightarrow> o_slack L 87 = 0 \<Longrightarrow>
     \<exists>c'. exec (process_message L (header @ pdu)) c = (Halted Undefined_behaviour, c') \<and> ready c' \<and>
       store c' = set_user (store c) h (identified L i ident u)"
    and "o_behind_imsi L \<noteq> [] \<Longrightarrow> 0 < o_slack L 56 \<Longrightarrow> 0 < o_slack L 87 \<Longrightarrow>
     \<exists>c' w. exec (process_message L (header @ pdu)) c = (Done ([Some (header @ [1] @ out)], w), c') \<and> ready c' \<and>
       store c' = set_user (store c) h (registered L i ident k u)"
proof -
  note prog = registration_program [OF pdu(1) hd]
  note lk = registration_keys_length [OF L keys] and io = imsi_ok [OF id]
  show "exec (process_message L (header @ pdu)) c = (Halted Undefined_behaviour, c)"
    if "o_behind_imsi L = [] \<or> o_slack L 56 = 0"
    using registration_request_overflow [OF L id that] by (simp add: prog)
  assume room: "o_behind_imsi L \<noteq> []" "0 < o_slack L 56"
  have r: "ran_ue_ngap_id (registration_params i) = i" by (simp add: registration_params_def new_params_def)
  from registration_request_first [OF L c u id keys room, of "registration_params i" registration_start] r obtain c1 where
    c1: "ready c1" "store c1 = set_user (store c) h (identified L i ident u)"
    and x: "exec (nas_handle_registration_request L ident (registration_params i) registration_start) c =
      exec (andthen (store_kamf L IMSI (imsi_array L ident) k) (\<lambda>_.
        Returns (OK, (registration_params i)\<lparr>amf_ue_ngap_id := Some (amf_id L u)\<rparr>,
          respond [R_nas (nas_build_authentication_request (fld u F_rand) autn)] registration_start))) c1" by auto
  show "\<exists>c'. exec (process_message L (header @ pdu)) c = (Halted Undefined_behaviour, c') \<and> ready c' \<and>
       store c' = set_user (store c) h (identified L i ident u)" if "o_slack L 87 = 0"
    using store_kamf_overflow [OF _ io(1) lk that] c1 x by (simp add: prog)
  show "\<exists>c' w. exec (process_message L (header @ pdu)) c = (Done ([Some (header @ [1] @ out)], w), c') \<and> ready c' \<and>
       store c' = set_user (store c) h (registered L i ident k u)" if "0 < o_slack L 87"
  proof -
    have "users (store c1) h = Some (identified L i ident u)" using c1(2) by simp
    from store_kamf_ok [OF c1(1) this _ io lk that] c1(2) obtain c' where
      "exec (store_kamf L IMSI (imsi_array L ident) k) c1 = (Done (), c')" "ready c'"
      "store c' = set_user (store c) h (registered L i ident k u)" by (auto simp: registered_def)
    moreover have "security_header_type (nas_build_authentication_request (fld u F_rand) autn) = 0"
      by (simp add: nas_build_authentication_request_def)
    from registration_rest_ok [OF this e(1) pdu(3,2) e(2), of header] obtain w' where
      "registration_rest L header i (OK, (registration_params i)\<lparr>amf_ue_ngap_id := Some (amf_id L u)\<rparr>,
        respond [R_nas (nas_build_authentication_request (fld u F_rand) autn)] registration_start) =
       Returns ([Some (header @ [1] @ out)], w')" by blast
    ultimately show ?thesis using x by (simp add: prog)
  qed
qed

text \<open>An IMSI that the database does not know: the first access does not return.\<close>

definition registration_lookup :: "ogs \<Rightarrow> u64 \<Rightarrow> byte list \<Rightarrow> byte list" where
  "registration_lookup L i ident =
     body (access_request IMSI (imsi_array L ident) (identities L i ident) [MME_UE_S1AP_ID, RAND, KEY, OPC])"

lemma registration_waits:
  assumes L: "library_ok L" and id: "imsi_of L ident h" and hd: "length header = 4"
    and pdu: "registration_datagram L pdu i ident" and room: "o_behind_imsi L \<noteq> []" "0 < o_slack L 56"
  shows "\<exists>k. process_message L (header @ pdu) = Access (registration_lookup L i ident) 68 k"
proof -
  let ?its = "[MME_UE_S1AP_ID, RAND, KEY, OPC]"
  have l: "length (identities L i ident) = 2" "length ?its = 4" by (simp_all add: identities_def)
  have "0 < o_slack L (db_buffer_input_size (length (identities L i ident)) (length ?its))"
    using room(2) l by (simp add: db_buffer_input_size_def)
  from db_access_eq [OF identities_ok [OF L id] this] have "\<exists>k. db_access L IMSI (imsi_array L ident) 2 4
      (access_args (identities L i ident) ?its) = Access (registration_lookup L i ident) 68 k"
    unfolding l registration_lookup_def by simp
  moreover have "ran_ue_ngap_id (registration_params i) = i" by (simp add: registration_params_def new_params_def)
  ultimately show ?thesis
    by (auto simp: registration_program [OF pdu hd] registration_request_memory(2) [OF L id room(1)])
qed

text \<open>
  For a subscriber that the database does not know the exchange ends the worker, whatever else the database holds: the
  assertion on the length of the answer fails, unless the server has stopped before.
\<close>

definition unknown_stop :: "ogs \<Rightarrow> conn \<Rightarrow> u64 \<Rightarrow> byte list \<Rightarrow> stop" where
  "unknown_stop L c i ident =
     (if o_behind_imsi L = [] \<or> o_slack L 56 = 0 then Undefined_behaviour
      else if send_request c (registration_lookup L i ident) = None then Server_stopped
      else Assertion_failed)"

lemma registration_lookup_unknown:
  assumes L: "library_ok L" and c: "ready c" and u: "users (store c) h = None" and id: "imsi_of L ident h"
    and room: "o_behind_imsi L \<noteq> []" "0 < o_slack L 56"
  shows "fst (db_exchange c (registration_lookup L i ident) 68) = Inl (unknown_stop L c i ident)"
proof -
  let ?r = "access_request IMSI (imsi_array L ident) (identities L i ident) [MME_UE_S1AP_ID, RAND, KEY, OPC]"
  have "request_user ?r = Some h" using imsi_ok(2) [OF id] by (simp add: request_user_access)
  from db_exchange_unknown [OF c u this length_pad16_id [OF identities_ok [OF L id]]] room show ?thesis
    by (simp add: registration_lookup_def unknown_stop_def)
qed

lemma registration_unknown_processed:
  assumes L: "library_ok L" and c: "ready c" and u: "users (store c) h = None"
    and hd: "length header = 4" and pdu: "registration_datagram L pdu i ident" and id: "imsi_of L ident h"
  shows "\<exists>c'. exec (process_message L (header @ pdu)) c = (Halted (unknown_stop L c i ident), c')"
proof (cases "o_behind_imsi L = [] \<or> o_slack L 56 = 0")
  case True
  with registration_request_overflow [OF L id] show ?thesis by (simp add: registration_program [OF pdu hd] unknown_stop_def)
next
  case False
  then have room: "o_behind_imsi L \<noteq> []" "0 < o_slack L 56" by auto
  from registration_waits [OF L id hd pdu room] registration_lookup_unknown [OF L c u id room, of i] show ?thesis
    by (auto split: prod.splits)
qed

end
