(* ===== verification/Worker_Security.thy ===== *)
theory Worker_Security
  imports Worker_Flow
begin

text \<open>
  The security context of a UE as the worker fetches it: the keys that the Registration Request stored and the two NAS
  counts, which the database increments when they are read.
\<close>

section \<open>Fetching the keys\<close>

definition stored_kamf :: "UserInfo \<Rightarrow> byte list" where
  "stored_kamf u = fld u F_kasme1 @ fld u F_kasme2"

abbreviation downlink_count :: "UserInfo \<Rightarrow> byte" where
  "downlink_count u \<equiv> hd (fld u F_epc_nas_sequence_number)"

abbreviation uplink_count :: "UserInfo \<Rightarrow> byte" where
  "uplink_count u \<equiv> hd (fld u F_ue_nas_sequence_number)"

definition keyed :: "ogs \<Rightarrow> UserInfo \<Rightarrow> security_params \<Rightarrow> security_params" where
  "keyed L u sp = sp\<lparr>kamf := Some (stored_kamf u),
     knas_int := Some (ogs_kdf_nas_5gs L 2 2 (stored_kamf u)),
     knas_enc := Some (ogs_kdf_nas_5gs L 1 0 (stored_kamf u)),
     dl_count := ogs_asn_OCTET_STRING_to_uint32 L [0, 0, 0, downlink_count u]\<rparr>"

text \<open>The AMF-UE-NGAP-ID of a message names a subscriber.\<close>

definition names :: "ogs \<Rightarrow> u64 \<Rightarrow> u32 \<Rightarrow> bool" where
  "names L i h \<longleftrightarrow> hash_mme_ue_s1ap_id (pad16 4 (ogs_asn_uint32_to_OCTET_STRING L (ucast i))) = Some h"

lemma names_access:
  assumes "library_ok L" and "names L i h"
  shows "access_ok MME_UE_S1AP_ID (ogs_asn_uint32_to_OCTET_STRING L (ucast i)) [] its"
    "ident_key MME_UE_S1AP_ID (pad16 (id_len MME_UE_S1AP_ID) (ogs_asn_uint32_to_OCTET_STRING L (ucast i))) = Some h"
  using assms by (simp_all add: access_ok_def lib_id_ok_def library_ok_def names_def)

lemma answer_counts:
  "answer_at u [KASME_1, KASME_2, EPC_NAS_SEQUENCE_NUMBER] 0 = fld u F_kasme1"
  "answer_at u [KASME_1, KASME_2, EPC_NAS_SEQUENCE_NUMBER] 1 = fld u F_kasme2"
  "answer_at u [KASME_1, KASME_2, EPC_NAS_SEQUENCE_NUMBER] 2 = counter_bytes 5 (downlink_count u)"
  by (simp_all add: answer_at_def user_answer_def after_pulls_def user_after_def fld_def numeral_2_eq_2)

lemma answer_both_counts:
  assumes "length u = user_info_size"
  shows "answer_at u [KASME_1, KASME_2, EPC_NAS_SEQUENCE_NUMBER, UE_NAS_SEQUENCE_NUMBER] 0 = fld u F_kasme1"
    "answer_at u [KASME_1, KASME_2, EPC_NAS_SEQUENCE_NUMBER, UE_NAS_SEQUENCE_NUMBER] 1 = fld u F_kasme2"
    "answer_at u [KASME_1, KASME_2, EPC_NAS_SEQUENCE_NUMBER, UE_NAS_SEQUENCE_NUMBER] 2 = counter_bytes 5 (downlink_count u)"
    "answer_at u [KASME_1, KASME_2, EPC_NAS_SEQUENCE_NUMBER, UE_NAS_SEQUENCE_NUMBER] 3 = counter_bytes 0 (uplink_count u)"
  using assms
  by (simp_all add: answer_at_def user_answer_def after_pulls_def user_after_def fld_def numeral_2_eq_2 numeral_3_eq_3
      fld_set_fld [unfolded fld_def])

lemma counter_window:
  "take 4 (drop 2 (counter_bytes 5 v)) = [0, 0, 0, v]" "take 4 (drop 2 (counter_bytes 0 v)) = [0, 0, 0, 0]"
  by (simp_all add: counter_bytes_def eval_nat_numeral)

lemma length_counter_bytes: "length (counter_bytes k v) = 16"
  by (simp add: counter_bytes_def)

text \<open>An access of the subscriber that a message names.\<close>

lemma names_pulled:
  assumes L: "library_ok L" and c: "ready c" and u: "users (store c) h = Some u" and i: "names L i h"
    and its: "its \<noteq> []" "distinct its" "list_all plain_pull its" "length its \<le> 20"
    and slack: "0 < o_slack L (18 + length its)"
  shows "\<exists>c' head P. exec (db_access L MME_UE_S1AP_ID (id_bytes L i) 0 (length its) (map item_arg its)) c = (Done (head, P), c') \<and>
     ready c' \<and> store c' = set_user (store c) h (after_pulls u its) \<and>
     (\<forall>k f i j. k < length its \<longrightarrow> pfield_of (its ! k) = Some f \<longrightarrow> i + j \<le> length (answer_at u its k) \<longrightarrow>
        pulled head (P f) i j = Some (take j (drop i (answer_at u its k)))) \<and>
     (\<forall>k f. k < length its \<longrightarrow> pfield_of (its ! k) = Some f \<longrightarrow> is_set (P f) = Some True) \<and>
     (\<forall>f. (\<forall>it \<in> set its. pfield_of it \<noteq> Some f) \<longrightarrow> P f = uninitialised L f)"
proof -
  have "0 < o_slack L (db_buffer_input_size 0 (length its))" using slack by (simp add: db_buffer_input_size_def)
  from db_access_pulled [OF c u names_access [OF L i] its(1,2,3,4) _ this _ refl] show ?thesis
    by (simp add: after_pushes_simps set_user_def)
qed

lemma names_overflow:
  assumes "library_ok L" and "names L i h" and "o_slack L (18 + length its) = 0"
  shows "db_access L MME_UE_S1AP_ID (id_bytes L i) 0 (length its) (map item_arg its) = Stops Undefined_behaviour"
  using db_access_overflow [OF names_access(1) [OF assms(1,2), of its], of L] assms(3) by (simp add: db_buffer_input_size_def)

lemma length_user: "ready c \<Longrightarrow> users (store c) h = Some u \<Longrightarrow> length u = user_info_size"
  using wf_db_user(1) [of "c_db c" h u] by (simp add: ready_def wf_user_def)

text \<open>
  The keys with the downlink count.  The access does not set the pointer to the uplink count, which the code tests all the
  same: the structure is not initialised.
\<close>

lemma fetch_keys_down:
  assumes L: "library_ok L" "0 < o_slack L 21" and c: "ready c" and u: "users (store c) h = Some u"
    and i: "amf_ue_ngap_id params = Some i" "names L i h" and sp: "nas_security_params params = Some sp"
  shows "\<exists>c'. exec (nas_security_fetch_keys L params NAS_COUNTS_JUST_DL) c =
       (if o_null L P_ue_nas_sequence_number then Done (params\<lparr>nas_security_params := Some (keyed L u sp)\<rparr>)
        else Halted Undefined_behaviour, c') \<and> ready c' \<and>
     store c' = set_user (store c) h (set_fld u F_epc_nas_sequence_number [downlink_count u + 1])"
proof -
  let ?its = "[KASME_1, KASME_2, EPC_NAS_SEQUENCE_NUMBER]"
  note lk = length_fld [OF length_user [OF c u]]
  have s: "after_pulls u ?its = set_fld u F_epc_nas_sequence_number [downlink_count u + 1]"
    by (simp add: after_pulls_def user_after_def)
  from names_pulled [OF L(1) c u i(2), of ?its] L(2) s obtain c' head P where
    a: "exec (db_access L MME_UE_S1AP_ID (id_bytes L i) 0 (length ?its) (map item_arg ?its)) c = (Done (head, P), c')"
    "ready c'" "store c' = set_user (store c) h (set_fld u F_epc_nas_sequence_number [downlink_count u + 1])"
    and p: "\<And>k f i j. k < length ?its \<Longrightarrow> pfield_of (?its ! k) = Some f \<Longrightarrow> i + j \<le> length (answer_at u ?its k) \<Longrightarrow>
        pulled head (P f) i j = Some (take j (drop i (answer_at u ?its k)))"
    and t: "\<And>k f. k < length ?its \<Longrightarrow> pfield_of (?its ! k) = Some f \<Longrightarrow> is_set (P f) = Some True"
    and q: "\<And>f. (\<forall>it \<in> set ?its. pfield_of it \<noteq> Some f) \<Longrightarrow> P f = uninitialised L f"
    by (auto simp: plain_pull_def)
  have "pulled head (P P_kasme1) 0 16 = Some (fld u F_kasme1)" "pulled head (P P_kasme2) 0 16 = Some (fld u F_kasme2)"
    "pulled head (P P_epc_nas_sequence_number) 2 4 = Some [0, 0, 0, downlink_count u]"
    using p [of 0 P_kasme1 0 16] p [of 1 P_kasme2 0 16] p [of 2 P_epc_nas_sequence_number 2 4] answer_counts [of u] lk
    by (simp_all add: counter_window length_counter_bytes)
  moreover have "is_set (P P_kasme1) = Some True" "is_set (P P_kasme2) = Some True"
    "is_set (P P_epc_nas_sequence_number) = Some True"
    "is_set (P P_ue_nas_sequence_number) = (if o_null L P_ue_nas_sequence_number then Some False else None)"
    using t [of 0] t [of 1] t [of 2] q [of P_ue_nas_sequence_number] by (simp_all add: uninitialised_def)
  ultimately have "nas_security_store_keys_in_params L head P (Some sp) =
      (if o_null L P_ue_nas_sequence_number then Returns (keyed L u sp) else Stops Undefined_behaviour)"
    by (simp add: nas_security_store_keys_in_params_def pulled_count_def keyed_def stored_kamf_def Let_def)
  then show ?thesis using a i(1) sp by (auto simp: nas_security_fetch_keys_def)
qed

lemma fetch_keys_down_overflow:
  assumes "library_ok L" "o_slack L 21 = 0" and "amf_ue_ngap_id params = Some i" "names L i h"
  shows "nas_security_fetch_keys L params NAS_COUNTS_JUST_DL = Stops Undefined_behaviour"
  using names_overflow [OF assms(1,4), of "[KASME_1, KASME_2, EPC_NAS_SEQUENCE_NUMBER]"] assms(2,3)
  by (simp add: nas_security_fetch_keys_def)

text \<open>
  Both counts: the database sends the uplink count in byte 0 of its answer and the downlink count in byte 5; the worker
  reads bytes 2 to 5 of either, so that it takes every uplink count as 0.
\<close>

definition counted :: "UserInfo \<Rightarrow> UserInfo" where
  "counted u = set_fld (set_fld u F_epc_nas_sequence_number [downlink_count u + 1])
     F_ue_nas_sequence_number [uplink_count u + 1]"

lemma after_pulls_both:
  assumes "length u = user_info_size"
  shows "after_pulls u [KASME_1, KASME_2, EPC_NAS_SEQUENCE_NUMBER, UE_NAS_SEQUENCE_NUMBER] = counted u"
  using assms by (simp add: after_pulls_def user_after_def counted_def fld_set_fld)

lemma fetch_keys_both:
  assumes L: "library_ok L" "0 < o_slack L 22" and c: "ready c" and u: "users (store c) h = Some u"
    and i: "amf_ue_ngap_id params = Some i" "names L i h" and sp: "nas_security_params params = Some sp"
  shows "\<exists>c'. exec (nas_security_fetch_keys L params NAS_COUNTS_BOTH_UL_DL) c =
       (Done (params\<lparr>nas_security_params := Some ((keyed L u sp)\<lparr>ul_count := ogs_asn_OCTET_STRING_to_uint32 L [0, 0, 0, 0]\<rparr>)\<rparr>),
        c') \<and> ready c' \<and> store c' = set_user (store c) h (counted u)"
proof -
  let ?its = "[KASME_1, KASME_2, EPC_NAS_SEQUENCE_NUMBER, UE_NAS_SEQUENCE_NUMBER]"
  note lu = length_user [OF c u]
  note lk = length_fld [OF lu]
  from names_pulled [OF L(1) c u i(2), of ?its] L(2) after_pulls_both [OF lu] obtain c' head P where
    a: "exec (db_access L MME_UE_S1AP_ID (id_bytes L i) 0 (length ?its) (map item_arg ?its)) c = (Done (head, P), c')"
    "ready c'" "store c' = set_user (store c) h (counted u)"
    and p: "\<And>k f i j. k < length ?its \<Longrightarrow> pfield_of (?its ! k) = Some f \<Longrightarrow> i + j \<le> length (answer_at u ?its k) \<Longrightarrow>
        pulled head (P f) i j = Some (take j (drop i (answer_at u ?its k)))"
    and t: "\<And>k f. k < length ?its \<Longrightarrow> pfield_of (?its ! k) = Some f \<Longrightarrow> is_set (P f) = Some True"
    by (auto simp: plain_pull_def)
  have "pulled head (P P_kasme1) 0 16 = Some (fld u F_kasme1)" "pulled head (P P_kasme2) 0 16 = Some (fld u F_kasme2)"
    "pulled head (P P_epc_nas_sequence_number) 2 4 = Some [0, 0, 0, downlink_count u]"
    "pulled head (P P_ue_nas_sequence_number) 2 4 = Some [0, 0, 0, 0]"
    using p [of 0 P_kasme1 0 16] p [of 1 P_kasme2 0 16] p [of 2 P_epc_nas_sequence_number 2 4]
      p [of 3 P_ue_nas_sequence_number 2 4] answer_both_counts [OF lu] lk
    by (simp_all add: counter_window length_counter_bytes)
  moreover have "is_set (P P_kasme1) = Some True" "is_set (P P_kasme2) = Some True"
    "is_set (P P_epc_nas_sequence_number) = Some True" "is_set (P P_ue_nas_sequence_number) = Some True"
    using t [of 0] t [of 1] t [of 2] t [of 3] by simp_all
  ultimately have "nas_security_store_keys_in_params L head P (Some sp) =
      Returns ((keyed L u sp)\<lparr>ul_count := ogs_asn_OCTET_STRING_to_uint32 L [0, 0, 0, 0]\<rparr>)"
    by (simp add: nas_security_store_keys_in_params_def pulled_count_def keyed_def stored_kamf_def Let_def)
  then show ?thesis using a i(1) sp by (auto simp: nas_security_fetch_keys_def)
qed

section \<open>Authentication Response\<close>

abbreviation "security_mode_command \<equiv> snd nas_build_security_mode_command"

text \<open>The protected bytes of the Security Mode Command: the sequence number is 0, the code takes the stored count.\<close>

definition protected_command :: "ogs \<Rightarrow> UserInfo \<Rightarrow> byte list \<Rightarrow> byte list" where
  "protected_command L u new = [0x7e, 3] @ take 4 (ogs_nas_mac_calculate L 2 (ogs_kdf_nas_5gs L 2 2 (stored_kamf u))
      (ogs_asn_OCTET_STRING_to_uint32 L [0, 0, 0, downlink_count u]) 1 1 (0 # new)) @ 0 # new"

definition mac_ok :: "ogs \<Rightarrow> bool" where
  "mac_ok L \<longleftrightarrow> (\<forall>a k n b d m. 4 \<le> length (ogs_nas_mac_calculate L a k n b d m))"

text \<open>Its encoding: the keys are fetched, and the code is computed with them.\<close>

lemma security_mode_command_encoding:
  assumes sp: "nas_security_params params = Some no_security" and e: "ogs_nas_5gs_plain_encode L security_mode_command = Some new"
  shows "nas_5gs_security_encode L params security_mode_command =
     andthen (nas_security_fetch_keys L params NAS_COUNTS_JUST_DL) (\<lambda>params.
     andthen (deref (nas_security_params params)) (\<lambda>sp.
     andthen (deref (knas_int sp)) (\<lambda>k.
     andthen (deref (rdn (ogs_nas_mac_calculate L 2 k (dl_count sp) 1 1 (0 # new)) 0 4)) (\<lambda>mac.
     Returns (Some ([0x7e, 3] @ mac @ 0 # new), params)))))"
  using sp e by (simp add: nas_5gs_security_encode_def nas_build_security_mode_command_def need_knas_int_def no_security_def Let_def)

text \<open>A datagram with an Uplink NAS Transport and the NAS bytes in it.\<close>

definition uplink_datagram :: "ogs \<Rightarrow> byte list \<Rightarrow> u64 \<Rightarrow> u64 \<Rightarrow> byte list \<Rightarrow> bool" where
  "uplink_datagram L pdu amf i nas \<longleftrightarrow>
     (\<exists>cr ies. ogs_ngap_decode L pdu = Some (Initiating_message UplinkNASTransport cr ies) \<and>
        last_ie ran_of ies = Some i \<and> last_ie amf_of ies = Some amf \<and> last_ie location_of ies = Some True \<and>
        last_ie nas_of ies = Some nas)"

text \<open>The state in which the NAS handler starts, and the program around it.\<close>

definition uplink_start :: "u64 \<Rightarrow> worker" where
  "uplink_start amf = \<lparr>w_batch = [(''uplink_packets_total'', 1), (''ngap_message_type'', 60), (''ue_id'', uint amf)],
     w_responses = [], w_sctpStreamID = 1, w_warnings = []\<rparr>"

lemma uplink_program:
  assumes d: "uplink_datagram L pdu amf i nas" and hd: "length header = 4"
  shows "process_message L (header @ pdu) =
     andthen (nas_handler_entrypoint L nas (new_params i (Some amf)) (uplink_start amf)) (\<lambda>(st, params, w).
     andthen (ogs_assert (st = OK)) (\<lambda>_.
     andthen (answer_uplink L params amf i w) (\<lambda>w.
     andthen (messages_to_bytes L (w_responses w)) (\<lambda>out.
     Returns (map (map_option (\<lambda>b. header @ [w_sctpStreamID w] @ b)) out,
       observe ''downlink_packets_total'' (int (length out)) w)))))"
proof -
  from d obtain cr ies where "ogs_ngap_decode L pdu = Some (Initiating_message UplinkNASTransport cr ies)"
    "last_ie ran_of ies = Some i" "last_ie amf_of ies = Some amf" "last_ie location_of ies = Some True"
    "last_ie nas_of ies = Some nas" by (auto simp: uplink_datagram_def)
  moreover have "rdn (header @ pdu) 0 4 = Some header" using hd by (simp add: rdn_def)
  ultimately show ?thesis
    using hd by (simp add: process_message_def ngap_handler_entrypoint_def ngap_message_handler_def
        ngap_initiatingMessage_handler_def ngap_handle_uplink_nas_transport_def observe_def uplink_start_def fresh_worker_def
        case_prod_unfold Let_def)
qed

lemma authentication_response_program:
  assumes d: "ogs_nas_5gmm_decode L (0x7e # 0 # bs) = Some (Authentication_response r)"
  shows "nas_handler_entrypoint L (0x7e # 0 # bs) (new_params i (Some amf)) w =
     nas_message_to_bytes L ((new_params i (Some amf))\<lparr>nas_security_params := Some no_security, nas_message_type := 87\<rparr>)
       (observe ''nas_message_type'' 87 (respond [R_nas security_mode_command] w))"
  using nas_bytes_plain [OF d]
  by (simp add: nas_handler_entrypoint_def nas_5gmm_handler_def checked_def nas_handle_authentication_response_def
      new_params_def case_prod_unfold nas_build_security_mode_command_def)

text \<open>
  The whole message: without room behind the block of the request, and with a pointer that is not NULL by chance, the
  behaviour is undefined, in the second case after the count has been advanced.
\<close>

lemma authentication_response_processed:
  assumes L: "library_ok L" "mac_ok L" and c: "ready c" and u: "users (store c) h = Some u"
    and hd: "length header = 4" and pdu: "uplink_datagram L pdu amf i (0x7e # 0 # bs)" "i \<noteq> 0" "amf \<noteq> 0" "names L amf h"
    and d: "ogs_nas_5gmm_decode L (0x7e # 0 # bs) = Some (Authentication_response r)"
    and e: "ogs_nas_5gs_plain_encode L security_mode_command = Some new"
      "ogs_ngap_encode L (authentication_pdu amf i (protected_command L u new)) = Some out"
  shows "o_slack L 21 = 0 \<Longrightarrow> exec (process_message L (header @ pdu)) c = (Halted Undefined_behaviour, c)"
    and "0 < o_slack L 21 \<Longrightarrow> \<exists>c' w. exec (process_message L (header @ pdu)) c =
       (if o_null L P_ue_nas_sequence_number then Done ([Some (header @ [1] @ out)], w) else Halted Undefined_behaviour, c') \<and>
     ready c' \<and> store c' = set_user (store c) h (set_fld u F_epc_nas_sequence_number [downlink_count u + 1])"
proof -
  let ?p = "(new_params i (Some amf))\<lparr>nas_security_params := Some no_security, nas_message_type := 87\<rparr>"
  let ?w = "observe ''nas_message_type'' 87 (respond [R_nas security_mode_command] (uplink_start amf))"
  have p: "amf_ue_ngap_id ?p = Some amf" "nas_security_params ?p = Some no_security" by (simp_all add: new_params_def)
  have w: "w_responses ?w = [R_nas security_mode_command]" by (simp add: observe_def respond_def)
  note prog = uplink_program [OF pdu(1) hd] authentication_response_program [OF d]
    security_mode_command_encoding [OF p(2) e(1)] nas_message_to_bytes_def
  show "exec (process_message L (header @ pdu)) c = (Halted Undefined_behaviour, c)" if "o_slack L 21 = 0"
    using fetch_keys_down_overflow [OF L(1) that p(1) pdu(4)] w by (simp add: prog)
  assume "0 < o_slack L 21"
  from fetch_keys_down [OF L(1) this c u p(1) pdu(4) p(2)] obtain c' where
    f: "exec (nas_security_fetch_keys L ?p NAS_COUNTS_JUST_DL) c =
       (if o_null L P_ue_nas_sequence_number then Done (?p\<lparr>nas_security_params := Some (keyed L u no_security)\<rparr>)
        else Halted Undefined_behaviour, c')" "ready c'"
    "store c' = set_user (store c) h (set_fld u F_epc_nas_sequence_number [downlink_count u + 1])" by blast
  let ?q = "?p\<lparr>nas_security_params := Some (keyed L u no_security)\<rparr>"
  let ?m = "ogs_nas_mac_calculate L 2 (ogs_kdf_nas_5gs L 2 2 (stored_kamf u))
      (ogs_asn_OCTET_STRING_to_uint32 L [0, 0, 0, downlink_count u]) 1 1 (0 # new)"
  have k: "nas_security_params ?q = Some (keyed L u no_security)" "knas_int (keyed L u no_security) =
      Some (ogs_kdf_nas_5gs L 2 2 (stored_kamf u))"
    "dl_count (keyed L u no_security) = ogs_asn_OCTET_STRING_to_uint32 L [0, 0, 0, downlink_count u]"
    "rdn ?m 0 4 = Some (take 4 ?m)"
    using L(2) by (simp_all add: keyed_def mac_ok_def rdn_def)
  have a: "answer_uplink L ?q amf i (respond [R_pkbuf (protected_command L u new)] ?w) =
      Returns (respond [R_ngap (authentication_pdu amf i (protected_command L u new))] ?w)"
    using build_downlink [OF pdu(3,2)]
    by (simp add: answer_uplink_def answer_downlink_def single_pkbuf_def respond_def new_params_def)
  show "\<exists>c' w. exec (process_message L (header @ pdu)) c =
       (if o_null L P_ue_nas_sequence_number then Done ([Some (header @ [1] @ out)], w) else Halted Undefined_behaviour, c') \<and>
     ready c' \<and> store c' = set_user (store c) h (set_fld u F_epc_nas_sequence_number [downlink_count u + 1])"
  proof (cases "o_null L P_ue_nas_sequence_number")
    case True
    then have "exec (nas_message_to_bytes L ?p ?w) c = (Done (OK, ?q, respond [R_pkbuf (protected_command L u new)] ?w), c')"
      using f(1) k w by (simp add: prog(3,4) protected_command_def)
    with True f(2,3) a e(2) show ?thesis
      by (intro exI [of _ c']) (simp add: prog(1,2), simp add: respond_def observe_def uplink_start_def)
  next
    case False
    with f w show ?thesis by (intro exI [of _ c']) (simp add: prog)
  qed
qed

section \<open>Protected messages of the UE\<close>

text \<open>
  What becomes of a NAS message with a security header: a session management message is taken without a check; for a
  mobility management message the code is computed, and a difference is logged.
\<close>

lemma nas_bytes_protected:
  assumes t: "t \<in> {1, 2, 3, 4}" and mac: "length mac = 4"
  shows "nas_bytes_to_message L params (0x7e # t # mac @ s # e # bs) w =
     (if e = 0x2e then andthen (required (ogs_nas_5gsm_decode L (e # bs))) (\<lambda>m. Returns (OK, Some (Gsm m), params, w))
      else
        andthen (need_knas_int L NAS_COUNTS_BOTH_UL_DL params) (\<lambda>(k, sp, params).
        andthen (deref (rdn (ogs_nas_mac_calculate L 2 k (ul_count sp) 1 0 (s # e # bs)) 0 4)) (\<lambda>m.
        let w = (if m \<noteq> mac then ogs_warn ''NAS MAC verification failed'' w else w) in
        if e = 0x7e then andthen (required (ogs_nas_5gmm_decode L (e # bs))) (\<lambda>g. Returns (OK, Some (Gmm g), params, w))
        else Returns (ERROR, None, params, w))))"
proof -
  let ?d = "length (o_headroom L)" and ?pdu = "0x7e # t # mac @ s # e # bs"
  define mem where "mem = o_headroom L @ ?pdu"
  have "t \<noteq> 0" "\<exists>b. header_flags t = Some (True, b)" using t by auto
  then obtain b where flags: "t \<noteq> 0" "header_flags t = Some (True, b)" by blast
  have r: "rd mem ?d = Some 0x7e" "rd mem (?d + 1) = Some t" "rd mem (?d + 7) = Some e"
    using mac by (simp_all add: mem_def rd_def nth_append)
  have m: "rdn mem (?d + 2) 4 = Some mac" "rdn mem (?d + 6) (length bs + 2) = Some (s # e # bs)"
    "rdn mem (?d + 7) (length bs + 1) = Some (e # bs)"
    using mac by (simp_all add: mem_def rdn_def)
  let ?pk = "\<lparr>pk_mem = mem, pk_data = ?d + 7, pk_len = length bs + 1\<rparr>"
  have dec: "nas_5gs_security_decode L params (True, b) ?pk w =
     (if e = 0x2e then Returns (params, ?pk, w)
      else
        andthen (need_knas_int L NAS_COUNTS_BOTH_UL_DL params) (\<lambda>(k, sp, params).
        andthen (deref (rdn (ogs_nas_mac_calculate L 2 k (ul_count sp) 1 0 (s # e # bs)) 0 4)) (\<lambda>m.
        Returns (params, ?pk, if m \<noteq> mac then ogs_warn ''NAS MAC verification failed'' w else w))))"
    using r(3) m
    by (simp add: nas_5gs_security_decode_def ogs_pkbuf_pull_def ogs_pkbuf_push_def pk_bytes_def
        case_prod_unfold Let_def add.commute [of _ 7])
  have "nas_bytes_to_message L params ?pdu w =
      andthen (nas_5gs_security_decode L params (True, b) ?pk w) (\<lambda>(params, nasbuf, w).
      andthen (deref (rd (pk_mem nasbuf) (pk_data nasbuf))) (\<lambda>messageType.
      andthen (deref (pk_bytes nasbuf)) (\<lambda>bs.
      if messageType = 0x7e then andthen (required (ogs_nas_5gmm_decode L bs)) (\<lambda>m. Returns (OK, Some (Gmm m), params, w))
      else if messageType = 0x2e then andthen (required (ogs_nas_5gsm_decode L bs)) (\<lambda>m. Returns (OK, Some (Gsm m), params, w))
      else Returns (ERROR, None, params, w))))"
    using r(1,2) flags mac unfolding nas_bytes_to_message_def mem_def [symmetric]
    by (simp add: security_decode_gsm_def ogs_pkbuf_pull_def case_prod_unfold del: header_flags.simps cong: if_cong)
  then show ?thesis
    using r(3) m(3) unfolding dec by (simp add: pk_bytes_def case_prod_unfold Let_def cong: if_cong)
qed

end
