(* ===== verification/Worker.thy ===== *)
theory Worker
  imports Worker_Threads Worker_Security Examples
begin

text \<open>
  The properties of the worker, over every library whose results have the documented sizes and over every content of the memory
  that the code uses without having set it; the witnesses use a small library and a database with one subscriber.
\<close>

section \<open>A library and a subscriber\<close>

definition wk_user :: UserInfo where
  "wk_user = ex_imsi @ replicate 56 0 @ [0, 0, 0, 3] @ replicate 139 0"

definition wk_users :: "UserInfo hashmap" where
  "wk_users = \<lparr>initval = 0, hashmap_size = 1, hash_fn = hash_imsi_user_info, table = [[wk_user]]\<rparr>"

definition wk_db :: db where
  "wk_db = ex_db\<lparr>imsi_map := wk_users\<rparr>"

definition wk_conn :: conn where
  "wk_conn = \<lparr>c_db = wk_db, c_request = replicate 1024 0, c_response = replicate 1024 0, c_sends = (\<lambda>_. True), c_sent = []\<rparr>"

definition wk_ies :: "byte list \<Rightarrow> (criticality \<times> ngap_ie) list" where
  "wk_ies nas = [(Reject, Ie_RAN_UE_NGAP_ID 7), (Reject, Ie_AMF_UE_NGAP_ID 3), (Reject, Ie_NAS_PDU nas),
     (Ignore, Ie_UserLocationInformation True)]"

definition wk_ngap_decode :: "byte list \<Rightarrow> ngap_pdu option" where
  "wk_ngap_decode b =
     (if b = [1] then Some (Initiating_message InitialUEMessage Ignore (wk_ies [0x7e, 0, 65]))
      else if b = [2] then Some (Initiating_message UplinkNASTransport Ignore (wk_ies [0x7e, 0, 87]))
      else None)"

definition wk_gmm_decode :: "byte list \<Rightarrow> gmm_message option" where
  "wk_gmm_decode b =
     (if b = [0x7e, 0, 65] then Some (Registration_request [4, 4]) else Some (Authentication_response []))"

definition wk_lib :: ogs where
  "wk_lib =
    \<lparr>o_slack = (\<lambda>_. 8), o_null = (\<lambda>_. True), o_stack = replicate 16 0, o_behind_imsi = [0], o_headroom = [],
     ogs_asn_uint32_to_OCTET_STRING = UINT32_TO_ARRAY, ogs_asn_OCTET_STRING_to_uint32 = be32_of,
     ogs_buffer_to_uint64 = (\<lambda>_. 0), ogs_uint64_to_buffer = (\<lambda>_. replicate 6 0),
     ogs_nas_5gs_imsi_to_bcd = (\<lambda>_. ex_imsi), ogs_nas_imeisv_to_buffer = (\<lambda>_. replicate 8 0),
     ogs_plmn_id_build = (\<lambda>_ _ _. [2, 0xf8, 0x39]), ogs_serving_network_name_from_plmn_id = (\<lambda>_. []),
     ogs_nas_5gs_suci_from_mobile_identity = id, ogs_supi_from_suci = id,
     milenage_generate = (\<lambda>opc amf k sqn rand. (replicate 16 5, replicate 16 6, replicate 16 7, replicate 8 8)),
     ogs_auc_sqn = (\<lambda>_ _ _ _. replicate 6 0), ogs_kdf_kausf = (\<lambda>_ _ _ _. replicate 32 0),
     ogs_kdf_kseaf = (\<lambda>_ _. replicate 32 0), ogs_kdf_kamf = (\<lambda>_ _ _. replicate 32 9),
     ogs_kdf_nas_5gs = (\<lambda>_ _ _. replicate 16 0), ogs_kdf_kgnb_and_kn3iwf = (\<lambda>_ _ _. replicate 32 0),
     ogs_nas_mac_calculate = (\<lambda>_ _ _ _ _ _. [1, 2, 3, 4]), ogs_nas_encrypt = (\<lambda>_ _ _ _ _ m. m),
     ogs_nas_5gmm_decode = wk_gmm_decode, ogs_nas_5gsm_decode = (\<lambda>_. None),
     ogs_nas_5gs_plain_encode = (\<lambda>_. Some [0x7e]), ogs_ngap_decode = wk_ngap_decode, ogs_ngap_encode = (\<lambda>_. Some [9, 9]),
     ogs_asn_encode_request_transfer = (\<lambda>_. None), ogs_asn_decode_response_transfer = (\<lambda>_. None),
     ogs_asn_BIT_STRING_to_ip = (\<lambda>_. (False, 0))\<rparr>"

lemma length_wk_user [simp]: "length wk_user = user_info_size"
  by (simp add: wk_user_def ex_imsi_def layout_simps)

lemma wf_wk_user [simp]: "wf_user wk_user"
  by (simp add: wf_user_def fld_def layout_simps) (simp add: wk_user_def ex_imsi_def)

lemma hash_wk_user [simp]: "hash_imsi_user_info wk_user = 3"
  by (simp add: hash_imsi_user_info_def wk_user_def)

lemma get_wk_users: "hashmap_get wk_users h = Some (if h = 3 then Some wk_user else None)"
  by (simp add: hashmap_get_def bucket_index_def) (simp add: wk_users_def)

lemma wf_wk_db [simp]: "wf_db wk_db"
proof -
  have "wf_hashmap wk_users" by (simp add: wf_hashmap_def) (simp add: wk_users_def bucket_index_def)
  moreover have "hash_fn wk_users = hash_imsi_user_info" by (simp add: wk_users_def)
  ultimately show ?thesis using wf_ex_db by (simp add: wf_db_def wk_db_def get_wk_users)
qed

lemma wk_ready [simp]: "ready wk_conn"
  using alloc_ex_db by (simp add: ready_def wk_conn_def alloc_ok_def) (simp add: wk_db_def)

lemma users_wk [simp]: "users (store wk_conn) h = (if h = 3 then Some wk_user else None)"
  by (simp add: abs_db_def wk_conn_def wk_db_def get_wk_users)

lemma wk_library_ok [simp]: "library_ok wk_lib" "mac_ok wk_lib"
  by (simp_all add: library_ok_def mac_ok_def) (simp_all add: wk_lib_def)

lemma wk_memory [simp]: "o_slack wk_lib n = 8" "o_null wk_lib f" "o_behind_imsi wk_lib = [0]" "o_stack wk_lib = replicate 16 0"
  by (simp_all add: wk_lib_def)

lemma wk_imsi [simp]: "imsi_of wk_lib [4, 4] 3"
  using hash_ex_imsi [of "[]"] by (simp add: imsi_of_def Let_def) (simp add: wk_lib_def ex_imsi_def)

lemma wk_amf_id [simp]: "amf_id wk_lib wk_user = 3"
  by (simp add: amf_id_def fld_def layout_simps) (simp add: wk_lib_def wk_user_def ex_imsi_def be32_of_def be32_def)

lemma wk_names [simp]: "names wk_lib 3 3"
  by (simp add: names_def hash_mme_ue_s1ap_id_def) (simp add: wk_lib_def UINT32_TO_ARRAY_def pad16_def ARRAY_TO_UINT32_def be32_def rd_def)

lemma wk_last_ie [simp]:
  "last_ie ran_of (wk_ies nas) = Some 7" "last_ie amf_of (wk_ies nas) = Some 3"
  "last_ie location_of (wk_ies nas) = Some True" "last_ie nas_of (wk_ies nas) = Some nas"
  by (simp_all add: last_ie_def wk_ies_def)

lemma wk_registration [simp]: "registration_datagram wk_lib [1] 7 [4, 4]"
  unfolding registration_datagram_def
  by (intro exI [of _ Ignore] exI [of _ "wk_ies [0x7e, 0, 65]"] exI [of _ "[65]"])
    (simp add: wk_lib_def wk_ngap_decode_def wk_gmm_decode_def)

lemma wk_uplink [simp]: "uplink_datagram wk_lib [2] 3 7 [0x7e, 0, 87]"
  unfolding uplink_datagram_def
  by (intro exI [of _ Ignore] exI [of _ "wk_ies [0x7e, 0, 87]"]) (simp add: wk_lib_def wk_ngap_decode_def)

lemma wk_keys [simp]: "registration_keys wk_lib wk_user [4, 4] = Returns (replicate 16 5, replicate 32 9)"
  by (simp add: registration_keys_def nas_5gs_generate_keys_def) (simp add: wk_lib_def)

lemma wk_encoders [simp]: "ogs_nas_5gs_plain_encode wk_lib n = Some [0x7e]" "ogs_ngap_encode wk_lib p = Some [9, 9]"
  by (simp_all add: wk_lib_def)

lemma wk_unset [simp]:
  "library_ok (L\<lparr>o_behind_imsi := b\<rparr>) = library_ok L" "amf_id (L\<lparr>o_behind_imsi := b\<rparr>) u = amf_id L u"
  "registration_datagram (L\<lparr>o_behind_imsi := b\<rparr>) = registration_datagram L" "imsi_of (L\<lparr>o_behind_imsi := b\<rparr>) = imsi_of L"
  "registration_keys (L\<lparr>o_behind_imsi := b\<rparr>) = registration_keys L"
  by (simp_all add: fun_eq_iff library_ok_def amf_id_def registration_datagram_def imsi_of_def registration_keys_def
      nas_5gs_generate_keys_def)

lemma wk_registered:
  assumes "length header = 4"
  shows "\<exists>c' w. exec (process_message wk_lib (header @ [1])) wk_conn = (Done ([Some (header @ [1] @ [9, 9])], w), c') \<and> ready c'"
  using registration_processed(3) [of wk_lib wk_conn 3 wk_user header "[1]" 7 "[4, 4]" "replicate 16 5" "replicate 32 9"
      "[0x7e]" "[9, 9]"] assms by auto

section \<open>Accesses to the database\<close>

text \<open>
  C19.  An access of the worker.  The end mark of the request is written behind the block that \<open>ogs_calloc\<close> returned.  When that
  byte belongs to the block's slack, then for a known subscriber, pushed values and items of the record or counters,
  \<open>db_access\<close> returns, the database holds the record with the values pushed and the counters advanced, nothing else changes
  there, and every pulled item is found behind its pointer as it was when it was read.  When there is no slack the behaviour
  is undefined before anything is sent, for every database.
\<close>

theorem worker_access_correct:
  assumes "access_ok it v xs its"
  shows "if o_slack L (db_buffer_input_size (length xs) (length its)) = 0
    then \<forall>c. exec (db_access L it v (length xs) (length its) (concat (map (\<lambda>(it, v). push_arg it v) xs) @ map item_arg its)) c =
      (Halted Undefined_behaviour, c)
    else \<forall>c h u. ready c \<longrightarrow> users (store c) h = Some u \<longrightarrow> ident_key it (pad16 (id_len it) v) = Some h \<longrightarrow>
      its \<noteq> [] \<longrightarrow> distinct its \<longrightarrow> list_all plain_pull its \<longrightarrow> length its \<le> 20 \<longrightarrow> length xs \<le> 20 \<longrightarrow>
      (\<exists>c' head P.
         exec (db_access L it v (length xs) (length its) (concat (map (\<lambda>(it, v). push_arg it v) xs) @ map item_arg its)) c =
           (Done (head, P), c') \<and>
         ready c' \<and>
         store c' = (store c)\<lparr>users := (users (store c))(h \<mapsto> after_pulls (after_pushes u xs) its)\<rparr> \<and>
         (\<forall>k f. k < length its \<longrightarrow> pfield_of (its ! k) = Some f \<longrightarrow>
            pulled head (P f) 0 (length (answer_at (after_pushes u xs) its k)) = Some (answer_at (after_pushes u xs) its k)))"
proof (cases "o_slack L (db_buffer_input_size (length xs) (length its)) = 0")
  case True
  then show ?thesis using db_access_overflow [OF assms True] by simp
next
  case False
  have "\<exists>c' head P. exec (db_access L it v (length xs) (length its) (access_args xs its)) c = (Done (head, P), c') \<and> ready c' \<and>
      store c' = (store c)\<lparr>users := (users (store c))(h \<mapsto> after_pulls (after_pushes u xs) its)\<rparr> \<and>
      (\<forall>k f. k < length its \<longrightarrow> pfield_of (its ! k) = Some f \<longrightarrow>
         pulled head (P f) 0 (length (answer_at (after_pushes u xs) its k)) = Some (answer_at (after_pushes u xs) its k))"
    if "ready c" "users (store c) h = Some u" "ident_key it (pad16 (id_len it) v) = Some h"
      "its \<noteq> []" "distinct its" "list_all plain_pull its" "length its \<le> 20" "length xs \<le> 20" for c h u
    using db_access_pulled [OF that(1,2) assms that(3-8) _ refl refl refl, of L] False by force
  with False show ?thesis by simp
qed

theorem worker_access_correct_witness:
  "(\<exists>c' head P. exec (db_access wk_lib MME_UE_S1AP_ID [0, 0, 0, 3] 1 2
       (push_arg ENB_IP [10, 0, 0, 1] @ [item_arg KEY, item_arg EPC_NAS_SEQUENCE_NUMBER])) wk_conn = (Done (head, P), c') \<and>
     ready c' \<and> pulled head (P P_key) 0 16 = Some (fld wk_user F_key)) \<and>
   exec (db_access (wk_lib\<lparr>o_slack := \<lambda>_. 0\<rparr>) MME_UE_S1AP_ID [0, 0, 0, 3] 1 2
       (push_arg ENB_IP [10, 0, 0, 1] @ [item_arg KEY, item_arg EPC_NAS_SEQUENCE_NUMBER])) wk_conn =
     (Halted Undefined_behaviour, wk_conn)"
proof -
  let ?xs = "[(ENB_IP, [10, 0, 0, 1 :: byte])]" and ?its = "[KEY, EPC_NAS_SEQUENCE_NUMBER]"
  have ok: "access_ok MME_UE_S1AP_ID [0, 0, 0, 3] ?xs ?its" by (simp add: access_ok_def lib_id_ok_def lib_push_ok_def)
  have l: "length ?xs = 1" "length ?its = 2"
    "concat (map (\<lambda>(it, v). push_arg it v) ?xs) @ map item_arg ?its =
       push_arg ENB_IP [10, 0, 0, 1] @ [item_arg KEY, item_arg EPC_NAS_SEQUENCE_NUMBER]" by simp_all
  note w = worker_access_correct [OF ok, unfolded l]
  have "ident_key MME_UE_S1AP_ID (pad16 (id_len MME_UE_S1AP_ID) [0, 0, 0, 3]) = Some 3"
    by (simp add: pad16_def hash_mme_ue_s1ap_id_def ARRAY_TO_UINT32_def rd_def be32_def)
  moreover have "list_all plain_pull ?its" by (simp add: plain_pull_def)
  ultimately obtain c' head P where x: "exec (db_access wk_lib MME_UE_S1AP_ID [0, 0, 0, 3] 1 2
       (push_arg ENB_IP [10, 0, 0, 1] @ [item_arg KEY, item_arg EPC_NAS_SEQUENCE_NUMBER])) wk_conn = (Done (head, P), c')" "ready c'"
    and p: "\<forall>k f. k < 2 \<longrightarrow> pfield_of (?its ! k) = Some f \<longrightarrow> pulled head (P f) 0
      (length (answer_at (after_pushes wk_user ?xs) ?its k)) = Some (answer_at (after_pushes wk_user ?xs) ?its k)"
    using w [of wk_lib, simplified, rule_format, OF wk_ready, of 3 wk_user] by auto
  have "answer_at (after_pushes wk_user ?xs) ?its 0 = fld (after_pushes wk_user ?xs) F_key"
    by (simp add: answer_at_def user_answer_def after_pulls_def fld_def)
  moreover have "fld (after_pushes wk_user ?xs) F_key = fld wk_user F_key" "length (fld wk_user F_key) = 16"
    using length_fld [OF length_wk_user, of F_key]
    by (simp_all add: after_pushes_simps apply_push_fld pad16_def pushed_value_def)
  ultimately have "pulled head (P P_key) 0 16 = Some (fld wk_user F_key)" using p [rule_format, of 0 P_key] by simp
  with x w [of "wk_lib\<lparr>o_slack := \<lambda>_. 0\<rparr>"] show ?thesis by auto
qed

section \<open>Messages of the UE\<close>

text \<open>
  C9.  A Registration Request is handled from the datagram to the answer.  The IMSI of 15 digits and its terminating zero
  overflow the array \<open>imsi\<close> by one byte, and both accesses write one byte behind their block.  Where these bytes belong to no other
  object, the worker sends for a subscriber of the database exactly one datagram, with the header of the request and
  stream 1, that carries an Authentication Request with the subscriber's RAND and the AUTN computed from its key; the
  database then holds the RAN's identifier, the identity of the UE, the new key \<open>K_AMF\<close> in two halves and both NAS counts 0,
  every other member of the record is as before, and no other subscriber changes.  Where the array or the block of the
  first access leaves no room, the behaviour is undefined and the database has not been asked; where only the block of the
  second access leaves none, it is undefined once the two identifiers are stored and nothing else.
\<close>

theorem registration_request_handled:
  assumes "library_ok L" and "ready c" and "users (store c) h = Some u"
    and "length header = 4" and "registration_datagram L pdu i ident" and "i \<noteq> 0" and "amf_id L u \<noteq> 0"
    and "imsi_of L ident h" and "registration_keys L u ident = Returns (autn, k)"
    and "ogs_nas_5gs_plain_encode L (nas_build_authentication_request (fld u F_rand) autn) = Some nas"
    and "ogs_ngap_encode L (authentication_pdu (amf_id L u) i nas) = Some out"
  shows "if o_behind_imsi L = [] \<or> o_slack L 56 = 0
    then exec (process_message L (header @ pdu)) c = (Halted Undefined_behaviour, c)
    else \<exists>c' u'. ready c' \<and> store c' = (store c)\<lparr>users := (users (store c))(h \<mapsto> u')\<rparr> \<and>
      fld u' F_enb_ue_s1ap_id = ogs_asn_uint32_to_OCTET_STRING L (ucast i) \<and>
      take (length ident) (drop 2 (fld u' F_knh1)) = ident \<and>
      (\<forall>f. f \<notin> {F_enb_ue_s1ap_id, F_knh1, F_kasme1, F_kasme2, F_epc_nas_sequence_number, F_ue_nas_sequence_number} \<longrightarrow>
         fld u' f = fld u f) \<and>
      (if o_slack L 87 = 0
       then exec (process_message L (header @ pdu)) c = (Halted Undefined_behaviour, c') \<and>
         (\<forall>f. f \<notin> {F_enb_ue_s1ap_id, F_knh1} \<longrightarrow> fld u' f = fld u f)
       else \<exists>w. exec (process_message L (header @ pdu)) c = (Done ([Some (header @ [1] @ out)], w), c') \<and>
         fld u' F_kasme1 @ fld u' F_kasme2 = k \<and>
         fld u' F_epc_nas_sequence_number = [0] \<and> fld u' F_ue_nas_sequence_number = [0])"
proof -
  have id: "length ident \<le> 14" using assms(8) by (simp add: imsi_of_def Let_def)
  note lu = length_user [OF assms(2,3)]
  note g = identified_fld(2) [OF assms(1) lu id, of i]
  note f = registered_fld [OF assms(1) lu registration_keys_length [OF assms(1,9)] id, of i]
  have fr: "\<forall>f. f \<notin> {F_enb_ue_s1ap_id, F_knh1} \<longrightarrow> fld (identified L i ident u) f = fld u f"
    "\<forall>f. f \<notin> {F_enb_ue_s1ap_id, F_knh1, F_kasme1, F_kasme2, F_epc_nas_sequence_number, F_ue_nas_sequence_number} \<longrightarrow>
      fld (registered L i ident k u) f = fld u f" by (auto simp: f g split: ufield.split)
  note p = registration_processed [OF assms]
  consider "o_behind_imsi L = [] \<or> o_slack L 56 = 0" | "o_behind_imsi L \<noteq> []" "0 < o_slack L 56" "o_slack L 87 = 0"
    | "o_behind_imsi L \<noteq> []" "0 < o_slack L 56" "0 < o_slack L 87" by auto
  then show ?thesis
  proof cases
    case 1
    with p(1) show ?thesis by simp
  next
    case 2
    from p(2) [OF 2] obtain c' where "exec (process_message L (header @ pdu)) c = (Halted Undefined_behaviour, c')" "ready c'"
      "store c' = set_user (store c) h (identified L i ident u)" by blast
    moreover have "\<not> (o_behind_imsi L = [] \<or> o_slack L 56 = 0)" using 2 by simp
    ultimately show ?thesis
      using 2(3) fr(1) unfolding if_not_P [OF \<open>\<not> (o_behind_imsi L = [] \<or> o_slack L 56 = 0)\<close>]
      by (intro exI [of _ c'] exI [of _ "identified L i ident u"]) (simp add: g(1) set_user_def)
  next
    case 3
    from p(3) [OF 3] obtain c' w where
      "exec (process_message L (header @ pdu)) c = (Done ([Some (header @ [1] @ out)], w), c')" "ready c'"
      "store c' = set_user (store c) h (registered L i ident k u)" by blast
    moreover have "\<not> (o_behind_imsi L = [] \<or> o_slack L 56 = 0)" using 3 by simp
    ultimately show ?thesis
      using 3(3) fr(2) unfolding if_not_P [OF \<open>\<not> (o_behind_imsi L = [] \<or> o_slack L 56 = 0)\<close>]
      by (intro exI [of _ c'] exI [of _ "registered L i ident k u"]) (simp add: f set_user_def)
  qed
qed

theorem registration_request_handled_witness:
  "(\<exists>c' w u'. exec (process_message wk_lib ([0, 0, 0, 5] @ [1])) wk_conn = (Done ([Some ([0, 0, 0, 5] @ [1] @ [9, 9])], w), c') \<and>
     ready c' \<and> users (store c') 3 = Some u' \<and> fld u' F_kasme1 @ fld u' F_kasme2 = replicate 32 9) \<and>
   exec (process_message (wk_lib\<lparr>o_behind_imsi := []\<rparr>) ([0, 0, 0, 5] @ [1])) wk_conn = (Halted Undefined_behaviour, wk_conn)"
proof -
  let ?L = "wk_lib\<lparr>o_behind_imsi := []\<rparr>"
  have "\<exists>c' u'. ready c' \<and> store c' = (store wk_conn)\<lparr>users := (users (store wk_conn))(3 \<mapsto> u')\<rparr> \<and>
      (\<exists>w. exec (process_message wk_lib ([0, 0, 0, 5] @ [1])) wk_conn = (Done ([Some ([0, 0, 0, 5] @ [1] @ [9, 9])], w), c') \<and>
         fld u' F_kasme1 @ fld u' F_kasme2 = replicate 32 9)"
    using registration_request_handled [of wk_lib wk_conn 3 wk_user "[0, 0, 0, 5]" "[1]" 7 "[4, 4]" "replicate 16 5"
      "replicate 32 9" "[0x7e]" "[9, 9]"] by auto
  moreover have "exec (process_message ?L ([0, 0, 0, 5] @ [1])) wk_conn = (Halted Undefined_behaviour, wk_conn)"
    using registration_request_handled [of ?L wk_conn 3 wk_user "[0, 0, 0, 5]" "[1]" 7 "[4, 4]" "replicate 16 5"
      "replicate 32 9" "[0x7e]" "[9, 9]"] by simp
  ultimately show ?thesis by fastforce
qed

text \<open>
  C11.  A Registration Request of a UE that the database does not know stops the worker: the database answers with one
  byte, the worker asserts 17 bytes per item, and the failed assertion ends the process.  (Without room for the overflows of
  C9 the behaviour is undefined before; a request whose bytes make the server read on as if another request followed can stop
  the server.)  In the listener without threads, that is how the loop ends, with what was sent before.  In the listener with
  a thread per datagram, the thread of this message can end the process from every state in which it waits, whatever the other
  threads are doing, and in every run, whatever the order of the threads, it stays at its first access as long as the
  process lives: it is never answered.
\<close>

theorem unknown_ue_stops_worker:
  assumes "library_ok L" and "ready c" and "users (store c) h = None"
    and "length header = 4" and "registration_datagram L pdu i ident" and "imsi_of L ident h"
  shows "(\<exists>c'. start_listener L c sent ((header @ pdu) # ds) = (Ended (unknown_stop L c i ident), c', sent)) \<and>
    (\<forall>s t. (listener_step L)\<^sup>*\<^sup>* (listening_on c) s \<longrightarrow> l_end s = None \<longrightarrow> t < length (l_threads s) \<longrightarrow>
       l_threads s ! t = Handling (process_message L (header @ pdu)) \<longrightarrow>
       (\<exists>s'. (listener_step L)\<^sup>*\<^sup>* s s' \<and> l_end s' = Some (unknown_stop L (l_conn s) i ident) \<and> l_sent s' = l_sent s) \<and>
       (\<forall>s'. (listener_step L)\<^sup>*\<^sup>* s s' \<longrightarrow> l_end s' = None \<longrightarrow>
          t < length (l_threads s') \<and> l_threads s' ! t = Handling (process_message L (header @ pdu))))"
proof (intro conjI allI impI)
  let ?d = "header @ pdu"
  have "receive ?d = Handles ?d" using assms(4) by (auto simp: receive_def)
  with registration_unknown_processed [OF assms]
  show "\<exists>c'. start_listener L c sent (?d # ds) = (Ended (unknown_stop L c i ident), c', sent)" by auto
  fix s t assume s: "(listener_step L)\<^sup>*\<^sup>* (listening_on c) s" "l_end s = None"
    and t: "t < length (l_threads s)" "l_threads s ! t = Handling (process_message L ?d)"
  have inv: "listener_inv c s" using listener_inv_reachable [OF s(1) assms(2)] .
  have unknown: "users (store c1) h = None" if "dom (users (store c1)) = dom (users (store c))" for c1
    using that assms(3) by (metis domIff)
  have r: "ready (l_conn s)" "\<not> l_locked s" "users (store (l_conn s)) h = None"
    using inv s(2) unknown by (auto simp: listener_inv_def guards_def)
  from registration_unknown_processed [OF assms(1) r(1,3) assms(4-6)] obtain c' where
    x: "exec (process_message L ?d) (l_conn s) = (Halted (unknown_stop L (l_conn s) i ident), c')" by blast
  have "unknown_stop L (l_conn s) i ident \<noteq> Blocked" by (simp add: unknown_stop_def)
  moreover have "thread_at s t (Handling (process_message L ?d)) (l_conn s) = s" 
    using t(2) list_update_id [of "l_threads s" t] by simp
  ultimately show "\<exists>s'. (listener_step L)\<^sup>*\<^sup>* s s' \<and> l_end s' = Some (unknown_stop L (l_conn s) i ident) \<and> l_sent s' = l_sent s"
    using thread_alone(2) [OF s(2) r(2) t(1) x, of L] by auto
  have "fails_with c (process_message L ?d)"
  proof (cases "o_behind_imsi L = [] \<or> o_slack L 56 = 0")
    case True
    with registration_request_overflow [OF assms(1,6)] show ?thesis
      by (simp add: registration_program [OF assms(5,4)] fails_with_def)
  next
    case False
    with registration_waits [OF assms(1,6,4,5)] registration_lookup_unknown [OF assms(1) _ unknown assms(6)] show ?thesis
      unfolding fails_with_def by fastforce
  qed
  from thread_stuck [OF _ inv this t] show "t < length (l_threads s')" "l_threads s' ! t = Handling (process_message L ?d)"
    if "(listener_step L)\<^sup>*\<^sup>* s s'" "l_end s' = None" for s' using that by blast+
qed

abbreviation wk_request :: request where
  "wk_request \<equiv> access_request IMSI (imsi_array wk_lib [4, 4]) (identities wk_lib 7 [4, 4]) [MME_UE_S1AP_ID, RAND, KEY, OPC]"

lemma wk_lookup: "item_code EOM \<notin> set (tl (body wk_request))" "length (body wk_request) \<le> 1024" "length (rq_val wk_request) = 16"
    "request_user wk_request = Some 3"
  by (simp_all add: body_def access_request_def imsi_array_def identities_def pad16_def request_user_def wk_lib_def ex_imsi_def UINT32_TO_ARRAY_def
      hash_imsi_def atoi_def atoi_signed_def isdigit_def isspace_def)

definition wk_empty :: conn where
  "wk_empty = wk_conn\<lparr>c_db := ex_db\<lparr>imsi_map := ex_users\<lparr>table := [[]]\<rparr>\<rparr>\<rparr>"

lemma wk_empty_ready [simp]: "ready wk_empty" "users (store wk_empty) h = None"
proof -
  let ?t = "ex_users\<lparr>table := [[]]\<rparr>"
  have g: "hashmap_get ?t h = Some None" for h by (simp add: hashmap_get_def bucket_index_def) (simp add: ex_users_def)
  have "wf_hashmap ?t" by (simp add: wf_hashmap_def) (simp add: ex_users_def bucket_index_def)
  then have "wf_db (ex_db\<lparr>imsi_map := ?t\<rparr>)" using wf_ex_db g by (simp add: wf_db_def) (simp add: ex_users_def)
  then show "ready wk_empty" using wk_ready alloc_ex_db by (simp add: ready_def alloc_ok_def wk_empty_def)
  show "users (store wk_empty) h = None" using g by (simp add: abs_db_def wk_empty_def)
qed

lemma wk_unknown_stop: "unknown_stop wk_lib wk_empty 7 [4, 4] = Assertion_failed"
  using db_exchange_unknown_plain [OF wk_empty_ready(1) wk_empty_ready(2) wk_lookup(4,3) _ wk_lookup(1,2), of 68]
  by (simp add: unknown_stop_def registration_lookup_def)

theorem unknown_ue_stops_worker_witness:
  "(\<exists>c'. start_listener wk_lib wk_empty [] [[0, 0, 0, 5] @ [1], [7]] = (Ended Assertion_failed, c', [])) \<and>
   (\<exists>s s'. (listener_step wk_lib)\<^sup>*\<^sup>* (listening_on wk_empty) s \<and> length (l_threads s) = 2 \<and> l_end s = None \<and>
      (listener_step wk_lib)\<^sup>*\<^sup>* s s' \<and> l_end s' = Some Assertion_failed)"
proof -
  let ?d = "[0, 0, 0, 5] @ [1 :: byte]" and ?e = "[0, 0, 0, 6, 9 :: byte]"
  let ?s1 = "(listening_on wk_empty)\<lparr>l_threads := [Handling (process_message wk_lib ?d)]\<rparr>"
  let ?s2 = "?s1\<lparr>l_threads := [Handling (process_message wk_lib ?d), Handling (process_message wk_lib ?e)]\<rparr>"
  have "listener_step wk_lib (listening_on wk_empty) ?s1"
    using listener_step.received [of "listening_on wk_empty" ?d wk_lib] by (simp add: listening_on_def receive_def)
  moreover have "listener_step wk_lib ?s1 ?s2"
    using listener_step.received [of ?s1 ?e wk_lib] by (simp add: listening_on_def receive_def)
  ultimately have r: "(listener_step wk_lib)\<^sup>*\<^sup>* (listening_on wk_empty) ?s2"
    by (meson converse_rtranclp_into_rtranclp rtranclp.rtrancl_refl)
  have e: "l_end ?s2 = None" "0 < length (l_threads ?s2)" "l_threads ?s2 ! 0 = Handling (process_message wk_lib ?d)"
    "l_conn ?s2 = wk_empty" by (simp_all add: listening_on_def)
  have "l_end ?s2 = None" "0 < length (l_threads ?s2)" "l_threads ?s2 ! 0 = Handling (process_message wk_lib ?d)"
    "unknown_stop wk_lib (l_conn ?s2) 7 [4, 4] = Assertion_failed" "length (l_threads ?s2) = 2"
    by (simp_all add: listening_on_def wk_unknown_stop)
  moreover from unknown_ue_stops_worker [of wk_lib wk_empty 3 "[0, 0, 0, 5]" "[1]" 7 "[4, 4]" "[]" "[[7]]"]
  have "\<exists>c'. start_listener wk_lib wk_empty [] [?d, [7]] = (Ended Assertion_failed, c', [])"
    and "\<forall>s t. (listener_step wk_lib)\<^sup>*\<^sup>* (listening_on wk_empty) s \<longrightarrow> l_end s = None \<longrightarrow> t < length (l_threads s) \<longrightarrow>
       l_threads s ! t = Handling (process_message wk_lib ?d) \<longrightarrow>
       (\<exists>s'. (listener_step wk_lib)\<^sup>*\<^sup>* s s' \<and> l_end s' = Some (unknown_stop wk_lib (l_conn s) 7 [4, 4]) \<and> l_sent s' = l_sent s)"
    by (simp_all add: wk_unknown_stop)
  ultimately show ?thesis using r by metis
qed

text \<open>
  C30.  An Authentication Response is accepted whatever it holds.  For every response parameter the worker answers with
  the Security Mode Command, protected under the key that the Registration Request stored; the response is not compared
  with an expected one.  The sequence number of the command is 0, while its code is computed with the count of the
  database, which is advanced by one.  That is so when the block of the request has a byte of slack and the pointer to the
  uplink count, which the access leaves unset, happens to be NULL.  Without the slack the behaviour is undefined before
  anything is asked; with another pointer it is undefined after the count has been advanced.
\<close>

theorem any_authentication_response_accepted:
  assumes "library_ok L" and "mac_ok L"
    and "ready c" and "users (store c) h = Some u"
    and "length header = 4" and "uplink_datagram L pdu amf i (0x7e # 0 # bs)" and "i \<noteq> 0" and "amf \<noteq> 0" and "names L amf h"
    and "ogs_nas_5gmm_decode L (0x7e # 0 # bs) = Some (Authentication_response r)"
    and "ogs_nas_5gs_plain_encode L security_mode_command = Some new"
    and "ogs_ngap_encode L (authentication_pdu amf i (protected_command L u new)) = Some out"
  shows "if o_slack L 21 = 0 then exec (process_message L (header @ pdu)) c = (Halted Undefined_behaviour, c)
    else \<exists>c' w. exec (process_message L (header @ pdu)) c =
        (if o_null L P_ue_nas_sequence_number then Done ([Some (header @ [1] @ out)], w) else Halted Undefined_behaviour, c') \<and>
      ready c' \<and>
      store c' = (store c)\<lparr>users := (users (store c))(h \<mapsto> set_fld u F_epc_nas_sequence_number [downlink_count u + 1])\<rparr>"
  using authentication_response_processed [OF assms] by (simp add: set_user_def)

theorem any_authentication_response_accepted_witness:
  "\<exists>c' w. exec (process_message wk_lib ([0, 0, 0, 5] @ [2])) wk_conn = (Done ([Some ([0, 0, 0, 5] @ [1] @ [9, 9])], w), c') \<and> ready c'"
  using any_authentication_response_accepted [of wk_lib wk_conn 3 wk_user "[0, 0, 0, 5]" "[2]" 3 7 "[87]" "[]" "[0x7e]" "[9, 9]"]
  by (force simp: wk_lib_def [THEN arg_cong, of ogs_nas_5gmm_decode] wk_gmm_decode_def)

text \<open>
  C40.  The integrity of a protected message is not enforced.  Two messages that differ only in their message
  authentication code are the same program up to the warnings: the same requests to the database whatever it answers, and
  the same message and keys in the end.  In particular a message whose code is wrong is decoded and handed to the handlers like
  one whose code is right, with the keys that the database has for the subscriber; the only difference is a line in the log.
\<close>

theorem uplink_code_not_enforced:
  assumes "t \<in> {1, 2, 3, 4}" and "length mac = 4" and "length mac' = 4"
  shows "andthen (nas_bytes_to_message L params (0x7e # t # mac @ s # e # bs) w)
        (\<lambda>(st, m, params, w). Returns (st, m, params, w\<lparr>w_warnings := []\<rparr>)) =
      andthen (nas_bytes_to_message L params (0x7e # t # mac' @ s # e # bs) w)
        (\<lambda>(st, m, params, w). Returns (st, m, params, w\<lparr>w_warnings := []\<rparr>)) \<and>
    (library_ok L \<longrightarrow> mac_ok L \<longrightarrow> 0 < o_slack L 22 \<longrightarrow> ready c \<longrightarrow> users (store c) h = Some u \<longrightarrow>
      amf_ue_ngap_id params = Some amf \<longrightarrow> names L amf h \<longrightarrow>
      nas_security_params params = Some sp \<longrightarrow> knas_int sp = None \<longrightarrow> e = 0x7e \<longrightarrow> ogs_nas_5gmm_decode L (e # bs) = Some g \<longrightarrow>
      (\<exists>c' params'. exec (nas_bytes_to_message L params (0x7e # t # mac @ s # e # bs) w) c =
        (Done (OK, Some (Gmm g), params',
          if take 4 (ogs_nas_mac_calculate L 2 (ogs_kdf_nas_5gs L 2 2 (stored_kamf u))
               (ogs_asn_OCTET_STRING_to_uint32 L [0, 0, 0, 0]) 1 0 (s # e # bs)) = mac then w
          else ogs_warn ''NAS MAC verification failed'' w), c') \<and> ready c'))"
proof (intro conjI impI)
  have f: "(if b then ogs_warn x w else w)\<lparr>w_warnings := []\<rparr> = w\<lparr>w_warnings := []\<rparr>" for b x w by (simp add: ogs_warn_def)
  show "andthen (nas_bytes_to_message L params (0x7e # t # mac @ s # e # bs) w)
        (\<lambda>(st, m, params, w). Returns (st, m, params, w\<lparr>w_warnings := []\<rparr>)) =
      andthen (nas_bytes_to_message L params (0x7e # t # mac' @ s # e # bs) w)
        (\<lambda>(st, m, params, w). Returns (st, m, params, w\<lparr>w_warnings := []\<rparr>))"
    unfolding nas_bytes_protected [OF assms(1,2)] nas_bytes_protected [OF assms(1,3)]
    by (simp add: f Let_def case_prod_unfold if_distrib [where f = "\<lambda>m. andthen m k" for k] cong: if_cong)
  assume L: "library_ok L" "mac_ok L" "0 < o_slack L 22" and c: "ready c" "users (store c) h = Some u"
    and i: "amf_ue_ngap_id params = Some amf" "names L amf h" "nas_security_params params = Some sp" "knas_int sp = None"
    and g: "e = 0x7e" "ogs_nas_5gmm_decode L (e # bs) = Some g"
  show "\<exists>c' params'. exec (nas_bytes_to_message L params (0x7e # t # mac @ s # e # bs) w) c =
        (Done (OK, Some (Gmm g), params',
          if take 4 (ogs_nas_mac_calculate L 2 (ogs_kdf_nas_5gs L 2 2 (stored_kamf u))
               (ogs_asn_OCTET_STRING_to_uint32 L [0, 0, 0, 0]) 1 0 (s # e # bs)) = mac then w
          else ogs_warn ''NAS MAC verification failed'' w), c') \<and> ready c'"
    using fetch_keys_both [OF L(1,3) c i(1-3)] i(3,4) g L(2)
    by (auto simp: nas_bytes_protected [OF assms(1,2)] need_knas_int_def keyed_def rdn_def mac_ok_def Let_def)
qed

theorem uplink_code_not_enforced_witness:
  "\<exists>c' p. let params = (new_params 7 (Some 3))\<lparr>nas_security_params := Some no_security\<rparr> in
    exec (nas_bytes_to_message wk_lib params (0x7e # 2 # [1, 2, 3, 4] @ 1 # 0x7e # [0]) fresh_worker) wk_conn =
      (Done (OK, Some (Gmm (Authentication_response [])), p, fresh_worker), c') \<and>
    exec (nas_bytes_to_message wk_lib params (0x7e # 2 # [0, 0, 0, 0] @ 1 # 0x7e # [0]) fresh_worker) wk_conn =
      (Done (OK, Some (Gmm (Authentication_response [])), p, ogs_warn ''NAS MAC verification failed'' fresh_worker), c')"
proof -
  let ?p = "(new_params 7 (Some 3))\<lparr>nas_security_params := Some no_security\<rparr>"
  let ?m = "\<lambda>mac. nas_bytes_to_message wk_lib ?p (0x7e # 2 # mac @ 1 # 0x7e # [0]) fresh_worker"
  have w: "amf_ue_ngap_id ?p = Some 3" "nas_security_params ?p = Some no_security" "knas_int no_security = None"
    "ogs_nas_5gmm_decode wk_lib [0x7e, 0] = Some (Authentication_response [])"
    "ogs_nas_mac_calculate wk_lib a k n b d x = [1, 2, 3, 4]" for a k n b d x
    by (simp_all add: new_params_def no_security_def) (simp_all add: wk_lib_def wk_gmm_decode_def)
  note c40 = uplink_code_not_enforced [where t = 2 and L = wk_lib and params = ?p and s = 1 and e = "0x7e" and bs = "[0]" and
      w = fresh_worker and c = wk_conn and h = 3 and u = wk_user and amf = 3 and sp = no_security and
      g = "Authentication_response []"]
  obtain c1 p1 where 1: "exec (?m [1, 2, 3, 4]) wk_conn = (Done (OK, Some (Gmm (Authentication_response [])), p1, fresh_worker), c1)"
    using c40 [of "[1, 2, 3, 4]" "[0, 0, 0, 0]"] w by auto
  obtain c2 p2 where 2: "exec (?m [0, 0, 0, 0]) wk_conn = (Done (OK, Some (Gmm (Authentication_response [])), p2,
      ogs_warn ''NAS MAC verification failed'' fresh_worker), c2)"
    using c40 [of "[0, 0, 0, 0]" "[1, 2, 3, 4]"] w by auto
  have "exec (andthen (?m [1, 2, 3, 4]) (\<lambda>(st, m, params, w). Returns (st, m, params, w\<lparr>w_warnings := []\<rparr>))) wk_conn =
      exec (andthen (?m [0, 0, 0, 0]) (\<lambda>(st, m, params, w). Returns (st, m, params, w\<lparr>w_warnings := []\<rparr>))) wk_conn"
    using c40 [of "[1, 2, 3, 4]" "[0, 0, 0, 0]"] by simp
  then have "p1 = p2" "c1 = c2" using 1 2 by simp_all
  with 1 2 show ?thesis unfolding Let_def by blast
qed

section \<open>Every message\<close>

text \<open>
  C39.  Whatever datagrams the worker receives, whatever its libraries return, and in whatever order its threads take turns,
  the mutex of the connection is never held by a thread that waits in vain, the database stays well-formed, and no subscriber
  appears or disappears.  As long as the worker goes on, its threads have changed nothing in the database but the eight members
  that the handlers write: the RAN's identifier, the identity of the UE, the two halves of \<open>K_AMF\<close>, the two NAS
  counts, and the TEID and address of the tunnel.  A request that ends the worker because the server found no such
  subscriber may be read on by the server as another request; but even then nobody's IMSI, key, operator code, TMSI, TEID or
  address changes.
\<close>

theorem worker_keeps_database:
  assumes "ready c" and "(listener_step L)\<^sup>*\<^sup>* (listening_on c) s"
  shows "\<not> l_locked s \<and> wf_db (c_db (l_conn s)) \<and> dom (users (store (l_conn s))) = dom (users (store c)) \<and>
     (\<forall>h u u' f. users (store c) h = Some u \<longrightarrow> users (store (l_conn s)) h = Some u' \<longrightarrow> provisioned f \<longrightarrow>
        fld u' f = fld u f) \<and>
     (l_end s = None \<longrightarrow>
        ready (l_conn s) \<and> store (l_conn s) = (store c)\<lparr>users := users (store (l_conn s))\<rparr> \<and>
        (\<forall>h u u' f. users (store c) h = Some u \<longrightarrow> users (store (l_conn s)) h = Some u' \<longrightarrow>
           f \<notin> {F_enb_ue_s1ap_id, F_knh1, F_kasme1, F_kasme2, F_epc_nas_sequence_number, F_ue_nas_sequence_number,
             F_ue_teid, F_enb_ip} \<longrightarrow> fld u' f = fld u f))"
proof -
  have inv: "guards (c_db c) (c_db (l_conn s))" "\<not> l_locked s"
    "l_end s = None \<longrightarrow> ready (l_conn s) \<and> confined (store c) (store (l_conn s))"
    using listener_inv_reachable [OF assms(2,1)] by (simp_all add: listener_inv_def)
  have "ready (l_conn s) \<and> store (l_conn s) = (store c)\<lparr>users := users (store (l_conn s))\<rparr> \<and>
      (\<forall>h u u' f. users (store c) h = Some u \<longrightarrow> users (store (l_conn s)) h = Some u' \<longrightarrow> f \<notin> worker_members \<longrightarrow>
         fld u' f = fld u f)" if e: "l_end s = None"
  proof -
    from inv(3) e obtain U where "ready (l_conn s)" and U: "store (l_conn s) = (store c)\<lparr>users := U\<rparr>"
      "\<forall>h u u' f. users (store c) h = Some u \<longrightarrow> U h = Some u' \<longrightarrow> f \<notin> worker_members \<longrightarrow> fld u' f = fld u f"
      unfolding confined_def by blast
    moreover have "users (store (l_conn s)) = U" unfolding U(1) by simp
    ultimately show ?thesis by simp
  qed
  with inv(1,2) show ?thesis unfolding guards_def worker_members_def by blast
qed

theorem worker_keeps_database_witness:
  "\<exists>s u. (listener_step wk_lib)\<^sup>*\<^sup>* (listening_on wk_conn) s \<and>
     (\<exists>m. l_threads s = [Handling m, Sending []]) \<and> l_end s = None \<and> ready (l_conn s) \<and>
     dom (users (store (l_conn s))) = {3} \<and> users (store (l_conn s)) 3 = Some u \<and>
     fld u F_enb_ue_s1ap_id = [0, 0, 0, 7] \<and> fld u F_key = fld wk_user F_key"
proof -
  let ?d = "[0, 0, 0, 5] @ [1 :: byte]" and ?e = "[0, 0, 0, 6, 9 :: byte]"
  let ?its = "[MME_UE_S1AP_ID, RAND, KEY, OPC]" and ?xs = "identities wk_lib 7 [4, 4]"
  obtain k where k: "process_message wk_lib ?d = Access (registration_lookup wk_lib 7 [4, 4]) 68 k"
    using registration_waits [of wk_lib "[4, 4]" 3 "[0, 0, 0, 5]" "[1]" 7] by auto
  from exchange_known [OF wk_ready _ identities_ok [OF wk_library_ok(1) wk_imsi] imsi_ok(2) [OF wk_imsi], of wk_user ?its 7]
  obtain answer c1 where x: "db_exchange wk_conn (registration_lookup wk_lib 7 [4, 4]) 68 = (Inr answer, c1)"
    and c1: "users (store c1) 3 = Some (identified wk_lib 7 [4, 4] wk_user)"
    by (auto simp: registration_lookup_def identified_def identities_def plain_pull_def after_pulls_copied copied_def)
  let ?s1 = "(listening_on wk_conn)\<lparr>l_threads := [Handling (process_message wk_lib ?d)]\<rparr>"
  let ?s2 = "(listening_on wk_conn)\<lparr>l_conn := c1, l_threads := [Handling (k answer)]\<rparr>"
  let ?s3 = "?s2\<lparr>l_threads := [Handling (k answer), Sending []]\<rparr>"
  have "listener_step wk_lib (listening_on wk_conn) ?s1"
    using listener_step.received [of "listening_on wk_conn" ?d wk_lib] by (simp add: listening_on_def receive_def)
  moreover have "listener_step wk_lib ?s1 ?s2"
    using listener_step.exchanged [of ?s1 0 _ 68 k answer c1 wk_lib] x k by (simp add: listening_on_def)
  moreover have "(listener_step wk_lib)\<^sup>*\<^sup>* ?s2 ?s3"
  proof -
    have "\<exists>w. exec (process_message wk_lib ?e) c1 = (Done ([], w), c1)"
      by (simp add: process_message_def rdn_def ngap_handler_entrypoint_def) (simp add: wk_lib_def wk_ngap_decode_def)
    then show ?thesis
      using datagram_alone(2) [of ?s2 ?e wk_lib "[]" _ c1 "[]"] by (auto simp: listening_on_def receive_def)
  qed
  ultimately have r: "(listener_step wk_lib)\<^sup>*\<^sup>* (listening_on wk_conn) ?s3"
    by (meson converse_rtranclp_into_rtranclp)
  define s where "s = ?s3"
  have s: "l_end s = None" "l_conn s = c1" "l_threads s = [Handling (k answer), Sending []]"
    by (simp_all add: s_def listening_on_def)
  note c39 = worker_keeps_database [OF wk_ready r [folded s_def]]
  let ?u = "identified wk_lib 7 [4, 4] wk_user"
  have "dom (users (store (l_conn s))) = {3}" using c39 by (simp add: dom_def)
  moreover have "fld ?u F_key = fld wk_user F_key" using c39 c1 s(2) users_wk [of 3] by (auto simp: provisioned_def)
  moreover have "fld ?u F_enb_ue_s1ap_id = [0, 0, 0, 7]"
    using identified_fld(2) [OF wk_library_ok(1) length_wk_user, of "[4, 4]" 7 F_enb_ue_s1ap_id]
    by (simp add: wk_lib_def UINT32_TO_ARRAY_def)
  ultimately show ?thesis using c39 r [folded s_def] c1 s by (intro exI [of _ s] exI [of _ ?u]) simp
qed

end
