(* ===== verification/Spec2Isabelle.thy ===== *)
theory Spec2Isabelle
  imports Examples Robustness Loader Metrics Ran_Crypto Frontend Multiplexer Registration S1ap_Flow Emulator Db_Start Worker
begin

text \<open>
  CoreKube is a 5G core network whose message handling is stateless, so that its workers can be started and stopped by
  a cluster; a load generator, Nervion, emulates base stations and UEs.  This development models the C and C++ programs
  of the repository and proves what they do.

  \<^bold>\<open>The parts and how they interact.\<close>  A base station connects to the front end (src/corekube-frontend) by SCTP.  The front end
  forwards each message with the number of the socket to a worker (src/corekube5g-worker) by UDP and returns the worker's
  answers to that socket.  A worker keeps nothing between two messages: it reads and writes the subscriber's record in the
  database (src/corekube-db) through the client library (src/libck), and reports measurements through yagra (src/yagra) to
  the metrics bus (src/core-metrics-bus).  The RAN emulator (src/ran-emulator) plays base stations and UEs: a controller tells
  each process by UDP to be a UE or a base station, UE processes make their requests of a base station by TCP, and its
  multiplexer (src/ran-emulator/multiplexer) forwards their user traffic.

  \<^bold>\<open>Theories and sources.\<close>
  \<^item> Prelude: C integers, memory as byte lists, accesses that fail outside a block (\<open>rd\<close>, \<open>wr\<close>, \<open>memcpy\<close>), byte order.
  \<^item> Jhash, Hashmap: headers/jhash.h and source/hashmap.c of the database.  User, Server: source/user.c, enb.c and the request
    processing of corekubeDB.c.  Loader: its subscriber file.  Db\_Start: its start and the hand-over of connections to threads.  Aes: source/crypto.c.  Items, Libck: the item types and libck.c.
  \<^item> Protocol is the abstract database (a map of subscribers) with the refinement of \<open>analyze_request\<close>; Sessions treats several requests
    on a connection, Roundtrip the client library against the server, Robustness arbitrary requests, Examples a small database.
  \<^item> Yagra, Metrics\_Bus, Metrics: yagra.c, the bus's main.cpp, and both over many calls.
  \<^item> Syscalls, Frontend: recorded system calls; corekube\_frontend.c, uplink.c and downlink.c.
  \<^item> Sha256, Sha256\_Correct, Ran\_Crypto: crypto.c of the emulator against FIPS 180-4, TS 35.206, TS 33.501 and TS 33.401.
  \<^item> Ue, Ngap, Ngap\_Analysis: ue.c, enb.c and ngap.c of the emulator.  Ngap\_Messages holds the meaning of its messages,
    Ngap\_Effects that of the answers, Registration the procedures.  Multiplexer: nervion\_multiplexer.c with its hashmap.c.
  \<^item> S1ap, S1ap\_Procedures: s1ap.c, the procedures of 4G; S1ap\_Messages holds the meaning of its messages, S1ap\_Flow what the answers
    do and the procedures as a whole.
  \<^item> Ran\_List: list.c.  Ue\_Layout: a UE as the bytes of its structure.  Gnb\_Emulator: enb\_emulator.c, with Gnb\_Requests on what it does
    with each request.  Ue\_Emulator: ue\_emulator.c and the notifications of ran\_emulator.c; Ran\_Controller: the rest of ran\_emulator.c and
    the serialisation of the controller; Ran\_Script: a message and a script end to end.  Gnb\_Start: sctp.c and \<open>enb_emulator_start\<close>.
    Data\_Plane: data\_plane.c and tun.c.  Ran\_Flow: these processes together; Emulator (properties).
  \<^item> Worker\_Run: a handler as a program that computes, exchanges a request with the database, or stops.  Worker\_Messages, Worker\_Db,
    Worker\_Nas, Worker\_Ngap: the messages and every handler of the worker, from db\_accesses.c to udp\_listener.c, whose listener is there
    without threads (\<open>start_listener\<close>) and with a thread per datagram (\<open>listener_step\<close>).  Worker\_Access (an access against the server),
    Worker\_Flow and Worker\_Security (a message from the datagram to the answer), Worker\_Frame (every message), Worker\_Threads (every
    interleaving), Worker (properties).

  A struct is a record, or a byte list where the code copies it bytewise (the 215-byte subscriber record); a C function is a
  definition of the same name; a function that fails is a value of \<open>option\<close>, where \<open>None\<close> is an access outside a block, another
  undefined behaviour or an aborting assertion; the worker tells these apart (\<open>stop\<close>: a failed assertion, undefined behaviour, a wait without
  end, a server that has stopped).  An error return is the value \<open>ERROR\<close>.  The results of system calls, of
  allocations and of \<open>rand\<close> are arguments.  Where the code writes past an object, what lies behind it is an argument too, never assumed to be
  harmless: the slack of a heap block and the bytes behind an array of the stack in the worker (\<open>o_slack\<close>, \<open>o_behind_imsi\<close>), the frame behind an
  address in the front end (\<open>frame\<close>, \<open>uplink_frame\<close>); the properties say what happens in each case.  What libraries do whose code is not in the repository is an argument too: the Open5GS and
  asn1c functions of the worker (the record \<open>ogs\<close>), CMAC of the emulator, \<open>stod\<close> and prometheus of the bus.  Theorems that rely on
  documented behaviour of them, which is the size of a result, say so in a hypothesis (\<open>library_ok\<close>, \<open>mac_ok\<close>), and their witnesses use a
  concrete library.

  \<^bold>\<open>Interfaces.\<close>  The locale \<open>hash_dict\<close> is what the server relies on in a table and is interpreted by the code of hashmap.c; \<open>bus_invariant\<close>
  is what every handler of the bus respects and \<open>worker_frame\<close> what every handler of the worker respects, each proved once and
  interpreted for two relations (the registry and the calls of the bus; the requests and the measurements of a worker).  \<open>registry\<close> is what a base
  station relies on in its container of UEs and is interpreted by the linked list of list.c.

  \<^bold>\<open>What is shown.\<close>  The database performs requests as its abstract machine does (C1, C2), with its client library (C3), resists
  arbitrary requests (C4, C5), loads its file (C6), encrypts by AES (C7) and keeps its tables (C8); each of its threads serves the connection accepted last when it starts, its own if it is prompt (C36).
  The metrics arrive as sent and the bus keeps its state (C16, C18, C20, C22).  The emulator's cryptography is that of the
  standards (C23 to C26) and its procedures send the messages of the standards (C34 for 5G, C35 for 4G), and fail as C37 and C38 describe.  Its processes
  come up as the controller says (C10, C21), whose messages and scripts mean what it wrote (C29, C12); a UE detaches and attaches (C14), its
  packets pass (C17), UEs are kept in a sequence (C15), and a handover stops both sides (C28).  The front end leaks no socket unless a variable lies where its
  \<open>memset\<close> writes (C27); the multiplexer learns addresses (C31 to C33).  The worker's accesses do what they ask for where the byte they write
  behind their block is spare (C19); a registration is handled from the datagram to the answer and to the record (C9); no
  datagram and no interleaving of threads damages the database (C39); answers return to their sender (C13).  C11, C30 and C40 state where the worker falls short: an
  unknown UE stops it, any authentication response is accepted, and no authentication code is enforced.

  \<^bold>\<open>Bounds and fuel.\<close>  The loops of the database, of libck and of the bus have measures (the bytes left).  The multiplexer's walk along a chain may
  run forever and is a \<open>partial_function\<close>; C31 proves that it returns.  Loops over what a peer sends recurse on the list of received messages: at
  its end the program waits, so that C38 says that no number of receives lets the emulator's loop return.  The worker's NAS handler
  calls itself for a container and takes the length of the message as fuel: a container is shorter than the message around it, and
  more fuel gives the same result (\<open>nas_handler_fuel\<close>).  Lengths stay below the buffers of the source (1024 bytes of request and response,
  hence at most 60 pulled items; 20 pushed and 20 pulled items bound the requests of a worker, whose largest has 4 of each).

  \<^bold>\<open>The emulator's processes.\<close>  Its calls of the operating system are recorded with their results (Syscalls) or, for connections to a base
  station, given as the list \<open>r_conns\<close> of what each will do; what a thread does over time is a log.  \<open>control_plane n\<close> is \<open>n\<close> rounds of an endless
  loop, and a wait for a peer that does not come is the result \<open>Blocked\<close>.  Globals of the same name in several files are one object, as the
  linker makes them.  The processes are modelled as their Makefile builds them, for 5G.

  \<^bold>\<open>Not modelled.\<close>  Start-up code and socket set-up of the worker and of the multiplexer; thread interleavings, except for the threads of the
  worker (C11, C39), whose exchanges with the database are atomic under its mutex, and for the database's accept loop with the start of its
  threads (C36): elsewhere each thread is modelled on its own; two overflowing writes of the emulator, the \<open>memset\<close> of sctp.c line 187 and the \<open>memcpy\<close> of
  data\_plane.c line 213; latency measurements; freeing of memory outside the emulator; the command line client (src/cli), the controller's web interface and the
  cluster scripts, which run other programs; vendored code (asio, json, argparse, the Open5GS and asn1c headers).
\<close>

section \<open>The database\<close>

text \<open>
  C1.  Requests are served as specified.  For a well-formed database, a request whose identifier
  names a stored subscriber (or that stores an eNB) and whose items are valid, \<open>analyze_request\<close>
  on the bytes of the request followed by anything returns: it consumes exactly the request, leaves
  the answers of the specification in the response buffer, reports 17 bytes per pulled item, keeps
  the database well-formed, and its new state is the one of the specification.
\<close>

theorem analyze_request_correct:
  assumes "wf_db d" and "alloc_ok d" and "request_ok (abs_db d) r"
    and "length (encode r) \<le> request_len" and "length response = 1024"
  shows "\<exists>d'. analyze_request d (encode r @ rest) request_len response =
       Some \<lparr>ans_db = d', ans_response = serve_answer (request_user r) (abs_db d) r response,
             ans_response_len = 17 * length (rq_pulls r), ans_consumed = length (encode r)\<rparr> \<and>
     wf_db d' \<and> alloc_ok d' \<and> abs_db d' = serve (request_user r) (abs_db d) r"
  by (rule analyze_request_refines [OF assms])

theorem analyze_request_correct_witness:
  "\<exists>d'. analyze_request ex_db (encode ex_request @ [1, 2]) 45 (replicate 1024 0) =
       Some \<lparr>ans_db = d',
             ans_response = serve_answer (Some 3) (abs_db ex_db) ex_request (replicate 1024 0),
             ans_response_len = 51, ans_consumed = 43\<rparr> \<and>
     wf_db d' \<and> alloc_ok d' \<and> abs_db d' = serve (Some 3) (abs_db ex_db) ex_request"
proof -
  have "length (rq_pulls ex_request) = 3" by (simp add: ex_request_def)
  with analyze_request_correct [of ex_db ex_request 45 "replicate 1024 0" "[1, 2]"] show ?thesis
    by simp
qed

text \<open>
  C2.  Several requests in one \<open>recv\<close>.  When the received bytes are the encodings of valid requests,
  \<open>attend_request\<close> performs all of them in order, each on the state the previous one left, and sends
  exactly one message per request that pulls something; nothing is lost or answered twice.
\<close>

theorem attend_request_correct:
  assumes "wf_db (c_db c)" and "alloc_ok (c_db c)" and "length (c_response c) = 1024"
    and "length (c_request c) = 1024" and "\<forall>i. c_sends c i"
    and "list_all (request_ok (abs_db (c_db c))) rs"
    and "length (concat (map encode rs)) \<le> 1024"
  shows "\<exists>c'. attend_request c [Recv_data (concat (map encode rs))] = Some (c', Open) \<and>
     wf_db (c_db c') \<and> abs_db (c_db c') = serve_all (abs_db (c_db c)) rs \<and>
     c_sent c' = c_sent c @ fst (respond_all (abs_db (c_db c)) (c_response c) rs)"
proof -
  let ?bs = "concat (map encode rs)"
  let ?c = "c\<lparr>c_request := ?bs @ drop (length ?bs) (c_request c)\<rparr>"
  have "wrn (c_request c) 0 ?bs = Some (c_request ?c)" using assms(4,7) by (simp add: wrn_def)
  moreover have "\<exists>c'. multi_pkt_loop ?c 0 (length ?bs) = Some (c', Open) \<and> wf_db (c_db c') \<and>
     alloc_ok (c_db c') \<and> abs_db (c_db c') = serve_all (abs_db (c_db ?c)) rs \<and>
     c_sent c' = c_sent ?c @ fst (respond_all (abs_db (c_db ?c)) (c_response ?c) rs) \<and>
     c_response c' = snd (respond_all (abs_db (c_db ?c)) (c_response ?c) rs) \<and>
     length (c_response c') = 1024 \<and> c_request c' = c_request ?c \<and> (\<forall>i. c_sends c' i)"
    by (rule multi_pkt_loop_refines [where pre = "[]"]) (use assms in simp_all)
  ultimately show ?thesis by auto
qed

theorem attend_request_correct_witness:
  "\<exists>c'. attend_request \<lparr>c_db = ex_db, c_request = replicate 1024 0, c_response = replicate 1024 0,
          c_sends = (\<lambda>_. True), c_sent = []\<rparr> [Recv_data (encode ex_request @ encode ex_request)] =
        Some (c', Open) \<and>
     wf_db (c_db c') \<and> abs_db (c_db c') = serve_all (abs_db ex_db) [ex_request, ex_request] \<and>
     c_sent c' = fst (respond_all (abs_db ex_db) (replicate 1024 0) [ex_request, ex_request])"
  using attend_request_correct [of "\<lparr>c_db = ex_db, c_request = replicate 1024 0,
      c_response = replicate 1024 0, c_sends = (\<lambda>_. True), c_sent = []\<rparr>" "[ex_request, ex_request]"]
  by simp

text \<open>
  C3.  The client library and the server fit together.  A request written by \<open>push_items\<close> and
  \<open>pull_items\<close> of libck.c is consumed exactly by \<open>analyze_request\<close>, and \<open>extract_db_values\<close> on the
  response sets the pointer of a pulled item to the answer that the specification gives for the
  state after the pushes and the earlier pulls.
\<close>

theorem database_roundtrip:
  assumes wf: "wf_db d" and al: "alloc_ok d" and id: "lib_id_ok it idv" and xs: "list_all lib_push_ok xs"
    and ps: "list_all wf_pull ps" and ne: "list_all (\<lambda>p. p \<noteq> Pull NEW_ENB) ps"
    and room: "18 + 17 * length xs + length (encode_pulls ps) \<le> length buffer"
    and r: "r = lib_request buffer it idv xs ps" and ok: "request_ok (abs_db d) r"
    and resp: "length response = 1024"
    and k: "k < length ps" and f: "pfield_of (answer_item (ps ! k)) = Some f"
    and last: "\<forall>l. k < l \<longrightarrow> l < length ps \<longrightarrow> pfield_of (answer_item (ps ! l)) \<noteq> Some f"
    and v: "v = tl (spec_answer (request_user r) (state_at (abs_db d) r k) (ps ! k))"
  shows "\<exists>b p msg n d' response' ptrs'.
     push_items buffer (item_code it) idv (length xs) (concat (map push_va xs)) = Some (b, p) \<and>
     pull_items b p (length ps) (concat (map pull_va ps)) = Some (msg, n) \<and>
     analyze_request d (take n msg @ rest) n response =
       Some \<lparr>ans_db = d', ans_response = response', ans_response_len = 17 * length ps, ans_consumed = n\<rparr> \<and>
     extract_db_values response' (17 * length ps) ptrs = Some ptrs' \<and>
     ptrs' f = At (17 * k + 1) \<and> rdn response' (17 * k + 1) (length v) = Some v"
proof -
  obtain b where b: "push_items buffer (item_code it) idv (length xs) (concat (map push_va xs)) =
      Some (b, 17 + 17 * length xs)"
    "pull_items b (17 + 17 * length xs) (length ps) (concat (map pull_va ps)) =
      Some (overlay buffer 0 (encode r), length (encode r))"
    using lib_encodes [OF id xs ps room] r by blast
  have t: "take (length (encode r)) (overlay buffer 0 (encode r)) = encode r" by (simp add: overlay_def)
  have rp: "rq_pulls r = ps" by (simp add: r lib_request_def)
  obtain d' where d': "analyze_request d (encode r @ rest) (length (encode r)) response =
       Some \<lparr>ans_db = d', ans_response = serve_answer (request_user r) (abs_db d) r response,
             ans_response_len = 17 * length ps, ans_consumed = length (encode r)\<rparr>"
    using analyze_request_refines [OF wf al ok order_refl resp, of rest] rp by auto
  have "\<exists>ptrs'. extract_db_values (serve_answer (request_user r) (abs_db d) r response) (17 * length ps) ptrs =
           Some ptrs' \<and> ptrs' f = At (17 * k + 1) \<and>
         rdn (serve_answer (request_user r) (abs_db d) r response) (17 * k + 1) (length v) = Some v"
    using extract_serve_answer [OF sockets_ok_abs [OF wf] ok resp, unfolded rp, OF ne k f last v] .
  with b d' t show ?thesis by metis
qed

lemma ex_lib_request:
  "request_ok (abs_db ex_db) (lib_request (replicate 200 0) IMSI ex_imsi [(ENB_IP, [10, 0, 0, 1])] [Pull KEY, Pull TMSI])"
proof -
  have "payload (replicate 200 0) 0 16 ex_imsi = ex_imsi" by (simp add: payload_def ex_imsi_def)
  then have u: "request_user (lib_request (replicate 200 0) IMSI ex_imsi [(ENB_IP, [10, 0, 0, 1])] [Pull KEY, Pull TMSI]) = Some 3"
    using hash_ex_imsi [of "[]"] by (simp add: request_user_def lib_request_def)
  show ?thesis
    unfolding request_ok_def u
    by (simp add: lib_request_def push_allowed_def pull_allowed_def payload_def ex_imsi_def)
qed

theorem database_roundtrip_witness:
  "\<exists>b p msg n d' response' ptrs'.
     push_items (replicate 200 0) (item_code IMSI) ex_imsi 1 (push_va (ENB_IP, [10, 0, 0, 1])) = Some (b, p) \<and>
     pull_items b p 2 (pull_va (Pull KEY) @ pull_va (Pull TMSI)) = Some (msg, n) \<and>
     analyze_request ex_db (take n msg @ []) n (replicate 1024 0) =
       Some \<lparr>ans_db = d', ans_response = response', ans_response_len = 34, ans_consumed = n\<rparr> \<and>
     extract_db_values response' 34 (\<lambda>_. Null) = Some ptrs' \<and> ptrs' P_tmsi = At 18"
proof -
  let ?r = "lib_request (replicate 200 0) IMSI ex_imsi [(ENB_IP, [10, 0, 0, 1])] [Pull KEY, Pull TMSI]"
  have "lib_id_ok IMSI ex_imsi" by (simp add: lib_id_ok_def ex_imsi_def)
  moreover have "list_all lib_push_ok [(ENB_IP, [10, 0, 0, 1])]" by (simp add: lib_push_ok_def)
  ultimately show ?thesis
    using database_roundtrip [of ex_db IMSI ex_imsi "[(ENB_IP, [10, 0, 0, 1])]" "[Pull KEY, Pull TMSI]"
        "replicate 200 0" ?r "replicate 1024 0" 1 P_tmsi _ "[]" "\<lambda>_. Null", OF _ _ _ _ _ _ _ refl ex_lib_request _ _ _ _ refl]
    by (simp add: encode_pulls_def numeral_2_eq_2 del: push_va.simps pull_va.simps) blast
qed

text \<open>
  C4.  No request can damage the database, whatever its bytes.  Whenever \<open>analyze_request\<close> stays
  inside its buffers, the database stays well-formed, no subscriber is added or removed, only the
  subscriber named by the request can change, and nobody's IMSI, key, operator code, TMSI, TEID or
  address changes.
\<close>

theorem analyze_request_robust:
  assumes "wf_db d" and "analyze_request d request request_len response = Some a"
  shows "wf_db (ans_db a) \<and> length (ans_response a) = length response \<and>
     dom (users (abs_db (ans_db a))) = dom (users (abs_db d)) \<and>
     (\<forall>h. Some h \<noteq> named_user request \<longrightarrow> users (abs_db (ans_db a)) h = users (abs_db d) h) \<and>
     (\<forall>h u u' f. users (abs_db d) h = Some u \<longrightarrow> users (abs_db (ans_db a)) h = Some u' \<longrightarrow>
        provisioned f \<longrightarrow> fld u' f = fld u f)"
  using analyze_request_keeps [OF assms] by (auto simp: keeps_def dom_def)

theorem analyze_request_robust_witness:
  "\<exists>a. analyze_request ex_db [0, 5, 1, 9] 4 [7, 7] = Some a \<and> wf_db (ans_db a) \<and>
       length (ans_response a) = 2"
proof -
  have a: "analyze_request ex_db [0, 5, 1, 9] 4 [7, 7] =
      Some \<lparr>ans_db = ex_db, ans_response = [0, 7], ans_response_len = 1, ans_consumed = 3\<rparr>"
    by (simp add: analyze_request_def reject_request_def skip_to_EOM.simps rd_def wr_def)
  from analyze_request_robust [OF wf_ex_db a] a show ?thesis by simp
qed

text \<open>
  C5.  A request for a subscriber that is not in the database changes nothing and is answered by a
  single zero byte; the read position moves behind the first EOM byte of the request.
\<close>

theorem unknown_subscriber_rejected:
  assumes "wf_db d" and "named_user request = Some h" and "users (abs_db d) h = None"
    and "request_len \<le> length request" and "response \<noteq> []"
  shows "\<exists>i. skip_to_EOM request request_len 1 = Some i \<and>
     analyze_request d request request_len response =
       Some \<lparr>ans_db = d, ans_response = response[0 := 0], ans_response_len = 1, ans_consumed = i\<rparr>"
proof -
  from assms(2) obtain b it where b: "rd request 0 = Some b" "item_of b = Some it"
    "ident_key it (drop 1 request) = Some h" by (auto simp: named_user_def split: bind_splits)
  then have a: "analyze_request d request request_len response =
      lookup_and_run d (Some h) request request_len response"
    using analyze_ident [of request it h] item_of_SomeD [OF b(2)] by simp
  from assms(1) have "wf_hashmap (imsi_map d)" by (simp add: wf_db_def)
  from hm.get_total [OF this, of h] assms(3) have g: "hashmap_get (imsi_map d) h = Some None"
    by (auto simp: abs_db_def)
  obtain i where i: "skip_to_EOM request request_len 1 = Some i"
    using skip_to_EOM_total [OF assms(4)] by blast
  show ?thesis
    using a g i assms(5) by (simp add: lookup_and_run_def reject_request_def wr_def)
qed

theorem unknown_subscriber_rejected_witness:
  "\<exists>i. skip_to_EOM [4, 0, 0, 0, 9, 1, 5] 7 1 = Some i \<and>
     analyze_request ex_db [4, 0, 0, 0, 9, 1, 5] 7 [7, 7] =
       Some \<lparr>ans_db = ex_db, ans_response = [0, 7], ans_response_len = 1, ans_consumed = i\<rparr>"
proof -
  have "named_user [4, 0, 0, 0, 9, 1, 5] = Some 9"
    by (simp add: named_user_def rd_def hash_tmsi_def ARRAY_TO_UINT32_def be32_def)
  from unknown_subscriber_rejected [OF wf_ex_db this, of 7 "[7, 7]"] show ?thesis by simp
qed

text \<open>
  C6.  Loading a subscriber.  A well-formed line of the subscriber file (IMSI, key, operator code
  type, operator code) adds exactly one subscriber, under the key of its IMSI, unless that key is
  taken: then the first one stays.  The stored record holds the IMSI, the key, the operator code
  (derived from OP when the type is \<open>op\<close>) and the identifiers computed from the IMSI.
\<close>

theorem process_line_correct:
  assumes "wf_db d" and "alloc_ok d" and "line_ok imsi key code fin"
    and "length fresh = user_info_size" and "length op_key = 16"
    and "ty = [111, 112, 99] \<or> ty = [111, 112]"
    and "hash_imsi (imsi @ [0]) = Some h"
  shows "\<exists>d' u. process_line fresh op_key d (subscriber_line imsi key ty code fin @ 0 # pad)
           (int (length (subscriber_line imsi key ty code fin))) = Some d' \<and>
         wf_db d' \<and> alloc_ok d' \<and> enbs (abs_db d') = enbs (abs_db d) \<and>
         users (abs_db d') = (if users (abs_db d) h = None then (users (abs_db d))(h \<mapsto> u)
                              else users (abs_db d)) \<and>
         fld u F_imsi = imsi @ [0] \<and> fld u F_key = key \<and> fld u F_opc = derived_opc ty key code \<and>
         fld u F_tmsi = UINT32_TO_ARRAY h \<and> fld u F_mme_ue_s1ap_id = UINT32_TO_ARRAY h \<and>
         fld u F_epc_nas_sequence_number = [0]"
  by (rule process_line_adds [OF assms])

theorem process_line_correct_witness:
  "\<exists>d' u. process_line (replicate 215 9) (replicate 16 9) ex_db
      (subscriber_line (butlast (ex_imsi[14 := 52])) (replicate 16 1) [111, 112] (replicate 16 2) [10] @ 0 # [])
      (int (length (subscriber_line (butlast (ex_imsi[14 := 52])) (replicate 16 1) [111, 112] (replicate 16 2) [10]))) =
        Some d' \<and> users (abs_db d') 4 = Some u \<and> users (abs_db d') 3 = Some ex_user \<and>
      fld u F_key = replicate 16 1"
proof -
  let ?i = "butlast (ex_imsi[14 := 52])"
  have i: "?i = [50, 48, 56, 57, 51, 48, 48, 48, 48, 48, 48, 48, 48, 48, 52]" by (simp add: ex_imsi_def)
  have l: "line_ok ?i (replicate 16 1) (replicate 16 2) [10]"
    unfolding i by (simp add: line_ok_def plain_def comma_def)
  have h: "hash_imsi (?i @ [0]) = Some 4"
    unfolding i by (simp add: hash_imsi_def atoi_def atoi_signed_def isdigit_def isspace_def)
  have "length (replicate 215 (9 :: byte)) = user_info_size" by (simp add: layout_simps)
  from process_line_correct [OF wf_ex_db alloc_ex_db l this _ _ h, of "replicate 16 9" "[111, 112]" "[]"]
  show ?thesis by auto
qed

text \<open>
  C7.  The key schedule and the table-driven encryption of crypto.c compute AES-128 as FIPS-197
  defines it, and \<open>generate_opc\<close> the operator code \<open>AES(K, OP) xor OP\<close>, for every key and block.
\<close>

theorem crypto_is_aes:
  assumes "16 \<le> length key" and "16 \<le> length op"
  shows "\<exists>Ekey. RijndaelKeySchedule key = Some Ekey \<and> RijndaelEncrypt Ekey op = Some (aes128 key op) \<and>
     generate_opc key op = Some (map2 (XOR) (aes128 key op) (take 16 op))"
  using rijndael_aes128 [OF assms] generate_opc_aes [OF assms] by blast

theorem crypto_is_aes_witness:
  "\<exists>Ekey. RijndaelKeySchedule (replicate 16 0x2B) = Some Ekey \<and>
     RijndaelEncrypt Ekey (replicate 16 0x32) = Some (aes128 (replicate 16 0x2B) (replicate 16 0x32))"
  using crypto_is_aes [of "replicate 16 0x2B" "replicate 16 0x32"] by auto

text \<open>
  C8.  The hash table is a dictionary.  With memory available, \<open>hashmap_add\<close> on a well-formed table
  returns, keeps it well-formed, and afterwards every lookup gives what it gave before, except that
  a key that was absent and is that of the new entry now gives the new entry; for an absent key the
  result is OK.
\<close>

theorem hashmap_add_correct:
  assumes "wf_hashmap hm"
  shows "\<exists>st hm'. hashmap_add hm x True True = Some (st, hm') \<and> wf_hashmap hm' \<and>
     (hashmap_get hm (hash_fn hm x) = Some None \<longrightarrow> st = OK) \<and>
     (\<forall>h. hashmap_get hm' h =
        (if h = hash_fn hm x \<and> hashmap_get hm h = Some None then Some (Some x) else hashmap_get hm h))"
  using hm.add_law [OF assms, of x] by blast

theorem hashmap_add_correct_witness:
  "\<exists>st hm'. hashmap_add ex_users (ex_user[14 := 52]) True True = Some (st, hm') \<and> wf_hashmap hm'"
  using hashmap_add_correct [OF wf_ex_users, of "ex_user[14 := 52]"] by blast

text \<open>
  Writing through a pointer that \<open>hashmap_get\<close> returned changes that entry and no other.
\<close>

lemma hashmap_write_correct:
  assumes "wf_hashmap hm" and "hashmap_get hm h = Some (Some x)" and "hash_fn hm v = h"
  shows "\<exists>hm'. hashmap_write hm h v = Some hm' \<and> wf_hashmap hm' \<and>
     (\<forall>h'. hashmap_get hm' h' = (if h' = h then Some (Some v) else hashmap_get hm h'))"
  using hm.upd_law [OF assms] by blast

text \<open>
  The downlink NAS counter.  A request that pulls it \<open>n\<close> times (at most 60) adds \<open>n\<close> to the
  stored counter modulo 256 and changes no other member of the record.
\<close>

lemma nas_counter_increments:
  assumes wf: "wf_db d" and al: "alloc_ok d" and r: "length response = 1024" and n: "n \<le> 60"
    and q: "r = \<lparr>rq_id = it, rq_val = v, rq_pushes = [], rq_pulls = replicate n (Pull EPC_NAS_SEQUENCE_NUMBER)\<rparr>"
    and v: "length v = 16" "ident_key it v = Some h" and u: "users (abs_db d) h = Some u"
  shows "\<exists>a u'. analyze_request d (encode r @ rest) (length (encode r)) response = Some a \<and>
     users (abs_db (ans_db a)) h = Some u' \<and>
     fld u' F_epc_nas_sequence_number = [hd (fld u F_epc_nas_sequence_number) + of_nat n] \<and>
     (\<forall>f. f \<noteq> F_epc_nas_sequence_number \<longrightarrow> fld u' f = fld u f)"
proof -
  have ru: "request_user r = Some h" using v by (simp add: request_user_def q)
  have ok: "request_ok (abs_db d) r"
    using v u n by (simp add: request_ok_def ru) (simp add: q pull_allowed_def list_all_iff)
  from request_users [OF wf al ok r, of rest] obtain a where
    a: "analyze_request d (encode r @ rest) (length (encode r)) response = Some a"
    "abs_db (ans_db a) = serve (Some h) (abs_db d) r" using ru by auto
  have "serve (Some h) (abs_db d) r =
      foldl (spec_pull (Some h)) (abs_db d) (replicate n (Pull EPC_NAS_SEQUENCE_NUMBER))"
    by (simp add: serve_def q)
  with counter_pulls [OF u wf_user_length [OF wf_db_user(1) [OF wf u]], of n] a show ?thesis by auto
qed

text \<open>
  Storing an eNB.  A request that stores an eNB makes its socket available to every later
  \<open>GET_ENB\<close>, unless the identifier is already known: then the old socket stays, also when the eNB
  has reconnected on a new one.
\<close>

lemma first_enb_registration_wins:
  assumes wf: "wf_db d" and al: "alloc_ok d" and resp: "length response = 1024"
    and v: "length v = 16" and w: "length w = 16"
    and r: "r = \<lparr>rq_id = NEW_ENB, rq_val = w, rq_pushes = [(NEW_ENB, v)], rq_pulls = []\<rparr>"
  shows "\<exists>a. analyze_request d (encode r @ rest) (length (encode r)) response = Some a \<and>
     enbs (abs_db (ans_db a)) (be32_of v) =
       Some (case enbs (abs_db d) (be32_of v) of None \<Rightarrow> take 4 (drop 4 v) | Some old \<Rightarrow> old) \<and>
     users (abs_db (ans_db a)) = users (abs_db d)"
proof -
  have ru: "request_user r = None" by (simp add: request_user_def r)
  have ok: "request_ok (abs_db d) r"
    using v w by (simp add: request_ok_def ru) (simp add: r push_allowed_def)
  from request_users [OF wf al ok resp, of rest] obtain a where
    a: "analyze_request d (encode r @ rest) (length (encode r)) response = Some a"
    "abs_db (ans_db a) = serve None (abs_db d) r" using ru by auto
  then show ?thesis
    by (auto simp: serve_def r spec_push_def Let_def split: option.splits)
qed

text \<open>
  Pulling an eNB socket reads outside the record.  The two branches copy \<open>KEY_LEN\<close> (16) bytes
  from a 4-byte member at the end of the 215-byte heap block, so on a well-formed database the
  iteration has no defined result.
\<close>

lemma socket_pull_out_of_bounds:
  assumes wf: "wf_db d" and b: "rd request offset = Some (item_code it)"
    and it: "it = ENB_SOURCE_SOCKET \<or> it = ENB_TARGET_SOCKET"
  shows "pull_step d (Some h) request offset response res = None"
proof -
  have "pull_copy d (Some h) resp r i off 16 = None" if "207 \<le> off" for resp r i off
  proof (cases "users (abs_db d) h")
    case None
    then show ?thesis by (auto simp: pull_copy_def deref_user_abs split: bind_splits)
  next
    case (Some u)
    have "length u = 215" using wf_db_user(1) [OF wf Some] by (simp add: layout_simps)
    with that have "memcpy bb (r + 1) (drop off u) 16 = None" for bb
      by (auto simp: memcpy_def rdn_def)
    with Some show ?thesis by (auto simp: pull_copy_def deref_user_abs split: bind_splits)
  qed
  with it b show ?thesis by (auto simp: pull_step_def layout_simps)
qed

text \<open>
  NAS sequence numbers pushed through libck.c are not stored.  \<open>push_item\<close> writes the value at
  payload index 0, \<open>analyze_request\<close> reads index 5, so the server stores whatever byte the caller's
  buffer held there (byte 23 for the first item), for every pushed value.
\<close>

lemma pushed_sequence_number_ignored:
  assumes wf: "wf_db d" and al: "alloc_ok d" and resp: "length response = 1024"
    and id: "lib_id_ok it idv" and room: "36 \<le> length buffer"
    and r: "r = lib_request buffer it idv [(EPC_NAS_SEQUENCE_NUMBER, [value])] []"
    and h: "request_user r = Some h" and u: "users (abs_db d) h = Some u"
  shows "\<exists>b msg a u'. push_items buffer (item_code it) idv 1 (push_va (EPC_NAS_SEQUENCE_NUMBER, [value])) = Some (b, 34) \<and>
     pull_items b 34 0 [] = Some (msg, 36) \<and>
     analyze_request d (take 36 msg @ rest) 36 response = Some a \<and>
     users (abs_db (ans_db a)) h = Some u' \<and> fld u' F_epc_nas_sequence_number = [buffer ! 23]"
proof -
  let ?xs = "[(EPC_NAS_SEQUENCE_NUMBER, [value])]"
  have xs: "list_all lib_push_ok ?xs" by (simp add: lib_push_ok_def)
  have pv: "length (payload buffer 0 (id_len it) idv) = 16"
    using id room by (cases it) (auto simp: length_payload lib_id_ok_def)
  have p5: "payload buffer 17 1 [value] ! 5 = buffer ! 23" and p16: "length (payload buffer 17 1 [value]) = 16"
    using room by (simp_all add: payload_def nth_append)
  have ok: "request_ok (abs_db d) r"
    using u p16 pv by (simp add: request_ok_def h) (simp add: r lib_request_def push_allowed_def)
  have len: "length (encode r) = 36"
    using length_encode [of r] pv p16 by (simp add: r lib_request_def encode_pulls_def)
  obtain b where b: "push_items buffer (item_code it) idv 1 (push_va (EPC_NAS_SEQUENCE_NUMBER, [value])) = Some (b, 34)"
    "pull_items b 34 0 [] = Some (overlay buffer 0 (encode r), 36)"
    using lib_encodes [OF id xs, of "[]" buffer] room len
    by (auto simp: encode_pulls_def r simp del: push_va.simps)
  have t: "take 36 (overlay buffer 0 (encode r)) = encode r" using len by (simp add: overlay_def)
  from request_users [OF wf al ok resp, of rest] obtain a where
    a: "analyze_request d (encode r @ rest) 36 response = Some a"
    "abs_db (ans_db a) = serve (Some h) (abs_db d) r" using h len by auto
  have lu: "length u = user_info_size" using wf_db_user(1) [OF wf u] by simp
  have "users (abs_db (ans_db a)) h = Some (set_fld u F_epc_nas_sequence_number [buffer ! 23])"
    using a(2) u p5 by (simp add: serve_def r lib_request_def spec_push_def apply_push_def pushed_value_def)
  with a(1) b t lu show ?thesis by (auto simp: fld_set_fld simp del: push_va.simps)
qed

text \<open>
  The response buffer overflows at the 61st item.  Sixty pulls fit; a request with sixty
  pulls of the key followed by one more writes outside the 1024-byte response, because nothing
  compares the response offset with the buffer size.
\<close>

lemma response_overflow:
  assumes "wf_db d" and "users (abs_db d) h = Some u" and "length response = 1024"
    and "length pre = offset" and "offset + 60 < request_len"
  shows "pull_loop d (Some h) (pre @ replicate 61 (item_code KEY) @ post) request_len offset response 0 = None"
proof -
  have "replicate 61 (item_code KEY) = concat (map encode_pull (replicate 60 (Pull KEY))) @ [item_code KEY]"
    by (simp add: numeral_eq_Suc)
  then have "pre @ replicate 61 (item_code KEY) @ post =
      pre @ concat (map encode_pull (replicate 60 (Pull KEY))) @ item_code KEY # post" by simp
  from too_many_pulls [OF assms(1-3) this assms(4,5)] show ?thesis .
qed

text \<open>
  The duplicate check misses the last node of a chain.  When the key of a new entry equals
  that of the last entry of a chain of two or more (and of no earlier one), \<open>hashmap_add\<close> appends
  the duplicate and returns OK; lookups keep returning the old entry.
\<close>

lemma duplicate_of_last_accepted:
  assumes wf: "wf_hashmap hm" and i: "bucket_index hm (hash_fn hm x) = Some i"
    and c: "table hm ! i = ys @ [y]" and ne: "ys \<noteq> []" and y: "hash_fn hm y = hash_fn hm x"
    and other: "\<forall>z \<in> set ys. hash_fn hm z \<noteq> hash_fn hm x"
  shows "hashmap_add hm x True True = Some (OK, hm\<lparr>table := (table hm)[i := ys @ [y, x]]\<rparr>) \<and>
     hashmap_get (hm\<lparr>table := (table hm)[i := ys @ [y, x]]\<rparr>) (hash_fn hm x) = Some (Some y)"
proof -
  have il: "i < length (table hm)"
    using i wf by (auto simp: bucket_index_def wf_hashmap_def unat_mod_distrib unat_gt_0 split: if_splits)
  have app: "chain_append (hash_fn hm) h x (zs @ [y]) = (OK, zs @ [y, x])"
    if "\<forall>z \<in> set zs. hash_fn hm z \<noteq> h" for h zs
    using that by (induction zs rule: induct_list012) auto
  obtain z zs where ys: "ys = z # zs" using ne by (cases ys) auto
  have "bucket_add (hash_fn hm) (hash_fn hm x) x (ys @ [y]) = (OK, ys @ [y, x])"
    using app [OF other] other by (simp add: bucket_add_def ys)
  then have "hashmap_add hm x True True = Some (OK, hm\<lparr>table := (table hm)[i := ys @ [y, x]]\<rparr>)"
    using i il c by (simp add: hashmap_add_def)
  moreover have "find (\<lambda>z. hash_fn hm z = hash_fn hm x) (ys @ [y, x]) = Some y"
    using other y by (simp add: find_append find_None_iff [THEN iffD2])
  ultimately show ?thesis using i il by (simp add: hashmap_get_def)
qed

section \<open>The way of a message through the core network\<close>

text \<open>
  C13.  Answers return to their sender.  The front end forwards a message of a base station with the number of its socket;
  whatever the worker makes of it, with whatever answers of the database, the front end sends each of the answers that the
  worker sends once, in order, to that socket, with the stream the worker chose, and the bytes and the length of what the
  worker encoded.  That is so unless the 8 bytes that the uplink thread clears behind its address hold one of its variables: if it is
  the PPID, nothing is forwarded; if it is the socket number, the thread works for descriptor 0, and answers go there.
\<close>

theorem answers_return_to_sender:
  assumes "length buffer = 1024" and "length buffer' = 1024" and "m \<noteq> []" and "length m \<le> 1020" and "\<forall>i. ok i"
    and "sock' = (if uf_sock_enb f then 0 else sock)"
    and "answered (process_message L (UINT32_TO_ARRAY sock' @ m)) bs = Some (outs, w)" and "send_all [] outs = (e, ds)"
    and "\<forall>d \<in> set ds. length d \<le> 1024"
  shows "uplink_thread f buffer sock True [Up_message NGAP_PPID m True True] =
       (if \<not> uf_room f then None
        else if uf_ppid f then Some ([], Up_waiting)
        else Some ([UINT32_TO_ARRAY sock' @ m], Up_waiting)) \<and>
     (\<exists>calls. downlink_thread buffer' True (map Some ds) ok = Some (calls, True) \<and>
        map (\<lambda>call. (ss_data call, ss_len call)) calls = map (\<lambda>d. (drop 5 d, of_nat (length d - 5))) ds \<and>
        (\<forall>call \<in> set calls. ss_sock call = sock' \<and> ss_ppid call = NGAP_PPID \<and> ss_sid call = ucast (w_sctpStreamID w)))"
proof
  show "uplink_thread f buffer sock True [Up_message NGAP_PPID m True True] =
       (if \<not> uf_room f then None
        else if uf_ppid f then Some ([], Up_waiting)
        else Some ([UINT32_TO_ARRAY sock' @ m], Up_waiting))"
    using uplink_thread_forwards [of "[Up_message NGAP_PPID m True True]" buffer f sock True] assms(1,3,4,6)
    by (cases "uf_room f") (simp_all add: NGAP_PPID_def uplink_thread_def)
  obtain out where o: "outs = map (map_option (\<lambda>b. UINT32_TO_ARRAY sock' @ [w_sctpStreamID w] @ b)) out"
    using process_message_outs [OF _ assms(7)] by auto
  obtain sent where d: "ds = map (\<lambda>b. UINT32_TO_ARRAY sock' @ [w_sctpStreamID w] @ b) sent"
    using send_all_map [OF assms(8) [unfolded o]] by auto
  let ?as = "map (\<lambda>b. (sock', w_sctpStreamID w, b)) sent"
  have "list_all (\<lambda>(sock, sid, m). 5 + length m \<le> 1024) ?as" using assms(9) d by (auto simp: list_all_iff)
  from downlink_loop_routes [OF assms(2) this, where ok = ok and ppid = NGAP_PPID and sent = "[]"] assms(5)
  have "downlink_thread buffer' True (map Some ds) ok = Some (map (answer_call NGAP_PPID) ?as, True)"
    by (simp add: downlink_thread_def d answer_datagram_def comp_def)
  then show "\<exists>calls. downlink_thread buffer' True (map Some ds) ok = Some (calls, True) \<and>
      map (\<lambda>call. (ss_data call, ss_len call)) calls = map (\<lambda>d. (drop 5 d, of_nat (length d - 5))) ds \<and>
      (\<forall>call \<in> set calls. ss_sock call = sock' \<and> ss_ppid call = NGAP_PPID \<and> ss_sid call = ucast (w_sctpStreamID w))"
    by (auto simp: d answer_call_def)
qed

theorem answers_return_to_sender_witness:
  "\<exists>w c' calls. exec (process_message wk_lib (UINT32_TO_ARRAY 5 @ [1])) wk_conn =
       (Done ([Some (UINT32_TO_ARRAY 5 @ [1] @ [9, 9])], w), c') \<and>
     downlink_thread (replicate 1024 0) True [Some (UINT32_TO_ARRAY 5 @ [1] @ [9, 9])] (\<lambda>_. True) = Some (calls, True) \<and>
     map (\<lambda>call. (ss_sock call, ss_data call, ss_len call)) calls = [(5, [9, 9], 2)]"
proof -
  let ?f = "\<lparr>uf_room = True, uf_ppid = False, uf_sock_enb = False\<rparr>"
  from wk_registered [of "UINT32_TO_ARRAY 5"] obtain w c' where
    w: "exec (process_message wk_lib (UINT32_TO_ARRAY 5 @ [1])) wk_conn = (Done ([Some (UINT32_TO_ARRAY 5 @ [1] @ [9, 9])], w), c')"
    by auto
  from exec_answered [OF w] obtain bs where
    "answered (process_message wk_lib (UINT32_TO_ARRAY 5 @ [1])) bs = Some ([Some (UINT32_TO_ARRAY 5 @ [1] @ [9, 9])], w)" by blast
  from answers_return_to_sender [OF _ _ _ _ _ _ this, of "replicate 1024 0" "replicate 1024 0" "\<lambda>_. True" ?f 5 None
      "[UINT32_TO_ARRAY 5 @ [1] @ [9, 9]]"] w
  show ?thesis by (auto simp: map_eq_Cons_conv)
qed

end
